(* ===== verification/SF_Prelude.thy ===== *)
theory SF_Prelude
  imports Main "HOL-Library.Word" "HOL-Library.List_Lexorder" "HOL-Library.Char_ord"
begin

text \<open>
  Shared vocabulary of the development: Go strings as byte strings with the few functions of the
  Go library that the modelled code calls, Go's \<open>uint64\<close> as a 64-bit word, SQL tables as lists of
  rows with the statements that the Store issues, and the interface every keyed table offers to
  the components that read and write it.
\<close>

section \<open>Collections of facts\<close>

named_theorems sql_simps \<open>rewriting of SQL statements over tables\<close>
named_theorems const_defs \<open>definitions of string and number constants\<close>

section \<open>Machine integers\<close>

text \<open>Go's \<open>uint64\<close>. Addition wraps around at \<open>2 ^ 64\<close>, in Go as in the word type.\<close>

type_synonym u64 = "64 word"

section \<open>Byte strings\<close>

text \<open>
  A Go string is a sequence of bytes and a HOL \<open>char\<close> is a byte, so a Go string is a HOL
  \<open>string\<close> and \<open>len\<close> is \<open>length\<close>. \<open>range\<close> over a Go string yields runes; a test that
  admits only ASCII characters gives the same verdict on the bytes, because every byte of a
  multi-byte or broken sequence is at least \<open>0x80\<close> and such a rune is at least \<open>0x80\<close> too.
\<close>

definition has_prefix :: "string \<Rightarrow> string \<Rightarrow> bool" where
  "has_prefix p s \<longleftrightarrow> take (length p) s = p"

definition has_suffix :: "string \<Rightarrow> string \<Rightarrow> bool" where
  "has_suffix p s \<longleftrightarrow> length p \<le> length s \<and> drop (length s - length p) s = p"

text \<open>\<open>strings.Contains\<close> and \<open>strings.Split\<close> at a single byte.\<close>

fun str_contains :: "string \<Rightarrow> string \<Rightarrow> bool" where
  "str_contains p [] = (p = [])"
| "str_contains p (c # s) = (has_prefix p (c # s) \<or> str_contains p s)"

fun split_at :: "char \<Rightarrow> string \<Rightarrow> string list" where
  "split_at x [] = [[]]"
| "split_at x (c # s) =
     (if c = x then [] # split_at x s
      else case split_at x s of [] \<Rightarrow> [[c]] | p # ps \<Rightarrow> (c # p) # ps)"

definition byte_between :: "char \<Rightarrow> char \<Rightarrow> char \<Rightarrow> bool" where
  "byte_between lo hi c \<longleftrightarrow> lo \<le> c \<and> c \<le> hi"

text \<open>The UTF-8 encodings of the runes that \<open>unicode.IsSpace\<close> accepts.\<close>

definition space_encodings :: "string list" where
  "space_encodings =
     [[CHR 0x09], [CHR 0x0A], [CHR 0x0B], [CHR 0x0C], [CHR 0x0D], [CHR 0x20],
      [CHR 0xC2, CHR 0x85], [CHR 0xC2, CHR 0xA0], [CHR 0xE1, CHR 0x9A, CHR 0x80],
      [CHR 0xE2, CHR 0x80, CHR 0x80], [CHR 0xE2, CHR 0x80, CHR 0x81],
      [CHR 0xE2, CHR 0x80, CHR 0x82], [CHR 0xE2, CHR 0x80, CHR 0x83],
      [CHR 0xE2, CHR 0x80, CHR 0x84], [CHR 0xE2, CHR 0x80, CHR 0x85],
      [CHR 0xE2, CHR 0x80, CHR 0x86], [CHR 0xE2, CHR 0x80, CHR 0x87],
      [CHR 0xE2, CHR 0x80, CHR 0x88], [CHR 0xE2, CHR 0x80, CHR 0x89],
      [CHR 0xE2, CHR 0x80, CHR 0x8A], [CHR 0xE2, CHR 0x80, CHR 0xA8],
      [CHR 0xE2, CHR 0x80, CHR 0xA9], [CHR 0xE2, CHR 0x80, CHR 0xAF],
      [CHR 0xE2, CHR 0x81, CHR 0x9F], [CHR 0xE3, CHR 0x80, CHR 0x80]]"

text \<open>Removes the first of the given byte sequences that begins the string, if any does.\<close>

fun strip_first :: "string list \<Rightarrow> string \<Rightarrow> string option" where
  "strip_first [] s = None"
| "strip_first (p # ps) s =
     (if p \<noteq> [] \<and> has_prefix p s then Some (drop (length p) s) else strip_first ps s)"

lemma strip_first_shorter: "strip_first ps s = Some r \<Longrightarrow> length r < length s"
proof (induction ps)
  case (Cons p ps)
  show ?case
  proof (cases "p \<noteq> [] \<and> has_prefix p s")
    case True
    then have "length p \<le> length s"
      unfolding has_prefix_def by (metis length_take min.cobounded1)
    with True Cons.prems show ?thesis by (cases p) auto
  qed (use Cons in auto)
qed simp

function strip_all :: "string list \<Rightarrow> string \<Rightarrow> string" where
  "strip_all ps s = (case strip_first ps s of None \<Rightarrow> s | Some r \<Rightarrow> strip_all ps r)"
  by pat_completeness auto
termination
  by (relation "measure (\<lambda>(ps, s). length s)") (auto dest: strip_first_shorter)

declare strip_all.simps [simp del]

text \<open>\<open>strings.TrimSpace\<close>: white space is removed at the left end and then at the right end.\<close>

definition TrimSpace :: "string \<Rightarrow> string" where
  "TrimSpace s = rev (strip_all (map rev space_encodings) (rev (strip_all space_encodings s)))"

text \<open>\<open>strconv.Itoa\<close> on a non-negative number.\<close>

fun digit_char :: "nat \<Rightarrow> char" where
  "digit_char n = ''0123456789'' ! n"

fun itoa :: "nat \<Rightarrow> string" where
  "itoa n = (if n < 10 then [digit_char n] else itoa (n div 10) @ [digit_char (n mod 10)])"

declare itoa.simps [simp del]

lemma strip_all_none [simp]: "strip_first ps s = None \<Longrightarrow> strip_all ps s = s"
  by (subst strip_all.simps) simp

lemma strip_all_fix: "strip_all ps s = s \<longleftrightarrow> strip_first ps s = None"
proof (cases "strip_first ps s")
  case (Some r)
  have "length (strip_all ps t) \<le> length t" for t
  proof (induction ps t rule: strip_all.induct)
    case (1 ps t)
    show ?case
    proof (cases "strip_first ps t")
      case (Some u)
      with "1" have "length (strip_all ps u) \<le> length u" by simp
      with Some strip_first_shorter [OF Some] show ?thesis
        by (subst strip_all.simps) simp
    qed simp
  qed
  with Some strip_first_shorter [OF Some] have "length (strip_all ps s) < length s"
    by (subst strip_all.simps) (auto intro: le_less_trans)
  with Some show ?thesis by auto
qed simp

text \<open>A decimal numeral consists of digits only, so it contains no separator.\<close>

lemma itoa_digits: "set (itoa n) \<subseteq> set ''0123456789''"
proof (induction n rule: itoa.induct)
  case (1 n)
  have digit: "digit_char m \<in> set ''0123456789''" if "m < 10" for m
    using that by (simp only: digit_char.simps) (rule nth_mem, simp)
  show ?case
  proof (cases "n < 10")
    case True
    with digit [of n] show ?thesis by (subst itoa.simps) (simp del: digit_char.simps)
  next
    case False
    with "1.IH" digit [of "n mod 10"] show ?thesis
      by (subst itoa.simps) (simp del: digit_char.simps)
  qed
qed

text \<open>\<open>strconv.Atoi\<close> on digit strings, to state that decimal numerals are read back.\<close>

definition digit_value :: "char \<Rightarrow> nat" where
  "digit_value c = of_char c - 48"

definition atoi :: "string \<Rightarrow> nat" where
  "atoi s = foldl (\<lambda>n c. 10 * n + digit_value c) 0 s"

lemma digit_value_char: "m < 10 \<Longrightarrow> digit_value (digit_char m) = m"
  by (simp add: digit_value_def eval_nat_numeral less_Suc_eq) auto

lemma atoi_itoa: "atoi (itoa n) = n"
proof (induction n rule: itoa.induct)
  case (1 n)
  show ?case
  proof (cases "n < 10")
    case True
    then show ?thesis
      by (subst itoa.simps) (simp add: atoi_def digit_value_char del: digit_char.simps)
  next
    case False
    with "1.IH" have "atoi (itoa (n div 10)) = n div 10" by blast
    with False show ?thesis
      by (subst itoa.simps) (simp add: atoi_def digit_value_char del: digit_char.simps)
  qed
qed

lemma itoa_inject: "itoa m = itoa n \<longleftrightarrow> m = n"
  by (metis atoi_itoa)

lemma separator_unique:
  assumes "a @ x # s = b @ x # t" and "x \<notin> set a" and "x \<notin> set b"
  shows "a = b \<and> s = t"
  using assms
proof (induction a arbitrary: b)
  case Nil
  then show ?case by (cases b) auto
next
  case (Cons y a)
  then show ?case by (cases b) auto
qed

section \<open>Sequences of checks\<close>

text \<open>
  A Go function that returns early at the first failing check: \<open>refuse\<close> is a condition with its error,
  \<open>guarded\<close> continues when a check found nothing, and \<open>and_then\<close> continues with the result of a call
  that may fail.
\<close>

definition refuse :: "bool \<Rightarrow> 'e \<Rightarrow> 'e option" where
  "refuse b e = (if b then Some e else None)"

definition guarded :: "'e option \<Rightarrow> 'e + 'a \<Rightarrow> 'e + 'a" where
  "guarded check rest = (case check of Some e \<Rightarrow> Inl e | None \<Rightarrow> rest)"

definition and_then :: "'e + 'a \<Rightarrow> ('a \<Rightarrow> 'e + 'b) \<Rightarrow> 'e + 'b" where
  "and_then call rest = (case call of Inl e \<Rightarrow> Inl e | Inr x \<Rightarrow> rest x)"

lemma refuse_None [simp]: "refuse b e = None \<longleftrightarrow> \<not> b"
  by (simp add: refuse_def)

lemma guarded_Inr [simp]: "guarded check rest = Inr x \<longleftrightarrow> check = None \<and> rest = Inr x"
  by (simp add: guarded_def split: option.splits)

lemma and_then_Inr [simp]: "and_then call rest = Inr x \<longleftrightarrow> (\<exists>y. call = Inr y \<and> rest y = Inr x)"
  by (simp add: and_then_def split: sum.splits)

section \<open>SQL tables\<close>

text \<open>
  A table is the list of its rows. \<open>SELECT\<close> of one row, \<open>SELECT COUNT\<close>, \<open>UPDATE\<close>, \<open>DELETE\<close> and
  \<open>INSERT\<close> are the functions below; \<open>RowsAffected\<close> of an \<open>UPDATE\<close> or \<open>DELETE\<close> is
  \<open>count_where\<close> of its condition on the table before the statement.
\<close>

definition row_at :: "('r \<Rightarrow> 'k) \<Rightarrow> 'r list \<Rightarrow> 'k \<Rightarrow> 'r option" where
  "row_at key t k = List.find (\<lambda>r. key r = k) t"

definition count_where :: "('r \<Rightarrow> bool) \<Rightarrow> 'r list \<Rightarrow> nat" where
  "count_where p t = length (filter p t)"

definition update_where :: "('r \<Rightarrow> bool) \<Rightarrow> ('r \<Rightarrow> 'r) \<Rightarrow> 'r list \<Rightarrow> 'r list" where
  "update_where p f t = map (\<lambda>r. if p r then f r else r) t"

definition delete_where :: "('r \<Rightarrow> bool) \<Rightarrow> 'r list \<Rightarrow> 'r list" where
  "delete_where p t = filter (\<lambda>r. \<not> p r) t"

definition insert_row :: "'r \<Rightarrow> 'r list \<Rightarrow> 'r list" where
  "insert_row r t = t @ [r]"

definition unique_key :: "('r \<Rightarrow> 'k) \<Rightarrow> 'r list \<Rightarrow> bool" where
  "unique_key key t \<longleftrightarrow> distinct (map key t)"

text \<open>
  What a table with a primary key promises to the code that uses it: a row inserted under a free
  key is found there and nowhere else; an \<open>UPDATE\<close> that leaves the key alone changes exactly the
  rows its condition selects; a \<open>DELETE\<close> removes exactly those; and a statement whose condition
  pins the key affects at most the row of that key.
\<close>

locale keyed_table =
  fixes key :: "'r \<Rightarrow> 'k"
    and get :: "'t \<Rightarrow> 'k \<Rightarrow> 'r option"
    and ins :: "'r \<Rightarrow> 't \<Rightarrow> 't"
    and upd :: "('r \<Rightarrow> bool) \<Rightarrow> ('r \<Rightarrow> 'r) \<Rightarrow> 't \<Rightarrow> 't"
    and del :: "('r \<Rightarrow> bool) \<Rightarrow> 't \<Rightarrow> 't"
    and affected :: "('r \<Rightarrow> bool) \<Rightarrow> 't \<Rightarrow> nat"
    and wf :: "'t \<Rightarrow> bool"
  assumes get_key: "get t k = Some r \<Longrightarrow> key r = k"
    and get_ins: "get t (key r) = None \<Longrightarrow>
      get (ins r t) k = (if k = key r then Some r else get t k)"
    and wf_ins: "wf t \<Longrightarrow> get t (key r) = None \<Longrightarrow> wf (ins r t)"
    and get_upd: "(\<And>r. key (f r) = key r) \<Longrightarrow>
      wf t \<Longrightarrow> get (upd p f t) k = map_option (\<lambda>r. if p r then f r else r) (get t k)"
    and wf_upd: "(\<And>r. key (f r) = key r) \<Longrightarrow> wf t \<Longrightarrow> wf (upd p f t)"
    and get_del: "wf t \<Longrightarrow> get (del p t) k = (case get t k of None \<Rightarrow> None
      | Some r \<Rightarrow> if p r then None else Some r)"
    and wf_del: "wf t \<Longrightarrow> wf (del p t)"
    and affected_key: "wf t \<Longrightarrow> (\<And>r. p r \<Longrightarrow> key r = k) \<Longrightarrow>
      affected p t = (case get t k of None \<Rightarrow> 0 | Some r \<Rightarrow> if p r then 1 else 0)"
begin

lemma upd_other:
  assumes "wf t" and "\<And>r. key (f r) = key r" and "\<And>r. p r \<Longrightarrow> key r = k" and "k' \<noteq> k"
  shows "get (upd p f t) k' = get t k'"
proof (cases "get t k'")
  case (Some r)
  then have "key r = k'" by (rule get_key)
  with assms(3,4) have "\<not> p r" by blast
  with assms(1,2) Some show ?thesis by (simp add: get_upd)
qed (use assms(1,2) in \<open>simp add: get_upd\<close>)

lemma affected_one:
  assumes "wf t" and "\<And>r. p r \<Longrightarrow> key r = k" and "affected p t = 1"
  obtains r where "get t k = Some r" and "p r"
  using assms affected_key [OF assms(1,2)] by (auto split: option.splits if_splits)

lemma affected_hit:
  assumes "wf t" and "\<And>r. p r \<Longrightarrow> key r = k" and "get t k = Some r" and "p r"
  shows "affected p t = 1"
  using assms affected_key [OF assms(1,2)] by simp

text \<open>The compare-and-set idiom: an \<open>UPDATE\<close> that pins the key and affected one row.\<close>

lemma pinned_update:
  assumes "wf t" and "\<And>r. p r \<Longrightarrow> key r = k" and "\<And>r. key (f r) = key r" and "affected p t = 1"
  obtains r where "get t k = Some r" and "p r"
    and "\<And>k'. get (upd p f t) k' = (if k' = k then Some (f r) else get t k')"
    and "wf (upd p f t)"
proof -
  from assms(1,2,4) obtain r where r: "get t k = Some r" "p r"
    by (rule affected_one)
  have "get (upd p f t) k' = (if k' = k then Some (f r) else get t k')" for k'
    using upd_other [OF assms(1,3,2)] r assms(1,3) by (auto simp: get_upd)
  with r wf_upd [OF assms(3,1)] that show ?thesis by blast
qed

lemma affected_miss:
  assumes "wf t" and "\<And>r. p r \<Longrightarrow> key r = k" and "get t k = Some r" and "affected p t \<noteq> 1"
  shows "\<not> p r"
  using assms affected_key [OF assms(1,2)] by (auto split: if_splits)

end

lemma find_map_keep:
  assumes "\<And>r. key (f r) = key r"
  shows "List.find (\<lambda>r. key r = k) (map f t) = map_option f (List.find (\<lambda>r. key r = k) t)"
  using assms by (induction t) auto

lemma find_filter_unique:
  "distinct (map key t) \<Longrightarrow> List.find (\<lambda>r. key r = k) (filter q t) =
     (case List.find (\<lambda>r. key r = k) t of None \<Rightarrow> None | Some r \<Rightarrow> if q r then Some r else None)"
proof (induction t)
  case (Cons a t)
  have "List.find (\<lambda>r. key r = key a) (filter q t) = None" if "distinct (map key (a # t))"
    using that by (auto simp: find_None_iff image_iff)
  with Cons show ?case by auto
qed simp

lemma filter_unique_length:
  assumes "distinct (map key t)" and "\<And>r. p r \<Longrightarrow> key r = k"
  shows "length (filter p t) =
    (case List.find (\<lambda>r. key r = k) t of None \<Rightarrow> 0 | Some r \<Rightarrow> if p r then 1 else 0)"
  using assms(1)
proof (induction t)
  case (Cons a t)
  show ?case
  proof (cases "key a = k")
    case True
    with Cons.prems have "\<forall>r \<in> set t. \<not> p r"
      using assms(2) by (metis distinct.simps(2) image_eqI list.simps(9) list.set_map)
    then have "filter p t = []" by simp
    with True show ?thesis by simp
  next
    case False
    with assms(2) have "\<not> p a" by blast
    with False Cons show ?thesis by simp
  qed
qed simp

lemma list_keyed_table:
  "keyed_table key (row_at key) insert_row update_where delete_where count_where (unique_key key)"
proof (unfold_locales, goal_cases)
  case (1 t k r)
  then show ?case by (simp add: row_at_def find_Some_iff) blast
next
  case (2 t r k)
  have "List.find (\<lambda>r. key r = k) (t @ [r]) =
      (case List.find (\<lambda>r. key r = k) t of Some x \<Rightarrow> Some x | None \<Rightarrow> if key r = k then Some r else None)"
    by (induction t) auto
  with 2 show ?case by (auto simp: row_at_def insert_row_def split: option.splits)
next
  case (3 t r)
  then show ?case by (auto simp: row_at_def insert_row_def unique_key_def find_None_iff)
next
  case (4 f t p k)
  have "key (if p r then f r else r) = key r" for r using 4(1) by simp
  then show ?case unfolding row_at_def update_where_def by (rule find_map_keep)
next
  case (5 f t p)
  then show ?case
    by (simp add: unique_key_def update_where_def o_def if_distrib cong: if_cong)
next
  case (6 t p k)
  then show ?case
    unfolding row_at_def delete_where_def unique_key_def
    by (subst find_filter_unique) (auto split: option.splits)
next
  case (7 t p)
  then show ?case by (simp add: unique_key_def delete_where_def distinct_map_filter)
next
  case (8 t p k)
  then show ?case
    unfolding count_where_def row_at_def unique_key_def by (rule filter_unique_length)
qed

lemma row_at_member:
  "unique_key key t \<Longrightarrow> r \<in> set t \<longleftrightarrow> row_at key t (key r) = Some r"
  unfolding row_at_def unique_key_def by (induction t) force+

end
