(* ===== verification/Domain.thy ===== *)
theory Domain
  imports SF_Prelude
begin

text \<open>
  The identities and states of \<^verbatim>\<open>internal/domain/types.go\<close>, shared by every other component. A Go
  string type with named constants is a byte string here, so that every value the Go type can
  hold is a value of the model and the \<open>Valid\<close> methods keep their meaning.
\<close>

section \<open>Channels, ticket types, merge modes, states and phases\<close>

definition ChannelStable :: string where "ChannelStable = ''stable''"
definition ChannelDev :: string where "ChannelDev = ''dev''"

definition Channel_Valid :: "string \<Rightarrow> bool" where
  "Channel_Valid c \<longleftrightarrow> c = ChannelStable \<or> c = ChannelDev"

definition TicketSpike :: string where "TicketSpike = ''spike''"

definition ticket_types :: "string list" where
  "ticket_types = [''bug'', ''feature'', ''refactor'', ''infrastructure'', ''documentation'', ''spike'']"

definition TicketType_Valid :: "string \<Rightarrow> bool" where
  "TicketType_Valid t \<longleftrightarrow> t \<in> set ticket_types"

definition MergeManual :: string where "MergeManual = ''manual''"
definition MergeGuarded :: string where "MergeGuarded = ''guarded''"
definition MergeAutonomous :: string where "MergeAutonomous = ''autonomous''"

definition MergeMode_Valid :: "string \<Rightarrow> bool" where
  "MergeMode_Valid m \<longleftrightarrow> m = MergeManual \<or> m = MergeGuarded \<or> m = MergeAutonomous"

definition StateQueued :: string where "StateQueued = ''queued''"
definition StatePlanning :: string where "StatePlanning = ''planning''"
definition StateVerifying :: string where "StateVerifying = ''verifying''"
definition StateBuilding :: string where "StateBuilding = ''building''"
definition StatePublishing :: string where "StatePublishing = ''publishing''"
definition StateWaitingCI :: string where "StateWaitingCI = ''waiting_ci''"
definition StateReviewing :: string where "StateReviewing = ''reviewing''"
definition StateWaitingApproval :: string where "StateWaitingApproval = ''waiting_approval''"
definition StateWaitingManualMerge :: string where "StateWaitingManualMerge = ''waiting_manual_merge''"
definition StateMerging :: string where "StateMerging = ''merging''"
definition StateReconciling :: string where "StateReconciling = ''reconciling''"
definition StateStopping :: string where "StateStopping = ''stopping''"
definition StateCancelling :: string where "StateCancelling = ''cancelling''"
definition StatePaused :: string where "StatePaused = ''paused''"
definition StateBlocked :: string where "StateBlocked = ''blocked''"
definition StateDone :: string where "StateDone = ''done''"
definition StateExternalMerged :: string where "StateExternalMerged = ''external_merged''"
definition StateCancelled :: string where "StateCancelled = ''cancelled''"

lemmas state_defs [const_defs] =
  StateQueued_def StatePlanning_def StateVerifying_def StateBuilding_def StatePublishing_def
  StateWaitingCI_def StateReviewing_def StateWaitingApproval_def StateWaitingManualMerge_def
  StateMerging_def StateReconciling_def StateStopping_def StateCancelling_def StatePaused_def
  StateBlocked_def StateDone_def StateExternalMerged_def StateCancelled_def

lemmas mode_defs [const_defs] =
  ChannelStable_def ChannelDev_def TicketSpike_def MergeManual_def MergeGuarded_def
  MergeAutonomous_def

definition State_Terminal :: "string \<Rightarrow> bool" where
  "State_Terminal s \<longleftrightarrow> s = StateDone \<or> s = StateExternalMerged \<or> s = StateCancelled"

definition AllStates :: "string list" where
  "AllStates =
     [StateQueued, StatePlanning, StateVerifying, StateBuilding, StatePublishing, StateWaitingCI,
      StateReviewing, StateWaitingApproval, StateWaitingManualMerge, StateMerging,
      StateReconciling, StateStopping, StateCancelling, StatePaused, StateBlocked, StateDone,
      StateExternalMerged, StateCancelled]"

definition State_Valid :: "string \<Rightarrow> bool" where
  "State_Valid s \<longleftrightarrow> list_ex (\<lambda>candidate. s = candidate) AllStates"

definition PhasePlanning :: string where "PhasePlanning = ''planning''"
definition PhaseVerification :: string where "PhaseVerification = ''verification''"
definition PhaseBuild :: string where "PhaseBuild = ''build''"
definition PhasePublish :: string where "PhasePublish = ''publish''"
definition PhaseReview :: string where "PhaseReview = ''review''"
definition PhaseMerge :: string where "PhaseMerge = ''merge''"
definition PhaseReconcile :: string where "PhaseReconcile = ''reconcile''"

lemmas phase_defs [const_defs] =
  PhasePlanning_def PhaseVerification_def PhaseBuild_def PhasePublish_def PhaseReview_def
  PhaseMerge_def PhaseReconcile_def

section \<open>Ticket references and fences\<close>

record TicketRef =
  Channel :: string
  Project :: string
  Ticket :: string

datatype ref_error = InvalidChannel string | ProjectRequired | TicketRequired

definition TicketRef_Validate :: "TicketRef \<Rightarrow> ref_error option" where
  "TicketRef_Validate r =
     (if \<not> Channel_Valid (Channel r) then Some (InvalidChannel (Channel r))
      else if Project r = '''' then Some ProjectRequired
      else if Ticket r = '''' then Some TicketRequired
      else None)"

record Fence =
  LeaderEpoch :: u64
  RunnerEpoch :: u64
  ClaimEpoch :: u64

record ProviderIdentity =
  pv_Provider :: string
  pv_Model :: string
  pv_Family :: string
  pv_Version :: string

record CandidateSnapshot =
  cs_Generation :: u64
  cs_BaseSHA :: string
  cs_HeadSHA :: string
  cs_TreeSHA :: string
  cs_SourceDigest :: string
  cs_VerificationIntentDigest :: string
  cs_ProofDigest :: string
  cs_CommandPolicyDigest :: string
  cs_BuilderEvidenceDigest :: string

record ExternalEffectClaim =
  xc_SemanticKey :: string
  xc_Ref :: TicketRef
  xc_Kind :: string
  xc_RequestDigest :: string
  xc_TicketVersion :: u64
  xc_LeaderEpoch :: u64
  xc_RunnerEpoch :: u64
  xc_ClaimEpoch :: u64

section \<open>Protection witness of a merge intent\<close>

record MergeIntent =
  mi_Ref :: TicketRef
  mi_SemanticKey :: string
  mi_RequestDigest :: string
  mi_TicketVersion :: u64
  mi_LeaderEpoch :: u64
  mi_RunnerEpoch :: u64
  mi_ClaimEpoch :: u64
  mi_RepositoryHost :: string
  mi_RepositoryOwner :: string
  mi_RepositoryName :: string
  mi_PullRequestNumber :: int
  mi_HeadOwner :: string
  mi_HeadRepository :: string
  mi_HeadRef :: string
  mi_HeadOID :: string
  mi_BaseRef :: string
  mi_OriginalBaseOID :: string
  mi_ProtectionRuleID :: string
  mi_ProtectionKind :: string
  mi_ProtectionChecksDigest :: string
  mi_StrictStatusChecks :: bool
  mi_AdminEnforced :: bool
  mi_ActiveRulesetCount :: "32 word"
  mi_Method :: string

definition validProtectionChecksDigest :: "string \<Rightarrow> bool" where
  "validProtectionChecksDigest value \<longleftrightarrow>
     length value = 64 \<and>
     list_all (\<lambda>c. byte_between (CHR ''0'') (CHR ''9'') c \<or> byte_between (CHR ''a'') (CHR ''f'') c) value"

datatype witness_error = InvalidClassicWitness | InvalidRulesetWitness

definition ValidateProtectionWitness :: "MergeIntent \<Rightarrow> witness_error option" where
  "ValidateProtectionWitness intent =
     (if mi_ActiveRulesetCount intent = 0 then
        if mi_ProtectionKind intent = '''' \<and> mi_ProtectionChecksDigest intent = '''' then None
        else if mi_ProtectionKind intent = ''classic'' \<and>
          (mi_ProtectionChecksDigest intent = '''' \<or>
           validProtectionChecksDigest (mi_ProtectionChecksDigest intent)) then None
        else Some InvalidClassicWitness
      else if mi_ActiveRulesetCount intent \<noteq> 1 \<or> mi_ProtectionKind intent \<noteq> ''ruleset'' \<or>
          \<not> validProtectionChecksDigest (mi_ProtectionChecksDigest intent)
        then Some InvalidRulesetWitness
      else None)"

section \<open>Facts\<close>

lemma State_Valid_iff: "State_Valid s \<longleftrightarrow> s \<in> set AllStates"
  by (auto simp: State_Valid_def list_ex_iff)

lemma Terminal_Valid: "State_Terminal s \<Longrightarrow> State_Valid s"
  by (auto simp: State_Terminal_def State_Valid_iff AllStates_def)

lemma AllStates_distinct: "distinct AllStates"
  by (simp add: AllStates_def state_defs)

lemma empty_not_Valid [simp]: "\<not> State_Valid ''''"
  by (simp add: State_Valid_iff AllStates_def state_defs)

lemma TicketRef_Validate_None:
  "TicketRef_Validate r = None \<longleftrightarrow> Channel_Valid (Channel r) \<and> Project r \<noteq> '''' \<and> Ticket r \<noteq> ''''"
  by (simp add: TicketRef_Validate_def)

end
