(* ===== verification/Go_JSON.thy ===== *)
theory Go_JSON
  imports SF_Prelude
begin

text \<open>
  The part of \<^verbatim>\<open>encoding/json\<close> that the modelled code relies on: \<open>Marshal\<close> of structs whose fields are
  strings, unsigned integers and booleans. Strings are escaped the way Go escapes them, HTML
  characters included; a byte that is not part of a well-formed UTF-8 sequence becomes the escape
  of the replacement character.
\<close>

section \<open>UTF-8 sequences\<close>

definition cont_byte :: "char \<Rightarrow> bool" where
  "cont_byte c \<longleftrightarrow> byte_between (CHR 0x80) (CHR 0xBF) c"

text \<open>
  The table of \<^verbatim>\<open>unicode/utf8\<close>: the length of the sequence that a lead byte starts, with the range of its
  second byte; length 0 for a byte that starts none.
\<close>

definition lead_byte :: "char \<Rightarrow> nat \<times> char \<times> char" where
  "lead_byte a =
     (if a < CHR 0x80 then (1, CHR 0x80, CHR 0xBF)
      else if byte_between (CHR 0xC2) (CHR 0xDF) a then (2, CHR 0x80, CHR 0xBF)
      else if a = CHR 0xE0 then (3, CHR 0xA0, CHR 0xBF)
      else if a = CHR 0xED then (3, CHR 0x80, CHR 0x9F)
      else if byte_between (CHR 0xE1) (CHR 0xEF) a then (3, CHR 0x80, CHR 0xBF)
      else if a = CHR 0xF0 then (4, CHR 0x90, CHR 0xBF)
      else if byte_between (CHR 0xF1) (CHR 0xF3) a then (4, CHR 0x80, CHR 0xBF)
      else if a = CHR 0xF4 then (4, CHR 0x80, CHR 0x8F)
      else (0, CHR 0x80, CHR 0xBF))"

text \<open>The length of the well-formed sequence at the front of a string, 0 if there is none.\<close>

fun rune_len :: "string \<Rightarrow> nat" where
  "rune_len [] = 0"
| "rune_len (a # s) =
     (case lead_byte a of
        (n, lo, hi) \<Rightarrow>
          if n \<le> 1 then n
          else if n - 1 \<le> length s \<and> byte_between lo hi (hd s) \<and> list_all cont_byte (take (n - 2) (tl s)) then n
          else 0)"

section \<open>String escapes\<close>

definition hex_digit :: "nat \<Rightarrow> char" where
  "hex_digit n = ''0123456789abcdef'' ! (n mod 16)"

definition unicode_escape :: "char \<Rightarrow> string" where
  "unicode_escape c =
     [CHR 0x5C, CHR ''u'', CHR ''0'', CHR ''0'', hex_digit (of_char c div 16), hex_digit (of_char c)]"

definition escape_ascii :: "char \<Rightarrow> string" where
  "escape_ascii c =
     (if c = CHR 0x22 \<or> c = CHR 0x5C then [CHR 0x5C, c]
      else if c = CHR 0x08 then [CHR 0x5C, CHR ''b'']
      else if c = CHR 0x0C then [CHR 0x5C, CHR ''f'']
      else if c = CHR 0x0A then [CHR 0x5C, CHR ''n'']
      else if c = CHR 0x0D then [CHR 0x5C, CHR ''r'']
      else if c = CHR 0x09 then [CHR 0x5C, CHR ''t'']
      else if c < CHR 0x20 \<or> c = CHR ''<'' \<or> c = CHR ''>'' \<or> c = CHR ''&'' then unicode_escape c
      else [c])"

definition escape_rune :: "string \<Rightarrow> string" where
  "escape_rune r =
     (if r = [CHR 0xE2, CHR 0x80, CHR 0xA8] then CHR 0x5C # ''u2028''
      else if r = [CHR 0xE2, CHR 0x80, CHR 0xA9] then CHR 0x5C # ''u2029''
      else r)"

function escape_body :: "string \<Rightarrow> string" where
  "escape_body [] = []"
| "escape_body (c # s) =
     (if c < CHR 0x80 then escape_ascii c @ escape_body s
      else let n = rune_len (c # s) in
        if n = 0 then (CHR 0x5C # ''ufffd'') @ escape_body s
        else escape_rune (take n (c # s)) @ escape_body (drop n (c # s)))"
  by pat_completeness auto
termination
  by (relation "measure length") auto

definition json_string :: "string \<Rightarrow> string" where
  "json_string s = CHR 0x22 # escape_body s @ [CHR 0x22]"

section \<open>Values and objects\<close>

definition json_uint :: "u64 \<Rightarrow> string" where
  "json_uint w = itoa (unat w)"

definition json_bool :: "bool \<Rightarrow> string" where
  "json_bool b = (if b then ''true'' else ''false'')"

fun json_fields :: "(string \<times> string) list \<Rightarrow> string" where
  "json_fields [] = []"
| "json_fields [(k, v)] = json_string k @ '':'' @ v"
| "json_fields ((k, v) # rest) = json_string k @ '':'' @ v @ '','' @ json_fields rest"

definition json_object :: "(string \<times> string) list \<Rightarrow> string" where
  "json_object fields = ''{'' @ json_fields fields @ ''}''"

section \<open>Validity\<close>

text \<open>
  \<open>json.Valid\<close>, as the byte scanner that the library runs: a scanner state and a stack of the
  enclosing objects and arrays, at most ten thousand deep.
\<close>

datatype parse_state = ObjectKey | ObjectValue | ArrayValue

datatype scan_state =
    BeginValue | BeginValueOrEmpty | BeginStringOrEmpty | BeginString | EndValue | EndTop
  | InString | InStringEsc | InStringEscU nat | Neg | Num1 | Num0 | Dot | Dot0 | Exp | ExpSign | Exp0
  | Literal string

type_synonym scanner = "scan_state \<times> parse_state list"

definition json_space :: "char \<Rightarrow> bool" where
  "json_space c \<longleftrightarrow> c = CHR 0x20 \<or> c = CHR 0x09 \<or> c = CHR 0x0D \<or> c = CHR 0x0A"

definition is_digit :: "char \<Rightarrow> bool" where
  "is_digit c \<longleftrightarrow> byte_between (CHR ''0'') (CHR ''9'') c"

definition push_state :: "parse_state \<Rightarrow> scan_state \<Rightarrow> parse_state list \<Rightarrow> scanner option" where
  "push_state p st ps = (if length (p # ps) \<le> 10000 then Some (st, p # ps) else None)"

definition pop_state :: "parse_state list \<Rightarrow> scanner option" where
  "pop_state ps = Some (if tl ps = [] then EndTop else EndValue, tl ps)"

definition step_end_value :: "parse_state list \<Rightarrow> char \<Rightarrow> scanner option" where
  "step_end_value ps c =
     (case ps of
        [] \<Rightarrow> if json_space c then Some (EndTop, []) else None
      | p # rest \<Rightarrow>
          if json_space c then Some (EndValue, ps)
          else case p of
            ObjectKey \<Rightarrow> if c = CHR '':'' then Some (BeginValue, ObjectValue # rest) else None
          | ObjectValue \<Rightarrow>
              if c = CHR '','' then Some (BeginString, ObjectKey # rest)
              else if c = CHR 0x7D then pop_state ps else None
          | ArrayValue \<Rightarrow>
              if c = CHR '','' then Some (BeginValue, ps)
              else if c = CHR '']'' then pop_state ps else None)"

definition step_begin_value :: "parse_state list \<Rightarrow> char \<Rightarrow> scanner option" where
  "step_begin_value ps c =
     (if json_space c then Some (BeginValue, ps)
      else if c = CHR 0x7B then push_state ObjectKey BeginStringOrEmpty ps
      else if c = CHR ''['' then push_state ArrayValue BeginValueOrEmpty ps
      else if c = CHR 0x22 then Some (InString, ps)
      else if c = CHR ''-'' then Some (Neg, ps)
      else if c = CHR ''0'' then Some (Num0, ps)
      else if c = CHR ''t'' then Some (Literal ''rue'', ps)
      else if c = CHR ''f'' then Some (Literal ''alse'', ps)
      else if c = CHR ''n'' then Some (Literal ''ull'', ps)
      else if is_digit c then Some (Num1, ps)
      else None)"

definition step_begin_string :: "parse_state list \<Rightarrow> char \<Rightarrow> scanner option" where
  "step_begin_string ps c =
     (if json_space c then Some (BeginString, ps)
      else if c = CHR 0x22 then Some (InString, ps) else None)"

definition step_num0 :: "parse_state list \<Rightarrow> char \<Rightarrow> scanner option" where
  "step_num0 ps c =
     (if c = CHR ''.'' then Some (Dot, ps)
      else if c = CHR ''e'' \<or> c = CHR ''E'' then Some (Exp, ps)
      else step_end_value ps c)"

definition step_exp_sign :: "parse_state list \<Rightarrow> char \<Rightarrow> scanner option" where
  "step_exp_sign ps c = (if is_digit c then Some (Exp0, ps) else None)"

fun scan_step :: "scanner \<Rightarrow> char \<Rightarrow> scanner option" where
  "scan_step (BeginValue, ps) c = step_begin_value ps c"
| "scan_step (BeginValueOrEmpty, ps) c =
     (if json_space c then Some (BeginValueOrEmpty, ps)
      else if c = CHR '']'' then step_end_value ps c else step_begin_value ps c)"
| "scan_step (BeginStringOrEmpty, ps) c =
     (if json_space c then Some (BeginStringOrEmpty, ps)
      else if c = CHR 0x7D then step_end_value (ObjectValue # tl ps) c else step_begin_string ps c)"
| "scan_step (BeginString, ps) c = step_begin_string ps c"
| "scan_step (EndValue, ps) c = step_end_value ps c"
| "scan_step (EndTop, ps) c = (if json_space c then Some (EndTop, ps) else None)"
| "scan_step (InString, ps) c =
     (if c = CHR 0x22 then Some (EndValue, ps)
      else if c = CHR 0x5C then Some (InStringEsc, ps)
      else if c < CHR 0x20 then None else Some (InString, ps))"
| "scan_step (InStringEsc, ps) c =
     (if c \<in> {CHR ''b'', CHR ''f'', CHR ''n'', CHR ''r'', CHR ''t'', CHR 0x5C, CHR ''/'', CHR 0x22}
        then Some (InString, ps)
      else if c = CHR ''u'' then Some (InStringEscU 0, ps) else None)"
| "scan_step (InStringEscU n, ps) c =
     (if is_digit c \<or> byte_between (CHR ''a'') (CHR ''f'') c \<or> byte_between (CHR ''A'') (CHR ''F'') c
        then Some (if n = 3 then InString else InStringEscU (Suc n), ps) else None)"
| "scan_step (Neg, ps) c =
     (if c = CHR ''0'' then Some (Num0, ps) else if is_digit c then Some (Num1, ps) else None)"
| "scan_step (Num1, ps) c = (if is_digit c then Some (Num1, ps) else step_num0 ps c)"
| "scan_step (Num0, ps) c = step_num0 ps c"
| "scan_step (Dot, ps) c = (if is_digit c then Some (Dot0, ps) else None)"
| "scan_step (Dot0, ps) c =
     (if is_digit c then Some (Dot0, ps)
      else if c = CHR ''e'' \<or> c = CHR ''E'' then Some (Exp, ps) else step_end_value ps c)"
| "scan_step (Exp, ps) c =
     (if c = CHR ''+'' \<or> c = CHR ''-'' then Some (ExpSign, ps) else step_exp_sign ps c)"
| "scan_step (ExpSign, ps) c = step_exp_sign ps c"
| "scan_step (Exp0, ps) c = (if is_digit c then Some (Exp0, ps) else step_end_value ps c)"
| "scan_step (Literal w, ps) c =
     (if w \<noteq> [] \<and> c = hd w then Some (if tl w = [] then EndValue else Literal (tl w), ps) else None)"

fun scan :: "scanner \<Rightarrow> string \<Rightarrow> scanner option" where
  "scan sc [] = Some sc"
| "scan sc (c # s) = (case scan_step sc c of None \<Rightarrow> None | Some sc' \<Rightarrow> scan sc' s)"

text \<open>At the end of the input the scanner is complete, or becomes complete on one more space.\<close>

definition json_valid :: "string \<Rightarrow> bool" where
  "json_valid s =
     (case scan (BeginValue, []) s of
        None \<Rightarrow> False
      | Some sc \<Rightarrow> fst sc = EndTop \<or>
          (case scan_step sc (CHR 0x20) of None \<Rightarrow> False | Some sc' \<Rightarrow> fst sc' = EndTop))"

lemma json_valid_empty_object: "json_valid ''{}''"
  by code_simp

end
