(* ===== verification/Go_Unmarshal.thy ===== *)
theory Go_Unmarshal
  imports Go_JSON
begin

text \<open>
  The decoding half of \<^verbatim>\<open>encoding/json\<close>: \<open>Unmarshal\<close> checks the text with the scanner of theory Go_JSON
  and then walks over it, storing what it meets into the fields of a Go value.

  Here the walk is split in two: \<open>json_parse\<close> reads a checked text into a tree, and \<open>decode_struct\<close> stores
  the members of an object into a record. A member belongs to a field when its decoded key is the field
  name, up to the simple case folding of Unicode; \<open>null\<close> leaves a field alone; a value of the wrong kind is
  an error. Errors of the second half do not stop Go's walk, but every caller in the modelled code
  discards the value when there was one, so \<open>None\<close> stands for all of them.
\<close>

section \<open>Strings\<close>

text \<open>The UTF-8 encoding of a code point.\<close>

definition utf8 :: "int \<Rightarrow> string" where
  "utf8 n =
     (if n < 0x80 then [char_of n]
      else if n < 0x800 then [char_of (0xC0 + n div 0x40), char_of (0x80 + n mod 0x40)]
      else if n < 0x10000
        then [char_of (0xE0 + n div 0x1000), char_of (0x80 + n div 0x40 mod 0x40), char_of (0x80 + n mod 0x40)]
      else [char_of (0xF0 + n div 0x40000), char_of (0x80 + n div 0x1000 mod 0x40),
            char_of (0x80 + n div 0x40 mod 0x40), char_of (0x80 + n mod 0x40)])"

definition replacement :: string where
  "replacement = [CHR 0xEF, CHR 0xBF, CHR 0xBD]"

definition hex_value :: "char \<Rightarrow> int option" where
  "hex_value c =
     (if byte_between (CHR ''0'') (CHR ''9'') c then Some (of_char c - 0x30)
      else if byte_between (CHR ''a'') (CHR ''f'') c then Some (of_char c - 0x61 + 10)
      else if byte_between (CHR ''A'') (CHR ''F'') c then Some (of_char c - 0x41 + 10)
      else None)"

text \<open>The number of the escape \<open>\uXXXX\<close> at the front of a string.\<close>

fun getu4 :: "string \<Rightarrow> int option" where
  "getu4 (x # u # a # b # c # d # s) =
     (if x = CHR 0x5C \<and> u = CHR ''u'' then
        (case (hex_value a, hex_value b, hex_value c, hex_value d) of
           (Some i, Some j, Some k, Some l) \<Rightarrow> Some (((i * 16 + j) * 16 + k) * 16 + l)
         | _ \<Rightarrow> None)
      else None)"
| "getu4 _ = None"

definition high_surrogate :: "int \<Rightarrow> bool" where
  "high_surrogate n \<longleftrightarrow> 0xD800 \<le> n \<and> n < 0xDC00"

definition low_surrogate :: "int \<Rightarrow> bool" where
  "low_surrogate n \<longleftrightarrow> 0xDC00 \<le> n \<and> n < 0xE000"

definition unescape :: "char \<Rightarrow> char" where
  "unescape c =
     (if c = CHR ''b'' then CHR 0x08 else if c = CHR ''f'' then CHR 0x0C else if c = CHR ''n'' then CHR 0x0A
      else if c = CHR ''r'' then CHR 0x0D else if c = CHR ''t'' then CHR 0x09 else c)"

text \<open>
  The bytes that a string literal denotes, given the text between its quotes. A surrogate without
  its partner and a byte outside every well-formed UTF-8 sequence become the replacement character.
\<close>

function unquote :: "string \<Rightarrow> string" where
  "unquote [] = []"
| "unquote (c # s) =
     (if c = CHR 0x5C then
        (if s = [] then []
         else if hd s = CHR ''u'' then
           (case getu4 (c # s) of
              None \<Rightarrow> []
            | Some n \<Rightarrow>
                (let rest = drop 5 s in
                 if high_surrogate n \<or> low_surrogate n then
                   (case getu4 rest of
                      Some m \<Rightarrow>
                        if high_surrogate n \<and> low_surrogate m
                        then utf8 ((n - 0xD800) * 0x400 + (m - 0xDC00) + 0x10000) @ unquote (drop 6 rest)
                        else replacement @ unquote rest
                    | None \<Rightarrow> replacement @ unquote rest)
                 else utf8 n @ unquote rest))
         else unescape (hd s) # unquote (tl s))
      else if c < CHR 0x80 then c # unquote s
      else let k = rune_len (c # s) in
        if k = 0 then replacement @ unquote s
        else take k (c # s) @ unquote (drop k (c # s)))"
  by pat_completeness auto
termination
  by (relation "measure length") auto

declare unquote.simps(2) [simp del]

section \<open>Reading a checked text into a tree\<close>

datatype json =
    JObj "(string \<times> json) list"
  | JArr "json list"
  | JStr string
  | JNum string
  | JBool bool
  | JNull

fun drop_space :: "string \<Rightarrow> string" where
  "drop_space [] = []"
| "drop_space (c # s) = (if json_space c then drop_space s else c # s)"

text \<open>From behind the opening quote: the text of the literal and what follows its closing quote.\<close>

fun string_token :: "string \<Rightarrow> string \<times> string" where
  "string_token [] = ([], [])"
| "string_token [c] = (if c = CHR 0x22 then ([], []) else ([c], []))"
| "string_token (c # e # s) =
     (if c = CHR 0x22 then ([], e # s)
      else if c = CHR 0x5C then (case string_token s of (t, r) \<Rightarrow> (c # e # t, r))
      else (case string_token (e # s) of (t, r) \<Rightarrow> (c # t, r)))"

definition ends_literal :: "char \<Rightarrow> bool" where
  "ends_literal c \<longleftrightarrow> json_space c \<or> c = CHR '','' \<or> c = CHR 0x7D \<or> c = CHR '']''"

definition literal_value :: "string \<Rightarrow> json" where
  "literal_value w =
     (if w = ''null'' then JNull else if w = ''true'' then JBool True else if w = ''false'' then JBool False
      else JNum w)"

text \<open>
  The fuel bounds the nesting and the number of members together; every call below another one has
  consumed a character, so the length of the text is enough. A member list is read from behind the
  brace or the comma in front of it.
\<close>

fun parse_value :: "nat \<Rightarrow> string \<Rightarrow> (json \<times> string) option"
  and parse_members :: "nat \<Rightarrow> string \<Rightarrow> ((string \<times> json) list \<times> string) option"
  and parse_elements :: "nat \<Rightarrow> string \<Rightarrow> (json list \<times> string) option" where
  "parse_value 0 s = None"
| "parse_value (Suc n) s =
     (case drop_space s of
        [] \<Rightarrow> None
      | c # r \<Rightarrow>
          if c = CHR 0x22 then Some (JStr (unquote (fst (string_token r))), snd (string_token r))
          else if c = CHR 0x7B then
            (if take 1 (drop_space r) = [CHR 0x7D] then Some (JObj [], tl (drop_space r))
             else map_option (map_prod JObj id) (parse_members n r))
          else if c = CHR ''['' then
            (if take 1 (drop_space r) = '']'' then Some (JArr [], tl (drop_space r))
             else map_option (map_prod JArr id) (parse_elements n r))
          else Some (literal_value (takeWhile (\<lambda>x. \<not> ends_literal x) (c # r)),
                     dropWhile (\<lambda>x. \<not> ends_literal x) (c # r)))"
| "parse_members 0 s = None"
| "parse_members (Suc n) s =
     (let kr = string_token (tl (drop_space s)) in
      case parse_value n (tl (drop_space (snd kr))) of
        None \<Rightarrow> None
      | Some (v, r) \<Rightarrow>
          if take 1 (drop_space r) = '','' then
            map_option (map_prod ((#) (unquote (fst kr), v)) id) (parse_members n (tl (drop_space r)))
          else Some ([(unquote (fst kr), v)], tl (drop_space r)))"
| "parse_elements 0 s = None"
| "parse_elements (Suc n) s =
     (case parse_value n s of
        None \<Rightarrow> None
      | Some (v, r) \<Rightarrow>
          if take 1 (drop_space r) = '','' then
            map_option (map_prod ((#) v) id) (parse_elements n (tl (drop_space r)))
          else Some ([v], tl (drop_space r)))"

definition json_parse :: "string \<Rightarrow> json option" where
  "json_parse s = (if json_valid s then map_option fst (parse_value (length s) s) else None)"

section \<open>Storing into fields\<close>

text \<open>
  Case folding maps every rune to the least rune of its class. Two runes beyond ASCII fold into
  ASCII, the Kelvin sign to \<open>K\<close> and the long s to \<open>S\<close>; field names are ASCII.
\<close>

fun fold_name :: "string \<Rightarrow> string" where
  "fold_name [] = []"
| "fold_name (c # s) =
     (if byte_between (CHR ''a'') (CHR ''z'') c then char_of (of_char c - 0x20 :: int) # fold_name s
      else if c = CHR 0xC5 \<and> take 1 s = [CHR 0xBF] then CHR ''S'' # fold_name (drop 1 s)
      else if c = CHR 0xE2 \<and> take 2 s = [CHR 0x84, CHR 0xAA] then CHR ''K'' # fold_name (drop 2 s)
      else c # fold_name s)"

text \<open>A field is its name and the way a value is stored into the record; the exact name is tried first.\<close>

type_synonym 'a field = "string \<times> (json \<Rightarrow> 'a \<Rightarrow> 'a option)"

definition find_field :: "'a field list \<Rightarrow> string \<Rightarrow> 'a field option" where
  "find_field fields key =
     (case List.find (\<lambda>f. fst f = key) fields of
        Some f \<Rightarrow> Some f
      | None \<Rightarrow> List.find (\<lambda>f. fold_name (fst f) = fold_name key) fields)"

text \<open>\<open>strict\<close> is \<open>DisallowUnknownFields\<close>.\<close>

fun decode_members :: "bool \<Rightarrow> 'a field list \<Rightarrow> (string \<times> json) list \<Rightarrow> 'a \<Rightarrow> 'a option" where
  "decode_members strict fields [] x = Some x"
| "decode_members strict fields ((k, v) # ms) x =
     (case find_field fields k of
        None \<Rightarrow> if strict then None else decode_members strict fields ms x
      | Some f \<Rightarrow>
          (case snd f v x of
             None \<Rightarrow> None
           | Some y \<Rightarrow> decode_members strict fields ms y))"

definition decode_struct :: "bool \<Rightarrow> 'a field list \<Rightarrow> json \<Rightarrow> 'a \<Rightarrow> 'a option" where
  "decode_struct strict fields j x =
     (case j of JObj ms \<Rightarrow> decode_members strict fields ms x | JNull \<Rightarrow> Some x | _ \<Rightarrow> None)"

definition decode_string :: "json \<Rightarrow> string \<Rightarrow> string option" where
  "decode_string j x = (case j of JStr s \<Rightarrow> Some s | JNull \<Rightarrow> Some x | _ \<Rightarrow> None)"

text \<open>
  \<open>json.Unmarshal\<close> into a struct with the single string field \<open>name\<close>: \<open>None\<close> is an error, \<open>Some v\<close> is
  success with the field holding \<open>v\<close>.
\<close>

definition Unmarshal_field :: "string \<Rightarrow> string \<Rightarrow> string option" where
  "Unmarshal_field name payload =
     (case json_parse payload of
        None \<Rightarrow> None
      | Some j \<Rightarrow> decode_struct False [(name, decode_string)] j '''')"

text \<open>
  An integer field takes a number without fraction and exponent that fits into 64 bits, the way
  \<open>strconv.ParseInt\<close> reads it; a list of strings takes an array of strings.
\<close>

definition parse_int :: "string \<Rightarrow> int option" where
  "parse_int w =
     (let minus = take 1 w = ''-''; digits = (if minus then tl w else w);
          n = (if minus then - int (atoi digits) else int (atoi digits)) in
      if digits \<noteq> [] \<and> list_all is_digit digits \<and> - (2 ^ 63) \<le> n \<and> n < 2 ^ 63 then Some n else None)"

definition decode_int :: "json \<Rightarrow> int \<Rightarrow> int option" where
  "decode_int j x = (case j of JNum w \<Rightarrow> parse_int w | JNull \<Rightarrow> Some x | _ \<Rightarrow> None)"

definition decode_bool :: "json \<Rightarrow> bool \<Rightarrow> bool option" where
  "decode_bool j x = (case j of JBool b \<Rightarrow> Some b | JNull \<Rightarrow> Some x | _ \<Rightarrow> None)"

definition decode_strings :: "json \<Rightarrow> string list \<Rightarrow> string list option" where
  "decode_strings j x =
     (case j of
        JArr es \<Rightarrow> those (map (\<lambda>e. decode_string e '''') es)
      | JNull \<Rightarrow> Some []
      | _ \<Rightarrow> None)"

section \<open>Printing a tree\<close>

text \<open>
  \<open>json.Marshal\<close> of nested structs, slices, strings, integers and booleans goes through a tree; a
  struct is an object with its fields in the order of declaration. A slice without elements is taken
  to be nil, which Go prints as \<open>null\<close>.
\<close>

fun print_json :: "json \<Rightarrow> string"
  and print_members :: "(string \<times> json) list \<Rightarrow> string"
  and print_elements :: "json list \<Rightarrow> string" where
  "print_json (JObj ms) = CHR 0x7B # print_members ms @ [CHR 0x7D]"
| "print_json (JArr es) = CHR ''['' # print_elements es @ '']''"
| "print_json (JStr s) = json_string s"
| "print_json (JNum w) = w"
| "print_json (JBool b) = json_bool b"
| "print_json JNull = ''null''"
| "print_members [] = []"
| "print_members ((k, v) # ms) =
     json_string k @ '':'' @ print_json v @ (if ms = [] then [] else '','' @ print_members ms)"
| "print_elements [] = []"
| "print_elements (v # es) = print_json v @ (if es = [] then [] else '','' @ print_elements es)"

definition print_int :: "int \<Rightarrow> string" where
  "print_int i = (if i < 0 then CHR ''-'' # itoa (nat (- i)) else itoa (nat i))"

definition json_strings :: "string list \<Rightarrow> json" where
  "json_strings xs = (if xs = [] then JNull else JArr (map JStr xs))"

end
