(* ===== verification/JSON_RoundTrip.thy ===== *)
theory JSON_RoundTrip
  imports Go_Unmarshal
begin

text \<open>
  What \<open>json.Marshal\<close> prints, \<open>json.Unmarshal\<close> reads back: for a tree whose strings are well-formed UTF-8
  and whose numbers are printed integers, \<open>json_parse (print_json v) = Some v\<close>.
\<close>

section \<open>Well-formed strings\<close>

function utf8_ok :: "string \<Rightarrow> bool" where
  "utf8_ok [] = True"
| "utf8_ok (c # s) = (let n = rune_len (c # s) in if n = 0 then False else utf8_ok (drop n (c # s)))"
  by pat_completeness auto
termination
  by (relation "measure length") auto

declare rune_len.simps(2) [simp del]

lemma rune_len_ascii [simp]: "c < CHR 0x80 \<Longrightarrow> rune_len (c # s) = 1"
  by (simp add: rune_len.simps lead_byte_def)

lemma ascii_utf8_ok: "list_all (\<lambda>c. c < CHR 0x80) s \<Longrightarrow> utf8_ok s"
  by (induction s) auto

text \<open>The length of a sequence depends on its own bytes only, and all its bytes lie beyond ASCII.\<close>

lemma rune_len_prefix:
  assumes "rune_len s \<noteq> 0"
  shows "rune_len (take (rune_len s) s @ t) = rune_len s"
proof (cases s)
  case (Cons a r)
  obtain n lo hi where l: "lead_byte a = (n, lo, hi)" by (cases "lead_byte a")
  show ?thesis
  proof (cases "n \<le> 1")
    case True
    with l assms Cons have "n = 1" "rune_len s = 1" by (auto simp: rune_len.simps)
    with l Cons show ?thesis by (simp add: rune_len.simps)
  next
    case False
    with l assms Cons have len: "rune_len s = n" "n - 1 \<le> length r" "byte_between lo hi (hd r)"
      "list_all cont_byte (take (n - 2) (tl r))" by (auto simp: rune_len.simps split: if_splits)
    with False obtain b r' where r: "r = b # r'" by (cases r) auto
    from False obtain m where "n = Suc (Suc m)" by (metis One_nat_def Suc_le_mono le0 not0_implies_Suc old.nat.exhaust)
    with l len r Cons show ?thesis by (auto simp: rune_len.simps min_def)
  qed
qed (use assms in simp)

lemma rune_len_le: "rune_len s \<le> length s"
  by (cases s) (auto simp: rune_len.simps split: prod.splits)

lemma cont_high: "cont_byte c \<Longrightarrow> \<not> c < CHR 0x80"
  by (auto simp: cont_byte_def byte_between_def)

lemma lead_range: "lead_byte a = (n, lo, hi) \<Longrightarrow> CHR 0x80 \<le> lo"
  by (auto simp: lead_byte_def less_eq_char_def split: if_splits)

lemma rune_bytes_high:
  assumes "\<not> c < CHR 0x80"
  shows "list_all (\<lambda>x. \<not> x < CHR 0x80) (take (rune_len (c # s)) (c # s))"
proof -
  obtain n lo hi where l: "lead_byte c = (n, lo, hi)" by (cases "lead_byte c")
  have n1: "n \<noteq> 1" using l assms by (auto simp: lead_byte_def split: if_splits)
  show ?thesis
  proof (cases "rune_len (c # s) = 0")
    case False
    with l n1 have len: "rune_len (c # s) = n" "n - 1 \<le> length s" "byte_between lo hi (hd s)"
      "list_all cont_byte (take (n - 2) (tl s))" by (auto simp: rune_len.simps split: if_splits)
    with False n1 have "2 \<le> n" by linarith
    then obtain m where m: "n = Suc (Suc m)" by (metis add_2_eq_Suc le_Suc_ex)
    with len obtain b r where s: "s = b # r" by (cases s) auto
    have "list_all (\<lambda>x. \<not> x < CHR 0x80) (take m r)"
      using len(4) m s by (auto simp: list_all_iff dest: cont_high)
    moreover have "\<not> b < CHR 0x80"
      using len(3) lead_range [OF l] s by (auto simp: byte_between_def)
    ultimately show ?thesis using len(1) m s assms by simp
  qed simp
qed

section \<open>Escaping and unescaping\<close>

lemma hex_value_digit [simp]: "hex_value (hex_digit n) = Some (int (n mod 16))"
proof -
  have "\<forall>m \<in> set [0..<16]. hex_value (''0123456789abcdef'' ! m) = Some (int m)" by code_simp
  moreover have "n mod 16 \<in> set [0..<16]" by simp
  ultimately show ?thesis unfolding hex_digit_def by blast
qed

lemma hex_digit_plain: "hex_digit n \<noteq> CHR 0x22" "hex_digit n \<noteq> CHR 0x5C"
proof -
  have "hex_value (CHR 0x22) = None" "hex_value (CHR 0x5C) = None" by code_simp+
  then show "hex_digit n \<noteq> CHR 0x22" "hex_digit n \<noteq> CHR 0x5C"
    by (metis hex_value_digit option.distinct(1))+
qed

lemma unquote_plain: "c < CHR 0x80 \<Longrightarrow> c \<noteq> CHR 0x5C \<Longrightarrow> unquote (c # t) = c # unquote t"
  by (simp add: unquote.simps)

lemma unquote_escape: "e \<noteq> CHR ''u'' \<Longrightarrow> unquote (CHR 0x5C # e # t) = unescape e # unquote t"
  by (simp add: unquote.simps)

lemma unquote_unicode:
  assumes "getu4 (CHR 0x5C # CHR ''u'' # a # b # c # [d]) = Some n" and "\<not> high_surrogate n" "\<not> low_surrogate n"
  shows "unquote (CHR 0x5C # CHR ''u'' # a # b # c # d # t) = utf8 n @ unquote t"
proof -
  have "getu4 (CHR 0x5C # CHR ''u'' # a # b # c # d # t) = Some n" using assms(1) by simp
  then show ?thesis using assms(2,3) by (subst unquote.simps) (simp del: getu4.simps add: eval_nat_numeral)
qed

lemma of_char_ascii: "c < CHR 0x80 \<Longrightarrow> of_char c < (0x80 :: nat)"
  by (simp add: less_char_def)

lemma unquote_ascii:
  assumes "c < CHR 0x80"
  shows "unquote (escape_ascii c @ t) = c # unquote t"
proof -
  let ?n = "of_char c :: nat"
  have small: "?n < 0x80" using assms by (rule of_char_ascii)
  have "unquote (unicode_escape c @ t) = c # unquote t"
  proof -
    have "hex_value (CHR ''0'') = Some 0" by code_simp
    then have "getu4 [CHR 0x5C, CHR ''u'', CHR ''0'', CHR ''0'', hex_digit (?n div 16), hex_digit ?n] =
        Some (int (?n div 16 mod 16) * 16 + int (?n mod 16))"
      by simp
    also have "int (?n div 16 mod 16) * 16 + int (?n mod 16) = int ?n"
      using small by (simp add: zdiv_int zmod_int)
    finally have g: "getu4 [CHR 0x5C, CHR ''u'', CHR ''0'', CHR ''0'', hex_digit (?n div 16), hex_digit ?n] = Some (int ?n)" .
    have "utf8 (int ?n) = [c]" using small by (simp add: utf8_def)
    with unquote_unicode [OF g, of t] small show ?thesis
      by (simp add: unicode_escape_def high_surrogate_def low_surrogate_def)
  qed
  then show ?thesis
    using assms by (auto simp: escape_ascii_def unquote_escape unquote_plain unescape_def)
qed

lemma unquote_rune:
  assumes "\<not> c < CHR 0x80" and "rune_len (c # s) \<noteq> 0"
  shows "unquote (escape_rune (take (rune_len (c # s)) (c # s)) @ t) = take (rune_len (c # s)) (c # s) @ unquote t"
proof -
  let ?r = "take (rune_len (c # s)) (c # s)"
  have u: "unquote (CHR 0x5C # ''u2028'' @ t) = [CHR 0xE2, CHR 0x80, CHR 0xA8] @ unquote t"
    "unquote (CHR 0x5C # ''u2029'' @ t) = [CHR 0xE2, CHR 0x80, CHR 0xA9] @ unquote t"
    by (simp_all, (subst unquote_unicode, code_simp, code_simp, code_simp, simp add: utf8_def char_of_def)+)
  obtain r where r: "?r = c # r" using assms(2) by (cases "rune_len (c # s)") auto
  have len: "length ?r = rune_len (c # s)" using rune_len_le [of "c # s"] by simp
  have "unquote (?r @ t) = ?r @ unquote t"
  proof -
    have "rune_len (?r @ t) = rune_len (c # s)" by (rule rune_len_prefix) (rule assms(2))
    then have k: "rune_len (c # r @ t) = rune_len (c # s)" unfolding r by simp
    have "unquote (c # r @ t) = take (rune_len (c # s)) (c # r @ t) @ unquote (drop (rune_len (c # s)) (c # r @ t))"
      using assms k by (subst unquote.simps) (auto simp: Let_def)
    moreover have "take (rune_len (c # s)) (c # r @ t) = c # r" "drop (rune_len (c # s)) (c # r @ t) = t"
      using len r by (metis append_Cons append_eq_conv_conj)+
    ultimately show ?thesis using r by simp
  qed
  with u show ?thesis by (auto simp: escape_rune_def)
qed

lemma unquote_escape_body: "utf8_ok s \<Longrightarrow> unquote (escape_body s) = s"
proof (induction s rule: escape_body.induct)
  case (2 c s)
  show ?case
  proof (cases "c < CHR 0x80")
    case True
    with 2 show ?thesis by (simp add: unquote_ascii)
  next
    case False
    moreover from 2(4) have "rune_len (c # s) \<noteq> 0" "utf8_ok (drop (rune_len (c # s)) (c # s))"
      by (auto simp: Let_def split: if_splits)
    ultimately show ?thesis using 2(3) by (simp add: Let_def unquote_rune)
  qed
qed simp

section \<open>Delimiting strings\<close>

fun quoted :: "string \<Rightarrow> bool" where
  "quoted [] = True"
| "quoted [c] = (c \<noteq> CHR 0x22 \<and> c \<noteq> CHR 0x5C)"
| "quoted (c # e # s) = (if c = CHR 0x5C then quoted s else c \<noteq> CHR 0x22 \<and> quoted (e # s))"

lemma string_token_quoted: "quoted s \<Longrightarrow> string_token (s @ CHR 0x22 # r) = (s, r)"
proof (induction s rule: quoted.induct)
  case (3 c e s)
  then show ?case by (cases "s @ CHR 0x22 # r") auto
qed (cases r; simp)+

lemma quoted_append: "quoted s \<Longrightarrow> quoted t \<Longrightarrow> quoted (s @ t)"
proof (induction s rule: quoted.induct)
  case (2 c)
  then show ?case by (cases t) auto
qed auto

lemma quoted_high: "list_all (\<lambda>x. \<not> x < CHR 0x80) s \<Longrightarrow> quoted s"
  by (induction s rule: quoted.induct) (auto simp: less_char_def)

lemma quoted_ascii: "quoted (escape_ascii c)"
  by (auto simp: escape_ascii_def unicode_escape_def hex_digit_plain)

lemma quoted_rune: "\<not> c < CHR 0x80 \<Longrightarrow> quoted (escape_rune (take (rune_len (c # s)) (c # s)))"
  using rune_bytes_high [of c s] by (simp add: escape_rune_def quoted_high)

lemma quoted_escape_body: "quoted (escape_body s)"
proof (induction s rule: escape_body.induct)
  case (2 c s)
  have "quoted ((CHR 0x5C # ''ufffd'') @ escape_body s)" if "quoted (escape_body s)"
    using that by (intro quoted_append) simp_all
  with 2 show ?case by (auto simp: Let_def quoted_append quoted_ascii quoted_rune)
qed simp

lemma string_token_json_string [simp]: "string_token (tl (json_string s) @ r) = (escape_body s, r)"
  by (simp add: json_string_def string_token_quoted quoted_escape_body)

section \<open>Scanning strings and numbers\<close>

lemma scan_append: "scan sc (s @ t) = (case scan sc s of None \<Rightarrow> None | Some sc' \<Rightarrow> scan sc' t)"
  by (induction s arbitrary: sc) (auto split: option.splits)

lemma scan_high:
  "list_all (\<lambda>x. \<not> x < CHR 0x80) s \<Longrightarrow> scan (InString, ps) s = Some (InString, ps)"
  by (induction s) (auto simp: less_char_def)

lemma hex_digit_scans: "scan_step (InStringEscU m, ps) (hex_digit n) = Some (if m = 3 then InString else InStringEscU (Suc m), ps)"
proof -
  have "\<forall>k \<in> set [0..<16]. let c = ''0123456789abcdef'' ! k in
      is_digit c \<or> byte_between (CHR ''a'') (CHR ''f'') c" by code_simp
  moreover have "n mod 16 \<in> set [0..<16]" by simp
  ultimately have "is_digit (hex_digit n) \<or> byte_between (CHR ''a'') (CHR ''f'') (hex_digit n)"
    unfolding hex_digit_def Let_def by blast
  then show ?thesis by auto
qed

lemma scan_ascii: "c < CHR 0x80 \<Longrightarrow> scan (InString, ps) (escape_ascii c) = Some (InString, ps)"
  by (auto simp: escape_ascii_def unicode_escape_def hex_digit_scans is_digit_def byte_between_def less_eq_char_def
      simp del: scan_step.simps(9) simp: scan_step.simps(9) [of _ _ "CHR ''0''"])

lemma scan_escape_body: "scan (InString, ps) (escape_body s) = Some (InString, ps)"
proof (induction s rule: escape_body.induct)
  case (2 c s)
  have u: "scan (InString, ps) (CHR 0x5C # ''ufffd'') = Some (InString, ps)"
    "scan (InString, ps) (CHR 0x5C # ''u2028'') = Some (InString, ps)"
    "scan (InString, ps) (CHR 0x5C # ''u2029'') = Some (InString, ps)"
    by (simp_all add: is_digit_def byte_between_def less_eq_char_def)
  then have "scan (InString, ps) ((CHR 0x5C # ''ufffd'') @ escape_body s) = scan (InString, ps) (escape_body s)"
    by (simp only: scan_append) simp
  moreover have "scan (InString, ps) (escape_rune (take (rune_len (c # s)) (c # s))) = Some (InString, ps)" if "\<not> c < CHR 0x80"
    using that u rune_bytes_high [of c s] by (auto simp: escape_rune_def scan_high)
  ultimately show ?case using 2 by (auto simp: Let_def scan_append scan_ascii simp del: scan.simps)
qed simp

lemma scan_json_string:
  "scan (InString, ps) (tl (json_string s)) = Some (EndValue, ps)"
  by (simp add: json_string_def scan_append scan_escape_body)

lemma itoa_nonempty: "itoa n \<noteq> []"
  by (subst itoa.simps) simp

lemma itoa_is_digit: "list_all is_digit (itoa n)"
proof -
  have "\<forall>c \<in> set ''0123456789''. is_digit c" by code_simp
  with itoa_digits [of n] show ?thesis by (auto simp: list_all_iff)
qed

lemma itoa_lead: "0 < n \<Longrightarrow> hd (itoa n) \<noteq> CHR ''0''"
proof (induction n rule: itoa.induct)
  case (1 n)
  show ?case
  proof (cases "n < 10")
    case True
    have "\<forall>m \<in> set [1..<10]. digit_char m \<noteq> CHR ''0''" by code_simp
    with True 1 show ?thesis by (subst itoa.simps) (simp del: digit_char.simps)
  next
    case False
    with 1 have "hd (itoa (n div 10)) \<noteq> CHR ''0''" by simp
    with False show ?thesis by (subst itoa.simps) (simp add: itoa_nonempty del: digit_char.simps)
  qed
qed

lemma scan_digits: "list_all is_digit s \<Longrightarrow> scan (Num1, ps) s = Some (Num1, ps)"
  by (induction s) auto

lemma digit_not_special:
  assumes "is_digit c"
  shows "\<not> json_space c" "c \<noteq> CHR 0x7B" "c \<noteq> CHR ''[''" "c \<noteq> CHR 0x22" "c \<noteq> CHR ''-''" "c \<noteq> CHR ''t''"
    "c \<noteq> CHR ''f''" "c \<noteq> CHR ''n''" "c \<noteq> CHR '']''" "c \<noteq> CHR '',''" "c \<noteq> CHR 0x7D" "\<not> ends_literal c"
  using assms by (auto simp: is_digit_def byte_between_def json_space_def ends_literal_def less_eq_char_def)

text \<open>The state behind a complete value: the next character ends it.\<close>

definition settled :: "scan_state \<Rightarrow> bool" where
  "settled st \<longleftrightarrow> st = EndValue \<or> st = Num0 \<or> st = Num1"

lemma scan_itoa:
  "0 < n \<Longrightarrow> scan (BeginValue, ps) (itoa n) = Some (Num1, ps)"
  "0 < n \<Longrightarrow> scan (Neg, ps) (itoa n) = Some (Num1, ps)"
proof -
  assume n: "0 < n"
  obtain c s where i: "itoa n = c # s" using itoa_nonempty by (cases "itoa n") auto
  with itoa_is_digit [of n] have d: "is_digit c" "list_all is_digit s" by auto
  have "c \<noteq> CHR ''0''" using itoa_lead [OF n] i by simp
  with d i show "scan (BeginValue, ps) (itoa n) = Some (Num1, ps)" "scan (Neg, ps) (itoa n) = Some (Num1, ps)"
    by (simp_all add: step_begin_value_def digit_not_special scan_digits)
qed

lemma scan_print_int: "\<exists>st. scan (BeginValue, ps) (print_int i) = Some (st, ps) \<and> settled st"
proof -
  consider "i = 0" | "0 < i" | "i < 0" by linarith
  then show ?thesis
  proof cases
    case 1
    have "itoa 0 = ''0''" by code_simp
    with 1 show ?thesis by (simp add: print_int_def step_begin_value_def settled_def json_space_def)
  next
    case 2
    then show ?thesis by (simp add: print_int_def scan_itoa settled_def)
  next
    case 3
    then show ?thesis by (simp add: print_int_def scan_itoa settled_def step_begin_value_def json_space_def)
  qed
qed

section \<open>Trees\<close>

fun wf_json :: "json \<Rightarrow> bool"
  and wf_members :: "(string \<times> json) list \<Rightarrow> bool"
  and wf_elements :: "json list \<Rightarrow> bool" where
  "wf_json (JObj ms) = wf_members ms"
| "wf_json (JArr es) = wf_elements es"
| "wf_json (JStr s) = utf8_ok s"
| "wf_json (JNum w) = (w \<in> range print_int)"
| "wf_json (JBool b) = True"
| "wf_json JNull = True"
| "wf_members [] = True"
| "wf_members ((k, v) # ms) = (utf8_ok k \<and> wf_json v \<and> wf_members ms)"
| "wf_elements [] = True"
| "wf_elements (v # es) = (wf_json v \<and> wf_elements es)"

fun depth :: "json \<Rightarrow> nat"
  and depth_members :: "(string \<times> json) list \<Rightarrow> nat"
  and depth_elements :: "json list \<Rightarrow> nat" where
  "depth (JObj ms) = Suc (depth_members ms)"
| "depth (JArr es) = Suc (depth_elements es)"
| "depth (JStr s) = 0"
| "depth (JNum w) = 0"
| "depth (JBool b) = 0"
| "depth JNull = 0"
| "depth_members [] = 0"
| "depth_members ((k, v) # ms) = max (depth v) (depth_members ms)"
| "depth_elements [] = 0"
| "depth_elements (v # es) = max (depth v) (depth_elements es)"

lemma settled_step:
  assumes "settled st" and "c = CHR '','' \<or> c = CHR 0x7D \<or> c = CHR '']'' \<or> c = CHR 0x20"
  shows "scan_step (st, ps) c = step_end_value ps c"
  using assms by (auto simp: settled_def step_num0_def is_digit_def byte_between_def less_eq_char_def)

lemma print_int_head: "\<exists>c s. print_int i = c # s \<and> (is_digit c \<or> c = CHR ''-'')"
proof -
  have "\<exists>c s. itoa n = c # s \<and> is_digit c" for n
    using itoa_nonempty [of n] itoa_is_digit [of n] by (cases "itoa n") auto
  then show ?thesis by (fastforce simp: print_int_def)
qed

lemma print_head:
  assumes "wf_json v"
  obtains c s where "print_json v = c # s" and "\<not> json_space c" and "c \<noteq> CHR '']''" and "c \<noteq> CHR 0x7D"
proof -
  have "\<exists>c s. print_json v = c # s \<and> \<not> json_space c \<and> c \<noteq> CHR '']'' \<and> c \<noteq> CHR 0x7D"
  proof (cases v)
    case (JNum w)
    with assms obtain i where "w = print_int i" by auto
    moreover have "\<not> json_space (CHR ''-'')" by (simp add: json_space_def)
    ultimately show ?thesis using JNum print_int_head [of i] digit_not_special by fastforce
  qed (auto simp: json_string_def json_bool_def json_space_def)
  with that show thesis by blast
qed

text \<open>The scanner accepts a printed tree.\<close>

definition closed :: "parse_state list \<Rightarrow> scanner" where
  "closed ps = (if ps = [] then EndTop else EndValue, ps)"

lemma scan_print:
  "wf_json v \<Longrightarrow> length ps + depth v \<le> 10000 \<Longrightarrow>
     \<exists>st. scan (BeginValue, ps) (print_json v) = Some (st, ps) \<and> (settled st \<or> st = EndTop \<and> ps = [])"
  "wf_members ms \<Longrightarrow> ms \<noteq> [] \<Longrightarrow> Suc (length ps) + depth_members ms \<le> 10000 \<Longrightarrow>
     scan (BeginString, ObjectKey # ps) (print_members ms @ [CHR 0x7D]) = Some (closed ps)"
  "wf_elements es \<Longrightarrow> es \<noteq> [] \<Longrightarrow> Suc (length ps) + depth_elements es \<le> 10000 \<Longrightarrow>
     scan (BeginValue, ArrayValue # ps) (print_elements es @ '']'') = Some (closed ps)"
proof (induction v and ms and es arbitrary: ps and ps and ps rule: print_json_print_members_print_elements.induct)
  case (1 ms)
  have "scan (BeginStringOrEmpty, ObjectKey # ps) (print_members ms @ [CHR 0x7D]) = Some (closed ps)"
  proof (cases ms)
    case Nil
    then show ?thesis by (simp add: step_end_value_def json_space_def pop_state_def closed_def)
  next
    case (Cons m ms')
    then obtain k v where "m = (k, v)" by fastforce
    with Cons have "\<exists>s. print_members ms @ [CHR 0x7D] = CHR 0x22 # s" by (simp add: json_string_def)
    then obtain s where s: "print_members ms @ [CHR 0x7D] = CHR 0x22 # s" by blast
    have "scan (BeginString, ObjectKey # ps) (print_members ms @ [CHR 0x7D]) = Some (closed ps)"
      using 1 Cons by simp
    then show ?thesis unfolding s by (simp add: step_begin_string_def json_space_def)
  qed
  with 1 show ?case
    by (auto simp: step_begin_value_def json_space_def push_state_def closed_def settled_def)
next
  case (2 es)
  have "scan (BeginValueOrEmpty, ArrayValue # ps) (print_elements es @ '']'') = Some (closed ps)"
  proof (cases es)
    case Nil
    then show ?thesis by (simp add: step_end_value_def json_space_def pop_state_def closed_def)
  next
    case (Cons v es')
    with 2 obtain c s where "print_json v = c # s" "\<not> json_space c" "c \<noteq> CHR '']''" by (auto elim: print_head)
    with Cons have "\<exists>s. print_elements es @ '']'' = c # s" by simp
    then obtain s' where s: "print_elements es @ '']'' = c # s'" by blast
    have "scan (BeginValue, ArrayValue # ps) (print_elements es @ '']'') = Some (closed ps)"
      using 2 Cons by simp
    then show ?thesis unfolding s using \<open>\<not> json_space c\<close> \<open>c \<noteq> CHR '']''\<close> by simp
  qed
  with 2 show ?case
    by (auto simp: step_begin_value_def json_space_def push_state_def closed_def settled_def)
next
  case (3 s)
  have "scan (BeginValue, ps) (json_string s) = scan (InString, ps) (tl (json_string s))"
    by (simp add: json_string_def step_begin_value_def json_space_def)
  then show ?case by (simp add: scan_json_string settled_def)
next
  case (4 w)
  then show ?case using scan_print_int by auto
next
  case (5 b)
  then show ?case by (simp add: json_bool_def step_begin_value_def json_space_def settled_def)
next
  case 6
  then show ?case by (simp add: step_begin_value_def json_space_def settled_def is_digit_def byte_between_def less_eq_char_def)
next
  case (8 k v ms)
  have key: "scan (BeginString, ObjectKey # ps) (json_string k @ CHR '':'' # s) = scan (BeginValue, ObjectValue # ps) s" for s
  proof -
    have "scan (BeginString, ObjectKey # ps) (json_string k) = scan (InString, ObjectKey # ps) (tl (json_string k))"
      by (simp add: json_string_def step_begin_string_def json_space_def)
    then show ?thesis by (simp add: scan_append scan_json_string step_end_value_def json_space_def)
  qed
  obtain st where "scan (BeginValue, ObjectValue # ps) (print_json v) = Some (st, ObjectValue # ps)" "settled st"
    using 8(1) [of "ObjectValue # ps"] 8(3-5) by (auto simp: max_def split: if_splits)
  then have "scan (BeginString, ObjectKey # ps) (json_string k @ CHR '':'' # print_json v @ s) =
      scan (st, ObjectValue # ps) s" for s
    using key [of "print_json v @ s"] by (simp add: scan_append)
  with \<open>settled st\<close> 8 show ?case
    by (cases "ms = []") (simp_all add: settled_step step_end_value_def json_space_def pop_state_def closed_def)
next
  case (10 v es)
  obtain st where "scan (BeginValue, ArrayValue # ps) (print_json v) = Some (st, ArrayValue # ps)" "settled st"
    using 10(1) [of "ArrayValue # ps"] 10(3-5) by (auto simp: max_def split: if_splits)
  with 10 show ?case
    by (cases "es = []")
      (simp_all add: scan_append settled_step step_end_value_def json_space_def pop_state_def closed_def)
qed simp_all

lemma json_valid_print:
  assumes "wf_json v" and "depth v \<le> 10000"
  shows "json_valid (print_json v)"
proof -
  obtain st where "scan (BeginValue, []) (print_json v) = Some (st, [])" "settled st \<or> st = EndTop"
    using scan_print(1) [of v "[]"] assms by auto
  then show ?thesis
    by (auto simp: json_valid_def settled_step step_end_value_def json_space_def)
qed

text \<open>The parser reads it back, given fuel for its nodes.\<close>

fun nodes :: "json \<Rightarrow> nat"
  and nodes_members :: "(string \<times> json) list \<Rightarrow> nat"
  and nodes_elements :: "json list \<Rightarrow> nat" where
  "nodes (JObj ms) = Suc (nodes_members ms)"
| "nodes (JArr es) = Suc (nodes_elements es)"
| "nodes (JStr s) = 1"
| "nodes (JNum w) = 1"
| "nodes (JBool b) = 1"
| "nodes JNull = 1"
| "nodes_members [] = 0"
| "nodes_members ((k, v) # ms) = Suc (nodes v + nodes_members ms)"
| "nodes_elements [] = 0"
| "nodes_elements (v # es) = Suc (nodes v + nodes_elements es)"

lemma nodes_length:
  "wf_json v \<Longrightarrow> nodes v \<le> length (print_json v)"
  "wf_members ms \<Longrightarrow> nodes_members ms \<le> length (print_members ms)"
  "wf_elements es \<Longrightarrow> nodes_elements es \<le> Suc (length (print_elements es))"
proof (induction v and ms and es rule: print_json_print_members_print_elements.induct)
  case (4 w)
  then obtain i where "w = print_int i" by auto
  then show ?case using print_int_head [of i] by auto
next
  case (8 k v ms)
  then show ?case by (cases "ms = []") (auto simp: json_string_def)
next
  case (10 v es)
  then show ?case by (cases "es = []") auto
qed (auto simp: json_string_def json_bool_def)

lemma print_int_chars: "list_all (\<lambda>x. \<not> ends_literal x) (print_int i)"
proof -
  have "list_all (\<lambda>x. \<not> ends_literal x) (itoa n)" for n
    using itoa_is_digit [of n] digit_not_special(12) by (auto simp: list_all_iff)
  moreover have "\<not> ends_literal (CHR ''-'')" by (simp add: ends_literal_def json_space_def)
  ultimately show ?thesis by (simp add: print_int_def)
qed

lemma literal_number: "literal_value (print_int i) = JNum (print_int i)"
proof -
  obtain c s where "print_int i = c # s" "is_digit c \<or> c = CHR ''-''" using print_int_head by blast
  moreover have "\<not> is_digit (CHR ''n'')" "\<not> is_digit (CHR ''t'')" "\<not> is_digit (CHR ''f'')" by code_simp+
  ultimately show ?thesis by (auto simp: literal_value_def)
qed

lemma literal_split:
  assumes "list_all (\<lambda>x. \<not> ends_literal x) w" and "r = [] \<or> ends_literal (hd r)"
  shows "takeWhile (\<lambda>x. \<not> ends_literal x) (w @ r) = w" and "dropWhile (\<lambda>x. \<not> ends_literal x) (w @ r) = r"
proof -
  have "takeWhile (\<lambda>x. \<not> ends_literal x) r = []" "dropWhile (\<lambda>x. \<not> ends_literal x) r = r"
    using assms(2) by (cases r; simp)+
  with assms(1) show "takeWhile (\<lambda>x. \<not> ends_literal x) (w @ r) = w" "dropWhile (\<lambda>x. \<not> ends_literal x) (w @ r) = r"
    by (simp_all add: list_all_iff)
qed

lemma parse_literal:
  assumes "w = c # s" and "list_all (\<lambda>x. \<not> ends_literal x) w" and "r = [] \<or> ends_literal (hd r)"
    and "\<not> json_space c" "c \<noteq> CHR 0x22" "c \<noteq> CHR 0x7B" "c \<noteq> CHR ''[''"
  shows "parse_value (Suc n) (w @ r) = Some (literal_value w, r)"
proof -
  have "c # s @ r = w @ r" using assms(1) by simp
  then show ?thesis using assms(4-) literal_split [OF assms(2,3)] unfolding assms(1) by simp
qed

lemma parse_print:
  "wf_json v \<Longrightarrow> nodes v \<le> n \<Longrightarrow> r = [] \<or> ends_literal (hd r) \<Longrightarrow>
     parse_value n (print_json v @ r) = Some (v, r)"
  "wf_members ms \<Longrightarrow> ms \<noteq> [] \<Longrightarrow> nodes_members ms \<le> n \<Longrightarrow>
     parse_members n (print_members ms @ CHR 0x7D # r) = Some (ms, r)"
  "wf_elements es \<Longrightarrow> es \<noteq> [] \<Longrightarrow> nodes_elements es \<le> n \<Longrightarrow>
     parse_elements n (print_elements es @ CHR '']'' # r) = Some (es, r)"
proof (induction v and ms and es arbitrary: n r and n r and n r rule: print_json_print_members_print_elements.induct)
  case (1 ms)
  then obtain m where n: "n = Suc m" "nodes_members ms \<le> m" by (cases n) auto
  show ?case
  proof (cases ms)
    case Nil
    with n show ?thesis by (simp add: json_space_def)
  next
    case (Cons x ms')
    then obtain k v where "x = (k, v)" by fastforce
    with Cons have "\<exists>s. print_members ms = CHR 0x22 # s" by (simp add: json_string_def)
    then obtain s where s: "print_members ms = CHR 0x22 # s" by blast
    have "parse_members m (print_members ms @ CHR 0x7D # r) = Some (ms, r)" using 1 n Cons by simp
    with n show ?thesis unfolding s by (simp add: s json_space_def)
  qed
next
  case (2 es)
  then obtain m where n: "n = Suc m" "nodes_elements es \<le> m" by (cases n) auto
  show ?case
  proof (cases es)
    case Nil
    with n show ?thesis by (simp add: json_space_def)
  next
    case (Cons v es')
    with 2 obtain c s where c: "print_json v = c # s" "\<not> json_space c" "c \<noteq> CHR '']''" by (auto elim: print_head)
    with Cons have "\<exists>s. print_elements es = c # s" by simp
    then obtain s' where s: "print_elements es = c # s'" by blast
    have "parse_elements m (print_elements es @ CHR '']'' # r) = Some (es, r)" using 2 n Cons by simp
    with n c show ?thesis unfolding s by (simp add: s json_space_def)
  qed
next
  case (3 s)
  then obtain m where n: "n = Suc m" by (cases n) auto
  have "string_token (escape_body s @ CHR 0x22 # r) = (escape_body s, r)"
    using string_token_json_string [of s r] by (simp add: json_string_def)
  with n 3 show ?case by (simp add: json_string_def json_space_def unquote_escape_body)
next
  case (4 w)
  then obtain m i where n: "n = Suc m" and w: "w = print_int i" by (cases n) auto
  obtain c s where c: "print_int i = c # s" "is_digit c \<or> c = CHR ''-''" using print_int_head by blast
  then have "\<not> json_space c" "c \<noteq> CHR 0x22" "c \<noteq> CHR 0x7B" "c \<noteq> CHR ''[''"
    using digit_not_special by (auto simp: json_space_def)
  with parse_literal [OF c(1) print_int_chars 4(3)] n w show ?case by (simp add: literal_number)
next
  case (5 b)
  then obtain m where n: "n = Suc m" by (cases n) auto
  have "parse_value (Suc m) (json_bool b @ r) = Some (literal_value (json_bool b), r)"
    by (rule parse_literal [OF _ _ 5(3), of _ "if b then CHR ''t'' else CHR ''f''" "if b then ''rue'' else ''alse''"])
      (auto simp: json_bool_def ends_literal_def json_space_def)
  then show ?case using n by (simp add: json_bool_def literal_value_def)
next
  case 6
  then obtain m where n: "n = Suc m" by (cases n) auto
  have "parse_value (Suc m) (''null'' @ r) = Some (literal_value ''null'', r)"
    by (rule parse_literal [OF _ _ 6(3), of _ "CHR ''n''" "''ull''"]) (auto simp: ends_literal_def json_space_def)
  then show ?case using n by (simp add: literal_value_def)
next
  case (8 k v ms)
  then obtain m where n: "n = Suc m" "nodes v \<le> m" "nodes_members ms \<le> m" by (cases n) auto
  let ?t = "(if ms = [] then [] else CHR '','' # print_members ms) @ CHR 0x7D # r"
  have key: "string_token (escape_body k @ CHR 0x22 # CHR '':'' # print_json v @ ?t) =
      (escape_body k, CHR '':'' # print_json v @ ?t)"
    using string_token_json_string [of k "CHR '':'' # print_json v @ ?t"] by (simp add: json_string_def)
  have v: "parse_value m (print_json v @ ?t) = Some (v, ?t)"
    using 8 n by (auto simp: ends_literal_def)
  have q: "\<not> json_space (CHR 0x22)" "\<not> json_space (CHR '':'')" "\<not> json_space (CHR '','')" "\<not> json_space (CHR 0x7D)"
    by (simp_all add: json_space_def)
  show ?case using n 8 key v q
    by (cases "ms = []") (simp_all add: json_string_def unquote_escape_body Let_def)
next
  case (10 v es)
  then obtain m where n: "n = Suc m" "nodes v \<le> m" "nodes_elements es \<le> m" by (cases n) auto
  let ?t = "(if es = [] then [] else CHR '','' # print_elements es) @ CHR '']'' # r"
  have v: "parse_value m (print_json v @ ?t) = Some (v, ?t)"
    using 10 n by (auto simp: ends_literal_def)
  have q: "\<not> json_space (CHR '','')" "\<not> json_space (CHR '']'')" by (simp_all add: json_space_def)
  show ?case using n 10 v q by (cases "es = []") simp_all
qed simp_all

lemma json_parse_print:
  assumes "wf_json v" and "depth v \<le> 10000"
  shows "json_parse (print_json v) = Some v"
  using parse_print(1) [OF assms(1) nodes_length(1) [OF assms(1)], of "[]"] json_valid_print [OF assms]
  by (simp add: json_parse_def)

lemma parse_int_print: "- (2 ^ 63) \<le> i \<Longrightarrow> i < 2 ^ 63 \<Longrightarrow> parse_int (print_int i) = Some i"
proof -
  assume b: "- (2 ^ 63) \<le> i" "i < 2 ^ 63"
  have "take 1 (itoa n) \<noteq> ''-''" for n
    using itoa_is_digit [of n] digit_not_special(5) by (cases "itoa n") auto
  with b show ?thesis by (auto simp: parse_int_def print_int_def atoi_itoa itoa_is_digit itoa_nonempty Let_def)
qed

end
