(* ===== verification/Go_Sha256.thy ===== *)
theory Go_Sha256
  imports Go_JSON
begin

text \<open>
  \<^verbatim>\<open>crypto/sha256\<close> and \<^verbatim>\<open>encoding/hex\<close>: the digests by which the program identifies configuration
  snapshots and ticket sources are lower-case hexadecimal SHA-256 sums (FIPS 180-4).
\<close>

unbundle bit_operations_syntax

type_synonym u32 = "32 word"

text \<open>
  The constants of the algorithm are the first 32 bits of the fractional parts of roots of the first
  primes: cube roots for the round constants, square roots for the initial hash. \<open>root_below\<close> finds
  the integer root bit by bit; 37 bits hold every root needed here, as \<open>root_below_correct\<close> shows.
\<close>

fun root_below :: "nat \<Rightarrow> int \<Rightarrow> nat \<Rightarrow> int \<Rightarrow> int" where
  "root_below n x 0 r = r"
| "root_below n x (Suc b) r = root_below n x b (if (r + 2 ^ b) ^ n \<le> x then r + 2 ^ b else r)"

definition fraction_bits :: "nat \<Rightarrow> int \<Rightarrow> u32" where
  "fraction_bits n p = word_of_int (root_below n (p * 2 ^ (32 * n)) 37 0)"

definition first_primes :: "int list" where
  "first_primes =
    [2, 3, 5, 7, 11, 13, 17, 19, 23, 29, 31, 37, 41, 43, 47, 53, 59, 61, 67, 71,
     73, 79, 83, 89, 97, 101, 103, 107, 109, 113, 127, 131, 137, 139, 149, 151, 157, 163, 167, 173,
     179, 181, 191, 193, 197, 199, 211, 223, 227, 229, 233, 239, 241, 251, 257, 263, 269, 271, 277, 281,
     283, 293, 307, 311]"

definition round_constants :: "u32 list" where
  "round_constants = map (fraction_bits 3) first_primes"

definition initial_hash :: "u32 list" where
  "initial_hash = map (fraction_bits 2) (take 8 first_primes)"

definition rotr :: "nat \<Rightarrow> u32 \<Rightarrow> u32" where
  "rotr n w = drop_bit n w OR push_bit (32 - n) w"

definition small_sigma0 :: "u32 \<Rightarrow> u32" where
  "small_sigma0 w = rotr 7 w XOR rotr 18 w XOR drop_bit 3 w"

definition small_sigma1 :: "u32 \<Rightarrow> u32" where
  "small_sigma1 w = rotr 17 w XOR rotr 19 w XOR drop_bit 10 w"

definition big_sigma0 :: "u32 \<Rightarrow> u32" where
  "big_sigma0 w = rotr 2 w XOR rotr 13 w XOR rotr 22 w"

definition big_sigma1 :: "u32 \<Rightarrow> u32" where
  "big_sigma1 w = rotr 6 w XOR rotr 11 w XOR rotr 25 w"

text \<open>The message schedule is a sliding window of sixteen words.\<close>

fun sha_rounds :: "u32 list \<Rightarrow> u32 list \<Rightarrow> u32 list \<Rightarrow> u32 list" where
  "sha_rounds (k # ks) ws [a, b, c, d, e, f, g, h] =
     (let t1 = h + big_sigma1 e + ((e AND f) XOR (NOT e AND g)) + k + hd ws;
          t2 = big_sigma0 a + ((a AND b) XOR (a AND c) XOR (b AND c));
          w = small_sigma1 (ws ! 14) + ws ! 9 + small_sigma0 (ws ! 1) + ws ! 0
      in sha_rounds ks (tl ws @ [w]) [t1 + t2, a, b, c, d + t1, e, f, g])"
| "sha_rounds ks ws st = st"

definition sha_block :: "u32 list \<Rightarrow> u32 list \<Rightarrow> u32 list" where
  "sha_block ws st = map2 (+) st (sha_rounds round_constants ws st)"

definition sha_pad :: "string \<Rightarrow> string" where
  "sha_pad s =
     (let bits = word_of_int (8 * int (length s)) :: 64 word in
      s @ [CHR 0x80] @ replicate ((119 - length s mod 64) mod 64) (CHR 0x00) @
      map (\<lambda>i. char_of (uint (drop_bit (8 * i) bits) mod 256)) [7, 6, 5, 4, 3, 2, 1, 0])"

fun be_words :: "string \<Rightarrow> u32 list" where
  "be_words (a # b # c # d # s) =
     word_of_int (((of_char a * 256 + of_char b) * 256 + of_char c) * 256 + of_char d) # be_words s"
| "be_words _ = []"

function sha_blocks :: "u32 list \<Rightarrow> u32 list \<Rightarrow> u32 list" where
  "sha_blocks ws st = (if length ws < 16 then st else sha_blocks (drop 16 ws) (sha_block (take 16 ws) st))"
  by pat_completeness auto
termination
  by (relation "measure (\<lambda>(ws, st). length ws)") auto

declare sha_blocks.simps [simp del]

definition be_bytes :: "u32 \<Rightarrow> string" where
  "be_bytes w = map (\<lambda>i. char_of (uint (drop_bit (8 * i) w) mod 256)) [3, 2, 1, 0]"

definition sha256 :: "string \<Rightarrow> string" where
  "sha256 s = concat (map be_bytes (sha_blocks (be_words (sha_pad s)) initial_hash))"

definition hex_encode :: "string \<Rightarrow> string" where
  "hex_encode s = concat (map (\<lambda>c. [hex_digit (of_char c div 16), hex_digit (of_char c)]) s)"

definition sha256_hex :: "string \<Rightarrow> string" where
  "sha256_hex s = hex_encode (sha256 s)"

definition lower_hex :: "char \<Rightarrow> bool" where
  "lower_hex c \<longleftrightarrow> byte_between (CHR ''0'') (CHR ''9'') c \<or> byte_between (CHR ''a'') (CHR ''f'') c"

section \<open>The constants\<close>

lemma first_primes_length: "length first_primes = 64"
  by (simp add: first_primes_def)

lemma initial_hash_length: "length initial_hash = 8"
  by (simp add: initial_hash_def first_primes_length)

lemma round_constants_length: "length round_constants = 64"
  by (simp add: round_constants_def first_primes_length)

lemma root_below_correct:
  assumes "r ^ n \<le> x" "x < (r + 2 ^ b) ^ n"
  shows "root_below n x b r ^ n \<le> x \<and> x < (root_below n x b r + 1) ^ n"
  using assms by (induction b arbitrary: r) (auto simp: not_le add.assoc simp flip: mult_2)

lemma constants_agree_with_the_standard:
  "fraction_bits 3 2 = 0x428a2f98" "fraction_bits 3 311 = 0xc67178f2"
  "fraction_bits 2 2 = 0x6a09e667" "fraction_bits 2 19 = 0x5be0cd19"
  by code_simp+

section \<open>The shape of a digest\<close>

lemma sha_rounds_length: "length st = 8 \<Longrightarrow> length (sha_rounds ks ws st) = 8"
  by (induction ks ws st rule: sha_rounds.induct) (simp_all add: Let_def)

lemma sha_blocks_length: "length st = 8 \<Longrightarrow> length (sha_blocks ws st) = 8"
proof (induction ws st rule: sha_blocks.induct)
  case (1 ws st)
  then show ?case
    by (subst sha_blocks.simps) (simp add: sha_block_def sha_rounds_length)
qed

lemma concat_length: "\<forall>x \<in> set xs. length (f x) = n \<Longrightarrow> length (concat (map f xs)) = n * length xs"
  by (induction xs) auto

lemma hex_encode_length: "length (hex_encode s) = 2 * length s"
  unfolding hex_encode_def by (rule concat_length) simp

lemma hex_digit_lower: "lower_hex (hex_digit n)"
proof -
  have "\<forall>m \<in> set [0..<16]. lower_hex (''0123456789abcdef'' ! m)" by code_simp
  moreover have "n mod 16 \<in> set [0..<16]" by simp
  ultimately show ?thesis unfolding hex_digit_def by blast
qed

lemma sha256_hex_length [simp]: "length (sha256_hex s) = 64"
proof -
  have "length (sha256 s) = 32"
    unfolding sha256_def
    by (subst concat_length [where n = 4]) (auto simp: be_bytes_def sha_blocks_length initial_hash_length)
  then show ?thesis by (simp add: sha256_hex_def hex_encode_length)
qed

lemma sha256_hex_lower [simp]: "list_all lower_hex (sha256_hex s)"
  by (auto simp: sha256_hex_def hex_encode_def list_all_iff hex_digit_lower)

end
