(* ===== verification/Go_Path.thy ===== *)
theory Go_Path
  imports SF_Prelude
begin

text \<open>
  The part of \<^verbatim>\<open>path/filepath\<close> on Unix that the program uses: \<open>Clean\<close> reduces a path to its shortest
  equivalent by folding over the components. The theory also shows what the program relies on: a
  relative path that \<open>Clean\<close> leaves alone and that does not begin with dot-dot has only proper names as
  components.
\<close>

section \<open>Definitions\<close>

text \<open>\<open>strings.Join\<close> with a one-byte separator.\<close>

fun join_at :: "char \<Rightarrow> string list \<Rightarrow> string" where
  "join_at x [] = []"
| "join_at x [c] = c"
| "join_at x (c # cs) = c @ x # join_at x cs"

definition IsAbs :: "string \<Rightarrow> bool" where
  "IsAbs path \<longleftrightarrow> has_prefix ''/'' path"

text \<open>The components kept so far, the last one first.\<close>

definition clean_step :: "bool \<Rightarrow> string \<Rightarrow> string list \<Rightarrow> string list" where
  "clean_step rooted c kept =
     (if c = '''' \<or> c = ''.'' then kept
      else if c = ''..'' then
        (case kept of
           [] \<Rightarrow> if rooted then [] else [c]
         | prev # rest \<Rightarrow> if prev = ''..'' then c # kept else rest)
      else c # kept)"

definition Clean :: "string \<Rightarrow> string" where
  "Clean path =
     (if path = '''' then ''.''
      else let rooted = IsAbs path;
               body = join_at (CHR ''/'') (rev (fold (clean_step rooted) (split_at (CHR ''/'') path) []))
           in if rooted then ''/'' @ body else if body = '''' then ''.'' else body)"

section \<open>Splitting and joining\<close>

lemma split_at_nonempty [simp]: "split_at x s \<noteq> []"
  by (induction s) (auto split: list.splits)

lemma split_at_free: "c \<in> set (split_at x s) \<Longrightarrow> x \<notin> set c"
  by (induction s arbitrary: c) (auto split: list.splits if_splits)

lemma split_at_plain: "x \<notin> set s \<Longrightarrow> split_at x s = [s]"
  by (induction s) auto

lemma split_at_append: "x \<notin> set a \<Longrightarrow> split_at x (a @ x # s) = a # split_at x s"
  by (induction a) auto

lemma split_join:
  assumes "cs \<noteq> []" and "\<forall>c \<in> set cs. x \<notin> set c"
  shows "split_at x (join_at x cs) = cs"
  using assms by (induction x cs rule: join_at.induct) (auto simp: split_at_plain split_at_append)

lemma join_split: "join_at x (split_at x s) = s"
proof (induction s)
  case (Cons c s)
  then show ?case by (cases "split_at x s" rule: remdups_adj.cases) (auto split: list.splits)
qed simp

section \<open>Clean relative paths\<close>

definition proper :: "string \<Rightarrow> bool" where
  "proper c \<longleftrightarrow> c \<noteq> '''' \<and> c \<noteq> ''.'' \<and> c \<noteq> ''..''"

lemma fold_clean:
  assumes "\<exists>names k. kept = names @ replicate k ''..'' \<and> list_all proper names"
  shows "\<exists>names k. fold (clean_step False) cs kept = names @ replicate k ''..'' \<and> list_all proper names"
  using assms
proof (induction cs arbitrary: kept)
  case (Cons c cs)
  then obtain names k where kept: "kept = names @ replicate k ''..''" "list_all proper names" by blast
  have "\<exists>names k. clean_step False c kept = names @ replicate k ''..'' \<and> list_all proper names"
  proof (cases "c = ''..''")
    case True
    show ?thesis
    proof (cases names)
      case Nil
      with True kept have "clean_step False c kept = [] @ replicate (Suc k) ''..''"
        by (cases k) (auto simp: clean_step_def)
      then show ?thesis by (metis list.pred_inject(1))
    next
      case (Cons a as)
      with True kept have "clean_step False c kept = as @ replicate k ''..''" "list_all proper as"
        by (auto simp: clean_step_def proper_def)
      then show ?thesis by blast
    qed
  next
    case False
    show ?thesis
    proof (cases "c = '''' \<or> c = ''.''")
      case True
      with kept show ?thesis by (auto simp: clean_step_def)
    next
      case pr: False
      with False kept have "clean_step False c kept = (c # names) @ replicate k ''..''" "list_all proper (c # names)"
        by (auto simp: clean_step_def proper_def)
      then show ?thesis by blast
    qed
  qed
  then show ?case using Cons.IH by simp
qed simp

lemma fold_clean_free:
  "\<forall>c \<in> set cs. x \<notin> set c \<Longrightarrow> \<forall>c \<in> set kept. x \<notin> set c \<Longrightarrow> \<forall>c \<in> set (fold (clean_step rooted) cs kept). x \<notin> set c"
proof (induction cs arbitrary: kept)
  case (Cons c cs)
  then have "\<forall>d \<in> set (clean_step rooted c kept). x \<notin> set d"
    by (auto simp: clean_step_def split: list.splits if_splits)
  with Cons show ?case by simp
qed simp

lemma clean_components:
  assumes "Clean path = path" and "\<not> IsAbs path" and "path \<noteq> ''.''" and "path \<noteq> ''..''" and "\<not> has_prefix ''../'' path"
  shows "list_all proper (split_at (CHR ''/'') path)"
proof -
  let ?cs = "rev (fold (clean_step False) (split_at (CHR ''/'') path) [])"
  obtain names k where cs: "?cs = replicate k ''..'' @ rev names" and names: "list_all proper names"
    using fold_clean [of "[]" "split_at (CHR ''/'') path"] by (metis append_Nil list.pred_inject(1) replicate_0 rev_append rev_replicate)
  have "path \<noteq> ''''" using assms(1,3) by (auto simp: Clean_def)
  then have path: "path = join_at (CHR ''/'') ?cs" "?cs \<noteq> []"
    using assms(1-3) by (auto simp: Clean_def Let_def split: if_splits)
  have "\<forall>c \<in> set ?cs. CHR ''/'' \<notin> set c"
    using fold_clean_free [of "split_at (CHR ''/'') path" "CHR ''/''" "[]"] split_at_free by auto
  with path have comps: "split_at (CHR ''/'') path = ?cs" by (metis split_join)
  have "k = 0"
  proof (rule ccontr)
    assume "k \<noteq> 0"
    then obtain rest where "?cs = ''..'' # rest" using cs by (cases k) auto
    with path(1) assms(4,5) show False by (cases rest) (auto simp: has_prefix_def)
  qed
  with comps cs names show ?thesis by simp
qed

end
