(* ===== verification/Config.thy ===== *)
theory Config
  imports Domain JSON_RoundTrip Go_Sha256 Go_Path
begin

text \<open>
  Project configuration (\<^verbatim>\<open>internal/config/config.go\<close>): machine limits, project policy and the overrides a
  ticket may ask for, their resolution into an effective policy, and the canonical snapshot by which a
  policy is frozen onto a ticket. Durations are nanoseconds; \<open>int\<close>, \<open>int64\<close> and durations are integers,
  and only the decoder has to know that they have 64 bits.
\<close>

section \<open>Values\<close>

text \<open>An error is its format text with the values formatted into it.\<close>

datatype config_error = ConfigError string "string list"

record Command =
  Argv :: "string list"

record Commands =
  Verify :: Command
  Review :: Command

record ProviderOrder =
  Planner :: "string list"
  Builder :: "string list"
  Reviewer :: "string list"

record MachineLimits =
  m_MaxConcurrentTickets :: int
  m_MaxPhaseTimeout :: int
  m_MaxTicketTimeout :: int
  m_MaxTicketCostMicroUSD :: int
  m_AllowAutonomous :: bool

record ConfigProject =
  c_Name :: string
  c_Repository :: string
  c_BaseBranch :: string
  c_MergeMode :: string
  c_MergeMethod :: string
  c_MaxConcurrentTickets :: int
  c_PhaseTimeout :: int
  c_TicketTimeout :: int
  c_MaxTicketCostMicroUSD :: int
  c_Commands :: Commands
  c_Providers :: ProviderOrder

record TicketOverride =
  o_MergeMode :: string
  o_PhaseTimeout :: int
  o_TicketTimeout :: int
  o_MaxCostMicroUSD :: int

record Effective =
  ef_Project :: ConfigProject
  ef_Machine :: MachineLimits

definition minute :: int where
  "minute = 60 * 1000000000"

definition DefaultMachineLimits :: MachineLimits where
  "DefaultMachineLimits =
     \<lparr>m_MaxConcurrentTickets = 2, m_MaxPhaseTimeout = 45 * minute, m_MaxTicketTimeout = 240 * minute,
      m_MaxTicketCostMicroUSD = 100000000, m_AllowAutonomous = False\<rparr>"

definition DefaultProject :: "string \<Rightarrow> string \<Rightarrow> ConfigProject" where
  "DefaultProject name repository =
     \<lparr>c_Name = name, c_Repository = repository, c_BaseBranch = ''main'', c_MergeMode = MergeGuarded,
      c_MergeMethod = ''squash'', c_MaxConcurrentTickets = 2, c_PhaseTimeout = 45 * minute,
      c_TicketTimeout = 240 * minute, c_MaxTicketCostMicroUSD = 100000000,
      c_Commands = \<lparr>Verify = \<lparr>Argv = [''go'', ''test'', ''./...'']\<rparr>, Review = \<lparr>Argv = [''go'', ''test'', ''./...'']\<rparr>\<rparr>,
      c_Providers = \<lparr>Planner = [''codex''], Builder = [''codex''], Reviewer = [''codex'']\<rparr>\<rparr>"

definition no_override :: TicketOverride where
  "no_override = \<lparr>o_MergeMode = '''', o_PhaseTimeout = 0, o_TicketTimeout = 0, o_MaxCostMicroUSD = 0\<rparr>"

section \<open>Validation\<close>

text \<open>\<open>ValidTestPath\<close> of \<^verbatim>\<open>internal/nysapure/validate.go\<close>; a component that is a dot or two dots begins with a dot.\<close>

definition ValidTestPath :: "string \<Rightarrow> bool" where
  "ValidTestPath path \<longleftrightarrow>
     path \<noteq> '''' \<and> length path \<le> 512 \<and> \<not> has_prefix ''/'' path \<and> CHR 0x5C \<notin> set path \<and> CHR 0x00 \<notin> set path \<and>
     Clean path = path \<and> has_suffix ''.test.ts'' path \<and>
     2 \<le> length (split_at (CHR ''/'') path) \<and>
     list_all (\<lambda>part. part \<noteq> '''' \<and> part \<noteq> ''node_modules'' \<and> \<not> has_prefix ''.'' part) (split_at (CHR ''/'') path)"

fun check_args :: "string \<Rightarrow> int \<Rightarrow> string list \<Rightarrow> config_error option" where
  "check_args name used [] = None"
| "check_args name used (arg # args) =
     (if CHR 0x00 \<in> set arg then Some (ConfigError ''command %s contains a NUL byte'' [name])
      else if used + int (length arg) > 16 * 1024
        then Some (ConfigError ''command %s exceeds the argv size limit'' [name])
      else check_args name (used + int (length arg)) args)"

definition Command_Validate :: "string \<Rightarrow> Command \<Rightarrow> config_error option" where
  "Command_Validate name c =
     (if Argv c = [] \<or> 64 < length (Argv c) \<or> TrimSpace (Argv c ! 0) = ''''
        then Some (ConfigError ''command %s requires a non-empty argv'' [name])
      else case check_args name 0 (Argv c) of
        Some e \<Rightarrow> Some e
      | None \<Rightarrow>
          if 2 \<le> length (Argv c) \<and> Argv c ! 0 = ''node'' \<and> Argv c ! 1 = ''--sf-nysa-api-pure-v1'' \<and>
             (length (Argv c) \<noteq> 3 \<or> \<not> ValidTestPath (Argv c ! 2))
          then Some (ConfigError ''command %s has an invalid nysa_api_pure_v1 test path'' [name]) else None)"

definition validateMachine :: "MachineLimits \<Rightarrow> config_error option" where
  "validateMachine machine =
     (if m_MaxConcurrentTickets machine < 1 then Some (ConfigError ''machine concurrency must be at least one'' [])
      else if m_MaxPhaseTimeout machine \<le> 0 \<or> m_MaxTicketTimeout machine \<le> 0
        then Some (ConfigError ''machine timeouts must be positive'' [])
      else if m_MaxPhaseTimeout machine > m_MaxTicketTimeout machine
        then Some (ConfigError ''machine phase timeout exceeds ticket timeout'' [])
      else if m_MaxTicketCostMicroUSD machine \<le> 0
        then Some (ConfigError ''machine cost ceiling must be positive'' [])
      else None)"

text \<open>The pattern \<^verbatim>\<open>^[a-z][a-z0-9-]{0,47}$\<close> of project and provider names.\<close>

definition name_char :: "char \<Rightarrow> bool" where
  "name_char c \<longleftrightarrow> byte_between (CHR ''a'') (CHR ''z'') c \<or> byte_between (CHR ''0'') (CHR ''9'') c \<or> c = CHR ''-''"

definition name_pattern :: "string \<Rightarrow> bool" where
  "name_pattern s \<longleftrightarrow>
     s \<noteq> '''' \<and> length s \<le> 48 \<and> byte_between (CHR ''a'') (CHR ''z'') (hd s) \<and> list_all name_char (tl s)"

definition validBaseBranch :: "string \<Rightarrow> bool" where
  "validBaseBranch branch \<longleftrightarrow>
     \<not> (branch = '''' \<or> 255 < length branch \<or> has_prefix ''-'' branch \<or> has_prefix ''.'' branch \<or>
        has_prefix ''refs/'' branch \<or> has_suffix ''.'' branch \<or> has_suffix ''/'' branch \<or> has_suffix ''.lock'' branch) \<and>
     \<not> (str_contains ''..'' branch \<or> str_contains [CHR ''@'', CHR 0x7B] branch \<or>
        list_ex (\<lambda>c. c \<in> set ('' ~^:?*['' @ [CHR 0x5C, CHR 0x00, CHR 0x0D, CHR 0x0A, CHR 0x09])) branch \<or>
        str_contains ''//'' branch) \<and>
     list_all (\<lambda>part. part \<noteq> '''' \<and> \<not> has_prefix ''.'' part \<and> \<not> has_suffix ''.'' part \<and> \<not> has_suffix ''.lock'' part)
       (split_at (CHR ''/'') branch)"

text \<open>
  The provider orders. Go visits the three roles in no fixed order, so with several faulty roles any of
  their errors may be the one returned; here it is the first.
\<close>

fun check_providers :: "string \<Rightarrow> string list \<Rightarrow> string list \<Rightarrow> config_error option" where
  "check_providers role seen [] = None"
| "check_providers role seen (p # ps) =
     (if \<not> name_pattern p then Some (ConfigError ''%s provider %q is invalid'' [role, p])
      else if p \<in> set seen then Some (ConfigError ''%s provider %q is duplicated'' [role, p])
      else check_providers role (p # seen) ps)"

fun first_error :: "config_error option list \<Rightarrow> config_error option" where
  "first_error [] = None"
| "first_error (Some e # rest) = Some e"
| "first_error (None # rest) = first_error rest"

definition validateProject :: "MachineLimits \<Rightarrow> ConfigProject \<Rightarrow> config_error option" where
  "validateProject machine project =
     (if \<not> name_pattern (c_Name project) \<or> TrimSpace (c_Repository project) = ''''
        then Some (ConfigError ''project name and repository are required'' [])
      else if \<not> validBaseBranch (c_BaseBranch project) then Some (ConfigError ''project base branch is required'' [])
      else if \<not> MergeMode_Valid (c_MergeMode project)
        then Some (ConfigError ''invalid project merge mode %q'' [c_MergeMode project])
      else if c_MergeMode project = MergeAutonomous \<and> \<not> m_AllowAutonomous machine
        then Some (ConfigError ''machine policy disables autonomous mode'' [])
      else if c_MergeMethod project \<notin> {''merge'', ''squash'', ''rebase''}
        then Some (ConfigError ''invalid merge method %q'' [c_MergeMethod project])
      else if c_MaxConcurrentTickets project < 1 \<or> c_MaxConcurrentTickets project > m_MaxConcurrentTickets machine
        then Some (ConfigError ''project concurrency exceeds machine bounds'' [])
      else if c_PhaseTimeout project \<le> 0 \<or> c_PhaseTimeout project > m_MaxPhaseTimeout machine
        then Some (ConfigError ''project phase timeout exceeds machine bounds'' [])
      else if c_MaxTicketCostMicroUSD project \<le> 0 \<or> c_MaxTicketCostMicroUSD project > m_MaxTicketCostMicroUSD machine
        then Some (ConfigError ''project cost ceiling exceeds machine bounds'' [])
      else if c_TicketTimeout project \<le> 0 \<or> c_TicketTimeout project > m_MaxTicketTimeout machine \<or>
          c_PhaseTimeout project > c_TicketTimeout project
        then Some (ConfigError ''project ticket timeout exceeds machine bounds'' [])
      else first_error
        [Command_Validate ''verify'' (Verify (c_Commands project)),
         Command_Validate ''review'' (Review (c_Commands project)),
         if Planner (c_Providers project) = [] \<or> Builder (c_Providers project) = [] \<or> Reviewer (c_Providers project) = []
           then Some (ConfigError ''planner, builder, and reviewer provider orders are required'' []) else None,
         check_providers ''planner'' [] (Planner (c_Providers project)),
         check_providers ''builder'' [] (Builder (c_Providers project)),
         check_providers ''reviewer'' [] (Reviewer (c_Providers project))])"

definition mergeRank :: "string \<Rightarrow> int" where
  "mergeRank mode =
     (if mode = MergeManual then 0 else if mode = MergeGuarded then 1 else if mode = MergeAutonomous then 2 else 99)"

section \<open>Resolution\<close>

definition Resolve :: "MachineLimits \<Rightarrow> ConfigProject \<Rightarrow> TicketOverride \<Rightarrow> config_error + Effective" where
  "Resolve machine project0 ticket =
     (case validateMachine machine of
        Some e \<Rightarrow> Inl e
      | None \<Rightarrow>
        (let project = (if c_MaxTicketCostMicroUSD project0 = 0
               then project0\<lparr>c_MaxTicketCostMicroUSD := m_MaxTicketCostMicroUSD machine\<rparr> else project0) in
         case validateProject machine project of
           Some e \<Rightarrow> Inl e
         | None \<Rightarrow>
           if o_MergeMode ticket \<noteq> '''' \<and> \<not> MergeMode_Valid (o_MergeMode ticket)
             then Inl (ConfigError ''invalid ticket merge mode %q'' [o_MergeMode ticket])
           else if o_MergeMode ticket \<noteq> '''' \<and> mergeRank (o_MergeMode ticket) > mergeRank (c_MergeMode project)
             then Inl (ConfigError ''ticket merge mode %q exceeds project maximum %q''
               [o_MergeMode ticket, c_MergeMode project])
           else if o_PhaseTimeout ticket > 0 \<and> o_PhaseTimeout ticket > c_PhaseTimeout project
             then Inl (ConfigError ''ticket phase timeout exceeds project maximum'' [])
           else if o_TicketTimeout ticket > 0 \<and> o_TicketTimeout ticket > c_TicketTimeout project
             then Inl (ConfigError ''ticket timeout exceeds project maximum'' [])
           else if o_MaxCostMicroUSD ticket > 0 \<and> o_MaxCostMicroUSD ticket > c_MaxTicketCostMicroUSD project
             then Inl (ConfigError ''ticket cost ceiling exceeds project maximum'' [])
           else if o_MaxCostMicroUSD ticket < 0
             then Inl (ConfigError ''ticket cost ceiling cannot be negative'' [])
           else Inr \<lparr>ef_Project = project\<lparr>
               c_MergeMode := (if o_MergeMode ticket \<noteq> '''' then o_MergeMode ticket else c_MergeMode project),
               c_PhaseTimeout := (if o_PhaseTimeout ticket > 0 then o_PhaseTimeout ticket else c_PhaseTimeout project),
               c_TicketTimeout := (if o_TicketTimeout ticket > 0 then o_TicketTimeout ticket else c_TicketTimeout project),
               c_MaxTicketCostMicroUSD := (if o_MaxCostMicroUSD ticket > 0 then o_MaxCostMicroUSD ticket
                 else c_MaxTicketCostMicroUSD project)\<rparr>,
             ef_Machine = machine\<rparr>))"

section \<open>Snapshots\<close>

definition command_json :: "Command \<Rightarrow> json" where
  "command_json c = JObj [(''argv'', json_strings (Argv c))]"

definition commands_json :: "Commands \<Rightarrow> json" where
  "commands_json c = JObj [(''verify'', command_json (Verify c)), (''review'', command_json (Review c))]"

definition providers_json :: "ProviderOrder \<Rightarrow> json" where
  "providers_json p =
     JObj [(''planner'', json_strings (Planner p)), (''builder'', json_strings (Builder p)),
           (''reviewer'', json_strings (Reviewer p))]"

definition machine_json :: "MachineLimits \<Rightarrow> json" where
  "machine_json m =
     JObj [(''max_concurrent_tickets'', JNum (print_int (m_MaxConcurrentTickets m))),
           (''max_phase_timeout'', JNum (print_int (m_MaxPhaseTimeout m))),
           (''max_ticket_timeout'', JNum (print_int (m_MaxTicketTimeout m))),
           (''max_ticket_cost_micro_usd'', JNum (print_int (m_MaxTicketCostMicroUSD m))),
           (''allow_autonomous'', JBool (m_AllowAutonomous m))]"

text \<open>The fields of the embedded project come first, without a level of their own.\<close>

definition effective_json :: "Effective \<Rightarrow> json" where
  "effective_json e =
     (let p = ef_Project e in
      JObj [(''name'', JStr (c_Name p)), (''repository'', JStr (c_Repository p)),
            (''base_branch'', JStr (c_BaseBranch p)), (''merge_mode'', JStr (c_MergeMode p)),
            (''merge_method'', JStr (c_MergeMethod p)),
            (''max_concurrent_tickets'', JNum (print_int (c_MaxConcurrentTickets p))),
            (''phase_timeout'', JNum (print_int (c_PhaseTimeout p))),
            (''ticket_timeout'', JNum (print_int (c_TicketTimeout p))),
            (''max_ticket_cost_micro_usd'', JNum (print_int (c_MaxTicketCostMicroUSD p))),
            (''commands'', commands_json (c_Commands p)), (''providers'', providers_json (c_Providers p)),
            (''machine'', machine_json (ef_Machine e))])"

definition Snapshot :: "Effective \<Rightarrow> string \<times> string" where
  "Snapshot e = (let data = print_json (effective_json e) in (data, sha256_hex data))"

text \<open>Decoding: a field decodes a value over the one the record holds.\<close>

definition at_field ::
  "('r \<Rightarrow> 'v) \<Rightarrow> ('v \<Rightarrow> 'r \<Rightarrow> 'r) \<Rightarrow> (json \<Rightarrow> 'v \<Rightarrow> 'v option) \<Rightarrow> json \<Rightarrow> 'r \<Rightarrow> 'r option" where
  "at_field get put dec j r = map_option (\<lambda>v. put v r) (dec j (get r))"

definition decode_command :: "json \<Rightarrow> Command \<Rightarrow> Command option" where
  "decode_command = decode_struct True [(''argv'', at_field Argv (\<lambda>v. Argv_update (\<lambda>_. v)) decode_strings)]"

definition decode_commands :: "json \<Rightarrow> Commands \<Rightarrow> Commands option" where
  "decode_commands = decode_struct True
     [(''verify'', at_field Verify (\<lambda>v. Verify_update (\<lambda>_. v)) decode_command),
      (''review'', at_field Review (\<lambda>v. Review_update (\<lambda>_. v)) decode_command)]"

definition decode_providers :: "json \<Rightarrow> ProviderOrder \<Rightarrow> ProviderOrder option" where
  "decode_providers = decode_struct True
     [(''planner'', at_field Planner (\<lambda>v. Planner_update (\<lambda>_. v)) decode_strings),
      (''builder'', at_field Builder (\<lambda>v. Builder_update (\<lambda>_. v)) decode_strings),
      (''reviewer'', at_field Reviewer (\<lambda>v. Reviewer_update (\<lambda>_. v)) decode_strings)]"

definition decode_machine :: "json \<Rightarrow> MachineLimits \<Rightarrow> MachineLimits option" where
  "decode_machine = decode_struct True
     [(''max_concurrent_tickets'', at_field m_MaxConcurrentTickets (\<lambda>v. m_MaxConcurrentTickets_update (\<lambda>_. v)) decode_int),
      (''max_phase_timeout'', at_field m_MaxPhaseTimeout (\<lambda>v. m_MaxPhaseTimeout_update (\<lambda>_. v)) decode_int),
      (''max_ticket_timeout'', at_field m_MaxTicketTimeout (\<lambda>v. m_MaxTicketTimeout_update (\<lambda>_. v)) decode_int),
      (''max_ticket_cost_micro_usd'', at_field m_MaxTicketCostMicroUSD (\<lambda>v. m_MaxTicketCostMicroUSD_update (\<lambda>_. v)) decode_int),
      (''allow_autonomous'', at_field m_AllowAutonomous (\<lambda>v. m_AllowAutonomous_update (\<lambda>_. v)) decode_bool)]"

definition project_field ::
  "(ConfigProject \<Rightarrow> 'v) \<Rightarrow> (('v \<Rightarrow> 'v) \<Rightarrow> ConfigProject \<Rightarrow> ConfigProject) \<Rightarrow> (json \<Rightarrow> 'v \<Rightarrow> 'v option) \<Rightarrow>
     json \<Rightarrow> Effective \<Rightarrow> Effective option" where
  "project_field get update dec =
     at_field (\<lambda>e. get (ef_Project e)) (\<lambda>v e. e\<lparr>ef_Project := update (\<lambda>_. v) (ef_Project e)\<rparr>) dec"

definition decode_effective :: "json \<Rightarrow> Effective \<Rightarrow> Effective option" where
  "decode_effective = decode_struct True
     [(''name'', project_field c_Name c_Name_update decode_string),
      (''repository'', project_field c_Repository c_Repository_update decode_string),
      (''base_branch'', project_field c_BaseBranch c_BaseBranch_update decode_string),
      (''merge_mode'', project_field c_MergeMode c_MergeMode_update decode_string),
      (''merge_method'', project_field c_MergeMethod c_MergeMethod_update decode_string),
      (''max_concurrent_tickets'', project_field c_MaxConcurrentTickets c_MaxConcurrentTickets_update decode_int),
      (''phase_timeout'', project_field c_PhaseTimeout c_PhaseTimeout_update decode_int),
      (''ticket_timeout'', project_field c_TicketTimeout c_TicketTimeout_update decode_int),
      (''max_ticket_cost_micro_usd'', project_field c_MaxTicketCostMicroUSD c_MaxTicketCostMicroUSD_update decode_int),
      (''commands'', project_field c_Commands c_Commands_update decode_commands),
      (''providers'', project_field c_Providers c_Providers_update decode_providers),
      (''machine'', at_field ef_Machine (\<lambda>v. ef_Machine_update (\<lambda>_. v)) decode_machine)]"

definition zero_effective :: Effective where
  "zero_effective =
     \<lparr>ef_Project = \<lparr>c_Name = '''', c_Repository = '''', c_BaseBranch = '''', c_MergeMode = '''', c_MergeMethod = '''',
        c_MaxConcurrentTickets = 0, c_PhaseTimeout = 0, c_TicketTimeout = 0, c_MaxTicketCostMicroUSD = 0,
        c_Commands = \<lparr>Verify = \<lparr>Argv = []\<rparr>, Review = \<lparr>Argv = []\<rparr>\<rparr>,
        c_Providers = \<lparr>Planner = [], Builder = [], Reviewer = []\<rparr>\<rparr>,
      ef_Machine = \<lparr>m_MaxConcurrentTickets = 0, m_MaxPhaseTimeout = 0, m_MaxTicketTimeout = 0,
        m_MaxTicketCostMicroUSD = 0, m_AllowAutonomous = False\<rparr>\<rparr>"

definition MaxFileBytes :: int where
  "MaxFileBytes = 64 * 1024"

text \<open>
  The two tests on the form of the digest, lower case and hexadecimal, are one here and share an error.
  A text with something behind the first value fails the validity check of \<open>json_parse\<close>.
\<close>

definition DecodeSnapshot :: "string \<Rightarrow> string \<Rightarrow> config_error + Effective" where
  "DecodeSnapshot data wantDigest =
     (if data = [] \<or> MaxFileBytes < int (length data) \<or> length wantDigest \<noteq> 64 \<or> \<not> list_all lower_hex wantDigest
        then Inl (ConfigError ''complete canonical configuration snapshot is required'' [])
      else if sha256_hex data \<noteq> wantDigest
        then Inl (ConfigError ''configuration snapshot digest does not match'' [])
      else case Option.bind (json_parse data) (\<lambda>j. decode_effective j zero_effective) of
        None \<Rightarrow> Inl (ConfigError ''decode configuration snapshot'' [])
      | Some v \<Rightarrow>
          (case Resolve (ef_Machine v) (ef_Project v) no_override of
             Inl e \<Rightarrow> Inl (ConfigError ''validate configuration snapshot'' [])
           | Inr resolved \<Rightarrow>
               if fst (Snapshot resolved) \<noteq> data
               then Inl (ConfigError ''configuration snapshot is not canonical'' []) else Inr resolved))"

end
