(* ===== verification/StoreCore.thy ===== *)
theory StoreCore
  imports Config
begin

text \<open>
  The durable state that the Store keeps in SQLite and the in-memory gate beside it, with the
  transaction wrapper and the fence checks every operation shares
  (\<^verbatim>\<open>internal/store/store.go\<close>, \<^verbatim>\<open>internal/store/effects.go\<close>, \<^verbatim>\<open>internal/store/mutation_guard.go\<close>).

  A table is a list of rows (theory SF_Prelude). Timestamp columns and the daemon's
  identity text are left out, but for the creation time of a ticket and the acquisition time of a
  lease: no other modelled condition reads them. Counters are 64-bit words on both
  sides of the SQL boundary; SQLite and the words agree up to \<open>2 ^ 63 - 1\<close>.
\<close>

section \<open>Errors\<close>

text \<open>
  The sentinel errors of the package, the errors of callees, the errors SQLite itself raises
  (a missing row, a violated constraint), the cancellation of a blocked lock, and the free-text errors with their text. The argument
  of \<open>ErrEffectKey\<close> and \<open>ErrEffectBusy\<close> is the text a wrapping \<open>fmt.Errorf\<close> appends, empty for the
  bare sentinel; \<open>ErrState\<close> is a text with a quoted state; \<open>ErrJoined\<close> is \<open>errors.Join\<close>.
\<close>

datatype store_error =
    ErrStaleFence
  | ErrNotFound
  | ErrBlocked
  | ErrStaleObservation
  | ErrEffectBusy string
  | ErrEffectKey string
  | ErrEvidenceConflict
  | ErrBudgetExhausted
  | ErrPublicationEvidence
  | ErrProjectRemoved
  | ErrControlNotDrained
  | ErrReadOnly
  | ErrLeaseCapacity string string int
  | ErrLeaseAdoption
  | ErrRepositoryCommandLease
  | ErrStartState string
  | ErrExternalCleanupUncertain
  | ErrRef ref_error
  | ErrNoRows
  | ErrConstraint string
  | ErrContextDone
  | ErrNilGate
  | ErrMessage string
  | ErrState string string
  | ErrJoined store_error store_error
  | ErrBusy
  | ErrTerminalReplay
  | ErrProjectConflict
  | ErrProjectRemovalBlocked
  | ErrProjectLifecycleChanged
  | ErrStartConfigurationChanged
  | ErrConfig config_error
  | ErrProviderAttempt
  | ErrProviderAttemptReusable
  | ErrProviderAttemptLimit
  | ErrProviderCapacity
  | ErrProviderDrain
  | ErrProviderPairRefused
  | ErrProviderRepairUnavailable
  | ErrProviderResultIndeterminate
  | ErrProviderServerRejection
  | ErrProviderRetryBackoff int
  | ErrProviderRecoveryBlocked
  | ErrGitMutationIntent
  | ErrGitMutationLease
  | ErrGitMutationContended
  | ErrRepositoryCommandIntent
  | ErrRepositoryCommandContended
  | ErrRepositoryCommandResult
  | ErrBranchConflict

section \<open>Rows and tables\<close>

record daemon_row =
  d_Channel :: string
  d_LeaderEpoch :: u64
  d_RecoveryKey :: string

record project_row =
  p_Channel :: string
  p_ID :: string
  p_Lifecycle :: string
  p_Path :: string
  p_BaseRef :: string
  p_ConfigGeneration :: u64
  p_RegistrationGeneration :: u64

record configuration_row =
  pc_Channel :: string
  pc_Project :: string
  pc_Generation :: u64
  pc_Digest :: string
  pc_Snapshot :: string

text \<open>\<open>resume_state\<close> is the only nullable column that the modelled code reads.\<close>

record ticket_row =
  t_Ref :: TicketRef
  t_State :: string
  t_ResumeState :: "string option"
  t_Version :: u64
  t_RunnerEpoch :: u64
  t_WorkflowID :: string
  t_SourceDigest :: string
  t_Type :: string
  t_MergeMode :: string
  t_BlockedCode :: string
  t_Title :: string
  t_Problem :: string
  t_AcceptanceJSON :: string
  t_Source :: string
  t_Priority :: string
  t_CreatedAt :: int
  t_MaxDuration :: int
  t_MaxCostMicroUSD :: int
  t_ConfigGeneration :: u64
  t_ConfigDigest :: string
  t_ConfigSnapshot :: string

record owner_row =
  o_Ref :: TicketRef
  o_WorkflowID :: string
  o_State :: string

record phase_run_row =
  pr_Ref :: TicketRef
  pr_Phase :: string
  pr_Attempt :: int
  pr_State :: string
  pr_LeaderEpoch :: u64
  pr_RunnerEpoch :: u64
  pr_ExpectedTicketVersion :: u64
  pr_Outcome :: string
  pr_Identity :: ProviderIdentity
  pr_WorktreeIdentity :: string
  pr_BaseSHA :: string
  pr_Completed :: bool

record event_row =
  ev_ID :: int
  ev_Ref :: TicketRef
  ev_TicketVersion :: u64
  ev_Trigger :: string
  ev_From :: string
  ev_To :: string
  ev_Payload :: string

record Effect =
  e_SemanticKey :: string
  e_Ref :: TicketRef
  e_Kind :: string
  e_State :: string
  e_TicketVersion :: u64
  e_LeaderEpoch :: u64
  e_RunnerEpoch :: u64
  e_ClaimEpoch :: u64
  e_RequestDigest :: string
  e_ObservedIdentity :: string

record mutationRevocation =
  mr_version :: u64
  mr_leader :: u64
  mr_runner :: u64

record control_row =
  c_Ref :: TicketRef
  c_State :: string
  c_Generation :: u64
  c_Stop :: mutationRevocation
  c_Authority :: mutationRevocation

record lease_row =
  l_Ref :: TicketRef
  l_Scope :: string
  l_ScopeKey :: string
  l_RunnerEpoch :: u64
  l_AcquiredAt :: int

text \<open>
  The three tables of live writers share the columns that the other components count by: provider
  attempts, repository-command leases and Git-mutation leases.
\<close>

record writer_row =
  w_Ref :: TicketRef
  w_State :: string
  w_LaunchState :: string
  w_Repository :: string

text \<open>
  An attempt of a provider at a phase. Its binding is kept as the four names of the provider, the
  digest of the full binding, and the digest and mode of its authentication. Of the finishing time only
  whether it is set is kept.
\<close>

record attempt_row = writer_row +
  pa_ID :: int
  pa_Phase :: string
  pa_Attempt :: int
  pa_Role :: string
  pa_Identity :: ProviderIdentity
  pa_Outcome :: string
  pa_UsageUnits :: int
  pa_Finished :: bool
  pa_QualificationID :: "int option"
  pa_BindingDigest :: string
  pa_LeaseKey :: string
  pa_LeaderEpoch :: u64
  pa_RunnerEpoch :: u64
  pa_ExpectedVersion :: u64
  pa_Worktree :: string
  pa_WorktreeIdentity :: string
  pa_BaseSHA :: string
  pa_SupervisorKey :: string
  pa_AuthDigest :: string
  pa_AuthMode :: string
  pa_PID :: int
  pa_PGID :: int
  pa_BootIdentity :: string
  pa_StartIdentity :: string

text \<open>The launch input of an attempt, and the phase entry an attempt was admitted to.\<close>

record attempt_input_row =
  ai_AttemptID :: int
  ai_RequestDigest :: string
  ai_CanonicalInput :: string

record attempt_entry_row =
  ae_AttemptID :: int
  ae_Ref :: TicketRef
  ae_Phase :: string
  ae_Role :: string
  ae_Attempt :: int
  ae_EntryVersion :: u64

text \<open>The evidence of a completed attempt, and the reason of an attempt with an invalid artifact.\<close>

record attempt_result_row =
  ar_AttemptID :: int
  ar_Ref :: TicketRef
  ar_Phase :: string
  ar_Role :: string
  ar_Attempt :: int
  ar_Identity :: ProviderIdentity
  ar_RequestDigest :: string
  ar_LeaderEpoch :: u64
  ar_RunnerEpoch :: u64
  ar_ExpectedVersion :: u64
  ar_Repository :: string
  ar_Worktree :: string
  ar_WorktreeIdentity :: string
  ar_BaseSHA :: string
  ar_RawArtifact :: string
  ar_RawSHA256 :: string
  ar_TypedArtifact :: string
  ar_TypedSHA256 :: string
  ar_Validation :: string
  ar_ValidationSHA256 :: string
  ar_TranscriptSHA256 :: string

record artifact_failure_row =
  af_AttemptID :: int
  af_Ref :: TicketRef
  af_Phase :: string
  af_Role :: string
  af_Attempt :: int
  af_RequestDigest :: string
  af_LeaderEpoch :: u64
  af_RunnerEpoch :: u64
  af_ExpectedVersion :: u64
  af_Reason :: string
  af_Digest :: string

text \<open>The operator's consent to estimated accounting, and the estimates reported under it.\<close>

record accounting_policy_row =
  ap_Ref :: TicketRef
  ap_Policy :: string
  ap_RequestLimit :: int
  ap_RequestTimeout :: int
  ap_EstimateLimit :: int

record cost_estimate_row =
  ce_AttemptID :: int
  ce_Ref :: TicketRef
  ce_Estimate :: "int option"

text \<open>The signed receipt of a request that the provider's server rejected, with the time the retry may start.\<close>

record rejection_row =
  sj_AttemptID :: int
  sj_Ref :: TicketRef
  sj_Phase :: string
  sj_Role :: string
  sj_Attempt :: int
  sj_Receipt :: string
  sj_Digest :: string
  sj_Observed :: int
  sj_Deadline :: int

text \<open>A qualified provider runtime, the pair of roles selected for a channel, and the worktree of a ticket.\<close>

record qualification_row =
  q_ID :: int
  q_Channel :: string
  q_RunID :: string
  q_Identity :: ProviderIdentity
  q_BinaryDigest :: string
  q_PolicyDigest :: string
  q_FixtureDigest :: string
  q_Profile :: string
  q_AuthDigest :: string
  q_AuthMode :: string
  q_ProbeDigest :: string
  q_AttestedLeader :: u64
  q_Signature :: string
  q_CreatedUnixNanos :: int

record pair_selection_row =
  ps_Channel :: string
  ps_Planner :: "int option"
  ps_Builder :: int
  ps_Reviewer :: int

record worktree_row =
  wt_Ref :: TicketRef
  wt_Path :: string
  wt_IdentityJSON :: string
  wt_BaseSHA :: string
  wt_BranchRef :: string

text \<open>Of an authoring turn the modelled code reads the project of its session and its state.\<close>

record authoring_turn_row =
  au_Channel :: string
  au_Project :: string
  au_State :: string

text \<open>
  The entry into a phase that a provider works on, and the bootstrap endpoint of a workflow. The digest
  columns of both are functions of the other columns and of the time, and are left out with the time.
\<close>

record phase_entry_row =
  pe_Ref :: TicketRef
  pe_Phase :: string
  pe_Version :: u64
  pe_EventID :: int
  pe_Leader :: u64
  pe_Runner :: u64
  pe_From :: string
  pe_State :: string
  pe_Trigger :: string

record start_authority_row =
  sa_Ref :: TicketRef
  sa_Version :: u64
  sa_Runner :: u64
  sa_Leader :: u64
  sa_WorkflowID :: string

record execution_policy_row =
  xp_Ref :: TicketRef
  xp_Endpoint :: string
  xp_StartVersion :: u64

text \<open>Of a stored merge intent the modelled code reads the ticket and the effect it belongs to.\<close>

record merge_intent_row =
  mn_SemanticKey :: string
  mn_Ref :: TicketRef

text \<open>
  The claims of the two other repository writers. A Git intent and a repository command intent repeat their claim
  in the columns of their row; a lease repeats it beside the state of its process.
\<close>

record GitMutationClaim =
  gm_Ref :: TicketRef
  gm_SemanticKey :: string
  gm_RequestDigest :: string
  gm_TicketVersion :: u64
  gm_LeaderEpoch :: u64
  gm_RunnerEpoch :: u64
  gm_ClaimEpoch :: u64
  gm_Repository :: string
  gm_Worktree :: string
  gm_Branch :: string
  gm_Operation :: string
  gm_BaseRef :: string
  gm_ExpectedBaseOID :: string
  gm_ExpectedHeadOID :: string

record git_intent_row = GitMutationClaim +
  gi_PreparedCommit :: string
  gi_PreparedTree :: string
  gi_PriorObserved :: int
  gi_PriorOID :: string

record git_lease_row = writer_row +
  gl_Nonce :: string
  gl_Claim :: GitMutationClaim
  gl_PID :: int
  gl_PGID :: int
  gl_BootIdentity :: string
  gl_StartIdentity :: string
  gl_PreparedCommit :: string
  gl_PreparedTree :: string
  gl_PriorObserved :: int
  gl_PriorOID :: string
  gl_ObservationOnly :: bool

record RepositoryCommandClaim =
  kc_Ref :: TicketRef
  kc_SemanticKey :: string
  kc_RequestDigest :: string
  kc_TicketVersion :: u64
  kc_LeaderEpoch :: u64
  kc_RunnerEpoch :: u64
  kc_ClaimEpoch :: u64
  kc_Repository :: string
  kc_Worktree :: string
  kc_WorktreeIdentity :: string
  kc_Branch :: string
  kc_BaseRef :: string
  kc_BaseSHA :: string
  kc_CommandDigest :: string
  kc_SpecDigest :: string
  kc_PolicyDigest :: string
  kc_ExecutablePath :: string
  kc_ExecutableDigest :: string

record command_lease_row = writer_row +
  kl_Nonce :: string
  kl_Claim :: RepositoryCommandClaim
  kl_PID :: int
  kl_PGID :: int
  kl_BootIdentity :: string
  kl_StartIdentity :: string

record process_group_row =
  pg_Repository :: string
  pg_SemanticKey :: string
  pg_Nonce :: string
  pg_PID :: int
  pg_PGID :: int
  pg_BootIdentity :: string
  pg_StartIdentity :: string

record command_result_row = RepositoryCommandClaim +
  kr_ExitCode :: int
  kr_Stdout :: string
  kr_Stderr :: string
  kr_LastMessage :: string
  kr_StdoutTruncated :: bool
  kr_StderrTruncated :: bool
  kr_LastMessageTruncated :: bool
  kr_Duration :: int
  kr_ObservedAt :: int
  kr_StdoutDigest :: string
  kr_StderrDigest :: string
  kr_LastMessageDigest :: string
  kr_ResultDigest :: string
  kr_CreatedAt :: int

record branch_row =
  ba_Key :: string
  ba_Ref :: TicketRef
  ba_Branch :: string

record db =
  daemon_instances :: "daemon_row list"
  projects :: "project_row list"
  tickets :: "ticket_row list"
  workflow_owners :: "owner_row list"
  phase_runs :: "phase_run_row list"
  events :: "event_row list"
  effects :: "Effect list"
  runtime_ticket_controls :: "control_row list"
  leases :: "lease_row list"
  provider_attempts :: "attempt_row list"
  repository_command_leases :: "command_lease_row list"
  git_mutation_leases :: "git_lease_row list"
  merge_intents :: "merge_intent_row list"
  external_mutation_quarantine :: bool
  project_configurations :: "configuration_row list"
  authoring_turns :: "authoring_turn_row list"
  provider_phase_entries :: "phase_entry_row list"
  runner_start_authorities :: "start_authority_row list"
  ticket_execution_policies :: "execution_policy_row list"
  provider_attempt_inputs :: "attempt_input_row list"
  provider_phase_attempt_entries :: "attempt_entry_row list"
  provider_attempt_results :: "attempt_result_row list"
  provider_artifact_failures :: "artifact_failure_row list"
  provider_accounting_policies :: "accounting_policy_row list"
  provider_cost_estimates :: "cost_estimate_row list"
  provider_server_rejections :: "rejection_row list"
  provider_qualifications :: "qualification_row list"
  provider_pair_selections :: "pair_selection_row list"
  worktrees :: "worktree_row list"
  git_mutation_intents :: "git_intent_row list"
  repository_command_intents :: "RepositoryCommandClaim list"
  repository_command_process_groups :: "process_group_row list"
  repository_command_results :: "command_result_row list"
  branch_allocations :: "branch_row list"

text \<open>
  \<open>ExternalMutationGate\<close>: the one-token channel that serialises external mutations, and the two
  maps it guards. \<open>gate_token\<close> says whether the channel holds its token.
\<close>

record Gate =
  gate_token :: bool
  gate_revoked :: "TicketRef \<Rightarrow> mutationRevocation option"
  gate_controls :: "TicketRef \<Rightarrow> mutationRevocation option"

record Store =
  st_db :: db
  st_readOnly :: bool
  st_mutations :: "Gate option"

section \<open>Row access\<close>

definition ticket_at :: "db \<Rightarrow> TicketRef \<Rightarrow> ticket_row option" where
  "ticket_at d ref = row_at t_Ref (tickets d) ref"

definition control_at :: "db \<Rightarrow> TicketRef \<Rightarrow> control_row option" where
  "control_at d ref = row_at c_Ref (runtime_ticket_controls d) ref"

definition effect_at :: "db \<Rightarrow> string \<Rightarrow> Effect option" where
  "effect_at d key = row_at e_SemanticKey (effects d) key"

definition leader_at :: "db \<Rightarrow> string \<Rightarrow> u64 option" where
  "leader_at d channel = map_option d_LeaderEpoch (row_at d_Channel (daemon_instances d) channel)"

text \<open>\<open>AUTOINCREMENT\<close>: a new event gets an identifier above every earlier one.\<close>

definition next_event_id :: "db \<Rightarrow> int" where
  "next_event_id d = foldr (\<lambda>e m. max (ev_ID e) m) (events d) 0 + 1"

definition insert_event ::
  "TicketRef \<Rightarrow> u64 \<Rightarrow> string \<Rightarrow> string \<Rightarrow> string \<Rightarrow> string \<Rightarrow> db \<Rightarrow> int \<times> db" where
  "insert_event ref version trigger from to payload d =
     (let n = next_event_id d in
      (n, d\<lparr>events := insert_row \<lparr>ev_ID = n, ev_Ref = ref, ev_TicketVersion = version,
              ev_Trigger = trigger, ev_From = from, ev_To = to, ev_Payload = payload\<rparr> (events d)\<rparr>))"

section \<open>Transition requests\<close>

record StoreTransition =
  tn_Ref :: TicketRef
  tn_ExpectedVersion :: u64
  tn_From :: string
  tn_To :: string
  tn_ResumeState :: string
  tn_Trigger :: string
  tn_Fence :: Fence
  tn_EventPayload :: string

record TransitionResult =
  res_Version :: u64
  res_EventID :: int

text \<open>The opaque name of a completed attempt's result.\<close>

record ProviderAttemptResultKey =
  rk_AttemptID :: int
  rk_Ref :: TicketRef
  rk_Phase :: string
  rk_Attempt :: int

definition nullableState :: "string \<Rightarrow> string option" where
  "nullableState state = (if state = '''' then None else Some state)"

section \<open>Transactions\<close>

text \<open>
  \<open>write\<close>: the function runs inside an immediate transaction. Its error rolls every change back;
  success commits. Retrying a busy database changes nothing that the caller can observe, and an
  expired context is one of the errors.
\<close>

definition store_write :: "Store \<Rightarrow> (db \<Rightarrow> store_error + ('a \<times> db)) \<Rightarrow> (store_error + 'a) \<times> Store" where
  "store_write s fn =
     (if st_readOnly s then (Inl ErrReadOnly, s)
      else case fn (st_db s) of
        Inl e \<Rightarrow> (Inl e, s)
      | Inr (r, d) \<Rightarrow> (Inr r, s\<lparr>st_db := d\<rparr>))"

section \<open>The mutation gate\<close>

definition gate_revoke :: "TicketRef \<Rightarrow> mutationRevocation \<Rightarrow> Gate \<Rightarrow> Gate" where
  "gate_revoke ref value g = g\<lparr>gate_revoked := (gate_revoked g)(ref := Some value)\<rparr>"

definition gate_latch :: "TicketRef \<Rightarrow> mutationRevocation \<Rightarrow> Gate \<Rightarrow> Gate" where
  "gate_latch ref value g = g\<lparr>gate_controls := (gate_controls g)(ref := Some value)\<rparr>"

definition gate_seal :: "TicketRef \<Rightarrow> mutationRevocation \<Rightarrow> Gate \<Rightarrow> Gate" where
  "gate_seal ref value g =
     (if gate_controls g ref = None then gate_latch ref value g else g)"

definition openControl :: "TicketRef \<Rightarrow> mutationRevocation \<Rightarrow> Gate \<Rightarrow> bool \<times> Gate" where
  "openControl ref value g =
     (if gate_controls g ref \<noteq> Some value then (False, g)
      else (True, g\<lparr>gate_controls := (gate_controls g)(ref := None)\<rparr>))"

definition retireControl :: "TicketRef \<Rightarrow> mutationRevocation \<Rightarrow> Gate \<Rightarrow> bool \<times> Gate" where
  "retireControl ref value g =
     (if gate_controls g ref \<noteq> Some value then (False, g)
      else (True, g\<lparr>gate_controls := (gate_controls g)(ref := None),
                    gate_revoked := (gate_revoked g)(ref := None)\<rparr>))"

definition revokedBy :: "Gate \<Rightarrow> TicketRef \<Rightarrow> u64 \<Rightarrow> Fence \<Rightarrow> bool" where
  "revokedBy g ref version fence \<longleftrightarrow>
     gate_controls g ref \<noteq> None \<or>
     (case gate_revoked g ref of
        None \<Rightarrow> False
      | Some value \<Rightarrow> version \<le> mr_version value \<and> LeaderEpoch fence \<le> mr_leader value \<and>
          RunnerEpoch fence \<le> mr_runner value)"

text \<open>
  \<open>lock\<close> takes the token. When the token is gone a sequential caller waits until its context is
  done and gets the context's error; \<open>unlock\<close> puts the token back.
\<close>

definition gate_lock :: "Gate \<Rightarrow> store_error + Gate" where
  "gate_lock g = (if gate_token g then Inr (g\<lparr>gate_token := False\<rparr>) else Inl ErrContextDone)"

definition gate_unlock :: "Gate \<Rightarrow> Gate" where
  "gate_unlock g = g\<lparr>gate_token := True\<rparr>"

section \<open>Fences\<close>

definition currentFence :: "db \<Rightarrow> string \<Rightarrow> u64 \<Rightarrow> u64 \<Rightarrow> Fence \<Rightarrow> store_error option" where
  "currentFence d channel version runner fence =
     (case leader_at d channel of
        None \<Rightarrow> Some ErrNoRows
      | Some leader \<Rightarrow>
          if leader \<noteq> LeaderEpoch fence \<or> runner \<noteq> RunnerEpoch fence then Some ErrStaleFence else None)"

definition assertTicketFence ::
  "Gate option \<Rightarrow> db \<Rightarrow> TicketRef \<Rightarrow> u64 \<Rightarrow> Fence \<Rightarrow> store_error option" where
  "assertTicketFence mutations d ref expectedVersion fence =
     (if (case mutations of None \<Rightarrow> True | Some g \<Rightarrow> revokedBy g ref expectedVersion fence)
        then Some ErrStaleFence
      else if (case control_at d ref of None \<Rightarrow> False
               | Some c \<Rightarrow> c_State c = ''sealed'' \<or> c_State c = ''armed'') then Some ErrStaleFence
      else case ticket_at d ref of
        None \<Rightarrow> Some ErrNotFound
      | Some t \<Rightarrow>
          if State_Terminal (t_State t) \<or> t_Version t \<noteq> expectedVersion then Some ErrStaleFence
          else currentFence d (Channel ref) (t_Version t) (t_RunnerEpoch t) fence)"

definition assertCurrentTicketFence ::
  "db \<Rightarrow> TicketRef \<Rightarrow> u64 \<Rightarrow> Fence \<Rightarrow> store_error option" where
  "assertCurrentTicketFence d ref expectedVersion fence =
     (case ticket_at d ref of
        None \<Rightarrow> Some ErrNotFound
      | Some t \<Rightarrow>
          if t_Version t \<noteq> expectedVersion then Some ErrStaleFence
          else currentFence d (Channel ref) (t_Version t) (t_RunnerEpoch t) fence)"

section \<open>Tables as keyed tables\<close>

interpretation effect_table: keyed_table e_SemanticKey "row_at e_SemanticKey" insert_row
    update_where delete_where count_where "unique_key e_SemanticKey"
  by (rule list_keyed_table)

interpretation ticket_table: keyed_table t_Ref "row_at t_Ref" insert_row
    update_where delete_where count_where "unique_key t_Ref"
  by (rule list_keyed_table)

interpretation control_table: keyed_table c_Ref "row_at c_Ref" insert_row
    update_where delete_where count_where "unique_key c_Ref"
  by (rule list_keyed_table)

interpretation daemon_table: keyed_table d_Channel "row_at d_Channel" insert_row
    update_where delete_where count_where "unique_key d_Channel"
  by (rule list_keyed_table)

interpretation owner_table: keyed_table o_Ref "row_at o_Ref" insert_row
    update_where delete_where count_where "unique_key o_Ref"
  by (rule list_keyed_table)

section \<open>Facts\<close>

lemma write_error_keeps: "store_write s fn = (Inl e, s') \<Longrightarrow> s' = s"
  by (auto simp: store_write_def split: if_splits sum.splits)

lemma write_Inr_iff:
  "store_write s fn = (Inr r, s') \<longleftrightarrow>
     \<not> st_readOnly s \<and> (\<exists>d. fn (st_db s) = Inr (r, d) \<and> s' = s\<lparr>st_db := d\<rparr>)"
  by (auto simp: store_write_def split: if_splits sum.splits)

lemma currentFence_None:
  "currentFence d ch v r f = None \<longleftrightarrow> leader_at d ch = Some (LeaderEpoch f) \<and> r = RunnerEpoch f"
  by (auto simp: currentFence_def split: option.splits)

lemma assertTicketFence_None:
  "assertTicketFence m d ref v f = None \<longleftrightarrow>
     (\<exists>g. m = Some g \<and> \<not> revokedBy g ref v f) \<and>
     (\<forall>c. control_at d ref = Some c \<longrightarrow> c_State c \<noteq> ''sealed'' \<and> c_State c \<noteq> ''armed'') \<and>
     (\<exists>t. ticket_at d ref = Some t \<and> \<not> State_Terminal (t_State t) \<and> t_Version t = v \<and>
        leader_at d (Channel ref) = Some (LeaderEpoch f) \<and> t_RunnerEpoch t = RunnerEpoch f)"
  by (auto simp: assertTicketFence_def currentFence_None split: option.splits)

lemma assertCurrentTicketFence_None:
  "assertCurrentTicketFence d ref v f = None \<longleftrightarrow>
     (\<exists>t. ticket_at d ref = Some t \<and> t_Version t = v \<and>
        leader_at d (Channel ref) = Some (LeaderEpoch f) \<and> t_RunnerEpoch t = RunnerEpoch f)"
  by (auto simp: assertCurrentTicketFence_def currentFence_None split: option.splits)

lemma next_event_id_above: "e \<in> set (events d) \<Longrightarrow> ev_ID e < next_event_id d"
proof -
  have "e \<in> set es \<Longrightarrow> ev_ID e \<le> foldr (\<lambda>e m. max (ev_ID e) m) es 0" for es
    by (induction es) auto
  then show "e \<in> set (events d) \<Longrightarrow> ev_ID e < next_event_id d"
    by (force simp: next_event_id_def)
qed

section \<open>A sample store\<close>

text \<open>A store with one building ticket, for the concrete instances of the theorems.\<close>

definition sample_ref :: TicketRef where
  "sample_ref = \<lparr>Channel = ''dev'', Project = ''sf'', Ticket = ''SF-1''\<rparr>"

definition sample_gate :: Gate where
  "sample_gate = \<lparr>gate_token = True, gate_revoked = (\<lambda>_. None), gate_controls = (\<lambda>_. None)\<rparr>"

definition sample_ticket :: ticket_row where
  "sample_ticket = \<lparr>t_Ref = sample_ref, t_State = ''building'', t_ResumeState = None, t_Version = 5,
     t_RunnerEpoch = 3, t_WorkflowID = ''w1'', t_SourceDigest = ''d1'', t_Type = ''feature'',
     t_MergeMode = ''guarded'', t_BlockedCode = '''', t_Title = ''A'', t_Problem = ''B'', t_AcceptanceJSON = ''[]'',
     t_Source = ''s'', t_Priority = ''normal'', t_CreatedAt = 1, t_MaxDuration = 0, t_MaxCostMicroUSD = 0,
     t_ConfigGeneration = 0, t_ConfigDigest = '''', t_ConfigSnapshot = ''''\<rparr>"

definition sample_db :: db where
  "sample_db = \<lparr>daemon_instances = [\<lparr>d_Channel = ''dev'', d_LeaderEpoch = 2, d_RecoveryKey = ''''\<rparr>],
     projects = [\<lparr>p_Channel = ''dev'', p_ID = ''sf'', p_Lifecycle = ''active'', p_Path = ''/srv/sf'',
       p_BaseRef = ''main'', p_ConfigGeneration = 0, p_RegistrationGeneration = 1\<rparr>],
     tickets = [sample_ticket], workflow_owners = [], phase_runs = [], events = [], effects = [],
     runtime_ticket_controls = [], leases = [], provider_attempts = [],
     repository_command_leases = [], git_mutation_leases = [], merge_intents = [],
     external_mutation_quarantine = False, project_configurations = [], authoring_turns = [],
     provider_phase_entries = [], runner_start_authorities = [], ticket_execution_policies = [],
     provider_attempt_inputs = [], provider_phase_attempt_entries = [], provider_attempt_results = [],
     provider_artifact_failures = [], provider_accounting_policies = [], provider_cost_estimates = [],
     provider_server_rejections = [], provider_qualifications = [], provider_pair_selections = [], worktrees = [],
     git_mutation_intents = [], repository_command_intents = [], repository_command_process_groups = [],
     repository_command_results = [], branch_allocations = []\<rparr>"

definition sample_store :: Store where
  "sample_store = \<lparr>st_db = sample_db, st_readOnly = False, st_mutations = Some sample_gate\<rparr>"

end
