(* ===== verification/Projects.thy ===== *)
theory Projects
  imports StoreCore
begin

text \<open>
  Project registrations (\<^verbatim>\<open>internal/store/store.go\<close>, \<^verbatim>\<open>internal/store/project_lifecycle.go\<close>): a registration binds a
  project to a repository path and a base branch; its configuration is a history of immutable
  generations with a pointer to the current one; removal is a reversible change of its lifecycle.

  The removal time of a registration is left out: it is set exactly when the lifecycle is \<open>removed\<close>.
\<close>

section \<open>Values and rows\<close>

record StoreProject =
  pj_Channel :: string
  pj_ID :: string
  pj_Path :: string
  pj_BaseRef :: string
  pj_ConfigGeneration :: u64
  pj_ConfigDigest :: string
  pj_ConfigSnapshot :: string
  pj_Lifecycle :: string
  pj_RegistrationGeneration :: u64

record ProjectConfiguration =
  px_Channel :: string
  px_Project :: string
  px_Path :: string
  px_BaseRef :: string
  px_Digest :: string
  px_Snapshot :: string

definition ProjectActive :: string where
  [const_defs]: "ProjectActive = ''active''"

definition ProjectRemoved :: string where
  [const_defs]: "ProjectRemoved = ''removed''"

definition project_pk :: "project_row \<Rightarrow> string \<times> string" where
  "project_pk r = (p_Channel r, p_ID r)"

definition config_pk :: "configuration_row \<Rightarrow> string \<times> string \<times> u64" where
  "config_pk c = (pc_Channel c, pc_Project c, pc_Generation c)"

definition project_at :: "db \<Rightarrow> string \<Rightarrow> string \<Rightarrow> project_row option" where
  "project_at d channel project = row_at project_pk (projects d) (channel, project)"

definition config_at :: "db \<Rightarrow> string \<Rightarrow> string \<Rightarrow> u64 \<Rightarrow> configuration_row option" where
  "config_at d channel project generation = row_at config_pk (project_configurations d) (channel, project, generation)"

interpretation project_table: keyed_table project_pk "row_at project_pk" insert_row
    update_where delete_where count_where "unique_key project_pk"
  by (rule list_keyed_table)

interpretation config_table: keyed_table config_pk "row_at config_pk" insert_row
    update_where delete_where count_where "unique_key config_pk"
  by (rule list_keyed_table)

text \<open>The query that joins a registration with its current configuration, empty if there is none.\<close>

definition joined_project :: "db \<Rightarrow> project_row \<Rightarrow> StoreProject" where
  "joined_project d r =
     (let c = config_at d (p_Channel r) (p_ID r) (p_ConfigGeneration r) in
      \<lparr>pj_Channel = p_Channel r, pj_ID = p_ID r, pj_Path = p_Path r, pj_BaseRef = p_BaseRef r,
       pj_ConfigGeneration = p_ConfigGeneration r,
       pj_ConfigDigest = (case c of None \<Rightarrow> '''' | Some c \<Rightarrow> pc_Digest c),
       pj_ConfigSnapshot = (case c of None \<Rightarrow> '''' | Some c \<Rightarrow> pc_Snapshot c),
       pj_Lifecycle = p_Lifecycle r, pj_RegistrationGeneration = p_RegistrationGeneration r\<rparr>)"

section \<open>Validation\<close>

definition matches_identity :: "Effective \<Rightarrow> string \<Rightarrow> string \<Rightarrow> string \<Rightarrow> bool" where
  "matches_identity e name repository branch \<longleftrightarrow>
     c_Name (ef_Project e) = name \<and> c_Repository (ef_Project e) = repository \<and> c_BaseBranch (ef_Project e) = branch"

definition validateProjectConfiguration :: "ProjectConfiguration \<Rightarrow> store_error option" where
  "validateProjectConfiguration proposal =
     (if \<not> Channel_Valid (px_Channel proposal) \<or> px_Project proposal = '''' \<or> px_Path proposal = '''' \<or> px_BaseRef proposal = ''''
        then Some (ErrMessage ''configuration channel, project, path, and base ref are required'')
      else if px_Snapshot proposal = '''' \<or> MaxFileBytes < int (length (px_Snapshot proposal))
        then Some (ErrMessage ''complete project configuration snapshot is required'')
      else if px_Digest proposal \<noteq> sha256_hex (px_Snapshot proposal)
        then Some (ErrMessage ''project configuration digest does not match snapshot'')
      else case DecodeSnapshot (px_Snapshot proposal) (px_Digest proposal) of
        Inl e \<Rightarrow> Some (ErrJoined (ErrMessage ''project configuration snapshot is invalid'') (ErrConfig e))
      | Inr effective \<Rightarrow>
          if \<not> matches_identity effective (px_Project proposal) (px_Path proposal) (px_BaseRef proposal)
          then Some (ErrMessage ''project configuration snapshot does not match immutable registration identity'')
          else None)"

definition validateProjectRegistration :: "StoreProject \<Rightarrow> bool \<Rightarrow> store_error option" where
  "validateProjectRegistration project requireSnapshot =
     (if \<not> Channel_Valid (pj_Channel project) \<or> pj_ID project = '''' \<or> pj_Path project = '''' \<or> pj_BaseRef project = ''''
        then Some (ErrMessage ''project channel, id, path, and base ref are required'')
      else if pj_ConfigSnapshot project = '''' then
        (if requireSnapshot \<or> pj_ConfigGeneration project \<noteq> 0 \<or> pj_ConfigDigest project \<noteq> ''''
         then Some (ErrMessage ''complete project configuration snapshot is required'') else None)
      else if 64 * 1024 < int (length (pj_ConfigSnapshot project)) \<or> pj_ConfigGeneration project \<noteq> 1
        then Some (ErrMessage ''initial project configuration generation is invalid'')
      else if pj_ConfigDigest project \<noteq> sha256_hex (pj_ConfigSnapshot project)
        then Some (ErrMessage ''project configuration digest does not match snapshot'')
      else if requireSnapshot \<and>
          (case DecodeSnapshot (pj_ConfigSnapshot project) (pj_ConfigDigest project) of
             Inl _ \<Rightarrow> True
           | Inr effective \<Rightarrow> \<not> matches_identity effective (pj_ID project) (pj_Path project) (pj_BaseRef project))
        then Some ErrProjectConflict
      else None)"

section \<open>Registration\<close>

text \<open>
  The constraints of the two tables: the keys, one registration per path, one generation per digest of
  a project, no generation zero.
\<close>

definition insert_config :: "string \<Rightarrow> string \<Rightarrow> u64 \<Rightarrow> string \<Rightarrow> string \<Rightarrow> db \<Rightarrow> store_error + db" where
  "insert_config channel project generation digest snapshot d =
     (if config_at d channel project generation \<noteq> None \<or> generation = 0 \<or>
         list_ex (\<lambda>c. pc_Channel c = channel \<and> pc_Project c = project \<and> pc_Digest c = digest) (project_configurations d)
      then Inl (ErrConstraint ''project_configurations'')
      else Inr (d\<lparr>project_configurations := insert_row
        \<lparr>pc_Channel = channel, pc_Project = project, pc_Generation = generation, pc_Digest = digest,
         pc_Snapshot = snapshot\<rparr> (project_configurations d)\<rparr>))"

definition insertProject :: "StoreProject \<Rightarrow> db \<Rightarrow> store_error + db" where
  "insertProject project d =
     (if project_at d (pj_Channel project) (pj_ID project) \<noteq> None \<or>
         list_ex (\<lambda>r. p_Channel r = pj_Channel project \<and> p_Path r = pj_Path project) (projects d)
      then Inl (ErrConstraint ''projects'')
      else
        (let d1 = d\<lparr>projects := insert_row
               \<lparr>p_Channel = pj_Channel project, p_ID = pj_ID project, p_Lifecycle = ProjectActive, p_Path = pj_Path project,
                p_BaseRef = pj_BaseRef project, p_ConfigGeneration = pj_ConfigGeneration project,
                p_RegistrationGeneration = 1\<rparr> (projects d)\<rparr> in
         if pj_ConfigGeneration project = 0 then Inr d1
         else insert_config (pj_Channel project) (pj_ID project) (pj_ConfigGeneration project)
                (pj_ConfigDigest project) (pj_ConfigSnapshot project) d1))"

definition CreateProject :: "Store \<Rightarrow> StoreProject \<Rightarrow> (store_error + unit) \<times> Store" where
  "CreateProject s project =
     (case validateProjectRegistration project False of
        Some e \<Rightarrow> (Inl e, s)
      | None \<Rightarrow> store_write s (\<lambda>d. case insertProject project d of Inl e \<Rightarrow> Inl e | Inr d' \<Rightarrow> Inr ((), d')))"

definition same_config :: "StoreProject \<Rightarrow> StoreProject \<Rightarrow> bool" where
  "same_config a b \<longleftrightarrow> pj_ConfigDigest a = pj_ConfigDigest b \<and> pj_ConfigSnapshot a = pj_ConfigSnapshot b"

text \<open>A removed registration that comes back with another configuration appends it as the next generation.\<close>

definition append_config :: "StoreProject \<Rightarrow> StoreProject \<Rightarrow> db \<Rightarrow> store_error + db" where
  "append_config existing project d =
     (let channel = pj_Channel project; pid = pj_ID project; next = pj_ConfigGeneration existing + 1 in
      if same_config existing project then Inr d
      else if count_where (\<lambda>c. pc_Channel c = channel \<and> pc_Project c = pid \<and> pc_Digest c = pj_ConfigDigest project)
          (project_configurations d) \<noteq> 0 then Inl ErrProjectConflict
      else case insert_config channel pid next (pj_ConfigDigest project) (pj_ConfigSnapshot project) d of
        Inl e \<Rightarrow> Inl e
      | Inr d1 \<Rightarrow> Inr (d1\<lparr>projects := update_where (\<lambda>r. p_Channel r = channel \<and> p_ID r = pid)
          (\<lambda>r. r\<lparr>p_ConfigGeneration := next\<rparr>) (projects d1)\<rparr>))"

definition reactivate :: "string \<Rightarrow> string \<Rightarrow> db \<Rightarrow> store_error + db" where
  "reactivate channel pid d =
     (let p = (\<lambda>r. p_Channel r = channel \<and> p_ID r = pid \<and> p_Lifecycle r = ''removed'') in
      if count_where p (projects d) \<noteq> 1 then Inl ErrProjectLifecycleChanged
      else Inr (d\<lparr>projects := update_where p
        (\<lambda>r. r\<lparr>p_Lifecycle := ''active'', p_RegistrationGeneration := p_RegistrationGeneration r + 1\<rparr>) (projects d)\<rparr>))"

definition RegisterProject_tx :: "StoreProject \<Rightarrow> db \<Rightarrow> store_error + (bool \<times> db)" where
  "RegisterProject_tx project d =
     (case project_at d (pj_Channel project) (pj_ID project) of
        None \<Rightarrow> (case insertProject project d of Inl e \<Rightarrow> Inl e | Inr d' \<Rightarrow> Inr (True, d'))
      | Some r \<Rightarrow>
        (let existing = joined_project d r in
         if pj_Path existing \<noteq> pj_Path project \<or> pj_BaseRef existing \<noteq> pj_BaseRef project then Inl ErrProjectConflict
         else if pj_Lifecycle existing = ProjectActive then
           (if pj_ConfigGeneration existing \<noteq> pj_ConfigGeneration project \<or> \<not> same_config existing project
            then Inl ErrProjectConflict else Inr (False, d))
         else case append_config existing project d of
           Inl e \<Rightarrow> Inl e
         | Inr d1 \<Rightarrow>
             if pj_RegistrationGeneration existing = - 1 then Inl ErrProjectLifecycleChanged
             else case reactivate (pj_Channel project) (pj_ID project) d1 of
               Inl e \<Rightarrow> Inl e
             | Inr d2 \<Rightarrow> Inr (True, d2)))"

definition RegisterProject :: "Store \<Rightarrow> StoreProject \<Rightarrow> (store_error + bool) \<times> Store" where
  "RegisterProject s project =
     (case validateProjectRegistration project True of
        Some e \<Rightarrow> (Inl e, s)
      | None \<Rightarrow> store_write s (RegisterProject_tx project))"

section \<open>Configuration\<close>

definition ApplyProjectConfiguration_tx ::
  "ProjectConfiguration \<Rightarrow> db \<Rightarrow> store_error + ((StoreProject \<times> bool) \<times> db)" where
  "ApplyProjectConfiguration_tx proposal d =
     (let channel = px_Channel proposal; pid = px_Project proposal in
      case project_at d channel pid of
        None \<Rightarrow> Inl ErrNotFound
      | Some r \<Rightarrow>
        (let current = joined_project d r; generation = pj_ConfigGeneration current; next = generation + 1 in
         if pj_Lifecycle current \<noteq> ProjectActive then Inl ErrProjectRemoved
         else if pj_Path current \<noteq> px_Path proposal \<or> pj_BaseRef current \<noteq> px_BaseRef proposal then Inl ErrProjectConflict
         else if generation \<noteq> 0 \<and> (pj_ConfigDigest current = '''' \<or> pj_ConfigSnapshot current = '''')
           then Inl ErrProjectConflict
         else if generation \<noteq> 0 \<and> pj_ConfigDigest current = px_Digest proposal \<and> pj_ConfigSnapshot current = px_Snapshot proposal
           then Inr ((current, True), d)
         else if generation = - 1 then Inl (ErrMessage ''project configuration generation overflow'')
         else if generation = 0 \<and>
             count_where (\<lambda>c. pc_Channel c = channel \<and> pc_Project c = pid) (project_configurations d) \<noteq> 0
           then Inl ErrProjectConflict
         else if list_ex (\<lambda>c. pc_Channel c = channel \<and> pc_Project c = pid \<and> pc_Digest c = px_Digest proposal)
             (project_configurations d)
           then Inl ErrProjectConflict
         else case insert_config channel pid next (px_Digest proposal) (px_Snapshot proposal) d of
           Inl e \<Rightarrow> Inl e
         | Inr d1 \<Rightarrow>
             (let p = (\<lambda>r. p_Channel r = channel \<and> p_ID r = pid \<and> p_ConfigGeneration r = generation) in
              if count_where p (projects d1) \<noteq> 1 then Inl ErrBusy
              else if p_RegistrationGeneration r = - 1 then Inl (ErrConstraint ''projects'')
              else Inr ((current\<lparr>pj_ConfigGeneration := next, pj_ConfigDigest := px_Digest proposal,
                          pj_ConfigSnapshot := px_Snapshot proposal\<rparr>, False),
                d1\<lparr>projects := update_where p (\<lambda>r. r\<lparr>p_ConfigGeneration := next,
                     p_RegistrationGeneration := p_RegistrationGeneration r + 1\<rparr>) (projects d1)\<rparr>))))"

definition ApplyProjectConfiguration ::
  "Store \<Rightarrow> ProjectConfiguration \<Rightarrow> (store_error + (StoreProject \<times> bool)) \<times> Store" where
  "ApplyProjectConfiguration s proposal =
     (case validateProjectConfiguration proposal of
        Some e \<Rightarrow> (Inl e, s)
      | None \<Rightarrow> store_write s (ApplyProjectConfiguration_tx proposal))"

definition Project_get :: "Store \<Rightarrow> string \<Rightarrow> string \<Rightarrow> store_error + StoreProject" where
  "Project_get s channel pid =
     (if \<not> Channel_Valid channel \<or> pid = '''' then Inl (ErrMessage ''valid project channel and id are required'')
      else case project_at (st_db s) channel pid of
        None \<Rightarrow> Inl ErrNotFound
      | Some r \<Rightarrow> Inr (joined_project (st_db s) r))"

definition Projects_list :: "Store \<Rightarrow> string \<Rightarrow> store_error + StoreProject list" where
  "Projects_list s channel =
     (if \<not> Channel_Valid channel then Inl (ErrState ''invalid channel'' channel)
      else Inr (map (joined_project (st_db s))
        (sort_key p_ID (filter (\<lambda>r. p_Channel r = channel) (projects (st_db s))))))"

section \<open>Removal\<close>

record ProjectRemovalPreview =
  pv_Project :: StoreProject
  pv_UnfinishedTickets :: nat
  pv_ActiveWorkflowOwners :: nat
  pv_ActiveLeases :: nat
  pv_ActiveProviderAttempts :: nat
  pv_ActivePhaseRuns :: nat
  pv_ActiveRepositoryCommands :: nat
  pv_ActiveGitMutations :: nat
  pv_UnresolvedEffects :: nat
  pv_ActiveAuthoringTurns :: nat
  pv_GlobalQuarantine :: bool
  pv_CanRemove :: bool

definition in_project :: "string \<Rightarrow> string \<Rightarrow> TicketRef \<Rightarrow> bool" where
  "in_project channel pid ref \<longleftrightarrow> Channel ref = channel \<and> Project ref = pid"

definition live_writer :: "'a writer_row_scheme \<Rightarrow> bool" where
  "live_writer w \<longleftrightarrow> w_State w = ''active'' \<or> w_State w = ''quarantined''"

definition live_launch :: "'a writer_row_scheme \<Rightarrow> bool" where
  "live_launch w \<longleftrightarrow> w_LaunchState w = ''launching'' \<or> w_LaunchState w = ''released'' \<or> w_LaunchState w = ''quarantined''"

definition removal_counts :: "string \<Rightarrow> string \<Rightarrow> db \<Rightarrow> ProjectRemovalPreview \<Rightarrow> ProjectRemovalPreview" where
  "removal_counts channel pid d v = v\<lparr>
     pv_UnfinishedTickets := count_where (\<lambda>t. in_project channel pid (t_Ref t) \<and> \<not> State_Terminal (t_State t)) (tickets d),
     pv_ActiveWorkflowOwners := count_where (\<lambda>w. in_project channel pid (o_Ref w) \<and>
        (case ticket_at d (o_Ref w) of None \<Rightarrow> True | Some t \<Rightarrow> \<not> State_Terminal (t_State t))) (workflow_owners d),
     pv_ActiveLeases := count_where (\<lambda>l. in_project channel pid (l_Ref l)) (leases d),
     pv_ActiveProviderAttempts :=
       count_where (\<lambda>w. in_project channel pid (w_Ref w) \<and> (live_writer w \<or> live_launch w)) (provider_attempts d),
     pv_ActivePhaseRuns := count_where (\<lambda>r. in_project channel pid (pr_Ref r) \<and> pr_State r = ''active'') (phase_runs d),
     pv_ActiveRepositoryCommands :=
       count_where (\<lambda>w. in_project channel pid (w_Ref w) \<and> live_writer w) (repository_command_leases d),
     pv_ActiveGitMutations := count_where (\<lambda>w. in_project channel pid (w_Ref w) \<and> live_writer w) (git_mutation_leases d),
     pv_UnresolvedEffects := count_where (\<lambda>e. in_project channel pid (e_Ref e) \<and>
        (e_State e = ''planned'' \<or> e_State e = ''executing'' \<or> e_State e = ''uncertain'')) (effects d),
     pv_ActiveAuthoringTurns := count_where (\<lambda>a. au_Channel a = channel \<and> au_Project a = pid \<and>
        (au_State a = ''reserved'' \<or> au_State a = ''launched'' \<or> au_State a = ''uncertain'')) (authoring_turns d),
     pv_GlobalQuarantine := external_mutation_quarantine d\<rparr>"

definition removal_total :: "ProjectRemovalPreview \<Rightarrow> nat" where
  "removal_total v =
     pv_UnfinishedTickets v + pv_ActiveWorkflowOwners v + pv_ActiveLeases v + pv_ActiveProviderAttempts v +
     pv_ActivePhaseRuns v + pv_ActiveRepositoryCommands v + pv_ActiveGitMutations v + pv_UnresolvedEffects v +
     pv_ActiveAuthoringTurns v"

definition projectRemovalPreview :: "db \<Rightarrow> string \<Rightarrow> string \<Rightarrow> store_error + ProjectRemovalPreview" where
  "projectRemovalPreview d channel pid =
     (case project_at d channel pid of
        None \<Rightarrow> Inl ErrNotFound
      | Some r \<Rightarrow>
        (let v = removal_counts channel pid d
               \<lparr>pv_Project = joined_project d r, pv_UnfinishedTickets = 0, pv_ActiveWorkflowOwners = 0, pv_ActiveLeases = 0,
                pv_ActiveProviderAttempts = 0, pv_ActivePhaseRuns = 0, pv_ActiveRepositoryCommands = 0,
                pv_ActiveGitMutations = 0, pv_UnresolvedEffects = 0, pv_ActiveAuthoringTurns = 0,
                pv_GlobalQuarantine = False, pv_CanRemove = False\<rparr> in
         Inr (v\<lparr>pv_CanRemove := p_Lifecycle r = ProjectActive \<and> \<not> pv_GlobalQuarantine v \<and> removal_total v = 0\<rparr>)))"

definition ProjectRemovalPreview_get :: "Store \<Rightarrow> string \<Rightarrow> string \<Rightarrow> store_error + ProjectRemovalPreview" where
  "ProjectRemovalPreview_get s channel pid =
     (if \<not> Channel_Valid channel \<or> pid = '''' then Inl (ErrMessage ''valid project channel and id are required'')
      else projectRemovalPreview (st_db s) channel pid)"

definition RemoveProject_tx ::
  "string \<Rightarrow> string \<Rightarrow> u64 \<Rightarrow> db \<Rightarrow> store_error + ((ProjectRemovalPreview \<times> bool) \<times> db)" where
  "RemoveProject_tx channel pid expected d =
     (case projectRemovalPreview d channel pid of
        Inl e \<Rightarrow> Inl e
      | Inr v \<Rightarrow>
        (let next = pj_RegistrationGeneration (pv_Project v) + 1;
             p = (\<lambda>r. p_Channel r = channel \<and> p_ID r = pid \<and> p_Lifecycle r = ''active'' \<and>
                    p_RegistrationGeneration r = expected) in
         if pj_RegistrationGeneration (pv_Project v) \<noteq> expected then Inl ErrProjectLifecycleChanged
         else if pj_Lifecycle (pv_Project v) = ProjectRemoved then Inr ((v, False), d)
         else if \<not> pv_CanRemove v then Inl ErrProjectRemovalBlocked
         else if pj_RegistrationGeneration (pv_Project v) = - 1 then Inl ErrProjectLifecycleChanged
         else if count_where p (projects d) \<noteq> 1 then Inl ErrProjectLifecycleChanged
         else Inr ((v\<lparr>pv_Project := (pv_Project v)\<lparr>pj_Lifecycle := ProjectRemoved, pj_RegistrationGeneration := next\<rparr>,
                     pv_CanRemove := False\<rparr>, True),
           d\<lparr>projects := update_where p (\<lambda>r. r\<lparr>p_Lifecycle := ''removed'', p_RegistrationGeneration := next\<rparr>) (projects d)\<rparr>)))"

definition RemoveProject ::
  "Store \<Rightarrow> string \<Rightarrow> string \<Rightarrow> u64 \<Rightarrow> int \<Rightarrow> (store_error + (ProjectRemovalPreview \<times> bool)) \<times> Store" where
  "RemoveProject s channel pid expected at =
     (if \<not> Channel_Valid channel \<or> pid = '''' \<or> expected = 0 \<or> at = 0
      then (Inl (ErrMessage ''valid project, preview generation, and removal time are required''), s)
      else store_write s (RemoveProject_tx channel pid expected))"

end
