(* ===== verification/Tickets.thy ===== *)
theory Tickets
  imports Projects
begin

text \<open>
  Ticket submission and the ticket and event queries (\<^verbatim>\<open>internal/store/store.go\<close>): an immutable source is
  admitted once under the controls its project's current configuration allows, with the event that
  records the admission.

  A time is an integer with zero for the zero time; the clock is a parameter of the operations that read it.
\<close>

section \<open>Values\<close>

record StoreTicket =
  tk_Ref :: TicketRef
  tk_State :: string
  tk_ResumeState :: string
  tk_Version :: u64
  tk_RunnerEpoch :: u64
  tk_WorkflowID :: string
  tk_SourceDigest :: string
  tk_Type :: string
  tk_MergeMode :: string
  tk_BlockedCode :: string
  tk_Title :: string
  tk_Problem :: string
  tk_Acceptance :: "string list"
  tk_Source :: string
  tk_Priority :: string
  tk_CreatedAt :: int
  tk_MaxDuration :: int
  tk_MaxCostMicroUSD :: int
  tk_ConfigGeneration :: u64
  tk_ConfigDigest :: string
  tk_ConfigSnapshot :: string

section \<open>Validation\<close>

definition validateTicketInput :: "StoreTicket \<Rightarrow> store_error option" where
  "validateTicketInput ticket =
     (let priority = (if tk_Priority ticket = '''' then ''normal'' else tk_Priority ticket) in
      if tk_SourceDigest ticket = '''' \<or> \<not> TicketType_Valid (tk_Type ticket) \<or> \<not> MergeMode_Valid (tk_MergeMode ticket)
        then Some (ErrMessage ''ticket source digest, type, and merge mode are required'')
      else if tk_Type ticket = TicketSpike \<and> tk_MergeMode ticket = MergeAutonomous
        then Some (ErrMessage ''spike tickets cannot request autonomous merge'')
      else if tk_Source ticket \<noteq> [] \<and> sha256_hex (tk_Source ticket) \<noteq> tk_SourceDigest ticket
        then Some (ErrMessage ''ticket source bytes do not match source digest'')
      else if priority \<noteq> ''low'' \<and> priority \<noteq> ''normal'' \<and> priority \<noteq> ''high''
        then Some (ErrState ''invalid ticket priority'' priority)
      else if tk_MaxDuration ticket < 0 \<or> tk_MaxCostMicroUSD ticket < 0
        then Some (ErrMessage ''ticket ceilings cannot be negative'')
      else None)"

text \<open>
  \<open>hex.DecodeString\<close> followed by the comparison with its re-encoding: 64 lower-case hexadecimal digits.
\<close>

definition canonical_digest :: "string \<Rightarrow> bool" where
  "canonical_digest digest \<longleftrightarrow> length digest = 64 \<and> list_all lower_hex digest"

section \<open>Insertion\<close>

text \<open>
  The constraints of the table: the primary key, the identity unique in a channel, one active ticket
  for a source digest of a project, a workflow identity of one ticket, the value checks, and the
  trigger that demands an active project. The other checks repeat \<open>validateTicketInput\<close>.
\<close>

definition resumable_state :: "string \<Rightarrow> bool" where
  "resumable_state state \<longleftrightarrow> State_Valid state \<and> \<not> State_Terminal state"

definition ticket_constraint :: "ticket_row \<Rightarrow> db \<Rightarrow> bool" where
  "ticket_constraint t d \<longleftrightarrow>
     State_Valid (t_State t) \<and> (case t_ResumeState t of None \<Rightarrow> True | Some r \<Rightarrow> resumable_state r) \<and> t_Version t \<noteq> 0 \<and>
     list_ex (\<lambda>p. p_Channel p = Channel (t_Ref t) \<and> p_ID p = Project (t_Ref t) \<and> p_Lifecycle p = ''active'') (projects d) \<and>
     list_all (\<lambda>u. \<not> (Channel (t_Ref u) = Channel (t_Ref t) \<and> Ticket (t_Ref u) = Ticket (t_Ref t)) \<and>
        \<not> (Channel (t_Ref u) = Channel (t_Ref t) \<and> Project (t_Ref u) = Project (t_Ref t) \<and> t_SourceDigest u = t_SourceDigest t \<and>
           \<not> State_Terminal (t_State u) \<and> \<not> State_Terminal (t_State t)) \<and>
        \<not> (Channel (t_Ref u) = Channel (t_Ref t) \<and> t_WorkflowID u = t_WorkflowID t \<and> t_WorkflowID t \<noteq> ''''))
       (tickets d)"

definition new_ticket_row :: "int \<Rightarrow> StoreTicket \<Rightarrow> ticket_row" where
  "new_ticket_row now ticket =
     \<lparr>t_Ref = tk_Ref ticket,
      t_State = (if tk_State ticket = '''' then StateQueued else tk_State ticket),
      t_ResumeState = nullableState (tk_ResumeState ticket),
      t_Version = (if tk_Version ticket = 0 then 1 else tk_Version ticket),
      t_RunnerEpoch = (if tk_RunnerEpoch ticket = 0 then 1 else tk_RunnerEpoch ticket),
      t_WorkflowID = tk_WorkflowID ticket, t_SourceDigest = tk_SourceDigest ticket, t_Type = tk_Type ticket,
      t_MergeMode = tk_MergeMode ticket, t_BlockedCode = tk_BlockedCode ticket, t_Title = tk_Title ticket,
      t_Problem = tk_Problem ticket, t_AcceptanceJSON = print_json (json_strings (tk_Acceptance ticket)),
      t_Source = tk_Source ticket,
      t_Priority = (if tk_Priority ticket = '''' then ''normal'' else tk_Priority ticket),
      t_CreatedAt = (if tk_CreatedAt ticket = 0 then now else tk_CreatedAt ticket),
      t_MaxDuration = tk_MaxDuration ticket, t_MaxCostMicroUSD = tk_MaxCostMicroUSD ticket,
      t_ConfigGeneration = 0, t_ConfigDigest = '''', t_ConfigSnapshot = ''''\<rparr>"

definition insertTicketEvent :: "int \<Rightarrow> StoreTicket \<Rightarrow> bool \<Rightarrow> db \<Rightarrow> store_error + db" where
  "insertTicketEvent now ticket normative d =
     (case validateTicketInput ticket of
        Some e \<Rightarrow> Inl e
      | None \<Rightarrow>
        (let t = new_ticket_row now ticket in
         if normative \<and> t_State t \<noteq> StateQueued then Inl (ErrMessage ''normative submission must target queued'')
         else if \<not> ticket_constraint t d then Inl (ErrConstraint ''tickets'')
         else Inr (snd (insert_event (t_Ref t) (t_Version t)
           (if normative then ''submit_valid'' else ''ticket_submitted'') (if normative then ''none'' else ''queued'')
           (t_State t) ''{}'' (d\<lparr>tickets := insert_row t (tickets d)\<rparr>)))))"

definition insertTicket :: "int \<Rightarrow> StoreTicket \<Rightarrow> db \<Rightarrow> store_error + db" where
  "insertTicket now ticket d = insertTicketEvent now ticket False d"

definition CreateTicket_tx :: "int \<Rightarrow> StoreTicket \<Rightarrow> db \<Rightarrow> store_error + (unit \<times> db)" where
  "CreateTicket_tx now ticket d =
     (if count_where (\<lambda>p. p_Channel p = Channel (tk_Ref ticket) \<and> p_ID p = Project (tk_Ref ticket) \<and> p_Lifecycle p = ''active'')
          (projects d) \<noteq> 1 then Inl ErrProjectRemoved
      else case insertTicket now ticket d of Inl e \<Rightarrow> Inl e | Inr d' \<Rightarrow> Inr ((), d'))"

definition CreateTicket :: "Store \<Rightarrow> int \<Rightarrow> StoreTicket \<Rightarrow> (store_error + unit) \<times> Store" where
  "CreateTicket s now ticket =
     (case TicketRef_Validate (tk_Ref ticket) of
        Some e \<Rightarrow> (Inl (ErrRef e), s)
      | None \<Rightarrow>
        if tk_SourceDigest ticket = '''' \<or> \<not> TicketType_Valid (tk_Type ticket) \<or> \<not> MergeMode_Valid (tk_MergeMode ticket)
          then (Inl (ErrMessage ''ticket source digest, type, and merge mode are required''), s)
        else if tk_Type ticket = TicketSpike \<and> tk_MergeMode ticket = MergeAutonomous
          then (Inl (ErrMessage ''spike tickets cannot request autonomous merge''), s)
        else store_write s (CreateTicket_tx now (ticket\<lparr>
          tk_State := (if tk_State ticket = '''' then StateQueued else tk_State ticket),
          tk_Version := (if tk_Version ticket = 0 then 1 else tk_Version ticket),
          tk_RunnerEpoch := (if tk_RunnerEpoch ticket = 0 then 1 else tk_RunnerEpoch ticket)\<rparr>)))"

section \<open>Reading\<close>

definition ticket_value :: "ticket_row \<Rightarrow> string list \<Rightarrow> StoreTicket" where
  "ticket_value t acceptance =
     \<lparr>tk_Ref = t_Ref t, tk_State = t_State t, tk_ResumeState = (case t_ResumeState t of None \<Rightarrow> '''' | Some r \<Rightarrow> r),
      tk_Version = t_Version t, tk_RunnerEpoch = t_RunnerEpoch t, tk_WorkflowID = t_WorkflowID t,
      tk_SourceDigest = t_SourceDigest t, tk_Type = t_Type t, tk_MergeMode = t_MergeMode t, tk_BlockedCode = t_BlockedCode t,
      tk_Title = t_Title t, tk_Problem = t_Problem t, tk_Acceptance = acceptance, tk_Source = t_Source t,
      tk_Priority = t_Priority t, tk_CreatedAt = t_CreatedAt t, tk_MaxDuration = t_MaxDuration t,
      tk_MaxCostMicroUSD = t_MaxCostMicroUSD t, tk_ConfigGeneration = t_ConfigGeneration t,
      tk_ConfigDigest = t_ConfigDigest t, tk_ConfigSnapshot = t_ConfigSnapshot t\<rparr>"

definition Ticket_get :: "Store \<Rightarrow> TicketRef \<Rightarrow> store_error + StoreTicket" where
  "Ticket_get s ref =
     (case TicketRef_Validate ref of
        Some e \<Rightarrow> Inl (ErrRef e)
      | None \<Rightarrow>
        (case ticket_at (st_db s) ref of
           None \<Rightarrow> Inl ErrNotFound
         | Some t \<Rightarrow>
           (case Option.bind (json_parse (t_AcceptanceJSON t)) (\<lambda>j. decode_strings j []) of
              None \<Rightarrow> Inl (ErrMessage ''decode ticket acceptance'')
            | Some acceptance \<Rightarrow> Inr (ticket_value t acceptance))))"

definition TicketByID :: "Store \<Rightarrow> string \<Rightarrow> string \<Rightarrow> store_error + StoreTicket" where
  "TicketByID s channel tid =
     (if \<not> Channel_Valid channel \<or> tid = '''' then Inl (ErrMessage ''valid channel and ticket id are required'')
      else case List.find (\<lambda>t. Channel (t_Ref t) = channel \<and> Ticket (t_Ref t) = tid) (tickets (st_db s)) of
        None \<Rightarrow> Inl ErrNotFound
      | Some t \<Rightarrow> Ticket_get s \<lparr>Channel = channel, Project = Project (t_Ref t), Ticket = tid\<rparr>)"

fun all_results :: "('e + 'a) list \<Rightarrow> 'e + 'a list" where
  "all_results [] = Inr []"
| "all_results (Inl e # rs) = Inl e"
| "all_results (Inr x # rs) = (case all_results rs of Inl e \<Rightarrow> Inl e | Inr xs \<Rightarrow> Inr (x # xs))"

definition Tickets_list :: "Store \<Rightarrow> string \<Rightarrow> string \<Rightarrow> int \<Rightarrow> store_error + StoreTicket list" where
  "Tickets_list s channel project limit =
     (if \<not> Channel_Valid channel then Inl (ErrState ''invalid channel'' channel)
      else if limit \<le> 0 \<or> 10000 < limit then Inl (ErrMessage ''ticket query limit must be between 1 and 10000'')
      else all_results (map (Ticket_get s) (take (nat limit) (rev (map t_Ref
        (filter (\<lambda>t. Channel (t_Ref t) = channel \<and> (project = '''' \<or> Project (t_Ref t) = project)) (tickets (st_db s))))))))"

definition Events_list :: "Store \<Rightarrow> string \<Rightarrow> u64 \<Rightarrow> int \<Rightarrow> store_error + event_row list" where
  "Events_list s channel afterID limit =
     (if \<not> Channel_Valid channel \<or> limit \<le> 0 \<or> 100000 < limit
        then Inl (ErrMessage ''valid channel and event limit between 1 and 100000 are required'')
      else Inr (take (nat limit) (sort_key ev_ID
        (filter (\<lambda>e. Channel (ev_Ref e) = channel \<and> uint afterID < ev_ID e) (events (st_db s))))))"

section \<open>Submission\<close>

definition resolveSubmittedTicketPolicy :: "db \<Rightarrow> StoreTicket \<Rightarrow> store_error + StoreTicket" where
  "resolveSubmittedTicketPolicy d ticket =
     (let channel = Channel (tk_Ref ticket); pid = Project (tk_Ref ticket) in
      case project_at d channel pid of
        None \<Rightarrow> Inl ErrNotFound
      | Some r \<Rightarrow>
        if p_Lifecycle r \<noteq> ''active'' then Inl ErrProjectRemoved
        else
          (let project = joined_project d r in
           case DecodeSnapshot (pj_ConfigSnapshot project) (pj_ConfigDigest project) of
             Inl _ \<Rightarrow> Inl ErrEvidenceConflict
           | Inr frozen \<Rightarrow>
             if \<not> matches_identity frozen pid (pj_Path project) (pj_BaseRef project) then Inl ErrEvidenceConflict
             else case Resolve (ef_Machine frozen) (ef_Project frozen)
                 \<lparr>o_MergeMode = tk_MergeMode ticket, o_PhaseTimeout = 0, o_TicketTimeout = tk_MaxDuration ticket,
                  o_MaxCostMicroUSD = tk_MaxCostMicroUSD ticket\<rparr> of
               Inl _ \<Rightarrow> Inl ErrEvidenceConflict
             | Inr effective \<Rightarrow> Inr (ticket\<lparr>tk_MergeMode := c_MergeMode (ef_Project effective),
                 tk_MaxDuration := c_TicketTimeout (ef_Project effective),
                 tk_MaxCostMicroUSD := c_MaxTicketCostMicroUSD (ef_Project effective)\<rparr>)))"

text \<open>The latest ticket of a project with a source digest, in insertion order.\<close>

definition latest_source :: "db \<Rightarrow> string \<Rightarrow> string \<Rightarrow> string \<Rightarrow> ticket_row option" where
  "latest_source d channel project digest =
     (case filter (\<lambda>t. Channel (t_Ref t) = channel \<and> Project (t_Ref t) = project \<and> t_SourceDigest t = digest) (tickets d) of
        [] \<Rightarrow> None
      | ts \<Rightarrow> Some (last ts))"

definition submitTicket_tx ::
  "int \<Rightarrow> StoreTicket \<Rightarrow> bool \<Rightarrow> u64 \<Rightarrow> db \<Rightarrow> store_error + ((TicketRef \<times> bool) \<times> db)" where
  "submitTicket_tx now ticket allowNew leaderEpoch d =
     (case (if leaderEpoch = 0 then None
            else case leader_at d (Channel (tk_Ref ticket)) of
              None \<Rightarrow> Some ErrNoRows
            | Some current \<Rightarrow> if current \<noteq> leaderEpoch then Some ErrStaleFence else None) of
        Some e \<Rightarrow> Inl e
      | None \<Rightarrow>
        (case resolveSubmittedTicketPolicy d ticket of
           Inl e \<Rightarrow> Inl e
         | Inr resolved \<Rightarrow>
           (let ref = tk_Ref resolved;
                insert = (case insertTicketEvent now resolved (leaderEpoch \<noteq> 0) d of
                   Inl e \<Rightarrow> Inl e | Inr d' \<Rightarrow> Inr ((ref, True), d')) in
            case latest_source d (Channel ref) (Project ref) (tk_SourceDigest resolved) of
              None \<Rightarrow> insert
            | Some t \<Rightarrow>
                if \<not> State_Terminal (t_State t)
                  then Inr ((\<lparr>Channel = Channel ref, Project = Project ref, Ticket = Ticket (t_Ref t)\<rparr>, False), d)
                else if \<not> allowNew then Inl ErrTerminalReplay
                else insert)))"

definition submitTicket ::
  "Store \<Rightarrow> int \<Rightarrow> StoreTicket \<Rightarrow> bool \<Rightarrow> u64 \<Rightarrow> (store_error + (StoreTicket \<times> bool)) \<times> Store" where
  "submitTicket s now ticket allowNew leaderEpoch =
     (case TicketRef_Validate (tk_Ref ticket) of
        Some e \<Rightarrow> (Inl (ErrRef e), s)
      | None \<Rightarrow>
        if tk_Source ticket = [] then (Inl (ErrMessage ''ticket source bytes are required''), s)
        else if \<not> canonical_digest (tk_SourceDigest ticket)
          then (Inl (ErrMessage ''ticket source digest must be a canonical SHA-256 digest''), s)
        else case validateTicketInput ticket of
          Some e \<Rightarrow> (Inl e, s)
        | None \<Rightarrow>
          if leaderEpoch \<noteq> 0 \<and> tk_State ticket \<noteq> '''' \<and> tk_State ticket \<noteq> StateQueued
            then (Inl (ErrMessage ''normative submission must be none to queued''), s)
          else case store_write s (submitTicket_tx now ticket allowNew leaderEpoch) of
            (Inl e, s') \<Rightarrow> (Inl e, s')
          | (Inr (ref, created), s') \<Rightarrow>
              (case Ticket_get s' ref of
                 Inl e \<Rightarrow> (Inl e, s')
               | Inr result \<Rightarrow> (Inr (result, created), s')))"

definition SubmitTicket ::
  "Store \<Rightarrow> int \<Rightarrow> StoreTicket \<Rightarrow> bool \<Rightarrow> (store_error + (StoreTicket \<times> bool)) \<times> Store" where
  "SubmitTicket s now ticket allowNew = submitTicket s now ticket allowNew 0"

definition SubmitTicketFenced ::
  "Store \<Rightarrow> int \<Rightarrow> StoreTicket \<Rightarrow> bool \<Rightarrow> u64 \<Rightarrow> (store_error + (StoreTicket \<times> bool)) \<times> Store" where
  "SubmitTicketFenced s now ticket allowNew leaderEpoch =
     (if leaderEpoch = 0 then (Inl ErrStaleFence, s) else submitTicket s now ticket allowNew leaderEpoch)"

end
