(* ===== verification/Effects.thy ===== *)
theory Effects
  imports StoreCore
begin

text \<open>
  External effects (\<^verbatim>\<open>internal/store/effects.go\<close>): a durable row per semantic operation, planned before
  the external boundary is crossed, claimed by one executor at a time under the ticket's fence, and
  settled by an observation. The definitions follow the Go functions; each transaction body is a
  function from the database to an error or a result with the new database.
\<close>

section \<open>States and requests\<close>

definition EffectPlanned :: string where "EffectPlanned = ''planned''"
definition EffectExecuting :: string where "EffectExecuting = ''executing''"
definition EffectConfirmed :: string where "EffectConfirmed = ''confirmed''"
definition EffectUncertain :: string where "EffectUncertain = ''uncertain''"
definition EffectFailed :: string where "EffectFailed = ''failed''"

lemmas effect_state_defs [const_defs] =
  EffectPlanned_def EffectExecuting_def EffectConfirmed_def EffectUncertain_def EffectFailed_def

record EffectPlan =
  ep_SemanticKey :: string
  ep_Ref :: TicketRef
  ep_Kind :: string
  ep_TicketVersion :: u64
  ep_Fence :: Fence
  ep_RequestDigest :: string

record EffectFence =
  ef_SemanticKey :: string
  ef_Ref :: TicketRef
  ef_TicketVersion :: u64
  ef_Fence :: Fence

record EffectClaim =
  ec_Effect :: Effect
  ec_Claimed :: bool

record EffectObservation =
  eo_Fence :: EffectFence
  eo_Present :: bool
  eo_Identity :: string

record InvalidatedEffectObservation =
  io_Prior :: EffectObservation
  io_Current :: EffectFence

definition ExternalClaim :: "EffectClaim \<Rightarrow> ExternalEffectClaim" where
  "ExternalClaim claim =
     (let effect = ec_Effect claim in
      \<lparr>xc_SemanticKey = e_SemanticKey effect, xc_Ref = e_Ref effect, xc_Kind = e_Kind effect,
       xc_RequestDigest = e_RequestDigest effect, xc_TicketVersion = e_TicketVersion effect,
       xc_LeaderEpoch = e_LeaderEpoch effect, xc_RunnerEpoch = e_RunnerEpoch effect,
       xc_ClaimEpoch = e_ClaimEpoch effect\<rparr>)"

definition effectFrom :: "db \<Rightarrow> string \<Rightarrow> store_error + Effect" where
  "effectFrom d key = (case effect_at d key of None \<Rightarrow> Inl ErrNotFound | Some e \<Rightarrow> Inr e)"

section \<open>Validation before the boundary\<close>

definition ValidateExternalEffectClaim :: "Store \<Rightarrow> ExternalEffectClaim \<Rightarrow> (store_error + unit) \<times> Store" where
  "ValidateExternalEffectClaim s claim =
     (if TicketRef_Validate (xc_Ref claim) \<noteq> None \<or> xc_SemanticKey claim = '''' \<or> xc_Kind claim = '''' \<or>
         xc_RequestDigest claim = '''' \<or> xc_TicketVersion claim = 0 \<or> xc_LeaderEpoch claim = 0 \<or>
         xc_RunnerEpoch claim = 0 \<or> xc_ClaimEpoch claim = 0
      then (Inl ErrStaleFence, s)
      else store_write s (\<lambda>d.
        case assertTicketFence (st_mutations s) d (xc_Ref claim) (xc_TicketVersion claim)
            \<lparr>LeaderEpoch = xc_LeaderEpoch claim, RunnerEpoch = xc_RunnerEpoch claim,
             ClaimEpoch = xc_ClaimEpoch claim\<rparr> of
          Some e \<Rightarrow> Inl e
        | None \<Rightarrow>
            case effectFrom d (xc_SemanticKey claim) of
              Inl e \<Rightarrow> Inl e
            | Inr effect \<Rightarrow>
                if e_Ref effect \<noteq> xc_Ref claim \<or> e_Kind effect \<noteq> xc_Kind claim \<or>
                   e_RequestDigest effect \<noteq> xc_RequestDigest claim \<or> e_State effect \<noteq> EffectExecuting \<or>
                   e_TicketVersion effect \<noteq> xc_TicketVersion claim \<or>
                   e_LeaderEpoch effect \<noteq> xc_LeaderEpoch claim \<or>
                   e_RunnerEpoch effect \<noteq> xc_RunnerEpoch claim \<or>
                   e_ClaimEpoch effect \<noteq> xc_ClaimEpoch claim
                then Inl ErrStaleFence
                else Inr ((), d)))"

definition ValidateTicketFence :: "Store \<Rightarrow> TicketRef \<Rightarrow> u64 \<Rightarrow> Fence \<Rightarrow> (store_error + unit) \<times> Store" where
  "ValidateTicketFence s ref version fence =
     (if TicketRef_Validate ref \<noteq> None \<or> version = 0 \<or> LeaderEpoch fence = 0 \<or> RunnerEpoch fence = 0
      then (Inl ErrStaleFence, s)
      else store_write s (\<lambda>d.
        case assertCurrentTicketFence d ref version fence of
          Some e \<Rightarrow> Inl e
        | None \<Rightarrow> Inr ((), d)))"

definition CurrentTicketFence :: "Store \<Rightarrow> TicketRef \<Rightarrow> store_error + (u64 \<times> Fence)" where
  "CurrentTicketFence s ref =
     (case TicketRef_Validate ref of
        Some e \<Rightarrow> Inl (ErrRef e)
      | None \<Rightarrow>
          case (ticket_at (st_db s) ref, leader_at (st_db s) (Channel ref)) of
            (Some t, Some leader) \<Rightarrow>
              if t_Version t = 0 \<or> t_RunnerEpoch t = 0 \<or> leader = 0 then Inl ErrStaleFence
              else Inr (t_Version t, \<lparr>LeaderEpoch = leader, RunnerEpoch = t_RunnerEpoch t, ClaimEpoch = 0\<rparr>)
          | _ \<Rightarrow> Inl ErrNoRows)"

section \<open>Planning\<close>

text \<open>The \<open>INSERT \<dots> ON CONFLICT(semantic_key) DO NOTHING\<close> of a planned row.\<close>

definition insert_planned :: "EffectPlan \<Rightarrow> Effect list \<Rightarrow> Effect list" where
  "insert_planned plan t =
     (case row_at e_SemanticKey t (ep_SemanticKey plan) of
        Some _ \<Rightarrow> t
      | None \<Rightarrow> insert_row
          \<lparr>e_SemanticKey = ep_SemanticKey plan, e_Ref = ep_Ref plan, e_Kind = ep_Kind plan,
           e_State = EffectPlanned, e_TicketVersion = ep_TicketVersion plan,
           e_LeaderEpoch = LeaderEpoch (ep_Fence plan), e_RunnerEpoch = RunnerEpoch (ep_Fence plan),
           e_ClaimEpoch = 0, e_RequestDigest = ep_RequestDigest plan, e_ObservedIdentity = ''''\<rparr> t)"

definition rebind_row :: "EffectPlan \<Rightarrow> Effect \<Rightarrow> Effect" where
  "rebind_row plan r = r\<lparr>e_TicketVersion := ep_TicketVersion plan,
     e_LeaderEpoch := LeaderEpoch (ep_Fence plan), e_RunnerEpoch := RunnerEpoch (ep_Fence plan)\<rparr>"

definition PlanEffect_tx :: "Gate option \<Rightarrow> EffectPlan \<Rightarrow> db \<Rightarrow> store_error + (Effect \<times> db)" where
  "PlanEffect_tx m plan d0 =
     (case assertTicketFence m d0 (ep_Ref plan) (ep_TicketVersion plan) (ep_Fence plan) of
        Some e \<Rightarrow> Inl e
      | None \<Rightarrow>
        (let d = d0\<lparr>effects := insert_planned plan (effects d0)\<rparr> in
         case effectFrom d (ep_SemanticKey plan) of
           Inl e \<Rightarrow> Inl e
         | Inr effect \<Rightarrow>
           if e_Ref effect \<noteq> ep_Ref plan \<or> e_Kind effect \<noteq> ep_Kind plan \<or>
              e_RequestDigest effect \<noteq> ep_RequestDigest plan
           then Inl (ErrEffectKey (ep_SemanticKey plan))
           else if e_TicketVersion effect \<noteq> ep_TicketVersion plan \<or>
              e_LeaderEpoch effect \<noteq> LeaderEpoch (ep_Fence plan) \<or>
              e_RunnerEpoch effect \<noteq> RunnerEpoch (ep_Fence plan)
           then
             if e_State effect \<noteq> EffectPlanned \<and> e_State effect \<noteq> EffectFailed
             then Inl (ErrEffectKey (ep_SemanticKey plan))
             else
               (let p = (\<lambda>r. e_SemanticKey r = ep_SemanticKey plan \<and>
                        (e_State r = EffectPlanned \<or> e_State r = EffectFailed) \<and>
                        e_TicketVersion r = e_TicketVersion effect \<and>
                        e_LeaderEpoch r = e_LeaderEpoch effect \<and>
                        e_RunnerEpoch r = e_RunnerEpoch effect \<and> e_ClaimEpoch r = e_ClaimEpoch effect) in
                if count_where p (effects d) \<noteq> 1 then Inl (ErrEffectBusy '''')
                else
                  (let d' = d\<lparr>effects := update_where p (rebind_row plan) (effects d)\<rparr> in
                   case effectFrom d' (ep_SemanticKey plan) of
                     Inl e \<Rightarrow> Inl e
                   | Inr effect' \<Rightarrow> Inr (effect', d')))
           else Inr (effect, d)))"

definition PlanEffect :: "Store \<Rightarrow> EffectPlan \<Rightarrow> (store_error + Effect) \<times> Store" where
  "PlanEffect s plan =
     (case TicketRef_Validate (ep_Ref plan) of
        Some e \<Rightarrow> (Inl (ErrRef e), s)
      | None \<Rightarrow>
          if ep_SemanticKey plan = '''' \<or> ep_Kind plan = '''' \<or> ep_RequestDigest plan = ''''
          then (Inl (ErrMessage ''effect semantic key, kind, and request digest are required''), s)
          else store_write s (PlanEffect_tx (st_mutations s) plan))"

section \<open>Claiming\<close>

text \<open>
  The partial unique index \<open>active_effect_claim\<close> admits one executing row for each ticket and kind;
  an \<open>UPDATE\<close> that would make a second one fails.
\<close>

definition active_claim_conflict :: "db \<Rightarrow> Effect \<Rightarrow> bool" where
  "active_claim_conflict d e \<longleftrightarrow>
     list_ex (\<lambda>r. e_SemanticKey r \<noteq> e_SemanticKey e \<and> e_Ref r = e_Ref e \<and> e_Kind r = e_Kind e \<and>
       e_State r = EffectExecuting) (effects d)"

definition claim_row :: "EffectFence \<Rightarrow> Effect \<Rightarrow> Effect" where
  "claim_row fence r = r\<lparr>e_State := EffectExecuting, e_TicketVersion := ef_TicketVersion fence,
     e_LeaderEpoch := LeaderEpoch (ef_Fence fence), e_RunnerEpoch := RunnerEpoch (ef_Fence fence),
     e_ClaimEpoch := e_ClaimEpoch r + 1\<rparr>"

definition ClaimEffect_tx :: "Gate option \<Rightarrow> EffectFence \<Rightarrow> db \<Rightarrow> store_error + (EffectClaim \<times> db)" where
  "ClaimEffect_tx m fence d =
     (case assertTicketFence m d (ef_Ref fence) (ef_TicketVersion fence) (ef_Fence fence) of
        Some e \<Rightarrow> Inl e
      | None \<Rightarrow>
        (case effectFrom d (ef_SemanticKey fence) of
           Inl e \<Rightarrow> Inl e
         | Inr effect \<Rightarrow>
           if e_Ref effect \<noteq> ef_Ref fence \<or> e_TicketVersion effect \<noteq> ef_TicketVersion fence
           then Inl (ErrEffectKey (ef_SemanticKey fence))
           else if e_State effect = EffectConfirmed
           then Inr (\<lparr>ec_Effect = effect, ec_Claimed = False\<rparr>, d)
           else if e_State effect = EffectExecuting \<or> e_State effect = EffectUncertain
           then Inl (ErrEffectBusy (ef_SemanticKey fence))
           else
             (let p = (\<lambda>r. e_SemanticKey r = ef_SemanticKey fence \<and>
                      (e_State r = EffectPlanned \<or> e_State r = EffectFailed) \<and>
                      e_ClaimEpoch r = e_ClaimEpoch effect) in
              if count_where p (effects d) = 1 \<and> active_claim_conflict d effect
              then Inl (ErrConstraint ''active_effect_claim'')
              else if count_where p (effects d) \<noteq> 1 then Inl (ErrEffectBusy '''')
              else
                (let d' = d\<lparr>effects := update_where p (claim_row fence) (effects d)\<rparr> in
                 case effectFrom d' (ef_SemanticKey fence) of
                   Inl e \<Rightarrow> Inl e
                 | Inr effect' \<Rightarrow> Inr (\<lparr>ec_Effect = effect', ec_Claimed = True\<rparr>, d')))))"

definition ClaimEffect :: "Store \<Rightarrow> EffectFence \<Rightarrow> (store_error + EffectClaim) \<times> Store" where
  "ClaimEffect s fence = store_write s (ClaimEffect_tx (st_mutations s) fence)"

section \<open>Settling\<close>

definition finish_row :: "string \<Rightarrow> string \<Rightarrow> Effect \<Rightarrow> Effect" where
  "finish_row state identity r = r\<lparr>e_State := state, e_ObservedIdentity := identity\<rparr>"

definition finishEffect_tx ::
  "Gate option \<Rightarrow> EffectFence \<Rightarrow> string \<Rightarrow> string \<Rightarrow> db \<Rightarrow> store_error + (Effect \<times> db)" where
  "finishEffect_tx m fence state identity d =
     (case assertTicketFence m d (ef_Ref fence) (ef_TicketVersion fence) (ef_Fence fence) of
        Some e \<Rightarrow> Inl e
      | None \<Rightarrow>
        (case effectFrom d (ef_SemanticKey fence) of
           Inl e \<Rightarrow> Inl e
         | Inr current \<Rightarrow>
           if e_Ref current \<noteq> ef_Ref fence \<or> e_TicketVersion current \<noteq> ef_TicketVersion fence \<or>
              e_ClaimEpoch current \<noteq> ClaimEpoch (ef_Fence fence) \<or>
              e_LeaderEpoch current \<noteq> LeaderEpoch (ef_Fence fence) \<or>
              e_RunnerEpoch current \<noteq> RunnerEpoch (ef_Fence fence)
           then Inl ErrStaleFence
           else if e_State current = EffectConfirmed \<and> state = EffectConfirmed
           then Inr (current, d)
           else if e_State current \<noteq> EffectExecuting \<and> e_State current \<noteq> EffectUncertain
           then Inl (ErrState ''cannot finish effect in state'' (e_State current))
           else
             (let p = (\<lambda>r. e_SemanticKey r = ef_SemanticKey fence \<and>
                      (e_State r = EffectExecuting \<or> e_State r = EffectUncertain) \<and>
                      e_ClaimEpoch r = ClaimEpoch (ef_Fence fence) \<and>
                      e_LeaderEpoch r = LeaderEpoch (ef_Fence fence) \<and>
                      e_RunnerEpoch r = RunnerEpoch (ef_Fence fence) \<and>
                      e_TicketVersion r = ef_TicketVersion fence) in
              if count_where p (effects d) \<noteq> 1 then Inl ErrStaleFence
              else
                (let d' = d\<lparr>effects := update_where p (finish_row state identity) (effects d)\<rparr> in
                 case effectFrom d' (ef_SemanticKey fence) of
                   Inl e \<Rightarrow> Inl e
                 | Inr effect \<Rightarrow> Inr (effect, d')))))"

definition finishEffect :: "Store \<Rightarrow> EffectFence \<Rightarrow> string \<Rightarrow> string \<Rightarrow> (store_error + Effect) \<times> Store" where
  "finishEffect s fence state identity =
     store_write s (finishEffect_tx (st_mutations s) fence state identity)"

definition ObserveEffect :: "Store \<Rightarrow> EffectObservation \<Rightarrow> (store_error + Effect) \<times> Store" where
  "ObserveEffect s observation =
     (if eo_Present observation \<and> TrimSpace (eo_Identity observation) = ''''
      then (Inl (ErrMessage ''observed identity is required to confirm an effect''), s)
      else finishEffect s (eo_Fence observation)
        (if eo_Present observation then EffectConfirmed else EffectFailed) (eo_Identity observation))"

definition ConfirmEffect :: "Store \<Rightarrow> EffectFence \<Rightarrow> string \<Rightarrow> (store_error + Effect) \<times> Store" where
  "ConfirmEffect s fence identity =
     ObserveEffect s \<lparr>eo_Fence = fence, eo_Present = True, eo_Identity = identity\<rparr>"

definition FailEffect :: "Store \<Rightarrow> EffectFence \<Rightarrow> (store_error + Effect) \<times> Store" where
  "FailEffect s fence = finishEffect s fence EffectFailed ''''"

definition MarkEffectUncertain :: "Store \<Rightarrow> EffectFence \<Rightarrow> (store_error + Effect) \<times> Store" where
  "MarkEffectUncertain s fence = finishEffect s fence EffectUncertain ''''"

section \<open>Observations after a fence advanced\<close>

text \<open>
  A recorded stale observation commits and still returns \<open>ErrStaleObservation\<close>, so the result
  carries the effect beside the error.
\<close>

definition RecordStaleObservation_tx :: "EffectObservation \<Rightarrow> db \<Rightarrow> store_error + (Effect \<times> db)" where
  "RecordStaleObservation_tx observation d =
     (let f = eo_Fence observation in
      case effectFrom d (ef_SemanticKey f) of
        Inl e \<Rightarrow> Inl e
      | Inr current \<Rightarrow>
        if e_Ref current \<noteq> ef_Ref f \<or> e_State current \<noteq> EffectUncertain \<or>
           e_LeaderEpoch current \<noteq> LeaderEpoch (ef_Fence f) \<or>
           e_ClaimEpoch current \<noteq> ClaimEpoch (ef_Fence f)
        then Inl ErrStaleFence
        else
          (case (ticket_at d (ef_Ref f), leader_at d (Channel (ef_Ref f))) of
             (Some t, Some leader) \<Rightarrow>
               if leader \<noteq> LeaderEpoch (ef_Fence f) then Inl ErrStaleFence
               else if t_Version t = e_TicketVersion current \<and> t_RunnerEpoch t = e_RunnerEpoch current
               then Inl (ErrMessage ''stale observation requires a changed ticket identity'')
               else
                 (let p = (\<lambda>r. e_SemanticKey r = ef_SemanticKey f \<and> e_State r = EffectUncertain \<and>
                          e_LeaderEpoch r = LeaderEpoch (ef_Fence f) \<and>
                          e_ClaimEpoch r = ClaimEpoch (ef_Fence f));
                      d' = d\<lparr>effects := update_where p
                             (\<lambda>r. r\<lparr>e_ObservedIdentity := eo_Identity observation\<rparr>) (effects d)\<rparr> in
                  case effectFrom d' (ef_SemanticKey f) of
                    Inl e \<Rightarrow> Inl e
                  | Inr effect \<Rightarrow> Inr (effect, d'))
           | _ \<Rightarrow> Inl ErrNoRows))"

definition RecordStaleObservation ::
  "Store \<Rightarrow> EffectObservation \<Rightarrow> (Effect option \<times> store_error) \<times> Store" where
  "RecordStaleObservation s observation =
     (if TrimSpace (eo_Identity observation) = ''''
      then ((None, ErrMessage ''observed identity is required for stale observation''), s)
      else case store_write s (RecordStaleObservation_tx observation) of
        (Inl e, s') \<Rightarrow> ((None, e), s')
      | (Inr effect, s') \<Rightarrow> ((Some effect, ErrStaleObservation), s'))"

definition maxEvidenceJSON :: int where "maxEvidenceJSON = 65536"

definition evidenceEvent :: "TicketRef \<Rightarrow> u64 \<Rightarrow> string \<Rightarrow> string \<Rightarrow> db \<Rightarrow> store_error + db" where
  "evidenceEvent ref version trigger encoded d =
     (if maxEvidenceJSON < int (length encoded) then Inl (ErrMessage ''encode bounded evidence event'')
      else case ticket_at d ref of
        None \<Rightarrow> Inl ErrNoRows
      | Some t \<Rightarrow> Inr (snd (insert_event ref version trigger (t_State t) (t_State t) encoded d)))"

definition reconciliationPayload :: "EffectObservation \<Rightarrow> EffectFence \<Rightarrow> u64 \<Rightarrow> string" where
  "reconciliationPayload prior current currentClaim =
     (let f = eo_Fence prior in
      json_object
        ([(''semantic_key'', json_string (ef_SemanticKey f)),
          (''present'', json_bool (eo_Present prior)),
          (''prior_ticket_version'', json_uint (ef_TicketVersion f)),
          (''prior_leader_epoch'', json_uint (LeaderEpoch (ef_Fence f))),
          (''prior_runner_epoch'', json_uint (RunnerEpoch (ef_Fence f))),
          (''prior_claim_epoch'', json_uint (ClaimEpoch (ef_Fence f))),
          (''current_ticket_version'', json_uint (ef_TicketVersion current)),
          (''current_leader_epoch'', json_uint (LeaderEpoch (ef_Fence current))),
          (''current_runner_epoch'', json_uint (RunnerEpoch (ef_Fence current))),
          (''current_claim_epoch'', json_uint currentClaim)] @
         (if eo_Identity prior = '''' then []
          else [(''observed_identity'', json_string (eo_Identity prior))])))"

definition reconciled_row :: "EffectObservation \<Rightarrow> EffectFence \<Rightarrow> u64 \<Rightarrow> Effect \<Rightarrow> Effect" where
  "reconciled_row prior current newClaim r =
     (if eo_Present prior
      then r\<lparr>e_State := EffectConfirmed, e_ObservedIdentity := eo_Identity prior,
             e_TicketVersion := ef_TicketVersion current,
             e_LeaderEpoch := LeaderEpoch (ef_Fence current),
             e_RunnerEpoch := RunnerEpoch (ef_Fence current), e_ClaimEpoch := newClaim\<rparr>
      else r\<lparr>e_State := EffectFailed, e_ObservedIdentity := eo_Identity prior,
             e_TicketVersion := ef_TicketVersion (eo_Fence prior),
             e_LeaderEpoch := LeaderEpoch (ef_Fence (eo_Fence prior)),
             e_RunnerEpoch := RunnerEpoch (ef_Fence (eo_Fence prior)), e_ClaimEpoch := newClaim\<rparr>)"

definition ReconcileInvalidatedEffect_tx ::
  "InvalidatedEffectObservation \<Rightarrow> db \<Rightarrow> store_error + (Effect \<times> db)" where
  "ReconcileInvalidatedEffect_tx observation d =
     (let prior = io_Prior observation; f = eo_Fence prior; now = io_Current observation in
      case assertCurrentTicketFence d (ef_Ref f) (ef_TicketVersion now) (ef_Fence now) of
        Some e \<Rightarrow> Inl e
      | None \<Rightarrow>
        (case effectFrom d (ef_SemanticKey f) of
           Inl e \<Rightarrow> Inl e
         | Inr current \<Rightarrow>
           if e_Ref current \<noteq> ef_Ref f then Inl ErrStaleFence
           else if eo_Present prior \<and> e_State current = EffectConfirmed \<and>
              e_TicketVersion current = ef_TicketVersion now \<and>
              e_LeaderEpoch current = LeaderEpoch (ef_Fence now) \<and>
              e_RunnerEpoch current = RunnerEpoch (ef_Fence now) \<and>
              e_ObservedIdentity current = eo_Identity prior
           then
             if count_where (\<lambda>v. ev_Ref v = ef_Ref f \<and> ev_TicketVersion v = ef_TicketVersion now \<and>
                  ev_Trigger v = ''invalidated_effect_reconciled'' \<and>
                  ev_Payload v = reconciliationPayload (prior\<lparr>eo_Present := True\<rparr>) now (e_ClaimEpoch current))
                (events d) = 1
             then Inr (current, d)
             else Inl ErrStaleFence
           else if e_TicketVersion current \<noteq> ef_TicketVersion f \<or>
              e_LeaderEpoch current \<noteq> LeaderEpoch (ef_Fence f) \<or>
              e_RunnerEpoch current \<noteq> RunnerEpoch (ef_Fence f) \<or>
              e_ClaimEpoch current \<noteq> ClaimEpoch (ef_Fence f)
           then Inl ErrStaleFence
           else if e_TicketVersion current = ef_TicketVersion now \<and>
              e_LeaderEpoch current = LeaderEpoch (ef_Fence now) \<and>
              e_RunnerEpoch current = RunnerEpoch (ef_Fence now) \<and> e_State current \<noteq> EffectUncertain
           then Inl (ErrMessage ''invalidated effect reconciliation requires a revoked claim'')
           else if e_State current = EffectConfirmed \<and> \<not> eo_Present prior then Inl ErrStaleFence
           else if e_State current \<noteq> EffectExecuting \<and> e_State current \<noteq> EffectUncertain \<and>
              \<not> (e_State current = EffectConfirmed \<and> eo_Present prior)
           then Inl (ErrState ''cannot reconcile invalidated effect in state'' (e_State current))
           else if eo_Present prior \<and> e_ClaimEpoch current + 1 = 0 then Inl ErrStaleFence
           else
             (let newClaim = (if eo_Present prior then e_ClaimEpoch current + 1 else e_ClaimEpoch current);
                  p = (\<lambda>r. e_SemanticKey r = ef_SemanticKey f \<and>
                       (e_State r = EffectExecuting \<or> e_State r = EffectUncertain \<or>
                        (eo_Present prior \<and> e_State current = EffectConfirmed \<and>
                         e_State r = EffectConfirmed)) \<and>
                       e_TicketVersion r = ef_TicketVersion f \<and>
                       e_LeaderEpoch r = LeaderEpoch (ef_Fence f) \<and>
                       e_RunnerEpoch r = RunnerEpoch (ef_Fence f) \<and>
                       e_ClaimEpoch r = ClaimEpoch (ef_Fence f)) in
              if count_where p (effects d) \<noteq> 1 then Inl ErrStaleFence
              else
                (let d' = d\<lparr>effects := update_where p (reconciled_row prior now newClaim) (effects d)\<rparr> in
                 case evidenceEvent (ef_Ref f) (ef_TicketVersion now) ''invalidated_effect_reconciled''
                     (reconciliationPayload prior now newClaim) d' of
                   Inl e \<Rightarrow> Inl e
                 | Inr d'' \<Rightarrow>
                     (case effectFrom d'' (ef_SemanticKey f) of
                        Inl e \<Rightarrow> Inl e
                      | Inr effect \<Rightarrow> Inr (effect, d''))))))"

definition ReconcileInvalidatedEffect ::
  "Store \<Rightarrow> InvalidatedEffectObservation \<Rightarrow> (store_error + Effect) \<times> Store" where
  "ReconcileInvalidatedEffect s observation =
     (let prior = io_Prior observation; f = eo_Fence prior; now = io_Current observation in
      case TicketRef_Validate (ef_Ref f) of
        Some e \<Rightarrow> (Inl (ErrRef e), s)
      | None \<Rightarrow>
        if ef_SemanticKey f = '''' \<or> ef_TicketVersion f = 0 \<or> LeaderEpoch (ef_Fence f) = 0 \<or>
           RunnerEpoch (ef_Fence f) = 0 \<or> ClaimEpoch (ef_Fence f) = 0 \<or> ef_Ref now \<noteq> ef_Ref f \<or>
           ef_SemanticKey now \<noteq> ef_SemanticKey f \<or> ef_TicketVersion now = 0 \<or>
           LeaderEpoch (ef_Fence now) = 0 \<or> RunnerEpoch (ef_Fence now) = 0
        then (Inl (ErrMessage ''prior effect claim and current ticket fence are required''), s)
        else if eo_Present prior \<and> TrimSpace (eo_Identity prior) = ''''
        then (Inl (ErrMessage ''observed identity is required for a present effect''), s)
        else store_write s (ReconcileInvalidatedEffect_tx observation))"

section \<open>Leader recovery\<close>

definition recover_row :: "u64 \<Rightarrow> Effect \<Rightarrow> Effect" where
  "recover_row leaderEpoch r = r\<lparr>e_State := EffectUncertain, e_LeaderEpoch := leaderEpoch,
     e_ClaimEpoch := e_ClaimEpoch r + 1\<rparr>"

definition stranded :: "string \<Rightarrow> u64 \<Rightarrow> Effect \<Rightarrow> bool" where
  "stranded channel leaderEpoch r \<longleftrightarrow>
     Channel (e_Ref r) = channel \<and> (e_State r = EffectExecuting \<or> e_State r = EffectUncertain) \<and>
     e_LeaderEpoch r \<noteq> leaderEpoch"

definition ReconcileEffects_tx :: "string \<Rightarrow> u64 \<Rightarrow> db \<Rightarrow> store_error + (Effect list \<times> db)" where
  "ReconcileEffects_tx channel leaderEpoch d =
     (case leader_at d channel of
        None \<Rightarrow> Inl ErrNoRows
      | Some current \<Rightarrow>
          if current \<noteq> leaderEpoch then Inl ErrStaleFence
          else
            (let d' = d\<lparr>effects := update_where (stranded channel leaderEpoch)
                         (recover_row leaderEpoch) (effects d)\<rparr> in
             Inr (sort_key e_SemanticKey
                    (filter (\<lambda>r. Channel (e_Ref r) = channel \<and> e_State r = EffectUncertain) (effects d')),
                  d')))"

definition ReconcileEffects :: "Store \<Rightarrow> string \<Rightarrow> u64 \<Rightarrow> (store_error + Effect list) \<times> Store" where
  "ReconcileEffects s channel leaderEpoch = store_write s (ReconcileEffects_tx channel leaderEpoch)"

end
