(* ===== verification/EffectSafety.thy ===== *)
theory EffectSafety
  imports Effects
begin

text \<open>
  What the effect table promises: the behaviour of each operation of theory Effects, the invariant
  that every operation keeps, and the protocol that any sequence of operations follows, stated as
  an interface and interpreted on the Store's operations.
\<close>

section \<open>The interface: a table of effects that only moves forward\<close>

definition same_request :: "Effect \<Rightarrow> Effect \<Rightarrow> bool" where
  "same_request e e' \<longleftrightarrow> e_SemanticKey e' = e_SemanticKey e \<and> e_Ref e' = e_Ref e \<and>
     e_Kind e' = e_Kind e \<and> e_RequestDigest e' = e_RequestDigest e"

definition unsettled :: "Effect \<Rightarrow> bool" where
  "unsettled e \<longleftrightarrow> e_State e = EffectExecuting \<or> e_State e = EffectUncertain"

definition claimable :: "Effect \<Rightarrow> bool" where
  "claimable e \<longleftrightarrow> e_State e = EffectPlanned \<or> e_State e = EffectFailed"

text \<open>
  One step in the life of an effect: it keeps its state and claim; or it is claimed, which needs a
  planned or failed effect and takes a new claim epoch; or an unsettled effect is settled or
  marked uncertain; or a confirmed effect stays confirmed under a new claim epoch.
\<close>

definition lifecycle :: "Effect \<Rightarrow> Effect \<Rightarrow> bool" where
  "lifecycle e e' \<longleftrightarrow> same_request e e' \<and>
     (e_State e' = e_State e \<and> e_ClaimEpoch e' = e_ClaimEpoch e \<or>
      claimable e \<and> e_State e' = EffectExecuting \<and> e_ClaimEpoch e' = e_ClaimEpoch e + 1 \<or>
      unsettled e \<and> e_State e' \<in> {EffectConfirmed, EffectFailed, EffectUncertain} \<and>
        e_ClaimEpoch e' \<in> {e_ClaimEpoch e, e_ClaimEpoch e + 1} \<or>
      e_State e = EffectConfirmed \<and> e_State e' = EffectConfirmed \<and>
        e_ClaimEpoch e' = e_ClaimEpoch e + 1)"

locale effect_protocol =
  fixes lookup :: "'s \<Rightarrow> string \<Rightarrow> Effect option"
    and invar :: "'s \<Rightarrow> bool"
    and step :: "'s \<Rightarrow> 's \<Rightarrow> bool"
  assumes step_invar: "invar s \<Longrightarrow> step s s' \<Longrightarrow> invar s'"
    and step_lifecycle: "invar s \<Longrightarrow> step s s' \<Longrightarrow> lookup s k = Some e \<Longrightarrow>
      \<exists>e'. lookup s' k = Some e' \<and> lifecycle e e'"
begin

lemma run_invar: "step\<^sup>*\<^sup>* s s' \<Longrightarrow> invar s \<Longrightarrow> invar s'"
  by (induction rule: rtranclp_induct) (auto intro: step_invar)

text \<open>An effect never disappears and never changes what it was requested to do.\<close>

lemma run_request:
  assumes "step\<^sup>*\<^sup>* s s'" and "invar s" and "lookup s k = Some e"
  shows "\<exists>e'. lookup s' k = Some e' \<and> same_request e e'"
  using assms(1)
proof (induction rule: rtranclp_induct)
  case base
  with assms(3) show ?case by (auto simp: same_request_def)
next
  case (step t u)
  then obtain e1 where e1: "lookup t k = Some e1" "same_request e e1" by blast
  from step.hyps(1) assms(2) have "invar t" by (rule run_invar)
  from step_lifecycle [OF this step.hyps(2) e1(1)]
  obtain e2 where "lookup u k = Some e2" "lifecycle e1 e2" by blast
  with e1(2) show ?case by (auto simp: lifecycle_def same_request_def)
qed

text \<open>A confirmed effect stays confirmed, whatever happens afterwards.\<close>

lemma run_confirmed:
  assumes "step\<^sup>*\<^sup>* s s'" and "invar s" and "lookup s k = Some e" and "e_State e = EffectConfirmed"
  shows "\<exists>e'. lookup s' k = Some e' \<and> e_State e' = EffectConfirmed"
  using assms(1)
proof (induction rule: rtranclp_induct)
  case base
  with assms(3,4) show ?case by blast
next
  case (step t u)
  then obtain e1 where e1: "lookup t k = Some e1" "e_State e1 = EffectConfirmed" by blast
  from step.hyps(1) assms(2) have "invar t" by (rule run_invar)
  from step_lifecycle [OF this step.hyps(2) e1(1)]
  obtain e2 where "lookup u k = Some e2" "lifecycle e1 e2" by blast
  with e1(2) show ?case
    by (auto simp: lifecycle_def claimable_def unsettled_def effect_state_defs)
qed

text \<open>
  Between two states of a run in which an effect is executing under different claims, some state
  shows it settled as failed: a claim is never handed out again while the first may be live.
\<close>

lemma run_reclaim:
  assumes "step\<^sup>*\<^sup>* s s'" and "invar s" and "lookup s k = Some e" and "unsettled e"
    and "lookup s' k = Some e'" and "e_State e' = EffectExecuting"
    and "e_ClaimEpoch e' \<noteq> e_ClaimEpoch e"
  shows "\<exists>t f. step\<^sup>*\<^sup>* s t \<and> step\<^sup>*\<^sup>* t s' \<and> lookup t k = Some f \<and> e_State f = EffectFailed"
proof -
  let ?P = "\<lambda>t f. e_State f = EffectUncertain \<or> e_State f = EffectConfirmed \<or> e_State f = EffectFailed \<or>
     e_State f = EffectExecuting \<and> (e_ClaimEpoch f = e_ClaimEpoch e \<and> e_State e = EffectExecuting \<or>
      (\<exists>u g. step\<^sup>*\<^sup>* s u \<and> step\<^sup>*\<^sup>* u t \<and> lookup u k = Some g \<and> e_State g = EffectFailed))"
  from assms(1) have "\<exists>f. lookup s' k = Some f \<and> ?P s' f"
  proof (induction rule: rtranclp_induct)
    case base
    with assms(3,4) show ?case by (auto simp: unsettled_def)
  next
    case (step t u)
    then obtain f where f: "lookup t k = Some f" "?P t f" by blast
    from step.hyps(1) assms(2) have "invar t" by (rule run_invar)
    from step_lifecycle [OF this step.hyps(2) f(1)]
    obtain g where g: "lookup u k = Some g" "lifecycle f g" by blast
    show ?case
    proof (cases "e_State f = EffectFailed")
      case True
      with step.hyps f(1) have "step\<^sup>*\<^sup>* s t" "step\<^sup>*\<^sup>* t u" "lookup t k = Some f" by auto
      with True g show ?thesis
        by (auto simp: lifecycle_def claimable_def unsettled_def effect_state_defs)
    next
      case False
      with f g step.hyps(2) show ?thesis
        by (auto simp: lifecycle_def claimable_def unsettled_def effect_state_defs
            intro: rtranclp.rtrancl_into_rtrancl)
    qed
  qed
  with assms(5-7) show ?thesis by (auto simp: effect_state_defs)
qed

end

section \<open>The invariant of the effect table\<close>

definition effects_inv :: "db \<Rightarrow> bool" where
  "effects_inv d \<longleftrightarrow> unique_key e_SemanticKey (effects d) \<and>
     (\<forall>k k' e e'. effect_at d k = Some e \<longrightarrow> effect_at d k' = Some e' \<longrightarrow>
        e_State e = EffectExecuting \<longrightarrow> e_State e' = EffectExecuting \<longrightarrow>
        e_Ref e = e_Ref e' \<longrightarrow> e_Kind e = e_Kind e' \<longrightarrow> k = k')"

definition effects_step :: "db \<Rightarrow> db \<Rightarrow> bool" where
  "effects_step d d' \<longleftrightarrow>
     (\<forall>k e. effect_at d k = Some e \<longrightarrow> (\<exists>e'. effect_at d' k = Some e' \<and> lifecycle e e')) \<and>
     (\<forall>k e'. effect_at d k = None \<longrightarrow> effect_at d' k = Some e' \<longrightarrow>
        e_State e' = EffectPlanned \<and> e_ClaimEpoch e' = 0)"

definition sound_step :: "db \<Rightarrow> db \<Rightarrow> bool" where
  "sound_step d d' \<longleftrightarrow> effects_inv d' \<and> effects_step d d'"

lemma lifecycle_refl [simp]: "lifecycle e e"
  by (simp add: lifecycle_def same_request_def)

lemma sound_step_same: "effects_inv d \<Longrightarrow> effects d' = effects d \<Longrightarrow> sound_step d d'"
  by (auto simp: sound_step_def effects_step_def effects_inv_def effect_at_def)

lemma effect_at_member:
  "unique_key e_SemanticKey (effects d) \<Longrightarrow> e \<in> set (effects d) \<longleftrightarrow> effect_at d (e_SemanticKey e) = Some e"
  unfolding effect_at_def by (rule row_at_member)

lemma active_claim_conflict_iff:
  "unique_key e_SemanticKey (effects d) \<Longrightarrow> active_claim_conflict d e \<longleftrightarrow>
     (\<exists>k r. k \<noteq> e_SemanticKey e \<and> effect_at d k = Some r \<and> e_Ref r = e_Ref e \<and> e_Kind r = e_Kind e \<and>
        e_State r = EffectExecuting)"
  unfolding active_claim_conflict_def list_ex_iff
  by (metis effect_at_member effect_at_def effect_table.get_key)

text \<open>
  The shape every settled transaction of the effect table has: one row, pinned by its semantic
  key, moves one step of its life.
\<close>

lemma pinned_effect_update:
  assumes inv: "effects_inv d" and p: "\<And>r. p r \<Longrightarrow> e_SemanticKey r = k"
    and f: "\<And>r. e_SemanticKey (f r) = e_SemanticKey r" and one: "count_where p (effects d) = 1"
    and life: "\<And>r. p r \<Longrightarrow> lifecycle r (f r)"
    and free: "\<And>r. effect_at d k = Some r \<Longrightarrow> p r \<Longrightarrow> e_State (f r) = EffectExecuting \<Longrightarrow>
      e_State r = EffectExecuting \<or> \<not> active_claim_conflict d r"
    and d': "effects d' = update_where p f (effects d)"
  obtains r where "effect_at d k = Some r" and "p r"
    and "\<And>k'. effect_at d' k' = (if k' = k then Some (f r) else effect_at d k')"
    and "sound_step d d'"
proof -
  from inv have u: "unique_key e_SemanticKey (effects d)" by (simp add: effects_inv_def)
  obtain r where r: "effect_at d k = Some r" "p r"
    and at: "\<And>k'. effect_at d' k' = (if k' = k then Some (f r) else effect_at d k')"
    and u': "unique_key e_SemanticKey (effects d')"
    using effect_table.pinned_update [OF u p f one] unfolding effect_at_def d' by metis
  have rk: "e_SemanticKey r = k" using p r(2) by blast
  have same: "e_Ref (f r) = e_Ref r" "e_Kind (f r) = e_Kind r"
    using life [OF r(2)] by (auto simp: lifecycle_def same_request_def)
  have only: "k' = k" if "effect_at d k' = Some e" "e_State e = EffectExecuting"
    "e_State (f r) = EffectExecuting" "e_Ref e = e_Ref r" "e_Kind e = e_Kind r" for k' e
    using that free [OF r] inv r(1) active_claim_conflict_iff [OF u] rk
    unfolding effects_inv_def by metis
  have "effects_inv d'"
    using inv u' only same unfolding effects_inv_def at by (auto split: if_splits)
  moreover have "effects_step d d'"
    using r life [OF r(2)] by (auto simp: effects_step_def at)
  ultimately show ?thesis using that r at by (simp add: sound_step_def)
qed

section \<open>Each transaction\<close>

lemma effectFrom_Inr [simp]: "effectFrom d k = Inr e \<longleftrightarrow> effect_at d k = Some e"
  by (auto simp: effectFrom_def split: option.splits)

lemma insert_planned_sound:
  assumes inv: "effects_inv d" and new: "effect_at d (ep_SemanticKey plan) = None"
    and d': "effects d' = insert_planned plan (effects d)"
  shows "sound_step d d'"
    and "\<exists>e. effect_at d' (ep_SemanticKey plan) = Some e \<and> e_State e = EffectPlanned \<and>
      e_ClaimEpoch e = 0 \<and> e_TicketVersion e = ep_TicketVersion plan \<and>
      e_LeaderEpoch e = LeaderEpoch (ep_Fence plan) \<and> e_RunnerEpoch e = RunnerEpoch (ep_Fence plan)"
proof -
  let ?e = "\<lparr>e_SemanticKey = ep_SemanticKey plan, e_Ref = ep_Ref plan, e_Kind = ep_Kind plan,
           e_State = EffectPlanned, e_TicketVersion = ep_TicketVersion plan,
           e_LeaderEpoch = LeaderEpoch (ep_Fence plan), e_RunnerEpoch = RunnerEpoch (ep_Fence plan),
           e_ClaimEpoch = 0, e_RequestDigest = ep_RequestDigest plan, e_ObservedIdentity = ''''\<rparr>"
  from new have "row_at e_SemanticKey (effects d) (e_SemanticKey ?e) = None"
    by (simp add: effect_at_def)
  moreover from new d' have ins: "effects d' = insert_row ?e (effects d)"
    by (simp add: insert_planned_def effect_at_def)
  ultimately have at: "effect_at d' k = (if k = ep_SemanticKey plan then Some ?e else effect_at d k)"
    and u: "unique_key e_SemanticKey (effects d')" for k
    using inv by (auto simp: effect_at_def effect_table.get_ins effect_table.wf_ins effects_inv_def)
  show "sound_step d d'"
    using inv u new unfolding sound_step_def effects_step_def effects_inv_def at
    by (auto simp: effect_state_defs split: if_splits)
  show "\<exists>e. effect_at d' (ep_SemanticKey plan) = Some e \<and> e_State e = EffectPlanned \<and>
      e_ClaimEpoch e = 0 \<and> e_TicketVersion e = ep_TicketVersion plan \<and>
      e_LeaderEpoch e = LeaderEpoch (ep_Fence plan) \<and> e_RunnerEpoch e = RunnerEpoch (ep_Fence plan)"
    by (simp add: at)
qed

lemma PlanEffect_tx_sound:
  assumes inv: "effects_inv d" and run: "PlanEffect_tx m plan d = Inr (e, d')"
  shows "sound_step d d'"
proof (cases "effect_at d (ep_SemanticKey plan)")
  case None
  let ?d = "d\<lparr>effects := insert_planned plan (effects d)\<rparr>"
  from insert_planned_sound(2) [OF inv None, of ?d] run have "d' = ?d"
    by (auto simp: PlanEffect_tx_def Let_def effectFrom_def split: option.splits if_splits)
  with insert_planned_sound(1) [OF inv None, of ?d] show ?thesis by simp
next
  case (Some r)
  then have ins: "d\<lparr>effects := insert_planned plan (effects d)\<rparr> = d"
    by (simp add: insert_planned_def effect_at_def)
  show ?thesis
  proof (cases "d' = d")
    case True
    with inv show ?thesis by (simp add: sound_step_same)
  next
    case False
    let ?p = "\<lambda>x. e_SemanticKey x = ep_SemanticKey plan \<and>
                        (e_State x = EffectPlanned \<or> e_State x = EffectFailed) \<and>
                        e_TicketVersion x = e_TicketVersion r \<and>
                        e_LeaderEpoch x = e_LeaderEpoch r \<and>
                        e_RunnerEpoch x = e_RunnerEpoch r \<and> e_ClaimEpoch x = e_ClaimEpoch r"
    from run False Some have d': "d' = d\<lparr>effects := update_where ?p (rebind_row plan) (effects d)\<rparr>"
      and one: "count_where ?p (effects d) = 1"
      by (auto simp: PlanEffect_tx_def Let_def ins split: option.splits if_splits sum.splits)
    show ?thesis
      by (rule pinned_effect_update [OF inv _ _ one, of "ep_SemanticKey plan" "rebind_row plan" d'])
        (auto simp: d' rebind_row_def lifecycle_def same_request_def)
  qed
qed
lemma ClaimEffect_tx_cases:
  assumes inv: "effects_inv d" and run: "ClaimEffect_tx m fence d = Inr (c, d')"
  obtains (kept) "ec_Claimed c = False" and "d' = d"
      and "effect_at d (ef_SemanticKey fence) = Some (ec_Effect c)"
      and "e_State (ec_Effect c) = EffectConfirmed"
  | (claimed) r where "ec_Claimed c = True" and "effect_at d (ef_SemanticKey fence) = Some r"
      and "claimable r" and "e_Ref r = ef_Ref fence" and "e_TicketVersion r = ef_TicketVersion fence"
      and "ec_Effect c = claim_row fence r" and "\<not> active_claim_conflict d r"
      and "\<And>k. effect_at d' k =
        (if k = ef_SemanticKey fence then Some (claim_row fence r) else effect_at d k)"
      and "sound_step d d'" and "\<exists>t. d' = d\<lparr>effects := t\<rparr>"
proof (cases "ec_Claimed c")
  case False
  with run show ?thesis
    by (intro kept) (auto simp: ClaimEffect_tx_def Let_def split: option.splits if_splits sum.splits)
next
  case True
  let ?p = "\<lambda>r x. e_SemanticKey x = ef_SemanticKey fence \<and>
     (e_State x = EffectPlanned \<or> e_State x = EffectFailed) \<and> e_ClaimEpoch x = e_ClaimEpoch r"
  from run obtain r where r: "effect_at d (ef_SemanticKey fence) = Some r"
    by (cases "effect_at d (ef_SemanticKey fence)")
      (auto simp: ClaimEffect_tx_def effectFrom_def split: option.splits)
  with run True have row: "e_Ref r = ef_Ref fence" "e_TicketVersion r = ef_TicketVersion fence"
    "\<not> active_claim_conflict d r" and one: "count_where (?p r) (effects d) = 1"
    and d': "d' = d\<lparr>effects := update_where (?p r) (claim_row fence) (effects d)\<rparr>"
    and c: "effect_at d' (ef_SemanticKey fence) = Some (ec_Effect c)"
    by (auto simp: ClaimEffect_tx_def Let_def split: option.splits if_splits sum.splits)
  show ?thesis
  proof (rule pinned_effect_update [OF inv _ _ one, of "ef_SemanticKey fence" "claim_row fence" d'])
    fix x
    assume x: "effect_at d (ef_SemanticKey fence) = Some x" "?p r x" "sound_step d d'"
      "\<And>k'. effect_at d' k' = (if k' = ef_SemanticKey fence then Some (claim_row fence x) else effect_at d k')"
    with r(1) have "x = r" by simp
    with x r row c True d' show ?thesis by (intro claimed [of r]) (auto simp: claimable_def)
  qed (use d' r row in \<open>auto simp: claim_row_def lifecycle_def same_request_def claimable_def\<close>)
qed

lemma finishEffect_tx_cases:
  assumes inv: "effects_inv d" and run: "finishEffect_tx m fence state identity d = Inr (e, d')"
    and state: "state \<in> {EffectConfirmed, EffectFailed, EffectUncertain}"
  obtains (replay) "d' = d" and "effect_at d (ef_SemanticKey fence) = Some e"
      and "e_State e = EffectConfirmed" and "state = EffectConfirmed"
  | (settled) r where "effect_at d (ef_SemanticKey fence) = Some r" and "unsettled r"
      and "e_Ref r = ef_Ref fence" and "e_TicketVersion r = ef_TicketVersion fence"
      and "e_ClaimEpoch r = ClaimEpoch (ef_Fence fence)" and "e_LeaderEpoch r = LeaderEpoch (ef_Fence fence)"
      and "e_RunnerEpoch r = RunnerEpoch (ef_Fence fence)" and "e = finish_row state identity r"
      and "\<And>k. effect_at d' k = (if k = ef_SemanticKey fence then Some e else effect_at d k)"
      and "sound_step d d'" and "\<exists>t. d' = d\<lparr>effects := t\<rparr>"
proof (cases "d' = d \<and> e_State e = EffectConfirmed \<and> state = EffectConfirmed \<and>
    effect_at d (ef_SemanticKey fence) = Some e")
  case True
  with replay show ?thesis by blast
next
  case False
  let ?p = "\<lambda>x. e_SemanticKey x = ef_SemanticKey fence \<and>
     (e_State x = EffectExecuting \<or> e_State x = EffectUncertain) \<and>
     e_ClaimEpoch x = ClaimEpoch (ef_Fence fence) \<and> e_LeaderEpoch x = LeaderEpoch (ef_Fence fence) \<and>
     e_RunnerEpoch x = RunnerEpoch (ef_Fence fence) \<and> e_TicketVersion x = ef_TicketVersion fence"
  from run obtain r where r: "effect_at d (ef_SemanticKey fence) = Some r"
    by (cases "effect_at d (ef_SemanticKey fence)")
      (auto simp: finishEffect_tx_def effectFrom_def split: option.splits)
  with run False have row: "e_Ref r = ef_Ref fence" "e_TicketVersion r = ef_TicketVersion fence"
    "e_ClaimEpoch r = ClaimEpoch (ef_Fence fence)" "e_LeaderEpoch r = LeaderEpoch (ef_Fence fence)"
    "e_RunnerEpoch r = RunnerEpoch (ef_Fence fence)" and one: "count_where ?p (effects d) = 1"
    and d': "d' = d\<lparr>effects := update_where ?p (finish_row state identity) (effects d)\<rparr>"
    and c: "effect_at d' (ef_SemanticKey fence) = Some e"
    by (auto simp: finishEffect_tx_def Let_def split: option.splits if_splits sum.splits)
  show ?thesis
  proof (rule pinned_effect_update [OF inv _ _ one, of "ef_SemanticKey fence" "finish_row state identity" d'])
    fix x
    assume x: "effect_at d (ef_SemanticKey fence) = Some x" "?p x" "sound_step d d'"
      "\<And>k'. effect_at d' k' =
         (if k' = ef_SemanticKey fence then Some (finish_row state identity x) else effect_at d k')"
    with r(1) have "x = r" by simp
    with x r row c d' show ?thesis by (intro settled [of r]) (auto simp: unsettled_def)
  qed (use d' r state in
      \<open>auto simp: finish_row_def lifecycle_def same_request_def unsettled_def effect_state_defs split: if_splits\<close>)
qed
text \<open>
  An \<open>UPDATE\<close> over any number of rows is a sound step when every selected row moves one step of its
  life and none of them becomes executing.
\<close>

lemma bulk_effect_update:
  assumes inv: "effects_inv d" and f: "\<And>r. e_SemanticKey (f r) = e_SemanticKey r"
    and life: "\<And>r. p r \<Longrightarrow> lifecycle r (f r)"
    and idle: "\<And>r. p r \<Longrightarrow> e_State (f r) = EffectExecuting \<Longrightarrow> e_State r = EffectExecuting"
    and d': "effects d' = update_where p f (effects d)"
  shows "sound_step d d'"
    and "effect_at d' k = map_option (\<lambda>r. if p r then f r else r) (effect_at d k)"
proof -
  from inv have u: "unique_key e_SemanticKey (effects d)" by (simp add: effects_inv_def)
  have at: "effect_at d' k = map_option (\<lambda>r. if p r then f r else r) (effect_at d k)" for k
    using effect_table.get_upd [OF f u] by (simp add: effect_at_def d')
  show "effect_at d' k = map_option (\<lambda>r. if p r then f r else r) (effect_at d k)" by (rule at)
  have same: "e_Ref (f r) = e_Ref r \<and> e_Kind (f r) = e_Kind r" if "p r" for r
    using life [OF that] by (auto simp: lifecycle_def same_request_def)
  have old: "\<exists>e. effect_at d k = Some e \<and> e_State e = EffectExecuting \<and> e_Ref e = e_Ref e' \<and> e_Kind e = e_Kind e'"
    if "effect_at d' k = Some e'" "e_State e' = EffectExecuting" for k e'
    using that same idle by (auto simp: at split: if_splits)
  have "effects_inv d'"
    unfolding effects_inv_def
  proof (intro conjI allI impI)
    show "unique_key e_SemanticKey (effects d')"
      using effect_table.wf_upd [OF f u] by (simp add: d')
  next
    fix k1 k2 e1 e2
    assume 1: "effect_at d' k1 = Some e1" "effect_at d' k2 = Some e2" "e_State e1 = EffectExecuting"
      "e_State e2 = EffectExecuting" "e_Ref e1 = e_Ref e2" "e_Kind e1 = e_Kind e2"
    obtain a where a: "effect_at d k1 = Some a" "e_State a = EffectExecuting" "e_Ref a = e_Ref e1" "e_Kind a = e_Kind e1"
      using old [OF 1(1,3)] by blast
    obtain b where b: "effect_at d k2 = Some b" "e_State b = EffectExecuting" "e_Ref b = e_Ref e2" "e_Kind b = e_Kind e2"
      using old [OF 1(2,4)] by blast
    from inv a b 1(5,6) show "k1 = k2" unfolding effects_inv_def by metis
  qed
  then show "sound_step d d'" using life by (auto simp: sound_step_def effects_step_def at)
qed

lemma RecordStaleObservation_tx_sound:
  assumes inv: "effects_inv d" and run: "RecordStaleObservation_tx obs d = Inr (e, d')"
  shows "sound_step d d'"
proof -
  let ?f = "eo_Fence obs"
  from run have d': "effects d' = update_where (\<lambda>r. e_SemanticKey r = ef_SemanticKey ?f \<and>
      e_State r = EffectUncertain \<and> e_LeaderEpoch r = LeaderEpoch (ef_Fence ?f) \<and>
      e_ClaimEpoch r = ClaimEpoch (ef_Fence ?f)) (\<lambda>r. r\<lparr>e_ObservedIdentity := eo_Identity obs\<rparr>) (effects d)"
    by (auto simp: RecordStaleObservation_tx_def Let_def split: option.splits if_splits sum.splits)
  show ?thesis
    by (rule bulk_effect_update [OF inv _ _ _ d']) (auto simp: lifecycle_def same_request_def)
qed

lemma ReconcileEffects_tx_Inr:
  assumes inv: "effects_inv d" and run: "ReconcileEffects_tx channel leader d = Inr (es, d')"
  shows "sound_step d d'" and "leader_at d channel = Some leader" and "\<exists>t. d' = d\<lparr>effects := t\<rparr>"
    and "effect_at d' k =
      map_option (\<lambda>r. if stranded channel leader r then recover_row leader r else r) (effect_at d k)"
    and "set es = {r \<in> set (effects d'). Channel (e_Ref r) = channel \<and> e_State r = EffectUncertain}"
proof -
  from run have d': "effects d' = update_where (stranded channel leader) (recover_row leader) (effects d)"
    and "leader_at d channel = Some leader" and "\<exists>t. d' = d\<lparr>effects := t\<rparr>"
    and "set es = {r \<in> set (effects d'). Channel (e_Ref r) = channel \<and> e_State r = EffectUncertain}"
    by (auto simp: ReconcileEffects_tx_def Let_def split: option.splits if_splits)
  then show "leader_at d channel = Some leader" and "\<exists>t. d' = d\<lparr>effects := t\<rparr>"
    and "set es = {r \<in> set (effects d'). Channel (e_Ref r) = channel \<and> e_State r = EffectUncertain}"
    by blast+
  note bulk = bulk_effect_update [OF inv _ _ _ d']
  show "sound_step d d'"
    by (rule bulk) (auto simp: recover_row_def stranded_def lifecycle_def same_request_def unsettled_def effect_state_defs)
  show "effect_at d' k =
      map_option (\<lambda>r. if stranded channel leader r then recover_row leader r else r) (effect_at d k)"
    by (rule bulk) (auto simp: recover_row_def stranded_def lifecycle_def same_request_def unsettled_def effect_state_defs)
qed
lemma evidenceEvent_Inr:
  "evidenceEvent ref v trig enc d = Inr d' \<Longrightarrow> \<exists>t. ticket_at d ref = Some t \<and>
     d' = snd (insert_event ref v trig (t_State t) (t_State t) enc d)"
  by (auto simp: evidenceEvent_def split: if_splits option.splits)

lemma effects_insert_event [simp]: "effects (snd (insert_event ref v trig a b p d)) = effects d"
  by (simp add: insert_event_def Let_def)

definition reconciled_from :: "EffectObservation \<Rightarrow> Effect \<Rightarrow> bool" where
  "reconciled_from prior r \<longleftrightarrow> (let f = eo_Fence prior in
     (unsettled r \<or> eo_Present prior \<and> e_State r = EffectConfirmed) \<and>
     e_Ref r = ef_Ref f \<and> e_TicketVersion r = ef_TicketVersion f \<and>
     e_LeaderEpoch r = LeaderEpoch (ef_Fence f) \<and> e_RunnerEpoch r = RunnerEpoch (ef_Fence f) \<and>
     e_ClaimEpoch r = ClaimEpoch (ef_Fence f))"

definition reconciled_claim :: "EffectObservation \<Rightarrow> Effect \<Rightarrow> u64" where
  "reconciled_claim prior r = (if eo_Present prior then e_ClaimEpoch r + 1 else e_ClaimEpoch r)"

lemma reconciled_row_simps [simp]:
  "e_SemanticKey (reconciled_row prior now c r) = e_SemanticKey r"
  "e_Ref (reconciled_row prior now c r) = e_Ref r"
  "e_Kind (reconciled_row prior now c r) = e_Kind r"
  "e_RequestDigest (reconciled_row prior now c r) = e_RequestDigest r"
  "e_State (reconciled_row prior now c r) = (if eo_Present prior then EffectConfirmed else EffectFailed)"
  "e_ClaimEpoch (reconciled_row prior now c r) = c"
  "e_ObservedIdentity (reconciled_row prior now c r) = eo_Identity prior"
  by (simp_all add: reconciled_row_def)

lemma ReconcileInvalidatedEffect_tx_cases:
  assumes inv: "effects_inv d" and run: "ReconcileInvalidatedEffect_tx obs d = Inr (e, d')"
    and prior: "prior = io_Prior obs" and now: "now = io_Current obs"
    and key: "key = ef_SemanticKey (eo_Fence prior)"
  obtains (replay) "d' = d" and "effect_at d key = Some e" and "e_State e = EffectConfirmed"
  | (moved) r d1 where "effect_at d key = Some r" and "reconciled_from prior r"
      and "e = reconciled_row prior now (reconciled_claim prior r) r"
      and "\<And>k. effect_at d' k = (if k = key then Some e else effect_at d k)"
      and "evidenceEvent (ef_Ref (eo_Fence prior)) (ef_TicketVersion now) ''invalidated_effect_reconciled''
             (reconciliationPayload prior now (reconciled_claim prior r)) d1 = Inr d'"
      and "\<exists>t. d1 = d\<lparr>effects := t\<rparr>"
      and "sound_step d d'"
proof (cases "d' = d \<and> e_State e = EffectConfirmed \<and> effect_at d key = Some e")
  case True
  with replay show ?thesis by blast
next
  case False
  let ?f = "eo_Fence prior"
  let ?p = "\<lambda>r x. e_SemanticKey x = ef_SemanticKey ?f \<and>
     (e_State x = EffectExecuting \<or> e_State x = EffectUncertain \<or>
      (eo_Present prior \<and> e_State r = EffectConfirmed \<and> e_State x = EffectConfirmed)) \<and>
     e_TicketVersion x = ef_TicketVersion ?f \<and> e_LeaderEpoch x = LeaderEpoch (ef_Fence ?f) \<and>
     e_RunnerEpoch x = RunnerEpoch (ef_Fence ?f) \<and> e_ClaimEpoch x = ClaimEpoch (ef_Fence ?f)"
  let ?g = "\<lambda>r. reconciled_row prior now (reconciled_claim prior r)"
  from run obtain r where r: "effect_at d key = Some r"
    by (cases "effect_at d key")
      (auto simp: ReconcileInvalidatedEffect_tx_def Let_def effectFrom_def prior key split: option.splits)
  let ?d = "d\<lparr>effects := update_where (?p r) (?g r) (effects d)\<rparr>"
  from run False r have ref: "e_Ref r = ef_Ref ?f" "e_ClaimEpoch r = ClaimEpoch (ef_Fence ?f)" and one: "count_where (?p r) (effects d) = 1"
    and d': "evidenceEvent (ef_Ref ?f) (ef_TicketVersion now) ''invalidated_effect_reconciled''
             (reconciliationPayload prior now (reconciled_claim prior r)) ?d = Inr d'"
    and e: "effect_at d' key = Some e"
    unfolding ReconcileInvalidatedEffect_tx_def Let_def prior now key reconciled_claim_def
    by (auto split: option.splits if_splits sum.splits)
  from evidenceEvent_Inr [OF d'] have eff: "effects d' = update_where (?p r) (?g r) (effects d)"
    by auto
  show ?thesis
  proof (rule pinned_effect_update [OF inv _ _ one, of key "?g r" d'])
    fix x
    assume x: "effect_at d key = Some x" "?p r x" "sound_step d d'"
      "\<And>k'. effect_at d' k' = (if k' = key then Some (?g r x) else effect_at d k')"
    with r have "x = r" by simp
    with x r ref e d' show ?thesis
      by (intro moved [of r ?d]) (auto simp: reconciled_from_def unsettled_def Let_def)
  qed (use eff r ref in \<open>auto simp: key reconciled_claim_def lifecycle_def same_request_def unsettled_def effect_state_defs split: if_splits\<close>)
qed
section \<open>The step relation\<close>

lemma store_write_sound:
  assumes "effects_inv (st_db s)"
    and "\<And>r d'. fn (st_db s) = Inr (r, d') \<Longrightarrow> sound_step (st_db s) d'"
  shows "sound_step (st_db s) (st_db (snd (store_write s fn)))"
  using assms by (auto simp: store_write_def sound_step_same split: sum.splits)

lemma finishEffect_sound:
  assumes inv: "effects_inv (st_db s)" and "state \<in> {EffectConfirmed, EffectFailed, EffectUncertain}"
  shows "sound_step (st_db s) (st_db (snd (finishEffect s fence state identity)))"
  unfolding finishEffect_def
proof (rule store_write_sound [OF inv])
  fix e d'
  assume "finishEffect_tx (st_mutations s) fence state identity (st_db s) = Inr (e, d')"
  then show "sound_step (st_db s) d'"
    using inv assms(2) by (rule_tac finishEffect_tx_cases) (auto simp: sound_step_same)
qed

text \<open>
  A step of the Store as the effect table sees it: one of the operations of \<^verbatim>\<open>effects.go\<close>, successful or
  not, or a step of another component that leaves the table alone.
\<close>

inductive effect_step :: "Store \<Rightarrow> Store \<Rightarrow> bool" where
  plan: "effect_step s (snd (PlanEffect s p))"
| claim: "effect_step s (snd (ClaimEffect s fence))"
| observe: "effect_step s (snd (ObserveEffect s obs))"
| fail: "effect_step s (snd (FailEffect s fence))"
| uncertain: "effect_step s (snd (MarkEffectUncertain s fence))"
| stale: "effect_step s (snd (RecordStaleObservation s obs))"
| reconcile: "effect_step s (snd (ReconcileInvalidatedEffect s iobs))"
| recover: "effect_step s (snd (ReconcileEffects s channel leader))"
| other: "effects (st_db s') = effects (st_db s) \<Longrightarrow> effect_step s s'"

inductive_cases effect_step_elim: "effect_step s s'"

lemma effect_step_sound:
  assumes step: "effect_step s s'" and inv: "effects_inv (st_db s)"
  shows "sound_step (st_db s) (st_db s')"
  using step
proof cases
  case (plan p)
  with inv show ?thesis
    by (auto simp: PlanEffect_def sound_step_same split: option.splits if_splits
        intro!: store_write_sound dest: PlanEffect_tx_sound)
next
  case (claim fence)
  have "sound_step (st_db s) d'" if "ClaimEffect_tx (st_mutations s) fence (st_db s) = Inr (r, d')" for r d'
    using inv that by (rule ClaimEffect_tx_cases) (auto simp: inv sound_step_same)
  with claim inv show ?thesis by (auto simp: ClaimEffect_def intro: store_write_sound)
next
  case (observe obs)
  with inv show ?thesis
    by (auto simp: ObserveEffect_def sound_step_same intro!: finishEffect_sound)
next
  case (stale obs)
  have "snd (RecordStaleObservation s obs) =
      (if TrimSpace (eo_Identity obs) = '''' then s else snd (store_write s (RecordStaleObservation_tx obs)))"
    by (auto simp: RecordStaleObservation_def split: prod.splits sum.splits)
  with stale inv show ?thesis
    by (auto simp: sound_step_same intro!: store_write_sound dest: RecordStaleObservation_tx_sound)
next
  case (reconcile obs)
  have "sound_step (st_db s) d'" if "ReconcileInvalidatedEffect_tx obs (st_db s) = Inr (r, d')" for r d'
    using inv that refl refl refl
    by (rule ReconcileInvalidatedEffect_tx_cases) (auto simp: inv sound_step_same)
  with reconcile inv show ?thesis
    by (auto simp: ReconcileInvalidatedEffect_def Let_def sound_step_same split: option.splits intro!: store_write_sound)
next
  case (recover channel leader)
  with inv show ?thesis
    by (auto simp: ReconcileEffects_def intro!: store_write_sound dest: ReconcileEffects_tx_Inr(1))
qed (use inv in \<open>auto simp: sound_step_same FailEffect_def MarkEffectUncertain_def intro!: finishEffect_sound\<close>)

interpretation effect_runs: effect_protocol "\<lambda>s. effect_at (st_db s)" "\<lambda>s. effects_inv (st_db s)" effect_step
proof
  fix s s' k e
  assume inv: "effects_inv (st_db s)" and step: "effect_step s s'"
  from effect_step_sound [OF step inv] show "effects_inv (st_db s')" by (simp add: sound_step_def)
  assume "effect_at (st_db s) k = Some e"
  with effect_step_sound [OF step inv]
  show "\<exists>e'. effect_at (st_db s') k = Some e' \<and> lifecycle e e'"
    by (auto simp: sound_step_def effects_step_def)
qed
section \<open>Authority\<close>

lemma fence_effects_update [simp]:
  "assertTicketFence m (d\<lparr>effects := t\<rparr>) = assertTicketFence m d"
  "assertCurrentTicketFence (d\<lparr>effects := t\<rparr>) = assertCurrentTicketFence d"
  by (auto simp: fun_eq_iff assertTicketFence_def assertCurrentTicketFence_def currentFence_def
      control_at_def ticket_at_def leader_at_def split: option.splits)

lemma claim_refused:
  assumes "effect_at (st_db s) k = Some e" and "unsettled e" and "ef_SemanticKey fence = k"
  shows "\<exists>err. ClaimEffect s fence = (Inl err, s)"
  using assms unfolding ClaimEffect_def store_write_def ClaimEffect_tx_def effectFrom_def unsettled_def
  by (auto simp: effect_state_defs split: option.splits)

lemma ClaimEffect_authority:
  "ClaimEffect_tx m fence d = Inr (c, d') \<Longrightarrow>
     assertTicketFence m d (ef_Ref fence) (ef_TicketVersion fence) (ef_Fence fence) = None"
  by (auto simp: ClaimEffect_tx_def split: option.splits)

lemma fence_claim_epoch:
  "assertTicketFence m d ref v \<lparr>LeaderEpoch = LeaderEpoch f, RunnerEpoch = RunnerEpoch f, ClaimEpoch = c\<rparr> =
     assertTicketFence m d ref v f"
  by (simp add: assertTicketFence_def currentFence_def revokedBy_def split: option.splits)

lemma no_effects_inv: "effects (st_db s) = [] \<Longrightarrow> effects_inv (st_db s)"
  by (simp add: effects_inv_def unique_key_def effect_at_def row_at_def)

lemma distinct_same_length:
  "distinct xs \<Longrightarrow> (\<And>x y. x \<in> set xs \<Longrightarrow> y \<in> set xs \<Longrightarrow> x = y) \<Longrightarrow> length xs \<le> 1"
proof (induction xs)
  case (Cons a xs)
  then show ?case by (cases xs) (simp, metis distinct_length_2_or_more list.set_intros)
qed simp

section \<open>A sample run\<close>

text \<open>One effect planned and claimed on the sample store, for the concrete instances below.\<close>

definition sample_plan :: EffectPlan where
  "sample_plan = \<lparr>ep_SemanticKey = ''op-1'', ep_Ref = sample_ref, ep_Kind = ''pr/open'', ep_TicketVersion = 5,
     ep_Fence = \<lparr>LeaderEpoch = 2, RunnerEpoch = 3, ClaimEpoch = 0\<rparr>, ep_RequestDigest = ''digest''\<rparr>"

definition sample_fence :: "u64 \<Rightarrow> EffectFence" where
  "sample_fence c = \<lparr>ef_SemanticKey = ''op-1'', ef_Ref = sample_ref, ef_TicketVersion = 5,
     ef_Fence = \<lparr>LeaderEpoch = 2, RunnerEpoch = 3, ClaimEpoch = c\<rparr>\<rparr>"

definition planned_store :: Store where "planned_store = snd (PlanEffect sample_store sample_plan)"
definition claimed_store :: Store where "claimed_store = snd (ClaimEffect planned_store (sample_fence 0))"

definition sample_effect :: "string \<Rightarrow> u64 \<Rightarrow> string \<Rightarrow> Effect" where
  "sample_effect state c identity = \<lparr>e_SemanticKey = ''op-1'', e_Ref = sample_ref, e_Kind = ''pr/open'',
     e_State = state, e_TicketVersion = 5, e_LeaderEpoch = 2, e_RunnerEpoch = 3, e_ClaimEpoch = c,
     e_RequestDigest = ''digest'', e_ObservedIdentity = identity\<rparr>"

definition confirmed_store :: Store where
  "confirmed_store = snd (ConfirmEffect claimed_store (sample_fence 1) ''pr-7'')"

definition failed_store :: Store where
  "failed_store = snd (FailEffect claimed_store (sample_fence 1))"

definition reclaimed_store :: Store where
  "reclaimed_store = snd (ClaimEffect failed_store (sample_fence 1))"

text \<open>The claimed store after another daemon took the leadership, or after a control moved the ticket on.\<close>

definition takeover_store :: Store where
  "takeover_store = claimed_store\<lparr>st_db := st_db claimed_store
     \<lparr>daemon_instances := [\<lparr>d_Channel = ''dev'', d_LeaderEpoch = 3, d_RecoveryKey = ''''\<rparr>]\<rparr>\<rparr>"

definition moved_store :: Store where
  "moved_store = claimed_store\<lparr>st_db := st_db claimed_store
     \<lparr>tickets := [sample_ticket\<lparr>t_Version := 6, t_RunnerEpoch := 4\<rparr>]\<rparr>\<rparr>"

definition sample_observation :: InvalidatedEffectObservation where
  "sample_observation = \<lparr>io_Prior = \<lparr>eo_Fence = sample_fence 1, eo_Present = True, eo_Identity = ''pr-7''\<rparr>,
     io_Current = (sample_fence 0)\<lparr>ef_TicketVersion := 6,
       ef_Fence := \<lparr>LeaderEpoch = 2, RunnerEpoch = 4, ClaimEpoch = 0\<rparr>\<rparr>\<rparr>"

lemma sample_steps:
  "effect_step sample_store planned_store" "effect_step planned_store claimed_store"
  "effect_step claimed_store confirmed_store" "effect_step claimed_store failed_store"
  "effect_step failed_store reclaimed_store" "effect_step claimed_store takeover_store"
  "effect_step claimed_store moved_store"
  unfolding planned_store_def confirmed_store_def failed_store_def reclaimed_store_def
    takeover_store_def moved_store_def ConfirmEffect_def
  by (auto intro: effect_step.intros) (simp_all add: claimed_store_def planned_store_def effect_step.claim)

lemma claimed_run: "effect_step\<^sup>*\<^sup>* sample_store claimed_store"
  using sample_steps(1,2) by auto

lemma sample_invs:
  "effects_inv (st_db planned_store)" "effects_inv (st_db claimed_store)" "effects_inv (st_db confirmed_store)"
  "effects_inv (st_db takeover_store)" "effects_inv (st_db moved_store)"
proof -
  have "effects_inv (st_db sample_store)" by (rule no_effects_inv) (simp add: sample_store_def sample_db_def)
  with sample_steps effect_runs.step_invar
  show "effects_inv (st_db planned_store)" "effects_inv (st_db claimed_store)" "effects_inv (st_db confirmed_store)"
    "effects_inv (st_db takeover_store)" "effects_inv (st_db moved_store)" by blast+
qed

text \<open>C15: starting from an empty table, after any sequence of effect operations and of steps that leave the
  table alone, at most one effect of a given kind is executing for a ticket, whatever the order in which
  plans, claims, observations, reconciliations and leader recoveries arrive.\<close>

theorem one_active_claim:
  assumes "effects (st_db s) = []" and "effect_step\<^sup>*\<^sup>* s s'"
  shows "count_where (\<lambda>e. e_State e = EffectExecuting \<and> e_Ref e = ref \<and> e_Kind e = kind)
    (effects (st_db s')) \<le> 1"
proof -
  let ?live = "filter (\<lambda>e. e_State e = EffectExecuting \<and> e_Ref e = ref \<and> e_Kind e = kind) (effects (st_db s'))"
  from assms have inv: "effects_inv (st_db s')" by (blast intro: effect_runs.run_invar no_effects_inv)
  then have "x = y" if "x \<in> set ?live" "y \<in> set ?live" for x y
  proof -
    from inv have "unique_key e_SemanticKey (effects (st_db s'))" by (simp add: effects_inv_def)
    with that have x: "effect_at (st_db s') (e_SemanticKey x) = Some x"
      and y: "effect_at (st_db s') (e_SemanticKey y) = Some y"
      by (auto simp: effect_at_member)
    with that inv have "e_SemanticKey x = e_SemanticKey y" unfolding effects_inv_def by simp
    with x y show ?thesis by (metis option.inject)
  qed
  moreover from inv have "distinct ?live"
    by (simp add: effects_inv_def unique_key_def distinct_map)
  ultimately show ?thesis unfolding count_where_def by (rule_tac distinct_same_length)
qed

theorem one_active_claim_witness:
  "count_where (\<lambda>e. e_State e = EffectExecuting \<and> e_Ref e = sample_ref \<and> e_Kind e = ''pr/open'')
     (effects (st_db claimed_store)) \<le> 1"
  by (rule one_active_claim [OF _ claimed_run]) (simp add: sample_store_def sample_db_def)





text \<open>A granted claim starts from a planned or failed effect, takes the next claim epoch, changes no
  other effect, and from then on every further claim of that effect is refused with the store unchanged.\<close>

theorem ClaimEffect_exclusive:
  assumes inv: "effects_inv (st_db s)" and run: "ClaimEffect s fence = (Inr c, s')" and "ec_Claimed c"
  shows "(\<exists>r. effect_at (st_db s) (ef_SemanticKey fence) = Some r \<and> claimable r \<and>
      e_ClaimEpoch (ec_Effect c) = e_ClaimEpoch r + 1 \<and> same_request r (ec_Effect c)) \<and>
    (\<forall>k. effect_at (st_db s') k =
      (if k = ef_SemanticKey fence then Some (ec_Effect c) else effect_at (st_db s) k)) \<and>
    (\<forall>fence'. ef_SemanticKey fence' = ef_SemanticKey fence \<longrightarrow>
      (\<exists>err. ClaimEffect s' fence' = (Inl err, s')))"
proof -
  from run obtain d' where tx: "ClaimEffect_tx (st_mutations s) fence (st_db s) = Inr (c, d')"
    and s': "s' = s\<lparr>st_db := d'\<rparr>"
    by (auto simp: ClaimEffect_def write_Inr_iff)
  from inv tx obtain r where r: "effect_at (st_db s) (ef_SemanticKey fence) = Some r" "claimable r"
    "ec_Effect c = claim_row fence r"
    and at: "\<And>k. effect_at d' k =
        (if k = ef_SemanticKey fence then Some (claim_row fence r) else effect_at (st_db s) k)"
    by (rule ClaimEffect_tx_cases) (use assms(3) in auto)
  have "effect_at (st_db s') (ef_SemanticKey fence) = Some (claim_row fence r)" using at s' by simp
  then have "\<exists>err. ClaimEffect s' fence' = (Inl err, s')" if "ef_SemanticKey fence' = ef_SemanticKey fence" for fence'
    using that by (intro claim_refused) (auto simp: claim_row_def unsettled_def)
  with r at s' show ?thesis by (simp add: claim_row_def same_request_def)
qed

lemma sample_claim:
  "ClaimEffect planned_store (sample_fence 0) =
     (Inr \<lparr>ec_Effect = sample_effect EffectExecuting 1 '''', ec_Claimed = True\<rparr>, claimed_store)"
  by (rule prod_eqI) (code_simp, simp add: claimed_store_def)

theorem ClaimEffect_exclusive_witness:
  "\<exists>err. ClaimEffect claimed_store (sample_fence 1) = (Inl err, claimed_store)"
  using ClaimEffect_exclusive [OF sample_invs(1) sample_claim] by (simp add: sample_fence_def)

text \<open>The claim that \<open>ClaimEffect\<close> grants is accepted by the validation that runs immediately before
  the external boundary, as long as nothing has happened in between.\<close>

theorem claim_crosses_boundary:
  assumes inv: "effects_inv (st_db s)" and run: "ClaimEffect s fence = (Inr c, s')" and cl: "ec_Claimed c"
    and ref: "TicketRef_Validate (ef_Ref fence) = None" and e: "effect_at (st_db s) (ef_SemanticKey fence) = Some r"
    and nonempty: "ef_SemanticKey fence \<noteq> ''''" "e_Kind r \<noteq> ''''" "e_RequestDigest r \<noteq> ''''"
    and pos: "ef_TicketVersion fence \<noteq> 0" "LeaderEpoch (ef_Fence fence) \<noteq> 0" "RunnerEpoch (ef_Fence fence) \<noteq> 0"
      "e_ClaimEpoch r + 1 \<noteq> 0"
  shows "ValidateExternalEffectClaim s' (ExternalClaim c) = (Inr (), s')"
proof -
  from run obtain d' where tx: "ClaimEffect_tx (st_mutations s) fence (st_db s) = Inr (c, d')"
    and s': "s' = s\<lparr>st_db := d'\<rparr>" and rw: "\<not> st_readOnly s"
    by (auto simp: ClaimEffect_def write_Inr_iff)
  from inv tx have "ec_Effect c = claim_row fence r \<and> e_Ref r = ef_Ref fence \<and>
      effect_at d' (ef_SemanticKey fence) = Some (claim_row fence r) \<and> (\<exists>t. d' = st_db s\<lparr>effects := t\<rparr>)"
    by (rule ClaimEffect_tx_cases) (use cl e in auto)
  then obtain d1 where r: "ec_Effect c = claim_row fence r" "e_Ref r = ef_Ref fence"
    and at: "effect_at d' (ef_SemanticKey fence) = Some (claim_row fence r)"
    and d1: "d' = st_db s\<lparr>effects := d1\<rparr>"
    by blast
  have key: "e_SemanticKey r = ef_SemanticKey fence"
    using e unfolding effect_at_def by (rule effect_table.get_key)
  have "assertTicketFence (st_mutations s) d' (ef_Ref fence) (ef_TicketVersion fence)
      \<lparr>LeaderEpoch = LeaderEpoch (ef_Fence fence), RunnerEpoch = RunnerEpoch (ef_Fence fence),
       ClaimEpoch = e_ClaimEpoch r + 1\<rparr> = None"
    using ClaimEffect_authority [OF tx] by (simp add: fence_claim_epoch d1)
  with r at key ref nonempty pos rw s' show ?thesis
    by (simp add: ValidateExternalEffectClaim_def ExternalClaim_def claim_row_def store_write_def effectFrom_def)
qed
theorem claim_crosses_boundary_witness:
  "ValidateExternalEffectClaim claimed_store
     (ExternalClaim \<lparr>ec_Effect = sample_effect EffectExecuting 1 '''', ec_Claimed = True\<rparr>) = (Inr (), claimed_store)"
proof (rule claim_crosses_boundary [OF sample_invs(1) sample_claim])
  show "effect_at (st_db planned_store) (ef_SemanticKey (sample_fence 0)) = Some (sample_effect EffectPlanned 0 '''')"
    by code_simp
qed code_simp+



text \<open>An observation settles an effect only when the ticket fence is current and unrevoked and the
  observation carries exactly the version and epochs of the claim; it changes that effect alone, and a
  confirmation of a confirmed effect changes nothing.\<close>

theorem finishEffect_authority:
  assumes inv: "effects_inv (st_db s)" and run: "finishEffect s fence state identity = (Inr e, s')"
    and state: "state \<in> {EffectConfirmed, EffectFailed, EffectUncertain}"
  shows "assertTicketFence (st_mutations s) (st_db s) (ef_Ref fence) (ef_TicketVersion fence) (ef_Fence fence) = None \<and>
    (\<exists>r. effect_at (st_db s) (ef_SemanticKey fence) = Some r \<and>
       e_Ref r = ef_Ref fence \<and> e_TicketVersion r = ef_TicketVersion fence \<and>
       \<lparr>LeaderEpoch = e_LeaderEpoch r, RunnerEpoch = e_RunnerEpoch r, ClaimEpoch = e_ClaimEpoch r\<rparr> = ef_Fence fence \<and>
       (unsettled r \<and> e = finish_row state identity r \<or> e_State r = EffectConfirmed \<and> state = EffectConfirmed \<and> e = r)) \<and>
    (\<forall>k. effect_at (st_db s') k = (if k = ef_SemanticKey fence then Some e else effect_at (st_db s) k))"
proof -
  from run obtain d' where tx: "finishEffect_tx (st_mutations s) fence state identity (st_db s) = Inr (e, d')"
    and s': "s' = s\<lparr>st_db := d'\<rparr>"
    by (auto simp: finishEffect_def write_Inr_iff)
  have "assertTicketFence (st_mutations s) (st_db s) (ef_Ref fence) (ef_TicketVersion fence) (ef_Fence fence) = None"
    using tx by (auto simp: finishEffect_tx_def split: option.splits)
  moreover obtain r where "effect_at (st_db s) (ef_SemanticKey fence) = Some r"
      "e_Ref r = ef_Ref fence" "e_TicketVersion r = ef_TicketVersion fence"
      "e_LeaderEpoch r = LeaderEpoch (ef_Fence fence)" "e_RunnerEpoch r = RunnerEpoch (ef_Fence fence)"
      "e_ClaimEpoch r = ClaimEpoch (ef_Fence fence)"
    using tx by (auto simp: finishEffect_tx_def split: option.splits sum.splits if_splits)
  moreover from inv tx state
  have "(e_State e = EffectConfirmed \<and> state = EffectConfirmed \<and> d' = st_db s \<and> effect_at (st_db s) (ef_SemanticKey fence) = Some e) \<or>
    (\<exists>r. effect_at (st_db s) (ef_SemanticKey fence) = Some r \<and> unsettled r \<and> e = finish_row state identity r \<and>
      (\<forall>k. effect_at d' k = (if k = ef_SemanticKey fence then Some e else effect_at (st_db s) k)))"
    by (rule finishEffect_tx_cases) blast+
  ultimately show ?thesis using s' by auto
qed

theorem finishEffect_authority_witness:
  "assertTicketFence (st_mutations claimed_store) (st_db claimed_store) sample_ref 5
     \<lparr>LeaderEpoch = 2, RunnerEpoch = 3, ClaimEpoch = 1\<rparr> = None"
proof -
  let ?r = "finishEffect claimed_store (sample_fence 1) EffectConfirmed ''pr-7''"
  have "?r = (Inr (sample_effect EffectConfirmed 1 ''pr-7''), snd ?r)"
    by (rule prod_eqI) (code_simp, simp)
  from finishEffect_authority [OF sample_invs(2) this] show ?thesis
    by (simp add: sample_fence_def)
qed

text \<open>Reconciling a present effect of a revoked claim confirms it, and delivering the same
  reconciliation again returns the same effect and leaves the store as it is.\<close>

theorem ReconcileInvalidatedEffect_replay:
  assumes inv: "effects_inv (st_db s)" and run: "ReconcileInvalidatedEffect s obs = (Inr e, s')"
    and present: "eo_Present (io_Prior obs)"
    and fresh: "\<forall>v \<in> set (events (st_db s)). ev_Payload v \<noteq> reconciliationPayload (io_Prior obs) (io_Current obs)
        (ClaimEpoch (ef_Fence (eo_Fence (io_Prior obs))) + 1)"
  shows "e_State e = EffectConfirmed \<and> effect_at (st_db s') (ef_SemanticKey (eo_Fence (io_Prior obs))) = Some e \<and>
    ReconcileInvalidatedEffect s' obs = (Inr e, s')"
proof -
  let ?f = "eo_Fence (io_Prior obs)" and ?now = "io_Current obs"
  have guards: "ReconcileInvalidatedEffect t obs = store_write t (ReconcileInvalidatedEffect_tx obs)" for t
    using run by (auto simp: ReconcileInvalidatedEffect_def Let_def split: option.splits if_splits)
  from run obtain d' where tx: "ReconcileInvalidatedEffect_tx obs (st_db s) = Inr (e, d')"
    and s': "s' = s\<lparr>st_db := d'\<rparr>" and rw: "\<not> st_readOnly s"
    by (auto simp: guards write_Inr_iff)
  have "e_State e = EffectConfirmed \<and> effect_at d' (ef_SemanticKey ?f) = Some e \<and>
      ReconcileInvalidatedEffect_tx obs d' = Inr (e, d')"
    using inv tx refl refl refl
  proof (cases rule: ReconcileInvalidatedEffect_tx_cases)
    case replay
    with tx show ?thesis by simp
  next
    case (moved r d1)
    let ?pay = "reconciliationPayload (io_Prior obs) ?now (ClaimEpoch (ef_Fence ?f) + 1)"
    from moved(2) have r: "e_Ref r = ef_Ref ?f" "e_ClaimEpoch r = ClaimEpoch (ef_Fence ?f)"
      by (auto simp: reconciled_from_def Let_def)
    from tx have cur: "assertCurrentTicketFence (st_db s) (ef_Ref ?f) (ef_TicketVersion ?now) (ef_Fence ?now) = None"
      by (auto simp: ReconcileInvalidatedEffect_tx_def Let_def split: option.splits)
    from moved(5) [THEN evidenceEvent_Inr] moved(6) r present obtain t es where
      d': "d' = snd (insert_event (ef_Ref ?f) (ef_TicketVersion ?now) ''invalidated_effect_reconciled'' t t ?pay (st_db s\<lparr>effects := es\<rparr>))"
      by (auto simp: reconciled_claim_def)
    have "assertCurrentTicketFence d' (ef_Ref ?f) (ef_TicketVersion ?now) (ef_Fence ?now) = None"
      using cur by (simp add: d' insert_event_def Let_def assertCurrentTicketFence_None ticket_at_def leader_at_def)
    moreover have "count_where (\<lambda>v. ev_Ref v = ef_Ref ?f \<and> ev_TicketVersion v = ef_TicketVersion ?now \<and>
        ev_Trigger v = ''invalidated_effect_reconciled'' \<and> ev_Payload v = ?pay) (events d') = 1"
      using fresh by (auto simp: d' insert_event_def Let_def count_where_def insert_row_def filter_empty_conv)
    moreover have "e = reconciled_row (io_Prior obs) ?now (ClaimEpoch (ef_Fence ?f) + 1) r"
      "effect_at d' (ef_SemanticKey ?f) = Some e"
      using moved r present by (simp_all add: reconciled_claim_def)
    moreover have keep: "io_Prior obs\<lparr>eo_Present := True\<rparr> = io_Prior obs" using present by simp
    ultimately show ?thesis
      using present r by (simp add: keep ReconcileInvalidatedEffect_tx_def Let_def effectFrom_def reconciled_row_def)
  qed
  with rw s' show ?thesis by (simp add: guards store_write_def)
qed
theorem ReconcileInvalidatedEffect_replay_witness:
  "ReconcileInvalidatedEffect (snd (ReconcileInvalidatedEffect moved_store sample_observation)) sample_observation =
     (Inr (sample_effect EffectConfirmed 2 ''pr-7''\<lparr>e_TicketVersion := 6, e_RunnerEpoch := 4\<rparr>),
      snd (ReconcileInvalidatedEffect moved_store sample_observation))"
proof -
  let ?r = "ReconcileInvalidatedEffect moved_store sample_observation"
  have run: "?r = (Inr (sample_effect EffectConfirmed 2 ''pr-7''\<lparr>e_TicketVersion := 6, e_RunnerEpoch := 4\<rparr>), snd ?r)"
    by (rule prod_eqI) (code_simp, simp)
  have "eo_Present (io_Prior sample_observation)" by (simp add: sample_observation_def)
  moreover have "events (st_db moved_store) = []" by code_simp
  ultimately show ?thesis
    by (intro ReconcileInvalidatedEffect_replay [OF sample_invs(5) run, THEN conjunct2, THEN conjunct2]) simp_all
qed

end
