(* ===== verification/MutationGate.thy ===== *)
theory MutationGate
  imports EffectSafety
begin

text \<open>
  The external mutation gate in use (\<^verbatim>\<open>internal/store/mutation_guard.go\<close>): a mutation starts only while it
  holds the gate's token, after the quarantine, the revocations and the durable claim have been checked;
  a drain takes the same token and revokes every older identity.

  Contexts are taken to be live: a caller that finds the token gone waits until its context ends and
  gets the context's error, and no other step is interrupted.
\<close>

section \<open>Holding the gate\<close>

definition unlock_store :: "Store \<Rightarrow> Store" where
  "unlock_store s = s\<lparr>st_mutations := map_option gate_unlock (st_mutations s)\<rparr>"

text \<open>
  \<open>lock\<close>, the body, and the deferred \<open>unlock\<close>. A Store without a gate is a nil pointer to the callers
  that do not test for it.
\<close>

definition with_gate :: "store_error \<Rightarrow> Store \<Rightarrow> (Gate \<Rightarrow> Store \<Rightarrow> (store_error + 'a) \<times> Store) \<Rightarrow>
    (store_error + 'a) \<times> Store" where
  "with_gate nil s body =
     (case st_mutations s of
        None \<Rightarrow> (Inl nil, s)
      | Some g \<Rightarrow>
        (case gate_lock g of
           Inl e \<Rightarrow> (Inl e, s)
         | Inr g' \<Rightarrow>
           (case body g' (s\<lparr>st_mutations := Some g'\<rparr>) of (r, s') \<Rightarrow> (r, unlock_store s'))))"

definition update_gate :: "(Gate \<Rightarrow> Gate) \<Rightarrow> Store \<Rightarrow> Store" where
  "update_gate f s = s\<lparr>st_mutations := map_option f (st_mutations s)\<rparr>"

section \<open>Starting an external mutation\<close>

text \<open>
  The command that a mutation starts is a function on the world outside the Store, with its output
  and error. Two of its errors say that an external writer may still exist.
\<close>

datatype start_error = ErrExternalCleanupUncertainStart | ErrExternalCleanupQuarantineFatal | ErrStart string

datatype mutation_error = Refused store_error | Failed start_error

definition externalMutationsQuarantined :: "Store \<Rightarrow> bool" where
  "externalMutationsQuarantined s = external_mutation_quarantine (st_db s)"

definition QuarantineExternalMutations :: "Store \<Rightarrow> (store_error + unit) \<times> Store" where
  "QuarantineExternalMutations s = store_write s (\<lambda>d. Inr ((), d\<lparr>external_mutation_quarantine := True\<rparr>))"

definition claim_fence :: "ExternalEffectClaim \<Rightarrow> Fence" where
  "claim_fence claim = \<lparr>LeaderEpoch = xc_LeaderEpoch claim, RunnerEpoch = xc_RunnerEpoch claim, ClaimEpoch = 0\<rparr>"

definition RunExternalMutation ::
  "Store \<Rightarrow> ExternalEffectClaim \<Rightarrow> ('w \<Rightarrow> (string \<times> start_error option) \<times> 'w) option \<Rightarrow> 'w \<Rightarrow>
     (string \<times> mutation_error option) \<times> Store \<times> 'w" where
  "RunExternalMutation s claim start w =
     (case (start, st_mutations s) of
        (None, _) \<Rightarrow> (('''', Some (Refused ErrStaleFence)), s, w)
      | (Some _, None) \<Rightarrow> (('''', Some (Refused ErrNilGate)), s, w)
      | (Some start, Some g) \<Rightarrow>
        (case gate_lock g of
           Inl e \<Rightarrow> (('''', Some (Refused e)), s, w)
         | Inr g' \<Rightarrow>
           (let held = s\<lparr>st_mutations := Some g'\<rparr> in
            if externalMutationsQuarantined held
            then (('''', Some (Refused ErrExternalCleanupUncertain)), unlock_store held, w)
            else if revokedBy g' (xc_Ref claim) (xc_TicketVersion claim) (claim_fence claim)
            then (('''', Some (Refused ErrStaleFence)), unlock_store held, w)
            else case ValidateExternalEffectClaim held claim of
              (Inl e, held') \<Rightarrow> (('''', Some (Refused e)), unlock_store held', w)
            | (Inr _, held') \<Rightarrow>
              (case start w of
                 ((out, None), w') \<Rightarrow> ((out, None), unlock_store held', w')
               | ((out, Some e), w') \<Rightarrow>
                   ((out, Some (Failed e)),
                    if e = ErrExternalCleanupUncertainStart \<or> e = ErrExternalCleanupQuarantineFatal
                    then held' else unlock_store held', w')))))"

section \<open>Draining\<close>

definition current_identity :: "db \<Rightarrow> TicketRef \<Rightarrow> mutationRevocation option" where
  "current_identity d ref =
     (case (ticket_at d ref, leader_at d (Channel ref)) of
        (Some t, Some leader) \<Rightarrow>
          Some \<lparr>mr_version = t_Version t, mr_leader = leader, mr_runner = t_RunnerEpoch t\<rparr>
      | _ \<Rightarrow> None)"

definition DrainExternalMutations :: "Store \<Rightarrow> TicketRef \<Rightarrow> (store_error + unit) \<times> Store" where
  "DrainExternalMutations s ref =
     (case TicketRef_Validate ref of
        Some e \<Rightarrow> (Inl (ErrRef e), s)
      | None \<Rightarrow> with_gate ErrNilGate s (\<lambda>g s.
          case current_identity (st_db s) ref of
            None \<Rightarrow> (Inl ErrNotFound, s)
          | Some value \<Rightarrow> (Inr (), update_gate (gate_revoke ref value) s)))"

text \<open>The loop over the tickets of a channel, joined with the channel's leader.\<close>

definition revoke_channel :: "db \<Rightarrow> string \<Rightarrow> Gate \<Rightarrow> Gate" where
  "revoke_channel d channel g =
     fold (\<lambda>t g. if Channel (t_Ref t) = channel
                 then case leader_at d channel of
                   None \<Rightarrow> g
                 | Some leader \<Rightarrow> gate_revoke (t_Ref t)
                     \<lparr>mr_version = t_Version t, mr_leader = leader, mr_runner = t_RunnerEpoch t\<rparr> g
                 else g) (tickets d) g"

definition DrainChannelExternalMutations :: "Store \<Rightarrow> string \<Rightarrow> (store_error + unit) \<times> Store" where
  "DrainChannelExternalMutations s channel =
     (if \<not> Channel_Valid channel then (Inl ErrStaleFence, s)
      else with_gate ErrNilGate s (\<lambda>g s. (Inr (), update_gate (revoke_channel (st_db s) channel) s)))"

section \<open>Facts about the gate\<close>

lemma relock [simp]:
  "st_mutations s = Some g \<Longrightarrow> gate_token g \<Longrightarrow>
     unlock_store (s\<lparr>st_mutations := Some (g\<lparr>gate_token := False\<rparr>)\<rparr>) = s"
  by (simp add: unlock_store_def gate_unlock_def)

lemma revokedBy_token [simp]: "revokedBy (g\<lparr>gate_token := b\<rparr>) = revokedBy g"
  by (simp add: revokedBy_def fun_eq_iff)

lemma fence_token [simp]:
  "assertTicketFence (Some (g\<lparr>gate_token := b\<rparr>)) = assertTicketFence (Some g)"
  by (simp add: assertTicketFence_def fun_eq_iff)

lemma ValidateExternalEffectClaim_store: "snd (ValidateExternalEffectClaim s claim) = s"
  by (auto simp: ValidateExternalEffectClaim_def store_write_def simp del: effectFrom_Inr split: option.splits sum.splits)

lemma validate_locked:
  assumes "st_mutations s = Some g"
  shows "ValidateExternalEffectClaim (s\<lparr>st_mutations := Some (g\<lparr>gate_token := b\<rparr>)\<rparr>) claim =
    (fst (ValidateExternalEffectClaim s claim), s\<lparr>st_mutations := Some (g\<lparr>gate_token := b\<rparr>)\<rparr>)"
  using assms
  by (auto simp: ValidateExternalEffectClaim_def store_write_def simp del: effectFrom_Inr split: option.splits sum.splits)

lemma gate_lock_cases:
  "gate_lock g = (if gate_token g then Inr (g\<lparr>gate_token := False\<rparr>) else Inl ErrContextDone)"
  by (simp add: gate_lock_def)

lemma RunExternalMutation_refused:
  assumes "st_mutations s = Some g"
    and "revokedBy g (xc_Ref claim) (xc_TicketVersion claim) (claim_fence claim)"
  shows "\<exists>e. RunExternalMutation s claim (Some start) w = (('''', Some (Refused e)), s, w)"
  using assms by (auto simp: RunExternalMutation_def gate_lock_cases Let_def)

text \<open>The watermark that a revocation leaves behind covers every identity up to its own.\<close>

lemma revoked_covers:
  assumes "gate_revoked g ref = Some value" and "version \<le> mr_version value"
    and "LeaderEpoch fence \<le> mr_leader value" and "RunnerEpoch fence \<le> mr_runner value"
  shows "revokedBy g ref version fence"
  using assms by (simp add: revokedBy_def)

lemma with_gate_Inr:
  assumes "with_gate nil s body = (Inr r, s')"
  obtains g s1 where "st_mutations s = Some g" and "gate_token g"
    and "body (g\<lparr>gate_token := False\<rparr>) (s\<lparr>st_mutations := Some (g\<lparr>gate_token := False\<rparr>)\<rparr>) = (Inr r, s1)"
    and "s' = unlock_store s1"
  using assms by (auto simp: with_gate_def gate_lock_cases split: option.splits if_splits prod.splits)

lemma fold_revoke_other:
  "(\<forall>t \<in> set ts. t_Ref t \<noteq> ref) \<Longrightarrow>
     gate_revoked (fold (\<lambda>t g. if P t then gate_revoke (t_Ref t) (v t) g else g) ts g) ref = gate_revoked g ref"
  by (induction ts arbitrary: g) (auto simp: gate_revoke_def)

lemma fold_revoke_at:
  assumes "distinct (map t_Ref ts)" and "t \<in> set ts" and "P t"
  shows "gate_revoked (fold (\<lambda>t g. if P t then gate_revoke (t_Ref t) (v t) g else g) ts g) (t_Ref t) = Some (v t)"
  using assms
proof (induction ts arbitrary: g)
  case (Cons a ts)
  show ?case
  proof (cases "a = t")
    case True
    with Cons.prems have "\<forall>u \<in> set ts. t_Ref u \<noteq> t_Ref t" by (auto simp: image_iff)
    with True Cons.prems(3) show ?thesis by (simp add: fold_revoke_other gate_revoke_def)
  next
    case False
    with Cons show ?thesis by simp
  qed
qed simp

lemma revoke_channel_at:
  assumes "unique_key t_Ref (tickets d)" and "ticket_at d ref = Some t" and "leader_at d (Channel ref) = Some leader"
  shows "gate_revoked (revoke_channel d (Channel ref) g) ref =
    Some \<lparr>mr_version = t_Version t, mr_leader = leader, mr_runner = t_RunnerEpoch t\<rparr>"
proof -
  from assms(2) have ref: "t_Ref t = ref" unfolding ticket_at_def by (rule ticket_table.get_key)
  with assms(1,2) have mem: "t \<in> set (tickets d)" by (simp add: ticket_at_def row_at_member)
  show ?thesis
    using fold_revoke_at [of "tickets d" t "\<lambda>t. Channel (t_Ref t) = Channel ref"
        "\<lambda>t. \<lparr>mr_version = t_Version t, mr_leader = leader, mr_runner = t_RunnerEpoch t\<rparr>" g] assms(1) mem
    unfolding revoke_channel_def assms(3) option.case by (simp add: ref unique_key_def)
qed

lemma RunExternalMutation_cases:
  assumes "RunExternalMutation s claim (Some start) w = (res, s', w')"
  shows "s' = s \<and> w' = w \<and> (\<exists>e. res = ('''', Some (Refused e))) \<or>
    (\<exists>g out err. st_mutations s = Some g \<and> gate_token g \<and> \<not> externalMutationsQuarantined s \<and>
       \<not> revokedBy g (xc_Ref claim) (xc_TicketVersion claim) (claim_fence claim) \<and>
       ValidateExternalEffectClaim s claim = (Inr (), s) \<and>
       start w = ((out, err), w') \<and> res = (out, map_option Failed err) \<and>
       s' = s\<lparr>st_mutations := Some (g\<lparr>gate_token :=
         err \<noteq> Some ErrExternalCleanupUncertainStart \<and> err \<noteq> Some ErrExternalCleanupQuarantineFatal\<rparr>)\<rparr>)"
proof (cases "st_mutations s")
  case None
  with assms show ?thesis by (auto simp: RunExternalMutation_def)
next
  case (Some g)
  show ?thesis
  proof (cases "gate_token g")
    case False
    with assms Some show ?thesis by (auto simp: RunExternalMutation_def gate_lock_cases)
  next
    case True
    note run = assms [unfolded RunExternalMutation_def gate_lock_cases Let_def validate_locked [OF Some]]
    have q: "externalMutationsQuarantined (s\<lparr>st_mutations := m\<rparr>) = externalMutationsQuarantined s" for m
      by (simp add: externalMutationsQuarantined_def)
    show ?thesis
    proof (cases "fst (ValidateExternalEffectClaim s claim)")
      case (Inl e)
      with run Some True show ?thesis by (auto simp: validate_locked q split: if_splits)
    next
      case (Inr u)
      then have v: "ValidateExternalEffectClaim s claim = (Inr (), s)"
        using ValidateExternalEffectClaim_store [of s claim] by (metis old.unit.exhaust prod.collapse)
      obtain out err w1 where st: "start w = ((out, err), w1)" by (metis prod.collapse)
      from run Some True Inr st v show ?thesis
        by (cases err) (auto simp: validate_locked q unlock_store_def gate_unlock_def split: if_splits)
    qed
  qed
qed

section \<open>A sample command\<close>

text \<open>Commands that append to a log of what was started, one that succeeds and one that may leave a writer.\<close>

definition sample_command :: "string list \<Rightarrow> (string \<times> start_error option) \<times> string list" where
  "sample_command w = ((''ok'', None), ''started'' # w)"

definition unsafe_command :: "string list \<Rightarrow> (string \<times> start_error option) \<times> string list" where
  "unsafe_command w = (('''', Some ErrExternalCleanupUncertainStart), ''started'' # w)"

definition sample_xclaim :: ExternalEffectClaim where
  "sample_xclaim = ExternalClaim \<lparr>ec_Effect = sample_effect EffectExecuting 1 '''', ec_Claimed = True\<rparr>"

lemma run_result:
  "fst (RunExternalMutation s c st w) = res \<Longrightarrow> snd (snd (RunExternalMutation s c st w)) = w' \<Longrightarrow>
     RunExternalMutation s c st w = (res, fst (snd (RunExternalMutation s c st w)), w')"
  by (metis prod.collapse)

section \<open>Properties\<close>

text \<open>C20: an external command is started only by a caller that found the gate free, with no quarantine
  on record, whose identity is not revoked and whose claim the Store validated under the same hold of the
  gate; in every other case nothing outside and nothing in the Store changes. Afterwards the gate is free
  again unless the command left the cleanup of its processes uncertain.\<close>

theorem mutation_starts_authorised:
  assumes "RunExternalMutation s claim (Some start) w = (res, s', w')"
  shows "s' = s \<and> w' = w \<and> (\<exists>e. res = ('''', Some (Refused e))) \<or>
    (\<exists>g out err. st_mutations s = Some g \<and> gate_token g \<and> \<not> externalMutationsQuarantined s \<and>
       \<not> revokedBy g (xc_Ref claim) (xc_TicketVersion claim) (claim_fence claim) \<and>
       ValidateExternalEffectClaim s claim = (Inr (), s) \<and>
       start w = ((out, err), w') \<and> res = (out, map_option Failed err) \<and>
       s' = s\<lparr>st_mutations := Some (g\<lparr>gate_token :=
         err \<noteq> Some ErrExternalCleanupUncertainStart \<and> err \<noteq> Some ErrExternalCleanupQuarantineFatal\<rparr>)\<rparr>)"
  using assms by (rule RunExternalMutation_cases)

theorem mutation_starts_authorised_witness:
  "ValidateExternalEffectClaim claimed_store sample_xclaim = (Inr (), claimed_store)"
proof -
  have "RunExternalMutation claimed_store sample_xclaim (Some sample_command) [] =
      ((''ok'', None), fst (snd (RunExternalMutation claimed_store sample_xclaim (Some sample_command) [])), [''started''])"
    by (rule run_result; code_simp)
  from mutation_starts_authorised [OF this] show ?thesis by auto
qed

text \<open>Once the mutations of a ticket have been drained, no command starts under a claim whose version,
  leader and runner are at most those the ticket had at the drain: the call is refused and changes
  nothing.\<close>

theorem drained_claims_refused:
  assumes "DrainExternalMutations s ref = (Inr (), s')" and "ticket_at (st_db s) ref = Some t"
    and "leader_at (st_db s) (Channel ref) = Some leader" and "xc_Ref claim = ref"
    and "xc_TicketVersion claim \<le> t_Version t" and "xc_LeaderEpoch claim \<le> leader"
    and "xc_RunnerEpoch claim \<le> t_RunnerEpoch t"
  shows "\<exists>e. RunExternalMutation s' claim (Some start) w = (('''', Some (Refused e)), s', w)"
proof -
  let ?seal = "\<lparr>mr_version = t_Version t, mr_leader = leader, mr_runner = t_RunnerEpoch t\<rparr>"
  from assms(1-3) obtain g where g: "st_mutations s' = Some g" "gate_revoked g ref = Some ?seal"
    by (auto simp: DrainExternalMutations_def current_identity_def update_gate_def unlock_store_def gate_revoke_def
        gate_unlock_def split: option.splits elim!: with_gate_Inr)
  show ?thesis
    by (rule RunExternalMutation_refused [OF g(1)])
      (use assms(4-7) g(2) in \<open>auto intro: revoked_covers simp: claim_fence_def\<close>)
qed

theorem drained_claims_refused_witness:
  "\<exists>e. RunExternalMutation (snd (DrainExternalMutations claimed_store sample_ref)) sample_xclaim (Some sample_command) [] =
     (('''', Some (Refused e)), snd (DrainExternalMutations claimed_store sample_ref), [])"
proof (rule drained_claims_refused [where ref = sample_ref])
  show "DrainExternalMutations claimed_store sample_ref = (Inr (), snd (DrainExternalMutations claimed_store sample_ref))"
    by (rule prod_eqI) (code_simp, simp)
  show "ticket_at (st_db claimed_store) sample_ref = Some sample_ticket" by code_simp
  show "leader_at (st_db claimed_store) (Channel sample_ref) = Some 2" by code_simp
qed code_simp+

text \<open>Draining a channel revokes, for every ticket of the channel at once, every claim up to the
  ticket's current identity; a claim of a later leader is not covered by the drain.\<close>

theorem drained_channel_refused:
  assumes "DrainChannelExternalMutations s (Channel ref) = (Inr (), s')" and "unique_key t_Ref (tickets (st_db s))"
    and "ticket_at (st_db s) ref = Some t" and "leader_at (st_db s) (Channel ref) = Some leader"
    and "xc_Ref claim = ref" and "xc_TicketVersion claim \<le> t_Version t" and "xc_RunnerEpoch claim \<le> t_RunnerEpoch t"
  shows "(xc_LeaderEpoch claim \<le> leader \<longrightarrow>
      (\<exists>e. RunExternalMutation s' claim (Some start) w = (('''', Some (Refused e)), s', w))) \<and>
    (\<exists>g. st_mutations s' = Some g \<and>
      gate_revoked g ref = Some \<lparr>mr_version = t_Version t, mr_leader = leader, mr_runner = t_RunnerEpoch t\<rparr> \<and>
      (leader < xc_LeaderEpoch claim \<and> gate_controls g ref = None \<longrightarrow>
        \<not> revokedBy g ref (xc_TicketVersion claim) (claim_fence claim)))"
proof -
  let ?seal = "\<lparr>mr_version = t_Version t, mr_leader = leader, mr_runner = t_RunnerEpoch t\<rparr>"
  from assms(1) obtain g0 where "st_mutations s = Some g0"
    "s' = unlock_store (update_gate (revoke_channel (st_db s) (Channel ref))
       (s\<lparr>st_mutations := Some (g0\<lparr>gate_token := False\<rparr>)\<rparr>))"
    by (auto simp: DrainChannelExternalMutations_def split: if_splits elim!: with_gate_Inr)
  with revoke_channel_at [OF assms(2-4)] obtain g where g: "st_mutations s' = Some g" "gate_revoked g ref = Some ?seal"
    by (auto simp: unlock_store_def update_gate_def gate_unlock_def)
  have "\<exists>e. RunExternalMutation s' claim (Some start) w = (('''', Some (Refused e)), s', w)" if "xc_LeaderEpoch claim \<le> leader"
    by (rule RunExternalMutation_refused [OF g(1)])
      (use assms(5-7) g(2) that in \<open>auto intro: revoked_covers simp: claim_fence_def\<close>)
  moreover have "\<not> revokedBy g ref (xc_TicketVersion claim) (claim_fence claim)"
    if "leader < xc_LeaderEpoch claim" "gate_controls g ref = None"
    using g(2) that by (auto simp: revokedBy_def claim_fence_def dest: leD)
  ultimately show ?thesis using g by simp
qed

theorem drained_channel_refused_witness:
  "\<exists>e. RunExternalMutation (snd (DrainChannelExternalMutations claimed_store ''dev'')) sample_xclaim (Some sample_command) [] =
     (('''', Some (Refused e)), snd (DrainChannelExternalMutations claimed_store ''dev''), [])"
proof -
  have ch: "Channel sample_ref = ''dev''" by (simp add: sample_ref_def)
  have "DrainChannelExternalMutations claimed_store ''dev'' = (Inr (), snd (DrainChannelExternalMutations claimed_store ''dev''))"
    by (rule prod_eqI) (code_simp, simp)
  moreover have "unique_key t_Ref (tickets (st_db claimed_store))" by code_simp
  moreover have "ticket_at (st_db claimed_store) sample_ref = Some sample_ticket" by code_simp
  moreover have "leader_at (st_db claimed_store) ''dev'' = Some 2" by code_simp
  moreover have "xc_Ref sample_xclaim = sample_ref" "xc_TicketVersion sample_xclaim \<le> t_Version sample_ticket"
    "xc_RunnerEpoch sample_xclaim \<le> t_RunnerEpoch sample_ticket" "xc_LeaderEpoch sample_xclaim \<le> 2"
    by code_simp+
  ultimately show ?thesis
    using drained_channel_refused [of claimed_store sample_ref "snd (DrainChannelExternalMutations claimed_store ''dev'')"
        sample_ticket 2 sample_xclaim sample_command "[]"] unfolding ch by blast
qed

text \<open>When a command leaves the cleanup of its processes uncertain, the gate stays taken: every later
  mutation is refused and changes nothing, and every drain of a ticket or a channel fails, until the Store
  is opened again.\<close>

theorem uncertain_cleanup_blocks:
  assumes "RunExternalMutation s claim (Some start) w = ((out, Some (Failed e)), s', w')"
    and "e = ErrExternalCleanupUncertainStart \<or> e = ErrExternalCleanupQuarantineFatal"
  shows "RunExternalMutation s' claim2 (Some start2) w2 = (('''', Some (Refused ErrContextDone)), s', w2) \<and>
    (\<exists>err. DrainExternalMutations s' ref = (Inl err, s')) \<and>
    (\<exists>err. DrainChannelExternalMutations s' channel = (Inl err, s'))"
proof -
  from RunExternalMutation_cases [OF assms(1)] obtain g err where err: "Some (Failed e) = map_option Failed err"
    and s': "s' = s\<lparr>st_mutations := Some (g\<lparr>gate_token :=
       err \<noteq> Some ErrExternalCleanupUncertainStart \<and> err \<noteq> Some ErrExternalCleanupQuarantineFatal\<rparr>)\<rparr>"
    by auto
  from err have "err = Some e" by (cases err) auto
  with s' assms(2) have "st_mutations s' = Some (g\<lparr>gate_token := False\<rparr>)" by auto
  then show ?thesis
    by (auto simp: RunExternalMutation_def gate_lock_cases DrainExternalMutations_def DrainChannelExternalMutations_def
        with_gate_def split: option.splits)
qed
theorem uncertain_cleanup_blocks_witness:
  "let s' = fst (snd (RunExternalMutation claimed_store sample_xclaim (Some unsafe_command) [])) in
   RunExternalMutation s' sample_xclaim (Some sample_command) [] = (('''', Some (Refused ErrContextDone)), s', [])"
proof -
  have "RunExternalMutation claimed_store sample_xclaim (Some unsafe_command) [] =
      (('''', Some (Failed ErrExternalCleanupUncertainStart)),
       fst (snd (RunExternalMutation claimed_store sample_xclaim (Some unsafe_command) [])), [''started''])"
    by (rule run_result; code_simp)
  from uncertain_cleanup_blocks [OF this, of sample_xclaim sample_command "[]"] show ?thesis
    unfolding Let_def by blast
qed
end
