(* ===== verification/Lifecycle.thy ===== *)
theory Lifecycle
  imports Tickets MutationGate
begin

text \<open>
  Leadership, the start of queued work and its recovery (\<^verbatim>\<open>internal/store/store.go\<close>,
  \<^verbatim>\<open>internal/store/provider_retry.go\<close>, \<^verbatim>\<open>internal/store/runner_recovery.go\<close>): a new leader raises the channel's epoch,
  a queued ticket enters planning together with its owner, its event, its phase entry and its
  bootstrap endpoint, and a restarted daemon settles planning tickets that have no owner.

  A sentinel that \<open>fmt.Errorf\<close> wraps with a text is the sentinel joined with the text.
\<close>

section \<open>Leadership\<close>

definition AcquireLeader_tx :: "string \<Rightarrow> db \<Rightarrow> store_error + (u64 \<times> db)" where
  "AcquireLeader_tx channel d =
     (let d1 = (if row_at d_Channel (daemon_instances d) channel = None
                then d\<lparr>daemon_instances := insert_row \<lparr>d_Channel = channel, d_LeaderEpoch = 0, d_RecoveryKey = ''''\<rparr> (daemon_instances d)\<rparr> else d);
          d2 = d1\<lparr>daemon_instances := update_where (\<lambda>r. d_Channel r = channel)
                 (\<lambda>r. r\<lparr>d_LeaderEpoch := d_LeaderEpoch r + 1\<rparr>) (daemon_instances d1)\<rparr> in
      case leader_at d2 channel of None \<Rightarrow> Inl ErrNoRows | Some epoch \<Rightarrow> Inr (epoch, d2))"

definition AcquireLeader :: "Store \<Rightarrow> string \<Rightarrow> string \<Rightarrow> (store_error + u64) \<times> Store" where
  "AcquireLeader s channel identity =
     (if \<not> Channel_Valid channel \<or> identity = ''''
        then (Inl (ErrMessage ''valid channel and daemon identity are required''), s)
      else case DrainChannelExternalMutations s channel of
        (Inl e, s1) \<Rightarrow> (Inl e, s1)
      | (Inr _, s1) \<Rightarrow> store_write s1 (AcquireLeader_tx channel))"

section \<open>The evidence of a start\<close>

definition boundedText :: "string \<Rightarrow> nat \<Rightarrow> bool" where
  "boundedText text maximum \<longleftrightarrow>
     text \<noteq> '''' \<and> length text \<le> maximum \<and> TrimSpace text = text \<and> \<not> list_ex (\<lambda>c. c = CHR 0x00) text"

definition providerStateForPhase :: "string \<Rightarrow> string" where
  "providerStateForPhase phase =
     (if phase = PhasePlanning then StatePlanning
      else if phase = PhaseVerification then StateVerifying
      else if phase = PhaseBuild then StateBuilding
      else if phase = PhaseReview then StateReviewing
      else '''')"

definition phase_entry_pk :: "phase_entry_row \<Rightarrow> TicketRef \<times> string \<times> u64" where
  "phase_entry_pk r = (pe_Ref r, pe_Phase r, pe_Version r)"

text \<open>The states the table accepts as the origin of an entry.\<close>

definition entry_origin :: "string \<Rightarrow> bool" where
  "entry_origin state \<longleftrightarrow> state \<in> {StateQueued, StatePlanning, StateVerifying, StateBuilding, StateReviewing, StatePublishing,
     StateWaitingCI, StateWaitingApproval, StateWaitingManualMerge, StatePaused, StateBlocked}"

definition recordProviderPhaseEntry ::
  "TicketRef \<Rightarrow> string \<Rightarrow> u64 \<Rightarrow> u64 \<Rightarrow> u64 \<Rightarrow> int \<Rightarrow> string \<Rightarrow> string \<Rightarrow> string \<Rightarrow> db \<Rightarrow> store_error + db" where
  "recordProviderPhaseEntry ref phase version leader runner eventID from state trigger d =
     (let row = \<lparr>pe_Ref = ref, pe_Phase = phase, pe_Version = version, pe_EventID = eventID, pe_Leader = leader,
                 pe_Runner = runner, pe_From = from, pe_State = state, pe_Trigger = trigger\<rparr> in
      if providerStateForPhase phase \<noteq> state \<or> version = 0 \<or> leader = 0 \<or> runner = 0 \<or> eventID \<le> 0 \<or>
         \<not> State_Valid from \<or> trigger = '''' then Inl ErrEvidenceConflict
      else if \<not> entry_origin from \<or> state = '''' \<or> 128 < length trigger then Inl (ErrConstraint ''provider_phase_entries'')
      else case row_at phase_entry_pk (provider_phase_entries d) (phase_entry_pk row) of
        Some stored \<Rightarrow> if stored \<noteq> row then Inl ErrEvidenceConflict else Inr d
      | None \<Rightarrow> Inr (d\<lparr>provider_phase_entries := insert_row row (provider_phase_entries d)\<rparr>))"

definition recordRunnerStartAuthority ::
  "TicketRef \<Rightarrow> u64 \<Rightarrow> Fence \<Rightarrow> string \<Rightarrow> db \<Rightarrow> store_error + db" where
  "recordRunnerStartAuthority ref version fence workflowID d =
     (if TicketRef_Validate ref \<noteq> None \<or> version \<noteq> 2 \<or> RunnerEpoch fence \<noteq> 1 \<or> LeaderEpoch fence = 0 \<or>
         \<not> boundedText workflowID 300 then Inl ErrPublicationEvidence
      else if row_at sa_Ref (runner_start_authorities d) ref \<noteq> None then Inl (ErrConstraint ''runner_start_authorities'')
      else Inr (d\<lparr>runner_start_authorities := insert_row
        \<lparr>sa_Ref = ref, sa_Version = version, sa_Runner = RunnerEpoch fence, sa_Leader = LeaderEpoch fence,
         sa_WorkflowID = workflowID\<rparr> (runner_start_authorities d)\<rparr>))"

section \<open>Ownership\<close>

definition owner_at :: "db \<Rightarrow> TicketRef \<Rightarrow> owner_row option" where
  "owner_at d ref = row_at o_Ref (workflow_owners d) ref"

definition workflow_taken :: "string \<Rightarrow> string \<Rightarrow> db \<Rightarrow> bool" where
  "workflow_taken channel workflowID d \<longleftrightarrow>
     list_ex (\<lambda>w. Channel (o_Ref w) = channel \<and> o_WorkflowID w = workflowID) (workflow_owners d)"

text \<open>The insertion that does nothing when the ticket has an owner.\<close>

definition ensure_owner :: "TicketRef \<Rightarrow> string \<Rightarrow> db \<Rightarrow> store_error + db" where
  "ensure_owner ref workflowID d =
     (if owner_at d ref \<noteq> None then Inr d
      else if workflow_taken (Channel ref) workflowID d then Inl (ErrConstraint ''workflow_owners'')
      else Inr (d\<lparr>workflow_owners := insert_row \<lparr>o_Ref = ref, o_WorkflowID = workflowID, o_State = ''owned''\<rparr> (workflow_owners d)\<rparr>))"

section \<open>Starting\<close>

text \<open>Queued work enters planning with the configuration its project has at that moment.\<close>

definition start_row :: "db \<Rightarrow> string \<Rightarrow> ticket_row \<Rightarrow> ticket_row" where
  "start_row d workflowID t =
     (let project = project_at d (Channel (t_Ref t)) (Project (t_Ref t)) in
      t\<lparr>t_State := StatePlanning, t_Version := t_Version t + 1, t_WorkflowID := workflowID,
        t_ConfigGeneration := (case project of None \<Rightarrow> 0 | Some r \<Rightarrow> p_ConfigGeneration r),
        t_ConfigDigest := (case project of None \<Rightarrow> '''' | Some r \<Rightarrow> pj_ConfigDigest (joined_project d r)),
        t_ConfigSnapshot := (case project of None \<Rightarrow> '''' | Some r \<Rightarrow> pj_ConfigSnapshot (joined_project d r))\<rparr>)"

definition enter_planning :: "TicketRef \<Rightarrow> u64 \<Rightarrow> u64 \<Rightarrow> string \<Rightarrow> db \<Rightarrow> store_error + db" where
  "enter_planning ref expectedVersion runner workflowID d =
     (let p = (\<lambda>t. t_Ref t = ref \<and> t_Version t = expectedVersion \<and> t_RunnerEpoch t = runner) in
      if count_where p (tickets d) \<noteq> 1 then Inl ErrStaleFence
      else if list_ex (\<lambda>u. t_Ref u \<noteq> ref \<and> Channel (t_Ref u) = Channel ref \<and> t_WorkflowID u = workflowID) (tickets d)
        then Inl (ErrConstraint ''tickets'')
      else Inr (d\<lparr>tickets := update_where p (start_row d workflowID) (tickets d)\<rparr>))"

text \<open>The first half: the move out of the queue, or the confirmation of an earlier one.\<close>

definition start_or_confirm :: "TicketRef \<Rightarrow> u64 \<Rightarrow> string \<Rightarrow> ticket_row \<Rightarrow> db \<Rightarrow> store_error + (bool \<times> db)" where
  "start_or_confirm ref expectedVersion workflowID t d =
     (if t_State t = StateQueued then
        (if t_Version t \<noteq> expectedVersion then Inl ErrStaleFence
         else case enter_planning ref expectedVersion (t_RunnerEpoch t) workflowID d of
           Inl e \<Rightarrow> Inl e | Inr d1 \<Rightarrow> Inr (True, d1))
      else if t_State t = StateBlocked
        then Inl (ErrJoined ErrBlocked (ErrMessage ''ticket requires an explicit recovery transition''))
      else if t_State t \<noteq> StatePlanning then Inl (ErrState ''cannot start or adopt ticket in state'' (t_State t))
      else if t_WorkflowID t = '''' then Inl (ErrMessage ''cannot adopt planning ticket without persisted workflow id'')
      else if t_Version t \<noteq> expectedVersion + 1 then Inl ErrStaleFence
      else if t_WorkflowID t \<noteq> workflowID
        then Inl (ErrJoined ErrStaleFence (ErrMessage ''workflow id does not match durable ticket identity''))
      else Inr (False, d))"

text \<open>The second half, after a move: the event, the phase entry and the bootstrap endpoint.\<close>

definition record_start :: "TicketRef \<Rightarrow> u64 \<Rightarrow> u64 \<Rightarrow> Fence \<Rightarrow> string \<Rightarrow> string \<Rightarrow> string \<Rightarrow> db \<Rightarrow> store_error + db" where
  "record_start ref version runner fence trigger from workflowID d =
     (case insert_event ref version trigger from StatePlanning ''{}'' d of
        (eventID, d1) \<Rightarrow>
          (case recordProviderPhaseEntry ref PhasePlanning version (LeaderEpoch fence) runner eventID from StatePlanning trigger d1 of
             Inl e \<Rightarrow> Inl e
           | Inr d2 \<Rightarrow> recordRunnerStartAuthority ref version fence workflowID d2))"

definition StartOrAdopt_tx ::
  "Gate option \<Rightarrow> TicketRef \<Rightarrow> u64 \<Rightarrow> string \<Rightarrow> Fence \<Rightarrow> db \<Rightarrow> store_error + (unit \<times> db)" where
  "StartOrAdopt_tx m ref expectedVersion workflowID fence d =
     (if count_where (\<lambda>p. p_Channel p = Channel ref \<and> p_ID p = Project ref \<and> p_Lifecycle p = ''active'') (projects d) \<noteq> 1
        then Inl ErrProjectRemoved
      else case ticket_at d ref of
        None \<Rightarrow> Inl ErrNotFound
      | Some t \<Rightarrow>
        (case assertTicketFence m d ref (t_Version t) fence of
           Some e \<Rightarrow> Inl e
         | None \<Rightarrow>
           (case start_or_confirm ref expectedVersion workflowID t d of
              Inl e \<Rightarrow> Inl e
            | Inr (stateChanged, d1) \<Rightarrow>
              (case ensure_owner ref workflowID d1 of
                 Inl e \<Rightarrow> Inl e
               | Inr d2 \<Rightarrow>
                 (case owner_at d2 ref of
                    None \<Rightarrow> Inl ErrNoRows
                  | Some w \<Rightarrow>
                    if o_WorkflowID w \<noteq> workflowID
                      then Inl (ErrJoined ErrStaleFence (ErrMessage ''workflow owner does not match durable ticket identity''))
                    else if \<not> stateChanged then Inr ((), d2)
                    else case record_start ref (t_Version t + 1) (t_RunnerEpoch t) fence ''start_or_adopt'' (t_State t) workflowID d2 of
                      Inl e \<Rightarrow> Inl e
                    | Inr d3 \<Rightarrow> Inr ((), d3))))))"

definition StartOrAdopt ::
  "Store \<Rightarrow> TicketRef \<Rightarrow> u64 \<Rightarrow> string \<Rightarrow> Fence \<Rightarrow> (store_error + StoreTicket) \<times> Store" where
  "StartOrAdopt s ref expectedVersion workflowID fence =
     (if workflowID = '''' then (Inl (ErrMessage ''stable workflow id is required''), s)
      else with_gate ErrStaleFence s (\<lambda>g s.
        case store_write s (StartOrAdopt_tx (Some g) ref expectedVersion workflowID fence) of
          (Inl e, s') \<Rightarrow> (Inl e, s')
        | (Inr _, s') \<Rightarrow> (Ticket_get s' ref, s')))"

section \<open>Recovery of ownership\<close>

definition orphans :: "string \<Rightarrow> db \<Rightarrow> ticket_row list" where
  "orphans channel d =
     filter (\<lambda>t. Channel (t_Ref t) = channel \<and> t_State t = ''planning'' \<and> owner_at d (t_Ref t) = None) (tickets d)"

definition same_planning :: "ticket_row \<Rightarrow> ticket_row \<Rightarrow> bool" where
  "same_planning t u \<longleftrightarrow> t_Ref u = t_Ref t \<and> t_State u = ''planning'' \<and> t_Version u = t_Version t \<and> t_RunnerEpoch u = t_RunnerEpoch t"

definition unknown_owner :: string where
  "unknown_owner = ''workflow_ownership_unknown''"

definition block_orphan :: "ticket_row \<Rightarrow> db \<Rightarrow> store_error + db" where
  "block_orphan t d =
     (if count_where (same_planning t) (tickets d) \<noteq> 1 then Inl ErrStaleFence
      else Inr (snd (insert_event (t_Ref t) (t_Version t + 1) ''typed_blocker'' ''planning'' ''blocked''
        (print_json (JObj [(''code'', JStr unknown_owner)]))
        (d\<lparr>tickets := update_where (same_planning t)
             (\<lambda>u. u\<lparr>t_State := ''blocked'', t_BlockedCode := unknown_owner, t_Version := t_Version u + 1\<rparr>) (tickets d)\<rparr>))))"

definition adopt_orphan :: "ticket_row \<Rightarrow> db \<Rightarrow> store_error + db" where
  "adopt_orphan t d =
     (if count_where (same_planning t) (tickets d) = 0 then Inl ErrStaleFence
      else if owner_at d (t_Ref t) \<noteq> None \<or> workflow_taken (Channel (t_Ref t)) (t_WorkflowID t) d
        then Inl (ErrConstraint ''workflow_owners'')
      else Inr (snd (insert_event (t_Ref t) (t_Version t) ''workflow_owner_recovered'' ''planning'' ''planning'' ''{}''
        (d\<lparr>workflow_owners := insert_row \<lparr>o_Ref = t_Ref t, o_WorkflowID = t_WorkflowID t, o_State = ''owned''\<rparr>
             (workflow_owners d)\<rparr>))))"

definition settle_orphan :: "ticket_row \<Rightarrow> db \<Rightarrow> store_error + db" where
  "settle_orphan t d = (if t_WorkflowID t = '''' then block_orphan t d else adopt_orphan t d)"

fun each_row :: "('r \<Rightarrow> db \<Rightarrow> store_error + db) \<Rightarrow> 'r list \<Rightarrow> db \<Rightarrow> store_error + db" where
  "each_row f [] d = Inr d"
| "each_row f (r # rs) d = (case f r d of Inl e \<Rightarrow> Inl e | Inr d' \<Rightarrow> each_row f rs d')"

definition settle_orphans_tx :: "(ticket_row \<Rightarrow> db \<Rightarrow> store_error + db) \<Rightarrow> string \<Rightarrow> u64 \<Rightarrow> db \<Rightarrow> store_error + (unit \<times> db)" where
  "settle_orphans_tx settle channel leaderEpoch d =
     (case leader_at d channel of
        None \<Rightarrow> Inl ErrNoRows
      | Some dbEpoch \<Rightarrow>
          if dbEpoch \<noteq> leaderEpoch then Inl ErrStaleFence
          else case each_row settle (orphans channel d) d of Inl e \<Rightarrow> Inl e | Inr d' \<Rightarrow> Inr ((), d'))"

definition ReconcileOrphans :: "Store \<Rightarrow> string \<Rightarrow> u64 \<Rightarrow> (store_error + unit) \<times> Store" where
  "ReconcileOrphans s channel leaderEpoch = store_write s (settle_orphans_tx settle_orphan channel leaderEpoch)"

definition BlockOrphanedWorkflows :: "Store \<Rightarrow> string \<Rightarrow> u64 \<Rightarrow> (store_error + unit) \<times> Store" where
  "BlockOrphanedWorkflows s channel leaderEpoch = store_write s (settle_orphans_tx block_orphan channel leaderEpoch)"

section \<open>Runners and phases\<close>

definition InvalidateRunner_tx :: "TicketRef \<Rightarrow> u64 \<Rightarrow> Fence \<Rightarrow> db \<Rightarrow> store_error + (unit \<times> db)" where
  "InvalidateRunner_tx ref expectedVersion fence d =
     (case ticket_at d ref of
        None \<Rightarrow> Inl ErrNoRows
      | Some t \<Rightarrow>
        if t_Version t \<noteq> expectedVersion then Inl ErrStaleFence
        else case currentFence d (Channel ref) (t_Version t) (t_RunnerEpoch t) fence of
          Some e \<Rightarrow> Inl e
        | None \<Rightarrow>
          (let p = (\<lambda>u. t_Ref u = ref \<and> t_Version u = t_Version t \<and> t_RunnerEpoch u = t_RunnerEpoch t) in
           if count_where p (tickets d) \<noteq> 1 then Inl ErrStaleFence
           else Inr ((), d\<lparr>tickets := update_where p
             (\<lambda>u. u\<lparr>t_RunnerEpoch := t_RunnerEpoch u + 1, t_Version := t_Version u + 1\<rparr>) (tickets d)\<rparr>)))"

definition InvalidateRunner :: "Store \<Rightarrow> TicketRef \<Rightarrow> u64 \<Rightarrow> Fence \<Rightarrow> (store_error + StoreTicket) \<times> Store" where
  "InvalidateRunner s ref expectedVersion fence =
     (case DrainExternalMutations s ref of
        (Inl e, s1) \<Rightarrow> (Inl e, s1)
      | (Inr _, s1) \<Rightarrow>
        (case store_write s1 (InvalidateRunner_tx ref expectedVersion fence) of
           (Inl e, s2) \<Rightarrow> (Inl e, s2)
         | (Inr _, s2) \<Rightarrow> (Ticket_get s2 ref, s2)))"

definition phase_run_pk :: "phase_run_row \<Rightarrow> TicketRef \<times> string \<times> int" where
  "phase_run_pk r = (pr_Ref r, pr_Phase r, pr_Attempt r)"

definition RecordPhaseCompletion_tx ::
  "TicketRef \<Rightarrow> string \<Rightarrow> int \<Rightarrow> u64 \<Rightarrow> Fence \<Rightarrow> db \<Rightarrow> store_error + (bool \<times> db)" where
  "RecordPhaseCompletion_tx ref phase attempt expectedVersion fence d =
     (case ticket_at d ref of
        None \<Rightarrow> Inl ErrNoRows
      | Some t \<Rightarrow>
        if t_Version t \<noteq> expectedVersion then Inl ErrStaleFence
        else case currentFence d (Channel ref) (t_Version t) (t_RunnerEpoch t) fence of
          Some e \<Rightarrow> Inl e
        | None \<Rightarrow>
          (if phase \<notin> {PhasePlanning, PhaseVerification, PhaseBuild, PhasePublish, PhaseReview, PhaseMerge, PhaseReconcile} \<or> attempt \<le> 0
             then Inl (ErrConstraint ''phase_runs'')
           else if row_at phase_run_pk (phase_runs d) (ref, phase, attempt) \<noteq> None then Inr (False, d)
           else Inr (True, d\<lparr>phase_runs := insert_row
             \<lparr>pr_Ref = ref, pr_Phase = phase, pr_Attempt = attempt, pr_State = ''completed'', pr_LeaderEpoch = LeaderEpoch fence,
              pr_RunnerEpoch = RunnerEpoch fence, pr_ExpectedTicketVersion = expectedVersion, pr_Outcome = ''completed'',
              pr_Identity = \<lparr>pv_Provider = '''', pv_Model = '''', pv_Family = '''', pv_Version = ''''\<rparr>,
              pr_WorktreeIdentity = '''', pr_BaseSHA = '''', pr_Completed = True\<rparr>
             (phase_runs d)\<rparr>)))"

definition RecordPhaseCompletion ::
  "Store \<Rightarrow> TicketRef \<Rightarrow> string \<Rightarrow> int \<Rightarrow> u64 \<Rightarrow> Fence \<Rightarrow> (store_error + bool) \<times> Store" where
  "RecordPhaseCompletion s ref phase attempt expectedVersion fence =
     store_write s (RecordPhaseCompletion_tx ref phase attempt expectedVersion fence)"

text \<open>The latest event that paused a ticket at its version says whether the pause may be retried.\<close>

definition RetryablePause :: "Store \<Rightarrow> StoreTicket \<Rightarrow> bool" where
  "RetryablePause s ticket =
     (if TicketRef_Validate (tk_Ref ticket) \<noteq> None \<or> tk_State ticket \<noteq> StatePaused \<or> tk_Version ticket = 0 \<or>
         tk_ResumeState ticket = '''' then False
      else case rev (sort_key ev_ID (filter (\<lambda>e. ev_Ref e = tk_Ref ticket \<and> ev_TicketVersion e = tk_Version ticket \<and>
          ev_From e = tk_ResumeState ticket \<and> ev_To e = ''paused'') (events (st_db s)))) of
        [] \<Rightarrow> False
      | e # _ \<Rightarrow> ev_Trigger e = ''retry_or_correction_exhausted'' \<or> ev_Trigger e = ''ci_red_exhausted'')"

end
