(* ===== verification/Leases.thy ===== *)
theory Leases
  imports Effects "HOL-Library.Product_Lexorder"
begin

text \<open>
  Capacity leases (\<^verbatim>\<open>internal/store/lease.go\<close>): a ticket holds one numbered slot of every capacity it was
  admitted to. A slot is a row whose primary key is the channel, the scope and a text made of the resource
  and the slot number, so two tickets never hold the same slot.

  An acquisition time is the number of nanoseconds since Go's zero time; the text the Store keeps it
  in reads back as the same instant.
\<close>

section \<open>Requests and keys\<close>

record LeaseRequest =
  lr_Scope :: string
  lr_Resource :: string
  lr_Capacity :: int

definition leaseKey :: "string \<Rightarrow> nat \<Rightarrow> string" where
  "leaseKey resource slot = itoa (length resource) @ '':'' @ resource @ '':'' @ itoa slot"

definition lease_pk :: "lease_row \<Rightarrow> string \<times> string \<times> string" where
  "lease_pk r = (Channel (l_Ref r), l_Scope r, l_ScopeKey r)"

definition lease_at :: "db \<Rightarrow> string \<Rightarrow> string \<Rightarrow> string \<Rightarrow> lease_row option" where
  "lease_at d channel scope key = row_at lease_pk (leases d) (channel, scope, key)"

interpretation lease_table: keyed_table lease_pk "row_at lease_pk" insert_row
    update_where delete_where count_where "unique_key lease_pk"
  by (rule list_keyed_table)

text \<open>
  \<open>validateLeaseRequests\<close> sorts a copy by scope and resource and checks each request in that order,
  the duplicate check against its predecessor last. Requests with equal scope and resource may come out
  of Go's sort in either order; both orders are rejected.
\<close>

definition request_key :: "LeaseRequest \<Rightarrow> string \<times> string" where
  "request_key r = (lr_Scope r, lr_Resource r)"

definition check_request :: "LeaseRequest \<Rightarrow> store_error option" where
  "check_request r =
     (if lr_Scope r \<noteq> ''global'' \<and> lr_Scope r \<noteq> ''project'' \<and> lr_Scope r \<noteq> ''provider''
        then Some (ErrState ''invalid lease scope'' (lr_Scope r))
      else if TrimSpace (lr_Resource r) \<noteq> lr_Resource r \<or> lr_Resource r = '''' \<or>
          200 < int (length (lr_Resource r)) \<or> CHR 0x00 \<in> set (lr_Resource r)
        then Some (ErrMessage ''lease resource must be a bounded nonempty identity'')
      else if lr_Capacity r < 1 \<or> 64 < lr_Capacity r
        then Some (ErrMessage ''lease capacity must be between one and sixty-four'')
      else None)"

fun check_requests :: "LeaseRequest option \<Rightarrow> LeaseRequest list \<Rightarrow> store_error option" where
  "check_requests prev [] = None"
| "check_requests prev (r # rs) =
     (case check_request r of
        Some e \<Rightarrow> Some e
      | None \<Rightarrow>
          if map_option request_key prev = Some (request_key r)
          then Some (ErrMessage ''duplicate lease request'')
          else check_requests (Some r) rs)"

definition validateLeaseRequests :: "LeaseRequest list \<Rightarrow> store_error + LeaseRequest list" where
  "validateLeaseRequests requests =
     (if requests = [] \<or> 16 < int (length requests)
        then Inl (ErrMessage ''between one and sixteen lease requests are required'')
      else let copy = sort_key request_key requests in
        case check_requests None copy of Some e \<Rightarrow> Inl e | None \<Rightarrow> Inr copy)"

section \<open>Acquiring\<close>

text \<open>
  The loop over the slots of one request: a slot that this ticket's runner holds is returned, an
  occupied one is passed over, a free one is taken. \<open>None\<close> is the full capacity.
\<close>

fun acquire_slots ::
  "TicketRef \<Rightarrow> u64 \<Rightarrow> LeaseRequest \<Rightarrow> int \<Rightarrow> nat list \<Rightarrow> lease_row list \<Rightarrow> lease_row option \<times> lease_row list" where
  "acquire_slots ref runner request at [] t = (None, t)"
| "acquire_slots ref runner request at (slot # slots) t =
     (let key = leaseKey (lr_Resource request) slot in
      case row_at lease_pk t (Channel ref, lr_Scope request, key) of
        Some row \<Rightarrow>
          if Project (l_Ref row) = Project ref \<and> Ticket (l_Ref row) = Ticket ref \<and> l_RunnerEpoch row = runner
          then (Some \<lparr>l_Ref = ref, l_Scope = lr_Scope request, l_ScopeKey = key, l_RunnerEpoch = runner,
                      l_AcquiredAt = l_AcquiredAt row\<rparr>, t)
          else acquire_slots ref runner request at slots t
      | None \<Rightarrow>
          (let lease = \<lparr>l_Ref = ref, l_Scope = lr_Scope request, l_ScopeKey = key, l_RunnerEpoch = runner,
                        l_AcquiredAt = at\<rparr>
           in (Some lease, insert_row lease t)))"

definition acquireLease ::
  "TicketRef \<Rightarrow> u64 \<Rightarrow> LeaseRequest \<Rightarrow> int \<Rightarrow> lease_row list \<Rightarrow> lease_row option \<times> lease_row list" where
  "acquireLease ref runner request at t = acquire_slots ref runner request at [0..<nat (lr_Capacity request)] t"

fun acquire_all ::
  "TicketRef \<Rightarrow> u64 \<Rightarrow> int \<Rightarrow> LeaseRequest list \<Rightarrow> lease_row list \<Rightarrow> store_error + (lease_row list \<times> lease_row list)" where
  "acquire_all ref runner at [] t = Inr ([], t)"
| "acquire_all ref runner at (request # requests) t =
     (case acquireLease ref runner request at t of
        (None, _) \<Rightarrow> Inl (ErrLeaseCapacity (lr_Scope request) (lr_Resource request) (lr_Capacity request))
      | (Some lease, t') \<Rightarrow>
          (case acquire_all ref runner at requests t' of
             Inl e \<Rightarrow> Inl e
           | Inr (acquired, t'') \<Rightarrow> Inr (lease # acquired, t'')))"

definition AcquireLeases_tx ::
  "Gate option \<Rightarrow> TicketRef \<Rightarrow> u64 \<Rightarrow> Fence \<Rightarrow> LeaseRequest list \<Rightarrow> int \<Rightarrow> db \<Rightarrow>
     store_error + (lease_row list \<times> db)" where
  "AcquireLeases_tx m ref expectedVersion fence requests at d =
     (if count_where (\<lambda>p. p_Channel p = Channel ref \<and> p_ID p = Project ref \<and> p_Lifecycle p = ''active'')
          (projects d) \<noteq> 1
      then Inl ErrProjectRemoved
      else case assertTicketFence m d ref expectedVersion fence of
        Some e \<Rightarrow> Inl e
      | None \<Rightarrow>
        (case ticket_at d ref of
           None \<Rightarrow> Inl ErrNotFound
         | Some t \<Rightarrow>
           if State_Terminal (t_State t) \<or> t_Version t \<noteq> expectedVersion then Inl ErrStaleFence
           else case acquire_all ref (t_RunnerEpoch t) at requests (leases d) of
             Inl e \<Rightarrow> Inl e
           | Inr (acquired, ls) \<Rightarrow> Inr (acquired, d\<lparr>leases := ls\<rparr>)))"

definition AcquireLeases ::
  "Store \<Rightarrow> TicketRef \<Rightarrow> u64 \<Rightarrow> Fence \<Rightarrow> LeaseRequest list \<Rightarrow> int \<Rightarrow> (store_error + lease_row list) \<times> Store" where
  "AcquireLeases s ref expectedVersion fence requests at =
     (case TicketRef_Validate ref of
        Some e \<Rightarrow> (Inl (ErrRef e), s)
      | None \<Rightarrow>
        (case validateLeaseRequests requests of
           Inl e \<Rightarrow> (Inl e, s)
         | Inr copy \<Rightarrow>
           if at = 0 then (Inl (ErrMessage ''lease acquisition time is required''), s)
           else store_write s (AcquireLeases_tx (st_mutations s) ref expectedVersion fence copy at)))"

section \<open>Releasing\<close>

definition ReleaseLeases_tx :: "TicketRef \<Rightarrow> u64 \<Rightarrow> Fence \<Rightarrow> db \<Rightarrow> store_error + (nat \<times> db)" where
  "ReleaseLeases_tx ref expectedVersion fence d =
     (case ticket_at d ref of
        None \<Rightarrow> Inl ErrNotFound
      | Some t \<Rightarrow>
        if t_Version t \<noteq> expectedVersion then Inl ErrStaleFence
        else case currentFence d (Channel ref) (t_Version t) (t_RunnerEpoch t) fence of
          Some e \<Rightarrow> Inl e
        | None \<Rightarrow>
          (let p = (\<lambda>l. l_Ref l = ref \<and> l_RunnerEpoch l = t_RunnerEpoch t) in
           Inr (count_where p (leases d), d\<lparr>leases := delete_where p (leases d)\<rparr>)))"

definition ReleaseLeases :: "Store \<Rightarrow> TicketRef \<Rightarrow> u64 \<Rightarrow> Fence \<Rightarrow> (store_error + nat) \<times> Store" where
  "ReleaseLeases s ref expectedVersion fence =
     (case TicketRef_Validate ref of
        Some e \<Rightarrow> (Inl (ErrRef e), s)
      | None \<Rightarrow> store_write s (ReleaseLeases_tx ref expectedVersion fence))"

text \<open>The rows of a ticket in a live state, in each of the three writer tables.\<close>

definition live_writers :: "TicketRef \<Rightarrow> 'a writer_row_scheme list \<Rightarrow> nat" where
  "live_writers ref t =
     count_where (\<lambda>w. w_Ref w = ref \<and> (w_State w = ''active'' \<or> w_State w = ''quarantined'')) t"

definition unreconciled_effects :: "TicketRef \<Rightarrow> Effect list \<Rightarrow> nat" where
  "unreconciled_effects ref t =
     count_where (\<lambda>e. e_Ref e = ref \<and> (e_State e = EffectExecuting \<or> e_State e = EffectUncertain)) t"

definition releaseTerminalCapacity :: "TicketRef \<Rightarrow> db \<Rightarrow> store_error + db" where
  "releaseTerminalCapacity ref d =
     (if live_writers ref (provider_attempts d) \<noteq> 0 then Inl ErrControlNotDrained
      else if live_writers ref (repository_command_leases d) \<noteq> 0 then Inl ErrControlNotDrained
      else if live_writers ref (git_mutation_leases d) \<noteq> 0 then Inl ErrControlNotDrained
      else if unreconciled_effects ref (effects d) \<noteq> 0 then Inl ErrControlNotDrained
      else Inr (d\<lparr>leases := delete_where (\<lambda>l. l_Ref l = ref) (leases d)\<rparr>))"

section \<open>Leases of an invalidated runner\<close>

definition stale_lease :: "db \<Rightarrow> string \<Rightarrow> lease_row \<Rightarrow> bool" where
  "stale_lease d channel l \<longleftrightarrow> Channel (l_Ref l) = channel \<and>
     (case ticket_at d (l_Ref l) of None \<Rightarrow> False | Some t \<Rightarrow> l_RunnerEpoch l \<noteq> t_RunnerEpoch t)"

definition StaleLeases :: "Store \<Rightarrow> string \<Rightarrow> u64 \<Rightarrow> store_error + lease_row list" where
  "StaleLeases s channel leaderEpoch =
     (if \<not> Channel_Valid channel \<or> leaderEpoch = 0
        then Inl (ErrMessage ''valid channel and leader epoch are required'')
      else case leader_at (st_db s) channel of
        None \<Rightarrow> Inl ErrNoRows
      | Some current \<Rightarrow>
        if current \<noteq> leaderEpoch then Inl ErrStaleFence
        else Inr (sort_key (\<lambda>l. (Project (l_Ref l), Ticket (l_Ref l), l_RunnerEpoch l, l_Scope l, l_ScopeKey l))
               (filter (stale_lease (st_db s) channel) (leases (st_db s)))))"

definition ReleaseInvalidatedLeases_tx :: "TicketRef \<Rightarrow> u64 \<Rightarrow> u64 \<Rightarrow> db \<Rightarrow> store_error + (nat \<times> db)" where
  "ReleaseInvalidatedLeases_tx ref staleRunner leaderEpoch d =
     (case leader_at d (Channel ref) of
        None \<Rightarrow> Inl ErrNoRows
      | Some leader \<Rightarrow>
        (case ticket_at d ref of
           None \<Rightarrow> Inl ErrNoRows
         | Some t \<Rightarrow>
           if leader \<noteq> leaderEpoch \<or> t_RunnerEpoch t \<le> staleRunner then Inl ErrStaleFence
           else
             (let p = (\<lambda>l. l_Ref l = ref \<and> l_RunnerEpoch l = staleRunner) in
              Inr (count_where p (leases d), d\<lparr>leases := delete_where p (leases d)\<rparr>))))"

definition ReleaseInvalidatedLeases :: "Store \<Rightarrow> TicketRef \<Rightarrow> u64 \<Rightarrow> u64 \<Rightarrow> (store_error + nat) \<times> Store" where
  "ReleaseInvalidatedLeases s ref staleRunner leaderEpoch =
     (case TicketRef_Validate ref of
        Some e \<Rightarrow> (Inl (ErrRef e), s)
      | None \<Rightarrow>
        if staleRunner = 0 \<or> leaderEpoch = 0
        then (Inl (ErrMessage ''stale runner and leader epochs are required''), s)
        else store_write s (ReleaseInvalidatedLeases_tx ref staleRunner leaderEpoch))"

definition AdoptInvalidatedLeases_tx :: "TicketRef \<Rightarrow> u64 \<Rightarrow> u64 \<Rightarrow> db \<Rightarrow> store_error + (nat \<times> db)" where
  "AdoptInvalidatedLeases_tx ref staleRunner leaderEpoch d =
     (case leader_at d (Channel ref) of
        None \<Rightarrow> Inl ErrNoRows
      | Some leader \<Rightarrow>
        (case ticket_at d ref of
           None \<Rightarrow> Inl ErrNotFound
         | Some t \<Rightarrow>
           if leader \<noteq> leaderEpoch \<or> t_RunnerEpoch t \<le> staleRunner then Inl ErrStaleFence
           else if live_writers ref (repository_command_leases d) \<noteq> 0 then Inl ErrRepositoryCommandLease
           else
             (let mine = (\<lambda>l. l_Ref l = ref \<and> l_RunnerEpoch l = staleRunner);
                  transferable = (\<lambda>l. l_Scope l = ''global'' \<or> l_Scope l = ''project'') in
              if count_where (\<lambda>l. mine l \<and> \<not> transferable l) (leases d) \<noteq> 0 then Inl ErrLeaseAdoption
              else if count_where mine (leases d) = 0 then Inr (0, d)
              else if live_writers ref (provider_attempts d) \<noteq> 0 then Inl ErrLeaseAdoption
              else if live_writers ref (git_mutation_leases d) \<noteq> 0 then Inl ErrLeaseAdoption
              else
                (let p = (\<lambda>l. mine l \<and> transferable l) in
                 Inr (count_where p (leases d),
                      d\<lparr>leases := update_where p (\<lambda>l. l\<lparr>l_RunnerEpoch := t_RunnerEpoch t\<rparr>) (leases d)\<rparr>)))))"

definition AdoptInvalidatedLeases :: "Store \<Rightarrow> TicketRef \<Rightarrow> u64 \<Rightarrow> u64 \<Rightarrow> (store_error + nat) \<times> Store" where
  "AdoptInvalidatedLeases s ref staleRunner leaderEpoch =
     (case TicketRef_Validate ref of
        Some e \<Rightarrow> (Inl (ErrRef e), s)
      | None \<Rightarrow>
        if staleRunner = 0 \<or> leaderEpoch = 0
        then (Inl (ErrMessage ''stale runner and leader epochs are required''), s)
        else store_write s (AdoptInvalidatedLeases_tx ref staleRunner leaderEpoch))"

definition Leases_list :: "Store \<Rightarrow> string \<Rightarrow> store_error + lease_row list" where
  "Leases_list s channel =
     (if \<not> Channel_Valid channel then Inl (ErrState ''invalid channel'' channel)
      else Inr (sort_key (\<lambda>l. (l_Scope l, l_ScopeKey l))
             (filter (\<lambda>l. Channel (l_Ref l) = channel) (leases (st_db s)))))"

end
