(* ===== verification/StartAdmission.thy ===== *)
theory StartAdmission
  imports Lifecycle Leases
begin

text \<open>
  The production admission of queued tickets (\<^verbatim>\<open>internal/store/lease.go\<close>, \<^verbatim>\<open>internal/store/resume_capacity.go\<close>):
  one transaction resolves the project's current configuration, reserves the capacity it allows,
  freezes it into the ticket, and records ownership, event, phase entry and bootstrap endpoint; a
  resumed ticket reacquires the capacity of the generation it was started with.
\<close>

section \<open>The admission a configuration allows\<close>

definition ExecutionEndpointPR :: string where
  "ExecutionEndpointPR = ''pr''"

record startAdmission =
  ad_requests :: "LeaseRequest list"
  ad_project :: "StoreProject option"

definition loadCurrentProjectConfiguration :: "string \<Rightarrow> string \<Rightarrow> db \<Rightarrow> store_error + StoreProject" where
  "loadCurrentProjectConfiguration channel pid d =
     (case project_at d channel pid of
        None \<Rightarrow> Inl ErrNotFound
      | Some r \<Rightarrow> if p_Lifecycle r \<noteq> ''active'' then Inl ErrProjectRemoved else Inr (joined_project d r))"

definition capacity_requests :: "TicketRef \<Rightarrow> int \<Rightarrow> int \<Rightarrow> LeaseRequest list" where
  "capacity_requests ref machine project =
     [\<lparr>lr_Scope = ''global'', lr_Resource = ''machine'', lr_Capacity = machine\<rparr>,
      \<lparr>lr_Scope = ''project'', lr_Resource = Project ref, lr_Capacity = project\<rparr>]"

definition projectStartLeaseRequests :: "StoreProject \<Rightarrow> TicketRef \<Rightarrow> db \<Rightarrow> store_error + LeaseRequest list" where
  "projectStartLeaseRequests project ref d =
     (if pj_ConfigGeneration project = 0 \<and> pj_ConfigDigest project = '''' \<and> pj_ConfigSnapshot project = '''' then
        (if count_where (\<lambda>c. pc_Channel c = pj_Channel project \<and> pc_Project c = pj_ID project) (project_configurations d) \<noteq> 0
           then Inl ErrProjectConflict
         else validateLeaseRequests (capacity_requests ref (m_MaxConcurrentTickets DefaultMachineLimits)
                (m_MaxConcurrentTickets DefaultMachineLimits)))
      else if pj_ConfigGeneration project = 0 \<or> pj_ConfigDigest project = '''' \<or> pj_ConfigSnapshot project = ''''
        then Inl ErrProjectConflict
      else case DecodeSnapshot (pj_ConfigSnapshot project) (pj_ConfigDigest project) of
        Inl e \<Rightarrow> Inl (ErrConfig e)
      | Inr effective \<Rightarrow>
          if \<not> matches_identity effective (pj_ID project) (pj_Path project) (pj_BaseRef project) then Inl ErrProjectConflict
          else validateLeaseRequests (capacity_requests ref (m_MaxConcurrentTickets (ef_Machine effective))
                 (c_MaxConcurrentTickets (ef_Project effective))))"

definition same_checked :: "StoreProject \<Rightarrow> StoreProject \<Rightarrow> bool" where
  "same_checked checked project \<longleftrightarrow>
     pj_Path checked = pj_Path project \<and> pj_BaseRef checked = pj_BaseRef project \<and>
     pj_ConfigGeneration checked = pj_ConfigGeneration project \<and> pj_ConfigDigest checked = pj_ConfigDigest project \<and>
     pj_ConfigSnapshot checked = pj_ConfigSnapshot project"

definition resolve_project_admission :: "TicketRef \<Rightarrow> StoreProject option \<Rightarrow> db \<Rightarrow> store_error + startAdmission" where
  "resolve_project_admission ref checked d =
     (case loadCurrentProjectConfiguration (Channel ref) (Project ref) d of
        Inl e \<Rightarrow> Inl e
      | Inr project \<Rightarrow>
        if (case checked of None \<Rightarrow> False | Some c \<Rightarrow> \<not> same_checked c project) then Inl ErrStartConfigurationChanged
        else case projectStartLeaseRequests project ref d of
          Inl e \<Rightarrow> Inl e
        | Inr requests \<Rightarrow>
            Inr \<lparr>ad_requests = requests, ad_project = (if pj_ConfigGeneration project = 0 then None else Some project)\<rparr>)"

section \<open>The start\<close>

definition project_active :: "TicketRef \<Rightarrow> db \<Rightarrow> bool" where
  "project_active ref d \<longleftrightarrow>
     count_where (\<lambda>p. p_Channel p = Channel ref \<and> p_ID p = Project ref \<and> p_Lifecycle p = ''active'') (projects d) = 1"

text \<open>The configuration a project presents is still its current one.\<close>

definition still_current :: "TicketRef \<Rightarrow> StoreProject \<Rightarrow> db \<Rightarrow> bool" where
  "still_current ref project d \<longleftrightarrow>
     (case project_at d (Channel ref) (Project ref) of
        None \<Rightarrow> False
      | Some r \<Rightarrow> p_Lifecycle r = ''active'' \<and> p_ConfigGeneration r = pj_ConfigGeneration project \<and>
          (case config_at d (Channel ref) (Project ref) (p_ConfigGeneration r) of
             None \<Rightarrow> False
           | Some c \<Rightarrow> pc_Digest c = pj_ConfigDigest project \<and> pc_Snapshot c = pj_ConfigSnapshot project))"

definition admitted_row :: "db \<Rightarrow> string \<Rightarrow> StoreProject option \<Rightarrow> ticket_row \<Rightarrow> ticket_row" where
  "admitted_row d workflowID admitted t =
     (case admitted of
        None \<Rightarrow> start_row d workflowID t
      | Some project \<Rightarrow> t\<lparr>t_State := ''planning'', t_Version := t_Version t + 1, t_WorkflowID := workflowID,
          t_ConfigGeneration := pj_ConfigGeneration project, t_ConfigDigest := pj_ConfigDigest project,
          t_ConfigSnapshot := pj_ConfigSnapshot project\<rparr>)"

definition admit_ticket :: "TicketRef \<Rightarrow> u64 \<Rightarrow> u64 \<Rightarrow> string \<Rightarrow> StoreProject option \<Rightarrow> db \<Rightarrow> store_error + db" where
  "admit_ticket ref expectedVersion runner workflowID admitted d =
     (let p = (\<lambda>t. t_Ref t = ref \<and> t_State t = ''queued'' \<and> t_Version t = expectedVersion \<and> t_RunnerEpoch t = runner \<and>
            (case admitted of None \<Rightarrow> project_active ref d | Some project \<Rightarrow> still_current ref project d)) in
      if count_where p (tickets d) \<noteq> 1 then Inl ErrStaleFence
      else if list_ex (\<lambda>u. t_Ref u \<noteq> ref \<and> Channel (t_Ref u) = Channel ref \<and> t_WorkflowID u = workflowID) (tickets d)
        then Inl (ErrConstraint ''tickets'')
      else Inr (d\<lparr>tickets := update_where p (admitted_row d workflowID admitted) (tickets d)\<rparr>))"

definition insert_owner :: "TicketRef \<Rightarrow> string \<Rightarrow> db \<Rightarrow> store_error + db" where
  "insert_owner ref workflowID d =
     (if owner_at d ref \<noteq> None \<or> workflow_taken (Channel ref) workflowID d then Inl (ErrConstraint ''workflow_owners'')
      else Inr (d\<lparr>workflow_owners := insert_row \<lparr>o_Ref = ref, o_WorkflowID = workflowID, o_State = ''owned''\<rparr> (workflow_owners d)\<rparr>))"

definition record_endpoint :: "TicketRef \<Rightarrow> string \<Rightarrow> u64 \<Rightarrow> db \<Rightarrow> store_error + db" where
  "record_endpoint ref endpoint version d =
     (if endpoint = '''' then Inr d
      else if row_at xp_Ref (ticket_execution_policies d) ref \<noteq> None \<or> endpoint \<noteq> ExecutionEndpointPR \<or> version \<le> 1
        then Inl (ErrConstraint ''ticket_execution_policies'')
      else Inr (d\<lparr>ticket_execution_policies := insert_row \<lparr>xp_Ref = ref, xp_Endpoint = endpoint, xp_StartVersion = version\<rparr>
        (ticket_execution_policies d)\<rparr>))"

text \<open>The branch of a queued ticket, in the order of the code.\<close>

definition admit_queued ::
  "TicketRef \<Rightarrow> u64 \<Rightarrow> Fence \<Rightarrow> string \<Rightarrow> int \<Rightarrow> (db \<Rightarrow> store_error + startAdmission) \<Rightarrow> string \<Rightarrow> ticket_row \<Rightarrow> db \<Rightarrow> store_error + db" where
  "admit_queued ref expectedVersion fence workflowID at resolve endpoint t d =
     (case resolve d of
        Inl e \<Rightarrow> Inl e
      | Inr admission \<Rightarrow>
        (case acquire_all ref (t_RunnerEpoch t) at (ad_requests admission) (leases d) of
           Inl e \<Rightarrow> Inl e
         | Inr (_, ls) \<Rightarrow>
           (case admit_ticket ref expectedVersion (t_RunnerEpoch t) workflowID (ad_project admission) (d\<lparr>leases := ls\<rparr>) of
              Inl e \<Rightarrow> Inl e
            | Inr d1 \<Rightarrow>
              (case insert_owner ref workflowID d1 of
                 Inl e \<Rightarrow> Inl e
               | Inr d2 \<Rightarrow>
                 (case record_start ref (t_Version t + 1) (t_RunnerEpoch t) fence ''operator_start'' StateQueued workflowID d2 of
                    Inl e \<Rightarrow> Inl e
                  | Inr d3 \<Rightarrow> record_endpoint ref endpoint (t_Version t + 1) d3)))))"

definition startWithOwnership_tx ::
  "Gate option \<Rightarrow> TicketRef \<Rightarrow> u64 \<Rightarrow> Fence \<Rightarrow> string \<Rightarrow> int \<Rightarrow> (db \<Rightarrow> store_error + startAdmission) \<Rightarrow> string \<Rightarrow> db \<Rightarrow>
     store_error + (bool \<times> db)" where
  "startWithOwnership_tx m ref expectedVersion fence workflowID at resolve endpoint d =
     (if \<not> project_active ref d then Inl ErrProjectRemoved
      else case ticket_at d ref of
        None \<Rightarrow> Inl ErrNotFound
      | Some t \<Rightarrow>
        (case assertTicketFence m d ref (t_Version t) fence of
           Some e \<Rightarrow> Inl e
         | None \<Rightarrow>
           if t_State t = StatePlanning then
             (if t_Version t \<noteq> expectedVersion \<or> t_WorkflowID t \<noteq> workflowID then Inl ErrStaleFence
              else if (case row_at xp_Ref (ticket_execution_policies d) ref of None \<Rightarrow> '''' | Some x \<Rightarrow> xp_Endpoint x) \<noteq> endpoint
                then Inl (ErrStartState '''')
              else Inr (True, d))
           else if t_State t \<noteq> StateQueued \<or> t_Version t \<noteq> expectedVersion then Inl (ErrStartState (t_State t))
           else case admit_queued ref expectedVersion fence workflowID at resolve endpoint t d of
             Inl e \<Rightarrow> Inl e
           | Inr d' \<Rightarrow> Inr (False, d')))"

definition startWithOwnership ::
  "Store \<Rightarrow> TicketRef \<Rightarrow> u64 \<Rightarrow> Fence \<Rightarrow> string \<Rightarrow> int \<Rightarrow> (db \<Rightarrow> store_error + startAdmission) \<Rightarrow> string \<Rightarrow>
     (store_error + (StoreTicket \<times> bool)) \<times> Store" where
  "startWithOwnership s ref expectedVersion fence workflowID at resolve endpoint =
     (case store_write s (startWithOwnership_tx (st_mutations s) ref expectedVersion fence workflowID at resolve endpoint) of
        (Inl e, s') \<Rightarrow> (Inl e, s')
      | (Inr observed, s') \<Rightarrow>
          (case Ticket_get s' ref of Inl e \<Rightarrow> (Inl e, s') | Inr t \<Rightarrow> (Inr (t, observed), s')))"

definition StartWithOwnership ::
  "Store \<Rightarrow> TicketRef \<Rightarrow> u64 \<Rightarrow> Fence \<Rightarrow> string \<Rightarrow> LeaseRequest list \<Rightarrow> int \<Rightarrow> (store_error + (StoreTicket \<times> bool)) \<times> Store" where
  "StartWithOwnership s ref expectedVersion fence workflowID requests at =
     (case TicketRef_Validate ref of
        Some e \<Rightarrow> (Inl (ErrRef e), s)
      | None \<Rightarrow>
        if workflowID = '''' \<or> LeaderEpoch fence = 0 \<or> RunnerEpoch fence = 0
          then (Inl (ErrMessage ''workflow identity and fence are required''), s)
        else case validateLeaseRequests requests of
          Inl e \<Rightarrow> (Inl e, s)
        | Inr copy \<Rightarrow>
            if at = 0 then (Inl (ErrMessage ''start time is required''), s)
            else startWithOwnership s ref expectedVersion fence workflowID at
              (\<lambda>_. Inr \<lparr>ad_requests = copy, ad_project = None\<rparr>) '''')"

definition startWithProjectOwnership ::
  "Store \<Rightarrow> TicketRef \<Rightarrow> u64 \<Rightarrow> Fence \<Rightarrow> string \<Rightarrow> int \<Rightarrow> StoreProject option \<Rightarrow> string \<Rightarrow>
     (store_error + (StoreTicket \<times> bool)) \<times> Store" where
  "startWithProjectOwnership s ref expectedVersion fence workflowID at checked endpoint =
     (case TicketRef_Validate ref of
        Some e \<Rightarrow> (Inl (ErrRef e), s)
      | None \<Rightarrow>
        if workflowID = '''' \<or> LeaderEpoch fence = 0 \<or> RunnerEpoch fence = 0
          then (Inl (ErrMessage ''workflow identity and fence are required''), s)
        else if at = 0 then (Inl (ErrMessage ''start time is required''), s)
        else startWithOwnership s ref expectedVersion fence workflowID at (resolve_project_admission ref checked) endpoint)"

definition StartWithProjectOwnership ::
  "Store \<Rightarrow> TicketRef \<Rightarrow> u64 \<Rightarrow> Fence \<Rightarrow> string \<Rightarrow> int \<Rightarrow> (store_error + (StoreTicket \<times> bool)) \<times> Store" where
  "StartWithProjectOwnership s ref expectedVersion fence workflowID at =
     startWithProjectOwnership s ref expectedVersion fence workflowID at None ''''"

definition StartWithProjectOwnershipUntil ::
  "Store \<Rightarrow> TicketRef \<Rightarrow> u64 \<Rightarrow> Fence \<Rightarrow> string \<Rightarrow> int \<Rightarrow> string \<Rightarrow> (store_error + (StoreTicket \<times> bool)) \<times> Store" where
  "StartWithProjectOwnershipUntil s ref expectedVersion fence workflowID at endpoint =
     (if endpoint \<noteq> '''' \<and> endpoint \<noteq> ExecutionEndpointPR then (Inl (ErrStartState ''''), s)
      else startWithProjectOwnership s ref expectedVersion fence workflowID at None endpoint)"

definition StartWithCheckedProjectOwnership ::
  "Store \<Rightarrow> TicketRef \<Rightarrow> u64 \<Rightarrow> Fence \<Rightarrow> string \<Rightarrow> int \<Rightarrow> StoreProject \<Rightarrow> (store_error + (StoreTicket \<times> bool)) \<times> Store" where
  "StartWithCheckedProjectOwnership s ref expectedVersion fence workflowID at checked =
     (if pj_Channel checked \<noteq> Channel ref \<or> pj_ID checked \<noteq> Project ref then (Inl ErrStartConfigurationChanged, s)
      else startWithProjectOwnership s ref expectedVersion fence workflowID at (Some checked) '''')"

definition StartWithCheckedProjectOwnershipUntil ::
  "Store \<Rightarrow> TicketRef \<Rightarrow> u64 \<Rightarrow> Fence \<Rightarrow> string \<Rightarrow> int \<Rightarrow> StoreProject \<Rightarrow> string \<Rightarrow>
     (store_error + (StoreTicket \<times> bool)) \<times> Store" where
  "StartWithCheckedProjectOwnershipUntil s ref expectedVersion fence workflowID at checked endpoint =
     (if pj_Channel checked \<noteq> Channel ref \<or> pj_ID checked \<noteq> Project ref then (Inl ErrStartConfigurationChanged, s)
      else if endpoint \<noteq> '''' \<and> endpoint \<noteq> ExecutionEndpointPR then (Inl (ErrStartState ''''), s)
      else startWithProjectOwnership s ref expectedVersion fence workflowID at (Some checked) endpoint)"

section \<open>The advisory preflight\<close>

definition slot_free :: "TicketRef \<Rightarrow> LeaseRequest \<Rightarrow> lease_row list \<Rightarrow> bool" where
  "slot_free ref request ls \<longleftrightarrow>
     list_ex (\<lambda>slot. row_at lease_pk ls (Channel ref, lr_Scope request, leaseKey (lr_Resource request) slot) = None)
       [0..<nat (lr_Capacity request)]"

definition StartPreflight :: "Store \<Rightarrow> TicketRef \<Rightarrow> store_error + (StoreProject \<times> bool)" where
  "StartPreflight s ref =
     (case TicketRef_Validate ref of
        Some e \<Rightarrow> Inl (ErrRef e)
      | None \<Rightarrow>
        (case loadCurrentProjectConfiguration (Channel ref) (Project ref) (st_db s) of
           Inl e \<Rightarrow> Inl e
         | Inr project \<Rightarrow>
           (case projectStartLeaseRequests project ref (st_db s) of
              Inl e \<Rightarrow> Inl e
            | Inr requests \<Rightarrow> Inr (project, list_all (\<lambda>r. slot_free ref r (leases (st_db s))) requests))))"

section \<open>The capacity of a resumed ticket\<close>

definition owned_leases :: "TicketRef \<Rightarrow> LeaseRequest \<Rightarrow> lease_row list \<Rightarrow> lease_row list" where
  "owned_leases ref request ls = filter (\<lambda>l. l_Ref l = ref \<and> l_Scope l = lr_Scope request) ls"

definition lease_matches :: "u64 \<Rightarrow> LeaseRequest \<Rightarrow> lease_row \<Rightarrow> bool" where
  "lease_matches runner request l \<longleftrightarrow>
     list_ex (\<lambda>slot. l_ScopeKey l = leaseKey (lr_Resource request) slot) [0..<nat (lr_Capacity request)] \<and> l_RunnerEpoch l = runner"

fun reacquire_all :: "TicketRef \<Rightarrow> u64 \<Rightarrow> int \<Rightarrow> LeaseRequest list \<Rightarrow> lease_row list \<Rightarrow> store_error + lease_row list" where
  "reacquire_all ref runner now [] ls = Inr ls"
| "reacquire_all ref runner now (request # requests) ls =
     (let owned = owned_leases ref request ls in
      if \<not> list_all (lease_matches runner request) owned \<or> 1 < length owned then Inl ErrStaleFence
      else if length owned = 1 then reacquire_all ref runner now requests ls
      else case acquireLease ref runner request now ls of
        (None, _) \<Rightarrow> Inl (ErrLeaseCapacity (lr_Scope request) (lr_Resource request) (lr_Capacity request))
      | (Some _, ls') \<Rightarrow> reacquire_all ref runner now requests ls')"

text \<open>The configuration a started ticket carries, checked against the generation it names.\<close>

definition frozen_project :: "TicketRef \<Rightarrow> ticket_row \<Rightarrow> project_row \<Rightarrow> db \<Rightarrow> store_error + StoreProject" where
  "frozen_project ref t r d =
     (let project = \<lparr>pj_Channel = Channel ref, pj_ID = Project ref, pj_Path = p_Path r, pj_BaseRef = p_BaseRef r,
            pj_ConfigGeneration = t_ConfigGeneration t, pj_ConfigDigest = t_ConfigDigest t,
            pj_ConfigSnapshot = t_ConfigSnapshot t, pj_Lifecycle = '''', pj_RegistrationGeneration = 0\<rparr> in
      if t_ConfigGeneration t = 0 then Inr project
      else case config_at d (Channel ref) (Project ref) (t_ConfigGeneration t) of
        None \<Rightarrow> Inl ErrProjectConflict
      | Some c \<Rightarrow>
          if pc_Digest c \<noteq> t_ConfigDigest t \<or> pc_Snapshot c \<noteq> t_ConfigSnapshot t then Inl ErrProjectConflict
          else case DecodeSnapshot (pc_Snapshot c) (pc_Digest c) of
            Inl _ \<Rightarrow> Inl ErrProjectConflict
          | Inr frozen \<Rightarrow>
              if c_Name (ef_Project frozen) \<noteq> Project ref \<or> c_Repository (ef_Project frozen) \<noteq> p_Path r then Inl ErrProjectConflict
              else Inr (project\<lparr>pj_BaseRef := c_BaseBranch (ef_Project frozen)\<rparr>))"

definition reacquireTicketCapacity :: "TicketRef \<Rightarrow> u64 \<Rightarrow> int \<Rightarrow> db \<Rightarrow> store_error + db" where
  "reacquireTicketCapacity ref runner now d =
     (case (ticket_at d ref, project_at d (Channel ref) (Project ref)) of
        (Some t, Some r) \<Rightarrow>
          (case frozen_project ref t r d of
             Inl e \<Rightarrow> Inl e
           | Inr project \<Rightarrow>
             (case projectStartLeaseRequests project ref d of
                Inl e \<Rightarrow> Inl e
              | Inr requests \<Rightarrow>
                (case reacquire_all ref runner now requests (leases d) of
                   Inl e \<Rightarrow> Inl e | Inr ls \<Rightarrow> Inr (d\<lparr>leases := ls\<rparr>))))
      | _ \<Rightarrow> Inl ErrNoRows)"

end
