(* ===== verification/RuntimeControl.thy ===== *)
theory RuntimeControl
  imports MutationGate Leases
begin

text \<open>
  Runtime control (\<^verbatim>\<open>internal/store/runtime_control.go\<close>, \<^verbatim>\<open>internal/store/control.go\<close>): every controlled ticket has
  a durable row that is sealed, armed or open, mirrored by a latch in the mutation gate. An operator
  control seals the row while it revokes the runner; a rearm proof and its one-use capability arm it; the
  scheduler's first matching begin opens it; suspending and sealing close it again.

  Capabilities are Go pointers with a mutex and closures over the Store; here they are records that
  the operations return updated. A nil capability is refused by every operation with
  \<open>ErrStaleFence\<close> and is left out.
\<close>

section \<open>The durable row\<close>

definition identity :: "u64 \<Rightarrow> Fence \<Rightarrow> mutationRevocation" where
  "identity version fence =
     \<lparr>mr_version = version, mr_leader = LeaderEpoch fence, mr_runner = RunnerEpoch fence\<rparr>"

definition runtimeControlFrom :: "db \<Rightarrow> TicketRef \<Rightarrow> store_error + control_row" where
  "runtimeControlFrom d ref = (case control_at d ref of None \<Rightarrow> Inl ErrStaleFence | Some c \<Rightarrow> Inr c)"

definition advanceOpenRuntimeAuthority :: "TicketRef \<Rightarrow> u64 \<Rightarrow> Fence \<Rightarrow> db \<Rightarrow> store_error + db" where
  "advanceOpenRuntimeAuthority ref currentVersion fence d =
     (if TicketRef_Validate ref \<noteq> None \<or> currentVersion = 0 \<or> currentVersion = - 1 \<or>
         LeaderEpoch fence = 0 \<or> RunnerEpoch fence = 0 \<or> ClaimEpoch fence \<noteq> 0
      then Inl ErrStaleFence
      else case runtimeControlFrom d ref of
        Inl _ \<Rightarrow> Inr d
      | Inr control \<Rightarrow>
        if c_State control \<noteq> ''open'' \<or> mr_version (c_Authority control) = 0 \<or>
           currentVersion < mr_version (c_Authority control) \<or>
           mr_leader (c_Authority control) \<noteq> LeaderEpoch fence \<or>
           mr_runner (c_Authority control) \<noteq> RunnerEpoch fence
        then Inl ErrStaleFence
        else
          (let p = (\<lambda>c. c_Ref c = ref \<and> c_State c = ''open'' \<and> c_Generation c = c_Generation control \<and>
                   mr_version (c_Authority c) = mr_version (c_Authority control) \<and>
                   mr_leader (c_Authority c) = LeaderEpoch fence \<and>
                   mr_runner (c_Authority c) = RunnerEpoch fence) in
           if count_where p (runtime_ticket_controls d) \<noteq> 1 then Inl ErrStaleFence
           else Inr (d\<lparr>runtime_ticket_controls := update_where p
                  (\<lambda>c. c\<lparr>c_Authority := (c_Authority c)\<lparr>mr_version := currentVersion + 1\<rparr>\<rparr>)
                  (runtime_ticket_controls d)\<rparr>)))"

definition latch_all :: "control_row list \<Rightarrow> Gate \<Rightarrow> Gate" where
  "latch_all rows g = fold (\<lambda>c. gate_latch (c_Ref c) (c_Authority c)) rows g"

definition restoreRuntimeControls :: "Store \<Rightarrow> (store_error + unit) \<times> Store" where
  "restoreRuntimeControls s =
     (if st_mutations s = None then (Inl ErrStaleFence, s)
      else if st_readOnly s then (Inl ErrReadOnly, s)
      else
        (let rows = update_where (\<lambda>c. c_State c = ''armed'' \<or> c_State c = ''open'')
               (\<lambda>c. c\<lparr>c_State := ''sealed''\<rparr>) (runtime_ticket_controls (st_db s)) in
         (Inr (), update_gate (latch_all (filter (\<lambda>c. c_State c = ''sealed'') rows))
            (s\<lparr>st_db := st_db s\<lparr>runtime_ticket_controls := rows\<rparr>\<rparr>))))"

text \<open>
  The upsert shared by the two seals. The table's \<open>CHECK\<close> constraints reject a zero in any counter.
\<close>

definition positive :: "mutationRevocation \<Rightarrow> bool" where
  "positive v \<longleftrightarrow> mr_version v \<noteq> 0 \<and> mr_leader v \<noteq> 0 \<and> mr_runner v \<noteq> 0"

definition seal_row :: "mutationRevocation \<Rightarrow> mutationRevocation \<Rightarrow> control_row \<Rightarrow> control_row" where
  "seal_row stop authority c = c\<lparr>c_State := ''sealed'', c_Generation := c_Generation c + 1, c_Stop := stop,
     c_Authority := authority\<rparr>"

definition upsert_sealed ::
  "TicketRef \<Rightarrow> mutationRevocation \<Rightarrow> mutationRevocation \<Rightarrow> db \<Rightarrow> store_error + db" where
  "upsert_sealed ref stop authority d =
     (if \<not> positive stop \<or> \<not> positive authority \<or>
         (case control_at d ref of None \<Rightarrow> False | Some c \<Rightarrow> c_Generation c + 1 = 0)
      then Inl (ErrConstraint ''runtime_ticket_controls'')
      else case control_at d ref of
        None \<Rightarrow> Inr (d\<lparr>runtime_ticket_controls := insert_row
          \<lparr>c_Ref = ref, c_State = ''sealed'', c_Generation = 1, c_Stop = stop, c_Authority = authority\<rparr>
          (runtime_ticket_controls d)\<rparr>)
      | Some _ \<Rightarrow> Inr (d\<lparr>runtime_ticket_controls :=
          update_where (\<lambda>c. c_Ref c = ref) (seal_row stop authority) (runtime_ticket_controls d)\<rparr>))"

definition sealRuntimeControl :: "TicketRef \<Rightarrow> mutationRevocation \<Rightarrow> db \<Rightarrow> store_error + db" where
  "sealRuntimeControl ref value d = upsert_sealed ref value value d"

definition sealSemanticMergeRetryControl ::
  "TicketRef \<Rightarrow> mutationRevocation \<Rightarrow> mutationRevocation \<Rightarrow> db \<Rightarrow> store_error + db" where
  "sealSemanticMergeRetryControl ref stop authority d =
     (if TicketRef_Validate ref \<noteq> None \<or> mr_version stop = 0 \<or> mr_runner stop = 0 \<or> mr_leader stop = 0 \<or>
         mr_version stop = - 1 \<or> mr_version authority \<noteq> mr_version stop + 1 \<or>
         mr_runner authority \<noteq> mr_runner stop \<or> mr_leader authority < mr_leader stop
      then Inl ErrEvidenceConflict
      else upsert_sealed ref stop authority d)"

section \<open>Sealing and reading\<close>

definition SealRuntimeControl_tx :: "TicketRef \<Rightarrow> db \<Rightarrow> store_error + (mutationRevocation \<times> db)" where
  "SealRuntimeControl_tx ref d =
     (case current_identity d ref of
        None \<Rightarrow> Inl ErrNotFound
      | Some value \<Rightarrow>
          (case sealRuntimeControl ref value d of Inl e \<Rightarrow> Inl e | Inr d' \<Rightarrow> Inr (value, d')))"

definition SealRuntimeControl :: "Store \<Rightarrow> TicketRef \<Rightarrow> (store_error + unit) \<times> Store" where
  "SealRuntimeControl s ref =
     (if st_mutations s = None \<or> TicketRef_Validate ref \<noteq> None then (Inl ErrStaleFence, s)
      else with_gate ErrStaleFence s (\<lambda>g s.
        case store_write s (SealRuntimeControl_tx ref) of
          (Inl e, s') \<Rightarrow> (Inl e, s')
        | (Inr sealed, s') \<Rightarrow> (Inr (), update_gate (gate_latch ref sealed) s')))"

definition StoppedRuntimeTicket :: "Store \<Rightarrow> TicketRef \<Rightarrow> store_error + (u64 \<times> u64)" where
  "StoppedRuntimeTicket s ref =
     (if TicketRef_Validate ref \<noteq> None then Inl ErrStaleFence
      else case control_at (st_db s) ref of
        None \<Rightarrow> Inl ErrStaleFence
      | Some c \<Rightarrow>
        if c_State c = ''sealed'' then Inr (mr_version (c_Stop c), mr_runner (c_Stop c)) else Inl ErrStaleFence)"

definition prePublicationState :: "string \<Rightarrow> bool" where
  "prePublicationState state \<longleftrightarrow> state = StatePlanning \<or> state = StateVerifying \<or> state = StateBuilding"

definition postPublicationState :: "string \<Rightarrow> bool" where
  "postPublicationState state \<longleftrightarrow> state = StatePublishing \<or> state = StateWaitingCI \<or> state = StateReviewing \<or>
     state = StateWaitingApproval \<or> state = StateWaitingManualMerge \<or> state = StateMerging \<or>
     state = StateReconciling"

definition runtimeRearmableState :: "string \<Rightarrow> bool" where
  "runtimeRearmableState state \<longleftrightarrow> prePublicationState state \<or> postPublicationState state"

definition RuntimeRearmNeeded :: "Store \<Rightarrow> TicketRef \<Rightarrow> store_error + bool" where
  "RuntimeRearmNeeded s ref =
     (if TicketRef_Validate ref \<noteq> None then Inl ErrStaleFence
      else case control_at (st_db s) ref of
        None \<Rightarrow> Inr False
      | Some control \<Rightarrow>
        (case ticket_at (st_db s) ref of
           None \<Rightarrow> Inl ErrNotFound
         | Some t \<Rightarrow>
           if \<not> runtimeRearmableState (t_State t) \<or>
              c_State control \<noteq> ''sealed'' \<and> c_State control \<noteq> ''armed'' \<and> c_State control \<noteq> ''open''
           then Inl ErrStaleFence
           else Inr (c_State control = ''sealed'')))"

definition RuntimeAdmissionReady :: "Store \<Rightarrow> TicketRef \<Rightarrow> u64 \<Rightarrow> Fence \<Rightarrow> (store_error + bool) \<times> Store" where
  "RuntimeAdmissionReady s ref version fence =
     (if st_mutations s = None \<or> TicketRef_Validate ref \<noteq> None \<or> version = 0 \<or> LeaderEpoch fence = 0 \<or>
         RunnerEpoch fence = 0 \<or> ClaimEpoch fence \<noteq> 0
      then (Inl ErrStaleFence, s)
      else with_gate ErrStaleFence s (\<lambda>g s.
        if gate_controls g ref \<noteq> None then (Inr False, s)
        else case (ticket_at (st_db s) ref, leader_at (st_db s) (Channel ref)) of
          (Some t, Some leader) \<Rightarrow>
            if \<not> runtimeRearmableState (t_State t) \<or> t_Version t \<noteq> version \<or>
               t_RunnerEpoch t \<noteq> RunnerEpoch fence \<or> leader \<noteq> LeaderEpoch fence
            then (Inl ErrStaleFence, s)
            else (case control_at (st_db s) ref of
                None \<Rightarrow> (Inr True, s)
              | Some c \<Rightarrow>
                  if c_State c \<noteq> ''open'' \<or> \<not> positive (c_Authority c) then (Inr False, s)
                  else (Inr (mr_version (c_Authority c) \<le> version \<and>
                         mr_leader (c_Authority c) = LeaderEpoch fence \<and>
                         mr_runner (c_Authority c) = RunnerEpoch fence), s))
        | _ \<Rightarrow> (Inl ErrNotFound, s)))"

section \<open>The linearized control proof\<close>

record TicketControlProof =
  cp_Ref :: TicketRef
  cp_State :: string
  cp_ResumeState :: string
  cp_Version :: u64
  cp_RunnerEpoch :: u64
  cp_Fence :: Fence
  cp_ProviderWriters :: nat
  cp_RepositoryCommandWriters :: nat
  cp_GitMutationWriters :: nat
  cp_UnreconciledEffects :: nat
  cp_PublicationOrMergeEffects :: nat
  cp_MergeIntents :: nat
  cp_OutstandingPublicationOrMergeEffects :: nat
  cp_OutstandingMergeIntents :: nat

definition local_effect_kind :: "string \<Rightarrow> bool" where
  "local_effect_kind kind \<longleftrightarrow>
     kind = ''git/create-worktree'' \<or> kind = ''git/commit'' \<or> kind = ''repository_command''"

definition outstanding_state :: "string \<Rightarrow> bool" where
  "outstanding_state state \<longleftrightarrow> state = EffectPlanned \<or> state = EffectExecuting \<or> state = EffectUncertain"

definition Drained :: "TicketControlProof \<Rightarrow> bool" where
  "Drained p \<longleftrightarrow> cp_ProviderWriters p = 0 \<and> cp_RepositoryCommandWriters p = 0 \<and> cp_GitMutationWriters p = 0 \<and>
     cp_UnreconciledEffects p = 0 \<and> cp_OutstandingPublicationOrMergeEffects p = 0 \<and> cp_OutstandingMergeIntents p = 0"

definition StrictlyPrePublication :: "TicketControlProof \<Rightarrow> bool" where
  "StrictlyPrePublication p =
     (if cp_PublicationOrMergeEffects p \<noteq> 0 \<or> cp_MergeIntents p \<noteq> 0 then False
      else if cp_State p = StateQueued then True
      else if cp_State p = StateStopping \<or> cp_State p = StateCancelling \<or> cp_State p = StatePaused \<or>
              cp_State p = StateBlocked then prePublicationState (cp_ResumeState p)
      else prePublicationState (cp_State p))"

definition control_counts :: "TicketRef \<Rightarrow> db \<Rightarrow> TicketControlProof \<Rightarrow> TicketControlProof" where
  "control_counts ref d p = p\<lparr>
     cp_ProviderWriters := live_writers ref (provider_attempts d),
     cp_RepositoryCommandWriters := live_writers ref (repository_command_leases d),
     cp_GitMutationWriters := live_writers ref (git_mutation_leases d),
     cp_UnreconciledEffects := unreconciled_effects ref (effects d),
     cp_PublicationOrMergeEffects :=
       count_where (\<lambda>e. e_Ref e = ref \<and> \<not> local_effect_kind (e_Kind e)) (effects d),
     cp_MergeIntents := count_where (\<lambda>m. mn_Ref m = ref) (merge_intents d),
     cp_OutstandingPublicationOrMergeEffects :=
       count_where (\<lambda>e. e_Ref e = ref \<and> \<not> local_effect_kind (e_Kind e) \<and> outstanding_state (e_State e)) (effects d),
     cp_OutstandingMergeIntents :=
       count_where (\<lambda>m. mn_Ref m = ref \<and>
         (case effect_at d (mn_SemanticKey m) of None \<Rightarrow> False | Some e \<Rightarrow> outstanding_state (e_State e)))
         (merge_intents d)\<rparr>"

text \<open>
  \<open>controlProof\<close> reads the ticket and its leader, runs the caller's first hook, counts every writer and
  effect, and runs the second hook, all in one transaction.
\<close>

definition controlProof_tx ::
  "TicketRef \<Rightarrow> (TicketControlProof \<Rightarrow> u64 \<Rightarrow> db \<Rightarrow> store_error + db) \<Rightarrow>
     (TicketControlProof \<Rightarrow> u64 \<Rightarrow> db \<Rightarrow> store_error option) \<Rightarrow> db \<Rightarrow>
     store_error + ((TicketControlProof \<times> u64) \<times> db)" where
  "controlProof_tx ref before after d =
     (case ticket_at d ref of
        None \<Rightarrow> Inl ErrNotFound
      | Some t \<Rightarrow>
        (case leader_at d (Channel ref) of
           None \<Rightarrow> Inl ErrNoRows
         | Some leader \<Rightarrow>
           (let proof0 = \<lparr>cp_Ref = ref, cp_State = t_State t,
                  cp_ResumeState = (case t_ResumeState t of None \<Rightarrow> '''' | Some r \<Rightarrow> r),
                  cp_Version = t_Version t, cp_RunnerEpoch = t_RunnerEpoch t,
                  cp_Fence = \<lparr>LeaderEpoch = leader, RunnerEpoch = t_RunnerEpoch t, ClaimEpoch = 0\<rparr>,
                  cp_ProviderWriters = 0, cp_RepositoryCommandWriters = 0, cp_GitMutationWriters = 0,
                  cp_UnreconciledEffects = 0, cp_PublicationOrMergeEffects = 0, cp_MergeIntents = 0,
                  cp_OutstandingPublicationOrMergeEffects = 0, cp_OutstandingMergeIntents = 0\<rparr> in
            case before proof0 leader d of
              Inl e \<Rightarrow> Inl e
            | Inr d' \<Rightarrow>
              (let proof1 = control_counts ref d' proof0 in
               case after proof1 leader d' of
                 Some e \<Rightarrow> Inl e
               | None \<Rightarrow> Inr ((proof1, leader), d')))))"

definition proof_identity :: "TicketControlProof \<Rightarrow> u64 \<Rightarrow> mutationRevocation" where
  "proof_identity p leader = \<lparr>mr_version = cp_Version p, mr_leader = leader, mr_runner = cp_RunnerEpoch p\<rparr>"

definition ControlProof :: "Store \<Rightarrow> TicketRef \<Rightarrow> (store_error + TicketControlProof) \<times> Store" where
  "ControlProof s ref =
     (case TicketRef_Validate ref of
        Some e \<Rightarrow> (Inl (ErrRef e), s)
      | None \<Rightarrow> with_gate ErrStaleFence s (\<lambda>g s.
          case store_write s (controlProof_tx ref
                 (\<lambda>p leader d. sealRuntimeControl ref (proof_identity p leader) d) (\<lambda>_ _ _. None)) of
            (Inl e, s') \<Rightarrow> (Inl e, s')
          | (Inr (p, leader), s') \<Rightarrow>
              (Inr p, update_gate (gate_latch ref (proof_identity p leader)) s')))"

section \<open>Rearming\<close>

record RuntimeRearmCapability =
  rc_ref :: TicketRef
  rc_version :: u64
  rc_fence :: Fence
  rc_issued :: bool
  rc_activating :: bool

definition RearmProof ::
  "Store \<Rightarrow> TicketRef \<Rightarrow> TicketRef \<Rightarrow> u64 \<Rightarrow> u64 \<Rightarrow> (store_error + RuntimeRearmCapability) \<times> Store" where
  "RearmProof s ref stoppedRef stoppedVersion stoppedRunner =
     (if TicketRef_Validate ref \<noteq> None \<or> stoppedRef \<noteq> ref \<or> stoppedVersion = 0 \<or> stoppedRunner = 0
      then (Inl ErrStaleFence, s)
      else with_gate ErrStaleFence s (\<lambda>g s.
        case store_write s (controlProof_tx ref
            (\<lambda>p leader d.
               case runtimeControlFrom d ref of
                 Inl _ \<Rightarrow> Inl ErrStaleFence
               | Inr control \<Rightarrow>
                 if c_State control \<noteq> ''sealed'' \<or> mr_version (c_Stop control) \<noteq> stoppedVersion \<or>
                    mr_runner (c_Stop control) \<noteq> stoppedRunner
                 then Inl ErrStaleFence
                 else if gate_controls g ref = None \<or>
                    cp_Version p \<le> stoppedVersion \<and> cp_RunnerEpoch p = stoppedRunner
                 then Inl ErrStaleFence
                 else Inr d)
            (\<lambda>p leader d.
               if \<not> Drained p \<or> \<not> StrictlyPrePublication p \<or> \<not> prePublicationState (cp_State p)
               then Some ErrControlNotDrained else None)) of
          (Inl e, s') \<Rightarrow> (Inl e, s')
        | (Inr (p, leader), s') \<Rightarrow>
            (Inr \<lparr>rc_ref = ref, rc_version = cp_Version p, rc_fence = cp_Fence p, rc_issued = True,
                  rc_activating = False\<rparr>,
             update_gate (gate_latch ref (proof_identity p leader)) s')))"

text \<open>\<open>ad_live\<close> says that the closures of the admission have not been discarded.\<close>

record RuntimeAdmissionCapability =
  ad_ref :: TicketRef
  ad_version :: u64
  ad_fence :: Fence
  ad_issued :: bool
  ad_consumed :: bool
  ad_opening :: bool
  ad_opened :: bool
  ad_live :: bool

definition ConsumeRuntimeAdmission ::
  "RuntimeAdmissionCapability \<Rightarrow> (TicketRef \<times> u64 \<times> Fence) option \<times> RuntimeAdmissionCapability" where
  "ConsumeRuntimeAdmission c =
     (if \<not> ad_issued c then (None, c)
      else (Some (ad_ref c, ad_version c, ad_fence c), c\<lparr>ad_issued := False, ad_consumed := True\<rparr>))"

definition openRuntimeAdmission :: "Store \<Rightarrow> TicketRef \<Rightarrow> u64 \<Rightarrow> Fence \<Rightarrow> (store_error + unit) \<times> Store" where
  "openRuntimeAdmission s ref version fence =
     with_gate ErrStaleFence s (\<lambda>g s.
       if gate_controls g ref \<noteq> Some (identity version fence) then (Inl ErrStaleFence, s)
       else case store_write s (\<lambda>d.
         case (ticket_at d ref, leader_at d (Channel ref)) of
           (Some t, Some leader) \<Rightarrow>
             if \<not> runtimeRearmableState (t_State t) \<or> t_Version t \<noteq> version \<or>
                t_RunnerEpoch t \<noteq> RunnerEpoch fence \<or> leader \<noteq> LeaderEpoch fence
             then Inl ErrStaleFence
             else
               (let p = (\<lambda>c. c_Ref c = ref \<and> c_State c = ''armed'' \<and> c_Authority c = identity version fence) in
                if count_where p (runtime_ticket_controls d) \<noteq> 1 then Inl ErrStaleFence
                else Inr ((), d\<lparr>runtime_ticket_controls :=
                  update_where p (\<lambda>c. c\<lparr>c_State := ''open''\<rparr>) (runtime_ticket_controls d)\<rparr>))
         | _ \<Rightarrow> Inl ErrNotFound) of
         (Inl e, s') \<Rightarrow> (Inl e, s')
       | (Inr _, s') \<Rightarrow>
         (case st_mutations s' of
            None \<Rightarrow> (Inl ErrStaleFence, s')
          | Some g' \<Rightarrow>
            (case openControl ref (identity version fence) g' of
               (False, _) \<Rightarrow> (Inl ErrStaleFence, s')
             | (True, g'') \<Rightarrow> (Inr (), s'\<lparr>st_mutations := Some g''\<rparr>))))"

definition suspendRuntimeAdmission :: "Store \<Rightarrow> TicketRef \<Rightarrow> u64 \<Rightarrow> Fence \<Rightarrow> (store_error + bool) \<times> Store" where
  "suspendRuntimeAdmission s ref version fence =
     with_gate ErrStaleFence s (\<lambda>g s.
       case store_write s (\<lambda>d.
         case runtimeControlFrom d ref of
           Inl e \<Rightarrow> Inl e
         | Inr control \<Rightarrow>
           if c_Authority control \<noteq> identity version fence then Inl ErrStaleFence
           else if c_State control = ''sealed'' then Inr (False, d)
           else if c_State control \<noteq> ''open'' then Inl ErrStaleFence
           else
             (let p = (\<lambda>c. c_Ref c = ref \<and> c_State c = ''open'' \<and> c_Authority c = identity version fence) in
              if count_where p (runtime_ticket_controls d) \<noteq> 1 then Inl ErrStaleFence
              else Inr (True, d\<lparr>runtime_ticket_controls :=
                update_where p (\<lambda>c. c\<lparr>c_State := ''armed''\<rparr>) (runtime_ticket_controls d)\<rparr>))) of
         (Inl e, s') \<Rightarrow> (Inl e, s')
       | (Inr retryable, s') \<Rightarrow> (Inr retryable, update_gate (gate_latch ref (identity version fence)) s'))"

text \<open>
  \<open>sealRuntimeAdmission\<close> consults \<open>reconcilingRecoveryEndpoint\<close>, which reconstructs the endpoint of a
  reconciling ticket from its evidence rows; that reader is an argument here.
\<close>

definition sealRuntimeAdmission_tx ::
  "(db \<Rightarrow> TicketRef \<Rightarrow> store_error + mutationRevocation) \<Rightarrow> TicketRef \<Rightarrow> u64 \<Rightarrow> Fence \<Rightarrow> db \<Rightarrow>
     store_error + (mutationRevocation \<times> db)" where
  "sealRuntimeAdmission_tx reconcilingRecoveryEndpoint ref version fence d =
     (let expected = identity version fence in
      case runtimeControlFrom d ref of
        Inl e \<Rightarrow> Inl e
      | Inr control \<Rightarrow>
        (let a = c_Authority control in
         if a \<noteq> expected then
           (case (ticket_at d ref, current_identity d ref) of
              (Some t, Some now) \<Rightarrow>
                if c_State control = ''sealed'' \<and> (t_State t = StateStopping \<or> t_State t = StateCancelling) \<and>
                   mr_version a = mr_version expected + 1 \<and> mr_runner a = mr_runner expected + 1 \<and>
                   mr_leader a = mr_leader expected \<and> now = a
                then Inr (a, d)
                else if c_State control = ''sealed'' \<and> c_Stop control = a \<and> t_State t = StateReconciling \<and>
                   mr_version expected < - 1 \<and> mr_version a = mr_version expected + 1 \<and>
                   mr_runner a = mr_runner expected \<and> mr_leader a = mr_leader expected \<and> now = a \<and>
                   reconcilingRecoveryEndpoint d ref = Inr now
                then Inr (a, d)
                else Inl ErrStaleFence
            | _ \<Rightarrow> Inl ErrNotFound)
         else if c_State control = ''sealed'' then Inr (expected, d)
         else if c_State control \<noteq> ''open'' \<and> c_State control \<noteq> ''armed'' then Inl ErrStaleFence
         else
           (let p = (\<lambda>c. c_Ref c = ref \<and> (c_State c = ''armed'' \<or> c_State c = ''open'') \<and>
                    c_Generation c = c_Generation control \<and> c_Authority c = expected) in
            if count_where p (runtime_ticket_controls d) \<noteq> 1 then Inl ErrStaleFence
            else Inr (expected, d\<lparr>runtime_ticket_controls :=
              update_where p (\<lambda>c. c\<lparr>c_State := ''sealed''\<rparr>) (runtime_ticket_controls d)\<rparr>))))"

definition sealRuntimeAdmission ::
  "(db \<Rightarrow> TicketRef \<Rightarrow> store_error + mutationRevocation) \<Rightarrow> Store \<Rightarrow> TicketRef \<Rightarrow> u64 \<Rightarrow> Fence \<Rightarrow>
     (store_error + unit) \<times> Store" where
  "sealRuntimeAdmission rre s ref version fence =
     with_gate ErrStaleFence s (\<lambda>g s.
       case store_write s (sealRuntimeAdmission_tx rre ref version fence) of
         (Inl e, s') \<Rightarrow> (Inl e, s')
       | (Inr latched, s') \<Rightarrow> (Inr (), update_gate (gate_latch ref latched) s'))"
section \<open>Capabilities in use\<close>

definition OpenStoreAdmission ::
  "Store \<Rightarrow> RuntimeAdmissionCapability \<Rightarrow> (store_error + unit) \<times> Store \<times> RuntimeAdmissionCapability" where
  "OpenStoreAdmission s c =
     (if \<not> ad_consumed c \<or> ad_opened c \<or> ad_opening c \<or> \<not> ad_live c then (Inl ErrStaleFence, s, c)
      else case openRuntimeAdmission s (ad_ref c) (ad_version c) (ad_fence c) of
        (Inl e, s') \<Rightarrow> (Inl e, s', c)
      | (Inr _, s') \<Rightarrow> (Inr (), s', c\<lparr>ad_opened := True\<rparr>))"

definition SuspendStoreAdmission ::
  "Store \<Rightarrow> RuntimeAdmissionCapability \<Rightarrow> (store_error + bool) \<times> Store \<times> RuntimeAdmissionCapability" where
  "SuspendStoreAdmission s c =
     (if \<not> ad_consumed c \<or> \<not> ad_opened c \<or> ad_opening c \<or> \<not> ad_live c then (Inl ErrStaleFence, s, c)
      else case suspendRuntimeAdmission s (ad_ref c) (ad_version c) (ad_fence c) of
        (Inl e, s') \<Rightarrow> (Inl e, s', c)
      | (Inr retryable, s') \<Rightarrow> (Inr retryable, s', c\<lparr>ad_opened := False\<rparr>))"

definition SealStoreAdmission ::
  "(db \<Rightarrow> TicketRef \<Rightarrow> store_error + mutationRevocation) \<Rightarrow> Store \<Rightarrow> RuntimeAdmissionCapability \<Rightarrow>
     (store_error + unit) \<times> Store \<times> RuntimeAdmissionCapability" where
  "SealStoreAdmission rre s c =
     (if \<not> ad_consumed c \<or> \<not> ad_opened c \<or> ad_opening c \<or> \<not> ad_live c then (Inl ErrStaleFence, s, c)
      else case sealRuntimeAdmission rre s (ad_ref c) (ad_version c) (ad_fence c) of
        (Inl e, s') \<Rightarrow> (Inl e, s', c)
      | (Inr _, s') \<Rightarrow> (Inr (), s', c\<lparr>ad_opened := False\<rparr>))"

definition arm_tx :: "TicketRef \<Rightarrow> u64 \<Rightarrow> Fence \<Rightarrow> db \<Rightarrow> store_error + (unit \<times> db)" where
  "arm_tx ref version fence d =
     (case current_identity d ref of
        None \<Rightarrow> Inl ErrNotFound
      | Some now \<Rightarrow>
        if now \<noteq> identity version fence then Inl ErrStaleFence
        else case runtimeControlFrom d ref of
          Inl _ \<Rightarrow> Inl ErrStaleFence
        | Inr control \<Rightarrow>
          if c_State control \<noteq> ''sealed'' then Inl ErrStaleFence
          else
            (let p = (\<lambda>c. c_Ref c = ref \<and> c_State c = ''sealed'' \<and> c_Generation c = c_Generation control) in
             if count_where p (runtime_ticket_controls d) \<noteq> 1 then Inl ErrStaleFence
             else Inr ((), d\<lparr>runtime_ticket_controls :=
               update_where p (\<lambda>c. c\<lparr>c_State := ''armed'', c_Authority := identity version fence\<rparr>)
                 (runtime_ticket_controls d)\<rparr>)))"

text \<open>
  \<open>ActivateRearm\<close>: the capability is checked and the row is armed under the gate; the gate is released
  before the installer runs, and an installation that fails or does not consume the admission is
  compensated by a seal. The installer is the caller's function on the admission and the Store. The
  result carries the admission that the installer kept.
\<close>

definition new_admission :: "RuntimeRearmCapability \<Rightarrow> RuntimeAdmissionCapability" where
  "new_admission c = \<lparr>ad_ref = rc_ref c, ad_version = rc_version c, ad_fence = rc_fence c, ad_issued = True,
     ad_consumed = False, ad_opening = False, ad_opened = False, ad_live = True\<rparr>"

definition activate_arm :: "Store \<Rightarrow> RuntimeRearmCapability \<Rightarrow> (store_error + unit) \<times> Store" where
  "activate_arm s c =
     with_gate ErrStaleFence s (\<lambda>g s.
       if \<not> rc_issued c \<or> rc_activating c then (Inl ErrStaleFence, s)
       else if gate_controls g (rc_ref c) \<noteq> Some (identity (rc_version c) (rc_fence c))
       then (Inl ErrStaleFence, s)
       else store_write s (arm_tx (rc_ref c) (rc_version c) (rc_fence c)))"

definition ActivateRearm ::
  "(db \<Rightarrow> TicketRef \<Rightarrow> store_error + mutationRevocation) \<Rightarrow> Store \<Rightarrow> RuntimeRearmCapability \<Rightarrow>
   (RuntimeAdmissionCapability \<Rightarrow> Store \<Rightarrow> store_error option \<times> RuntimeAdmissionCapability \<times> Store) \<Rightarrow>
   (store_error + RuntimeAdmissionCapability) \<times> Store \<times> RuntimeRearmCapability" where
  "ActivateRearm rre s c install =
     (case activate_arm s c of
        (Inl e, s1) \<Rightarrow> (Inl e, s1, c)
      | (Inr _, s1) \<Rightarrow>
        (case install (new_admission c) s1 of
           (Some err, admission, s2) \<Rightarrow>
             (case sealRuntimeAdmission rre s2 (rc_ref c) (rc_version c) (rc_fence c) of
                (Inl sealErr, s3) \<Rightarrow> (Inl (ErrJoined err sealErr), s3, c)
              | (Inr _, s3) \<Rightarrow> (Inl err, s3, c))
         | (None, admission, s2) \<Rightarrow>
             if \<not> ad_consumed admission then
               (case sealRuntimeAdmission rre s2 (rc_ref c) (rc_version c) (rc_fence c) of
                  (Inl sealErr, s3) \<Rightarrow> (Inl sealErr, s3, c)
                | (Inr _, s3) \<Rightarrow> (Inl ErrStaleFence, s3, c))
             else (Inr admission, s2, c\<lparr>rc_issued := False\<rparr>)))"

section \<open>Retirement\<close>

record RuntimeRetirementCapability =
  rt_ref :: TicketRef
  rt_issued :: bool
  rt_retiring :: bool
  rt_value :: mutationRevocation

definition TerminalControlProof :: "Store \<Rightarrow> TicketRef \<Rightarrow> (store_error + RuntimeRetirementCapability) \<times> Store" where
  "TerminalControlProof s ref =
     (case ControlProof s ref of
        (Inl e, s') \<Rightarrow> (Inl e, s')
      | (Inr p, s') \<Rightarrow>
        if \<not> State_Terminal (cp_State p) \<or> \<not> Drained p then (Inl ErrControlNotDrained, s')
        else (Inr \<lparr>rt_ref = ref, rt_issued = True, rt_retiring = False,
               rt_value = proof_identity p (LeaderEpoch (cp_Fence p))\<rparr>, s'))"

definition retireRuntimeControl :: "Store \<Rightarrow> TicketRef \<Rightarrow> mutationRevocation \<Rightarrow> (store_error + unit) \<times> Store" where
  "retireRuntimeControl s ref value =
     with_gate ErrStaleFence s (\<lambda>g s.
       if gate_controls g ref \<noteq> Some value then (Inl ErrStaleFence, s)
       else case store_write s (\<lambda>d.
         case ticket_at d ref of
           None \<Rightarrow> Inl ErrNoRows
         | Some t \<Rightarrow>
           if \<not> State_Terminal (t_State t) then Inl ErrStaleFence
           else case runtimeControlFrom d ref of
             Inl _ \<Rightarrow> Inl ErrStaleFence
           | Inr control \<Rightarrow>
             if c_Authority control \<noteq> value then Inl ErrStaleFence
             else Inr ((), d\<lparr>runtime_ticket_controls :=
               delete_where (\<lambda>c. c_Ref c = ref \<and> c_State c = ''sealed'') (runtime_ticket_controls d)\<rparr>)) of
         (Inl e, s') \<Rightarrow> (Inl e, s')
       | (Inr _, s') \<Rightarrow>
         (case st_mutations s' of
            None \<Rightarrow> (Inl ErrStaleFence, s')
          | Some g' \<Rightarrow>
            (case retireControl ref value g' of
               (False, _) \<Rightarrow> (Inl ErrStaleFence, s')
             | (True, g'') \<Rightarrow> (Inr (), s'\<lparr>st_mutations := Some g''\<rparr>))))"

definition ConsumeRuntimeRetirement ::
  "RuntimeRetirementCapability \<Rightarrow> TicketRef option \<times> RuntimeRetirementCapability" where
  "ConsumeRuntimeRetirement c =
     (if \<not> rt_issued c then (None, c) else (Some (rt_ref c), c\<lparr>rt_issued := False\<rparr>))"

definition RetireRuntime ::
  "Store \<Rightarrow> RuntimeRetirementCapability \<Rightarrow> (TicketRef \<Rightarrow> store_error option) \<Rightarrow>
     (store_error + unit) \<times> Store \<times> RuntimeRetirementCapability" where
  "RetireRuntime s c retire =
     (if \<not> rt_issued c \<or> rt_retiring c then (Inl ErrStaleFence, s, c)
      else case retire (rt_ref c) of
        Some e \<Rightarrow> (Inl e, s, c)
      | None \<Rightarrow>
        (case retireRuntimeControl s (rt_ref c) (rt_value c) of
           (Inl e, s') \<Rightarrow> (Inl e, s', c)
         | (Inr _, s') \<Rightarrow> (Inr (), s', c\<lparr>rt_issued := False\<rparr>)))"
end
