(* ===== verification/ControlTransitions.thy ===== *)
theory ControlTransitions
  imports RuntimeControl
begin

text \<open>
  The two control transitions of \<^verbatim>\<open>internal/store/control.go\<close>: entering stopping or cancelling, which revokes the
  runner and seals the ticket's runtime control in the same transaction, and completing the control
  once everything is drained.
\<close>

definition pauseState :: "string \<Rightarrow> bool" where
  "pauseState state \<longleftrightarrow> state = StatePlanning \<or> state = StateVerifying \<or> state = StateBuilding \<or>
     state = StatePublishing \<or> state = StateWaitingCI \<or> state = StateReviewing \<or>
     state = StateWaitingApproval \<or> state = StateWaitingManualMerge \<or> state = StateMerging \<or>
     state = StateReconciling"

definition runnerInvalidatingCancelSource :: "string \<Rightarrow> bool" where
  "runnerInvalidatingCancelSource state \<longleftrightarrow> state = StateQueued \<or> state = StatePlanning \<or>
     state = StateVerifying \<or> state = StateBuilding \<or> state = StatePublishing \<or> state = StateWaitingCI \<or>
     state = StateReviewing \<or> state = StateWaitingApproval \<or> state = StateWaitingManualMerge \<or>
     state = StateMerging \<or> state = StateReconciling \<or> state = StatePaused \<or> state = StateBlocked \<or>
     state = StateStopping"

definition validRunnerInvalidatingControlTransition :: "StoreTransition \<Rightarrow> bool" where
  "validRunnerInvalidatingControlTransition tr =
     (if tn_Trigger tr = ''operator_pause_or_take''
        then tn_To tr = StateStopping \<and> tn_ResumeState tr = tn_From tr \<and> pauseState (tn_From tr)
      else if tn_Trigger tr = ''operator_cancel''
        then tn_To tr = StateCancelling \<and> tn_ResumeState tr = '''' \<and>
          runnerInvalidatingCancelSource (tn_From tr)
      else False)"

text \<open>An empty payload is the empty object.\<close>

definition event_payload :: "StoreTransition \<Rightarrow> string" where
  "event_payload tr = (if tn_EventPayload tr = '''' then ''{}'' else tn_EventPayload tr)"

definition bounded_payload :: "string \<Rightarrow> bool" where
  "bounded_payload payload \<longleftrightarrow> int (length payload) \<le> maxEvidenceJSON \<and> json_valid payload"

text \<open>
  The column \<open>resume_state\<close> admits no terminal state, and \<open>version\<close> no zero.
\<close>

definition ticket_check :: "string \<Rightarrow> u64 \<Rightarrow> bool" where
  "ticket_check resume version \<longleftrightarrow> (resume = '''' \<or> State_Valid resume \<and> \<not> State_Terminal resume) \<and> version \<noteq> 0"

definition invalidate_row :: "StoreTransition \<Rightarrow> ticket_row \<Rightarrow> ticket_row" where
  "invalidate_row tr t = t\<lparr>t_State := tn_To tr, t_ResumeState := nullableState (tn_ResumeState tr),
     t_Version := t_Version t + 1, t_RunnerEpoch := t_RunnerEpoch t + 1\<rparr>"

definition TransitionAndInvalidateRunner_tx ::
  "StoreTransition \<Rightarrow> string \<Rightarrow> db \<Rightarrow> store_error + ((TransitionResult \<times> mutationRevocation) \<times> db)" where
  "TransitionAndInvalidateRunner_tx tr payload d =
     (case ticket_at d (tn_Ref tr) of
        None \<Rightarrow> Inl ErrNotFound
      | Some t \<Rightarrow>
        if t_State t \<noteq> tn_From tr \<or> t_Version t \<noteq> tn_ExpectedVersion tr then Inl ErrStaleFence
        else case currentFence d (Channel (tn_Ref tr)) (t_Version t) (t_RunnerEpoch t) (tn_Fence tr) of
          Some e \<Rightarrow> Inl e
        | None \<Rightarrow>
          (let p = (\<lambda>r. t_Ref r = tn_Ref tr \<and> t_State r = tn_From tr \<and> t_Version r = t_Version t \<and>
                   t_RunnerEpoch r = t_RunnerEpoch t);
               value = \<lparr>mr_version = t_Version t + 1, mr_leader = LeaderEpoch (tn_Fence tr),
                        mr_runner = t_RunnerEpoch t + 1\<rparr> in
           if count_where p (tickets d) \<noteq> 1 then Inl ErrStaleFence
           else if \<not> ticket_check (tn_ResumeState tr) (t_Version t + 1) then Inl (ErrConstraint ''tickets'')
           else case sealRuntimeControl (tn_Ref tr) value
                  (d\<lparr>tickets := update_where p (invalidate_row tr) (tickets d)\<rparr>) of
             Inl e \<Rightarrow> Inl e
           | Inr d1 \<Rightarrow>
             (case insert_event (tn_Ref tr) (t_Version t + 1) (tn_Trigger tr) (tn_From tr) (tn_To tr) payload d1 of
                (n, d2) \<Rightarrow> Inr ((\<lparr>res_Version = t_Version t + 1, res_EventID = n\<rparr>, value), d2))))"

definition TransitionAndInvalidateRunner ::
  "Store \<Rightarrow> StoreTransition \<Rightarrow> (store_error + TransitionResult) \<times> Store" where
  "TransitionAndInvalidateRunner s tr =
     (if \<not> validRunnerInvalidatingControlTransition tr then (Inl ErrEvidenceConflict, s)
      else case TicketRef_Validate (tn_Ref tr) of
        Some e \<Rightarrow> (Inl (ErrRef e), s)
      | None \<Rightarrow>
        if \<not> State_Valid (tn_To tr) \<or> \<not> State_Valid (tn_From tr) \<or> tn_Trigger tr = ''''
        then (Inl (ErrMessage ''valid from/to state and trigger are required''), s)
        else if \<not> bounded_payload (event_payload tr)
        then (Inl (ErrMessage ''control event payload must be bounded JSON''), s)
        else with_gate ErrStaleFence s (\<lambda>g s.
          case store_write s (TransitionAndInvalidateRunner_tx tr (event_payload tr)) of
            (Inl e, s') \<Rightarrow> (Inl e, s')
          | (Inr (result, seal), s') \<Rightarrow> (Inr result, update_gate (gate_latch (tn_Ref tr) seal) s')))"

definition complete_row :: "StoreTransition \<Rightarrow> ticket_row \<Rightarrow> ticket_row" where
  "complete_row tr t = t\<lparr>t_State := tn_To tr, t_ResumeState := nullableState (tn_ResumeState tr),
     t_Version := t_Version t + 1\<rparr>"

definition close_phase :: "phase_run_row \<Rightarrow> phase_run_row" where
  "close_phase r = r\<lparr>pr_State := ''cancelled'', pr_Outcome := ''cancelled'', pr_Completed := True\<rparr>"

definition CompleteControlTransition_tx ::
  "StoreTransition \<Rightarrow> string \<Rightarrow> db \<Rightarrow> store_error + (TransitionResult \<times> db)" where
  "CompleteControlTransition_tx tr payload d =
     (let ref = tn_Ref tr in
      case ticket_at d ref of
        None \<Rightarrow> Inl ErrNotFound
      | Some t \<Rightarrow>
        if t_State t \<noteq> tn_From tr \<or> t_Version t \<noteq> tn_ExpectedVersion tr then Inl ErrStaleFence
        else case currentFence d (Channel ref) (t_Version t) (t_RunnerEpoch t) (tn_Fence tr) of
          Some e \<Rightarrow> Inl e
        | None \<Rightarrow>
          (case releaseTerminalCapacity ref d of
             Inl e \<Rightarrow> Inl e
           | Inr d1 \<Rightarrow>
             (let d2 = d1\<lparr>phase_runs := update_where (\<lambda>r. pr_Ref r = ref \<and> pr_State r = ''active'') close_phase
                     (phase_runs d1),
                    workflow_owners := update_where (\<lambda>w. o_Ref w = ref) (\<lambda>w. w\<lparr>o_State := tn_To tr\<rparr>)
                     (workflow_owners d1)\<rparr>;
                  p = (\<lambda>r. t_Ref r = ref \<and> t_State r = tn_From tr \<and> t_Version r = t_Version t \<and>
                     t_RunnerEpoch r = t_RunnerEpoch t) in
              if count_where p (tickets d2) \<noteq> 1 then Inl ErrStaleFence
              else if \<not> ticket_check (tn_ResumeState tr) (t_Version t + 1) then Inl (ErrConstraint ''tickets'')
              else
                (case insert_event ref (t_Version t + 1) (tn_Trigger tr) (tn_From tr) (tn_To tr) payload
                        (d2\<lparr>tickets := update_where p (complete_row tr) (tickets d2)\<rparr>) of
                   (n, d3) \<Rightarrow> Inr (\<lparr>res_Version = t_Version t + 1, res_EventID = n\<rparr>, d3)))))"

definition CompleteControlTransition ::
  "Store \<Rightarrow> StoreTransition \<Rightarrow> (store_error + TransitionResult) \<times> Store" where
  "CompleteControlTransition s tr =
     (case TicketRef_Validate (tn_Ref tr) of
        Some e \<Rightarrow> (Inl (ErrRef e), s)
      | None \<Rightarrow>
        if \<not> (tn_From tr = StateStopping \<and> tn_To tr = StatePaused \<or>
              tn_From tr = StateCancelling \<and> tn_To tr = StateCancelled) \<or>
           tn_Trigger tr \<noteq> ''process_and_effects_drained''
        then (Inl (ErrMessage ''control completion requires the normative drained transition''), s)
        else if \<not> bounded_payload (event_payload tr)
        then (Inl (ErrMessage ''control event payload must be bounded JSON''), s)
        else store_write s (CompleteControlTransition_tx tr (event_payload tr)))"

end
