(* ===== verification/GenericTransition.thy ===== *)
theory GenericTransition
  imports StartAdmission ControlTransitions
begin

text \<open>
  The generic lifecycle transition of the Store (\<^verbatim>\<open>internal/store/store.go\<close>): it refuses every move that needs
  evidence of its own, hands reserved moves to their dedicated boundaries, and otherwise performs a
  compare-and-swap on the ticket with one event.

  The dedicated boundaries and the readers of provider, publication and recovery evidence live in
  components outside this development. They are the parameter \<open>authorities\<close>: every theorem holds for
  all of their behaviours.
\<close>

section \<open>The unmodelled authorities\<close>

record authorities =
  transitionTicketBudgetExhausted :: "Store \<Rightarrow> StoreTransition \<Rightarrow> (store_error + TransitionResult) \<times> Store"
  transitionProviderTerminalBlocker :: "Store \<Rightarrow> StoreTransition \<Rightarrow> (store_error + TransitionResult) \<times> Store"
  TransitionRecoverAsGuarded :: "Store \<Rightarrow> StoreTransition \<Rightarrow> (store_error + TransitionResult) \<times> Store"
  TransitionPublishedBlock :: "Store \<Rightarrow> StoreTransition \<Rightarrow> (store_error + TransitionResult) \<times> Store"
  TransitionPublishedPause :: "Store \<Rightarrow> StoreTransition \<Rightarrow> (store_error + TransitionResult) \<times> Store"
  loadCurrentProviderPhaseEntry :: "db \<Rightarrow> TicketRef \<Rightarrow> string \<Rightarrow> u64 \<Rightarrow> u64 \<Rightarrow> u64 \<Rightarrow> store_error + phase_entry_row"
  providerBlockedEndpointLeader :: "db \<Rightarrow> TicketRef \<Rightarrow> string \<Rightarrow> u64 \<Rightarrow> u64 \<Rightarrow> store_error + u64"
  validateProviderPhaseEntryBindings :: "db \<Rightarrow> TicketRef \<Rightarrow> phase_entry_row \<Rightarrow> store_error option"
  loadProviderRetryEpochForEntry :: "db \<Rightarrow> TicketRef \<Rightarrow> string \<Rightarrow> u64 \<Rightarrow> store_error + bool"
  authenticatePostPublicationState :: "db \<Rightarrow> TicketRef \<Rightarrow> string \<Rightarrow> u64 \<Rightarrow> Fence \<Rightarrow> store_error option"
  terminal_review_attempts :: "db \<Rightarrow> TicketRef \<Rightarrow> u64 \<Rightarrow> store_error + nat"

section \<open>Classification\<close>

definition ticketBudgetExhaustedCode :: string where "ticketBudgetExhaustedCode = ''ticket_budget_exhausted''"
definition providerResultIndeterminateCode :: string where "providerResultIndeterminateCode = ''provider_result_indeterminate''"
definition providerRepairUnavailableCode :: string where "providerRepairUnavailableCode = ''provider_repair_unavailable''"
definition postbuildCommandFailedBlockerCode :: string where "postbuildCommandFailedBlockerCode = ''postbuild_command_failed''"
definition verificationAmendmentInvalidBlockerCode :: string where
  "verificationAmendmentInvalidBlockerCode = ''verification_amendment_invalid''"
definition postbuildAmendmentRejectedBlockerCode :: string where
  "postbuildAmendmentRejectedBlockerCode = ''postbuild_amendment_rejected''"
definition legacyCandidateRepairUnverifiableCode :: string where
  "legacyCandidateRepairUnverifiableCode = ''legacy_candidate_repair_recovery_unverifiable''"
definition legacyPhaseEntryCode :: string where "legacyPhaseEntryCode = ''legacy_provider_phase_entry_unverifiable''"
definition providerExhaustionSchema :: string where "providerExhaustionSchema = ''sf.provider-exhaustion/v1''"
definition providerBlockedBridgeSchema :: string where "providerBlockedBridgeSchema = ''sf.provider-blocked-recovery/v1''"

lemmas blocker_defs [const_defs] =
  ticketBudgetExhaustedCode_def providerResultIndeterminateCode_def providerRepairUnavailableCode_def
  postbuildCommandFailedBlockerCode_def verificationAmendmentInvalidBlockerCode_def
  postbuildAmendmentRejectedBlockerCode_def legacyCandidateRepairUnverifiableCode_def legacyPhaseEntryCode_def

definition nonRecoverableProviderBlockerCode :: "string \<Rightarrow> bool" where
  "nonRecoverableProviderBlockerCode code \<longleftrightarrow> code = providerResultIndeterminateCode \<or> code = providerRepairUnavailableCode"

definition nonRecoverableBlockedRecoveryCode :: "string \<Rightarrow> bool" where
  "nonRecoverableBlockedRecoveryCode code \<longleftrightarrow>
     nonRecoverableProviderBlockerCode code \<or> code = postbuildCommandFailedBlockerCode \<or>
     code = verificationAmendmentInvalidBlockerCode \<or> code = postbuildAmendmentRejectedBlockerCode \<or>
     code = legacyCandidateRepairUnverifiableCode"

definition ticketBudgetExhaustionTransition :: "StoreTransition \<Rightarrow> bool" where
  "ticketBudgetExhaustionTransition tr \<longleftrightarrow>
     tn_Trigger tr = ''typed_blocker'' \<and> Unmarshal_field ''code'' (tn_EventPayload tr) = Some ticketBudgetExhaustedCode"

definition providerTerminalBlockerTransition :: "StoreTransition \<Rightarrow> bool" where
  "providerTerminalBlockerTransition tr \<longleftrightarrow>
     tn_Trigger tr = ''typed_blocker'' \<and>
     (case Unmarshal_field ''code'' (tn_EventPayload tr) of None \<Rightarrow> False | Some code \<Rightarrow> nonRecoverableProviderBlockerCode code)"

definition providerPhaseForState :: "string \<Rightarrow> string option" where
  "providerPhaseForState state =
     (if state = StatePlanning then Some PhasePlanning
      else if state = StateVerifying then Some PhaseVerification
      else if state = StateBuilding then Some PhaseBuild
      else if state = StateReviewing then Some PhaseReview
      else None)"

definition providerStateForPhaseTransition :: "string \<Rightarrow> bool" where
  "providerStateForPhaseTransition state \<longleftrightarrow> providerPhaseForState state \<noteq> None"

definition phaseForProviderState :: "string \<Rightarrow> string" where
  "phaseForProviderState state = (case providerPhaseForState state of None \<Rightarrow> '''' | Some phase \<Rightarrow> phase)"

definition guardedMergeObservationTransition :: "StoreTransition \<Rightarrow> bool" where
  "guardedMergeObservationTransition tr \<longleftrightarrow>
     tn_From tr = StateMerging \<and> tn_To tr = StateReconciling \<and> tn_Trigger tr = ''merge_observed''"

definition genericMergeEntryTransition :: "StoreTransition \<Rightarrow> bool" where
  "genericMergeEntryTransition tr \<longleftrightarrow>
     tn_To tr = StateMerging \<or>
     (tn_From tr = StatePaused \<and> tn_To tr = StateReconciling \<and>
      (tn_Trigger tr = ''operator_resume'' \<or> tn_Trigger tr = ''operator_retry''))"

definition publicationSensitiveTransition :: "string \<Rightarrow> string \<Rightarrow> bool" where
  "publicationSensitiveTransition from to \<longleftrightarrow>
     (if to = StatePublishing \<or> to = StateWaitingCI then True
      else if from \<noteq> StatePublishing \<and> from \<noteq> StateWaitingCI then False
      else to \<noteq> StateStopping \<and> to \<noteq> StateCancelling)"

definition code_char :: "char \<Rightarrow> bool" where
  "code_char c \<longleftrightarrow> c = CHR ''-'' \<or> c = CHR ''_'' \<or> byte_between (CHR ''a'') (CHR ''z'') c \<or> byte_between (CHR ''0'') (CHR ''9'') c"

definition validBlockedCode :: "string \<Rightarrow> bool" where
  "validBlockedCode code \<longleftrightarrow>
     code \<noteq> '''' \<and> length code \<le> 100 \<and> TrimSpace code = code \<and> list_all code_char code"

definition genericVerificationAmendmentTransition :: "string \<Rightarrow> bool" where
  "genericVerificationAmendmentTransition trigger \<longleftrightarrow>
     trigger \<in> {''verification_amendment_requested'', ''amendment_accepted'', ''amendment_rejected'', ''review_repair''}"

definition semanticPublicationPauseTransition :: "StoreTransition \<Rightarrow> bool" where
  "semanticPublicationPauseTransition tr \<longleftrightarrow>
     (if tn_To tr \<noteq> StatePaused \<or> tn_ResumeState tr \<noteq> tn_From tr then False
      else if tn_Trigger tr = ''retry_or_correction_exhausted''
        then tn_From tr = StatePublishing \<or> tn_From tr = StateWaitingCI
      else tn_Trigger tr = ''ci_red_exhausted'' \<and> tn_From tr = StateWaitingCI)"

section \<open>Evidence checks\<close>

definition exactStateChangeEvent :: "db \<Rightarrow> TicketRef \<Rightarrow> u64 \<Rightarrow> string \<Rightarrow> string \<Rightarrow> string \<Rightarrow> bool" where
  "exactStateChangeEvent d ref version trigger from to \<longleftrightarrow>
     (let at = filter (\<lambda>e. ev_Ref e = ref \<and> ev_TicketVersion e = version) (events d) in
      count_where (\<lambda>e. ev_Trigger e = trigger \<and> ev_From e = from \<and> ev_To e = to) at = 1 \<and>
      count_where (\<lambda>e. ev_From e \<noteq> ev_To e) at = 1)"

definition validateProviderPausedResumePrefix ::
  "authorities \<Rightarrow> db \<Rightarrow> TicketRef \<Rightarrow> string \<Rightarrow> u64 \<Rightarrow> u64 \<Rightarrow> u64 \<Rightarrow> string \<Rightarrow> store_error option" where
  "validateProviderPausedResumePrefix A d ref phase version runner leader target =
     (if version < 2 \<or> runner < 2 \<or> leader = 0 \<or> providerStateForPhase phase \<noteq> target then Some ErrEvidenceConflict
      else case runtimeControlFrom d ref of
        Inl _ \<Rightarrow> Some ErrEvidenceConflict
      | Inr control \<Rightarrow>
        if c_State control \<noteq> ''sealed'' \<or> mr_version (c_Stop control) \<noteq> version - 1 \<or> mr_runner (c_Stop control) \<noteq> runner \<or>
           mr_leader (c_Stop control) = 0 \<or> leader < mr_leader (c_Stop control) \<or> c_Authority control \<noteq> c_Stop control
          then Some ErrEvidenceConflict
        else case loadCurrentProviderPhaseEntry A d ref phase (version - 2) (runner - 1) (mr_leader (c_Stop control)) of
          Inl _ \<Rightarrow> Some ErrEvidenceConflict
        | Inr entry \<Rightarrow>
          if pe_State entry \<noteq> target \<or>
             \<not> exactStateChangeEvent d ref (version - 1) ''operator_pause_or_take'' target StateStopping \<or>
             \<not> exactStateChangeEvent d ref version ''process_and_effects_drained'' StateStopping StatePaused
            then Some ErrEvidenceConflict
          else validateProviderPhaseEntryBindings A d ref entry)"

definition validateProviderBlockedRecoveryPrefix ::
  "authorities \<Rightarrow> db \<Rightarrow> TicketRef \<Rightarrow> string \<Rightarrow> u64 \<Rightarrow> u64 \<Rightarrow> u64 \<Rightarrow> string \<Rightarrow> string \<Rightarrow> store_error option" where
  "validateProviderBlockedRecoveryPrefix A d ref phase version runner leader target code =
     (if version < 2 \<or> runner = 0 \<or> leader = 0 \<or> \<not> providerStateForPhaseTransition target \<or>
         providerStateForPhase phase \<noteq> target \<or> \<not> validBlockedCode code \<or> code = legacyPhaseEntryCode \<or>
         nonRecoverableBlockedRecoveryCode code then Some ErrEvidenceConflict
      else case providerBlockedEndpointLeader A d ref phase (version - 1) runner of
        Inl _ \<Rightarrow> Some ErrEvidenceConflict
      | Inr prior \<Rightarrow>
        if leader < prior then Some ErrEvidenceConflict
        else case loadCurrentProviderPhaseEntry A d ref phase (version - 1) runner prior of
          Inl _ \<Rightarrow> Some ErrEvidenceConflict
        | Inr entry \<Rightarrow>
          if pe_State entry \<noteq> target then Some ErrEvidenceConflict
          else case List.find (\<lambda>e. ev_Ref e = ref \<and> ev_TicketVersion e = version) (events d) of
            None \<Rightarrow> Some ErrEvidenceConflict
          | Some e \<Rightarrow>
            if ev_Trigger e \<noteq> ''typed_blocker'' \<or> ev_From e \<noteq> target \<or> ev_To e \<noteq> StateBlocked \<or>
               maxEvidenceJSON < int (length (ev_Payload e)) \<or> Unmarshal_field ''code'' (ev_Payload e) \<noteq> Some code \<or>
               \<not> exactStateChangeEvent d ref version ''typed_blocker'' target StateBlocked
              then Some ErrEvidenceConflict
            else validateProviderPhaseEntryBindings A d ref entry)"

text \<open>The retry of a paused review, which must not impersonate a provider retry.\<close>

definition review_retry_refused :: "authorities \<Rightarrow> db \<Rightarrow> StoreTransition \<Rightarrow> ticket_row \<Rightarrow> store_error option" where
  "review_retry_refused A d tr t =
     (let ref = tn_Ref tr; version = t_Version t; runner = t_RunnerEpoch t in
      if (case List.find (\<lambda>e. ev_Ref e = ref \<and> ev_TicketVersion e = version \<and> ev_Trigger e = ''retry_or_correction_exhausted'' \<and>
              ev_From e = ''reviewing'' \<and> ev_To e = ''paused'') (events d) of
            None \<Rightarrow> False
          | Some e \<Rightarrow> (case Unmarshal_field ''schema'' (ev_Payload e) of None \<Rightarrow> True | Some schema \<Rightarrow> schema = providerExhaustionSchema))
        then Some ErrEvidenceConflict
      else case validateProviderPausedResumePrefix A d ref PhaseReview version runner (LeaderEpoch (tn_Fence tr)) (tn_To tr) of
        Some e \<Rightarrow> Some e
      | None \<Rightarrow>
        (case runtimeControlFrom d ref of
           Inl _ \<Rightarrow> Some ErrEvidenceConflict
         | Inr control \<Rightarrow>
           if mr_version (c_Stop control) \<noteq> version - 1 \<or> mr_runner (c_Stop control) \<noteq> runner \<or> mr_leader (c_Stop control) = 0 \<or>
              c_Authority control \<noteq> c_Stop control then Some ErrEvidenceConflict
           else if authenticatePostPublicationState A d ref StateReviewing (version - 2)
               \<lparr>LeaderEpoch = mr_leader (c_Stop control), RunnerEpoch = runner - 1, ClaimEpoch = 0\<rparr> \<noteq> None
             then Some ErrEvidenceConflict
           else case loadCurrentProviderPhaseEntry A d ref PhaseReview (version - 2) (runner - 1) (mr_leader (c_Stop control)) of
             Inl _ \<Rightarrow> Some ErrEvidenceConflict
           | Inr entry \<Rightarrow>
             if loadProviderRetryEpochForEntry A d ref PhaseReview (pe_Version entry) \<noteq> Inr False then Some ErrEvidenceConflict
             else (case terminal_review_attempts A d ref (pe_Version entry) of
                     Inl _ \<Rightarrow> Some ErrEvidenceConflict
                   | Inr n \<Rightarrow> if 2 \<le> n then Some ErrEvidenceConflict else None)))"

text \<open>
  \<open>json.Marshal\<close> of a raw message copies it without the white space between tokens, HTML characters
  escaped; the flag says whether the position is inside a string.
\<close>

fun compact_json :: "bool \<Rightarrow> string \<Rightarrow> string" where
  "compact_json inside [] = []"
| "compact_json inside (c # s) =
     (if c = CHR ''<'' \<or> c = CHR ''>'' \<or> c = CHR ''&'' then unicode_escape c @ compact_json inside s
      else if c = CHR 0xE2 \<and> (take 2 s = [CHR 0x80, CHR 0xA8] \<or> take 2 s = [CHR 0x80, CHR 0xA9])
        then [CHR 0x5C, CHR ''u'', CHR ''2'', CHR ''0'', CHR ''2'', hex_digit (of_char (s ! 1))] @ compact_json inside (drop 2 s)
      else if inside \<and> c = CHR 0x5C then c # take 1 s @ compact_json inside (drop 1 s)
      else if c = CHR 0x22 then c # compact_json (\<not> inside) s
      else if \<not> inside \<and> json_space c then compact_json inside s
      else c # compact_json inside s)"

definition blocked_bridge :: "u64 \<Rightarrow> u64 \<Rightarrow> u64 \<Rightarrow> u64 \<Rightarrow> string \<Rightarrow> string" where
  "blocked_bridge version runner prior leader control =
     json_object [(''schema'', json_string providerBlockedBridgeSchema), (''intent'', json_string ''recover''),
       (''version'', json_uint version), (''runner'', json_uint runner), (''prior_leader'', json_uint prior),
       (''leader'', json_uint leader), (''control'', compact_json False control)]"

section \<open>The transition\<close>

definition transition_row :: "StoreTransition \<Rightarrow> string \<Rightarrow> ticket_row \<Rightarrow> ticket_row" where
  "transition_row tr code t =
     (let u = t\<lparr>t_State := tn_To tr, t_ResumeState := nullableState (tn_ResumeState tr), t_Version := t_Version t + 1\<rparr> in
      if tn_Trigger tr = ''typed_blocker'' then u\<lparr>t_BlockedCode := code\<rparr> else u)"

text \<open>The evidence that the stored state demands, with the payload of the event it leads to.\<close>

definition stored_resume :: "ticket_row \<Rightarrow> string \<Rightarrow> bool" where
  "stored_resume t target \<longleftrightarrow> t_ResumeState t = Some target"

definition transition_evidence :: "authorities \<Rightarrow> db \<Rightarrow> StoreTransition \<Rightarrow> ticket_row \<Rightarrow> string \<Rightarrow> store_error + string" where
  "transition_evidence A d tr t payload =
     (let ref = tn_Ref tr; version = t_Version t; runner = t_RunnerEpoch t; leader = LeaderEpoch (tn_Fence tr);
          phase = phaseForProviderState (tn_To tr) in
      case (if tn_Trigger tr = ''operator_resume'' \<and> t_State t = StatePaused \<and> providerStateForPhaseTransition (tn_To tr) then
              (if \<not> stored_resume t (tn_To tr) then Some ErrEvidenceConflict
               else validateProviderPausedResumePrefix A d ref phase version runner leader (tn_To tr))
            else None) of
        Some e \<Rightarrow> Inl e
      | None \<Rightarrow>
        (case (if tn_Trigger tr = ''operator_retry'' \<and> t_State t = StatePaused \<and> tn_To tr = StateReviewing
               then review_retry_refused A d tr t else None) of
           Some e \<Rightarrow> Inl e
         | None \<Rightarrow>
           if tn_Trigger tr = ''operator_recover'' \<and> t_State t = StateBlocked \<and> providerStateForPhaseTransition (tn_To tr) then
             (if \<not> stored_resume t (tn_To tr) then Inl ErrEvidenceConflict
              else case validateProviderBlockedRecoveryPrefix A d ref phase version runner leader (tn_To tr) (t_BlockedCode t) of
                Some e \<Rightarrow> Inl e
              | None \<Rightarrow>
                (case providerBlockedEndpointLeader A d ref phase (version - 1) runner of
                   Inl e \<Rightarrow> Inl e
                 | Inr prior \<Rightarrow>
                   (let bridge = blocked_bridge (version + 1) runner prior leader payload in
                    if maxEvidenceJSON < int (length bridge) then Inl ErrEvidenceConflict else Inr bridge)))
           else Inr payload))"

definition Transition_tx ::
  "authorities \<Rightarrow> int \<Rightarrow> StoreTransition \<Rightarrow> string \<Rightarrow> string \<Rightarrow> db \<Rightarrow> store_error + (TransitionResult \<times> db)" where
  "Transition_tx A now tr payload code d =
     (let ref = tn_Ref tr in
      case ticket_at d ref of
        None \<Rightarrow> Inl ErrNotFound
      | Some t \<Rightarrow>
        if t_State t \<noteq> tn_From tr \<or> t_Version t \<noteq> tn_ExpectedVersion tr then Inl ErrStaleFence
        else case currentFence d (Channel ref) (t_Version t) (t_RunnerEpoch t) (tn_Fence tr) of
          Some e \<Rightarrow> Inl e
        | None \<Rightarrow>
          if t_BlockedCode t = legacyPhaseEntryCode \<and> (tn_Trigger tr = ''operator_resume'' \<or> tn_Trigger tr = ''operator_recover'')
            then Inl ErrEvidenceConflict
          else if t_BlockedCode t = ticketBudgetExhaustedCode \<and> tn_Trigger tr = ''operator_recover'' then Inl ErrBudgetExhausted
          else if t_State t = StateBlocked \<and> nonRecoverableBlockedRecoveryCode (t_BlockedCode t) then Inl ErrEvidenceConflict
          else case transition_evidence A d tr t payload of
            Inl e \<Rightarrow> Inl e
          | Inr payload' \<Rightarrow>
            (case (if t_State t = StatePaused \<and> (tn_Trigger tr = ''operator_resume'' \<or> tn_Trigger tr = ''operator_retry'')
                   then reacquireTicketCapacity ref (t_RunnerEpoch t) now d else Inr d) of
               Inl e \<Rightarrow> Inl e
             | Inr d1 \<Rightarrow>
               (let p = (\<lambda>r. t_Ref r = ref \<and> t_State r = tn_From tr \<and> t_Version r = t_Version t \<and> t_RunnerEpoch r = t_RunnerEpoch t) in
                if count_where p (tickets d1) \<noteq> 1 then Inl ErrStaleFence
                else if \<not> ticket_check (tn_ResumeState tr) (t_Version t + 1) then Inl (ErrConstraint ''tickets'')
                else let d2 = d1\<lparr>tickets := update_where p (transition_row tr code) (tickets d1)\<rparr> in
                  case (if State_Terminal (tn_To tr) then releaseTerminalCapacity ref d2 else Inr d2) of
                    Inl e \<Rightarrow> Inl e
                  | Inr d3 \<Rightarrow>
                    (case insert_event ref (t_Version t + 1) (tn_Trigger tr) (tn_From tr) (tn_To tr) payload' d3 of
                       (n, d4) \<Rightarrow> Inr (\<lparr>res_Version = t_Version t + 1, res_EventID = n\<rparr>, d4)))))"

text \<open>The moves that the generic transition refuses before any work.\<close>

definition reserved_provider_move :: "StoreTransition \<Rightarrow> bool" where
  "reserved_provider_move tr \<longleftrightarrow>
     (providerStateForPhaseTransition (tn_From tr) \<and> tn_To tr = StatePaused \<and> tn_Trigger tr = ''retry_or_correction_exhausted'') \<or>
     (tn_From tr = StatePaused \<and> providerStateForPhaseTransition (tn_To tr) \<and> tn_Trigger tr = ''operator_retry'' \<and>
      tn_To tr \<noteq> StateReviewing)"

text \<open>The part after every special case: the checks of the request, the drain and the transaction.\<close>

definition transition_generic :: "authorities \<Rightarrow> Store \<Rightarrow> int \<Rightarrow> StoreTransition \<Rightarrow> (store_error + TransitionResult) \<times> Store" where
  "transition_generic A s now tr =
     (case TicketRef_Validate (tn_Ref tr) of
        Some e \<Rightarrow> (Inl (ErrRef e), s)
      | None \<Rightarrow>
        if \<not> State_Valid (tn_To tr) \<or> \<not> State_Valid (tn_From tr) \<or> tn_Trigger tr = ''''
          then (Inl (ErrMessage ''valid from/to state and trigger are required''), s)
        else if \<not> bounded_payload (event_payload tr)
          then (Inl (ErrMessage ''transition event payload must be bounded JSON''), s)
        else if tn_Trigger tr = ''typed_blocker'' \<and> tn_To tr \<noteq> StateBlocked
          then (Inl (ErrMessage ''typed blocker must target blocked state''), s)
        else case (if tn_Trigger tr = ''typed_blocker'' then
              (case Unmarshal_field ''code'' (event_payload tr) of
                 None \<Rightarrow> None
               | Some code \<Rightarrow> if validBlockedCode code then Some code else None)
            else Some '''') of
          None \<Rightarrow> (Inl ErrEvidenceConflict, s)
        | Some code \<Rightarrow>
          (case DrainExternalMutations s (tn_Ref tr) of
             (Inl e, s1) \<Rightarrow> (Inl e, s1)
           | (Inr _, s1) \<Rightarrow> store_write s1 (Transition_tx A now tr (event_payload tr) code)))"

definition Store_Transition :: "authorities \<Rightarrow> Store \<Rightarrow> int \<Rightarrow> StoreTransition \<Rightarrow> (store_error + TransitionResult) \<times> Store" where
  "Store_Transition A s now tr =
     (if tn_Trigger tr = ''postbuild_repair'' \<or> tn_Trigger tr = ''external_merge_observed'' \<or>
         tn_Trigger tr = ''base_or_candidate_head_changed'' then (Inl ErrEvidenceConflict, s)
      else if ticketBudgetExhaustionTransition tr then transitionTicketBudgetExhausted A s tr
      else if providerTerminalBlockerTransition tr then transitionProviderTerminalBlocker A s tr
      else if reserved_provider_move tr then (Inl ErrEvidenceConflict, s)
      else if tn_Trigger tr = ''retry_or_correction_exhausted'' \<and>
          Unmarshal_field ''schema'' (tn_EventPayload tr) = Some providerExhaustionSchema then (Inl ErrEvidenceConflict, s)
      else if genericMergeEntryTransition tr then (Inl ErrEvidenceConflict, s)
      else if genericVerificationAmendmentTransition (tn_Trigger tr) then (Inl ErrEvidenceConflict, s)
      else if guardedMergeObservationTransition tr then (Inl ErrEvidenceConflict, s)
      else if tn_Trigger tr = ''operator_recover_as_guarded'' then TransitionRecoverAsGuarded A s tr
      else if tn_Trigger tr = ''typed_blocker'' \<and> tn_To tr = StateBlocked \<and>
          (tn_From tr = StatePublishing \<or> tn_From tr = StateWaitingCI) then TransitionPublishedBlock A s tr
      else if semanticPublicationPauseTransition tr then TransitionPublishedPause A s tr
      else if publicationSensitiveTransition (tn_From tr) (tn_To tr) then (Inl ErrPublicationEvidence, s)
      else if tn_Trigger tr = ''phase_pass'' \<and>
          (tn_From tr = StatePlanning \<or> tn_From tr = StateVerifying \<or> tn_From tr = StateBuilding) then (Inl ErrEvidenceConflict, s)
      else transition_generic A s now tr)"

end
