(* ===== verification/StateMachine.thy ===== *)
theory StateMachine
  imports Domain "HOL-Library.Multiset"
begin

text \<open>
  The transition contract of \<^verbatim>\<open>internal/statemachine/spec.go\<close>: the shape of a specification, its
  validation, the guarded selection of a transition and the resolution of a symbolic target.
\<close>

section \<open>Specifications\<close>

record StateDefinition =
  sd_Kind :: string
  sd_ResumeAllowed :: bool

record Transition =
  tr_ID :: string
  tr_From :: "string list"
  tr_Trigger :: string
  tr_Guards :: "string list"
  tr_To :: string
  tr_ResumeState :: string
  tr_PhaseDisposition :: string
  tr_AllowedEffects :: "string list"
  tr_Invalidates :: "string list"
  tr_NextActionPolicy :: string

text \<open>
  The two Go maps are association lists with distinct keys. Go's iteration order over a map is
  unspecified; it only decides which of several offending states an error message names, so the
  two errors about states carry no name here.
\<close>

record Spec =
  sp_Schema :: string
  sp_Authority :: string
  sp_Default :: string
  sp_Selection :: string
  sp_States :: "(string \<times> StateDefinition) list"
  sp_InvalidationSets :: "(string \<times> string list) list"
  sp_Transitions :: "Transition list"

datatype spec_error =
    UnsupportedSchema string
  | AuthorityNotNormative
  | RulesRequired
  | StateCountMismatch nat nat
  | MissingDomainState
  | UnknownState
  | TransitionIncomplete nat
  | DuplicateTransition string
  | NoSourceState string
  | UnknownSource string string
  | UnknownTarget string string
  | UnknownResumeState string string
  | ErrNoTransition string string
  | ErrAmbiguousTransition "string list"
  | UnresolvedTarget string

definition contains :: "string list \<Rightarrow> string \<Rightarrow> bool" where
  "contains values v = list_ex (\<lambda>candidate. candidate = v) values"

definition has_state :: "Spec \<Rightarrow> string \<Rightarrow> bool" where
  "has_state s state \<longleftrightarrow> map_of (sp_States s) state \<noteq> None"

section \<open>Validation\<close>

text \<open>The loop over the sources of a transition stops at the first unknown one.\<close>

fun check_sources :: "Spec \<Rightarrow> string \<Rightarrow> string list \<Rightarrow> spec_error option" where
  "check_sources s ident [] = None"
| "check_sources s ident (from # rest) =
     (if from \<noteq> ''none'' \<and> \<not> has_state s from then Some (UnknownSource ident from)
      else check_sources s ident rest)"

text \<open>One turn of the loop over the transitions; \<open>ids\<close> holds the identifiers seen so far.\<close>

definition check_transition :: "Spec \<Rightarrow> string list \<Rightarrow> nat \<Rightarrow> Transition \<Rightarrow> spec_error option" where
  "check_transition s ids index t =
     (if tr_ID t = '''' \<or> tr_Trigger t = '''' \<or> tr_To t = '''' then Some (TransitionIncomplete index)
      else if tr_ID t \<in> set ids then Some (DuplicateTransition (tr_ID t))
      else if tr_From t = [] then Some (NoSourceState (tr_ID t))
      else case check_sources s (tr_ID t) (tr_From t) of
        Some e \<Rightarrow> Some e
      | None \<Rightarrow>
          if \<not> has_prefix ''$'' (tr_To t) \<and> \<not> has_state s (tr_To t)
            then Some (UnknownTarget (tr_ID t) (tr_To t))
          else if tr_ResumeState t \<noteq> '''' \<and> \<not> has_prefix ''$'' (tr_ResumeState t) \<and>
              \<not> has_state s (tr_ResumeState t)
            then Some (UnknownResumeState (tr_ID t) (tr_ResumeState t))
          else None)"

fun check_transitions :: "Spec \<Rightarrow> string list \<Rightarrow> nat \<Rightarrow> Transition list \<Rightarrow> spec_error option" where
  "check_transitions s ids index [] = None"
| "check_transitions s ids index (t # ts) =
     (case check_transition s ids index t of
        Some e \<Rightarrow> Some e
      | None \<Rightarrow> check_transitions s (tr_ID t # ids) (Suc index) ts)"

definition Validate :: "Spec \<Rightarrow> spec_error option" where
  "Validate s =
     (if sp_Schema s \<noteq> ''sf.state-machine.plan/v1'' then Some (UnsupportedSchema (sp_Schema s))
      else if sp_Authority s \<noteq> ''normative'' then Some AuthorityNotNormative
      else if TrimSpace (sp_Default s) = '''' \<or> TrimSpace (sp_Selection s) = '''' then Some RulesRequired
      else if length (sp_States s) \<noteq> length AllStates
        then Some (StateCountMismatch (length (sp_States s)) (length AllStates))
      else if \<not> list_all (has_state s) AllStates then Some MissingDomainState
      else if \<not> list_all (\<lambda>p. fst p \<in> set AllStates) (sp_States s) then Some UnknownState
      else check_transitions s [] 0 (sp_Transitions s))"

section \<open>Selection and target resolution\<close>

text \<open>The guards map yields \<open>false\<close> for an absent key, so it is a predicate on guard names.\<close>

definition transition_matches :: "string \<Rightarrow> string \<Rightarrow> (string \<Rightarrow> bool) \<Rightarrow> Transition \<Rightarrow> bool" where
  "transition_matches from trigger guards t \<longleftrightarrow>
     tr_Trigger t = trigger \<and> contains (tr_From t) from \<and> list_all guards (tr_Guards t)"

definition Select :: "Spec \<Rightarrow> string \<Rightarrow> string \<Rightarrow> (string \<Rightarrow> bool) \<Rightarrow> spec_error + Transition" where
  "Select s from trigger guards =
     (case filter (transition_matches from trigger guards) (sp_Transitions s) of
        [] \<Rightarrow> Inl (ErrNoTransition from trigger)
      | [t] \<Rightarrow> Inr t
      | ts \<Rightarrow> Inl (ErrAmbiguousTransition (sort (map tr_ID ts))))"

definition ResolveTarget :: "string \<Rightarrow> string \<Rightarrow> string \<Rightarrow> string \<Rightarrow> spec_error + string" where
  "ResolveTarget target from resumeState storedState =
     (let value = (if target = ''$same'' \<or> target = ''$from'' then from
                   else if target = ''$resume_state'' then resumeState
                   else if target = ''$stored'' then storedState
                   else target)
      in if State_Valid value then Inr value else Inl (UnresolvedTarget value))"

section \<open>Facts\<close>

lemma contains_iff: "contains xs x \<longleftrightarrow> x \<in> set xs"
  by (auto simp: contains_def list_ex_iff)

lemma has_state_iff: "has_state s x \<longleftrightarrow> x \<in> fst ` set (sp_States s)"
  by (auto simp: has_state_def map_of_eq_None_iff)

lemma check_sources_None:
  "check_sources s i fs = None \<longleftrightarrow> (\<forall>f \<in> set fs. f = ''none'' \<or> has_state s f)"
  by (induction fs) auto

text \<open>What the loop demands of one transition, without the order in which it looks.\<close>

definition transition_shape :: "(string \<Rightarrow> bool) \<Rightarrow> Transition \<Rightarrow> bool" where
  "transition_shape known t \<longleftrightarrow>
     tr_ID t \<noteq> '''' \<and> tr_Trigger t \<noteq> '''' \<and> tr_To t \<noteq> '''' \<and> tr_From t \<noteq> [] \<and>
     list_all (\<lambda>f. f = ''none'' \<or> known f) (tr_From t) \<and>
     (has_prefix ''$'' (tr_To t) \<or> known (tr_To t)) \<and>
     (tr_ResumeState t = '''' \<or> has_prefix ''$'' (tr_ResumeState t) \<or> known (tr_ResumeState t))"

lemma check_transition_None:
  "check_transition s ids n t = None \<longleftrightarrow> tr_ID t \<notin> set ids \<and> transition_shape (has_state s) t"
proof (cases "check_sources s (tr_ID t) (tr_From t)")
  case None
  then have "list_all (\<lambda>f. f = ''none'' \<or> has_state s f) (tr_From t)"
    by (simp add: check_sources_None list_all_iff)
  with None show ?thesis
    by (auto simp: check_transition_def transition_shape_def)
next
  case (Some e)
  then have "check_sources s (tr_ID t) (tr_From t) \<noteq> None" by simp
  then have "\<not> list_all (\<lambda>f. f = ''none'' \<or> has_state s f) (tr_From t)"
    unfolding check_sources_None list_all_iff by blast
  with Some show ?thesis
    by (auto simp: check_transition_def transition_shape_def)
qed

lemma check_transitions_None:
  "check_transitions s ids n ts = None \<longleftrightarrow>
     distinct (map tr_ID ts) \<and> set (map tr_ID ts) \<inter> set ids = {} \<and>
     list_all (transition_shape (has_state s)) ts"
proof (induction ts arbitrary: ids n)
  case (Cons t ts)
  show ?case
  proof (cases "check_transition s ids n t")
    case None
    then have "tr_ID t \<notin> set ids" and "transition_shape (has_state s) t"
      by (simp_all add: check_transition_None)
    with None show ?thesis by (auto simp: Cons.IH)
  next
    case (Some e)
    then have "check_transition s ids n t \<noteq> None" by simp
    then have "tr_ID t \<in> set ids \<or> \<not> transition_shape (has_state s) t"
      unfolding check_transition_None by blast
    with Some show ?thesis by auto
  qed
qed simp

lemma Validate_None:
  "Validate s = None \<longleftrightarrow>
     sp_Schema s = ''sf.state-machine.plan/v1'' \<and> sp_Authority s = ''normative'' \<and>
     TrimSpace (sp_Default s) \<noteq> '''' \<and> TrimSpace (sp_Selection s) \<noteq> '''' \<and>
     (length (sp_States s) = length AllStates \<and> list_all (has_state s) AllStates \<and>
      list_all (\<lambda>p. fst p \<in> set AllStates) (sp_States s)) \<and>
     distinct (map tr_ID (sp_Transitions s)) \<and>
     list_all (transition_shape (has_state s)) (sp_Transitions s)"
  by (auto simp: Validate_def check_transitions_None)

lemma Select_Inr_iff:
  "Select s from trig g = Inr t \<longleftrightarrow> filter (transition_matches from trig g) (sp_Transitions s) = [t]"
  by (auto simp: Select_def split: list.splits)

lemma Select_member:
  assumes "Select s from trig g = Inr t"
  shows "t \<in> set (sp_Transitions s)" and "tr_Trigger t = trig" and "from \<in> set (tr_From t)"
    and "list_all g (tr_Guards t)"
proof -
  from assms have "t \<in> set (filter (transition_matches from trig g) (sp_Transitions s))"
    by (simp add: Select_Inr_iff)
  then show "t \<in> set (sp_Transitions s)" and "tr_Trigger t = trig" and "from \<in> set (tr_From t)"
    and "list_all g (tr_Guards t)"
    by (auto simp: transition_matches_def contains_iff)
qed

text \<open>Where one entry alone carries a trigger, selection is a test of that entry.\<close>

lemma Select_single:
  assumes "filter (\<lambda>t. tr_Trigger t = trig) (sp_Transitions s) = [t]"
  shows "Select s from trig g = (if from \<in> set (tr_From t) \<and> list_all g (tr_Guards t) then Inr t
    else Inl (ErrNoTransition from trig))"
proof -
  have "filter (transition_matches from trig g) ts =
      filter (\<lambda>t. contains (tr_From t) from \<and> list_all g (tr_Guards t))
        (filter (\<lambda>t. tr_Trigger t = trig) ts)" for ts
    by (induction ts) (auto simp: transition_matches_def)
  then have "filter (transition_matches from trig g) (sp_Transitions s) =
      filter (\<lambda>t. contains (tr_From t) from \<and> list_all g (tr_Guards t)) [t]"
    unfolding assms [symmetric] .
  then show ?thesis by (simp add: Select_def contains_iff)
qed

lemma ResolveTarget_Valid: "ResolveTarget target from r st = Inr v \<Longrightarrow> State_Valid v"
  by (auto simp: ResolveTarget_def Let_def split: if_splits)

section \<open>Properties\<close>

text \<open>For a specification whose state map has distinct keys, as every Go map has, \<open>Validate\<close>
  accepts exactly the specifications with the supported schema and authority, non-blank rules,
  the domain's states and no others, pairwise distinct transition identifiers, and transitions
  whose sources, targets and resume states are known or symbolic.\<close>

theorem Validate_iff:
  assumes "distinct (map fst (sp_States s))"
  shows "Validate s = None \<longleftrightarrow>
    sp_Schema s = ''sf.state-machine.plan/v1'' \<and> sp_Authority s = ''normative'' \<and>
    TrimSpace (sp_Default s) \<noteq> '''' \<and> TrimSpace (sp_Selection s) \<noteq> '''' \<and>
    fst ` set (sp_States s) = set AllStates \<and>
    distinct (map tr_ID (sp_Transitions s)) \<and>
    (\<forall>t \<in> set (sp_Transitions s). transition_shape State_Valid t)"
proof -
  have len: "fst ` set (sp_States s) = set AllStates \<Longrightarrow> length (sp_States s) = length AllStates"
    using assms AllStates_distinct by (metis distinct_card length_map set_map)
  have states: "fst ` set (sp_States s) = set AllStates \<longleftrightarrow>
      length (sp_States s) = length AllStates \<and> list_all (has_state s) AllStates \<and>
      list_all (\<lambda>p. fst p \<in> set AllStates) (sp_States s)"
    using len by (auto simp: list_all_iff has_state_iff)
  have known: "has_state s = State_Valid" if "fst ` set (sp_States s) = set AllStates"
    using that by (auto simp: has_state_iff State_Valid_iff)
  show ?thesis
    unfolding Validate_None states using known states by (auto simp: list_all_iff)
qed

text \<open>\<open>Select\<close> returns a transition exactly when it is the only entry of the table, counted with
  multiplicity, whose trigger, source state and guards all match; it reports that no guard matched
  exactly when there is none, and an ambiguity otherwise, naming the matches in sorted order.\<close>

theorem Select_unique:
  "case Select s from trigger guards of
     Inr t \<Rightarrow> filter (transition_matches from trigger guards) (sp_Transitions s) = [t]
   | Inl (ErrNoTransition f tr) \<Rightarrow> f = from \<and> tr = trigger \<and>
       filter (transition_matches from trigger guards) (sp_Transitions s) = []
   | Inl (ErrAmbiguousTransition ids) \<Rightarrow> sorted ids \<and>
       mset ids = image_mset tr_ID (filter_mset (transition_matches from trigger guards)
         (mset (sp_Transitions s))) \<and> 2 \<le> length ids
   | Inl _ \<Rightarrow> False"
proof (cases "filter (transition_matches from trigger guards) (sp_Transitions s)" rule: remdups_adj.cases)
  case 1
  then show ?thesis by (simp add: Select_def)
next
  case (2 t)
  then show ?thesis by (simp add: Select_def)
next
  case (3 t u ts)
  then have "image_mset tr_ID (filter_mset (transition_matches from trigger guards)
      (mset (sp_Transitions s))) = mset (map tr_ID (t # u # ts))"
    by (metis mset_filter mset_map)
  with 3 show ?thesis by (simp add: Select_def sorted_insort)
qed

end
