(* ===== verification/ApprovedPlan.thy ===== *)
theory ApprovedPlan
  imports StateMachine
begin

text \<open>
  The normative transition table that the binary embeds
  (\<^verbatim>\<open>docs/plans/2026-08-29-software-factory-v1-state-machine.json\<close>), as a value of the specification
  type, entry by entry in the order of the artifact. A field the JSON leaves out is the empty
  string, which is what Go's decoder stores. \<open>LoadApproved\<close> accepts this artifact and no other, so
  the theorems about \<open>approved_spec\<close> are about the table every running daemon uses.
\<close>

section \<open>The artifact\<close>

definition approved_states :: "(string \<times> StateDefinition) list" where
  "approved_states =
     [(''queued'', \<lparr>sd_Kind = ''idle'', sd_ResumeAllowed = False\<rparr>),
      (''planning'', \<lparr>sd_Kind = ''active'', sd_ResumeAllowed = True\<rparr>),
      (''verifying'', \<lparr>sd_Kind = ''active'', sd_ResumeAllowed = True\<rparr>),
      (''building'', \<lparr>sd_Kind = ''active'', sd_ResumeAllowed = True\<rparr>),
      (''publishing'', \<lparr>sd_Kind = ''active'', sd_ResumeAllowed = True\<rparr>),
      (''waiting_ci'', \<lparr>sd_Kind = ''wait'', sd_ResumeAllowed = True\<rparr>),
      (''reviewing'', \<lparr>sd_Kind = ''active'', sd_ResumeAllowed = True\<rparr>),
      (''waiting_approval'', \<lparr>sd_Kind = ''wait'', sd_ResumeAllowed = True\<rparr>),
      (''waiting_manual_merge'', \<lparr>sd_Kind = ''wait'', sd_ResumeAllowed = True\<rparr>),
      (''merging'', \<lparr>sd_Kind = ''active'', sd_ResumeAllowed = True\<rparr>),
      (''reconciling'', \<lparr>sd_Kind = ''active'', sd_ResumeAllowed = True\<rparr>),
      (''stopping'', \<lparr>sd_Kind = ''control'', sd_ResumeAllowed = False\<rparr>),
      (''cancelling'', \<lparr>sd_Kind = ''control'', sd_ResumeAllowed = False\<rparr>),
      (''paused'', \<lparr>sd_Kind = ''operator'', sd_ResumeAllowed = True\<rparr>),
      (''blocked'', \<lparr>sd_Kind = ''operator'', sd_ResumeAllowed = True\<rparr>),
      (''done'', \<lparr>sd_Kind = ''terminal'', sd_ResumeAllowed = False\<rparr>),
      (''external_merged'', \<lparr>sd_Kind = ''terminal'', sd_ResumeAllowed = False\<rparr>),
      (''cancelled'', \<lparr>sd_Kind = ''terminal'', sd_ResumeAllowed = False\<rparr>)]"

definition approved_invalidation_sets :: "(string \<times> string list) list" where
  "approved_invalidation_sets =
     [(''candidate'', [''proof_result'', ''github_checks'', ''final_review'', ''approval'']),
      (''proof'', [''verification_intent'', ''proof_result'', ''github_checks'', ''final_review'', ''approval'']),
      (''acceptance'', [''plan'', ''verification_intent'', ''proof_result'', ''github_checks'', ''final_review'', ''approval''])]"

definition lifecycle_transitions :: "Transition list" where
  "lifecycle_transitions =
     [\<lparr>tr_ID = ''submit'', tr_From = [''none''],
        tr_Trigger = ''submit_valid'',
        tr_Guards = [''trusted_project'', ''ticket_digest_not_active_or_explicit_new''],
        tr_To = ''queued'', tr_ResumeState = '''', tr_PhaseDisposition = ''none'',
        tr_AllowedEffects = [], tr_Invalidates = [],
        tr_NextActionPolicy = ''''\<rparr>,
      \<lparr>tr_ID = ''start'', tr_From = [''queued''],
        tr_Trigger = ''operator_start'',
        tr_Guards = [''doctor_preflight_green'', ''capacity_available''],
        tr_To = ''planning'', tr_ResumeState = '''', tr_PhaseDisposition = ''start_planning'',
        tr_AllowedEffects = [''worktree_create''], tr_Invalidates = [],
        tr_NextActionPolicy = ''''\<rparr>,
      \<lparr>tr_ID = ''plan_pass'', tr_From = [''planning''],
        tr_Trigger = ''phase_pass'',
        tr_Guards = [''typed_plan_valid''],
        tr_To = ''verifying'', tr_ResumeState = '''', tr_PhaseDisposition = ''complete_planning_start_verification'',
        tr_AllowedEffects = [], tr_Invalidates = [],
        tr_NextActionPolicy = ''''\<rparr>,
      \<lparr>tr_ID = ''plan_questions'', tr_From = [''planning''],
        tr_Trigger = ''needs_operator_input'',
        tr_Guards = [''questions_bounded''],
        tr_To = ''paused'', tr_ResumeState = ''planning'', tr_PhaseDisposition = ''pause'',
        tr_AllowedEffects = [], tr_Invalidates = [],
        tr_NextActionPolicy = ''''\<rparr>,
      \<lparr>tr_ID = ''verification_pass'', tr_From = [''verifying''],
        tr_Trigger = ''phase_pass'',
        tr_Guards = [''independent_intent_valid'', ''prebuild_proof_valid'', ''verification_checkpoint_committed''],
        tr_To = ''building'', tr_ResumeState = '''', tr_PhaseDisposition = ''complete_verification_start_build'',
        tr_AllowedEffects = [''local_commit''], tr_Invalidates = [],
        tr_NextActionPolicy = ''''\<rparr>,
      \<lparr>tr_ID = ''verification_amended'', tr_From = [''verifying''],
        tr_Trigger = ''amendment_accepted'',
        tr_Guards = [''fresh_reviewer'', ''old_and_new_digest_bound'', ''correction_available''],
        tr_To = ''building'', tr_ResumeState = '''', tr_PhaseDisposition = ''complete_verification_start_build'',
        tr_AllowedEffects = [''local_commit''], tr_Invalidates = [''proof''],
        tr_NextActionPolicy = ''''\<rparr>,
      \<lparr>tr_ID = ''build_requests_verification_amendment'', tr_From = [''building''],
        tr_Trigger = ''verification_amendment_requested'',
        tr_Guards = [''amendment_request_valid'', ''correction_available''],
        tr_To = ''verifying'', tr_ResumeState = '''', tr_PhaseDisposition = ''start_verification_amendment_review'',
        tr_AllowedEffects = [], tr_Invalidates = [],
        tr_NextActionPolicy = ''''\<rparr>,
      \<lparr>tr_ID = ''verification_amendment_rejected'', tr_From = [''verifying''],
        tr_Trigger = ''amendment_rejected'',
        tr_Guards = [''fresh_reviewer'', ''original_verification_intent_current'', ''correction_available''],
        tr_To = ''building'', tr_ResumeState = '''', tr_PhaseDisposition = ''start_build_retry_with_original_verification'',
        tr_AllowedEffects = [], tr_Invalidates = [],
        tr_NextActionPolicy = ''''\<rparr>,
      \<lparr>tr_ID = ''postbuild_repair'', tr_From = [''building''],
        tr_Trigger = ''postbuild_repair'',
        tr_Guards = [''failed_postbuild_evidence_exact'', ''prepublication_only'', ''retained_worktree_exact'', ''correction_available'', ''no_live_writer''],
        tr_To = ''building'', tr_ResumeState = '''', tr_PhaseDisposition = ''start_bounded_build_diagnosis'',
        tr_AllowedEffects = [], tr_Invalidates = [],
        tr_NextActionPolicy = ''''\<rparr>,
      \<lparr>tr_ID = ''build_pass'', tr_From = [''building''],
        tr_Trigger = ''phase_pass'',
        tr_Guards = [''ticket_type_not_spike'', ''proof_green'', ''diff_valid'', ''git_control_plane_valid'', ''candidate_checkpoint_committed''],
        tr_To = ''publishing'', tr_ResumeState = '''', tr_PhaseDisposition = ''complete_build_start_publish'',
        tr_AllowedEffects = [''local_commit''], tr_Invalidates = [''candidate''],
        tr_NextActionPolicy = ''''\<rparr>,
      \<lparr>tr_ID = ''build_pass_spike'', tr_From = [''building''],
        tr_Trigger = ''phase_pass'',
        tr_Guards = [''ticket_type_spike'', ''proof_green'', ''diff_valid'', ''git_control_plane_valid'', ''candidate_checkpoint_committed''],
        tr_To = ''reviewing'', tr_ResumeState = '''', tr_PhaseDisposition = ''complete_build_start_report_review'',
        tr_AllowedEffects = [''local_commit''], tr_Invalidates = [''candidate''],
        tr_NextActionPolicy = ''''\<rparr>,
      \<lparr>tr_ID = ''publish_pass'', tr_From = [''publishing''],
        tr_Trigger = ''effects_confirmed'',
        tr_Guards = [''remote_head_exact'', ''draft_pr_exact''],
        tr_To = ''waiting_ci'', tr_ResumeState = '''', tr_PhaseDisposition = ''complete_publish'',
        tr_AllowedEffects = [''branch_push'', ''draft_pr_create'', ''draft_pr_update''], tr_Invalidates = [],
        tr_NextActionPolicy = ''''\<rparr>]"

definition review_transitions :: "Transition list" where
  "review_transitions =
     [\<lparr>tr_ID = ''first_pr_endpoint'', tr_From = [''waiting_ci''],
        tr_Trigger = ''endpoint_reached'',
        tr_Guards = [''execution_endpoint_pr'', ''first_pr_handoff_unconsumed'', ''publication_witness_exact''],
        tr_To = ''paused'', tr_ResumeState = ''waiting_ci'', tr_PhaseDisposition = ''pause'',
        tr_AllowedEffects = [], tr_Invalidates = [],
        tr_NextActionPolicy = ''''\<rparr>,
      \<lparr>tr_ID = ''ci_pending'', tr_From = [''waiting_ci''],
        tr_Trigger = ''checks_pending'',
        tr_Guards = [''candidate_head_unchanged''],
        tr_To = ''waiting_ci'', tr_ResumeState = '''', tr_PhaseDisposition = ''wait'',
        tr_AllowedEffects = [], tr_Invalidates = [],
        tr_NextActionPolicy = ''''\<rparr>,
      \<lparr>tr_ID = ''ci_green'', tr_From = [''waiting_ci''],
        tr_Trigger = ''checks_green'',
        tr_Guards = [''required_check_set_exact'', ''candidate_head_unchanged''],
        tr_To = ''reviewing'', tr_ResumeState = '''', tr_PhaseDisposition = ''start_final_review'',
        tr_AllowedEffects = [], tr_Invalidates = [],
        tr_NextActionPolicy = ''''\<rparr>,
      \<lparr>tr_ID = ''ci_red_repair'', tr_From = [''waiting_ci''],
        tr_Trigger = ''checks_red'',
        tr_Guards = [''correction_available''],
        tr_To = ''building'', tr_ResumeState = '''', tr_PhaseDisposition = ''start_build_repair'',
        tr_AllowedEffects = [], tr_Invalidates = [''candidate''],
        tr_NextActionPolicy = ''''\<rparr>,
      \<lparr>tr_ID = ''ci_red_exhausted'', tr_From = [''waiting_ci''],
        tr_Trigger = ''checks_red'',
        tr_Guards = [''correction_exhausted''],
        tr_To = ''paused'', tr_ResumeState = ''waiting_ci'', tr_PhaseDisposition = ''pause'',
        tr_AllowedEffects = [], tr_Invalidates = [],
        tr_NextActionPolicy = ''''\<rparr>,
      \<lparr>tr_ID = ''review_repair'', tr_From = [''reviewing''],
        tr_Trigger = ''review_repair'',
        tr_Guards = [''correction_available'', ''repair_owner_builder''],
        tr_To = ''building'', tr_ResumeState = '''', tr_PhaseDisposition = ''start_build_repair'',
        tr_AllowedEffects = [], tr_Invalidates = [''candidate''],
        tr_NextActionPolicy = ''''\<rparr>,
      \<lparr>tr_ID = ''review_proof_repair'', tr_From = [''reviewing''],
        tr_Trigger = ''review_repair'',
        tr_Guards = [''correction_available'', ''repair_owner_verification''],
        tr_To = ''verifying'', tr_ResumeState = '''', tr_PhaseDisposition = ''start_verification_amendment'',
        tr_AllowedEffects = [], tr_Invalidates = [''proof''],
        tr_NextActionPolicy = ''''\<rparr>,
      \<lparr>tr_ID = ''review_pass_guarded'', tr_From = [''reviewing''],
        tr_Trigger = ''review_pass'',
        tr_Guards = [''ticket_type_not_spike'', ''merge_mode_guarded'', ''all_nonapproval_gates_green''],
        tr_To = ''waiting_approval'', tr_ResumeState = '''', tr_PhaseDisposition = ''complete_review'',
        tr_AllowedEffects = [], tr_Invalidates = [],
        tr_NextActionPolicy = ''''\<rparr>,
      \<lparr>tr_ID = ''review_pass_manual'', tr_From = [''reviewing''],
        tr_Trigger = ''review_pass'',
        tr_Guards = [''ticket_type_not_spike'', ''merge_mode_manual'', ''all_nonapproval_gates_green''],
        tr_To = ''waiting_manual_merge'', tr_ResumeState = '''', tr_PhaseDisposition = ''complete_review'',
        tr_AllowedEffects = [], tr_Invalidates = [],
        tr_NextActionPolicy = ''''\<rparr>,
      \<lparr>tr_ID = ''review_pass_autonomous'', tr_From = [''reviewing''],
        tr_Trigger = ''review_pass'',
        tr_Guards = [''ticket_type_not_spike'', ''merge_mode_autonomous'', ''autonomy_eligible'', ''all_gates_green''],
        tr_To = ''merging'', tr_ResumeState = '''', tr_PhaseDisposition = ''complete_review_start_merge'',
        tr_AllowedEffects = [''pr_mark_ready'', ''merge_request''], tr_Invalidates = [],
        tr_NextActionPolicy = ''''\<rparr>,
      \<lparr>tr_ID = ''autonomy_blocked'', tr_From = [''reviewing''],
        tr_Trigger = ''review_pass'',
        tr_Guards = [''ticket_type_not_spike'', ''merge_mode_autonomous'', ''autonomy_ineligible''],
        tr_To = ''blocked'', tr_ResumeState = ''reviewing'', tr_PhaseDisposition = ''block'',
        tr_AllowedEffects = [], tr_Invalidates = [],
        tr_NextActionPolicy = ''restore_missing_gate_or_explicitly_narrow_to_guarded''\<rparr>]"

definition completion_transitions :: "Transition list" where
  "completion_transitions =
     [\<lparr>tr_ID = ''approve_guarded'', tr_From = [''waiting_approval''],
        tr_Trigger = ''operator_approve'',
        tr_Guards = [''operator_identity_authenticated'', ''approval_head_exact'', ''all_nonapproval_gates_green''],
        tr_To = ''merging'', tr_ResumeState = '''', tr_PhaseDisposition = ''start_merge'',
        tr_AllowedEffects = [''approval_record'', ''pr_mark_ready'', ''merge_request''], tr_Invalidates = [],
        tr_NextActionPolicy = ''''\<rparr>,
      \<lparr>tr_ID = ''reject_guarded'', tr_From = [''waiting_approval''],
        tr_Trigger = ''operator_reject'',
        tr_Guards = [''operator_identity_authenticated'', ''rejection_reason_bounded'', ''ticket_ceiling_available''],
        tr_To = ''building'', tr_ResumeState = '''', tr_PhaseDisposition = ''start_operator_repair'',
        tr_AllowedEffects = [''rejection_record''], tr_Invalidates = [''candidate''],
        tr_NextActionPolicy = ''''\<rparr>,
      \<lparr>tr_ID = ''reject_manual'', tr_From = [''waiting_manual_merge''],
        tr_Trigger = ''operator_reject'',
        tr_Guards = [''operator_identity_authenticated'', ''rejection_reason_bounded'', ''ticket_ceiling_available''],
        tr_To = ''building'', tr_ResumeState = '''', tr_PhaseDisposition = ''start_operator_repair'',
        tr_AllowedEffects = [''rejection_record''], tr_Invalidates = [''candidate''],
        tr_NextActionPolicy = ''''\<rparr>,
      \<lparr>tr_ID = ''external_merge_verified'', tr_From = [''waiting_manual_merge''],
        tr_Trigger = ''external_merge_observed'',
        tr_Guards = [''merged_pr_identity_exact'', ''merged_source_head_equals_reviewed_head'', ''required_checks_green'', ''mode_completion_policy_satisfied''],
        tr_To = ''reconciling'', tr_ResumeState = '''', tr_PhaseDisposition = ''observe_and_reconcile_external_completion'',
        tr_AllowedEffects = [], tr_Invalidates = [],
        tr_NextActionPolicy = ''''\<rparr>,
      \<lparr>tr_ID = ''external_merge_unverified'', tr_From = [''waiting_approval'', ''waiting_manual_merge''],
        tr_Trigger = ''external_merge_observed'',
        tr_Guards = [''merge_exists'', ''verified_external_completion_guards_not_all_satisfied''],
        tr_To = ''external_merged'', tr_ResumeState = '''', tr_PhaseDisposition = ''terminal_unverified'',
        tr_AllowedEffects = [], tr_Invalidates = [],
        tr_NextActionPolicy = ''''\<rparr>,
      \<lparr>tr_ID = ''merge_confirmed'', tr_From = [''merging''],
        tr_Trigger = ''merge_observed'',
        tr_Guards = [''source_head_equals_reviewed_head'', ''protected_branch_contains_merge''],
        tr_To = ''reconciling'', tr_ResumeState = '''', tr_PhaseDisposition = ''complete_merge_start_reconcile'',
        tr_AllowedEffects = [''merge_observation''], tr_Invalidates = [],
        tr_NextActionPolicy = ''''\<rparr>,
      \<lparr>tr_ID = ''reconcile_done'', tr_From = [''reconciling''],
        tr_Trigger = ''reconcile_pass'',
        tr_Guards = [''terminal_remote_truth_exact''],
        tr_To = ''done'', tr_ResumeState = '''', tr_PhaseDisposition = ''terminal_verified'',
        tr_AllowedEffects = [], tr_Invalidates = [],
        tr_NextActionPolicy = ''''\<rparr>,
      \<lparr>tr_ID = ''spike_done'', tr_From = [''reviewing''],
        tr_Trigger = ''review_pass'',
        tr_Guards = [''ticket_type_spike'', ''report_present'', ''no_merge_effect''],
        tr_To = ''done'', tr_ResumeState = '''', tr_PhaseDisposition = ''terminal_report_only'',
        tr_AllowedEffects = [], tr_Invalidates = [],
        tr_NextActionPolicy = ''''\<rparr>,
      \<lparr>tr_ID = ''bounded_phase_retry'', tr_From = [''planning'', ''verifying'', ''building'', ''publishing'', ''reviewing'', ''reconciling''],
        tr_Trigger = ''phase_retryable_failure'',
        tr_Guards = [''retry_available'', ''runner_epoch_current''],
        tr_To = ''$same'', tr_ResumeState = '''', tr_PhaseDisposition = ''new_attempt'',
        tr_AllowedEffects = [], tr_Invalidates = [],
        tr_NextActionPolicy = ''''\<rparr>,
      \<lparr>tr_ID = ''retry_exhausted'', tr_From = [''planning'', ''verifying'', ''building'', ''publishing'', ''waiting_ci'', ''reviewing'', ''merging'', ''reconciling''],
        tr_Trigger = ''retry_or_correction_exhausted'',
        tr_Guards = [],
        tr_To = ''paused'', tr_ResumeState = ''$from'', tr_PhaseDisposition = ''pause'',
        tr_AllowedEffects = [], tr_Invalidates = [],
        tr_NextActionPolicy = ''''\<rparr>,
      \<lparr>tr_ID = ''candidate_changed'', tr_From = [''publishing'', ''waiting_ci'', ''reviewing'', ''waiting_approval'', ''waiting_manual_merge'', ''merging''],
        tr_Trigger = ''base_or_candidate_head_changed'',
        tr_Guards = [''merge_not_observed'', ''refresh_budget_available''],
        tr_To = ''building'', tr_ResumeState = '''', tr_PhaseDisposition = ''start_refresh_and_proof'',
        tr_AllowedEffects = [], tr_Invalidates = [''candidate''],
        tr_NextActionPolicy = ''''\<rparr>]"

definition control_transitions :: "Transition list" where
  "control_transitions =
     [\<lparr>tr_ID = ''pause_or_take'', tr_From = [''planning'', ''verifying'', ''building'', ''publishing'', ''waiting_ci'', ''reviewing'', ''waiting_approval'', ''waiting_manual_merge'', ''merging'', ''reconciling''],
        tr_Trigger = ''operator_pause_or_take'',
        tr_Guards = [''operator_identity_authenticated''],
        tr_To = ''stopping'', tr_ResumeState = ''$from'', tr_PhaseDisposition = ''invalidate_runner_epoch_and_drain'',
        tr_AllowedEffects = [''observe_inflight_effect''], tr_Invalidates = [],
        tr_NextActionPolicy = ''''\<rparr>,
      \<lparr>tr_ID = ''stopped'', tr_From = [''stopping''],
        tr_Trigger = ''process_and_effects_drained'',
        tr_Guards = [''no_live_writer'', ''no_unreconciled_mutation''],
        tr_To = ''paused'', tr_ResumeState = ''$stored'', tr_PhaseDisposition = ''pause'',
        tr_AllowedEffects = [], tr_Invalidates = [],
        tr_NextActionPolicy = ''''\<rparr>,
      \<lparr>tr_ID = ''resume_unchanged'', tr_From = [''paused''],
        tr_Trigger = ''operator_resume'',
        tr_Guards = [''operator_identity_authenticated'', ''takeover_diff_none'', ''branch_remote_identity_exact'', ''prerequisites_green''],
        tr_To = ''$resume_state'', tr_ResumeState = '''', tr_PhaseDisposition = ''resume'',
        tr_AllowedEffects = [], tr_Invalidates = [],
        tr_NextActionPolicy = ''''\<rparr>,
      \<lparr>tr_ID = ''resume_first_pr_endpoint'', tr_From = [''paused''],
        tr_Trigger = ''operator_resume'',
        tr_Guards = [''operator_identity_authenticated'', ''pause_reason_pr_opened'', ''publication_witness_exact'', ''first_pr_handoff_unconsumed''],
        tr_To = ''waiting_ci'', tr_ResumeState = '''', tr_PhaseDisposition = ''resume'',
        tr_AllowedEffects = [], tr_Invalidates = [],
        tr_NextActionPolicy = ''''\<rparr>,
      \<lparr>tr_ID = ''resume_source_changes'', tr_From = [''paused''],
        tr_Trigger = ''operator_resume'',
        tr_Guards = [''operator_identity_authenticated'', ''takeover_source_commit_valid'', ''verification_files_unchanged'', ''branch_remote_identity_exact''],
        tr_To = ''verifying'', tr_ResumeState = '''', tr_PhaseDisposition = ''start_fresh_verification'',
        tr_AllowedEffects = [], tr_Invalidates = [''candidate'', ''proof''],
        tr_NextActionPolicy = ''''\<rparr>,
      \<lparr>tr_ID = ''resume_proof_changes'', tr_From = [''paused''],
        tr_Trigger = ''operator_resume'',
        tr_Guards = [''operator_identity_authenticated'', ''takeover_verification_diff_present'', ''branch_remote_identity_exact''],
        tr_To = ''verifying'', tr_ResumeState = '''', tr_PhaseDisposition = ''start_operator_amendment_review'',
        tr_AllowedEffects = [], tr_Invalidates = [''proof''],
        tr_NextActionPolicy = ''''\<rparr>,
      \<lparr>tr_ID = ''resume_invalid_control_plane'', tr_From = [''paused''],
        tr_Trigger = ''operator_resume'',
        tr_Guards = [''operator_identity_authenticated'', ''branch_remote_or_git_control_plane_mismatch''],
        tr_To = ''blocked'', tr_ResumeState = ''$resume_state'', tr_PhaseDisposition = ''block'',
        tr_AllowedEffects = [], tr_Invalidates = [],
        tr_NextActionPolicy = ''''\<rparr>,
      \<lparr>tr_ID = ''retry_paused'', tr_From = [''paused''],
        tr_Trigger = ''operator_retry'',
        tr_Guards = [''operator_identity_authenticated'', ''pause_reason_retryable'', ''typed_prerequisites_satisfied'', ''runner_epoch_current''],
        tr_To = ''$resume_state'', tr_ResumeState = '''', tr_PhaseDisposition = ''new_attempt'',
        tr_AllowedEffects = [], tr_Invalidates = [],
        tr_NextActionPolicy = ''''\<rparr>,
      \<lparr>tr_ID = ''cancel'', tr_From = [''queued'', ''planning'', ''verifying'', ''building'', ''publishing'', ''waiting_ci'', ''reviewing'', ''waiting_approval'', ''waiting_manual_merge'', ''merging'', ''reconciling'', ''paused'', ''blocked'', ''stopping''],
        tr_Trigger = ''operator_cancel'',
        tr_Guards = [''operator_identity_authenticated'', ''merge_not_observed''],
        tr_To = ''cancelling'', tr_ResumeState = '''', tr_PhaseDisposition = ''invalidate_runner_epoch_drain_and_reconcile'',
        tr_AllowedEffects = [''observe_inflight_effect''], tr_Invalidates = [],
        tr_NextActionPolicy = ''''\<rparr>,
      \<lparr>tr_ID = ''cancelled'', tr_From = [''cancelling''],
        tr_Trigger = ''process_and_effects_drained'',
        tr_Guards = [''no_live_writer'', ''no_unreconciled_mutation''],
        tr_To = ''cancelled'', tr_ResumeState = '''', tr_PhaseDisposition = ''terminal_cancelled'',
        tr_AllowedEffects = [], tr_Invalidates = [],
        tr_NextActionPolicy = ''''\<rparr>,
      \<lparr>tr_ID = ''safety_or_host_block'', tr_From = [''queued'', ''planning'', ''verifying'', ''building'', ''publishing'', ''waiting_ci'', ''reviewing'', ''waiting_approval'', ''waiting_manual_merge'', ''merging'', ''reconciling'', ''stopping'', ''cancelling''],
        tr_Trigger = ''typed_blocker'',
        tr_Guards = [''no_unreconciled_external_mutation''],
        tr_To = ''blocked'', tr_ResumeState = ''$from'', tr_PhaseDisposition = ''block'',
        tr_AllowedEffects = [], tr_Invalidates = [],
        tr_NextActionPolicy = ''''\<rparr>,
      \<lparr>tr_ID = ''recover_blocked'', tr_From = [''blocked''],
        tr_Trigger = ''operator_recover'',
        tr_Guards = [''operator_identity_authenticated'', ''typed_prerequisites_satisfied'', ''no_live_writer'', ''runner_epoch_current''],
        tr_To = ''$resume_state'', tr_ResumeState = '''', tr_PhaseDisposition = ''resume'',
        tr_AllowedEffects = [], tr_Invalidates = [],
        tr_NextActionPolicy = ''''\<rparr>,
      \<lparr>tr_ID = ''recover_autonomy_as_guarded'', tr_From = [''blocked''],
        tr_Trigger = ''operator_recover_as_guarded'',
        tr_Guards = [''operator_identity_authenticated'', ''block_reason_autonomy_ineligible'', ''project_allows_guarded'', ''no_live_writer'', ''merge_not_observed''],
        tr_To = ''building'', tr_ResumeState = '''', tr_PhaseDisposition = ''snapshot_guarded_override_and_restart_candidate_cycle'',
        tr_AllowedEffects = [], tr_Invalidates = [''candidate''],
        tr_NextActionPolicy = ''''\<rparr>]"

definition approved_spec :: Spec where
  "approved_spec =
     \<lparr>sp_Schema = ''sf.state-machine.plan/v1'',
      sp_Authority = ''normative'',
      sp_Default = ''Any state/trigger pair not listed is forbidden.'',
      sp_Selection = ''For a listed state/trigger pair exactly one transition guard set must match; zero matches is a typed refusal and multiple matches is an invariant failure.'',
      sp_States = approved_states,
      sp_InvalidationSets = approved_invalidation_sets,
      sp_Transitions = lifecycle_transitions @ review_transitions @ completion_transitions @
        control_transitions\<rparr>"

section \<open>Facts about the table\<close>

lemmas approved_transitions_defs =
  approved_spec_def lifecycle_transitions_def review_transitions_def completion_transitions_def
  control_transitions_def

lemma approved_states_known: "fst ` set (sp_States approved_spec) = set AllStates"
  by (auto simp: approved_spec_def approved_states_def AllStates_def state_defs)

lemma approved_states_distinct: "distinct (map fst (sp_States approved_spec))"
  by (simp add: approved_spec_def approved_states_def)

lemma approved_ids_distinct: "distinct (map tr_ID (sp_Transitions approved_spec))"
  by (simp add: approved_transitions_defs)

lemma approved_shapes: "list_all (transition_shape State_Valid) (sp_Transitions approved_spec)"
  by code_simp

lemma approved_rules: "TrimSpace (sp_Default approved_spec) \<noteq> ''''"
  "TrimSpace (sp_Selection approved_spec) \<noteq> ''''"
  by code_simp+

lemma approved_head: "sp_Schema approved_spec = ''sf.state-machine.plan/v1''"
  "sp_Authority approved_spec = ''normative''"
  by (simp_all add: approved_spec_def)

text \<open>A row that leaves exactly one state on one trigger under at least the given guards.\<close>

definition entry :: "string \<Rightarrow> string \<Rightarrow> string list \<Rightarrow> Transition \<Rightarrow> bool" where
  "entry from trigger guards t \<longleftrightarrow>
     tr_From t = [from] \<and> tr_Trigger t = trigger \<and> list_all (contains (tr_Guards t)) guards"

text \<open>A statement about every selectable transition of the table is a check of its rows.\<close>

lemma approved_selection:
  assumes "Select approved_spec from trig g = Inr t"
    and "list_all P (sp_Transitions approved_spec)"
  shows "P t"
  using Select_member(1) [OF assms(1)] assms(2) by (simp add: list_all_iff)

lemma entry_selected:
  assumes "Select approved_spec from trig g = Inr t"
  shows "entry from' trig' [] t \<Longrightarrow> from = from' \<and> trig = trig'"
    and "entry from' trig' [a] t \<Longrightarrow> from = from' \<and> trig = trig' \<and> g a"
    and "entry from' trig' [a, b] t \<Longrightarrow> from = from' \<and> trig = trig' \<and> g a \<and> g b"
    and "entry from' trig' [a, b, c] t \<Longrightarrow> from = from' \<and> trig = trig' \<and> g a \<and> g b \<and> g c"
  using Select_member(2-4) [OF assms] by (simp_all add: entry_def contains_iff list_all_iff)

definition selects :: "string \<Rightarrow> string \<Rightarrow> (string \<Rightarrow> bool) \<Rightarrow> string \<Rightarrow> bool" where
  "selects from trigger guards to \<longleftrightarrow>
     (case Select approved_spec from trigger guards of Inr t \<Rightarrow> tr_To t = to | Inl _ \<Rightarrow> False)"

section \<open>Properties\<close>

theorem Validate_iff_witness:
  "distinct (map fst (sp_States approved_spec)) \<and> Validate approved_spec = None"
  using Validate_iff [OF approved_states_distinct] approved_states_known approved_states_distinct
    approved_ids_distinct approved_shapes approved_rules approved_head
  by (simp add: list_all_iff)

text \<open>The artifact compiled into the binary passes validation, so a daemon that loads it never
  fails at that step.\<close>

theorem approved_spec_valid: "Validate approved_spec = None"
proof -
  have "has_state approved_spec = State_Valid"
    using approved_states_known by (auto simp: has_state_iff State_Valid_iff)
  moreover have "length (sp_States approved_spec) = length AllStates"
    by (simp add: approved_spec_def approved_states_def AllStates_def)
  moreover have "list_all (\<lambda>p. fst p \<in> set AllStates) (sp_States approved_spec)"
    using approved_states_known by (auto simp: list_all_iff)
  ultimately show ?thesis
    using approved_ids_distinct approved_shapes approved_rules approved_head
    by (simp add: Validate_None list_all_iff State_Valid_iff)
qed

text \<open>No trigger and no set of guard results selects a transition out of a terminal state, so a
  ticket that is done, externally merged or cancelled stays there.\<close>

theorem approved_terminal_absorbing:
  assumes "State_Terminal from"
  shows "Select approved_spec from trigger guards = Inl (ErrNoTransition from trigger)"
proof -
  have "list_all (\<lambda>t. StateDone \<notin> set (tr_From t) \<and> StateExternalMerged \<notin> set (tr_From t) \<and>
      StateCancelled \<notin> set (tr_From t)) (sp_Transitions approved_spec)"
    by code_simp
  with assms have "filter (transition_matches from trigger guards) (sp_Transitions approved_spec) = []"
    by (auto simp: filter_empty_conv list_all_iff transition_matches_def contains_iff State_Terminal_def)
  then show ?thesis by (simp add: Select_def)
qed

theorem approved_terminal_absorbing_witness:
  "Select approved_spec StateDone ''operator_cancel'' (\<lambda>_. True) =
     Inl (ErrNoTransition StateDone ''operator_cancel'')"
  by (rule approved_terminal_absorbing) (simp add: State_Terminal_def)

text \<open>The table enters \<open>merging\<close> by name, or allows a merge request, only from a waiting approval
  whose authenticated operator approved the exact head, or from a review with an eligible
  autonomous mode and every gate green; and it completes a ticket only on exact remote truth after
  reconciliation, or for a spike with a report and no merge.\<close>

theorem approved_merge_gates:
  assumes "Select approved_spec from trigger guards = Inr t"
  shows "(tr_To t = StateMerging \<or> ''merge_request'' \<in> set (tr_AllowedEffects t) \<longrightarrow>
      from = StateWaitingApproval \<and> trigger = ''operator_approve'' \<and>
        guards ''operator_identity_authenticated'' \<and> guards ''approval_head_exact'' \<and>
        guards ''all_nonapproval_gates_green'' \<or>
      from = StateReviewing \<and> trigger = ''review_pass'' \<and> guards ''merge_mode_autonomous'' \<and>
        guards ''autonomy_eligible'' \<and> guards ''all_gates_green'') \<and>
    (tr_To t = StateDone \<longrightarrow>
      from = StateReconciling \<and> trigger = ''reconcile_pass'' \<and> guards ''terminal_remote_truth_exact'' \<or>
      from = StateReviewing \<and> trigger = ''review_pass'' \<and> guards ''ticket_type_spike'' \<and>
        guards ''report_present'' \<and> guards ''no_merge_effect'')"
proof -
  have "list_all (\<lambda>t.
      (tr_To t = StateMerging \<or> ''merge_request'' \<in> set (tr_AllowedEffects t) \<longrightarrow>
         entry StateWaitingApproval ''operator_approve''
           [''operator_identity_authenticated'', ''approval_head_exact'', ''all_nonapproval_gates_green''] t \<or>
         entry StateReviewing ''review_pass''
           [''merge_mode_autonomous'', ''autonomy_eligible'', ''all_gates_green''] t) \<and>
      (tr_To t = StateDone \<longrightarrow>
         entry StateReconciling ''reconcile_pass'' [''terminal_remote_truth_exact''] t \<or>
         entry StateReviewing ''review_pass''
           [''ticket_type_spike'', ''report_present'', ''no_merge_effect''] t))
      (sp_Transitions approved_spec)"
    by code_simp
  note row = approved_selection [OF assms this]
  show ?thesis
  proof (intro conjI impI)
    assume "tr_To t = StateMerging \<or> ''merge_request'' \<in> set (tr_AllowedEffects t)"
    with row have "entry StateWaitingApproval ''operator_approve''
           [''operator_identity_authenticated'', ''approval_head_exact'', ''all_nonapproval_gates_green''] t \<or>
         entry StateReviewing ''review_pass''
           [''merge_mode_autonomous'', ''autonomy_eligible'', ''all_gates_green''] t"
      by simp
    then show "from = StateWaitingApproval \<and> trigger = ''operator_approve'' \<and>
        guards ''operator_identity_authenticated'' \<and> guards ''approval_head_exact'' \<and>
        guards ''all_nonapproval_gates_green'' \<or>
      from = StateReviewing \<and> trigger = ''review_pass'' \<and> guards ''merge_mode_autonomous'' \<and>
        guards ''autonomy_eligible'' \<and> guards ''all_gates_green''"
      by (elim disjE) (drule entry_selected(4) [OF assms], simp)+
  next
    assume "tr_To t = StateDone"
    with row have "entry StateReconciling ''reconcile_pass'' [''terminal_remote_truth_exact''] t \<or>
         entry StateReviewing ''review_pass''
           [''ticket_type_spike'', ''report_present'', ''no_merge_effect''] t"
      by simp
    then show "from = StateReconciling \<and> trigger = ''reconcile_pass'' \<and> guards ''terminal_remote_truth_exact'' \<or>
      from = StateReviewing \<and> trigger = ''review_pass'' \<and> guards ''ticket_type_spike'' \<and>
        guards ''report_present'' \<and> guards ''no_merge_effect''"
      by (elim disjE) (drule entry_selected(2) [OF assms] entry_selected(4) [OF assms], simp)+
  qed
qed

theorem approved_merge_gates_witness:
  "\<exists>t. Select approved_spec StateWaitingApproval ''operator_approve'' (\<lambda>_. True) = Inr t \<and>
     tr_To t = StateMerging \<and> StateWaitingApproval \<noteq> StateReviewing"
proof -
  have "selects StateWaitingApproval ''operator_approve'' (\<lambda>_. True) StateMerging"
    by code_simp
  then obtain t where t: "Select approved_spec StateWaitingApproval ''operator_approve'' (\<lambda>_. True) = Inr t"
      "tr_To t = StateMerging"
    by (auto simp: selects_def split: sum.splits)
  with approved_merge_gates [OF t(1)] show ?thesis by (auto simp: state_defs)
qed

text \<open>A ticket in any state that is neither terminal nor already cancelling can be cancelled: with the
  operator authenticated and no merge observed the cancel trigger selects exactly one transition,
  which leads to \<open>cancelling\<close>, and from there the drained trigger leads to \<open>cancelled\<close>.\<close>

theorem approved_cancellable:
  assumes "State_Valid s" and "\<not> State_Terminal s" and "s \<noteq> StateCancelling"
  shows "selects s ''operator_cancel'' (contains [''operator_identity_authenticated'', ''merge_not_observed''])
       StateCancelling \<and>
     selects StateCancelling ''process_and_effects_drained''
     (contains [''no_live_writer'', ''no_unreconciled_mutation'']) StateCancelled"
proof -
  have "map (\<lambda>t. (tr_From t, tr_Guards t, tr_To t))
      (filter (\<lambda>t. tr_Trigger t = ''operator_cancel'') (sp_Transitions approved_spec)) =
    [([''queued'', ''planning'', ''verifying'', ''building'', ''publishing'', ''waiting_ci'',
       ''reviewing'', ''waiting_approval'', ''waiting_manual_merge'', ''merging'', ''reconciling'',
       ''paused'', ''blocked'', ''stopping''],
      [''operator_identity_authenticated'', ''merge_not_observed''], ''cancelling'')]"
    by code_simp
  then obtain t where row: "filter (\<lambda>t. tr_Trigger t = ''operator_cancel'') (sp_Transitions approved_spec) = [t]"
    and t: "tr_From t = [''queued'', ''planning'', ''verifying'', ''building'', ''publishing'',
       ''waiting_ci'', ''reviewing'', ''waiting_approval'', ''waiting_manual_merge'', ''merging'',
       ''reconciling'', ''paused'', ''blocked'', ''stopping'']"
      "tr_Guards t = [''operator_identity_authenticated'', ''merge_not_observed'']"
      "tr_To t = ''cancelling''"
    by (auto simp: map_eq_Cons_conv)
  have "State_Terminal s \<or> s = StateCancelling \<or> s \<in> set (tr_From t)" if "State_Valid s" for s
    using that unfolding t State_Valid_iff AllStates_def State_Terminal_def by (auto simp: state_defs)
  with assms have "selects s ''operator_cancel'' (contains [''operator_identity_authenticated'', ''merge_not_observed''])
       StateCancelling"
    by (auto simp: selects_def Select_single [OF row] t(2,3) contains_def StateCancelling_def)
  moreover have "selects StateCancelling ''process_and_effects_drained''
     (contains [''no_live_writer'', ''no_unreconciled_mutation'']) StateCancelled"
    by code_simp
  ultimately show ?thesis ..
qed

theorem approved_cancellable_witness:
  "selects StateMerging ''operator_cancel'' (contains [''operator_identity_authenticated'', ''merge_not_observed''])
     StateCancelling"
proof -
  have "State_Valid StateMerging" "\<not> State_Terminal StateMerging" "StateMerging \<noteq> StateCancelling"
    by code_simp+
  then show ?thesis by (rule approved_cancellable [THEN conjunct1])
qed

end
