(* ===== verification/Engine.thy ===== *)
theory Engine
  imports GenericTransition ApprovedPlan
begin

text \<open>
  The workflow engine (\<^verbatim>\<open>internal/engine\<close>): it turns authenticated guard results into one row of the normative
  specification, resolves the row's symbolic target against the durable ticket and hands the move to
  the Store operation that owns it. The Store operations that authenticate provider, publication and
  merge evidence are outside this development; they are the fields of \<open>boundaries\<close>, and every theorem
  holds for all of their behaviours.
\<close>

section \<open>Requests and results\<close>

type_synonym persist = "Store \<Rightarrow> StoreTransition \<Rightarrow> (store_error + TransitionResult) \<times> Store"

record TransitionRequest =
  rq_Ticket :: TicketRef
  rq_TicketVersion :: u64
  rq_From :: string
  rq_Trigger :: string
  rq_Fence :: Fence
  rq_Attributes :: "string \<rightharpoonup> string"
  rq_EventPayload :: string

text \<open>A signal carries the same fields; the engine copies them one by one.\<close>

type_synonym SignalRequest = TransitionRequest

record EngineResult =
  er_To :: string
  er_TicketVersion :: u64
  er_Invalidated :: "string list"
  er_EventID :: string

datatype engine_error = StoreFailure store_error | SpecFailure spec_error

definition VerificationAmendmentAccepted :: string where "VerificationAmendmentAccepted = ''accepted''"
definition VerificationAmendmentRejected :: string where "VerificationAmendmentRejected = ''rejected''"

record boundaries = authorities +
  TransitionPublishedResume :: persist
  TransitionGuardedMergeResume :: persist
  TransitionPostPublicationReconcileResume :: persist
  TransitionGuardedMergeObserved :: persist
  TransitionProviderExhausted :: persist
  TransitionProviderRetry :: persist
  TransitionPlan :: persist
  TransitionVerification :: persist
  TransitionVerificationAmendmentAccepted :: "ProviderAttemptResultKey \<Rightarrow> persist"
  TransitionVerificationAmendmentRejected :: "ProviderAttemptResultKey \<Rightarrow> persist"
  TransitionVerificationAmendmentRequest :: "ProviderAttemptResultKey \<Rightarrow> persist"
  TransitionCandidate :: "CandidateSnapshot \<Rightarrow> persist"
  TransitionFinalReview :: persist
  TransitionReviewRepair :: persist
  TransitionReviewNeedsOperator :: persist

section \<open>Selection\<close>

definition providerState :: "string \<Rightarrow> bool" where
  "providerState state \<longleftrightarrow>
     state = StatePlanning \<or> state = StateVerifying \<or> state = StateBuilding \<or> state = StateReviewing"

definition Engine_genericVerificationAmendmentTransition :: "string \<Rightarrow> bool" where
  "Engine_genericVerificationAmendmentTransition trigger \<longleftrightarrow>
     trigger = ''verification_amendment_requested'' \<or> trigger = ''amendment_accepted'' \<or>
     trigger = ''amendment_rejected'' \<or> trigger = ''review_repair''"

definition genericOperatorSourceResume :: "TransitionRequest \<Rightarrow> bool" where
  "genericOperatorSourceResume rq =
     (if rq_From rq \<noteq> StatePaused \<or> rq_Trigger rq \<noteq> ''operator_resume'' then False
      else if rq_Attributes rq ''takeover_source_commit_valid'' = Some ''true'' \<or>
              rq_Attributes rq ''takeover_source_diff_valid'' = Some ''true'' \<or>
              rq_Attributes rq ''verification_files_unchanged'' = Some ''true'' then True
      else case Unmarshal_field ''change_kind'' (rq_EventPayload rq) of
        None \<Rightarrow> False
      | Some kind \<Rightarrow> kind = ''source_commit'' \<or> kind = ''source_changes'')"

definition guards_of :: "(string \<rightharpoonup> string) \<Rightarrow> string \<Rightarrow> bool" where
  "guards_of attributes key \<longleftrightarrow> attributes key = Some ''true''"

text \<open>The state a ticket will resume to, from the row's symbolic name.\<close>

definition resolve_resume :: "Transition \<Rightarrow> string \<Rightarrow> string \<Rightarrow> string" where
  "resolve_resume t from stored =
     (if tr_ResumeState t = ''$from'' then from
      else if tr_ResumeState t = ''$resume_state'' \<or> tr_ResumeState t = ''$stored'' then stored
      else tr_ResumeState t)"

fun add_unseen :: "string list \<Rightarrow> string list \<Rightarrow> string list" where
  "add_unseen seen [] = seen"
| "add_unseen seen (v # vs) = add_unseen (if v \<in> set seen then seen else seen @ [v]) vs"

definition invalidations :: "Spec \<Rightarrow> string list \<Rightarrow> string list" where
  "invalidations sp sets =
     add_unseen [] (concat (map (\<lambda>name. case map_of (sp_InvalidationSets sp) name of None \<Rightarrow> [name] | Some values \<Rightarrow> values) sets))"

definition event_text :: "int \<Rightarrow> string" where
  "event_text n = (if n < 0 then ''-'' @ itoa (nat (- n)) else itoa (nat n))"

definition engine_result :: "Spec \<Rightarrow> Transition \<Rightarrow> string \<Rightarrow> TransitionResult \<Rightarrow> EngineResult" where
  "engine_result sp t target r =
     \<lparr>er_To = target, er_TicketVersion = res_Version r, er_Invalidated = invalidations sp (tr_Invalidates t),
      er_EventID = event_text (res_EventID r)\<rparr>"

section \<open>Transition\<close>

definition persisted :: "TransitionRequest \<Rightarrow> string \<Rightarrow> string \<Rightarrow> StoreTransition" where
  "persisted rq target resume =
     \<lparr>tn_Ref = rq_Ticket rq, tn_ExpectedVersion = rq_TicketVersion rq, tn_From = rq_From rq, tn_To = target,
      tn_ResumeState = resume, tn_Trigger = rq_Trigger rq, tn_Fence = rq_Fence rq,
      tn_EventPayload = (if rq_EventPayload rq = '''' then ''{}'' else rq_EventPayload rq)\<rparr>"

definition operator_reentry :: "StoreTransition \<Rightarrow> bool" where
  "operator_reentry p \<longleftrightarrow>
     tn_From p = StatePaused \<and> (tn_Trigger p = ''operator_resume'' \<or> tn_Trigger p = ''operator_retry'')"

definition dispatch :: "boundaries \<Rightarrow> persist \<Rightarrow> Transition \<Rightarrow> persist" where
  "dispatch B persist t s p =
     (if tr_ID t = ''stopped'' \<or> tr_ID t = ''cancelled'' then CompleteControlTransition s p
      else if has_prefix ''invalidate_runner_epoch'' (tr_PhaseDisposition t) then TransitionAndInvalidateRunner s p
      else if (operator_reentry p \<or> tn_From p = StateBlocked \<and> tn_Trigger p = ''operator_recover'') \<and>
          (tn_To p = StatePublishing \<or> tn_To p = StateWaitingCI) then TransitionPublishedResume B s p
      else if operator_reentry p \<and> tn_To p = StateMerging then TransitionGuardedMergeResume B s p
      else if operator_reentry p \<and> tn_To p = StateReconciling then TransitionPostPublicationReconcileResume B s p
      else if tn_From p = StateMerging \<and> tn_To p = StateReconciling \<and> tn_Trigger p = ''merge_observed''
        then TransitionGuardedMergeObserved B s p
      else persist s p)"

definition transitionWithResolvedTargetResume ::
  "boundaries \<Rightarrow> Spec \<Rightarrow> Store \<Rightarrow> TransitionRequest \<Rightarrow> persist \<Rightarrow> bool \<Rightarrow> (engine_error + EngineResult) \<times> Store" where
  "transitionWithResolvedTargetResume B sp s rq persist useTargetResume =
     (case Select sp (rq_From rq) (rq_Trigger rq) (guards_of (rq_Attributes rq)) of
        Inl e \<Rightarrow> (Inl (SpecFailure e), s)
      | Inr t \<Rightarrow>
        (case Ticket_get s (rq_Ticket rq) of
           Inl e \<Rightarrow> (Inl (StoreFailure e), s)
         | Inr ticket \<Rightarrow>
           if tk_State ticket \<noteq> rq_From rq \<or> tk_Version ticket \<noteq> rq_TicketVersion rq
             then (Inl (StoreFailure ErrStaleFence), s)
           else case ResolveTarget (tr_To t) (rq_From rq) (tk_ResumeState ticket) (tk_ResumeState ticket) of
             Inl e \<Rightarrow> (Inl (SpecFailure e), s)
           | Inr target \<Rightarrow>
             (case dispatch B persist t s
                 (persisted rq target
                   (if useTargetResume then target else resolve_resume t (rq_From rq) (tk_ResumeState ticket))) of
                (Inl e, s') \<Rightarrow> (Inl (StoreFailure e), s')
              | (Inr r, s') \<Rightarrow> (Inr (engine_result sp t target r), s'))))"

definition Engine_transition ::
  "boundaries \<Rightarrow> Spec \<Rightarrow> Store \<Rightarrow> TransitionRequest \<Rightarrow> persist \<Rightarrow> (engine_error + EngineResult) \<times> Store" where
  "Engine_transition B sp s rq persist = transitionWithResolvedTargetResume B sp s rq persist False"

text \<open>The moves that the public entry point refuses: each has an evidence-bearing path of its own.\<close>

definition reserved_request :: "TransitionRequest \<Rightarrow> bool" where
  "reserved_request rq \<longleftrightarrow>
     rq_Trigger rq = ''postbuild_repair'' \<or> rq_Trigger rq = ''external_merge_observed'' \<or>
     genericOperatorSourceResume rq \<or> Engine_genericVerificationAmendmentTransition (rq_Trigger rq) \<or>
     (rq_Trigger rq = ''phase_pass'' \<and>
       (rq_From rq = StatePlanning \<or> rq_From rq = StateVerifying \<or> rq_From rq = StateBuilding)) \<or>
     (providerState (rq_From rq) \<and> rq_Trigger rq = ''retry_or_correction_exhausted'')"

definition Engine_Transition ::
  "boundaries \<Rightarrow> Spec \<Rightarrow> Store \<Rightarrow> int \<Rightarrow> TransitionRequest \<Rightarrow> (engine_error + EngineResult) \<times> Store" where
  "Engine_Transition B sp s now rq =
     (if reserved_request rq then (Inl (StoreFailure ErrEvidenceConflict), s)
      else if rq_From rq = StatePaused \<and> rq_Trigger rq = ''operator_retry'' then
        (case Ticket_get s (rq_Ticket rq) of
           Inl e \<Rightarrow> (Inl (StoreFailure e), s)
         | Inr ticket \<Rightarrow>
           if providerState (tk_ResumeState ticket) then (Inl (StoreFailure ErrEvidenceConflict), s)
           else Engine_transition B sp s rq (\<lambda>s p. Store_Transition (authorities.truncate B) s now p))
      else Engine_transition B sp s rq (\<lambda>s p. Store_Transition (authorities.truncate B) s now p))"

definition Signal ::
  "boundaries \<Rightarrow> Spec \<Rightarrow> Store \<Rightarrow> int \<Rightarrow> SignalRequest \<Rightarrow> (engine_error + EngineResult) \<times> Store" where
  "Signal B sp s now rq = Engine_Transition B sp s now rq"

section \<open>Typed signals\<close>

abbreviation refuse :: "Store \<Rightarrow> (engine_error + 'a) \<times> Store" where
  "refuse s \<equiv> (Inl (StoreFailure ErrEvidenceConflict), s)"

abbreviation flags :: "string list \<Rightarrow> string \<rightharpoonup> string" where
  "flags names \<equiv> (\<lambda>key. if key \<in> set names then Some ''true'' else None)"

definition SignalProviderExhausted ::
  "boundaries \<Rightarrow> Spec \<Rightarrow> Store \<Rightarrow> SignalRequest \<Rightarrow> (engine_error + EngineResult) \<times> Store" where
  "SignalProviderExhausted B sp s rq =
     (if \<not> providerState (rq_From rq) \<or> rq_Trigger rq \<noteq> ''retry_or_correction_exhausted'' then refuse s
      else Engine_transition B sp s (rq\<lparr>rq_Attributes := Map.empty, rq_EventPayload := ''{}''\<rparr>) (TransitionProviderExhausted B))"

definition SignalProviderRetry ::
  "boundaries \<Rightarrow> Spec \<Rightarrow> Store \<Rightarrow> SignalRequest \<Rightarrow> (engine_error + EngineResult) \<times> Store" where
  "SignalProviderRetry B sp s rq =
     (if rq_From rq \<noteq> StatePaused \<or> rq_Trigger rq \<noteq> ''operator_retry'' then refuse s
      else case Ticket_get s (rq_Ticket rq) of
        Inl e \<Rightarrow> (Inl (StoreFailure e), s)
      | Inr ticket \<Rightarrow>
        if \<not> providerState (tk_ResumeState ticket) then refuse s
        else transitionWithResolvedTargetResume B sp s
          (rq\<lparr>rq_Attributes := flags [''operator_identity_authenticated'', ''pause_reason_retryable'',
                ''typed_prerequisites_satisfied'', ''runner_epoch_current''], rq_EventPayload := ''{}''\<rparr>)
          (TransitionProviderRetry B) True)"

definition SignalPlan :: "boundaries \<Rightarrow> Spec \<Rightarrow> Store \<Rightarrow> SignalRequest \<Rightarrow> (engine_error + EngineResult) \<times> Store" where
  "SignalPlan B sp s rq =
     (if rq_From rq \<noteq> StatePlanning \<or> rq_Trigger rq \<noteq> ''phase_pass'' then refuse s
      else Engine_transition B sp s (rq\<lparr>rq_Attributes := flags [''typed_plan_valid'']\<rparr>) (TransitionPlan B))"

definition SignalVerification :: "boundaries \<Rightarrow> Spec \<Rightarrow> Store \<Rightarrow> SignalRequest \<Rightarrow> (engine_error + EngineResult) \<times> Store" where
  "SignalVerification B sp s rq =
     (if rq_From rq \<noteq> StateVerifying \<or> rq_Trigger rq \<noteq> ''phase_pass'' then refuse s
      else Engine_transition B sp s
        (rq\<lparr>rq_Attributes := flags [''independent_intent_valid'', ''prebuild_proof_valid'', ''verification_checkpoint_committed'']\<rparr>)
        (TransitionVerification B))"

definition SignalVerificationAmendment ::
  "boundaries \<Rightarrow> Spec \<Rightarrow> Store \<Rightarrow> SignalRequest \<Rightarrow> string \<Rightarrow> ProviderAttemptResultKey \<Rightarrow> (engine_error + EngineResult) \<times> Store" where
  "SignalVerificationAmendment B sp s rq decision key =
     (if rq_From rq \<noteq> StateVerifying \<or> rk_Ref key \<noteq> rq_Ticket rq \<or> rk_Phase key \<noteq> PhaseVerification then refuse s
      else let run = (\<lambda>trigger persist. Engine_transition B sp s
          (rq\<lparr>rq_Trigger := trigger, rq_Attributes := flags [''fresh_reviewer'', ''old_and_new_digest_bound'',
             ''correction_available'', ''original_verification_intent_current'']\<rparr>) persist) in
        if decision = VerificationAmendmentAccepted then run ''amendment_accepted'' (TransitionVerificationAmendmentAccepted B key)
        else if decision = VerificationAmendmentRejected then run ''amendment_rejected'' (TransitionVerificationAmendmentRejected B key)
        else refuse s)"

definition SignalVerificationAmendmentRequest ::
  "boundaries \<Rightarrow> Spec \<Rightarrow> Store \<Rightarrow> SignalRequest \<Rightarrow> ProviderAttemptResultKey \<Rightarrow> (engine_error + EngineResult) \<times> Store" where
  "SignalVerificationAmendmentRequest B sp s rq key =
     (if rq_From rq \<noteq> StateBuilding \<or> rk_Ref key \<noteq> rq_Ticket rq \<or> rk_Phase key \<noteq> PhaseBuild then refuse s
      else Engine_transition B sp s
        (rq\<lparr>rq_Trigger := ''verification_amendment_requested'',
           rq_Attributes := flags [''amendment_request_valid'', ''correction_available'']\<rparr>)
        (TransitionVerificationAmendmentRequest B key))"

definition SignalVerificationAmendmentBlocked ::
  "boundaries \<Rightarrow> Spec \<Rightarrow> Store \<Rightarrow> int \<Rightarrow> SignalRequest \<Rightarrow> (engine_error + EngineResult) \<times> Store" where
  "SignalVerificationAmendmentBlocked B sp s now rq =
     (if rq_From rq \<noteq> StateBuilding \<and> rq_From rq \<noteq> StateVerifying then refuse s
      else Engine_transition B sp s
        (rq\<lparr>rq_Trigger := ''typed_blocker'', rq_Attributes := flags [''no_unreconciled_external_mutation''],
           rq_EventPayload := json_object [(''code'', json_string ''verification_amendment_invalid'')]\<rparr>)
        (\<lambda>s p. Store_Transition (authorities.truncate B) s now p))"

definition candidate_attributes :: "StoreTicket \<Rightarrow> string \<rightharpoonup> string" where
  "candidate_attributes ticket =
     flags ([''proof_green'', ''diff_valid'', ''git_control_plane_valid'', ''candidate_checkpoint_committed''] @
       (if tk_Type ticket = TicketSpike then [''ticket_type_spike''] else [''ticket_type_not_spike'']))"

definition SignalCandidate ::
  "boundaries \<Rightarrow> Spec \<Rightarrow> Store \<Rightarrow> SignalRequest \<Rightarrow> CandidateSnapshot \<Rightarrow> (engine_error + EngineResult) \<times> Store" where
  "SignalCandidate B sp s rq candidate =
     (if rq_From rq \<noteq> StateBuilding \<or> rq_Trigger rq \<noteq> ''phase_pass'' then refuse s
      else case Ticket_get s (rq_Ticket rq) of
        Inl e \<Rightarrow> (Inl (StoreFailure e), s)
      | Inr ticket \<Rightarrow>
        if tk_State ticket \<noteq> rq_From rq \<or> tk_Version ticket \<noteq> rq_TicketVersion rq then (Inl (StoreFailure ErrStaleFence), s)
        else case Select sp (rq_From rq) (rq_Trigger rq) (guards_of (candidate_attributes ticket)) of
          Inl e \<Rightarrow> (Inl (SpecFailure e), s)
        | Inr t \<Rightarrow>
          (case ResolveTarget (tr_To t) (rq_From rq) (tk_ResumeState ticket) (tk_ResumeState ticket) of
             Inl e \<Rightarrow> (Inl (SpecFailure e), s)
           | Inr target \<Rightarrow>
             (let resume = (if tr_ResumeState t = ''$from'' then rq_From rq
                            else if tr_ResumeState t = ''$stored'' then tk_ResumeState ticket
                            else tr_ResumeState t) in
              case TransitionCandidate B candidate s ((persisted rq target resume)\<lparr>tn_EventPayload := rq_EventPayload rq\<rparr>) of
                (Inl e, s') \<Rightarrow> (Inl (StoreFailure e), s')
              | (Inr r, s') \<Rightarrow> (Inr (engine_result sp t target r), s'))))"

definition final_review_attributes :: "StoreTicket \<Rightarrow> (string \<rightharpoonup> string) option" where
  "final_review_attributes ticket =
     (if tk_Type ticket = TicketSpike then Some (flags [''ticket_type_spike'', ''report_present'', ''no_merge_effect''])
      else if tk_MergeMode ticket = MergeGuarded
        then Some (flags [''ticket_type_not_spike'', ''merge_mode_guarded'', ''all_nonapproval_gates_green''])
      else if tk_MergeMode ticket = MergeManual
        then Some (flags [''ticket_type_not_spike'', ''merge_mode_manual'', ''all_nonapproval_gates_green''])
      else None)"

definition SignalFinalReview :: "boundaries \<Rightarrow> Spec \<Rightarrow> Store \<Rightarrow> SignalRequest \<Rightarrow> (engine_error + EngineResult) \<times> Store" where
  "SignalFinalReview B sp s rq =
     (if rq_From rq \<noteq> StateReviewing \<or> rq_Trigger rq \<noteq> ''review_pass'' then refuse s
      else case Ticket_get s (rq_Ticket rq) of
        Inl e \<Rightarrow> (Inl (StoreFailure ErrStaleFence), s)
      | Inr ticket \<Rightarrow>
        if tk_State ticket \<noteq> StateReviewing \<or> tk_Version ticket \<noteq> rq_TicketVersion rq then (Inl (StoreFailure ErrStaleFence), s)
        else case final_review_attributes ticket of
          None \<Rightarrow> refuse s
        | Some attributes \<Rightarrow> Engine_transition B sp s (rq\<lparr>rq_Attributes := attributes\<rparr>) (TransitionFinalReview B))"

definition SignalAutonomyBlocked :: "boundaries \<Rightarrow> Spec \<Rightarrow> Store \<Rightarrow> SignalRequest \<Rightarrow> (engine_error + EngineResult) \<times> Store" where
  "SignalAutonomyBlocked B sp s rq =
     (if rq_From rq \<noteq> StateReviewing \<or> rq_Trigger rq \<noteq> ''review_pass'' then refuse s
      else Engine_transition B sp s
        (rq\<lparr>rq_Attributes := flags [''ticket_type_not_spike'', ''merge_mode_autonomous'', ''autonomy_ineligible''],
           rq_EventPayload := json_object [(''code'', json_string ''autonomy_ineligible'')]\<rparr>)
        (TransitionFinalReview B))"

definition SignalFinalReviewRepair ::
  "boundaries \<Rightarrow> Spec \<Rightarrow> Store \<Rightarrow> SignalRequest \<Rightarrow> string \<Rightarrow> (engine_error + EngineResult) \<times> Store" where
  "SignalFinalReviewRepair B sp s rq owner =
     (if rq_From rq \<noteq> StateReviewing \<or> rq_Trigger rq \<noteq> ''review_repair'' then refuse s
      else let run = (\<lambda>names. Engine_transition B sp s (rq\<lparr>rq_Attributes := flags names\<rparr>) (TransitionReviewRepair B)) in
        if owner = ''builder'' then run [''correction_available'', ''repair_owner_builder'']
        else if owner = ''reviewer'' then run [''correction_available'', ''repair_owner_verification'']
        else refuse s)"

definition SignalFinalReviewNeedsOperator ::
  "boundaries \<Rightarrow> Spec \<Rightarrow> Store \<Rightarrow> SignalRequest \<Rightarrow> (engine_error + EngineResult) \<times> Store" where
  "SignalFinalReviewNeedsOperator B sp s rq =
     (if rq_From rq \<noteq> StateReviewing then refuse s
      else Engine_transition B sp s
        (rq\<lparr>rq_Trigger := ''typed_blocker'', rq_Attributes := flags [''no_unreconciled_external_mutation''],
           rq_EventPayload := json_object [(''code'', json_string ''review_needs_operator'')]\<rparr>)
        (TransitionReviewNeedsOperator B))"

text \<open>
  The three signals whose evidence the engine only passes on take the Store operation, already applied
  to that evidence, as their last argument.
\<close>

definition SignalOperatorSourceResume ::
  "Spec \<Rightarrow> Store \<Rightarrow> TicketRef \<Rightarrow> u64 \<Rightarrow> Fence \<Rightarrow> (Store \<Rightarrow> (store_error + TransitionResult) \<times> Store) \<Rightarrow>
    (engine_error + EngineResult) \<times> Store" where
  "SignalOperatorSourceResume sp s ref version fence resume =
     (if TicketRef_Validate ref \<noteq> None \<or> version = 0 \<or> LeaderEpoch fence = 0 \<or> RunnerEpoch fence = 0 \<or> ClaimEpoch fence \<noteq> 0
        then refuse s
      else case Select sp StatePaused ''operator_resume''
          (guards_of (flags [''operator_identity_authenticated'', ''takeover_source_commit_valid'',
             ''verification_files_unchanged'', ''branch_remote_identity_exact''])) of
        Inl _ \<Rightarrow> refuse s
      | Inr t \<Rightarrow>
        if tr_ID t \<noteq> ''resume_source_changes'' \<or> tr_To t \<noteq> StateVerifying then refuse s
        else case Ticket_get s ref of
          Inl e \<Rightarrow> (Inl (StoreFailure e), s)
        | Inr ticket \<Rightarrow>
          if tk_State ticket \<noteq> StatePaused \<or> tk_Version ticket \<noteq> version then (Inl (StoreFailure ErrStaleFence), s)
          else case resume s of
            (Inl e, s') \<Rightarrow> (Inl (StoreFailure e), s')
          | (Inr r, s') \<Rightarrow> (Inr (engine_result sp t StateVerifying r), s'))"

definition SignalPostbuildRepair ::
  "boundaries \<Rightarrow> Spec \<Rightarrow> Store \<Rightarrow> TicketRef \<Rightarrow> u64 \<Rightarrow> Fence \<Rightarrow> (Store \<Rightarrow> (store_error + TransitionResult) \<times> Store) \<Rightarrow>
    (engine_error + EngineResult) \<times> Store" where
  "SignalPostbuildRepair B sp s ref version fence repair =
     Engine_transition B sp s
       \<lparr>rq_Ticket = ref, rq_TicketVersion = version, rq_From = StateBuilding, rq_Trigger = ''postbuild_repair'', rq_Fence = fence,
        rq_Attributes = flags [''failed_postbuild_evidence_exact'', ''prepublication_only'', ''retained_worktree_exact'',
          ''correction_available'', ''no_live_writer''],
        rq_EventPayload = ''{}''\<rparr>
       (\<lambda>s p. repair s)"

definition SignalPostbuildVerificationAmendmentRequest ::
  "boundaries \<Rightarrow> Spec \<Rightarrow> Store \<Rightarrow> SignalRequest \<Rightarrow> ProviderAttemptResultKey \<Rightarrow> persist \<Rightarrow> (engine_error + EngineResult) \<times> Store" where
  "SignalPostbuildVerificationAmendmentRequest B sp s rq key request =
     (if rq_From rq \<noteq> StateBuilding \<or> rk_Ref key \<noteq> rq_Ticket rq \<or> rk_Phase key \<noteq> PhaseBuild \<or> rq_EventPayload rq \<noteq> ''{}''
        then refuse s
      else Engine_transition B sp s
        (rq\<lparr>rq_Trigger := ''verification_amendment_requested'',
           rq_Attributes := flags [''amendment_request_valid'', ''correction_available''], rq_EventPayload := ''{}''\<rparr>)
        request)"

section \<open>Start and recovery\<close>

definition Engine_Start :: "Store \<Rightarrow> TicketRef \<Rightarrow> u64 \<Rightarrow> string \<Rightarrow> Fence \<Rightarrow> (store_error + unit) \<times> Store" where
  "Engine_Start s ref version workflow fence =
     (case StartOrAdopt s ref version workflow fence of (Inl e, s') \<Rightarrow> (Inl e, s') | (Inr _, s') \<Rightarrow> (Inr (), s'))"

definition Recover :: "Store \<Rightarrow> string \<Rightarrow> u64 \<Rightarrow> (store_error + unit) \<times> Store" where
  "Recover s channel leaderEpoch = BlockOrphanedWorkflows s channel leaderEpoch"

end
