(* ===== verification/ControlSafety.thy ===== *)
theory ControlSafety
  imports ControlTransitions
begin

text \<open>
  What runtime control promises: a latched ticket is inert, the control transitions revoke and complete
  as announced, and the durable row follows the protocol sealed, armed, open on every run.
\<close>

section \<open>Rows after each statement\<close>

definition control_inv :: "db \<Rightarrow> bool" where
  "control_inv d \<longleftrightarrow> unique_key t_Ref (tickets d) \<and> unique_key c_Ref (runtime_ticket_controls d)"

lemma upsert_sealed_Inr:
  assumes "upsert_sealed ref stop authority d = Inr d'" and "unique_key c_Ref (runtime_ticket_controls d)"
  shows "\<exists>n. control_at d' ref = Some \<lparr>c_Ref = ref, c_State = ''sealed'', c_Generation = n, c_Stop = stop, c_Authority = authority\<rparr> \<and>
      (\<forall>c. control_at d ref = Some c \<longrightarrow> n = c_Generation c + 1)"
    and "ref' \<noteq> ref \<Longrightarrow> control_at d' ref' = control_at d ref'"
    and "unique_key c_Ref (runtime_ticket_controls d')" and "\<exists>t. d' = d\<lparr>runtime_ticket_controls := t\<rparr>"
proof -
  have all: "(\<exists>n. control_at d' ref = Some \<lparr>c_Ref = ref, c_State = ''sealed'', c_Generation = n, c_Stop = stop, c_Authority = authority\<rparr> \<and>
      (\<forall>c. control_at d ref = Some c \<longrightarrow> n = c_Generation c + 1)) \<and>
      (\<forall>ref'. ref' \<noteq> ref \<longrightarrow> control_at d' ref' = control_at d ref') \<and>
      unique_key c_Ref (runtime_ticket_controls d') \<and> (\<exists>t. d' = d\<lparr>runtime_ticket_controls := t\<rparr>)"
  proof (cases "control_at d ref")
    case None
    then show ?thesis
      using assms
      by (auto simp: upsert_sealed_def control_at_def control_table.get_ins control_table.wf_ins split: if_splits)
  next
    case (Some c)
    then have ref: "c_Ref c = ref" unfolding control_at_def by (rule control_table.get_key)
    have d': "d' = d\<lparr>runtime_ticket_controls := update_where (\<lambda>c. c_Ref c = ref) (seal_row stop authority) (runtime_ticket_controls d)\<rparr>"
      using assms(1) Some by (auto simp: upsert_sealed_def split: if_splits)
    have k: "c_Ref (seal_row stop authority r) = c_Ref r" for r by (simp add: seal_row_def)
    have at: "control_at d' r = map_option (\<lambda>c. if c_Ref c = ref then seal_row stop authority c else c) (control_at d r)" for r
      using control_table.get_upd [OF k assms(2)] by (simp add: control_at_def d')
    have "control_at d' r = control_at d r" if "r \<noteq> ref" for r
    proof (cases "control_at d r")
      case (Some b)
      then have "c_Ref b = r" unfolding control_at_def by (rule control_table.get_key)
      with that Some at show ?thesis by simp
    qed (simp add: at)
    moreover have "control_at d' ref = Some (seal_row stop authority c)" using at Some ref by simp
    moreover have "seal_row stop authority c = \<lparr>c_Ref = ref, c_State = ''sealed'', c_Generation = c_Generation c + 1,
        c_Stop = stop, c_Authority = authority\<rparr>"
      using ref by (cases c) (simp add: seal_row_def)
    moreover have "unique_key c_Ref (runtime_ticket_controls d')"
      using control_table.wf_upd [OF k assms(2)] by (simp add: d')
    moreover have "\<exists>t. d' = d\<lparr>runtime_ticket_controls := t\<rparr>" using d' by blast
    ultimately show ?thesis using Some by simp
  qed
  then show "\<exists>n. control_at d' ref = Some \<lparr>c_Ref = ref, c_State = ''sealed'', c_Generation = n, c_Stop = stop, c_Authority = authority\<rparr> \<and>
      (\<forall>c. control_at d ref = Some c \<longrightarrow> n = c_Generation c + 1)"
    and "ref' \<noteq> ref \<Longrightarrow> control_at d' ref' = control_at d ref'"
    and "unique_key c_Ref (runtime_ticket_controls d')" and "\<exists>t. d' = d\<lparr>runtime_ticket_controls := t\<rparr>"
    by blast+
qed

section \<open>A latched ticket\<close>

text \<open>While the gate holds a latch for a ticket, every operation that needs its fence is refused.\<close>

lemma latched_fence:
  "st_mutations s = Some g \<Longrightarrow> gate_controls g ref \<noteq> None \<Longrightarrow>
     assertTicketFence (st_mutations s) d ref v f = Some ErrStaleFence"
  by (simp add: assertTicketFence_def revokedBy_def)

definition inert :: "Store \<Rightarrow> TicketRef \<Rightarrow> bool" where
  "inert s ref \<longleftrightarrow>
     (\<forall>plan. ep_Ref plan = ref \<longrightarrow> (\<exists>e. PlanEffect s plan = (Inl e, s))) \<and>
     (\<forall>fence. ef_Ref fence = ref \<longrightarrow> (\<exists>e. ClaimEffect s fence = (Inl e, s))) \<and>
     (\<forall>fence state identity. ef_Ref fence = ref \<longrightarrow> (\<exists>e. finishEffect s fence state identity = (Inl e, s))) \<and>
     (\<forall>claim. xc_Ref claim = ref \<longrightarrow> (\<exists>e. ValidateExternalEffectClaim s claim = (Inl e, s))) \<and>
     (\<forall>v fence requests at. \<exists>e. AcquireLeases s ref v fence requests at = (Inl e, s)) \<and>
     (\<forall>v fence. fst (RuntimeAdmissionReady s ref v fence) \<noteq> Inr True)"

lemma fence_inert:
  assumes "\<And>v f. assertTicketFence (st_mutations s) (st_db s) ref v f \<noteq> None"
    and "\<And>v f. fst (RuntimeAdmissionReady s ref v f) \<noteq> Inr True"
  shows "inert s ref"
proof -
  have f: "\<exists>e. assertTicketFence (st_mutations s) (st_db s) ref v f = Some e" for v f using assms(1) by auto
  have "\<exists>e. AcquireLeases s ref v fence requests at = (Inl e, s)" for v fence requests at
    using f [of v fence] by (auto simp: AcquireLeases_def AcquireLeases_tx_def store_write_def split: option.splits sum.splits)
  moreover have "\<exists>e. PlanEffect s plan = (Inl e, s)" if "ep_Ref plan = ref" for plan
    using f [of "ep_TicketVersion plan" "ep_Fence plan"] that
    by (auto simp: PlanEffect_def PlanEffect_tx_def store_write_def split: option.splits)
  moreover have "\<exists>e. ClaimEffect s fence = (Inl e, s)" if "ef_Ref fence = ref" for fence
    using f [of "ef_TicketVersion fence" "ef_Fence fence"] that by (auto simp: ClaimEffect_def ClaimEffect_tx_def store_write_def)
  moreover have "\<exists>e. finishEffect s fence state identity = (Inl e, s)" if "ef_Ref fence = ref" for fence state identity
    using f [of "ef_TicketVersion fence" "ef_Fence fence"] that by (auto simp: finishEffect_def finishEffect_tx_def store_write_def)
  moreover have "\<exists>e. ValidateExternalEffectClaim s claim = (Inl e, s)" if "xc_Ref claim = ref" for claim
    using f [of "xc_TicketVersion claim" "\<lparr>LeaderEpoch = xc_LeaderEpoch claim, RunnerEpoch = xc_RunnerEpoch claim,
             ClaimEpoch = xc_ClaimEpoch claim\<rparr>"] that by (auto simp: ValidateExternalEffectClaim_def store_write_def)
  ultimately show ?thesis using assms(2) unfolding inert_def by auto
qed

lemma latched_inert:
  assumes "st_mutations s = Some g" and "gate_controls g ref \<noteq> None"
  shows "inert s ref"
proof (rule fence_inert)
  show "assertTicketFence (st_mutations s) (st_db s) ref v f \<noteq> None" for v f by (simp add: latched_fence [OF assms])
  show "fst (RuntimeAdmissionReady s ref v f) \<noteq> Inr True" for v f
    using assms by (auto simp: RuntimeAdmissionReady_def with_gate_def gate_lock_cases)
qed

lemma latched_never_starts:
  assumes "st_mutations s = Some g" and "gate_controls g (xc_Ref claim) \<noteq> None"
  shows "\<exists>e. RunExternalMutation s claim (Some start) w = (('''', Some (Refused e)), s, w)"
  using assms by (intro RunExternalMutation_refused) (auto simp: revokedBy_def)

section \<open>Control transitions\<close>

lemma insert_event_simps [simp]:
  "tickets (snd (insert_event r v t a b p d)) = tickets d"
  "runtime_ticket_controls (snd (insert_event r v t a b p d)) = runtime_ticket_controls d"
  "daemon_instances (snd (insert_event r v t a b p d)) = daemon_instances d"
  "leases (snd (insert_event r v t a b p d)) = leases d"
  "phase_runs (snd (insert_event r v t a b p d)) = phase_runs d"
  "workflow_owners (snd (insert_event r v t a b p d)) = workflow_owners d"
  by (simp_all add: insert_event_def Let_def)

lemma TransitionAndInvalidateRunner_tx_Inr:
  assumes inv: "control_inv d" and run: "TransitionAndInvalidateRunner_tx tr payload d = Inr ((res, value), d')"
  obtains t where "ticket_at d (tn_Ref tr) = Some t" and "t_State t = tn_From tr"
    and "t_Version t = tn_ExpectedVersion tr" and "t_RunnerEpoch t = RunnerEpoch (tn_Fence tr)"
    and "leader_at d (Channel (tn_Ref tr)) = Some (LeaderEpoch (tn_Fence tr))"
    and "res_Version res = t_Version t + 1"
    and "value = \<lparr>mr_version = t_Version t + 1, mr_leader = LeaderEpoch (tn_Fence tr), mr_runner = t_RunnerEpoch t + 1\<rparr>"
    and "ticket_at d' (tn_Ref tr) = Some (invalidate_row tr t)"
    and "\<And>ref. ref \<noteq> tn_Ref tr \<Longrightarrow> ticket_at d' ref = ticket_at d ref \<and> control_at d' ref = control_at d ref"
    and "\<exists>c. control_at d' (tn_Ref tr) = Some c \<and> c_State c = ''sealed'' \<and> c_Stop c = value \<and> c_Authority c = value"
    and "control_inv d'"
proof -
  from run obtain t where t: "ticket_at d (tn_Ref tr) = Some t"
    by (cases "ticket_at d (tn_Ref tr)") (auto simp: TransitionAndInvalidateRunner_tx_def)
  let ?p = "\<lambda>r. t_Ref r = tn_Ref tr \<and> t_State r = tn_From tr \<and> t_Version r = t_Version t \<and> t_RunnerEpoch r = t_RunnerEpoch t"
  let ?v = "\<lparr>mr_version = t_Version t + 1, mr_leader = LeaderEpoch (tn_Fence tr), mr_runner = t_RunnerEpoch t + 1\<rparr>"
  let ?d = "d\<lparr>tickets := update_where ?p (invalidate_row tr) (tickets d)\<rparr>"
  from run t have g: "t_State t = tn_From tr" "t_Version t = tn_ExpectedVersion tr"
    "t_RunnerEpoch t = RunnerEpoch (tn_Fence tr)" "leader_at d (Channel (tn_Ref tr)) = Some (LeaderEpoch (tn_Fence tr))"
    and one: "count_where ?p (tickets d) = 1" and v: "value = ?v" "res_Version res = t_Version t + 1"
    by (auto simp: TransitionAndInvalidateRunner_tx_def Let_def currentFence_def split: option.splits if_splits sum.splits prod.splits)
  from run t g obtain d1 where s: "sealRuntimeControl (tn_Ref tr) ?v ?d = Inr d1"
    and d': "d' = snd (insert_event (tn_Ref tr) (t_Version t + 1) (tn_Trigger tr) (tn_From tr) (tn_To tr) payload d1)"
    by (auto simp: TransitionAndInvalidateRunner_tx_def Let_def currentFence_def split: option.splits if_splits sum.splits prod.splits)
  have u: "unique_key t_Ref (tickets d)" "unique_key c_Ref (runtime_ticket_controls ?d)"
    using inv by (simp_all add: control_inv_def)
  note seal = upsert_sealed_Inr [OF s [unfolded sealRuntimeControl_def] u(2)]
  have k: "t_Ref (invalidate_row tr r) = t_Ref r" for r by (simp add: invalidate_row_def)
  have r: "\<And>k'. ticket_at ?d k' = (if k' = tn_Ref tr then Some (invalidate_row tr t) else ticket_at d k')"
    "unique_key t_Ref (tickets ?d)"
    by (rule ticket_table.pinned_update [OF u(1) _ k one, of "tn_Ref tr"]; use t in \<open>auto simp: ticket_at_def\<close>)+
  from seal(4) have tk: "tickets d1 = tickets ?d" by auto
  have at: "ticket_at d' = ticket_at ?d" "control_at d' = control_at d1"
    by (simp_all add: fun_eq_iff ticket_at_def control_at_def d' tk)
  have "control_at ?d = control_at d" by (simp add: control_at_def fun_eq_iff)
  with seal(2) have other: "control_at d' ref = control_at d ref" if "ref \<noteq> tn_Ref tr" for ref
    using that at(2) by metis
  have "control_inv d'" using r(2) seal(3) by (simp add: control_inv_def d' tk)
  moreover have "\<exists>c. control_at d' (tn_Ref tr) = Some c \<and> c_State c = ''sealed'' \<and> c_Stop c = value \<and> c_Authority c = value"
    using seal(1) v at(2) by auto
  ultimately show ?thesis using that [of t] t g v r at other by auto
qed
lemma TransitionAndInvalidateRunner_Inr:
  assumes run: "TransitionAndInvalidateRunner s tr = (Inr res, s')"
  obtains g val d' where "st_mutations s = Some g" and "gate_token g"
    and "TransitionAndInvalidateRunner_tx tr (event_payload tr) (st_db s) = Inr ((res, val), d')"
    and "s' = unlock_store (update_gate (gate_latch (tn_Ref tr) val)
      (s\<lparr>st_mutations := Some (g\<lparr>gate_token := False\<rparr>), st_db := d'\<rparr>))"
proof -
  from run have "with_gate ErrStaleFence s (\<lambda>g s.
          case store_write s (TransitionAndInvalidateRunner_tx tr (event_payload tr)) of
            (Inl e, s') \<Rightarrow> (Inl e, s')
          | (Inr (result, seal), s') \<Rightarrow> (Inr result, update_gate (gate_latch (tn_Ref tr) seal) s')) = (Inr res, s')"
    by (auto simp: TransitionAndInvalidateRunner_def split: if_splits option.splits)
  then obtain g val d' where g: "st_mutations s = Some g" "gate_token g"
    and tx: "TransitionAndInvalidateRunner_tx tr (event_payload tr) (st_db s) = Inr ((res, val), d')"
    and s': "s' = unlock_store (update_gate (gate_latch (tn_Ref tr) val)
      (s\<lparr>st_mutations := Some (g\<lparr>gate_token := False\<rparr>), st_db := d'\<rparr>))"
    by (rule with_gate_Inr) (auto simp: store_write_def split: sum.splits if_splits prod.splits)
  then show thesis by (rule that)
qed

section \<open>The protocol of the durable row\<close>

text \<open>
  One step of a ticket's control row: it stays; it is sealed, either as a new generation or keeping its
  generation and stop; a sealed row is armed with its stop kept; an armed row is opened or an open row
  suspended with nothing else changed; an open row's authority advances to a later version; a sealed row is
  retired.
\<close>

definition control_move :: "control_row option \<Rightarrow> control_row option \<Rightarrow> bool" where
  "control_move c c' \<longleftrightarrow> c' = c \<or>
     (\<exists>b. c' = Some b \<and> c_State b = ''sealed'' \<and>
        (c = None \<or> (\<exists>a. c = Some a \<and> (c_Generation b = c_Generation a + 1 \<or> b = a\<lparr>c_State := ''sealed''\<rparr>)))) \<or>
     (\<exists>a i. c = Some a \<and> c_State a = ''sealed'' \<and> c' = Some (a\<lparr>c_State := ''armed'', c_Authority := i\<rparr>)) \<or>
     (\<exists>a. c = Some a \<and> c_State a = ''armed'' \<and> c' = Some (a\<lparr>c_State := ''open''\<rparr>)) \<or>
     (\<exists>a. c = Some a \<and> c_State a = ''open'' \<and> c' = Some (a\<lparr>c_State := ''armed''\<rparr>)) \<or>
     (\<exists>a v. c = Some a \<and> c_State a = ''open'' \<and> mr_version (c_Authority a) < v \<and>
        c' = Some (a\<lparr>c_Authority := (c_Authority a)\<lparr>mr_version := v\<rparr>\<rparr>)) \<or>
     (\<exists>a. c = Some a \<and> c_State a = ''sealed'' \<and> c' = None)"

locale control_protocol =
  fixes row :: "'s \<Rightarrow> TicketRef \<Rightarrow> control_row option"
    and invar :: "'s \<Rightarrow> bool"
    and step :: "'s \<Rightarrow> 's \<Rightarrow> bool"
  assumes step_invar: "invar s \<Longrightarrow> step s s' \<Longrightarrow> invar s'"
    and step_move: "invar s \<Longrightarrow> step s s' \<Longrightarrow> control_move (row s ref) (row s' ref)"
begin

lemma run_invar: "step\<^sup>*\<^sup>* s s' \<Longrightarrow> invar s \<Longrightarrow> invar s'"
  by (induction rule: rtranclp_induct) (auto intro: step_invar)

text \<open>A row that is not open becomes open only through a state in which it is armed.\<close>

lemma run_reopens:
  assumes "step\<^sup>*\<^sup>* s s'" and "invar s" and "\<And>c. row s ref = Some c \<Longrightarrow> c_State c \<noteq> ''open''"
    and "row s' ref = Some c'" and "c_State c' = ''open''"
  shows "\<exists>t a. step\<^sup>*\<^sup>* s t \<and> step\<^sup>*\<^sup>* t s' \<and> row t ref = Some a \<and> c_State a = ''armed''"
  using assms(1,4,5)
proof (induction arbitrary: c' rule: rtranclp_induct)
  case base
  with assms(3) show ?case by blast
next
  case (step t u)
  from step.hyps(1) assms(2) have "invar t" by (rule run_invar)
  from step_move [OF this step.hyps(2), of ref] step.prems
  consider a where "row t ref = Some a" "c_State a = ''armed''" | a where "row t ref = Some a" "c_State a = ''open''"
    by (cases "row t ref") (auto simp: control_move_def)
  then show ?case
  proof cases
    case 1
    with step.hyps show ?thesis by blast
  next
    case 2
    from step.IH [OF this] step.hyps(2) show ?thesis by (meson rtranclp.rtrancl_into_rtrancl)
  qed
qed

text \<open>A ticket that was never controlled gets its row sealed first.\<close>

lemma run_armed_from_sealed:
  assumes "step\<^sup>*\<^sup>* s s'" and "invar s" and "row s ref = None" and "row s' ref = Some c'"
  shows "\<exists>t a. step\<^sup>*\<^sup>* s t \<and> step\<^sup>*\<^sup>* t s' \<and> row t ref = Some a \<and> c_State a = ''sealed''"
  using assms(1,4)
proof (induction arbitrary: c' rule: rtranclp_induct)
  case base
  with assms(3) show ?case by simp
next
  case (step t u)
  show ?case
  proof (cases "row t ref")
    case None
    from step.hyps(1) assms(2) have "invar t" by (rule run_invar)
    from step_move [OF this step.hyps(2), of ref] step.prems None have "c_State c' = ''sealed''"
      by (auto simp: control_move_def)
    with step show ?thesis by (meson rtranclp.rtrancl_into_rtrancl rtranclp.rtrancl_refl)
  next
    case (Some a)
    from step.IH [OF this] step.hyps(2) show ?thesis by (meson rtranclp.rtrancl_into_rtrancl)
  qed
qed

end

definition sound_control :: "db \<Rightarrow> db \<Rightarrow> bool" where
  "sound_control d d' \<longleftrightarrow> control_inv d' \<and> (\<forall>ref. control_move (control_at d ref) (control_at d' ref))"

lemma control_move_refl [simp]: "control_move c c"
  by (simp add: control_move_def)

lemma sound_control_same:
  assumes "control_inv d" and "runtime_ticket_controls d' = runtime_ticket_controls d" and "unique_key t_Ref (tickets d')"
  shows "sound_control d d'"
  using assms by (simp add: sound_control_def control_inv_def control_at_def)

lemma sound_control_refl: "control_inv d \<Longrightarrow> sound_control d d"
  by (simp add: sound_control_same control_inv_def)

lemma upsert_sound:
  assumes "control_inv d" and "upsert_sealed ref stop authority d = Inr d'"
  shows "sound_control d d'"
proof -
  have u: "unique_key c_Ref (runtime_ticket_controls d)" using assms(1) by (simp add: control_inv_def)
  note s = upsert_sealed_Inr [OF assms(2) u]
  obtain n where n: "control_at d' ref = Some \<lparr>c_Ref = ref, c_State = ''sealed'', c_Generation = n, c_Stop = stop, c_Authority = authority\<rparr>"
    "\<forall>c. control_at d ref = Some c \<longrightarrow> n = c_Generation c + 1" using s(1) by blast
  have "control_move (control_at d r) (control_at d' r)" for r
    using n s(2) by (cases "r = ref"; cases "control_at d r") (auto simp: control_move_def)
  moreover have "control_inv d'" using s(3,4) assms(1) by (auto simp: control_inv_def)
  ultimately show ?thesis by (simp add: sound_control_def)
qed

text \<open>An \<open>UPDATE\<close> of control rows that moves every selected row by one step of the protocol.\<close>

lemma control_update:
  assumes inv: "control_inv d" and f: "\<And>c. c_Ref (f c) = c_Ref c"
    and move: "\<And>c. p c \<Longrightarrow> control_move (Some c) (Some (f c))"
  shows "sound_control d (d\<lparr>runtime_ticket_controls := update_where p f (runtime_ticket_controls d)\<rparr>)"
    and "control_at (d\<lparr>runtime_ticket_controls := update_where p f (runtime_ticket_controls d)\<rparr>) ref =
      map_option (\<lambda>c. if p c then f c else c) (control_at d ref)"
proof -
  have u: "unique_key c_Ref (runtime_ticket_controls d)" using inv by (simp add: control_inv_def)
  let ?d = "d\<lparr>runtime_ticket_controls := update_where p f (runtime_ticket_controls d)\<rparr>"
  have at: "control_at ?d ref = map_option (\<lambda>c. if p c then f c else c) (control_at d ref)" for ref
    using control_table.get_upd [OF f u] by (simp add: control_at_def)
  then show "control_at ?d ref = map_option (\<lambda>c. if p c then f c else c) (control_at d ref)" .
  have "control_move (control_at d ref) (control_at ?d ref)" for ref
    using move by (cases "control_at d ref") (simp_all add: at)
  with inv control_table.wf_upd [OF f u] show "sound_control d ?d" by (simp add: sound_control_def control_inv_def)
qed

lemma control_delete:
  assumes inv: "control_inv d" and p: "\<And>c. p c \<Longrightarrow> c_State c = ''sealed''"
  shows "sound_control d (d\<lparr>runtime_ticket_controls := delete_where p (runtime_ticket_controls d)\<rparr>)"
proof -
  have u: "unique_key c_Ref (runtime_ticket_controls d)" using inv by (simp add: control_inv_def)
  let ?d = "d\<lparr>runtime_ticket_controls := delete_where p (runtime_ticket_controls d)\<rparr>"
  have "control_move (control_at d ref) (control_at ?d ref)" for ref
    using p control_table.get_del [OF u, of p ref]
    by (auto simp: control_at_def control_move_def split: option.splits)
  with inv control_table.wf_del [OF u] show ?thesis by (simp add: sound_control_def control_inv_def)
qed
section \<open>Each operation\<close>

lemma store_write_control:
  assumes "control_inv (st_db s)" and "\<And>r d. fn (st_db s) = Inr (r, d) \<Longrightarrow> sound_control (st_db s) d"
  shows "sound_control (st_db s) (st_db (snd (store_write s fn)))"
  using assms by (auto simp: store_write_def sound_control_refl split: sum.splits)

lemma with_gate_control:
  assumes "control_inv (st_db s)"
    and "\<And>g m. sound_control (st_db s) (st_db (snd (body g (s\<lparr>st_mutations := m\<rparr>))))"
  shows "sound_control (st_db s) (st_db (snd (with_gate nil s body)))"
proof -
  have "sound_control (st_db s) (st_db s')" if "body g (s\<lparr>st_mutations := m\<rparr>) = (r, s')" for g m r s'
    using assms(2) [of g m] that by simp
  with assms(1) show ?thesis
    by (auto simp: with_gate_def unlock_store_def sound_control_refl split: option.splits sum.splits prod.splits)
qed

lemma controlProof_tx_control:
  assumes "control_inv d" and "controlProof_tx ref before after d = Inr (r, d')"
    and "\<And>p l d'. before p l d = Inr d' \<Longrightarrow> sound_control d d'"
  shows "sound_control d d'"
  using assms(2,3)
  by (auto simp: controlProof_tx_def Let_def split: option.splits sum.splits)

lemma SealRuntimeControl_control:
  assumes inv: "control_inv (st_db s)"
  shows "sound_control (st_db s) (st_db (snd (SealRuntimeControl s ref)))"
proof -
  have "sound_control (st_db s) d" if "SealRuntimeControl_tx ref (st_db s) = Inr (r, d)" for r d
    using that inv by (auto simp: SealRuntimeControl_tx_def sealRuntimeControl_def upsert_sound split: option.splits sum.splits)
  with inv show ?thesis
    unfolding SealRuntimeControl_def store_write_def
    by (auto simp: update_gate_def sound_control_refl intro!: with_gate_control split: sum.splits)
qed

lemma ControlProof_control:
  assumes inv: "control_inv (st_db s)"
  shows "sound_control (st_db s) (st_db (snd (ControlProof s ref)))"
proof -
  let ?tx = "controlProof_tx ref (\<lambda>p leader d. sealRuntimeControl ref (proof_identity p leader) d) (\<lambda>_ _ _. None)"
  have "sound_control (st_db s) d" if "?tx (st_db s) = Inr (r, d)" for r d
    using that by (rule controlProof_tx_control [OF inv]) (simp add: sealRuntimeControl_def upsert_sound inv)
  then show ?thesis
    using inv by (auto simp: ControlProof_def store_write_def update_gate_def sound_control_refl
        intro!: with_gate_control split: option.splits sum.splits)
qed

lemma RearmProof_control:
  assumes inv: "control_inv (st_db s)"
  shows "sound_control (st_db s) (st_db (snd (RearmProof s ref sref sv sr)))"
proof -
  have "sound_control (st_db s) d"
    if "controlProof_tx ref (\<lambda>p leader d.
               case runtimeControlFrom d ref of
                 Inl _ \<Rightarrow> Inl ErrStaleFence
               | Inr control \<Rightarrow>
                 if c_State control \<noteq> ''sealed'' \<or> mr_version (c_Stop control) \<noteq> sv \<or>
                    mr_runner (c_Stop control) \<noteq> sr
                 then Inl ErrStaleFence
                 else if gate_controls g ref = None \<or>
                    cp_Version p \<le> sv \<and> cp_RunnerEpoch p = sr
                 then Inl ErrStaleFence
                 else Inr d) after (st_db s) = Inr (r, d)" for g after r d
    using that by (rule controlProof_tx_control [OF inv])
      (auto simp: sound_control_refl inv split: sum.splits if_splits)
  then show ?thesis
    using inv by (auto simp: RearmProof_def store_write_def update_gate_def sound_control_refl
        intro!: with_gate_control split: sum.splits)
qed
lemma arm_tx_control:
  assumes inv: "control_inv d" and run: "arm_tx ref version fence d = Inr (r, d')"
  shows "sound_control d d'"
proof -
  obtain n where d': "d' = d\<lparr>runtime_ticket_controls := update_where
      (\<lambda>c. c_Ref c = ref \<and> c_State c = ''sealed'' \<and> c_Generation c = n)
      (\<lambda>c. c\<lparr>c_State := ''armed'', c_Authority := identity version fence\<rparr>) (runtime_ticket_controls d)\<rparr>"
    using run by (auto simp: arm_tx_def Let_def split: option.splits sum.splits if_splits)
  show ?thesis unfolding d' by (rule control_update [OF inv]) (auto simp: control_move_def)
qed

lemma activate_arm_control:
  assumes inv: "control_inv (st_db s)"
  shows "sound_control (st_db s) (st_db (snd (activate_arm s c)))"
  using inv arm_tx_control [OF inv]
  by (auto simp: activate_arm_def store_write_def sound_control_refl intro!: with_gate_control split: sum.splits)

lemma openRuntimeAdmission_control:
  assumes inv: "control_inv (st_db s)"
  shows "sound_control (st_db s) (st_db (snd (openRuntimeAdmission s ref version fence)))"
proof -
  have "sound_control (st_db s) (st_db s\<lparr>runtime_ticket_controls := update_where
      (\<lambda>c. c_Ref c = ref \<and> c_State c = ''armed'' \<and> c_Authority c = identity version fence)
      (\<lambda>c. c\<lparr>c_State := ''open''\<rparr>) (runtime_ticket_controls (st_db s))\<rparr>)"
    by (rule control_update [OF inv]) (auto simp: control_move_def)
  with inv show ?thesis
    unfolding openRuntimeAdmission_def
    by (intro with_gate_control) (auto simp: store_write_def sound_control_refl openControl_def Let_def split: option.splits)
qed

lemma suspendRuntimeAdmission_control:
  assumes inv: "control_inv (st_db s)"
  shows "sound_control (st_db s) (st_db (snd (suspendRuntimeAdmission s ref version fence)))"
proof -
  have "sound_control (st_db s) (st_db s\<lparr>runtime_ticket_controls := update_where
      (\<lambda>c. c_Ref c = ref \<and> c_State c = ''open'' \<and> c_Authority c = identity version fence)
      (\<lambda>c. c\<lparr>c_State := ''armed''\<rparr>) (runtime_ticket_controls (st_db s))\<rparr>)"
    by (rule control_update [OF inv]) (auto simp: control_move_def)
  with inv show ?thesis
    unfolding suspendRuntimeAdmission_def
    by (intro with_gate_control) (auto simp: store_write_def update_gate_def sound_control_refl Let_def split: sum.splits)
qed

lemma sealRuntimeAdmission_tx_Inr:
  assumes run: "sealRuntimeAdmission_tx rre ref version fence d = Inr (latched, d')"
  shows "d' = d \<or> (\<exists>n. d' = d\<lparr>runtime_ticket_controls := update_where
      (\<lambda>c. c_Ref c = ref \<and> (c_State c = ''armed'' \<or> c_State c = ''open'') \<and> c_Generation c = n \<and>
         c_Authority c = identity version fence)
      (\<lambda>c. c\<lparr>c_State := ''sealed''\<rparr>) (runtime_ticket_controls d)\<rparr>)"
proof (cases "runtimeControlFrom d ref")
  case (Inr control)
  show ?thesis
  proof (cases "c_Authority control = identity version fence")
    case True
    with Inr run show ?thesis
      by (cases "c_State control = ''sealed''")
        (auto simp: sealRuntimeAdmission_tx_def Let_def split: if_split_asm intro!: disjI2 exI [of _ "c_Generation control"])
  next
    case False
    with Inr run show ?thesis
      by (auto simp: sealRuntimeAdmission_tx_def Let_def simp del: de_Morgan_conj split: option.splits if_split_asm)
  qed
qed (use run in \<open>simp add: sealRuntimeAdmission_tx_def\<close>)

lemma sealRuntimeAdmission_control:
  assumes inv: "control_inv (st_db s)"
  shows "sound_control (st_db s) (st_db (snd (sealRuntimeAdmission rre s ref version fence)))"
proof -
  have "sound_control (st_db s) (st_db s\<lparr>runtime_ticket_controls := update_where
      (\<lambda>c. c_Ref c = ref \<and> (c_State c = ''armed'' \<or> c_State c = ''open'') \<and> c_Generation c = n \<and>
         c_Authority c = identity version fence)
      (\<lambda>c. c\<lparr>c_State := ''sealed''\<rparr>) (runtime_ticket_controls (st_db s))\<rparr>)" for n
    by (rule control_update [OF inv]) (auto simp: control_move_def)
  then have "sound_control (st_db s) d" if "sealRuntimeAdmission_tx rre ref version fence (st_db s) = Inr (r, d)" for r d
    using sealRuntimeAdmission_tx_Inr [OF that] inv by (auto simp: sound_control_refl)
  with inv show ?thesis
    unfolding sealRuntimeAdmission_def
    by (intro with_gate_control) (auto simp: store_write_def update_gate_def sound_control_refl split: sum.splits)
qed

lemma retireRuntimeControl_control:
  assumes inv: "control_inv (st_db s)"
  shows "sound_control (st_db s) (st_db (snd (retireRuntimeControl s ref v)))"
proof -
  have "sound_control (st_db s) (st_db s\<lparr>runtime_ticket_controls := delete_where
      (\<lambda>c. c_Ref c = ref \<and> c_State c = ''sealed'') (runtime_ticket_controls (st_db s))\<rparr>)"
    by (rule control_delete [OF inv]) simp
  with inv show ?thesis
    unfolding retireRuntimeControl_def
    by (intro with_gate_control)
      (auto simp: store_write_def sound_control_refl retireControl_def split: option.splits sum.splits)
qed

lemma restoreRuntimeControls_control:
  assumes inv: "control_inv (st_db s)"
  shows "sound_control (st_db s) (st_db (snd (restoreRuntimeControls s)))"
proof -
  have "sound_control (st_db s) (st_db s\<lparr>runtime_ticket_controls := update_where
      (\<lambda>c. c_State c = ''armed'' \<or> c_State c = ''open'') (\<lambda>c. c\<lparr>c_State := ''sealed''\<rparr>) (runtime_ticket_controls (st_db s))\<rparr>)"
    by (rule control_update [OF inv]) (auto simp: control_move_def)
  with inv show ?thesis
    by (auto simp: restoreRuntimeControls_def update_gate_def Let_def sound_control_refl)
qed

lemma advance_control:
  assumes inv: "control_inv d" and run: "advanceOpenRuntimeAuthority ref v fence d = Inr d'"
  shows "sound_control d d'"
proof (cases "d' = d")
  case False
  from run False obtain a n where a: "a \<le> v" and v: "v \<noteq> - 1" and d': "d' = d\<lparr>runtime_ticket_controls := update_where
      (\<lambda>c. c_Ref c = ref \<and> c_State c = ''open'' \<and> c_Generation c = n \<and> mr_version (c_Authority c) = a \<and>
         mr_leader (c_Authority c) = LeaderEpoch fence \<and> mr_runner (c_Authority c) = RunnerEpoch fence)
      (\<lambda>c. c\<lparr>c_Authority := (c_Authority c)\<lparr>mr_version := v + 1\<rparr>\<rparr>) (runtime_ticket_controls d)\<rparr>"
    by (auto simp: advanceOpenRuntimeAuthority_def Let_def not_less split: sum.splits if_splits)
  from v have "v < - 1" by (simp add: less_le)
  then have "v < v + 1" by uint_arith
  with a have "a < v + 1" by simp
  then show ?thesis unfolding d' by (intro control_update(1) [OF inv]) (auto simp: control_move_def)
qed (use inv in \<open>simp add: sound_control_refl\<close>)
lemma TransitionAndInvalidateRunner_control:
  assumes inv: "control_inv (st_db s)"
  shows "sound_control (st_db s) (st_db (snd (TransitionAndInvalidateRunner s tr)))"
proof -
  have tx: "sound_control (st_db s) d" if "TransitionAndInvalidateRunner_tx tr payload (st_db s) = Inr ((res, v), d)" for payload res v d
  proof -
    from that obtain q d1 where d1: "upsert_sealed (tn_Ref tr) v v
        (st_db s\<lparr>tickets := update_where q (invalidate_row tr) (tickets (st_db s))\<rparr>) = Inr d1"
      and d: "runtime_ticket_controls d = runtime_ticket_controls d1" "tickets d = tickets d1"
      by (auto simp: TransitionAndInvalidateRunner_tx_def Let_def sealRuntimeControl_def insert_event_def
          split: option.splits if_splits sum.splits)
    let ?d = "st_db s\<lparr>tickets := update_where q (invalidate_row tr) (tickets (st_db s))\<rparr>"
    have "control_inv ?d"
      using inv ticket_table.wf_upd [of "invalidate_row tr"] by (simp add: control_inv_def invalidate_row_def)
    from upsert_sound [OF this d1] d show ?thesis
      by (simp add: sound_control_def control_inv_def control_at_def)
  qed
  with inv show ?thesis
    unfolding TransitionAndInvalidateRunner_def
    by (auto simp: store_write_def update_gate_def sound_control_refl intro!: with_gate_control split: option.splits sum.splits)
qed

lemma CompleteControlTransition_control:
  assumes inv: "control_inv (st_db s)"
  shows "sound_control (st_db s) (st_db (snd (CompleteControlTransition s tr)))"
proof -
  have "sound_control (st_db s) d" if "CompleteControlTransition_tx tr payload (st_db s) = Inr (res, d)" for payload res d
  proof -
    from that obtain p where "tickets d = update_where p (complete_row tr) (tickets (st_db s))"
      "runtime_ticket_controls d = runtime_ticket_controls (st_db s)"
      by (auto simp: CompleteControlTransition_tx_def Let_def releaseTerminalCapacity_def insert_event_def
          split: option.splits if_splits)
    with inv ticket_table.wf_upd [of "complete_row tr"] show ?thesis
      by (intro sound_control_same) (simp_all add: control_inv_def complete_row_def)
  qed
  with inv show ?thesis
    unfolding CompleteControlTransition_def
    by (auto simp: store_write_def sound_control_refl split: option.splits sum.splits)
qed

section \<open>Runs\<close>

text \<open>
  A step of the Store as runtime control sees it: an operation of the two control files, successful or
  not; a transaction of another component that advances the open authority or seals a semantic merge retry; or
  a step that leaves the control rows alone.
\<close>

inductive control_step :: "Store \<Rightarrow> Store \<Rightarrow> bool" where
  transition: "control_step s (snd (TransitionAndInvalidateRunner s tr))"
| complete: "control_step s (snd (CompleteControlTransition s tr))"
| seal: "control_step s (snd (SealRuntimeControl s ref))"
| control_proof: "control_step s (snd (ControlProof s ref))"
| rearm: "control_step s (snd (RearmProof s ref sref sv sr))"
| arm: "control_step s (snd (activate_arm s c))"
| open_admission: "control_step s (snd (openRuntimeAdmission s ref v fence))"
| suspend: "control_step s (snd (suspendRuntimeAdmission s ref v fence))"
| seal_admission: "control_step s (snd (sealRuntimeAdmission rre s ref v fence))"
| retire: "control_step s (snd (retireRuntimeControl s ref i))"
| restore: "control_step s (snd (restoreRuntimeControls s))"
| advance: "advanceOpenRuntimeAuthority ref v fence (st_db s) = Inr d \<Longrightarrow>
    runtime_ticket_controls (st_db s') = runtime_ticket_controls d \<Longrightarrow> unique_key t_Ref (tickets (st_db s')) \<Longrightarrow>
    control_step s s'"
| semantic_retry: "sealSemanticMergeRetryControl ref stop i (st_db s) = Inr d \<Longrightarrow>
    runtime_ticket_controls (st_db s') = runtime_ticket_controls d \<Longrightarrow> unique_key t_Ref (tickets (st_db s')) \<Longrightarrow>
    control_step s s'"
| other: "runtime_ticket_controls (st_db s') = runtime_ticket_controls (st_db s) \<Longrightarrow>
    unique_key t_Ref (tickets (st_db s')) \<Longrightarrow> control_step s s'"

lemma sound_control_copy:
  assumes "sound_control d d1" and "runtime_ticket_controls d' = runtime_ticket_controls d1" and "unique_key t_Ref (tickets d')"
  shows "sound_control d d'"
  using assms by (simp add: sound_control_def control_inv_def control_at_def)

lemmas control_operations =
  TransitionAndInvalidateRunner_control CompleteControlTransition_control SealRuntimeControl_control
  ControlProof_control RearmProof_control activate_arm_control openRuntimeAdmission_control
  suspendRuntimeAdmission_control sealRuntimeAdmission_control retireRuntimeControl_control
  restoreRuntimeControls_control

lemma control_step_sound:
  assumes "control_step s s'" and inv: "control_inv (st_db s)"
  shows "sound_control (st_db s) (st_db s')"
  using assms(1)
proof cases
  case (advance ref v fence d)
  with advance_control [OF inv] show ?thesis by (blast intro: sound_control_copy)
next
  case (semantic_retry ref stop i d)
  then have "upsert_sealed ref stop i (st_db s) = Inr d"
    by (auto simp: sealSemanticMergeRetryControl_def split: if_splits)
  with upsert_sound [OF inv] semantic_retry show ?thesis by (blast intro: sound_control_copy)
next
  case other
  with inv show ?thesis by (blast intro: sound_control_copy sound_control_refl)
qed (simp_all add: inv control_operations)

interpretation control_runs: control_protocol "\<lambda>s. control_at (st_db s)" "\<lambda>s. control_inv (st_db s)" control_step
proof
  fix s s' ref
  assume "control_inv (st_db s)" and "control_step s s'"
  from control_step_sound [OF this(2,1)]
  show "control_inv (st_db s')" and "control_move (control_at (st_db s) ref) (control_at (st_db s') ref)"
    by (auto simp: sound_control_def)
qed

section \<open>The handshake\<close>

lemma identity_inject:
  "identity v f = identity v' f' \<longleftrightarrow> v = v' \<and> LeaderEpoch f = LeaderEpoch f' \<and> RunnerEpoch f = RunnerEpoch f'"
  by (auto simp: identity_def)

lemma current_identity_Some:
  "current_identity d ref = Some i \<longleftrightarrow> (\<exists>t leader. ticket_at d ref = Some t \<and> leader_at d (Channel ref) = Some leader \<and>
     i = \<lparr>mr_version = t_Version t, mr_leader = leader, mr_runner = t_RunnerEpoch t\<rparr>)"
  by (auto simp: current_identity_def split: option.splits)

lemma controls_update_simps [simp]:
  "ticket_at (d\<lparr>runtime_ticket_controls := t\<rparr>) = ticket_at d"
  "leader_at (d\<lparr>runtime_ticket_controls := t\<rparr>) = leader_at d"
  "current_identity (d\<lparr>runtime_ticket_controls := t\<rparr>) = current_identity d"
  by (simp_all add: fun_eq_iff ticket_at_def leader_at_def current_identity_def)

lemma pinned_control_update:
  assumes "unique_key c_Ref (runtime_ticket_controls d)" and "control_at d ref = Some c" and "p c"
    and "\<And>r. p r \<Longrightarrow> c_Ref r = ref" and "\<And>r. c_Ref (f r) = c_Ref r"
  shows "count_where p (runtime_ticket_controls d) = 1"
    and "control_at (d\<lparr>runtime_ticket_controls := update_where p f (runtime_ticket_controls d)\<rparr>) ref = Some (f c)"
  using assms control_table.affected_hit [OF assms(1,4)] control_table.get_upd [OF assms(5,1)]
  by (simp_all add: control_at_def)

lemma activate_arm_ok:
  assumes g: "st_mutations s = Some g" "gate_token g" "gate_controls g (rc_ref c) = Some (identity (rc_version c) (rc_fence c))"
    and cap: "rc_issued c" "\<not> rc_activating c" and rw: "\<not> st_readOnly s"
    and now: "current_identity (st_db s) (rc_ref c) = Some (identity (rc_version c) (rc_fence c))"
    and u: "unique_key c_Ref (runtime_ticket_controls (st_db s))"
    and row: "control_at (st_db s) (rc_ref c) = Some b" "c_State b = ''sealed''"
  shows "\<exists>t. activate_arm s c = (Inr (), s\<lparr>st_db := st_db s\<lparr>runtime_ticket_controls := t\<rparr>\<rparr>) \<and>
    control_at (st_db s\<lparr>runtime_ticket_controls := t\<rparr>) (rc_ref c) =
      Some (b\<lparr>c_State := ''armed'', c_Authority := identity (rc_version c) (rc_fence c)\<rparr>) \<and> unique_key c_Ref t"
proof -
  let ?p = "\<lambda>r. c_Ref r = rc_ref c \<and> c_State r = ''sealed'' \<and> c_Generation r = c_Generation b"
  let ?f = "\<lambda>r. r\<lparr>c_State := ''armed'', c_Authority := identity (rc_version c) (rc_fence c)\<rparr>"
  let ?t = "update_where ?p ?f (runtime_ticket_controls (st_db s))"
  have ref: "c_Ref b = rc_ref c" using row(1) unfolding control_at_def by (rule control_table.get_key)
  note upd = pinned_control_update [OF u row(1), of ?p ?f]
  have "arm_tx (rc_ref c) (rc_version c) (rc_fence c) (st_db s) = Inr ((), st_db s\<lparr>runtime_ticket_controls := ?t\<rparr>)"
    using now row upd(1) ref by (simp add: arm_tx_def runtimeControlFrom_def Let_def)
  then have "activate_arm s c = (Inr (), s\<lparr>st_db := st_db s\<lparr>runtime_ticket_controls := ?t\<rparr>\<rparr>)"
    using g cap rw by (simp add: activate_arm_def with_gate_def gate_lock_cases store_write_def unlock_store_def gate_unlock_def)
  moreover have "unique_key c_Ref ?t" by (rule control_table.wf_upd) (simp_all add: u)
  ultimately show ?thesis using upd(2) row ref by auto
qed

lemma openRuntimeAdmission_ok:
  assumes g: "st_mutations s = Some g" "gate_token g" "gate_controls g ref = Some (identity v f)" and rw: "\<not> st_readOnly s"
    and now: "current_identity (st_db s) ref = Some (identity v f)"
    and t: "ticket_at (st_db s) ref = Some tk" "runtimeRearmableState (t_State tk)"
    and u: "unique_key c_Ref (runtime_ticket_controls (st_db s))"
    and row: "control_at (st_db s) ref = Some b" "c_State b = ''armed''" "c_Authority b = identity v f"
  shows "\<exists>t. openRuntimeAdmission s ref v f = (Inr (), s\<lparr>st_db := st_db s\<lparr>runtime_ticket_controls := t\<rparr>,
      st_mutations := Some (g\<lparr>gate_controls := (gate_controls g)(ref := None)\<rparr>)\<rparr>) \<and>
    control_at (st_db s\<lparr>runtime_ticket_controls := t\<rparr>) ref = Some (b\<lparr>c_State := ''open''\<rparr>)"
proof -
  let ?p = "\<lambda>r. c_Ref r = ref \<and> c_State r = ''armed'' \<and> c_Authority r = identity v f"
  let ?f = "\<lambda>r. r\<lparr>c_State := ''open''\<rparr>"
  have ref: "c_Ref b = ref" using row(1) unfolding control_at_def by (rule control_table.get_key)
  note upd = pinned_control_update [OF u row(1), of ?p ?f]
  from now t have tk: "t_Version tk = v" "t_RunnerEpoch tk = RunnerEpoch f" "leader_at (st_db s) (Channel ref) = Some (LeaderEpoch f)"
    by (auto simp: current_identity_Some identity_def)
  have "openRuntimeAdmission s ref v f = (Inr (), s\<lparr>st_db := st_db s\<lparr>runtime_ticket_controls := update_where ?p ?f (runtime_ticket_controls (st_db s))\<rparr>,
      st_mutations := Some (g\<lparr>gate_controls := (gate_controls g)(ref := None)\<rparr>)\<rparr>)"
    using g rw tk t upd(1) row ref
    by (simp add: openRuntimeAdmission_def with_gate_def gate_lock_cases store_write_def unlock_store_def gate_unlock_def
        openControl_def Let_def)
  with upd(2) row ref show ?thesis by auto
qed
lemma RearmProof_Inr:
  assumes "RearmProof s ref sref sv sr = (Inr c, s')"
  obtains g t leader b where "st_mutations s = Some g" and "gate_token g" and "\<not> st_readOnly s"
    and "ticket_at (st_db s) ref = Some t" and "leader_at (st_db s) (Channel ref) = Some leader"
    and "prePublicationState (t_State t)" and "control_at (st_db s) ref = Some b" and "c_State b = ''sealed''"
    and "mr_version (c_Stop b) = sv" and "mr_runner (c_Stop b) = sr"
    and "\<not> (t_Version t \<le> sv \<and> t_RunnerEpoch t = sr)" and "gate_controls g ref \<noteq> None"
    and "unreconciled_effects ref (effects (st_db s)) = 0" and "live_writers ref (provider_attempts (st_db s)) = 0"
    and "c = \<lparr>rc_ref = ref, rc_version = t_Version t,
      rc_fence = \<lparr>LeaderEpoch = leader, RunnerEpoch = t_RunnerEpoch t, ClaimEpoch = 0\<rparr>, rc_issued = True, rc_activating = False\<rparr>"
    and "s' = s\<lparr>st_mutations := Some (g\<lparr>gate_controls := (gate_controls g)(ref :=
      Some \<lparr>mr_version = t_Version t, mr_leader = leader, mr_runner = t_RunnerEpoch t\<rparr>)\<rparr>)\<rparr>"
    and "TicketRef_Validate ref = None"
proof -
  let ?hook = "\<lambda>g p (leader :: u64) d.
               case runtimeControlFrom d ref of
                 Inl _ \<Rightarrow> Inl ErrStaleFence
               | Inr control \<Rightarrow>
                 if c_State control \<noteq> ''sealed'' \<or> mr_version (c_Stop control) \<noteq> sv \<or>
                    mr_runner (c_Stop control) \<noteq> sr
                 then Inl ErrStaleFence
                 else if gate_controls g ref = None \<or> cp_Version p \<le> sv \<and> cp_RunnerEpoch p = sr
                 then Inl ErrStaleFence
                 else Inr d"
  let ?after = "\<lambda>p (leader :: u64) (d :: db).
               if \<not> Drained p \<or> \<not> StrictlyPrePublication p \<or> \<not> prePublicationState (cp_State p)
               then Some ErrControlNotDrained else None"
  from assms obtain g p leader d where g: "st_mutations s = Some g" "gate_token g" "\<not> st_readOnly s" "TicketRef_Validate ref = None"
    and tx: "controlProof_tx ref (?hook (g\<lparr>gate_token := False\<rparr>)) ?after (st_db s) = Inr ((p, leader), d)"
    and c: "c = \<lparr>rc_ref = ref, rc_version = cp_Version p, rc_fence = cp_Fence p, rc_issued = True, rc_activating = False\<rparr>"
    and s': "s' = unlock_store (update_gate (gate_latch ref (proof_identity p leader))
        (s\<lparr>st_mutations := Some (g\<lparr>gate_token := False\<rparr>), st_db := d\<rparr>))"
    by (auto simp: RearmProof_def store_write_def split: if_splits sum.splits elim!: with_gate_Inr)
  from tx obtain t where t: "ticket_at (st_db s) ref = Some t" "leader_at (st_db s) (Channel ref) = Some leader"
    and b: "\<exists>b. control_at (st_db s) ref = Some b \<and> c_State b = ''sealed'' \<and> mr_version (c_Stop b) = sv \<and> mr_runner (c_Stop b) = sr"
    and p: "cp_Version p = t_Version t" "cp_RunnerEpoch p = t_RunnerEpoch t" "cp_State p = t_State t"
      "cp_Fence p = \<lparr>LeaderEpoch = leader, RunnerEpoch = t_RunnerEpoch t, ClaimEpoch = 0\<rparr>"
      "\<not> (t_Version t \<le> sv \<and> t_RunnerEpoch t = sr)" "gate_controls g ref \<noteq> None" "d = st_db s"
      "Drained p" "prePublicationState (cp_State p)"
      "cp_UnreconciledEffects p = unreconciled_effects ref (effects (st_db s))"
      "cp_ProviderWriters p = live_writers ref (provider_attempts (st_db s))"
    by (auto simp: controlProof_tx_def Let_def runtimeControlFrom_def control_counts_def split: option.splits sum.splits if_splits)
  have "unreconciled_effects ref (effects (st_db s)) = 0" "live_writers ref (provider_attempts (st_db s)) = 0"
    using p(8,10,11) by (simp_all add: Drained_def)
  with g t b p c s' that show ?thesis
    by (auto simp: unlock_store_def update_gate_def gate_latch_def gate_unlock_def proof_identity_def)
qed

lemma terminal_not_rearmable: "State_Terminal st \<Longrightarrow> \<not> runtimeRearmableState st"
  by (auto simp: State_Terminal_def runtimeRearmableState_def prePublicationState_def postPublicationState_def state_defs)

lemma terminal_inert:
  assumes "ticket_at (st_db s) ref = Some t" and "State_Terminal (t_State t)"
  shows "inert s ref"
proof (rule fence_inert)
  show "assertTicketFence (st_mutations s) (st_db s) ref v f \<noteq> None" for v f
    using assms by (auto simp: assertTicketFence_None)
  show "fst (RuntimeAdmissionReady s ref v f) \<noteq> Inr True" for v f
    using assms terminal_not_rearmable
    by (auto simp: RuntimeAdmissionReady_def with_gate_def gate_lock_cases split: option.splits)
qed

lemma latch_all_at:
  assumes "distinct (map c_Ref cs)" and "c \<in> set cs"
  shows "gate_controls (latch_all cs g) (c_Ref c) = Some (c_Authority c)"
proof -
  have other: "ref \<notin> c_Ref ` set cs \<Longrightarrow> gate_controls (latch_all cs g) ref = gate_controls g ref" for ref cs g
    by (induction cs arbitrary: g) (auto simp: latch_all_def gate_latch_def)
  from assms show ?thesis
  proof (induction cs arbitrary: g)
    case (Cons a cs)
    have step: "latch_all (a # cs) g = latch_all cs (gate_latch (c_Ref a) (c_Authority a) g)" by (simp add: latch_all_def)
    show ?case
    proof (cases "c = a")
      case True
      with Cons.prems show ?thesis by (simp add: step other) (simp add: gate_latch_def)
    next
      case False
      with Cons show ?thesis by (simp add: step)
    qed
  qed simp
qed

definition consume_admission ::
  "RuntimeAdmissionCapability \<Rightarrow> Store \<Rightarrow> store_error option \<times> RuntimeAdmissionCapability \<times> Store" where
  "consume_admission a s = (None, snd (ConsumeRuntimeAdmission a), s)"

section \<open>A sample control\<close>

text \<open>The sample ticket is paused by an operator, drained, resumed by a lifecycle transition, and rearmed.\<close>

definition sample_fence3 :: Fence where "sample_fence3 = \<lparr>LeaderEpoch = 2, RunnerEpoch = 3, ClaimEpoch = 0\<rparr>"
definition sample_fence4 :: Fence where "sample_fence4 = \<lparr>LeaderEpoch = 2, RunnerEpoch = 4, ClaimEpoch = 0\<rparr>"

definition sample_pause :: StoreTransition where
  "sample_pause = \<lparr>tn_Ref = sample_ref, tn_ExpectedVersion = 5, tn_From = ''building'', tn_To = ''stopping'',
     tn_ResumeState = ''building'', tn_Trigger = ''operator_pause_or_take'', tn_Fence = sample_fence3, tn_EventPayload = ''''\<rparr>"

definition sample_drained :: StoreTransition where
  "sample_drained = \<lparr>tn_Ref = sample_ref, tn_ExpectedVersion = 6, tn_From = ''stopping'', tn_To = ''paused'',
     tn_ResumeState = ''building'', tn_Trigger = ''process_and_effects_drained'', tn_Fence = sample_fence4, tn_EventPayload = ''''\<rparr>"

definition stopping_store :: Store where "stopping_store = snd (TransitionAndInvalidateRunner sample_store sample_pause)"
definition paused_store :: Store where "paused_store = snd (CompleteControlTransition stopping_store sample_drained)"

definition resumed_store :: Store where
  "resumed_store = paused_store\<lparr>st_db := st_db paused_store
     \<lparr>tickets := [sample_ticket\<lparr>t_Version := 8, t_RunnerEpoch := 4\<rparr>]\<rparr>\<rparr>"

definition sample_capability :: RuntimeRearmCapability where
  "sample_capability = \<lparr>rc_ref = sample_ref, rc_version = 8, rc_fence = sample_fence4, rc_issued = True, rc_activating = False\<rparr>"

definition proved_store :: Store where "proved_store = snd (RearmProof resumed_store sample_ref sample_ref 6 4)"
definition armed_store :: Store where "armed_store = snd (activate_arm proved_store sample_capability)"
definition opened_store :: Store where "opened_store = snd (openRuntimeAdmission armed_store sample_ref 8 sample_fence4)"

definition no_endpoint :: "db \<Rightarrow> TicketRef \<Rightarrow> store_error + mutationRevocation" where
  "no_endpoint d ref = Inl ErrNotFound"

text \<open>The sample ticket after its cancellation was completed.\<close>

definition cancelled_store :: Store where
  "cancelled_store = sample_store\<lparr>st_db := sample_db\<lparr>tickets := [sample_ticket\<lparr>t_State := ''cancelled''\<rparr>]\<rparr>\<rparr>"

lemma sample_control_inv: "control_inv (st_db sample_store)"
  by (simp add: control_inv_def sample_store_def sample_db_def unique_key_def)

lemma sample_control_run:
  "control_step sample_store stopping_store" "control_step stopping_store paused_store"
  "control_step paused_store resumed_store" "control_step resumed_store proved_store"
  "control_step proved_store armed_store" "control_step armed_store opened_store"
proof -
  show "control_step sample_store stopping_store" unfolding stopping_store_def by (rule control_step.transition)
  show "control_step stopping_store paused_store" unfolding paused_store_def by (rule control_step.complete)
  show "control_step paused_store resumed_store"
    by (rule control_step.other) (simp_all add: resumed_store_def unique_key_def)
  show "control_step resumed_store proved_store" unfolding proved_store_def by (rule control_step.rearm)
  show "control_step proved_store armed_store" unfolding armed_store_def by (rule control_step.arm)
  show "control_step armed_store opened_store" unfolding opened_store_def by (rule control_step.open_admission)
qed

lemma sample_control_invs:
  "control_inv (st_db stopping_store)" "control_inv (st_db resumed_store)" "control_inv (st_db opened_store)"
  using sample_control_inv sample_control_run control_runs.step_invar by blast+

lemma sample_rearm: "RearmProof resumed_store sample_ref sample_ref 6 4 = (Inr sample_capability, proved_store)"
  by (rule prod_eqI) (code_simp, simp add: proved_store_def)

section \<open>Properties\<close>



text \<open>C28: a control is completed only when no provider, repository command or Git writer of the ticket is
  live and none of its effects is executing or uncertain; the completion releases exactly the ticket's
  leases, closes its active phase run, moves the ticket one version on and keeps its runner epoch.\<close>

theorem control_completion_drained:
  assumes inv: "control_inv (st_db s)" and run: "CompleteControlTransition s tr = (Inr res, s')"
  shows "live_writers (tn_Ref tr) (provider_attempts (st_db s)) = 0 \<and>
    live_writers (tn_Ref tr) (repository_command_leases (st_db s)) = 0 \<and>
    live_writers (tn_Ref tr) (git_mutation_leases (st_db s)) = 0 \<and>
    unreconciled_effects (tn_Ref tr) (effects (st_db s)) = 0 \<and>
    leases (st_db s') = filter (\<lambda>l. l_Ref l \<noteq> tn_Ref tr) (leases (st_db s)) \<and>
    count_where (\<lambda>r. pr_Ref r = tn_Ref tr \<and> pr_State r = ''active'') (phase_runs (st_db s')) = 0 \<and>
    (\<exists>t. ticket_at (st_db s) (tn_Ref tr) = Some t \<and> t_State t = tn_From tr \<and>
      ticket_at (st_db s') (tn_Ref tr) = Some (complete_row tr t) \<and> res_Version res = t_Version t + 1)"
proof -
  let ?ref = "tn_Ref tr"
  from run obtain d' where tx: "CompleteControlTransition_tx tr (event_payload tr) (st_db s) = Inr (res, d')"
    and s': "s' = s\<lparr>st_db := d'\<rparr>"
    by (auto simp: CompleteControlTransition_def write_Inr_iff split: option.splits if_splits)
  from tx obtain t d1 where t: "ticket_at (st_db s) ?ref = Some t" "t_State t = tn_From tr"
    and d1: "releaseTerminalCapacity ?ref (st_db s) = Inr d1"
    by (auto simp: CompleteControlTransition_tx_def Let_def split: option.splits if_splits sum.splits prod.splits)
  let ?p = "\<lambda>r. t_Ref r = ?ref \<and> t_State r = tn_From tr \<and> t_Version r = t_Version t \<and> t_RunnerEpoch r = t_RunnerEpoch t"
  from d1 have drained: "live_writers ?ref (provider_attempts (st_db s)) = 0"
    "live_writers ?ref (repository_command_leases (st_db s)) = 0"
    "live_writers ?ref (git_mutation_leases (st_db s)) = 0" "unreconciled_effects ?ref (effects (st_db s)) = 0"
    "d1 = st_db s\<lparr>leases := delete_where (\<lambda>l. l_Ref l = ?ref) (leases (st_db s))\<rparr>"
    by (auto simp: releaseTerminalCapacity_def split: if_splits)
  from tx t d1 drained(5) have one: "count_where ?p (tickets (st_db s)) = 1"
    and d': "tickets d' = update_where ?p (complete_row tr) (tickets (st_db s))"
      "phase_runs d' = update_where (\<lambda>r. pr_Ref r = ?ref \<and> pr_State r = ''active'') close_phase (phase_runs (st_db s))"
      "leases d' = delete_where (\<lambda>l. l_Ref l = ?ref) (leases (st_db s))" "res_Version res = t_Version t + 1"
    by (auto simp: CompleteControlTransition_tx_def Let_def insert_event_def split: option.splits if_splits)
  have k: "t_Ref (complete_row tr r) = t_Ref r" for r by (simp add: complete_row_def)
  have u: "unique_key t_Ref (tickets (st_db s))" using inv by (simp add: control_inv_def)
  have "ticket_at d' ?ref = Some (complete_row tr t)"
    by (rule ticket_table.pinned_update [OF u _ k one, of ?ref]) (use t in \<open>auto simp: ticket_at_def d'\<close>)
  moreover have "count_where (\<lambda>r. pr_Ref r = ?ref \<and> pr_State r = ''active'') (phase_runs d') = 0"
    by (auto simp: d' count_where_def update_where_def close_phase_def filter_empty_conv)
  ultimately show ?thesis using drained t d' s' by (simp add: delete_where_def)
qed

theorem control_completion_drained_witness:
  "unreconciled_effects sample_ref (effects (st_db stopping_store)) = 0 \<and>
   (\<exists>t. ticket_at (st_db paused_store) sample_ref = Some (complete_row sample_drained t))"
proof -
  have "CompleteControlTransition stopping_store sample_drained = (Inr \<lparr>res_Version = 7, res_EventID = 2\<rparr>, paused_store)"
    by (rule prod_eqI) (code_simp, simp add: paused_store_def)
  from control_completion_drained [OF sample_control_invs(1) this] show ?thesis by (auto simp: sample_drained_def)
qed

text \<open>A rearm proof is enough to bring a stopped ticket back, and only step by step: activating it arms
  the durable row while every operation on the ticket stays refused; opening the consumed admission makes
  exactly the proved identity ready; and the capability cannot be activated a second time.\<close>

theorem rearm_handshake:
  assumes inv: "control_inv (st_db s)" and run: "RearmProof s ref sref sv sr = (Inr c, s1)"
    and pos: "rc_version c \<noteq> 0" "LeaderEpoch (rc_fence c) \<noteq> 0" "RunnerEpoch (rc_fence c) \<noteq> 0"
  shows "\<exists>a s2 c2 a3 s3. ActivateRearm rre s1 c consume_admission = (Inr a, s2, c2) \<and> inert s2 ref \<and>
    OpenStoreAdmission s2 a = (Inr (), s3, a3) \<and>
    RuntimeAdmissionReady s3 ref (rc_version c) (rc_fence c) = (Inr True, s3) \<and>
    fst (ActivateRearm rre s3 c2 install) = Inl ErrStaleFence"
  using run
proof (rule RearmProof_Inr)
  fix g t leader b
  assume g: "st_mutations s = Some g" "gate_token g" "\<not> st_readOnly s"
    and t: "ticket_at (st_db s) ref = Some t" "leader_at (st_db s) (Channel ref) = Some leader" "prePublicationState (t_State t)"
    and b: "control_at (st_db s) ref = Some b" "c_State b = ''sealed''"
    and c: "c = \<lparr>rc_ref = ref, rc_version = t_Version t,
      rc_fence = \<lparr>LeaderEpoch = leader, RunnerEpoch = t_RunnerEpoch t, ClaimEpoch = 0\<rparr>, rc_issued = True, rc_activating = False\<rparr>"
    and s1: "s1 = s\<lparr>st_mutations := Some (g\<lparr>gate_controls := (gate_controls g)(ref :=
      Some \<lparr>mr_version = t_Version t, mr_leader = leader, mr_runner = t_RunnerEpoch t\<rparr>)\<rparr>)\<rparr>"
    and valid: "TicketRef_Validate ref = None"
  let ?v = "rc_version c" and ?f = "rc_fence c"
  let ?i = "identity ?v ?f"
  have i: "?i = \<lparr>mr_version = t_Version t, mr_leader = leader, mr_runner = t_RunnerEpoch t\<rparr>" by (simp add: c identity_def)
  let ?g1 = "g\<lparr>gate_controls := (gate_controls g)(ref := Some ?i)\<rparr>"
  have s1': "s1 = s\<lparr>st_mutations := Some ?g1\<rparr>" by (simp add: s1 i)
  have now: "current_identity (st_db s) ref = Some ?i" using t by (simp add: current_identity_Some i)
  have u: "unique_key c_Ref (runtime_ticket_controls (st_db s))" using inv by (simp add: control_inv_def)
  obtain t2 where arm: "activate_arm s1 c = (Inr (), s1\<lparr>st_db := st_db s\<lparr>runtime_ticket_controls := t2\<rparr>\<rparr>)"
    and b2: "control_at (st_db s\<lparr>runtime_ticket_controls := t2\<rparr>) ref = Some (b\<lparr>c_State := ''armed'', c_Authority := ?i\<rparr>)"
    and u2: "unique_key c_Ref t2"
    using activate_arm_ok [of s1 ?g1 c b] g now u b by (auto simp: s1' c)
  let ?s2 = "s1\<lparr>st_db := st_db s\<lparr>runtime_ticket_controls := t2\<rparr>\<rparr>"
  let ?a = "snd (ConsumeRuntimeAdmission (new_admission c))"
  have act: "ActivateRearm rre s1 c consume_admission = (Inr ?a, ?s2, c\<lparr>rc_issued := False\<rparr>)"
    by (simp add: ActivateRearm_def arm consume_admission_def ConsumeRuntimeAdmission_def new_admission_def)
  have "inert ?s2 ref" by (rule latched_inert [of _ ?g1]) (simp_all add: s1')
  obtain t3 where op: "openRuntimeAdmission ?s2 ref ?v ?f = (Inr (), ?s2\<lparr>st_db := st_db s\<lparr>runtime_ticket_controls := t3\<rparr>,
      st_mutations := Some (?g1\<lparr>gate_controls := (gate_controls ?g1)(ref := None)\<rparr>)\<rparr>)"
    and b3: "control_at (st_db s\<lparr>runtime_ticket_controls := t3\<rparr>) ref = Some (b\<lparr>c_State := ''open'', c_Authority := ?i\<rparr>)"
    using openRuntimeAdmission_ok [of ?s2 ?g1 ref ?v ?f t] g now t b2 u2
    by (auto simp: s1' runtimeRearmableState_def)
  let ?s3 = "?s2\<lparr>st_db := st_db s\<lparr>runtime_ticket_controls := t3\<rparr>,
      st_mutations := Some (?g1\<lparr>gate_controls := (gate_controls ?g1)(ref := None)\<rparr>)\<rparr>"
  have "OpenStoreAdmission ?s2 ?a = (Inr (), ?s3, ?a\<lparr>ad_opened := True\<rparr>)"
    using op by (simp add: OpenStoreAdmission_def ConsumeRuntimeAdmission_def new_admission_def c)
  moreover have "RuntimeAdmissionReady ?s3 ref ?v ?f = (Inr True, ?s3)"
    using g t b3 valid pos by (simp add: RuntimeAdmissionReady_def with_gate_def gate_lock_cases unlock_store_def gate_unlock_def
        runtimeRearmableState_def positive_def identity_def c)
  moreover have "fst (ActivateRearm rre ?s3 (c\<lparr>rc_issued := False\<rparr>) install) = Inl ErrStaleFence"
    using g by (simp add: ActivateRearm_def activate_arm_def with_gate_def gate_lock_cases)
  ultimately show ?thesis using act \<open>inert ?s2 ref\<close> by blast
qed

theorem rearm_handshake_witness:
  "\<exists>a s2 c2 a3 s3. ActivateRearm no_endpoint proved_store sample_capability consume_admission = (Inr a, s2, c2) \<and>
     OpenStoreAdmission s2 a = (Inr (), s3, a3) \<and> RuntimeAdmissionReady s3 sample_ref 8 sample_fence4 = (Inr True, s3)"
proof -
  have "rc_version sample_capability \<noteq> 0" "LeaderEpoch (rc_fence sample_capability) \<noteq> 0"
    "RunnerEpoch (rc_fence sample_capability) \<noteq> 0" by code_simp+
  from rearm_handshake [OF sample_control_invs(2) sample_rearm this] show ?thesis
    by (simp add: sample_capability_def) blast
qed



text \<open>Sealing an admission leaves the ticket inert under a sealed row and keeps the generation and the
  stop tuple that authenticate how the admission was reached, whether the row was open, armed or already sealed.\<close>

theorem sealed_admission_closes:
  assumes inv: "control_inv (st_db s)" and run: "sealRuntimeAdmission rre s ref version fence = (Inr (), s')"
  shows "inert s' ref \<and> (\<exists>c. control_at (st_db s) ref = Some c \<and> control_at (st_db s') ref = Some (c\<lparr>c_State := ''sealed''\<rparr>))"
proof -
  let ?i = "identity version fence"
  let ?p = "\<lambda>n c. c_Ref c = ref \<and> (c_State c = ''armed'' \<or> c_State c = ''open'') \<and> c_Generation c = n \<and> c_Authority c = ?i"
  from run obtain g l d' where g: "st_mutations s = Some g"
    and tx: "sealRuntimeAdmission_tx rre ref version fence (st_db s) = Inr (l, d')"
    and s': "s' = unlock_store (update_gate (gate_latch ref l) (s\<lparr>st_mutations := Some (g\<lparr>gate_token := False\<rparr>), st_db := d'\<rparr>))"
    by (auto simp: sealRuntimeAdmission_def store_write_def split: sum.splits if_splits prod.splits elim!: with_gate_Inr)
  obtain g' where "st_mutations s' = Some g'" "gate_controls g' ref \<noteq> None"
    by (simp add: s' unlock_store_def update_gate_def gate_latch_def gate_unlock_def)
  then have inert: "inert s' ref" by (rule latched_inert)
  from tx obtain c where c: "control_at (st_db s) ref = Some c"
    by (cases "control_at (st_db s) ref") (simp_all add: sealRuntimeAdmission_tx_def runtimeControlFrom_def)
  have u: "unique_key c_Ref (runtime_ticket_controls (st_db s))" using inv by (simp add: control_inv_def)
  have ref: "c_Ref c = ref" using c unfolding control_at_def by (rule control_table.get_key)
  have "control_at d' ref = Some (c\<lparr>c_State := ''sealed''\<rparr>)"
  proof (cases "c_State c = ''sealed''")
    case True
    then have keep: "c\<lparr>c_State := ''sealed''\<rparr> = c" by simp
    from sealRuntimeAdmission_tx_Inr [OF tx] True c control_table.get_upd [OF _ u] show ?thesis
      unfolding keep by (auto simp: control_at_def)
  next
    case False
    with tx c have "c_Authority c = ?i" "c_State c = ''open'' \<or> c_State c = ''armed''"
      and d': "d' = st_db s\<lparr>runtime_ticket_controls := update_where (?p (c_Generation c))
        (\<lambda>c. c\<lparr>c_State := ''sealed''\<rparr>) (runtime_ticket_controls (st_db s))\<rparr>"
      by (auto simp: sealRuntimeAdmission_tx_def runtimeControlFrom_def Let_def split: option.splits if_splits)
    with c ref control_table.get_upd [OF _ u] show ?thesis by (auto simp: control_at_def)
  qed
  then show ?thesis using inert c s' by (simp add: unlock_store_def update_gate_def)
qed

theorem sealed_admission_closes_witness:
  "inert (snd (sealRuntimeAdmission no_endpoint opened_store sample_ref 8 sample_fence4)) sample_ref"
proof -
  have "sealRuntimeAdmission no_endpoint opened_store sample_ref 8 sample_fence4 =
      (Inr (), snd (sealRuntimeAdmission no_endpoint opened_store sample_ref 8 sample_fence4))"
    by (rule prod_eqI) (code_simp, simp)
  from sealed_admission_closes [OF sample_control_invs(3) this] show ?thesis by blast
qed

text \<open>After a restart every ticket that has a runtime control is sealed and inert, however it was left;
  an admission that was open or being rearmed when the process died authorizes nothing.\<close>

theorem restart_seals_everything:
  assumes inv: "control_inv (st_db s)" and run: "restoreRuntimeControls s = (Inr (), s')"
    and c: "control_at (st_db s) ref = Some c" "c_State c \<in> {''sealed'', ''armed'', ''open''}"
  shows "control_at (st_db s') ref = Some (c\<lparr>c_State := ''sealed''\<rparr>) \<and> inert s' ref"
proof -
  let ?p = "\<lambda>c. c_State c = ''armed'' \<or> c_State c = ''open''"
  let ?rows = "update_where ?p (\<lambda>c. c\<lparr>c_State := ''sealed''\<rparr>) (runtime_ticket_controls (st_db s))"
  let ?sealed = "filter (\<lambda>c. c_State c = ''sealed'') ?rows"
  from run obtain g where g: "st_mutations s = Some g"
    and s': "s' = update_gate (latch_all ?sealed) (s\<lparr>st_db := st_db s\<lparr>runtime_ticket_controls := ?rows\<rparr>\<rparr>)"
    by (auto simp: restoreRuntimeControls_def Let_def split: if_splits)
  have u: "unique_key c_Ref (runtime_ticket_controls (st_db s))" using inv by (simp add: control_inv_def)
  have u': "unique_key c_Ref ?rows" by (rule control_table.wf_upd) (simp_all add: u)
  have k: "c_Ref (r\<lparr>c_State := ''sealed''\<rparr>) = c_Ref r" for r :: control_row by simp
  have "row_at c_Ref ?rows ref = Some (if ?p c then c\<lparr>c_State := ''sealed''\<rparr> else c)"
    using control_table.get_upd [OF k u] c(1) by (simp add: control_at_def)
  moreover have "(if ?p c then c\<lparr>c_State := ''sealed''\<rparr> else c) = c\<lparr>c_State := ''sealed''\<rparr>" using c(2) by auto
  ultimately have at: "row_at c_Ref ?rows ref = Some (c\<lparr>c_State := ''sealed''\<rparr>)" by simp
  from control_table.get_key [OF at] at u' have "c\<lparr>c_State := ''sealed''\<rparr> \<in> set ?rows" by (simp add: row_at_member)
  then have "c\<lparr>c_State := ''sealed''\<rparr> \<in> set ?sealed" by simp
  moreover have "distinct (map c_Ref ?sealed)" using u' by (simp add: unique_key_def distinct_map_filter)
  ultimately have "gate_controls (latch_all ?sealed g) ref = Some (c_Authority c)"
    using latch_all_at [of ?sealed "c\<lparr>c_State := ''sealed''\<rparr>" g] control_table.get_key [OF at] by simp
  then have "inert s' ref" by (intro latched_inert [of _ "latch_all ?sealed g"]) (simp_all add: s' update_gate_def g)
  with at s' show ?thesis by (simp add: control_at_def update_gate_def)
qed

theorem restart_seals_everything_witness:
  "inert (snd (restoreRuntimeControls opened_store)) sample_ref"
proof -
  have run: "restoreRuntimeControls opened_store = (Inr (), snd (restoreRuntimeControls opened_store))"
    by (rule prod_eqI) (code_simp, simp)
  have "control_at (st_db opened_store) sample_ref =
      Some \<lparr>c_Ref = sample_ref, c_State = ''open'', c_Generation = 1,
        c_Stop = \<lparr>mr_version = 6, mr_leader = 2, mr_runner = 4\<rparr>,
        c_Authority = \<lparr>mr_version = 8, mr_leader = 2, mr_runner = 4\<rparr>\<rparr>" by code_simp
  from restart_seals_everything [OF sample_control_invs(3) run this] show ?thesis by simp
qed

text \<open>The runtime control of a ticket is retired only when the ticket is terminal, at most once per
  capability, and the ticket stays inert although its latch and its watermark are gone.\<close>

theorem retirement_stays_closed:
  assumes run: "RetireRuntime s c retire = (Inr (), s', c')"
  shows "(\<exists>t. ticket_at (st_db s') (rt_ref c) = Some t \<and> State_Terminal (t_State t)) \<and> inert s' (rt_ref c) \<and>
    (\<forall>s'' retire'. RetireRuntime s'' c' retire' = (Inl ErrStaleFence, s'', c'))"
proof -
  from run have r: "retireRuntimeControl s (rt_ref c) (rt_value c) = (Inr (), s')" and c': "c' = c\<lparr>rt_issued := False\<rparr>"
    by (auto simp: RetireRuntime_def split: if_splits option.splits sum.splits prod.splits)
  from r obtain t where t: "ticket_at (st_db s') (rt_ref c) = Some t" "State_Terminal (t_State t)"
    unfolding retireRuntimeControl_def
    by (auto simp: store_write_def retireControl_def unlock_store_def elim!: with_gate_Inr
        split: if_splits option.splits sum.splits prod.splits)
  from terminal_inert [OF t] t c' show ?thesis by (simp add: RetireRuntime_def)
qed

theorem retirement_stays_closed_witness:
  "let s = snd (TerminalControlProof cancelled_store sample_ref);
       c = \<lparr>rt_ref = sample_ref, rt_issued = True, rt_retiring = False,
            rt_value = \<lparr>mr_version = 5, mr_leader = 2, mr_runner = 3\<rparr>\<rparr> in
   fst (TerminalControlProof cancelled_store sample_ref) = Inr c \<and> inert (fst (snd (RetireRuntime s c (\<lambda>_. None)))) sample_ref"
proof -
  let ?s = "snd (TerminalControlProof cancelled_store sample_ref)"
  let ?c = "\<lparr>rt_ref = sample_ref, rt_issued = True, rt_retiring = False,
            rt_value = \<lparr>mr_version = 5, mr_leader = 2, mr_runner = 3\<rparr>\<rparr>"
  have "fst (RetireRuntime ?s ?c (\<lambda>_. None)) = Inr ()" by code_simp
  then have "RetireRuntime ?s ?c (\<lambda>_. None) = (Inr (), fst (snd (RetireRuntime ?s ?c (\<lambda>_. None))), snd (snd (RetireRuntime ?s ?c (\<lambda>_. None))))"
    by (metis prod.collapse)
  from retirement_stays_closed [OF this] have "inert (fst (snd (RetireRuntime ?s ?c (\<lambda>_. None)))) sample_ref" by simp
  moreover have "fst (TerminalControlProof cancelled_store sample_ref) = Inr ?c" by code_simp
  ultimately show ?thesis by (simp add: Let_def)
qed

end
