(* ===== verification/ConfigSafety.thy ===== *)
theory ConfigSafety
  imports Config
begin

text \<open>
  What resolution guarantees about a policy, and that a snapshot determines the policy it was taken of.
\<close>

section \<open>Resolution\<close>

lemma first_error_None: "first_error es = None \<longleftrightarrow> list_all (\<lambda>e. e = None) es"
  by (induction es rule: first_error.induct) auto

lemma validateMachine_None:
  "validateMachine m = None \<longleftrightarrow>
     1 \<le> m_MaxConcurrentTickets m \<and> 0 < m_MaxPhaseTimeout m \<and> m_MaxPhaseTimeout m \<le> m_MaxTicketTimeout m \<and>
     0 < m_MaxTicketCostMicroUSD m"
  by (auto simp: validateMachine_def)

lemma validateProject_None:
  "validateProject m p = None \<longleftrightarrow>
     name_pattern (c_Name p) \<and> TrimSpace (c_Repository p) \<noteq> '''' \<and> validBaseBranch (c_BaseBranch p) \<and>
     MergeMode_Valid (c_MergeMode p) \<and> (c_MergeMode p = MergeAutonomous \<longrightarrow> m_AllowAutonomous m) \<and>
     c_MergeMethod p \<in> {''merge'', ''squash'', ''rebase''} \<and>
     1 \<le> c_MaxConcurrentTickets p \<and> c_MaxConcurrentTickets p \<le> m_MaxConcurrentTickets m \<and>
     0 < c_PhaseTimeout p \<and> c_PhaseTimeout p \<le> m_MaxPhaseTimeout m \<and>
     0 < c_MaxTicketCostMicroUSD p \<and> c_MaxTicketCostMicroUSD p \<le> m_MaxTicketCostMicroUSD m \<and>
     0 < c_TicketTimeout p \<and> c_TicketTimeout p \<le> m_MaxTicketTimeout m \<and> c_PhaseTimeout p \<le> c_TicketTimeout p \<and>
     Command_Validate ''verify'' (Verify (c_Commands p)) = None \<and>
     Command_Validate ''review'' (Review (c_Commands p)) = None \<and>
     Planner (c_Providers p) \<noteq> [] \<and> Builder (c_Providers p) \<noteq> [] \<and> Reviewer (c_Providers p) \<noteq> [] \<and>
     check_providers ''planner'' [] (Planner (c_Providers p)) = None \<and>
     check_providers ''builder'' [] (Builder (c_Providers p)) = None \<and>
     check_providers ''reviewer'' [] (Reviewer (c_Providers p)) = None"
  unfolding validateProject_def by (simp add: first_error_None not_less not_le)

text \<open>The policy that resolution starts from: a missing cost ceiling is the machine's.\<close>

definition filled :: "MachineLimits \<Rightarrow> ConfigProject \<Rightarrow> ConfigProject" where
  "filled m p = (if c_MaxTicketCostMicroUSD p = 0 then p\<lparr>c_MaxTicketCostMicroUSD := m_MaxTicketCostMicroUSD m\<rparr> else p)"

lemma filled_simps [simp]:
  "c_Name (filled m p) = c_Name p" "c_Repository (filled m p) = c_Repository p"
  "c_BaseBranch (filled m p) = c_BaseBranch p" "c_MergeMode (filled m p) = c_MergeMode p"
  "c_MergeMethod (filled m p) = c_MergeMethod p" "c_MaxConcurrentTickets (filled m p) = c_MaxConcurrentTickets p"
  "c_PhaseTimeout (filled m p) = c_PhaseTimeout p" "c_TicketTimeout (filled m p) = c_TicketTimeout p"
  "c_Commands (filled m p) = c_Commands p" "c_Providers (filled m p) = c_Providers p"
  by (simp_all add: filled_def)

lemma Resolve_Inr:
  assumes "Resolve m p t = Inr e"
  shows "validateMachine m = None" and "validateProject m (filled m p) = None"
    and "ef_Machine e = m"
    and "o_MergeMode t \<noteq> '''' \<Longrightarrow> MergeMode_Valid (o_MergeMode t) \<and> mergeRank (o_MergeMode t) \<le> mergeRank (c_MergeMode p)"
    and "o_PhaseTimeout t \<le> 0 \<or> o_PhaseTimeout t \<le> c_PhaseTimeout p"
    and "o_TicketTimeout t \<le> 0 \<or> o_TicketTimeout t \<le> c_TicketTimeout p"
    and "0 \<le> o_MaxCostMicroUSD t" and "o_MaxCostMicroUSD t \<le> c_MaxTicketCostMicroUSD (filled m p)"
    and "ef_Project e = (filled m p)\<lparr>
       c_MergeMode := (if o_MergeMode t \<noteq> '''' then o_MergeMode t else c_MergeMode p),
       c_PhaseTimeout := (if o_PhaseTimeout t > 0 then o_PhaseTimeout t else c_PhaseTimeout p),
       c_TicketTimeout := (if o_TicketTimeout t > 0 then o_TicketTimeout t else c_TicketTimeout p),
       c_MaxTicketCostMicroUSD := (if o_MaxCostMicroUSD t > 0 then o_MaxCostMicroUSD t
         else c_MaxTicketCostMicroUSD (filled m p))\<rparr>"
proof -
  from assms have "validateProject m (filled m p) = None"
    unfolding Resolve_def Let_def filled_def [symmetric] by (auto split: option.splits)
  then have "0 < c_MaxTicketCostMicroUSD (filled m p)" by (simp add: validateProject_None)
  with assms show "validateMachine m = None" "validateProject m (filled m p) = None" "ef_Machine e = m"
    "o_MergeMode t \<noteq> '''' \<Longrightarrow> MergeMode_Valid (o_MergeMode t) \<and> mergeRank (o_MergeMode t) \<le> mergeRank (c_MergeMode p)"
    "o_PhaseTimeout t \<le> 0 \<or> o_PhaseTimeout t \<le> c_PhaseTimeout p"
    "o_TicketTimeout t \<le> 0 \<or> o_TicketTimeout t \<le> c_TicketTimeout p"
    "0 \<le> o_MaxCostMicroUSD t" "o_MaxCostMicroUSD t \<le> c_MaxTicketCostMicroUSD (filled m p)"
    "ef_Project e = (filled m p)\<lparr>
       c_MergeMode := (if o_MergeMode t \<noteq> '''' then o_MergeMode t else c_MergeMode p),
       c_PhaseTimeout := (if o_PhaseTimeout t > 0 then o_PhaseTimeout t else c_PhaseTimeout p),
       c_TicketTimeout := (if o_TicketTimeout t > 0 then o_TicketTimeout t else c_TicketTimeout p),
       c_MaxTicketCostMicroUSD := (if o_MaxCostMicroUSD t > 0 then o_MaxCostMicroUSD t
         else c_MaxTicketCostMicroUSD (filled m p))\<rparr>"
    unfolding Resolve_def Let_def filled_def [symmetric]
    by (auto split: option.splits if_split_asm)
qed

lemma Resolve_no_override:
  "Resolve m p no_override = Inr e \<longleftrightarrow>
     validateMachine m = None \<and> validateProject m (filled m p) = None \<and> e = \<lparr>ef_Project = filled m p, ef_Machine = m\<rparr>"
proof -
  have "filled m p = (filled m p)\<lparr>c_MergeMode := c_MergeMode p, c_PhaseTimeout := c_PhaseTimeout p,
      c_TicketTimeout := c_TicketTimeout p, c_MaxTicketCostMicroUSD := c_MaxTicketCostMicroUSD (filled m p)\<rparr>"
    by (cases p) (simp add: filled_def)
  then show ?thesis
    unfolding Resolve_def Let_def filled_def [symmetric] by (auto simp: no_override_def split: option.splits)
qed

lemma filled_filled: "validateProject m (filled m p) = None \<Longrightarrow> filled m (filled m p) = filled m p"
  by (simp add: filled_def validateProject_None)

text \<open>Resolving a resolved policy again changes nothing.\<close>

lemma Resolve_idem: "Resolve m p no_override = Inr e \<Longrightarrow> Resolve (ef_Machine e) (ef_Project e) no_override = Inr e"
  by (auto simp: Resolve_no_override filled_filled)

section \<open>Snapshots\<close>

lemma check_providers_names: "check_providers role seen ps = None \<Longrightarrow> list_all name_pattern ps"
  by (induction role seen ps rule: check_providers.induct) (auto split: if_splits)

lemma name_pattern_utf8: "name_pattern s \<Longrightarrow> utf8_ok s"
proof -
  assume s: "name_pattern s"
  have "c < CHR 0x80" if "name_char c" for c
    using that by (auto simp: name_char_def byte_between_def less_eq_char_def less_char_def)
  moreover from s have "list_all name_char s" by (cases s) (auto simp: name_pattern_def name_char_def)
  ultimately show "utf8_ok s" by (intro ascii_utf8_ok) (auto simp: list_all_iff)
qed

lemma check_providers_utf8: "check_providers role seen ps = None \<Longrightarrow> list_all utf8_ok ps"
  using check_providers_names name_pattern_utf8 by (auto simp: list_all_iff)

text \<open>
  The texts that validation leaves open are well-formed UTF-8, and the machine's limits fit into
  the integers of the code.
\<close>

definition texts_ok :: "ConfigProject \<Rightarrow> bool" where
  "texts_ok p \<longleftrightarrow> utf8_ok (c_Repository p) \<and> utf8_ok (c_BaseBranch p) \<and>
     list_all utf8_ok (Argv (Verify (c_Commands p))) \<and> list_all utf8_ok (Argv (Review (c_Commands p)))"

definition limits_fit :: "MachineLimits \<Rightarrow> bool" where
  "limits_fit m \<longleftrightarrow> m_MaxConcurrentTickets m < 2 ^ 63 \<and> m_MaxPhaseTimeout m < 2 ^ 63 \<and>
     m_MaxTicketTimeout m < 2 ^ 63 \<and> m_MaxTicketCostMicroUSD m < 2 ^ 63"

lemma wf_strings: "list_all utf8_ok xs \<Longrightarrow> wf_json (json_strings xs)"
proof -
  assume "list_all utf8_ok xs"
  then have "wf_elements (map JStr xs)" by (induction xs) auto
  then show ?thesis by (simp add: json_strings_def)
qed

lemma keys_ok:
  "list_all utf8_ok [''name'', ''repository'', ''base_branch'', ''merge_mode'', ''merge_method'', ''max_concurrent_tickets'',
     ''phase_timeout'', ''ticket_timeout'', ''max_ticket_cost_micro_usd'', ''commands'', ''providers'', ''machine'',
     ''argv'', ''verify'', ''review'', ''planner'', ''builder'', ''reviewer'', ''max_phase_timeout'',
     ''max_ticket_timeout'', ''allow_autonomous'', ''merge'', ''squash'', ''rebase'', ''manual'', ''guarded'', ''autonomous'']"
  by code_simp

lemma command_argv: "Command_Validate name c = None \<Longrightarrow> Argv c \<noteq> []"
  by (auto simp: Command_Validate_def)

lemma wf_effective:
  assumes "validateProject m p = None" and "texts_ok p"
  shows "wf_json (effective_json \<lparr>ef_Project = p, ef_Machine = m\<rparr>)"
proof -
  have "list_all utf8_ok (Planner (c_Providers p))" "list_all utf8_ok (Builder (c_Providers p))"
    "list_all utf8_ok (Reviewer (c_Providers p))"
    using assms(1) unfolding validateProject_None by (blast intro: check_providers_utf8)+
  moreover have "utf8_ok (c_Name p)"
    using assms(1) unfolding validateProject_None by (simp add: name_pattern_utf8)
  moreover have "c_MergeMode p \<in> {''manual'', ''guarded'', ''autonomous''}" "c_MergeMethod p \<in> {''merge'', ''squash'', ''rebase''}"
    using assms(1) unfolding validateProject_None
    by (auto simp: MergeMode_Valid_def MergeManual_def MergeGuarded_def MergeAutonomous_def)
  then have "utf8_ok (c_MergeMode p)" "utf8_ok (c_MergeMethod p)"
    using keys_ok by (auto simp del: utf8_ok.simps)
  ultimately show ?thesis
    using assms(2) keys_ok
    by (simp add: effective_json_def texts_ok_def wf_strings commands_json_def command_json_def providers_json_def
        machine_json_def Let_def del: utf8_ok.simps)
qed

lemma depth_strings: "depth (json_strings xs) \<le> 1"
proof -
  have "depth_elements (map JStr xs) = 0" by (induction xs) auto
  then show ?thesis by (simp add: json_strings_def)
qed

lemma depth_effective: "depth (effective_json e) \<le> 10000"
  using depth_strings [THEN order_trans, of 9997] depth_strings [THEN order_trans, of 9998]
  by (simp add: effective_json_def commands_json_def command_json_def providers_json_def machine_json_def Let_def)

text \<open>Decoding, field by field.\<close>

lemma decode_strings_json: "decode_strings (json_strings xs) ys = Some xs"
proof -
  have "those (map (\<lambda>e. decode_string e '''') (map JStr xs)) = Some xs"
    by (induction xs) (auto simp: decode_string_def)
  then show ?thesis by (auto simp: json_strings_def decode_strings_def)
qed

lemma decode_int_json: "0 \<le> i \<Longrightarrow> i < 2 ^ 63 \<Longrightarrow> decode_int (JNum (print_int i)) j = Some i"
  by (simp add: decode_int_def parse_int_print)

lemma decode_string_json: "decode_string (JStr s) x = Some s"
  by (simp add: decode_string_def)

lemma decode_command_json: "decode_command (command_json c) x = Some c"
  by (cases c) (simp add: decode_command_def command_json_def decode_struct_def find_field_def at_field_def
      decode_strings_json)

lemma decode_commands_json: "decode_commands (commands_json c) x = Some c"
  by (cases c) (simp add: decode_commands_def commands_json_def decode_struct_def find_field_def at_field_def
      decode_command_json)

lemma decode_providers_json: "decode_providers (providers_json c) x = Some c"
  by (cases c) (simp add: decode_providers_def providers_json_def decode_struct_def find_field_def at_field_def
      decode_strings_json)

lemma decode_machine_json:
  assumes "validateMachine m = None" and "limits_fit m"
  shows "decode_machine (machine_json m) x = Some m"
  using assms
  by (cases m) (simp add: decode_machine_def machine_json_def decode_struct_def find_field_def at_field_def
      decode_int_json decode_bool_def validateMachine_None limits_fit_def)

lemma decode_effective_json:
  assumes "validateMachine m = None" and "validateProject m p = None" and "limits_fit m"
  shows "decode_effective (effective_json \<lparr>ef_Project = p, ef_Machine = m\<rparr>) x = Some \<lparr>ef_Project = p, ef_Machine = m\<rparr>"
proof -
  have "0 \<le> i \<Longrightarrow> i \<le> b \<Longrightarrow> b < 2 ^ 63 \<Longrightarrow> decode_int (JNum (print_int i)) j = Some i" for i b j
    by (rule decode_int_json) simp_all
  with assms(2,3) have ints:
    "decode_int (JNum (print_int (c_MaxConcurrentTickets p))) j = Some (c_MaxConcurrentTickets p)"
    "decode_int (JNum (print_int (c_PhaseTimeout p))) j = Some (c_PhaseTimeout p)"
    "decode_int (JNum (print_int (c_TicketTimeout p))) j = Some (c_TicketTimeout p)"
    "decode_int (JNum (print_int (c_MaxTicketCostMicroUSD p))) j = Some (c_MaxTicketCostMicroUSD p)" for j
    unfolding validateProject_None limits_fit_def by (meson less_imp_le order_trans zero_le_one)+
  show ?thesis
    by (cases p; cases x)
      (insert ints, simp add: decode_effective_def effective_json_def decode_struct_def find_field_def project_field_def
        at_field_def decode_string_json decode_commands_json decode_providers_json
        decode_machine_json [OF assms(1,3)] Let_def)
qed

lemma Snapshot_nonempty: "fst (Snapshot e) \<noteq> []"
  by (simp add: Snapshot_def effective_json_def Let_def)

lemma snapshot_decodes:
  assumes "Resolve (ef_Machine e) (ef_Project e) no_override = Inr e" and "texts_ok (ef_Project e)"
    and "limits_fit (ef_Machine e)"
  shows "Option.bind (json_parse (fst (Snapshot e))) (\<lambda>j. decode_effective j zero_effective) = Some e"
proof -
  from assms(1) have v: "validateMachine (ef_Machine e) = None" "validateProject (ef_Machine e) (ef_Project e) = None"
    "e = \<lparr>ef_Project = ef_Project e, ef_Machine = ef_Machine e\<rparr>"
    unfolding Resolve_no_override by (metis Effective.select_convs(1))+
  have "json_parse (print_json (effective_json e)) = Some (effective_json e)"
    using wf_effective [OF v(2) assms(2)] v(3) depth_effective by (intro json_parse_print) auto
  then show ?thesis
    using decode_effective_json [OF v(1,2) assms(3)] v(3) by (simp add: Snapshot_def Let_def)
qed

section \<open>Properties\<close>

lemma Resolve_tightens:
  assumes "Resolve machine project ticket = Inr e"
  shows "ef_Machine e = machine"
    and "mergeRank (c_MergeMode (ef_Project e)) \<le> mergeRank (c_MergeMode project)"
    and "c_MergeMode (ef_Project e) = MergeAutonomous \<longrightarrow> m_AllowAutonomous machine"
    and "0 < c_PhaseTimeout (ef_Project e)" and "c_PhaseTimeout (ef_Project e) \<le> c_PhaseTimeout project"
    and "c_PhaseTimeout project \<le> m_MaxPhaseTimeout machine"
    and "0 < c_TicketTimeout (ef_Project e)" and "c_TicketTimeout (ef_Project e) \<le> c_TicketTimeout project"
    and "c_TicketTimeout project \<le> m_MaxTicketTimeout machine"
    and "0 < c_MaxTicketCostMicroUSD (ef_Project e)"
    and "c_MaxTicketCostMicroUSD (ef_Project e) \<le> m_MaxTicketCostMicroUSD machine"
    and "c_MaxTicketCostMicroUSD project \<noteq> 0 \<longrightarrow>
      c_MaxTicketCostMicroUSD (ef_Project e) \<le> c_MaxTicketCostMicroUSD project"
    and "o_MergeMode ticket \<noteq> '''' \<longrightarrow> c_MergeMode (ef_Project e) = o_MergeMode ticket"
    and "0 < o_PhaseTimeout ticket \<longrightarrow> c_PhaseTimeout (ef_Project e) = o_PhaseTimeout ticket"
    and "0 < o_TicketTimeout ticket \<longrightarrow> c_TicketTimeout (ef_Project e) = o_TicketTimeout ticket"
    and "0 < o_MaxCostMicroUSD ticket \<longrightarrow> c_MaxTicketCostMicroUSD (ef_Project e) = o_MaxCostMicroUSD ticket"
    and "ef_Project e = project\<lparr>c_MergeMode := c_MergeMode (ef_Project e), c_PhaseTimeout := c_PhaseTimeout (ef_Project e),
      c_TicketTimeout := c_TicketTimeout (ef_Project e),
      c_MaxTicketCostMicroUSD := c_MaxTicketCostMicroUSD (ef_Project e)\<rparr>"
proof -
  note r = Resolve_Inr [OF assms]
  note v = r(2) [unfolded validateProject_None]
  have rank: "mergeRank (o_MergeMode ticket) \<le> 1" if "o_MergeMode ticket \<noteq> ''''" "c_MergeMode project \<noteq> MergeAutonomous"
    using r(4) [OF that(1)] that(2) v
    by (auto simp: mergeRank_def MergeMode_Valid_def MergeManual_def MergeGuarded_def MergeAutonomous_def split: if_splits)
  show "ef_Machine e = machine" by (rule r(3))
  show "mergeRank (c_MergeMode (ef_Project e)) \<le> mergeRank (c_MergeMode project)"
    using r(4) by (simp add: r(9))
  show "c_MergeMode (ef_Project e) = MergeAutonomous \<longrightarrow> m_AllowAutonomous machine"
    using v rank by (auto simp: r(9) mergeRank_def MergeManual_def MergeGuarded_def MergeAutonomous_def)
  show "0 < c_PhaseTimeout (ef_Project e)" "c_PhaseTimeout (ef_Project e) \<le> c_PhaseTimeout project"
    "c_PhaseTimeout project \<le> m_MaxPhaseTimeout machine"
    using v r(5) by (auto simp: r(9))
  show "0 < c_TicketTimeout (ef_Project e)" "c_TicketTimeout (ef_Project e) \<le> c_TicketTimeout project"
    "c_TicketTimeout project \<le> m_MaxTicketTimeout machine"
    using v r(6) by (auto simp: r(9))
  show "0 < c_MaxTicketCostMicroUSD (ef_Project e)"
    "c_MaxTicketCostMicroUSD (ef_Project e) \<le> m_MaxTicketCostMicroUSD machine"
    using v r(8) by (auto simp: r(9))
  show "c_MaxTicketCostMicroUSD project \<noteq> 0 \<longrightarrow> c_MaxTicketCostMicroUSD (ef_Project e) \<le> c_MaxTicketCostMicroUSD project"
    using r(8) by (auto simp: r(9) filled_def)
  show "ef_Project e = project\<lparr>c_MergeMode := c_MergeMode (ef_Project e), c_PhaseTimeout := c_PhaseTimeout (ef_Project e),
      c_TicketTimeout := c_TicketTimeout (ef_Project e),
      c_MaxTicketCostMicroUSD := c_MaxTicketCostMicroUSD (ef_Project e)\<rparr>"
    unfolding r(9) by (cases project) (simp add: filled_def)
qed (simp_all add: Resolve_Inr(9) [OF assms])

text \<open>C29: a ticket can only tighten the policy of its project, which stays within the limits of the machine: the
  effective merge mode ranks no higher than the project's, an autonomous one needs the machine's consent,
  both timeouts and the cost ceiling are positive and at most the project's and the machine's, each
  override that was asked for is the value in force, and nothing else of the project changes.\<close>

theorem resolve_only_tightens:
  assumes "Resolve machine project ticket = Inr e"
  shows "ef_Machine e = machine \<and>
     mergeRank (c_MergeMode (ef_Project e)) \<le> mergeRank (c_MergeMode project) \<and>
     (c_MergeMode (ef_Project e) = MergeAutonomous \<longrightarrow> m_AllowAutonomous machine) \<and>
     0 < c_PhaseTimeout (ef_Project e) \<and>
     c_PhaseTimeout (ef_Project e) \<le> c_PhaseTimeout project \<and>
     c_PhaseTimeout project \<le> m_MaxPhaseTimeout machine \<and>
     0 < c_TicketTimeout (ef_Project e) \<and>
     c_TicketTimeout (ef_Project e) \<le> c_TicketTimeout project \<and>
     c_TicketTimeout project \<le> m_MaxTicketTimeout machine \<and>
     0 < c_MaxTicketCostMicroUSD (ef_Project e) \<and>
     c_MaxTicketCostMicroUSD (ef_Project e) \<le> m_MaxTicketCostMicroUSD machine \<and>
     (c_MaxTicketCostMicroUSD project \<noteq> 0 \<longrightarrow>
      c_MaxTicketCostMicroUSD (ef_Project e) \<le> c_MaxTicketCostMicroUSD project) \<and>
     (o_MergeMode ticket \<noteq> '''' \<longrightarrow> c_MergeMode (ef_Project e) = o_MergeMode ticket) \<and>
     (0 < o_PhaseTimeout ticket \<longrightarrow> c_PhaseTimeout (ef_Project e) = o_PhaseTimeout ticket) \<and>
     (0 < o_TicketTimeout ticket \<longrightarrow> c_TicketTimeout (ef_Project e) = o_TicketTimeout ticket) \<and>
     (0 < o_MaxCostMicroUSD ticket \<longrightarrow> c_MaxTicketCostMicroUSD (ef_Project e) = o_MaxCostMicroUSD ticket) \<and>
     ef_Project e = project\<lparr>c_MergeMode := c_MergeMode (ef_Project e), c_PhaseTimeout := c_PhaseTimeout (ef_Project e),
      c_TicketTimeout := c_TicketTimeout (ef_Project e),
      c_MaxTicketCostMicroUSD := c_MaxTicketCostMicroUSD (ef_Project e)\<rparr>"
  using Resolve_tightens [OF assms] by blast

definition sample_override :: TicketOverride where
  "sample_override = \<lparr>o_MergeMode = ''manual'', o_PhaseTimeout = 0, o_TicketTimeout = 60 * minute, o_MaxCostMicroUSD = 5000000\<rparr>"

theorem resolve_only_tightens_witness:
  "\<exists>e. Resolve DefaultMachineLimits (DefaultProject ''sf'' ''/srv/sf'') sample_override = Inr e \<and>
     c_MergeMode (ef_Project e) = ''manual'' \<and> c_TicketTimeout (ef_Project e) = 60 * minute \<and>
     c_MaxTicketCostMicroUSD (ef_Project e) = 5000000"
proof -
  have "case Resolve DefaultMachineLimits (DefaultProject ''sf'' ''/srv/sf'') sample_override of Inr e \<Rightarrow> True | Inl _ \<Rightarrow> False"
    by code_simp
  then obtain e where e: "Resolve DefaultMachineLimits (DefaultProject ''sf'' ''/srv/sf'') sample_override = Inr e"
    by (auto split: sum.splits)
  from resolve_only_tightens [OF e] e show ?thesis by (auto simp: sample_override_def minute_def)
qed

lemma DecodeSnapshot_Inr:
  assumes "DecodeSnapshot data digest = Inr e"
  shows "(data, digest) = Snapshot e \<and> int (length data) \<le> MaxFileBytes \<and>
    Resolve (ef_Machine e) (ef_Project e) no_override = Inr e"
proof -
  obtain v :: Effective where "sha256_hex data = digest" "int (length data) \<le> MaxFileBytes"
    "Resolve (ef_Machine v) (ef_Project v) no_override = Inr e" "fst (Snapshot e) = data"
    using assms by (auto simp: DecodeSnapshot_def not_less split: if_splits option.splits sum.splits)
  then show ?thesis by (auto simp: Snapshot_def Let_def dest: Resolve_idem)
qed

lemma DecodeSnapshot_Snapshot:
  assumes "texts_ok (ef_Project e)" and "limits_fit (ef_Machine e)" and "(data, digest) = Snapshot e"
    and "int (length data) \<le> MaxFileBytes" and "Resolve (ef_Machine e) (ef_Project e) no_override = Inr e"
  shows "DecodeSnapshot data digest = Inr e"
proof -
  have "data = fst (Snapshot e)" "digest = sha256_hex data" using assms(3) by (simp_all add: Snapshot_def Let_def)
  with assms snapshot_decodes [OF _ assms(1,2)] Snapshot_nonempty [of e] show ?thesis
    by (simp add: DecodeSnapshot_def)
qed

definition sample_effective :: Effective where
  "sample_effective =
     \<lparr>ef_Project = (DefaultProject ''sf'' ''/srv/sf'')\<lparr>c_PhaseTimeout := 3, c_TicketTimeout := 5, c_MaxTicketCostMicroUSD := 7\<rparr>,
      ef_Machine = DefaultMachineLimits\<lparr>m_MaxPhaseTimeout := 4, m_MaxTicketTimeout := 6, m_MaxTicketCostMicroUSD := 9\<rparr>\<rparr>"

definition sample_snapshot :: string where
  "sample_snapshot = fst (Snapshot sample_effective)"

lemma sample_effective_resolved:
  "Resolve (ef_Machine sample_effective) (ef_Project sample_effective) no_override = Inr sample_effective"
proof -
  have "validateMachine (ef_Machine sample_effective) = None"
    "validateProject (ef_Machine sample_effective) (ef_Project sample_effective) = None" by code_simp+
  moreover have "filled (ef_Machine sample_effective) (ef_Project sample_effective) = ef_Project sample_effective"
    by (simp add: filled_def sample_effective_def DefaultProject_def)
  ultimately show ?thesis unfolding Resolve_no_override by simp
qed

lemma sample_snapshot_ok:
  shows "texts_ok (ef_Project sample_effective)" and "limits_fit (ef_Machine sample_effective)"
    and "int (length sample_snapshot) \<le> MaxFileBytes" and "sample_snapshot \<noteq> ''''"
    and "Snapshot sample_effective = (sample_snapshot, sha256_hex sample_snapshot)"
proof -
  have "int (length (print_json (effective_json sample_effective))) \<le> MaxFileBytes" by code_simp
  then show "int (length sample_snapshot) \<le> MaxFileBytes" by (simp add: sample_snapshot_def Snapshot_def Let_def)
  show "texts_ok (ef_Project sample_effective)" "limits_fit (ef_Machine sample_effective)" by code_simp+
qed (simp_all add: sample_snapshot_def Snapshot_nonempty, simp add: Snapshot_def Let_def)

lemma sample_snapshot_decodes: "DecodeSnapshot sample_snapshot (sha256_hex sample_snapshot) = Inr sample_effective"
  by (rule DecodeSnapshot_Snapshot) (simp_all add: sample_snapshot_ok sample_effective_resolved)



end
