(* ===== verification/ProjectSafety.thy ===== *)
theory ProjectSafety
  imports Projects Leases ConfigSafety
begin

text \<open>
  The registration table and the configuration history keep their shape under every operation, and
  the history is append-only; a removed project accepts no work.
\<close>

section \<open>The invariant\<close>

definition project_inv :: "db \<Rightarrow> bool" where
  "project_inv d \<longleftrightarrow>
     unique_key project_pk (projects d) \<and> unique_key config_pk (project_configurations d) \<and>
     (\<forall>c \<in> set (project_configurations d).
        project_at d (pc_Channel c) (pc_Project c) \<noteq> None \<and> pc_Snapshot c \<noteq> '''' \<and> pc_Digest c = sha256_hex (pc_Snapshot c)) \<and>
     (\<forall>ch pid r g. project_at d ch pid = Some r \<longrightarrow>
        (config_at d ch pid g \<noteq> None \<longleftrightarrow> g \<noteq> 0 \<and> g \<le> p_ConfigGeneration r))"

text \<open>How a registration may change: its identity is fixed and its counters only grow.\<close>

definition row_evolves :: "project_row \<Rightarrow> project_row \<Rightarrow> bool" where
  "row_evolves r r' \<longleftrightarrow> p_Path r' = p_Path r \<and> p_BaseRef r' = p_BaseRef r \<and>
     p_ConfigGeneration r \<le> p_ConfigGeneration r' \<and> p_RegistrationGeneration r \<le> p_RegistrationGeneration r'"

definition evolves :: "db \<Rightarrow> db \<Rightarrow> bool" where
  "evolves d d' \<longleftrightarrow>
     (\<exists>added. project_configurations d' = project_configurations d @ added) \<and>
     (\<forall>ch pid r. project_at d ch pid = Some r \<longrightarrow> (\<exists>r'. project_at d' ch pid = Some r' \<and> row_evolves r r'))"

lemma row_evolves_refl [simp]: "row_evolves r r"
  by (simp add: row_evolves_def)

lemma evolves_refl [simp]: "evolves d d"
  by (simp add: evolves_def)

lemma row_evolves_trans: "row_evolves a b \<Longrightarrow> row_evolves b c \<Longrightarrow> row_evolves a c"
  by (auto simp: row_evolves_def intro: order_trans)

lemma evolves_trans:
  assumes ab: "evolves a b" and bc: "evolves b c"
  shows "evolves a c"
  unfolding evolves_def
proof (intro conjI allI impI)
  from ab bc obtain xs ys where "project_configurations b = project_configurations a @ xs"
    and "project_configurations c = project_configurations b @ ys" unfolding evolves_def by blast
  then show "\<exists>added. project_configurations c = project_configurations a @ added" by simp
next
  fix ch pid r
  assume "project_at a ch pid = Some r"
  with ab obtain r1 where r1: "project_at b ch pid = Some r1" "row_evolves r r1" unfolding evolves_def by blast
  with bc obtain r2 where "project_at c ch pid = Some r2" "row_evolves r1 r2" unfolding evolves_def by blast
  with r1(2) show "\<exists>r'. project_at c ch pid = Some r' \<and> row_evolves r r'" by (blast intro: row_evolves_trans)
qed

definition sound_project :: "db \<Rightarrow> db \<Rightarrow> bool" where
  "sound_project d d' \<longleftrightarrow> (project_inv d \<longrightarrow> project_inv d' \<and> evolves d d')"

lemma sound_project_refl [simp]: "sound_project d d"
  by (simp add: sound_project_def)

lemma sound_project_trans: "sound_project a b \<Longrightarrow> sound_project b c \<Longrightarrow> sound_project a c"
  unfolding sound_project_def by (blast intro: evolves_trans)

section \<open>Statements\<close>

lemma project_at_member: "project_at d ch pid = Some r \<Longrightarrow> r \<in> set (projects d)"
  by (auto simp: project_at_def row_at_def find_Some_iff)

text \<open>Changing a registration without touching its identity and its generation pointer.\<close>

lemma update_projects_sound:
  assumes "\<And>r. project_pk (f r) = project_pk r" and "\<And>r. q r \<Longrightarrow> r \<in> set (projects d) \<Longrightarrow> row_evolves r (f r)"
    and "\<And>r. p_ConfigGeneration (f r) = p_ConfigGeneration r"
  shows "sound_project d (d\<lparr>projects := update_where q f (projects d)\<rparr>)"
  unfolding sound_project_def
proof
  assume inv: "project_inv d"
  let ?d = "d\<lparr>projects := update_where q f (projects d)\<rparr>"
  have u: "unique_key project_pk (projects d)" using inv by (simp add: project_inv_def)
  have at: "project_at ?d ch pid = map_option (\<lambda>r. if q r then f r else r) (project_at d ch pid)" for ch pid
    using project_table.get_upd [OF assms(1) u] by (simp add: project_at_def)
  have c: "config_at ?d = config_at d" by (simp add: config_at_def fun_eq_iff)
  have same: "p_ConfigGeneration (if q r then f r else r) = p_ConfigGeneration r" for r by (simp add: assms(3))
  have "project_inv ?d"
    unfolding project_inv_def at c
  proof (intro conjI)
    show "unique_key project_pk (projects ?d)" using project_table.wf_upd [OF assms(1) u] by simp
    show "\<forall>ch pid r g. map_option (\<lambda>r. if q r then f r else r) (project_at d ch pid) = Some r \<longrightarrow>
        (config_at d ch pid g \<noteq> None) = (g \<noteq> 0 \<and> g \<le> p_ConfigGeneration r)"
    proof (intro allI impI)
      fix ch pid r g
      assume "map_option (\<lambda>r. if q r then f r else r) (project_at d ch pid) = Some r"
      then obtain y where y: "project_at d ch pid = Some y" "r = (if q y then f y else y)" by blast
      have "(config_at d ch pid g \<noteq> None) = (g \<noteq> 0 \<and> g \<le> p_ConfigGeneration y)"
        using inv y(1) by (simp add: project_inv_def)
      then show "(config_at d ch pid g \<noteq> None) = (g \<noteq> 0 \<and> g \<le> p_ConfigGeneration r)"
        by (simp only: y(2) same)
    qed
  qed (use inv in \<open>simp_all add: project_inv_def\<close>)
  moreover have "evolves d ?d"
    unfolding evolves_def at
  proof (intro conjI allI impI)
    fix ch pid r
    assume r: "project_at d ch pid = Some r"
    then have "r \<in> set (projects d)" by (rule project_at_member)
    with r assms(2) [of r] show "\<exists>r'. map_option (\<lambda>r. if q r then f r else r) (project_at d ch pid) = Some r' \<and> row_evolves r r'"
      by auto
  qed simp
  ultimately show "project_inv ?d \<and> evolves d ?d" by blast
qed

lemma project_at_key: "project_at d ch pid = Some r \<Longrightarrow> p_Channel r = ch \<and> p_ID r = pid"
  using project_table.get_key by (fastforce simp: project_at_def project_pk_def)

lemma word_le_Suc:
  fixes x :: u64
  assumes "x + 1 \<noteq> 0"
  shows "g \<le> x + 1 \<longleftrightarrow> g \<le> x \<or> g = x + 1"
proof -
  have "unat (x + 1) = unat x + 1" using assms by (metis Suc_eq_plus1 add.commute unatSuc)
  then show ?thesis unfolding word_le_nat_alt word_unat_eq_iff by auto
qed

lemma word_two_le:
  fixes x :: u64
  assumes "x \<noteq> 0"
  shows "2 \<le> x \<longleftrightarrow> x \<noteq> 1"
proof -
  have "x = 1 \<longleftrightarrow> unat x = 1" by (simp add: word_unat_eq_iff)
  moreover have "unat x \<noteq> 0" using assms by (simp add: unat_eq_zero)
  ultimately show ?thesis by (auto simp: word_le_nat_alt)
qed

lemma insert_config_Inr:
  assumes "insert_config ch pid g digest snapshot d = Inr d'"
  shows "config_at d ch pid g = None" and "g \<noteq> 0"
    and "d' = d\<lparr>project_configurations := insert_row \<lparr>pc_Channel = ch, pc_Project = pid, pc_Generation = g,
      pc_Digest = digest, pc_Snapshot = snapshot\<rparr> (project_configurations d)\<rparr>"
    and "config_at d' ch' pid' g' = (if (ch', pid', g') = (ch, pid, g)
      then Some \<lparr>pc_Channel = ch, pc_Project = pid, pc_Generation = g, pc_Digest = digest, pc_Snapshot = snapshot\<rparr>
      else config_at d ch' pid' g')"
proof -
  let ?c = "\<lparr>pc_Channel = ch, pc_Project = pid, pc_Generation = g, pc_Digest = digest, pc_Snapshot = snapshot\<rparr>"
  show free: "config_at d ch pid g = None" and "g \<noteq> 0"
    and d': "d' = d\<lparr>project_configurations := insert_row ?c (project_configurations d)\<rparr>"
    using assms by (auto simp: insert_config_def split: if_splits)
  have "row_at config_pk (project_configurations d) (config_pk ?c) = None"
    using free by (simp add: config_at_def config_pk_def)
  from config_table.get_ins [OF this] show "config_at d' ch' pid' g' =
      (if (ch', pid', g') = (ch, pid, g) then Some ?c else config_at d ch' pid' g')"
    by (simp add: d' config_at_def config_pk_def)
qed

text \<open>
  The next generation of a registration, together with the move of its pointer: the one way in which
  the history grows.
\<close>

lemma next_generation_sound:
  assumes inv: "project_inv d" and r: "project_at d ch pid = Some r"
    and ins: "insert_config ch pid (p_ConfigGeneration r + 1) (sha256_hex snapshot) snapshot d = Inr d1"
    and snapshot: "snapshot \<noteq> ''''"
    and q: "\<And>x. x \<in> set (projects d) \<Longrightarrow> q x \<longleftrightarrow> x = r"
    and f: "p_ConfigGeneration (f r) = p_ConfigGeneration r + 1" "row_evolves r (f r)" "\<And>x. project_pk (f x) = project_pk x"
  shows "project_inv (d1\<lparr>projects := update_where q f (projects d1)\<rparr>) \<and>
    evolves d (d1\<lparr>projects := update_where q f (projects d1)\<rparr>)"
proof -
  let ?d = "d1\<lparr>projects := update_where q f (projects d1)\<rparr>"
  note i = insert_config_Inr [OF ins]
  have u: "unique_key project_pk (projects d)" "unique_key config_pk (project_configurations d)"
    using inv by (simp_all add: project_inv_def)
  note member = project_at_member
  have at: "project_at ?d ch' pid' = map_option (\<lambda>x. if x = r then f x else x) (project_at d ch' pid')" for ch' pid'
    using project_table.get_upd [OF f(3) u(1), of q] member [of d ch' pid']
    by (cases "project_at d ch' pid'") (auto simp: project_at_def i(3) q)
  have other: "x = r \<longleftrightarrow> (ch', pid') = (ch, pid)" if "project_at d ch' pid' = Some x" for ch' pid' x
  proof
    show "(ch', pid') = (ch, pid)" if "x = r"
      using project_at_key [OF \<open>project_at d ch' pid' = Some x\<close>] project_at_key [OF r] that by simp
    show "x = r" if "(ch', pid') = (ch, pid)"
      using \<open>project_at d ch' pid' = Some x\<close> r that by simp
  qed
  have nz: "p_ConfigGeneration r + 1 \<noteq> 0" by (rule i(2))
  then have up: "g \<le> p_ConfigGeneration r + 1 \<longleftrightarrow> g \<le> p_ConfigGeneration r \<or> g = p_ConfigGeneration r + 1" for g
    by (rule word_le_Suc)
  have c: "config_at ?d = config_at d1" by (simp add: config_at_def fun_eq_iff)
  have "project_inv ?d"
    unfolding project_inv_def
  proof (intro conjI)
    show "unique_key project_pk (projects ?d)" using project_table.wf_upd [OF f(3) u(1)] by (simp add: i(3))
    show "unique_key config_pk (project_configurations ?d)"
      using config_table.wf_ins [OF u(2)] i(1) by (simp add: i(3) config_at_def config_pk_def)
    show "\<forall>c\<in>set (project_configurations ?d). project_at ?d (pc_Channel c) (pc_Project c) \<noteq> None \<and>
        pc_Snapshot c \<noteq> '''' \<and> pc_Digest c = sha256_hex (pc_Snapshot c)"
      using inv r snapshot unfolding at project_inv_def by (auto simp: i(3) insert_row_def)
    show "\<forall>ch' pid' x g. project_at ?d ch' pid' = Some x \<longrightarrow>
        (config_at ?d ch' pid' g \<noteq> None) = (g \<noteq> 0 \<and> g \<le> p_ConfigGeneration x)"
    proof (intro allI impI)
      fix ch' pid' x g
      assume "project_at ?d ch' pid' = Some x"
      then obtain y where y: "project_at d ch' pid' = Some y" "x = (if y = r then f y else y)" by (auto simp: at)
      with inv have "(config_at d ch' pid' g \<noteq> None) = (g \<noteq> 0 \<and> g \<le> p_ConfigGeneration y)"
        by (auto simp: project_inv_def)
      with y other [OF y(1)] f(1) up [of g] nz show "(config_at ?d ch' pid' g \<noteq> None) = (g \<noteq> 0 \<and> g \<le> p_ConfigGeneration x)"
        unfolding c i(4) by auto
    qed
  qed
  moreover have "evolves d ?d"
    unfolding evolves_def at using f(2) by (auto simp: i(3) insert_row_def)
  ultimately show ?thesis ..
qed

section \<open>Operations\<close>

lemma project_at_iff:
  assumes "unique_key project_pk (projects d)" and "x \<in> set (projects d)" and "p_Channel x = ch" and "p_ID x = pid"
  shows "project_at d ch pid = Some x"
  using assms row_at_member [OF assms(1)] by (auto simp: project_at_def project_pk_def)

lemma pinned_project:
  assumes "project_inv d" and "project_at d ch pid = Some r" and "x \<in> set (projects d)"
  shows "p_Channel x = ch \<and> p_ID x = pid \<longleftrightarrow> x = r"
proof -
  have "unique_key project_pk (projects d)" using assms(1) by (simp add: project_inv_def)
  with project_at_iff [OF this assms(3)] project_at_key [OF assms(2)] assms(2) show ?thesis by auto
qed

lemma no_config_without_project:
  assumes "project_inv d" and "project_at d ch pid = None"
  shows "config_at d ch pid g = None"
proof (cases "config_at d ch pid g")
  case (Some c)
  then have "c \<in> set (project_configurations d)" "pc_Channel c = ch" "pc_Project c = pid"
    by (auto simp: config_at_def row_at_def find_Some_iff config_pk_def)
  with assms show ?thesis unfolding project_inv_def by blast
qed simp

lemma insert_project_sound:
  assumes inv: "project_inv d" and free: "project_at d (p_Channel r) (p_ID r) = None" and z: "p_ConfigGeneration r = 0"
  shows "project_inv (d\<lparr>projects := insert_row r (projects d)\<rparr>) \<and> evolves d (d\<lparr>projects := insert_row r (projects d)\<rparr>)"
proof -
  let ?d = "d\<lparr>projects := insert_row r (projects d)\<rparr>"
  have at: "project_at ?d ch pid = (if (ch, pid) = (p_Channel r, p_ID r) then Some r else project_at d ch pid)" for ch pid
    using project_table.get_ins [of "projects d" r "(ch, pid)"] free by (simp add: project_at_def project_pk_def)
  have c: "config_at ?d = config_at d" by (simp add: config_at_def fun_eq_iff)
  have none: "config_at d (p_Channel r) (p_ID r) g = None" for g by (rule no_config_without_project [OF inv free])
  have "project_inv ?d"
    unfolding project_inv_def at c
  proof (intro conjI)
    show "unique_key project_pk (projects ?d)"
      using project_table.wf_ins [of "projects d" r] inv free by (simp add: project_inv_def project_at_def project_pk_def)
    show "\<forall>ch pid x g. (if (ch, pid) = (p_Channel r, p_ID r) then Some r else project_at d ch pid) = Some x \<longrightarrow>
        (config_at d ch pid g \<noteq> None) = (g \<noteq> 0 \<and> g \<le> p_ConfigGeneration x)"
      using inv none z by (simp add: project_inv_def)
  qed (use inv in \<open>auto simp: project_inv_def\<close>)
  moreover have "evolves d ?d" unfolding evolves_def at using free by auto
  ultimately show ?thesis ..
qed

lemma validateProjectRegistration_None:
  "validateProjectRegistration p b = None \<Longrightarrow>
     pj_ConfigGeneration p = 0 \<and> pj_ConfigSnapshot p = '''' \<or>
     pj_ConfigGeneration p = 1 \<and> pj_ConfigSnapshot p \<noteq> '''' \<and> pj_ConfigDigest p = sha256_hex (pj_ConfigSnapshot p)"
  by (auto simp: validateProjectRegistration_def split: if_splits)

lemma validateProjectConfiguration_None:
  "validateProjectConfiguration p = None \<Longrightarrow> px_Snapshot p \<noteq> '''' \<and> px_Digest p = sha256_hex (px_Snapshot p)"
  by (auto simp: validateProjectConfiguration_def split: if_splits)

text \<open>
  An insertion of the first generation writes the pointer with the registration itself; it is the same
  as registering with no configuration and then moving the pointer.
\<close>

lemma insertProject_sound:
  assumes inv: "project_inv d" and ok: "insertProject p d = Inr d'" and valid: "validateProjectRegistration p b = None"
  shows "project_inv d' \<and> evolves d d'"
proof -
  define r where "r = \<lparr>p_Channel = pj_Channel p, p_ID = pj_ID p, p_Lifecycle = ProjectActive, p_Path = pj_Path p,
      p_BaseRef = pj_BaseRef p, p_ConfigGeneration = (0 :: u64), p_RegistrationGeneration = (1 :: u64)\<rparr>"
  let ?f = "\<lambda>x. x\<lparr>p_ConfigGeneration := pj_ConfigGeneration p\<rparr>"
  let ?q = "\<lambda>x. p_Channel x = pj_Channel p \<and> p_ID x = pj_ID p"
  have free: "project_at d (pj_Channel p) (pj_ID p) = None" using ok by (auto simp: insertProject_def split: if_splits)
  define d0 where "d0 = d\<lparr>projects := insert_row r (projects d)\<rparr>"
  have d0: "project_inv d0" "evolves d d0"
    using insert_project_sound [OF inv, of r] free by (simp_all add: r_def d0_def)
  have r0: "project_at d0 (pj_Channel p) (pj_ID p) = Some r"
    using project_table.get_ins [of "projects d" r "project_pk r"] free by (simp add: d0_def r_def project_at_def project_pk_def)
  have gone: "\<not> ?q x" if "x \<in> set (projects d)" for x
    using project_at_iff [of d x] inv free that by (auto simp: project_inv_def)
  then have ins: "insert_row (?f r) (projects d) = update_where ?q ?f (projects d0)"
    by (auto simp: d0_def insert_row_def update_where_def r_def intro!: map_idI [symmetric])
  from validateProjectRegistration_None [OF valid] show ?thesis
  proof
    assume z: "pj_ConfigGeneration p = 0 \<and> pj_ConfigSnapshot p = ''''"
    with ok have "d' = d0" by (auto simp: insertProject_def d0_def r_def split: if_splits)
    with d0 show ?thesis by simp
  next
    assume one: "pj_ConfigGeneration p = 1 \<and> pj_ConfigSnapshot p \<noteq> '''' \<and> pj_ConfigDigest p = sha256_hex (pj_ConfigSnapshot p)"
    have "insert_config (pj_Channel p) (pj_ID p) 1 (sha256_hex (pj_ConfigSnapshot p)) (pj_ConfigSnapshot p)
        (d\<lparr>projects := insert_row (?f r) (projects d)\<rparr>) = Inr d'"
      using ok one by (simp add: insertProject_def r_def split: if_splits)
    then obtain d1 where d1: "insert_config (pj_Channel p) (pj_ID p) (p_ConfigGeneration r + 1)
          (sha256_hex (pj_ConfigSnapshot p)) (pj_ConfigSnapshot p) d0 = Inr d1"
        and d': "d' = d1\<lparr>projects := update_where ?q ?f (projects d1)\<rparr>"
      using ins by (auto simp: insert_config_def config_at_def d0_def r_def split: if_splits)
    have "project_inv d' \<and> evolves d0 d'"
      unfolding d' by (rule next_generation_sound [OF d0(1) r0 d1])
        (use one pinned_project [OF d0(1) r0] in \<open>auto simp: r_def row_evolves_def project_pk_def\<close>)
    with d0(2) show ?thesis by (blast intro: evolves_trans)
  qed
qed

lemma joined_simps [simp]:
  "pj_Path (joined_project d r) = p_Path r" "pj_BaseRef (joined_project d r) = p_BaseRef r"
  "pj_ConfigGeneration (joined_project d r) = p_ConfigGeneration r" "pj_Lifecycle (joined_project d r) = p_Lifecycle r"
  "pj_RegistrationGeneration (joined_project d r) = p_RegistrationGeneration r"
  by (simp_all add: joined_project_def Let_def)

lemma less_word_Suc:
  fixes x :: u64
  shows "x \<noteq> - 1 \<Longrightarrow> x \<le> x + 1"
  by (metis add.commute add.right_inverse add_left_cancel word_le_Suc order_refl)

lemma append_config_sound:
  assumes inv: "project_inv d" and r: "project_at d (pj_Channel p) (pj_ID p) = Some r"
    and ok: "append_config (joined_project d r) p d = Inr d'" and valid: "validateProjectRegistration p True = None"
  shows "project_inv d' \<and> evolves d d' \<and>
    (\<forall>x. project_at d' (pj_Channel p) (pj_ID p) = Some x \<longrightarrow> p_RegistrationGeneration x = p_RegistrationGeneration r)"
proof (cases "same_config (joined_project d r) p")
  case True
  with ok inv r show ?thesis by (simp add: append_config_def)
next
  case False
  let ?q = "\<lambda>x. p_Channel x = pj_Channel p \<and> p_ID x = pj_ID p"
  let ?f = "\<lambda>x. x\<lparr>p_ConfigGeneration := p_ConfigGeneration r + 1\<rparr>"
  have snap: "pj_ConfigSnapshot p \<noteq> ''''" "pj_ConfigDigest p = sha256_hex (pj_ConfigSnapshot p)"
    using valid by (auto simp: validateProjectRegistration_def split: if_splits)
  obtain d1 where d1: "insert_config (pj_Channel p) (pj_ID p) (p_ConfigGeneration r + 1)
        (sha256_hex (pj_ConfigSnapshot p)) (pj_ConfigSnapshot p) d = Inr d1"
      and d': "d' = d1\<lparr>projects := update_where ?q ?f (projects d1)\<rparr>"
    using ok False snap(2) by (auto simp: append_config_def Let_def split: if_splits sum.splits)
  have "p_ConfigGeneration r \<le> p_ConfigGeneration r + 1"
    using insert_config_Inr(2) [OF d1] less_word_Suc [of "p_ConfigGeneration r"] by (auto simp: eq_neg_iff_add_eq_0)
  then have main: "project_inv d' \<and> evolves d d'"
    unfolding d' by (intro next_generation_sound [OF inv r d1])
      (use snap pinned_project [OF inv r] in \<open>auto simp: row_evolves_def project_pk_def\<close>)
  have "unique_key project_pk (projects d)" using inv by (simp add: project_inv_def)
  then have "project_at d' (pj_Channel p) (pj_ID p) = map_option (\<lambda>x. if ?q x then ?f x else x) (Some r)"
    using project_table.get_upd [of ?f "projects d" ?q] r
    by (simp add: d' insert_config_Inr(3) [OF d1] project_at_def project_pk_def)
  with main show ?thesis by auto
qed

lemma reactivate_sound:
  assumes inv: "project_inv d" and ok: "reactivate ch pid d = Inr d'"
    and gen: "\<And>x. project_at d ch pid = Some x \<Longrightarrow> p_RegistrationGeneration x \<noteq> - 1"
  shows "project_inv d' \<and> evolves d d'"
proof -
  let ?q = "\<lambda>r. p_Channel r = ch \<and> p_ID r = pid \<and> p_Lifecycle r = ''removed''"
  let ?f = "\<lambda>r. r\<lparr>p_Lifecycle := ''active'', p_RegistrationGeneration := p_RegistrationGeneration r + 1\<rparr>"
  have "sound_project d (d\<lparr>projects := update_where ?q ?f (projects d)\<rparr>)"
  proof (rule update_projects_sound)
    fix x
    assume "?q x" and "x \<in> set (projects d)"
    then have "project_at d ch pid = Some x" using inv by (intro project_at_iff) (auto simp: project_inv_def)
    from gen [OF this] show "row_evolves x (?f x)" by (simp add: row_evolves_def less_word_Suc)
  qed (simp_all add: project_pk_def)
  with inv ok show ?thesis by (auto simp: reactivate_def Let_def sound_project_def split: if_splits)
qed

lemma RegisterProject_tx_sound:
  assumes inv: "project_inv d" and ok: "RegisterProject_tx p d = Inr (b, d')" and valid: "validateProjectRegistration p True = None"
  shows "project_inv d' \<and> evolves d d'"
proof (cases "project_at d (pj_Channel p) (pj_ID p)")
  case None
  with ok have "insertProject p d = Inr d'" by (auto simp: RegisterProject_tx_def split: sum.splits)
  from insertProject_sound [OF inv this valid] show ?thesis .
next
  case (Some r)
  show ?thesis
  proof (cases "p_Lifecycle r = ProjectActive")
    case True
    with ok Some inv show ?thesis by (auto simp: RegisterProject_tx_def Let_def split: if_splits)
  next
    case False
    with ok Some obtain d1 where d1: "append_config (joined_project d r) p d = Inr d1"
        and gen: "p_RegistrationGeneration r \<noteq> - 1" and d': "reactivate (pj_Channel p) (pj_ID p) d1 = Inr d'"
      by (auto simp: RegisterProject_tx_def Let_def split: if_splits sum.splits)
    from append_config_sound [OF inv Some d1 valid] gen
    have "project_inv d1" "evolves d d1" "\<And>x. project_at d1 (pj_Channel p) (pj_ID p) = Some x \<Longrightarrow> p_RegistrationGeneration x \<noteq> - 1"
      by auto
    with reactivate_sound [OF _ d'] show ?thesis by (blast intro: evolves_trans)
  qed
qed

lemma Apply_tx_sound:
  assumes inv: "project_inv d" and ok: "ApplyProjectConfiguration_tx p d = Inr (b, d')"
    and valid: "validateProjectConfiguration p = None"
  shows "project_inv d' \<and> evolves d d'"
proof -
  obtain r where r: "project_at d (px_Channel p) (px_Project p) = Some r"
    using ok by (auto simp: ApplyProjectConfiguration_tx_def Let_def split: option.splits)
  let ?g = "p_ConfigGeneration r"
  let ?q = "\<lambda>x. p_Channel x = px_Channel p \<and> p_ID x = px_Project p \<and> p_ConfigGeneration x = ?g"
  let ?f = "\<lambda>x. x\<lparr>p_ConfigGeneration := ?g + 1, p_RegistrationGeneration := p_RegistrationGeneration x + 1\<rparr>"
  consider "d' = d" | d1 where "insert_config (px_Channel p) (px_Project p) (?g + 1) (px_Digest p) (px_Snapshot p) d = Inr d1"
      "?g \<noteq> - 1" "p_RegistrationGeneration r \<noteq> - 1" "d' = d1\<lparr>projects := update_where ?q ?f (projects d1)\<rparr>"
    using ok r by (auto simp: ApplyProjectConfiguration_tx_def Let_def split: if_splits sum.splits)
  then show ?thesis
  proof cases
    case 1
    with inv show ?thesis by simp
  next
    case (2 d1)
    have snap: "px_Snapshot p \<noteq> ''''" "px_Digest p = sha256_hex (px_Snapshot p)"
      using validateProjectConfiguration_None [OF valid] by auto
    note pin = pinned_project [OF inv r]
    show ?thesis
      unfolding 2(4)
    proof (rule next_generation_sound [OF inv r 2(1) [unfolded snap(2)]])
      show "?q x \<longleftrightarrow> x = r" if "x \<in> set (projects d)" for x using pin [OF that] by auto
      show "row_evolves r (?f r)" using 2(2,3) by (simp add: row_evolves_def less_word_Suc)
    qed (use snap in \<open>simp_all add: project_pk_def\<close>)
  qed
qed

lemma removal_preview_Inr:
  assumes "projectRemovalPreview d ch pid = Inr v"
  obtains r where "project_at d ch pid = Some r" and "pv_Project v = joined_project d r"
    and "pv_CanRemove v \<longleftrightarrow> p_Lifecycle r = ProjectActive \<and> \<not> pv_GlobalQuarantine v \<and> removal_total v = 0"
    and "pv_GlobalQuarantine v = external_mutation_quarantine d"
    and "v = removal_counts ch pid d v"
  using assms
  by (cases "project_at d ch pid")
    (auto simp: projectRemovalPreview_def Let_def removal_counts_def removal_total_def)

lemma RemoveProject_tx_Inr:
  assumes "RemoveProject_tx ch pid n d = Inr ((v', b), d')"
  obtains v r where "projectRemovalPreview d ch pid = Inr v" and "project_at d ch pid = Some r"
    and "pv_Project v = joined_project d r" and "p_RegistrationGeneration r = n"
    and "\<not> b \<Longrightarrow> d' = d"
    and "b \<Longrightarrow> pv_CanRemove v \<and> n \<noteq> - 1 \<and> d' = d\<lparr>projects := update_where
        (\<lambda>x. p_Channel x = ch \<and> p_ID x = pid \<and> p_Lifecycle x = ''active'' \<and> p_RegistrationGeneration x = n)
        (\<lambda>x. x\<lparr>p_Lifecycle := ''removed'', p_RegistrationGeneration := n + 1\<rparr>) (projects d)\<rparr>"
proof -
  obtain v where v: "projectRemovalPreview d ch pid = Inr v"
    using assms by (auto simp: RemoveProject_tx_def split: sum.splits)
  then obtain r where r: "project_at d ch pid = Some r" "pv_Project v = joined_project d r"
    by (rule removal_preview_Inr)
  note ok = assms [unfolded RemoveProject_tx_def v sum.case Let_def r(2) joined_simps]
  have gen: "p_RegistrationGeneration r = n" using ok by (simp split: if_split_asm)
  show thesis
  proof (cases "p_Lifecycle r = ProjectRemoved")
    case True
    with ok gen that [OF v r gen] show thesis by simp
  next
    case False
    have can: "pv_CanRemove v" using ok gen False by (simp split: if_split_asm)
    have n: "n \<noteq> - 1" using ok gen False can by (simp split: if_split_asm)
    have "count_where (\<lambda>x. p_Channel x = ch \<and> p_ID x = pid \<and> p_Lifecycle x = ''active'' \<and> p_RegistrationGeneration x = n)
        (projects d) = 1" using ok gen False can n by (simp split: if_split_asm)
    note this [simp]
    have b and "d' = d\<lparr>projects := update_where
        (\<lambda>x. p_Channel x = ch \<and> p_ID x = pid \<and> p_Lifecycle x = ''active'' \<and> p_RegistrationGeneration x = n)
        (\<lambda>x. x\<lparr>p_Lifecycle := ''removed'', p_RegistrationGeneration := n + 1\<rparr>) (projects d)\<rparr>"
      using ok unfolding gen by (simp_all add: False can n)
    with can n that [OF v r gen] show thesis by blast
  qed
qed

lemma Remove_tx_sound:
  assumes inv: "project_inv d" and ok: "RemoveProject_tx ch pid n d = Inr (b, d')"
  shows "project_inv d' \<and> evolves d d'"
proof -
  obtain v' c where b: "b = (v', c)" by fastforce
  let ?q = "\<lambda>x. p_Channel x = ch \<and> p_ID x = pid \<and> p_Lifecycle x = ''active'' \<and> p_RegistrationGeneration x = n"
  let ?f = "\<lambda>x. x\<lparr>p_Lifecycle := ''removed'', p_RegistrationGeneration := n + 1\<rparr>"
  from ok [unfolded b] consider "d' = d" | "n \<noteq> - 1" "d' = d\<lparr>projects := update_where ?q ?f (projects d)\<rparr>"
    by (rule RemoveProject_tx_Inr) blast
  then show ?thesis
  proof cases
    case 1
    with inv show ?thesis by simp
  next
    case 2
    have "sound_project d d'"
      unfolding 2(2) by (rule update_projects_sound) (use 2(1) in \<open>auto simp: project_pk_def row_evolves_def less_word_Suc\<close>)
    with inv show ?thesis by (simp add: sound_project_def)
  qed
qed

section \<open>Runs\<close>

inductive project_step :: "Store \<Rightarrow> Store \<Rightarrow> bool" where
  create: "CreateProject s p = (r, s') \<Longrightarrow> project_step s s'"
| register: "RegisterProject s p = (r, s') \<Longrightarrow> project_step s s'"
| configure: "ApplyProjectConfiguration s c = (r, s') \<Longrightarrow> project_step s s'"
| remove: "RemoveProject s ch pid n at = (r, s') \<Longrightarrow> project_step s s'"

lemma write_project_sound:
  assumes "store_write s fn = (r, s')" and "\<And>b d'. fn (st_db s) = Inr (b, d') \<Longrightarrow> project_inv d' \<and> evolves (st_db s) d'"
    and "project_inv (st_db s)"
  shows "project_inv (st_db s') \<and> evolves (st_db s) (st_db s')"
  using assms by (auto simp: store_write_def split: if_splits sum.splits)

lemma project_step_sound:
  assumes "project_step s s'" and inv: "project_inv (st_db s)"
  shows "project_inv (st_db s') \<and> evolves (st_db s) (st_db s')"
  using assms(1)
proof cases
  case (create p r)
  show ?thesis
  proof (cases "validateProjectRegistration p False")
    case None
    with create have "store_write s (\<lambda>d. case insertProject p d of Inl e \<Rightarrow> Inl e | Inr d' \<Rightarrow> Inr ((), d')) = (r, s')"
      by (simp add: CreateProject_def)
    then show ?thesis
      by (rule write_project_sound) (use insertProject_sound [OF inv _ None] inv in \<open>auto split: sum.splits\<close>)
  qed (use create inv in \<open>simp add: CreateProject_def\<close>)
next
  case (register p r)
  show ?thesis
  proof (cases "validateProjectRegistration p True")
    case None
    with register show ?thesis
      by (intro write_project_sound [of s "RegisterProject_tx p" r])
        (use RegisterProject_tx_sound [OF inv _ None] inv in \<open>auto simp: RegisterProject_def\<close>)
  qed (use register inv in \<open>simp add: RegisterProject_def\<close>)
next
  case (configure c r)
  show ?thesis
  proof (cases "validateProjectConfiguration c")
    case None
    with configure show ?thesis
      by (intro write_project_sound [of s "ApplyProjectConfiguration_tx c" r])
        (use Apply_tx_sound [OF inv _ None] inv in \<open>auto simp: ApplyProjectConfiguration_def\<close>)
  qed (use configure inv in \<open>simp add: ApplyProjectConfiguration_def\<close>)
next
  case (remove ch pid n at r)
  show ?thesis
  proof (cases "\<not> Channel_Valid ch \<or> pid = '''' \<or> n = 0 \<or> at = 0")
    case False
    with remove show ?thesis
      by (intro write_project_sound [of s "RemoveProject_tx ch pid n" r])
        (use Remove_tx_sound [OF inv] inv in \<open>auto simp: RemoveProject_def\<close>)
  qed (use remove inv in \<open>auto simp: RemoveProject_def\<close>)
qed

lemma project_run_sound:
  assumes "project_step\<^sup>*\<^sup>* s s'" and "project_inv (st_db s)"
  shows "project_inv (st_db s') \<and> evolves (st_db s) (st_db s')"
  using assms by (induction rule: rtranclp_induct) (auto dest: project_step_sound intro: evolves_trans)

lemma find_append_Some: "List.find P xs = Some x \<Longrightarrow> List.find P (xs @ ys) = Some x"
  by (induction xs) (auto split: if_splits)

lemma config_at_extends:
  assumes "evolves d d'" and "config_at d ch pid g = Some c"
  shows "config_at d' ch pid g = Some c"
  using assms unfolding evolves_def config_at_def row_at_def by (auto intro: find_append_Some)

text \<open>From an empty database, after any sequence of registrations, configuration changes and removals, a
  configuration that was ever recorded under a generation of a project stays recorded there unchanged
  whatever follows, carries the SHA-256 digest of its snapshot, and the generations of a project are
  exactly the numbers from one to its current generation.\<close>

theorem configuration_history:
  assumes "projects (st_db s0) = []" and "project_configurations (st_db s0) = []"
    and "project_step\<^sup>*\<^sup>* s0 s" and "project_step\<^sup>*\<^sup>* s s'" and "config_at (st_db s) ch pid g = Some c"
  shows "config_at (st_db s') ch pid g = Some c \<and> pc_Digest c = sha256_hex (pc_Snapshot c) \<and>
    (\<exists>r r'. project_at (st_db s) ch pid = Some r \<and> project_at (st_db s') ch pid = Some r' \<and>
       g \<le> p_ConfigGeneration r \<and> p_ConfigGeneration r \<le> p_ConfigGeneration r' \<and> p_Path r' = p_Path r \<and>
       p_BaseRef r' = p_BaseRef r \<and> p_RegistrationGeneration r \<le> p_RegistrationGeneration r' \<and>
       (\<forall>h. config_at (st_db s') ch pid h \<noteq> None \<longleftrightarrow> 1 \<le> h \<and> h \<le> p_ConfigGeneration r'))"
proof -
  have "project_inv (st_db s0)"
    using assms(1,2) by (simp add: project_inv_def unique_key_def project_at_def row_at_def)
  with assms(3) have inv: "project_inv (st_db s)" using project_run_sound by blast
  with assms(4) have inv': "project_inv (st_db s')" and ev: "evolves (st_db s) (st_db s')" using project_run_sound by blast+
  obtain r where r: "project_at (st_db s) ch pid = Some r"
    using no_config_without_project [OF inv, of ch pid g] assms(5) by fastforce
  then obtain r' where r': "project_at (st_db s') ch pid = Some r'" "row_evolves r r'" using ev unfolding evolves_def by blast
  have "c \<in> set (project_configurations (st_db s))" using assms(5) by (auto simp: config_at_def row_at_def find_Some_iff)
  then have "pc_Digest c = sha256_hex (pc_Snapshot c)" using inv by (simp add: project_inv_def)
  moreover have "g \<le> p_ConfigGeneration r" using inv r assms(5) unfolding project_inv_def by blast
  moreover have "config_at (st_db s') ch pid h \<noteq> None \<longleftrightarrow> 1 \<le> h \<and> h \<le> p_ConfigGeneration r'" for h
    using inv' r'(1) by (simp add: project_inv_def word_le_nat_alt unat_eq_zero Suc_le_eq unat_gt_0)
  ultimately show ?thesis using r r' config_at_extends [OF ev assms(5)] by (auto simp: row_evolves_def)
qed

definition sample_registration :: StoreProject where
  "sample_registration = \<lparr>pj_Channel = ''dev'', pj_ID = ''sf'', pj_Path = ''/srv/sf'', pj_BaseRef = ''main'',
     pj_ConfigGeneration = 1, pj_ConfigDigest = sha256_hex sample_snapshot, pj_ConfigSnapshot = sample_snapshot,
     pj_Lifecycle = '''', pj_RegistrationGeneration = 0\<rparr>"

definition fresh_store :: Store where
  "fresh_store = sample_store\<lparr>st_db := sample_db\<lparr>projects := [], tickets := []\<rparr>\<rparr>"

lemma sample_registration_valid: "validateProjectRegistration sample_registration b = None"
proof -
  have "matches_identity sample_effective ''sf'' ''/srv/sf'' ''main''" by code_simp
  then show ?thesis
    using sample_snapshot_ok(3,4) sample_snapshot_decodes
    by (simp add: validateProjectRegistration_def sample_registration_def Channel_Valid_def MaxFileBytes_def
        ChannelDev_def not_less)
qed

lemma sample_registered:
  "RegisterProject fresh_store sample_registration = (Inr True, fresh_store\<lparr>st_db := sample_db\<lparr>tickets := [],
     projects := [\<lparr>p_Channel = ''dev'', p_ID = ''sf'', p_Lifecycle = ''active'', p_Path = ''/srv/sf'', p_BaseRef = ''main'',
        p_ConfigGeneration = 1, p_RegistrationGeneration = 1\<rparr>],
     project_configurations := [\<lparr>pc_Channel = ''dev'', pc_Project = ''sf'', pc_Generation = 1,
        pc_Digest = sha256_hex sample_snapshot, pc_Snapshot = sample_snapshot\<rparr>]\<rparr>\<rparr>)"
  unfolding RegisterProject_def sample_registration_valid
  by (simp add: fresh_store_def sample_store_def sample_db_def store_write_def RegisterProject_tx_def insertProject_def
      insert_config_def project_at_def config_at_def row_at_def insert_row_def sample_registration_def ProjectActive_def Let_def)

theorem configuration_history_witness:
  "\<exists>c. config_at (st_db (snd (RemoveProject (snd (RegisterProject fresh_store sample_registration)) ''dev'' ''sf'' 1 1)))
     ''dev'' ''sf'' 1 = Some c \<and> pc_Snapshot c = sample_snapshot"
proof -
  let ?s = "snd (RegisterProject fresh_store sample_registration)"
  let ?t = "snd (RemoveProject ?s ''dev'' ''sf'' 1 1)"
  have "project_step fresh_store ?s" "project_step ?s ?t"
    by (rule project_step.register, rule prod.collapse [symmetric]) (rule project_step.remove, rule prod.collapse [symmetric])
  moreover have "\<exists>c. config_at (st_db ?s) ''dev'' ''sf'' 1 = Some c \<and> pc_Snapshot c = sample_snapshot"
    unfolding sample_registered by (simp add: config_at_def row_at_def config_pk_def)
  moreover have "projects (st_db fresh_store) = []" "project_configurations (st_db fresh_store) = []"
    by (simp_all add: fresh_store_def sample_store_def sample_db_def)
  ultimately show ?thesis using configuration_history [of fresh_store ?s ?t] by (meson r_into_rtranclp)
qed

section \<open>Removal\<close>

lemma count_zero: "count_where p t = 0 \<longleftrightarrow> (\<forall>x \<in> set t. \<not> p x)"
  by (induction t) (auto simp: count_where_def)

lemma RemoveProject_facts:
  assumes inv: "project_inv (st_db s)" and ok: "RemoveProject s ch pid expected at = (Inr (v, True), s')"
  shows "\<exists>r. project_at (st_db s) ch pid = Some r \<and> p_Lifecycle r = ''active'' \<and> p_RegistrationGeneration r = expected \<and>
      project_at (st_db s') ch pid = Some (r\<lparr>p_Lifecycle := ''removed'', p_RegistrationGeneration := expected + 1\<rparr>)"
    and "project_configurations (st_db s') = project_configurations (st_db s)"
    and "\<not> external_mutation_quarantine (st_db s')"
    and "\<forall>t \<in> set (tickets (st_db s')). in_project ch pid (t_Ref t) \<longrightarrow> State_Terminal (t_State t)"
    and "\<forall>l \<in> set (leases (st_db s')). \<not> in_project ch pid (l_Ref l)"
    and "\<forall>w \<in> set (provider_attempts (st_db s')). in_project ch pid (w_Ref w) \<longrightarrow> \<not> live_writer w \<and> \<not> live_launch w"
    and "\<forall>x \<in> set (phase_runs (st_db s')). in_project ch pid (pr_Ref x) \<longrightarrow> pr_State x \<noteq> ''active''"
    and "\<forall>w \<in> set (repository_command_leases (st_db s')). in_project ch pid (w_Ref w) \<longrightarrow> \<not> live_writer w"
    and "\<forall>w \<in> set (git_mutation_leases (st_db s')). in_project ch pid (w_Ref w) \<longrightarrow> \<not> live_writer w"
    and "\<forall>e \<in> set (effects (st_db s')). in_project ch pid (e_Ref e) \<longrightarrow> e_State e \<notin> {''planned'', ''executing'', ''uncertain''}"
    and "\<forall>ref version fence requests t. in_project ch pid ref \<longrightarrow>
      (\<exists>e. AcquireLeases s' ref version fence requests t = (Inl e, s'))"
proof -
  from ok have tx: "RemoveProject_tx ch pid expected (st_db s) = Inr ((v, True), st_db s')" and rest: "s' = s\<lparr>st_db := st_db s'\<rparr>"
    by (auto simp: RemoveProject_def write_Inr_iff split: if_splits)
  let ?q = "\<lambda>x. p_Channel x = ch \<and> p_ID x = pid \<and> p_Lifecycle x = ''active'' \<and> p_RegistrationGeneration x = expected"
  let ?f = "\<lambda>x. x\<lparr>p_Lifecycle := ''removed'', p_RegistrationGeneration := expected + 1\<rparr>"
  from tx obtain p r where p: "projectRemovalPreview (st_db s) ch pid = Inr p" and r: "project_at (st_db s) ch pid = Some r"
      and gen: "p_RegistrationGeneration r = expected" and can: "pv_CanRemove p"
      and d': "st_db s' = (st_db s)\<lparr>projects := update_where ?q ?f (projects (st_db s))\<rparr>"
    by (rule RemoveProject_tx_Inr) blast
  from p obtain r0 where "project_at (st_db s) ch pid = Some r0" "p_Lifecycle r0 = ProjectActive" "removal_total p = 0"
      "\<not> external_mutation_quarantine (st_db s)" and counts: "p = removal_counts ch pid (st_db s) p"
    by (rule removal_preview_Inr) (use can in auto)
  with r have active: "p_Lifecycle r = ''active''" and zero: "removal_total (removal_counts ch pid (st_db s) p) = 0"
      and q: "\<not> external_mutation_quarantine (st_db s)" by (simp_all add: ProjectActive_def)
  note drained = zero [unfolded removal_total_def removal_counts_def, simplified, unfolded count_zero]
  have u: "unique_key project_pk (projects (st_db s))" using inv by (simp add: project_inv_def)
  have at: "project_at (st_db s') ch pid = Some (?f r)"
    using project_table.get_upd [of ?f "projects (st_db s)" ?q "(ch, pid)"] u r active gen project_at_key [OF r]
    by (simp add: d' project_at_def project_pk_def)
  then show "\<exists>r. project_at (st_db s) ch pid = Some r \<and> p_Lifecycle r = ''active'' \<and> p_RegistrationGeneration r = expected \<and>
      project_at (st_db s') ch pid = Some (?f r)" using r active gen by blast
  show "project_configurations (st_db s') = project_configurations (st_db s)"
    "\<not> external_mutation_quarantine (st_db s')"
    "\<forall>t \<in> set (tickets (st_db s')). in_project ch pid (t_Ref t) \<longrightarrow> State_Terminal (t_State t)"
    "\<forall>l \<in> set (leases (st_db s')). \<not> in_project ch pid (l_Ref l)"
    "\<forall>w \<in> set (provider_attempts (st_db s')). in_project ch pid (w_Ref w) \<longrightarrow> \<not> live_writer w \<and> \<not> live_launch w"
    "\<forall>x \<in> set (phase_runs (st_db s')). in_project ch pid (pr_Ref x) \<longrightarrow> pr_State x \<noteq> ''active''"
    "\<forall>w \<in> set (repository_command_leases (st_db s')). in_project ch pid (w_Ref w) \<longrightarrow> \<not> live_writer w"
    "\<forall>w \<in> set (git_mutation_leases (st_db s')). in_project ch pid (w_Ref w) \<longrightarrow> \<not> live_writer w"
    "\<forall>e \<in> set (effects (st_db s')). in_project ch pid (e_Ref e) \<longrightarrow> e_State e \<notin> {''planned'', ''executing'', ''uncertain''}"
    using drained q by (auto simp: d')
  show "\<forall>ref version fence requests t. in_project ch pid ref \<longrightarrow> (\<exists>e. AcquireLeases s' ref version fence requests t = (Inl e, s'))"
  proof (intro allI impI)
    fix ref version fence requests t
    assume ref: "in_project ch pid ref"
    have inv': "project_inv (st_db s')" using Remove_tx_sound [OF inv tx] by simp
    have "count_where (\<lambda>p. p_Channel p = Channel ref \<and> p_ID p = Project ref \<and> p_Lifecycle p = ''active'') (projects (st_db s')) = 0"
      unfolding count_zero
    proof (intro ballI notI)
      fix x
      assume x: "x \<in> set (projects (st_db s'))" "p_Channel x = Channel ref \<and> p_ID x = Project ref \<and> p_Lifecycle x = ''active''"
      with ref pinned_project [OF inv' at x(1)] have "x = ?f r" unfolding in_project_def by blast
      with x(2) show False by simp
    qed
    then show "\<exists>e. AcquireLeases s' ref version fence requests t = (Inl e, s')"
      by (auto simp: AcquireLeases_def AcquireLeases_tx_def store_write_def split: option.splits sum.splits)
  qed
qed



section \<open>Replay\<close>

text \<open>What a successful registration leaves behind.\<close>

definition registered :: "StoreProject \<Rightarrow> db \<Rightarrow> bool" where
  "registered p d \<longleftrightarrow> (\<exists>r. project_at d (pj_Channel p) (pj_ID p) = Some r \<and> p_Path r = pj_Path p \<and> p_BaseRef r = pj_BaseRef p \<and>
     p_Lifecycle r = ProjectActive \<and> same_config (joined_project d r) p)"

lemma insertProject_registered:
  assumes "project_inv d" and "insertProject p d = Inr d'" and "validateProjectRegistration p True = None"
  shows "registered p d'"
proof -
  let ?r = "\<lparr>p_Channel = pj_Channel p, p_ID = pj_ID p, p_Lifecycle = ProjectActive, p_Path = pj_Path p,
      p_BaseRef = pj_BaseRef p, p_ConfigGeneration = pj_ConfigGeneration p, p_RegistrationGeneration = (1 :: u64)\<rparr>"
  let ?d = "d\<lparr>projects := insert_row ?r (projects d)\<rparr>"
  have one: "pj_ConfigGeneration p = 1"
    using assms(3) by (auto simp: validateProjectRegistration_def split: if_splits)
  have free: "project_at d (pj_Channel p) (pj_ID p) = None"
    and ins: "insert_config (pj_Channel p) (pj_ID p) 1 (pj_ConfigDigest p) (pj_ConfigSnapshot p) ?d = Inr d'"
    using assms(2) one by (auto simp: insertProject_def split: if_splits)
  have "project_at ?d (pj_Channel p) (pj_ID p) = Some ?r"
    using project_table.get_ins [of "projects d" ?r "project_pk ?r"] free by (simp add: project_at_def project_pk_def)
  then have "project_at d' (pj_Channel p) (pj_ID p) = Some ?r"
    by (simp add: insert_config_Inr(3) [OF ins] project_at_def)
  then show ?thesis
    using insert_config_Inr(4) [OF ins]
    by (simp add: registered_def same_config_def joined_project_def Let_def one)
qed

lemma reactivated_registered:
  assumes inv: "project_inv d" and r: "project_at d (pj_Channel p) (pj_ID p) = Some r"
    and ids: "p_Path r = pj_Path p" "p_BaseRef r = pj_BaseRef p" and same: "same_config (joined_project d r) p"
    and ok: "reactivate (pj_Channel p) (pj_ID p) d = Inr d'"
  shows "registered p d'"
proof -
  let ?q = "\<lambda>r. p_Channel r = pj_Channel p \<and> p_ID r = pj_ID p \<and> p_Lifecycle r = ''removed''"
  let ?f = "\<lambda>r. r\<lparr>p_Lifecycle := ''active'', p_RegistrationGeneration := p_RegistrationGeneration r + 1\<rparr>"
  have u: "unique_key project_pk (projects d)" using inv by (simp add: project_inv_def)
  have d': "d' = d\<lparr>projects := update_where ?q ?f (projects d)\<rparr>" and one: "count_where ?q (projects d) = 1"
    using ok by (auto simp: reactivate_def Let_def split: if_splits)
  have rm: "p_Lifecycle r = ''removed''"
    using project_table.affected_one [OF u _ one, of "(pj_Channel p, pj_ID p)"] r by (auto simp: project_at_def project_pk_def)
  have "project_at d' (pj_Channel p) (pj_ID p) = Some (?f r)"
    using project_table.get_upd [of ?f "projects d" ?q "(pj_Channel p, pj_ID p)"] u r rm project_at_key [OF r]
    by (simp add: d' project_at_def project_pk_def)
  moreover have "config_at d' = config_at d" by (simp add: d' config_at_def fun_eq_iff)
  ultimately show ?thesis
    using ids same by (simp add: registered_def same_config_def joined_project_def ProjectActive_def Let_def)
qed

lemma append_config_same:
  assumes inv: "project_inv d" and r: "project_at d (pj_Channel p) (pj_ID p) = Some r"
    and ok: "append_config (joined_project d r) p d = Inr d'"
  obtains x where "project_at d' (pj_Channel p) (pj_ID p) = Some x" and "p_Path x = p_Path r" and "p_BaseRef x = p_BaseRef r"
    and "same_config (joined_project d' x) p"
proof (cases "same_config (joined_project d r) p")
  case True
  with ok r that show thesis by (auto simp: append_config_def)
next
  case False
  let ?q = "\<lambda>x. p_Channel x = pj_Channel p \<and> p_ID x = pj_ID p"
  let ?f = "\<lambda>x. x\<lparr>p_ConfigGeneration := p_ConfigGeneration r + 1\<rparr>"
  obtain d1 where d1: "insert_config (pj_Channel p) (pj_ID p) (p_ConfigGeneration r + 1) (pj_ConfigDigest p) (pj_ConfigSnapshot p) d = Inr d1"
      and d': "d' = d1\<lparr>projects := update_where ?q ?f (projects d1)\<rparr>"
    using ok False by (auto simp: append_config_def Let_def split: if_splits sum.splits)
  have "unique_key project_pk (projects d)" using inv by (simp add: project_inv_def)
  then have at: "project_at d' (pj_Channel p) (pj_ID p) = Some (?f r)"
    using project_table.get_upd [of ?f "projects d" ?q "(pj_Channel p, pj_ID p)"] r project_at_key [OF r]
    by (simp add: d' insert_config_Inr(3) [OF d1] project_at_def project_pk_def)
  have "config_at d' = config_at d1" by (simp add: d' config_at_def fun_eq_iff)
  then have "same_config (joined_project d' (?f r)) p"
    using insert_config_Inr(4) [OF d1] project_at_key [OF r] by (simp add: same_config_def joined_project_def Let_def)
  with at that show thesis by simp
qed

lemma RegisterProject_registered:
  assumes inv: "project_inv d" and ok: "RegisterProject_tx p d = Inr (b, d')" and valid: "validateProjectRegistration p True = None"
  shows "registered p d'"
proof (cases "project_at d (pj_Channel p) (pj_ID p)")
  case None
  with ok have "insertProject p d = Inr d'" by (auto simp: RegisterProject_tx_def split: sum.splits)
  from insertProject_registered [OF inv this valid] show ?thesis .
next
  case (Some r)
  with ok have ids: "p_Path r = pj_Path p" "p_BaseRef r = pj_BaseRef p"
    by (auto simp: RegisterProject_tx_def Let_def split: if_splits)
  show ?thesis
  proof (cases "p_Lifecycle r = ProjectActive")
    case True
    with ok Some ids show ?thesis by (auto simp: RegisterProject_tx_def Let_def registered_def split: if_splits)
  next
    case False
    with ok Some obtain d1 where d1: "append_config (joined_project d r) p d = Inr d1"
        and d': "reactivate (pj_Channel p) (pj_ID p) d1 = Inr d'"
      by (auto simp: RegisterProject_tx_def Let_def split: if_splits sum.splits)
    from append_config_same [OF inv Some d1] obtain x where "project_at d1 (pj_Channel p) (pj_ID p) = Some x"
        "p_Path x = pj_Path p" "p_BaseRef x = pj_BaseRef p" "same_config (joined_project d1 x) p" using ids by metis
    with reactivated_registered [OF _ _ _ _ _ d'] append_config_sound [OF inv Some d1 valid] show ?thesis by blast
  qed
qed

text \<open>Repeating a registration that has succeeded changes nothing; it is confirmed as a replay exactly when the project
  is at its first configuration generation, and is refused as a conflict when the project has a later
  one, even though path, base branch, digest and snapshot are all the registered ones.\<close>

theorem register_replay:
  assumes inv: "project_inv (st_db s)" and ok: "RegisterProject s p = (Inr created, s')"
  shows "RegisterProject s' p =
    (if config_at (st_db s') (pj_Channel p) (pj_ID p) 2 = None then Inr False else Inl ErrProjectConflict, s')"
proof -
  have valid: "validateProjectRegistration p True = None"
    using ok by (auto simp: RegisterProject_def split: option.splits)
  then have tx: "RegisterProject_tx p (st_db s) = Inr (created, st_db s')" and w: "\<not> st_readOnly s'"
    using ok by (auto simp: RegisterProject_def write_Inr_iff)
  have inv': "project_inv (st_db s')" using RegisterProject_tx_sound [OF inv tx valid] by simp
  from RegisterProject_registered [OF inv tx valid] obtain r where r: "project_at (st_db s') (pj_Channel p) (pj_ID p) = Some r"
      "p_Path r = pj_Path p" "p_BaseRef r = pj_BaseRef p" "p_Lifecycle r = ProjectActive" "same_config (joined_project (st_db s') r) p"
    by (auto simp: registered_def)
  have one: "pj_ConfigGeneration p = 1" and snap: "pj_ConfigSnapshot p \<noteq> ''''"
    using valid by (auto simp: validateProjectRegistration_def split: if_splits)
  have "config_at (st_db s') (p_Channel r) (p_ID r) (p_ConfigGeneration r) \<noteq> None"
    using r(5) snap by (auto simp: same_config_def joined_project_def Let_def split: option.splits)
  then have nz: "p_ConfigGeneration r \<noteq> 0"
    using inv' r(1) project_at_key [OF r(1)] by (simp add: project_inv_def)
  have "config_at (st_db s') (pj_Channel p) (pj_ID p) 2 \<noteq> None \<longleftrightarrow> 2 \<le> p_ConfigGeneration r"
    using inv' r(1) by (simp add: project_inv_def)
  moreover have "2 \<le> p_ConfigGeneration r \<longleftrightarrow> p_ConfigGeneration r \<noteq> 1"
    by (rule word_two_le [OF nz])
  ultimately have "p_ConfigGeneration r = 1 \<longleftrightarrow> config_at (st_db s') (pj_Channel p) (pj_ID p) 2 = None" by blast
  then show ?thesis
    using valid w r one by (simp add: RegisterProject_def store_write_def RegisterProject_tx_def Let_def)
qed

theorem register_replay_witness:
  "fst (RegisterProject (snd (RegisterProject fresh_store sample_registration)) sample_registration) = Inr False"
proof -
  have "project_inv (st_db fresh_store)"
    by (simp add: project_inv_def unique_key_def project_at_def row_at_def fresh_store_def sample_store_def sample_db_def)
  from register_replay [OF this sample_registered] show ?thesis
    unfolding sample_registered by (simp add: config_at_def row_at_def config_pk_def sample_registration_def)
qed

end
