(* ===== verification/TicketSafety.thy ===== *)
theory TicketSafety
  imports Tickets ProjectSafety
begin

text \<open>
  Submission admits a source once, and only under controls that the project's frozen configuration
  allows.
\<close>

section \<open>What an insertion writes\<close>

lemma insert_event_tables [simp]:
  "tickets (snd (insert_event ref v tr f t p d)) = tickets d" "projects (snd (insert_event ref v tr f t p d)) = projects d"
  "project_configurations (snd (insert_event ref v tr f t p d)) = project_configurations d"
  "daemon_instances (snd (insert_event ref v tr f t p d)) = daemon_instances d"
  "workflow_owners (snd (insert_event ref v tr f t p d)) = workflow_owners d" "leases (snd (insert_event ref v tr f t p d)) = leases d"
  "runtime_ticket_controls (snd (insert_event ref v tr f t p d)) = runtime_ticket_controls d"
  "events (snd (insert_event ref v tr f t p d)) = events d @ [\<lparr>ev_ID = next_event_id d, ev_Ref = ref, ev_TicketVersion = v,
     ev_Trigger = tr, ev_From = f, ev_To = t, ev_Payload = p\<rparr>]"
  by (simp_all add: insert_event_def insert_row_def Let_def)

lemma insertTicketEvent_Inr:
  assumes "insertTicketEvent now ticket normative d = Inr d'"
  shows "validateTicketInput ticket = None" and "ticket_constraint (new_ticket_row now ticket) d"
    and "normative \<Longrightarrow> t_State (new_ticket_row now ticket) = StateQueued"
    and "d' = snd (insert_event (tk_Ref ticket) (t_Version (new_ticket_row now ticket))
      (if normative then ''submit_valid'' else ''ticket_submitted'') (if normative then ''none'' else ''queued'')
      (t_State (new_ticket_row now ticket)) ''{}'' (d\<lparr>tickets := tickets d @ [new_ticket_row now ticket]\<rparr>))"
proof -
  have r: "t_Ref (new_ticket_row now ticket) = tk_Ref ticket" by (simp add: new_ticket_row_def)
  show "validateTicketInput ticket = None" "ticket_constraint (new_ticket_row now ticket) d"
    "normative \<Longrightarrow> t_State (new_ticket_row now ticket) = StateQueued"
    "d' = snd (insert_event (tk_Ref ticket) (t_Version (new_ticket_row now ticket))
      (if normative then ''submit_valid'' else ''ticket_submitted'') (if normative then ''none'' else ''queued'')
      (t_State (new_ticket_row now ticket)) ''{}'' (d\<lparr>tickets := tickets d @ [new_ticket_row now ticket]\<rparr>))"
    using assms by (auto simp: insertTicketEvent_def Let_def insert_row_def r split: option.splits if_splits)
qed

lemma fresh_ticket_at:
  assumes "ticket_constraint t d"
  shows "ticket_at (d\<lparr>tickets := tickets d @ [t]\<rparr>) (t_Ref t) = Some t"
proof -
  have "row_at t_Ref (tickets d) (t_Ref t) = None"
    using assms by (auto simp: ticket_constraint_def list_all_iff row_at_def find_None_iff)
  from ticket_table.get_ins [OF this] show ?thesis by (simp add: ticket_at_def insert_row_def)
qed

section \<open>What a submission decides\<close>

lemma submitTicket_created:
  assumes "submitTicket_tx now ticket allowNew leader d = Inr ((ref, True), d')"
  obtains resolved where "resolveSubmittedTicketPolicy d ticket = Inr resolved" and "ref = tk_Ref resolved"
    and "leader \<noteq> 0 \<Longrightarrow> leader_at d (Channel (tk_Ref ticket)) = Some leader"
    and "insertTicketEvent now resolved (leader \<noteq> 0) d = Inr d'"
  using assms
  by (auto simp: submitTicket_tx_def Let_def split: option.splits sum.splits if_splits)

lemma submitTicket_Inr:
  assumes "submitTicket s now ticket allowNew leader = (Inr (t, created), s')"
  obtains ref where "TicketRef_Validate (tk_Ref ticket) = None" and "tk_Source ticket \<noteq> []"
    and "canonical_digest (tk_SourceDigest ticket)" and "validateTicketInput ticket = None"
    and "leader \<noteq> 0 \<Longrightarrow> tk_State ticket = '''' \<or> tk_State ticket = StateQueued"
    and "\<not> st_readOnly s" and "submitTicket_tx now ticket allowNew leader (st_db s) = Inr ((ref, created), st_db s')"
    and "s' = s\<lparr>st_db := st_db s'\<rparr>" and "Ticket_get s' ref = Inr t"
proof -
  let ?w = "store_write s (submitTicket_tx now ticket allowNew leader)"
  have pre: "TicketRef_Validate (tk_Ref ticket) = None" "tk_Source ticket \<noteq> []" "canonical_digest (tk_SourceDigest ticket)"
      "validateTicketInput ticket = None" "leader \<noteq> 0 \<Longrightarrow> tk_State ticket = '''' \<or> tk_State ticket = StateQueued"
    and main: "(case ?w of (Inl e, s') \<Rightarrow> (Inl e, s')
       | (Inr (ref, created), s') \<Rightarrow> (case Ticket_get s' ref of Inl e \<Rightarrow> (Inl e, s') | Inr r \<Rightarrow> (Inr (r, created), s')))
       = (Inr (t, created), s')"
    using assms unfolding submitTicket_def by (auto split: option.splits if_split_asm)
  obtain ref where w: "?w = (Inr (ref, created), s')" and get: "Ticket_get s' ref = Inr t"
    using main by (cases ?w; cases "fst ?w") (auto split: sum.splits prod.splits)
  from w obtain d where "\<not> st_readOnly s" "submitTicket_tx now ticket allowNew leader (st_db s) = Inr ((ref, created), d)"
      "s' = s\<lparr>st_db := d\<rparr>" by (auto simp: write_Inr_iff)
  with that [OF pre _ _ _ get] show thesis by simp
qed

lemma resolve_Inr:
  assumes "resolveSubmittedTicketPolicy d ticket = Inr resolved"
  obtains r frozen effective where
    "project_at d (Channel (tk_Ref ticket)) (Project (tk_Ref ticket)) = Some r" and "p_Lifecycle r = ''active''"
    and "DecodeSnapshot (pj_ConfigSnapshot (joined_project d r)) (pj_ConfigDigest (joined_project d r)) = Inr frozen"
    and "matches_identity frozen (p_ID r) (p_Path r) (p_BaseRef r)"
    and "Resolve (ef_Machine frozen) (ef_Project frozen) \<lparr>o_MergeMode = tk_MergeMode ticket, o_PhaseTimeout = 0,
      o_TicketTimeout = tk_MaxDuration ticket, o_MaxCostMicroUSD = tk_MaxCostMicroUSD ticket\<rparr> = Inr effective"
    and "resolved = ticket\<lparr>tk_MergeMode := c_MergeMode (ef_Project effective),
      tk_MaxDuration := c_TicketTimeout (ef_Project effective),
      tk_MaxCostMicroUSD := c_MaxTicketCostMicroUSD (ef_Project effective)\<rparr>"
  using assms
  by (auto simp: resolveSubmittedTicketPolicy_def Let_def split: option.splits sum.splits if_splits dest: project_at_key)

lemma resolve_other_identity:
  assumes "Channel ref = Channel (tk_Ref ticket)" and "Project ref = Project (tk_Ref ticket)"
  shows "resolveSubmittedTicketPolicy d (ticket\<lparr>tk_Ref := ref\<rparr>) = map_sum id (tk_Ref_update (\<lambda>_. ref)) (resolveSubmittedTicketPolicy d ticket)"
  using assms by (simp add: resolveSubmittedTicketPolicy_def Let_def split: option.split sum.split)

lemma resolve_frame:
  "projects d' = projects d \<Longrightarrow> project_configurations d' = project_configurations d \<Longrightarrow>
     resolveSubmittedTicketPolicy d' ticket = resolveSubmittedTicketPolicy d ticket"
proof -
  assume same: "projects d' = projects d" "project_configurations d' = project_configurations d"
  then have "project_at d' = project_at d" "joined_project d' = joined_project d"
    by (simp_all add: project_at_def joined_project_def config_at_def fun_eq_iff)
  then show ?thesis by (simp only: resolveSubmittedTicketPolicy_def)
qed

section \<open>Submission once\<close>

lemma latest_appended:
  assumes "Channel (t_Ref t) = ch" and "Project (t_Ref t) = pid" and "t_SourceDigest t = digest" and "tickets d' = tickets d @ [t]"
  shows "latest_source d' ch pid digest = Some t"
proof -
  have "(case xs @ [t] of [] \<Rightarrow> None | y # ys \<Rightarrow> Some (last (y # ys))) = Some t" for xs
    by (cases xs) auto
  then show ?thesis using assms unfolding latest_source_def by simp
qed

lemma resolved_keeps:
  assumes "resolveSubmittedTicketPolicy d ticket = Inr resolved"
  shows "tk_Ref resolved = tk_Ref ticket" "tk_SourceDigest resolved = tk_SourceDigest ticket" "tk_State resolved = tk_State ticket"
    "tk_Source resolved = tk_Source ticket" "tk_Acceptance resolved = tk_Acceptance ticket" "tk_Title resolved = tk_Title ticket"
    "tk_Problem resolved = tk_Problem ticket"
  by (rule resolve_Inr [OF assms], simp)+

lemma queued_not_terminal [simp]: "\<not> State_Terminal StateQueued"
  by (simp add: State_Terminal_def state_defs)

text \<open>A fenced submission that created a ticket is idempotent: submitting the same source to the same project
  again under the same leader, with any fresh ticket identity, returns the ticket that exists, reports
  that nothing was created, and leaves the store as it is.\<close>

theorem submission_idempotent:
  assumes ok: "SubmitTicketFenced s now ticket allowNew leader = (Inr (t, True), s')"
    and ref: "TicketRef_Validate ref = None" "Channel ref = Channel (tk_Ref ticket)" "Project ref = Project (tk_Ref ticket)"
  shows "SubmitTicketFenced s' now' (ticket\<lparr>tk_Ref := ref\<rparr>) allowNew' leader = (Inr (t, False), s')"
proof -
  have nz: "leader \<noteq> 0" and sub: "submitTicket s now ticket allowNew leader = (Inr (t, True), s')"
    using ok by (auto simp: SubmitTicketFenced_def split: if_splits)
  from sub obtain x where pre: "tk_Source ticket \<noteq> []" "canonical_digest (tk_SourceDigest ticket)" "validateTicketInput ticket = None"
      "tk_State ticket = '''' \<or> tk_State ticket = StateQueued" "\<not> st_readOnly s"
      and tx: "submitTicket_tx now ticket allowNew leader (st_db s) = Inr ((x, True), st_db s')"
      and s': "s' = s\<lparr>st_db := st_db s'\<rparr>" and get: "Ticket_get s' x = Inr t"
    by (rule submitTicket_Inr) (use nz in blast)
  from tx obtain resolved where res: "resolveSubmittedTicketPolicy (st_db s) ticket = Inr resolved" and x: "x = tk_Ref resolved"
      and lead: "leader_at (st_db s) (Channel (tk_Ref ticket)) = Some leader"
      and ins: "insertTicketEvent now resolved True (st_db s) = Inr (st_db s')"
    by (rule submitTicket_created) (use nz in simp)
  let ?row = "new_ticket_row now resolved"
  note keeps = resolved_keeps [OF res]
  note i = insertTicketEvent_Inr [OF ins]
  have tables: "tickets (st_db s') = tickets (st_db s) @ [?row]" "projects (st_db s') = projects (st_db s)"
      "project_configurations (st_db s') = project_configurations (st_db s)" "daemon_instances (st_db s') = daemon_instances (st_db s)"
    by (subst i(4), simp)+
  have row: "t_Ref ?row = tk_Ref ticket" "t_SourceDigest ?row = tk_SourceDigest ticket" "\<not> State_Terminal (t_State ?row)"
    using i(3) keeps by (simp_all add: new_ticket_row_def)
  have again: "resolveSubmittedTicketPolicy (st_db s') (ticket\<lparr>tk_Ref := ref\<rparr>) = Inr (resolved\<lparr>tk_Ref := ref\<rparr>)"
    using resolve_other_identity [OF ref(2,3), of "st_db s'"] resolve_frame [OF tables(2,3)] res by simp
  have latest: "latest_source (st_db s') (Channel (tk_Ref ticket)) (Project (tk_Ref ticket)) (tk_SourceDigest ticket) = Some ?row"
    using row tables(1) by (intro latest_appended) auto
  have "leader_at (st_db s') (Channel (tk_Ref ticket)) = Some leader" using lead tables(4) by (simp add: leader_at_def)
  then have "submitTicket_tx now' (ticket\<lparr>tk_Ref := ref\<rparr>) allowNew' leader (st_db s') = Inr ((x, False), st_db s')"
    using again latest row nz ref(2,3) keeps by (simp add: submitTicket_tx_def Let_def x)
  then have w: "store_write s' (submitTicket_tx now' (ticket\<lparr>tk_Ref := ref\<rparr>) allowNew' leader) = (Inr (x, False), s')"
    using pre(5) s' by (simp add: store_write_def) (metis Store.select_convs(2) Store.surjective Store.update_convs(1))
  have "validateTicketInput (ticket\<lparr>tk_Ref := ref\<rparr>) = validateTicketInput ticket"
    unfolding validateTicketInput_def by (simp cong: if_cong)
  with pre ref(1) nz w get show ?thesis by (auto simp: SubmitTicketFenced_def submitTicket_def)
qed

section \<open>Submission under policy\<close>

lemma acceptance_decodes:
  assumes "list_all utf8_ok xs"
  shows "Option.bind (json_parse (print_json (json_strings xs))) (\<lambda>j. decode_strings j []) = Some xs"
proof -
  have "depth (json_strings xs) \<le> 10000" using depth_strings [of xs] by simp
  from json_parse_print [OF wf_strings [OF assms] this] show ?thesis by (simp add: decode_strings_json)
qed

lemma Ticket_get_Inr:
  assumes "Ticket_get s ref = Inr t"
  obtains row acceptance where "ticket_at (st_db s) ref = Some row" and "t = ticket_value row acceptance"
    and "Option.bind (json_parse (t_AcceptanceJSON row)) (\<lambda>j. decode_strings j []) = Some acceptance"
  using assms by (auto simp: Ticket_get_def split: option.splits)

lemma created_value:
  assumes ins: "insertTicketEvent now resolved normative d = Inr d'" and d': "st_db s = d'" and get: "Ticket_get s (tk_Ref resolved) = Inr t"
  shows "\<exists>acceptance. t = ticket_value (new_ticket_row now resolved) acceptance \<and>
    (list_all utf8_ok (tk_Acceptance resolved) \<longrightarrow> acceptance = tk_Acceptance resolved)"
proof -
  let ?row = "new_ticket_row now resolved"
  note i = insertTicketEvent_Inr [OF ins]
  have "t_Ref ?row = tk_Ref resolved" by (simp add: new_ticket_row_def)
  with fresh_ticket_at [OF i(2)] have "ticket_at (st_db s) (tk_Ref resolved) = Some ?row"
    by (simp add: d' i(4) ticket_at_def)
  with get obtain acceptance where t: "t = ticket_value ?row acceptance"
      and dec: "Option.bind (json_parse (t_AcceptanceJSON ?row)) (\<lambda>j. decode_strings j []) = Some acceptance"
    by (auto elim!: Ticket_get_Inr)
  have "t_AcceptanceJSON ?row = print_json (json_strings (tk_Acceptance resolved))" by (simp add: new_ticket_row_def)
  with dec acceptance_decodes [of "tk_Acceptance resolved"] t show ?thesis by auto
qed

text \<open>C30: a submission that creates a ticket stores it queued under the leader that submitted it, with the bytes that
  hash to its digest and one admission event, and never with wider controls than the project's current
  frozen configuration: merge mode, duration and cost stay within it, and the requested merge mode is kept.\<close>

theorem submission_within_policy:
  assumes ok: "SubmitTicketFenced s now ticket allowNew leader = (Inr (t, True), s')"
  shows "leader_at (st_db s) (Channel (tk_Ref ticket)) = Some leader \<and>
    (\<exists>r frozen. project_at (st_db s) (Channel (tk_Ref ticket)) (Project (tk_Ref ticket)) = Some r \<and> p_Lifecycle r = ''active'' \<and>
       DecodeSnapshot (pj_ConfigSnapshot (joined_project (st_db s) r)) (pj_ConfigDigest (joined_project (st_db s) r)) = Inr frozen \<and>
       mergeRank (tk_MergeMode t) \<le> mergeRank (c_MergeMode (ef_Project frozen)) \<and>
       0 < tk_MaxDuration t \<and> tk_MaxDuration t \<le> c_TicketTimeout (ef_Project frozen) \<and>
       0 < tk_MaxCostMicroUSD t \<and> tk_MaxCostMicroUSD t \<le> m_MaxTicketCostMicroUSD (ef_Machine frozen) \<and>
       (c_MaxTicketCostMicroUSD (ef_Project frozen) \<noteq> 0 \<longrightarrow> tk_MaxCostMicroUSD t \<le> c_MaxTicketCostMicroUSD (ef_Project frozen))) \<and>
    tk_Ref t = tk_Ref ticket \<and> tk_State t = StateQueued \<and> tk_MergeMode t = tk_MergeMode ticket \<and>
    tk_Source t = tk_Source ticket \<and> sha256_hex (tk_Source t) = tk_SourceDigest t \<and>
    (list_all utf8_ok (tk_Acceptance ticket) \<longrightarrow> tk_Acceptance t = tk_Acceptance ticket) \<and>
    events (st_db s') = events (st_db s) @ [\<lparr>ev_ID = next_event_id (st_db s), ev_Ref = tk_Ref ticket,
      ev_TicketVersion = tk_Version t, ev_Trigger = ''submit_valid'', ev_From = ''none'', ev_To = StateQueued, ev_Payload = ''{}''\<rparr>]"
proof -
  have nz: "leader \<noteq> 0" and sub: "submitTicket s now ticket allowNew leader = (Inr (t, True), s')"
    using ok by (auto simp: SubmitTicketFenced_def split: if_splits)
  from sub obtain x where pre: "tk_Source ticket \<noteq> []" "validateTicketInput ticket = None"
      and tx: "submitTicket_tx now ticket allowNew leader (st_db s) = Inr ((x, True), st_db s')" and get: "Ticket_get s' x = Inr t"
    by (rule submitTicket_Inr) blast
  from tx obtain resolved where res: "resolveSubmittedTicketPolicy (st_db s) ticket = Inr resolved" and x: "x = tk_Ref resolved"
      and lead: "leader_at (st_db s) (Channel (tk_Ref ticket)) = Some leader"
      and ins: "insertTicketEvent now resolved True (st_db s) = Inr (st_db s')"
    by (rule submitTicket_created) (use nz in simp)
  note keeps = resolved_keeps [OF res]
  note i = insertTicketEvent_Inr [OF ins]
  from created_value [OF ins refl get [unfolded x]] obtain acceptance where t: "t = ticket_value (new_ticket_row now resolved) acceptance"
      and acc: "list_all utf8_ok (tk_Acceptance resolved) \<longrightarrow> acceptance = tk_Acceptance resolved" by blast
  have vals: "tk_Ref t = tk_Ref ticket" "tk_State t = StateQueued" "tk_Source t = tk_Source ticket" "tk_SourceDigest t = tk_SourceDigest ticket"
      "tk_MergeMode t = tk_MergeMode resolved" "tk_MaxDuration t = tk_MaxDuration resolved" "tk_MaxCostMicroUSD t = tk_MaxCostMicroUSD resolved"
      "tk_Version t = t_Version (new_ticket_row now resolved)"
    using i(3) keeps by (simp_all add: t ticket_value_def new_ticket_row_def)
  have ev: "events (st_db s') = events (st_db s) @ [\<lparr>ev_ID = next_event_id (st_db s), ev_Ref = tk_Ref ticket,
      ev_TicketVersion = tk_Version t, ev_Trigger = ''submit_valid'', ev_From = ''none'', ev_To = StateQueued, ev_Payload = ''{}''\<rparr>]"
    using i(3) keeps by (subst i(4)) (simp add: vals(8) next_event_id_def)
  have valid: "tk_MergeMode ticket \<noteq> ''''" "sha256_hex (tk_Source ticket) = tk_SourceDigest ticket"
    using pre by (auto simp: validateTicketInput_def Let_def MergeMode_Valid_def MergeManual_def MergeGuarded_def MergeAutonomous_def split: if_splits)
  from resolve_Inr [OF res] obtain r frozen effective where
      r: "project_at (st_db s) (Channel (tk_Ref ticket)) (Project (tk_Ref ticket)) = Some r" "p_Lifecycle r = ''active''"
      and frozen: "DecodeSnapshot (pj_ConfigSnapshot (joined_project (st_db s) r)) (pj_ConfigDigest (joined_project (st_db s) r)) = Inr frozen"
      and eff: "Resolve (ef_Machine frozen) (ef_Project frozen) \<lparr>o_MergeMode = tk_MergeMode ticket, o_PhaseTimeout = 0,
        o_TicketTimeout = tk_MaxDuration ticket, o_MaxCostMicroUSD = tk_MaxCostMicroUSD ticket\<rparr> = Inr effective"
      and resolved: "resolved = ticket\<lparr>tk_MergeMode := c_MergeMode (ef_Project effective),
        tk_MaxDuration := c_TicketTimeout (ef_Project effective), tk_MaxCostMicroUSD := c_MaxTicketCostMicroUSD (ef_Project effective)\<rparr>"
    by blast
  note tight = Resolve_tightens [OF eff]
  have mode: "tk_MergeMode resolved = tk_MergeMode ticket" using tight(13) valid(1) by (simp add: resolved)
  show ?thesis
    using lead r frozen tight(2,7,8,10,11,12) ev acc vals keeps mode valid(2) by (auto simp: resolved t ticket_value_def)
qed

section \<open>A sample submission\<close>

definition sample_submission :: StoreTicket where
  "sample_submission = \<lparr>tk_Ref = sample_ref, tk_State = '''', tk_ResumeState = '''', tk_Version = 0, tk_RunnerEpoch = 0,
     tk_WorkflowID = '''', tk_SourceDigest = sha256_hex ''s'', tk_Type = ''feature'', tk_MergeMode = ''manual'', tk_BlockedCode = '''',
     tk_Title = ''A'', tk_Problem = ''B'', tk_Acceptance = [''works''], tk_Source = ''s'', tk_Priority = '''', tk_CreatedAt = 0,
     tk_MaxDuration = 4, tk_MaxCostMicroUSD = 0, tk_ConfigGeneration = 0, tk_ConfigDigest = '''', tk_ConfigSnapshot = ''''\<rparr>"

definition registered_store :: Store where
  "registered_store = snd (RegisterProject fresh_store sample_registration)"

lemma registered_store_db:
  "st_db registered_store = sample_db\<lparr>tickets := [],
     projects := [\<lparr>p_Channel = ''dev'', p_ID = ''sf'', p_Lifecycle = ''active'', p_Path = ''/srv/sf'', p_BaseRef = ''main'',
        p_ConfigGeneration = 1, p_RegistrationGeneration = 1\<rparr>],
     project_configurations := [\<lparr>pc_Channel = ''dev'', pc_Project = ''sf'', pc_Generation = 1,
        pc_Digest = sha256_hex sample_snapshot, pc_Snapshot = sample_snapshot\<rparr>]\<rparr>"
  "\<not> st_readOnly registered_store"
  unfolding registered_store_def sample_registered by (simp_all add: fresh_store_def sample_store_def)

lemma sample_resolved:
  "\<exists>d c. resolveSubmittedTicketPolicy (st_db registered_store) sample_submission =
     Inr (sample_submission\<lparr>tk_MergeMode := ''manual'', tk_MaxDuration := d, tk_MaxCostMicroUSD := c\<rparr>) \<and> 0 \<le> d \<and> 0 \<le> c"
proof -
  have "matches_identity sample_effective ''sf'' ''/srv/sf'' ''main''" by code_simp
  have "case Resolve (ef_Machine sample_effective) (ef_Project sample_effective) \<lparr>o_MergeMode = ''manual'', o_PhaseTimeout = 0,
      o_TicketTimeout = 4, o_MaxCostMicroUSD = 0\<rparr> of Inl _ \<Rightarrow> False | Inr e \<Rightarrow> True" by code_simp
  then obtain e where e: "Resolve (ef_Machine sample_effective) (ef_Project sample_effective) \<lparr>o_MergeMode = ''manual'',
      o_PhaseTimeout = 0, o_TicketTimeout = 4, o_MaxCostMicroUSD = 0\<rparr> = Inr e" by (auto split: sum.splits)
  note t = Resolve_tightens [OF e]
  have "c_MergeMode (ef_Project e) = ''manual''" "0 \<le> c_TicketTimeout (ef_Project e)" "0 \<le> c_MaxTicketCostMicroUSD (ef_Project e)"
    using t(7,10,13) by simp_all
  with e \<open>matches_identity sample_effective ''sf'' ''/srv/sf'' ''main''\<close> sample_snapshot_decodes show ?thesis
    by (simp add: resolveSubmittedTicketPolicy_def registered_store_db sample_submission_def sample_ref_def project_at_def row_at_def
        project_pk_def joined_project_def config_at_def config_pk_def Let_def)
qed

lemma sample_submitted:
  "\<exists>t s'. SubmitTicketFenced registered_store 1 sample_submission True 2 = (Inr (t, True), s')"
proof -
  obtain d c where res: "resolveSubmittedTicketPolicy (st_db registered_store) sample_submission =
     Inr (sample_submission\<lparr>tk_MergeMode := ''manual'', tk_MaxDuration := d, tk_MaxCostMicroUSD := c\<rparr>)" and nn: "0 \<le> d" "0 \<le> c"
    using sample_resolved by (elim exE conjE)
  let ?r = "sample_submission\<lparr>tk_MergeMode := ''manual'', tk_MaxDuration := d, tk_MaxCostMicroUSD := c\<rparr>"
  let ?row = "new_ticket_row 1 ?r"
  have "sha256_hex ''s'' \<noteq> []" using sha256_hex_length [of "''s''"] by (intro notI) simp
  then have valid: "validateTicketInput ?r = None" "validateTicketInput sample_submission = None"
    using nn
    by (auto simp: validateTicketInput_def sample_submission_def TicketType_Valid_def ticket_types_def MergeMode_Valid_def
        MergeManual_def MergeAutonomous_def TicketSpike_def Let_def)
  have digest: "canonical_digest (sha256_hex ''s'')"
    using sha256_hex_length sha256_hex_lower by (simp add: canonical_digest_def)
  have con: "ticket_constraint ?row (st_db registered_store)"
    by (simp add: ticket_constraint_def new_ticket_row_def sample_submission_def registered_store_db nullableState_def
        State_Valid_def AllStates_def state_defs sample_ref_def)
  have state: "t_State ?row = StateQueued" by (simp add: new_ticket_row_def sample_submission_def)
  obtain d' where ins: "insertTicketEvent 1 ?r True (st_db registered_store) = Inr d'"
    using valid con state by (simp add: insertTicketEvent_def Let_def)
  have ref: "tk_Ref ?r = sample_ref" "TicketRef_Validate sample_ref = None" by (simp add: sample_submission_def) code_simp
  have "submitTicket_tx 1 sample_submission True 2 (st_db registered_store) = Inr ((sample_ref, True), d')"
    using res ins by (simp add: submitTicket_tx_def Let_def latest_source_def registered_store_db leader_at_def row_at_def
        sample_db_def sample_submission_def sample_ref_def)
  then have w: "store_write registered_store (submitTicket_tx 1 sample_submission True 2) = (Inr (sample_ref, True), registered_store\<lparr>st_db := d'\<rparr>)"
    by (simp add: store_write_def registered_store_db)
  have acc: "t_AcceptanceJSON ?row = print_json (json_strings [''works''])" by (simp add: new_ticket_row_def sample_submission_def)
  have "list_all utf8_ok [''works'']" by code_simp
  note dec = acceptance_decodes [OF this]
  have "ticket_at d' sample_ref = Some ?row"
    using fresh_ticket_at [OF con] by (simp add: insertTicketEvent_Inr(4) [OF ins] ticket_at_def new_ticket_row_def sample_submission_def)
  then have "\<exists>t. Ticket_get (registered_store\<lparr>st_db := d'\<rparr>) sample_ref = Inr t"
    using ref(2) acc dec by (simp add: Ticket_get_def)
  with w valid(2) digest ref show ?thesis
    by (auto simp: SubmitTicketFenced_def submitTicket_def sample_submission_def)
qed

definition other_ref :: TicketRef where
  "other_ref = \<lparr>Channel = ''dev'', Project = ''sf'', Ticket = ''SF-2''\<rparr>"

theorem submission_idempotent_witness:
  "\<exists>t s'. SubmitTicketFenced registered_store 1 sample_submission True 2 = (Inr (t, True), s') \<and>
     SubmitTicketFenced s' 7 (sample_submission\<lparr>tk_Ref := other_ref\<rparr>) False 2 = (Inr (t, False), s')"
proof -
  obtain t s' where ok: "SubmitTicketFenced registered_store 1 sample_submission True 2 = (Inr (t, True), s')"
    using sample_submitted by blast
  have "TicketRef_Validate other_ref = None" by code_simp
  moreover have "Channel other_ref = Channel (tk_Ref sample_submission)" "Project other_ref = Project (tk_Ref sample_submission)"
    by (simp_all add: other_ref_def sample_submission_def sample_ref_def)
  ultimately have "SubmitTicketFenced s' 7 (sample_submission\<lparr>tk_Ref := other_ref\<rparr>) False 2 = (Inr (t, False), s')"
    by (rule submission_idempotent [OF ok])
  with ok show ?thesis by blast
qed

theorem submission_within_policy_witness:
  "\<exists>t s'. SubmitTicketFenced registered_store 1 sample_submission True 2 = (Inr (t, True), s') \<and> tk_State t = ''queued'' \<and>
     tk_MergeMode t = ''manual'' \<and> length (events (st_db s')) = 1"
proof -
  obtain t s' where ok: "SubmitTicketFenced registered_store 1 sample_submission True 2 = (Inr (t, True), s')"
    using sample_submitted by blast
  from submission_within_policy [OF this] have "tk_State t = ''queued''" "tk_MergeMode t = ''manual''" "length (events (st_db s')) = 1"
    by (auto simp: sample_submission_def state_defs registered_store_db sample_db_def)
  with ok show ?thesis by blast
qed

end
