(* ===== verification/LifecycleSafety.thy ===== *)
theory LifecycleSafety
  imports Lifecycle TicketSafety ControlTransitions
begin

text \<open>
  A new leader fences every operation of an older one; a start is recorded once and its replay
  changes nothing; after orphan recovery no planning ticket is without an owner.
\<close>

section \<open>Leadership\<close>

lemma AcquireLeader_Inr:
  assumes "AcquireLeader s ch who = (Inr epoch, s')" and u: "unique_key d_Channel (daemon_instances (st_db s))"
  shows "leader_at (st_db s') ch = Some epoch"
    and "epoch = (case leader_at (st_db s) ch of None \<Rightarrow> 1 | Some old \<Rightarrow> old + 1)"
    and "ch' \<noteq> ch \<Longrightarrow> leader_at (st_db s') ch' = leader_at (st_db s) ch'"
    and "tickets (st_db s') = tickets (st_db s)"
proof -
  let ?f = "\<lambda>r. r\<lparr>d_LeaderEpoch := d_LeaderEpoch r + 1\<rparr>"
  let ?q = "\<lambda>r. d_Channel r = ch"
  let ?t = "daemon_instances (st_db s)"
  let ?t1 = "if row_at d_Channel ?t ch = None then insert_row \<lparr>d_Channel = ch, d_LeaderEpoch = 0, d_RecoveryKey = ''''\<rparr> ?t else ?t"
  obtain s1 where s1: "DrainChannelExternalMutations s ch = (Inr (), s1)" "store_write s1 (AcquireLeader_tx ch) = (Inr epoch, s')"
    using assms(1) by (auto simp: AcquireLeader_def split: if_splits prod.splits sum.splits)
  have same: "st_db s1 = st_db s"
    using s1(1) by (auto simp: DrainChannelExternalMutations_def unlock_store_def update_gate_def split: if_splits elim!: with_gate_Inr)
  obtain d where d: "AcquireLeader_tx ch (st_db s) = Inr (epoch, d)" "s' = s1\<lparr>st_db := d\<rparr>"
    using s1(2) by (auto simp: write_Inr_iff same)
  have rows: "daemon_instances d = update_where ?q ?f ?t1" and tk: "tickets d = tickets (st_db s)" and e: "leader_at d ch = Some epoch"
    using d(1) by (auto simp: AcquireLeader_tx_def Let_def split: option.splits if_splits)
  have u1: "unique_key d_Channel ?t1" using u daemon_table.wf_ins [OF u, of "\<lparr>d_Channel = ch, d_LeaderEpoch = 0, d_RecoveryKey = ''''\<rparr>"] by auto
  have get1: "row_at d_Channel ?t1 k = (if k = ch \<and> row_at d_Channel ?t ch = None then Some \<lparr>d_Channel = ch, d_LeaderEpoch = 0, d_RecoveryKey = ''''\<rparr>
      else row_at d_Channel ?t k)" for k
    using daemon_table.get_ins [of ?t "\<lparr>d_Channel = ch, d_LeaderEpoch = 0, d_RecoveryKey = ''''\<rparr>" k] by auto
  have key: "d_Channel r = k" if "row_at d_Channel ?t k = Some r" for k r using daemon_table.get_key [OF that] .
  have get: "row_at d_Channel (daemon_instances d) k = map_option (\<lambda>r. if ?q r then ?f r else r) (row_at d_Channel ?t1 k)" for k
    unfolding rows by (rule daemon_table.get_upd [OF _ u1]) simp
  show "leader_at (st_db s') ch = Some epoch" using e d(2) by simp
  then show "epoch = (case leader_at (st_db s) ch of None \<Rightarrow> 1 | Some old \<Rightarrow> old + 1)"
    using key [of ch] by (auto simp: d(2) leader_at_def get get1 split: option.splits)
  show "leader_at (st_db s') ch' = leader_at (st_db s) ch'" if "ch' \<noteq> ch"
    using key [of ch'] that by (cases "row_at d_Channel ?t ch'") (auto simp: d(2) leader_at_def get get1)
  show "tickets (st_db s') = tickets (st_db s)" by (simp add: d(2) tk)
qed

text \<open>
  The contract that every fenced operation of the Store offers: a caller whose leader epoch is not
  the durable one of the channel gets an error and changes nothing.
\<close>

locale leader_fenced =
  fixes run :: "Store \<Rightarrow> 'a \<Rightarrow> (store_error + 'b) \<times> Store"
    and ref_of :: "'a \<Rightarrow> TicketRef"
    and fence_of :: "'a \<Rightarrow> Fence"
  assumes refused: "leader_at (st_db s) (Channel (ref_of a)) \<noteq> Some (LeaderEpoch (fence_of a)) \<Longrightarrow> \<exists>e. run s a = (Inl e, s)"
begin

lemma deposed:
  assumes "AcquireLeader s ch who = (Inr epoch, s')" and "unique_key d_Channel (daemon_instances (st_db s))"
    and "Channel (ref_of a) = ch" and "LeaderEpoch (fence_of a) \<noteq> epoch"
  shows "\<exists>e. run s' a = (Inl e, s')"
  using refused [of s' a] AcquireLeader_Inr(1) [OF assms(1,2)] assms(3,4) by simp

end

lemma stale_leader:
  assumes "leader_at d (Channel ref) \<noteq> Some (LeaderEpoch fence)"
  shows "\<exists>e. assertTicketFence m d ref v fence = Some e" and "\<exists>e. currentFence d (Channel ref) w r fence = Some e"
  using assms assertTicketFence_None [of m d ref v fence] currentFence_None [of d "Channel ref" w r fence] by auto

lemma write_refused: "(\<And>d. d = st_db s \<Longrightarrow> \<exists>e. fn d = Inl e) \<Longrightarrow> \<exists>e. store_write s fn = (Inl e, s)"
  by (auto simp: store_write_def split: sum.splits)

lemma with_gate_refused:
  assumes "\<And>g s'. st_db s' = st_db s \<Longrightarrow> \<exists>e. body g s' = (Inl e, s')"
  shows "\<exists>e. with_gate nil s body = (Inl e, s)"
proof (cases "st_mutations s")
  case (Some g)
  have "\<exists>e. body (g\<lparr>gate_token := False\<rparr>) (s\<lparr>st_mutations := Some (g\<lparr>gate_token := False\<rparr>)\<rparr>) =
      (Inl e, s\<lparr>st_mutations := Some (g\<lparr>gate_token := False\<rparr>)\<rparr>)" by (rule assms) simp
  with Some show ?thesis by (auto simp: with_gate_def gate_lock_cases)
qed (simp add: with_gate_def)

lemma with_gate_write_refused:
  assumes "\<And>g s'. st_db s' = st_db s \<Longrightarrow> \<exists>e. store_write s' (fn g) = (Inl e, s')"
  shows "\<exists>e. with_gate nil s (\<lambda>g s. case store_write s (fn g) of (Inl e, s') \<Rightarrow> (Inl e, s') | (Inr r, s') \<Rightarrow> k r s') = (Inl e, s)"
proof (rule with_gate_refused)
  fix g :: Gate and s' :: Store
  assume "st_db s' = st_db s"
  then obtain e where "store_write s' (fn g) = (Inl e, s')" using assms by blast
  then show "\<exists>e. (case store_write s' (fn g) of (Inl e, s') \<Rightarrow> (Inl e, s') | (Inr r, s') \<Rightarrow> k r s') = (Inl e, s')" by simp
qed

interpretation claim_op: leader_fenced ClaimEffect ef_Ref ef_Fence
proof
  fix s :: Store and a :: EffectFence
  assume "leader_at (st_db s) (Channel (ef_Ref a)) \<noteq> Some (LeaderEpoch (ef_Fence a))"
  then obtain e where "assertTicketFence (st_mutations s) (st_db s) (ef_Ref a) (ef_TicketVersion a) (ef_Fence a) = Some e"
    using stale_leader(1) by blast
  then show "\<exists>e. ClaimEffect s a = (Inl e, s)" by (simp add: ClaimEffect_def store_write_def ClaimEffect_tx_def)
qed

interpretation finish_op: leader_fenced "\<lambda>s (f, state, who). finishEffect s f state who" "\<lambda>(f, _). ef_Ref f" "\<lambda>(f, _). ef_Fence f"
proof
  fix s :: Store and a :: "EffectFence \<times> string \<times> string"
  obtain f state who where a: "a = (f, state, who)" by (cases a)
  assume "leader_at (st_db s) (Channel ((\<lambda>(f, _). ef_Ref f) a)) \<noteq> Some (LeaderEpoch ((\<lambda>(f, _). ef_Fence f) a))"
  then obtain e where "assertTicketFence (st_mutations s) (st_db s) (ef_Ref f) (ef_TicketVersion f) (ef_Fence f) = Some e"
    using stale_leader(1) [of "st_db s" "ef_Ref f" "ef_Fence f"] by (auto simp: a)
  then show "\<exists>e. (case a of (f, state, who) \<Rightarrow> finishEffect s f state who) = (Inl e, s)"
    by (simp add: a finishEffect_def store_write_def finishEffect_tx_def)
qed

interpretation lease_op: leader_fenced "\<lambda>s (ref, v, f, requests, t). AcquireLeases s ref v f requests t" "\<lambda>(ref, _). ref" "\<lambda>(_, _, f, _). f"
proof
  fix s :: Store and a :: "TicketRef \<times> u64 \<times> Fence \<times> LeaseRequest list \<times> int"
  obtain ref v f requests t where a: "a = (ref, v, f, requests, t)" by (cases a)
  assume "leader_at (st_db s) (Channel ((\<lambda>(ref, _). ref) a)) \<noteq> Some (LeaderEpoch ((\<lambda>(_, _, f, _). f) a))"
  then have "\<exists>e. assertTicketFence (st_mutations s) (st_db s) ref v f = Some e" by (intro stale_leader(1)) (simp add: a)
  then have "\<exists>e. store_write s (AcquireLeases_tx (st_mutations s) ref v f copy t) = (Inl e, s)" for copy
    by (intro write_refused) (auto simp: AcquireLeases_tx_def)
  then show "\<exists>e. (case a of (ref, v, f, requests, t) \<Rightarrow> AcquireLeases s ref v f requests t) = (Inl e, s)"
    by (auto simp: a AcquireLeases_def split: option.splits sum.splits)
qed

interpretation start_op: leader_fenced "\<lambda>s (ref, v, workflow, f). StartOrAdopt s ref v workflow f" "\<lambda>(ref, _). ref" "\<lambda>(_, _, _, f). f"
proof
  fix s :: Store and a :: "TicketRef \<times> u64 \<times> string \<times> Fence"
  obtain ref v workflow f where a: "a = (ref, v, workflow, f)" by (cases a)
  assume "leader_at (st_db s) (Channel ((\<lambda>(ref, _). ref) a)) \<noteq> Some (LeaderEpoch ((\<lambda>(_, _, _, f). f) a))"
  then have stale: "\<exists>e. assertTicketFence m (st_db s) ref w f = Some e" for m w by (intro stale_leader(1)) (simp add: a)
  have "\<exists>e. store_write s' (StartOrAdopt_tx m ref v workflow f) = (Inl e, s')" if "st_db s' = st_db s" for m s'
    using that stale by (intro write_refused) (auto simp: StartOrAdopt_tx_def split: option.splits; metis option.distinct(1))
  then have "\<exists>e. with_gate ErrStaleFence s (\<lambda>g s. case store_write s (StartOrAdopt_tx (Some g) ref v workflow f) of
      (Inl e, s') \<Rightarrow> (Inl e, s') | (Inr _, s') \<Rightarrow> (Ticket_get s' ref, s')) = (Inl e, s)"
    by (rule with_gate_write_refused)
  then show "\<exists>e. (case a of (ref, v, workflow, f) \<Rightarrow> StartOrAdopt s ref v workflow f) = (Inl e, s)"
    by (auto simp: a StartOrAdopt_def)
qed

interpretation completion_op: leader_fenced "\<lambda>s (ref, phase, n, v, f). RecordPhaseCompletion s ref phase n v f" "\<lambda>(ref, _). ref" "\<lambda>(_, _, _, _, f). f"
proof
  fix s :: Store and a :: "TicketRef \<times> string \<times> int \<times> u64 \<times> Fence"
  obtain ref phase n v f where a: "a = (ref, phase, n, v, f)" by (cases a)
  assume "leader_at (st_db s) (Channel ((\<lambda>(ref, _). ref) a)) \<noteq> Some (LeaderEpoch ((\<lambda>(_, _, _, _, f). f) a))"
  then have stale: "\<exists>e. currentFence (st_db s) (Channel ref) w r f = Some e" for w r by (intro stale_leader(2)) (simp add: a)
  show "\<exists>e. (case a of (ref, phase, n, v, f) \<Rightarrow> RecordPhaseCompletion s ref phase n v f) = (Inl e, s)"
    unfolding a prod.case RecordPhaseCompletion_def using stale
    by (intro write_refused) (auto simp: RecordPhaseCompletion_tx_def split: option.splits; metis option.distinct(1))
qed

interpretation control_op: leader_fenced TransitionAndInvalidateRunner tn_Ref tn_Fence
proof
  fix s :: Store and tr :: StoreTransition
  assume "leader_at (st_db s) (Channel (tn_Ref tr)) \<noteq> Some (LeaderEpoch (tn_Fence tr))"
  then have stale: "\<exists>e. currentFence (st_db s) (Channel (tn_Ref tr)) w r (tn_Fence tr) = Some e" for w r by (rule stale_leader(2))
  have "\<exists>e. store_write s' (TransitionAndInvalidateRunner_tx tr p) = (Inl e, s')" if "st_db s' = st_db s" for s' p
    using that stale
    by (intro write_refused) (auto simp: TransitionAndInvalidateRunner_tx_def split: option.splits; metis option.distinct(1))
  then have "\<exists>e. with_gate ErrStaleFence s (\<lambda>g s. case store_write s (TransitionAndInvalidateRunner_tx tr (event_payload tr)) of
      (Inl e, s') \<Rightarrow> (Inl e, s') | (Inr (result, seal), s') \<Rightarrow> (Inr result, update_gate (gate_latch (tn_Ref tr) seal) s')) = (Inl e, s)"
    by (rule with_gate_write_refused)
  then show "\<exists>e. TransitionAndInvalidateRunner s tr = (Inl e, s)"
    by (auto simp: TransitionAndInvalidateRunner_def split: option.splits)
qed



section \<open>Starting once\<close>

lemma StartOrAdopt_tx_token [simp]: "StartOrAdopt_tx (Some (g\<lparr>gate_token := b\<rparr>)) = StartOrAdopt_tx (Some g)"
  unfolding StartOrAdopt_tx_def fence_token by (rule refl)

lemma Ticket_get_cong:
  assumes "st_db s = st_db s'"
  shows "Ticket_get s ref = Ticket_get s' ref"
  unfolding Ticket_get_def assms by (rule refl)

lemma StartOrAdopt_eq:
  assumes "st_mutations s = Some g" and "gate_token g" and "\<not> st_readOnly s" and "workflow \<noteq> ''''"
  shows "StartOrAdopt s ref v workflow fence =
    (case StartOrAdopt_tx (Some g) ref v workflow fence (st_db s) of
       Inl e \<Rightarrow> (Inl e, s)
     | Inr (_, d) \<Rightarrow> (Ticket_get (s\<lparr>st_db := d\<rparr>) ref, s\<lparr>st_db := d\<rparr>))"
proof -
  have "gate_unlock (g\<lparr>gate_token := False\<rparr>) = g" using assms(2) by (simp add: gate_unlock_def)
  with assms show ?thesis
    by (cases s) (auto simp: StartOrAdopt_def with_gate_def gate_lock_cases store_write_def unlock_store_def
        split: sum.splits intro!: Ticket_get_cong)
qed

lemma StartOrAdopt_Inr:
  assumes "StartOrAdopt s ref v workflow fence = (Inr t, s')"
  obtains g d where "st_mutations s = Some g" and "gate_token g" and "\<not> st_readOnly s" and "workflow \<noteq> ''''"
    and "StartOrAdopt_tx (Some g) ref v workflow fence (st_db s) = Inr ((), d)" and "s' = s\<lparr>st_db := d\<rparr>" and "Ticket_get s' ref = Inr t"
proof -
  have w: "workflow \<noteq> ''''" using assms by (auto simp: StartOrAdopt_def)
  then obtain g where g: "st_mutations s = Some g" "gate_token g"
    using assms by (auto simp: StartOrAdopt_def elim!: with_gate_Inr)
  have ro: "\<not> st_readOnly s" using assms w by (auto simp: StartOrAdopt_def store_write_def elim!: with_gate_Inr)
  from assms StartOrAdopt_eq [OF g ro w] that [OF g ro w] show thesis by (auto split: sum.splits)
qed

text \<open>The tables that the records of a start do not touch.\<close>

lemma record_start_frame:
  assumes "record_start ref v r fence trigger from workflow d = Inr d'"
  shows "tickets d' = tickets d" "workflow_owners d' = workflow_owners d" "projects d' = projects d"
    "daemon_instances d' = daemon_instances d" "runtime_ticket_controls d' = runtime_ticket_controls d"
    "project_configurations d' = project_configurations d"
    "v = 2" "RunnerEpoch fence = 1" "boundedText workflow 300" "leases d' = leases d"
    "events d' = events d @ [\<lparr>ev_ID = next_event_id d, ev_Ref = ref, ev_TicketVersion = v, ev_Trigger = trigger,
       ev_From = from, ev_To = StatePlanning, ev_Payload = ''{}''\<rparr>]"
  using assms
  by (auto simp: record_start_def recordProviderPhaseEntry_def recordRunnerStartAuthority_def Let_def split_beta
      split: if_splits option.splits sum.splits)

lemma ensure_owner_Inr:
  assumes "ensure_owner ref workflow d = Inr d'"
  shows "tickets d' = tickets d" "projects d' = projects d" "daemon_instances d' = daemon_instances d" "events d' = events d"
    "runtime_ticket_controls d' = runtime_ticket_controls d" "project_configurations d' = project_configurations d"
    "\<exists>w. owner_at d' ref = Some w \<and> (owner_at d ref = None \<longrightarrow> o_WorkflowID w = workflow) \<and> (owner_at d ref \<noteq> None \<longrightarrow> owner_at d ref = Some w)"
proof -
  show "\<exists>w. owner_at d' ref = Some w \<and> (owner_at d ref = None \<longrightarrow> o_WorkflowID w = workflow) \<and> (owner_at d ref \<noteq> None \<longrightarrow> owner_at d ref = Some w)"
  proof (cases "owner_at d ref")
    case None
    then have "d' = d\<lparr>workflow_owners := insert_row \<lparr>o_Ref = ref, o_WorkflowID = workflow, o_State = ''owned''\<rparr> (workflow_owners d)\<rparr>"
      using assms by (auto simp: ensure_owner_def split: if_splits)
    with None owner_table.get_ins [of "workflow_owners d" "\<lparr>o_Ref = ref, o_WorkflowID = workflow, o_State = ''owned''\<rparr>" ref] show ?thesis
      by (simp add: owner_at_def)
  qed (use assms in \<open>auto simp: ensure_owner_def split: if_splits\<close>)
qed (use assms in \<open>auto simp: ensure_owner_def split: if_splits\<close>)

lemma start_row_simps [simp]:
  "t_Ref (start_row d w t) = t_Ref t" "t_State (start_row d w t) = StatePlanning" "t_Version (start_row d w t) = t_Version t + 1"
  "t_RunnerEpoch (start_row d w t) = t_RunnerEpoch t" "t_WorkflowID (start_row d w t) = w"
  "t_AcceptanceJSON (start_row d w t) = t_AcceptanceJSON t"
  by (simp_all add: start_row_def Let_def)

lemma enter_planning_Inr:
  assumes u: "unique_key t_Ref (tickets d)" and ok: "enter_planning ref v r workflow d = Inr d'" and t: "ticket_at d ref = Some t"
  shows "ticket_at d' ref = Some (start_row d workflow t)" and "t_Version t = v"
    and "d' = d\<lparr>tickets := tickets d'\<rparr>"
    and "\<And>x. x \<noteq> ref \<Longrightarrow> ticket_at d' x = ticket_at d x"
proof -
  let ?p = "\<lambda>t. t_Ref t = ref \<and> t_Version t = v \<and> t_RunnerEpoch t = r"
  have one: "count_where ?p (tickets d) = 1" and d': "d' = d\<lparr>tickets := update_where ?p (start_row d workflow) (tickets d)\<rparr>"
    using ok by (auto simp: enter_planning_def Let_def split: if_splits)
  have "?p t" using ticket_table.affected_one [OF u _ one, of ref] t by (auto simp: ticket_at_def)
  then show "t_Version t = v" by simp
  have at: "ticket_at d' x = map_option (\<lambda>t. if ?p t then start_row d workflow t else t) (ticket_at d x)" for x
    unfolding d' using ticket_table.get_upd [of "start_row d workflow" "tickets d" ?p x] u by (simp add: ticket_at_def)
  show "ticket_at d' ref = Some (start_row d workflow t)" using at [of ref] t \<open>?p t\<close> by simp
  show "d' = d\<lparr>tickets := tickets d'\<rparr>" by (simp add: d')
  show "ticket_at d' x = ticket_at d x" if "x \<noteq> ref" for x
  proof (cases "ticket_at d x")
    case (Some y)
    then have "t_Ref y = x" unfolding ticket_at_def by (rule ticket_table.get_key)
    with Some that show ?thesis by (simp add: at)
  qed (simp add: at)
qed

text \<open>What a successful start leaves: the ticket in planning under its workflow, owned by it.\<close>

definition started :: "TicketRef \<Rightarrow> u64 \<Rightarrow> string \<Rightarrow> Fence \<Rightarrow> db \<Rightarrow> ticket_row \<Rightarrow> bool" where
  "started ref v workflow fence d t \<longleftrightarrow>
     ticket_at d ref = Some t \<and> t_State t = StatePlanning \<and> t_Version t = v + 1 \<and> t_WorkflowID t = workflow \<and>
     t_RunnerEpoch t = RunnerEpoch fence \<and> leader_at d (Channel ref) = Some (LeaderEpoch fence) \<and>
     (\<exists>w. owner_at d ref = Some w \<and> o_WorkflowID w = workflow)"

lemma StartOrAdopt_tx_Inr:
  assumes u: "unique_key t_Ref (tickets d)" and ok: "StartOrAdopt_tx m ref v workflow fence d = Inr ((), d')"
  obtains t0 t where "ticket_at d ref = Some t0" and "started ref v workflow fence d' t"
    and "assertTicketFence m d ref (t_Version t0) fence = None"
    and "projects d' = projects d" and "daemon_instances d' = daemon_instances d"
    and "runtime_ticket_controls d' = runtime_ticket_controls d"
    and "count_where (\<lambda>p. p_Channel p = Channel ref \<and> p_ID p = Project ref \<and> p_Lifecycle p = ''active'') (projects d) = 1"
    and "t_State t0 = StatePlanning \<and> t = t0 \<and> events d' = events d \<or>
      t_State t0 = StateQueued \<and> v = 1 \<and> t_Version t0 = v \<and> t = start_row d workflow t0 \<and>
      events d' = events d @ [\<lparr>ev_ID = next_event_id d, ev_Ref = ref, ev_TicketVersion = 2, ev_Trigger = ''start_or_adopt'',
        ev_From = StateQueued, ev_To = StatePlanning, ev_Payload = ''{}''\<rparr>]"
proof -
  have active: "count_where (\<lambda>p. p_Channel p = Channel ref \<and> p_ID p = Project ref \<and> p_Lifecycle p = ''active'') (projects d) = 1"
    using ok by (auto simp: StartOrAdopt_tx_def split: if_splits)
  obtain t0 where t0: "ticket_at d ref = Some t0" and f: "assertTicketFence m d ref (t_Version t0) fence = None"
    using ok by (auto simp: StartOrAdopt_tx_def split: if_splits option.splits)
  have fence: "t_RunnerEpoch t0 = RunnerEpoch fence" "leader_at d (Channel ref) = Some (LeaderEpoch fence)"
    using f t0 by (auto simp: assertTicketFence_None)
  obtain changed d1 where soc: "start_or_confirm ref v workflow t0 d = Inr (changed, d1)"
    using ok t0 f active by (auto simp: StartOrAdopt_tx_def split: sum.splits)
  obtain d2 where own: "ensure_owner ref workflow d1 = Inr d2"
    using ok t0 f active soc by (auto simp: StartOrAdopt_tx_def split: sum.splits)
  note e = ensure_owner_Inr [OF own]
  obtain w where w: "owner_at d2 ref = Some w" using e(7) by blast
  have wid: "o_WorkflowID w = workflow"
    using ok t0 f active soc own w by (simp add: StartOrAdopt_tx_def split: if_splits)
  have rest: "(if \<not> changed then Inr ((), d2) else case record_start ref (t_Version t0 + 1) (t_RunnerEpoch t0) fence ''start_or_adopt'' (t_State t0) workflow d2 of
      Inl e \<Rightarrow> Inl e | Inr d3 \<Rightarrow> Inr ((), d3)) = Inr ((), d')"
    using ok t0 f active soc own w wid by (simp add: StartOrAdopt_tx_def)
  show thesis
  proof (cases changed)
    case True
    have q: "t_State t0 = StateQueued" "t_Version t0 = v" "enter_planning ref v (t_RunnerEpoch t0) workflow d = Inr d1"
      using soc True by (auto simp: start_or_confirm_def split: if_splits sum.splits)
    note p = enter_planning_Inr [OF u q(3) t0]
    have r: "record_start ref (t_Version t0 + 1) (t_RunnerEpoch t0) fence ''start_or_adopt'' (t_State t0) workflow d2 = Inr d'"
      using rest True by (auto split: sum.splits)
    note k = record_start_frame [OF r]
    have d1: "projects d1 = projects d" "daemon_instances d1 = daemon_instances d" "runtime_ticket_controls d1 = runtime_ticket_controls d"
      "events d1 = events d" by (subst p(3), simp)+
    have two: "v + 1 = 2" using k(7) q(2) by simp
    then have one: "v = 1" by (metis add_right_imp_eq one_add_one)
    have nid: "next_event_id d2 = next_event_id d" by (simp add: next_event_id_def e(4) d1(4))
    have "started ref v workflow fence d' (start_row d workflow t0)"
      using p(1) w wid fence q(2) by (simp add: started_def ticket_at_def owner_at_def leader_at_def k(1,2,4) e(1,3) d1(2))
    then show thesis
      by (rule that [OF t0 _ f _ _ _ active])
        (use k(11) q one two nid in \<open>simp_all add: k(3,4,5) e(2,3,4,5) d1\<close>)
  next
    case False
    have q: "t_State t0 = StatePlanning" "t_Version t0 = v + 1" "t_WorkflowID t0 = workflow" "d1 = d"
      using soc False by (auto simp: start_or_confirm_def split: if_splits sum.splits)
    have d': "d' = d2" using rest False by simp
    have "started ref v workflow fence d' t0"
      using t0 q w wid fence by (simp add: started_def ticket_at_def leader_at_def d' e(1,3))
    then show thesis by (rule that [OF t0 _ f _ _ _ active]) (simp_all add: d' e(2,3,4,5) q)
  qed
qed

lemma started_replay:
  assumes s: "started ref v workflow fence d t" and "workflow \<noteq> ''''"
    and "assertTicketFence m d ref (t_Version t) fence = None"
    and "count_where (\<lambda>p. p_Channel p = Channel ref \<and> p_ID p = Project ref \<and> p_Lifecycle p = ''active'') (projects d) = 1"
  shows "StartOrAdopt_tx m ref v w fence d =
    (if w = workflow then Inr ((), d)
     else Inl (ErrJoined ErrStaleFence (ErrMessage ''workflow id does not match durable ticket identity'')))"
proof -
  have "StatePlanning \<noteq> StateQueued" "StatePlanning \<noteq> StateBlocked" by (simp_all add: state_defs)
  with assms show ?thesis
    by (auto simp: started_def StartOrAdopt_tx_def start_or_confirm_def ensure_owner_def)
qed

lemma revokedBy_later:
  assumes "\<not> revokedBy g ref 1 fence"
  shows "\<not> revokedBy g ref 2 fence"
proof -
  have "(1 :: u64) \<le> x" if "2 \<le> x" for x using that by (rule order_trans [rotated]) simp
  with assms show ?thesis by (auto simp: revokedBy_def split: option.splits)
qed

text \<open>A start or adoption that succeeds leaves the ticket in planning, one version later, under the given workflow
  and owned by it; a move out of the queue happens only from version one, appends exactly one event
  and freezes the project's current configuration into the ticket. Repeating the call returns the
  same ticket and changes nothing, and any other workflow identity is refused.\<close>

theorem start_once:
  assumes u: "unique_key t_Ref (tickets (st_db s))" and ok: "StartOrAdopt s ref v workflow fence = (Inr t, s')"
  shows "tk_State t = StatePlanning \<and> tk_Version t = v + 1 \<and> tk_WorkflowID t = workflow \<and>
    (\<exists>w. owner_at (st_db s') ref = Some w \<and> o_WorkflowID w = workflow) \<and>
    (\<exists>t0. ticket_at (st_db s) ref = Some t0 \<and>
      (t_State t0 = StatePlanning \<and> events (st_db s') = events (st_db s) \<or>
       t_State t0 = StateQueued \<and> v = 1 \<and>
       events (st_db s') = events (st_db s) @ [\<lparr>ev_ID = next_event_id (st_db s), ev_Ref = ref, ev_TicketVersion = 2,
         ev_Trigger = ''start_or_adopt'', ev_From = StateQueued, ev_To = StatePlanning, ev_Payload = ''{}''\<rparr>] \<and>
       (\<forall>r. project_at (st_db s) (Channel ref) (Project ref) = Some r \<longrightarrow>
          tk_ConfigGeneration t = p_ConfigGeneration r \<and> tk_ConfigDigest t = pj_ConfigDigest (joined_project (st_db s) r) \<and>
          tk_ConfigSnapshot t = pj_ConfigSnapshot (joined_project (st_db s) r)))) \<and>
    StartOrAdopt s' ref v workflow fence = (Inr t, s') \<and>
    (\<forall>w. w \<noteq> workflow \<longrightarrow> (\<exists>e. StartOrAdopt s' ref v w fence = (Inl e, s')))"
proof -
  from ok obtain g d where g: "st_mutations s = Some g" "gate_token g" and ro: "\<not> st_readOnly s" and w: "workflow \<noteq> ''''"
      and tx: "StartOrAdopt_tx (Some g) ref v workflow fence (st_db s) = Inr ((), d)" and s': "s' = s\<lparr>st_db := d\<rparr>"
      and get: "Ticket_get s' ref = Inr t" by (rule StartOrAdopt_Inr)
  from u tx obtain t0 row where t0: "ticket_at (st_db s) ref = Some t0" and st: "started ref v workflow fence d row"
      and f: "assertTicketFence (Some g) (st_db s) ref (t_Version t0) fence = None"
      and same: "projects d = projects (st_db s)" "runtime_ticket_controls d = runtime_ticket_controls (st_db s)"
      and active: "count_where (\<lambda>p. p_Channel p = Channel ref \<and> p_ID p = Project ref \<and> p_Lifecycle p = ''active'') (projects (st_db s)) = 1"
      and kind: "t_State t0 = StatePlanning \<and> row = t0 \<and> events d = events (st_db s) \<or>
        t_State t0 = StateQueued \<and> v = 1 \<and> t_Version t0 = v \<and> row = start_row (st_db s) workflow t0 \<and>
        events d = events (st_db s) @ [\<lparr>ev_ID = next_event_id (st_db s), ev_Ref = ref, ev_TicketVersion = 2, ev_Trigger = ''start_or_adopt'',
          ev_From = StateQueued, ev_To = StatePlanning, ev_Payload = ''{}''\<rparr>]"
    by (rule StartOrAdopt_tx_Inr)
  have row: "ticket_at d ref = Some row" "t_State row = StatePlanning" "t_Version row = v + 1" "t_WorkflowID row = workflow"
    using st by (simp_all add: started_def)
  obtain acceptance where t: "t = ticket_value row acceptance" using get row(1) by (auto simp: s' elim!: Ticket_get_Inr)
  have "\<not> revokedBy g ref (t_Version row) fence"
    using f kind row(3) revokedBy_later [of g ref fence] by (auto simp: assertTicketFence_None)
  then have f': "assertTicketFence (Some g) d ref (t_Version row) fence = None"
    using f st by (auto simp: assertTicketFence_None started_def control_at_def same(2) State_Terminal_def state_defs)
  have act': "count_where (\<lambda>p. p_Channel p = Channel ref \<and> p_ID p = Project ref \<and> p_Lifecycle p = ''active'') (projects d) = 1"
    using active same(1) by simp
  note replay = started_replay [OF st w f' act']
  have s'': "st_mutations s' = Some g" "\<not> st_readOnly s'" "st_db s' = d" "s'\<lparr>st_db := d\<rparr> = s'" using g ro by (simp_all add: s')
  have again: "StartOrAdopt s' ref v workflow fence = (Inr t, s')"
    using StartOrAdopt_eq [OF s''(1) g(2) s''(2) w] replay get by (simp add: s''(3,4))
  have other: "\<exists>e. StartOrAdopt s' ref v x fence = (Inl e, s')" if "x \<noteq> workflow" for x
    using StartOrAdopt_eq [OF s''(1) g(2) s''(2)] replay that by (cases "x = ''''") (simp_all add: s''(3) StartOrAdopt_def)
  have ref: "t_Ref t0 = ref" using t0 ticket_table.get_key by (simp add: ticket_at_def)
  have tv: "tk_State t = StatePlanning" "tk_Version t = v + 1" "tk_WorkflowID t = workflow"
      "tk_ConfigGeneration t = t_ConfigGeneration row" "tk_ConfigDigest t = t_ConfigDigest row" "tk_ConfigSnapshot t = t_ConfigSnapshot row"
    using row by (simp_all add: t ticket_value_def)
  have "\<exists>w. owner_at (st_db s') ref = Some w \<and> o_WorkflowID w = workflow" using st by (simp add: started_def s''(3))
  moreover have "t_State t0 = StatePlanning \<and> events d = events (st_db s) \<or>
      t_State t0 = StateQueued \<and> v = 1 \<and>
      events d = events (st_db s) @ [\<lparr>ev_ID = next_event_id (st_db s), ev_Ref = ref, ev_TicketVersion = 2, ev_Trigger = ''start_or_adopt'',
        ev_From = StateQueued, ev_To = StatePlanning, ev_Payload = ''{}''\<rparr>] \<and>
      (\<forall>r. project_at (st_db s) (Channel ref) (Project ref) = Some r \<longrightarrow>
          tk_ConfigGeneration t = p_ConfigGeneration r \<and> tk_ConfigDigest t = pj_ConfigDigest (joined_project (st_db s) r) \<and>
          tk_ConfigSnapshot t = pj_ConfigSnapshot (joined_project (st_db s) r))"
    using kind tv(4-6) ref by (auto simp: start_row_def Let_def)
  ultimately show ?thesis using tv(1-3) t0 again other by (simp add: s''(3))
qed

definition queued_store :: Store where
  "queued_store = sample_store\<lparr>st_db := sample_db\<lparr>tickets := [sample_ticket\<lparr>t_State := ''queued'', t_Version := 1,
     t_RunnerEpoch := 1, t_WorkflowID := ''''\<rparr>]\<rparr>\<rparr>"

definition first_fence :: Fence where
  "first_fence = \<lparr>LeaderEpoch = 2, RunnerEpoch = 1, ClaimEpoch = 0\<rparr>"

lemma sample_started: "\<exists>t s'. StartOrAdopt queued_store sample_ref 1 ''w1'' first_fence = (Inr t, s')"
proof -
  have "case fst (StartOrAdopt queued_store sample_ref 1 ''w1'' first_fence) of Inl _ \<Rightarrow> False | Inr _ \<Rightarrow> True" by code_simp
  then show ?thesis by (cases "StartOrAdopt queued_store sample_ref 1 ''w1'' first_fence") (auto split: sum.splits)
qed

theorem start_once_witness:
  "\<exists>t s'. StartOrAdopt queued_store sample_ref 1 ''w1'' first_fence = (Inr t, s') \<and> tk_State t = ''planning'' \<and>
     StartOrAdopt s' sample_ref 1 ''w1'' first_fence = (Inr t, s') \<and>
     (\<exists>e. StartOrAdopt s' sample_ref 1 ''w2'' first_fence = (Inl e, s'))"
proof -
  obtain t s' where ok: "StartOrAdopt queued_store sample_ref 1 ''w1'' first_fence = (Inr t, s')" using sample_started by blast
  have "unique_key t_Ref (tickets (st_db queued_store))" by code_simp
  from start_once [OF this ok] have "tk_State t = ''planning''" "StartOrAdopt s' sample_ref 1 ''w1'' first_fence = (Inr t, s')"
    "\<exists>e. StartOrAdopt s' sample_ref 1 ''w2'' first_fence = (Inl e, s')" by (simp_all add: state_defs)
  with ok show ?thesis by blast
qed

end
