(* ===== verification/LeaseSafety.thy ===== *)
theory LeaseSafety
  imports Leases
begin

text \<open>
  What the lease table promises: slot keys are unambiguous, an admission is granted completely and can be
  replayed, the capacity of a resource is never exceeded on any run, and an adoption conserves capacity.
\<close>

section \<open>Keys\<close>

lemma colon_not_digit: "CHR '':'' \<notin> set (itoa n)"
  using itoa_digits [of n] by auto

lemma leaseKey_inject: "leaseKey r s = leaseKey r' s' \<longleftrightarrow> r = r' \<and> s = s'"
proof
  assume eq: "leaseKey r s = leaseKey r' s'"
  then have "itoa (length r) @ CHR '':'' # (r @ '':'' @ itoa s) = itoa (length r') @ CHR '':'' # (r' @ '':'' @ itoa s')"
    by (simp add: leaseKey_def)
  from separator_unique [OF this] have "length r = length r'" "r @ '':'' @ itoa s = r' @ '':'' @ itoa s'"
    by (simp_all add: colon_not_digit itoa_inject)
  then show "r = r' \<and> s = s'" by (simp add: itoa_inject)
qed simp

section \<open>Acquisition\<close>

definition extends_leases :: "lease_row list \<Rightarrow> lease_row list \<Rightarrow> bool" where
  "extends_leases t t' \<longleftrightarrow> (\<forall>k l. row_at lease_pk t k = Some l \<longrightarrow> row_at lease_pk t' k = Some l)"

lemma extends_refl [simp]: "extends_leases t t"
  by (simp add: extends_leases_def)

lemma extends_trans: "extends_leases t u \<Longrightarrow> extends_leases u v \<Longrightarrow> extends_leases t v"
  by (simp add: extends_leases_def)

text \<open>A lease of the ticket's runner in one of the slots of a request.\<close>

definition holds_slot :: "TicketRef \<Rightarrow> u64 \<Rightarrow> lease_row list \<Rightarrow> LeaseRequest \<Rightarrow> lease_row \<Rightarrow> bool" where
  "holds_slot ref runner t request l \<longleftrightarrow> l_Ref l = ref \<and> l_RunnerEpoch l = runner \<and> l_Scope l = lr_Scope request \<and>
     l_ScopeKey l \<in> leaseKey (lr_Resource request) ` {..<nat (lr_Capacity request)} \<and>
     row_at lease_pk t (lease_pk l) = Some l"

lemma row_owner:
  assumes "row_at lease_pk t (Channel ref, scope, key) = Some row"
    and "Project (l_Ref row) = Project ref" "Ticket (l_Ref row) = Ticket ref"
  shows "row = \<lparr>l_Ref = ref, l_Scope = scope, l_ScopeKey = key, l_RunnerEpoch = l_RunnerEpoch row,
    l_AcquiredAt = l_AcquiredAt row\<rparr>"
  using lease_table.get_key [OF assms(1)] assms(2,3) by (simp add: lease_pk_def)

lemma acquire_slots_Some:
  assumes "acquire_slots ref runner request at slots t = (Some lease, t')" and "unique_key lease_pk t"
  shows "\<exists>slot \<in> set slots. lease_pk lease = (Channel ref, lr_Scope request, leaseKey (lr_Resource request) slot) \<and>
      l_Ref lease = ref \<and> l_RunnerEpoch lease = runner \<and> row_at lease_pk t' (lease_pk lease) = Some lease \<and>
      unique_key lease_pk t' \<and>
      (t' = t \<or> row_at lease_pk t (lease_pk lease) = None \<and> t' = insert_row lease t)"
  using assms
proof (induction slots)
  case (Cons slot slots)
  let ?pk = "(Channel ref, lr_Scope request, leaseKey (lr_Resource request) slot)"
  show ?case
  proof (cases "row_at lease_pk t ?pk")
    case None
    with Cons.prems have l: "lease_pk lease = ?pk" "l_Ref lease = ref" "l_RunnerEpoch lease = runner" "t' = insert_row lease t"
      by (auto simp: Let_def lease_pk_def)
    with None Cons.prems(2) show ?thesis by (auto simp: lease_table.get_ins lease_table.wf_ins)
  next
    case (Some row)
    show ?thesis
    proof (cases "Project (l_Ref row) = Project ref \<and> Ticket (l_Ref row) = Ticket ref \<and> l_RunnerEpoch row = runner")
      case True
      with Some Cons.prems(1) row_owner [OF Some] have "lease = row" "t' = t"
        by (auto simp: Let_def)
      moreover have "l_Ref row = ref" using row_owner [OF Some] True by (metis lease_row.select_convs(1))
      ultimately show ?thesis
        using True Some Cons.prems(2) lease_table.get_key [OF Some] by (intro bexI [of _ slot]) auto
    next
      case False
      with Some Cons show ?thesis by (auto simp: Let_def)
    qed
  qed
qed simp

lemma acquire_slots_replay:
  assumes "acquire_slots ref runner request at slots t = (Some lease, t')" and "extends_leases t' u"
    and "unique_key lease_pk t"
  shows "acquire_slots ref runner request at' slots u = (Some lease, u)"
  using assms
proof (induction slots)
  case (Cons slot slots)
  let ?pk = "(Channel ref, lr_Scope request, leaseKey (lr_Resource request) slot)"
  show ?case
  proof (cases "row_at lease_pk t ?pk")
    case None
    with Cons.prems have "row_at lease_pk t' ?pk = Some lease" "l_Ref lease = ref" "l_RunnerEpoch lease = runner"
      "l_Scope lease = lr_Scope request" "l_ScopeKey lease = leaseKey (lr_Resource request) slot"
      by (auto simp: Let_def lease_table.get_ins lease_pk_def)
    with Cons.prems(2) show ?thesis by (auto simp: Let_def extends_leases_def)
  next
    case (Some row)
    have keep: "row_at lease_pk u ?pk = Some row"
    proof -
      from acquire_slots_Some [OF Cons.prems(1,3)] Some have "row_at lease_pk t' ?pk = Some row"
        by (auto simp: lease_table.get_ins split: if_splits)
      with Cons.prems(2) show ?thesis by (simp add: extends_leases_def)
    qed
    with Some Cons show ?thesis by (auto simp: Let_def split: if_splits)
  qed
qed simp

lemma acquireLease_holds:
  assumes "acquireLease ref runner request at t = (Some lease, t')" and "unique_key lease_pk t"
  shows "holds_slot ref runner t' request lease" and "extends_leases t t'" and "unique_key lease_pk t'"
proof -
  from acquire_slots_Some [OF assms(1) [unfolded acquireLease_def] assms(2)]
  obtain slot where s: "slot < nat (lr_Capacity request)"
    "lease_pk lease = (Channel ref, lr_Scope request, leaseKey (lr_Resource request) slot)"
    "l_Ref lease = ref" "l_RunnerEpoch lease = runner" "row_at lease_pk t' (lease_pk lease) = Some lease"
    "unique_key lease_pk t'" "t' = t \<or> row_at lease_pk t (lease_pk lease) = None \<and> t' = insert_row lease t"
    by auto
  from s show "holds_slot ref runner t' request lease"
    unfolding holds_slot_def by (auto simp: lease_pk_def)
  from s(7) show "extends_leases t t'" by (auto simp: extends_leases_def lease_table.get_ins)
  from s(6) show "unique_key lease_pk t'" .
qed

lemma acquire_all_holds:
  assumes "acquire_all ref runner at requests t = Inr (acquired, t')" and "unique_key lease_pk t"
  shows "list_all2 (holds_slot ref runner t') requests acquired \<and> extends_leases t t' \<and> unique_key lease_pk t'"
  using assms
proof (induction requests arbitrary: acquired t)
  case (Cons request requests)
  from Cons.prems(1) obtain lease t1 rest where 1: "acquireLease ref runner request at t = (Some lease, t1)"
    "acquire_all ref runner at requests t1 = Inr (rest, t')" "acquired = lease # rest"
    by (auto split: prod.splits option.splits sum.splits)
  note h = acquireLease_holds [OF 1(1) Cons.prems(2)]
  from Cons.IH [OF 1(2) h(3)] have ih: "list_all2 (holds_slot ref runner t') requests rest"
    "extends_leases t1 t'" "unique_key lease_pk t'" by auto
  with h(1) have "holds_slot ref runner t' request lease"
    unfolding holds_slot_def extends_leases_def by blast
  with ih h(2) 1(3) show ?case by (auto intro: extends_trans)
qed simp

lemma acquire_all_replay:
  assumes "acquire_all ref runner at requests t = Inr (acquired, t')" and "unique_key lease_pk t"
    and "extends_leases t' u"
  shows "acquire_all ref runner at' requests u = Inr (acquired, u)"
  using assms
proof (induction requests arbitrary: acquired t)
  case (Cons request requests)
  from Cons.prems(1) obtain lease t1 rest where 1: "acquireLease ref runner request at t = (Some lease, t1)"
    "acquire_all ref runner at requests t1 = Inr (rest, t')" "acquired = lease # rest"
    by (auto split: prod.splits option.splits sum.splits)
  note h = acquireLease_holds [OF 1(1) Cons.prems(2)]
  from acquire_all_holds [OF 1(2) h(3)] Cons.prems(3) have "extends_leases t1 u" by (blast intro: extends_trans)
  with 1(1) Cons.prems(2) have "acquireLease ref runner request at' u = (Some lease, u)"
    unfolding acquireLease_def by (blast intro: acquire_slots_replay)
  with Cons.IH [OF 1(2) h(3) Cons.prems(3)] 1(3) show ?case by simp
qed simp

lemma fence_leases_update [simp]:
  "assertTicketFence m (d\<lparr>leases := t\<rparr>) = assertTicketFence m d"
  by (auto simp: fun_eq_iff assertTicketFence_def currentFence_def control_at_def ticket_at_def leader_at_def
      split: option.splits)

lemma ticket_at_leases [simp]: "ticket_at (d\<lparr>leases := t\<rparr>) = ticket_at d"
  by (simp add: fun_eq_iff ticket_at_def)

lemma AcquireLeases_Inr:
  assumes "AcquireLeases s ref v fence requests at = (Inr acquired, s')"
  obtains copy t ls where "validateLeaseRequests requests = Inr copy" and "ticket_at (st_db s) ref = Some t"
    and "acquire_all ref (t_RunnerEpoch t) at copy (leases (st_db s)) = Inr (acquired, ls)"
    and "s' = s\<lparr>st_db := st_db s\<lparr>leases := ls\<rparr>\<rparr>"
    and "\<And>u a. extends_leases ls u \<Longrightarrow> a \<noteq> 0 \<Longrightarrow> unique_key lease_pk (leases (st_db s)) \<Longrightarrow>
      AcquireLeases (s\<lparr>st_db := st_db s\<lparr>leases := u\<rparr>\<rparr>) ref v fence requests a =
        (Inr acquired, s\<lparr>st_db := st_db s\<lparr>leases := u\<rparr>\<rparr>)"
proof -
  from assms obtain copy where c: "TicketRef_Validate ref = None" "validateLeaseRequests requests = Inr copy"
    "store_write s (AcquireLeases_tx (st_mutations s) ref v fence copy at) = (Inr acquired, s')"
    by (auto simp: AcquireLeases_def split: option.splits sum.splits if_splits)
  then obtain d where d: "AcquireLeases_tx (st_mutations s) ref v fence copy at (st_db s) = Inr (acquired, d)"
    "s' = s\<lparr>st_db := d\<rparr>" "\<not> st_readOnly s"
    by (auto simp: write_Inr_iff)
  then obtain t ls where t: "ticket_at (st_db s) ref = Some t" "\<not> State_Terminal (t_State t)" "t_Version t = v"
    "acquire_all ref (t_RunnerEpoch t) at copy (leases (st_db s)) = Inr (acquired, ls)"
    "d = st_db s\<lparr>leases := ls\<rparr>"
    "assertTicketFence (st_mutations s) (st_db s) ref v fence = None"
    "count_where (\<lambda>p. p_Channel p = Channel ref \<and> p_ID p = Project ref \<and> p_Lifecycle p = ''active'') (projects (st_db s)) = 1"
    by (auto simp: AcquireLeases_tx_def split: option.splits sum.splits if_splits)
  have "AcquireLeases (s\<lparr>st_db := st_db s\<lparr>leases := u\<rparr>\<rparr>) ref v fence requests a =
        (Inr acquired, s\<lparr>st_db := st_db s\<lparr>leases := u\<rparr>\<rparr>)"
    if "extends_leases ls u" "a \<noteq> 0" "unique_key lease_pk (leases (st_db s))" for u a
    using c(1,2) t d(3) that acquire_all_replay [OF t(4) that(3,1)]
    by (simp add: AcquireLeases_def AcquireLeases_tx_def store_write_def)
  with that c t d show ?thesis by blast
qed
section \<open>Capacity over runs\<close>

text \<open>
  The rows that occupy a resource, and the steps of the Store as the lease table sees them. \<open>bound\<close> is
  the largest capacity any caller names for the resource.
\<close>

definition resource_prefix :: "string \<Rightarrow> string" where
  "resource_prefix r = itoa (length r) @ '':'' @ r @ '':''"

definition occupies :: "string \<Rightarrow> string \<Rightarrow> string \<Rightarrow> lease_row \<Rightarrow> bool" where
  "occupies channel scope resource l \<longleftrightarrow> Channel (l_Ref l) = channel \<and> l_Scope l = scope \<and>
     has_prefix (resource_prefix resource) (l_ScopeKey l)"

definition within_capacity :: "string \<Rightarrow> string \<Rightarrow> string \<Rightarrow> nat \<Rightarrow> lease_row list \<Rightarrow> bool" where
  "within_capacity channel scope resource bound t \<longleftrightarrow> unique_key lease_pk t \<and>
     (\<forall>l \<in> set t. \<exists>r s. l_ScopeKey l = leaseKey r s) \<and>
     (\<forall>l \<in> set t. \<forall>slot. Channel (l_Ref l) = channel \<and> l_Scope l = scope \<and>
        l_ScopeKey l = leaseKey resource slot \<longrightarrow> slot < bound)"

definition bounded_requests :: "string \<Rightarrow> string \<Rightarrow> nat \<Rightarrow> LeaseRequest list \<Rightarrow> bool" where
  "bounded_requests scope resource bound requests \<longleftrightarrow>
     list_all (\<lambda>r. lr_Scope r = scope \<and> lr_Resource r = resource \<longrightarrow> lr_Capacity r \<le> int bound) requests"

inductive lease_step :: "string \<Rightarrow> string \<Rightarrow> nat \<Rightarrow> Store \<Rightarrow> Store \<Rightarrow> bool"
  for scope resource bound where
  acquire: "bounded_requests scope resource bound requests \<Longrightarrow>
    lease_step scope resource bound s (snd (AcquireLeases s ref v fence requests at))"
| release: "lease_step scope resource bound s (snd (ReleaseLeases s ref v fence))"
| release_stale: "lease_step scope resource bound s (snd (ReleaseInvalidatedLeases s ref runner leader))"
| adopt: "lease_step scope resource bound s (snd (AdoptInvalidatedLeases s ref runner leader))"
| retire: "leases (st_db s') = delete_where (\<lambda>l. l_Ref l = ref) (leases (st_db s)) \<Longrightarrow>
    lease_step scope resource bound s s'"
| other: "leases (st_db s') = leases (st_db s) \<Longrightarrow> lease_step scope resource bound s s'"

lemma prefix_leaseKey:
  "has_prefix (resource_prefix r) (leaseKey r' s) \<longleftrightarrow> r = r'"
proof
  assume "has_prefix (resource_prefix r) (leaseKey r' s)"
  then obtain rest where "leaseKey r' s = resource_prefix r @ rest"
    unfolding has_prefix_def by (metis append_take_drop_id)
  then have "itoa (length r') @ CHR '':'' # (r' @ '':'' @ itoa s) = itoa (length r) @ CHR '':'' # (r @ '':'' @ rest)"
    by (simp add: leaseKey_def resource_prefix_def)
  from separator_unique [OF this] have "length r' = length r \<and> r' @ CHR '':'' # itoa s = r @ CHR '':'' # rest"
    by (simp add: colon_not_digit itoa_inject)
  then show "r = r'" by auto
qed (simp add: has_prefix_def leaseKey_def resource_prefix_def)

lemma within_capacity_count:
  assumes "within_capacity channel scope resource bound t"
  shows "count_where (occupies channel scope resource) t \<le> bound"
proof -
  let ?slots = "filter (occupies channel scope resource) t"
  have "\<exists>s < bound. l_ScopeKey l = leaseKey resource s" if "l \<in> set ?slots" for l
  proof -
    from that assms obtain r s where l: "l_ScopeKey l = leaseKey r s" "occupies channel scope resource l" "l \<in> set t"
      unfolding within_capacity_def by auto
    then have "r = resource" unfolding occupies_def by (simp add: prefix_leaseKey)
    with l assms show ?thesis unfolding within_capacity_def occupies_def by blast
  qed
  then have "lease_pk ` set ?slots \<subseteq> (\<lambda>s. (channel, scope, leaseKey resource s)) ` {..<bound}"
    by (fastforce simp: lease_pk_def occupies_def)
  then have "card (lease_pk ` set ?slots) \<le> card ((\<lambda>s. (channel, scope, leaseKey resource s)) ` {..<bound})"
    by (intro card_mono) auto
  also have "\<dots> \<le> bound" using card_image_le [of "{..<bound}"] by force
  finally have "card (lease_pk ` set ?slots) \<le> bound" .
  moreover have "distinct (map lease_pk ?slots)"
    using assms by (simp add: within_capacity_def unique_key_def distinct_map_filter)
  ultimately show ?thesis unfolding count_where_def by (metis distinct_card length_map set_map)
qed
lemma within_capacity_subset:
  assumes "within_capacity channel scope resource bound t" and "unique_key lease_pk t'"
    and "\<And>l'. l' \<in> set t' \<Longrightarrow> \<exists>l \<in> set t. lease_pk l' = lease_pk l"
  shows "within_capacity channel scope resource bound t'"
proof -
  have "\<exists>l \<in> set t. Channel (l_Ref l) = Channel (l_Ref l') \<and> l_Scope l = l_Scope l' \<and> l_ScopeKey l = l_ScopeKey l'"
    if "l' \<in> set t'" for l'
    using assms(3) [OF that] by (auto simp: lease_pk_def)
  with assms(1,2) show ?thesis unfolding within_capacity_def by metis
qed

lemma delete_within_capacity:
  assumes "within_capacity channel scope resource bound t"
  shows "within_capacity channel scope resource bound (delete_where p t)"
  using assms by (intro within_capacity_subset [OF assms])
    (auto simp: within_capacity_def lease_table.wf_del, auto simp: delete_where_def)

lemma update_within_capacity:
  assumes "within_capacity channel scope resource bound t" and "\<And>l. lease_pk (f l) = lease_pk l"
  shows "within_capacity channel scope resource bound (update_where p f t)"
  using assms lease_table.wf_upd [OF assms(2)]
  by (intro within_capacity_subset [OF assms(1)]) (auto simp: within_capacity_def update_where_def)

lemma acquire_all_within:
  assumes "acquire_all ref runner at requests t = Inr (acquired, t')"
    and "within_capacity channel scope resource bound t" and "bounded_requests scope resource bound requests"
  shows "within_capacity channel scope resource bound t'"
  using assms
proof (induction requests arbitrary: acquired t)
  case (Cons request requests)
  from Cons.prems(1) obtain lease t1 rest where 1: "acquireLease ref runner request at t = (Some lease, t1)"
    "acquire_all ref runner at requests t1 = Inr (rest, t')"
    by (auto split: prod.splits option.splits sum.splits)
  from Cons.prems(2) have u: "unique_key lease_pk t" by (simp add: within_capacity_def)
  from acquire_slots_Some [OF 1(1) [unfolded acquireLease_def] u]
  obtain slot where s: "slot < nat (lr_Capacity request)"
    "l_Scope lease = lr_Scope request" "l_ScopeKey lease = leaseKey (lr_Resource request) slot"
    "unique_key lease_pk t1" "t1 = t \<or> t1 = insert_row lease t"
    by (auto simp: lease_pk_def)
  have "within_capacity channel scope resource bound t1"
    using Cons.prems(2,3) s unfolding within_capacity_def bounded_requests_def
    by (auto simp: insert_row_def leaseKey_inject)
  with Cons.IH 1(2) Cons.prems(3) show ?case by (simp add: bounded_requests_def)
qed simp

lemma validateLeaseRequests_Inr:
  "validateLeaseRequests requests = Inr copy \<Longrightarrow> copy = sort_key request_key requests"
  by (auto simp: validateLeaseRequests_def Let_def split: if_splits option.splits)

lemma adopt_transfer:
  assumes "AdoptInvalidatedLeases s ref stale leader = (Inr n, s')"
  shows "\<exists>t. ticket_at (st_db s) ref = Some t \<and> stale < t_RunnerEpoch t \<and>
      leader_at (st_db s) (Channel ref) = Some leader \<and>
      leases (st_db s') = map (\<lambda>l. if l_Ref l = ref \<and> l_RunnerEpoch l = stale
        then l\<lparr>l_RunnerEpoch := t_RunnerEpoch t\<rparr> else l) (leases (st_db s)) \<and>
      n = count_where (\<lambda>l. l_Ref l = ref \<and> l_RunnerEpoch l = stale) (leases (st_db s)) \<and>
      (0 < n \<longrightarrow> live_writers ref (provider_attempts (st_db s)) = 0 \<and>
        live_writers ref (repository_command_leases (st_db s)) = 0 \<and>
        live_writers ref (git_mutation_leases (st_db s)) = 0) \<and>
      AdoptInvalidatedLeases s' ref stale leader = (Inr 0, s')"
proof -
  let ?mine = "\<lambda>l. l_Ref l = ref \<and> l_RunnerEpoch l = stale"
  let ?tr = "\<lambda>l. l_Scope l = ''global'' \<or> l_Scope l = ''project''"
  from assms obtain d where tx: "AdoptInvalidatedLeases_tx ref stale leader (st_db s) = Inr (n, d)"
    and s': "s' = s\<lparr>st_db := d\<rparr>" and g: "TicketRef_Validate ref = None" "stale \<noteq> 0" "leader \<noteq> 0" "\<not> st_readOnly s"
    by (auto simp: AdoptInvalidatedLeases_def write_Inr_iff split: option.splits if_splits)
  from tx obtain t where t: "ticket_at (st_db s) ref = Some t" "leader_at (st_db s) (Channel ref) = Some leader"
    "\<not> t_RunnerEpoch t \<le> stale" "live_writers ref (repository_command_leases (st_db s)) = 0"
    and scope: "count_where (\<lambda>l. ?mine l \<and> \<not> ?tr l) (leases (st_db s)) = 0"
    by (auto simp: AdoptInvalidatedLeases_tx_def Let_def split: option.splits if_splits)
  from scope have same: "(?mine l \<and> ?tr l) = ?mine l" if "l \<in> set (leases (st_db s))" for l
    using that by (auto simp: count_where_def filter_empty_conv)
  have all: "update_where (\<lambda>l. ?mine l \<and> ?tr l) (\<lambda>l. l\<lparr>l_RunnerEpoch := t_RunnerEpoch t\<rparr>) (leases (st_db s)) =
      map (\<lambda>l. if ?mine l then l\<lparr>l_RunnerEpoch := t_RunnerEpoch t\<rparr> else l) (leases (st_db s))"
    "count_where (\<lambda>l. ?mine l \<and> ?tr l) (leases (st_db s)) = count_where ?mine (leases (st_db s))"
    using same by (auto simp: update_where_def count_where_def intro!: filter_cong arg_cong [where f = length])
  have none: "map (\<lambda>l. if ?mine l then l\<lparr>l_RunnerEpoch := t_RunnerEpoch t\<rparr> else l) (leases (st_db s)) = leases (st_db s)"
    if "count_where ?mine (leases (st_db s)) = 0"
    using that by (intro map_idI) (auto simp: count_where_def filter_empty_conv)
  have d: "d = st_db s\<lparr>leases := map (\<lambda>l. if ?mine l then l\<lparr>l_RunnerEpoch := t_RunnerEpoch t\<rparr> else l) (leases (st_db s))\<rparr>"
    "n = count_where ?mine (leases (st_db s))"
    "0 < n \<longrightarrow> live_writers ref (provider_attempts (st_db s)) = 0 \<and> live_writers ref (git_mutation_leases (st_db s)) = 0"
    using tx t scope none all by (auto simp: AdoptInvalidatedLeases_tx_def Let_def split: if_splits)
  have "count_where ?mine (leases d) = 0" "count_where (\<lambda>l. ?mine l \<and> \<not> ?tr l) (leases d) = 0"
    using t(3) by (auto simp: d(1) count_where_def filter_empty_conv)
  moreover have "ticket_at d ref = Some t" "leader_at d (Channel ref) = Some leader"
    "repository_command_leases d = repository_command_leases (st_db s)"
    using t by (simp_all add: d(1) leader_at_def)
  ultimately have "AdoptInvalidatedLeases s' ref stale leader = (Inr 0, s')"
    using g s' t by (simp add: AdoptInvalidatedLeases_def AdoptInvalidatedLeases_tx_def store_write_def Let_def)
  with t d s' show ?thesis by simp
qed

lemma lease_step_within:
  assumes "lease_step scope resource bound s s'" and inv: "within_capacity channel scope resource bound (leases (st_db s))"
  shows "within_capacity channel scope resource bound (leases (st_db s'))"
  using assms(1)
proof cases
  case (acquire requests ref v fence at)
  show ?thesis
  proof (cases "fst (AcquireLeases s ref v fence requests at)")
    case (Inl e)
    then have "snd (AcquireLeases s ref v fence requests at) = s"
      by (auto simp: AcquireLeases_def store_write_def split: option.splits sum.splits if_splits)
    with inv acquire(1) show ?thesis by simp
  next
    case (Inr acquired)
    with acquire(1) have "AcquireLeases s ref v fence requests at = (Inr acquired, s')" by (metis prod.collapse)
    then obtain copy t ls where 1: "validateLeaseRequests requests = Inr copy"
      "acquire_all ref (t_RunnerEpoch t) at copy (leases (st_db s)) = Inr (acquired, ls)"
      "s' = s\<lparr>st_db := st_db s\<lparr>leases := ls\<rparr>\<rparr>" "ticket_at (st_db s) ref = Some t"
      by (rule AcquireLeases_Inr) blast
    have "bounded_requests scope resource bound copy"
      using acquire(2) validateLeaseRequests_Inr [OF 1(1)]
      by (simp add: bounded_requests_def list_all_iff)
    from acquire_all_within [OF 1(2) inv this] 1(3) show ?thesis by simp
  qed
next
  case (release ref v fence)
  with inv show ?thesis
    by (auto simp: ReleaseLeases_def ReleaseLeases_tx_def store_write_def Let_def delete_within_capacity split: option.splits)
next
  case (release_stale ref runner leader)
  with inv show ?thesis
    by (auto simp: ReleaseInvalidatedLeases_def ReleaseInvalidatedLeases_tx_def store_write_def Let_def delete_within_capacity split: option.splits)
next
  case (adopt ref runner leader)
  show ?thesis
  proof (cases "fst (AdoptInvalidatedLeases s ref runner leader)")
    case (Inl e)
    then have "snd (AdoptInvalidatedLeases s ref runner leader) = s"
      by (auto simp: AdoptInvalidatedLeases_def store_write_def split: option.splits sum.splits if_splits)
    with inv adopt show ?thesis by simp
  next
    case (Inr n)
    with adopt have "AdoptInvalidatedLeases s ref runner leader = (Inr n, s')" by (metis prod.collapse)
    from adopt_transfer [OF this] obtain t where "leases (st_db s') = update_where
        (\<lambda>l. l_Ref l = ref \<and> l_RunnerEpoch l = runner) (\<lambda>l. l\<lparr>l_RunnerEpoch := t\<rparr>) (leases (st_db s))"
      unfolding update_where_def by blast
    with inv show ?thesis by (simp add: update_within_capacity lease_pk_def)
  qed
qed (use inv in \<open>auto simp: delete_within_capacity\<close>)
section \<open>A sample admission\<close>

definition sample_requests :: "LeaseRequest list" where
  "sample_requests = [\<lparr>lr_Scope = ''project'', lr_Resource = ''sf'', lr_Capacity = 2\<rparr>,
     \<lparr>lr_Scope = ''global'', lr_Resource = ''all'', lr_Capacity = 1\<rparr>]"

definition sample_lease :: "string \<Rightarrow> string \<Rightarrow> lease_row" where
  "sample_lease scope key = \<lparr>l_Ref = sample_ref, l_Scope = scope, l_ScopeKey = key, l_RunnerEpoch = 3, l_AcquiredAt = 7\<rparr>"

definition admitted_store :: Store where
  "admitted_store = snd (AcquireLeases sample_store sample_ref 5 \<lparr>LeaderEpoch = 2, RunnerEpoch = 3, ClaimEpoch = 0\<rparr>
     sample_requests 7)"

text \<open>The admitted store after the ticket's runner was invalidated.\<close>

definition invalidated_store :: Store where
  "invalidated_store = admitted_store\<lparr>st_db := st_db admitted_store
     \<lparr>tickets := [sample_ticket\<lparr>t_Version := 6, t_RunnerEpoch := 4\<rparr>]\<rparr>\<rparr>"

lemma sample_admission:
  "AcquireLeases sample_store sample_ref 5 \<lparr>LeaderEpoch = 2, RunnerEpoch = 3, ClaimEpoch = 0\<rparr> sample_requests 7 =
     (Inr [sample_lease ''global'' ''3:all:0'', sample_lease ''project'' ''2:sf:0''], admitted_store)"
  by (rule prod_eqI) (code_simp, simp add: admitted_store_def)

section \<open>Properties\<close>

text \<open>The text that identifies a capacity slot determines the resource and the slot number, whatever
  bytes the resource name contains, so that no two slots share a primary key.\<close>

theorem leaseKey_identifies_slot: "leaseKey r s = leaseKey r' s' \<longleftrightarrow> r = r' \<and> s = s'"
  by (rule leaseKey_inject)

text \<open>A granted admission holds, for every request in sorted order, one slot below the requested
  capacity in the name of the ticket's current runner; no lease that existed before is changed; and
  replaying the admission returns the same slots and leaves the store as it is.\<close>

theorem AcquireLeases_grants:
  assumes unique: "unique_key lease_pk (leases (st_db s))"
    and run: "AcquireLeases s ref v fence requests at = (Inr acquired, s')" and "at' \<noteq> 0"
  shows "\<exists>t. ticket_at (st_db s) ref = Some t \<and>
      list_all2 (holds_slot ref (t_RunnerEpoch t) (leases (st_db s'))) (sort_key request_key requests) acquired \<and>
      extends_leases (leases (st_db s)) (leases (st_db s')) \<and>
      AcquireLeases s' ref v fence requests at' = (Inr acquired, s')"
proof -
  from run obtain copy t ls where 1: "validateLeaseRequests requests = Inr copy" "ticket_at (st_db s) ref = Some t"
      "acquire_all ref (t_RunnerEpoch t) at copy (leases (st_db s)) = Inr (acquired, ls)"
      "s' = s\<lparr>st_db := st_db s\<lparr>leases := ls\<rparr>\<rparr>"
      "\<And>u a. extends_leases ls u \<Longrightarrow> a \<noteq> 0 \<Longrightarrow> unique_key lease_pk (leases (st_db s)) \<Longrightarrow>
      AcquireLeases (s\<lparr>st_db := st_db s\<lparr>leases := u\<rparr>\<rparr>) ref v fence requests a =
        (Inr acquired, s\<lparr>st_db := st_db s\<lparr>leases := u\<rparr>\<rparr>)"
    by (rule AcquireLeases_Inr) blast
  from acquire_all_holds [OF 1(3) unique] 1(5) [OF extends_refl assms(3) unique] 1(2,4)
    validateLeaseRequests_Inr [OF 1(1)]
  show ?thesis by simp
qed

theorem AcquireLeases_grants_witness:
  "AcquireLeases admitted_store sample_ref 5 \<lparr>LeaderEpoch = 2, RunnerEpoch = 3, ClaimEpoch = 0\<rparr> sample_requests 9 =
     (Inr [sample_lease ''global'' ''3:all:0'', sample_lease ''project'' ''2:sf:0''], admitted_store)"
proof -
  have "unique_key lease_pk (leases (st_db sample_store))" by (simp add: sample_store_def sample_db_def unique_key_def)
  from AcquireLeases_grants [OF this sample_admission, of 9] show ?thesis by auto
qed



text \<open>An adoption hands every lease of the invalidated runner to the current runner and to nobody
  else, neither frees nor adds a slot nor touches another lease's identity or acquisition time, happens
  only while no writer of the ticket is live, and finds nothing left to adopt when it is repeated.\<close>

theorem AdoptInvalidatedLeases_transfers:
  assumes "AdoptInvalidatedLeases s ref stale leader = (Inr n, s')"
  shows "\<exists>t. ticket_at (st_db s) ref = Some t \<and> stale < t_RunnerEpoch t \<and>
      leader_at (st_db s) (Channel ref) = Some leader \<and>
      leases (st_db s') = map (\<lambda>l. if l_Ref l = ref \<and> l_RunnerEpoch l = stale
        then l\<lparr>l_RunnerEpoch := t_RunnerEpoch t\<rparr> else l) (leases (st_db s)) \<and>
      n = count_where (\<lambda>l. l_Ref l = ref \<and> l_RunnerEpoch l = stale) (leases (st_db s)) \<and>
      (0 < n \<longrightarrow> live_writers ref (provider_attempts (st_db s)) = 0 \<and>
        live_writers ref (repository_command_leases (st_db s)) = 0 \<and>
        live_writers ref (git_mutation_leases (st_db s)) = 0) \<and>
      AdoptInvalidatedLeases s' ref stale leader = (Inr 0, s')"
  using assms by (rule adopt_transfer)

theorem AdoptInvalidatedLeases_transfers_witness:
  "\<exists>t. ticket_at (st_db invalidated_store) sample_ref = Some t \<and>
     AdoptInvalidatedLeases (snd (AdoptInvalidatedLeases invalidated_store sample_ref 3 2)) sample_ref 3 2 =
       (Inr 0, snd (AdoptInvalidatedLeases invalidated_store sample_ref 3 2))"
proof -
  let ?r = "AdoptInvalidatedLeases invalidated_store sample_ref 3 2"
  have "?r = (Inr 2, snd ?r)" by (rule prod_eqI) (code_simp, simp)
  from AdoptInvalidatedLeases_transfers [OF this] show ?thesis by blast
qed
end
