(* ===== verification/AdmissionSafety.thy ===== *)
theory AdmissionSafety
  imports StartAdmission LifecycleSafety LeaseSafety
begin

text \<open>
  The production start admits a ticket with the configuration that is current in the same
  transaction, and with the capacity that configuration allows.
\<close>

section \<open>Frames\<close>

lemma insert_owner_Inr:
  assumes "insert_owner ref workflow d = Inr d'"
  shows "tickets d' = tickets d" "leases d' = leases d" "events d' = events d"
    "owner_at d' ref = Some \<lparr>o_Ref = ref, o_WorkflowID = workflow, o_State = ''owned''\<rparr>"
proof -
  show "owner_at d' ref = Some \<lparr>o_Ref = ref, o_WorkflowID = workflow, o_State = ''owned''\<rparr>"
    using assms owner_table.get_ins [of "workflow_owners d" "\<lparr>o_Ref = ref, o_WorkflowID = workflow, o_State = ''owned''\<rparr>" ref]
    by (auto simp: insert_owner_def owner_at_def split: if_splits)
qed (use assms in \<open>auto simp: insert_owner_def split: if_splits\<close>)

lemma record_endpoint_Inr:
  assumes "record_endpoint ref endpoint v d = Inr d'"
  shows "tickets d' = tickets d" "leases d' = leases d" "events d' = events d" "workflow_owners d' = workflow_owners d"
  using assms by (auto simp: record_endpoint_def split: if_splits)

lemma admitted_row_simps [simp]:
  "t_Ref (admitted_row d w a t) = t_Ref t" "t_State (admitted_row d w a t) = StatePlanning"
  "t_Version (admitted_row d w a t) = t_Version t + 1" "t_WorkflowID (admitted_row d w a t) = w"
  by (cases a; simp add: admitted_row_def state_defs)+

lemma admit_ticket_Inr:
  assumes u: "unique_key t_Ref (tickets d)" and ok: "admit_ticket ref v r workflow admitted d = Inr d'" and t: "ticket_at d ref = Some t"
  shows "ticket_at d' ref = Some (admitted_row d workflow admitted t)" and "d' = d\<lparr>tickets := tickets d'\<rparr>"
proof -
  let ?p = "\<lambda>t. t_Ref t = ref \<and> t_State t = ''queued'' \<and> t_Version t = v \<and> t_RunnerEpoch t = r \<and>
            (case admitted of None \<Rightarrow> project_active ref d | Some project \<Rightarrow> still_current ref project d)"
  have one: "count_where ?p (tickets d) = 1" and d': "d' = d\<lparr>tickets := update_where ?p (admitted_row d workflow admitted) (tickets d)\<rparr>"
    using ok by (auto simp: admit_ticket_def Let_def split: if_splits)
  have p: "?p t" using ticket_table.affected_one [OF u _ one, of ref] t by (auto simp: ticket_at_def)
  have "ticket_at d' ref = map_option (\<lambda>t. if ?p t then admitted_row d workflow admitted t else t) (ticket_at d ref)"
    unfolding d' using ticket_table.get_upd [of "admitted_row d workflow admitted" "tickets d" ?p ref] u by (simp add: ticket_at_def)
  with t p show "ticket_at d' ref = Some (admitted_row d workflow admitted t)" by simp
  show "d' = d\<lparr>tickets := tickets d'\<rparr>" by (simp add: d')
qed

section \<open>What an admission does\<close>

lemma admit_queued_Inr:
  assumes u: "unique_key t_Ref (tickets d)" and t: "ticket_at d ref = Some t"
    and ok: "admit_queued ref v fence workflow at resolve endpoint t d = Inr d'"
  obtains admission acquired ls where "resolve d = Inr admission"
    and "acquire_all ref (t_RunnerEpoch t) at (ad_requests admission) (leases d) = Inr (acquired, ls)"
    and "leases d' = ls" and "ticket_at d' ref = Some (admitted_row (d\<lparr>leases := ls\<rparr>) workflow (ad_project admission) t)"
    and "owner_at d' ref = Some \<lparr>o_Ref = ref, o_WorkflowID = workflow, o_State = ''owned''\<rparr>" and "t_Version t + 1 = 2"
    and "events d' = events d @ [\<lparr>ev_ID = next_event_id d, ev_Ref = ref, ev_TicketVersion = 2, ev_Trigger = ''operator_start'',
      ev_From = StateQueued, ev_To = StatePlanning, ev_Payload = ''{}''\<rparr>]"
proof -
  obtain admission acquired ls d1 d2 d3 where res: "resolve d = Inr admission"
      and acq: "acquire_all ref (t_RunnerEpoch t) at (ad_requests admission) (leases d) = Inr (acquired, ls)"
      and d1: "admit_ticket ref v (t_RunnerEpoch t) workflow (ad_project admission) (d\<lparr>leases := ls\<rparr>) = Inr d1"
      and d2: "insert_owner ref workflow d1 = Inr d2"
      and d3: "record_start ref (t_Version t + 1) (t_RunnerEpoch t) fence ''operator_start'' StateQueued workflow d2 = Inr d3"
      and d': "record_endpoint ref endpoint (t_Version t + 1) d3 = Inr d'"
    using ok by (auto simp: admit_queued_def split: sum.splits prod.splits)
  have at: "ticket_at (d\<lparr>leases := ls\<rparr>) ref = Some t" using t by (simp add: ticket_at_def)
  note a = admit_ticket_Inr [OF _ d1 at]
  have ev1: "events d1 = events d" "leases d1 = ls" using u by (subst a(2), simp, simp)+
  note o = insert_owner_Inr [OF d2] and k = record_start_frame [OF d3] and e = record_endpoint_Inr [OF d']
  have nid: "next_event_id d2 = next_event_id d" by (simp add: next_event_id_def o(3) ev1)
  show thesis
  proof (rule that [OF res acq])
    show "ticket_at d' ref = Some (admitted_row (d\<lparr>leases := ls\<rparr>) workflow (ad_project admission) t)"
      using a(1) u by (simp add: ticket_at_def e(1) k(1) o(1))
    show "owner_at d' ref = Some \<lparr>o_Ref = ref, o_WorkflowID = workflow, o_State = ''owned''\<rparr>"
      using o(4) by (simp add: owner_at_def e(4) k(2))
  qed (use k(7,11) nid in \<open>simp_all add: e k o ev1\<close>)
qed

lemma start_fresh:
  assumes u: "unique_key t_Ref (tickets (st_db s))"
    and ok: "startWithOwnership s ref v fence workflow at resolve endpoint = (Inr (t, False), s')"
  obtains t0 row where "ticket_at (st_db s) ref = Some t0" and "t_State t0 = StateQueued" and "t_Version t0 = v"
    and "t_RunnerEpoch t0 = RunnerEpoch fence" and "project_active ref (st_db s)"
    and "admit_queued ref v fence workflow at resolve endpoint t0 (st_db s) = Inr (st_db s')"
    and "ticket_at (st_db s') ref = Some row" and "\<exists>acceptance. t = ticket_value row acceptance"
proof -
  let ?w = "store_write s (startWithOwnership_tx (st_mutations s) ref v fence workflow at resolve endpoint)"
  obtain r s1 where w: "?w = (r, s1)" by (cases ?w)
  from ok w have "r = Inr False" "s1 = s'" and get: "Ticket_get s' ref = Inr t"
    by (auto simp: startWithOwnership_def split: sum.splits)
  with w have tx: "startWithOwnership_tx (st_mutations s) ref v fence workflow at resolve endpoint (st_db s) = Inr (False, st_db s')"
    by (auto simp: write_Inr_iff)
  then have act: "project_active ref (st_db s)" by (auto simp: startWithOwnership_tx_def split: if_splits)
  obtain t0 where t0: "ticket_at (st_db s) ref = Some t0" and f: "assertTicketFence (st_mutations s) (st_db s) ref (t_Version t0) fence = None"
    using tx act by (auto simp: startWithOwnership_tx_def split: option.splits)
  have st: "t_State t0 = StateQueued" "t_Version t0 = v" "admit_queued ref v fence workflow at resolve endpoint t0 (st_db s) = Inr (st_db s')"
    using tx act t0 f by (auto simp: startWithOwnership_tx_def split: if_splits sum.splits)
  have "t_RunnerEpoch t0 = RunnerEpoch fence" using f t0 by (auto simp: assertTicketFence_None)
  with t0 st act get that show thesis by (auto elim!: Ticket_get_Inr)
qed

lemma resolve_admission_Inr:
  assumes "resolve_project_admission ref checked d = Inr admission"
  obtains r where "project_at d (Channel ref) (Project ref) = Some r" and "p_Lifecycle r = ''active''"
    and "\<forall>c. checked = Some c \<longrightarrow> same_checked c (joined_project d r)"
    and "projectStartLeaseRequests (joined_project d r) ref d = Inr (ad_requests admission)"
    and "ad_project admission = (if p_ConfigGeneration r = 0 then None else Some (joined_project d r))"
proof -
  obtain r where r: "project_at d (Channel ref) (Project ref) = Some r" "p_Lifecycle r = ''active''"
      and load: "loadCurrentProjectConfiguration (Channel ref) (Project ref) d = Inr (joined_project d r)"
    using assms by (auto simp: resolve_project_admission_def loadCurrentProjectConfiguration_def split: option.splits if_splits)
  obtain requests where req: "projectStartLeaseRequests (joined_project d r) ref d = Inr requests"
    using assms load by (auto simp: resolve_project_admission_def split: if_splits sum.splits)
  with assms load have "admission = \<lparr>ad_requests = requests, ad_project = (if p_ConfigGeneration r = 0 then None else Some (joined_project d r))\<rparr>"
    by (auto simp: resolve_project_admission_def split: if_splits)
  moreover have "same_checked c (joined_project d r)" if "checked = Some c" for c
    using assms load that by (auto simp: resolve_project_admission_def split: if_splits)
  ultimately show thesis using that r req by simp
qed

lemma configured_requests:
  assumes "projectStartLeaseRequests project ref d = Inr requests" and "pj_ConfigGeneration project \<noteq> 0"
  obtains effective where "DecodeSnapshot (pj_ConfigSnapshot project) (pj_ConfigDigest project) = Inr effective"
    and "matches_identity effective (pj_ID project) (pj_Path project) (pj_BaseRef project)"
    and "set requests = set (capacity_requests ref (m_MaxConcurrentTickets (ef_Machine effective)) (c_MaxConcurrentTickets (ef_Project effective)))"
  using assms
  by (auto simp: projectStartLeaseRequests_def split: if_splits sum.splits dest!: validateLeaseRequests_Inr)

lemma list_all2_member: "list_all2 P xs ys \<Longrightarrow> x \<in> set xs \<Longrightarrow> \<exists>y \<in> set ys. P x y"
  by (induction rule: list_all2_induct) auto

section \<open>Properties\<close>

text \<open>C31: a production start that admits a queued ticket does so against the configuration that is current in the same
  transaction: the project is active, a checked configuration is exactly the current one, and its
  generation, digest and snapshot are frozen into the ticket. When the project is configured the
  ticket holds one slot of the machine and one of the project, below the capacities that this very
  configuration decodes to; no lease of another ticket is lost, and the ticket is owned by the workflow.\<close>

theorem admission_freezes_configuration:
  assumes u: "unique_key t_Ref (tickets (st_db s))" and l: "unique_key lease_pk (leases (st_db s))"
    and ok: "startWithProjectOwnership s ref v fence workflow at checked endpoint = (Inr (t, False), s')"
  shows "tk_State t = StatePlanning \<and> v = 1 \<and> tk_Version t = 2 \<and> tk_WorkflowID t = workflow \<and>
    (\<exists>w. owner_at (st_db s') ref = Some w \<and> o_WorkflowID w = workflow) \<and>
    extends_leases (leases (st_db s)) (leases (st_db s')) \<and>
    (\<exists>r. project_at (st_db s) (Channel ref) (Project ref) = Some r \<and> p_Lifecycle r = ''active'' \<and>
      (\<forall>c. checked = Some c \<longrightarrow> same_checked c (joined_project (st_db s) r)) \<and>
      tk_ConfigGeneration t = p_ConfigGeneration r \<and> tk_ConfigDigest t = pj_ConfigDigest (joined_project (st_db s) r) \<and>
      tk_ConfigSnapshot t = pj_ConfigSnapshot (joined_project (st_db s) r) \<and>
      (p_ConfigGeneration r \<noteq> 0 \<longrightarrow>
        (\<exists>effective a b. DecodeSnapshot (tk_ConfigSnapshot t) (tk_ConfigDigest t) = Inr effective \<and>
          holds_slot ref (RunnerEpoch fence) (leases (st_db s'))
            \<lparr>lr_Scope = ''global'', lr_Resource = ''machine'', lr_Capacity = m_MaxConcurrentTickets (ef_Machine effective)\<rparr> a \<and>
          holds_slot ref (RunnerEpoch fence) (leases (st_db s'))
            \<lparr>lr_Scope = ''project'', lr_Resource = Project ref, lr_Capacity = c_MaxConcurrentTickets (ef_Project effective)\<rparr> b)))"
proof -
  have own: "startWithOwnership s ref v fence workflow at (resolve_project_admission ref checked) endpoint = (Inr (t, False), s')"
    using ok by (auto simp: startWithProjectOwnership_def split: option.splits if_splits)
  from u own obtain t0 row where t0: "ticket_at (st_db s) ref = Some t0" "t_Version t0 = v" "t_RunnerEpoch t0 = RunnerEpoch fence"
      and adm: "admit_queued ref v fence workflow at (resolve_project_admission ref checked) endpoint t0 (st_db s) = Inr (st_db s')"
      and row: "ticket_at (st_db s') ref = Some row" and t: "\<exists>acceptance. t = ticket_value row acceptance" by (rule start_fresh)
  from u t0(1) adm obtain admission acquired ls where res: "resolve_project_admission ref checked (st_db s) = Inr admission"
      and acq: "acquire_all ref (t_RunnerEpoch t0) at (ad_requests admission) (leases (st_db s)) = Inr (acquired, ls)"
      and ls: "leases (st_db s') = ls"
      and row': "ticket_at (st_db s') ref = Some (admitted_row ((st_db s)\<lparr>leases := ls\<rparr>) workflow (ad_project admission) t0)"
      and owner: "owner_at (st_db s') ref = Some \<lparr>o_Ref = ref, o_WorkflowID = workflow, o_State = ''owned''\<rparr>" and two: "t_Version t0 + 1 = 2"
    by (rule admit_queued_Inr)
  from res obtain r where r: "project_at (st_db s) (Channel ref) (Project ref) = Some r" "p_Lifecycle r = ''active''"
      "\<forall>c. checked = Some c \<longrightarrow> same_checked c (joined_project (st_db s) r)"
      and req: "projectStartLeaseRequests (joined_project (st_db s) r) ref (st_db s) = Inr (ad_requests admission)"
      and proj: "ad_project admission = (if p_ConfigGeneration r = 0 then None else Some (joined_project (st_db s) r))"
    by (rule resolve_admission_Inr)
  have one: "v = 1" using two t0(2) by (metis add_right_imp_eq one_add_one)
  have ref: "t_Ref t0 = ref" using t0(1) ticket_table.get_key by (simp add: ticket_at_def)
  have vals: "tk_State t = StatePlanning" "tk_Version t = 2" "tk_WorkflowID t = workflow" "tk_ConfigGeneration t = p_ConfigGeneration r"
      "tk_ConfigDigest t = pj_ConfigDigest (joined_project (st_db s) r)" "tk_ConfigSnapshot t = pj_ConfigSnapshot (joined_project (st_db s) r)"
    using t row row' two r(1) ref proj
    by (auto simp: ticket_value_def admitted_row_def start_row_def Let_def project_at_def joined_project_def config_at_def state_defs)
  note h = acquire_all_holds [OF acq l]
  have slots: "\<exists>effective a b. DecodeSnapshot (tk_ConfigSnapshot t) (tk_ConfigDigest t) = Inr effective \<and>
          holds_slot ref (RunnerEpoch fence) (leases (st_db s'))
            \<lparr>lr_Scope = ''global'', lr_Resource = ''machine'', lr_Capacity = m_MaxConcurrentTickets (ef_Machine effective)\<rparr> a \<and>
          holds_slot ref (RunnerEpoch fence) (leases (st_db s'))
            \<lparr>lr_Scope = ''project'', lr_Resource = Project ref, lr_Capacity = c_MaxConcurrentTickets (ef_Project effective)\<rparr> b"
    if "p_ConfigGeneration r \<noteq> 0"
  proof -
    from configured_requests [OF req] that obtain effective where
        eff: "DecodeSnapshot (tk_ConfigSnapshot t) (tk_ConfigDigest t) = Inr effective"
        and set: "set (ad_requests admission) = set (capacity_requests ref (m_MaxConcurrentTickets (ef_Machine effective))
          (c_MaxConcurrentTickets (ef_Project effective)))"
      unfolding vals by auto
    have "\<exists>a. holds_slot ref (RunnerEpoch fence) (leases (st_db s')) q a" if "q \<in> set (ad_requests admission)" for q
      using list_all2_member [OF conjunct1 [OF h] that] t0(3) ls by auto
    with eff set show ?thesis unfolding capacity_requests_def by (metis list.set_intros(1,2))
  qed
  show ?thesis using vals one owner h r slots ls by simp
qed

text \<open>A configured project with one queued ticket.\<close>

definition configured_store :: Store where
  "configured_store = registered_store\<lparr>st_db := (st_db registered_store)\<lparr>tickets := [sample_ticket\<lparr>t_State := ''queued'',
     t_Version := 1, t_RunnerEpoch := 1, t_WorkflowID := ''''\<rparr>]\<rparr>\<rparr>"

lemma sample_requests_resolved:
  "\<exists>requests. validateLeaseRequests (capacity_requests sample_ref (m_MaxConcurrentTickets (ef_Machine sample_effective))
     (c_MaxConcurrentTickets (ef_Project sample_effective))) = Inr requests \<and>
     (\<exists>ls. acquire_all sample_ref 1 1 requests [] = Inr ls)"
proof -
  have "case validateLeaseRequests (capacity_requests sample_ref (m_MaxConcurrentTickets (ef_Machine sample_effective))
     (c_MaxConcurrentTickets (ef_Project sample_effective))) of Inl _ \<Rightarrow> False | Inr requests \<Rightarrow>
     (case acquire_all sample_ref 1 1 requests [] of Inl _ \<Rightarrow> False | Inr _ \<Rightarrow> True)" by code_simp
  then show ?thesis by (auto split: sum.splits)
qed

lemma sample_admission_started:
  "\<exists>t s'. startWithProjectOwnership configured_store sample_ref 1 first_fence ''w1'' 1 None '''' = (Inr (t, False), s')"
proof -
  let ?d = "st_db configured_store"
  define r where "r = \<lparr>p_Channel = ''dev'', p_ID = ''sf'', p_Lifecycle = ''active'', p_Path = ''/srv/sf'', p_BaseRef = ''main'',
        p_ConfigGeneration = (1 :: u64), p_RegistrationGeneration = (1 :: u64)\<rparr>"
  define c where "c = \<lparr>pc_Channel = ''dev'', pc_Project = ''sf'', pc_Generation = (1 :: u64),
        pc_Digest = sha256_hex sample_snapshot, pc_Snapshot = sample_snapshot\<rparr>"
  define t0 where "t0 = sample_ticket\<lparr>t_State := ''queued'', t_Version := 1, t_RunnerEpoch := 1, t_WorkflowID := ''''\<rparr>"
  have d: "?d = sample_db\<lparr>tickets := [t0], projects := [r], project_configurations := [c]\<rparr>"
    by (simp add: configured_store_def registered_store_db r_def c_def t0_def)
  have m: "st_mutations configured_store = Some sample_gate" "\<not> st_readOnly configured_store"
    unfolding configured_store_def registered_store_def sample_registered by (simp_all add: fresh_store_def sample_store_def)
  obtain requests acquired ls where req: "validateLeaseRequests (capacity_requests sample_ref (m_MaxConcurrentTickets (ef_Machine sample_effective))
     (c_MaxConcurrentTickets (ef_Project sample_effective))) = Inr requests"
      and acq: "acquire_all sample_ref 1 1 requests [] = Inr (acquired, ls)"
    using sample_requests_resolved by auto
  have "matches_identity sample_effective ''sf'' ''/srv/sf'' ''main''" by code_simp
  define P where "P = joined_project ?d r"
  have joined: "pj_ConfigDigest P = sha256_hex sample_snapshot" "pj_ConfigSnapshot P = sample_snapshot"
      "pj_ID P = ''sf''"
    by (simp_all add: P_def joined_project_def d config_at_def row_at_def config_pk_def c_def r_def Let_def)
  have gen: "p_ConfigGeneration r = 1" "p_Path r = ''/srv/sf''" "p_BaseRef r = ''main''" "p_Lifecycle r = ''active''"
      "pj_ConfigGeneration P = 1" "pj_Path P = ''/srv/sf''" "pj_BaseRef P = ''main''" by (simp_all add: P_def r_def)
  have at: "project_at ?d ''dev'' ''sf'' = Some r" by (simp add: project_at_def d row_at_def project_pk_def r_def)
  have "sha256_hex sample_snapshot \<noteq> []" using sha256_hex_length [of sample_snapshot] by (intro notI) simp
  then have res: "resolve_project_admission sample_ref None ?d = Inr \<lparr>ad_requests = requests, ad_project = Some P\<rparr>"
    using at gen req joined sample_snapshot_decodes sample_snapshot_ok(4) \<open>matches_identity sample_effective ''sf'' ''/srv/sf'' ''main''\<close>
    by (simp add: resolve_project_admission_def loadCurrentProjectConfiguration_def projectStartLeaseRequests_def sample_ref_def flip: P_def)
  have current: "still_current sample_ref P (?d\<lparr>leases := ls\<rparr>)"
    by (simp add: still_current_def joined gen d project_at_def config_at_def row_at_def project_pk_def config_pk_def sample_ref_def r_def c_def)
  let ?row = "admitted_row (?d\<lparr>leases := ls\<rparr>) ''w1'' (Some P) t0"
  have "admit_ticket sample_ref 1 1 ''w1'' (Some P) (?d\<lparr>leases := ls\<rparr>) = Inr (?d\<lparr>leases := ls, tickets := [?row]\<rparr>)"
    using current by (simp add: admit_ticket_def Let_def d t0_def count_where_def update_where_def sample_ticket_def)
  moreover have "boundedText ''w1'' 300" "TicketRef_Validate sample_ref = None" "State_Valid StateQueued" "entry_origin StateQueued" by code_simp+
  ultimately obtain d' where ad: "admit_queued sample_ref 1 first_fence ''w1'' 1 (resolve_project_admission sample_ref None) '''' t0 ?d = Inr d'"
      and tk: "tickets d' = [?row]"
    using res acq
    by (simp add: admit_queued_def d t0_def sample_ticket_def insert_owner_def owner_at_def row_at_def workflow_taken_def sample_db_def
        record_start_def recordProviderPhaseEntry_def recordRunnerStartAuthority_def insert_event_def next_event_id_def record_endpoint_def
        providerStateForPhase_def first_fence_def state_defs phase_defs Let_def)
  have "startWithOwnership_tx (Some sample_gate) sample_ref 1 first_fence ''w1'' 1 (resolve_project_admission sample_ref None) '''' ?d = Inr (False, d')"
    using ad by (simp add: startWithOwnership_tx_def project_active_def d count_where_def r_def sample_ref_def ticket_at_def row_at_def t0_def
        sample_ticket_def assertTicketFence_def sample_gate_def revokedBy_def control_at_def sample_db_def State_Terminal_def currentFence_def
        leader_at_def first_fence_def state_defs)
  then have w: "store_write configured_store (startWithOwnership_tx (Some sample_gate) sample_ref 1 first_fence ''w1'' 1
      (resolve_project_admission sample_ref None) '''') = (Inr False, configured_store\<lparr>st_db := d'\<rparr>)"
    using m by (simp add: store_write_def)
  have "ticket_at d' sample_ref = Some ?row" by (simp add: ticket_at_def tk row_at_def t0_def sample_ticket_def)
  moreover have "t_AcceptanceJSON ?row = ''[]''" by (simp add: admitted_row_def t0_def sample_ticket_def)
  moreover have "Option.bind (json_parse ''[]'') (\<lambda>j. decode_strings j []) = Some []" by code_simp
  ultimately have "\<exists>t. Ticket_get (configured_store\<lparr>st_db := d'\<rparr>) sample_ref = Inr t"
    using \<open>TicketRef_Validate sample_ref = None\<close> by (simp add: Ticket_get_def)
  with w m \<open>TicketRef_Validate sample_ref = None\<close> show ?thesis
    by (auto simp: startWithProjectOwnership_def startWithOwnership_def first_fence_def)
qed

theorem admission_freezes_configuration_witness:
  "\<exists>t s' a. startWithProjectOwnership configured_store sample_ref 1 first_fence ''w1'' 1 None '''' = (Inr (t, False), s') \<and>
     tk_ConfigGeneration t = 1 \<and> tk_ConfigSnapshot t = sample_snapshot \<and> a \<in> set (leases (st_db s')) \<and> l_Scope a = ''project''"
proof -
  obtain t s' where ok: "startWithProjectOwnership configured_store sample_ref 1 first_fence ''w1'' 1 None '''' = (Inr (t, False), s')"
    using sample_admission_started by blast
  have "unique_key t_Ref (tickets (st_db configured_store))" "unique_key lease_pk (leases (st_db configured_store))"
    by (simp_all add: configured_store_def registered_store_db sample_db_def unique_key_def)
  from admission_freezes_configuration [OF this ok] obtain r where
      r: "project_at (st_db configured_store) (Channel sample_ref) (Project sample_ref) = Some r" "tk_ConfigGeneration t = p_ConfigGeneration r"
      "tk_ConfigSnapshot t = pj_ConfigSnapshot (joined_project (st_db configured_store) r)"
      and b: "p_ConfigGeneration r \<noteq> 0 \<longrightarrow> (\<exists>q b. lr_Scope q = ''project'' \<and> holds_slot sample_ref (RunnerEpoch first_fence) (leases (st_db s')) q b)"
    by (elim conjE exE) (fastforce intro: exI [of _ "\<lparr>lr_Scope = ''project'', lr_Resource = _, lr_Capacity = _\<rparr>"])
  have "p_ConfigGeneration r = 1" "pj_ConfigSnapshot (joined_project (st_db configured_store) r) = sample_snapshot"
    using r(1) by (auto simp: configured_store_def registered_store_db project_at_def row_at_def project_pk_def sample_ref_def
        joined_project_def config_at_def config_pk_def Let_def)
  moreover from this(1) b obtain q a where "lr_Scope q = ''project''" "holds_slot sample_ref (RunnerEpoch first_fence) (leases (st_db s')) q a"
    by auto
  then have "a \<in> set (leases (st_db s'))" "l_Scope a = ''project''" by (auto simp: holds_slot_def row_at_def find_Some_iff)
  ultimately show ?thesis using r ok by auto
qed

end
