(* ===== verification/EngineSafety.thy ===== *)
theory EngineSafety
  imports Engine ControlSafety AdmissionSafety
begin

text \<open>
  What the engine promises: a successful move is one row of the normative table, performed by the Store
  operation that owns it; the states that need evidence are entered only through an evidence boundary; a
  refused move changes nothing; and a ticket behind a terminal blocker can only be cancelled.
\<close>

section \<open>Operations that move one ticket\<close>

text \<open>
  A compare-and-swap on one ticket: its state, resume state and version change as requested, one event
  records the move, and every other ticket keeps its row.
\<close>

definition moved :: "db \<Rightarrow> StoreTransition \<Rightarrow> TransitionResult \<Rightarrow> db \<Rightarrow> bool" where
  "moved d tr r d' \<longleftrightarrow>
     (\<exists>t t' payload. ticket_at d (tn_Ref tr) = Some t \<and> t_State t = tn_From tr \<and> t_Version t = tn_ExpectedVersion tr \<and>
        t_RunnerEpoch t = RunnerEpoch (tn_Fence tr) \<and> leader_at d (Channel (tn_Ref tr)) = Some (LeaderEpoch (tn_Fence tr)) \<and>
        ticket_at d' (tn_Ref tr) = Some t' \<and> t_State t' = tn_To tr \<and> t_ResumeState t' = nullableState (tn_ResumeState tr) \<and>
        t_Version t' = t_Version t + 1 \<and> res_Version r = t_Version t + 1 \<and>
        events d' = events d @ [\<lparr>ev_ID = res_EventID r, ev_Ref = tn_Ref tr, ev_TicketVersion = t_Version t + 1,
          ev_Trigger = tn_Trigger tr, ev_From = tn_From tr, ev_To = tn_To tr, ev_Payload = payload\<rparr>]) \<and>
     (\<forall>ref. ref \<noteq> tn_Ref tr \<longrightarrow> ticket_at d' ref = ticket_at d ref)"

abbreviation keyed :: "Store \<Rightarrow> bool" where
  "keyed s \<equiv> control_inv (st_db s)"

text \<open>The part of a ticket that the plan speaks about, and one step of the plan on it.\<close>

definition lifecycle_of :: "db \<Rightarrow> TicketRef \<Rightarrow> (string \<times> string) option" where
  "lifecycle_of d ref =
     map_option (\<lambda>t. (t_State t, case t_ResumeState t of None \<Rightarrow> '''' | Some r \<Rightarrow> r)) (ticket_at d ref)"

inductive plan_step :: "Spec \<Rightarrow> string \<Rightarrow> (string \<Rightarrow> bool) \<Rightarrow> string \<times> string \<Rightarrow> string \<times> string \<Rightarrow> bool" where
  row: "Select sp state trigger guards = Inr t \<Longrightarrow> ResolveTarget (tr_To t) state resume resume = Inr target \<Longrightarrow>
    plan_step sp trigger guards (state, resume) (target, resolve_resume t state resume)"

inductive_simps plan_step_iff: "plan_step sp trigger guards (state, resume) (target, resume')"

locale ticket_move =
  fixes move :: persist
  assumes moves: "keyed s \<Longrightarrow> move s tr = (Inr r, s') \<Longrightarrow> moved (st_db s) tr r (st_db s')"
    and refused: "move s tr = (Inl e, s') \<Longrightarrow> st_db s' = st_db s"
begin

lemma from_to:
  assumes "keyed s" and "move s tr = (Inr r, s')"
  obtains resume where "lifecycle_of (st_db s) (tn_Ref tr) = Some (tn_From tr, resume)"
    and "lifecycle_of (st_db s') (tn_Ref tr) = Some (tn_To tr, tn_ResumeState tr)"
  using moves [OF assms] by (auto simp: moved_def lifecycle_of_def nullableState_def split: if_splits)

lemma follows_plan:
  assumes u: "keyed s" and sel: "Select sp (rq_From rq) (rq_Trigger rq) guards = Inr t"
    and tk: "lifecycle_of (st_db s) (rq_Ticket rq) = Some (rq_From rq, stored)"
    and tgt: "ResolveTarget (tr_To t) (rq_From rq) stored stored = Inr target"
    and run: "move s (persisted rq target (resolve_resume t (rq_From rq) stored)) = (Inr r, s')"
  shows "\<exists>old new. lifecycle_of (st_db s) (rq_Ticket rq) = Some old \<and> lifecycle_of (st_db s') (rq_Ticket rq) = Some new \<and>
    plan_step sp (rq_Trigger rq) guards old new"
proof -
  have "lifecycle_of (st_db s') (rq_Ticket rq) = Some (target, resolve_resume t (rq_From rq) stored)"
    by (rule from_to [OF u run]) (simp add: persisted_def)
  with tk plan_step.row [OF sel tgt] show ?thesis by blast
qed

end

section \<open>The Store's moves\<close>

lemma insert_event_event:
  "events (snd (insert_event r v trig a b p d)) = events d @ [\<lparr>ev_ID = fst (insert_event r v trig a b p d), ev_Ref = r,
     ev_TicketVersion = v, ev_Trigger = trig, ev_From = a, ev_To = b, ev_Payload = p\<rparr>]"
  by (simp add: insert_event_def Let_def insert_row_def)

text \<open>The compare-and-swap that all three moves end with.\<close>

lemma swap_moved:
  assumes u: "unique_key t_Ref (tickets d)" and t: "ticket_at d (tn_Ref tr) = Some t" "t_State t = tn_From tr"
      "t_Version t = tn_ExpectedVersion tr" "currentFence d (Channel (tn_Ref tr)) (t_Version t) (t_RunnerEpoch t) (tn_Fence tr) = None"
    and one: "count_where (\<lambda>r. t_Ref r = tn_Ref tr \<and> t_State r = tn_From tr \<and> t_Version r = t_Version t \<and>
      t_RunnerEpoch r = t_RunnerEpoch t) (tickets d) = 1"
    and row: "\<And>r. t_Ref (f r) = t_Ref r \<and> t_State (f r) = tn_To tr \<and> t_ResumeState (f r) = nullableState (tn_ResumeState tr) \<and>
      t_Version (f r) = t_Version r + 1"
    and d': "tickets d' = update_where (\<lambda>r. t_Ref r = tn_Ref tr \<and> t_State r = tn_From tr \<and> t_Version r = t_Version t \<and>
      t_RunnerEpoch r = t_RunnerEpoch t) f (tickets d)"
    and ev: "events d' = events d @ [\<lparr>ev_ID = res_EventID r, ev_Ref = tn_Ref tr, ev_TicketVersion = t_Version t + 1,
      ev_Trigger = tn_Trigger tr, ev_From = tn_From tr, ev_To = tn_To tr, ev_Payload = payload\<rparr>]"
    and res: "res_Version r = t_Version t + 1"
  shows "moved d tr r d'"
proof -
  have k: "t_Ref (f r) = t_Ref r" for r using row by blast
  have at: "ticket_at d' ref = (if ref = tn_Ref tr then Some (f t) else ticket_at d ref)" for ref
    by (rule ticket_table.pinned_update [OF u _ k one, of "tn_Ref tr"]) (use t(1) in \<open>auto simp: ticket_at_def d'\<close>)
  from t(4) have "t_RunnerEpoch t = RunnerEpoch (tn_Fence tr)" "leader_at d (Channel (tn_Ref tr)) = Some (LeaderEpoch (tn_Fence tr))"
    by (simp_all add: currentFence_None)
  with t at row res ev show ?thesis unfolding moved_def by auto
qed

lemma DrainExternalMutations_db: "st_db (snd (DrainExternalMutations s ref)) = st_db s"
  by (auto simp: DrainExternalMutations_def with_gate_def unlock_store_def update_gate_def
      split: option.splits sum.splits prod.splits if_splits)

lemma reacquire_frame:
  assumes "reacquireTicketCapacity ref runner now d = Inr d'"
  shows "\<exists>ls. d' = d\<lparr>leases := ls\<rparr>"
  using assms by (auto simp: reacquireTicketCapacity_def split: option.splits sum.splits prod.splits)

lemma release_frame:
  assumes "releaseTerminalCapacity ref d = Inr d'"
  shows "\<exists>ls. d' = d\<lparr>leases := ls\<rparr>"
  using assms by (auto simp: releaseTerminalCapacity_def split: if_splits)

lemma Transition_tx_Inr:
  assumes u: "unique_key t_Ref (tickets d)" and run: "Transition_tx A now tr payload code d = Inr (r, d')"
  shows "moved d tr r d'"
    and "ticket_at d (tn_Ref tr) = Some t \<Longrightarrow> t_State t = StateBlocked \<Longrightarrow> \<not> nonRecoverableBlockedRecoveryCode (t_BlockedCode t)"
proof -
  obtain t where t: "ticket_at d (tn_Ref tr) = Some t"
    using run by (auto simp: Transition_tx_def Let_def split: option.splits)
  have g: "t_State t = tn_From tr" "t_Version t = tn_ExpectedVersion tr"
    "currentFence d (Channel (tn_Ref tr)) (t_Version t) (t_RunnerEpoch t) (tn_Fence tr) = None"
    and b: "\<not> (t_State t = StateBlocked \<and> nonRecoverableBlockedRecoveryCode (t_BlockedCode t))"
    using run by (simp_all add: Transition_tx_def Let_def t split: option.splits if_splits)
  let ?p = "\<lambda>r. t_Ref r = tn_Ref tr \<and> t_State r = tn_From tr \<and> t_Version r = t_Version t \<and> t_RunnerEpoch r = t_RunnerEpoch t"
  obtain payload' d1 where d1: "(if t_State t = StatePaused \<and> (tn_Trigger tr = ''operator_resume'' \<or> tn_Trigger tr = ''operator_retry'')
                   then reacquireTicketCapacity (tn_Ref tr) (t_RunnerEpoch t) now d else Inr d) = Inr d1"
    and rest: "(if count_where ?p (tickets d1) \<noteq> 1 then Inl ErrStaleFence
                else if \<not> ticket_check (tn_ResumeState tr) (t_Version t + 1) then Inl (ErrConstraint ''tickets'')
                else let d2 = d1\<lparr>tickets := update_where ?p (transition_row tr code) (tickets d1)\<rparr> in
                  case (if State_Terminal (tn_To tr) then releaseTerminalCapacity (tn_Ref tr) d2 else Inr d2) of
                    Inl e \<Rightarrow> Inl e
                  | Inr d3 \<Rightarrow>
                    (case insert_event (tn_Ref tr) (t_Version t + 1) (tn_Trigger tr) (tn_From tr) (tn_To tr) payload' d3 of
                       (n, d4) \<Rightarrow> Inr (\<lparr>res_Version = t_Version t + 1, res_EventID = n\<rparr>, d4))) = Inr (r, d')"
    using run g b by (auto simp: Transition_tx_def Let_def t split: option.splits if_splits sum.splits)
  from d1 obtain ls where ls: "d1 = d\<lparr>leases := ls\<rparr>"
    by (cases "t_State t = StatePaused \<and> (tn_Trigger tr = ''operator_resume'' \<or> tn_Trigger tr = ''operator_retry'')")
      (auto dest: reacquire_frame intro: that [of "leases d"])
  let ?d2 = "d1\<lparr>tickets := update_where ?p (transition_row tr code) (tickets d1)\<rparr>"
  from rest have one: "count_where ?p (tickets d1) = 1" by (auto split: if_splits)
  from rest obtain d3 where d3: "(if State_Terminal (tn_To tr) then releaseTerminalCapacity (tn_Ref tr) ?d2 else Inr ?d2) = Inr d3"
    and r: "r = \<lparr>res_Version = t_Version t + 1,
        res_EventID = fst (insert_event (tn_Ref tr) (t_Version t + 1) (tn_Trigger tr) (tn_From tr) (tn_To tr) payload' d3)\<rparr>"
      "d' = snd (insert_event (tn_Ref tr) (t_Version t + 1) (tn_Trigger tr) (tn_From tr) (tn_To tr) payload' d3)"
    by (auto simp: Let_def split: if_splits sum.splits prod.splits)
  from d3 obtain ls' where ls': "d3 = ?d2\<lparr>leases := ls'\<rparr>"
    by (cases "State_Terminal (tn_To tr)") (auto dest: release_frame intro: that [of "leases ?d2"])
  show "moved d tr r d'"
  proof (rule swap_moved [OF u t g])
    show "count_where ?p (tickets d) = 1" using one by (simp add: ls)
    show "tickets d' = update_where ?p (transition_row tr code) (tickets d)" by (simp add: r ls' ls)
    show "events d' = events d @ [\<lparr>ev_ID = res_EventID r, ev_Ref = tn_Ref tr, ev_TicketVersion = t_Version t + 1,
        ev_Trigger = tn_Trigger tr, ev_From = tn_From tr, ev_To = tn_To tr, ev_Payload = payload'\<rparr>]"
      unfolding r insert_event_event by (simp add: ls' ls)
  qed (simp_all add: transition_row_def Let_def r)
  show "\<not> nonRecoverableBlockedRecoveryCode (t_BlockedCode t')"
    if "ticket_at d (tn_Ref tr) = Some t'" "t_State t' = StateBlocked" for t'
    using that t b by simp
qed

lemma invalidate_tx_events:
  assumes "TransitionAndInvalidateRunner_tx tr payload d = Inr ((res, val), d')" and "unique_key c_Ref (runtime_ticket_controls d)"
    and "ticket_at d (tn_Ref tr) = Some t"
  shows "events d' = events d @ [\<lparr>ev_ID = res_EventID res, ev_Ref = tn_Ref tr, ev_TicketVersion = t_Version t + 1,
    ev_Trigger = tn_Trigger tr, ev_From = tn_From tr, ev_To = tn_To tr, ev_Payload = payload\<rparr>]"
proof -
  let ?p = "\<lambda>r. t_Ref r = tn_Ref tr \<and> t_State r = tn_From tr \<and> t_Version r = t_Version t \<and> t_RunnerEpoch r = t_RunnerEpoch t"
  let ?v = "\<lparr>mr_version = t_Version t + 1, mr_leader = LeaderEpoch (tn_Fence tr), mr_runner = t_RunnerEpoch t + 1\<rparr>"
  from assms obtain d1 where s: "sealRuntimeControl (tn_Ref tr) ?v (d\<lparr>tickets := update_where ?p (invalidate_row tr) (tickets d)\<rparr>) = Inr d1"
    and d': "d' = snd (insert_event (tn_Ref tr) (t_Version t + 1) (tn_Trigger tr) (tn_From tr) (tn_To tr) payload d1)"
      "res_EventID res = fst (insert_event (tn_Ref tr) (t_Version t + 1) (tn_Trigger tr) (tn_From tr) (tn_To tr) payload d1)"
    by (auto simp: TransitionAndInvalidateRunner_tx_def Let_def split: option.splits if_splits sum.splits prod.splits)
  from upsert_sealed_Inr(4) [OF s [unfolded sealRuntimeControl_def]] assms(2) have "events d1 = events d" by auto
  then show ?thesis unfolding d' insert_event_event by simp
qed

lemma with_gate_keeps:
  assumes "with_gate nil s body = (Inl e, s')"
    and "\<And>g s1 s2. body g s1 = (Inl e, s2) \<Longrightarrow> st_db s2 = st_db s1"
  shows "st_db s' = st_db s"
  using assms by (auto simp: with_gate_def unlock_store_def split: option.splits sum.splits prod.splits if_splits)

interpretation invalidate_move: ticket_move TransitionAndInvalidateRunner
proof unfold_locales
  fix s s' :: Store and tr r
  assume inv: "keyed s" and run: "TransitionAndInvalidateRunner s tr = (Inr r, s')"
  from run obtain val d' where tx: "TransitionAndInvalidateRunner_tx tr (event_payload tr) (st_db s) = Inr ((r, val), d')"
    and db: "st_db s' = d'"
    by (rule TransitionAndInvalidateRunner_Inr) (simp add: unlock_store_def update_gate_def)
  from inv have u: "unique_key c_Ref (runtime_ticket_controls (st_db s))" by (simp add: control_inv_def)
  show "moved (st_db s) tr r (st_db s')"
    by (rule TransitionAndInvalidateRunner_tx_Inr [OF inv tx])
      (use invalidate_tx_events [OF tx u] in \<open>auto simp: moved_def db invalidate_row_def\<close>)
next
  fix s s' :: Store and tr e
  assume "TransitionAndInvalidateRunner s tr = (Inl e, s')"
  then show "st_db s' = st_db s"
    unfolding TransitionAndInvalidateRunner_def
    by (auto split: if_splits option.splits prod.splits sum.splits dest: write_error_keeps elim!: with_gate_keeps)
qed

lemma complete_tx_Inr:
  assumes u: "unique_key t_Ref (tickets d)" and run: "CompleteControlTransition_tx tr payload d = Inr (r, d')"
  shows "moved d tr r d'"
proof -
  from run obtain t ls where t: "ticket_at d (tn_Ref tr) = Some t" "t_State t = tn_From tr" "t_Version t = tn_ExpectedVersion tr"
      "currentFence d (Channel (tn_Ref tr)) (t_Version t) (t_RunnerEpoch t) (tn_Fence tr) = None"
    and ls: "releaseTerminalCapacity (tn_Ref tr) d = Inr (d\<lparr>leases := ls\<rparr>)"
    by (auto simp: CompleteControlTransition_tx_def Let_def split: option.splits if_splits sum.splits dest: release_frame)
  let ?p = "\<lambda>r. t_Ref r = tn_Ref tr \<and> t_State r = tn_From tr \<and> t_Version r = t_Version t \<and> t_RunnerEpoch r = t_RunnerEpoch t"
  from run t ls have one: "count_where ?p (tickets d) = 1" and d': "tickets d' = update_where ?p (complete_row tr) (tickets d)"
      "events d' = events d @ [\<lparr>ev_ID = res_EventID r, ev_Ref = tn_Ref tr, ev_TicketVersion = t_Version t + 1,
        ev_Trigger = tn_Trigger tr, ev_From = tn_From tr, ev_To = tn_To tr, ev_Payload = payload\<rparr>]" "res_Version r = t_Version t + 1"
    by (auto simp: CompleteControlTransition_tx_def Let_def insert_event_def insert_row_def next_event_id_def split: if_splits)
  show ?thesis by (rule swap_moved [OF u t one _ d']) (simp add: complete_row_def)
qed

interpretation complete_move: ticket_move CompleteControlTransition
proof unfold_locales
  fix s s' :: Store and tr r
  assume inv: "keyed s" and run: "CompleteControlTransition s tr = (Inr r, s')"
  from run obtain d' where tx: "CompleteControlTransition_tx tr (event_payload tr) (st_db s) = Inr (r, d')" "s' = s\<lparr>st_db := d'\<rparr>"
    by (auto simp: CompleteControlTransition_def write_Inr_iff split: option.splits if_splits)
  from inv have "unique_key t_Ref (tickets (st_db s))" by (simp add: control_inv_def)
  from complete_tx_Inr [OF this tx(1)] tx(2) show "moved (st_db s) tr r (st_db s')" by simp
next
  fix s s' :: Store and tr e
  assume "CompleteControlTransition s tr = (Inl e, s')"
  then show "st_db s' = st_db s"
    by (auto simp: CompleteControlTransition_def split: if_splits option.splits dest: write_error_keeps)
qed

lemma transition_generic_Inr:
  assumes run: "transition_generic A s now tr = (Inr r, s')"
  obtains d' payload code where "Transition_tx A now tr payload code (st_db s) = Inr (r, d')" and "st_db s' = d'"
proof -
  from run obtain code s1 where s1: "DrainExternalMutations s (tn_Ref tr) = (Inr (), s1)"
    and w: "store_write s1 (Transition_tx A now tr (event_payload tr) code) = (Inr r, s')"
    unfolding transition_generic_def by (simp split: option.splits if_splits prod.splits sum.splits)
  from s1 DrainExternalMutations_db [of s "tn_Ref tr"] have "st_db s1 = st_db s" by simp
  with w show thesis by (auto simp: write_Inr_iff intro: that)
qed

lemma transition_generic_Inl:
  assumes run: "transition_generic A s now tr = (Inl e, s')"
  shows "st_db s' = st_db s"
proof (cases "DrainExternalMutations s (tn_Ref tr)")
  case (Pair x s1)
  with DrainExternalMutations_db [of s "tn_Ref tr"] have "st_db s1 = st_db s" by simp
  with run Pair show ?thesis
    unfolding transition_generic_def by (auto split: option.splits if_splits prod.splits sum.splits dest: write_error_keeps)
qed

interpretation generic_move: ticket_move "\<lambda>s tr. transition_generic A s now tr" for A now
proof unfold_locales
  fix s s' :: Store and tr r
  assume "keyed s" and run: "transition_generic A s now tr = (Inr r, s')"
  then have "unique_key t_Ref (tickets (st_db s))" by (simp add: control_inv_def)
  with run show "moved (st_db s) tr r (st_db s')" by (auto elim!: transition_generic_Inr dest: Transition_tx_Inr(1))
qed (rule transition_generic_Inl)

section \<open>Who performs a move\<close>

text \<open>The Store operations that authenticate evidence before they move a ticket.\<close>

definition evidence_boundaries :: "boundaries \<Rightarrow> persist list" where
  "evidence_boundaries B =
     [TransitionPublishedResume B, TransitionGuardedMergeResume B, TransitionPostPublicationReconcileResume B,
      TransitionGuardedMergeObserved B, transitionTicketBudgetExhausted B, transitionProviderTerminalBlocker B,
      TransitionRecoverAsGuarded B, TransitionPublishedBlock B, TransitionPublishedPause B]"

definition by_boundary :: "boundaries \<Rightarrow> Store \<Rightarrow> StoreTransition \<Rightarrow> store_error + TransitionResult \<Rightarrow> Store \<Rightarrow> bool" where
  "by_boundary B s p x s' \<longleftrightarrow> list_ex (\<lambda>move. move s p = (x, s')) (evidence_boundaries B)"

text \<open>The moves that the Store performs without evidence of their own.\<close>

definition needs_evidence :: "StoreTransition \<Rightarrow> bool" where
  "needs_evidence p \<longleftrightarrow> genericMergeEntryTransition p \<or> guardedMergeObservationTransition p \<or>
     publicationSensitiveTransition (tn_From p) (tn_To p) \<or> genericVerificationAmendmentTransition (tn_Trigger p) \<or>
     reserved_provider_move p"

datatype performer = Boundary | Completion | Invalidation | Generic | Nobody

fun performed :: "boundaries \<Rightarrow> int \<Rightarrow> performer \<Rightarrow> Store \<Rightarrow> StoreTransition \<Rightarrow> store_error + TransitionResult \<Rightarrow> Store \<Rightarrow> bool" where
  "performed B now Boundary s p x s' = by_boundary B s p x s'"
| "performed B now Completion s p x s' = (CompleteControlTransition s p = (x, s'))"
| "performed B now Invalidation s p x s' = (TransitionAndInvalidateRunner s p = (x, s'))"
| "performed B now Generic s p x s' = (transition_generic (authorities.truncate B) s now p = (x, s') \<and> \<not> needs_evidence p)"
| "performed B now Nobody s p x s' = (s' = s \<and> (\<exists>e. x = Inl e))"

lemma truncate_simps [simp]:
  "transitionTicketBudgetExhausted (authorities.truncate B) = transitionTicketBudgetExhausted B"
  "transitionProviderTerminalBlocker (authorities.truncate B) = transitionProviderTerminalBlocker B"
  "TransitionRecoverAsGuarded (authorities.truncate B) = TransitionRecoverAsGuarded B"
  "TransitionPublishedBlock (authorities.truncate B) = TransitionPublishedBlock B"
  "TransitionPublishedPause (authorities.truncate B) = TransitionPublishedPause B"
  by (simp_all add: authorities.truncate_def)

lemma Store_Transition_performed:
  assumes "Store_Transition (authorities.truncate B) s now p = (x, s')"
  shows "\<exists>who. performed B now who s p x s'"
proof -
  have "performed B now Boundary s p x s' \<or> performed B now Generic s p x s' \<or> performed B now Nobody s p x s'"
    using assms unfolding Store_Transition_def
    by (auto simp: by_boundary_def evidence_boundaries_def needs_evidence_def split: if_splits)
  then show ?thesis by blast
qed

lemma dispatch_performed:
  assumes "dispatch B (\<lambda>s p. Store_Transition (authorities.truncate B) s now p) t s p = (x, s')"
  shows "\<exists>who. performed B now who s p x s'"
proof -
  have "performed B now Boundary s p x s' \<or> performed B now Completion s p x s' \<or> performed B now Invalidation s p x s' \<or>
      Store_Transition (authorities.truncate B) s now p = (x, s')"
    using assms unfolding dispatch_def by (simp add: by_boundary_def evidence_boundaries_def split: if_splits)
  then show ?thesis using Store_Transition_performed by blast
qed

lemma transition_cases:
  assumes "transitionWithResolvedTargetResume B sp s rq persist useTarget = (x, s')"
  obtains (refused) e where "x = Inl e" and "s' = s"
  | (dispatched) t ticket target y where "Select sp (rq_From rq) (rq_Trigger rq) (guards_of (rq_Attributes rq)) = Inr t"
    and "Ticket_get s (rq_Ticket rq) = Inr ticket" and "tk_State ticket = rq_From rq" and "tk_Version ticket = rq_TicketVersion rq"
    and "ResolveTarget (tr_To t) (rq_From rq) (tk_ResumeState ticket) (tk_ResumeState ticket) = Inr target"
    and "dispatch B persist t s (persisted rq target
      (if useTarget then target else resolve_resume t (rq_From rq) (tk_ResumeState ticket))) = (y, s')"
    and "x = (case y of Inl e \<Rightarrow> Inl (StoreFailure e) | Inr r \<Rightarrow> Inr (engine_result sp t target r))"
  using assms unfolding transitionWithResolvedTargetResume_def
  by (auto split: sum.splits if_splits prod.splits)

lemma Engine_Transition_cases:
  assumes "Engine_Transition B sp s now rq = (x, s')"
  obtains (refused) e where "x = Inl e" and "s' = s"
  | (dispatched) t ticket target y who where "Select sp (rq_From rq) (rq_Trigger rq) (guards_of (rq_Attributes rq)) = Inr t"
    and "Ticket_get s (rq_Ticket rq) = Inr ticket" and "tk_State ticket = rq_From rq" and "tk_Version ticket = rq_TicketVersion rq"
    and "ResolveTarget (tr_To t) (rq_From rq) (tk_ResumeState ticket) (tk_ResumeState ticket) = Inr target"
    and "performed B now who s (persisted rq target (resolve_resume t (rq_From rq) (tk_ResumeState ticket))) y s'"
    and "x = (case y of Inl e \<Rightarrow> Inl (StoreFailure e) | Inr r \<Rightarrow> Inr (engine_result sp t target r))"
    and "\<not> reserved_request rq"
proof -
  consider (r) e where "x = Inl e" "s' = s"
    | (t) "Engine_transition B sp s rq (\<lambda>s p. Store_Transition (authorities.truncate B) s now p) = (x, s')" "\<not> reserved_request rq"
    using assms unfolding Engine_Transition_def by (auto split: if_splits sum.splits)
  then show thesis
  proof cases
    case t
    from t(1) show thesis
      unfolding Engine_transition_def
    proof (cases rule: transition_cases)
      case (dispatched t ticket target y)
      with dispatch_performed t(2) that(2) show thesis by (metis (no_types, lifting))
    qed (rule refused)
  qed (rule refused)
qed

lemma Ticket_get_lifecycle:
  assumes "Ticket_get s ref = Inr ticket"
  shows "lifecycle_of (st_db s) ref = Some (tk_State ticket, tk_ResumeState ticket)"
  using assms by (auto simp: Ticket_get_def lifecycle_of_def ticket_value_def split: option.splits)

lemma persisted_simps [simp]:
  "tn_Ref (persisted rq target resume) = rq_Ticket rq" "tn_To (persisted rq target resume) = target"
  "tn_From (persisted rq target resume) = rq_From rq" "tn_Trigger (persisted rq target resume) = rq_Trigger rq"
  by (simp_all add: persisted_def)

lemma performed_keeps: "performed B now who s p (Inl e) s' \<Longrightarrow> who \<noteq> Boundary \<Longrightarrow> st_db s' = st_db s"
  using complete_move.refused invalidate_move.refused transition_generic_Inl by (cases who) auto

lemma performed_moves: "performed B now who s p (Inr r) s' \<Longrightarrow> keyed s \<Longrightarrow> who \<noteq> Boundary \<Longrightarrow> moved (st_db s) p r (st_db s')"
  using complete_move.moves invalidate_move.moves generic_move.moves by (cases who) auto

lemma CompleteControlTransition_shape:
  "CompleteControlTransition s p = (Inr r, s') \<Longrightarrow>
     tn_From p = StateStopping \<and> tn_To p = StatePaused \<or> tn_From p = StateCancelling \<and> tn_To p = StateCancelled"
  by (auto simp: CompleteControlTransition_def split: option.splits if_splits)

lemma TransitionAndInvalidateRunner_shape:
  "TransitionAndInvalidateRunner s p = (Inr r, s') \<Longrightarrow>
     tn_To p = StateStopping \<and> pauseState (tn_From p) \<or> tn_To p = StateCancelling \<and> tn_Trigger p = ''operator_cancel''"
  by (auto simp: TransitionAndInvalidateRunner_def validRunnerInvalidatingControlTransition_def split: option.splits if_splits)

text \<open>A move that ends in a state guarded by evidence can only come from a boundary.\<close>

lemma performed_protected:
  assumes "performed B now who s p (Inr r) s'" and "tn_To p \<in> {StatePublishing, StateWaitingCI, StateMerging}"
  shows "who = Boundary"
  using assms
proof (cases who)
  case Generic
  with assms show ?thesis
    by (auto simp: needs_evidence_def genericMergeEntryTransition_def publicationSensitiveTransition_def)
qed (auto simp: state_defs dest!: CompleteControlTransition_shape TransitionAndInvalidateRunner_shape)

lemma performed_terminally_blocked:
  assumes run: "performed B now who s p (Inr r) s'" and inv: "keyed s" and t: "ticket_at (st_db s) (tn_Ref p) = Some t"
    "t_State t = StateBlocked" "nonRecoverableBlockedRecoveryCode (t_BlockedCode t)"
  shows "who = Boundary \<or> tn_To p = StateCancelling \<and> tn_Trigger p = ''operator_cancel''"
proof (cases "who = Boundary")
  case False
  then have "tn_From p = StateBlocked" using performed_moves [OF run inv] t by (auto simp: moved_def)
  moreover from inv have "unique_key t_Ref (tickets (st_db s))" by (simp add: control_inv_def)
  ultimately show ?thesis
    using run t False
    by (cases who) (auto simp: pauseState_def state_defs elim!: transition_generic_Inr
        dest!: CompleteControlTransition_shape TransitionAndInvalidateRunner_shape Transition_tx_Inr(2))
qed simp

section \<open>Tickets that can no longer start\<close>

lemma queued_start_versions:
  assumes inv: "keyed s" and t: "ticket_at (st_db s) ref = Some t" "t_State t = StateQueued" "t_Version t \<noteq> 1"
  shows "StartOrAdopt s ref v workflow fence \<noteq> (Inr tk, s')"
    and "startWithOwnership s ref v fence workflow at resolve endpoint \<noteq> (Inr out, s')"
proof -
  from inv have u: "unique_key t_Ref (tickets (st_db s))" by (simp add: control_inv_def)
  show "StartOrAdopt s ref v workflow fence \<noteq> (Inr tk, s')"
    by (auto elim!: StartOrAdopt_Inr StartOrAdopt_tx_Inr [OF u] simp: t state_defs)
  show "startWithOwnership s ref v fence workflow at resolve endpoint \<noteq> (Inr out, s')"
  proof
    assume "startWithOwnership s ref v fence workflow at resolve endpoint = (Inr out, s')"
    then obtain observed d' where "startWithOwnership_tx (st_mutations s) ref v fence workflow at resolve endpoint (st_db s) = Inr (observed, d')"
      by (auto simp: startWithOwnership_def store_write_def split: sum.splits if_splits)
    then have "admit_queued ref v fence workflow at resolve endpoint t (st_db s) = Inr d'"
      using t by (auto simp: startWithOwnership_tx_def state_defs split: if_splits option.splits sum.splits)
    then have "t_Version t + 1 = 2" by (rule admit_queued_Inr [OF u t(1)])
    with t(3) show False by (metis add_right_cancel one_add_one)
  qed
qed

section \<open>Sample engine\<close>

definition closed_boundary :: persist where
  "closed_boundary s p = (Inl ErrEvidenceConflict, s)"

definition closed_boundaries :: boundaries where
  "closed_boundaries =
     \<lparr>transitionTicketBudgetExhausted = closed_boundary, transitionProviderTerminalBlocker = closed_boundary,
      TransitionRecoverAsGuarded = closed_boundary, TransitionPublishedBlock = closed_boundary,
      TransitionPublishedPause = closed_boundary,
      loadCurrentProviderPhaseEntry = (\<lambda>_ _ _ _ _ _. Inl ErrEvidenceConflict),
      providerBlockedEndpointLeader = (\<lambda>_ _ _ _ _. Inl ErrEvidenceConflict),
      validateProviderPhaseEntryBindings = (\<lambda>_ _ _. Some ErrEvidenceConflict),
      loadProviderRetryEpochForEntry = (\<lambda>_ _ _ _. Inl ErrEvidenceConflict),
      authenticatePostPublicationState = (\<lambda>_ _ _ _ _. Some ErrEvidenceConflict),
      terminal_review_attempts = (\<lambda>_ _ _. Inl ErrEvidenceConflict),
      TransitionPublishedResume = closed_boundary, TransitionGuardedMergeResume = closed_boundary,
      TransitionPostPublicationReconcileResume = closed_boundary, TransitionGuardedMergeObserved = closed_boundary,
      TransitionProviderExhausted = closed_boundary, TransitionProviderRetry = closed_boundary,
      TransitionPlan = closed_boundary, TransitionVerification = closed_boundary,
      TransitionVerificationAmendmentAccepted = (\<lambda>_. closed_boundary),
      TransitionVerificationAmendmentRejected = (\<lambda>_. closed_boundary),
      TransitionVerificationAmendmentRequest = (\<lambda>_. closed_boundary),
      TransitionCandidate = (\<lambda>_. closed_boundary), TransitionFinalReview = closed_boundary,
      TransitionReviewRepair = closed_boundary, TransitionReviewNeedsOperator = closed_boundary\<rparr>"

definition block_request :: TransitionRequest where
  "block_request = \<lparr>rq_Ticket = sample_ref, rq_TicketVersion = 1, rq_From = ''queued'', rq_Trigger = ''typed_blocker'',
     rq_Fence = first_fence, rq_Attributes = flags [''no_unreconciled_external_mutation''],
     rq_EventPayload = json_object [(''code'', json_string ''host_unavailable'')]\<rparr>"

definition recover_request :: TransitionRequest where
  "recover_request = \<lparr>rq_Ticket = sample_ref, rq_TicketVersion = 2, rq_From = ''blocked'', rq_Trigger = ''operator_recover'',
     rq_Fence = first_fence, rq_Attributes = flags [''operator_identity_authenticated'', ''typed_prerequisites_satisfied'',
       ''no_live_writer'', ''runner_epoch_current''], rq_EventPayload = ''''\<rparr>"

definition blocked_store :: Store where
  "blocked_store = snd (Engine_Transition closed_boundaries approved_spec queued_store 0 block_request)"

definition recovered_store :: Store where
  "recovered_store = snd (Engine_Transition closed_boundaries approved_spec blocked_store 0 recover_request)"

lemma sample_block:
  "Engine_Transition closed_boundaries approved_spec queued_store 0 block_request =
     (Inr \<lparr>er_To = ''blocked'', er_TicketVersion = 2, er_Invalidated = [], er_EventID = ''1''\<rparr>, blocked_store)"
  by (rule prod_eqI) (code_simp, simp add: blocked_store_def)

lemma sample_recover:
  "Engine_Transition closed_boundaries approved_spec blocked_store 0 recover_request =
     (Inr \<lparr>er_To = ''queued'', er_TicketVersion = 3, er_Invalidated = [], er_EventID = ''2''\<rparr>, recovered_store)"
  by (rule prod_eqI) (code_simp, simp add: recovered_store_def)

lemma recovered_row:
  "ticket_at (st_db recovered_store) sample_ref = Some (sample_ticket\<lparr>t_State := ''queued'', t_Version := 3,
     t_RunnerEpoch := 1, t_WorkflowID := '''', t_BlockedCode := ''host_unavailable''\<rparr>)"
  by code_simp

lemma sample_keyed: "keyed queued_store" "keyed blocked_store" "keyed recovered_store"
  by code_simp+

section \<open>Properties\<close>



text \<open>C2: no request to the engine, whatever its attributes and payload, brings a ticket into publishing,
  waiting for CI or merging except through a Store operation that authenticates the evidence for it; with
  boundaries that refuse, those states are out of reach.\<close>

theorem protected_states_need_evidence:
  assumes run: "Engine_Transition B sp s now rq = (Inr r, s')"
    and to: "er_To r \<in> {StatePublishing, StateWaitingCI, StateMerging}"
  shows "\<exists>move \<in> set (evidence_boundaries B). \<exists>p res. tn_Ref p = rq_Ticket rq \<and> tn_To p = er_To r \<and> move s p = (Inr res, s')"
  using run
proof (cases rule: Engine_Transition_cases)
  case (dispatched t ticket target y who)
  let ?p = "persisted rq target (resolve_resume t (rq_From rq) (tk_ResumeState ticket))"
  from dispatched(7) obtain res where y: "y = Inr res" and "er_To r = target" by (cases y) (auto simp: engine_result_def)
  with to have p: "tn_To ?p = er_To r" "tn_To ?p \<in> {StatePublishing, StateWaitingCI, StateMerging}" by simp_all
  then have "by_boundary B s ?p (Inr res) s'"
    using performed_protected [OF dispatched(6) [unfolded y]] dispatched(6) y by simp
  then obtain move where "move \<in> set (evidence_boundaries B)" "move s ?p = (Inr res, s')"
    by (auto simp: by_boundary_def list_ex_iff)
  with p(1) persisted_simps(1) show ?thesis by blast
qed simp

definition open_boundaries :: boundaries where
  "open_boundaries = closed_boundaries\<lparr>TransitionPublishedResume :=
     (\<lambda>s p. (Inr \<lparr>res_Version = tn_ExpectedVersion p + 1, res_EventID = 1\<rparr>, s))\<rparr>"

definition waiting_store :: Store where
  "waiting_store = sample_store\<lparr>st_db := sample_db\<lparr>tickets :=
     [sample_ticket\<lparr>t_State := ''paused'', t_ResumeState := Some ''waiting_ci''\<rparr>]\<rparr>\<rparr>"

definition resume_request :: TransitionRequest where
  "resume_request = \<lparr>rq_Ticket = sample_ref, rq_TicketVersion = 5, rq_From = ''paused'', rq_Trigger = ''operator_resume'',
     rq_Fence = \<lparr>LeaderEpoch = 2, RunnerEpoch = 3, ClaimEpoch = 0\<rparr>, rq_Attributes = flags [''operator_identity_authenticated'',
       ''takeover_diff_none'', ''branch_remote_identity_exact'', ''prerequisites_green''], rq_EventPayload = ''''\<rparr>"

theorem protected_states_need_evidence_witness:
  "\<exists>move \<in> set (evidence_boundaries open_boundaries). \<exists>p res s'. tn_To p = ''waiting_ci'' \<and> move waiting_store p = (Inr res, s')"
proof -
  obtain r s' where run: "Engine_Transition open_boundaries approved_spec waiting_store 0 resume_request = (r, s')" by fastforce
  have "fst (Engine_Transition open_boundaries approved_spec waiting_store 0 resume_request) =
      Inr \<lparr>er_To = ''waiting_ci'', er_TicketVersion = 6, er_Invalidated = [], er_EventID = ''1''\<rparr>"
    by code_simp
  with run have "Engine_Transition open_boundaries approved_spec waiting_store 0 resume_request =
      (Inr \<lparr>er_To = ''waiting_ci'', er_TicketVersion = 6, er_Invalidated = [], er_EventID = ''1''\<rparr>, s')" by simp
  from protected_states_need_evidence [OF this] show ?thesis by (auto simp: state_defs)
qed

text \<open>A move that the engine refuses leaves the durable rows as they were; the only exception is a
  refusal reported by an evidence boundary, which answers for its own writes.\<close>

theorem refused_move_changes_nothing:
  assumes run: "Engine_Transition B sp s now rq = (Inl e, s')"
  shows "st_db s' = st_db s \<or> (\<exists>p err. e = StoreFailure err \<and> by_boundary B s p (Inl err) s')"
  using run
proof (cases rule: Engine_Transition_cases)
  case (dispatched t ticket target y who)
  then obtain err where "y = Inl err" "e = StoreFailure err" by (cases y) auto
  with dispatched(6) performed_keeps show ?thesis by (cases "who = Boundary") auto
qed simp

theorem refused_move_changes_nothing_witness:
  "\<exists>e s'. Engine_Transition closed_boundaries approved_spec queued_store 0 (block_request\<lparr>rq_TicketVersion := 9\<rparr>) = (Inl e, s') \<and>
     st_db s' = st_db queued_store"
proof -
  let ?run = "Engine_Transition closed_boundaries approved_spec queued_store 0 (block_request\<lparr>rq_TicketVersion := 9\<rparr>)"
  have "fst ?run = Inl (StoreFailure ErrStaleFence)" by code_simp
  then have run: "?run = (Inl (StoreFailure ErrStaleFence), snd ?run)" by (metis prod.collapse)
  have "\<not> by_boundary closed_boundaries queued_store p (Inl ErrStaleFence) s'" for p s'
    by (simp add: by_boundary_def evidence_boundaries_def closed_boundaries_def closed_boundary_def)
  with refused_move_changes_nothing [OF run] have "st_db (snd ?run) = st_db queued_store" by auto
  with run show ?thesis by metis
qed

text \<open>A ticket behind a terminal blocker (an indeterminate provider result, an unavailable repair, a
  failed post-build command, an invalid or rejected amendment, an unverifiable legacy repair) leaves it
  through the engine only by the operator's cancellation, unless an evidence boundary performs the move.\<close>

theorem terminal_blocker_only_cancels:
  assumes inv: "control_inv (st_db s)" and t: "ticket_at (st_db s) (rq_Ticket rq) = Some t" "t_State t = StateBlocked"
      "nonRecoverableBlockedRecoveryCode (t_BlockedCode t)"
    and run: "Engine_Transition B sp s now rq = (Inr r, s')"
  shows "(er_To r = StateCancelling \<and> rq_Trigger rq = ''operator_cancel'') \<or> (\<exists>p res. by_boundary B s p (Inr res) s')"
  using run
proof (cases rule: Engine_Transition_cases)
  case (dispatched tr ticket target y who)
  let ?p = "persisted rq target (resolve_resume tr (rq_From rq) (tk_ResumeState ticket))"
  from dispatched(7) obtain res where y: "y = Inr res" and "er_To r = target" by (cases y) (auto simp: engine_result_def)
  with performed_terminally_blocked [OF dispatched(6) [unfolded y] inv] dispatched(6) t show ?thesis by auto
qed simp

definition poisoned_store :: Store where
  "poisoned_store = sample_store\<lparr>st_db := sample_db\<lparr>tickets := [sample_ticket\<lparr>t_State := ''blocked'',
     t_ResumeState := Some ''building'', t_BlockedCode := postbuildCommandFailedBlockerCode\<rparr>]\<rparr>\<rparr>"

definition cancel_request :: TransitionRequest where
  "cancel_request = \<lparr>rq_Ticket = sample_ref, rq_TicketVersion = 5, rq_From = ''blocked'', rq_Trigger = ''operator_cancel'',
     rq_Fence = \<lparr>LeaderEpoch = 2, RunnerEpoch = 3, ClaimEpoch = 0\<rparr>,
     rq_Attributes = flags [''operator_identity_authenticated'', ''merge_not_observed''], rq_EventPayload = ''''\<rparr>"

theorem terminal_blocker_only_cancels_witness:
  "\<exists>r s'. Engine_Transition closed_boundaries approved_spec poisoned_store 0 cancel_request = (Inr r, s') \<and>
     er_To r = StateCancelling"
proof -
  let ?run = "Engine_Transition closed_boundaries approved_spec poisoned_store 0 cancel_request"
  have "fst ?run = Inr \<lparr>er_To = ''cancelling'', er_TicketVersion = 6, er_Invalidated = [], er_EventID = ''1''\<rparr>" by code_simp
  then have run: "?run = (Inr \<lparr>er_To = ''cancelling'', er_TicketVersion = 6, er_Invalidated = [], er_EventID = ''1''\<rparr>, snd ?run)"
    by (metis prod.collapse)
  have t: "control_inv (st_db poisoned_store)"
    "ticket_at (st_db poisoned_store) (rq_Ticket cancel_request) = Some (sample_ticket\<lparr>t_State := ''blocked'',
       t_ResumeState := Some ''building'', t_BlockedCode := postbuildCommandFailedBlockerCode\<rparr>)"
    by code_simp+
  have "\<not> by_boundary closed_boundaries poisoned_store p (Inr res) s'" for p res s'
    by (simp add: by_boundary_def evidence_boundaries_def closed_boundaries_def closed_boundary_def)
  then have "er_To \<lparr>er_To = ''cancelling'', er_TicketVersion = 6, er_Invalidated = [], er_EventID = ''1''\<rparr> = StateCancelling"
    using terminal_blocker_only_cancels [OF t _ _ run] by (simp add: nonRecoverableBlockedRecoveryCode_def state_defs)
  with run show ?thesis by metis
qed



end
