(* ===== verification/OrphanSafety.thy ===== *)
theory OrphanSafety
  imports LifecycleSafety
begin

text \<open>
  The recovery of workflow ownership at start-up: whichever way a planning ticket without an owner is
  settled, by blocking it or by restoring its recorded owner, one pass settles every such ticket of the
  channel.
\<close>

section \<open>Settling one orphan\<close>

definition blocked_orphan :: "ticket_row \<Rightarrow> db \<Rightarrow> bool" where
  "blocked_orphan t d \<longleftrightarrow>
     ticket_at d (t_Ref t) = Some (t\<lparr>t_State := ''blocked'', t_BlockedCode := unknown_owner, t_Version := t_Version t + 1\<rparr>)"

definition adopted_orphan :: "ticket_row \<Rightarrow> db \<Rightarrow> bool" where
  "adopted_orphan t d \<longleftrightarrow> ticket_at d (t_Ref t) = Some t \<and>
     owner_at d (t_Ref t) = Some \<lparr>o_Ref = t_Ref t, o_WorkflowID = t_WorkflowID t, o_State = ''owned''\<rparr>"

definition settled_orphan :: "ticket_row \<Rightarrow> db \<Rightarrow> bool" where
  "settled_orphan t d \<longleftrightarrow> (if t_WorkflowID t = '''' then blocked_orphan t d else adopted_orphan t d)"

text \<open>What one turn of the recovery loop owes: it settles its ticket and leaves every other one alone.\<close>

locale orphan_settler =
  fixes settle :: "ticket_row \<Rightarrow> db \<Rightarrow> store_error + db" and goal :: "ticket_row \<Rightarrow> db \<Rightarrow> bool"
  assumes wf: "settle t d = Inr d' \<Longrightarrow> unique_key t_Ref (tickets d) \<Longrightarrow> unique_key t_Ref (tickets d')"
    and frame: "settle t d = Inr d' \<Longrightarrow> unique_key t_Ref (tickets d) \<Longrightarrow> ref \<noteq> t_Ref t \<Longrightarrow>
      ticket_at d' ref = ticket_at d ref \<and> owner_at d' ref = owner_at d ref"
    and settles: "settle t d = Inr d' \<Longrightarrow> unique_key t_Ref (tickets d) \<Longrightarrow> ticket_at d (t_Ref t) = Some t \<Longrightarrow> goal t d'"
    and local: "goal t d \<Longrightarrow> ticket_at d' (t_Ref t) = ticket_at d (t_Ref t) \<Longrightarrow>
      owner_at d' (t_Ref t) = owner_at d (t_Ref t) \<Longrightarrow> goal t d'"
    and no_orphan: "goal t d \<Longrightarrow> ticket_at d (t_Ref t) = Some u \<Longrightarrow> t_State u = ''planning'' \<Longrightarrow> owner_at d (t_Ref t) \<noteq> None"
begin

lemma each_row_settles:
  assumes "each_row settle ts d = Inr d'" and "unique_key t_Ref (tickets d)" and "distinct (map t_Ref ts)"
    and "\<forall>t \<in> set ts. ticket_at d (t_Ref t) = Some t"
  shows "unique_key t_Ref (tickets d') \<and> (\<forall>t \<in> set ts. goal t d') \<and>
    (\<forall>ref. ref \<notin> t_Ref ` set ts \<longrightarrow> ticket_at d' ref = ticket_at d ref \<and> owner_at d' ref = owner_at d ref)"
  using assms
proof (induction ts arbitrary: d)
  case (Cons t ts)
  from Cons.prems(1) obtain d1 where d1: "settle t d = Inr d1" and rest: "each_row settle ts d1 = Inr d'"
    by (auto split: sum.splits)
  note step = wf [OF d1 Cons.prems(2)] frame [OF d1 Cons.prems(2)]
  have new: "t_Ref t \<notin> t_Ref ` set ts" using Cons.prems(3) by simp
  have "\<forall>u \<in> set ts. ticket_at d1 (t_Ref u) = Some u"
    using Cons.prems(4) new step(2) by (metis imageI list.set_intros(2))
  with Cons.IH [OF rest step(1)] Cons.prems(3) have ih: "unique_key t_Ref (tickets d')" "\<forall>u \<in> set ts. goal u d'"
    "\<And>ref. ref \<notin> t_Ref ` set ts \<Longrightarrow> ticket_at d' ref = ticket_at d1 ref \<and> owner_at d' ref = owner_at d1 ref"
    by auto
  have "goal t d1" using settles [OF d1 Cons.prems(2)] Cons.prems(4) by simp
  with ih(3) [OF new] have "goal t d'" by (blast intro: local)
  with ih step(2) show ?case by simp
qed simp

lemma orphan_rows:
  assumes "unique_key t_Ref (tickets d)"
  shows "distinct (map t_Ref (orphans channel d))" and "\<forall>t \<in> set (orphans channel d). ticket_at d (t_Ref t) = Some t"
  using assms row_at_member [OF assms] by (auto simp: orphans_def ticket_at_def unique_key_def intro: distinct_map_filter)

lemma pass_settles:
  assumes ok: "store_write s (settle_orphans_tx settle channel epoch) = (Inr (), s')" and u: "unique_key t_Ref (tickets (st_db s))"
  shows "leader_at (st_db s) channel = Some epoch \<and> orphans channel (st_db s') = [] \<and>
    (\<forall>t \<in> set (orphans channel (st_db s)). goal t (st_db s')) \<and>
    (\<forall>ref. ref \<notin> t_Ref ` set (orphans channel (st_db s)) \<longrightarrow> ticket_at (st_db s') ref = ticket_at (st_db s) ref)"
proof -
  let ?ts = "orphans channel (st_db s)"
  from ok have lead: "leader_at (st_db s) channel = Some epoch" and run: "each_row settle ?ts (st_db s) = Inr (st_db s')"
    by (auto simp: write_Inr_iff settle_orphans_tx_def split: option.splits if_splits sum.splits)
  note all = each_row_settles [OF run u orphan_rows [OF u]]
  have "\<not> (Channel (t_Ref u) = channel \<and> t_State u = ''planning'' \<and> owner_at (st_db s') (t_Ref u) = None)"
    if "u \<in> set (tickets (st_db s'))" for u
  proof
    assume o: "Channel (t_Ref u) = channel \<and> t_State u = ''planning'' \<and> owner_at (st_db s') (t_Ref u) = None"
    have at: "ticket_at (st_db s') (t_Ref u) = Some u"
      using that all row_at_member [of t_Ref "tickets (st_db s')" u] by (simp add: ticket_at_def)
    show False
    proof (cases "t_Ref u \<in> t_Ref ` set ?ts")
      case True
      then obtain t where "t \<in> set ?ts" "t_Ref t = t_Ref u" by auto
      with all no_orphan [of t "st_db s'" u] at o show False by simp
    next
      case False
      with all at o have "ticket_at (st_db s) (t_Ref u) = Some u" "owner_at (st_db s) (t_Ref u) = None" by simp_all
      with u o row_at_member [of t_Ref "tickets (st_db s)" u] have "u \<in> set ?ts" by (simp add: orphans_def ticket_at_def)
      with False show False by blast
    qed
  qed
  then have "orphans channel (st_db s') = []" by (auto simp: orphans_def filter_empty_conv)
  with lead all show ?thesis by blast
qed

end

lemma block_orphan_Inr:
  assumes ok: "block_orphan t d = Inr d'" and u: "unique_key t_Ref (tickets d)"
  shows "unique_key t_Ref (tickets d')" and "owner_at d' = owner_at d"
    and "ref \<noteq> t_Ref t \<Longrightarrow> ticket_at d' ref = ticket_at d ref"
    and "ticket_at d (t_Ref t) = Some t \<Longrightarrow> blocked_orphan t d'"
proof -
  let ?f = "\<lambda>u :: ticket_row. u\<lparr>t_State := ''blocked'', t_BlockedCode := unknown_owner, t_Version := t_Version u + 1\<rparr>"
  from ok have one: "count_where (same_planning t) (tickets d) = 1"
    and d': "tickets d' = update_where (same_planning t) ?f (tickets d)" "workflow_owners d' = workflow_owners d"
    by (auto simp: block_orphan_def insert_event_def Let_def split: if_splits)
  have at: "(\<forall>k. ticket_at d' k = (if k = t_Ref t then Some (?f r) else ticket_at d k)) \<and> unique_key t_Ref (tickets d')"
    if "ticket_at d (t_Ref t) = Some r" for r
    by (rule ticket_table.pinned_update [OF u _ _ one, of "t_Ref t" ?f])
      (use that in \<open>auto simp: ticket_at_def d' same_planning_def\<close>)
  obtain r where r: "ticket_at d (t_Ref t) = Some r"
    by (rule ticket_table.affected_one [OF u _ one, of "t_Ref t"]) (auto simp: same_planning_def ticket_at_def)
  show "unique_key t_Ref (tickets d')" and "owner_at d' = owner_at d" and "ref \<noteq> t_Ref t \<Longrightarrow> ticket_at d' ref = ticket_at d ref"
    using at [OF r] by (simp_all add: owner_at_def d' fun_eq_iff)
  show "blocked_orphan t d'" if "ticket_at d (t_Ref t) = Some t" using at [OF that] by (simp add: blocked_orphan_def)
qed

lemma adopt_orphan_Inr:
  assumes ok: "adopt_orphan t d = Inr d'"
  shows "tickets d' = tickets d" and "owner_at d' ref = (if ref = t_Ref t
    then Some \<lparr>o_Ref = t_Ref t, o_WorkflowID = t_WorkflowID t, o_State = ''owned''\<rparr> else owner_at d ref)"
proof -
  from ok have "owner_at d (t_Ref t) = None" and d': "tickets d' = tickets d"
    "workflow_owners d' = insert_row \<lparr>o_Ref = t_Ref t, o_WorkflowID = t_WorkflowID t, o_State = ''owned''\<rparr> (workflow_owners d)"
    by (auto simp: adopt_orphan_def insert_event_def Let_def split: if_splits)
  then show "tickets d' = tickets d" and "owner_at d' ref = (if ref = t_Ref t
    then Some \<lparr>o_Ref = t_Ref t, o_WorkflowID = t_WorkflowID t, o_State = ''owned''\<rparr> else owner_at d ref)"
    by (simp_all add: owner_at_def owner_table.get_ins)
qed

interpretation blocking: orphan_settler block_orphan blocked_orphan
proof unfold_locales
  fix t d d' and ref
  assume ok: "block_orphan t d = Inr d'" and u: "unique_key t_Ref (tickets d)"
  note facts = block_orphan_Inr [OF ok u]
  show "unique_key t_Ref (tickets d')" by (rule facts(1))
  show "ref \<noteq> t_Ref t \<Longrightarrow> ticket_at d' ref = ticket_at d ref \<and> owner_at d' ref = owner_at d ref" using facts(2,3) by simp
  show "ticket_at d (t_Ref t) = Some t \<Longrightarrow> blocked_orphan t d'" by (rule facts(4))
qed (auto simp: blocked_orphan_def)

interpretation reconciling: orphan_settler settle_orphan settled_orphan
proof unfold_locales
  fix t d d' and ref
  assume ok: "settle_orphan t d = Inr d'" and u: "unique_key t_Ref (tickets d)"
  then consider (b) "t_WorkflowID t = ''''" "block_orphan t d = Inr d'" | (a) "t_WorkflowID t \<noteq> ''''" "adopt_orphan t d = Inr d'"
    by (auto simp: settle_orphan_def split: if_splits)
  then have "unique_key t_Ref (tickets d') \<and>
      (ref \<noteq> t_Ref t \<longrightarrow> ticket_at d' ref = ticket_at d ref \<and> owner_at d' ref = owner_at d ref) \<and>
      (ticket_at d (t_Ref t) = Some t \<longrightarrow> settled_orphan t d')"
  proof cases
    case b
    with block_orphan_Inr [OF b(2) u] show ?thesis by (simp add: settled_orphan_def)
  next
    case a
    note facts = adopt_orphan_Inr [OF a(2)]
    have "ticket_at d' k = ticket_at d k" for k by (simp add: ticket_at_def facts(1))
    with a(1) u facts show ?thesis by (simp add: settled_orphan_def adopted_orphan_def)
  qed
  then show "unique_key t_Ref (tickets d')"
    and "ref \<noteq> t_Ref t \<Longrightarrow> ticket_at d' ref = ticket_at d ref \<and> owner_at d' ref = owner_at d ref"
    and "ticket_at d (t_Ref t) = Some t \<Longrightarrow> settled_orphan t d'"
    by blast+
qed (auto simp: settled_orphan_def blocked_orphan_def adopted_orphan_def split: if_splits)

section \<open>Properties\<close>

text \<open>C37: one successful pass of the recovery leaves no planning ticket of the channel without an owner:
  a ticket that recorded its workflow is owned by it again and otherwise unchanged, a ticket without one is
  blocked one version later with its code set, and every other ticket keeps its row; only the current
  leader of the channel can make the pass.\<close>

theorem recovery_settles_orphans:
  assumes "unique_key t_Ref (tickets (st_db s))" and "ReconcileOrphans s channel epoch = (Inr (), s')"
  shows "leader_at (st_db s) channel = Some epoch \<and> orphans channel (st_db s') = [] \<and>
    (\<forall>t \<in> set (orphans channel (st_db s)). settled_orphan t (st_db s')) \<and>
    (\<forall>ref. ref \<notin> t_Ref ` set (orphans channel (st_db s)) \<longrightarrow> ticket_at (st_db s') ref = ticket_at (st_db s) ref)"
  using reconciling.pass_settles assms unfolding ReconcileOrphans_def by blast

definition orphaned_store :: Store where
  "orphaned_store = sample_store\<lparr>st_db := sample_db\<lparr>tickets := [sample_ticket\<lparr>t_State := ''planning''\<rparr>,
     sample_ticket\<lparr>t_Ref := sample_ref\<lparr>Ticket := ''SF-2''\<rparr>, t_State := ''planning'', t_WorkflowID := ''''\<rparr>]\<rparr>\<rparr>"

theorem recovery_settles_orphans_witness:
  "length (orphans ''dev'' (st_db orphaned_store)) = 2 \<and> orphans ''dev'' (st_db (snd (ReconcileOrphans orphaned_store ''dev'' 2))) = []"
proof
  have "ReconcileOrphans orphaned_store ''dev'' 2 = (Inr (), snd (ReconcileOrphans orphaned_store ''dev'' 2))"
    by (rule prod_eqI) (code_simp, simp)
  moreover have "unique_key t_Ref (tickets (st_db orphaned_store))" by code_simp
  ultimately show "orphans ''dev'' (st_db (snd (ReconcileOrphans orphaned_store ''dev'' 2))) = []"
    using recovery_settles_orphans by blast
qed code_simp

end
