(* ===== verification/PhaseArtifact.thy ===== *)
theory PhaseArtifact
  imports Config JSON_RoundTrip Go_Path
begin

text \<open>
  The typed evidence of the provider roles (\<^verbatim>\<open>internal/phaseartifact/artifact.go\<close>): the four artifact schemas,
  their strict decoding and validation, the canonical durable form and the authority over mutated paths.

  A Go slice is a list or nil, because \<open>reflect.DeepEqual\<close>, \<open>omitempty\<close> and the printed form tell the two
  apart; \<open>elems\<close> is what \<open>range\<close> and \<open>len\<close> see.
\<close>

type_synonym 'a slice = "'a list option"

definition elems :: "'a slice \<Rightarrow> 'a list" where
  "elems s = (case s of None \<Rightarrow> [] | Some xs \<Rightarrow> xs)"

section \<open>Schemas\<close>

definition MaxBytes :: nat where "MaxBytes = 2 ^ 20"

definition ProofRegression :: string where "ProofRegression = ''regression''"
definition ProofAcceptance :: string where "ProofAcceptance = ''acceptance''"
definition ProofCharacterization :: string where "ProofCharacterization = ''characterization''"
definition ProofValidation :: string where "ProofValidation = ''validation''"
definition ProofDocumentation :: string where "ProofDocumentation = ''documentation''"
definition ProofReport :: string where "ProofReport = ''report''"

definition TicketBug :: string where "TicketBug = ''bug''"
definition TicketFeature :: string where "TicketFeature = ''feature''"
definition TicketRefactor :: string where "TicketRefactor = ''refactor''"
definition TicketInfrastructure :: string where "TicketInfrastructure = ''infrastructure''"
definition TicketDocumentation :: string where "TicketDocumentation = ''documentation''"

definition ReviewPass :: string where "ReviewPass = ''pass''"
definition ReviewRepair :: string where "ReviewRepair = ''repair''"
definition ReviewNeedsOperator :: string where "ReviewNeedsOperator = ''needs_operator''"

record ProofPlan =
  pp_Kind :: string
  pp_Command :: "string slice"
  pp_Details :: string

record Question =
  qu_Prompt :: string
  qu_Options :: "string slice"

record PlannerArtifact =
  pl_Schema :: string
  pl_Acceptance :: "string slice"
  pl_Proof :: ProofPlan
  pl_Paths :: "string slice"
  pl_Commands :: "string slice slice"
  pl_Risks :: "string slice"
  pl_Questions :: "Question slice"

record Verification =
  vf_Schema :: string
  vf_AcceptanceDigest :: string
  vf_ProofKind :: string
  vf_OwnedFiles :: "string slice"
  vf_Command :: "string slice"
  vf_PrebuildOutcome :: string
  vf_EvidenceDigest :: string
  vf_RollbackCommand :: "string slice"
  vf_CharacterizationRef :: string

record AmendmentRequest =
  am_OldProofDigest :: string
  am_ProposedDigest :: string
  am_ProposedCommand :: "string slice"
  am_Reason :: string

record BuilderArtifact =
  bu_Schema :: string
  bu_Summary :: string
  bu_ChangedFiles :: "string slice"
  bu_Commands :: "string slice slice"
  bu_AmendmentRequest :: "AmendmentRequest option"

record ReviewerArtifact =
  re_Schema :: string
  re_Decision :: string
  re_RepairOwner :: string
  re_Findings :: "string slice"
  re_ReviewedHead :: string
  re_ProofDigest :: string

record CanonicalArtifact =
  ca_Phase :: string
  ca_Provider :: ProviderIdentity
  ca_Planner :: "PlannerArtifact option"
  ca_Verify :: "Verification option"
  ca_Builder :: "BuilderArtifact option"
  ca_Reviewer :: "ReviewerArtifact option"

text \<open>A parsed artifact is a canonical one with the digest of the provider's bytes.\<close>

record ParsedArtifact = CanonicalArtifact +
  ca_Digest :: string

record ArtifactValidation =
  va_TicketType :: string
  va_AcceptanceDigest :: string
  va_ExpectedVerificationCommand :: "string slice"
  va_ProtectedVerification :: "string slice"
  va_ApprovedAmendmentDigest :: string
  va_ExpectedReviewedHead :: string
  va_ExpectedProofDigest :: string

datatype artifact_error = ArtifactError string "string list" | ErrorIn string artifact_error

abbreviation fail :: "string \<Rightarrow> artifact_error option" where
  "fail message \<equiv> Some (ArtifactError message [])"

section \<open>Shared checks\<close>

fun safe_paths :: "string list \<Rightarrow> string list \<Rightarrow> artifact_error + string list" where
  "safe_paths seen [] = Inr (rev seen)"
| "safe_paths seen (v # vs) =
     (if v = '''' \<or> IsAbs v \<or> CHR 0x00 \<in> set v then Inl (ArtifactError ''unsafe path %q'' [v])
      else if Clean v = ''.'' \<or> Clean v = ''..'' \<or> has_prefix ''../'' (Clean v) then Inl (ArtifactError ''unsafe path %q'' [v])
      else if Clean v \<noteq> v then Inl (ArtifactError ''path %q is not normalized'' [v])
      else if Clean v \<in> set seen then Inl (ArtifactError ''duplicate path %q'' [Clean v])
      else safe_paths (Clean v # seen) vs)"

definition paths :: "string list \<Rightarrow> artifact_error + string list" where
  "paths input = (case safe_paths [] input of Inl e \<Rightarrow> Inl e | Inr result \<Rightarrow> Inr (sort result))"

definition argv :: "string \<Rightarrow> string slice \<Rightarrow> artifact_error option" where
  "argv name values =
     (if elems values = [] \<or> TrimSpace (hd (elems values)) = '''' then Some (ArtifactError ''%s requires an executable'' [name])
      else if 64 < length (elems values) then Some (ArtifactError ''%s has too many arguments'' [name])
      else if list_ex (\<lambda>a. CHR 0x00 \<in> set a) (elems values) then Some (ArtifactError ''%s contains NUL'' [name])
      else None)"

definition stringsList :: "string \<Rightarrow> string slice \<Rightarrow> nat \<Rightarrow> nat \<Rightarrow> artifact_error option" where
  "stringsList name values minimum maximum =
     (if length (elems values) < minimum \<or> maximum < length (elems values)
        then Some (ArtifactError ''%s requires %d to %d values'' [name])
      else if list_ex (\<lambda>v. TrimSpace v = '''' \<or> 4096 < length v) (elems values)
        then Some (ArtifactError ''%s contains an empty or oversized value'' [name])
      else None)"

definition validateProvider :: "ProviderIdentity \<Rightarrow> artifact_error option" where
  "validateProvider i =
     (if pv_Provider i = '''' \<or> pv_Model i = '''' \<or> pv_Family i = '''' \<or> pv_Version i = ''''
        then fail ''complete provider, model, family, and version identity is required'' else None)"

definition intersects :: "string list \<Rightarrow> string list \<Rightarrow> bool" where
  "intersects left right \<longleftrightarrow> list_ex (\<lambda>v. v \<in> set left) right"

definition lowerSHA256 :: "string \<Rightarrow> bool" where
  "lowerSHA256 v \<longleftrightarrow> length v = 64 \<and> list_all lower_hex v"

definition RequiredProofKind :: "string \<Rightarrow> string" where
  "RequiredProofKind ticketType =
     (if ticketType = TicketBug then ProofRegression
      else if ticketType = TicketFeature then ProofAcceptance
      else if ticketType = TicketRefactor then ProofCharacterization
      else if ticketType = TicketInfrastructure then ProofValidation
      else if ticketType = TicketDocumentation then ProofDocumentation
      else if ticketType = TicketSpike then ProofReport
      else '''')"

text \<open>The first error of a sequence of checks, and of a loop over values.\<close>

fun first_of :: "'e option list \<Rightarrow> 'e option" where
  "first_of [] = None"
| "first_of (c # cs) = (case c of None \<Rightarrow> first_of cs | Some e \<Rightarrow> Some e)"

definition wrap_paths :: "string \<Rightarrow> string slice \<Rightarrow> artifact_error option" where
  "wrap_paths name values = (case paths (elems values) of Inl e \<Rightarrow> Some (ErrorIn name e) | Inr _ \<Rightarrow> None)"

section \<open>Validation of each role\<close>

definition check_question :: "Question \<Rightarrow> artifact_error option" where
  "check_question q =
     (if TrimSpace (qu_Prompt q) = '''' \<or> length (elems (qu_Options q)) < 2 \<or> 4 < length (elems (qu_Options q))
        then fail ''each question requires a prompt and 2 to 4 options''
      else stringsList ''question options'' (qu_Options q) 2 4)"

definition validatePlanner :: "PlannerArtifact \<Rightarrow> string \<Rightarrow> artifact_error option" where
  "validatePlanner v ticketType =
     (if pl_Schema v \<noteq> ''sf.planner/v1'' then Some (ArtifactError ''unsupported schema %q'' [pl_Schema v])
      else if \<not> TicketType_Valid ticketType then fail ''valid ticket type is required''
      else first_of
       ([stringsList ''acceptance'' (pl_Acceptance v) 1 50,
         if pp_Kind (pl_Proof v) \<noteq> RequiredProofKind ticketType
           then Some (ArtifactError ''proof kind %q does not satisfy ticket type %q'' [pp_Kind (pl_Proof v), ticketType]) else None,
         argv ''proof command'' (pp_Command (pl_Proof v)),
         if TrimSpace (pp_Details (pl_Proof v)) = '''' then fail ''proof details are required'' else None,
         wrap_paths ''planner paths: %w'' (pl_Paths v),
         if elems (pl_Paths v) = [] then fail ''planner must name at least one affected path'' else None,
         if elems (pl_Commands v) = [] \<or> 20 < length (elems (pl_Commands v))
           then fail ''planner must name 1 to 20 commands'' else None] @
        map (argv ''planner command'') (elems (pl_Commands v)) @
        [stringsList ''risks'' (pl_Risks v) 1 20,
         if 5 < length (elems (pl_Questions v)) then fail ''planner may ask at most 5 questions'' else None] @
        map check_question (elems (pl_Questions v))))"

definition prebuild_check :: "Verification \<Rightarrow> string \<Rightarrow> artifact_error option" where
  "prebuild_check v ticketType =
     (if ticketType = TicketBug then
        (if vf_PrebuildOutcome v \<noteq> ''red'' then fail ''bug proof must demonstrate a red regression before build'' else None)
      else if ticketType = TicketFeature then
        (if vf_PrebuildOutcome v \<noteq> ''red'' \<and> vf_PrebuildOutcome v \<noteq> ''missing''
           then fail ''feature proof must demonstrate a red or missing behavior'' else None)
      else if ticketType = TicketRefactor then
        (if vf_PrebuildOutcome v \<noteq> ''baseline'' \<or> vf_CharacterizationRef v = ''''
           then fail ''refactor proof must record a characterization baseline'' else None)
      else if ticketType = TicketInfrastructure then
        (if vf_PrebuildOutcome v \<noteq> ''dry_run'' \<or> elems (vf_RollbackCommand v) = []
           then fail ''infrastructure proof requires dry-run evidence and a rollback command''
         else argv ''rollback command'' (vf_RollbackCommand v))
      else if ticketType = TicketDocumentation then
        (if vf_PrebuildOutcome v \<noteq> ''check_failed'' then fail ''documentation proof must record a failing executable check'' else None)
      else if ticketType = TicketSpike then
        (if vf_PrebuildOutcome v \<noteq> ''report_ready'' then fail ''spike proof must produce a bounded report'' else None)
      else None)"

definition validateVerification :: "Verification \<Rightarrow> ArtifactValidation \<Rightarrow> artifact_error option" where
  "validateVerification v va =
     (if vf_Schema v \<noteq> ''sf.verification/v1'' then Some (ArtifactError ''unsupported schema %q'' [vf_Schema v])
      else if va_AcceptanceDigest va = '''' \<or> vf_AcceptanceDigest v \<noteq> va_AcceptanceDigest va
        then fail ''verification acceptance digest does not match the accepted plan''
      else if \<not> TicketType_Valid (va_TicketType va) then fail ''valid ticket type is required''
      else if vf_ProofKind v \<noteq> RequiredProofKind (va_TicketType va)
        then Some (ArtifactError ''verification proof kind %q does not satisfy ticket type %q'' [vf_ProofKind v, va_TicketType va])
      else first_of
        [wrap_paths ''verification owned files: %w'' (vf_OwnedFiles v),
         if elems (vf_OwnedFiles v) = [] then fail ''verification must own at least one proof file'' else None,
         argv ''verification command'' (vf_Command v),
         if va_ExpectedVerificationCommand va \<noteq> None \<and> vf_Command v \<noteq> va_ExpectedVerificationCommand va
           then fail ''verification command does not match the configuration snapshot'' else None,
         if vf_EvidenceDigest v = '''' then fail ''verification evidence digest is required'' else None,
         prebuild_check v (va_TicketType va)])"

definition check_amendment :: "AmendmentRequest \<Rightarrow> ArtifactValidation \<Rightarrow> artifact_error option" where
  "check_amendment r va =
     (if \<not> lowerSHA256 (am_OldProofDigest r) \<or> \<not> lowerSHA256 (am_ProposedDigest r) \<or>
         am_OldProofDigest r = am_ProposedDigest r \<or> TrimSpace (am_Reason r) = '''' \<or>
         argv ''verification amendment proposed command'' (am_ProposedCommand r) \<noteq> None
        then fail ''verification amendment request is incomplete''
      else if va_ExpectedVerificationCommand va \<noteq> None \<and> am_ProposedCommand r \<noteq> va_ExpectedVerificationCommand va
        then fail ''verification amendment command does not match the configuration snapshot''
      else if va_ApprovedAmendmentDigest va \<noteq> '''' \<and> am_ProposedDigest r \<noteq> va_ApprovedAmendmentDigest va
        then fail ''verification amendment is not freshly approved''
      else None)"

definition validateBuilder :: "BuilderArtifact \<Rightarrow> ArtifactValidation \<Rightarrow> artifact_error option" where
  "validateBuilder v va =
     (if bu_Schema v \<noteq> ''sf.builder/v1'' then Some (ArtifactError ''unsupported schema %q'' [bu_Schema v])
      else if TrimSpace (bu_Summary v) = '''' then fail ''builder summary is required''
      else case paths (elems (bu_ChangedFiles v)) of
        Inl e \<Rightarrow> Some (ErrorIn ''builder changed files: %w'' e)
      | Inr changed \<Rightarrow>
        if changed = [] then fail ''builder changed files are required''
        else case first_of (map (argv ''builder command'') (elems (bu_Commands v))) of
          Some e \<Rightarrow> Some e
        | None \<Rightarrow>
          if elems (bu_Commands v) = [] then fail ''builder command evidence is required''
          else case paths (elems (va_ProtectedVerification va)) of
            Inl e \<Rightarrow> Some (ErrorIn ''protected verification files: %w'' e)
          | Inr protected \<Rightarrow>
            if intersects changed protected \<and> bu_AmendmentRequest v = None
              then fail ''builder changed protected verification without an amendment request''
            else if \<not> intersects changed protected \<and> bu_AmendmentRequest v \<noteq> None
              then fail ''verification amendment request requires a protected verification change''
            else case bu_AmendmentRequest v of None \<Rightarrow> None | Some r \<Rightarrow> check_amendment r va)"

definition validateReviewer :: "ReviewerArtifact \<Rightarrow> ArtifactValidation \<Rightarrow> artifact_error option" where
  "validateReviewer v va =
     (if re_Schema v \<noteq> ''sf.reviewer/v1'' then Some (ArtifactError ''unsupported schema %q'' [re_Schema v])
      else if re_ReviewedHead v = '''' \<or> re_ReviewedHead v \<noteq> va_ExpectedReviewedHead va
        then fail ''reviewer did not review the exact candidate head''
      else if re_ProofDigest v = '''' \<or> re_ProofDigest v \<noteq> va_ExpectedProofDigest va then fail ''reviewer proof digest is stale''
      else if re_Decision v = ReviewPass then
        (if re_RepairOwner v \<noteq> '''' then fail ''passing review cannot name a repair owner''
         else stringsList ''review findings'' (re_Findings v) 0 50)
      else if re_Decision v = ReviewRepair then
        (if re_RepairOwner v \<noteq> ''builder'' \<and> re_RepairOwner v \<noteq> ''reviewer'' then fail ''repair review must name builder or reviewer''
         else if elems (re_Findings v) = [] then fail ''repair review requires findings''
         else stringsList ''review findings'' (re_Findings v) 0 50)
      else if re_Decision v = ReviewNeedsOperator then
        (if re_RepairOwner v \<noteq> ''operator'' \<or> elems (re_Findings v) = []
           then fail ''needs-operator review requires operator ownership and findings''
         else stringsList ''review findings'' (re_Findings v) 0 50)
      else Some (ArtifactError ''invalid review decision %q'' [re_Decision v]))"

section \<open>Mutated paths\<close>

fun allowed_prefixes :: "string list \<Rightarrow> string list \<Rightarrow> bool" where
  "allowed_prefixes seen [] = True"
| "allowed_prefixes seen (v # vs) =
     (if v = '''' \<or> IsAbs v \<or> Clean v \<noteq> v \<or> (v \<noteq> ''.'' \<and> (v = ''..'' \<or> has_prefix ''../'' v)) \<or> v \<in> set seen then False
      else allowed_prefixes (v # seen) vs)"

definition allowedMutationPrefixes :: "string list \<Rightarrow> bool" where
  "allowedMutationPrefixes values \<longleftrightarrow> values \<noteq> [] \<and> allowed_prefixes [] values"

definition under_prefix :: "string \<Rightarrow> string \<Rightarrow> bool" where
  "under_prefix path prefix \<longleftrightarrow> prefix = ''.'' \<or> path = prefix \<or> has_prefix (prefix @ ''/'') path"

definition declared_paths :: "('a CanonicalArtifact_scheme) \<Rightarrow> artifact_error + string list" where
  "declared_paths p =
     (if ca_Phase p = PhaseBuild then
        (case ca_Builder p of None \<Rightarrow> Inl (ArtifactError ''missing builder artifact'' [])
         | Some b \<Rightarrow> paths (elems (bu_ChangedFiles b)))
      else if ca_Phase p = PhaseVerification then
        (case ca_Verify p of None \<Rightarrow> Inl (ArtifactError ''missing verification artifact'' [])
         | Some v \<Rightarrow> paths (elems (vf_OwnedFiles v)))
      else if ca_Phase p = PhasePlanning \<or> ca_Phase p = PhaseReview then
        (if ca_Planner p = None \<and> ca_Reviewer p = None then Inl (ArtifactError ''missing phase artifact'' []) else Inr [])
      else Inl (ArtifactError ''unsupported artifact phase'' []))"

definition ValidateMutationPaths :: "('a CanonicalArtifact_scheme) \<Rightarrow> string slice \<Rightarrow> string list \<Rightarrow> artifact_error option" where
  "ValidateMutationPaths p reported allowed =
     (case declared_paths p of
        Inl e \<Rightarrow> Some e
      | Inr declared \<Rightarrow>
        (case (case reported of
                 None \<Rightarrow> None
               | Some r \<Rightarrow>
                   (case paths r of
                      Inl e \<Rightarrow> Some e
                    | Inr canonical \<Rightarrow>
                        if declared \<noteq> canonical then fail ''adapter changed-file inventory disagrees with typed artifact'' else None)) of
           Some e \<Rightarrow> Some e
         | None \<Rightarrow>
           if \<not> allowedMutationPrefixes allowed then fail ''invalid allowed paths''
           else case List.find (\<lambda>path. \<not> list_ex (under_prefix path) allowed) declared of
             Some path \<Rightarrow> Some (ArtifactError ''declared mutation path %q is outside allowed paths'' [path])
           | None \<Rightarrow> None))"

section \<open>The printed form\<close>

definition slice_json :: "('a \<Rightarrow> json) \<Rightarrow> 'a slice \<Rightarrow> json" where
  "slice_json f s = (case s of None \<Rightarrow> JNull | Some xs \<Rightarrow> JArr (map f xs))"

abbreviation texts_json :: "string slice \<Rightarrow> json" where
  "texts_json \<equiv> slice_json JStr"

text \<open>A member that \<open>omitempty\<close> drops.\<close>

definition omit_text :: "string \<Rightarrow> string \<Rightarrow> (string \<times> json) list" where
  "omit_text name v = (if v = '''' then [] else [(name, JStr v)])"

definition omit_texts :: "string \<Rightarrow> string slice \<Rightarrow> (string \<times> json) list" where
  "omit_texts name v = (if elems v = [] then [] else [(name, texts_json v)])"

definition omit_pointer :: "string \<Rightarrow> ('a \<Rightarrow> json) \<Rightarrow> 'a option \<Rightarrow> (string \<times> json) list" where
  "omit_pointer name f v = (case v of None \<Rightarrow> [] | Some x \<Rightarrow> [(name, f x)])"

definition provider_json :: "ProviderIdentity \<Rightarrow> json" where
  "provider_json i = JObj [(''Provider'', JStr (pv_Provider i)), (''Model'', JStr (pv_Model i)),
     (''Family'', JStr (pv_Family i)), (''Version'', JStr (pv_Version i))]"

definition proof_json :: "ProofPlan \<Rightarrow> json" where
  "proof_json p = JObj [(''kind'', JStr (pp_Kind p)), (''command'', texts_json (pp_Command p)), (''details'', JStr (pp_Details p))]"

definition question_json :: "Question \<Rightarrow> json" where
  "question_json q = JObj [(''prompt'', JStr (qu_Prompt q)), (''options'', texts_json (qu_Options q))]"

definition planner_json :: "PlannerArtifact \<Rightarrow> json" where
  "planner_json p = JObj [(''schema'', JStr (pl_Schema p)), (''acceptance'', texts_json (pl_Acceptance p)),
     (''proof'', proof_json (pl_Proof p)), (''paths'', texts_json (pl_Paths p)),
     (''commands'', slice_json texts_json (pl_Commands p)), (''risks'', texts_json (pl_Risks p)),
     (''questions'', slice_json question_json (pl_Questions p))]"

definition verification_json :: "Verification \<Rightarrow> json" where
  "verification_json v = JObj ([(''schema'', JStr (vf_Schema v)), (''acceptance_digest'', JStr (vf_AcceptanceDigest v)),
     (''proof_kind'', JStr (vf_ProofKind v)), (''owned_files'', texts_json (vf_OwnedFiles v)),
     (''command'', texts_json (vf_Command v)), (''prebuild_outcome'', JStr (vf_PrebuildOutcome v)),
     (''evidence_digest'', JStr (vf_EvidenceDigest v))] @ omit_texts ''rollback_command'' (vf_RollbackCommand v) @
     omit_text ''characterization_ref'' (vf_CharacterizationRef v))"

definition amendment_json :: "AmendmentRequest \<Rightarrow> json" where
  "amendment_json r = JObj [(''old_proof_digest'', JStr (am_OldProofDigest r)), (''proposed_digest'', JStr (am_ProposedDigest r)),
     (''proposed_command'', texts_json (am_ProposedCommand r)), (''reason'', JStr (am_Reason r))]"

definition builder_json :: "BuilderArtifact \<Rightarrow> json" where
  "builder_json b = JObj ([(''schema'', JStr (bu_Schema b)), (''summary'', JStr (bu_Summary b)),
     (''changed_files'', texts_json (bu_ChangedFiles b)), (''commands'', slice_json texts_json (bu_Commands b))] @
     omit_pointer ''amendment_request'' amendment_json (bu_AmendmentRequest b))"

definition reviewer_json :: "ReviewerArtifact \<Rightarrow> json" where
  "reviewer_json r = JObj ([(''schema'', JStr (re_Schema r)), (''decision'', JStr (re_Decision r))] @
     omit_text ''repair_owner'' (re_RepairOwner r) @ [(''findings'', texts_json (re_Findings r)),
     (''reviewed_head'', JStr (re_ReviewedHead r)), (''proof_digest'', JStr (re_ProofDigest r))])"

definition artifact_json :: "CanonicalArtifact \<Rightarrow> json" where
  "artifact_json a = JObj ([(''phase'', JStr (ca_Phase a)), (''provider'', provider_json (ca_Provider a))] @
     omit_pointer ''planner'' planner_json (ca_Planner a) @ omit_pointer ''verification'' verification_json (ca_Verify a) @
     omit_pointer ''builder'' builder_json (ca_Builder a) @ omit_pointer ''reviewer'' reviewer_json (ca_Reviewer a))"

definition validation_json :: "ArtifactValidation \<Rightarrow> json" where
  "validation_json v = JObj ([(''TicketType'', JStr (va_TicketType v)), (''AcceptanceDigest'', JStr (va_AcceptanceDigest v))] @
     omit_texts ''ExpectedVerificationCommand'' (va_ExpectedVerificationCommand v) @
     [(''ProtectedVerification'', texts_json (va_ProtectedVerification v)),
      (''ApprovedAmendmentDigest'', JStr (va_ApprovedAmendmentDigest v)),
      (''ExpectedReviewedHead'', JStr (va_ExpectedReviewedHead v)), (''ExpectedProofDigest'', JStr (va_ExpectedProofDigest v))])"

section \<open>Decoding\<close>

definition decode_slice :: "(json \<Rightarrow> 'a option) \<Rightarrow> json \<Rightarrow> 'a slice \<Rightarrow> 'a slice option" where
  "decode_slice dec j x =
     (case j of JArr es \<Rightarrow> map_option Some (those (map dec es)) | JNull \<Rightarrow> Some None | _ \<Rightarrow> None)"

abbreviation decode_texts :: "json \<Rightarrow> string slice \<Rightarrow> string slice option" where
  "decode_texts \<equiv> decode_slice (\<lambda>e. decode_string e '''')"

abbreviation decode_argvs :: "json \<Rightarrow> string slice slice \<Rightarrow> string slice slice option" where
  "decode_argvs \<equiv> decode_slice (\<lambda>e. decode_texts e None)"

definition decode_pointer :: "(json \<Rightarrow> 'a \<Rightarrow> 'a option) \<Rightarrow> 'a \<Rightarrow> json \<Rightarrow> 'a option \<Rightarrow> 'a option option" where
  "decode_pointer dec zero j x =
     (case j of JNull \<Rightarrow> Some None | _ \<Rightarrow> map_option Some (dec j (case x of None \<Rightarrow> zero | Some v \<Rightarrow> v)))"

definition zero_provider :: ProviderIdentity where
  "zero_provider = \<lparr>pv_Provider = '''', pv_Model = '''', pv_Family = '''', pv_Version = ''''\<rparr>"

definition zero_question :: Question where
  "zero_question = \<lparr>qu_Prompt = '''', qu_Options = None\<rparr>"

definition zero_planner :: PlannerArtifact where
  "zero_planner = \<lparr>pl_Schema = '''', pl_Acceptance = None, pl_Proof = \<lparr>pp_Kind = '''', pp_Command = None, pp_Details = ''''\<rparr>,
     pl_Paths = None, pl_Commands = None, pl_Risks = None, pl_Questions = None\<rparr>"

definition zero_verification :: Verification where
  "zero_verification = \<lparr>vf_Schema = '''', vf_AcceptanceDigest = '''', vf_ProofKind = '''', vf_OwnedFiles = None, vf_Command = None,
     vf_PrebuildOutcome = '''', vf_EvidenceDigest = '''', vf_RollbackCommand = None, vf_CharacterizationRef = ''''\<rparr>"

definition zero_amendment :: AmendmentRequest where
  "zero_amendment = \<lparr>am_OldProofDigest = '''', am_ProposedDigest = '''', am_ProposedCommand = None, am_Reason = ''''\<rparr>"

definition zero_builder :: BuilderArtifact where
  "zero_builder = \<lparr>bu_Schema = '''', bu_Summary = '''', bu_ChangedFiles = None, bu_Commands = None, bu_AmendmentRequest = None\<rparr>"

definition zero_reviewer :: ReviewerArtifact where
  "zero_reviewer = \<lparr>re_Schema = '''', re_Decision = '''', re_RepairOwner = '''', re_Findings = None, re_ReviewedHead = '''',
     re_ProofDigest = ''''\<rparr>"

definition zero_artifact :: CanonicalArtifact where
  "zero_artifact = \<lparr>ca_Phase = '''', ca_Provider = zero_provider, ca_Planner = None, ca_Verify = None, ca_Builder = None,
     ca_Reviewer = None\<rparr>"

definition zero_validation :: ArtifactValidation where
  "zero_validation = \<lparr>va_TicketType = '''', va_AcceptanceDigest = '''', va_ExpectedVerificationCommand = None,
     va_ProtectedVerification = None, va_ApprovedAmendmentDigest = '''', va_ExpectedReviewedHead = '''',
     va_ExpectedProofDigest = ''''\<rparr>"

definition decode_provider :: "json \<Rightarrow> ProviderIdentity \<Rightarrow> ProviderIdentity option" where
  "decode_provider = decode_struct True
     [(''Provider'', at_field pv_Provider (\<lambda>v. pv_Provider_update (\<lambda>_. v)) decode_string),
      (''Model'', at_field pv_Model (\<lambda>v. pv_Model_update (\<lambda>_. v)) decode_string),
      (''Family'', at_field pv_Family (\<lambda>v. pv_Family_update (\<lambda>_. v)) decode_string),
      (''Version'', at_field pv_Version (\<lambda>v. pv_Version_update (\<lambda>_. v)) decode_string)]"

definition decode_proof :: "json \<Rightarrow> ProofPlan \<Rightarrow> ProofPlan option" where
  "decode_proof = decode_struct True
     [(''kind'', at_field pp_Kind (\<lambda>v. pp_Kind_update (\<lambda>_. v)) decode_string),
      (''command'', at_field pp_Command (\<lambda>v. pp_Command_update (\<lambda>_. v)) decode_texts),
      (''details'', at_field pp_Details (\<lambda>v. pp_Details_update (\<lambda>_. v)) decode_string)]"

definition decode_question :: "json \<Rightarrow> Question \<Rightarrow> Question option" where
  "decode_question = decode_struct True
     [(''prompt'', at_field qu_Prompt (\<lambda>v. qu_Prompt_update (\<lambda>_. v)) decode_string),
      (''options'', at_field qu_Options (\<lambda>v. qu_Options_update (\<lambda>_. v)) decode_texts)]"

definition decode_planner :: "json \<Rightarrow> PlannerArtifact \<Rightarrow> PlannerArtifact option" where
  "decode_planner = decode_struct True
     [(''schema'', at_field pl_Schema (\<lambda>v. pl_Schema_update (\<lambda>_. v)) decode_string),
      (''acceptance'', at_field pl_Acceptance (\<lambda>v. pl_Acceptance_update (\<lambda>_. v)) decode_texts),
      (''proof'', at_field pl_Proof (\<lambda>v. pl_Proof_update (\<lambda>_. v)) decode_proof),
      (''paths'', at_field pl_Paths (\<lambda>v. pl_Paths_update (\<lambda>_. v)) decode_texts),
      (''commands'', at_field pl_Commands (\<lambda>v. pl_Commands_update (\<lambda>_. v)) decode_argvs),
      (''risks'', at_field pl_Risks (\<lambda>v. pl_Risks_update (\<lambda>_. v)) decode_texts),
      (''questions'', at_field pl_Questions (\<lambda>v. pl_Questions_update (\<lambda>_. v))
         (decode_slice (\<lambda>e. decode_question e zero_question)))]"

definition decode_verification :: "json \<Rightarrow> Verification \<Rightarrow> Verification option" where
  "decode_verification = decode_struct True
     [(''schema'', at_field vf_Schema (\<lambda>v. vf_Schema_update (\<lambda>_. v)) decode_string),
      (''acceptance_digest'', at_field vf_AcceptanceDigest (\<lambda>v. vf_AcceptanceDigest_update (\<lambda>_. v)) decode_string),
      (''proof_kind'', at_field vf_ProofKind (\<lambda>v. vf_ProofKind_update (\<lambda>_. v)) decode_string),
      (''owned_files'', at_field vf_OwnedFiles (\<lambda>v. vf_OwnedFiles_update (\<lambda>_. v)) decode_texts),
      (''command'', at_field vf_Command (\<lambda>v. vf_Command_update (\<lambda>_. v)) decode_texts),
      (''prebuild_outcome'', at_field vf_PrebuildOutcome (\<lambda>v. vf_PrebuildOutcome_update (\<lambda>_. v)) decode_string),
      (''evidence_digest'', at_field vf_EvidenceDigest (\<lambda>v. vf_EvidenceDigest_update (\<lambda>_. v)) decode_string),
      (''rollback_command'', at_field vf_RollbackCommand (\<lambda>v. vf_RollbackCommand_update (\<lambda>_. v)) decode_texts),
      (''characterization_ref'', at_field vf_CharacterizationRef (\<lambda>v. vf_CharacterizationRef_update (\<lambda>_. v)) decode_string)]"

definition decode_amendment :: "json \<Rightarrow> AmendmentRequest \<Rightarrow> AmendmentRequest option" where
  "decode_amendment = decode_struct True
     [(''old_proof_digest'', at_field am_OldProofDigest (\<lambda>v. am_OldProofDigest_update (\<lambda>_. v)) decode_string),
      (''proposed_digest'', at_field am_ProposedDigest (\<lambda>v. am_ProposedDigest_update (\<lambda>_. v)) decode_string),
      (''proposed_command'', at_field am_ProposedCommand (\<lambda>v. am_ProposedCommand_update (\<lambda>_. v)) decode_texts),
      (''reason'', at_field am_Reason (\<lambda>v. am_Reason_update (\<lambda>_. v)) decode_string)]"

definition decode_builder :: "json \<Rightarrow> BuilderArtifact \<Rightarrow> BuilderArtifact option" where
  "decode_builder = decode_struct True
     [(''schema'', at_field bu_Schema (\<lambda>v. bu_Schema_update (\<lambda>_. v)) decode_string),
      (''summary'', at_field bu_Summary (\<lambda>v. bu_Summary_update (\<lambda>_. v)) decode_string),
      (''changed_files'', at_field bu_ChangedFiles (\<lambda>v. bu_ChangedFiles_update (\<lambda>_. v)) decode_texts),
      (''commands'', at_field bu_Commands (\<lambda>v. bu_Commands_update (\<lambda>_. v)) decode_argvs),
      (''amendment_request'', at_field bu_AmendmentRequest (\<lambda>v. bu_AmendmentRequest_update (\<lambda>_. v))
         (decode_pointer decode_amendment zero_amendment))]"

definition decode_reviewer :: "json \<Rightarrow> ReviewerArtifact \<Rightarrow> ReviewerArtifact option" where
  "decode_reviewer = decode_struct True
     [(''schema'', at_field re_Schema (\<lambda>v. re_Schema_update (\<lambda>_. v)) decode_string),
      (''decision'', at_field re_Decision (\<lambda>v. re_Decision_update (\<lambda>_. v)) decode_string),
      (''repair_owner'', at_field re_RepairOwner (\<lambda>v. re_RepairOwner_update (\<lambda>_. v)) decode_string),
      (''findings'', at_field re_Findings (\<lambda>v. re_Findings_update (\<lambda>_. v)) decode_texts),
      (''reviewed_head'', at_field re_ReviewedHead (\<lambda>v. re_ReviewedHead_update (\<lambda>_. v)) decode_string),
      (''proof_digest'', at_field re_ProofDigest (\<lambda>v. re_ProofDigest_update (\<lambda>_. v)) decode_string)]"

definition decode_artifact :: "json \<Rightarrow> CanonicalArtifact \<Rightarrow> CanonicalArtifact option" where
  "decode_artifact = decode_struct True
     [(''phase'', at_field ca_Phase (\<lambda>v. ca_Phase_update (\<lambda>_. v)) decode_string),
      (''provider'', at_field ca_Provider (\<lambda>v. ca_Provider_update (\<lambda>_. v)) decode_provider),
      (''planner'', at_field ca_Planner (\<lambda>v. ca_Planner_update (\<lambda>_. v)) (decode_pointer decode_planner zero_planner)),
      (''verification'', at_field ca_Verify (\<lambda>v. ca_Verify_update (\<lambda>_. v)) (decode_pointer decode_verification zero_verification)),
      (''builder'', at_field ca_Builder (\<lambda>v. ca_Builder_update (\<lambda>_. v)) (decode_pointer decode_builder zero_builder)),
      (''reviewer'', at_field ca_Reviewer (\<lambda>v. ca_Reviewer_update (\<lambda>_. v)) (decode_pointer decode_reviewer zero_reviewer))]"

definition decode_validation :: "json \<Rightarrow> ArtifactValidation \<Rightarrow> ArtifactValidation option" where
  "decode_validation = decode_struct True
     [(''TicketType'', at_field va_TicketType (\<lambda>v. va_TicketType_update (\<lambda>_. v)) decode_string),
      (''AcceptanceDigest'', at_field va_AcceptanceDigest (\<lambda>v. va_AcceptanceDigest_update (\<lambda>_. v)) decode_string),
      (''ExpectedVerificationCommand'', at_field va_ExpectedVerificationCommand
         (\<lambda>v. va_ExpectedVerificationCommand_update (\<lambda>_. v)) decode_texts),
      (''ProtectedVerification'', at_field va_ProtectedVerification (\<lambda>v. va_ProtectedVerification_update (\<lambda>_. v)) decode_texts),
      (''ApprovedAmendmentDigest'', at_field va_ApprovedAmendmentDigest (\<lambda>v. va_ApprovedAmendmentDigest_update (\<lambda>_. v)) decode_string),
      (''ExpectedReviewedHead'', at_field va_ExpectedReviewedHead (\<lambda>v. va_ExpectedReviewedHead_update (\<lambda>_. v)) decode_string),
      (''ExpectedProofDigest'', at_field va_ExpectedProofDigest (\<lambda>v. va_ExpectedProofDigest_update (\<lambda>_. v)) decode_string)]"

text \<open>
  One value, no unknown field, nothing behind it: a text with a second value is no valid JSON text, and the
  second call of the decoder then reports something other than the end of the input.
\<close>

definition decodeStrict :: "(json \<Rightarrow> 'a \<Rightarrow> 'a option) \<Rightarrow> 'a \<Rightarrow> string \<Rightarrow> 'a option" where
  "decodeStrict dec zero data = Option.bind (json_parse data) (\<lambda>j. dec j zero)"

section \<open>The durable form\<close>

definition validCanonicalArtifact :: "('a CanonicalArtifact_scheme) \<Rightarrow> bool" where
  "validCanonicalArtifact v =
     (if ca_Phase v = PhasePlanning
        then ca_Planner v \<noteq> None \<and> ca_Verify v = None \<and> ca_Builder v = None \<and> ca_Reviewer v = None
      else if ca_Phase v = PhaseVerification
        then ca_Planner v = None \<and> ca_Verify v \<noteq> None \<and> ca_Builder v = None \<and> ca_Reviewer v = None
      else if ca_Phase v = PhaseBuild
        then ca_Planner v = None \<and> ca_Verify v = None \<and> ca_Builder v \<noteq> None \<and> ca_Reviewer v = None
      else if ca_Phase v = PhaseReview
        then ca_Planner v = None \<and> ca_Verify v = None \<and> ca_Builder v = None \<and> ca_Reviewer v \<noteq> None
      else False)"

definition CanonicalTypedArtifact :: "('a CanonicalArtifact_scheme) \<Rightarrow> artifact_error + (string \<times> string)" where
  "CanonicalTypedArtifact p =
     (if validateProvider (ca_Provider p) \<noteq> None then Inl (ArtifactError ''invalid provider artifact'' [])
      else if \<not> validCanonicalArtifact p then Inl (ArtifactError ''invalid typed provider artifact'' [])
      else let b = print_json (artifact_json (CanonicalArtifact.truncate p)) in
        if MaxBytes * 2 < length b then Inl (ArtifactError ''canonical artifact too large'' [])
        else Inr (b, sha256_hex b))"

definition DecodeCanonicalTypedArtifact :: "string \<Rightarrow> artifact_error + CanonicalArtifact" where
  "DecodeCanonicalTypedArtifact data =
     (if data = [] \<or> MaxBytes * 2 < length data then Inl (ArtifactError ''invalid canonical artifact'' [])
      else case decodeStrict decode_artifact zero_artifact data of
        None \<Rightarrow> Inl (ArtifactError ''invalid canonical artifact'' [])
      | Some v \<Rightarrow>
        (case CanonicalTypedArtifact v of
           Inl _ \<Rightarrow> Inl (ArtifactError ''canonical artifact is not canonical'' [])
         | Inr (canonical, _) \<Rightarrow>
             if canonical \<noteq> data then Inl (ArtifactError ''canonical artifact is not canonical'' []) else Inr v))"

definition BuilderEvidenceDigest :: "BuilderArtifact \<Rightarrow> artifact_error + string" where
  "BuilderEvidenceDigest b =
     (let data = print_json (builder_json b) in
      if data = [] \<or> MaxBytes < length data then Inl (ArtifactError ''invalid builder evidence'' []) else Inr (sha256_hex data))"

definition CanonicalValidation :: "ArtifactValidation \<Rightarrow> artifact_error + (string \<times> string)" where
  "CanonicalValidation v =
     (case (if va_ExpectedVerificationCommand v \<noteq> None
            then argv ''expected verification command'' (va_ExpectedVerificationCommand v) else None) of
        Some e \<Rightarrow> Inl e
      | None \<Rightarrow>
        (let b = print_json (validation_json v) in
         if b = [] \<or> 65536 < length b then Inl (ArtifactError ''invalid validation'' []) else Inr (b, sha256_hex b)))"

definition DecodeCanonicalValidation :: "string \<Rightarrow> artifact_error + ArtifactValidation" where
  "DecodeCanonicalValidation data =
     (if data = [] \<or> 65536 < length data then Inl (ArtifactError ''invalid canonical validation'' [])
      else case decodeStrict decode_validation zero_validation data of
        None \<Rightarrow> Inl (ArtifactError ''invalid canonical validation'' [])
      | Some v \<Rightarrow>
        (case CanonicalValidation v of
           Inl _ \<Rightarrow> Inl (ArtifactError ''canonical validation is not canonical'' [])
         | Inr (canonical, _) \<Rightarrow>
             if canonical \<noteq> data then Inl (ArtifactError ''canonical validation is not canonical'' []) else Inr v))"

section \<open>Parsing a provider's answer\<close>

definition role_result ::
  "(json \<Rightarrow> 'a \<Rightarrow> 'a option) \<Rightarrow> 'a \<Rightarrow> ('a \<Rightarrow> artifact_error option) \<Rightarrow> string \<Rightarrow> artifact_error + 'a" where
  "role_result dec zero check data =
     (case decodeStrict dec zero data of
        None \<Rightarrow> Inl (ArtifactError ''decode'' [])
      | Some v \<Rightarrow> (case check v of Some e \<Rightarrow> Inl e | None \<Rightarrow> Inr v))"

definition Parse :: "string \<Rightarrow> string \<Rightarrow> ProviderIdentity \<Rightarrow> ArtifactValidation \<Rightarrow> artifact_error + ParsedArtifact" where
  "Parse phase data provider va =
     (case validateProvider provider of
        Some e \<Rightarrow> Inl e
      | None \<Rightarrow>
        if data = [] then Inl (ArtifactError ''phase artifact is required'' [])
        else if MaxBytes < length data then Inl (ArtifactError ''phase artifact exceeds %d bytes'' [])
        else if \<not> utf8_ok data then Inl (ArtifactError ''phase artifact is not valid UTF-8'' [])
        else
          (let p = \<lparr>ca_Phase = phase, ca_Provider = provider, ca_Planner = None, ca_Verify = None, ca_Builder = None,
                   ca_Reviewer = None, ca_Digest = ''sha256:'' @ sha256_hex data\<rparr>;
               failed = (\<lambda>e. Inl (ErrorIn ''validate %s artifact: %w'' e)) in
           if phase = PhasePlanning then
             (case role_result decode_planner zero_planner (\<lambda>v. validatePlanner v (va_TicketType va)) data of
                Inl e \<Rightarrow> failed e | Inr v \<Rightarrow> Inr (p\<lparr>ca_Planner := Some v\<rparr>))
           else if phase = PhaseVerification then
             (case role_result decode_verification zero_verification (\<lambda>v. validateVerification v va) data of
                Inl e \<Rightarrow> failed e | Inr v \<Rightarrow> Inr (p\<lparr>ca_Verify := Some v\<rparr>))
           else if phase = PhaseBuild then
             (case role_result decode_builder zero_builder (\<lambda>v. validateBuilder v va) data of
                Inl e \<Rightarrow> failed e | Inr v \<Rightarrow> Inr (p\<lparr>ca_Builder := Some v\<rparr>))
           else if phase = PhaseReview then
             (case role_result decode_reviewer zero_reviewer (\<lambda>v. validateReviewer v va) data of
                Inl e \<Rightarrow> failed e | Inr v \<Rightarrow> Inr (p\<lparr>ca_Reviewer := Some v\<rparr>))
           else Inl (ArtifactError ''phase %q has no provider artifact schema'' [phase])))"

end
