(* ===== verification/ArtifactSafety.thy ===== *)
theory ArtifactSafety
  imports PhaseArtifact
begin

text \<open>
  What the artifact boundary promises: a parsed answer carries exactly the value of its role, validated; a
  declared mutation stays below an allowed prefix; protected verification changes only together with an
  amendment request; and the durable form reads back as the value it was made from.
\<close>

section \<open>Paths\<close>

lemma safe_paths_Inr:
  assumes "safe_paths seen vs = Inr result" and "distinct seen"
  shows "result = rev seen @ vs \<and> distinct result \<and> (\<forall>v \<in> set vs. list_all proper (split_at (CHR ''/'') v) \<and> \<not> IsAbs v \<and> CHR 0x00 \<notin> set v)"
  using assms
proof (induction seen vs rule: safe_paths.induct)
  case (2 seen v vs)
  from "2.prems"(1) have ok: "\<not> (v = '''' \<or> IsAbs v \<or> CHR 0x00 \<in> set v)"
      "\<not> (Clean v = ''.'' \<or> Clean v = ''..'' \<or> has_prefix ''../'' (Clean v))" "Clean v = v" "Clean v \<notin> set seen"
      and rest: "safe_paths (Clean v # seen) vs = Inr result"
    by (simp_all split: if_splits)
  note v = ok(1) ok(2) [unfolded ok(3)] ok(3) ok(4) [unfolded ok(3)]
  from "2.IH" [OF ok(1,2) _ ok(4) rest] ok(3) v(4) "2.prems"(2) have "result = rev (v # seen) @ vs \<and> distinct result \<and>
      (\<forall>v \<in> set vs. list_all proper (split_at (CHR ''/'') v) \<and> \<not> IsAbs v \<and> CHR 0x00 \<notin> set v)"
    by (auto simp: ok(3))
  moreover have "list_all proper (split_at (CHR ''/'') v)" using v by (intro clean_components) auto
  ultimately show ?case using v by auto
qed auto

lemma paths_Inr:
  assumes "paths vs = Inr result"
  shows "set result = set vs" and "distinct result" and "sorted result" and "distinct vs"
    and "v \<in> set vs \<Longrightarrow> list_all proper (split_at (CHR ''/'') v) \<and> \<not> IsAbs v \<and> CHR 0x00 \<notin> set v"
  using assms safe_paths_Inr [of "[]" vs] by (auto simp: paths_def split: sum.splits)

lemma paths_Nil: "paths vs = Inr [] \<longleftrightarrow> vs = []"
  using paths_Inr(1) [of vs "[]"] by (auto simp: paths_def)

lemma split_at_concat: "split_at x (a @ x # s) = split_at x a @ split_at x s"
  by (induction a) (auto split: list.splits)

text \<open>A path below a prefix has the prefix's components in front.\<close>

lemma under_prefix_components:
  assumes "under_prefix path prefix" and "prefix \<noteq> ''.''"
  shows "\<exists>rest. split_at (CHR ''/'') path = split_at (CHR ''/'') prefix @ rest"
proof (cases "path = prefix")
  case False
  with assms have "take (length (prefix @ ''/'')) path = prefix @ ''/''" by (simp add: under_prefix_def has_prefix_def)
  then have "path = prefix @ CHR ''/'' # drop (length (prefix @ ''/'')) path"
    by (metis append_Cons append_assoc append_self_conv2 append_take_drop_id)
  then show ?thesis by (metis split_at_concat)
qed simp

section \<open>Roles\<close>

lemma first_of_None: "first_of cs = None \<longleftrightarrow> (\<forall>c \<in> set cs. c = None)"
  by (induction cs) (auto split: option.splits)

lemma role_result_Inr: "role_result dec zero check data = Inr v \<Longrightarrow> check v = None \<and> decodeStrict dec zero data = Some v"
  by (auto simp: role_result_def split: option.splits)

lemma Parse_Inr:
  assumes "Parse phase data provider va = Inr p"
  shows "ca_Phase p = phase \<and> ca_Provider p = provider \<and> ca_Digest p = ''sha256:'' @ sha256_hex data \<and> validateProvider provider = None \<and>
    data \<noteq> [] \<and> length data \<le> MaxBytes \<and>
    (phase = PhasePlanning \<and> (\<exists>v. p = \<lparr>ca_Phase = phase, ca_Provider = provider, ca_Planner = Some v, ca_Verify = None, ca_Builder = None,
        ca_Reviewer = None, ca_Digest = ''sha256:'' @ sha256_hex data\<rparr> \<and> validatePlanner v (va_TicketType va) = None) \<or>
     phase = PhaseVerification \<and> (\<exists>v. p = \<lparr>ca_Phase = phase, ca_Provider = provider, ca_Planner = None, ca_Verify = Some v, ca_Builder = None,
        ca_Reviewer = None, ca_Digest = ''sha256:'' @ sha256_hex data\<rparr> \<and> validateVerification v va = None) \<or>
     phase = PhaseBuild \<and> (\<exists>v. p = \<lparr>ca_Phase = phase, ca_Provider = provider, ca_Planner = None, ca_Verify = None, ca_Builder = Some v,
        ca_Reviewer = None, ca_Digest = ''sha256:'' @ sha256_hex data\<rparr> \<and> validateBuilder v va = None) \<or>
     phase = PhaseReview \<and> (\<exists>v. p = \<lparr>ca_Phase = phase, ca_Provider = provider, ca_Planner = None, ca_Verify = None, ca_Builder = None,
        ca_Reviewer = Some v, ca_Digest = ''sha256:'' @ sha256_hex data\<rparr> \<and> validateReviewer v va = None))"
  using assms unfolding Parse_def
  by (auto simp: Let_def not_less dest: role_result_Inr split: option.splits if_splits sum.splits)

lemma validateBuilder_None:
  assumes "validateBuilder b va = None"
  obtains changed protected where "paths (elems (bu_ChangedFiles b)) = Inr changed" and "changed \<noteq> []"
    and "paths (elems (va_ProtectedVerification va)) = Inr protected"
    and "intersects changed protected \<longleftrightarrow> bu_AmendmentRequest b \<noteq> None"
    and "\<And>r. bu_AmendmentRequest b = Some r \<Longrightarrow> check_amendment r va = None"
    and "\<forall>c \<in> set (elems (bu_Commands b)). argv ''builder command'' c = None" and "elems (bu_Commands b) \<noteq> []"
  using assms unfolding validateBuilder_def
  by (auto simp: first_of_None split: if_splits sum.splits option.splits)

section \<open>Decoding what was printed\<close>

lemma those_map_Some: "(\<And>x. x \<in> set xs \<Longrightarrow> dec (f x) = Some x) \<Longrightarrow> those (map dec (map f xs)) = Some xs"
  by (induction xs) auto

lemma decode_slice_json [simp]:
  assumes "\<And>x. dec (f x) = Some x"
  shows "decode_slice dec (slice_json f s) y = Some s"
  using those_map_Some [of _ dec f] assms by (cases s) (auto simp: decode_slice_def slice_json_def)

lemma decode_string_printed [simp]: "decode_string (JStr s) x = Some s"
  by (simp add: decode_string_def)

lemmas decode_simps = decode_struct_def find_field_def at_field_def

lemma decode_provider_json: "decode_provider (provider_json i) x = Some i"
  by (cases i) (simp add: decode_provider_def provider_json_def decode_simps)

lemma decode_proof_json: "decode_proof (proof_json p) x = Some p"
  by (cases p) (simp add: decode_proof_def proof_json_def decode_simps)

lemma decode_question_json: "decode_question (question_json q) x = Some q"
  by (cases q) (simp add: decode_question_def question_json_def decode_simps)

lemma decode_planner_json: "decode_planner (planner_json p) x = Some p"
  by (cases p) (simp add: decode_planner_def planner_json_def decode_simps decode_proof_json decode_question_json)

lemma decode_amendment_json: "decode_amendment (amendment_json r) x = Some r"
  by (cases r) (simp add: decode_amendment_def amendment_json_def decode_simps)

lemma decode_pointer_json:
  assumes "\<And>x. dec (JObj ms) x = Some v"
  shows "decode_pointer dec zero (JObj ms) x = Some (Some v)"
  using assms by (simp add: decode_pointer_def)

text \<open>
  An empty rollback command is omitted, so it reads back as an absent one; every other field is
  preserved.
\<close>

definition normal_verification :: "Verification \<Rightarrow> Verification" where
  "normal_verification v = v\<lparr>vf_RollbackCommand := (if elems (vf_RollbackCommand v) = [] then None else vf_RollbackCommand v)\<rparr>"

definition normal_artifact :: "CanonicalArtifact \<Rightarrow> CanonicalArtifact" where
  "normal_artifact a = a\<lparr>ca_Verify := map_option normal_verification (ca_Verify a)\<rparr>"

lemma decode_members_append:
  "decode_members strict fs (ms @ ns) x = Option.bind (decode_members strict fs ms x) (decode_members strict fs ns)"
  by (induction ms arbitrary: x) (auto split: option.splits)

lemma decode_verification_json: "decode_verification (verification_json v) zero_verification = Some (normal_verification v)"
  by (cases v) (simp add: decode_verification_def verification_json_def omit_texts_def omit_text_def decode_simps
      zero_verification_def normal_verification_def decode_members_append)

lemma decode_builder_json: "decode_builder (builder_json b) zero_builder = Some b"
  by (cases b; cases "bu_AmendmentRequest b")
    (auto simp: decode_builder_def builder_json_def omit_pointer_def decode_simps zero_builder_def decode_pointer_def
      amendment_json_def decode_amendment_json [unfolded amendment_json_def] decode_members_append)

lemma decode_reviewer_json: "decode_reviewer (reviewer_json r) zero_reviewer = Some r"
  by (cases r) (simp add: decode_reviewer_def reviewer_json_def omit_text_def decode_simps zero_reviewer_def decode_members_append)

lemma role_json_object:
  "\<exists>ms. planner_json p = JObj ms" "\<exists>ms. verification_json v = JObj ms" "\<exists>ms. builder_json b = JObj ms" "\<exists>ms. reviewer_json r = JObj ms"
  by (simp_all add: planner_json_def verification_json_def builder_json_def reviewer_json_def)

lemma decode_role_json:
  "decode_pointer decode_planner zero_planner (planner_json p) None = Some (Some p)"
  "decode_pointer decode_verification zero_verification (verification_json v) None = Some (Some (normal_verification v))"
  "decode_pointer decode_builder zero_builder (builder_json b) None = Some (Some b)"
  "decode_pointer decode_reviewer zero_reviewer (reviewer_json r) None = Some (Some r)"
  using role_json_object(1) [of p] role_json_object(2) [of v] role_json_object(3) [of b] role_json_object(4) [of r]
    decode_planner_json [of p zero_planner] decode_verification_json [of v] decode_builder_json [of b] decode_reviewer_json [of r]
  by (auto simp: decode_pointer_def)

lemma decode_artifact_json: "decode_artifact (artifact_json a) zero_artifact = Some (normal_artifact a)"
proof -
  obtain phase provider planner verify builder reviewer where a: "a = \<lparr>ca_Phase = phase, ca_Provider = provider, ca_Planner = planner,
      ca_Verify = verify, ca_Builder = builder, ca_Reviewer = reviewer\<rparr>" by (cases a)
  show ?thesis
    unfolding a decode_artifact_def artifact_json_def
    by (cases planner; cases verify; cases builder; cases reviewer)
      (simp_all add: omit_pointer_def decode_simps zero_artifact_def decode_provider_json decode_role_json normal_artifact_def)
qed

lemma decode_validation_json:
  assumes "va_ExpectedVerificationCommand v = None \<or> elems (va_ExpectedVerificationCommand v) \<noteq> []"
  shows "decode_validation (validation_json v) zero_validation = Some v"
  using assms by (cases v) (auto simp: decode_validation_def validation_json_def omit_texts_def decode_simps zero_validation_def
      decode_members_append elems_def)

section \<open>The durable form\<close>

lemma depth_members_append: "depth_members (ms @ ns) = max (depth_members ms) (depth_members ns)"
  by (induction ms) auto

lemma depth_slice: "(\<And>x. depth (f x) \<le> n) \<Longrightarrow> depth (slice_json f s) \<le> Suc n"
proof -
  assume f: "\<And>x. depth (f x) \<le> n"
  have "depth_elements (map f xs) \<le> n" for xs using f by (induction xs) auto
  then show ?thesis by (cases s) (auto simp: slice_json_def)
qed

lemma depth_texts: "depth (texts_json s) \<le> 1"
  using depth_slice [of JStr 0 s] by simp

lemma depth_omit: "depth_members (omit_texts k s) \<le> 1" "depth_members (omit_text k t) \<le> 1"
  "(\<And>x. depth (f x) \<le> n) \<Longrightarrow> depth_members (omit_pointer k f x) \<le> n"
  using depth_texts [of s] by (auto simp: omit_texts_def omit_text_def omit_pointer_def split: option.splits)

lemma depth_roles: "depth (planner_json p) \<le> 5" "depth (verification_json v) \<le> 5" "depth (builder_json b) \<le> 5" "depth (reviewer_json r) \<le> 5"
proof -
  have q: "depth (question_json x) \<le> 2" for x using depth_texts [of "qu_Options x"] by (simp add: question_json_def)
  have a: "depth (amendment_json x) \<le> 2" for x using depth_texts [of "am_ProposedCommand x"] by (simp add: amendment_json_def)
  have c: "depth (slice_json texts_json x) \<le> 2" for x using depth_slice [of texts_json 1 x] depth_texts by simp
  note d = depth_texts [THEN order_trans, of 4] depth_texts [THEN order_trans, of 3] c [THEN order_trans, of 4] q a
  show "depth (planner_json p) \<le> 5"
    using depth_slice [of question_json 2 "pl_Questions p"] q by (simp add: planner_json_def proof_json_def d)
  show "depth (verification_json v) \<le> 5"
    using depth_omit(1) [THEN order_trans, of 4] depth_omit(2) [THEN order_trans, of 4]
    by (simp add: verification_json_def depth_members_append d)
  show "depth (builder_json b) \<le> 5"
    using depth_omit(3) [of amendment_json 2, THEN order_trans, of 4] a by (simp add: builder_json_def depth_members_append d)
  show "depth (reviewer_json r) \<le> 5"
    using depth_omit(2) [THEN order_trans, of 4] by (simp add: reviewer_json_def depth_members_append d)
qed

lemma depth_artifact: "depth (artifact_json a) \<le> 10000"
  using depth_omit(3) [of planner_json 5, THEN order_trans, of 9999] depth_omit(3) [of verification_json 5, THEN order_trans, of 9999]
    depth_omit(3) [of builder_json 5, THEN order_trans, of 9999] depth_omit(3) [of reviewer_json 5, THEN order_trans, of 9999] depth_roles
  by (simp add: artifact_json_def depth_members_append provider_json_def)

lemma printed_artifact_decodes:
  assumes "wf_json (artifact_json a)"
  shows "decodeStrict decode_artifact zero_artifact (print_json (artifact_json a)) = Some (normal_artifact a)"
  using json_parse_print [OF assms depth_artifact] decode_artifact_json by (simp add: decodeStrict_def)

lemma normal_same_json: "artifact_json (normal_artifact a) = artifact_json a"
proof -
  have v: "verification_json (normal_verification v) = verification_json v" for v
    by (auto simp: normal_verification_def verification_json_def omit_texts_def elems_def)
  then show ?thesis by (cases "ca_Verify a") (simp_all add: normal_artifact_def artifact_json_def omit_pointer_def)
qed

lemma normal_valid: "validCanonicalArtifact (normal_artifact a) = validCanonicalArtifact a" "ca_Provider (normal_artifact a) = ca_Provider a"
  by (simp_all add: normal_artifact_def validCanonicalArtifact_def)

lemma truncate_valid: "validCanonicalArtifact (CanonicalArtifact.truncate p) = validCanonicalArtifact p"
  "ca_Provider (CanonicalArtifact.truncate p) = ca_Provider p"
  by (simp_all add: CanonicalArtifact.truncate_def validCanonicalArtifact_def)

lemma CanonicalTypedArtifact_Inr:
  assumes "CanonicalTypedArtifact p = Inr (b, dg)"
  shows "validateProvider (ca_Provider p) = None" and "validCanonicalArtifact p"
    and "b = print_json (artifact_json (CanonicalArtifact.truncate p))" and "length b \<le> MaxBytes * 2" and "dg = sha256_hex b"
  using assms unfolding CanonicalTypedArtifact_def Let_def by (auto simp: not_less split: if_splits)

lemma CanonicalTypedArtifact_ok:
  assumes "validateProvider (ca_Provider p) = None" and "validCanonicalArtifact p"
    and "length (print_json (artifact_json (CanonicalArtifact.truncate p))) \<le> MaxBytes * 2"
  shows "CanonicalTypedArtifact p = Inr (print_json (artifact_json (CanonicalArtifact.truncate p)),
    sha256_hex (print_json (artifact_json (CanonicalArtifact.truncate p))))"
  using assms by (simp add: CanonicalTypedArtifact_def Let_def not_less)

lemma canonical_decodes:
  assumes ok: "CanonicalTypedArtifact p = Inr (b, dg)" and wf: "wf_json (artifact_json (CanonicalArtifact.truncate p))"
  shows "DecodeCanonicalTypedArtifact b = Inr (normal_artifact (CanonicalArtifact.truncate p))"
proof -
  let ?a = "normal_artifact (CanonicalArtifact.truncate p)"
  note p = CanonicalTypedArtifact_Inr [OF ok]
  have same: "CanonicalArtifact.truncate ?a = ?a" by (simp add: CanonicalArtifact.truncate_def)
  have json: "print_json (artifact_json (CanonicalArtifact.truncate ?a)) = b" unfolding same normal_same_json p(3) ..
  have canon: "CanonicalTypedArtifact ?a = Inr (b, sha256_hex b)"
    using CanonicalTypedArtifact_ok [of ?a] p(1,2,4) by (simp only: json normal_valid truncate_valid)
  have dec: "decodeStrict decode_artifact zero_artifact b = Some ?a" unfolding p(3) by (rule printed_artifact_decodes [OF wf])
  have "b \<noteq> []" by (simp add: p(3) artifact_json_def)
  with p(4) show ?thesis unfolding DecodeCanonicalTypedArtifact_def dec option.case canon by simp
qed

lemma DecodeCanonicalTypedArtifact_Inr:
  assumes "DecodeCanonicalTypedArtifact data = Inr v"
  shows "CanonicalTypedArtifact v = Inr (data, sha256_hex data)"
proof -
  obtain w where w: "decodeStrict decode_artifact zero_artifact data = Some w"
    using assms unfolding DecodeCanonicalTypedArtifact_def
    by (cases "decodeStrict decode_artifact zero_artifact data"; simp split: if_splits)
  obtain b dg where b: "CanonicalTypedArtifact w = Inr (b, dg)"
    using assms unfolding DecodeCanonicalTypedArtifact_def w
    by (cases "CanonicalTypedArtifact w") (simp split: if_splits, metis surj_pair)
  have "b = data \<and> w = v"
    using assms unfolding DecodeCanonicalTypedArtifact_def w option.case b by (simp split: if_splits)
  with b CanonicalTypedArtifact_Inr(5) [OF b] show ?thesis by simp
qed

section \<open>Sample artifacts\<close>

definition sample_provider :: ProviderIdentity where
  "sample_provider = \<lparr>pv_Provider = ''p'', pv_Model = ''m'', pv_Family = ''f'', pv_Version = ''1''\<rparr>"

definition sample_builder :: BuilderArtifact where
  "sample_builder = \<lparr>bu_Schema = ''sf.builder/v1'', bu_Summary = ''done'', bu_ChangedFiles = Some [''src/a.go''],
     bu_Commands = Some [Some [''go'', ''test'']], bu_AmendmentRequest = None\<rparr>"

definition sample_artifact :: CanonicalArtifact where
  "sample_artifact = \<lparr>ca_Phase = PhaseBuild, ca_Provider = sample_provider, ca_Planner = None, ca_Verify = None,
     ca_Builder = Some sample_builder, ca_Reviewer = None\<rparr>"

definition sample_validation :: ArtifactValidation where
  "sample_validation = zero_validation\<lparr>va_TicketType := TicketBug, va_ProtectedVerification := Some [''src/a_test.go'']\<rparr>"

section \<open>Properties\<close>

text \<open>C23: when the check of mutated paths succeeds, every path the typed artifact declares is relative and made
  of proper names only, so it cannot leave the worktree, and it lies component by component below one of
  the allowed prefixes; a reported inventory names exactly the declared paths.\<close>

theorem mutations_stay_below_allowed:
  assumes ok: "ValidateMutationPaths p reported allowed = None"
  shows "\<exists>declared. declared_paths p = Inr declared \<and> distinct declared \<and>
    (\<forall>path \<in> set declared. list_all proper (split_at (CHR ''/'') path) \<and> \<not> IsAbs path \<and>
      (\<exists>prefix \<in> set allowed. prefix = ''.'' \<or> (\<exists>rest. split_at (CHR ''/'') path = split_at (CHR ''/'') prefix @ rest))) \<and>
    (\<forall>r. reported = Some r \<longrightarrow> set r = set declared \<and> distinct r)"
proof -
  obtain declared where d: "declared_paths p = Inr declared"
    using ok by (cases "declared_paths p") (simp_all add: ValidateMutationPaths_def)
  have rep: "paths r = Inr declared" if "reported = Some r" for r
    using ok that by (cases "paths r") (simp_all add: ValidateMutationPaths_def d split: if_splits)
  have "List.find (\<lambda>path. \<not> list_ex (under_prefix path) allowed) declared = None"
    using ok rep by (cases reported) (simp_all add: ValidateMutationPaths_def d split: if_splits option.splits)
  then have all: "\<forall>path \<in> set declared. list_ex (under_prefix path) allowed" by (simp add: find_None_iff)
  from d obtain vs where vs: "paths vs = Inr declared"
    using paths_Nil [of "[]"] by (auto simp: declared_paths_def split: if_splits option.splits)
  have "\<exists>prefix \<in> set allowed. prefix = ''.'' \<or> (\<exists>rest. split_at (CHR ''/'') path = split_at (CHR ''/'') prefix @ rest)"
    if "path \<in> set declared" for path
    using all that under_prefix_components [of path] unfolding list_ex_iff by blast
  moreover have "set r = set declared \<and> distinct r" if "reported = Some r" for r
    using paths_Inr [OF rep [OF that]] by simp
  ultimately show ?thesis using d paths_Inr [OF vs] by auto
qed

theorem mutations_stay_below_allowed_witness:
  "ValidateMutationPaths sample_artifact (Some [''src/a.go'']) [''src''] = None \<and>
   (\<exists>declared. declared_paths sample_artifact = Inr declared \<and> (\<forall>path \<in> set declared. list_all proper (split_at (CHR ''/'') path)))"
proof
  show ok: "ValidateMutationPaths sample_artifact (Some [''src/a.go'']) [''src''] = None" by code_simp
  from mutations_stay_below_allowed [OF ok]
  show "\<exists>declared. declared_paths sample_artifact = Inr declared \<and> (\<forall>path \<in> set declared. list_all proper (split_at (CHR ''/'') path))"
    by blast
qed

text \<open>A parsed answer is bounded, names its phase and provider, carries the digest of its exact bytes and
  holds the validated value of its own role and of no other; a builder's answer changes only normalised
  paths, and it touches protected verification files exactly when it asks for an amendment between two
  different digests with the command of the configuration snapshot.\<close>

theorem parsed_artifact_typed:
  assumes ok: "Parse phase data provider va = Inr p"
  shows "validCanonicalArtifact p \<and> ca_Phase p = phase \<and> ca_Provider p = provider \<and> ca_Digest p = ''sha256:'' @ sha256_hex data \<and>
    0 < length data \<and> length data \<le> MaxBytes \<and>
    (\<forall>v. ca_Planner p = Some v \<longrightarrow> validatePlanner v (va_TicketType va) = None) \<and>
    (\<forall>v. ca_Verify p = Some v \<longrightarrow> validateVerification v va = None) \<and>
    (\<forall>v. ca_Reviewer p = Some v \<longrightarrow> validateReviewer v va = None) \<and>
    (\<forall>b. ca_Builder p = Some b \<longrightarrow>
      (\<forall>path \<in> set (elems (bu_ChangedFiles b)). list_all proper (split_at (CHR ''/'') path)) \<and>
      (set (elems (bu_ChangedFiles b)) \<inter> set (elems (va_ProtectedVerification va)) \<noteq> {} \<longleftrightarrow> bu_AmendmentRequest b \<noteq> None) \<and>
      (\<forall>r. bu_AmendmentRequest b = Some r \<longrightarrow> am_OldProofDigest r \<noteq> am_ProposedDigest r \<and>
        (va_ExpectedVerificationCommand va = None \<or> am_ProposedCommand r = va_ExpectedVerificationCommand va)))"
proof -
  have builder: "(\<forall>path \<in> set (elems (bu_ChangedFiles b)). list_all proper (split_at (CHR ''/'') path)) \<and>
      (set (elems (bu_ChangedFiles b)) \<inter> set (elems (va_ProtectedVerification va)) \<noteq> {} \<longleftrightarrow> bu_AmendmentRequest b \<noteq> None) \<and>
      (\<forall>r. bu_AmendmentRequest b = Some r \<longrightarrow> am_OldProofDigest r \<noteq> am_ProposedDigest r \<and>
        (va_ExpectedVerificationCommand va = None \<or> am_ProposedCommand r = va_ExpectedVerificationCommand va))"
    if "validateBuilder b va = None" for b
  proof (rule validateBuilder_None [OF that])
    fix changed protected
    assume c: "paths (elems (bu_ChangedFiles b)) = Inr changed" and pr: "paths (elems (va_ProtectedVerification va)) = Inr protected"
      and i: "intersects changed protected \<longleftrightarrow> bu_AmendmentRequest b \<noteq> None"
      and am: "\<And>r. bu_AmendmentRequest b = Some r \<Longrightarrow> check_amendment r va = None"
    have "intersects changed protected \<longleftrightarrow> set (elems (bu_ChangedFiles b)) \<inter> set (elems (va_ProtectedVerification va)) \<noteq> {}"
      using paths_Inr(1) [OF c] paths_Inr(1) [OF pr] by (auto simp: intersects_def list_ex_iff)
    with i paths_Inr(5) [OF c] am show ?thesis by (auto simp: check_amendment_def split: if_splits)
  qed
  note p = Parse_Inr [OF ok]
  then consider v where "ca_Planner p = Some v" "ca_Verify p = None" "ca_Builder p = None" "ca_Reviewer p = None"
      "phase = PhasePlanning" "validatePlanner v (va_TicketType va) = None"
    | v where "ca_Planner p = None" "ca_Verify p = Some v" "ca_Builder p = None" "ca_Reviewer p = None"
      "phase = PhaseVerification" "validateVerification v va = None"
    | v where "ca_Planner p = None" "ca_Verify p = None" "ca_Builder p = Some v" "ca_Reviewer p = None"
      "phase = PhaseBuild" "validateBuilder v va = None"
    | v where "ca_Planner p = None" "ca_Verify p = None" "ca_Builder p = None" "ca_Reviewer p = Some v"
      "phase = PhaseReview" "validateReviewer v va = None"
    by (elim conjE disjE exE) simp_all
  then show ?thesis
  proof cases
    case (3 v)
    with p builder [OF 3(6)] show ?thesis by (simp add: validCanonicalArtifact_def phase_defs)
  qed (use p in \<open>simp_all add: validCanonicalArtifact_def phase_defs\<close>)
qed

theorem parsed_artifact_typed_witness:
  "\<exists>p. Parse PhaseBuild (print_json (builder_json sample_builder)) sample_provider sample_validation = Inr p \<and>
     validCanonicalArtifact p \<and> ca_Builder p = Some sample_builder"
proof -
  have wf: "wf_json (builder_json sample_builder)" "depth (builder_json sample_builder) \<le> 10000" by code_simp+
  have dec: "decodeStrict decode_builder zero_builder (print_json (builder_json sample_builder)) = Some sample_builder"
    using json_parse_print [OF wf] decode_builder_json by (simp add: decodeStrict_def)
  have val: "validateBuilder sample_builder sample_validation = None" "validateProvider sample_provider = None"
    "utf8_ok (print_json (builder_json sample_builder))" "print_json (builder_json sample_builder) \<noteq> []"
    "length (print_json (builder_json sample_builder)) < 2000"
    by code_simp+
  have p: "Parse PhaseBuild (print_json (builder_json sample_builder)) sample_provider sample_validation =
      Inr \<lparr>ca_Phase = PhaseBuild, ca_Provider = sample_provider, ca_Planner = None, ca_Verify = None, ca_Builder = Some sample_builder,
        ca_Reviewer = None, ca_Digest = ''sha256:'' @ sha256_hex (print_json (builder_json sample_builder))\<rparr>"
    using val by (simp add: Parse_def role_result_def dec Let_def MaxBytes_def phase_defs)
  from parsed_artifact_typed [OF p] p show ?thesis by auto
qed

text \<open>C34: the durable form of an artifact whose texts are well-formed UTF-8 reads back as the same artifact,
  except that an empty rollback command becomes an absent one; and a stored text is accepted only if it is
  itself the canonical form of the value it yields.\<close>

theorem canonical_artifact_roundtrip:
  assumes "wf_json (artifact_json (CanonicalArtifact.truncate p))"
  shows "(CanonicalTypedArtifact p = Inr (b, dg) \<longrightarrow>
      DecodeCanonicalTypedArtifact b = Inr (normal_artifact (CanonicalArtifact.truncate p)) \<and> dg = sha256_hex b) \<and>
    (DecodeCanonicalTypedArtifact data = Inr v \<longrightarrow> CanonicalTypedArtifact v = Inr (data, sha256_hex data))"
  using canonical_decodes [OF _ assms] DecodeCanonicalTypedArtifact_Inr CanonicalTypedArtifact_Inr(5) by blast

theorem canonical_artifact_roundtrip_witness:
  "DecodeCanonicalTypedArtifact (print_json (artifact_json sample_artifact)) = Inr sample_artifact"
proof -
  let ?b = "print_json (artifact_json sample_artifact)"
  have t: "CanonicalArtifact.truncate sample_artifact = sample_artifact" by (simp add: sample_artifact_def CanonicalArtifact.truncate_def)
  have wf: "wf_json (artifact_json sample_artifact)" by code_simp
  have n: "normal_artifact sample_artifact = sample_artifact" by (simp add: normal_artifact_def sample_artifact_def)
  have val: "validateProvider (ca_Provider sample_artifact) = None" "validCanonicalArtifact sample_artifact" "length ?b < 2000" by code_simp+
  have "CanonicalTypedArtifact sample_artifact = Inr (?b, sha256_hex ?b)"
    using CanonicalTypedArtifact_ok [of sample_artifact] val by (simp add: t MaxBytes_def)
  with canonical_artifact_roundtrip [of sample_artifact ?b "sha256_hex ?b"] wf show ?thesis by (simp add: t n)
qed

end
