(* ===== verification/Candidate.thy ===== *)
theory Candidate
  imports JSON_RoundTrip Go_Sha256 Domain
begin

text \<open>
  \<^verbatim>\<open>internal/candidate/candidate.go\<close>: the identity of a candidate change and the gates whose evidence
  belongs to exactly one candidate. The snapshot is \<open>domain.CandidateSnapshot\<close>, a gate is one of five
  texts, and the evidence records per gate the digest it was given for. \<open>Digest\<close> hashes the JSON form of
  the snapshot; a snapshot of texts and one number always encodes, so the encoding error of the source
  has no branch here.
\<close>

section \<open>Data\<close>

definition GateVerificationIntent :: string where "GateVerificationIntent = ''verification_intent''"
definition GateProofResult :: string where "GateProofResult = ''proof_result''"
definition GateChecks :: string where "GateChecks = ''github_checks''"
definition GateFinalReview :: string where "GateFinalReview = ''final_review''"
definition GateApproval :: string where "GateApproval = ''approval''"

lemmas gate_defs =
  GateVerificationIntent_def GateProofResult_def GateChecks_def GateFinalReview_def GateApproval_def

definition downstreamGates :: "string list" where
  "downstreamGates = [GateProofResult, GateChecks, GateFinalReview, GateApproval]"

definition allGates :: "string list" where
  "allGates = [GateVerificationIntent, GateProofResult, GateChecks, GateFinalReview, GateApproval]"

record Evidence =
  ev_VerificationIntentDigest :: string
  ev_ProofCandidateDigest :: string
  ev_ChecksCandidateDigest :: string
  ev_ReviewCandidateDigest :: string
  ev_ApprovalCandidateDigest :: string

datatype candidate_error =
  GenerationNotPositive
| FieldRequired string
| ErrStaleEvidence string
| UnknownGate string

section \<open>Identity\<close>

fun required_fields :: "(string \<times> string) list \<Rightarrow> candidate_error option" where
  "required_fields [] = None"
| "required_fields ((name, field) # rest) = (if field = '''' then Some (FieldRequired name) else required_fields rest)"

definition Candidate_Validate :: "CandidateSnapshot \<Rightarrow> candidate_error option" where
  "Candidate_Validate snapshot =
     (if cs_Generation snapshot = 0 then Some GenerationNotPositive
      else required_fields
        [(''base SHA'', cs_BaseSHA snapshot), (''head SHA'', cs_HeadSHA snapshot),
         (''tree SHA'', cs_TreeSHA snapshot), (''source digest'', cs_SourceDigest snapshot),
         (''verification intent digest'', cs_VerificationIntentDigest snapshot),
         (''proof digest'', cs_ProofDigest snapshot),
         (''command policy digest'', cs_CommandPolicyDigest snapshot),
         (''builder evidence digest'', cs_BuilderEvidenceDigest snapshot)])"

definition candidate_json :: "CandidateSnapshot \<Rightarrow> json" where
  "candidate_json snapshot =
     JObj [(''Generation'', JNum (print_int (uint (cs_Generation snapshot)))),
           (''BaseSHA'', JStr (cs_BaseSHA snapshot)), (''HeadSHA'', JStr (cs_HeadSHA snapshot)),
           (''TreeSHA'', JStr (cs_TreeSHA snapshot)), (''SourceDigest'', JStr (cs_SourceDigest snapshot)),
           (''VerificationIntentDigest'', JStr (cs_VerificationIntentDigest snapshot)),
           (''ProofDigest'', JStr (cs_ProofDigest snapshot)),
           (''CommandPolicyDigest'', JStr (cs_CommandPolicyDigest snapshot)),
           (''BuilderEvidenceDigest'', JStr (cs_BuilderEvidenceDigest snapshot))]"

definition snapshot_digest :: "CandidateSnapshot \<Rightarrow> string" where
  "snapshot_digest snapshot = ''sha256:'' @ sha256_hex (print_json (candidate_json snapshot))"

definition Candidate_Digest :: "CandidateSnapshot \<Rightarrow> candidate_error + string" where
  "Candidate_Digest snapshot =
     (case Candidate_Validate snapshot of
        Some e \<Rightarrow> Inl e
      | None \<Rightarrow> Inr (snapshot_digest snapshot))"

section \<open>Gates\<close>

definition Invalidated :: "CandidateSnapshot \<Rightarrow> CandidateSnapshot \<Rightarrow> bool \<Rightarrow> string list" where
  "Invalidated previous next_snapshot verificationFilesChanged =
     (if previous = next_snapshot \<and> \<not> verificationFilesChanged then []
      else if verificationFilesChanged \<or>
        cs_VerificationIntentDigest previous \<noteq> cs_VerificationIntentDigest next_snapshot then allGates
      else downstreamGates)"

definition clear_gate :: "string \<Rightarrow> Evidence \<Rightarrow> Evidence" where
  "clear_gate gate evidence =
     (if gate = GateVerificationIntent then evidence\<lparr>ev_VerificationIntentDigest := ''''\<rparr>
      else if gate = GateProofResult then evidence\<lparr>ev_ProofCandidateDigest := ''''\<rparr>
      else if gate = GateChecks then evidence\<lparr>ev_ChecksCandidateDigest := ''''\<rparr>
      else if gate = GateFinalReview then evidence\<lparr>ev_ReviewCandidateDigest := ''''\<rparr>
      else if gate = GateApproval then evidence\<lparr>ev_ApprovalCandidateDigest := ''''\<rparr>
      else evidence)"

definition ApplyInvalidation :: "Evidence \<Rightarrow> string list \<Rightarrow> Evidence" where
  "ApplyInvalidation evidence invalidated = fold clear_gate invalidated evidence"

definition require_gate :: "CandidateSnapshot \<Rightarrow> string \<Rightarrow> Evidence \<Rightarrow> string \<Rightarrow> candidate_error option" where
  "require_gate snapshot digest evidence gate =
     (if gate = GateVerificationIntent then
        (if ev_VerificationIntentDigest evidence \<noteq> cs_VerificationIntentDigest snapshot
         then Some (ErrStaleEvidence gate) else None)
      else if gate = GateProofResult then
        (if ev_ProofCandidateDigest evidence \<noteq> digest then Some (ErrStaleEvidence gate) else None)
      else if gate = GateChecks then
        (if ev_ChecksCandidateDigest evidence \<noteq> digest then Some (ErrStaleEvidence gate) else None)
      else if gate = GateFinalReview then
        (if ev_ReviewCandidateDigest evidence \<noteq> digest then Some (ErrStaleEvidence gate) else None)
      else if gate = GateApproval then
        (if ev_ApprovalCandidateDigest evidence \<noteq> digest then Some (ErrStaleEvidence gate) else None)
      else Some (UnknownGate gate))"

fun require_gates :: "CandidateSnapshot \<Rightarrow> string \<Rightarrow> Evidence \<Rightarrow> string list \<Rightarrow> candidate_error option" where
  "require_gates snapshot digest evidence [] = None"
| "require_gates snapshot digest evidence (gate # gates) =
     (case require_gate snapshot digest evidence gate of
        Some e \<Rightarrow> Some e
      | None \<Rightarrow> require_gates snapshot digest evidence gates)"

definition RequireCurrent :: "CandidateSnapshot \<Rightarrow> Evidence \<Rightarrow> string list \<Rightarrow> candidate_error option" where
  "RequireCurrent snapshot evidence gates =
     (case Candidate_Digest snapshot of
        Inl e \<Rightarrow> Some e
      | Inr digest \<Rightarrow> require_gates snapshot digest evidence gates)"

definition Bind :: "CandidateSnapshot \<Rightarrow> Evidence \<Rightarrow> string \<Rightarrow> candidate_error + Evidence" where
  "Bind snapshot evidence gate =
     (case Candidate_Digest snapshot of
        Inl e \<Rightarrow> Inl e
      | Inr digest \<Rightarrow>
          if gate = GateVerificationIntent then
            Inr (evidence\<lparr>ev_VerificationIntentDigest := cs_VerificationIntentDigest snapshot\<rparr>)
          else if gate = GateProofResult then Inr (evidence\<lparr>ev_ProofCandidateDigest := digest\<rparr>)
          else if gate = GateChecks then Inr (evidence\<lparr>ev_ChecksCandidateDigest := digest\<rparr>)
          else if gate = GateFinalReview then Inr (evidence\<lparr>ev_ReviewCandidateDigest := digest\<rparr>)
          else if gate = GateApproval then Inr (evidence\<lparr>ev_ApprovalCandidateDigest := digest\<rparr>)
          else Inl (UnknownGate gate))"

section \<open>What a gate holds\<close>

text \<open>The abstract view: evidence is a function from gates to the digest recorded for them.\<close>

definition gate_digest :: "Evidence \<Rightarrow> string \<Rightarrow> string" where
  "gate_digest evidence gate =
     (if gate = GateVerificationIntent then ev_VerificationIntentDigest evidence
      else if gate = GateProofResult then ev_ProofCandidateDigest evidence
      else if gate = GateChecks then ev_ChecksCandidateDigest evidence
      else if gate = GateFinalReview then ev_ReviewCandidateDigest evidence
      else if gate = GateApproval then ev_ApprovalCandidateDigest evidence
      else '''')"

definition wanted_digest :: "CandidateSnapshot \<Rightarrow> string \<Rightarrow> string" where
  "wanted_digest snapshot gate =
     (if gate = GateVerificationIntent then cs_VerificationIntentDigest snapshot
      else snapshot_digest snapshot)"

lemma gate_digest_clear [simp]:
  "gate_digest (clear_gate h e) g = (if g = h then '''' else gate_digest e g)"
  by (simp add: gate_digest_def clear_gate_def gate_defs)

lemma gate_digest_invalidation:
  "gate_digest (ApplyInvalidation e gs) g = (if g \<in> set gs then '''' else gate_digest e g)"
  unfolding ApplyInvalidation_def by (induction gs arbitrary: e) auto

lemma Candidate_Digest_Inr:
  "Candidate_Digest s = Inr d \<longleftrightarrow> Candidate_Validate s = None \<and> d = snapshot_digest s"
  by (auto simp: Candidate_Digest_def split: option.splits)

lemma wanted_nonempty: "Candidate_Validate s = None \<Longrightarrow> wanted_digest s g \<noteq> ''''"
  by (simp add: wanted_digest_def snapshot_digest_def Candidate_Validate_def split: if_splits)

lemma require_gate_None:
  "require_gate s (snapshot_digest s) e g = None \<longleftrightarrow>
     g \<in> set allGates \<and> gate_digest e g = wanted_digest s g"
  by (simp add: require_gate_def gate_digest_def wanted_digest_def allGates_def gate_defs)

lemma require_gates_None:
  "require_gates s d e gs = None \<longleftrightarrow> list_all (\<lambda>g. require_gate s d e g = None) gs"
  by (induction gs) (auto split: option.splits)

lemma RequireCurrent_None:
  "RequireCurrent s e gs = None \<longleftrightarrow> Candidate_Validate s = None \<and>
     list_all (\<lambda>g. g \<in> set allGates \<and> gate_digest e g = wanted_digest s g) gs"
  by (auto simp: RequireCurrent_def Candidate_Digest_def require_gates_None require_gate_None split: option.splits)

lemma Bind_Inr:
  assumes "Bind s e g = Inr e'"
  shows "Candidate_Validate s = None" "g \<in> set allGates"
    "gate_digest e' h = (if h = g then wanted_digest s g else gate_digest e h)"
proof -
  show v: "Candidate_Validate s = None" using assms by (simp add: Bind_def Candidate_Digest_def split: option.splits)
  show g: "g \<in> set allGates"
    using assms v by (simp add: Bind_def Candidate_Digest_def allGates_def split: if_splits)
  then consider "g = GateVerificationIntent" | "g = GateProofResult" | "g = GateChecks" | "g = GateFinalReview" | "g = GateApproval"
    by (auto simp: allGates_def)
  then show "gate_digest e' h = (if h = g then wanted_digest s g else gate_digest e h)"
    by cases (insert assms v, simp_all add: Bind_def Candidate_Digest_def gate_defs, (hypsubst, simp add: gate_digest_def wanted_digest_def gate_defs)+)
qed

lemma Bind_ok: "Candidate_Validate s = None \<Longrightarrow> g \<in> set allGates \<Longrightarrow> \<exists>e'. Bind s e g = Inr e'"
  by (auto simp: Bind_def Candidate_Digest_def allGates_def)

text \<open>A run of gate completions for one candidate.\<close>

fun bind_gates :: "CandidateSnapshot \<Rightarrow> Evidence \<Rightarrow> string list \<Rightarrow> candidate_error + Evidence" where
  "bind_gates snapshot evidence [] = Inr evidence"
| "bind_gates snapshot evidence (gate # gates) =
     (case Bind snapshot evidence gate of Inl e \<Rightarrow> Inl e | Inr evidence' \<Rightarrow> bind_gates snapshot evidence' gates)"

lemma bind_gates_digest:
  "bind_gates s e gs = Inr e' \<Longrightarrow>
     gate_digest e' h = (if h \<in> set gs then wanted_digest s h else gate_digest e h)"
proof (induction gs arbitrary: e)
  case (Cons g gs)
  then obtain e1 where e1: "Bind s e g = Inr e1" "bind_gates s e1 gs = Inr e'" by (auto split: sum.splits)
  with Cons.IH [OF e1(2)] Bind_Inr(3) [OF e1(1), of h] show ?case by auto
qed simp

section \<open>Identity is injective up to the hash\<close>

lemma candidate_json_inject: "candidate_json s = candidate_json t \<longleftrightarrow> s = t"
proof
  assume "candidate_json s = candidate_json t"
  then have g: "nat (uint (cs_Generation s)) = nat (uint (cs_Generation t))" and f: "CandidateSnapshot.truncate s = (CandidateSnapshot.truncate t)\<lparr>cs_Generation := cs_Generation s\<rparr>"
    by (simp_all add: candidate_json_def print_int_def itoa_inject CandidateSnapshot.truncate_def)
  from g have "cs_Generation s = cs_Generation t" by (simp add: word_unat_eq_iff)
  with f show "s = t" by (simp add: CandidateSnapshot.truncate_def CandidateSnapshot.equality)
qed simp

definition utf8_candidate :: "CandidateSnapshot \<Rightarrow> bool" where
  "utf8_candidate s \<longleftrightarrow> list_all utf8_ok
     [cs_BaseSHA s, cs_HeadSHA s, cs_TreeSHA s, cs_SourceDigest s, cs_VerificationIntentDigest s, cs_ProofDigest s,
      cs_CommandPolicyDigest s, cs_BuilderEvidenceDigest s]"

lemma candidate_json_parse:
  assumes "utf8_candidate s"
  shows "json_parse (print_json (candidate_json s)) = Some (candidate_json s)"
proof (rule json_parse_print)
  have "list_all utf8_ok [''Generation'', ''BaseSHA'', ''HeadSHA'', ''TreeSHA'', ''SourceDigest'',
      ''VerificationIntentDigest'', ''ProofDigest'', ''CommandPolicyDigest'', ''BuilderEvidenceDigest'']"
    by code_simp
  then show "wf_json (candidate_json s)" using assms by (simp add: candidate_json_def utf8_candidate_def)
qed (simp add: candidate_json_def)

section \<open>Properties\<close>

text \<open>C32: evidence follows the candidate it was given for. After a change of candidate and any run of gate
  completions for the new one, a boundary that requires some gates passes exactly when the candidate is
  complete, every gate is a known one, and each was completed in that run or was neither invalidated by the
  change nor stale before it.\<close>

theorem gates_follow_candidate:
  assumes "bind_gates s (ApplyInvalidation e (Invalidated p n changed)) done_gates = Inr e'"
  shows "RequireCurrent s e' gates = None \<longleftrightarrow> Candidate_Validate s = None \<and>
    (\<forall>g \<in> set gates. g \<in> set allGates \<and>
      (g \<in> set done_gates \<or> g \<notin> set (Invalidated p n changed) \<and> RequireCurrent s e [g] = None))"
proof -
  have d: "gate_digest e' g = (if g \<in> set done_gates then wanted_digest s g
      else if g \<in> set (Invalidated p n changed) then '''' else gate_digest e g)" for g
    using bind_gates_digest [OF assms, of g] by (simp add: gate_digest_invalidation)
  show ?thesis
  proof (cases "Candidate_Validate s = None")
    case True
    then have "wanted_digest s g \<noteq> []" for g by (rule wanted_nonempty)
    with True show ?thesis unfolding RequireCurrent_None list_all_iff d by (simp add: eq_commute [of "[]"]) meson
  qed (auto simp: RequireCurrent_None)
qed

definition sample_candidate :: CandidateSnapshot where
  "sample_candidate =
     \<lparr>cs_Generation = 1, cs_BaseSHA = ''b'', cs_HeadSHA = ''h'', cs_TreeSHA = ''t'', cs_SourceDigest = ''s'',
      cs_VerificationIntentDigest = ''v'', cs_ProofDigest = ''p'', cs_CommandPolicyDigest = ''c'',
      cs_BuilderEvidenceDigest = ''e''\<rparr>"

definition no_evidence :: Evidence where
  "no_evidence = \<lparr>ev_VerificationIntentDigest = ''v'', ev_ProofCandidateDigest = '''', ev_ChecksCandidateDigest = '''',
     ev_ReviewCandidateDigest = '''', ev_ApprovalCandidateDigest = ''''\<rparr>"

lemma sample_candidate_valid: "Candidate_Validate sample_candidate = None"
  by (simp add: sample_candidate_def Candidate_Validate_def)

text \<open>A new head commit keeps the verification intent, drops the review, and the review passes once it is
  completed for the new head.\<close>

theorem gates_follow_candidate_witness:
  "\<exists>e'. bind_gates (sample_candidate\<lparr>cs_HeadSHA := ''h2''\<rparr>)
      (ApplyInvalidation no_evidence (Invalidated sample_candidate (sample_candidate\<lparr>cs_HeadSHA := ''h2''\<rparr>) False))
      [GateFinalReview] = Inr e' \<and>
    RequireCurrent (sample_candidate\<lparr>cs_HeadSHA := ''h2''\<rparr>) e' [GateVerificationIntent, GateFinalReview] = None \<and>
    RequireCurrent (sample_candidate\<lparr>cs_HeadSHA := ''h2''\<rparr>) e' [GateApproval] \<noteq> None"
proof -
  let ?s = "sample_candidate\<lparr>cs_HeadSHA := ''h2''\<rparr>"
  let ?e = "ApplyInvalidation no_evidence (Invalidated sample_candidate ?s False)"
  have v: "Candidate_Validate ?s = None" by (simp add: sample_candidate_def Candidate_Validate_def)
  have i: "Invalidated sample_candidate ?s False = downstreamGates"
    by (simp add: Invalidated_def sample_candidate_def)
  obtain e' where e': "Bind ?s ?e GateFinalReview = Inr e'" using Bind_ok [OF v, of GateFinalReview] by (auto simp: allGates_def)
  then have b: "bind_gates ?s ?e [GateFinalReview] = Inr e'" by simp
  have c: "RequireCurrent ?s no_evidence [GateVerificationIntent] = None"
    using v by (simp add: RequireCurrent_None allGates_def gate_digest_def wanted_digest_def no_evidence_def sample_candidate_def)
  have "RequireCurrent ?s e' [GateVerificationIntent, GateFinalReview] = None" "RequireCurrent ?s e' [GateApproval] \<noteq> None"
    unfolding gates_follow_candidate [OF b] i using v c by (simp_all add: allGates_def downstreamGates_def gate_defs)
  with b show ?thesis by blast
qed

text \<open>The digest identifies the candidate. Two complete candidates whose texts are well-formed UTF-8 have the
  same digest only if they are equal in every field, or their two different JSON forms are a collision of
  SHA-256.\<close>

theorem candidate_identity:
  assumes "Candidate_Digest s = Inr d" "Candidate_Digest t = Inr d" "utf8_candidate s" "utf8_candidate t"
  shows "s = t \<or> (print_json (candidate_json s) \<noteq> print_json (candidate_json t) \<and>
    sha256_hex (print_json (candidate_json s)) = sha256_hex (print_json (candidate_json t)))"
proof (cases "print_json (candidate_json s) = print_json (candidate_json t)")
  case True
  then have "candidate_json s = candidate_json t" using candidate_json_parse assms(3,4) by (metis option.inject)
  then show ?thesis by (simp add: candidate_json_inject)
next
  case False
  with assms(1,2) show ?thesis by (simp add: Candidate_Digest_Inr snapshot_digest_def)
qed

theorem candidate_identity_witness:
  "\<exists>d. Candidate_Digest sample_candidate = Inr d \<and>
     (Candidate_Digest (sample_candidate\<lparr>cs_Generation := 2\<rparr>) = Inr d \<longrightarrow>
      sha256_hex (print_json (candidate_json sample_candidate)) =
        sha256_hex (print_json (candidate_json (sample_candidate\<lparr>cs_Generation := 2\<rparr>))))"
proof -
  let ?t = "sample_candidate\<lparr>cs_Generation := 2\<rparr>"
  obtain d where d: "Candidate_Digest sample_candidate = Inr d"
    by (simp add: Candidate_Digest_def sample_candidate_valid)
  have u: "utf8_candidate sample_candidate" "utf8_candidate ?t" by code_simp+
  have "sample_candidate \<noteq> ?t" by (simp add: sample_candidate_def)
  with candidate_identity [OF d _ u] d show ?thesis by blast
qed

end
