(* ===== verification/ExecutionPolicy.thy ===== *)
theory ExecutionPolicy
  imports PhaseArtifact
begin

text \<open>
  \<^verbatim>\<open>internal/executionpolicy/policy.go\<close> with the recipes it admits: the two-file Go recipe
  (\<^verbatim>\<open>internal/goclosure/pure.go\<close>), the prepared Python recipe (\<^verbatim>\<open>internal/pythonclosure/recipe.go\<close>) and the
  Node recipe of \<^verbatim>\<open>internal/nysapure\<close>, and the module marker check of \<^verbatim>\<open>internal/goclosure/closure.go\<close>. The
  file system is an argument: what \<open>os.Lstat\<close> and \<open>os.ReadFile\<close> answer for a path.
\<close>

unbundle bit_operations_syntax

section \<open>Library functions\<close>

text \<open>
  \<open>strings.ToLower\<close>, compared below only with ASCII words that hold neither an i nor a k: those are the
  only ASCII letters that are the lower case of a letter outside ASCII.
\<close>

definition ToLower :: "string \<Rightarrow> string" where
  "ToLower s = map (\<lambda>c. if byte_between (CHR ''A'') (CHR ''Z'') c then char_of (of_char c + 32 :: nat) else c) s"

definition Base :: "string \<Rightarrow> string" where
  "Base path =
     (if path = '''' then ''.''
      else let stripped = rev (dropWhile (\<lambda>c. c = CHR ''/'') (rev path))
           in if stripped = '''' then ''/'' else last (split_at (CHR ''/'') stripped))"

definition Join :: "string \<Rightarrow> string \<Rightarrow> string" where
  "Join root name = Clean (if root = '''' then name else root @ ''/'' @ name)"

record FileInfo =
  fi_Symlink :: bool
  fi_Dir :: bool
  fi_Regular :: bool
  fi_Perm :: u32
  fi_Size :: int

section \<open>Profiles\<close>

record GuardedQualification =
  gq_Provider :: ProviderIdentity
  gq_AuthenticationIsolated :: bool
  gq_EnvironmentScrubbed :: bool
  gq_ProcessSupervised :: bool
  gq_GitIdentityAuthenticated :: bool
  gq_HostileFixturePassed :: bool

datatype policy_error =
  PolicyError string "string list"
| ErrAutonomyUnavailable
| ErrCommandDenied string string

fun failed_check :: "(string \<times> bool) list \<Rightarrow> policy_error option" where
  "failed_check [] = None"
| "failed_check ((name, ok) # checks) =
     (if ok then failed_check checks else Some (PolicyError ''guarded qualification failed: %s'' [name]))"

definition GuardedQualification_Validate :: "GuardedQualification \<Rightarrow> policy_error option" where
  "GuardedQualification_Validate q =
     (let p = gq_Provider q in
      if pv_Provider p = '''' \<or> pv_Model p = '''' \<or> pv_Family p = '''' \<or> pv_Version p = ''''
      then Some (PolicyError ''complete provider identity is required'' [])
      else failed_check
        [(''isolated authentication'', gq_AuthenticationIsolated q), (''scrubbed environment'', gq_EnvironmentScrubbed q),
         (''process supervision'', gq_ProcessSupervised q), (''Git identity authentication'', gq_GitIdentityAuthenticated q),
         (''hostile fixture'', gq_HostileFixturePassed q)])"

definition ProfileGuarded :: string where "ProfileGuarded = ''qualified_guarded''"

definition SelectProfile :: "string \<Rightarrow> GuardedQualification \<Rightarrow> policy_error + string" where
  "SelectProfile mode q =
     (case GuardedQualification_Validate q of
        Some e \<Rightarrow> Inl e
      | None \<Rightarrow>
          if mode = MergeManual \<or> mode = MergeGuarded then Inr ProfileGuarded
          else if mode = MergeAutonomous then Inl ErrAutonomyUnavailable
          else Inl (PolicyError ''invalid merge mode %q'' [mode]))"

section \<open>Environment\<close>

definition secureDirectory :: "(string \<Rightarrow> FileInfo option) \<Rightarrow> string \<Rightarrow> string \<Rightarrow> policy_error option" where
  "secureDirectory lstat name path =
     (if \<not> IsAbs path then Some (PolicyError ''%s must be absolute'' [name])
      else case lstat path of
        None \<Rightarrow> Some (PolicyError ''inspect %s: %w'' [name])
      | Some info \<Rightarrow>
          if fi_Symlink info \<or> \<not> fi_Dir info then Some (PolicyError ''%s must be a real directory'' [name])
          else if fi_Perm info AND 0x3F \<noteq> 0 then Some (PolicyError ''%s must be owner-only'' [name])
          else None)"

definition environment_values :: "string \<Rightarrow> string \<Rightarrow> (string \<times> string) list" where
  "environment_values home temporary =
     [(''CI'', ''1''), (''GCM_INTERACTIVE'', ''Never''), (''GIT_CONFIG_NOSYSTEM'', ''1''), (''GIT_OPTIONAL_LOCKS'', ''0''),
      (''GIT_PAGER'', ''cat''), (''GIT_TERMINAL_PROMPT'', ''0''), (''HOME'', home), (''LANG'', ''en_US.UTF-8''),
      (''LC_ALL'', ''en_US.UTF-8''), (''NO_COLOR'', ''1''), (''PAGER'', ''cat''),
      (''PATH'', ''/usr/bin:/bin:/usr/sbin:/sbin''), (''TMPDIR'', temporary), (''GIT_CONFIG_GLOBAL'', ''/dev/null''),
      (''GIT_ATTR_NOSYSTEM'', ''1'')]"

definition MinimalEnvironment ::
    "(string \<Rightarrow> FileInfo option) \<Rightarrow> string \<Rightarrow> string \<Rightarrow> policy_error + string list" where
  "MinimalEnvironment lstat home temporary =
     (case secureDirectory lstat ''execution home'' home of
        Some e \<Rightarrow> Inl e
      | None \<Rightarrow>
     (case secureDirectory lstat ''execution temporary directory'' temporary of
        Some e \<Rightarrow> Inl e
      | None \<Rightarrow>
          let values = environment_values home temporary in
          Inr (map (\<lambda>key. key @ ''='' @ the (map_of values key)) (sort (map fst values)))))"

section \<open>Recipes\<close>

definition PureFlag :: string where "PureFlag = ''--sf-go-pure-files-v1''"

definition pure_first :: "char \<Rightarrow> bool" where
  "pure_first c \<longleftrightarrow> byte_between (CHR ''A'') (CHR ''Z'') c \<or> byte_between (CHR ''a'') (CHR ''z'') c \<or>
     byte_between (CHR ''0'') (CHR ''9'') c \<or> c = CHR ''_''"

text \<open>The expression \<^verbatim>\<open>^[A-Za-z0-9_][A-Za-z0-9_./-]*\.go$\<close>: the suffix is itself made of admitted characters.\<close>

definition purePath :: "string \<Rightarrow> bool" where
  "purePath p \<longleftrightarrow> 4 \<le> length p \<and> pure_first (hd p) \<and> has_suffix ''.go'' p \<and>
     list_all (\<lambda>c. pure_first c \<or> c \<in> set ''./-'') p"

definition pure_path_ok :: "string \<Rightarrow> bool" where
  "pure_path_ok p \<longleftrightarrow> purePath p \<and> Clean p = p \<and> \<not> has_prefix ''/'' p \<and>
     list_all (\<lambda>part. part \<noteq> ''..'' \<and> \<not> has_prefix ''.'' part) (split_at (CHR ''/'') p)"

definition TrimSuffix :: "string \<Rightarrow> string \<Rightarrow> string" where
  "TrimSuffix s suffix = (if has_suffix suffix s then take (length s - length suffix) s else s)"

definition PurePaths :: "string list \<Rightarrow> (string \<times> string) option" where
  "PurePaths args =
     (case args of
        [exe, flag, a, b] \<Rightarrow>
          if exe \<noteq> ''go'' \<or> flag \<noteq> PureFlag then None
          else if \<not> pure_path_ok a \<or> \<not> pure_path_ok b then None
          else if has_suffix ''_test.go'' a \<or> b \<noteq> TrimSuffix a ''.go'' @ ''_test.go'' then None
          else Some (a, b)
      | _ \<Rightarrow> None)"

definition PytestFlag :: string where "PytestFlag = ''--sf-pytest-v1''"

definition any_hex :: "char \<Rightarrow> bool" where
  "any_hex c \<longleftrightarrow> lower_hex c \<or> byte_between (CHR ''A'') (CHR ''F'') c"

definition validDigest :: "string \<Rightarrow> bool" where
  "validDigest v \<longleftrightarrow> length v = 71 \<and> has_prefix ''sha256:'' v \<and> ToLower v = v \<and> list_all any_hex (drop 7 v)"

definition validPath :: "string \<Rightarrow> bool" where
  "validPath v \<longleftrightarrow> utf8_ok v \<and> v \<noteq> ''.'' \<and> v \<noteq> '''' \<and> \<not> IsAbs v \<and> Clean v = v \<and>
     list_all (\<lambda>c. c \<noteq> CHR 0x5C \<and> c \<noteq> CHR 0x00 \<and> c \<noteq> CHR 0x0D \<and> c \<noteq> CHR 0x0A) v \<and>
     v \<noteq> ''..'' \<and> \<not> has_prefix ''../'' v \<and> length v \<le> 4096"

definition Python_ValidTestPath :: "string \<Rightarrow> bool" where
  "Python_ValidTestPath v \<longleftrightarrow> validPath v \<and> \<not> has_prefix ''-'' v \<and> list_all (\<lambda>c. c \<notin> set ''*?[]'') v \<and>
     length (filter (\<lambda>c. c = CHR ''/'') v) \<le> 32 \<and> (has_suffix ''.py'' v \<or> Base v = ''tests'')"

record Recipe =
  rc_EnvironmentDigest :: string
  rc_LockDigest :: string
  rc_TestPath :: string

definition ParseRecipe :: "string list \<Rightarrow> Recipe option" where
  "ParseRecipe args =
     (case args of
        [exe, flag, environment, lock, test] \<Rightarrow>
          if exe \<noteq> ''python3'' \<or> flag \<noteq> PytestFlag \<or> \<not> validDigest environment \<or> \<not> validDigest lock \<or>
             \<not> Python_ValidTestPath test then None
          else Some \<lparr>rc_EnvironmentDigest = environment, rc_LockDigest = lock, rc_TestPath = test\<rparr>
      | _ \<Rightarrow> None)"

section \<open>Commands\<close>

record CommandDecision =
  cd_Allowed :: bool
  cd_Code :: string
  cd_Reason :: string

definition deny :: "string \<Rightarrow> string \<Rightarrow> CommandDecision" where
  "deny code reason = \<lparr>cd_Allowed = False, cd_Code = code, cd_Reason = reason\<rparr>"

definition allow :: "string \<Rightarrow> string \<Rightarrow> CommandDecision" where
  "allow code reason = \<lparr>cd_Allowed = True, cd_Code = code, cd_Reason = reason\<rparr>"

definition evaluateNodeVerification :: "string list \<Rightarrow> CommandDecision" where
  "evaluateNodeVerification args =
     (if length args = 2 \<and> args ! 1 = ''--test''
      then allow ''allowed_node_test_recipe'' ''exact dependency-free Node 22 test recipe''
      else if length args = 3 \<and> args ! 1 = ''--sf-nysa-api-pure-v1'' \<and> ValidTestPath (args ! 2)
      then allow ''allowed_nysa_api_pure_v1_recipe'' ''exact nysa_api_pure_v1 TypeScript test recipe''
      else deny ''node_recipe_forbidden''
        ''only `node --test` or `node --sf-nysa-api-pure-v1 <canonical .test.ts>` is eligible; npm, flags, scripts, and wrappers require operator takeover'')"

definition evaluateGoVerification :: "string list \<Rightarrow> CommandDecision" where
  "evaluateGoVerification args =
     (if PurePaths args \<noteq> None
      then allow ''allowed_go_pure_files_v1''
        ''exact bounded two-file Go recipe; staged source and imports are authenticated before launch''
      else if length args \<noteq> 3 \<or> args ! 1 \<noteq> ''test'' \<or> args ! 2 \<noteq> ''./...''
      then deny ''go_recipe_forbidden''
        ''only the hermetic recipe `go test ./...` is eligible; flags, tool selection, outputs, module changes, cgo, and subprocess-dependent tests require operator takeover''
      else allow ''allowed_go_test_recipe'' ''exact hermetic Go test recipe'')"

definition EvaluateRepositoryCommand :: "string list \<Rightarrow> CommandDecision" where
  "EvaluateRepositoryCommand args =
     (if args = [] \<or> TrimSpace (args ! 0) = '''' then deny ''empty_argv'' ''an executable argv is required''
      else if 64 < length args then deny ''argv_too_large'' ''command exceeds the argument bound''
      else if list_ex (\<lambda>a. CHR 0x00 \<in> set a) args then deny ''argv_nul'' ''arguments may not contain NUL''
      else let executable = ToLower (Base (args ! 0)) in
        if executable = ''go'' then evaluateGoVerification args
        else if executable = ''node'' then evaluateNodeVerification args
        else if executable = ''python3'' then
          (if ParseRecipe args \<noteq> None
           then allow ''allowed_prepared_pytest_v1_recipe''
             ''exact digest-bound prepared Python recipe; runtime readiness is separately required''
           else deny ''python_recipe_forbidden''
             ''Python requires the exact factory prepared pytest recipe; PATH interpreters and arbitrary scripts are not eligible'')
        else deny ''repository_command_not_allowlisted''
          ''only the exact guarded Go or dependency-free Node 22 test verification recipes are eligible'')"

record CommandSnapshot =
  sn_commands :: "string list list"
  sn_digest :: string

fun copy_commands :: "string list list \<Rightarrow> string list list \<Rightarrow> policy_error + string list list" where
  "copy_commands copied [] = Inr (rev copied)"
| "copy_commands copied (command # commands) =
     (let decision = EvaluateRepositoryCommand command in
      if \<not> cd_Allowed decision then Inl (ErrCommandDenied (cd_Code decision) (cd_Reason decision))
      else if command \<in> set copied then Inl (PolicyError ''command policy contains duplicate argv'' [])
      else copy_commands (command # copied) commands)"

definition commands_list_json :: "string list list \<Rightarrow> json" where
  "commands_list_json commands = JArr (map (\<lambda>command. JArr (map JStr command)) commands)"

definition NewCommandSnapshot :: "string list list \<Rightarrow> policy_error + CommandSnapshot" where
  "NewCommandSnapshot commands =
     (if commands = [] \<or> 32 < length commands then Inl (PolicyError ''command policy requires 1 to 32 commands'' [])
      else case copy_commands [] commands of
        Inl e \<Rightarrow> Inl e
      | Inr copied \<Rightarrow>
          Inr \<lparr>sn_commands = copied, sn_digest = ''sha256:'' @ sha256_hex (print_json (commands_list_json copied))\<rparr>)"

definition Authorize :: "CommandSnapshot \<Rightarrow> string list \<Rightarrow> policy_error option" where
  "Authorize snapshot args =
     (let decision = EvaluateRepositoryCommand args in
      if \<not> cd_Allowed decision then Some (ErrCommandDenied (cd_Code decision) (cd_Reason decision))
      else if args \<in> set (sn_commands snapshot) then None
      else Some (ErrCommandDenied ''command_policy_changed'' ''argv is not in the immutable ticket snapshot''))"

section \<open>Module markers\<close>

fun before_comment :: "string \<Rightarrow> string" where
  "before_comment (c # d # s) = (if c = CHR ''/'' \<and> d = CHR ''/'' then [] else c # before_comment (d # s))"
| "before_comment s = s"

record markers =
  mk_module :: bool
  mk_goVersion :: bool
  mk_requires :: bool

definition marker_line :: "string \<Rightarrow> markers \<Rightarrow> markers option" where
  "marker_line raw m =
     (let line = TrimSpace (before_comment raw) in
      if has_prefix ''module '' line \<and> TrimSpace (drop 7 line) \<noteq> '''' then Some (m\<lparr>mk_module := True\<rparr>)
      else if has_prefix ''go '' line \<and> TrimSpace (drop 3 line) \<noteq> '''' then Some (m\<lparr>mk_goVersion := True\<rparr>)
      else if line = ''require ('' \<or> has_prefix ''require '' line then Some (m\<lparr>mk_requires := True\<rparr>)
      else if has_prefix ''replace '' line \<or> has_prefix ''exclude '' line \<or> has_prefix ''retract '' line then None
      else Some m)"

fun marker_lines :: "string list \<Rightarrow> markers \<Rightarrow> markers option" where
  "marker_lines [] m = Some m"
| "marker_lines (raw # lines) m = (case marker_line raw m of None \<Rightarrow> None | Some m' \<Rightarrow> marker_lines lines m')"

datatype closure_error = ErrInvalid | ErrUnvendored

definition Closure_Validate ::
    "(string \<Rightarrow> FileInfo option) \<Rightarrow> (string \<Rightarrow> string option) \<Rightarrow> string \<Rightarrow> closure_error + bool" where
  "Closure_Validate lstat read_file worktree =
     (case lstat (Join worktree ''go.mod'') of
        None \<Rightarrow> Inl ErrInvalid
      | Some info \<Rightarrow>
     (if fi_Symlink info \<or> \<not> fi_Regular info \<or> 2 ^ 20 < fi_Size info then Inl ErrInvalid
      else case read_file (Join worktree ''go.mod'') of
        None \<Rightarrow> Inl ErrInvalid
      | Some contents \<Rightarrow>
     (case marker_lines (split_at (CHR 0x0A) contents) \<lparr>mk_module = False, mk_goVersion = False, mk_requires = False\<rparr> of
        None \<Rightarrow> Inl ErrInvalid
      | Some m \<Rightarrow>
          if \<not> mk_module m \<or> \<not> mk_goVersion m then Inl ErrInvalid
          else if \<not> mk_requires m then Inr False
          else (case lstat (Join worktree ''vendor'') of
              None \<Rightarrow> Inl ErrUnvendored
            | Some vendor \<Rightarrow>
                if fi_Symlink vendor \<or> \<not> fi_Dir vendor then Inl ErrUnvendored
                else (case lstat (Join (Join worktree ''vendor'') ''modules.txt'') of
                    None \<Rightarrow> Inl ErrUnvendored
                  | Some entry \<Rightarrow>
                      if fi_Symlink entry \<or> \<not> fi_Regular entry \<or> fi_Size entry = 0 \<or> 8 * 2 ^ 20 < fi_Size entry
                      then Inl ErrUnvendored else Inr True)))))"

end
