(* ===== verification/ExecutionSafety.thy ===== *)
theory ExecutionSafety
  imports ExecutionPolicy
begin

text \<open>
  What the execution policy lets a repository run: the exact set of admitted commands, the confinement of
  the files they name, and the agreement of a frozen command snapshot with the commands it was made from.
\<close>

section \<open>Recipes\<close>

text \<open>The abstract specification: a command is one of five recipes.\<close>

datatype recipe =
  GoModule string
| GoPure string
| NodeTest string
| NodePure string string
| Pytest string string string

fun recipe_argv :: "recipe \<Rightarrow> string list" where
  "recipe_argv (GoModule exe) = [exe, ''test'', ''./...'']"
| "recipe_argv (GoPure stem) = [''go'', PureFlag, stem @ ''.go'', stem @ ''_test.go'']"
| "recipe_argv (NodeTest exe) = [exe, ''--test'']"
| "recipe_argv (NodePure exe test) = [exe, ''--sf-nysa-api-pure-v1'', test]"
| "recipe_argv (Pytest environment lock test) = [''python3'', PytestFlag, environment, lock, test]"

definition executable_ok :: "string \<Rightarrow> string \<Rightarrow> bool" where
  "executable_ok name exe \<longleftrightarrow> ToLower (Base exe) = name \<and> TrimSpace exe \<noteq> '''' \<and> CHR 0x00 \<notin> set exe"

fun recipe_ok :: "recipe \<Rightarrow> bool" where
  "recipe_ok (GoModule exe) \<longleftrightarrow> executable_ok ''go'' exe"
| "recipe_ok (GoPure stem) \<longleftrightarrow>
     pure_path_ok (stem @ ''.go'') \<and> pure_path_ok (stem @ ''_test.go'') \<and> \<not> has_suffix ''_test'' stem"
| "recipe_ok (NodeTest exe) \<longleftrightarrow> executable_ok ''node'' exe"
| "recipe_ok (NodePure exe test) \<longleftrightarrow> executable_ok ''node'' exe \<and> ValidTestPath test"
| "recipe_ok (Pytest environment lock test) \<longleftrightarrow> validDigest environment \<and> validDigest lock \<and> Python_ValidTestPath test"

text \<open>The files a recipe names inside the worktree.\<close>

fun recipe_files :: "recipe \<Rightarrow> string list" where
  "recipe_files (GoPure stem) = [stem @ ''.go'', stem @ ''_test.go'']"
| "recipe_files (NodePure exe test) = [test]"
| "recipe_files (Pytest environment lock test) = [test]"
| "recipe_files _ = []"

section \<open>Confinement\<close>

definition confined :: "string \<Rightarrow> bool" where
  "confined path \<longleftrightarrow> \<not> IsAbs path \<and> list_all proper (split_at (CHR ''/'') path)"

lemma clean_empty: "Clean '''' \<noteq> ''''"
  by (simp add: Clean_def)

lemma dotted_parts:
  "has_prefix ''../'' p \<Longrightarrow> ''..'' \<in> set (split_at (CHR ''/'') p)"
  by (cases p rule: remdups_adj.cases; cases "tl (tl p)") (auto simp: has_prefix_def)

lemma confinedI:
  assumes "Clean p = p" "\<not> has_prefix ''/'' p" "list_all (\<lambda>part. \<not> has_prefix ''.'' part) (split_at (CHR ''/'') p)"
  shows "confined p"
  unfolding confined_def
proof
  show "\<not> IsAbs p" using assms(2) by (simp add: IsAbs_def)
  have "p \<noteq> ''.''" "p \<noteq> ''..''" using assms(3) by (auto simp: has_prefix_def)
  moreover have "\<not> has_prefix ''../'' p"
    using assms(3) dotted_parts [of p] by (force simp: list_all_iff has_prefix_def)
  ultimately show "list_all proper (split_at (CHR ''/'') p)"
    using clean_components assms(1) \<open>\<not> IsAbs p\<close> by blast
qed

lemma confined_recipe: "recipe_ok r \<Longrightarrow> list_all confined (recipe_files r)"
proof (cases r)
  case (GoPure stem)
  moreover have "confined p" if "pure_path_ok p" for p
    using that by (intro confinedI) (auto simp: pure_path_ok_def list_all_iff)
  ultimately show "recipe_ok r \<Longrightarrow> ?thesis" by simp
next
  case (NodePure exe test)
  moreover have "confined test" if "ValidTestPath test"
    using that by (intro confinedI) (auto simp: ValidTestPath_def list_all_iff)
  ultimately show "recipe_ok r \<Longrightarrow> ?thesis" by simp
next
  case (Pytest environment lock test)
  moreover have "confined test" if "Python_ValidTestPath test"
    using that clean_components [of test] by (simp add: Python_ValidTestPath_def validPath_def confined_def)
  ultimately show "recipe_ok r \<Longrightarrow> ?thesis" by simp
qed simp_all

section \<open>Admitted commands are recipes\<close>

lemma list_3: "length xs = 3 \<Longrightarrow> \<exists>a b c. xs = [a, b, c]"
  by (auto simp: numeral_3_eq_3 length_Suc_conv)

lemma list_2: "length xs = 2 \<Longrightarrow> \<exists>a b. xs = [a, b]"
  by (auto simp: numeral_2_eq_2 length_Suc_conv)

lemma PurePaths_Some:
  "PurePaths args = Some (a, b) \<Longrightarrow>
     args = [''go'', PureFlag, a, b] \<and> pure_path_ok a \<and> pure_path_ok b \<and> \<not> has_suffix ''_test.go'' a \<and>
     b = TrimSuffix a ''.go'' @ ''_test.go''"
  unfolding PurePaths_def by (simp split: list.splits if_splits)

lemma ParseRecipe_Some:
  "ParseRecipe args = Some r \<Longrightarrow>
     \<exists>e l t. args = [''python3'', PytestFlag, e, l, t] \<and> validDigest e \<and> validDigest l \<and> Python_ValidTestPath t \<and>
       r = \<lparr>rc_EnvironmentDigest = e, rc_LockDigest = l, rc_TestPath = t\<rparr>"
  unfolding ParseRecipe_def by (simp split: list.splits if_splits)

lemma suffix_split: "has_suffix q s \<Longrightarrow> s = take (length s - length q) s @ q"
  unfolding has_suffix_def by (metis append_take_drop_id)

lemma has_suffix_append: "has_suffix (p @ q) (s @ q) = has_suffix p s"
  by (simp add: has_suffix_def)

lemma pure_stem:
  assumes "pure_path_ok a"
  shows "a = TrimSuffix a ''.go'' @ ''.go''"
proof -
  have "has_suffix ''.go'' a" using assms by (simp add: pure_path_ok_def purePath_def)
  then show ?thesis using suffix_split [of "''.go''" a] by (simp only: TrimSuffix_def if_True)
qed

lemma PurePaths_recipe: "PurePaths args \<noteq> None \<longleftrightarrow> (\<exists>stem. args = recipe_argv (GoPure stem) \<and> recipe_ok (GoPure stem))"
proof
  assume "PurePaths args \<noteq> None"
  then obtain a b where "PurePaths args = Some (a, b)" by force
  note p = PurePaths_Some [OF this]
  let ?stem = "TrimSuffix a ''.go''"
  have a: "a = ?stem @ ''.go''" using p pure_stem by blast
  then have "has_suffix ''_test'' ?stem = has_suffix ''_test.go'' a"
    using has_suffix_append [of "''_test''" "''.go''" ?stem] by simp
  moreover have "b = ?stem @ ''_test.go''" using p by simp
  ultimately have "args = recipe_argv (GoPure ?stem)" "recipe_ok (GoPure ?stem)" using p a by auto
  then show "\<exists>stem. args = recipe_argv (GoPure stem) \<and> recipe_ok (GoPure stem)" by blast
next
  assume "\<exists>stem. args = recipe_argv (GoPure stem) \<and> recipe_ok (GoPure stem)"
  then obtain stem where s: "args = recipe_argv (GoPure stem)" "recipe_ok (GoPure stem)" by blast
  have "has_suffix ''_test.go'' (stem @ ''.go'') = has_suffix ''_test'' stem"
    using has_suffix_append [of "''_test''" "''.go''" stem] by simp
  moreover have "TrimSuffix (stem @ ''.go'') ''.go'' = stem"
    using has_suffix_append [of "''''" "''.go''" stem] by (simp add: TrimSuffix_def has_suffix_def)
  ultimately show "PurePaths args \<noteq> None" using s by (simp add: PurePaths_def)
qed

lemma ParseRecipe_recipe: "ParseRecipe args \<noteq> None \<longleftrightarrow> (\<exists>e l t. args = recipe_argv (Pytest e l t) \<and> recipe_ok (Pytest e l t))"
  using ParseRecipe_Some [of args] by (auto simp: ParseRecipe_def)

lemma allow_deny [simp]: "cd_Allowed (allow c r)" "\<not> cd_Allowed (deny c r)"
  by (simp_all add: allow_def deny_def)

lemma node_allowed:
  "cd_Allowed (evaluateNodeVerification args) \<longleftrightarrow>
     (\<exists>exe. args = [exe, ''--test'']) \<or> (\<exists>exe t. args = [exe, ''--sf-nysa-api-pure-v1'', t] \<and> ValidTestPath t)"
  unfolding evaluateNodeVerification_def using list_2 [of args] list_3 [of args] by (auto split: if_splits)

lemma go_allowed:
  "cd_Allowed (evaluateGoVerification args) \<longleftrightarrow> PurePaths args \<noteq> None \<or> (\<exists>exe. args = [exe, ''test'', ''./...''])"
  unfolding evaluateGoVerification_def using list_3 [of args] by (auto split: if_splits)

text \<open>What the general checks ask for holds of every recipe with an admitted executable.\<close>

lemma pure_chars: "purePath p \<Longrightarrow> CHR 0x00 \<notin> set p"
  by (auto simp: purePath_def list_all_iff pure_first_def byte_between_def)

lemma digest_chars: "validDigest v \<Longrightarrow> CHR 0x00 \<notin> set v"
proof -
  assume v: "validDigest v"
  then have "take 7 v = ''sha256:''" by (simp add: validDigest_def has_prefix_def eval_nat_numeral)
  moreover have "CHR 0x00 \<notin> set (drop 7 v)"
    using v by (auto simp: validDigest_def list_all_iff any_hex_def lower_hex_def byte_between_def)
  ultimately have "CHR 0x00 \<notin> set (take 7 v @ drop 7 v)" by (simp del: append_take_drop_id)
  then show ?thesis by simp
qed


lemma recipe_args_clean:
  assumes "recipe_ok r"
  shows "length (recipe_argv r) \<le> 64" "list_all (\<lambda>a. CHR 0x00 \<notin> set a) (recipe_argv r)"
    "TrimSpace (recipe_argv r ! 0) \<noteq> ''''"
proof -
  have names: "TrimSpace ''go'' \<noteq> ''''" "TrimSpace ''python3'' \<noteq> ''''" by code_simp+
  show "length (recipe_argv r) \<le> 64" by (cases r) simp_all
  show "TrimSpace (recipe_argv r ! 0) \<noteq> ''''"
    using assms names by (cases r) (simp_all add: executable_ok_def)
  show "list_all (\<lambda>a. CHR 0x00 \<notin> set a) (recipe_argv r)"
    using assms digest_chars pure_chars [of "a @ ''.go''" for a]
    by (cases r) (auto simp: executable_ok_def PureFlag_def PytestFlag_def pure_path_ok_def ValidTestPath_def
        Python_ValidTestPath_def validPath_def list_all_iff)
qed

lemma fixed_names: "ToLower (Base ''go'') = ''go''" "ToLower (Base ''python3'') = ''python3''"
  by code_simp+

lemma admitted_is_recipe:
  assumes allowed: "cd_Allowed (EvaluateRepositoryCommand args)"
  shows "\<exists>r. args = recipe_argv r \<and> recipe_ok r"
proof -
  from allowed have args: "args \<noteq> []" "TrimSpace (args ! 0) \<noteq> ''''" "list_all (\<lambda>a. CHR 0x00 \<notin> set a) args"
    by (auto simp: EvaluateRepositoryCommand_def list_all_iff list_ex_iff Let_def split: if_splits)
  from allowed consider
      (go) "ToLower (Base (args ! 0)) = ''go''" "cd_Allowed (evaluateGoVerification args)"
    | (node) "ToLower (Base (args ! 0)) = ''node''" "cd_Allowed (evaluateNodeVerification args)"
    | (python) "ParseRecipe args \<noteq> None"
    unfolding EvaluateRepositoryCommand_def Let_def by (simp split: if_splits)
  then show ?thesis
  proof cases
    case go
    then consider "PurePaths args \<noteq> None" | exe where "args = [exe, ''test'', ''./...'']" using go_allowed by blast
    then show ?thesis
    proof cases
      case 1
      then show ?thesis using PurePaths_recipe by blast
    next
      case 2
      with args go have "args = recipe_argv (GoModule exe) \<and> recipe_ok (GoModule exe)" by (simp add: executable_ok_def)
      then show ?thesis by blast
    qed
  next
    case node
    then consider exe where "args = [exe, ''--test'']"
      | exe t where "args = [exe, ''--sf-nysa-api-pure-v1'', t]" "ValidTestPath t" using node_allowed by blast
    then show ?thesis
    proof cases
      case 1
      with args node have "args = recipe_argv (NodeTest exe) \<and> recipe_ok (NodeTest exe)" by (simp add: executable_ok_def)
      then show ?thesis by blast
    next
      case 2
      with args node have "args = recipe_argv (NodePure exe t) \<and> recipe_ok (NodePure exe t)" by (simp add: executable_ok_def)
      then show ?thesis by blast
    qed
  next
    case python
    then show ?thesis using ParseRecipe_recipe by blast
  qed
qed

lemma recipe_is_admitted:
  assumes r: "args = recipe_argv r" "recipe_ok r"
  shows "cd_Allowed (EvaluateRepositoryCommand args)"
proof -
  note clean = recipe_args_clean [OF r(2)]
  have general: "args \<noteq> []" "\<not> 64 < length args" "\<not> list_ex (\<lambda>a. CHR 0x00 \<in> set a) args" "TrimSpace (args ! 0) \<noteq> ''''"
    using clean r(1) by (cases r, auto simp: list_all_iff list_ex_iff)
  show ?thesis
  proof (cases r)
    case (GoPure stem)
    then have "PurePaths args \<noteq> None" using r PurePaths_recipe by blast
    with general r GoPure show ?thesis by (simp add: EvaluateRepositoryCommand_def Let_def fixed_names go_allowed)
  next
    case (Pytest e l t)
    then have "ParseRecipe args \<noteq> None" using r ParseRecipe_recipe by blast
    with general r Pytest show ?thesis by (simp add: EvaluateRepositoryCommand_def Let_def fixed_names)
  qed (use general r in \<open>simp_all add: EvaluateRepositoryCommand_def Let_def executable_ok_def go_allowed node_allowed\<close>)
qed

section \<open>Snapshots\<close>

lemma copy_commands_Inr:
  "copy_commands copied commands = Inr result \<Longrightarrow>
     result = rev copied @ commands \<and> list_all (\<lambda>c. cd_Allowed (EvaluateRepositoryCommand c)) commands \<and>
     distinct commands \<and> set copied \<inter> set commands = {}"
proof (induction copied commands rule: copy_commands.induct)
  case (2 copied command commands)
  then have ok: "cd_Allowed (EvaluateRepositoryCommand command)" "command \<notin> set copied"
    "copy_commands (command # copied) commands = Inr result"
    by (auto simp: Let_def split: if_splits)
  with 2(1) [OF refl] show ?case by auto
qed auto

section \<open>Properties\<close>

text \<open>C26: the policy is an allow-list. A repository command is admitted exactly if it is one of the five recipes (the
  module test, the two-file Go test, the two Node tests and the prepared pytest run) with an executable whose lower-cased base
  name is the recipe's tool, and every file such a command names is a relative path without empty, dot or
  dot-dot components.\<close>

theorem admitted_commands_are_recipes:
  "(cd_Allowed (EvaluateRepositoryCommand args) \<longleftrightarrow> (\<exists>r. args = recipe_argv r \<and> recipe_ok r)) \<and>
   (\<forall>r. recipe_ok r \<longrightarrow> list_all confined (recipe_files r))"
  using admitted_is_recipe recipe_is_admitted confined_recipe by blast

theorem admitted_commands_are_recipes_witness:
  "cd_Allowed (EvaluateRepositoryCommand [''node'', ''--sf-nysa-api-pure-v1'', ''apps/a.test.ts'']) \<and>
   \<not> cd_Allowed (EvaluateRepositoryCommand [''/bin/sh'', ''-c'', ''true'']) \<and>
   list_all confined (recipe_files (NodePure ''node'' ''apps/a.test.ts''))"
proof -
  have r: "recipe_ok (NodePure ''node'' ''apps/a.test.ts'')" by code_simp
  have "[''node'', ''--sf-nysa-api-pure-v1'', ''apps/a.test.ts''] = recipe_argv (NodePure ''node'' ''apps/a.test.ts'')" by simp
  with r have "cd_Allowed (EvaluateRepositoryCommand [''node'', ''--sf-nysa-api-pure-v1'', ''apps/a.test.ts''])"
    using admitted_commands_are_recipes by blast
  moreover have "\<not> cd_Allowed (EvaluateRepositoryCommand [''/bin/sh'', ''-c'', ''true''])" by code_simp
  ultimately show ?thesis using r admitted_commands_are_recipes [of "[]"] by blast
qed

text \<open>A frozen command snapshot authorises exactly the commands it was made from: nothing is added, dropped or
  reinterpreted between freezing and running.\<close>

theorem snapshot_authorises_its_commands:
  assumes "NewCommandSnapshot commands = Inr snapshot"
  shows "Authorize snapshot args = None \<longleftrightarrow> args \<in> set commands"
proof -
  from assms have "copy_commands [] commands = Inr (sn_commands snapshot)"
    by (auto simp: NewCommandSnapshot_def split: if_splits sum.splits)
  from copy_commands_Inr [OF this] show ?thesis by (auto simp: Authorize_def Let_def list_all_iff)
qed

theorem snapshot_authorises_its_commands_witness:
  "\<exists>s. NewCommandSnapshot [[''go'', ''test'', ''./...'']] = Inr s \<and> Authorize s [''go'', ''test'', ''./...''] = None \<and>
     Authorize s [''node'', ''--test''] \<noteq> None"
proof -
  have "cd_Allowed (EvaluateRepositoryCommand [''go'', ''test'', ''./...''])" by code_simp
  then obtain s where s: "NewCommandSnapshot [[''go'', ''test'', ''./...'']] = Inr s" by (simp add: NewCommandSnapshot_def Let_def)
  then show ?thesis using snapshot_authorises_its_commands [OF s] by (simp del: not_None_eq)
qed

text \<open>No configuration reaches an autonomous profile. Selection answers the guarded profile or an error, and the
  guarded profile only for a manual or guarded merge mode and a provider that passed every qualification check.\<close>

theorem profile_is_guarded:
  "SelectProfile mode q = Inr profile \<longleftrightarrow> profile = ProfileGuarded \<and> mode \<in> {MergeManual, MergeGuarded} \<and>
     gq_AuthenticationIsolated q \<and> gq_EnvironmentScrubbed q \<and> gq_ProcessSupervised q \<and>
     gq_GitIdentityAuthenticated q \<and> gq_HostileFixturePassed q \<and>
     '''' \<notin> {pv_Provider (gq_Provider q), pv_Model (gq_Provider q), pv_Family (gq_Provider q), pv_Version (gq_Provider q)}"
  by (auto simp: SelectProfile_def GuardedQualification_Validate_def Let_def split: if_splits)

end
