(* ===== verification/Go_Duration.thy ===== *)
theory Go_Duration
  imports Go_JSON
begin

text \<open>
  \<^verbatim>\<open>time.ParseDuration\<close> and \<^verbatim>\<open>strconv.ParseInt\<close> with base ten. A duration is a sum of decimal numbers with units. The
  part after a decimal point is scaled in \<open>float64\<close>: a positive float is a mantissa of at most 53 bits
  and a binary exponent, and products and quotients are rounded to the nearest such number, ties to even.
  Exponents are unbounded here; the source's scale overflows to infinity only where the fraction is far
  below one nanosecond, and both then truncate to zero.
\<close>

section \<open>Signed decimal integers\<close>

definition ParseInt :: "string \<Rightarrow> int option" where
  "ParseInt s =
     (let minus = take 1 s = ''-''; digits = (if minus \<or> take 1 s = ''+'' then tl s else s); n = int (atoi digits) in
      if digits = [] \<or> \<not> list_all is_digit digits then None
      else if minus then (if n > 2 ^ 63 then None else Some (- n))
      else (if n \<ge> 2 ^ 63 then None else Some n))"

section \<open>Rounding\<close>

function bit_count :: "int \<Rightarrow> nat" where
  "bit_count n = (if n \<le> 0 then 0 else Suc (bit_count (n div 2)))"
  by pat_completeness auto
termination
  by (relation "measure nat") auto

declare bit_count.simps [simp del]

definition round53 :: "int \<Rightarrow> int \<Rightarrow> int \<times> int" where
  "round53 m e =
     (let s = bit_count m - 53; q = m div 2 ^ s; r = m mod 2 ^ s in
      if s = 0 then (m, e)
      else if 2 * r > 2 ^ s \<or> 2 * r = 2 ^ s \<and> q mod 2 = 1 then (q + 1, e + int s) else (q, e + int s))"

definition float_of_uint :: "int \<Rightarrow> int \<times> int" where
  "float_of_uint n = round53 n 0"

definition float_mult :: "int \<times> int \<Rightarrow> int \<times> int \<Rightarrow> int \<times> int" where
  "float_mult x y = round53 (fst x * fst y) (snd x + snd y)"

text \<open>A quotient is computed with 110 further bits and one bit that says whether there is a remainder.\<close>

definition float_div :: "int \<times> int \<Rightarrow> int \<times> int \<Rightarrow> int \<times> int" where
  "float_div x y =
     (let n = fst x * 2 ^ 110; q = n div fst y; sticky = (if n mod fst y = 0 then 0 else 1) in
      round53 (2 * q + sticky) (snd x - snd y - 111))"

definition float_trunc :: "int \<times> int \<Rightarrow> int" where
  "float_trunc x = (if snd x \<ge> 0 then fst x * 2 ^ nat (snd x) else fst x div 2 ^ nat (- snd x))"

section \<open>Durations\<close>

fun leadingInt :: "int \<Rightarrow> string \<Rightarrow> (int \<times> string) option" where
  "leadingInt x [] = Some (x, [])"
| "leadingInt x (c # s) =
     (if \<not> is_digit c then Some (x, c # s)
      else if x > 2 ^ 63 div 10 then None
      else if x * 10 + int (digit_value c) > 2 ^ 63 then None
      else leadingInt (x * 10 + int (digit_value c)) s)"

fun leadingFraction :: "int \<Rightarrow> int \<times> int \<Rightarrow> bool \<Rightarrow> string \<Rightarrow> int \<times> (int \<times> int) \<times> string" where
  "leadingFraction x scale overflow [] = (x, scale, [])"
| "leadingFraction x scale overflow (c # s) =
     (if \<not> is_digit c then (x, scale, c # s)
      else if overflow \<or> x > (2 ^ 63 - 1) div 10 \<or> x * 10 + int (digit_value c) > 2 ^ 63 then leadingFraction x scale True s
      else leadingFraction (x * 10 + int (digit_value c)) (float_mult scale (10, 0)) False s)"

definition unitMap :: "(string \<times> int) list" where
  "unitMap =
     [(''ns'', 1), (''us'', 10 ^ 3), ([CHR 0xC2, CHR 0xB5, CHR ''s''], 10 ^ 3), ([CHR 0xCE, CHR 0xBC, CHR ''s''], 10 ^ 3),
      (''ms'', 10 ^ 6), (''s'', 10 ^ 9), (''m'', 60 * 10 ^ 9), (''h'', 3600 * 10 ^ 9)]"

definition unit_byte :: "char \<Rightarrow> bool" where
  "unit_byte c \<longleftrightarrow> c \<noteq> CHR ''.'' \<and> \<not> is_digit c"

text \<open>One number with its unit: its length in nanoseconds and the text that follows.\<close>

definition duration_term :: "string \<Rightarrow> (int \<times> string) option" where
  "duration_term s =
     (if s = [] \<or> \<not> (hd s = CHR ''.'' \<or> is_digit (hd s)) then None
      else case leadingInt 0 s of
        None \<Rightarrow> None
      | Some (v, s1) \<Rightarrow>
          let pre = length s1 \<noteq> length s;
              (f, scale, s2) = (if s1 \<noteq> [] \<and> hd s1 = CHR ''.'' then leadingFraction 0 (1, 0) False (tl s1) else (0, (1, 0), s1));
              post = (s1 \<noteq> [] \<and> hd s1 = CHR ''.'' \<and> length s2 \<noteq> length (tl s1));
              u = takeWhile unit_byte s2
          in if \<not> pre \<and> \<not> post then None
             else if u = [] then None
             else case map_of unitMap u of
               None \<Rightarrow> None
             | Some unit \<Rightarrow>
                 if v > 2 ^ 63 div unit then None
                 else let w = (if f > 0 then (v * unit + float_trunc (float_mult (float_of_uint f) (float_div (float_of_uint unit) scale))) mod 2 ^ 64
                               else v * unit)
                      in if f > 0 \<and> w > 2 ^ 63 then None else Some (w, dropWhile unit_byte s2))"

lemma leadingInt_length: "leadingInt x s = Some (v, r) \<Longrightarrow> length r \<le> length s"
  by (induction x s rule: leadingInt.induct) (auto split: if_splits)

lemma leadingFraction_length: "leadingFraction x sc ov s = (f, scale, r) \<Longrightarrow> length r \<le> length s"
  by (induction x sc ov s rule: leadingFraction.induct) (auto split: if_splits)

lemma duration_term_shorter:
  assumes "duration_term s = Some (w, r)"
  shows "length r < length s"
proof -
  from assms obtain v s1 where s1: "leadingInt 0 s = Some (v, s1)"
    by (auto simp: duration_term_def split: if_splits option.splits)
  obtain f scale s2 where s2: "(if s1 \<noteq> [] \<and> hd s1 = CHR ''.'' then leadingFraction 0 (1, 0) False (tl s1) else (0, (1, 0), s1)) = (f, scale, s2)"
    by (metis prod_cases3)
  then have "length s2 \<le> length s1"
    by (auto split: if_splits dest!: leadingFraction_length)
  moreover from assms s1 s2 have "takeWhile unit_byte s2 \<noteq> []" "r = dropWhile unit_byte s2"
    by (auto simp: duration_term_def Let_def split: if_splits option.splits)
  moreover then have "length r < length s2" by (cases s2) (auto simp: length_dropWhile_le le_imp_less_Suc split: if_splits)
  ultimately show ?thesis using leadingInt_length [OF s1] by simp
qed

function duration_terms :: "int \<Rightarrow> string \<Rightarrow> int option" where
  "duration_terms d s =
     (if s = [] then Some d
      else case duration_term s of
        None \<Rightarrow> None
      | Some (w, r) \<Rightarrow> if (d + w) mod 2 ^ 64 > 2 ^ 63 then None else duration_terms ((d + w) mod 2 ^ 64) r)"
  by pat_completeness auto
termination
  by (relation "measure (\<lambda>(d, s). length s)") (auto dest: duration_term_shorter)

declare duration_terms.simps [simp del]

definition ParseDuration :: "string \<Rightarrow> int option" where
  "ParseDuration orig =
     (let neg = take 1 orig = ''-''; s = (if neg \<or> take 1 orig = ''+'' then tl orig else orig) in
      if s = ''0'' then Some 0
      else if s = [] then None
      else case duration_terms 0 s of
        None \<Rightarrow> None
      | Some d \<Rightarrow>
          if neg then Some (- d)
          else if d > 2 ^ 63 - 1 then None else Some d)"

lemma duration_terms_range: "0 \<le> d \<Longrightarrow> duration_terms d s = Some r \<Longrightarrow> 0 \<le> r"
proof (induction d s rule: duration_terms.induct)
  case (1 d s)
  have "duration_terms d s = Some r" by fact
  then consider "s = []" "r = d"
    | w t where "s \<noteq> []" "duration_term s = Some (w, t)" "\<not> 2 ^ 63 < (d + w) mod 2 ^ 64" "duration_terms ((d + w) mod 2 ^ 64) t = Some r"
    by (subst (asm) duration_terms.simps) (auto split: if_splits option.splits)
  then show ?case
  proof cases
    case 2
    with 1(1) [OF 2(1,2) refl 2(3) _ 2(4)] show ?thesis by simp
  qed (use 1 in simp)
qed

lemma ParseDuration_bound: "ParseDuration s = Some d \<Longrightarrow> d < 2 ^ 63"
  using duration_terms_range [of 0] by (fastforce simp: ParseDuration_def Let_def split: if_splits option.splits)

lemma ParseDuration_examples:
  "ParseDuration ''1h'' = Some 3600000000000" "ParseDuration ''90m'' = Some 5400000000000"
  "ParseDuration ''1.5s'' = Some 1500000000" "ParseDuration ''.'' = None" "ParseDuration ''3'' = None"
  "ParseDuration ''0.3333333333333333333h'' = Some 1200000000000"
  by code_simp+

end
