(* ===== verification/TicketSource.thy ===== *)
theory TicketSource
  imports PhaseArtifact Go_Duration
begin

text \<open>
  \<^verbatim>\<open>internal/ticket/parse.go\<close>: the local Markdown ticket format. A source is read as lines, an optional block of
  front matter sets the ticket's policy fields, and the rest gives title, problem and acceptance entries.
  Where the source keeps an index into the lines, the model keeps the lines from that index on. Reading
  fails only for readers that fail; a source here is the bytes read.
\<close>

section \<open>Data\<close>

definition MaxSourceBytes :: int where "MaxSourceBytes = 2 ^ 20"

record ParsedTicket =
  pt_Title :: string
  pt_Problem :: string
  pt_Acceptance :: "string list"
  pt_Type :: string
  pt_MergeMode :: string
  pt_MergeModeExplicit :: bool
  pt_Priority :: string
  pt_MaxDuration :: int
  pt_MaxCostMicroUSD :: int
  pt_Source :: string
  pt_Digest :: string

datatype ticket_error = TicketError string "string list"

section \<open>Lines\<close>

definition trim_cr :: "string \<Rightarrow> string" where
  "trim_cr line = (if line \<noteq> [] \<and> last line = CHR 0x0D then butlast line else line)"

text \<open>
  \<open>bufio.ScanLines\<close> over a buffer of at most \<open>MaxSourceBytes\<close>: a line that fills the buffer before its end is
  seen is an error. The scanner drops one trailing carriage return and the caller another.
\<close>

function scanLines :: "string \<Rightarrow> ticket_error + string list" where
  "scanLines data =
     (if data = [] then Inr []
      else let line = takeWhile (\<lambda>c. c \<noteq> CHR 0x0A) data; rest = dropWhile (\<lambda>c. c \<noteq> CHR 0x0A) data in
        if int (length line) \<ge> MaxSourceBytes then Inl (TicketError ''scan ticket: %w'' [])
        else case scanLines (tl rest) of
          Inl e \<Rightarrow> Inl e
        | Inr lines \<Rightarrow> Inr (trim_cr (trim_cr line) # lines))"
  by pat_completeness auto
termination
proof (relation "measure length")
  fix data :: string and line rest
  assume "data \<noteq> []" "rest = dropWhile (\<lambda>c. c \<noteq> CHR 0x0A) data"
  then have "length rest \<le> length data" "length (tl rest) < length rest \<or> rest = []" by (auto simp: length_dropWhile_le)
  with \<open>data \<noteq> []\<close> show "(tl rest, data) \<in> measure length" by auto
qed simp

declare scanLines.simps [simp del]

section \<open>Front matter\<close>

text \<open>\<open>strings.Cut\<close> with a one-byte separator.\<close>

definition Cut :: "string \<Rightarrow> char \<Rightarrow> string \<times> string \<times> bool" where
  "Cut s x = (if x \<in> set s then (takeWhile (\<lambda>c. c \<noteq> x) s, tl (dropWhile (\<lambda>c. c \<noteq> x) s), True) else (s, '''', False))"

definition parseUSDMicros :: "string \<Rightarrow> int option" where
  "parseUSDMicros amount =
     (let (whole, fraction, found) = Cut amount (CHR ''.'') in
      if whole = '''' \<or> has_prefix ''+'' whole \<or> has_prefix ''-'' whole \<or> 6 < length fraction then None
      else let padded = fraction @ replicate (6 - length fraction) (CHR ''0'') in
        case ParseInt whole of
          None \<Rightarrow> None
        | Some wholeValue \<Rightarrow>
            if wholeValue > (2 ^ 63 - 1 - 999999) div 1000000 then None
            else case ParseInt padded of
              None \<Rightarrow> None
            | Some fractionValue \<Rightarrow> Some (wholeValue * 1000000 + fractionValue))"

definition front_matter_field :: "string \<Rightarrow> string \<Rightarrow> ParsedTicket \<Rightarrow> ticket_error + ParsedTicket" where
  "front_matter_field key field parsed =
     (if key = ''type'' then
        (if TicketType_Valid field then Inr (parsed\<lparr>pt_Type := field\<rparr>) else Inl (TicketError ''invalid ticket type %q'' [field]))
      else if key = ''merge'' then
        (if MergeMode_Valid field then Inr (parsed\<lparr>pt_MergeMode := field, pt_MergeModeExplicit := True\<rparr>)
         else Inl (TicketError ''invalid merge mode %q'' [field]))
      else if key = ''priority'' then
        (if field = ''low'' \<or> field = ''normal'' \<or> field = ''high'' then Inr (parsed\<lparr>pt_Priority := field\<rparr>)
         else Inl (TicketError ''invalid priority %q'' [field]))
      else if key = ''max_duration'' then
        (case ParseDuration field of
           None \<Rightarrow> Inl (TicketError ''invalid max_duration %q'' [field])
         | Some duration \<Rightarrow>
             if duration \<le> 0 then Inl (TicketError ''invalid max_duration %q'' [field])
             else Inr (parsed\<lparr>pt_MaxDuration := duration\<rparr>))
      else if key = ''max_cost_usd'' then
        (case parseUSDMicros field of
           None \<Rightarrow> Inl (TicketError ''invalid max_cost_usd %q'' [field])
         | Some cost \<Rightarrow>
             if cost \<le> 0 then Inl (TicketError ''invalid max_cost_usd %q'' [field])
             else Inr (parsed\<lparr>pt_MaxCostMicroUSD := cost\<rparr>))
      else Inl (TicketError ''unknown front matter key %q'' [key]))"

fun parseFrontMatter ::
    "string list \<Rightarrow> string list \<Rightarrow> ParsedTicket \<Rightarrow> ticket_error + (ParsedTicket \<times> string list)" where
  "parseFrontMatter seen [] parsed = Inl (TicketError ''unterminated front matter'' [])"
| "parseFrontMatter seen (raw # lines) parsed =
     (let line = TrimSpace raw in
      if line = ''---'' then Inr (parsed, lines)
      else if line = '''' then parseFrontMatter seen lines parsed
      else if list_ex (\<lambda>c. c \<in> {CHR 0x7B, CHR 0x7D, CHR ''['', CHR '']'', CHR ''&'', CHR ''*'', CHR ''!''}) line
        then Inl (TicketError ''front matter supports only simple scalar values'' [])
      else let (k, v, ok) = Cut line (CHR '':'') in
        if \<not> ok \<or> TrimSpace v = '''' then Inl (TicketError ''invalid front matter line %q'' [line])
        else if TrimSpace k \<in> set seen then Inl (TicketError ''duplicate front matter key %q'' [TrimSpace k])
        else case front_matter_field (TrimSpace k) (TrimSpace v) parsed of
          Inl e \<Rightarrow> Inl e
        | Inr parsed' \<Rightarrow> parseFrontMatter (TrimSpace k # seen) lines parsed')"

section \<open>Body\<close>

text \<open>The problem lines, and the lines after the acceptance heading if there is one.\<close>

fun problem_lines :: "string list \<Rightarrow> ticket_error + (string list \<times> string list)" where
  "problem_lines [] = Inr ([], [])"
| "problem_lines (line # lines) =
     (if line = ''## Acceptance'' then Inr ([], lines)
      else if has_prefix ''# '' line then Inl (TicketError ''ticket contains more than one level-one title'' [])
      else case problem_lines lines of
        Inl e \<Rightarrow> Inl e
      | Inr (problem, rest) \<Rightarrow> Inr (line # problem, rest))"

fun acceptance_entries :: "string list \<Rightarrow> ticket_error + string list" where
  "acceptance_entries [] = Inr []"
| "acceptance_entries (line # lines) =
     (let trimmed = TrimSpace line in
      if trimmed = '''' then acceptance_entries lines
      else if has_prefix ''## '' trimmed then Inr []
      else if \<not> has_prefix ''- '' trimmed then Inl (TicketError ''acceptance entries must be '- ' bullets'' [])
      else let entry = TrimSpace (drop 2 trimmed) in
        if entry = '''' then Inl (TicketError ''acceptance entry is empty'' [])
        else case acceptance_entries lines of Inl e \<Rightarrow> Inl e | Inr entries \<Rightarrow> Inr (entry # entries))"

definition parse_body :: "string list \<Rightarrow> ParsedTicket \<Rightarrow> ticket_error + ParsedTicket" where
  "parse_body lines parsed =
     (case dropWhile (\<lambda>line. TrimSpace line = '''') lines of
        [] \<Rightarrow> Inl (TicketError ''ticket requires one leading '# ' title'' [])
      | line # rest \<Rightarrow>
          if \<not> has_prefix ''# '' line then Inl (TicketError ''ticket requires one leading '# ' title'' [])
          else if TrimSpace (drop 2 line) = '''' then Inl (TicketError ''ticket title is empty'' [])
          else case problem_lines rest of
            Inl e \<Rightarrow> Inl e
          | Inr (problem, acceptance) \<Rightarrow>
              let text_of = TrimSpace (join_at (CHR 0x0A) problem) in
              if text_of = '''' then Inl (TicketError ''ticket problem text is empty'' [])
              else case acceptance_entries acceptance of
                Inl e \<Rightarrow> Inl e
              | Inr entries \<Rightarrow>
                  if pt_Type parsed = TicketSpike \<and> pt_MergeMode parsed = MergeAutonomous
                  then Inl (TicketError ''spike tickets cannot request autonomous merge'' [])
                  else Inr (parsed\<lparr>pt_Title := TrimSpace (drop 2 line), pt_Problem := text_of, pt_Acceptance := entries\<rparr>))"

definition default_ticket :: "string \<Rightarrow> ParsedTicket" where
  "default_ticket data =
     \<lparr>pt_Title = '''', pt_Problem = '''', pt_Acceptance = [], pt_Type = TicketFeature, pt_MergeMode = MergeGuarded,
      pt_MergeModeExplicit = False, pt_Priority = ''normal'', pt_MaxDuration = 0, pt_MaxCostMicroUSD = 0, pt_Source = data,
      pt_Digest = sha256_hex data\<rparr>"

definition Ticket_Parse :: "string \<Rightarrow> ticket_error + ParsedTicket" where
  "Ticket_Parse data =
     (if int (length data) > MaxSourceBytes then Inl (TicketError ''ticket exceeds %d bytes'' [])
      else case scanLines data of
        Inl e \<Rightarrow> Inl e
      | Inr lines \<Rightarrow>
          if lines \<noteq> [] \<and> hd lines = ''---'' then
            (case parseFrontMatter [] (tl lines) (default_ticket data) of
               Inl e \<Rightarrow> Inl e
             | Inr (parsed, rest) \<Rightarrow> parse_body rest parsed)
          else parse_body lines (default_ticket data))"

text \<open>The front matter that the draft writers of \<^verbatim>\<open>internal/authoring\<close> and \<^verbatim>\<open>internal/cli\<close> put before a ticket.\<close>

definition draft_front_matter :: "string list" where
  "draft_front_matter = [''type: feature'', ''merge: guarded'', ''max_duration: 1h'', ''max_cost_usd: 10'', ''---'']"

end
