(* ===== verification/TicketSourceSafety.thy ===== *)
theory TicketSourceSafety
  imports TicketSource JSON_RoundTrip
begin

text \<open>
  What the ticket parser promises its callers: every accepted source yields a ticket whose policy fields are
  valid and in range, and the amounts of money it reads are exact and never overflow.
\<close>

section \<open>Trimming\<close>

lemma strip_first_None: "strip_first ps s = None \<longleftrightarrow> (\<forall>p \<in> set ps. p \<noteq> [] \<longrightarrow> \<not> has_prefix p s)"
  by (induction ps) auto

lemma strip_all_stable: "strip_first ps (strip_all ps s) = None"
proof (induction ps s rule: strip_all.induct)
  case (1 ps s)
  then show ?case by (cases "strip_first ps s") (simp_all add: strip_all.simps [of ps s])
qed

lemma strip_first_suffix: "strip_first ps s = Some r \<Longrightarrow> \<exists>a. s = a @ r"
  by (induction ps) (auto split: if_splits intro: append_take_drop_id [symmetric])

lemma strip_all_suffix: "\<exists>a. s = a @ strip_all ps s"
proof (induction ps s rule: strip_all.induct)
  case (1 ps s)
  show ?case
  proof (cases "strip_first ps s")
    case (Some r)
    then obtain a b where "s = a @ r" "r = b @ strip_all ps r" using 1 strip_first_suffix by blast
    moreover have "strip_all ps s = strip_all ps r" using Some by (subst strip_all.simps) simp
    ultimately have "s = (a @ b) @ strip_all ps s" by (metis append_assoc)
    then show ?thesis by blast
  qed simp
qed

lemma has_prefix_append:
  assumes "has_prefix p s"
  shows "has_prefix p (s @ t)"
proof -
  have "length p \<le> length s" using assms unfolding has_prefix_def by (metis length_take min.cobounded1)
  with assms show ?thesis by (simp add: has_prefix_def)
qed

lemma TrimSpace_parts: "\<exists>a b. s = a @ TrimSpace s @ b"
proof -
  obtain a where a: "s = a @ strip_all space_encodings s" using strip_all_suffix by blast
  obtain b where "rev (strip_all space_encodings s) = b @ rev (TrimSpace s)"
    using strip_all_suffix by (metis TrimSpace_def rev_rev_ident)
  then have "strip_all space_encodings s = TrimSpace s @ rev b" by (metis rev_append rev_rev_ident)
  with a show ?thesis by metis
qed

lemma TrimSpace_idem [simp]: "TrimSpace (TrimSpace s) = TrimSpace s"
proof -
  let ?l = "strip_all space_encodings s" and ?R = "map rev space_encodings"
  obtain b where "rev ?l = b @ strip_all ?R (rev ?l)" using strip_all_suffix by blast
  then have l: "?l = TrimSpace s @ rev b" by (simp add: TrimSpace_def) (metis rev_append rev_rev_ident)
  have "strip_first space_encodings (TrimSpace s) = None"
    using strip_all_stable [of space_encodings s] has_prefix_append l unfolding strip_first_None by metis
  then have "TrimSpace (TrimSpace s) = rev (strip_all ?R (rev (TrimSpace s)))" by (simp add: TrimSpace_def)
  also have "\<dots> = TrimSpace s" using strip_all_stable by (simp add: TrimSpace_def)
  finally show ?thesis .
qed

lemma TrimSpace_set: "set (TrimSpace s) \<subseteq> set s"
  using TrimSpace_parts [of s] by (metis Un_upper1 Un_upper2 set_append subset_trans)

lemma strip_first_keeps: "strip_first ps s = Some r \<Longrightarrow> c \<in> set s \<Longrightarrow> \<forall>p \<in> set ps. c \<notin> set p \<Longrightarrow> c \<in> set r"
proof (induction ps)
  case (Cons p ps)
  show ?case
  proof (cases "p \<noteq> [] \<and> has_prefix p s")
    case True
    then have "s = p @ r" using Cons.prems(1) by (auto simp: has_prefix_def) (metis append_take_drop_id)
    then show ?thesis using Cons.prems by auto
  qed (use Cons in auto)
qed simp

lemma strip_all_keeps: "c \<in> set s \<Longrightarrow> \<forall>p \<in> set ps. c \<notin> set p \<Longrightarrow> c \<in> set (strip_all ps s)"
proof (induction ps s rule: strip_all.induct)
  case (1 ps s)
  show ?case
  proof (cases "strip_first ps s")
    case (Some r)
    then show ?thesis using 1 strip_first_keeps [OF Some] by (subst strip_all.simps) simp
  qed (use 1 in simp)
qed

text \<open>Trimming removes only bytes of white space.\<close>

lemma TrimSpace_keeps: "c \<in> set s \<Longrightarrow> \<forall>p \<in> set space_encodings. c \<notin> set p \<Longrightarrow> c \<in> set (TrimSpace s)"
  unfolding TrimSpace_def by (simp add: strip_all_keeps)

section \<open>Amounts\<close>

lemma digit_value_less: "is_digit c \<Longrightarrow> digit_value c < 10"
  by (auto simp: is_digit_def byte_between_def digit_value_def less_eq_char_def)

lemma atoi_snoc: "atoi (s @ [c]) = 10 * atoi s + digit_value c"
  by (simp add: atoi_def)

lemma atoi_bound: "list_all is_digit s \<Longrightarrow> atoi s < 10 ^ length s"
proof (induction s rule: rev_induct)
  case (snoc c s)
  then have "atoi s < 10 ^ length s" "digit_value c < 10" by (auto intro: digit_value_less)
  then show ?case by (simp add: atoi_snoc)
qed (simp add: atoi_def)

lemma atoi_zeros: "atoi (s @ replicate n (CHR ''0'')) = atoi s * 10 ^ n"
proof (induction n)
  case (Suc n)
  have "s @ replicate (Suc n) (CHR ''0'') = (s @ replicate n (CHR ''0'')) @ [CHR ''0'']"
    by (simp add: replicate_append_same)
  then show ?case using Suc by (simp only: atoi_snoc) (simp add: digit_value_def)
qed simp

lemma ParseInt_range:
  assumes "ParseInt s = Some n"
  shows "n < 2 ^ 63" "- (10 ^ (length s - 1)) < n" "n < 10 ^ length s"
    "take 1 s \<noteq> ''-'' \<Longrightarrow> 0 \<le> n"
proof -
  obtain d where d: "list_all is_digit d" "length d \<le> length s"
    and minus: "take 1 s = ''-'' \<Longrightarrow> length d = length s - 1 \<and> n = - int (atoi d)"
    and plus: "take 1 s \<noteq> ''-'' \<Longrightarrow> n = int (atoi d) \<and> n < 2 ^ 63"
    using assms that [of "if take 1 s = ''-'' \<or> take 1 s = ''+'' then tl s else s"]
    by (simp add: ParseInt_def Let_def split: if_splits)
  have b: "int (atoi d) < 10 ^ length d" using atoi_bound [OF d(1)] by (metis of_nat_less_iff of_nat_numeral of_nat_power)
  have m: "(10::int) ^ length d \<le> 10 ^ length s" using d(2) by (intro power_increasing) simp_all
  have z: "0 < (10::int) ^ (length s - 1)" "0 < (10::int) ^ length s" by simp_all
  have u: "take 1 s = ''-'' \<Longrightarrow> int (atoi d) < 10 ^ (length s - 1)" using b minus by simp
  consider "n = - int (atoi d)" "take 1 s = ''-''" | "n = int (atoi d)" "n < 2 ^ 63" "take 1 s \<noteq> ''-''"
    using minus plus by blast
  note c = this
  show "n < 2 ^ 63"
    using c
  proof cases
    case 1
    then have "n \<le> 0" by simp
    then show ?thesis by (rule le_less_trans) simp
  qed
  show "- (10 ^ (length s - 1)) < n" using c by cases (use u z in linarith)+
  show "n < 10 ^ length s" using c by cases (use b m z in linarith)+
  show "take 1 s \<noteq> ''-'' \<Longrightarrow> 0 \<le> n" using c by cases simp_all
qed

lemma parseUSDMicros_Some:
  assumes "parseUSDMicros amount = Some c"
  obtains whole fraction w f where "Cut amount (CHR ''.'') = (whole, fraction, CHR ''.'' \<in> set amount)"
    and "whole \<noteq> ''''" and "take 1 whole \<noteq> ''-''" and "length fraction \<le> 6" and "ParseInt whole = Some w"
    and "w \<le> (2 ^ 63 - 1 - 999999) div 1000000"
    and "ParseInt (fraction @ replicate (6 - length fraction) (CHR ''0'')) = Some f" and "c = w * 1000000 + f"
proof -
  obtain whole fraction where cut: "Cut amount (CHR ''.'') = (whole, fraction, CHR ''.'' \<in> set amount)"
    by (cases "CHR ''.'' \<in> set amount") (simp_all add: Cut_def)
  with assms that [OF cut] show thesis
    by (auto simp: parseUSDMicros_def Let_def has_prefix_def not_less split: if_splits option.splits)
qed

section \<open>Policy fields\<close>

definition policy_ok :: "ParsedTicket \<Rightarrow> bool" where
  "policy_ok p \<longleftrightarrow> TicketType_Valid (pt_Type p) \<and> MergeMode_Valid (pt_MergeMode p) \<and>
     pt_Priority p \<in> {''low'', ''normal'', ''high''} \<and> 0 \<le> pt_MaxDuration p \<and> pt_MaxDuration p < 2 ^ 63 \<and>
     0 \<le> pt_MaxCostMicroUSD p \<and> pt_MaxCostMicroUSD p < 2 ^ 63"

lemma cost_range: "parseUSDMicros amount = Some c \<Longrightarrow> - 99999 \<le> c \<and> c < 2 ^ 63"
proof (erule parseUSDMicros_Some)
  fix whole fraction w f
  assume a: "take 1 whole \<noteq> ''-''" "length fraction \<le> 6" "ParseInt whole = Some w" "w \<le> (2 ^ 63 - 1 - 999999) div 1000000"
    "ParseInt (fraction @ replicate (6 - length fraction) (CHR ''0'')) = Some f" "c = w * 1000000 + f"
  have "0 \<le> w" using ParseInt_range(4) [OF a(3) a(1)] .
  moreover have "- (10 ^ 5) < f" "f < 10 ^ 6" using ParseInt_range(2,3) [OF a(5)] a(2) by simp_all
  moreover have "w * 1000000 \<le> 2 ^ 63 - 1 - 999999" using a(4) by linarith
  ultimately show ?thesis using a(6) by simp
qed

lemma field_policy:
  assumes "front_matter_field key field p = Inr q" "policy_ok p"
  shows "policy_ok q" "pt_Source q = pt_Source p" "pt_Digest q = pt_Digest p"
  using assms cost_range [of field] ParseDuration_bound [of field]
  by (auto simp: front_matter_field_def policy_ok_def split: if_splits option.splits)

lemma frontmatter_policy:
  "parseFrontMatter seen lines p = Inr (q, rest) \<Longrightarrow> policy_ok p \<Longrightarrow>
     policy_ok q \<and> pt_Source q = pt_Source p \<and> pt_Digest q = pt_Digest p"
proof (induction seen lines p rule: parseFrontMatter.induct)
  case (2 seen raw lines p)
  let ?line = "TrimSpace raw"
  obtain k v ok where cut: "Cut ?line (CHR '':'') = (k, v, ok)" by (metis prod_cases3)
  consider (stop) "?line = ''---''" | (blank) "?line \<noteq> ''---''" "?line = ''''" | (field) "?line \<noteq> ''---''" "?line \<noteq> ''''" by blast
  then show ?case
  proof cases
    case stop
    with 2 show ?thesis by simp
  next
    case blank
    with 2 show ?thesis by simp
  next
    case field
    with "2.prems"(1) cut obtain p' where p': "front_matter_field (TrimSpace k) (TrimSpace v) p = Inr p'"
        and rec: "parseFrontMatter (TrimSpace k # seen) lines p' = Inr (q, rest)"
        and ok: "\<not> list_ex (\<lambda>c. c \<in> {CHR 0x7B, CHR 0x7D, CHR ''['', CHR '']'', CHR ''&'', CHR ''*'', CHR ''!''}) ?line"
          "\<not> (\<not> ok \<or> TrimSpace v = '''')" "TrimSpace k \<notin> set seen"
      by (simp add: Let_def split: if_splits sum.splits)
    note f = field_policy [OF p' "2.prems"(2)]
    from "2.IH"(2) [OF refl field ok(1) cut [symmetric] refl refl ok(2,3) p' rec f(1)] f(2,3) show ?thesis by simp
  qed
qed simp

section \<open>Text fields\<close>

lemma problem_lines_no_title: "problem_lines lines = Inr (problem, rest) \<Longrightarrow> set problem \<subseteq> set lines"
  by (induction lines arbitrary: problem) (auto split: if_splits sum.splits prod.splits)

lemma acceptance_trimmed:
  "acceptance_entries lines = Inr entries \<Longrightarrow> list_all (\<lambda>e. e \<noteq> '''' \<and> TrimSpace e = e) entries"
  by (induction lines arbitrary: entries) (auto simp: Let_def split: if_splits sum.splits)

lemma parse_body_Inr:
  assumes "parse_body lines p = Inr q"
  obtains problem rest title where "title \<in> set lines" "has_prefix ''# '' title" "TrimSpace (drop 2 title) \<noteq> ''''"
    "TrimSpace (join_at (CHR 0x0A) problem) \<noteq> ''''" "acceptance_entries rest = Inr (pt_Acceptance q)"
    "\<not> (pt_Type p = TicketSpike \<and> pt_MergeMode p = MergeAutonomous)"
    "q = p\<lparr>pt_Title := TrimSpace (drop 2 title), pt_Problem := TrimSpace (join_at (CHR 0x0A) problem), pt_Acceptance := pt_Acceptance q\<rparr>"
proof -
  obtain title rest0 where t: "dropWhile (\<lambda>line. TrimSpace line = '''') lines = title # rest0"
    using assms by (auto simp: parse_body_def split: list.splits)
  then have "title \<in> set lines" by (metis list.set_intros(1) set_dropWhileD)
  with assms t that show thesis
    by (auto simp: parse_body_def Let_def split: if_splits sum.splits prod.splits)
qed

lemma Ticket_Parse_sound:
  assumes "Ticket_Parse data = Inr p"
  shows "pt_Source p = data \<and> pt_Digest p = sha256_hex data \<and> int (length data) \<le> MaxSourceBytes \<and> policy_ok p \<and>
    \<not> (pt_Type p = TicketSpike \<and> pt_MergeMode p = MergeAutonomous) \<and>
    list_all (\<lambda>s. s \<noteq> '''' \<and> TrimSpace s = s) (pt_Title p # pt_Problem p # pt_Acceptance p)"
proof -
  have d: "policy_ok (default_ticket data)"
    by (simp add: policy_ok_def default_ticket_def TicketType_Valid_def ticket_types_def TicketFeature_def MergeMode_Valid_def)
  from assms obtain lines q where body: "parse_body lines q = Inr p" and len: "int (length data) \<le> MaxSourceBytes"
      and q: "q = default_ticket data \<or> (\<exists>ls. parseFrontMatter [] ls (default_ticket data) = Inr (q, lines))"
    by (auto simp: Ticket_Parse_def split: if_splits sum.splits prod.splits)
  from q have q: "policy_ok q" "pt_Source q = data" "pt_Digest q = sha256_hex data"
    using d frontmatter_policy [of "[]" _ "default_ticket data" q lines] by (auto simp: default_ticket_def)
  from body obtain problem rest title where b: "TrimSpace (drop 2 title) \<noteq> ''''" "TrimSpace (join_at (CHR 0x0A) problem) \<noteq> ''''"
      "acceptance_entries rest = Inr (pt_Acceptance p)" "\<not> (pt_Type q = TicketSpike \<and> pt_MergeMode q = MergeAutonomous)"
      and p: "p = q\<lparr>pt_Title := TrimSpace (drop 2 title), pt_Problem := TrimSpace (join_at (CHR 0x0A) problem), pt_Acceptance := pt_Acceptance p\<rparr>"
    by (rule parse_body_Inr)
  have f: "pt_Title p = TrimSpace (drop 2 title)" "pt_Problem p = TrimSpace (join_at (CHR 0x0A) problem)" "pt_Source p = pt_Source q"
    "pt_Digest p = pt_Digest q" "pt_Type p = pt_Type q" "pt_MergeMode p = pt_MergeMode q" "policy_ok p = policy_ok q"
    by (subst p, simp add: policy_ok_def)+
  show ?thesis using f q b len acceptance_trimmed [OF b(3)] by simp
qed

section \<open>Properties\<close>

text \<open>C35: a source that parses gives a ticket that is fit to be submitted. Its bytes and digest are those of the
  source; type, merge mode and priority are valid and not a spike that asks for autonomous merge; duration
  and cost are non-negative 64-bit amounts; title, problem and every acceptance entry are non-empty and trimmed.\<close>

theorem parsed_ticket_valid:
  assumes "Ticket_Parse data = Inr p"
  shows "pt_Source p = data \<and> pt_Digest p = sha256_hex data \<and> int (length data) \<le> MaxSourceBytes \<and> policy_ok p \<and>
    \<not> (pt_Type p = TicketSpike \<and> pt_MergeMode p = MergeAutonomous) \<and>
    list_all (\<lambda>s. s \<noteq> '''' \<and> TrimSpace s = s) (pt_Title p # pt_Problem p # pt_Acceptance p)"
  using assms by (rule Ticket_Parse_sound)

definition with_draft_policy :: "ParsedTicket \<Rightarrow> ParsedTicket" where
  "with_draft_policy p = p\<lparr>pt_Type := TicketFeature, pt_MergeMode := MergeGuarded, pt_MergeModeExplicit := True,
     pt_MaxDuration := 3600000000000, pt_MaxCostMicroUSD := 10000000\<rparr>"

lemma draft_front_matter_parses:
  "parseFrontMatter [] (draft_front_matter @ rest) p = Inr (with_draft_policy p, rest)"
proof -
  have trims: "TrimSpace ''type: feature'' = ''type: feature''" "TrimSpace ''merge: guarded'' = ''merge: guarded''"
    "TrimSpace ''max_duration: 1h'' = ''max_duration: 1h''" "TrimSpace ''max_cost_usd: 10'' = ''max_cost_usd: 10''"
    "TrimSpace ''---'' = ''---''" "TrimSpace ''type'' = ''type''" "TrimSpace ''merge'' = ''merge''"
    "TrimSpace ''max_duration'' = ''max_duration''" "TrimSpace ''max_cost_usd'' = ''max_cost_usd''"
    "TrimSpace '' feature'' = ''feature''" "TrimSpace '' guarded'' = ''guarded''" "TrimSpace '' 1h'' = ''1h''"
    "TrimSpace '' 10'' = ''10''" by code_simp+
  have amounts: "ParseDuration ''1h'' = Some 3600000000000" "parseUSDMicros ''10'' = Some 10000000"
    "TicketType_Valid ''feature''" "MergeMode_Valid ''guarded''" by code_simp+
  show ?thesis
    by (simp add: draft_front_matter_def with_draft_policy_def Let_def trims amounts Cut_def front_matter_field_def
        TicketFeature_def MergeGuarded_def)
qed

definition sample_source :: string where
  "sample_source = join_at (CHR 0x0A) ([''---''] @ draft_front_matter @ [''# Fix'', ''Broken.'', ''## Acceptance'', ''- It works'', ''''])"

lemma sample_source_parses:
  "Ticket_Parse sample_source = Inr ((with_draft_policy (default_ticket sample_source))\<lparr>pt_Title := ''Fix'', pt_Problem := ''Broken.'',
     pt_Acceptance := [''It works'']\<rparr>)"
proof -
  have lines: "scanLines sample_source = Inr ([''---''] @ draft_front_matter @ [''# Fix'', ''Broken.'', ''## Acceptance'', ''- It works''])"
    "int (length sample_source) \<le> MaxSourceBytes" by code_simp+
  have trims: "TrimSpace ''# Fix'' = ''# Fix''" "TrimSpace ''Fix'' = ''Fix''" "TrimSpace ''Broken.'' = ''Broken.''"
    "TrimSpace ''- It works'' = ''- It works''" "TrimSpace ''It works'' = ''It works''" by code_simp+
  have "parse_body [''# Fix'', ''Broken.'', ''## Acceptance'', ''- It works''] p =
      Inr (p\<lparr>pt_Title := ''Fix'', pt_Problem := ''Broken.'', pt_Acceptance := [''It works'']\<rparr>)"
    if "pt_Type p = TicketFeature" for p :: ParsedTicket
    using that by (simp add: parse_body_def Let_def trims has_prefix_def TicketFeature_def TicketSpike_def)
  with lines show ?thesis
    by (simp add: Ticket_Parse_def draft_front_matter_parses with_draft_policy_def)
qed

theorem parsed_ticket_valid_witness:
  "\<exists>p. Ticket_Parse sample_source = Inr p \<and> policy_ok p \<and> pt_MaxDuration p = 3600000000000 \<and> pt_Title p = ''Fix''"
  using parsed_ticket_valid [OF sample_source_parses] sample_source_parses by (auto simp: with_draft_policy_def)

section \<open>Amounts of money\<close>

lemma ParseInt_digits:
  assumes "list_all is_digit s" "s \<noteq> ''''" "int (atoi s) < 2 ^ 63"
  shows "ParseInt s = Some (int (atoi s))"
proof -
  have "take 1 s \<noteq> ''-''" "take 1 s \<noteq> ''+''" using assms(1,2) by (cases s; auto simp: is_digit_def byte_between_def)+
  with assms show ?thesis by (simp add: ParseInt_def Let_def)
qed

lemma ParseInt_minus:
  assumes "list_all is_digit s" "s \<noteq> ''''" "int (atoi s) < 2 ^ 63"
  shows "ParseInt (CHR ''-'' # s) = Some (- int (atoi s))"
  using assms by (simp add: ParseInt_def Let_def)

lemma Cut_digits: "list_all is_digit s \<Longrightarrow> Cut (s @ ''.'' @ t) (CHR ''.'') = (s, t, True)"
proof -
  assume "list_all is_digit s"
  then have "\<forall>c \<in> set s. c \<noteq> CHR ''.''" by (auto simp: list_all_iff is_digit_def byte_between_def)
  then show ?thesis by (simp add: Cut_def takeWhile_append2 dropWhile_append2)
qed

lemma padded_bound:
  assumes "list_all is_digit f" "length f \<le> n" "n \<le> 6"
  shows "list_all is_digit (f @ replicate (n - length f) (CHR ''0''))"
    "int (atoi (f @ replicate (n - length f) (CHR ''0''))) < 2 ^ 63"
proof -
  show d: "list_all is_digit (f @ replicate (n - length f) (CHR ''0''))"
    using assms(1) by (auto simp: list_all_iff is_digit_def byte_between_def)
  have "atoi (f @ replicate (n - length f) (CHR ''0'')) < 10 ^ n" using atoi_bound [OF d] assms(2) by simp
  also have "\<dots> \<le> 10 ^ 6" using assms(3) by (intro power_increasing) simp_all
  finally show "int (atoi (f @ replicate (n - length f) (CHR ''0''))) < 2 ^ 63" by simp
qed

lemma whole_parses:
  assumes "int w \<le> (2 ^ 63 - 1 - 999999) div 1000000"
  shows "ParseInt (itoa w) = Some (int w)" "itoa w \<noteq> ''''" "\<not> has_prefix ''+'' (itoa w)" "\<not> has_prefix ''-'' (itoa w)"
proof -
  have "int w < 2 ^ 63" using assms by simp
  then show "ParseInt (itoa w) = Some (int w)" using ParseInt_digits [OF itoa_is_digit itoa_nonempty] by (simp add: atoi_itoa)
  show "itoa w \<noteq> ''''" by (rule itoa_nonempty)
  then show "\<not> has_prefix ''+'' (itoa w)" "\<not> has_prefix ''-'' (itoa w)"
    using itoa_is_digit [of w] by (cases "itoa w"; auto simp: has_prefix_def is_digit_def byte_between_def)+
qed

text \<open>Amounts are read exactly and within 64 bits. Every accepted amount is between minus 0.099999 dollars and the
  largest 64-bit number of micro-dollars, so the multiplication never wraps around; and a plain decimal
  amount with up to six digits after the point is read as its exact value.\<close>

theorem cost_exact_and_bounded:
  "(parseUSDMicros amount = Some c \<longrightarrow> - 99999 \<le> c \<and> c < 2 ^ 63) \<and>
   (int w \<le> (2 ^ 63 - 1 - 999999) div 1000000 \<and> list_all is_digit f \<and> f \<noteq> '''' \<and> length f \<le> 6 \<longrightarrow>
     parseUSDMicros (itoa w @ ''.'' @ f) = Some (int w * 1000000 + int (atoi f) * 10 ^ (6 - length f)))"
proof (intro conjI impI)
  assume a: "int w \<le> (2 ^ 63 - 1 - 999999) div 1000000 \<and> list_all is_digit f \<and> f \<noteq> '''' \<and> length f \<le> 6"
  note p = padded_bound [of f 6]
  have "ParseInt (f @ replicate (6 - length f) (CHR ''0'')) = Some (int (atoi f) * 10 ^ (6 - length f))"
    using ParseInt_digits [OF p(1) _ p(2)] a by (simp add: atoi_zeros)
  with a show "parseUSDMicros (itoa w @ ''.'' @ f) = Some (int w * 1000000 + int (atoi f) * 10 ^ (6 - length f))"
    unfolding parseUSDMicros_def Cut_digits [OF itoa_is_digit] Let_def by (simp add: whole_parses)
qed (use cost_range in blast)+

theorem cost_exact_and_bounded_witness: "parseUSDMicros ''20.125'' = Some 20125000"
proof -
  have "itoa 20 = ''20''" "atoi ''125'' = 125" by code_simp+
  with cost_exact_and_bounded [of "''''" 0 20 "''125''"] show ?thesis by (simp add: is_digit_def byte_between_def)
qed

text \<open>C36: the parser means to accept only positive decimals, but it checks the sign of the whole part alone: a minus sign
  after the point is passed to the integer parser, so the fraction is subtracted and the amount accepted.\<close>

theorem signed_fraction_accepted:
  assumes "int w \<le> (2 ^ 63 - 1 - 999999) div 1000000" "list_all is_digit f" "f \<noteq> ''''" "length f \<le> 5"
  shows "parseUSDMicros (itoa w @ ''.-'' @ f) = Some (int w * 1000000 - int (atoi f) * 10 ^ (5 - length f))"
proof -
  note p = padded_bound [of f 5]
  have "ParseInt (CHR ''-'' # f @ replicate (5 - length f) (CHR ''0'')) = Some (- (int (atoi f) * 10 ^ (5 - length f)))"
    using ParseInt_minus [OF p(1) _ p(2)] assms by (simp add: atoi_zeros)
  with assms show ?thesis
    using Cut_digits [OF itoa_is_digit, of w "CHR ''-'' # f"] by (simp add: parseUSDMicros_def whole_parses)
qed

theorem signed_fraction_accepted_witness: "parseUSDMicros ''1.-5'' = Some 950000"
proof -
  have "itoa 1 = ''1''" "atoi ''5'' = 5" by code_simp+
  with signed_fraction_accepted [of 1 "''5''"] show ?thesis by (simp add: is_digit_def byte_between_def)
qed

end
