(* ===== verification/Authoring.thy ===== *)
theory Authoring
  imports TicketSourceSafety
begin

text \<open>
  The draft side of \<^verbatim>\<open>internal/authoring/schema.go\<close>: a provider may propose the text of a ticket, and \<open>Markdown\<close>
  turns a validated proposal into a ticket source. \<open>Parse\<close> and \<open>Sanitize\<close> of the same file, which read the
  provider's JSON through a decoder that rejects repeated keys and rewrite texts by regular expressions, are
  not part of the model.
\<close>

declare rune_len.simps(2) [simp del]

section \<open>Safe text\<close>

text \<open>The code point of the sequence at the front of a well-formed text.\<close>

definition first_rune :: "string \<Rightarrow> int" where
  "first_rune s =
     (let b = (\<lambda>i. of_char (s ! i) :: int); n = rune_len s in
      if n \<le> 1 then b 0
      else if n = 2 then (b 0 mod 0x20) * 0x40 + b 1 mod 0x40
      else if n = 3 then (b 0 mod 0x10) * 0x1000 + (b 1 mod 0x40) * 0x40 + b 2 mod 0x40
      else (b 0 mod 8) * 0x40000 + (b 1 mod 0x40) * 0x1000 + (b 2 mod 0x40) * 0x40 + b 3 mod 0x40)"

text \<open>\<open>unicode.IsControl\<close>, and the format characters (category Cf) of the Unicode tables.\<close>

definition IsControl :: "int \<Rightarrow> bool" where
  "IsControl r \<longleftrightarrow> r < 0x20 \<or> 0x7F \<le> r \<and> r < 0xA0"

definition format_ranges :: "(int \<times> int) list" where
  "format_ranges =
     [(0xAD, 0xAD), (0x600, 0x605), (0x61C, 0x61C), (0x6DD, 0x6DD), (0x70F, 0x70F), (0x890, 0x891), (0x8E2, 0x8E2),
      (0x180E, 0x180E), (0x200B, 0x200F), (0x202A, 0x202E), (0x2060, 0x2064), (0x2066, 0x206F), (0xFEFF, 0xFEFF),
      (0xFFF9, 0xFFFB), (0x110BD, 0x110BD), (0x110CD, 0x110CD), (0x13430, 0x1343F), (0x1BCA0, 0x1BCA3), (0x1D173, 0x1D17A),
      (0xE0001, 0xE0001), (0xE0020, 0xE007F)]"

definition rune_allowed :: "int \<Rightarrow> bool" where
  "rune_allowed r \<longleftrightarrow> r = 0x0A \<or> r = 0x09 \<or> \<not> (IsControl r \<or> list_ex (\<lambda>(lo, hi). lo \<le> r \<and> r \<le> hi) format_ranges)"

function runes_allowed :: "string \<Rightarrow> bool" where
  "runes_allowed s \<longleftrightarrow> (if s = [] then True else rune_allowed (first_rune s) \<and> runes_allowed (drop (max 1 (rune_len s)) s))"
  by pat_completeness auto
termination
  by (relation "measure length") auto

declare runes_allowed.simps [simp del]

definition SafeText :: "string \<Rightarrow> nat \<Rightarrow> bool" where
  "SafeText s limit \<longleftrightarrow> length s \<le> limit \<and> utf8_ok s \<and> runes_allowed s"

section \<open>Proposals\<close>

record AuthoringResult =
  ar_Intent :: "(string \<times> string) option"
  ar_Kind :: string
  ar_Question :: string
  ar_Title :: string
  ar_Problem :: string
  ar_Scope :: "string list"
  ar_Acceptance :: "string list"
  ar_Assumptions :: "string list"

datatype authoring_error = ErrContent

definition one_line :: "string \<Rightarrow> bool" where
  "one_line s \<longleftrightarrow> CHR 0x0A \<notin> set s \<and> CHR 0x09 \<notin> set s"

definition safe_item :: "string \<Rightarrow> bool" where
  "safe_item item \<longleftrightarrow> SafeText item 1024 \<and> TrimSpace item \<noteq> '''' \<and> one_line item"

definition Authoring_Validate :: "AuthoringResult \<Rightarrow> authoring_error option" where
  "Authoring_Validate r =
     (if ar_Intent r \<noteq> None then Some ErrContent
      else if ar_Kind r \<noteq> ''question'' \<and> ar_Kind r \<noteq> ''draft'' \<or> \<not> SafeText (ar_Question r) 2048 \<or> \<not> SafeText (ar_Title r) 160 \<or>
        \<not> one_line (ar_Title r) \<or> \<not> SafeText (ar_Problem r) 8192 \<or> 16 < length (ar_Scope r) \<or> 32 < length (ar_Acceptance r) \<or>
        16 < length (ar_Assumptions r) then Some ErrContent
      else if \<not> list_all safe_item (ar_Scope r @ ar_Acceptance r @ ar_Assumptions r) then Some ErrContent
      else if ar_Kind r = ''question'' then
        (if TrimSpace (ar_Question r) = '''' \<or> ar_Title r \<noteq> '''' \<or> ar_Problem r \<noteq> '''' \<or>
          length (ar_Scope r) + length (ar_Acceptance r) + length (ar_Assumptions r) \<noteq> 0 then Some ErrContent else None)
      else if ar_Question r \<noteq> '''' \<or> TrimSpace (ar_Title r) = '''' \<or> TrimSpace (ar_Problem r) = '''' \<or> ar_Acceptance r = []
        then Some ErrContent
      else None)"

text \<open>\<open>strings.Join\<close> with a separator text.\<close>

fun join_text :: "string \<Rightarrow> string list \<Rightarrow> string" where
  "join_text sep [] = []"
| "join_text sep [x] = x"
| "join_text sep (x # xs) = x @ sep @ join_text sep xs"

definition draft_section :: "string \<times> string list \<Rightarrow> string" where
  "draft_section section =
     (if snd section = [] then []
      else [CHR 0x0A] @ ''## '' @ fst section @ [CHR 0x0A] @ ''- '' @ join_text ([CHR 0x0A] @ ''- '') (snd section) @ [CHR 0x0A])"

definition draft_source :: "AuthoringResult \<Rightarrow> string" where
  "draft_source r =
     concat (map (\<lambda>line. line @ [CHR 0x0A]) (''---'' # draft_front_matter)) @
     ''# '' @ ar_Title r @ [CHR 0x0A, CHR 0x0A] @ ar_Problem r @ [CHR 0x0A] @
     concat (map draft_section [(''Scope'', ar_Scope r), (''Assumptions'', ar_Assumptions r), (''Acceptance'', ar_Acceptance r)])"

definition Markdown :: "AuthoringResult \<Rightarrow> authoring_error + string" where
  "Markdown r =
     (if Authoring_Validate r \<noteq> None \<or> ar_Kind r \<noteq> ''draft'' then Inl ErrContent
      else case Ticket_Parse (draft_source r) of
        Inl _ \<Rightarrow> Inl ErrContent
      | Inr parsed \<Rightarrow> if pt_Acceptance parsed \<noteq> ar_Acceptance r then Inl ErrContent else Inr (draft_source r))"

section \<open>Lines of a source\<close>

lemma scanLines_line:
  assumes "CHR 0x0A \<notin> set line" "int (length line) < MaxSourceBytes"
  shows "scanLines (line @ CHR 0x0A # rest) = (case scanLines rest of Inl e \<Rightarrow> Inl e | Inr ls \<Rightarrow> Inr (trim_cr (trim_cr line) # ls))"
proof -
  have "\<forall>c \<in> set line. c \<noteq> CHR 0x0A" using assms(1) by auto
  then show ?thesis using assms(2) by (subst scanLines.simps) (simp add: Let_def takeWhile_append2 dropWhile_append2)
qed

definition plain_line :: "string \<Rightarrow> bool" where
  "plain_line line \<longleftrightarrow> CHR 0x0A \<notin> set line \<and> CHR 0x0D \<notin> set line \<and> int (length line) < MaxSourceBytes"

lemma trim_cr_plain [simp]: "CHR 0x0D \<notin> set line \<Longrightarrow> trim_cr line = line"
  by (auto simp: trim_cr_def dest: last_in_set)

lemma scanLines_plain:
  "list_all plain_line ls \<Longrightarrow> scanLines (concat (map (\<lambda>l. l @ [CHR 0x0A]) ls) @ rest) = map_sum id (\<lambda>ls'. ls @ ls') (scanLines rest)"
proof (induction ls)
  case Nil
  show ?case by (cases "scanLines rest") simp_all
next
  case (Cons l ls)
  then show ?case by (cases "scanLines rest") (simp_all add: scanLines_line plain_line_def)
qed

lemma allowed_ascii:
  "utf8_ok s \<Longrightarrow> runes_allowed s \<Longrightarrow> c \<in> set s \<Longrightarrow> c < CHR 0x80 \<Longrightarrow> rune_allowed (of_char c)"
proof (induction s rule: runes_allowed.induct)
  case (1 s)
  show ?case
  proof (cases s)
    case (Cons a t)
    have step: "rune_allowed (first_rune s)" "runes_allowed (drop (max 1 (rune_len s)) s)"
      using "1.prems"(2) Cons by (subst (asm) runes_allowed.simps, simp)+
    have u: "0 < rune_len s" "utf8_ok (drop (rune_len s) s)" using "1.prems"(1) Cons by (simp_all add: Let_def split: if_splits)
    then have mx: "max 1 (rune_len s) = rune_len s" by simp
    show ?thesis
    proof (cases "c \<in> set (drop (rune_len s) s)")
      case True
      then show ?thesis using "1.IH" [unfolded mx, OF _ u(2) step(2) [unfolded mx] True "1.prems"(4)] Cons by simp
    next
      case False
      then have c: "c \<in> set (take (rune_len s) s)" using "1.prems"(3) by (metis Un_iff append_take_drop_id set_append)
      show ?thesis
      proof (cases "a < CHR 0x80")
        case True
        then have "rune_len s = 1" using Cons by simp
        with c Cons step(1) show ?thesis by (simp add: first_rune_def)
      next
        case False
        then have "list_all (\<lambda>x. \<not> x < CHR 0x80) (take (rune_len s) s)" using rune_bytes_high Cons by blast
        with c "1.prems"(4) show ?thesis by (auto simp: list_all_iff)
      qed
    qed
  qed (use 1 in simp)
qed

lemma SafeText_no_cr: "SafeText s n \<Longrightarrow> CHR 0x0D \<notin> set s"
proof
  assume s: "SafeText s n" and c: "CHR 0x0D \<in> set s"
  have "(CHR 0x0D :: char) < CHR 0x80" by (simp add: less_char_def)
  with s c have "rune_allowed (of_char (CHR 0x0D))" unfolding SafeText_def using allowed_ascii by blast
  moreover have "\<not> rune_allowed (of_char (CHR 0x0D))" by code_simp
  ultimately show False by blast
qed

section \<open>Drafts\<close>

lemma front_lines_plain: "list_all plain_line (''---'' # draft_front_matter)"
  by code_simp

lemma Validate_draft:
  assumes "Authoring_Validate r = None" "ar_Kind r = ''draft''"
  shows "SafeText (ar_Title r) 160" "one_line (ar_Title r)" "SafeText (ar_Problem r) 8192" "TrimSpace (ar_Title r) \<noteq> ''''"
    "TrimSpace (ar_Problem r) \<noteq> ''''" "ar_Acceptance r \<noteq> []"
    "list_all safe_item (ar_Scope r)" "list_all safe_item (ar_Acceptance r)" "list_all safe_item (ar_Assumptions r)"
    "length (ar_Scope r) \<le> 16" "length (ar_Acceptance r) \<le> 32" "length (ar_Assumptions r) \<le> 16"
  using assms by (auto simp: Authoring_Validate_def split: if_splits)

lemma title_line_plain:
  assumes "Authoring_Validate r = None" "ar_Kind r = ''draft''"
  shows "plain_line (''# '' @ ar_Title r)"
proof -
  note v = Validate_draft [OF assms]
  have "length (ar_Title r) \<le> 160" using v(1) by (simp add: SafeText_def)
  then show ?thesis using v(2) SafeText_no_cr [OF v(1)] by (simp add: plain_line_def one_line_def MaxSourceBytes_def)
qed

lemma hash_line: "TrimSpace (''# '' @ s) \<noteq> ''''"
proof -
  have "CHR ''#'' \<in> set (TrimSpace (''# '' @ s))"
    by (rule TrimSpace_keeps) (simp_all add: space_encodings_def)
  then show ?thesis by auto
qed

lemma drafted_lines:
  assumes "Authoring_Validate r = None" "ar_Kind r = ''draft''" "scanLines (draft_source r) = Inr lines"
  shows "\<exists>rest. lines = (''---'' # draft_front_matter) @ (''# '' @ ar_Title r) # rest"
proof -
  let ?rest = "CHR 0x0A # ar_Problem r @ [CHR 0x0A] @
     concat (map draft_section [(''Scope'', ar_Scope r), (''Assumptions'', ar_Assumptions r), (''Acceptance'', ar_Acceptance r)])"
  have "draft_source r = concat (map (\<lambda>line. line @ [CHR 0x0A]) ((''---'' # draft_front_matter) @ [''# '' @ ar_Title r])) @ ?rest"
    by (simp add: draft_source_def)
  moreover have "list_all plain_line ((''---'' # draft_front_matter) @ [''# '' @ ar_Title r])"
    using front_lines_plain title_line_plain [OF assms(1,2)] by simp
  ultimately have "scanLines (draft_source r) = map_sum id ((@) ((''---'' # draft_front_matter) @ [''# '' @ ar_Title r])) (scanLines ?rest)"
    using scanLines_plain by metis
  with assms(3) show ?thesis by (cases "scanLines ?rest") auto
qed

text \<open>C33: a provider's draft carries no authority. Whatever a proposal says, the source made of it parses as a feature
  ticket with guarded merge, one hour and ten dollars, with the proposal's title and exactly its acceptance
  entries: no text in it can reach the front matter or add an entry.\<close>

theorem draft_has_fixed_policy:
  assumes "Markdown r = Inr source"
  shows "\<exists>p. Ticket_Parse source = Inr p \<and> pt_Acceptance p = ar_Acceptance r \<and> pt_Title p = TrimSpace (ar_Title r) \<and>
    pt_Type p = TicketFeature \<and> pt_MergeMode p = MergeGuarded \<and> pt_MergeModeExplicit p \<and> pt_Priority p = ''normal'' \<and>
    pt_MaxDuration p = 3600000000000 \<and> pt_MaxCostMicroUSD p = 10000000"
proof -
  from assms obtain p where ok: "Authoring_Validate r = None" "ar_Kind r = ''draft''" "source = draft_source r"
      "Ticket_Parse source = Inr p" "pt_Acceptance p = ar_Acceptance r"
    by (auto simp: Markdown_def split: if_splits sum.splits)
  from ok(4) obtain lines where lines: "scanLines source = Inr lines"
    by (auto simp: Ticket_Parse_def split: if_splits sum.splits)
  with drafted_lines ok obtain rest where l: "lines = (''---'' # draft_front_matter) @ (''# '' @ ar_Title r) # rest" by metis
  let ?q = "with_draft_policy (default_ticket source)"
  have "parse_body ((''# '' @ ar_Title r) # rest) ?q = Inr p"
    using ok(4) lines by (simp add: Ticket_Parse_def l draft_front_matter_parses split: if_splits)
  then have "\<exists>t e. p = ?q\<lparr>pt_Title := TrimSpace (ar_Title r), pt_Problem := t, pt_Acceptance := e\<rparr>"
    using hash_line [of "ar_Title r"] by (auto simp: parse_body_def Let_def split: if_splits sum.splits prod.splits)
  then show ?thesis using ok(4,5) by (auto simp: with_draft_policy_def default_ticket_def)
qed

definition sample_draft :: AuthoringResult where
  "sample_draft = \<lparr>ar_Intent = None, ar_Kind = ''draft'', ar_Question = '''', ar_Title = ''Fix'', ar_Problem = ''Broken.'', ar_Scope = [],
     ar_Acceptance = [''It works''], ar_Assumptions = []\<rparr>"


section \<open>Well-formed proposals become tickets\<close>

lemma TrimSpace_fixed:
  assumes "TrimSpace s = s"
  shows "strip_first space_encodings s = None" "strip_first (map rev space_encodings) (rev s) = None"
proof -
  obtain a where a: "s = a @ strip_all space_encodings s" using strip_all_suffix by blast
  obtain b where "rev (strip_all space_encodings s) = b @ rev s"
    using strip_all_suffix [of "rev (strip_all space_encodings s)" "map rev space_encodings"] assms
    by (metis TrimSpace_def rev_rev_ident)
  then have "length s \<le> length (strip_all space_encodings s)" by (metis length_append length_rev le_add2)
  with a have l: "strip_all space_encodings s = s" by (metis append_eq_append_conv append_self_conv2 le_add2 le_antisym length_append)
  then show "strip_first space_encodings s = None" by (simp add: strip_all_fix)
  from assms l have "strip_all (map rev space_encodings) (rev s) = rev s" by (metis TrimSpace_def rev_rev_ident)
  then show "strip_first (map rev space_encodings) (rev s) = None" by (simp add: strip_all_fix)
qed

lemma encodings_facts:
  "\<forall>p \<in> set space_encodings. p \<noteq> [] \<and> hd p \<noteq> CHR ''-'' \<and> (2 \<le> length p \<longrightarrow> CHR '' '' \<notin> set p)"
  by (simp add: space_encodings_def)

lemma bullet_fixed:
  assumes "TrimSpace x = x" "x \<noteq> ''''"
  shows "TrimSpace (''- '' @ x) = ''- '' @ x"
proof -
  have "\<not> has_prefix p (''- '' @ x)" if "p \<in> set space_encodings" for p
    using encodings_facts that by (cases p) (auto simp: has_prefix_def)
  then have l: "strip_all space_encodings (''- '' @ x) = ''- '' @ x" by (intro strip_all_none) (simp add: strip_first_None)
  have "\<not> has_prefix p (rev x @ '' -'')" if "p \<in> set (map rev space_encodings)" for p
  proof
    assume pre: "has_prefix p (rev x @ '' -'')"
    show False
    proof (cases "length p \<le> length x")
      case True
      then have "has_prefix p (rev x)" using pre by (simp add: has_prefix_def)
      moreover have "p \<noteq> []" using that encodings_facts by auto
      ultimately show False using TrimSpace_fixed(2) [OF assms(1)] that unfolding strip_first_None by blast
    next
      case False
      have "length x = Suc (length x - 1)" using assms(2) by (cases x) auto
      then have "2 \<le> length p" using False by linarith
      then have "CHR '' '' \<notin> set p" using that encodings_facts by auto
      moreover have "CHR '' '' \<in> set (take (length p) (rev x @ '' -''))" using False by (cases "length p - length x") auto
      ultimately show False using pre unfolding has_prefix_def by metis
    qed
  qed
  then have "strip_all (map rev space_encodings) (rev x @ '' -'') = rev x @ '' -''" by (intro strip_all_none) (simp add: strip_first_None)
  then show ?thesis using l by (simp add: TrimSpace_def)
qed

definition section_lines :: "string \<times> string list \<Rightarrow> string list" where
  "section_lines sec = (if snd sec = [] then [] else '''' # (''## '' @ fst sec) # map ((@) ''- '') (snd sec))"

definition draft_lines :: "AuthoringResult \<Rightarrow> string list" where
  "draft_lines r = (''---'' # draft_front_matter) @ [''# '' @ ar_Title r, ''''] @ split_at (CHR 0x0A) (ar_Problem r) @
     section_lines (''Scope'', ar_Scope r) @ section_lines (''Assumptions'', ar_Assumptions r) @
     section_lines (''Acceptance'', ar_Acceptance r)"

abbreviation in_lines :: "string list \<Rightarrow> string" where
  "in_lines ls \<equiv> concat (map (\<lambda>l. l @ [CHR 0x0A]) ls)"

lemma split_lines: "in_lines (split_at (CHR 0x0A) s) = s @ [CHR 0x0A]"
proof (induction s)
  case (Cons c s)
  then show ?case by (cases "split_at (CHR 0x0A) s") (auto split: if_splits)
qed simp

lemma join_text_lines:
  "items \<noteq> [] \<Longrightarrow> ''- '' @ join_text (CHR 0x0A # ''- '') items @ [CHR 0x0A] = in_lines (map ((@) ''- '') items)"
  by (induction "CHR 0x0A # ''- ''" items rule: join_text.induct) simp_all

lemma section_in_lines: "draft_section sec = in_lines (section_lines sec)"
  using join_text_lines [of "snd sec"] by (simp add: draft_section_def section_lines_def)

lemma draft_in_lines: "draft_source r = in_lines (draft_lines r)"
  by (simp add: draft_source_def draft_lines_def section_in_lines split_lines)

lemma problem_until:
  "list_all (\<lambda>l. l \<noteq> ''## Acceptance'' \<and> \<not> has_prefix ''# '' l) ls \<Longrightarrow> problem_lines (ls @ ''## Acceptance'' # rest) = Inr (ls, rest)"
  by (induction ls) auto

lemma bullets_parse:
  "list_all (\<lambda>i. TrimSpace i = i \<and> i \<noteq> '''') items \<Longrightarrow> acceptance_entries (map ((@) ''- '') items) = Inr items"
proof (induction items)
  case (Cons i items)
  then have "TrimSpace (''- '' @ i) = ''- '' @ i" "TrimSpace i = i" "i \<noteq> ''''" using bullet_fixed by auto
  with Cons show ?case by (simp add: Let_def has_prefix_def)
qed simp

lemma split_at_length: "l \<in> set (split_at x s) \<Longrightarrow> length l \<le> length s"
  by (induction s arbitrary: l) (auto split: if_splits list.splits intro: le_SucI)

lemma split_at_set: "l \<in> set (split_at x s) \<Longrightarrow> set l \<subseteq> set s"
  by (induction s arbitrary: l) (fastforce split: if_splits list.splits)+

lemma items_plain:
  assumes "list_all safe_item items"
  shows "list_all plain_line (section_lines (name, items)) \<longleftrightarrow> items = [] \<or> plain_line (''## '' @ name)"
    "list_all (\<lambda>i. length i \<le> 1024) items"
proof -
  have "plain_line (''- '' @ i)" if "i \<in> set items" for i
    using assms that SafeText_no_cr [of i 1024]
    by (auto simp: list_all_iff safe_item_def plain_line_def one_line_def MaxSourceBytes_def SafeText_def)
  then show "list_all plain_line (section_lines (name, items)) \<longleftrightarrow> items = [] \<or> plain_line (''## '' @ name)"
    by (auto simp: section_lines_def list_all_iff plain_line_def MaxSourceBytes_def)
  show "list_all (\<lambda>i. length i \<le> 1024) items" using assms by (auto simp: list_all_iff safe_item_def SafeText_def)
qed

lemma draft_lines_plain:
  assumes "Authoring_Validate r = None" "ar_Kind r = ''draft''"
  shows "list_all plain_line (draft_lines r)"
proof -
  note v = Validate_draft [OF assms]
  have names: "plain_line (''## '' @ ''Scope'')" "plain_line (''## '' @ ''Assumptions'')" "plain_line (''## '' @ ''Acceptance'')" "plain_line ''''"
    by code_simp+
  have "plain_line l" if "l \<in> set (split_at (CHR 0x0A) (ar_Problem r))" for l
    using split_at_free [OF that] split_at_set [OF that] split_at_length [OF that] SafeText_no_cr [OF v(3)] v(3)
    by (auto simp: plain_line_def MaxSourceBytes_def SafeText_def)
  then have "list_all plain_line (split_at (CHR 0x0A) (ar_Problem r))" by (simp add: list_all_iff)
  then show ?thesis
    using front_lines_plain title_line_plain [OF assms] items_plain(1) [OF v(7)] items_plain(1) [OF v(8)] items_plain(1) [OF v(9)] names
    unfolding draft_lines_def by (simp del: append.simps)
qed


lemma bullets_length:
  "list_all (\<lambda>i. length i \<le> 1024) items \<Longrightarrow> length (in_lines (map ((@) ''- '') items)) \<le> 1027 * length items"
  by (induction items) auto

lemma section_length:
  assumes "list_all safe_item items" "length name \<le> 11"
  shows "length (draft_section (name, items)) \<le> 16 + 1027 * length items"
  using bullets_length [OF items_plain(2) [OF assms(1)]] assms(2) by (simp add: section_in_lines section_lines_def)

lemma draft_length:
  assumes "Authoring_Validate r = None" "ar_Kind r = ''draft''"
  shows "int (length (draft_source r)) \<le> MaxSourceBytes"
proof -
  note v = Validate_draft [OF assms]
  have s: "length (draft_section (''Scope'', ar_Scope r)) \<le> 16 + 1027 * 16"
    "length (draft_section (''Assumptions'', ar_Assumptions r)) \<le> 16 + 1027 * 16"
    "length (draft_section (''Acceptance'', ar_Acceptance r)) \<le> 16 + 1027 * 32"
    using section_length [OF v(7), of "''Scope''"] section_length [OF v(9), of "''Assumptions''"]
      section_length [OF v(8), of "''Acceptance''"] v(10-12) by simp_all
  have "length (ar_Title r) \<le> 160" "length (ar_Problem r) \<le> 8192" using v(1,3) by (simp_all add: SafeText_def)
  moreover have "length (concat (map (\<lambda>line. line @ [CHR 0x0A]) (''---'' # draft_front_matter))) \<le> 100" by code_simp
  ultimately have "length (draft_source r) \<le> 100000" using s by (simp add: draft_source_def)
  then show ?thesis by (simp add: MaxSourceBytes_def)
qed

text \<open>A byte that no white space holds: a visible character of ASCII.\<close>

definition visible :: "char \<Rightarrow> bool" where
  "visible c \<longleftrightarrow> CHR 0x20 < c \<and> c < CHR 0x7F"

lemma visible_kept: "c \<in> set s \<Longrightarrow> visible c \<Longrightarrow> TrimSpace s \<noteq> ''''"
proof -
  assume c: "c \<in> set s" "visible c"
  then have "\<forall>p \<in> set space_encodings. c \<notin> set p" by (auto simp: space_encodings_def visible_def less_char_def)
  from TrimSpace_keeps [OF c(1) this] show ?thesis by auto
qed

lemma join_at_set: "l \<in> set ls \<Longrightarrow> set l \<subseteq> set (join_at x ls)"
  by (induction x ls rule: join_at.induct) auto

definition ordinary_line :: "string \<Rightarrow> bool" where
  "ordinary_line l \<longleftrightarrow> l \<noteq> ''## Acceptance'' \<and> \<not> has_prefix ''# '' l"

lemma section_ordinary: "name \<noteq> ''Acceptance'' \<Longrightarrow> list_all ordinary_line (section_lines (name, items))"
  by (auto simp: section_lines_def ordinary_line_def has_prefix_def list_all_iff)

lemma draft_body:
  assumes "Authoring_Validate r = None" "ar_Kind r = ''draft''" "list_all (\<lambda>i. TrimSpace i = i) (ar_Acceptance r)"
    "list_all ordinary_line (split_at (CHR 0x0A) (ar_Problem r))" "list_ex visible (ar_Problem r)"
    "\<not> (pt_Type q = TicketSpike \<and> pt_MergeMode q = MergeAutonomous)"
  shows "\<exists>t. parse_body (drop 6 (draft_lines r)) q =
    Inr (q\<lparr>pt_Title := TrimSpace (ar_Title r), pt_Problem := t, pt_Acceptance := ar_Acceptance r\<rparr>)"
proof -
  note v = Validate_draft [OF assms(1,2)]
  let ?ls = "'''' # split_at (CHR 0x0A) (ar_Problem r) @ section_lines (''Scope'', ar_Scope r) @ section_lines (''Assumptions'', ar_Assumptions r) @ ['''']"
  let ?t = "TrimSpace (join_at (CHR 0x0A) ?ls)"
  have "length draft_front_matter = 5" by (simp add: draft_front_matter_def)
  then have d: "drop 6 (draft_lines r) = (''# '' @ ar_Title r) # ?ls @ ''## Acceptance'' # map ((@) ''- '') (ar_Acceptance r)"
    using v(6) by (simp add: draft_lines_def section_lines_def)
  have "list_all ordinary_line ?ls" using assms(4) by (simp add: section_ordinary) (simp add: ordinary_line_def has_prefix_def)
  then have p: "problem_lines (?ls @ ''## Acceptance'' # map ((@) ''- '') (ar_Acceptance r)) = Inr (?ls, map ((@) ''- '') (ar_Acceptance r))"
    using problem_until unfolding ordinary_line_def by blast
  have "list_all (\<lambda>i. TrimSpace i = i \<and> i \<noteq> '''') (ar_Acceptance r)"
    using assms(3) v(8) by (auto simp: list_all_iff safe_item_def)
  note a = bullets_parse [OF this]
  obtain c where c: "c \<in> set (ar_Problem r)" "visible c" using assms(5) by (auto simp: list_ex_iff)
  have "c \<noteq> CHR 0x0A" using c(2) by (auto simp: visible_def less_char_def)
  have "c \<in> set (in_lines (split_at (CHR 0x0A) (ar_Problem r)))" using c(1) by (simp add: split_lines)
  then obtain l where l: "l \<in> set (split_at (CHR 0x0A) (ar_Problem r))" "c \<in> set l" using \<open>c \<noteq> CHR 0x0A\<close> by auto
  then have "c \<in> set (join_at (CHR 0x0A) ?ls)" using join_at_set [of l ?ls] by auto
  then have t: "?t \<noteq> ''''" using visible_kept c(2) by blast
  have "parse_body (drop 6 (draft_lines r)) q = Inr (q\<lparr>pt_Title := TrimSpace (ar_Title r), pt_Problem := ?t, pt_Acceptance := ar_Acceptance r\<rparr>)"
    unfolding d parse_body_def using p a t v(4) assms(6) hash_line [of "ar_Title r"] by (simp add: Let_def has_prefix_def del: append_Cons)
  then show ?thesis by blast
qed


lemma draft_not_spike: "\<not> (pt_Type (with_draft_policy p) = TicketSpike \<and> pt_MergeMode (with_draft_policy p) = MergeAutonomous)"
  by (simp add: with_draft_policy_def TicketFeature_def TicketSpike_def)

lemma draft_parses:
  assumes "Authoring_Validate r = None" "ar_Kind r = ''draft''" "list_all (\<lambda>i. TrimSpace i = i) (ar_Acceptance r)"
    "list_all ordinary_line (split_at (CHR 0x0A) (ar_Problem r))" "list_ex visible (ar_Problem r)"
  shows "\<exists>t. Ticket_Parse (draft_source r) = Inr ((with_draft_policy (default_ticket (draft_source r)))
       \<lparr>pt_Title := TrimSpace (ar_Title r), pt_Problem := t, pt_Acceptance := ar_Acceptance r\<rparr>)"
proof -
  let ?q = "with_draft_policy (default_ticket (draft_source r))"
  have lines: "scanLines (draft_source r) = Inr (draft_lines r)"
    using scanLines_plain [OF draft_lines_plain [OF assms(1,2)], of "[]"] by (simp add: draft_in_lines scanLines.simps)
  have "draft_lines r = ''---'' # draft_front_matter @ drop 6 (draft_lines r)"
    by (simp add: draft_lines_def draft_front_matter_def)
  then have front: "parseFrontMatter [] (tl (draft_lines r)) p = Inr (with_draft_policy p, drop 6 (draft_lines r))" "hd (draft_lines r) = ''---''"
      "draft_lines r \<noteq> []" for p
    using draft_front_matter_parses by (metis list.sel(3), metis list.sel(1), metis list.discI)
  obtain t where "parse_body (drop 6 (draft_lines r)) ?q =
      Inr (?q\<lparr>pt_Title := TrimSpace (ar_Title r), pt_Problem := t, pt_Acceptance := ar_Acceptance r\<rparr>)"
    using draft_body [OF assms draft_not_spike] by blast
  then have "Ticket_Parse (draft_source r) = Inr (?q\<lparr>pt_Title := TrimSpace (ar_Title r), pt_Problem := t, pt_Acceptance := ar_Acceptance r\<rparr>)"
    using draft_length [OF assms(1,2)] lines front by (simp add: Ticket_Parse_def)
  then show ?thesis by blast
qed

text \<open>A well-formed proposal becomes a ticket. If its acceptance entries carry no surrounding white space, its
  problem has a visible character and no line of it is a level-one title or the acceptance heading, then a
  valid draft is accepted, and its source parses back to the draft's title and acceptance entries under
  the fixed policy.\<close>

theorem draft_round_trip:
  assumes "Authoring_Validate r = None" "ar_Kind r = ''draft''" "list_all (\<lambda>i. TrimSpace i = i) (ar_Acceptance r)"
    "list_all ordinary_line (split_at (CHR 0x0A) (ar_Problem r))" "list_ex visible (ar_Problem r)"
  shows "Markdown r = Inr (draft_source r) \<and>
    (\<exists>t. Ticket_Parse (draft_source r) = Inr ((with_draft_policy (default_ticket (draft_source r)))
       \<lparr>pt_Title := TrimSpace (ar_Title r), pt_Problem := t, pt_Acceptance := ar_Acceptance r\<rparr>))"
  using draft_parses [OF assms] assms(1,2) by (auto simp: Markdown_def)

lemma sample_draft_ok:
  "Authoring_Validate sample_draft = None" "ar_Kind sample_draft = ''draft''" "list_all (\<lambda>i. TrimSpace i = i) (ar_Acceptance sample_draft)"
  "list_all ordinary_line (split_at (CHR 0x0A) (ar_Problem sample_draft))" "list_ex visible (ar_Problem sample_draft)"
  by code_simp+

lemma sample_draft_accepted: "Markdown sample_draft = Inr (draft_source sample_draft)"
  using draft_parses [OF sample_draft_ok] sample_draft_ok(1,2) by (auto simp: Markdown_def)

theorem draft_has_fixed_policy_witness:
  "\<exists>source p. Markdown sample_draft = Inr source \<and> Ticket_Parse source = Inr p \<and> pt_MergeMode p = MergeGuarded \<and> pt_Acceptance p = [''It works'']"
  using draft_has_fixed_policy [OF sample_draft_accepted] sample_draft_accepted by (auto simp: sample_draft_def)

theorem draft_round_trip_witness:
  "\<exists>p. Markdown sample_draft = Inr (draft_source sample_draft) \<and> Ticket_Parse (draft_source sample_draft) = Inr p \<and>
     pt_MaxCostMicroUSD p = 10000000"
  using draft_round_trip [OF sample_draft_ok] by (auto simp: with_draft_policy_def)

end
