(* ===== verification/Submission.thy ===== *)
theory Submission
  imports TicketSourceSafety TicketSafety
begin

text \<open>
  The submission handler of the daemon (\<^verbatim>\<open>internal/daemon/daemon.go\<close>): the parameters of a request are decoded, the
  source is parsed, the ticket's overrides are resolved against the project's frozen configuration, and the
  Store is asked to admit the ticket under the daemon's leader epoch. The validity of the leadership lease,
  the fresh ticket identity and the clock are what the daemon's environment answers. A response is
  reduced to its code and retry flag, or to the stored ticket and whether it was observed or created; the
  suggested next command of a failure is left out.
\<close>

section \<open>Definitions\<close>

record submitParameters =
  sp_Project :: string
  sp_Source :: string
  sp_New :: bool
  sp_Channel :: string

definition decode_submit :: "json \<Rightarrow> submitParameters \<Rightarrow> submitParameters option" where
  "decode_submit = decode_struct True
     [(''project'', at_field sp_Project (\<lambda>v r. r\<lparr>sp_Project := v\<rparr>) decode_string),
      (''source'', at_field sp_Source (\<lambda>v r. r\<lparr>sp_Source := v\<rparr>) decode_string),
      (''new'', at_field sp_New (\<lambda>v r. r\<lparr>sp_New := v\<rparr>) decode_bool),
      (''channel'', at_field sp_Channel (\<lambda>v r. r\<lparr>sp_Channel := v\<rparr>) decode_string)]"

definition decodeParameters :: "(json \<Rightarrow> 'a \<Rightarrow> 'a option) \<Rightarrow> 'a \<Rightarrow> string \<Rightarrow> 'a option" where
  "decodeParameters dec zero raw = (if raw = [] then None else decodeStrict dec zero raw)"

record daemon_env =
  dm_channel :: string
  dm_epoch :: u64
  dm_lease_valid :: bool
  dm_new_id :: "string option"
  dm_now :: int

datatype submit_response =
  SubmitFailure string bool
| Submitted StoreTicket bool

definition submitErrorCode :: "store_error \<Rightarrow> string" where
  "submitErrorCode e =
     (if e = ErrProjectRemoved then ''project_removed''
      else if e = ErrTerminalReplay then ''terminal_replay_requires_new''
      else if e = ErrNotFound then ''unknown_project''
      else ''submit_refused'')"

definition resolveSubmissionPolicy :: "StoreProject \<Rightarrow> ParsedTicket \<Rightarrow> config_error + Effective" where
  "resolveSubmissionPolicy project parsed =
     (case DecodeSnapshot (pj_ConfigSnapshot project) (pj_ConfigDigest project) of
        Inl e \<Rightarrow> Inl e
      | Inr frozen \<Rightarrow>
          if c_Name (ef_Project frozen) \<noteq> pj_ID project \<or> c_Repository (ef_Project frozen) \<noteq> pj_Path project \<or>
             c_BaseBranch (ef_Project frozen) \<noteq> pj_BaseRef project
          then Inl (ConfigError ''registered configuration does not match project identity'' [])
          else Resolve (ef_Machine frozen) (ef_Project frozen)
            \<lparr>o_MergeMode = (if pt_MergeModeExplicit parsed then pt_MergeMode parsed else ''''), o_PhaseTimeout = 0,
             o_TicketTimeout = pt_MaxDuration parsed, o_MaxCostMicroUSD = pt_MaxCostMicroUSD parsed\<rparr>)"

definition submitted_record :: "daemon_env \<Rightarrow> string \<Rightarrow> string \<Rightarrow> ParsedTicket \<Rightarrow> Effective \<Rightarrow> StoreTicket" where
  "submitted_record dm project ident parsed effective =
     \<lparr>tk_Ref = \<lparr>Channel = dm_channel dm, Project = project, Ticket = ident\<rparr>, tk_State = '''', tk_ResumeState = '''', tk_Version = 0,
      tk_RunnerEpoch = 0, tk_WorkflowID = '''', tk_SourceDigest = pt_Digest parsed, tk_Type = pt_Type parsed,
      tk_MergeMode = c_MergeMode (ef_Project effective), tk_BlockedCode = '''', tk_Title = pt_Title parsed,
      tk_Problem = pt_Problem parsed, tk_Acceptance = pt_Acceptance parsed, tk_Source = pt_Source parsed,
      tk_Priority = pt_Priority parsed, tk_CreatedAt = dm_now dm, tk_MaxDuration = c_TicketTimeout (ef_Project effective),
      tk_MaxCostMicroUSD = c_MaxTicketCostMicroUSD (ef_Project effective), tk_ConfigGeneration = 0, tk_ConfigDigest = '''',
      tk_ConfigSnapshot = ''''\<rparr>"

definition Daemon_submit :: "daemon_env \<Rightarrow> Store \<Rightarrow> string \<Rightarrow> submit_response \<times> Store" where
  "Daemon_submit dm s raw =
     (case decodeParameters decode_submit \<lparr>sp_Project = '''', sp_Source = '''', sp_New = False, sp_Channel = ''''\<rparr> raw of
        None \<Rightarrow> (SubmitFailure ''invalid_submit'' False, s)
      | Some parameters \<Rightarrow>
     (if sp_Project parameters = '''' \<or> sp_Source parameters = '''' \<or> sp_Channel parameters \<noteq> dm_channel dm
      then (SubmitFailure ''invalid_submit'' False, s)
      else case Ticket_Parse (sp_Source parameters) of
        Inl _ \<Rightarrow> (SubmitFailure ''invalid_ticket'' False, s)
      | Inr parsed \<Rightarrow>
     (case Project_get s (dm_channel dm) (sp_Project parameters) of
        Inl e \<Rightarrow> (SubmitFailure (if e = ErrNotFound then ''unknown_project'' else submitErrorCode e) False, s)
      | Inr project \<Rightarrow>
      if pj_Lifecycle project = ''removed'' then (SubmitFailure ''project_removed'' False, s)
      else if pt_MergeModeExplicit parsed \<and> pt_MergeMode parsed = MergeAutonomous
        then (SubmitFailure ''autonomous_unavailable'' False, s)
      else (case resolveSubmissionPolicy project parsed of
        Inl _ \<Rightarrow> (SubmitFailure ''ticket_policy_refused'' False, s)
      | Inr effective \<Rightarrow>
          if c_MergeMode (ef_Project effective) = MergeAutonomous then (SubmitFailure ''autonomous_unavailable'' False, s)
          else if \<not> dm_lease_valid dm then (SubmitFailure ''leader_lost'' True, s)
          else (case dm_new_id dm of
              None \<Rightarrow> (SubmitFailure ''ticket_id_unavailable'' True, s)
            | Some ident \<Rightarrow>
                (case SubmitTicketFenced s (dm_now dm) (submitted_record dm (sp_Project parameters) ident parsed effective)
                    (sp_New parameters) (dm_epoch dm) of
                   (Inl e, s') \<Rightarrow> (SubmitFailure (submitErrorCode e) False, s')
                 | (Inr (stored, created), s') \<Rightarrow> (Submitted stored (\<not> created), s')))))))"

section \<open>Resolving twice\<close>

text \<open>
  The daemon resolves the overrides of the source; the Store resolves what the daemon sends it again. The
  second resolution gives the first one's values back.
\<close>

lemma valid_mode_nonempty: "MergeMode_Valid m \<Longrightarrow> m \<noteq> ''''"
  by (auto simp: MergeMode_Valid_def mode_defs)

lemma Resolve_again:
  assumes "Resolve m p ov = Inr e" "o_PhaseTimeout ov = 0"
  shows "Resolve m p \<lparr>o_MergeMode = c_MergeMode (ef_Project e), o_PhaseTimeout = 0, o_TicketTimeout = c_TicketTimeout (ef_Project e),
    o_MaxCostMicroUSD = c_MaxTicketCostMicroUSD (ef_Project e)\<rparr> = Inr e"
proof -
  note r = Resolve_Inr [OF assms(1)]
  note t = Resolve_tightens [OF assms(1)]
  have pm: "MergeMode_Valid (c_MergeMode p)" using r(2) by (simp add: validateProject_None)
  have mode: "MergeMode_Valid (c_MergeMode (ef_Project e))" using r(4) pm by (auto simp: r(9))
  have cost: "c_MaxTicketCostMicroUSD (ef_Project e) \<le> c_MaxTicketCostMicroUSD (filled m p)" using r(8) by (simp add: r(9))
  have e: "e = \<lparr>ef_Project = (filled m p)\<lparr>c_MergeMode := c_MergeMode (ef_Project e), c_PhaseTimeout := c_PhaseTimeout p,
      c_TicketTimeout := c_TicketTimeout (ef_Project e), c_MaxTicketCostMicroUSD := c_MaxTicketCostMicroUSD (ef_Project e)\<rparr>, ef_Machine = m\<rparr>"
    using r(3,9) assms(2) by (cases e) simp
  show ?thesis
    unfolding Resolve_def Let_def filled_def [symmetric]
    using r(1,2) mode valid_mode_nonempty [OF mode] t(2,7,8,10) cost e by (simp add: not_less)
qed

lemma resolved_as_sent:
  assumes res: "resolveSubmittedTicketPolicy d (submitted_record dm project ident parsed effective) = Inr resolved"
    and eff: "resolveSubmissionPolicy pj parsed = Inr effective"
    and r: "project_at d (dm_channel dm) project = Some r" "pj = joined_project d r"
  shows "p_Lifecycle r = ''active'' \<and> resolved = submitted_record dm project ident parsed effective"
proof -
  let ?rec = "submitted_record dm project ident parsed effective"
  from eff obtain frozen where frozen: "DecodeSnapshot (pj_ConfigSnapshot pj) (pj_ConfigDigest pj) = Inr frozen"
    and first: "Resolve (ef_Machine frozen) (ef_Project frozen)
            \<lparr>o_MergeMode = (if pt_MergeModeExplicit parsed then pt_MergeMode parsed else ''''), o_PhaseTimeout = 0,
             o_TicketTimeout = pt_MaxDuration parsed, o_MaxCostMicroUSD = pt_MaxCostMicroUSD parsed\<rparr> = Inr effective"
    by (auto simp: resolveSubmissionPolicy_def split: sum.splits if_splits)
  from Resolve_again [OF first] have again: "Resolve (ef_Machine frozen) (ef_Project frozen)
      \<lparr>o_MergeMode = tk_MergeMode ?rec, o_PhaseTimeout = 0, o_TicketTimeout = tk_MaxDuration ?rec, o_MaxCostMicroUSD = tk_MaxCostMicroUSD ?rec\<rparr> = Inr effective"
    by (simp add: submitted_record_def)
  have key: "Channel (tk_Ref ?rec) = dm_channel dm" "Project (tk_Ref ?rec) = project" by (simp_all add: submitted_record_def)
  have pinned: "?rec\<lparr>tk_MergeMode := c_MergeMode (ef_Project effective), tk_MaxDuration := c_TicketTimeout (ef_Project effective),
      tk_MaxCostMicroUSD := c_MaxTicketCostMicroUSD (ef_Project effective)\<rparr> = ?rec" by (simp add: submitted_record_def)
  from res show ?thesis
    by (rule resolve_Inr) (use frozen again r key pinned in auto)
qed

lemma Submitted_steps:
  assumes "Daemon_submit dm s raw = (Submitted t observed, s')"
  obtains parameters parsed project effective ident where
    "decodeParameters decode_submit \<lparr>sp_Project = '''', sp_Source = '''', sp_New = False, sp_Channel = ''''\<rparr> raw = Some parameters"
    "Ticket_Parse (sp_Source parameters) = Inr parsed" "Project_get s (dm_channel dm) (sp_Project parameters) = Inr project"
    "resolveSubmissionPolicy project parsed = Inr effective" "c_MergeMode (ef_Project effective) \<noteq> MergeAutonomous"
    "dm_lease_valid dm" "dm_new_id dm = Some ident"
    "SubmitTicketFenced s (dm_now dm) (submitted_record dm (sp_Project parameters) ident parsed effective) (sp_New parameters) (dm_epoch dm) =
       (Inr (t, \<not> observed), s')"
proof -
  obtain parameters where p1: "decodeParameters decode_submit \<lparr>sp_Project = '''', sp_Source = '''', sp_New = False, sp_Channel = ''''\<rparr> raw = Some parameters"
    using assms unfolding Daemon_submit_def by (auto split: option.splits)
  obtain parsed where p2: "Ticket_Parse (sp_Source parameters) = Inr parsed"
    using assms p1 unfolding Daemon_submit_def by (cases "Ticket_Parse (sp_Source parameters)") (simp_all split: if_splits)
  obtain project where p3: "Project_get s (dm_channel dm) (sp_Project parameters) = Inr project"
    using assms p1 p2 unfolding Daemon_submit_def by (cases "Project_get s (dm_channel dm) (sp_Project parameters)") (simp_all split: if_splits)
  obtain effective where p4: "resolveSubmissionPolicy project parsed = Inr effective"
    using assms p1 p2 p3 unfolding Daemon_submit_def by (cases "resolveSubmissionPolicy project parsed") (simp_all split: if_splits)
  have p5: "c_MergeMode (ef_Project effective) \<noteq> MergeAutonomous" "dm_lease_valid dm"
    using assms p1 p2 p3 p4 unfolding Daemon_submit_def by (simp_all split: if_splits)
  obtain ident where p6: "dm_new_id dm = Some ident"
    using assms p1 p2 p3 p4 p5 unfolding Daemon_submit_def by (cases "dm_new_id dm") (simp_all split: if_splits)
  let ?r = "SubmitTicketFenced s (dm_now dm) (submitted_record dm (sp_Project parameters) ident parsed effective) (sp_New parameters) (dm_epoch dm)"
  have "(case ?r of (Inl e, s') \<Rightarrow> (SubmitFailure (submitErrorCode e) False, s')
      | (Inr (stored, created), s') \<Rightarrow> (Submitted stored (\<not> created), s')) = (Submitted t observed, s')"
    using assms p1 p2 p3 p4 p5 p6 unfolding Daemon_submit_def by (simp split: if_splits)
  then have "?r = (Inr (t, \<not> observed), s')" by (cases ?r) (auto split: sum.splits)
  with that p1 p2 p3 p4 p5 p6 show thesis by blast
qed

section \<open>Properties\<close>

text \<open>C22: what is stored is what was written. When the daemon reports that it created a ticket, the source in the request
  parses, the project is registered and active, and the stored ticket is queued, holds exactly the bytes of
  that source with their digest, has the parsed title, problem, type and priority, and its merge mode,
  duration and cost are those that the overrides of the source resolve to against the project's frozen
  configuration, autonomous merge excluded: the Store's own resolution changes nothing the daemon decided.\<close>

theorem submitted_ticket_is_source:
  assumes "Daemon_submit dm s raw = (Submitted t False, s')"
  shows "\<exists>parameters parsed r effective.
    decodeParameters decode_submit \<lparr>sp_Project = '''', sp_Source = '''', sp_New = False, sp_Channel = ''''\<rparr> raw = Some parameters \<and>
    Ticket_Parse (sp_Source parameters) = Inr parsed \<and>
    project_at (st_db s) (dm_channel dm) (sp_Project parameters) = Some r \<and> p_Lifecycle r = ''active'' \<and>
    resolveSubmissionPolicy (joined_project (st_db s) r) parsed = Inr effective \<and>
    leader_at (st_db s) (dm_channel dm) = Some (dm_epoch dm) \<and>
    tk_State t = StateQueued \<and> tk_Source t = sp_Source parameters \<and> tk_SourceDigest t = sha256_hex (sp_Source parameters) \<and>
    tk_Title t = pt_Title parsed \<and> tk_Problem t = pt_Problem parsed \<and> tk_Type t = pt_Type parsed \<and> tk_Priority t = pt_Priority parsed \<and>
    tk_MergeMode t = c_MergeMode (ef_Project effective) \<and> tk_MergeMode t \<noteq> MergeAutonomous \<and>
    tk_MaxDuration t = c_TicketTimeout (ef_Project effective) \<and> tk_MaxCostMicroUSD t = c_MaxTicketCostMicroUSD (ef_Project effective)"
proof -
  from assms obtain parameters parsed project effective ident where
      dec: "decodeParameters decode_submit \<lparr>sp_Project = '''', sp_Source = '''', sp_New = False, sp_Channel = ''''\<rparr> raw = Some parameters"
      and parse: "Ticket_Parse (sp_Source parameters) = Inr parsed"
      and get: "Project_get s (dm_channel dm) (sp_Project parameters) = Inr project"
      and eff: "resolveSubmissionPolicy project parsed = Inr effective" "c_MergeMode (ef_Project effective) \<noteq> MergeAutonomous"
      and sub: "SubmitTicketFenced s (dm_now dm) (submitted_record dm (sp_Project parameters) ident parsed effective) (sp_New parameters) (dm_epoch dm) =
       (Inr (t, True), s')"
    by (rule Submitted_steps) auto
  let ?rec = "submitted_record dm (sp_Project parameters) ident parsed effective"
  from get obtain r where r: "project_at (st_db s) (dm_channel dm) (sp_Project parameters) = Some r" "project = joined_project (st_db s) r"
    by (auto simp: Project_get_def split: if_splits option.splits)
  have nz: "dm_epoch dm \<noteq> 0" and subt: "submitTicket s (dm_now dm) ?rec (sp_New parameters) (dm_epoch dm) = (Inr (t, True), s')"
    using sub by (auto simp: SubmitTicketFenced_def split: if_splits)
  from subt obtain x where tx: "submitTicket_tx (dm_now dm) ?rec (sp_New parameters) (dm_epoch dm) (st_db s) = Inr ((x, True), st_db s')"
      and tget: "Ticket_get s' x = Inr t" by (rule submitTicket_Inr) blast
  from tx obtain resolved where res: "resolveSubmittedTicketPolicy (st_db s) ?rec = Inr resolved" and x: "x = tk_Ref resolved"
      and lead: "leader_at (st_db s) (Channel (tk_Ref ?rec)) = Some (dm_epoch dm)"
      and ins: "insertTicketEvent (dm_now dm) resolved True (st_db s) = Inr (st_db s')"
    by (rule submitTicket_created) (use nz in simp)
  have act: "p_Lifecycle r = ''active''" and same: "resolved = ?rec"
    using resolved_as_sent [OF res eff(1) r] by simp_all
  from created_value [OF ins refl tget [unfolded x]] obtain acceptance where
      t: "t = ticket_value (new_ticket_row (dm_now dm) ?rec) acceptance" unfolding same by blast
  note p = Ticket_Parse_sound [OF parse]
  have pr: "pt_Priority parsed \<noteq> ''''" using p by (auto simp: policy_ok_def)
  show ?thesis
    using dec parse r act eff lead p pr by (auto simp: t ticket_value_def new_ticket_row_def submitted_record_def)
qed


section \<open>A sample request\<close>

definition plain_source :: string where
  "plain_source = join_at (CHR 0x0A) [''# A'', ''B'', '''']"

definition plain_ticket :: ParsedTicket where
  "plain_ticket = (default_ticket plain_source)\<lparr>pt_Title := ''A'', pt_Problem := ''B'', pt_Acceptance := []\<rparr>"

definition sample_request :: json where
  "sample_request = JObj [(''project'', JStr ''sf''), (''source'', JStr plain_source), (''channel'', JStr ''dev'')]"

definition sample_daemon :: daemon_env where
  "sample_daemon = \<lparr>dm_channel = ''dev'', dm_epoch = 2, dm_lease_valid = True, dm_new_id = Some ''SF-1'', dm_now = 9\<rparr>"

lemma plain_source_parses: "Ticket_Parse plain_source = Inr plain_ticket"
proof -
  have lines: "scanLines plain_source = Inr [''# A'', ''B'']" "int (length plain_source) \<le> MaxSourceBytes" by code_simp+
  have trims: "TrimSpace ''# A'' = ''# A''" "TrimSpace ''A'' = ''A''" "TrimSpace ''B'' = ''B''" by code_simp+
  show ?thesis
    using lines by (simp add: Ticket_Parse_def parse_body_def Let_def trims has_prefix_def plain_ticket_def default_ticket_def
        TicketFeature_def TicketSpike_def)
qed

lemma sample_request_decodes:
  "decodeParameters decode_submit \<lparr>sp_Project = '''', sp_Source = '''', sp_New = False, sp_Channel = ''''\<rparr> (print_json sample_request) =
     Some \<lparr>sp_Project = ''sf'', sp_Source = plain_source, sp_New = False, sp_Channel = ''dev''\<rparr>"
proof -
  have "wf_json sample_request" "depth sample_request \<le> 10000" "print_json sample_request \<noteq> []" by code_simp+
  note parse = json_parse_print [OF this(1,2)] and ne = this(3)
  have "decode_submit sample_request \<lparr>sp_Project = '''', sp_Source = '''', sp_New = False, sp_Channel = ''''\<rparr> =
      Some \<lparr>sp_Project = ''sf'', sp_Source = plain_source, sp_New = False, sp_Channel = ''dev''\<rparr>" by code_simp
  with parse ne show ?thesis by (simp add: decodeParameters_def decodeStrict_def)
qed

abbreviation sample_record :: StoreTicket where
  "sample_record \<equiv> submitted_record sample_daemon ''sf'' ''SF-1'' plain_ticket sample_effective"

abbreviation sample_row :: project_row where
  "sample_row \<equiv> \<lparr>p_Channel = ''dev'', p_ID = ''sf'', p_Lifecycle = ''active'', p_Path = ''/srv/sf'', p_BaseRef = ''main'',
     p_ConfigGeneration = 1, p_RegistrationGeneration = 1\<rparr>"

lemma sample_project:
  "project_at (st_db registered_store) ''dev'' ''sf'' = Some sample_row"
  "pj_ConfigSnapshot (joined_project (st_db registered_store) sample_row) = sample_snapshot"
  "pj_ConfigDigest (joined_project (st_db registered_store) sample_row) = sha256_hex sample_snapshot"
  "pj_ID (joined_project (st_db registered_store) sample_row) = ''sf''" "pj_Path (joined_project (st_db registered_store) sample_row) = ''/srv/sf''"
  "pj_BaseRef (joined_project (st_db registered_store) sample_row) = ''main''" "pj_Lifecycle (joined_project (st_db registered_store) sample_row) = ''active''"
  by (simp_all add: registered_store_db project_at_def row_at_def project_pk_def joined_project_def config_at_def config_pk_def Let_def)

lemma sample_identity:
  "c_Name (ef_Project sample_effective) = ''sf''" "c_Repository (ef_Project sample_effective) = ''/srv/sf''"
  "c_BaseBranch (ef_Project sample_effective) = ''main''" "c_MergeMode (ef_Project sample_effective) = ''guarded''"
  by code_simp+

lemma plain_policy: "resolveSubmissionPolicy (joined_project (st_db registered_store) sample_row) plain_ticket = Inr sample_effective"
proof -
  have "Resolve (ef_Machine sample_effective) (ef_Project sample_effective)
      \<lparr>o_MergeMode = '''', o_PhaseTimeout = 0, o_TicketTimeout = 0, o_MaxCostMicroUSD = 0\<rparr> = Inr sample_effective"
    using sample_effective_resolved by (simp add: no_override_def)
  then show ?thesis
    by (simp add: resolveSubmissionPolicy_def sample_project sample_snapshot_decodes sample_identity plain_ticket_def default_ticket_def)
qed

lemma sample_record_resolves: "resolveSubmittedTicketPolicy (st_db registered_store) sample_record = Inr sample_record"
proof -
  have "Resolve (ef_Machine sample_effective) (ef_Project sample_effective) \<lparr>o_MergeMode = c_MergeMode (ef_Project sample_effective),
      o_PhaseTimeout = 0, o_TicketTimeout = c_TicketTimeout (ef_Project sample_effective),
      o_MaxCostMicroUSD = c_MaxTicketCostMicroUSD (ef_Project sample_effective)\<rparr> = Inr sample_effective"
    using Resolve_again [OF sample_effective_resolved] by (simp add: no_override_def)
  then show ?thesis
    by (simp add: resolveSubmittedTicketPolicy_def submitted_record_def sample_daemon_def Let_def sample_project sample_snapshot_decodes
        matches_identity_def sample_identity)
qed


lemma sample_record_inserts:
  "\<exists>t s'. SubmitTicketFenced registered_store 9 sample_record False 2 = (Inr (t, True), s')"
proof -
  let ?d = "st_db registered_store" and ?ref = "\<lparr>Channel = ''dev'', Project = ''sf'', Ticket = ''SF-1''\<rparr>"
  let ?row = "new_ticket_row 9 sample_record"
  have ref: "tk_Ref sample_record = ?ref" "TicketRef_Validate ?ref = None" by (simp add: submitted_record_def sample_daemon_def) code_simp
  have fields: "tk_Source sample_record = plain_source" "tk_SourceDigest sample_record = sha256_hex plain_source" "tk_State sample_record = ''''"
    "tk_Acceptance sample_record = []" "tk_Type sample_record = ''feature''" "tk_Priority sample_record = ''normal''"
    "tk_MergeMode sample_record = ''guarded''" "0 \<le> tk_MaxDuration sample_record" "0 \<le> tk_MaxCostMicroUSD sample_record"
    by (simp_all add: submitted_record_def plain_ticket_def default_ticket_def TicketFeature_def sample_identity)
      (simp_all add: sample_effective_def)
  have digest: "sha256_hex plain_source \<noteq> []" "canonical_digest (sha256_hex plain_source)"
    using sha256_hex_length [of plain_source] sha256_hex_lower by (force simp del: sha256_hex_length, simp add: canonical_digest_def)
  have src: "plain_source \<noteq> []" by (simp add: plain_source_def)
  have valid: "validateTicketInput sample_record = None"
    using fields digest(1)
    by (simp add: validateTicketInput_def Let_def TicketType_Valid_def ticket_types_def MergeMode_Valid_def mode_defs TicketSpike_def)
  have rows: "t_State ?row = StateQueued" "t_Ref ?row = ?ref" "t_ResumeState ?row = None" "t_Version ?row \<noteq> 0"
      "t_AcceptanceJSON ?row = print_json (json_strings [])"
    using ref(1) fields(3,4) by (simp_all add: new_ticket_row_def submitted_record_def nullableState_def)
  have con: "ticket_constraint ?row ?d"
    using rows by (simp add: ticket_constraint_def registered_store_db State_Valid_def AllStates_def state_defs)
  obtain d' where ins: "insertTicketEvent 9 sample_record True ?d = Inr d'"
    using valid con rows(1) by (simp add: insertTicketEvent_def Let_def)
  have "submitTicket_tx 9 sample_record False 2 ?d = Inr ((?ref, True), d')"
    using sample_record_resolves ins ref(1) by (simp add: submitTicket_tx_def Let_def latest_source_def registered_store_db leader_at_def row_at_def
        sample_db_def)
  then have w: "store_write registered_store (submitTicket_tx 9 sample_record False 2) = (Inr (?ref, True), registered_store\<lparr>st_db := d'\<rparr>)"
    by (simp add: store_write_def registered_store_db)
  have "ticket_at d' ?ref = Some ?row"
    using fresh_ticket_at [OF con] rows(2) ref(1) by (simp add: insertTicketEvent_Inr(4) [OF ins] ticket_at_def)
  then obtain t where "Ticket_get (registered_store\<lparr>st_db := d'\<rparr>) ?ref = Inr t"
    using ref(2) rows(5) acceptance_decodes [of "[]"] by (auto simp: Ticket_get_def)
  with w valid digest src ref fields show ?thesis by (simp add: SubmitTicketFenced_def submitTicket_def)
qed

theorem submitted_ticket_is_source_witness:
  "\<exists>t s'. Daemon_submit sample_daemon registered_store (print_json sample_request) = (Submitted t False, s') \<and>
     tk_Source t = plain_source \<and> tk_MergeMode t = ''guarded''"
proof -
  obtain t s' where t: "SubmitTicketFenced registered_store 9 sample_record False 2 = (Inr (t, True), s')"
    using sample_record_inserts by blast
  have "Project_get registered_store ''dev'' ''sf'' = Inr (joined_project (st_db registered_store) sample_row)"
    by (simp add: Project_get_def Channel_Valid_def ChannelDev_def sample_project)
  moreover have "\<not> pt_MergeModeExplicit plain_ticket" "plain_source \<noteq> []" by (simp_all add: plain_ticket_def default_ticket_def plain_source_def)
  ultimately have ok: "Daemon_submit sample_daemon registered_store (print_json sample_request) = (Submitted t False, s')"
    using t by (simp add: Daemon_submit_def sample_request_decodes plain_source_parses plain_policy sample_project(7) sample_identity(4)
        MergeAutonomous_def sample_daemon_def)
  from submitted_ticket_is_source [OF ok] have "tk_Source t = plain_source \<and> tk_MergeMode t = ''guarded''"
    using sample_request_decodes plain_source_parses sample_project(1) plain_policy sample_identity(4) by (auto simp: sample_daemon_def)
  with ok show ?thesis by blast
qed

end
