(* ===== verification/ProviderContract.thy ===== *)
theory ProviderContract
  imports PhaseArtifact
begin

text \<open>
  What the Store, the coordinator and the process supervisor agree on about a run of a provider
  (\<^verbatim>\<open>internal/contracts/provider.go\<close>, \<^verbatim>\<open>internal/contracts/provider_limits.go\<close>): the launch input with its
  canonical text and digest, the runtime binding, and the signed proof that a process group has drained.

  Signature verification of \<^verbatim>\<open>crypto/ed25519\<close> is the parameter \<open>verify\<close>: key, message, signature.
\<close>

section \<open>Base64\<close>

text \<open>\<^verbatim>\<open>encoding/json\<close> prints a byte slice as a string in the standard Base64 alphabet with padding.\<close>

definition base64_alphabet :: string where
  "base64_alphabet = ''ABCDEFGHIJKLMNOPQRSTUVWXYZabcdefghijklmnopqrstuvwxyz0123456789+/''"

definition base64_char :: "nat \<Rightarrow> char" where
  "base64_char n = base64_alphabet ! n"

definition base64_value :: "char \<Rightarrow> nat option" where
  "base64_value c =
     (if byte_between (CHR ''A'') (CHR ''Z'') c then Some (of_char c - 65)
      else if byte_between (CHR ''a'') (CHR ''z'') c then Some (of_char c - 71)
      else if byte_between (CHR ''0'') (CHR ''9'') c then Some (of_char c + 4)
      else if c = CHR ''+'' then Some 62
      else if c = CHR ''/'' then Some 63
      else None)"

fun base64_encode :: "string \<Rightarrow> string" where
  "base64_encode [] = []"
| "base64_encode [a] =
     (let x = of_char a :: nat in [base64_char (x div 4), base64_char (x mod 4 * 16), CHR ''='', CHR ''='']) "
| "base64_encode [a, b] =
     (let x = of_char a :: nat; y = of_char b in
      [base64_char (x div 4), base64_char (x mod 4 * 16 + y div 16), base64_char (y mod 16 * 4), CHR ''=''])"
| "base64_encode (a # b # c # s) =
     (let x = of_char a :: nat; y = of_char b; z = of_char c in
      [base64_char (x div 4), base64_char (x mod 4 * 16 + y div 16), base64_char (y mod 16 * 4 + z div 64),
       base64_char (z mod 64)] @ base64_encode s)"

text \<open>
  Decoding passes over line ends, reads four characters at a time, and accepts padding only in the last
  group. The bits behind the last full byte are not checked.
\<close>

fun base64_groups :: "string \<Rightarrow> string option" where
  "base64_groups [] = Some []"
| "base64_groups (a # b # c # d # s) =
     (case (base64_value a, base64_value b) of
        (Some i, Some j) \<Rightarrow>
          if c = CHR ''='' \<and> d = CHR ''='' \<and> s = [] then Some [char_of (i * 4 + j div 16)]
          else (case base64_value c of
            None \<Rightarrow> None
          | Some k \<Rightarrow>
            if d = CHR ''='' \<and> s = [] then Some [char_of (i * 4 + j div 16), char_of (j mod 16 * 16 + k div 4)]
            else (case base64_value d of
              None \<Rightarrow> None
            | Some l \<Rightarrow> map_option (\<lambda>r. [char_of (i * 4 + j div 16), char_of (j mod 16 * 16 + k div 4), char_of (k mod 4 * 64 + l)] @ r)
                (base64_groups s)))
      | _ \<Rightarrow> None)"
| "base64_groups _ = None"

definition base64_decode :: "string \<Rightarrow> string option" where
  "base64_decode s = base64_groups (filter (\<lambda>c. c \<noteq> CHR 0x0A \<and> c \<noteq> CHR 0x0D) s)"

definition bytes_json :: "string option \<Rightarrow> json" where
  "bytes_json b = (case b of None \<Rightarrow> JNull | Some s \<Rightarrow> JStr (base64_encode s))"

definition decode_bytes :: "json \<Rightarrow> string option \<Rightarrow> string option option" where
  "decode_bytes j x =
     (case j of JStr s \<Rightarrow> map_option Some (base64_decode s) | JNull \<Rightarrow> Some None | _ \<Rightarrow> None)"

text \<open>An unsigned field takes a number without sign, fraction and exponent that fits into 64 bits.\<close>

definition decode_uint :: "json \<Rightarrow> u64 \<Rightarrow> u64 option" where
  "decode_uint j x =
     (case j of
        JNum w \<Rightarrow> if w \<noteq> [] \<and> list_all is_digit w \<and> atoi w < 2 ^ 64 then Some (of_nat (atoi w)) else None
      | JNull \<Rightarrow> Some x
      | _ \<Rightarrow> None)"

section \<open>The launch input\<close>

record ProviderRepairContext =
  rc_PriorAttempt :: int
  rc_PriorRequestDigest :: string

definition hexDigest :: "string \<Rightarrow> bool" where
  "hexDigest v \<longleftrightarrow> length v = 64 \<and> list_all lower_hex v"

definition ValidProviderRepairContext :: "ProviderRepairContext option \<Rightarrow> bool" where
  "ValidProviderRepairContext v =
     (case v of None \<Rightarrow> False | Some c \<Rightarrow> 0 < rc_PriorAttempt c \<and> hexDigest (rc_PriorRequestDigest c))"

definition contracts_ProfileGuarded :: string where "contracts_ProfileGuarded = ''qualified_guarded''"
definition ProfileAutonomous :: string where "ProfileAutonomous = ''autonomous_eligible''"

text \<open>The last field is private to the package: the text of an input that was stored in the format before \<open>Repair\<close>.\<close>

record PhaseInput =
  in_Ticket :: TicketRef
  in_Phase :: string
  in_Attempt :: int
  in_LeaderEpoch :: u64
  in_RunnerEpoch :: u64
  in_ExpectedVersion :: u64
  in_Prompt :: string
  in_Repository :: string
  in_Worktree :: string
  in_WorktreeIdentity :: string
  in_BaseSHA :: string
  in_AllowedPaths :: "string slice"
  in_Provider :: ProviderIdentity
  in_AuthMode :: string
  in_Timeout :: int
  in_Profile :: string
  in_Schema :: "string option"
  in_RequestDigest :: string
  in_Repair :: "ProviderRepairContext option"
  in_legacy :: "string option"

definition ref_json :: "TicketRef \<Rightarrow> json" where
  "ref_json r = JObj [(''Channel'', JStr (Channel r)), (''Project'', JStr (Project r)), (''Ticket'', JStr (Ticket r))]"

definition uint_json :: "u64 \<Rightarrow> json" where
  "uint_json v = JNum (print_int (uint v))"

definition repair_json :: "ProviderRepairContext \<Rightarrow> json" where
  "repair_json c = JObj [(''prior_attempt'', JNum (print_int (rc_PriorAttempt c))),
     (''prior_request_digest'', JStr (rc_PriorRequestDigest c))]"

definition pointer_json :: "('a \<Rightarrow> json) \<Rightarrow> 'a option \<Rightarrow> json" where
  "pointer_json f v = (case v of None \<Rightarrow> JNull | Some x \<Rightarrow> f x)"

definition phaseInputV52Value :: "PhaseInput \<Rightarrow> (string \<times> json) list" where
  "phaseInputV52Value i =
     [(''Ticket'', ref_json (in_Ticket i)), (''Phase'', JStr (in_Phase i)), (''Attempt'', JNum (print_int (in_Attempt i))),
      (''LeaderEpoch'', uint_json (in_LeaderEpoch i)), (''RunnerEpoch'', uint_json (in_RunnerEpoch i)),
      (''ExpectedVersion'', uint_json (in_ExpectedVersion i)), (''Prompt'', JStr (in_Prompt i)),
      (''Repository'', JStr (in_Repository i)), (''Worktree'', JStr (in_Worktree i)),
      (''WorktreeIdentity'', JStr (in_WorktreeIdentity i)), (''BaseSHA'', JStr (in_BaseSHA i)),
      (''AllowedPaths'', texts_json (in_AllowedPaths i)), (''Provider'', provider_json (in_Provider i)),
      (''AuthMode'', JStr (in_AuthMode i)), (''Timeout'', JNum (print_int (in_Timeout i))),
      (''Profile'', JStr (in_Profile i)), (''Schema'', bytes_json (in_Schema i)),
      (''RequestDigest'', JStr (in_RequestDigest i))]"

definition phase_input_json :: "PhaseInput \<Rightarrow> json" where
  "phase_input_json i = JObj (phaseInputV52Value i @ [(''Repair'', pointer_json repair_json (in_Repair i))])"

definition canonicalPhaseInputV52 :: "PhaseInput \<Rightarrow> string" where
  "canonicalPhaseInputV52 i = print_json (JObj (phaseInputV52Value (i\<lparr>in_RequestDigest := ''''\<rparr>)))"

text \<open>The canonical text of an input and its digest; \<open>None\<close> is an error.\<close>

definition CanonicalPhaseInput :: "PhaseInput \<Rightarrow> (string \<times> string) option" where
  "CanonicalPhaseInput i =
     (case in_legacy i of
        Some stored \<Rightarrow>
          if in_Repair i \<noteq> None then None
          else if canonicalPhaseInputV52 i \<noteq> stored then None
          else Some (canonicalPhaseInputV52 i, sha256_hex (canonicalPhaseInputV52 i))
      | None \<Rightarrow>
          let payload = print_json (phase_input_json (i\<lparr>in_RequestDigest := ''''\<rparr>)) in
          Some (payload, sha256_hex payload))"

definition PhaseInputDigestMatches :: "PhaseInput \<Rightarrow> string \<Rightarrow> bool" where
  "PhaseInputDigestMatches i digest \<longleftrightarrow>
     (case CanonicalPhaseInput i of None \<Rightarrow> False | Some (_, actual) \<Rightarrow> length digest = 64 \<and> actual = digest)"

definition PhaseInputMatchesAuthenticatedClaim :: "PhaseInput \<Rightarrow> PhaseInput \<Rightarrow> string \<Rightarrow> bool" where
  "PhaseInputMatchesAuthenticatedClaim proposed claim digest \<longleftrightarrow>
     PhaseInputDigestMatches claim digest \<and>
     proposed\<lparr>in_RequestDigest := '''', in_legacy := None\<rparr> = claim\<lparr>in_RequestDigest := '''', in_legacy := None\<rparr>"

definition zero_ref :: TicketRef where
  "zero_ref = \<lparr>Channel = '''', Project = '''', Ticket = ''''\<rparr>"

definition zero_input :: PhaseInput where
  "zero_input = \<lparr>in_Ticket = zero_ref, in_Phase = '''', in_Attempt = 0, in_LeaderEpoch = 0, in_RunnerEpoch = 0,
     in_ExpectedVersion = 0, in_Prompt = '''', in_Repository = '''', in_Worktree = '''', in_WorktreeIdentity = '''',
     in_BaseSHA = '''', in_AllowedPaths = None, in_Provider = zero_provider, in_AuthMode = '''', in_Timeout = 0,
     in_Profile = '''', in_Schema = None, in_RequestDigest = '''', in_Repair = None, in_legacy = None\<rparr>"

definition decode_ref :: "json \<Rightarrow> TicketRef \<Rightarrow> TicketRef option" where
  "decode_ref = decode_struct False
     [(''Channel'', at_field Channel (\<lambda>v. Channel_update (\<lambda>_. v)) decode_string),
      (''Project'', at_field Project (\<lambda>v. Project_update (\<lambda>_. v)) decode_string),
      (''Ticket'', at_field Ticket (\<lambda>v. Ticket_update (\<lambda>_. v)) decode_string)]"

definition decode_identity :: "json \<Rightarrow> ProviderIdentity \<Rightarrow> ProviderIdentity option" where
  "decode_identity = decode_struct False
     [(''Provider'', at_field pv_Provider (\<lambda>v. pv_Provider_update (\<lambda>_. v)) decode_string),
      (''Model'', at_field pv_Model (\<lambda>v. pv_Model_update (\<lambda>_. v)) decode_string),
      (''Family'', at_field pv_Family (\<lambda>v. pv_Family_update (\<lambda>_. v)) decode_string),
      (''Version'', at_field pv_Version (\<lambda>v. pv_Version_update (\<lambda>_. v)) decode_string)]"

definition decode_repair :: "json \<Rightarrow> ProviderRepairContext \<Rightarrow> ProviderRepairContext option" where
  "decode_repair = decode_struct False
     [(''prior_attempt'', at_field rc_PriorAttempt (\<lambda>v. rc_PriorAttempt_update (\<lambda>_. v)) decode_int),
      (''prior_request_digest'', at_field rc_PriorRequestDigest (\<lambda>v. rc_PriorRequestDigest_update (\<lambda>_. v)) decode_string)]"

definition decode_phase_input :: "json \<Rightarrow> PhaseInput \<Rightarrow> PhaseInput option" where
  "decode_phase_input = decode_struct False
     [(''Ticket'', at_field in_Ticket (\<lambda>v. in_Ticket_update (\<lambda>_. v)) decode_ref),
      (''Phase'', at_field in_Phase (\<lambda>v. in_Phase_update (\<lambda>_. v)) decode_string),
      (''Attempt'', at_field in_Attempt (\<lambda>v. in_Attempt_update (\<lambda>_. v)) decode_int),
      (''LeaderEpoch'', at_field in_LeaderEpoch (\<lambda>v. in_LeaderEpoch_update (\<lambda>_. v)) decode_uint),
      (''RunnerEpoch'', at_field in_RunnerEpoch (\<lambda>v. in_RunnerEpoch_update (\<lambda>_. v)) decode_uint),
      (''ExpectedVersion'', at_field in_ExpectedVersion (\<lambda>v. in_ExpectedVersion_update (\<lambda>_. v)) decode_uint),
      (''Prompt'', at_field in_Prompt (\<lambda>v. in_Prompt_update (\<lambda>_. v)) decode_string),
      (''Repository'', at_field in_Repository (\<lambda>v. in_Repository_update (\<lambda>_. v)) decode_string),
      (''Worktree'', at_field in_Worktree (\<lambda>v. in_Worktree_update (\<lambda>_. v)) decode_string),
      (''WorktreeIdentity'', at_field in_WorktreeIdentity (\<lambda>v. in_WorktreeIdentity_update (\<lambda>_. v)) decode_string),
      (''BaseSHA'', at_field in_BaseSHA (\<lambda>v. in_BaseSHA_update (\<lambda>_. v)) decode_string),
      (''AllowedPaths'', at_field in_AllowedPaths (\<lambda>v. in_AllowedPaths_update (\<lambda>_. v)) decode_texts),
      (''Provider'', at_field in_Provider (\<lambda>v. in_Provider_update (\<lambda>_. v)) decode_identity),
      (''AuthMode'', at_field in_AuthMode (\<lambda>v. in_AuthMode_update (\<lambda>_. v)) decode_string),
      (''Timeout'', at_field in_Timeout (\<lambda>v. in_Timeout_update (\<lambda>_. v)) decode_int),
      (''Profile'', at_field in_Profile (\<lambda>v. in_Profile_update (\<lambda>_. v)) decode_string),
      (''Schema'', at_field in_Schema (\<lambda>v. in_Schema_update (\<lambda>_. v)) decode_bytes),
      (''RequestDigest'', at_field in_RequestDigest (\<lambda>v. in_RequestDigest_update (\<lambda>_. v)) decode_string),
      (''Repair'', at_field in_Repair (\<lambda>v. in_Repair_update (\<lambda>_. v))
         (decode_pointer decode_repair \<lparr>rc_PriorAttempt = 0, rc_PriorRequestDigest = ''''\<rparr>))]"

definition has_member :: "string \<Rightarrow> json \<Rightarrow> bool" where
  "has_member k j = (case j of JObj ms \<Rightarrow> k \<in> set (map fst ms) | _ \<Rightarrow> False)"

text \<open>
  Only the canonical text of an input decodes. A text in the earlier format, without the member
  \<open>Repair\<close>, decodes to an input that remembers it.
\<close>

definition DecodeCanonicalPhaseInput :: "string \<Rightarrow> PhaseInput option" where
  "DecodeCanonicalPhaseInput payload =
     (case json_parse payload of
        None \<Rightarrow> None
      | Some j \<Rightarrow>
        (case decode_phase_input j zero_input of
           None \<Rightarrow> None
         | Some i \<Rightarrow>
           if map_option fst (CanonicalPhaseInput i) = Some payload then Some i
           else if in_Repair i \<noteq> None \<or> has_member ''Repair'' j then None
           else if canonicalPhaseInputV52 i \<noteq> payload then None
           else Some (i\<lparr>in_legacy := Some payload\<rparr>)))"

section \<open>Results, limits and reasons\<close>

text \<open>Of a provider's result: what the Store reads of it.\<close>

record PhaseResult =
  rs_Artifact :: string
  rs_Transcript :: string
  rs_Provider :: ProviderIdentity
  rs_ChangedFiles :: "string slice"
  rs_UsageTrusted :: bool
  rs_UsageUnits :: int
  rs_ReportedCostEstimate :: "int option"

definition PhaseResultInvalidArtifact :: string where
  "PhaseResultInvalidArtifact = ''invalid_artifact''"

definition ValidProviderFailureReason :: "string \<Rightarrow> bool" where
  "ValidProviderFailureReason v \<longleftrightarrow>
     v \<in> set [''command_error'', ''nonzero_exit'', ''output_limit'', ''protocol_invalid'', ''provider_terminal_failure'',
              ''binding_or_usage'', ''adapter_error'']"

definition ValidArtifactFailureReason :: "string \<Rightarrow> bool" where
  "ValidArtifactFailureReason v \<longleftrightarrow>
     v \<in> set [''final_message_missing_or_malformed'', ''schema_validation'', ''mutation_path'', ''adapter_declared_invalid_artifact'']"

definition MultiCLIRequestLimit :: int where "MultiCLIRequestLimit = 16"
definition MultiCLIRequestTimeout :: int where "MultiCLIRequestTimeout = 45 * 60 * 1000000000"

definition UsesMultiCLIRequestLimit :: "string \<Rightarrow> bool" where
  "UsesMultiCLIRequestLimit provider \<longleftrightarrow> provider = ''claude'' \<or> provider = ''cursor''"

section \<open>Bindings and drain proofs\<close>

record RuntimeBinding =
  rb_Identity :: ProviderIdentity
  rb_BinaryDigest :: string
  rb_PolicyDigest :: string
  rb_FixtureDigest :: string
  rb_AuthDigest :: string
  rb_AuthMode :: string

record DrainRequest =
  dr_ClaimID :: int
  dr_Identity :: ProviderIdentity
  dr_Ref :: TicketRef
  dr_Phase :: string
  dr_Role :: string
  dr_Attempt :: int
  dr_LeaderEpoch :: u64
  dr_RunnerEpoch :: u64
  dr_ExpectedVersion :: u64
  dr_LeaseKey :: string
  dr_BindingDigest :: string
  dr_BinaryDigest :: string
  dr_PolicyDigest :: string
  dr_AuthDigest :: string
  dr_AuthMode :: string
  dr_Repository :: string
  dr_Worktree :: string
  dr_WorktreeIdentity :: string
  dr_BaseSHA :: string
  dr_RequestDigest :: string

record DrainProof =
  dp_publicKey :: string
  dp_signature :: string
  dp_request :: DrainRequest

definition drainPayload :: "DrainRequest \<Rightarrow> string" where
  "drainPayload r = join_at (CHR 0x00)
     [print_int (dr_ClaimID r), Channel (dr_Ref r), Project (dr_Ref r), Ticket (dr_Ref r), dr_Phase r, dr_Role r,
      pv_Provider (dr_Identity r), pv_Model (dr_Identity r), pv_Family (dr_Identity r), pv_Version (dr_Identity r),
      dr_LeaseKey r, dr_BindingDigest r, dr_BinaryDigest r, dr_PolicyDigest r, dr_AuthDigest r, dr_AuthMode r,
      dr_Repository r, dr_Worktree r, dr_WorktreeIdentity r, dr_BaseSHA r, dr_RequestDigest r,
      print_int (uint (dr_LeaderEpoch r)), print_int (uint (dr_RunnerEpoch r)), print_int (uint (dr_ExpectedVersion r)),
      print_int (dr_Attempt r)]"

definition VerifyDrainProof ::
  "(string \<Rightarrow> string \<Rightarrow> string \<Rightarrow> bool) \<Rightarrow> string \<Rightarrow> DrainRequest \<Rightarrow> DrainProof \<Rightarrow> bool" where
  "VerifyDrainProof verify publicKey request prf \<longleftrightarrow>
     length publicKey = 32 \<and> publicKey = dp_publicKey prf \<and> dp_request prf = request \<and>
     verify publicKey (drainPayload request) (dp_signature prf)"

text \<open>\<open>bindingDigest\<close>: every runtime fact, including the digest of the account.\<close>

definition bindingDigest :: "RuntimeBinding \<Rightarrow> string" where
  "bindingDigest v = sha256_hex (join_at (CHR 0x00)
     [pv_Provider (rb_Identity v), pv_Model (rb_Identity v), pv_Family (rb_Identity v), pv_Version (rb_Identity v),
      rb_BinaryDigest v, rb_PolicyDigest v, rb_FixtureDigest v, rb_AuthDigest v, rb_AuthMode v])"

section \<open>Attestations of qualified runtimes\<close>

record QualificationAttestation =
  qa_Channel :: string
  qa_RunID :: string
  qa_Identity :: ProviderIdentity
  qa_BinaryDigest :: string
  qa_PolicyDigest :: string
  qa_FixtureDigest :: string
  qa_AuthDigest :: string
  qa_AuthMode :: string
  qa_ProbeDigest :: string
  qa_Profile :: string
  qa_CreatedUnixNanos :: int
  qa_LeaderEpoch :: u64
  qa_Nonce :: string
  qa_Signature :: string

definition validQualificationAttestation :: "QualificationAttestation \<Rightarrow> bool" where
  "validQualificationAttestation v \<longleftrightarrow>
     Channel_Valid (qa_Channel v) \<and> qa_RunID v \<noteq> '''' \<and> pv_Provider (qa_Identity v) \<noteq> '''' \<and>
     pv_Model (qa_Identity v) \<noteq> '''' \<and> pv_Family (qa_Identity v) \<noteq> '''' \<and> pv_Version (qa_Identity v) \<noteq> '''' \<and>
     qa_AuthMode v \<noteq> '''' \<and> length (qa_AuthMode v) \<le> 64 \<and> 0 < qa_CreatedUnixNanos v \<and> qa_LeaderEpoch v \<noteq> 0 \<and>
     qa_Nonce v \<noteq> '''' \<and> qa_Profile v = contracts_ProfileGuarded \<and>
     (\<forall>digest \<in> set [qa_BinaryDigest v, qa_PolicyDigest v, qa_FixtureDigest v, qa_AuthDigest v, qa_ProbeDigest v].
        length digest = 64)"

definition qualificationPayload :: "QualificationAttestation \<Rightarrow> string" where
  "qualificationPayload v = join_at (CHR 0x00)
     [''sf-qualification/v2'', qa_Channel v, qa_RunID v, pv_Provider (qa_Identity v), pv_Model (qa_Identity v),
      pv_Family (qa_Identity v), pv_Version (qa_Identity v), qa_BinaryDigest v, qa_PolicyDigest v, qa_FixtureDigest v,
      qa_AuthDigest v, qa_AuthMode v, qa_ProbeDigest v, qa_Profile v, print_int (qa_CreatedUnixNanos v),
      print_int (uint (qa_LeaderEpoch v)), qa_Nonce v]"

definition VerifyQualificationAttestation ::
  "(string \<Rightarrow> string \<Rightarrow> string \<Rightarrow> bool) \<Rightarrow> string \<Rightarrow> QualificationAttestation \<Rightarrow> bool" where
  "VerifyQualificationAttestation verify publicKey v \<longleftrightarrow>
     length publicKey = 32 \<and> validQualificationAttestation v \<and> length (qa_Signature v) = 64 \<and>
     verify publicKey (qualificationPayload v) (qa_Signature v)"

section \<open>Attestations of server rejections\<close>

text \<open>\<^verbatim>\<open>internal/contracts/provider_rejection.go\<close>: the supervisor attests that the provider's server rejected the request.\<close>

record ServerRejectionEvidence =
  se_StreamDigest :: string
  se_AllFailuresServerErrors :: bool
  se_InternalRetries :: int
  se_LastRetryDelayMS :: int
  se_CheckpointHeadOID :: string
  se_CheckpointDigest :: string
  se_ObservedUnixNanos :: int

record ServerRejectionAttestation =
  sv_Request :: DrainRequest
  sv_Evidence :: ServerRejectionEvidence
  sv_Signature :: string

definition rejectionBoundedText :: "string \<Rightarrow> int \<Rightarrow> bool" where
  "rejectionBoundedText v limit \<longleftrightarrow>
     v \<noteq> '''' \<and> int (length v) \<le> limit \<and> list_all (\<lambda>c. c \<noteq> CHR 0x00 \<and> c \<noteq> CHR 0x0D \<and> c \<noteq> CHR 0x0A) v"

definition rejectionHex :: "string \<Rightarrow> nat \<Rightarrow> bool" where
  "rejectionHex v width \<longleftrightarrow> length v = width \<and> list_all lower_hex v \<and> even width"

definition validServerRejection :: "DrainRequest \<Rightarrow> ServerRejectionEvidence \<Rightarrow> bool" where
  "validServerRejection r e \<longleftrightarrow>
     0 < dr_ClaimID r \<and> TicketRef_Validate (dr_Ref r) = None \<and> 0 < dr_Attempt r \<and> dr_ExpectedVersion r \<noteq> 0 \<and>
     dr_LeaderEpoch r \<noteq> 0 \<and> dr_RunnerEpoch r \<noteq> 0 \<and> pv_Provider (dr_Identity r) = ''claude'' \<and>
     pv_Family (dr_Identity r) = ''anthropic-claude'' \<and> dr_AuthMode r = ''claude_subscription'' \<and>
     rejectionBoundedText (pv_Model (dr_Identity r)) 128 \<and> rejectionBoundedText (pv_Version (dr_Identity r)) 64 \<and>
     rejectionBoundedText (dr_LeaseKey r) 512 \<and> se_AllFailuresServerErrors e \<and> 0 \<le> se_InternalRetries e \<and>
     se_InternalRetries e \<le> 15 \<and> 0 \<le> se_LastRetryDelayMS e \<and> se_LastRetryDelayMS e \<le> 60000 \<and>
     \<not> (se_InternalRetries e = 0 \<and> se_LastRetryDelayMS e \<noteq> 0) \<and> 0 < se_ObservedUnixNanos e \<and>
     (if dr_Phase r = PhasePlanning then dr_Role r = ''planner''
      else if dr_Phase r = PhaseBuild then dr_Role r = ''builder''
      else if dr_Phase r = PhaseVerification \<or> dr_Phase r = PhaseReview then dr_Role r = ''reviewer''
      else False) \<and>
     (\<forall>digest \<in> set [dr_BindingDigest r, dr_BinaryDigest r, dr_PolicyDigest r, dr_AuthDigest r, dr_RequestDigest r,
         se_StreamDigest e, se_CheckpointDigest e]. rejectionHex digest 64) \<and>
     (rejectionHex (dr_BaseSHA r) 40 \<or> rejectionHex (dr_BaseSHA r) 64) \<and>
     rejectionHex (se_CheckpointHeadOID e) (length (dr_BaseSHA r)) \<and>
     (\<forall>path \<in> set [dr_Repository r, dr_Worktree r].
        rejectionBoundedText path 4096 \<and> IsAbs path \<and> Clean path = path \<and> path \<noteq> ''/'') \<and>
     rejectionBoundedText (dr_WorktreeIdentity r) 65536 \<and> json_valid (dr_WorktreeIdentity r)"

definition drain_request_json :: "DrainRequest \<Rightarrow> json" where
  "drain_request_json r = JObj
     [(''ClaimID'', JNum (print_int (dr_ClaimID r))), (''Identity'', provider_json (dr_Identity r)), (''Ref'', ref_json (dr_Ref r)),
      (''Phase'', JStr (dr_Phase r)), (''Role'', JStr (dr_Role r)), (''Attempt'', JNum (print_int (dr_Attempt r))),
      (''LeaderEpoch'', uint_json (dr_LeaderEpoch r)), (''RunnerEpoch'', uint_json (dr_RunnerEpoch r)),
      (''ExpectedVersion'', uint_json (dr_ExpectedVersion r)), (''LeaseKey'', JStr (dr_LeaseKey r)),
      (''BindingDigest'', JStr (dr_BindingDigest r)), (''BinaryDigest'', JStr (dr_BinaryDigest r)),
      (''PolicyDigest'', JStr (dr_PolicyDigest r)), (''AuthDigest'', JStr (dr_AuthDigest r)), (''AuthMode'', JStr (dr_AuthMode r)),
      (''Repository'', JStr (dr_Repository r)), (''Worktree'', JStr (dr_Worktree r)),
      (''WorktreeIdentity'', JStr (dr_WorktreeIdentity r)), (''BaseSHA'', JStr (dr_BaseSHA r)),
      (''RequestDigest'', JStr (dr_RequestDigest r))]"

definition evidence_json :: "ServerRejectionEvidence \<Rightarrow> json" where
  "evidence_json e = JObj
     [(''StreamDigest'', JStr (se_StreamDigest e)), (''AllFailuresServerErrors'', JBool (se_AllFailuresServerErrors e)),
      (''InternalRetries'', JNum (print_int (se_InternalRetries e))),
      (''LastRetryDelayMS'', JNum (print_int (se_LastRetryDelayMS e))),
      (''CheckpointHeadOID'', JStr (se_CheckpointHeadOID e)), (''CheckpointDigest'', JStr (se_CheckpointDigest e)),
      (''ObservedUnixNanos'', JNum (print_int (se_ObservedUnixNanos e)))]"

definition serverRejectionPayload :: "ServerRejectionAttestation \<Rightarrow> string" where
  "serverRejectionPayload v =
     ''sf-provider-server-rejection/v1'' @ CHR 0x00 #
     print_json (JObj [(''Request'', drain_request_json (sv_Request v)), (''Evidence'', evidence_json (sv_Evidence v))])"

definition VerifyServerRejection ::
  "(string \<Rightarrow> string \<Rightarrow> string \<Rightarrow> bool) \<Rightarrow> string \<Rightarrow> DrainRequest \<Rightarrow> ServerRejectionAttestation \<Rightarrow> bool" where
  "VerifyServerRejection verify publicKey request v \<longleftrightarrow>
     length publicKey = 32 \<and> length (sv_Signature v) = 64 \<and> sv_Request v = request \<and>
     validServerRejection request (sv_Evidence v) \<and> verify publicKey (serverRejectionPayload v) (sv_Signature v)"

definition attestation_json :: "ServerRejectionAttestation \<Rightarrow> json" where
  "attestation_json v = JObj
     [(''Request'', drain_request_json (sv_Request v)), (''Evidence'', evidence_json (sv_Evidence v)),
      (''Signature'', bytes_json (Some (sv_Signature v)))]"

definition decode_drain_request :: "json \<Rightarrow> DrainRequest \<Rightarrow> DrainRequest option" where
  "decode_drain_request = decode_struct False
     [(''ClaimID'', at_field dr_ClaimID (\<lambda>v. dr_ClaimID_update (\<lambda>_. v)) decode_int),
      (''Identity'', at_field dr_Identity (\<lambda>v. dr_Identity_update (\<lambda>_. v)) decode_identity),
      (''Ref'', at_field dr_Ref (\<lambda>v. dr_Ref_update (\<lambda>_. v)) decode_ref),
      (''Phase'', at_field dr_Phase (\<lambda>v. dr_Phase_update (\<lambda>_. v)) decode_string),
      (''Role'', at_field dr_Role (\<lambda>v. dr_Role_update (\<lambda>_. v)) decode_string),
      (''Attempt'', at_field dr_Attempt (\<lambda>v. dr_Attempt_update (\<lambda>_. v)) decode_int),
      (''LeaderEpoch'', at_field dr_LeaderEpoch (\<lambda>v. dr_LeaderEpoch_update (\<lambda>_. v)) decode_uint),
      (''RunnerEpoch'', at_field dr_RunnerEpoch (\<lambda>v. dr_RunnerEpoch_update (\<lambda>_. v)) decode_uint),
      (''ExpectedVersion'', at_field dr_ExpectedVersion (\<lambda>v. dr_ExpectedVersion_update (\<lambda>_. v)) decode_uint),
      (''LeaseKey'', at_field dr_LeaseKey (\<lambda>v. dr_LeaseKey_update (\<lambda>_. v)) decode_string),
      (''BindingDigest'', at_field dr_BindingDigest (\<lambda>v. dr_BindingDigest_update (\<lambda>_. v)) decode_string),
      (''BinaryDigest'', at_field dr_BinaryDigest (\<lambda>v. dr_BinaryDigest_update (\<lambda>_. v)) decode_string),
      (''PolicyDigest'', at_field dr_PolicyDigest (\<lambda>v. dr_PolicyDigest_update (\<lambda>_. v)) decode_string),
      (''AuthDigest'', at_field dr_AuthDigest (\<lambda>v. dr_AuthDigest_update (\<lambda>_. v)) decode_string),
      (''AuthMode'', at_field dr_AuthMode (\<lambda>v. dr_AuthMode_update (\<lambda>_. v)) decode_string),
      (''Repository'', at_field dr_Repository (\<lambda>v. dr_Repository_update (\<lambda>_. v)) decode_string),
      (''Worktree'', at_field dr_Worktree (\<lambda>v. dr_Worktree_update (\<lambda>_. v)) decode_string),
      (''WorktreeIdentity'', at_field dr_WorktreeIdentity (\<lambda>v. dr_WorktreeIdentity_update (\<lambda>_. v)) decode_string),
      (''BaseSHA'', at_field dr_BaseSHA (\<lambda>v. dr_BaseSHA_update (\<lambda>_. v)) decode_string),
      (''RequestDigest'', at_field dr_RequestDigest (\<lambda>v. dr_RequestDigest_update (\<lambda>_. v)) decode_string)]"

definition decode_evidence :: "json \<Rightarrow> ServerRejectionEvidence \<Rightarrow> ServerRejectionEvidence option" where
  "decode_evidence = decode_struct False
     [(''StreamDigest'', at_field se_StreamDigest (\<lambda>v. se_StreamDigest_update (\<lambda>_. v)) decode_string),
      (''AllFailuresServerErrors'', at_field se_AllFailuresServerErrors (\<lambda>v. se_AllFailuresServerErrors_update (\<lambda>_. v)) decode_bool),
      (''InternalRetries'', at_field se_InternalRetries (\<lambda>v. se_InternalRetries_update (\<lambda>_. v)) decode_int),
      (''LastRetryDelayMS'', at_field se_LastRetryDelayMS (\<lambda>v. se_LastRetryDelayMS_update (\<lambda>_. v)) decode_int),
      (''CheckpointHeadOID'', at_field se_CheckpointHeadOID (\<lambda>v. se_CheckpointHeadOID_update (\<lambda>_. v)) decode_string),
      (''CheckpointDigest'', at_field se_CheckpointDigest (\<lambda>v. se_CheckpointDigest_update (\<lambda>_. v)) decode_string),
      (''ObservedUnixNanos'', at_field se_ObservedUnixNanos (\<lambda>v. se_ObservedUnixNanos_update (\<lambda>_. v)) decode_int)]"

definition decode_signature :: "json \<Rightarrow> string \<Rightarrow> string option" where
  "decode_signature j x = map_option (\<lambda>b. case b of None \<Rightarrow> '''' | Some s \<Rightarrow> s) (decode_bytes j (Some x))"

definition decode_attestation :: "json \<Rightarrow> ServerRejectionAttestation \<Rightarrow> ServerRejectionAttestation option" where
  "decode_attestation = decode_struct False
     [(''Request'', at_field sv_Request (\<lambda>v. sv_Request_update (\<lambda>_. v)) decode_drain_request),
      (''Evidence'', at_field sv_Evidence (\<lambda>v. sv_Evidence_update (\<lambda>_. v)) decode_evidence),
      (''Signature'', at_field sv_Signature (\<lambda>v. sv_Signature_update (\<lambda>_. v)) decode_signature)]"

definition zero_drain_request :: DrainRequest where
  "zero_drain_request = \<lparr>dr_ClaimID = 0, dr_Identity = zero_provider, dr_Ref = zero_ref, dr_Phase = '''', dr_Role = '''',
     dr_Attempt = 0, dr_LeaderEpoch = 0, dr_RunnerEpoch = 0, dr_ExpectedVersion = 0, dr_LeaseKey = '''',
     dr_BindingDigest = '''', dr_BinaryDigest = '''', dr_PolicyDigest = '''', dr_AuthDigest = '''', dr_AuthMode = '''',
     dr_Repository = '''', dr_Worktree = '''', dr_WorktreeIdentity = '''', dr_BaseSHA = '''', dr_RequestDigest = ''''\<rparr>"

definition zero_attestation :: ServerRejectionAttestation where
  "zero_attestation = \<lparr>sv_Request = zero_drain_request,
     sv_Evidence = \<lparr>se_StreamDigest = '''', se_AllFailuresServerErrors = False, se_InternalRetries = 0, se_LastRetryDelayMS = 0,
       se_CheckpointHeadOID = '''', se_CheckpointDigest = '''', se_ObservedUnixNanos = 0\<rparr>, sv_Signature = ''''\<rparr>"

end
