(* ===== verification/Go_Time.thy ===== *)
theory Go_Time
  imports Go_JSON
begin

text \<open>
  \<open>time.Time\<close> in UTC as the number of nanoseconds since its zero value, 1 January of year 1, and the layout
  \<open>time.RFC3339Nano\<close>, in which the program prints times that go into digests.
\<close>

section \<open>Dates\<close>

definition leap_year :: "int \<Rightarrow> bool" where
  "leap_year y \<longleftrightarrow> y mod 4 = 0 \<and> (y mod 100 \<noteq> 0 \<or> y mod 400 = 0)"

definition month_lengths :: "int \<Rightarrow> int list" where
  "month_lengths y = [31, if leap_year y then 29 else 28, 31, 30, 31, 30, 31, 31, 30, 31, 30, 31]"

fun month_day :: "int list \<Rightarrow> int \<Rightarrow> int \<Rightarrow> int \<times> int" where
  "month_day [] m n = (m, n + 1)"
| "month_day (l # ls) m n = (if n < l then (m, n + 1) else month_day ls (m + 1) (n - l))"

text \<open>Days since the zero value, by cycles of 400, 100, 4 and 1 years; a cycle's last year may be longer.\<close>

definition civil :: "int \<Rightarrow> int \<times> int \<times> int" where
  "civil days =
     (let n400 = days div 146097; d400 = days mod 146097;
          n100 = min 3 (d400 div 36524); d100 = d400 - n100 * 36524;
          n4 = d100 div 1461; d4 = d100 mod 1461;
          n1 = min 3 (d4 div 365); yday = d4 - n1 * 365;
          year = 400 * n400 + 100 * n100 + 4 * n4 + n1 + 1;
          md = month_day (month_lengths year) 1 yday
      in (year, fst md, snd md))"

section \<open>Printing\<close>

definition padded :: "nat \<Rightarrow> int \<Rightarrow> string" where
  "padded w n = (let s = itoa (nat n) in replicate (w - length s) (CHR ''0'') @ s)"

text \<open>The fraction of a second without trailing zeros, and nothing when it is zero.\<close>

definition fraction_text :: "int \<Rightarrow> string" where
  "fraction_text nanos = (if nanos = 0 then [] else CHR ''.'' # rev (dropWhile (\<lambda>c. c = CHR ''0'') (rev (padded 9 nanos))))"

definition RFC3339Nano :: "int \<Rightarrow> string" where
  "RFC3339Nano t =
     (let nanos = t mod 1000000000; secs = t div 1000000000; day = secs mod 86400 in
      case civil (secs div 86400) of (y, m, d) \<Rightarrow>
        padded 4 y @ ''-'' @ padded 2 m @ ''-'' @ padded 2 d @ ''T'' @ padded 2 (day div 3600) @ '':'' @
        padded 2 (day div 60 mod 60) @ '':'' @ padded 2 (day mod 60) @ fraction_text nanos @ ''Z'')"

text \<open>The number of nanoseconds since the Unix epoch.\<close>

definition UnixNano :: "int \<Rightarrow> int" where
  "UnixNano t = t - 62135596800 * 1000000000"

section \<open>Dates are dates\<close>

lemma month_day_range:
  assumes "0 \<le> n" "n < sum_list ls" "\<forall>l \<in> set ls. 0 < l"
  shows "m \<le> fst (month_day ls m n) \<and> fst (month_day ls m n) < m + int (length ls) \<and>
    1 \<le> snd (month_day ls m n) \<and> (\<exists>l \<in> set ls. snd (month_day ls m n) \<le> l)"
  using assms
proof (induction ls arbitrary: m n)
  case (Cons l ls)
  show ?case
  proof (cases "n < l")
    case False
    with Cons.prems have "0 \<le> n - l" "n - l < sum_list ls" "\<forall>l \<in> set ls. 0 < l" by auto
    from Cons.IH [OF this, of "m + 1"] False show ?thesis by auto
  qed (use Cons.prems in auto)
qed simp

lemma year_length: "sum_list (month_lengths y) = (if leap_year y then 366 else 365)"
  by (simp add: month_lengths_def)

text \<open>The day within the year fits the year, so the month and the day are in range.\<close>

lemma civil_yday:
  assumes "0 \<le> days"
  defines "d400 \<equiv> days mod 146097"
  defines "d100 \<equiv> d400 - min 3 (d400 div 36524) * 36524"
  defines "d4 \<equiv> d100 mod 1461"
  defines "yday \<equiv> d4 - min 3 (d4 div 365) * 365"
  defines "year \<equiv> 400 * (days div 146097) + 100 * min 3 (d400 div 36524) + 4 * (d100 div 1461) + min 3 (d4 div 365) + 1"
  shows "0 \<le> yday \<and> yday < (if leap_year year then 366 else 365)"
proof -
  have d400: "0 \<le> d400" "d400 < 146097" unfolding d400_def by auto
  have d100: "0 \<le> d100" "d100 \<le> 36524" "d100 = 36524 \<longrightarrow> min 3 (d400 div 36524) = 3"
    using d400 unfolding d100_def by (auto simp: min_def)
  have d4: "0 \<le> d4" "d4 < 1461" unfolding d4_def by auto
  have y0: "0 \<le> yday" using d4 unfolding yday_def by (auto simp: min_def)
  have y365: "yday \<le> 365" "yday = 365 \<longrightarrow> min 3 (d4 div 365) = 3 \<and> d4 = 1460"
    using d4 unfolding yday_def by (auto simp: min_def)
  have leap: "leap_year year" if "yday = 365"
  proof -
    from that y365 have n1: "min 3 (d4 div 365) = 3" "d4 = 1460" by auto
    let ?n4 = "d100 div 1461" let ?n100 = "min 3 (d400 div 36524)"
    have year: "year = 400 * (days div 146097) + 100 * ?n100 + 4 * ?n4 + 4" unfolding year_def using n1 by simp
    have n4: "0 \<le> ?n4" "?n4 \<le> 24" using d100 by auto
    show ?thesis
    proof (cases "?n4 = 24")
      case True
      have "d100 div 1461 * 1461 + d100 mod 1461 = d100" by (rule div_mult_mod_eq)
      with True n1(2) have "d100 = 36524" unfolding d4_def by linarith
      with d100 have "?n100 = 3" by simp
      with year True have "year = 400 * (days div 146097 + 1)" by simp
      then show ?thesis by (simp add: leap_year_def)
    next
      case False
      with n4 have lt: "?n4 + 1 < 25" "0 < ?n4 + 1" by auto
      have a: "year = 4 * (100 * (days div 146097) + 25 * ?n100 + ?n4 + 1)" using year by simp
      have b: "year mod 100 = 4 * (?n4 + 1)"
      proof -
        have "year = 4 * (?n4 + 1) + 100 * (4 * (days div 146097) + ?n100)" using year by simp
        then have "year mod 100 = 4 * (?n4 + 1) mod 100" by (simp only: mod_mult_self2)
        also have "\<dots> = 4 * (?n4 + 1)" using lt by (intro mod_pos_pos_trivial) auto
        finally show ?thesis .
      qed
      from a have "year mod 4 = 0" by simp
      with b lt show ?thesis by (simp add: leap_year_def)
    qed
  qed
  show ?thesis
  proof (cases "yday = 365")
    case True
    with leap show ?thesis by simp
  next
    case False
    with y365(1) have "yday < 365" by linarith
    with y0 show ?thesis by simp
  qed
qed

lemma civil_range:
  assumes "0 \<le> days" "civil days = (y, m, d)"
  shows "1 \<le> y \<and> 1 \<le> m \<and> m \<le> 12 \<and> 1 \<le> d \<and> d \<le> 31"
proof -
  define d400 where "d400 = days mod 146097"
  define d100 where "d100 = d400 - min 3 (d400 div 36524) * 36524"
  define d4 where "d4 = d100 mod 1461"
  define yday where "yday = d4 - min 3 (d4 div 365) * 365"
  define year where "year = 400 * (days div 146097) + 100 * min 3 (d400 div 36524) + 4 * (d100 div 1461) + min 3 (d4 div 365) + 1"
  have "year = y \<and> month_day (month_lengths year) 1 yday = (m, d)"
    using assms(2) by (clarsimp simp: civil_def Let_def simp flip: d400_def d100_def d4_def yday_def year_def)
  then have split: "y = year" "m = fst (month_day (month_lengths year) 1 yday)" "d = snd (month_day (month_lengths year) 1 yday)"
    by auto
  have "0 \<le> yday \<and> yday < (if leap_year year then 366 else 365)"
    unfolding yday_def d4_def year_def d100_def d400_def by (rule civil_yday [OF assms(1)])
  then have yd: "0 \<le> yday" "yday < sum_list (month_lengths year)" by (simp_all only: year_length)
  have pos: "\<forall>l \<in> set (month_lengths year). 0 < l" and le31: "\<forall>l \<in> set (month_lengths year). l \<le> 31"
    and len: "length (month_lengths year) = 12" by (auto simp: month_lengths_def)
  have r: "1 \<le> m \<and> m < 1 + int (length (month_lengths year)) \<and> 1 \<le> d \<and> (\<exists>l \<in> set (month_lengths year). d \<le> l)"
    unfolding split(2,3) by (rule month_day_range [OF yd pos])
  then obtain l where
    md: "1 \<le> m" "m < 1 + int (length (month_lengths year))" "1 \<le> d" "l \<in> set (month_lengths year)" "d \<le> l"
    by blast
  from md(4) le31 have "l \<le> 31" by blast
  with md len have "1 \<le> m \<and> m \<le> 12 \<and> 1 \<le> d \<and> d \<le> 31" by simp
  moreover have "1 \<le> y"
  proof -
    have "0 \<le> d400" unfolding d400_def by simp
    then have "0 \<le> d100" unfolding d100_def by (auto simp: min_def)
    then have "0 \<le> d4" unfolding d4_def by simp
    with \<open>0 \<le> d400\<close> \<open>0 \<le> d100\<close> assms(1) show ?thesis
      unfolding split(1) year_def by (auto simp: min_def)
  qed
  ultimately show ?thesis by simp
qed

end
