(* ===== verification/ProviderAttempts.thy ===== *)
theory ProviderAttempts
  imports ProviderContract Go_Time RuntimeControl Projects
begin

text \<open>
  The attempts of providers at a phase of a ticket (\<^verbatim>\<open>internal/store/provider.go\<close> with its companions for accounting,
  request limits and server rejections): requests, claims and results, the checks on them, the authenticated
  claim of an attempt, and the queries over earlier attempts that admission and blocking use.

  A time is a number of nanoseconds since the zero value of \<open>time.Time\<close>. The readers of phase entries, retry epochs,
  final-review evidence, checkpoints and recovery lineage belong to components outside this development; together
  with the signature check they are the parameter \<open>provider_env\<close>, and every theorem holds for all their behaviours.
\<close>

section \<open>Requests, claims and results\<close>

record ProviderAttemptRequest =
  ra_Ref :: TicketRef
  ra_ExpectedVersion :: u64
  ra_Fence :: Fence
  ra_Phase :: string
  ra_Role :: string
  ra_Binding :: RuntimeBinding
  ra_ConfigDigest :: string
  ra_Capacity :: int
  ra_At :: int
  ra_ExpectedHead :: string
  ra_ExpectedProof :: string
  ra_Repository :: string
  ra_Worktree :: string
  ra_WorktreeIdentity :: string
  ra_BaseSHA :: string
  ra_SupervisorKey :: string
  ra_Input :: PhaseInput

record ProviderAttemptClaim =
  cl_ID :: int
  cl_Ref :: TicketRef
  cl_Phase :: string
  cl_Role :: string
  cl_Attempt :: int
  cl_Binding :: RuntimeBinding
  cl_QualificationID :: int
  cl_LeaseKey :: string
  cl_BindingDigest :: string
  cl_LeaderEpoch :: u64
  cl_RunnerEpoch :: u64
  cl_ExpectedVersion :: u64
  cl_Repository :: string
  cl_Worktree :: string
  cl_WorktreeIdentity :: string
  cl_BaseSHA :: string
  cl_SupervisorKey :: string
  cl_Input :: PhaseInput
  cl_RequestDigest :: string
  cl_RequestPayload :: string

record ProviderAttemptResult =
  pt_AttemptID :: int
  pt_RawArtifact :: string
  pt_TypedArtifact :: string
  pt_Validation :: string
  pt_RawSHA256 :: string
  pt_TypedSHA256 :: string
  pt_ValidationSHA256 :: string
  pt_TranscriptSHA256 :: string
  pt_Claim :: ProviderAttemptClaim

record ProviderArtifactFailure =
  fl_AttemptID :: int
  fl_Ref :: TicketRef
  fl_Phase :: string
  fl_Role :: string
  fl_Attempt :: int
  fl_RequestDigest :: string
  fl_LeaderEpoch :: u64
  fl_RunnerEpoch :: u64
  fl_ExpectedVersion :: u64
  fl_Reason :: string
  fl_Digest :: string
  fl_CreatedAt :: int

section \<open>The unmodelled readers\<close>

text \<open>
  \<open>px_verify\<close> is \<open>ed25519.Verify\<close>. \<open>px_currentEntry\<close> is \<open>loadCurrentProviderPhaseEntry\<close>, \<open>px_retryEpoch\<close> the entry version
  that \<open>loadProviderRetryEpoch\<close> finds, \<open>px_review\<close> the head and the proof digest of \<open>finalReviewAuthorityFrom\<close>, \<open>px_checkpoint\<close> the
  head and the digest of \<open>providerAttemptCheckpointFrom\<close>, and \<open>px_advance\<close> is \<open>validateProviderAttemptEndpointAdvance\<close>. The
  last three are the authorities of \<open>LoadProviderAttemptResult\<close>: \<open>candidateRepairBuildContextAt\<close> (no error, or the error),
  \<open>validateRunnerRecoveryAuthority\<close> and \<open>candidateRepairBuilderEntryResultReachesFence\<close>.
\<close>

record provider_env =
  px_verify :: "string \<Rightarrow> string \<Rightarrow> string \<Rightarrow> bool"
  px_currentEntry :: "db \<Rightarrow> TicketRef \<Rightarrow> string \<Rightarrow> u64 \<Rightarrow> u64 \<Rightarrow> u64 \<Rightarrow> store_error + phase_entry_row"
  px_retryEpoch :: "db \<Rightarrow> TicketRef \<Rightarrow> string \<Rightarrow> store_error + u64 option"
  px_review :: "db \<Rightarrow> TicketRef \<Rightarrow> u64 \<Rightarrow> Fence \<Rightarrow> store_error + (string \<times> string)"
  px_checkpoint :: "db \<Rightarrow> ProviderAttemptClaim \<Rightarrow> store_error + (string \<times> string)"
  px_advance :: "db \<Rightarrow> TicketRef \<Rightarrow> string \<Rightarrow> mutationRevocation \<Rightarrow> mutationRevocation \<Rightarrow> store_error option"
  px_candidateRepair :: "db \<Rightarrow> TicketRef \<Rightarrow> u64 \<Rightarrow> Fence \<Rightarrow> store_error option"
  px_runnerAuthority :: "db \<Rightarrow> TicketRef \<Rightarrow> u64 \<Rightarrow> Fence \<Rightarrow> store_error option"
  px_repairReaches :: "db \<Rightarrow> ProviderAttemptResult \<Rightarrow> u64 \<Rightarrow> Fence \<Rightarrow> store_error option"

section \<open>Checks on values\<close>

definition validProviderPhase :: "string \<Rightarrow> bool" where
  "validProviderPhase p \<longleftrightarrow> p = PhasePlanning \<or> p = PhaseVerification \<or> p = PhaseBuild \<or> p = PhaseReview"

definition validProviderRole :: "string \<Rightarrow> bool" where
  "validProviderRole v \<longleftrightarrow> v = ''planner'' \<or> v = ''builder'' \<or> v = ''reviewer''"

definition providerAdmissionState :: "string \<Rightarrow> string \<Rightarrow> string \<Rightarrow> bool" where
  "providerAdmissionState state phase role =
     (if role = ''planner'' \<and> phase = PhasePlanning then state = StatePlanning
      else if role = ''builder'' \<and> phase = PhaseBuild then state = StateBuilding
      else if role = ''reviewer'' \<and> phase = PhaseVerification then state = StateVerifying
      else if role = ''reviewer'' \<and> phase = PhaseReview then state = StateReviewing
      else False)"

definition attestedProviderAuthMode :: "string \<Rightarrow> string \<Rightarrow> bool" where
  "attestedProviderAuthMode provider mode =
     (if provider = ''codex'' then mode = ''chatgpt_subscription''
      else if provider = ''claude'' then mode = ''claude_subscription''
      else if provider = ''cursor'' then mode = ''cursor_api'' \<or> mode = ''cursor_browser''
      else False)"

definition validRuntimeBinding :: "RuntimeBinding \<Rightarrow> bool" where
  "validRuntimeBinding v \<longleftrightarrow>
     pv_Provider (rb_Identity v) \<noteq> '''' \<and> hexDigest (rb_BinaryDigest v) \<and> hexDigest (rb_PolicyDigest v) \<and>
     hexDigest (rb_FixtureDigest v) \<and> hexDigest (rb_AuthDigest v) \<and>
     (pv_Provider (rb_Identity v) \<noteq> ''codex'' \<and> rb_AuthMode v = '''' \<or>
      attestedProviderAuthMode (pv_Provider (rb_Identity v)) (rb_AuthMode v))"

definition validOID :: "string \<Rightarrow> bool" where
  "validOID v \<longleftrightarrow> (length v = 40 \<or> length v = 64) \<and> list_all lower_hex v"

definition allowed_path :: "string \<Rightarrow> bool" where
  "allowed_path path \<longleftrightarrow>
     path \<noteq> '''' \<and> int (length path) \<le> 4096 \<and> \<not> IsAbs path \<and> Clean path = path \<and>
     \<not> (path \<noteq> ''.'' \<and> (path = ''..'' \<or> has_prefix ''../'' path))"

definition validPhaseInputForAttempt :: "ProviderAttemptRequest \<Rightarrow> int \<Rightarrow> bool" where
  "validPhaseInputForAttempt r attempt =
     (let i = ra_Input r in
      in_Ticket i = ra_Ref r \<and> in_Phase i = ra_Phase r \<and> in_Attempt i = attempt \<and>
      in_LeaderEpoch i = LeaderEpoch (ra_Fence r) \<and> in_RunnerEpoch i = RunnerEpoch (ra_Fence r) \<and>
      in_ExpectedVersion i = ra_ExpectedVersion r \<and> in_Provider i = rb_Identity (ra_Binding r) \<and>
      in_AuthMode i = rb_AuthMode (ra_Binding r) \<and> in_Repository i = ra_Repository r \<and> in_Worktree i = ra_Worktree r \<and>
      in_WorktreeIdentity i = ra_WorktreeIdentity r \<and> in_BaseSHA i = ra_BaseSHA r \<and> in_Profile i = contracts_ProfileGuarded \<and>
      \<not> (attempt = 0 \<and> in_RequestDigest i \<noteq> '''') \<and> TrimSpace (in_Prompt i) \<noteq> '''' \<and> int (length (in_Prompt i)) \<le> 65536 \<and>
      list_all (\<lambda>c. c \<noteq> CHR 0x00) (in_Prompt i) \<and> 0 < in_Timeout i \<and> in_Timeout i \<le> 45 * 60 * 1000000000 \<and>
      (case in_Schema i of None \<Rightarrow> False | Some s \<Rightarrow> s \<noteq> [] \<and> int (length s) \<le> 1048576 \<and> json_valid s) \<and>
      (in_Repair i = None \<or> ValidProviderRepairContext (in_Repair i)) \<and>
      elems (in_AllowedPaths i) \<noteq> [] \<and> int (length (elems (in_AllowedPaths i))) \<le> 256 \<and>
      list_all allowed_path (elems (in_AllowedPaths i)) \<and> distinct (elems (in_AllowedPaths i)))"

definition validProviderAttemptInput :: "ProviderAttemptRequest \<Rightarrow> bool" where
  "validProviderAttemptInput r = validPhaseInputForAttempt r 0"

definition validProviderIdentityClaim :: "ProviderAttemptRequest \<Rightarrow> bool" where
  "validProviderIdentityClaim r \<longleftrightarrow>
     ra_Repository r \<noteq> '''' \<and> ra_Worktree r \<noteq> '''' \<and> ra_WorktreeIdentity r \<noteq> '''' \<and> validOID (ra_BaseSHA r) \<and>
     length (ra_SupervisorKey r) = 32"

definition request_of_claim :: "ProviderAttemptClaim \<Rightarrow> ProviderAttemptRequest" where
  "request_of_claim c = \<lparr>ra_Ref = cl_Ref c, ra_ExpectedVersion = cl_ExpectedVersion c,
     ra_Fence = \<lparr>LeaderEpoch = cl_LeaderEpoch c, RunnerEpoch = cl_RunnerEpoch c, ClaimEpoch = 0\<rparr>, ra_Phase = cl_Phase c,
     ra_Role = cl_Role c, ra_Binding = cl_Binding c, ra_ConfigDigest = '''', ra_Capacity = 0, ra_At = 0, ra_ExpectedHead = '''',
     ra_ExpectedProof = '''', ra_Repository = cl_Repository c, ra_Worktree = cl_Worktree c,
     ra_WorktreeIdentity = cl_WorktreeIdentity c, ra_BaseSHA = cl_BaseSHA c, ra_SupervisorKey = cl_SupervisorKey c,
     ra_Input = cl_Input c\<rparr>"

definition validPersistedProviderAttemptClaim :: "ProviderAttemptClaim \<Rightarrow> bool" where
  "validPersistedProviderAttemptClaim c \<longleftrightarrow>
     0 < cl_ID c \<and> TicketRef_Validate (cl_Ref c) = None \<and> 0 < cl_QualificationID c \<and> validProviderPhase (cl_Phase c) \<and>
     validProviderRole (cl_Role c) \<and> 0 < cl_Attempt c \<and> cl_ExpectedVersion c \<noteq> 0 \<and> cl_LeaderEpoch c \<noteq> 0 \<and>
     cl_RunnerEpoch c \<noteq> 0 \<and> cl_RequestDigest c \<noteq> '''' \<and> cl_BindingDigest c = bindingDigest (cl_Binding c) \<and>
     validRuntimeBinding (cl_Binding c) \<and> validProviderIdentityClaim (request_of_claim c) \<and>
     validPhaseInputForAttempt (request_of_claim c) (cl_Attempt c)"

definition providerServerRejected :: string where "providerServerRejected = ''server_rejected''"

definition validAttemptState :: "string \<Rightarrow> bool" where
  "validAttemptState v \<longleftrightarrow> v = ''completed'' \<or> v = ''failed'' \<or> v = ''cancelled''"

definition safeOutcome :: "string \<Rightarrow> bool" where
  "safeOutcome v \<longleftrightarrow> v = providerServerRejected \<or>
     v \<in> set [''completed'', ''failed'', ''cancelled'', ''invalid_artifact'', ''result_indeterminate'', ''drained_recovery'']"

definition drainRequestForClaim :: "ProviderAttemptClaim \<Rightarrow> DrainRequest" where
  "drainRequestForClaim c = \<lparr>dr_ClaimID = cl_ID c, dr_Identity = rb_Identity (cl_Binding c), dr_Ref = cl_Ref c,
     dr_Phase = cl_Phase c, dr_Role = cl_Role c, dr_Attempt = cl_Attempt c, dr_LeaderEpoch = cl_LeaderEpoch c,
     dr_RunnerEpoch = cl_RunnerEpoch c, dr_ExpectedVersion = cl_ExpectedVersion c, dr_LeaseKey = cl_LeaseKey c,
     dr_BindingDigest = cl_BindingDigest c, dr_BinaryDigest = rb_BinaryDigest (cl_Binding c),
     dr_PolicyDigest = rb_PolicyDigest (cl_Binding c), dr_AuthDigest = rb_AuthDigest (cl_Binding c),
     dr_AuthMode = rb_AuthMode (cl_Binding c), dr_Repository = cl_Repository c, dr_Worktree = cl_Worktree c,
     dr_WorktreeIdentity = cl_WorktreeIdentity c, dr_BaseSHA = cl_BaseSHA c, dr_RequestDigest = cl_RequestDigest c\<rparr>"

text \<open>The comparison is field by field and covers all of them.\<close>

definition sameImmutableProviderAttemptClaim :: "ProviderAttemptClaim \<Rightarrow> ProviderAttemptClaim \<Rightarrow> bool" where
  "sameImmutableProviderAttemptClaim a b \<longleftrightarrow>
     cl_ID a = cl_ID b \<and> cl_Ref a = cl_Ref b \<and> cl_Phase a = cl_Phase b \<and> cl_Role a = cl_Role b \<and>
     cl_Attempt a = cl_Attempt b \<and> cl_Binding a = cl_Binding b \<and> cl_QualificationID a = cl_QualificationID b \<and>
     cl_LeaseKey a = cl_LeaseKey b \<and> cl_BindingDigest a = cl_BindingDigest b \<and> cl_LeaderEpoch a = cl_LeaderEpoch b \<and>
     cl_RunnerEpoch a = cl_RunnerEpoch b \<and> cl_ExpectedVersion a = cl_ExpectedVersion b \<and>
     cl_Repository a = cl_Repository b \<and> cl_Worktree a = cl_Worktree b \<and> cl_WorktreeIdentity a = cl_WorktreeIdentity b \<and>
     cl_BaseSHA a = cl_BaseSHA b \<and> cl_SupervisorKey a = cl_SupervisorKey b \<and> cl_RequestDigest a = cl_RequestDigest b \<and>
     cl_RequestPayload a = cl_RequestPayload b \<and> cl_Input a = cl_Input b"

definition resultClaimMatchesSource :: "ProviderAttemptClaim \<Rightarrow> ProviderAttemptClaim \<Rightarrow> bool" where
  "resultClaimMatchesSource r s \<longleftrightarrow>
     cl_ID r = cl_ID s \<and> cl_Ref r = cl_Ref s \<and> cl_Phase r = cl_Phase s \<and> cl_Role r = cl_Role s \<and> cl_Attempt r = cl_Attempt s \<and>
     rb_Identity (cl_Binding r) = rb_Identity (cl_Binding s) \<and> cl_RequestDigest r = cl_RequestDigest s \<and>
     cl_LeaderEpoch r = cl_LeaderEpoch s \<and> cl_RunnerEpoch r = cl_RunnerEpoch s \<and> cl_ExpectedVersion r = cl_ExpectedVersion s \<and>
     cl_Repository r = cl_Repository s \<and> cl_Worktree r = cl_Worktree s \<and> cl_WorktreeIdentity r = cl_WorktreeIdentity s \<and>
     cl_BaseSHA r = cl_BaseSHA s"

definition sameProviderAttemptResult :: "ProviderAttemptResult \<Rightarrow> ProviderAttemptResult \<Rightarrow> bool" where
  "sameProviderAttemptResult a b \<longleftrightarrow>
     pt_AttemptID a = pt_AttemptID b \<and> pt_RawSHA256 a = pt_RawSHA256 b \<and> pt_TypedSHA256 a = pt_TypedSHA256 b \<and>
     pt_ValidationSHA256 a = pt_ValidationSHA256 b \<and> pt_TranscriptSHA256 a = pt_TranscriptSHA256 b \<and>
     pt_RawArtifact a = pt_RawArtifact b \<and> pt_TypedArtifact a = pt_TypedArtifact b \<and> pt_Validation a = pt_Validation b"

definition makeProviderAttemptResult ::
  "ProviderAttemptClaim \<Rightarrow> PhaseResult \<Rightarrow> ArtifactValidation \<Rightarrow> ParsedArtifact \<Rightarrow> artifact_error + ProviderAttemptResult" where
  "makeProviderAttemptResult claim raw va parsed =
     (case CanonicalTypedArtifact parsed of
        Inl e \<Rightarrow> Inl e
      | Inr (typed, typedDigest) \<Rightarrow>
        (case CanonicalValidation va of
           Inl e \<Rightarrow> Inl e
         | Inr (validation, validationDigest) \<Rightarrow>
             Inr \<lparr>pt_AttemptID = cl_ID claim, pt_RawArtifact = rs_Artifact raw, pt_TypedArtifact = typed,
                  pt_Validation = validation, pt_RawSHA256 = sha256_hex (rs_Artifact raw), pt_TypedSHA256 = typedDigest,
                  pt_ValidationSHA256 = validationDigest, pt_TranscriptSHA256 = sha256_hex (rs_Transcript raw),
                  pt_Claim = claim\<rparr>))"

section \<open>Reasons of artifact failures\<close>

definition artifact_failure_json :: "ProviderArtifactFailure \<Rightarrow> json" where
  "artifact_failure_json v = JObj
     [(''attempt_id'', JNum (print_int (fl_AttemptID v))), (''channel'', JStr (Channel (fl_Ref v))),
      (''project'', JStr (Project (fl_Ref v))), (''ticket'', JStr (Ticket (fl_Ref v))), (''phase'', JStr (fl_Phase v)),
      (''role'', JStr (fl_Role v)), (''attempt'', JNum (print_int (fl_Attempt v))),
      (''request_digest'', JStr (fl_RequestDigest v)), (''leader_epoch'', uint_json (fl_LeaderEpoch v)),
      (''runner_epoch'', uint_json (fl_RunnerEpoch v)), (''expected_version'', uint_json (fl_ExpectedVersion v)),
      (''reason'', JStr (fl_Reason v)), (''created_at'', JStr (RFC3339Nano (fl_CreatedAt v)))]"

definition providerArtifactFailureDigest :: "ProviderArtifactFailure \<Rightarrow> store_error + string" where
  "providerArtifactFailureDigest v =
     (if fl_AttemptID v \<le> 0 \<or> TicketRef_Validate (fl_Ref v) \<noteq> None \<or> \<not> validProviderPhase (fl_Phase v) \<or>
         \<not> validProviderRole (fl_Role v) \<or> fl_Attempt v \<le> 0 \<or> \<not> hexDigest (fl_RequestDigest v) \<or> fl_LeaderEpoch v = 0 \<or>
         fl_RunnerEpoch v = 0 \<or> fl_ExpectedVersion v = 0 \<or> \<not> ValidArtifactFailureReason (fl_Reason v) \<or> fl_CreatedAt v = 0
        then Inl ErrProviderAttempt
      else Inr (sha256_hex (print_json (artifact_failure_json v))))"

definition providerArtifactFailureForClaim :: "ProviderAttemptClaim \<Rightarrow> string \<Rightarrow> int \<Rightarrow> store_error + ProviderArtifactFailure" where
  "providerArtifactFailureForClaim claim reason createdAt =
     (let v = \<lparr>fl_AttemptID = cl_ID claim, fl_Ref = cl_Ref claim, fl_Phase = cl_Phase claim, fl_Role = cl_Role claim,
            fl_Attempt = cl_Attempt claim, fl_RequestDigest = cl_RequestDigest claim, fl_LeaderEpoch = cl_LeaderEpoch claim,
            fl_RunnerEpoch = cl_RunnerEpoch claim, fl_ExpectedVersion = cl_ExpectedVersion claim, fl_Reason = reason,
            fl_Digest = '''', fl_CreatedAt = createdAt\<rparr> in
      and_then (providerArtifactFailureDigest v) (\<lambda>digest. Inr (v\<lparr>fl_Digest := digest\<rparr>)))"

section \<open>The authenticated claim of an attempt\<close>

definition attempt_at :: "db \<Rightarrow> int \<Rightarrow> attempt_row option" where
  "attempt_at d aid = row_at pa_ID (provider_attempts d) aid"

definition input_at :: "db \<Rightarrow> int \<Rightarrow> attempt_input_row option" where
  "input_at d aid = row_at ai_AttemptID (provider_attempt_inputs d) aid"

definition qualification_at :: "db \<Rightarrow> int option \<Rightarrow> qualification_row option" where
  "qualification_at d qid = (case qid of None \<Rightarrow> None | Some n \<Rightarrow> row_at q_ID (provider_qualifications d) n)"

definition attested_row :: "qualification_row \<Rightarrow> bool" where
  "attested_row q \<longleftrightarrow> length (q_ProbeDigest q) = 64 \<and> q_AttestedLeader q \<noteq> 0 \<and> length (q_Signature q) = 64"

definition qualifies :: "attempt_row \<Rightarrow> qualification_row \<Rightarrow> bool" where
  "qualifies a q \<longleftrightarrow>
     q_Channel q = Channel (w_Ref a) \<and> q_Identity q = pa_Identity a \<and>
     (q_Profile q = ''qualified_guarded'' \<or> q_Profile q = ''autonomous_eligible'') \<and>
     (pv_Provider (pa_Identity a) \<noteq> ''codex'' \<and> pa_AuthMode a = '''' \<and> q_AuthMode q = '''' \<or>
      q_AuthDigest q = pa_AuthDigest a \<and> q_AuthMode q = pa_AuthMode a \<and> attested_row q)"

definition attempt_claim :: "attempt_row \<Rightarrow> qualification_row \<Rightarrow> string \<Rightarrow> string \<Rightarrow> ProviderAttemptClaim" where
  "attempt_claim a q digest payload = \<lparr>cl_ID = pa_ID a, cl_Ref = w_Ref a, cl_Phase = pa_Phase a, cl_Role = pa_Role a,
     cl_Attempt = pa_Attempt a,
     cl_Binding = \<lparr>rb_Identity = pa_Identity a, rb_BinaryDigest = q_BinaryDigest q, rb_PolicyDigest = q_PolicyDigest q,
       rb_FixtureDigest = q_FixtureDigest q, rb_AuthDigest = pa_AuthDigest a, rb_AuthMode = pa_AuthMode a\<rparr>,
     cl_QualificationID = q_ID q, cl_LeaseKey = pa_LeaseKey a, cl_BindingDigest = pa_BindingDigest a,
     cl_LeaderEpoch = pa_LeaderEpoch a, cl_RunnerEpoch = pa_RunnerEpoch a, cl_ExpectedVersion = pa_ExpectedVersion a,
     cl_Repository = w_Repository a, cl_Worktree = pa_Worktree a, cl_WorktreeIdentity = pa_WorktreeIdentity a,
     cl_BaseSHA = pa_BaseSHA a, cl_SupervisorKey = pa_SupervisorKey a, cl_Input = zero_input, cl_RequestDigest = digest,
     cl_RequestPayload = payload\<rparr>"

definition hydrateProviderAttemptInput :: "ProviderAttemptClaim \<Rightarrow> store_error + ProviderAttemptClaim" where
  "hydrateProviderAttemptInput c =
     (if \<not> hexDigest (cl_RequestDigest c) \<or> cl_RequestPayload c = [] then Inl ErrProviderAttempt
      else if sha256_hex (cl_RequestPayload c) \<noteq> cl_RequestDigest c then Inl ErrProviderAttempt
      else case DecodeCanonicalPhaseInput (cl_RequestPayload c) of
        None \<Rightarrow> Inl ErrProviderAttempt
      | Some i \<Rightarrow>
        if \<not> PhaseInputDigestMatches i (cl_RequestDigest c) \<or> in_Ticket i \<noteq> cl_Ref c \<or> in_Phase i \<noteq> cl_Phase c \<or>
           in_Provider i \<noteq> rb_Identity (cl_Binding c) \<or> in_AuthMode i \<noteq> rb_AuthMode (cl_Binding c) \<or>
           in_Attempt i \<noteq> cl_Attempt c \<or> in_LeaderEpoch i \<noteq> cl_LeaderEpoch c \<or> in_RunnerEpoch i \<noteq> cl_RunnerEpoch c \<or>
           in_ExpectedVersion i \<noteq> cl_ExpectedVersion c \<or> in_Repository i \<noteq> cl_Repository c \<or> in_Worktree i \<noteq> cl_Worktree c \<or>
           in_WorktreeIdentity i \<noteq> cl_WorktreeIdentity c \<or> in_BaseSHA i \<noteq> cl_BaseSHA c
          then Inl ErrProviderAttempt
        else Inr (c\<lparr>cl_Input := i\<lparr>in_RequestDigest := cl_RequestDigest c\<rparr>\<rparr>))"

definition loadAuthenticatedProviderAttemptClaim :: "db \<Rightarrow> int \<Rightarrow> store_error + ProviderAttemptClaim" where
  "loadAuthenticatedProviderAttemptClaim d aid =
     (case attempt_at d aid of
        None \<Rightarrow> Inl ErrNoRows
      | Some a \<Rightarrow>
        (case qualification_at d (pa_QualificationID a) of
           None \<Rightarrow> Inl ErrNoRows
         | Some q \<Rightarrow>
           if \<not> qualifies a q then Inl ErrNoRows
           else (case input_at d aid of
             None \<Rightarrow> Inl ErrNoRows
           | Some i \<Rightarrow>
             (case hydrateProviderAttemptInput (attempt_claim a q (ai_RequestDigest i) (ai_CanonicalInput i)) of
                Inl _ \<Rightarrow> Inl ErrProviderAttempt
              | Inr c \<Rightarrow> if validPersistedProviderAttemptClaim c then Inr c else Inl ErrProviderAttempt))))"

section \<open>Earlier attempts of a phase\<close>

text \<open>The phase run of an attempt: every duplicated column agrees.\<close>

definition run_of_attempt :: "attempt_row \<Rightarrow> phase_run_row \<Rightarrow> bool" where
  "run_of_attempt a p \<longleftrightarrow>
     pr_Ref p = w_Ref a \<and> pr_Phase p = pa_Phase a \<and> pr_Attempt p = pa_Attempt a \<and> pr_Identity p = pa_Identity a \<and>
     pr_LeaderEpoch p = pa_LeaderEpoch a \<and> pr_RunnerEpoch p = pa_RunnerEpoch a \<and>
     pr_ExpectedTicketVersion p = pa_ExpectedVersion a \<and> pr_WorktreeIdentity p = pa_WorktreeIdentity a \<and>
     pr_BaseSHA p = pa_BaseSHA a"

definition run_for :: "db \<Rightarrow> attempt_row \<Rightarrow> phase_run_row option" where
  "run_for d a = List.find (run_of_attempt a) (phase_runs d)"

definition entry_attempts :: "db \<Rightarrow> TicketRef \<Rightarrow> string \<Rightarrow> u64 \<Rightarrow> attempt_entry_row list" where
  "entry_attempts d ref phase version =
     filter (\<lambda>e. ae_Ref e = ref \<and> ae_Phase e = phase \<and> ae_EntryVersion e = version) (provider_phase_attempt_entries d)"

text \<open>\<open>ORDER BY attempt DESC\<close>.\<close>

definition latest_first :: "attempt_entry_row list \<Rightarrow> attempt_entry_row list" where
  "latest_first es = rev (sort_key ae_Attempt es)"

definition results_of :: "db \<Rightarrow> int \<Rightarrow> attempt_result_row list" where
  "results_of d aid = filter (\<lambda>r. ar_AttemptID r = aid) (provider_attempt_results d)"

text \<open>Every attempt that belongs to the entry is bound to it exactly once.\<close>

definition validateEntryBindings :: "provider_env \<Rightarrow> db \<Rightarrow> TicketRef \<Rightarrow> phase_entry_row \<Rightarrow> store_error option" where
  "validateEntryBindings px d ref entry =
     (if list_ex (\<lambda>a. w_Ref a = ref \<and> pa_Phase a = pe_Phase entry \<and> pe_Version entry \<le> pa_ExpectedVersion a \<and>
           (case px_currentEntry px d ref (pe_Phase entry) (pa_ExpectedVersion a) (pa_RunnerEpoch a) (pa_LeaderEpoch a) of
              Inl _ \<Rightarrow> False
            | Inr resolved \<Rightarrow> resolved = entry \<and>
                count_where (\<lambda>e. ae_AttemptID e = pa_ID a \<and> ae_Ref e = w_Ref a \<and> ae_Phase e = pa_Phase a \<and>
                  ae_Attempt e = pa_Attempt a \<and> ae_EntryVersion e = pe_Version entry) (provider_phase_attempt_entries d) \<noteq> 1))
         (provider_attempts d)
      then Some ErrEvidenceConflict else None)"

text \<open>
  The fence check of a terminal query: admission checks the caller's mutation authority as well, blocking only
  the durable fence.
\<close>

definition terminal_fence :: "bool \<Rightarrow> Gate option \<Rightarrow> db \<Rightarrow> TicketRef \<Rightarrow> u64 \<Rightarrow> Fence \<Rightarrow> store_error option" where
  "terminal_fence admit m d ref expected fence =
     (if admit then assertTicketFence m d ref expected fence else assertCurrentTicketFence d ref expected fence)"

text \<open>
  The completion time of a phase run is null while the run is active. Scanning a null into a string is an error,
  and the query turns every error into a conflict.
\<close>

definition terminal_columns :: "db \<Rightarrow> int \<Rightarrow> store_error + (attempt_row \<times> phase_run_row)" where
  "terminal_columns d aid =
     (case attempt_at d aid of
        None \<Rightarrow> Inl ErrEvidenceConflict
      | Some a \<Rightarrow>
        (case run_for d a of
           None \<Rightarrow> Inl ErrEvidenceConflict
         | Some p \<Rightarrow> if pr_Completed p then Inr (a, p) else Inl ErrEvidenceConflict))"

definition claim_binds :: "ProviderAttemptClaim \<Rightarrow> TicketRef \<Rightarrow> string \<Rightarrow> string \<Rightarrow> bool" where
  "claim_binds c ref phase role \<longleftrightarrow>
     cl_Ref c = ref \<and> cl_Phase c = phase \<and> cl_Role c = role \<and> cl_BindingDigest c \<noteq> '''' \<and>
     cl_BindingDigest c = bindingDigest (cl_Binding c)"

end
