(* ===== verification/ProviderAdmission.thy ===== *)
theory ProviderAdmission
  imports ProviderAttempts
begin

text \<open>
  Admission of a provider attempt (\<^verbatim>\<open>internal/store/provider.go\<close>, \<^verbatim>\<open>provider_rejection.go\<close>, \<^verbatim>\<open>provider_accounting.go\<close>,
  \<^verbatim>\<open>provider_request_limits.go\<close>): the terminal claims that block a phase, the qualified runtime, the accounting policy, the
  request limit, and \<open>BeginProviderAttempt\<close>, which checks everything and inserts the attempt in one transaction.
\<close>

section \<open>Server rejections\<close>

text \<open>
  The receipt of a rejection is its canonical text; the deadline of the retry is the signed observation time plus
  two seconds and a spread taken from the stream digest.
\<close>

definition second :: int where "second = 1000000000"

definition canonicalServerRejection ::
  "provider_env \<Rightarrow> ProviderAttemptClaim \<Rightarrow> ServerRejectionAttestation \<Rightarrow> store_error + (string \<times> string \<times> int)" where
  "canonicalServerRejection px claim v =
     (if \<not> VerifyServerRejection (px_verify px) (cl_SupervisorKey claim) (drainRequestForClaim claim) v \<or>
         2 ^ 63 - 1 - 3 * second < se_ObservedUnixNanos (sv_Evidence v) then Inl ErrProviderServerRejection
      else
        (let delay = 2 * second + of_char (hd (se_StreamDigest (sv_Evidence v))) mod 10 * 100000000;
             raw = print_json (attestation_json v) in
         if 131072 < int (length raw) then Inl ErrProviderServerRejection
         else Inr (raw, sha256_hex raw, se_ObservedUnixNanos (sv_Evidence v) + delay)))"

definition decodeServerRejection ::
  "provider_env \<Rightarrow> ProviderAttemptClaim \<Rightarrow> string \<Rightarrow> string \<Rightarrow> int \<Rightarrow> int \<Rightarrow> store_error + ServerRejectionAttestation" where
  "decodeServerRejection px claim raw digest observed deadline =
     (if raw = [] \<or> 131072 < int (length raw) \<or> sha256_hex raw \<noteq> digest then Inl ErrProviderServerRejection
      else case Option.bind (json_parse raw) (\<lambda>j. decode_attestation j zero_attestation) of
        None \<Rightarrow> Inl ErrProviderServerRejection
      | Some v \<Rightarrow>
        (case canonicalServerRejection px claim v of
           Inl _ \<Rightarrow> Inl ErrProviderServerRejection
         | Inr (canonical, wantDigest, wantDeadline) \<Rightarrow>
             if raw \<noteq> canonical \<or> digest \<noteq> wantDigest \<or> observed \<noteq> se_ObservedUnixNanos (sv_Evidence v) \<or>
                deadline \<noteq> wantDeadline then Inl ErrProviderServerRejection else Inr v))"

text \<open>
  The two finishing times, which are written from one value, are represented by both being set.
\<close>

definition loadServerRejectionFrom ::
  "provider_env \<Rightarrow> db \<Rightarrow> ProviderAttemptClaim \<Rightarrow> store_error + (ServerRejectionAttestation \<times> int)" where
  "loadServerRejectionFrom px d claim =
     (case List.find (\<lambda>r. sj_AttemptID r = cl_ID claim \<and> sj_Ref r = cl_Ref claim \<and> sj_Phase r = cl_Phase claim \<and>
             sj_Role r = cl_Role claim \<and> sj_Attempt r = cl_Attempt claim) (provider_server_rejections d) of
        None \<Rightarrow> Inl ErrProviderServerRejection
      | Some row \<Rightarrow>
        and_then (decodeServerRejection px claim (sj_Receipt row) (sj_Digest row) (sj_Observed row) (sj_Deadline row)) (\<lambda>v.
          (case attempt_at d (cl_ID claim) of
             None \<Rightarrow> Inl ErrProviderServerRejection
           | Some a \<Rightarrow>
             if w_State a = ''failed'' \<and> pa_Outcome a = providerServerRejected \<and> w_LaunchState a = ''drained'' \<and>
                (case run_for d a of None \<Rightarrow> False
                 | Some p \<Rightarrow> pr_State p = w_State a \<and> pr_Outcome p = pa_Outcome a \<and> pr_Completed p) \<and>
                pa_Finished a \<and> results_of d (pa_ID a) = []
             then Inr (v, sj_Deadline row) else Inl ErrProviderServerRejection)))"

section \<open>Terminal claims\<close>

definition pendingProviderTerminalClaim ::
  "provider_env \<Rightarrow> Gate option \<Rightarrow> db \<Rightarrow> TicketRef \<Rightarrow> string \<Rightarrow> string \<Rightarrow> u64 \<Rightarrow> Fence \<Rightarrow> string \<Rightarrow> bool \<Rightarrow> bool \<Rightarrow>
     store_error + ProviderAttemptClaim option" where
  "pendingProviderTerminalClaim px m d ref phase role expected fence outcome repairWindow admit =
     guarded (refuse (outcome \<noteq> ''invalid_artifact'' \<and> outcome \<noteq> ''result_indeterminate'' \<and> outcome \<noteq> providerServerRejected)
       ErrEvidenceConflict)
     (guarded (terminal_fence admit m d ref expected fence)
     (and_then (px_currentEntry px d ref phase expected (RunnerEpoch fence) (LeaderEpoch fence)) (\<lambda>entry.
      guarded (validateEntryBindings px d ref entry)
      (let runs = entry_attempts d ref phase (pe_Version entry) in
       if runs = [] \<or> repairWindow \<and> length runs \<noteq> 1 \<and> length runs \<noteq> 3 then Inr None
       else let aid = ae_AttemptID (hd (latest_first runs)) in
         (case loadAuthenticatedProviderAttemptClaim d aid of
            Inl _ \<Rightarrow> Inl ErrEvidenceConflict
          | Inr claim \<Rightarrow>
            guarded (refuse (\<not> claim_binds claim ref phase role) ErrEvidenceConflict)
            (and_then (terminal_columns d aid) (\<lambda>(a, p).
              let attemptTerminal = (w_State a = ''failed'' \<and> pa_Outcome a = outcome);
                  phaseTerminal = (pr_State p = ''failed'' \<and> pr_Outcome p = outcome) in
              if attemptTerminal \<noteq> phaseTerminal then Inl ErrEvidenceConflict
              else if \<not> attemptTerminal then Inr None
              else if w_LaunchState a \<noteq> ''drained'' \<or> \<not> pa_Finished a \<or> results_of d aid \<noteq> [] then Inl ErrEvidenceConflict
              else if outcome = providerServerRejected
                then and_then (loadServerRejectionFrom px d claim) (\<lambda>_. Inr (Some claim))
              else Inr (Some claim))))))))"

definition drainedTerminalWithoutResult :: "db \<Rightarrow> attempt_row \<times> phase_run_row \<Rightarrow> bool" where
  "drainedTerminalWithoutResult d ap \<longleftrightarrow>
     w_LaunchState (fst ap) = ''drained'' \<and> pa_Finished (fst ap) \<and> pr_Completed (snd ap) \<and> results_of d (pa_ID (fst ap)) = []"

definition mixed_lifecycle :: "attempt_row \<times> phase_run_row \<Rightarrow> bool" where
  "mixed_lifecycle ap \<longleftrightarrow> w_State (fst ap) \<noteq> pr_State (snd ap) \<or> pa_Outcome (fst ap) \<noteq> pr_Outcome (snd ap)"

definition lifecycle_is :: "attempt_row \<times> phase_run_row \<Rightarrow> string \<Rightarrow> string \<Rightarrow> bool" where
  "lifecycle_is ap state outcome \<longleftrightarrow>
     w_State (fst ap) = state \<and> pa_Outcome (fst ap) = outcome \<and> pr_State (snd ap) = state \<and> pr_Outcome (snd ap) = outcome"

text \<open>The outcomes that end a repair without a complete answer of the provider.\<close>

definition interrupted_repair :: "attempt_row \<Rightarrow> string option" where
  "interrupted_repair a =
     (if w_State a = ''failed'' \<and> pa_Outcome a = ''invocation_failed'' then Some ''invocation_failed''
      else if w_State a = ''failed'' \<and> pa_Outcome a = ''failed'' then Some ''failed''
      else if w_State a = ''cancelled'' \<and> pa_Outcome a = ''drained_recovery'' then Some ''drained_recovery''
      else if w_State a = ''cancelled'' \<and> pa_Outcome a = ''cancelled'' then Some ''cancelled''
      else None)"

definition repair_pair ::
  "db \<Rightarrow> ProviderAttemptClaim \<Rightarrow> ProviderAttemptClaim \<Rightarrow> store_error + (ProviderAttemptClaim \<times> string) option" where
  "repair_pair d latest prior =
     and_then (terminal_columns d (cl_ID prior)) (\<lambda>pl.
     and_then (terminal_columns d (cl_ID latest)) (\<lambda>ll.
       if mixed_lifecycle pl \<or> mixed_lifecycle ll then Inl ErrEvidenceConflict
       else case in_Repair (cl_Input latest) of
         None \<Rightarrow> Inr None
       | Some rc \<Rightarrow>
         if cl_Binding prior \<noteq> cl_Binding latest \<or> cl_BindingDigest prior \<noteq> cl_BindingDigest latest \<or>
            cl_Role prior \<noteq> cl_Role latest \<or> cl_Ref prior \<noteq> cl_Ref latest \<or> cl_Phase prior \<noteq> cl_Phase latest \<or>
            \<not> ValidProviderRepairContext (Some rc) \<or> rc_PriorAttempt rc \<noteq> cl_Attempt prior \<or>
            rc_PriorRequestDigest rc \<noteq> cl_RequestDigest prior then Inl ErrEvidenceConflict
         else if \<not> (w_State (fst pl) = ''failed'' \<and> pa_Outcome (fst pl) = ''invalid_artifact'') then Inl ErrEvidenceConflict
         else if \<not> drainedTerminalWithoutResult d pl then Inl ErrEvidenceConflict
         else if \<not> drainedTerminalWithoutResult d ll then
           (if lifecycle_is ll ''active'' ''running'' then Inr None else Inl ErrEvidenceConflict)
         else Inr (map_option (Pair latest) (interrupted_repair (fst ll)))))"

definition pendingProviderRepairUnavailable ::
  "provider_env \<Rightarrow> Gate option \<Rightarrow> db \<Rightarrow> TicketRef \<Rightarrow> string \<Rightarrow> string \<Rightarrow> u64 \<Rightarrow> Fence \<Rightarrow> bool \<Rightarrow>
     store_error + (ProviderAttemptClaim \<times> string) option" where
  "pendingProviderRepairUnavailable px m d ref phase role expected fence admit =
     guarded (terminal_fence admit m d ref expected fence)
     (and_then (px_currentEntry px d ref phase expected (RunnerEpoch fence) (LeaderEpoch fence)) (\<lambda>entry.
      guarded (validateEntryBindings px d ref entry)
      (let runs = entry_attempts d ref phase (pe_Version entry) in
       if length runs \<noteq> 2 \<and> length runs \<noteq> 4 then Inr None
       else
         (case (loadAuthenticatedProviderAttemptClaim d (ae_AttemptID (latest_first runs ! 0)),
                loadAuthenticatedProviderAttemptClaim d (ae_AttemptID (latest_first runs ! 1))) of
            (Inr latest, Inr prior) \<Rightarrow>
              if \<not> claim_binds latest ref phase role \<or> \<not> claim_binds prior ref phase role \<or>
                 cl_Attempt prior + 1 \<noteq> cl_Attempt latest then Inl ErrEvidenceConflict
              else repair_pair d latest prior
          | _ \<Rightarrow> Inl ErrEvidenceConflict))))"

definition completed_results ::
  "db \<Rightarrow> TicketRef \<Rightarrow> string \<Rightarrow> string \<Rightarrow> u64 \<Rightarrow> Fence \<Rightarrow> (int \<times> int) list" where
  "completed_results d ref phase role expected fence =
     concat (map (\<lambda>r. concat (map (\<lambda>a. map (\<lambda>p. (ar_AttemptID r, pa_Attempt a)) (filter (\<lambda>p.
         pr_Ref p = ar_Ref r \<and> pr_Phase p = ar_Phase r \<and> pr_Attempt p = ar_Attempt r \<and> pr_Identity p = ar_Identity r \<and>
         pr_LeaderEpoch p = ar_LeaderEpoch r \<and> pr_RunnerEpoch p = ar_RunnerEpoch r \<and>
         pr_ExpectedTicketVersion p = ar_ExpectedVersion r \<and> pr_WorktreeIdentity p = ar_WorktreeIdentity r \<and>
         pr_BaseSHA p = ar_BaseSHA r \<and> pr_State p = ''completed'' \<and> pr_Outcome p = ''completed'') (phase_runs d)))
       (filter (\<lambda>a. pa_ID a = ar_AttemptID r \<and> w_Ref a = ar_Ref r \<and> pa_Phase a = ar_Phase r \<and> pa_Role a = ar_Role r \<and>
         pa_Attempt a = ar_Attempt r \<and> pa_LeaderEpoch a = ar_LeaderEpoch r \<and> pa_RunnerEpoch a = ar_RunnerEpoch r \<and>
         pa_ExpectedVersion a = ar_ExpectedVersion r \<and> w_State a = ''completed'' \<and> pa_Outcome a = ''completed'')
         (provider_attempts d))))
      (filter (\<lambda>r. ar_Ref r = ref \<and> ar_Phase r = phase \<and> ar_Role r = role \<and> ar_ExpectedVersion r = expected \<and>
         ar_LeaderEpoch r = LeaderEpoch fence \<and> ar_RunnerEpoch r = RunnerEpoch fence) (provider_attempt_results d)))"

definition reuseCurrentCompletedProviderAttempt ::
  "db \<Rightarrow> TicketRef \<Rightarrow> string \<Rightarrow> string \<Rightarrow> u64 \<Rightarrow> Fence \<Rightarrow> store_error + (int \<times> int) option" where
  "reuseCurrentCompletedProviderAttempt d ref phase role expected fence =
     (case completed_results d ref phase role expected fence of
        [] \<Rightarrow> Inr None
      | [k] \<Rightarrow> Inr (Some k)
      | _ \<Rightarrow> Inl ErrEvidenceConflict)"

section \<open>Qualified runtimes and accounting\<close>

definition disabled_or_older :: "db \<Rightarrow> qualification_row \<Rightarrow> bool" where
  "disabled_or_older d q \<longleftrightarrow>
     list_ex (\<lambda>n. q_Channel n = q_Channel q \<and> q_Identity n = q_Identity q \<and> q_ID q < q_ID n) (provider_qualifications d) \<or>
     list_ex (\<lambda>n. q_Channel n = q_Channel q \<and> pv_Provider (q_Identity n) = pv_Provider (q_Identity q) \<and>
       pv_Version (q_Identity n) = pv_Version (q_Identity q) \<and> q_Profile n = ''disabled'' \<and> q_ID q < q_ID n)
       (provider_qualifications d)"

text \<open>A selected pair whose builder and reviewer are of another channel, disabled or of one family bars the channel.\<close>

definition broken_pair :: "db \<Rightarrow> string \<Rightarrow> bool" where
  "broken_pair d channel \<longleftrightarrow>
     list_ex (\<lambda>s. ps_Channel s = channel \<and>
       list_ex (\<lambda>b. q_ID b = ps_Builder s \<and>
         list_ex (\<lambda>r. q_ID r = ps_Reviewer s \<and>
           (q_Channel b \<noteq> channel \<or> q_Channel r \<noteq> channel \<or> q_Profile b = ''disabled'' \<or> q_Profile r = ''disabled'' \<or>
            pv_Family (q_Identity b) = pv_Family (q_Identity r))) (provider_qualifications d)) (provider_qualifications d))
       (provider_pair_selections d)"

definition selected_for :: "db \<Rightarrow> string \<Rightarrow> qualification_row \<Rightarrow> bool" where
  "selected_for d role q \<longleftrightarrow>
     (if role = ''planner'' \<or> role = ''builder'' \<or> role = ''reviewer'' then
        list_ex (\<lambda>s. ps_Channel s = q_Channel q \<and>
          (if role = ''builder'' then ps_Builder s = q_ID q else if role = ''reviewer'' then ps_Reviewer s = q_ID q
           else ps_Planner s = Some (q_ID q))) (provider_pair_selections d)
      else True)"

definition qualification_attestation :: "qualification_row \<Rightarrow> QualificationAttestation" where
  "qualification_attestation q = \<lparr>qa_Channel = q_Channel q, qa_RunID = q_RunID q, qa_Identity = q_Identity q,
     qa_BinaryDigest = q_BinaryDigest q, qa_PolicyDigest = q_PolicyDigest q, qa_FixtureDigest = q_FixtureDigest q,
     qa_AuthDigest = q_AuthDigest q, qa_AuthMode = q_AuthMode q, qa_ProbeDigest = q_ProbeDigest q,
     qa_Profile = contracts_ProfileGuarded, qa_CreatedUnixNanos = q_CreatedUnixNanos q, qa_LeaderEpoch = q_AttestedLeader q,
     qa_Nonce = q_RunID q, qa_Signature = q_Signature q\<rparr>"

definition currentRuntimeQualification ::
  "provider_env \<Rightarrow> db \<Rightarrow> string \<Rightarrow> string \<Rightarrow> RuntimeBinding \<Rightarrow> store_error + qualification_row" where
  "currentRuntimeQualification px d channel role b =
     (case List.find (\<lambda>q. q_Channel q = channel \<and> q_Identity q = rb_Identity b \<and> q_BinaryDigest q = rb_BinaryDigest b \<and>
             q_PolicyDigest q = rb_PolicyDigest b \<and> q_FixtureDigest q = rb_FixtureDigest b \<and>
             (q_Profile q = ''qualified_guarded'' \<or> q_Profile q = ''autonomous_eligible'') \<and>
             (pv_Provider (q_Identity q) \<noteq> ''codex'' \<and> q_AuthMode q = '''' \<or>
              q_AuthDigest q = rb_AuthDigest b \<and> q_AuthMode q = rb_AuthMode b \<and> attested_row q) \<and>
             selected_for d role q \<and> \<not> disabled_or_older d q \<and> \<not> broken_pair d channel) (provider_qualifications d) of
        None \<Rightarrow> Inl ErrProviderPairRefused
      | Some q \<Rightarrow>
        if pv_Provider (q_Identity q) = ''codex'' \<or> q_AuthMode q \<noteq> '''' \<or> rb_AuthMode b \<noteq> '''' then
          (if \<not> attestedProviderAuthMode (pv_Provider (q_Identity q)) (q_AuthMode q) \<or> q_AuthMode q \<noteq> rb_AuthMode b \<or>
              q_AuthDigest q \<noteq> rb_AuthDigest b then Inl ErrProviderPairRefused
           else case row_at d_Channel (daemon_instances d) channel of
             None \<Rightarrow> Inl ErrProviderPairRefused
           | Some dm \<Rightarrow>
             if q_AttestedLeader q \<noteq> d_LeaderEpoch dm \<or>
                \<not> VerifyQualificationAttestation (px_verify px) (d_RecoveryKey dm) (qualification_attestation q)
             then Inl ErrProviderPairRefused else Inr q)
        else Inr q)"

definition loadProviderAccountingPolicy :: "db \<Rightarrow> TicketRef \<Rightarrow> store_error + accounting_policy_row" where
  "loadProviderAccountingPolicy d ref =
     (case row_at ap_Ref (provider_accounting_policies d) ref of
        None \<Rightarrow> Inl ErrNotFound
      | Some p \<Rightarrow>
        if ap_Policy p \<noteq> ''reported_estimate_v1'' \<or> ap_RequestLimit p \<noteq> MultiCLIRequestLimit \<or>
           ap_RequestTimeout p \<noteq> MultiCLIRequestTimeout \<or> ap_EstimateLimit p \<le> 0 then Inl ErrEvidenceConflict
        else Inr p)"

definition validateEstimatedProviderRoute :: "db \<Rightarrow> ProviderAttemptRequest \<Rightarrow> store_error option" where
  "validateEstimatedProviderRoute d r =
     (let provider = pv_Provider (rb_Identity (ra_Binding r)) in
      case loadProviderAccountingPolicy d (ra_Ref r) of
        Inl e \<Rightarrow> if e = ErrNotFound \<and> \<not> UsesMultiCLIRequestLimit provider then None else Some ErrProviderAttempt
      | Inr _ \<Rightarrow>
        (case ticket_at d (ra_Ref r) of
           None \<Rightarrow> Some ErrNoRows
         | Some t \<Rightarrow>
           (case DecodeSnapshot (t_ConfigSnapshot t) (ra_ConfigDigest r) of
              Inl _ \<Rightarrow> Some ErrProviderPairRefused
            | Inr effective \<Rightarrow>
                refuse ((if ra_Role r = ''planner'' then Planner (c_Providers (ef_Project effective))
                         else if ra_Role r = ''builder'' then Builder (c_Providers (ef_Project effective))
                         else if ra_Role r = ''reviewer'' then Reviewer (c_Providers (ef_Project effective)) else []) \<noteq> [provider])
                  ErrProviderPairRefused)))"

definition attempts_of :: "db \<Rightarrow> TicketRef \<Rightarrow> attempt_row list" where
  "attempts_of d ref = filter (\<lambda>a. w_Ref a = ref) (provider_attempts d)"

definition spent_units :: "db \<Rightarrow> TicketRef \<Rightarrow> int" where
  "spent_units d ref = sum_list (map pa_UsageUnits (attempts_of d ref))"

definition estimated_units :: "db \<Rightarrow> TicketRef \<Rightarrow> int" where
  "estimated_units d ref = sum_list (map (\<lambda>e. case ce_Estimate e of None \<Rightarrow> 0 | Some n \<Rightarrow> n)
     (filter (\<lambda>e. ce_Ref e = ref) (provider_cost_estimates d)))"

definition estimate_limit :: "db \<Rightarrow> ProviderAttemptRequest \<Rightarrow> int \<Rightarrow> store_error option" where
  "estimate_limit d r maxCost =
     (if \<not> UsesMultiCLIRequestLimit (pv_Provider (rb_Identity (ra_Binding r))) then None
      else case loadProviderAccountingPolicy d (ra_Ref r) of
        Inl _ \<Rightarrow> Some ErrProviderAttempt
      | Inr policy \<Rightarrow>
        if ap_EstimateLimit policy \<noteq> maxCost then Some ErrProviderAttempt
        else refuse (ap_EstimateLimit policy \<le> estimated_units d (ra_Ref r)) ErrBudgetExhausted)"

definition admitProviderRequestLimit :: "db \<Rightarrow> ProviderAttemptRequest \<Rightarrow> store_error option" where
  "admitProviderRequestLimit d r =
     (if \<not> UsesMultiCLIRequestLimit (pv_Provider (rb_Identity (ra_Binding r))) then None
      else if in_Timeout (ra_Input r) \<le> 0 \<or> MultiCLIRequestTimeout < in_Timeout (ra_Input r) then Some ErrBudgetExhausted
      else refuse (MultiCLIRequestLimit \<le> int (length (attempts_of d (ra_Ref r)))) ErrBudgetExhausted)"

text \<open>Builder and reviewer of one ticket never share a family of models.\<close>

definition independentProvider :: "db \<Rightarrow> TicketRef \<Rightarrow> string \<Rightarrow> string \<Rightarrow> store_error option" where
  "independentProvider d ref role family =
     (if role \<noteq> ''builder'' \<and> role \<noteq> ''reviewer'' then None
      else let other = (if role = ''builder'' then ''reviewer'' else ''builder'') in
        refuse (list_ex (\<lambda>a. w_Ref a = ref \<and> pa_Role a = other \<and> pv_Family (pa_Identity a) = family) (provider_attempts d))
          ErrProviderPairRefused)"

section \<open>The launch input of a new attempt\<close>

text \<open>The most recent attempt of the entry with its input and its phase run.\<close>

definition prior_attempt :: "db \<Rightarrow> attempt_entry_row list \<Rightarrow> (attempt_row \<times> attempt_input_row \<times> phase_run_row) option" where
  "prior_attempt d runs =
     (case List.map_filter (\<lambda>e.
          case (attempt_at d (ae_AttemptID e), input_at d (ae_AttemptID e),
                List.find (\<lambda>p. pr_Ref p = ae_Ref e \<and> pr_Phase p = ae_Phase e \<and> pr_Attempt p = ae_Attempt e) (phase_runs d)) of
            (Some a, Some i, Some p) \<Rightarrow> Some (a, i, p)
          | _ \<Rightarrow> None) (latest_first runs) of
        [] \<Rightarrow> None
      | x # _ \<Rightarrow> Some x)"

definition providerRepairContextForRetry ::
  "db \<Rightarrow> ProviderAttemptRequest \<Rightarrow> phase_entry_row \<Rightarrow> nat \<Rightarrow> store_error + ProviderRepairContext option" where
  "providerRepairContextForRetry d r entry entryRuns =
     (if entryRuns \<noteq> 1 \<and> entryRuns \<noteq> 3 then Inr None
      else case prior_attempt d (entry_attempts d (ra_Ref r) (ra_Phase r) (pe_Version entry)) of
        None \<Rightarrow> Inl ErrEvidenceConflict
      | Some (a, i, p) \<Rightarrow>
        (let attemptInvalid = (w_State a = ''failed'' \<and> pa_Outcome a = ''invalid_artifact'');
             runInvalid = (pr_State p = ''failed'' \<and> pr_Outcome p = ''invalid_artifact'') in
         if attemptInvalid \<noteq> runInvalid then Inl ErrEvidenceConflict
         else if \<not> attemptInvalid then Inr None
         else if w_LaunchState a \<noteq> ''drained'' \<or> pa_Role a \<noteq> ra_Role r \<or> pa_BindingDigest a = '''' then Inl ErrEvidenceConflict
         else if pa_BindingDigest a \<noteq> bindingDigest (ra_Binding r) then Inl ErrProviderRepairUnavailable
         else let c = \<lparr>rc_PriorAttempt = pa_Attempt a, rc_PriorRequestDigest = ai_RequestDigest i\<rparr> in
           if ValidProviderRepairContext (Some c) then Inr (Some c) else Inl ErrEvidenceConflict))"

definition rejected_attempts :: "db \<Rightarrow> attempt_entry_row list \<Rightarrow> int list" where
  "rejected_attempts d runs =
     map ae_AttemptID (filter (\<lambda>e.
       (case attempt_at d (ae_AttemptID e) of None \<Rightarrow> False
        | Some a \<Rightarrow> pa_Outcome a = providerServerRejected \<or>
            list_ex (\<lambda>r. sj_AttemptID r = pa_ID a) (provider_server_rejections d))) (sort_key ae_Attempt runs))"

definition rejection_check ::
  "provider_env \<Rightarrow> db \<Rightarrow> ProviderAttemptRequest \<Rightarrow> PhaseInput \<Rightarrow> nat \<Rightarrow> int \<Rightarrow> store_error option" where
  "rejection_check px d r i entryRuns aid =
     (case loadAuthenticatedProviderAttemptClaim d aid of
        Inl _ \<Rightarrow> Some ErrProviderServerRejection
      | Inr claim \<Rightarrow>
        if cl_Binding claim \<noteq> ra_Binding r \<or> cl_Role claim \<noteq> ra_Role r then Some ErrProviderServerRejection
        else case loadServerRejectionFrom px d claim of
          Inl e \<Rightarrow> Some e
        | Inr (_, deadline) \<Rightarrow>
          if UnixNano (ra_At r) < deadline then Some (ErrProviderRetryBackoff deadline)
          else if cl_Attempt claim = in_Attempt i - 1 \<and> entryRuns mod 2 = 1 then
            (case px_advance px d (ra_Ref r) (ra_Phase r)
                    \<lparr>mr_version = cl_ExpectedVersion claim, mr_leader = cl_LeaderEpoch claim, mr_runner = cl_RunnerEpoch claim\<rparr>
                    \<lparr>mr_version = ra_ExpectedVersion r, mr_leader = LeaderEpoch (ra_Fence r), mr_runner = RunnerEpoch (ra_Fence r)\<rparr> of
               Some e \<Rightarrow> Some e
             | None \<Rightarrow>
               refuse (in_Timeout i \<le> 0 \<or> in_Timeout (cl_Input claim) < in_Timeout i \<or>
                   \<not> PhaseInputMatchesAuthenticatedClaim
                     (i\<lparr>in_Attempt := in_Attempt (cl_Input claim), in_ExpectedVersion := in_ExpectedVersion (cl_Input claim),
                        in_LeaderEpoch := in_LeaderEpoch (cl_Input claim), in_RunnerEpoch := in_RunnerEpoch (cl_Input claim),
                        in_Timeout := in_Timeout (cl_Input claim)\<rparr>) (cl_Input claim) (cl_RequestDigest claim))
                 ErrProviderServerRejection)
          else None)"

fun first_refusal :: "('a \<Rightarrow> 'e option) \<Rightarrow> 'a list \<Rightarrow> 'e option" where
  "first_refusal f [] = None"
| "first_refusal f (x # xs) = (case f x of Some e \<Rightarrow> Some e | None \<Rightarrow> first_refusal f xs)"

definition serverRejectionAdmission ::
  "provider_env \<Rightarrow> db \<Rightarrow> ProviderAttemptRequest \<Rightarrow> phase_entry_row \<Rightarrow> PhaseInput \<Rightarrow> nat \<Rightarrow> store_error option" where
  "serverRejectionAdmission px d r entry i entryRuns =
     (let ids = rejected_attempts d (entry_attempts d (ra_Ref r) (ra_Phase r) (pe_Version entry)) in
      if 4 < length ids then Some ErrProviderServerRejection else first_refusal (rejection_check px d r i entryRuns) ids)"

definition launch_input :: "ProviderAttemptRequest \<Rightarrow> int \<Rightarrow> ProviderRepairContext option \<Rightarrow> PhaseInput" where
  "launch_input r attempt repair =
     (ra_Input r)\<lparr>in_Repair := repair, in_Ticket := ra_Ref r, in_Phase := ra_Phase r,
       in_Provider := rb_Identity (ra_Binding r), in_AuthMode := rb_AuthMode (ra_Binding r), in_Attempt := attempt,
       in_LeaderEpoch := LeaderEpoch (ra_Fence r), in_RunnerEpoch := RunnerEpoch (ra_Fence r),
       in_ExpectedVersion := ra_ExpectedVersion r, in_Repository := ra_Repository r, in_Worktree := ra_Worktree r,
       in_WorktreeIdentity := ra_WorktreeIdentity r, in_BaseSHA := ra_BaseSHA r\<rparr>"

section \<open>Beginning an attempt\<close>

text \<open>An earlier attempt of the entry that ended because the ticket's budget was exhausted.\<close>

definition budget_rejections :: "db \<Rightarrow> attempt_entry_row list \<Rightarrow> nat" where
  "budget_rejections d runs =
     length (filter (\<lambda>e.
       (case attempt_at d (ae_AttemptID e) of None \<Rightarrow> False
        | Some a \<Rightarrow> w_State a = ''failed'' \<and> pa_Outcome a = ''budget_exhausted'' \<and> w_LaunchState a = ''drained'') \<and>
       list_ex (\<lambda>p. pr_Ref p = ae_Ref e \<and> pr_Phase p = ae_Phase e \<and> pr_Attempt p = ae_Attempt e \<and>
         pr_State p = ''failed'' \<and> pr_Outcome p = ''budget_exhausted'') (phase_runs d)) runs)"

definition max_attempt :: "db \<Rightarrow> TicketRef \<Rightarrow> string \<Rightarrow> int" where
  "max_attempt d ref phase = foldr max (map pr_Attempt (filter (\<lambda>p. pr_Ref p = ref \<and> pr_Phase p = phase) (phase_runs d))) 0"

definition active_runs :: "db \<Rightarrow> TicketRef \<Rightarrow> nat" where
  "active_runs d ref = count_where (\<lambda>p. pr_Ref p = ref \<and> pr_State p = ''active'') (phase_runs d)"

definition writer_busy :: "db \<Rightarrow> string \<Rightarrow> bool" where
  "writer_busy d repository \<longleftrightarrow>
     list_ex (\<lambda>w. w_Repository w = repository) (git_mutation_leases d) \<or>
     list_ex (\<lambda>w. w_Repository w = repository \<and> (w_State w = ''active'' \<or> w_State w = ''quarantined'')) (repository_command_leases d)"

text \<open>Where the request is allowed to run: the registered project and the worktree of the ticket.\<close>

definition registered_place :: "db \<Rightarrow> ProviderAttemptRequest \<Rightarrow> store_error option" where
  "registered_place d r =
     (case (project_at d (Channel (ra_Ref r)) (Project (ra_Ref r)), row_at wt_Ref (worktrees d) (ra_Ref r)) of
        (Some p, Some w) \<Rightarrow>
          if ra_SupervisorKey r = [] then Some ErrProviderAttempt
          else refuse (p_Path p \<noteq> ra_Repository r \<or> wt_Path w \<noteq> ra_Worktree r \<or> wt_IdentityJSON w \<noteq> ra_WorktreeIdentity r \<or>
            wt_BaseSHA w \<noteq> ra_BaseSHA r) ErrEvidenceConflict
      | _ \<Rightarrow> Some ErrEvidenceConflict)"

definition nothing_pending ::
  "provider_env \<Rightarrow> Gate option \<Rightarrow> ProviderAttemptRequest \<Rightarrow> db \<Rightarrow> store_error option" where
  "nothing_pending px m r d =
     (case pendingProviderTerminalClaim px m d (ra_Ref r) (ra_Phase r) (ra_Role r) (ra_ExpectedVersion r) (ra_Fence r)
            ''result_indeterminate'' False True of
        Inl e \<Rightarrow> Some e
      | Inr (Some _) \<Rightarrow> Some ErrProviderResultIndeterminate
      | Inr None \<Rightarrow>
        (case pendingProviderRepairUnavailable px m d (ra_Ref r) (ra_Phase r) (ra_Role r) (ra_ExpectedVersion r) (ra_Fence r) True of
           Inl e \<Rightarrow> Some e
         | Inr (Some _) \<Rightarrow> Some ErrProviderRepairUnavailable
         | Inr None \<Rightarrow> None))"

definition review_evidence :: "provider_env \<Rightarrow> db \<Rightarrow> ProviderAttemptRequest \<Rightarrow> store_error option" where
  "review_evidence px d r =
     (if ra_Phase r = PhaseReview \<and> ra_Role r = ''reviewer'' then
        (case px_review px d (ra_Ref r) (ra_ExpectedVersion r) (ra_Fence r) of
           Inl _ \<Rightarrow> Some ErrEvidenceConflict
         | Inr (head, prf) \<Rightarrow> refuse (head \<noteq> ra_ExpectedHead r \<or> prf \<noteq> ra_ExpectedProof r) ErrEvidenceConflict)
      else None)"

definition attempt_limit :: "provider_env \<Rightarrow> db \<Rightarrow> ProviderAttemptRequest \<Rightarrow> phase_entry_row \<Rightarrow> store_error + nat" where
  "attempt_limit px d r entry =
     and_then (px_retryEpoch px d (ra_Ref r) (ra_Phase r)) (\<lambda>epoch. Inr (if epoch = Some (pe_Version entry) then 4 else 2))"

record admission =
  ad_Entry :: phase_entry_row
  ad_Qualification :: qualification_row
  ad_Attempt :: int
  ad_Input :: PhaseInput
  ad_Payload :: string
  ad_Digest :: string

text \<open>Every check of the transaction, in order, up to the lease.\<close>

definition admit_attempt ::
  "provider_env \<Rightarrow> Gate option \<Rightarrow> ProviderAttemptRequest \<Rightarrow> ticket_row \<Rightarrow> db \<Rightarrow> store_error + admission" where
  "admit_attempt px m r t d =
     (let ref = ra_Ref r; maxCost = t_MaxCostMicroUSD t in
      guarded (refuse (State_Terminal (t_State t) \<or> t_State t = StateBlocked \<or> t_Version t \<noteq> ra_ExpectedVersion r \<or>
          t_ConfigDigest t = '''' \<or> t_ConfigDigest t \<noteq> ra_ConfigDigest r \<or>
          \<not> providerAdmissionState (t_State t) (ra_Phase r) (ra_Role r)) ErrStaleFence)
      (guarded (registered_place d r)
      (and_then (reuseCurrentCompletedProviderAttempt d ref (ra_Phase r) (ra_Role r) (ra_ExpectedVersion r) (ra_Fence r)) (\<lambda>reusable.
       guarded (refuse (reusable \<noteq> None) ErrProviderAttemptReusable)
      (and_then (px_currentEntry px d ref (ra_Phase r) (t_Version t) (t_RunnerEpoch t) (LeaderEpoch (ra_Fence r))) (\<lambda>entry.
       guarded (validateEntryBindings px d ref entry)
      (guarded (nothing_pending px m r d)
      (let runs = entry_attempts d ref (ra_Phase r) (pe_Version entry) in
       guarded (refuse (1 < budget_rejections d runs) ErrEvidenceConflict)
      (guarded (refuse (budget_rejections d runs = 1) ErrBudgetExhausted)
      (guarded (refuse (writer_busy d (ra_Repository r)) ErrProviderAttempt)
      (guarded (review_evidence px d r)
      (guarded (refuse (t_MaxDuration t \<le> 0 \<or> maxCost \<le> 0 \<or> t_CreatedAt t + t_MaxDuration t \<le> ra_At r) ErrBudgetExhausted)
      (and_then (currentRuntimeQualification px d (Channel ref) (ra_Role r) (ra_Binding r)) (\<lambda>q.
       guarded (refuse (q_ID q \<le> 0) ErrProviderPairRefused)
      (guarded (validateEstimatedProviderRoute d r)
      (guarded (estimate_limit d r maxCost)
      (guarded (admitProviderRequestLimit d r)
      (guarded (refuse (maxCost \<le> spent_units d ref) ErrBudgetExhausted)
      (guarded (refuse (active_runs d ref \<noteq> 0) ErrProviderAttempt)
      (and_then (attempt_limit px d r entry) (\<lambda>limit.
       guarded (refuse (limit \<le> length runs) ErrProviderAttemptLimit)
      (and_then (providerRepairContextForRetry d r entry (length runs)) (\<lambda>repair.
       let attempt = max_attempt d ref (ra_Phase r) + 1; i = launch_input r attempt repair in
       guarded (serverRejectionAdmission px d r entry i (length runs))
      (case CanonicalPhaseInput i of
         None \<Rightarrow> Inl ErrProviderAttempt
       | Some (payload, digest) \<Rightarrow>
         guarded (refuse (payload = [] \<or> 2097152 < int (length payload)) ErrProviderAttempt)
        (guarded (independentProvider d ref (ra_Role r) (pv_Family (rb_Identity (ra_Binding r))))
        (Inr \<lparr>ad_Entry = entry, ad_Qualification = q, ad_Attempt = attempt, ad_Input = i, ad_Payload = payload,
              ad_Digest = digest\<rparr>))))))))))))))))))))))))))"

definition next_attempt_id :: "db \<Rightarrow> int" where
  "next_attempt_id d = foldr max (map pa_ID (provider_attempts d)) 0 + 1"

definition new_run :: "ProviderAttemptRequest \<Rightarrow> admission \<Rightarrow> phase_run_row" where
  "new_run r ad = \<lparr>pr_Ref = ra_Ref r, pr_Phase = ra_Phase r, pr_Attempt = ad_Attempt ad, pr_State = ''active'',
     pr_LeaderEpoch = LeaderEpoch (ra_Fence r), pr_RunnerEpoch = RunnerEpoch (ra_Fence r),
     pr_ExpectedTicketVersion = ra_ExpectedVersion r, pr_Outcome = ''running'', pr_Identity = rb_Identity (ra_Binding r),
     pr_WorktreeIdentity = ra_WorktreeIdentity r, pr_BaseSHA = ra_BaseSHA r, pr_Completed = False\<rparr>"

definition new_attempt :: "int \<Rightarrow> ProviderAttemptRequest \<Rightarrow> admission \<Rightarrow> string \<Rightarrow> attempt_row" where
  "new_attempt aid r ad lease = \<lparr>w_Ref = ra_Ref r, w_State = ''active'', w_LaunchState = ''launching'',
     w_Repository = ra_Repository r, pa_ID = aid, pa_Phase = ra_Phase r, pa_Attempt = ad_Attempt ad, pa_Role = ra_Role r,
     pa_Identity = rb_Identity (ra_Binding r), pa_Outcome = ''running'', pa_UsageUnits = 0, pa_Finished = False,
     pa_QualificationID = Some (q_ID (ad_Qualification ad)), pa_BindingDigest = bindingDigest (ra_Binding r),
     pa_LeaseKey = lease, pa_LeaderEpoch = LeaderEpoch (ra_Fence r), pa_RunnerEpoch = RunnerEpoch (ra_Fence r),
     pa_ExpectedVersion = ra_ExpectedVersion r, pa_Worktree = ra_Worktree r,
     pa_WorktreeIdentity = ra_WorktreeIdentity r, pa_BaseSHA = ra_BaseSHA r, pa_SupervisorKey = ra_SupervisorKey r,
     pa_AuthDigest = rb_AuthDigest (ra_Binding r), pa_AuthMode = rb_AuthMode (ra_Binding r), pa_PID = 0, pa_PGID = 0,
     pa_BootIdentity = '''', pa_StartIdentity = ''''\<rparr>"

text \<open>
  The constraints that the four inserts can violate: the key of phase runs and the one active run of a ticket, the
  attempt number of a provider and the one active attempt of a ticket, and the phase entry the binding refers to.
\<close>

definition attempt_insert_ok :: "ProviderAttemptRequest \<Rightarrow> admission \<Rightarrow> db \<Rightarrow> bool" where
  "attempt_insert_ok r ad d \<longleftrightarrow>
     \<not> list_ex (\<lambda>p. pr_Ref p = ra_Ref r \<and> (pr_Phase p = ra_Phase r \<and> pr_Attempt p = ad_Attempt ad \<or> pr_State p = ''active''))
       (phase_runs d) \<and>
     \<not> list_ex (\<lambda>a. w_Ref a = ra_Ref r \<and>
         (pa_Phase a = ra_Phase r \<and> pa_Attempt a = ad_Attempt ad \<and>
            pv_Provider (pa_Identity a) = pv_Provider (rb_Identity (ra_Binding r)) \<or> w_State a = ''active''))
       (provider_attempts d) \<and>
     \<not> list_ex (\<lambda>e. ae_Ref e = ra_Ref r \<and> ae_Phase e = ra_Phase r \<and> ae_Attempt e = ad_Attempt ad)
       (provider_phase_attempt_entries d) \<and>
     list_ex (\<lambda>e. pe_Ref e = ra_Ref r \<and> pe_Phase e = ra_Phase r \<and> pe_Version e = pe_Version (ad_Entry ad))
       (provider_phase_entries d) \<and> pe_Version (ad_Entry ad) \<noteq> 0"

definition insert_attempt :: "ProviderAttemptRequest \<Rightarrow> admission \<Rightarrow> string \<Rightarrow> lease_row list \<Rightarrow> db \<Rightarrow> db" where
  "insert_attempt r ad lease ls d =
     (let aid = next_attempt_id d in
      d\<lparr>leases := ls, phase_runs := insert_row (new_run r ad) (phase_runs d),
        provider_attempts := insert_row (new_attempt aid r ad lease) (provider_attempts d),
        provider_attempt_inputs := insert_row
          \<lparr>ai_AttemptID = aid, ai_RequestDigest = ad_Digest ad, ai_CanonicalInput = ad_Payload ad\<rparr> (provider_attempt_inputs d),
        provider_phase_attempt_entries := insert_row
          \<lparr>ae_AttemptID = aid, ae_Ref = ra_Ref r, ae_Phase = ra_Phase r, ae_Role = ra_Role r, ae_Attempt = ad_Attempt ad,
           ae_EntryVersion = pe_Version (ad_Entry ad)\<rparr> (provider_phase_attempt_entries d)\<rparr>)"

definition new_claim :: "int \<Rightarrow> ProviderAttemptRequest \<Rightarrow> admission \<Rightarrow> string \<Rightarrow> ProviderAttemptClaim" where
  "new_claim aid r ad lease = \<lparr>cl_ID = aid, cl_Ref = ra_Ref r, cl_Phase = ra_Phase r, cl_Role = ra_Role r,
     cl_Attempt = ad_Attempt ad, cl_Binding = ra_Binding r, cl_QualificationID = q_ID (ad_Qualification ad),
     cl_LeaseKey = lease, cl_BindingDigest = bindingDigest (ra_Binding r), cl_LeaderEpoch = LeaderEpoch (ra_Fence r),
     cl_RunnerEpoch = RunnerEpoch (ra_Fence r), cl_ExpectedVersion = ra_ExpectedVersion r, cl_Repository = ra_Repository r,
     cl_Worktree = ra_Worktree r, cl_WorktreeIdentity = ra_WorktreeIdentity r, cl_BaseSHA = ra_BaseSHA r,
     cl_SupervisorKey = ra_SupervisorKey r, cl_Input = (ad_Input ad)\<lparr>in_RequestDigest := ad_Digest ad\<rparr>,
     cl_RequestDigest = ad_Digest ad, cl_RequestPayload = ad_Payload ad\<rparr>"

definition BeginProviderAttempt_tx ::
  "provider_env \<Rightarrow> Gate option \<Rightarrow> ProviderAttemptRequest \<Rightarrow> db \<Rightarrow> store_error + (ProviderAttemptClaim \<times> db)" where
  "BeginProviderAttempt_tx px m r d =
     guarded (assertTicketFence m d (ra_Ref r) (ra_ExpectedVersion r) (ra_Fence r))
     (case ticket_at d (ra_Ref r) of
        None \<Rightarrow> Inl ErrNotFound
      | Some t \<Rightarrow>
        and_then (admit_attempt px m r t d) (\<lambda>ad.
          (case acquireLease (ra_Ref r) (t_RunnerEpoch t)
                  \<lparr>lr_Scope = ''provider'',
                   lr_Resource = pv_Provider (rb_Identity (ra_Binding r)) @ '':'' @ rb_AuthDigest (ra_Binding r),
                   lr_Capacity = ra_Capacity r\<rparr> (ra_At r) (leases d) of
             (None, _) \<Rightarrow> Inl ErrProviderCapacity
           | (Some lease, ls) \<Rightarrow>
             guarded (refuse (\<not> attempt_insert_ok r ad d) (ErrConstraint ''provider_attempts''))
             (Inr (new_claim (next_attempt_id d) r ad (l_ScopeKey lease), insert_attempt r ad (l_ScopeKey lease) ls d)))))"

text \<open>A caller's repair marker is dropped before anything else.\<close>

definition BeginProviderAttempt ::
  "provider_env \<Rightarrow> Store \<Rightarrow> ProviderAttemptRequest \<Rightarrow> (store_error + ProviderAttemptClaim) \<times> Store" where
  "BeginProviderAttempt px s rq =
     (let r = rq\<lparr>ra_Input := (ra_Input rq)\<lparr>in_Repair := None\<rparr>\<rparr> in
      if TicketRef_Validate (ra_Ref r) \<noteq> None \<or> \<not> validProviderPhase (ra_Phase r) \<or> \<not> validProviderRole (ra_Role r) \<or>
         ra_ExpectedVersion r = 0 \<or> LeaderEpoch (ra_Fence r) = 0 \<or> RunnerEpoch (ra_Fence r) = 0 \<or> ra_Capacity r < 1 \<or>
         16 < ra_Capacity r \<or> ra_At r = 0 \<or> \<not> validRuntimeBinding (ra_Binding r) \<or> \<not> validProviderAttemptInput r
        then (Inl ErrProviderAttempt, s)
      else store_write s (BeginProviderAttempt_tx px (st_mutations s) r))"

end
