(* ===== verification/ProviderCompletion.thy ===== *)
theory ProviderCompletion
  imports ProviderAdmission
begin

text \<open>
  The end of an admitted attempt (\<^verbatim>\<open>internal/store/provider.go\<close>): the record of its launch, the recovery key of a
  leader, and the one transaction by which an attempt finishes with a drain proof, with or without a result.
\<close>

section \<open>Statements on the two lifecycle tables\<close>

text \<open>The pairs of state and outcome that the triggers of the two tables admit.\<close>

definition failed_outcomes :: "string list" where
  "failed_outcomes = [''failed'', ''invalid_artifact'', ''budget_exhausted'', ''legacy_unverifiable'', ''invocation_failed'',
     ''result_indeterminate'', ''server_rejected'']"

definition attempt_outcome_ok :: "string \<Rightarrow> string \<Rightarrow> bool" where
  "attempt_outcome_ok state outcome \<longleftrightarrow>
     state = ''active'' \<and> outcome = ''running'' \<or> state = ''completed'' \<and> outcome = ''completed'' \<or>
     state = ''cancelled'' \<and> outcome \<in> set [''cancelled'', ''drained_recovery''] \<or>
     state = ''quarantined'' \<and> outcome \<in> set [''undrained'', ''undrained_recovery''] \<or>
     state = ''failed'' \<and> outcome \<in> set failed_outcomes"

definition phase_outcome_ok :: "string \<Rightarrow> string \<Rightarrow> bool" where
  "phase_outcome_ok state outcome \<longleftrightarrow>
     state = ''active'' \<and> outcome = ''running'' \<or> state = ''completed'' \<and> outcome \<in> set [''completed'', ''passed''] \<or>
     state = ''cancelled'' \<and> outcome \<in> set [''cancelled'', ''drained_recovery''] \<or>
     state = ''failed'' \<and> outcome \<in> set failed_outcomes"

text \<open>
  An update that must hit exactly one row. A row that the trigger refuses aborts the statement; no row at all is
  a stale fence.
\<close>

definition update_one :: "('r \<Rightarrow> bool) \<Rightarrow> ('r \<Rightarrow> 'r) \<Rightarrow> ('r \<Rightarrow> bool) \<Rightarrow> string \<Rightarrow> 'r list \<Rightarrow> store_error + 'r list" where
  "update_one p f ok name t =
     (if list_ex (\<lambda>r. p r \<and> \<not> ok (f r)) t then Inl (ErrConstraint name)
      else if count_where p t \<noteq> 1 then Inl ErrStaleFence
      else Inr (update_where p f t))"

definition end_attempt :: "string \<Rightarrow> string \<Rightarrow> int option \<Rightarrow> attempt_row \<Rightarrow> attempt_row" where
  "end_attempt state outcome usage a = a\<lparr>w_State := state, pa_Outcome := outcome,
     pa_UsageUnits := (case usage of None \<Rightarrow> pa_UsageUnits a | Some n \<Rightarrow> n), pa_Finished := True, w_LaunchState := ''drained''\<rparr>"

definition end_run :: "string \<Rightarrow> string \<Rightarrow> phase_run_row \<Rightarrow> phase_run_row" where
  "end_run state outcome p = p\<lparr>pr_State := state, pr_Outcome := outcome, pr_Completed := True\<rparr>"

text \<open>The conditions by which the statements name the rows of a claim.\<close>

definition names_attempt :: "ProviderAttemptClaim \<Rightarrow> attempt_row \<Rightarrow> bool" where
  "names_attempt c a \<longleftrightarrow>
     pa_ID a = cl_ID c \<and> w_Ref a = cl_Ref c \<and> pa_Phase a = cl_Phase c \<and> pa_Attempt a = cl_Attempt c \<and> pa_Role a = cl_Role c \<and>
     pa_LeaderEpoch a = cl_LeaderEpoch c \<and> pa_RunnerEpoch a = cl_RunnerEpoch c \<and> pa_ExpectedVersion a = cl_ExpectedVersion c"

definition bound_row :: "ProviderAttemptClaim \<Rightarrow> attempt_row \<Rightarrow> bool" where
  "bound_row c a \<longleftrightarrow> names_attempt c a \<and> pa_BindingDigest a = cl_BindingDigest c \<and> pa_LeaseKey a = cl_LeaseKey c"

definition names_run :: "ProviderAttemptClaim \<Rightarrow> phase_run_row \<Rightarrow> bool" where
  "names_run c p \<longleftrightarrow>
     pr_Ref p = cl_Ref c \<and> pr_Phase p = cl_Phase c \<and> pr_Attempt p = cl_Attempt c \<and> pr_State p = ''active'' \<and>
     pr_LeaderEpoch p = cl_LeaderEpoch c \<and> pr_RunnerEpoch p = cl_RunnerEpoch c \<and>
     pr_ExpectedTicketVersion p = cl_ExpectedVersion c"

definition identified_run :: "ProviderAttemptClaim \<Rightarrow> phase_run_row \<Rightarrow> bool" where
  "identified_run c p \<longleftrightarrow> names_run c p \<and> pr_Identity p = rb_Identity (cl_Binding c)"

definition claim_lease :: "ProviderAttemptClaim \<Rightarrow> lease_row \<Rightarrow> bool" where
  "claim_lease c l \<longleftrightarrow>
     l_Ref l = cl_Ref c \<and> l_Scope l = ''provider'' \<and> l_ScopeKey l = cl_LeaseKey c \<and> l_RunnerEpoch l = cl_RunnerEpoch c"

definition release_claim_lease :: "ProviderAttemptClaim \<Rightarrow> db \<Rightarrow> db" where
  "release_claim_lease c d = d\<lparr>leases := delete_where (claim_lease c) (leases d)\<rparr>"

definition has_request_digest :: "db \<Rightarrow> ProviderAttemptClaim \<Rightarrow> bool" where
  "has_request_digest d c \<longleftrightarrow>
     list_ex (\<lambda>i. ai_AttemptID i = cl_ID c \<and> ai_RequestDigest i = cl_RequestDigest c) (provider_attempt_inputs d)"

definition change_attempt ::
  "(attempt_row \<Rightarrow> bool) \<Rightarrow> (attempt_row \<Rightarrow> attempt_row) \<Rightarrow> db \<Rightarrow> store_error + db" where
  "change_attempt p f d =
     and_then (update_one p f (\<lambda>a. attempt_outcome_ok (w_State a) (pa_Outcome a)) ''provider_attempts'' (provider_attempts d))
       (\<lambda>t. Inr (d\<lparr>provider_attempts := t\<rparr>))"

definition change_run :: "(phase_run_row \<Rightarrow> bool) \<Rightarrow> (phase_run_row \<Rightarrow> phase_run_row) \<Rightarrow> db \<Rightarrow> store_error + db" where
  "change_run p f d =
     and_then (update_one p f (\<lambda>r. phase_outcome_ok (pr_State r) (pr_Outcome r)) ''phase_runs'' (phase_runs d))
       (\<lambda>t. Inr (d\<lparr>phase_runs := t\<rparr>))"

text \<open>The fence of an operation on a claim: the ticket's version and the two epochs.\<close>

definition fenced_ticket :: "db \<Rightarrow> TicketRef \<Rightarrow> u64 \<Rightarrow> Fence \<Rightarrow> store_error + ticket_row" where
  "fenced_ticket d ref expected fence =
     (case ticket_at d ref of
        None \<Rightarrow> Inl ErrNoRows
      | Some t \<Rightarrow>
        guarded (refuse (t_Version t \<noteq> expected) ErrStaleFence)
        (guarded (currentFence d (Channel ref) (t_Version t) (t_RunnerEpoch t) fence) (Inr t)))"

section \<open>Launch\<close>

record ProviderLaunch =
  ln_PID :: int
  ln_PGID :: int
  ln_BootIdentity :: string
  ln_ProcessStartIdentity :: string
  ln_Worktree :: string

definition RecordProviderLaunch ::
  "Store \<Rightarrow> ProviderAttemptClaim \<Rightarrow> ProviderLaunch \<Rightarrow> (store_error + unit) \<times> Store" where
  "RecordProviderLaunch s c launch =
     (if cl_ID c \<le> 0 \<or> TicketRef_Validate (cl_Ref c) \<noteq> None \<or> cl_Phase c = '''' \<or> \<not> validProviderRole (cl_Role c) \<or>
         cl_Attempt c \<le> 0 \<or> cl_LeaseKey c = '''' \<or> cl_BindingDigest c = '''' \<or> cl_RequestDigest c = '''' \<or> cl_LeaderEpoch c = 0 \<or>
         cl_RunnerEpoch c = 0 \<or> cl_ExpectedVersion c = 0 \<or> ln_PID launch \<le> 0 \<or> ln_PGID launch \<le> 0 \<or>
         ln_PID launch \<noteq> ln_PGID launch \<or> ln_BootIdentity launch = '''' \<or> ln_ProcessStartIdentity launch = '''' \<or>
         ln_Worktree launch = '''' \<or> cl_Worktree c \<noteq> ln_Worktree launch then (Inl ErrProviderAttempt, s)
      else store_write s (\<lambda>d.
        and_then (change_attempt (\<lambda>a. bound_row c a \<and> w_State a = ''active'' \<and> w_LaunchState a = ''launching'' \<and>
            pa_Worktree a = ln_Worktree launch \<and> has_request_digest d c)
          (\<lambda>a. a\<lparr>pa_PID := ln_PID launch, pa_PGID := ln_PGID launch, pa_BootIdentity := ln_BootIdentity launch,
             pa_StartIdentity := ln_ProcessStartIdentity launch, w_LaunchState := ''released''\<rparr>) d)
          (\<lambda>d'. Inr ((), d'))))"

definition ProviderLaunchIdentity :: "db \<Rightarrow> ProviderAttemptClaim \<Rightarrow> store_error + ProviderLaunch" where
  "ProviderLaunchIdentity d c =
     (case List.find (\<lambda>a. bound_row c a \<and> has_request_digest d c \<and> (w_State a = ''active'' \<or> w_State a = ''quarantined'') \<and>
          w_LaunchState a = ''released'') (provider_attempts d) of
        None \<Rightarrow> Inl ErrNoRows
      | Some a \<Rightarrow>
        if pa_PID a \<le> 0 \<or> pa_PGID a \<le> 0 \<or> pa_BootIdentity a = '''' \<or> pa_StartIdentity a = '''' \<or> pa_Worktree a = ''''
          then Inl ErrProviderDrain
        else Inr \<lparr>ln_PID = pa_PID a, ln_PGID = pa_PGID a, ln_BootIdentity = pa_BootIdentity a,
                  ln_ProcessStartIdentity = pa_StartIdentity a, ln_Worktree = pa_Worktree a\<rparr>)"

definition SetRecoveryAuthority :: "Store \<Rightarrow> string \<Rightarrow> u64 \<Rightarrow> string \<Rightarrow> (store_error + unit) \<times> Store" where
  "SetRecoveryAuthority s channel leader key =
     (if \<not> Channel_Valid channel \<or> leader = 0 \<or> length key \<noteq> 32 then (Inl ErrProviderAttempt, s)
      else store_write s (\<lambda>d.
        let p = (\<lambda>r. d_Channel r = channel \<and> d_LeaderEpoch r = leader) in
        guarded (refuse (count_where p (daemon_instances d) \<noteq> 1) ErrStaleFence)
        (Inr ((), d\<lparr>daemon_instances := update_where p (\<lambda>r. r\<lparr>d_RecoveryKey := key\<rparr>) (daemon_instances d)\<rparr>))))"

section \<open>Finishing\<close>

text \<open>
  A result is evidence only when its texts authenticate each other and the provider's bytes parse again, under the
  stored validation, to exactly the stored typed artifact.
\<close>

definition digests_match :: "ProviderAttemptResult \<Rightarrow> bool" where
  "digests_match r \<longleftrightarrow>
     hexDigest (pt_RawSHA256 r) \<and> hexDigest (pt_TypedSHA256 r) \<and> hexDigest (pt_ValidationSHA256 r) \<and>
     hexDigest (pt_TranscriptSHA256 r) \<and> sha256_hex (pt_RawArtifact r) = pt_RawSHA256 r \<and>
     sha256_hex (pt_TypedArtifact r) = pt_TypedSHA256 r \<and> sha256_hex (pt_Validation r) = pt_ValidationSHA256 r"

definition reparse :: "ProviderAttemptClaim \<Rightarrow> ProviderAttemptResult \<Rightarrow> (ArtifactValidation \<times> ParsedArtifact) option" where
  "reparse c r =
     (case DecodeCanonicalTypedArtifact (pt_TypedArtifact r) of
        Inl _ \<Rightarrow> None
      | Inr artifact \<Rightarrow>
        if ca_Phase artifact \<noteq> cl_Phase c \<or> ca_Provider artifact \<noteq> rb_Identity (cl_Binding c) then None
        else case DecodeCanonicalValidation (pt_Validation r) of
          Inl _ \<Rightarrow> None
        | Inr va \<Rightarrow>
          (case Parse (cl_Phase c) (pt_RawArtifact r) (rb_Identity (cl_Binding c)) va of
             Inl _ \<Rightarrow> None
           | Inr parsed \<Rightarrow>
             (case CanonicalTypedArtifact parsed of
                Inl _ \<Rightarrow> None
              | Inr (canonical, _) \<Rightarrow> if canonical = pt_TypedArtifact r then Some (va, parsed) else None)))"

definition result_authentic :: "ProviderAttemptClaim \<Rightarrow> ProviderAttemptResult \<Rightarrow> bool" where
  "result_authentic c r \<longleftrightarrow> digests_match r \<and> reparse c r \<noteq> None"

definition result_row :: "ProviderAttemptClaim \<Rightarrow> ProviderAttemptResult \<Rightarrow> attempt_result_row" where
  "result_row c r = \<lparr>ar_AttemptID = cl_ID c, ar_Ref = cl_Ref c, ar_Phase = cl_Phase c, ar_Role = cl_Role c,
     ar_Attempt = cl_Attempt c, ar_Identity = rb_Identity (cl_Binding c), ar_RequestDigest = cl_RequestDigest c,
     ar_LeaderEpoch = cl_LeaderEpoch c, ar_RunnerEpoch = cl_RunnerEpoch c, ar_ExpectedVersion = cl_ExpectedVersion c,
     ar_Repository = cl_Repository c, ar_Worktree = cl_Worktree c, ar_WorktreeIdentity = cl_WorktreeIdentity c,
     ar_BaseSHA = cl_BaseSHA c, ar_RawArtifact = pt_RawArtifact r, ar_RawSHA256 = pt_RawSHA256 r,
     ar_TypedArtifact = pt_TypedArtifact r, ar_TypedSHA256 = pt_TypedSHA256 r, ar_Validation = pt_Validation r,
     ar_ValidationSHA256 = pt_ValidationSHA256 r, ar_TranscriptSHA256 = pt_TranscriptSHA256 r\<rparr>"

definition store_result :: "ProviderAttemptClaim \<Rightarrow> ProviderAttemptResult option \<Rightarrow> db \<Rightarrow> store_error + db" where
  "store_result c result d =
     (case result of
        None \<Rightarrow> Inr d
      | Some r \<Rightarrow>
        guarded (refuse (pt_AttemptID r \<noteq> cl_ID c \<or> \<not> resultClaimMatchesSource (pt_Claim r) c \<or> \<not> result_authentic c r)
          ErrProviderAttempt)
        (guarded (refuse (results_of d (cl_ID c) \<noteq> [] \<or> pt_RawArtifact r = [] \<or> 1048576 < int (length (pt_RawArtifact r)) \<or>
            int (length (pt_TypedArtifact r)) < 2 \<or> 2097152 < int (length (pt_TypedArtifact r)) \<or>
            int (length (pt_Validation r)) < 2 \<or> 65536 < int (length (pt_Validation r)))
          (ErrConstraint ''provider_attempt_results''))
        (Inr (d\<lparr>provider_attempt_results := insert_row (result_row c r) (provider_attempt_results d)\<rparr>))))"

definition failure_row :: "ProviderArtifactFailure \<Rightarrow> artifact_failure_row" where
  "failure_row f = \<lparr>af_AttemptID = fl_AttemptID f, af_Ref = fl_Ref f, af_Phase = fl_Phase f, af_Role = fl_Role f,
     af_Attempt = fl_Attempt f, af_RequestDigest = fl_RequestDigest f, af_LeaderEpoch = fl_LeaderEpoch f,
     af_RunnerEpoch = fl_RunnerEpoch f, af_ExpectedVersion = fl_ExpectedVersion f, af_Reason = fl_Reason f,
     af_Digest = fl_Digest f\<rparr>"

definition store_failure :: "ProviderArtifactFailure option \<Rightarrow> db \<Rightarrow> store_error + db" where
  "store_failure failure d =
     (case failure of
        None \<Rightarrow> Inr d
      | Some f \<Rightarrow>
        guarded (refuse (list_ex (\<lambda>x. af_AttemptID x = fl_AttemptID f \<or> af_Digest x = fl_Digest f) (provider_artifact_failures d))
          (ErrConstraint ''provider_artifact_failures''))
        (Inr (d\<lparr>provider_artifact_failures := insert_row (failure_row f) (provider_artifact_failures d)\<rparr>)))"

definition diagnostic_json :: "ProviderAttemptClaim \<Rightarrow> string \<Rightarrow> json" where
  "diagnostic_json c reason = JObj
     [(''schema'', JStr ''sf.provider-diagnostic/v1''), (''provider_attempt_id'', JNum (print_int (cl_ID c))),
      (''phase'', JStr (cl_Phase c)), (''attempt'', JNum (print_int (cl_Attempt c))),
      (''request_digest'', JStr (cl_RequestDigest c)),
      (''fence'', JObj [(''ticket_version'', uint_json (cl_ExpectedVersion c)), (''leader_epoch'', uint_json (cl_LeaderEpoch c)),
         (''runner_epoch'', uint_json (cl_RunnerEpoch c))]),
      (''reason'', JStr reason)]"

definition diagnostic_event :: "ProviderAttemptClaim \<Rightarrow> u64 \<Rightarrow> string option \<Rightarrow> db \<Rightarrow> store_error + db" where
  "diagnostic_event c expected reason d =
     (case reason of
        None \<Rightarrow> Inr d
      | Some v \<Rightarrow>
        (let encoded = print_json (diagnostic_json c v) in
         if maxEvidenceJSON < int (length encoded) then Inl (ErrMessage ''encode bounded evidence event'')
         else case ticket_at d (cl_Ref c) of
           None \<Rightarrow> Inl ErrNoRows
         | Some t \<Rightarrow> Inr (snd (insert_event (cl_Ref c) expected ''provider_result_diagnostic'' (t_State t) (t_State t) encoded d))))"

text \<open>Recording a server rejection, which must be fresh and name the checkpoint of the claim.\<close>

definition recordServerRejectionFrom ::
  "provider_env \<Rightarrow> ProviderAttemptClaim \<Rightarrow> ServerRejectionAttestation \<Rightarrow> int \<Rightarrow> db \<Rightarrow> store_error + db" where
  "recordServerRejectionFrom px c receipt finished d =
     (case canonicalServerRejection px c receipt of
        Inl _ \<Rightarrow> Inl ErrProviderServerRejection
      | Inr (raw, digest, deadline) \<Rightarrow>
        (let observed = se_ObservedUnixNanos (sv_Evidence receipt) in
         guarded (refuse (UnixNano finished < observed \<or> 30 * second < UnixNano finished - observed) ErrProviderServerRejection)
         (and_then (px_checkpoint px d c) (\<lambda>(head, checkpoint).
           guarded (refuse (head \<noteq> se_CheckpointHeadOID (sv_Evidence receipt) \<or>
               checkpoint \<noteq> se_CheckpointDigest (sv_Evidence receipt)) ErrProviderServerRejection)
           (guarded (refuse (list_ex (\<lambda>x. sj_AttemptID x = cl_ID c) (provider_server_rejections d))
             (ErrConstraint ''provider_server_rejections''))
           (Inr (d\<lparr>provider_server_rejections := insert_row
              \<lparr>sj_AttemptID = cl_ID c, sj_Ref = cl_Ref c, sj_Phase = cl_Phase c, sj_Role = cl_Role c, sj_Attempt = cl_Attempt c,
               sj_Receipt = raw, sj_Digest = digest, sj_Observed = observed, sj_Deadline = deadline\<rparr>
              (provider_server_rejections d)\<rparr>)))))))"

record finish =
  fn_State :: string
  fn_Outcome :: string
  fn_Usage :: int
  fn_At :: int
  fn_Result :: "ProviderAttemptResult option"
  fn_Failure :: "ProviderArtifactFailure option"
  fn_Receipt :: "ServerRejectionAttestation option"
  fn_Reason :: "string option"

definition failure_matches :: "ProviderAttemptClaim \<Rightarrow> finish \<Rightarrow> ProviderArtifactFailure \<Rightarrow> bool" where
  "failure_matches c f v \<longleftrightarrow>
     fn_State f = ''failed'' \<and> fn_Outcome f = PhaseResultInvalidArtifact \<and> fl_AttemptID v = cl_ID c \<and> fl_Ref v = cl_Ref c \<and>
     fl_Phase v = cl_Phase c \<and> fl_Role v = cl_Role c \<and> fl_Attempt v = cl_Attempt c \<and> fl_RequestDigest v = cl_RequestDigest c \<and>
     fl_LeaderEpoch v = cl_LeaderEpoch c \<and> fl_RunnerEpoch v = cl_RunnerEpoch c \<and> fl_ExpectedVersion v = cl_ExpectedVersion c \<and>
     fl_CreatedAt v = fn_At f \<and> providerArtifactFailureDigest v = Inr (fl_Digest v)"

text \<open>The checks before the transaction.\<close>

definition finish_input :: "provider_env \<Rightarrow> ProviderAttemptClaim \<Rightarrow> DrainProof \<Rightarrow> Fence \<Rightarrow> finish \<Rightarrow> store_error option" where
  "finish_input px c prf fence f =
     (if (fn_Outcome f = providerServerRejected) \<noteq> (fn_Receipt f \<noteq> None) \<or>
         fn_Receipt f \<noteq> None \<and> (fn_State f \<noteq> ''failed'' \<or> fn_Result f \<noteq> None \<or> fn_Failure f \<noteq> None \<or> fn_Reason f \<noteq> None)
        then Some ErrProviderServerRejection
      else if cl_ID c \<le> 0 \<or> cl_ExpectedVersion c = 0 \<or> cl_LeaderEpoch c = 0 \<or> cl_RunnerEpoch c = 0 \<or>
         \<not> validAttemptState (fn_State f) \<or> \<not> safeOutcome (fn_Outcome f) \<or> fn_Usage f < 0 \<or> fn_At f = 0
        then Some ErrProviderAttempt
      else if (case fn_Reason f of None \<Rightarrow> False
          | Some v \<Rightarrow> \<not> ValidProviderFailureReason v \<or> fn_State f \<noteq> ''failed'' \<or> fn_Outcome f \<noteq> ''result_indeterminate'' \<or>
              fn_Result f \<noteq> None \<or> fn_Failure f \<noteq> None) then Some ErrProviderAttempt
      else if fn_Result f \<noteq> None \<and> (fn_State f \<noteq> ''completed'' \<or> fn_Outcome f \<noteq> ''completed'') then Some ErrProviderAttempt
      else if (case fn_Failure f of None \<Rightarrow> False | Some v \<Rightarrow> \<not> failure_matches c f v) then Some ErrProviderAttempt
      else if cl_LeaderEpoch c \<noteq> LeaderEpoch fence \<or> cl_RunnerEpoch c \<noteq> RunnerEpoch fence then Some ErrStaleFence
      else refuse (\<not> VerifyDrainProof (px_verify px) (cl_SupervisorKey c) (drainRequestForClaim c) prf) ErrProviderDrain)"

definition others_spent :: "db \<Rightarrow> ProviderAttemptClaim \<Rightarrow> int" where
  "others_spent d c =
     sum_list (map pa_UsageUnits (filter (\<lambda>a. w_Ref a = cl_Ref c \<and> pa_ID a \<noteq> cl_ID c) (provider_attempts d)))"

definition replayed_rejection ::
  "provider_env \<Rightarrow> db \<Rightarrow> ProviderAttemptClaim \<Rightarrow> ServerRejectionAttestation \<Rightarrow> store_error option" where
  "replayed_rejection px d c receipt =
     (case loadServerRejectionFrom px d c of
        Inl e \<Rightarrow> Some e
      | Inr (stored, _) \<Rightarrow>
        (case (canonicalServerRejection px c stored, canonicalServerRejection px c receipt) of
           (Inl e, _) \<Rightarrow> Some e
         | (Inr (storedBytes, _), Inr (requestedBytes, _)) \<Rightarrow> refuse (storedBytes \<noteq> requestedBytes) ErrProviderServerRejection
         | (Inr _, Inl _) \<Rightarrow> Some ErrProviderServerRejection))"

definition finish_authority ::
  "db \<Rightarrow> ProviderAttemptClaim \<Rightarrow> u64 \<Rightarrow> Fence \<Rightarrow> store_error + (ticket_row \<times> attempt_row)" where
  "finish_authority d c expected fence =
     (case ticket_at d (cl_Ref c) of
        None \<Rightarrow> Inl ErrNoRows
      | Some t \<Rightarrow>
        guarded (refuse (t_Version t \<noteq> expected \<or> cl_ExpectedVersion c \<noteq> expected) ErrStaleFence)
        (guarded (currentFence d (Channel (cl_Ref c)) (t_Version t) (t_RunnerEpoch t) fence)
        (and_then (loadAuthenticatedProviderAttemptClaim d (cl_ID c)) (\<lambda>persisted.
          (case attempt_at d (cl_ID c) of
             None \<Rightarrow> Inl ErrNoRows
           | Some a \<Rightarrow>
             guarded (refuse (\<not> sameImmutableProviderAttemptClaim c persisted \<or>
                 in_RequestDigest (cl_Input c) \<noteq> in_RequestDigest (cl_Input persisted) \<or>
                 cl_BindingDigest persisted = '''' \<or> cl_BindingDigest persisted \<noteq> bindingDigest (cl_Binding persisted)) ErrStaleFence)
             (Inr (t, a)))))))"

text \<open>Usage within what is left of the ticket's cost, and an end before its deadline.\<close>

definition finish_budget :: "db \<Rightarrow> ProviderAttemptClaim \<Rightarrow> ticket_row \<Rightarrow> int \<Rightarrow> int \<Rightarrow> store_error option" where
  "finish_budget d c t usage at =
     (if t_MaxCostMicroUSD t \<le> 0 \<or> t_MaxCostMicroUSD t - others_spent d c < usage then Some ErrBudgetExhausted
      else refuse (t_MaxDuration t \<le> 0 \<or> t_CreatedAt t + t_MaxDuration t \<le> at) ErrBudgetExhausted)"

definition finish_rows :: "ProviderAttemptClaim \<Rightarrow> u64 \<Rightarrow> finish \<Rightarrow> db \<Rightarrow> store_error + db" where
  "finish_rows c expected f d =
     and_then (store_result c (fn_Result f) d) (\<lambda>d1.
     and_then (change_attempt (\<lambda>a. names_attempt c a \<and> w_State a = ''active'')
        (end_attempt (fn_State f) (fn_Outcome f) (Some (fn_Usage f))) d1) (\<lambda>d2.
     and_then (change_run (identified_run c) (end_run (fn_State f) (fn_Outcome f)) d2) (\<lambda>d3.
     and_then (store_failure (fn_Failure f) d3) (\<lambda>d4.
     and_then (diagnostic_event c expected (fn_Reason f) d4) (\<lambda>d5.
       guarded (refuse (\<not> list_ex (\<lambda>a. bound_row c a \<and> pa_Identity a = rb_Identity (cl_Binding c) \<and>
             w_Repository a = cl_Repository c \<and> pa_Worktree a = cl_Worktree c \<and>
             pa_WorktreeIdentity a = cl_WorktreeIdentity c \<and> pa_BaseSHA a = cl_BaseSHA c \<and>
             pa_AuthDigest a = rb_AuthDigest (cl_Binding c) \<and> pa_AuthMode a = rb_AuthMode (cl_Binding c)) (provider_attempts d5) \<or>
           count_where (claim_lease c) (leases d5) \<noteq> 1) ErrStaleFence)
       (Inr (release_claim_lease c d5)))))))"

definition finish_tx ::
  "provider_env \<Rightarrow> ProviderAttemptClaim \<Rightarrow> u64 \<Rightarrow> Fence \<Rightarrow> finish \<Rightarrow> db \<Rightarrow> store_error + (unit \<times> db)" where
  "finish_tx px c expected fence f d =
     and_then (finish_authority d c expected fence) (\<lambda>(t, a).
       if w_State a = ''failed'' \<and> fn_Receipt f \<noteq> None
         then guarded (replayed_rejection px d c (the (fn_Receipt f))) (Inr ((), d))
       else if w_State a \<noteq> ''active'' then Inl ErrStaleFence
       else
         and_then (case fn_Receipt f of None \<Rightarrow> Inr d
                   | Some receipt \<Rightarrow> recordServerRejectionFrom px c receipt (fn_At f) d) (\<lambda>d0.
         guarded (finish_budget d0 c t (fn_Usage f) (fn_At f))
         (and_then (finish_rows c expected f d0) (\<lambda>d1. Inr ((), d1)))))"

definition finishProviderAttemptWithReceipt ::
  "provider_env \<Rightarrow> Store \<Rightarrow> ProviderAttemptClaim \<Rightarrow> DrainProof \<Rightarrow> u64 \<Rightarrow> Fence \<Rightarrow> finish \<Rightarrow> (store_error + unit) \<times> Store" where
  "finishProviderAttemptWithReceipt px s c prf expected fence f =
     (case finish_input px c prf fence f of
        Some e \<Rightarrow> (Inl e, s)
      | None \<Rightarrow> store_write s (finish_tx px c expected fence f))"

definition plain_finish :: "string \<Rightarrow> string \<Rightarrow> int \<Rightarrow> int \<Rightarrow> finish" where
  "plain_finish state outcome usage at = \<lparr>fn_State = state, fn_Outcome = outcome, fn_Usage = usage, fn_At = at,
     fn_Result = None, fn_Failure = None, fn_Receipt = None, fn_Reason = None\<rparr>"

definition FinishProviderAttempt ::
  "provider_env \<Rightarrow> Store \<Rightarrow> ProviderAttemptClaim \<Rightarrow> DrainProof \<Rightarrow> u64 \<Rightarrow> Fence \<Rightarrow> string \<Rightarrow> string \<Rightarrow> int \<Rightarrow> int \<Rightarrow>
     (store_error + unit) \<times> Store" where
  "FinishProviderAttempt px s c prf expected fence state outcome usage at =
     (if state = ''completed'' \<or> outcome = ''completed'' then (Inl ErrProviderAttempt, s)
      else finishProviderAttemptWithReceipt px s c prf expected fence (plain_finish state outcome usage at))"

definition FinishProviderAttemptWithIndeterminateFailure ::
  "provider_env \<Rightarrow> Store \<Rightarrow> ProviderAttemptClaim \<Rightarrow> DrainProof \<Rightarrow> u64 \<Rightarrow> Fence \<Rightarrow> string \<Rightarrow> int \<Rightarrow> int \<Rightarrow>
     (store_error + unit) \<times> Store" where
  "FinishProviderAttemptWithIndeterminateFailure px s c prf expected fence reason usage at =
     (if \<not> ValidProviderFailureReason reason then (Inl ErrProviderAttempt, s)
      else finishProviderAttemptWithReceipt px s c prf expected fence
        ((plain_finish ''failed'' ''result_indeterminate'' usage at)\<lparr>fn_Reason := Some reason\<rparr>))"

definition FinishProviderAttemptWithArtifactFailure ::
  "provider_env \<Rightarrow> Store \<Rightarrow> ProviderAttemptClaim \<Rightarrow> DrainProof \<Rightarrow> u64 \<Rightarrow> Fence \<Rightarrow> string \<Rightarrow> int \<Rightarrow> int \<Rightarrow>
     (store_error + unit) \<times> Store" where
  "FinishProviderAttemptWithArtifactFailure px s c prf expected fence reason usage at =
     (if \<not> ValidArtifactFailureReason reason then (Inl ErrProviderAttempt, s)
      else case providerArtifactFailureForClaim c reason at of
        Inl e \<Rightarrow> (Inl e, s)
      | Inr failure \<Rightarrow> finishProviderAttemptWithReceipt px s c prf expected fence
          ((plain_finish ''failed'' PhaseResultInvalidArtifact usage at)\<lparr>fn_Failure := Some failure\<rparr>))"

definition FinishProviderAttemptWithServerRejection ::
  "provider_env \<Rightarrow> Store \<Rightarrow> ProviderAttemptClaim \<Rightarrow> DrainProof \<Rightarrow> ServerRejectionAttestation \<Rightarrow> int \<Rightarrow> (store_error + unit) \<times> Store" where
  "FinishProviderAttemptWithServerRejection px s c prf receipt at =
     finishProviderAttemptWithReceipt px s c prf (cl_ExpectedVersion c)
       \<lparr>LeaderEpoch = cl_LeaderEpoch c, RunnerEpoch = cl_RunnerEpoch c, ClaimEpoch = 0\<rparr>
       ((plain_finish ''failed'' providerServerRejected 0 at)\<lparr>fn_Receipt := Some receipt\<rparr>)"

end
