(* ===== verification/ProviderEvidence.thy ===== *)
theory ProviderEvidence
  imports ProviderCompletion Tickets
begin

text \<open>
  The evidence of a completed attempt (\<^verbatim>\<open>internal/store/provider.go\<close>, \<^verbatim>\<open>provider_accounting.go\<close>): reading a result back
  under a live or a historical fence, estimated accounting with the operator's consent, and the only path by
  which an attempt succeeds.
\<close>

section \<open>Estimated accounting\<close>

definition RecordProviderCostEstimate_tx :: "ProviderAttemptClaim \<Rightarrow> int option \<Rightarrow> db \<Rightarrow> store_error + (unit \<times> db)" where
  "RecordProviderCostEstimate_tx c estimate d =
     (case loadAuthenticatedProviderAttemptClaim d (cl_ID c) of
        Inl _ \<Rightarrow> Inl ErrProviderAttempt
      | Inr persisted \<Rightarrow>
        guarded (refuse (\<not> sameImmutableProviderAttemptClaim c persisted) ErrProviderAttempt)
        (and_then (loadProviderAccountingPolicy d (cl_Ref c)) (\<lambda>_.
          case List.find (\<lambda>e. ce_AttemptID e = cl_ID c \<and> ce_Ref e = cl_Ref c) (provider_cost_estimates d) of
            Some prior \<Rightarrow> if ce_Estimate prior \<noteq> estimate then Inl ErrEvidenceConflict else Inr ((), d)
          | None \<Rightarrow>
            and_then (fenced_ticket d (cl_Ref c) (cl_ExpectedVersion c)
                \<lparr>LeaderEpoch = cl_LeaderEpoch c, RunnerEpoch = cl_RunnerEpoch c, ClaimEpoch = 0\<rparr>) (\<lambda>_.
              case attempt_at d (cl_ID c) of
                None \<Rightarrow> Inl ErrNoRows
              | Some a \<Rightarrow>
                guarded (refuse (w_State a \<noteq> ''active'') ErrProviderAttempt)
                (guarded (refuse (row_at ce_AttemptID (provider_cost_estimates d) (cl_ID c) \<noteq> None)
                  (ErrConstraint ''provider_cost_estimates''))
                (Inr ((), d\<lparr>provider_cost_estimates := insert_row
                   \<lparr>ce_AttemptID = cl_ID c, ce_Ref = cl_Ref c, ce_Estimate = estimate\<rparr> (provider_cost_estimates d)\<rparr>)))))))"

definition RecordProviderCostEstimate ::
  "provider_env \<Rightarrow> Store \<Rightarrow> ProviderAttemptClaim \<Rightarrow> DrainProof \<Rightarrow> int option \<Rightarrow> (store_error + unit) \<times> Store" where
  "RecordProviderCostEstimate px s c prf estimate =
     (if \<not> UsesMultiCLIRequestLimit (pv_Provider (rb_Identity (cl_Binding c))) \<or> (case estimate of None \<Rightarrow> False | Some n \<Rightarrow> n < 0)
        then (Inl ErrProviderAttempt, s)
      else if \<not> VerifyDrainProof (px_verify px) (cl_SupervisorKey c) (drainRequestForClaim c) prf then (Inl ErrProviderDrain, s)
      else store_write s (RecordProviderCostEstimate_tx c estimate))"

text \<open>The answer keeps an explicit unknown estimate apart from a known one.\<close>

definition ProviderCostEstimate :: "db \<Rightarrow> ProviderAttemptClaim \<Rightarrow> store_error + int option" where
  "ProviderCostEstimate d c =
     (case loadAuthenticatedProviderAttemptClaim d (cl_ID c) of
        Inl _ \<Rightarrow> Inl ErrProviderAttempt
      | Inr persisted \<Rightarrow>
        guarded (refuse (\<not> sameImmutableProviderAttemptClaim c persisted) ErrProviderAttempt)
        (case List.find (\<lambda>e. ce_AttemptID e = cl_ID c \<and> ce_Ref e = cl_Ref c) (provider_cost_estimates d) of
           None \<Rightarrow> Inl ErrNotFound
         | Some e \<Rightarrow> Inr (ce_Estimate e)))"

definition ProviderResultAccountingAccepted :: "db \<Rightarrow> ProviderAttemptClaim \<Rightarrow> PhaseResult \<Rightarrow> bool" where
  "ProviderResultAccountingAccepted d c raw =
     (if rs_Provider raw \<noteq> rb_Identity (cl_Binding c) \<or> rs_UsageUnits raw < 0 then False
      else if rs_UsageTrusted raw then True
      else if rs_UsageUnits raw \<noteq> 0 \<or> \<not> UsesMultiCLIRequestLimit (pv_Provider (rb_Identity (cl_Binding c))) then False
      else case loadProviderAccountingPolicy d (cl_Ref c) of
        Inl _ \<Rightarrow> False
      | Inr _ \<Rightarrow>
        (case ProviderCostEstimate d c of Inl _ \<Rightarrow> False | Inr known \<Rightarrow> known = rs_ReportedCostEstimate raw))"

definition ApproveProviderEstimatedAccounting_tx ::
  "TicketRef \<Rightarrow> u64 \<Rightarrow> Fence \<Rightarrow> db \<Rightarrow> store_error + (unit \<times> db)" where
  "ApproveProviderEstimatedAccounting_tx ref expected fence d =
     and_then (fenced_ticket d ref expected fence) (\<lambda>t.
       guarded (refuse (t_MaxCostMicroUSD t \<le> 0) ErrBudgetExhausted)
       (case loadProviderAccountingPolicy d ref of
          Inr prior \<Rightarrow> if ap_EstimateLimit prior \<noteq> t_MaxCostMicroUSD t then Inl ErrEvidenceConflict else Inr ((), d)
        | Inl e \<Rightarrow>
          guarded (refuse (e \<noteq> ErrNotFound) e)
          (guarded (refuse (t_State t \<noteq> StatePlanning \<and> t_State t \<noteq> StateQueued) ErrProviderAttempt)
          (guarded (refuse (attempts_of d ref \<noteq> []) ErrProviderAttempt)
          (Inr ((), d\<lparr>provider_accounting_policies := insert_row
             \<lparr>ap_Ref = ref, ap_Policy = ''reported_estimate_v1'', ap_RequestLimit = MultiCLIRequestLimit,
              ap_RequestTimeout = MultiCLIRequestTimeout, ap_EstimateLimit = t_MaxCostMicroUSD t\<rparr>
             (provider_accounting_policies d)\<rparr>))))))"

definition ApproveProviderEstimatedAccounting ::
  "Store \<Rightarrow> TicketRef \<Rightarrow> u64 \<Rightarrow> Fence \<Rightarrow> (store_error + unit) \<times> Store" where
  "ApproveProviderEstimatedAccounting s ref expected fence =
     store_write s (ApproveProviderEstimatedAccounting_tx ref expected fence)"

section \<open>Reading a result\<close>

text \<open>The claim that the columns of a result row name; what they do not name is zero.\<close>

definition row_claim :: "attempt_result_row \<Rightarrow> ProviderAttemptClaim" where
  "row_claim r = \<lparr>cl_ID = ar_AttemptID r, cl_Ref = ar_Ref r, cl_Phase = ar_Phase r, cl_Role = ar_Role r,
     cl_Attempt = ar_Attempt r,
     cl_Binding = \<lparr>rb_Identity = ar_Identity r, rb_BinaryDigest = '''', rb_PolicyDigest = '''', rb_FixtureDigest = '''',
       rb_AuthDigest = '''', rb_AuthMode = ''''\<rparr>,
     cl_QualificationID = 0, cl_LeaseKey = '''', cl_BindingDigest = '''', cl_LeaderEpoch = ar_LeaderEpoch r,
     cl_RunnerEpoch = ar_RunnerEpoch r, cl_ExpectedVersion = ar_ExpectedVersion r, cl_Repository = ar_Repository r,
     cl_Worktree = ar_Worktree r, cl_WorktreeIdentity = ar_WorktreeIdentity r, cl_BaseSHA = ar_BaseSHA r,
     cl_SupervisorKey = '''', cl_Input = zero_input, cl_RequestDigest = ar_RequestDigest r, cl_RequestPayload = ''''\<rparr>"

definition row_result :: "attempt_result_row \<Rightarrow> ProviderAttemptClaim \<Rightarrow> ProviderAttemptResult" where
  "row_result r c = \<lparr>pt_AttemptID = ar_AttemptID r, pt_RawArtifact = ar_RawArtifact r, pt_TypedArtifact = ar_TypedArtifact r,
     pt_Validation = ar_Validation r, pt_RawSHA256 = ar_RawSHA256 r, pt_TypedSHA256 = ar_TypedSHA256 r,
     pt_ValidationSHA256 = ar_ValidationSHA256 r, pt_TranscriptSHA256 = ar_TranscriptSHA256 r, pt_Claim = c\<rparr>"

definition loadProviderAttemptResultRow :: "db \<Rightarrow> int \<Rightarrow> attempt_result_row option" where
  "loadProviderAttemptResultRow d aid = row_at ar_AttemptID (provider_attempt_results d) aid"

text \<open>The state and outcome of the attempt and of its phase run.\<close>

definition run_of_claim :: "ProviderAttemptClaim \<Rightarrow> phase_run_row \<Rightarrow> bool" where
  "run_of_claim c p \<longleftrightarrow>
     pr_Ref p = cl_Ref c \<and> pr_Phase p = cl_Phase c \<and> pr_Attempt p = cl_Attempt c \<and> pr_Identity p = rb_Identity (cl_Binding c) \<and>
     pr_LeaderEpoch p = cl_LeaderEpoch c \<and> pr_RunnerEpoch p = cl_RunnerEpoch c \<and>
     pr_ExpectedTicketVersion p = cl_ExpectedVersion c \<and> pr_WorktreeIdentity p = cl_WorktreeIdentity c \<and>
     pr_BaseSHA p = cl_BaseSHA c"

definition loadProviderAttemptResultLifecycle ::
  "db \<Rightarrow> ProviderAttemptClaim \<Rightarrow> (string \<times> string \<times> string \<times> string) option" where
  "loadProviderAttemptResultLifecycle d c =
     (case (attempt_at d (cl_ID c), List.find (run_of_claim c) (phase_runs d)) of
        (Some a, Some p) \<Rightarrow> Some (w_State a, pa_Outcome a, pr_State p, pr_Outcome p)
      | _ \<Rightarrow> None)"

definition loadProviderAttemptResultCurrentFence :: "db \<Rightarrow> TicketRef \<Rightarrow> (u64 \<times> u64 \<times> u64) option" where
  "loadProviderAttemptResultCurrentFence d ref =
     (case (ticket_at d ref, leader_at d (Channel ref)) of
        (Some t, Some leader) \<Rightarrow> Some (t_Version t, t_RunnerEpoch t, leader)
      | _ \<Rightarrow> None)"

text \<open>The checks that a live and a historical reading share: a fully authenticated, completed, re-parsed result.\<close>

definition authenticated_result ::
  "db \<Rightarrow> ProviderAttemptClaim \<Rightarrow> attempt_result_row \<Rightarrow> store_error + (ProviderAttemptResult \<times> ArtifactValidation \<times> ParsedArtifact)" where
  "authenticated_result d source row =
     (let out = row_result row source in
      if \<not> resultClaimMatchesSource (row_claim row) source then Inl ErrProviderAttempt
      else case loadProviderAttemptResultLifecycle d source of
        None \<Rightarrow> Inl ErrNotFound
      | Some life \<Rightarrow>
        if life \<noteq> (''completed'', ''completed'', ''completed'', ''completed'') \<or>
           (case hydrateProviderAttemptInput source of Inl _ \<Rightarrow> True | Inr _ \<Rightarrow> False) \<or> \<not> digests_match out then Inl ErrProviderAttempt
        else case reparse source out of
          None \<Rightarrow> Inl ErrProviderAttempt
        | Some (va, parsed) \<Rightarrow> Inr (out, va, parsed))"

definition LoadHistoricalProviderAttemptResult ::
  "db \<Rightarrow> ProviderAttemptResultKey \<Rightarrow> store_error + (ProviderAttemptResult \<times> ArtifactValidation \<times> ParsedArtifact)" where
  "LoadHistoricalProviderAttemptResult d k =
     (if rk_AttemptID k \<le> 0 \<or> TicketRef_Validate (rk_Ref k) \<noteq> None \<or> rk_Phase k = '''' \<or> rk_Attempt k \<le> 0
        then Inl ErrProviderAttempt
      else case loadProviderAttemptResultRow d (rk_AttemptID k) of
        None \<Rightarrow> Inl ErrNotFound
      | Some row \<Rightarrow>
        if ar_Ref row \<noteq> rk_Ref k \<or> ar_Phase row \<noteq> rk_Phase k \<or> ar_Attempt row \<noteq> rk_Attempt k then Inl ErrNotFound
        else case loadAuthenticatedProviderAttemptClaim d (ar_AttemptID row) of
          Inl e \<Rightarrow> Inl (if e = ErrNoRows then ErrNotFound else ErrProviderAttempt)
        | Inr source \<Rightarrow> authenticated_result d source row)"

text \<open>The final review is anchored at the candidate and its proof, not at the phase.\<close>

definition authenticateCurrentFinalReviewResult ::
  "provider_env \<Rightarrow> db \<Rightarrow> TicketRef \<Rightarrow> ArtifactValidation \<Rightarrow> ParsedArtifact \<Rightarrow> u64 \<Rightarrow> Fence \<Rightarrow> store_error option" where
  "authenticateCurrentFinalReviewResult px d ref va parsed expected fence =
     (case px_review px d ref expected fence of
        Inl _ \<Rightarrow> Some ErrStaleFence
      | Inr (head, prf) \<Rightarrow>
        (case ca_Reviewer parsed of
           None \<Rightarrow> Some ErrEvidenceConflict
         | Some v \<Rightarrow>
           refuse (re_ReviewedHead v \<noteq> head \<or> re_ProofDigest v \<noteq> prf \<or> va_ExpectedReviewedHead va \<noteq> head \<or>
             va_ExpectedProofDigest va \<noteq> prf) ErrEvidenceConflict))"

text \<open>Whether the build repair of a candidate gives the authority; any error but a missing one is stale.\<close>

definition candidate_repair :: "provider_env \<Rightarrow> db \<Rightarrow> TicketRef \<Rightarrow> string \<Rightarrow> string \<Rightarrow> u64 \<Rightarrow> Fence \<Rightarrow> store_error + bool" where
  "candidate_repair px d ref phase role expected fence =
     (if phase = PhaseBuild \<and> role = ''builder'' then
        (case px_candidateRepair px d ref expected fence of
           None \<Rightarrow> Inr True
         | Some e \<Rightarrow> if e = ErrNotFound then Inr False else Inl ErrStaleFence)
      else Inr False)"

definition LoadProviderAttemptResult ::
  "provider_env \<Rightarrow> db \<Rightarrow> ProviderAttemptClaim \<Rightarrow> u64 \<Rightarrow> Fence \<Rightarrow> store_error + (ProviderAttemptResult \<times> ParsedArtifact)" where
  "LoadProviderAttemptResult px d c expected fence =
     guarded (refuse (cl_ID c \<le> 0 \<or> cl_ExpectedVersion c \<noteq> expected \<or> cl_LeaderEpoch c \<noteq> LeaderEpoch fence \<or>
       cl_RunnerEpoch c \<noteq> RunnerEpoch fence) ErrStaleFence)
     (and_then (candidate_repair px d (cl_Ref c) (cl_Phase c) (cl_Role c) expected fence) (\<lambda>repairAuthority.
      let finalReview = (cl_Phase c = PhaseReview \<and> cl_Role c = ''reviewer'') in
      guarded (refuse (\<not> repairAuthority \<and> \<not> finalReview \<and> px_runnerAuthority px d (cl_Ref c) expected fence \<noteq> None) ErrStaleFence)
      (case loadProviderAttemptResultRow d (cl_ID c) of
         None \<Rightarrow> Inl ErrProviderAttempt
       | Some row \<Rightarrow>
         (case loadAuthenticatedProviderAttemptClaim d (ar_AttemptID row) of
            Inl _ \<Rightarrow> Inl ErrProviderAttempt
          | Inr source \<Rightarrow>
            (case authenticated_result d source row of
               Inl _ \<Rightarrow> Inl ErrProviderAttempt
             | Inr (out, va, parsed) \<Rightarrow>
               guarded (refuse (loadProviderAttemptResultCurrentFence d (cl_Ref source) \<noteq>
                     Some (expected, RunnerEpoch fence, LeaderEpoch fence) \<or> \<not> resultClaimMatchesSource source c) ErrProviderAttempt)
               (guarded (refuse (repairAuthority \<and> px_repairReaches px d out expected fence \<noteq> None) ErrStaleFence)
               (guarded (if finalReview then authenticateCurrentFinalReviewResult px d (cl_Ref source) va parsed expected fence
                         else None)
               (Inr (out, parsed)))))))))"

text \<open>The public check of a fence (\<^verbatim>\<open>evidence_read.go\<close>) reads the durable rows only.\<close>

definition AssertTicketFence :: "Store \<Rightarrow> TicketRef \<Rightarrow> u64 \<Rightarrow> Fence \<Rightarrow> store_error option" where
  "AssertTicketFence s ref expected fence =
     (if TicketRef_Validate ref \<noteq> None \<or> expected = 0 \<or> LeaderEpoch fence = 0 \<or> RunnerEpoch fence = 0 then Some ErrStaleFence
      else case Ticket_get s ref of
        Inl e \<Rightarrow> Some e
      | Inr t \<Rightarrow>
        if tk_Version t \<noteq> expected \<or> tk_RunnerEpoch t \<noteq> RunnerEpoch fence then Some ErrStaleFence
        else case leader_at (st_db s) (Channel ref) of
          None \<Rightarrow> Some ErrNoRows
        | Some leader \<Rightarrow> refuse (leader \<noteq> LeaderEpoch fence) ErrStaleFence)"

definition LoadCurrentProviderAttemptResult ::
  "provider_env \<Rightarrow> Store \<Rightarrow> ProviderAttemptResultKey \<Rightarrow> u64 \<Rightarrow> Fence \<Rightarrow> store_error + (ProviderAttemptResult \<times> ParsedArtifact)" where
  "LoadCurrentProviderAttemptResult px s k expected fence =
     (let d = st_db s in
      and_then (LoadHistoricalProviderAttemptResult d k) (\<lambda>(out, va, parsed).
        let c = pt_Claim out in
        guarded (refuse (cl_ExpectedVersion c \<noteq> expected \<or> cl_LeaderEpoch c \<noteq> LeaderEpoch fence \<or>
          cl_RunnerEpoch c \<noteq> RunnerEpoch fence) ErrStaleFence)
        (guarded (AssertTicketFence s (rk_Ref k) expected fence)
        (if cl_Phase c = PhaseReview \<and> cl_Role c = ''reviewer''
           then guarded (authenticateCurrentFinalReviewResult px d (cl_Ref c) va parsed expected fence) (Inr (out, parsed))
         else and_then (candidate_repair px d (rk_Ref k) (cl_Phase c) (cl_Role c) expected fence) (\<lambda>repairAuthority.
           if repairAuthority
             then guarded (refuse (px_repairReaches px d out expected fence \<noteq> None) ErrStaleFence) (Inr (out, parsed))
           else guarded (refuse (px_runnerAuthority px d (rk_Ref k) expected fence \<noteq> None) ErrStaleFence) (Inr (out, parsed)))))))"

section \<open>Success\<close>

text \<open>The result that a provider's answer amounts to, or the refusal of the answer.\<close>

definition success_result ::
  "db \<Rightarrow> ProviderAttemptClaim \<Rightarrow> PhaseResult \<Rightarrow> ArtifactValidation \<Rightarrow> store_error + ProviderAttemptResult" where
  "success_result d c raw va =
     (if \<not> ProviderResultAccountingAccepted d c raw then Inl ErrProviderAttempt
      else case loadAuthenticatedProviderAttemptClaim d (cl_ID c) of
        Inl _ \<Rightarrow> Inl ErrProviderAttempt
      | Inr immutable \<Rightarrow>
        if \<not> sameImmutableProviderAttemptClaim c immutable \<or>
           in_RequestDigest (cl_Input c) \<noteq> in_RequestDigest (cl_Input immutable) then Inl ErrProviderAttempt
        else case Parse (cl_Phase c) (rs_Artifact raw) (rs_Provider raw) va of
          Inl _ \<Rightarrow> Inl ErrProviderAttempt
        | Inr parsed \<Rightarrow>
          if ValidateMutationPaths parsed (rs_ChangedFiles raw) (elems (in_AllowedPaths (cl_Input immutable))) \<noteq> None
            then Inl ErrProviderAttempt
          else (case makeProviderAttemptResult c raw va parsed of
            Inl _ \<Rightarrow> Inl ErrProviderAttempt | Inr result \<Rightarrow> Inr result))"

text \<open>
  An exact replay of a stored result is the stored result; a different one is refused. A failed end looks once
  more, because a concurrent replay may have committed in between.
\<close>

definition CompleteProviderAttemptSuccess ::
  "provider_env \<Rightarrow> Store \<Rightarrow> ProviderAttemptClaim \<Rightarrow> DrainProof \<Rightarrow> u64 \<Rightarrow> Fence \<Rightarrow> PhaseResult \<Rightarrow> ArtifactValidation \<Rightarrow> int \<Rightarrow>
     (store_error + ProviderAttemptResult) \<times> Store" where
  "CompleteProviderAttemptSuccess px s c prf expected fence raw va finished =
     (case success_result (st_db s) c raw va of
        Inl e \<Rightarrow> (Inl e, s)
      | Inr result \<Rightarrow>
        (case LoadProviderAttemptResult px (st_db s) c expected fence of
           Inr (prior, _) \<Rightarrow> (if sameProviderAttemptResult prior result then Inr prior else Inl ErrProviderAttempt, s)
         | Inl _ \<Rightarrow>
           (case finishProviderAttemptWithReceipt px s c prf expected fence
                   ((plain_finish ''completed'' ''completed'' (rs_UsageUnits raw) finished)\<lparr>fn_Result := Some result\<rparr>) of
              (Inr _, s1) \<Rightarrow> (Inr result, s1)
            | (Inl e, s1) \<Rightarrow>
              (case LoadProviderAttemptResult px (st_db s1) c expected fence of
                 Inr (prior, _) \<Rightarrow> (if sameProviderAttemptResult prior result then Inr prior else Inl e, s1)
               | Inl _ \<Rightarrow> (Inl e, s1)))))"

end
