(* ===== verification/ProviderRecovery.thy ===== *)
theory ProviderRecovery
  imports ProviderEvidence Lifecycle
begin

text \<open>
  The other ends of an attempt (\<^verbatim>\<open>internal/store/provider.go\<close>): retirement after an operator's control revoked its fence,
  failure before launch, quarantine, the charge of an exhausted budget, recovery by a later leader, and the
  reconciliation of stored claims at start-up; and the public queries that tell a caller what blocks a phase.
\<close>

section \<open>Retirement after a control\<close>

text \<open>
  The control moved the ticket one version and one runner on, into a stopping state, with exactly one event that
  leaves the state the attempt was admitted in; and the control of the ticket is sealed at that very authority.
\<close>

definition control_moves :: "db \<Rightarrow> TicketRef \<Rightarrow> u64 \<Rightarrow> event_row list" where
  "control_moves d ref version =
     filter (\<lambda>e. ev_Ref e = ref \<and> ev_TicketVersion e = version \<and> ev_From e \<noteq> ev_To e) (events d)"

definition revoked_by_control :: "db \<Rightarrow> ProviderAttemptClaim \<Rightarrow> store_error option" where
  "revoked_by_control d c =
     (case (ticket_at d (cl_Ref c), leader_at d (Channel (cl_Ref c))) of
        (Some t, Some leader) \<Rightarrow>
          if leader \<noteq> cl_LeaderEpoch c \<or> t_Version t \<noteq> cl_ExpectedVersion c + 1 \<or> t_RunnerEpoch t \<noteq> cl_RunnerEpoch c + 1 \<or>
             t_State t \<noteq> StateStopping \<and> t_State t \<noteq> StateCancelling then Some ErrStaleFence
          else (case control_moves d (cl_Ref c) (t_Version t) of
            [e] \<Rightarrow>
              if ev_Trigger e \<noteq> (if t_State t = StateCancelling then ''operator_cancel'' else ''operator_pause_or_take'') \<or>
                 ev_To e \<noteq> t_State t \<or> \<not> providerAdmissionState (ev_From e) (cl_Phase c) (cl_Role c) then Some ErrStaleFence
              else if t_ResumeState t \<noteq> (if t_State t = StateStopping then Some (ev_From e) else None) then Some ErrStaleFence
              else (case runtimeControlFrom d (cl_Ref c) of
                Inl _ \<Rightarrow> Some ErrStaleFence
              | Inr control \<Rightarrow>
                let current = \<lparr>mr_version = t_Version t, mr_leader = leader, mr_runner = t_RunnerEpoch t\<rparr> in
                refuse (c_State control \<noteq> ''sealed'' \<or> c_Stop control \<noteq> current \<or> c_Authority control \<noteq> current) ErrStaleFence)
          | _ \<Rightarrow> Some ErrStaleFence)
      | _ \<Rightarrow> Some ErrNoRows)"

definition unlaunched :: "attempt_row \<Rightarrow> bool" where
  "unlaunched a \<longleftrightarrow>
     w_LaunchState a = ''launching'' \<and> pa_PID a = 0 \<and> pa_PGID a = 0 \<and> pa_BootIdentity a = '''' \<and> pa_StartIdentity a = ''''"

definition cancelled_row :: "ProviderAttemptClaim \<Rightarrow> attempt_row \<Rightarrow> bool" where
  "cancelled_row c a \<longleftrightarrow> bound_row c a \<and> w_State a = ''cancelled'' \<and> pa_Outcome a = ''cancelled''"

definition retire_tx :: "ProviderAttemptClaim \<Rightarrow> bool \<Rightarrow> db \<Rightarrow> store_error + (unit \<times> db)" where
  "retire_tx c requireUnlaunched d =
     guarded (revoked_by_control d c)
     (case loadAuthenticatedProviderAttemptClaim d (cl_ID c) of
        Inl _ \<Rightarrow> Inl ErrProviderAttempt
      | Inr persisted \<Rightarrow>
        guarded (refuse (\<not> sameImmutableProviderAttemptClaim c persisted \<or>
          in_RequestDigest (cl_Input c) \<noteq> in_RequestDigest (cl_Input persisted)) ErrProviderAttempt)
        (case attempt_at d (cl_ID c) of
           None \<Rightarrow> Inl ErrNoRows
         | Some a \<Rightarrow>
           guarded (refuse (w_State a \<noteq> ''active'') ErrStaleFence)
           (guarded (refuse (requireUnlaunched \<and> \<not> unlaunched a) ErrProviderDrain)
           (and_then (change_attempt (\<lambda>a. bound_row c a \<and> w_State a = ''active'') (end_attempt ''cancelled'' ''cancelled'' (Some 0)) d)
             (\<lambda>d1. and_then (change_run (identified_run c) (end_run ''cancelled'' ''cancelled'') d1)
             (\<lambda>d2. guarded (refuse (\<not> list_ex (cancelled_row c) (provider_attempts d2) \<or> count_where (claim_lease c) (leases d2) \<noteq> 1)
                 ErrStaleFence)
               (Inr ((), release_claim_lease c d2))))))))"

definition retireProviderAttemptAfterControlInvalidation ::
  "Store \<Rightarrow> ProviderAttemptClaim \<Rightarrow> bool \<Rightarrow> (store_error + unit) \<times> Store" where
  "retireProviderAttemptAfterControlInvalidation s c requireUnlaunched =
     (if cl_ExpectedVersion c = - 1 \<or> cl_RunnerEpoch c = - 1 then (Inl ErrStaleFence, s)
      else store_write s (retire_tx c requireUnlaunched))"

definition RetireProviderAttemptAfterControlInvalidation ::
  "provider_env \<Rightarrow> Store \<Rightarrow> ProviderAttemptClaim \<Rightarrow> DrainProof \<Rightarrow> int \<Rightarrow> (store_error + unit) \<times> Store" where
  "RetireProviderAttemptAfterControlInvalidation px s c prf finished =
     (if cl_ID c \<le> 0 \<or> finished = 0 then (Inl ErrProviderAttempt, s)
      else if \<not> VerifyDrainProof (px_verify px) (cl_SupervisorKey c) (drainRequestForClaim c) prf then (Inl ErrProviderDrain, s)
      else retireProviderAttemptAfterControlInvalidation s c False)"

definition RetireUnlaunchedProviderAttemptAfterControlInvalidation ::
  "Store \<Rightarrow> ProviderAttemptClaim \<Rightarrow> int \<Rightarrow> (store_error + unit) \<times> Store" where
  "RetireUnlaunchedProviderAttemptAfterControlInvalidation s c finished =
     (if cl_ID c \<le> 0 \<or> finished = 0 then (Inl ErrProviderAttempt, s)
      else retireProviderAttemptAfterControlInvalidation s c True)"

section \<open>Failure before launch and quarantine\<close>

definition FailProviderAttemptBeforeLaunch_tx ::
  "ProviderAttemptClaim \<Rightarrow> u64 \<Rightarrow> Fence \<Rightarrow> db \<Rightarrow> store_error + (unit \<times> db)" where
  "FailProviderAttemptBeforeLaunch_tx c expected fence d =
     and_then (fenced_ticket d (cl_Ref c) expected fence) (\<lambda>_.
     and_then (change_attempt (\<lambda>a. bound_row c a \<and> w_State a = ''active'' \<and> unlaunched a \<and> has_request_digest d c)
        (end_attempt ''failed'' ''invocation_failed'' None) d) (\<lambda>d1.
     and_then (change_run (identified_run c) (end_run ''failed'' ''invocation_failed'') d1) (\<lambda>d2.
       Inr ((), release_claim_lease c d2))))"

definition FailProviderAttemptBeforeLaunch ::
  "Store \<Rightarrow> ProviderAttemptClaim \<Rightarrow> u64 \<Rightarrow> Fence \<Rightarrow> int \<Rightarrow> (store_error + unit) \<times> Store" where
  "FailProviderAttemptBeforeLaunch s c expected fence at =
     (if cl_ID c \<le> 0 \<or> cl_ExpectedVersion c \<noteq> expected \<or> cl_LeaderEpoch c \<noteq> LeaderEpoch fence \<or>
         cl_RunnerEpoch c \<noteq> RunnerEpoch fence \<or> cl_RequestDigest c = '''' \<or> at = 0 then (Inl ErrProviderAttempt, s)
      else store_write s (FailProviderAttemptBeforeLaunch_tx c expected fence))"

definition claim_current :: "ProviderAttemptClaim \<Rightarrow> u64 \<Rightarrow> Fence \<Rightarrow> bool" where
  "claim_current c expected fence \<longleftrightarrow>
     0 < cl_ID c \<and> cl_ExpectedVersion c \<noteq> 0 \<and> cl_LeaderEpoch c \<noteq> 0 \<and> cl_RunnerEpoch c \<noteq> 0 \<and>
     cl_ExpectedVersion c = expected \<and> cl_LeaderEpoch c = LeaderEpoch fence \<and> cl_RunnerEpoch c = RunnerEpoch fence"

text \<open>A claim whose process may still run keeps its phase and its lease; only the row of the attempt changes.\<close>

definition QuarantineProviderAttempt_tx ::
  "ProviderAttemptClaim \<Rightarrow> u64 \<Rightarrow> Fence \<Rightarrow> db \<Rightarrow> store_error + (unit \<times> db)" where
  "QuarantineProviderAttempt_tx c expected fence d =
     (case ticket_at d (cl_Ref c) of
        None \<Rightarrow> Inl ErrNoRows
      | Some t \<Rightarrow>
        guarded (refuse (t_Version t \<noteq> expected) ErrStaleFence)
        (guarded (refuse (currentFence d (Channel (cl_Ref c)) (t_Version t) (t_RunnerEpoch t) fence \<noteq> None) ErrStaleFence)
        (and_then (change_attempt (\<lambda>a. names_attempt c a \<and> w_State a = ''active'')
            (\<lambda>a. a\<lparr>w_State := ''quarantined'', pa_Outcome := ''undrained''\<rparr>) d) (\<lambda>d1. Inr ((), d1)))))"

definition QuarantineProviderAttempt ::
  "Store \<Rightarrow> ProviderAttemptClaim \<Rightarrow> u64 \<Rightarrow> Fence \<Rightarrow> int \<Rightarrow> (store_error + unit) \<times> Store" where
  "QuarantineProviderAttempt s c expected fence at =
     (if \<not> claim_current c expected fence \<or> at = 0 then (Inl ErrProviderAttempt, s)
      else store_write s (QuarantineProviderAttempt_tx c expected fence))"

section \<open>An exhausted budget\<close>

text \<open>The usage is charged up to what is left of the ticket's cost.\<close>

definition charged :: "int \<Rightarrow> int \<Rightarrow> int" where
  "charged remaining usage = (if remaining \<le> 0 then 0 else if remaining < usage then remaining else usage)"

definition FailProviderAttemptBudget_tx ::
  "ProviderAttemptClaim \<Rightarrow> u64 \<Rightarrow> Fence \<Rightarrow> int \<Rightarrow> int \<Rightarrow> db \<Rightarrow> store_error + (unit \<times> db)" where
  "FailProviderAttemptBudget_tx c expected fence rejectedUsage at d =
     and_then (fenced_ticket d (cl_Ref c) expected fence) (\<lambda>t.
       case loadAuthenticatedProviderAttemptClaim d (cl_ID c) of
         Inl _ \<Rightarrow> Inl ErrProviderAttempt
       | Inr persisted \<Rightarrow>
         guarded (refuse (\<not> sameImmutableProviderAttemptClaim c persisted) ErrProviderAttempt)
         (guarded (refuse (t_MaxDuration t \<le> 0 \<or> t_MaxCostMicroUSD t \<le> 0) ErrEvidenceConflict)
         (let remaining = t_MaxCostMicroUSD t - others_spent d c in
          guarded (refuse (at < t_CreatedAt t + t_MaxDuration t \<and> 0 < remaining \<and> rejectedUsage \<le> remaining) ErrEvidenceConflict)
          (and_then (change_attempt (\<lambda>a. bound_row c a \<and> w_State a = ''active'')
              (end_attempt ''failed'' ''budget_exhausted'' (Some (charged remaining rejectedUsage))) d) (\<lambda>d1.
           and_then (change_run (names_run c) (end_run ''failed'' ''budget_exhausted'') d1) (\<lambda>d2.
             Inr ((), release_claim_lease c d2)))))))"

definition FailProviderAttemptBudget ::
  "provider_env \<Rightarrow> Store \<Rightarrow> ProviderAttemptClaim \<Rightarrow> DrainProof \<Rightarrow> u64 \<Rightarrow> Fence \<Rightarrow> int \<Rightarrow> int \<Rightarrow> (store_error + unit) \<times> Store" where
  "FailProviderAttemptBudget px s c prf expected fence rejectedUsage at =
     (if \<not> claim_current c expected fence \<or> rejectedUsage < 0 \<or> at = 0 then (Inl ErrProviderAttempt, s)
      else if \<not> VerifyDrainProof (px_verify px) (cl_SupervisorKey c) (drainRequestForClaim c) prf then (Inl ErrProviderDrain, s)
      else store_write s (FailProviderAttemptBudget_tx c expected fence rejectedUsage at))"

section \<open>Recovery by a later leader\<close>

text \<open>
  A claim of the ticket's current runner is recovered only for a ticket that migration blocked, under a later
  leader, and only when its launch record, its phase run and its lease are all still there.
\<close>

definition legacy_entry :: string where "legacy_entry = ''legacy_provider_phase_entry_unverifiable''"

definition recorded_launch :: "db \<Rightarrow> ProviderAttemptClaim \<Rightarrow> attempt_row \<Rightarrow> bool" where
  "recorded_launch d c a \<longleftrightarrow>
     (w_State a = ''active'' \<or> w_State a = ''quarantined'') \<and> w_LaunchState a = ''released'' \<and> 0 < pa_PID a \<and>
     pa_PID a = pa_PGID a \<and> pa_BootIdentity a \<noteq> '''' \<and> pa_StartIdentity a \<noteq> '''' \<and> pa_Worktree a = cl_Worktree c \<and>
     count_where (\<lambda>p. identified_run c p \<and> pr_WorktreeIdentity p = cl_WorktreeIdentity c \<and> pr_BaseSHA p = cl_BaseSHA c)
       (phase_runs d) = 1 \<and>
     count_where (claim_lease c) (leases d) = 1"

definition recoverProviderAttemptClaim_tx :: "ProviderAttemptClaim \<Rightarrow> u64 \<Rightarrow> db \<Rightarrow> store_error + (unit \<times> db)" where
  "recoverProviderAttemptClaim_tx c leader d =
     (case leader_at d (Channel (cl_Ref c)) of
        None \<Rightarrow> Inl ErrNoRows
      | Some currentLeader \<Rightarrow>
        guarded (refuse (currentLeader \<noteq> leader) ErrStaleFence)
        (case ticket_at d (cl_Ref c) of
           None \<Rightarrow> Inl ErrNoRows
         | Some t \<Rightarrow>
           guarded (refuse (t_RunnerEpoch t = cl_RunnerEpoch c \<and>
             (t_State t \<noteq> StateBlocked \<or> t_BlockedCode t \<noteq> legacy_entry \<or> currentLeader \<le> cl_LeaderEpoch c)) ErrProviderDrain)
           (case List.find (bound_row c) (provider_attempts d) of
              None \<Rightarrow> Inl ErrStaleFence
            | Some a \<Rightarrow>
              guarded (refuse (t_RunnerEpoch t = cl_RunnerEpoch c \<and> \<not> recorded_launch d c a) ErrProviderDrain)
              (let d1 = d\<lparr>provider_attempts := update_where
                     (\<lambda>a. pa_ID a = cl_ID c \<and> (w_State a = ''active'' \<or> w_State a = ''quarantined''))
                     (end_attempt ''cancelled'' ''drained_recovery'' None) (provider_attempts d)\<rparr> in
               and_then (change_run (identified_run c) (end_run ''cancelled'' ''drained_recovery'') d1) (\<lambda>d2.
                 Inr ((), release_claim_lease c d2))))))"

definition recoverProviderAttemptClaim :: "Store \<Rightarrow> ProviderAttemptClaim \<Rightarrow> u64 \<Rightarrow> int \<Rightarrow> (store_error + unit) \<times> Store" where
  "recoverProviderAttemptClaim s c leader at =
     (if TicketRef_Validate (cl_Ref c) \<noteq> None \<or> cl_ID c \<le> 0 \<or> cl_LeaderEpoch c = 0 \<or> cl_RunnerEpoch c = 0 \<or>
         cl_ExpectedVersion c = 0 \<or> cl_BindingDigest c = '''' \<or> cl_LeaseKey c = '''' \<or> leader = 0 \<or> at = 0
        then (Inl ErrProviderAttempt, s)
      else store_write s (recoverProviderAttemptClaim_tx c leader))"

definition RecoverProviderAttemptClaimWithProof ::
  "provider_env \<Rightarrow> Store \<Rightarrow> ProviderAttemptClaim \<Rightarrow> u64 \<Rightarrow> DrainProof \<Rightarrow> int \<Rightarrow> (store_error + unit) \<times> Store" where
  "RecoverProviderAttemptClaimWithProof px s c leader prf at =
     (case List.find (\<lambda>r. d_Channel r = Channel (cl_Ref c) \<and> d_LeaderEpoch r = leader) (daemon_instances (st_db s)) of
        None \<Rightarrow> (Inl ErrNoRows, s)
      | Some r \<Rightarrow>
        if \<not> VerifyDrainProof (px_verify px) (d_RecoveryKey r) (drainRequestForClaim c) prf then (Inl ErrProviderDrain, s)
        else recoverProviderAttemptClaim s c leader at)"

definition undrained_recovery :: "attempt_row \<Rightarrow> attempt_row" where
  "undrained_recovery a = a\<lparr>w_State := ''quarantined'', pa_Outcome := ''undrained_recovery'', w_LaunchState := ''quarantined''\<rparr>"

definition QuarantineRecovered_tx :: "ProviderAttemptClaim \<Rightarrow> u64 \<Rightarrow> db \<Rightarrow> store_error + (unit \<times> db)" where
  "QuarantineRecovered_tx c leader d =
     (case leader_at d (Channel (cl_Ref c)) of
        None \<Rightarrow> Inl ErrNoRows
      | Some currentLeader \<Rightarrow>
        guarded (refuse (currentLeader \<noteq> leader) ErrStaleFence)
        (and_then (change_attempt (\<lambda>a. bound_row c a \<and> (w_State a = ''active'' \<or> w_State a = ''quarantined''))
            undrained_recovery d) (\<lambda>d1. Inr ((), d1))))"

definition QuarantineRecoveredProviderAttemptClaim ::
  "Store \<Rightarrow> ProviderAttemptClaim \<Rightarrow> u64 \<Rightarrow> int \<Rightarrow> (store_error + unit) \<times> Store" where
  "QuarantineRecoveredProviderAttemptClaim s c leader at =
     (if TicketRef_Validate (cl_Ref c) \<noteq> None \<or> cl_ID c \<le> 0 \<or> leader = 0 \<or> at = 0 then (Inl ErrProviderAttempt, s)
      else store_write s (QuarantineRecovered_tx c leader))"

definition quarantineProviderAttempts_tx :: "TicketRef \<Rightarrow> u64 \<Rightarrow> u64 \<Rightarrow> db \<Rightarrow> store_error + (unit \<times> db)" where
  "quarantineProviderAttempts_tx ref staleRunner leader d =
     (case leader_at d (Channel ref) of
        None \<Rightarrow> Inl ErrNoRows
      | Some currentLeader \<Rightarrow>
        guarded (refuse (currentLeader \<noteq> leader) ErrStaleFence)
        (case ticket_at d ref of
           None \<Rightarrow> Inl ErrNoRows
         | Some t \<Rightarrow>
           guarded (refuse (t_RunnerEpoch t = staleRunner) ErrProviderDrain)
           (Inr ((), d\<lparr>provider_attempts := update_where
              (\<lambda>a. w_Ref a = ref \<and> w_State a = ''active'' \<and> pa_LeaderEpoch a = leader \<and> pa_RunnerEpoch a = staleRunner)
              (\<lambda>a. a\<lparr>w_State := ''quarantined'', pa_Outcome := ''undrained_recovery''\<rparr>) (provider_attempts d)\<rparr>))))"

definition recoverProviderAttempts :: "Store \<Rightarrow> TicketRef \<Rightarrow> u64 \<Rightarrow> u64 \<Rightarrow> int \<Rightarrow> (store_error + unit) \<times> Store" where
  "recoverProviderAttempts s ref staleRunner leader at =
     (if TicketRef_Validate ref \<noteq> None \<or> staleRunner = 0 \<or> leader = 0 \<or> at = 0 then (Inl ErrProviderAttempt, s)
      else store_write s (quarantineProviderAttempts_tx ref staleRunner leader))"

section \<open>Reconciliation at start-up\<close>

text \<open>
  Every live claim is authenticated again when the Store is opened for writing. The claim is read with left joins:
  a missing qualification or input leaves its columns empty.
\<close>

definition live_attempt :: "attempt_row \<Rightarrow> bool" where
  "live_attempt a \<longleftrightarrow> w_State a = ''active'' \<or> w_State a = ''quarantined''"

definition no_qualification :: qualification_row where
  "no_qualification = \<lparr>q_ID = 0, q_Channel = '''', q_RunID = '''',
     q_Identity = \<lparr>pv_Provider = '''', pv_Model = '''', pv_Family = '''', pv_Version = ''''\<rparr>, q_BinaryDigest = '''',
     q_PolicyDigest = '''', q_FixtureDigest = '''', q_Profile = '''', q_AuthDigest = '''', q_AuthMode = '''',
     q_ProbeDigest = '''', q_AttestedLeader = 0, q_Signature = '''', q_CreatedUnixNanos = 0\<rparr>"

definition stored_claim :: "db \<Rightarrow> attempt_row \<Rightarrow> ProviderAttemptClaim" where
  "stored_claim d a =
     (let q = (case qualification_at d (pa_QualificationID a) of None \<Rightarrow> no_qualification | Some q \<Rightarrow> q);
          i = input_at d (pa_ID a) in
      (attempt_claim a q (case i of None \<Rightarrow> '''' | Some v \<Rightarrow> ai_RequestDigest v)
        (case i of None \<Rightarrow> '''' | Some v \<Rightarrow> ai_CanonicalInput v))
      \<lparr>cl_QualificationID := (case pa_QualificationID a of None \<Rightarrow> 0 | Some n \<Rightarrow> n)\<rparr>)"

definition verifiable :: "db \<Rightarrow> attempt_row \<Rightarrow> bool" where
  "verifiable d a \<longleftrightarrow>
     list_ex (\<lambda>p. run_of_attempt a p \<and> pr_State p = ''active'') (phase_runs d) \<and>
     (case hydrateProviderAttemptInput (stored_claim d a) of Inl _ \<Rightarrow> False | Inr c \<Rightarrow> validPersistedProviderAttemptClaim c)"

text \<open>A claim that cannot be verified fails if it certainly never launched, and is quarantined otherwise.\<close>

definition never_verified :: "attempt_row \<Rightarrow> attempt_row" where
  "never_verified a = a\<lparr>w_State := ''failed'', pa_Outcome := ''legacy_unverifiable'', pa_Finished := True,
     w_LaunchState := ''legacy_unverifiable''\<rparr>"

definition reconcile_attempt :: "attempt_row \<Rightarrow> db \<Rightarrow> store_error + db" where
  "reconcile_attempt a d =
     (if unlaunched a then
        (if count_where (\<lambda>x. pa_ID x = pa_ID a \<and> live_attempt x \<and> unlaunched x) (provider_attempts d) \<noteq> 1
           then Inl ErrProviderAttempt
         else Inr (d\<lparr>provider_attempts := update_where (\<lambda>x. pa_ID x = pa_ID a \<and> live_attempt x \<and> unlaunched x)
                never_verified (provider_attempts d),
              phase_runs := update_where (\<lambda>p. pr_Ref p = w_Ref a \<and> pr_Phase p = pa_Phase a \<and> pr_Attempt p = pa_Attempt a \<and>
                pr_State p = ''active'') (end_run ''failed'' ''legacy_unverifiable'') (phase_runs d),
              leases := delete_where (\<lambda>l. l_Ref l = w_Ref a \<and> l_Scope l = ''provider'' \<and> l_ScopeKey l = pa_LeaseKey a \<and>
                l_RunnerEpoch l = pa_RunnerEpoch a) (leases d)\<rparr>))
      else Inr (d\<lparr>provider_attempts := update_where (\<lambda>x. pa_ID x = pa_ID a \<and> live_attempt x) undrained_recovery
             (provider_attempts d)\<rparr>))"

text \<open>The rows are read before the first of them changes, in the order of their identifiers.\<close>

definition unverifiable_attempts :: "db \<Rightarrow> attempt_row list" where
  "unverifiable_attempts d =
     filter (\<lambda>a. \<not> verifiable d a) (sort_key pa_ID (filter live_attempt (provider_attempts d)))"

definition reconcileProviderAttemptInputs :: "Store \<Rightarrow> (store_error + unit) \<times> Store" where
  "reconcileProviderAttemptInputs s =
     store_write s (\<lambda>d. and_then (each_row reconcile_attempt (unverifiable_attempts d) d) (\<lambda>d'. Inr ((), d')))"

section \<open>What blocks a phase\<close>

definition query_ok :: "TicketRef \<Rightarrow> string \<Rightarrow> string \<Rightarrow> u64 \<Rightarrow> Fence \<Rightarrow> bool" where
  "query_ok ref phase role expected fence \<longleftrightarrow>
     TicketRef_Validate ref = None \<and> validProviderPhase phase \<and> validProviderRole role \<and> expected \<noteq> 0 \<and>
     LeaderEpoch fence \<noteq> 0 \<and> RunnerEpoch fence \<noteq> 0"

text \<open>The queries run inside a transaction of their own, which changes nothing.\<close>

definition in_write :: "Store \<Rightarrow> (db \<Rightarrow> store_error + 'a) \<Rightarrow> store_error + 'a" where
  "in_write s f = fst (store_write s (\<lambda>d. and_then (f d) (\<lambda>r. Inr (r, d))))"

definition ReuseCurrentCompletedProviderAttempt ::
  "Store \<Rightarrow> TicketRef \<Rightarrow> string \<Rightarrow> string \<Rightarrow> u64 \<Rightarrow> Fence \<Rightarrow> store_error + (int \<times> int) option" where
  "ReuseCurrentCompletedProviderAttempt s ref phase role expected fence =
     (if \<not> query_ok ref phase role expected fence then Inl ErrProviderAttempt
      else in_write s (\<lambda>d. guarded (assertTicketFence (st_mutations s) d ref expected fence)
        (reuseCurrentCompletedProviderAttempt d ref phase role expected fence)))"

definition PendingProviderRepair ::
  "provider_env \<Rightarrow> Store \<Rightarrow> TicketRef \<Rightarrow> string \<Rightarrow> string \<Rightarrow> u64 \<Rightarrow> Fence \<Rightarrow> store_error + ProviderAttemptClaim option" where
  "PendingProviderRepair px s ref phase role expected fence =
     (if \<not> query_ok ref phase role expected fence then Inl ErrProviderAttempt
      else in_write s (\<lambda>d.
        pendingProviderTerminalClaim px (st_mutations s) d ref phase role expected fence ''invalid_artifact'' True True))"

definition PendingProviderResultIndeterminate ::
  "provider_env \<Rightarrow> Store \<Rightarrow> TicketRef \<Rightarrow> string \<Rightarrow> string \<Rightarrow> u64 \<Rightarrow> Fence \<Rightarrow> store_error + ProviderAttemptClaim option" where
  "PendingProviderResultIndeterminate px s ref phase role expected fence =
     (if \<not> query_ok ref phase role expected fence then Inl ErrProviderAttempt
      else in_write s (\<lambda>d.
        pendingProviderTerminalClaim px (st_mutations s) d ref phase role expected fence ''result_indeterminate'' False True))"

definition PendingProviderRepairUnavailable ::
  "provider_env \<Rightarrow> Store \<Rightarrow> TicketRef \<Rightarrow> string \<Rightarrow> string \<Rightarrow> u64 \<Rightarrow> Fence \<Rightarrow> store_error + ProviderAttemptClaim option" where
  "PendingProviderRepairUnavailable px s ref phase role expected fence =
     (if \<not> query_ok ref phase role expected fence then Inl ErrProviderAttempt
      else in_write s (\<lambda>d.
        and_then (pendingProviderRepairUnavailable px (st_mutations s) d ref phase role expected fence True)
          (\<lambda>pair. Inr (map_option fst pair))))"

end
