(* ===== verification/ProviderLifecycle.thy ===== *)
theory ProviderLifecycle
  imports ProviderRecovery
begin

text \<open>
  The life of provider attempts as a state machine. An abstract step says what may happen to the rows of attempts,
  their phase runs and their results; every operation of the Store on attempts is such a step, and the invariants of
  the ledger are proved once, over the abstract steps.
\<close>

section \<open>Moves of a row\<close>

text \<open>The state of an attempt that matters for its process: not launched yet, running, doubtful, or over.\<close>

definition ended :: "attempt_row \<Rightarrow> bool" where
  "ended a \<longleftrightarrow> w_State a = ''completed'' \<or> w_State a = ''failed'' \<or> w_State a = ''cancelled''"

text \<open>
  One row: nothing happens, the launch is recorded once, a live attempt is quarantined, or a live attempt ends with
  an outcome of its state and a usage that is not negative.
\<close>

inductive attempt_move :: "attempt_row \<Rightarrow> attempt_row \<Rightarrow> bool" where
  stay: "attempt_move a a"
| launched: "\<lbrakk>w_State a = ''active''; w_LaunchState a = ''launching''; 0 < pid; boot \<noteq> ''''; start \<noteq> ''''\<rbrakk> \<Longrightarrow>
    attempt_move a (a\<lparr>pa_PID := pid, pa_PGID := pid, pa_BootIdentity := boot, pa_StartIdentity := start,
      w_LaunchState := ''released''\<rparr>)"
| doubted: "\<lbrakk>live_attempt a; outcome \<in> {''undrained'', ''undrained_recovery''}\<rbrakk> \<Longrightarrow>
    attempt_move a (a\<lparr>w_State := ''quarantined'', pa_Outcome := outcome, w_LaunchState := launch\<rparr>)"
| over: "\<lbrakk>live_attempt a; state \<in> {''completed'', ''failed'', ''cancelled''}; attempt_outcome_ok state outcome; 0 \<le> usage\<rbrakk> \<Longrightarrow>
    attempt_move a (a\<lparr>w_State := state, pa_Outcome := outcome, pa_UsageUnits := usage, pa_Finished := True,
      w_LaunchState := launch\<rparr>)"

text \<open>The columns that no operation ever changes.\<close>

definition same_identity :: "attempt_row \<Rightarrow> attempt_row \<Rightarrow> bool" where
  "same_identity a b \<longleftrightarrow>
     pa_ID b = pa_ID a \<and> w_Ref b = w_Ref a \<and> pa_Phase b = pa_Phase a \<and> pa_Attempt b = pa_Attempt a \<and> pa_Role b = pa_Role a \<and>
     pa_Identity b = pa_Identity a \<and> pa_LeaderEpoch b = pa_LeaderEpoch a \<and> pa_RunnerEpoch b = pa_RunnerEpoch a \<and>
     pa_ExpectedVersion b = pa_ExpectedVersion a \<and> pa_WorktreeIdentity b = pa_WorktreeIdentity a \<and> pa_BaseSHA b = pa_BaseSHA a \<and>
     w_Repository b = w_Repository a \<and> pa_Worktree b = pa_Worktree a \<and> pa_QualificationID b = pa_QualificationID a \<and>
     pa_BindingDigest b = pa_BindingDigest a \<and> pa_LeaseKey b = pa_LeaseKey a \<and> pa_SupervisorKey b = pa_SupervisorKey a \<and>
     pa_AuthDigest b = pa_AuthDigest a \<and> pa_AuthMode b = pa_AuthMode a"

lemma move_identity: "attempt_move a b \<Longrightarrow> same_identity a b"
  by (induction rule: attempt_move.induct) (simp_all add: same_identity_def)

lemma live_not_ended: "live_attempt a \<Longrightarrow> \<not> ended a"
  by (auto simp: live_attempt_def ended_def)

inductive_cases attempt_moveE: "attempt_move a b"

lemma move_ended: "attempt_move a b \<Longrightarrow> \<not> live_attempt a \<Longrightarrow> b = a"
  by (erule attempt_moveE) (auto simp: live_attempt_def)

lemma move_live: "attempt_move a b \<Longrightarrow> live_attempt b \<Longrightarrow> live_attempt a"
  by (erule attempt_moveE) (auto simp: live_attempt_def)

lemma move_usage: "attempt_move a b \<Longrightarrow> 0 \<le> pa_UsageUnits a \<Longrightarrow> 0 \<le> pa_UsageUnits b"
  by (erule attempt_moveE) auto

section \<open>Runs of attempts\<close>

definition run_key :: "attempt_row \<Rightarrow> TicketRef \<times> string \<times> int" where
  "run_key a = (w_Ref a, pa_Phase a, pa_Attempt a)"

lemma run_of_attempt_key: "run_of_attempt a p \<Longrightarrow> phase_run_pk p = run_key a"
  by (simp add: run_of_attempt_def phase_run_pk_def run_key_def)

text \<open>A phase run stays as it is, or an active one ends.\<close>

definition run_move :: "phase_run_row \<Rightarrow> phase_run_row \<Rightarrow> bool" where
  "run_move p q \<longleftrightarrow> q = p \<or> pr_State p = ''active'' \<and> (\<exists>state outcome. state \<noteq> ''active'' \<and> q = end_run state outcome p)"

lemma run_move_key: "run_move p q \<Longrightarrow> phase_run_pk q = phase_run_pk p"
  by (auto simp: run_move_def end_run_def phase_run_pk_def)

lemma run_move_of: "run_move p q \<Longrightarrow> run_of_attempt a q = run_of_attempt a p"
  by (auto simp: run_move_def end_run_def run_of_attempt_def)

section \<open>The ledger\<close>

text \<open>A row of evidence that belongs to an attempt and authenticates.\<close>

definition evidence_of :: "attempt_row \<Rightarrow> attempt_result_row \<Rightarrow> bool" where
  "evidence_of a r \<longleftrightarrow>
     ar_AttemptID r = pa_ID a \<and> ar_Ref r = w_Ref a \<and> ar_Phase r = pa_Phase a \<and> ar_Role r = pa_Role a \<and>
     ar_Attempt r = pa_Attempt a \<and> ar_Identity r = pa_Identity a \<and> ar_LeaderEpoch r = pa_LeaderEpoch a \<and>
     ar_RunnerEpoch r = pa_RunnerEpoch a \<and> ar_ExpectedVersion r = pa_ExpectedVersion a \<and>
     ar_Repository r = w_Repository a \<and> ar_Worktree r = pa_Worktree a \<and> ar_WorktreeIdentity r = pa_WorktreeIdentity a \<and>
     ar_BaseSHA r = pa_BaseSHA a \<and> result_authentic (row_claim r) (row_result r (row_claim r))"

text \<open>
  What the ledger of attempts promises at every moment. Identifiers and attempt numbers are unique. A ticket has at
  most one live attempt, whose phase run is active. Usage is never negative and its sum stays within the ticket's
  cost. A phase entry has at most four attempts, each of which exists. Builder and reviewer of a ticket are of
  different families. An attempt is completed exactly when it has a result, and then exactly one, which belongs to
  it and authenticates.
\<close>

definition live_count :: "db \<Rightarrow> TicketRef \<Rightarrow> nat" where
  "live_count d ref = count_where (\<lambda>a. w_Ref a = ref \<and> live_attempt a) (provider_attempts d)"

definition unique_names :: "db \<Rightarrow> bool" where
  "unique_names d \<longleftrightarrow> unique_key pa_ID (provider_attempts d) \<and> unique_key run_key (provider_attempts d) \<and>
     unique_key phase_run_pk (phase_runs d)"

definition runs_exist :: "db \<Rightarrow> bool" where
  "runs_exist d \<longleftrightarrow> (\<forall>a \<in> set (provider_attempts d). \<exists>p \<in> set (phase_runs d). run_of_attempt a p \<and>
     (live_attempt a \<longrightarrow> pr_State p = ''active''))"

definition one_live :: "db \<Rightarrow> bool" where
  "one_live d \<longleftrightarrow> (\<forall>ref. live_count d ref \<le> 1)"

definition within_budget :: "db \<Rightarrow> bool" where
  "within_budget d \<longleftrightarrow> (\<forall>a \<in> set (provider_attempts d). 0 \<le> pa_UsageUnits a) \<and>
     (\<forall>ref t. ticket_at d ref = Some t \<longrightarrow> attempts_of d ref \<noteq> [] \<longrightarrow> spent_units d ref \<le> t_MaxCostMicroUSD t)"

definition bounded_entries :: "db \<Rightarrow> bool" where
  "bounded_entries d \<longleftrightarrow> (\<forall>ref phase version. length (entry_attempts d ref phase version) \<le> 4)"

definition independent_families :: "db \<Rightarrow> bool" where
  "independent_families d \<longleftrightarrow> (\<forall>a \<in> set (provider_attempts d). \<forall>b \<in> set (provider_attempts d).
     w_Ref a = w_Ref b \<longrightarrow> pa_Role a = ''builder'' \<longrightarrow> pa_Role b = ''reviewer'' \<longrightarrow>
     pv_Family (pa_Identity a) \<noteq> pv_Family (pa_Identity b))"

definition evidence_complete :: "db \<Rightarrow> bool" where
  "evidence_complete d \<longleftrightarrow>
     (\<forall>r \<in> set (provider_attempt_results d). \<exists>a \<in> set (provider_attempts d). pa_ID a = ar_AttemptID r) \<and>
     (\<forall>a \<in> set (provider_attempts d).
        if w_State a = ''completed'' then \<exists>r. results_of d (pa_ID a) = [r] \<and> evidence_of a r else results_of d (pa_ID a) = [])"

definition ledger_ok :: "db \<Rightarrow> bool" where
  "ledger_ok d \<longleftrightarrow> unique_names d \<and> runs_exist d \<and> one_live d \<and> within_budget d \<and> bounded_entries d \<and>
     independent_families d \<and> evidence_complete d"

section \<open>Abstract steps\<close>

text \<open>
  A step of the rest of the Store leaves attempts, entries and results alone, never rebinds the cost of a ticket that
  has attempts, keeps every phase run of an attempt under its key, and keeps the active run of a live attempt.
\<close>

definition outside_step :: "db \<Rightarrow> db \<Rightarrow> bool" where
  "outside_step d d' \<longleftrightarrow>
     provider_attempts d' = provider_attempts d \<and> provider_attempt_results d' = provider_attempt_results d \<and>
     provider_phase_attempt_entries d' = provider_phase_attempt_entries d \<and>
     (\<forall>ref t'. ticket_at d' ref = Some t' \<longrightarrow> attempts_of d ref \<noteq> [] \<longrightarrow>
        (\<exists>t. ticket_at d ref = Some t \<and> t_MaxCostMicroUSD t' = t_MaxCostMicroUSD t)) \<and>
     (unique_key phase_run_pk (phase_runs d) \<longrightarrow> unique_key phase_run_pk (phase_runs d')) \<and>
     (\<forall>a \<in> set (provider_attempts d). \<forall>p \<in> set (phase_runs d). run_of_attempt a p \<longrightarrow>
        (\<exists>q \<in> set (phase_runs d'). run_of_attempt a q \<and> (live_attempt a \<longrightarrow> pr_State p = ''active'' \<longrightarrow> pr_State q = ''active'')))"

text \<open>The step of an operation on existing attempts: rows and runs move, and a completion brings its evidence.\<close>

definition new_evidence :: "db \<Rightarrow> (attempt_row \<Rightarrow> attempt_row) \<Rightarrow> db \<Rightarrow> bool" where
  "new_evidence d h d' \<longleftrightarrow>
     provider_attempt_results d' = provider_attempt_results d \<and>
       (\<forall>a \<in> set (provider_attempts d). live_attempt a \<longrightarrow> w_State (h a) \<noteq> ''completed'') \<or>
     (\<exists>a r. a \<in> set (provider_attempts d) \<and> live_attempt a \<and> w_State (h a) = ''completed'' \<and> evidence_of a r \<and>
        (\<forall>b \<in> set (provider_attempts d). b \<noteq> a \<longrightarrow> h b = b) \<and>
        provider_attempt_results d' = insert_row r (provider_attempt_results d))"

definition moving_step :: "db \<Rightarrow> (attempt_row \<Rightarrow> attempt_row) \<Rightarrow> (phase_run_row \<Rightarrow> phase_run_row) \<Rightarrow> db \<Rightarrow> bool" where
  "moving_step d h g d' \<longleftrightarrow>
     provider_attempts d' = map h (provider_attempts d) \<and> phase_runs d' = map g (phase_runs d) \<and>
     tickets d' = tickets d \<and> provider_phase_attempt_entries d' = provider_phase_attempt_entries d \<and>
     (\<forall>a \<in> set (provider_attempts d). attempt_move a (h a)) \<and> (\<forall>p \<in> set (phase_runs d). run_move p (g p)) \<and>
     (\<forall>p \<in> set (phase_runs d). \<forall>a \<in> set (provider_attempts d).
        g p \<noteq> p \<longrightarrow> run_key a = phase_run_pk p \<longrightarrow> \<not> live_attempt (h a)) \<and>
     (\<forall>ref t. ticket_at d ref = Some t \<longrightarrow> attempts_of d ref \<noteq> [] \<longrightarrow>
        spent_units d' ref \<le> max (spent_units d ref) (t_MaxCostMicroUSD t)) \<and>
     new_evidence d h d'"

text \<open>The step of an admission.\<close>

definition admission_step :: "db \<Rightarrow> attempt_row \<Rightarrow> phase_run_row \<Rightarrow> attempt_entry_row \<Rightarrow> db \<Rightarrow> bool" where
  "admission_step d a p e d' \<longleftrightarrow>
     provider_attempts d' = insert_row a (provider_attempts d) \<and> phase_runs d' = insert_row p (phase_runs d) \<and>
     provider_phase_attempt_entries d' = insert_row e (provider_phase_attempt_entries d) \<and>
     provider_attempt_results d' = provider_attempt_results d \<and> tickets d' = tickets d \<and>
     (\<forall>b \<in> set (provider_attempts d). pa_ID b < pa_ID a) \<and>
     row_at phase_run_pk (phase_runs d) (phase_run_pk p) = None \<and> active_runs d (w_Ref a) = 0 \<and>
     run_of_attempt a p \<and> pr_State p = ''active'' \<and> w_State a = ''active'' \<and> w_LaunchState a = ''launching'' \<and>
     pa_UsageUnits a = 0 \<and> ae_AttemptID e = pa_ID a \<and>
     length (entry_attempts d (ae_Ref e) (ae_Phase e) (ae_EntryVersion e)) < 4 \<and>
     (\<exists>t. ticket_at d (w_Ref a) = Some t \<and> spent_units d (w_Ref a) \<le> t_MaxCostMicroUSD t) \<and>
     (\<forall>b \<in> set (provider_attempts d). w_Ref b = w_Ref a \<longrightarrow>
        pa_Role a = ''builder'' \<and> pa_Role b = ''reviewer'' \<or> pa_Role a = ''reviewer'' \<and> pa_Role b = ''builder'' \<longrightarrow>
        pv_Family (pa_Identity b) \<noteq> pv_Family (pa_Identity a))"

inductive ledger_step :: "db \<Rightarrow> db \<Rightarrow> bool" where
  outside: "outside_step d d' \<Longrightarrow> ledger_step d d'"
| moving: "moving_step d h g d' \<Longrightarrow> ledger_step d d'"
| admitted: "admission_step d a p e d' \<Longrightarrow> ledger_step d d'"

inductive_cases ledger_stepE: "ledger_step d d'"

section \<open>The abstract steps keep the ledger\<close>

lemma identity_run_of: "same_identity a b \<Longrightarrow> run_of_attempt b = run_of_attempt a"
  by (rule ext) (simp add: same_identity_def run_of_attempt_def)

lemma identity_run_key: "same_identity a b \<Longrightarrow> run_key b = run_key a"
  by (simp add: same_identity_def run_key_def)

lemma identity_evidence: "same_identity a b \<Longrightarrow> evidence_of b = evidence_of a"
  by (rule ext) (simp add: same_identity_def evidence_of_def)

lemma unique_key_map:
  "(\<And>r. r \<in> set t \<Longrightarrow> key (f r) = key r) \<Longrightarrow> unique_key key (map f t) = unique_key key t"
  by (simp add: unique_key_def o_def cong: map_cong)

lemma unique_key_insert: "unique_key key (insert_row r t) \<longleftrightarrow> unique_key key t \<and> key r \<notin> key ` set t"
  by (auto simp: unique_key_def insert_row_def)

lemma unique_key_eq: "unique_key key t \<Longrightarrow> r \<in> set t \<Longrightarrow> s \<in> set t \<Longrightarrow> key r = key s \<Longrightarrow> r = s"
  by (auto simp: unique_key_def distinct_map dest: inj_onD)

lemma row_at_none: "row_at key t k = None \<longleftrightarrow> k \<notin> key ` set t"
  by (auto simp: row_at_def find_None_iff)

lemma count_map_le:
  "(\<And>r. r \<in> set t \<Longrightarrow> P (f r) \<Longrightarrow> P r) \<Longrightarrow> count_where P (map f t) \<le> count_where P t"
  unfolding count_where_def by (induction t) auto

lemma count_pos: "count_where P t = 0 \<longleftrightarrow> (\<forall>r \<in> set t. \<not> P r)"
  by (simp add: count_where_def filter_empty_conv)

lemmas moving_defs = moving_step_def new_evidence_def

lemma moving_names: "unique_names d \<Longrightarrow> moving_step d h g d' \<Longrightarrow> unique_names d'"
proof -
  assume names: "unique_names d" and step: "moving_step d h g d'"
  have "same_identity a (h a)" if "a \<in> set (provider_attempts d)" for a
    using step that by (auto simp: moving_step_def intro: move_identity)
  then have "unique_key pa_ID (provider_attempts d') = unique_key pa_ID (provider_attempts d)"
    "unique_key run_key (provider_attempts d') = unique_key run_key (provider_attempts d)"
    using step unfolding moving_step_def
    by (metis unique_key_map same_identity_def, metis unique_key_map identity_run_key)
  moreover have "unique_key phase_run_pk (phase_runs d') = unique_key phase_run_pk (phase_runs d)"
    using step unfolding moving_step_def by (metis unique_key_map run_move_key)
  ultimately show ?thesis using names by (simp add: unique_names_def)
qed

lemma moving_runs:
  assumes "runs_exist d" and "moving_step d h g d'"
  shows "runs_exist d'"
  unfolding runs_exist_def
proof
  fix b assume "b \<in> set (provider_attempts d')"
  with assms(2) obtain a where a: "a \<in> set (provider_attempts d)" "b = h a" by (auto simp: moving_step_def)
  with assms(2) have move: "attempt_move a (h a)" by (auto simp: moving_step_def)
  from assms(1) a obtain p where p: "p \<in> set (phase_runs d)" "run_of_attempt a p" "live_attempt a \<longrightarrow> pr_State p = ''active''"
    by (auto simp: runs_exist_def)
  from assms(2) p have g: "run_move p (g p)" "g p \<in> set (phase_runs d')" by (auto simp: moving_step_def)
  have "run_of_attempt b (g p)"
    using p(2) a(2) run_move_of [OF g(1), of a] identity_run_of [OF move_identity [OF move]] by simp
  moreover have "pr_State (g p) = ''active''" if "live_attempt b"
  proof -
    have "g p = p"
      using assms(2) p(1) a that run_of_attempt_key [OF p(2)] unfolding moving_step_def by metis
    with that p(3) a(2) move_live [OF move] show ?thesis by simp
  qed
  ultimately show "\<exists>p \<in> set (phase_runs d'). run_of_attempt b p \<and> (live_attempt b \<longrightarrow> pr_State p = ''active'')"
    using g(2) by blast
qed

lemma moving_live: "one_live d \<Longrightarrow> moving_step d h g d' \<Longrightarrow> one_live d'"
  unfolding one_live_def live_count_def
proof
  fix ref
  assume one: "\<forall>ref. count_where (\<lambda>a. w_Ref a = ref \<and> live_attempt a) (provider_attempts d) \<le> 1" and step: "moving_step d h g d'"
  have "count_where (\<lambda>a. w_Ref a = ref \<and> live_attempt a) (map h (provider_attempts d)) \<le>
      count_where (\<lambda>a. w_Ref a = ref \<and> live_attempt a) (provider_attempts d)"
  proof (rule count_map_le)
    fix a assume "a \<in> set (provider_attempts d)" and live: "w_Ref (h a) = ref \<and> live_attempt (h a)"
    with step have "attempt_move a (h a)" by (auto simp: moving_step_def)
    with live show "w_Ref a = ref \<and> live_attempt a" by (auto dest: move_live move_identity simp: same_identity_def)
  qed
  with one step show "count_where (\<lambda>a. w_Ref a = ref \<and> live_attempt a) (provider_attempts d') \<le> 1"
    by (auto simp: moving_step_def intro: le_trans)
qed

lemma moving_attempts_of: "moving_step d h g d' \<Longrightarrow> attempts_of d' ref = map h (attempts_of d ref)"
proof -
  assume step: "moving_step d h g d'"
  have "filter (\<lambda>a. w_Ref a = ref) (map h t) = map h (filter (\<lambda>a. w_Ref a = ref) t)"
    if "\<forall>a \<in> set t. attempt_move a (h a)" for t
    using that by (induction t) (auto dest!: move_identity simp: same_identity_def)
  with step show ?thesis by (simp add: attempts_of_def moving_step_def)
qed

lemma moving_budget: "within_budget d \<Longrightarrow> moving_step d h g d' \<Longrightarrow> within_budget d'"
  unfolding within_budget_def
proof (intro conjI ballI allI impI)
  assume budget: "(\<forall>a \<in> set (provider_attempts d). 0 \<le> pa_UsageUnits a) \<and>
     (\<forall>ref t. ticket_at d ref = Some t \<longrightarrow> attempts_of d ref \<noteq> [] \<longrightarrow> spent_units d ref \<le> t_MaxCostMicroUSD t)"
    and step: "moving_step d h g d'"
  fix b assume "b \<in> set (provider_attempts d')"
  with step budget show "0 \<le> pa_UsageUnits b" by (auto simp: moving_step_def dest!: bspec intro: move_usage)
next
  fix ref t
  assume budget: "(\<forall>a \<in> set (provider_attempts d). 0 \<le> pa_UsageUnits a) \<and>
     (\<forall>ref t. ticket_at d ref = Some t \<longrightarrow> attempts_of d ref \<noteq> [] \<longrightarrow> spent_units d ref \<le> t_MaxCostMicroUSD t)"
    and step: "moving_step d h g d'" and t: "ticket_at d' ref = Some t" and some: "attempts_of d' ref \<noteq> []"
  from step t have t': "ticket_at d ref = Some t" by (simp add: moving_step_def ticket_at_def)
  moreover from some moving_attempts_of [OF step] have some': "attempts_of d ref \<noteq> []" by simp
  ultimately have "spent_units d' ref \<le> max (spent_units d ref) (t_MaxCostMicroUSD t)"
    using step by (simp add: moving_step_def)
  moreover from budget t' some' have "spent_units d ref \<le> t_MaxCostMicroUSD t" by blast
  ultimately show "spent_units d' ref \<le> t_MaxCostMicroUSD t" by simp
qed

lemma moving_entries: "bounded_entries d \<Longrightarrow> moving_step d h g d' \<Longrightarrow> bounded_entries d'"
  by (simp add: bounded_entries_def moving_step_def entry_attempts_def)

lemma moving_families: "independent_families d \<Longrightarrow> moving_step d h g d' \<Longrightarrow> independent_families d'"
proof -
  assume ind: "independent_families d" and step: "moving_step d h g d'"
  have "\<forall>a \<in> set (provider_attempts d). same_identity a (h a)"
    using step by (auto simp: moving_step_def dest!: bspec intro: move_identity)
  with ind step show ?thesis by (simp add: independent_families_def moving_step_def same_identity_def)
qed

lemma moving_evidence:
  assumes "evidence_complete d" and step: "moving_step d h g d'" and names: "unique_names d"
  shows "evidence_complete d'"
proof -
  have rows: "provider_attempts d' = map h (provider_attempts d)" using step by (simp add: moving_step_def)
  have same: "same_identity a (h a)" "pa_ID (h a) = pa_ID a" "\<not> live_attempt a \<Longrightarrow> h a = a"
    if a: "a \<in> set (provider_attempts d)" for a
  proof -
    from step a have move: "attempt_move a (h a)" by (simp add: moving_step_def)
    from move_identity [OF move] show "same_identity a (h a)" "pa_ID (h a) = pa_ID a" by (simp_all add: same_identity_def)
    from move_ended [OF move] show "\<not> live_attempt a \<Longrightarrow> h a = a" .
  qed
  have old: "if w_State a = ''completed'' then \<exists>r. results_of d (pa_ID a) = [r] \<and> evidence_of a r else results_of d (pa_ID a) = []"
    if "a \<in> set (provider_attempts d)" for a using assms(1) that by (simp add: evidence_complete_def)
  have fresh: "results_of d (pa_ID a) = []" if "a \<in> set (provider_attempts d)" "live_attempt a" for a
    using old [OF that(1)] that(2) by (auto simp: live_attempt_def)
  have owners: "\<exists>a \<in> set (provider_attempts d). pa_ID a = ar_AttemptID r" if "r \<in> set (provider_attempt_results d)" for r
    using assms(1) that by (simp add: evidence_complete_def)
  from step have "new_evidence d h d'" by (simp add: moving_step_def)
  then consider
      (none) "provider_attempt_results d' = provider_attempt_results d"
        "\<forall>a \<in> set (provider_attempts d). live_attempt a \<longrightarrow> w_State (h a) \<noteq> ''completed''"
    | (one) a r where "a \<in> set (provider_attempts d)" "live_attempt a" "w_State (h a) = ''completed''" "evidence_of a r"
        "\<forall>b \<in> set (provider_attempts d). b \<noteq> a \<longrightarrow> h b = b"
        "provider_attempt_results d' = insert_row r (provider_attempt_results d)"
    unfolding new_evidence_def by blast
  then show ?thesis
  proof cases
    case none
    then have res: "results_of d' = results_of d" by (simp add: results_of_def fun_eq_iff)
    have "if w_State (h a) = ''completed'' then \<exists>r. results_of d' (pa_ID (h a)) = [r] \<and> evidence_of (h a) r
        else results_of d' (pa_ID (h a)) = []" if a: "a \<in> set (provider_attempts d)" for a
    proof (cases "live_attempt a")
      case True
      with none(2) a fresh [OF a] same(2) [OF a] res show ?thesis by simp
    qed (use old [OF a] same [OF a] res in simp)
    moreover have "\<exists>a \<in> set (provider_attempts d'). pa_ID a = ar_AttemptID r" if "r \<in> set (provider_attempt_results d')" for r
      using that none(1) owners same(2) by (fastforce simp: rows)
    ultimately show ?thesis by (auto simp: evidence_complete_def rows)
  next
    case one
    have res: "results_of d' i = (if i = pa_ID a then results_of d i @ [r] else results_of d i)" for i
      using one(4,6) by (simp add: results_of_def insert_row_def evidence_of_def)
    have "if w_State (h b) = ''completed'' then \<exists>r. results_of d' (pa_ID (h b)) = [r] \<and> evidence_of (h b) r
        else results_of d' (pa_ID (h b)) = []" if b: "b \<in> set (provider_attempts d)" for b
    proof (cases "b = a")
      case True
      with fresh [OF one(1,2)] res one(3,4) same(2) [OF one(1)] identity_evidence [OF same(1) [OF one(1)]] show ?thesis by simp
    next
      case False
      with names one(1) b have "pa_ID b \<noteq> pa_ID a" by (auto simp: unique_names_def dest: unique_key_eq)
      with False one(5) b old [OF b] res show ?thesis by simp
    qed
    moreover have "\<exists>a \<in> set (provider_attempts d'). pa_ID a = ar_AttemptID x" if "x \<in> set (provider_attempt_results d')" for x
    proof -
      have "x = r \<or> x \<in> set (provider_attempt_results d)" using that one(6) by (auto simp: insert_row_def)
      then obtain b where "b \<in> set (provider_attempts d)" "pa_ID b = ar_AttemptID x"
        using one(1,4) owners by (auto simp: evidence_of_def)
      with same(2) show ?thesis by (force simp: rows)
    qed
    ultimately show ?thesis by (auto simp: evidence_complete_def rows)
  qed
qed

lemma moving_ledger:
  assumes "ledger_ok d" and step: "moving_step d h g d'"
  shows "ledger_ok d'"
  using assms(1) moving_names [OF _ step] moving_runs [OF _ step] moving_live [OF _ step] moving_budget [OF _ step]
    moving_entries [OF _ step] moving_families [OF _ step] moving_evidence [OF _ step]
  by (simp add: ledger_ok_def)

lemma live_run_active: "runs_exist d \<Longrightarrow> a \<in> set (provider_attempts d) \<Longrightarrow> live_attempt a \<Longrightarrow> active_runs d (w_Ref a) \<noteq> 0"
  unfolding active_runs_def count_pos runs_exist_def by (fastforce simp: run_of_attempt_def)

lemma admission_names:
  assumes "unique_names d" and "runs_exist d" and step: "admission_step d a p e d'"
  shows "unique_names d'"
proof -
  have "run_key b \<noteq> run_key a" if b: "b \<in> set (provider_attempts d)" for b
  proof -
    from assms(2) b obtain q where "q \<in> set (phase_runs d)" "run_of_attempt b q" by (auto simp: runs_exist_def)
    moreover from step have "phase_run_pk p \<notin> phase_run_pk ` set (phase_runs d)" "run_of_attempt a p"
      by (simp_all add: admission_step_def row_at_none)
    ultimately show ?thesis by (metis run_of_attempt_key image_eqI)
  qed
  then have "run_key a \<notin> run_key ` set (provider_attempts d)" by force
  with assms(1) step show ?thesis
    by (auto simp: unique_names_def admission_step_def unique_key_insert row_at_none)
qed

lemma admission_runs: "runs_exist d \<Longrightarrow> admission_step d a p e d' \<Longrightarrow> runs_exist d'"
  unfolding runs_exist_def admission_step_def by (auto simp: insert_row_def)

lemma admission_live:
  assumes "one_live d" and "runs_exist d" and step: "admission_step d a p e d'"
  shows "one_live d'"
proof -
  have "active_runs d (w_Ref a) = 0" using step by (simp add: admission_step_def)
  then have "live_count d (w_Ref a) = 0"
    unfolding live_count_def count_pos using live_run_active [OF assms(2)] by metis
  then have "live_count d' ref \<le> 1" for ref
    using assms(1) step
    by (cases "ref = w_Ref a") (simp_all add: one_live_def live_count_def admission_step_def insert_row_def count_where_def)
  then show ?thesis by (simp add: one_live_def)
qed

lemma admission_budget: "within_budget d \<Longrightarrow> admission_step d a p e d' \<Longrightarrow> within_budget d'"
proof -
  assume budget: "within_budget d" and step: "admission_step d a p e d'"
  have spent: "spent_units d' ref = spent_units d ref" for ref
    using step by (simp add: spent_units_def attempts_of_def admission_step_def insert_row_def)
  have "attempts_of d' ref \<noteq> [] \<Longrightarrow> attempts_of d ref \<noteq> [] \<or> ref = w_Ref a" for ref
    using step by (auto simp: attempts_of_def admission_step_def insert_row_def split: if_splits)
  with budget step spent show ?thesis
    unfolding within_budget_def admission_step_def ticket_at_def by (fastforce simp: insert_row_def)
qed

lemma admission_entries: "bounded_entries d \<Longrightarrow> admission_step d a p e d' \<Longrightarrow> bounded_entries d'"
proof -
  assume bounded: "bounded_entries d" and step: "admission_step d a p e d'"
  have "length (entry_attempts d' ref phase version) \<le> 4" for ref phase version
  proof (cases "ae_Ref e = ref \<and> ae_Phase e = phase \<and> ae_EntryVersion e = version")
    case True
    with step show ?thesis by (auto simp: admission_step_def entry_attempts_def insert_row_def)
  next
    case False
    with bounded step show ?thesis by (auto simp: bounded_entries_def admission_step_def entry_attempts_def insert_row_def)
  qed
  then show ?thesis by (simp add: bounded_entries_def)
qed

lemma admission_families: "independent_families d \<Longrightarrow> admission_step d a p e d' \<Longrightarrow> independent_families d'"
proof -
  assume ind: "independent_families d" and step: "admission_step d a p e d'"
  have rows: "set (provider_attempts d') = insert a (set (provider_attempts d))"
    using step by (auto simp: admission_step_def insert_row_def)
  have "\<forall>b \<in> set (provider_attempts d). w_Ref b = w_Ref a \<longrightarrow>
      pa_Role a = ''builder'' \<and> pa_Role b = ''reviewer'' \<or> pa_Role a = ''reviewer'' \<and> pa_Role b = ''builder'' \<longrightarrow>
      pv_Family (pa_Identity b) \<noteq> pv_Family (pa_Identity a)"
    using step by (simp add: admission_step_def)
  with ind show ?thesis unfolding independent_families_def rows by fastforce
qed

lemma admission_evidence:
  assumes "evidence_complete d" and step: "admission_step d a p e d'"
  shows "evidence_complete d'"
proof -
  have res: "provider_attempt_results d' = provider_attempt_results d" "results_of d' = results_of d"
    using step by (simp_all add: admission_step_def results_of_def fun_eq_iff)
  have rows: "set (provider_attempts d') = insert a (set (provider_attempts d))"
    using step by (auto simp: admission_step_def insert_row_def)
  have "ar_AttemptID r \<noteq> pa_ID a" if "r \<in> set (provider_attempt_results d)" for r
  proof -
    from assms(1) that obtain b where "b \<in> set (provider_attempts d)" "pa_ID b = ar_AttemptID r"
      by (auto simp: evidence_complete_def)
    with step have "ar_AttemptID r < pa_ID a" by (auto simp: admission_step_def)
    then show ?thesis by simp
  qed
  then have "results_of d (pa_ID a) = []" by (auto simp: results_of_def filter_empty_conv)
  moreover have "w_State a = ''active''" using step by (simp add: admission_step_def)
  ultimately show ?thesis using assms(1) unfolding evidence_complete_def rows res by auto
qed

lemma outside_ledger:
  assumes "ledger_ok d" and step: "outside_step d d'"
  shows "ledger_ok d'"
proof -
  have rows: "provider_attempts d' = provider_attempts d" using step by (simp add: outside_step_def)
  have same: "attempts_of d' = attempts_of d" "spent_units d' = spent_units d" "live_count d' = live_count d"
    "entry_attempts d' = entry_attempts d" "results_of d' = results_of d"
    "provider_attempt_results d' = provider_attempt_results d"
    using step
    by (simp_all add: outside_step_def attempts_of_def spent_units_def live_count_def entry_attempts_def results_of_def fun_eq_iff)
  have "unique_names d'" using assms by (simp add: ledger_ok_def unique_names_def rows outside_step_def)
  moreover have "runs_exist d'"
    unfolding runs_exist_def rows
  proof
    fix a assume a: "a \<in> set (provider_attempts d)"
    with assms(1) obtain p where p: "p \<in> set (phase_runs d)" "run_of_attempt a p" "live_attempt a \<longrightarrow> pr_State p = ''active''"
      by (auto simp: ledger_ok_def runs_exist_def)
    with step a obtain q where "q \<in> set (phase_runs d')" "run_of_attempt a q"
      "live_attempt a \<longrightarrow> pr_State p = ''active'' \<longrightarrow> pr_State q = ''active''"
      unfolding outside_step_def by blast
    with p(3) show "\<exists>p \<in> set (phase_runs d'). run_of_attempt a p \<and> (live_attempt a \<longrightarrow> pr_State p = ''active'')" by blast
  qed
  moreover have "within_budget d'"
    using assms step unfolding ledger_ok_def within_budget_def same rows outside_step_def by metis
  ultimately show ?thesis
    using assms(1)
    by (simp add: ledger_ok_def one_live_def bounded_entries_def independent_families_def evidence_complete_def same rows)
qed

text \<open>One step, of whatever kind, keeps the ledger.\<close>

lemma ledger_step_ok: "ledger_step d d' \<Longrightarrow> ledger_ok d \<Longrightarrow> ledger_ok d'"
proof (erule ledger_stepE)
  fix a p e
  assume ok: "ledger_ok d" and step: "admission_step d a p e d'"
  from ok show ?thesis
    using admission_names [OF _ _ step] admission_runs [OF _ step] admission_live [OF _ _ step] admission_budget [OF _ step]
      admission_entries [OF _ step] admission_families [OF _ step] admission_evidence [OF _ step]
    by (simp add: ledger_ok_def)
qed (blast intro: outside_ledger moving_ledger)+

end
