(* ===== verification/ProviderSteps.thy ===== *)
theory ProviderSteps
  imports ProviderLifecycle
begin

text \<open>
  The operations on attempts as steps of the ledger: what each transaction changes, and that it is one of the abstract
  steps of ProviderLifecycle.
\<close>

section \<open>Statements\<close>

lemma change_attempt_Inr:
  "change_attempt p f d = Inr d' \<longleftrightarrow>
     (\<forall>a \<in> set (provider_attempts d). p a \<longrightarrow> attempt_outcome_ok (w_State (f a)) (pa_Outcome (f a))) \<and>
     count_where p (provider_attempts d) = 1 \<and> d' = d\<lparr>provider_attempts := update_where p f (provider_attempts d)\<rparr>"
  by (auto simp: change_attempt_def update_one_def list_ex_iff split: if_splits)

lemma change_run_Inr:
  "change_run p f d = Inr d' \<longleftrightarrow>
     (\<forall>r \<in> set (phase_runs d). p r \<longrightarrow> phase_outcome_ok (pr_State (f r)) (pr_Outcome (f r))) \<and>
     count_where p (phase_runs d) = 1 \<and> d' = d\<lparr>phase_runs := update_where p f (phase_runs d)\<rparr>"
  by (auto simp: change_run_def update_one_def list_ex_iff split: if_splits)

lemma count_one: "count_where p t = 1 \<Longrightarrow> \<exists>r \<in> set t. p r"
  using count_pos [of p t] by force

lemma update_where_map: "update_where p f t = map (\<lambda>r. if p r then f r else r) t"
  by (simp add: update_where_def)

text \<open>Usage after an update of the one row of an identifier.\<close>

definition others_of :: "attempt_row list \<Rightarrow> attempt_row \<Rightarrow> int" where
  "others_of t a = sum_list (map pa_UsageUnits (filter (\<lambda>b. w_Ref b = w_Ref a \<and> pa_ID b \<noteq> pa_ID a) t))"

lemma usage_split:
  assumes "unique_key pa_ID t" and "a \<in> set t"
  shows "sum_list (map pa_UsageUnits (filter (\<lambda>b. w_Ref b = w_Ref a) t)) = others_of t a + pa_UsageUnits a"
  using assms
proof (induction t)
  case (Cons b t)
  show ?case
  proof (cases "b = a")
    case True
    with Cons.prems(1) have "pa_ID c \<noteq> pa_ID a" if "c \<in> set t" for c
      using that by (simp add: unique_key_def) (metis image_eqI)
    then have "filter (\<lambda>b. w_Ref b = w_Ref a \<and> pa_ID b \<noteq> pa_ID a) t = filter (\<lambda>b. w_Ref b = w_Ref a) t"
      by (metis (mono_tags, lifting) filter_cong)
    with True show ?thesis by (simp add: others_of_def)
  next
    case False
    with Cons.prems have "pa_ID b \<noteq> pa_ID a" "a \<in> set t" "unique_key pa_ID t"
      by (simp_all add: unique_key_def) (metis image_eqI)
    with Cons.IH show ?thesis by (auto simp: others_of_def)
  qed
qed simp

lemma others_update:
  assumes "\<And>b. p b \<Longrightarrow> pa_ID b = pa_ID a" and "\<And>b. pa_ID (f b) = pa_ID b"
  shows "others_of (update_where p f t) a = others_of t a"
  using assms unfolding others_of_def update_where_def by (induction t) auto

lemma spent_update:
  assumes names: "unique_key pa_ID (provider_attempts d)" and a: "a \<in> set (provider_attempts d)"
    and p: "p a" "\<And>b. p b \<Longrightarrow> pa_ID b = pa_ID a" and f: "\<And>b. pa_ID (f b) = pa_ID b" "\<And>b. w_Ref (f b) = w_Ref b"
    and d': "provider_attempts d' = update_where p f (provider_attempts d)"
  shows "spent_units d' ref = (if ref = w_Ref a then others_of (provider_attempts d) a + pa_UsageUnits (f a) else spent_units d ref)"
proof (cases "ref = w_Ref a")
  case True
  have "unique_key pa_ID (provider_attempts d')" using names f(1) by (simp add: d' update_where_map unique_key_map)
  moreover have "f a \<in> set (provider_attempts d')" using a p(1) by (force simp: d' update_where_map)
  ultimately have "spent_units d' (w_Ref (f a)) = others_of (provider_attempts d') (f a) + pa_UsageUnits (f a)"
    by (simp add: spent_units_def attempts_of_def usage_split)
  moreover have "others_of (provider_attempts d') (f a) = others_of (provider_attempts d) a"
    using others_update [of p "f a" f "provider_attempts d"] p(2) f by (simp add: d') (simp add: others_of_def f)
  ultimately show ?thesis using True f by simp
next
  case False
  have "p b \<Longrightarrow> b \<in> set (provider_attempts d) \<Longrightarrow> w_Ref b = w_Ref a" for b
    using unique_key_eq [OF names _ a] p(2) by metis
  moreover have "filter (\<lambda>b. w_Ref b = ref) (update_where p f t) = filter (\<lambda>b. w_Ref b = ref) t"
    if "\<And>b. p b \<Longrightarrow> b \<in> set t \<Longrightarrow> w_Ref b = w_Ref a" for t
    using that False f(2) unfolding update_where_def by (induction t) auto
  ultimately have "filter (\<lambda>b. w_Ref b = ref) (provider_attempts d') = filter (\<lambda>b. w_Ref b = ref) (provider_attempts d)"
    by (simp add: d')
  with False show ?thesis by (simp add: spent_units_def attempts_of_def)
qed

lemma spent_now:
  "unique_key pa_ID (provider_attempts d) \<Longrightarrow> a \<in> set (provider_attempts d) \<Longrightarrow>
     spent_units d (w_Ref a) = others_of (provider_attempts d) a + pa_UsageUnits a"
  by (simp add: spent_units_def attempts_of_def usage_split)

section \<open>Updates are moves\<close>

text \<open>
  An update of live rows, each of which makes a move, with an end of the active runs of a key whose attempt is not
  live any more.
\<close>

lemma moving_update:
  assumes ok: "ledger_ok d"
    and f: "\<And>a. a \<in> set (provider_attempts d) \<Longrightarrow> p a \<Longrightarrow> attempt_move a (f a)"
    and q: "\<And>r. q r \<Longrightarrow> pr_State r = ''active'' \<and> phase_run_pk r = k" "state \<noteq> ''active''"
    and a0: "\<And>r. r \<in> set (phase_runs d) \<Longrightarrow> q r \<Longrightarrow>
      \<exists>a \<in> set (provider_attempts d). run_key a = k \<and> \<not> live_attempt (if p a then f a else a)"
    and d': "provider_attempts d' = update_where p f (provider_attempts d)"
      "phase_runs d' = update_where q (end_run state outcome) (phase_runs d)" "tickets d' = tickets d"
      "provider_phase_attempt_entries d' = provider_phase_attempt_entries d"
    and spent: "\<And>ref t. ticket_at d ref = Some t \<Longrightarrow> spent_units d' ref \<le> max (spent_units d ref) (t_MaxCostMicroUSD t)"
    and evidence: "new_evidence d (\<lambda>a. if p a then f a else a) d'"
  shows "ledger_step d d'"
proof (rule ledger_step.moving)
  have names: "unique_key run_key (provider_attempts d)" using ok by (simp add: ledger_ok_def unique_names_def)
  show "moving_step d (\<lambda>a. if p a then f a else a) (\<lambda>r. if q r then end_run state outcome r else r) d'"
    unfolding moving_step_def
  proof (intro conjI ballI allI impI)
    fix r a
    assume r: "r \<in> set (phase_runs d)" and a: "a \<in> set (provider_attempts d)"
      and moved: "(if q r then end_run state outcome r else r) \<noteq> r" and key: "run_key a = phase_run_pk r"
    from moved have "q r" by (auto split: if_splits)
    with a0 [OF r] q(1) key obtain b where "b \<in> set (provider_attempts d)" "run_key b = run_key a"
      "\<not> live_attempt (if p b then f b else b)" by metis
    with unique_key_eq [OF names] a show "\<not> live_attempt (if p a then f a else a)" by metis
  next
    fix a assume "a \<in> set (provider_attempts d)"
    then show "attempt_move a (if p a then f a else a)" using f by (simp add: attempt_move.stay)
  next
    fix r assume "r \<in> set (phase_runs d)"
    then show "run_move r (if q r then end_run state outcome r else r)" using q by (auto simp: run_move_def)
  qed (use d' spent evidence in \<open>simp_all add: update_where_map\<close>)
qed

lemma spent_same:
  assumes "\<And>a. a \<in> set (provider_attempts d) \<Longrightarrow> p a \<Longrightarrow> w_Ref (f a) = w_Ref a \<and> pa_UsageUnits (f a) = pa_UsageUnits a"
    and "provider_attempts d' = update_where p f (provider_attempts d)"
  shows "spent_units d' ref = spent_units d ref"
proof -
  have "sum_list (map pa_UsageUnits (filter (\<lambda>a. w_Ref a = ref) (update_where p f t))) =
      sum_list (map pa_UsageUnits (filter (\<lambda>a. w_Ref a = ref) t))"
    if "\<And>a. a \<in> set t \<Longrightarrow> p a \<Longrightarrow> w_Ref (f a) = w_Ref a \<and> pa_UsageUnits (f a) = pa_UsageUnits a" for t
    using that unfolding update_where_def by (induction t) auto
  with assms show ?thesis by (simp add: spent_units_def attempts_of_def)
qed

lemma move_ref: "attempt_move a b \<Longrightarrow> w_Ref b = w_Ref a"
  by (drule move_identity) (simp add: same_identity_def)

text \<open>The same without a change of runs.\<close>

lemma moving_rows:
  assumes ok: "ledger_ok d"
    and f: "\<And>a. a \<in> set (provider_attempts d) \<Longrightarrow> p a \<Longrightarrow> attempt_move a (f a) \<and> w_State (f a) \<noteq> ''completed''
      \<and> pa_UsageUnits (f a) = pa_UsageUnits a"
    and d': "d' = d\<lparr>provider_attempts := update_where p f (provider_attempts d)\<rparr>"
  shows "ledger_step d d'"
proof -
  have runs: "update_where (\<lambda>r. False) g t = t" for g :: "phase_run_row \<Rightarrow> phase_run_row" and t by (simp add: update_where_def)
  have spent: "spent_units d' ref = spent_units d ref" for ref
    by (rule spent_same [where p = p and f = f]) (use f move_ref d' in auto)
  show ?thesis
  proof (rule moving_update [OF ok])
    show "new_evidence d (\<lambda>a. if p a then f a else a) d'"
      using f by (auto simp: new_evidence_def d' live_attempt_def)
    show "phase_runs d' = update_where (\<lambda>r. False) (end_run [] []) (phase_runs d)" by (simp add: d' runs)
    show "provider_attempts d' = update_where p f (provider_attempts d)" by (simp add: d')
  qed (use f spent in \<open>simp_all add: d'\<close>)
qed

section \<open>Claims and their rows\<close>

text \<open>A claim that authenticates repeats the columns of its attempt.\<close>

definition claims_row :: "ProviderAttemptClaim \<Rightarrow> attempt_row \<Rightarrow> bool" where
  "claims_row c a \<longleftrightarrow> bound_row c a \<and> rb_Identity (cl_Binding c) = pa_Identity a \<and> cl_Repository c = w_Repository a \<and>
     cl_Worktree c = pa_Worktree a \<and> cl_WorktreeIdentity c = pa_WorktreeIdentity a \<and> cl_BaseSHA c = pa_BaseSHA a \<and>
     cl_SupervisorKey c = pa_SupervisorKey a"

lemma hydrate_Inr: "hydrateProviderAttemptInput c = Inr c' \<Longrightarrow> \<exists>i. c' = c\<lparr>cl_Input := i\<rparr>"
  by (auto simp: hydrateProviderAttemptInput_def split: if_splits option.splits)

lemma attempt_at_Some:
  "attempt_at d i = Some a \<Longrightarrow> pa_ID a = i \<and> a \<in> set (provider_attempts d)"
  by (auto simp: attempt_at_def row_at_def find_Some_iff)

lemma attempt_at_unique: "ledger_ok d \<Longrightarrow> a \<in> set (provider_attempts d) \<Longrightarrow> attempt_at d (pa_ID a) = Some a"
  using row_at_member [of pa_ID "provider_attempts d" a] by (simp add: attempt_at_def ledger_ok_def unique_names_def)

lemma authentic_claim:
  assumes "loadAuthenticatedProviderAttemptClaim d i = Inr c"
  obtains a where "attempt_at d i = Some a" and "claims_row c a"
proof -
  from assms obtain a q n where a: "attempt_at d i = Some a" and q: "qualification_at d (pa_QualificationID a) = Some q"
    and n: "input_at d i = Some n"
    and hyd: "hydrateProviderAttemptInput (attempt_claim a q (ai_RequestDigest n) (ai_CanonicalInput n)) = Inr c"
    by (auto simp: loadAuthenticatedProviderAttemptClaim_def split: option.splits if_splits sum.splits)
  from hydrate_Inr [OF hyd] obtain x where "c = (attempt_claim a q (ai_RequestDigest n) (ai_CanonicalInput n))\<lparr>cl_Input := x\<rparr>" ..
  then have "claims_row c a" by (simp add: claims_row_def bound_row_def names_attempt_def attempt_claim_def)
  with a that show ?thesis by blast
qed

lemma same_claim: "sameImmutableProviderAttemptClaim a b \<Longrightarrow> a = b"
  by (simp add: sameImmutableProviderAttemptClaim_def)

lemma named_key: "names_attempt c a \<Longrightarrow> run_key a = (cl_Ref c, cl_Phase c, cl_Attempt c)"
  by (simp add: names_attempt_def run_key_def)

lemma named_run: "names_run c r \<Longrightarrow> pr_State r = ''active'' \<and> phase_run_pk r = (cl_Ref c, cl_Phase c, cl_Attempt c)"
  by (simp add: names_run_def phase_run_pk_def)

section \<open>The end of a claim\<close>

lemma end_moves:
  assumes "live_attempt a" and "state \<in> {''completed'', ''failed'', ''cancelled''}" and "attempt_outcome_ok state outcome"
    and "0 \<le> (case usage of None \<Rightarrow> pa_UsageUnits a | Some n \<Rightarrow> n)"
  shows "attempt_move a (end_attempt state outcome usage a)"
  unfolding end_attempt_def using assms by (rule attempt_move.over)

lemma ended_not_live: "state \<in> {''completed'', ''failed'', ''cancelled''} \<Longrightarrow> \<not> live_attempt (end_attempt state outcome usage a)"
  by (auto simp: live_attempt_def end_attempt_def)

definition charge_ok :: "db \<Rightarrow> (attempt_row \<Rightarrow> bool) \<Rightarrow> int option \<Rightarrow> bool" where
  "charge_ok d p usage \<longleftrightarrow> (case usage of None \<Rightarrow> True
     | Some u \<Rightarrow> 0 \<le> u \<and> (\<forall>a \<in> set (provider_attempts d). \<forall>t. p a \<longrightarrow> ticket_at d (w_Ref a) = Some t \<longrightarrow>
         others_of (provider_attempts d) a + u \<le> max (spent_units d (w_Ref a)) (t_MaxCostMicroUSD t)))"

definition proof_of_success :: "db \<Rightarrow> (attempt_row \<Rightarrow> bool) \<Rightarrow> string \<Rightarrow> db \<Rightarrow> bool" where
  "proof_of_success d p state d' \<longleftrightarrow>
     state \<noteq> ''completed'' \<and> provider_attempt_results d' = provider_attempt_results d \<or>
     state = ''completed'' \<and> (\<exists>r. provider_attempt_results d' = insert_row r (provider_attempt_results d) \<and>
       (\<forall>a \<in> set (provider_attempts d). p a \<longrightarrow> evidence_of a r))"

lemma end_claim_step:
  assumes ok: "ledger_ok d" and state: "state \<in> {''completed'', ''failed'', ''cancelled''}"
    and one: "\<exists>a \<in> set (provider_attempts d). p a"
    and outcome: "attempt_outcome_ok state outcome"
    and p: "\<And>a. p a \<Longrightarrow> names_attempt c a \<and> live_attempt a" and q: "\<And>r. q r \<Longrightarrow> names_run c r"
    and d': "provider_attempts d' = update_where p (end_attempt state outcome usage) (provider_attempts d)"
      "phase_runs d' = update_where q (end_run state outcome) (phase_runs d)" "tickets d' = tickets d"
      "provider_phase_attempt_entries d' = provider_phase_attempt_entries d"
    and charge: "charge_ok d p usage" and evidence: "proof_of_success d p state d'"
  shows "ledger_step d d'"
proof -
  obtain a where a: "a \<in> set (provider_attempts d)" "p a" using one by blast
  have names: "unique_key pa_ID (provider_attempts d)" using ok by (simp add: ledger_ok_def unique_names_def)
  have ids: "pa_ID b = pa_ID a" if "p b" for b using that p a(2) by (simp add: names_attempt_def)
  have same: "b = a" if "p b" "b \<in> set (provider_attempts d)" for b using unique_key_eq [OF names that(2) a(1)] ids that(1) by blast
  have usage: "0 \<le> pa_UsageUnits b" if "b \<in> set (provider_attempts d)" for b
    using ok that by (auto simp: ledger_ok_def within_budget_def)
  show ?thesis
  proof (rule moving_update [OF ok])
    fix b assume "b \<in> set (provider_attempts d)" "p b"
    then show "attempt_move b (end_attempt state outcome usage b)"
      using p state outcome charge usage by (intro end_moves) (auto simp: charge_ok_def split: option.splits)
  next
    show "state \<noteq> ''active''" using state by auto
    show "provider_attempts d' = update_where p (end_attempt state outcome usage) (provider_attempts d)" by (rule d'(1))
    show "phase_runs d' = update_where q (end_run state outcome) (phase_runs d)" by (rule d'(2))
  next
    fix r assume "q r"
    then show "pr_State r = ''active'' \<and> phase_run_pk r = (cl_Ref c, cl_Phase c, cl_Attempt c)" using q named_run by blast
  next
    show "\<exists>b \<in> set (provider_attempts d). run_key b = (cl_Ref c, cl_Phase c, cl_Attempt c) \<and>
        \<not> live_attempt (if p b then end_attempt state outcome usage b else b)"
      using a named_key [of c a] p [OF a(2)] ended_not_live [OF state] by (intro bexI [OF _ a(1)]) simp
  next
    fix ref t assume t: "ticket_at d ref = Some t"
    have "spent_units d' ref = (if ref = w_Ref a then others_of (provider_attempts d) a +
        pa_UsageUnits (end_attempt state outcome usage a) else spent_units d ref)"
      by (rule spent_update [where p = p and f = "end_attempt state outcome usage", OF names a _ _ _ d'(1)], erule ids)
        (simp_all add: end_attempt_def)
    moreover have "others_of (provider_attempts d) a + pa_UsageUnits (end_attempt state outcome usage a) \<le>
        max (spent_units d (w_Ref a)) (t_MaxCostMicroUSD t)" if "ref = w_Ref a"
    proof (cases usage)
      case None
      with spent_now [OF names a(1)] show ?thesis by (simp add: end_attempt_def)
    next
      case (Some u)
      then show ?thesis using charge a t that by (simp add: charge_ok_def end_attempt_def)
    qed
    ultimately show "spent_units d' ref \<le> max (spent_units d ref) (t_MaxCostMicroUSD t)" by simp
  next
    show "new_evidence d (\<lambda>b. if p b then end_attempt state outcome usage b else b) d'"
    proof (cases "state = ''completed''")
      case True
      with evidence obtain r where "provider_attempt_results d' = insert_row r (provider_attempt_results d)" "evidence_of a r"
        using a by (auto simp: proof_of_success_def)
      moreover have "live_attempt a" using p a(2) by blast
      moreover have "w_State (end_attempt state outcome usage a) = ''completed''" using True by (simp add: end_attempt_def)
      moreover have "\<forall>b \<in> set (provider_attempts d). b \<noteq> a \<longrightarrow> \<not> p b" using same by blast
      ultimately show ?thesis
        unfolding new_evidence_def using a by (intro disjI2 exI [of _ a] exI [of _ r]) simp
    next
      case False
      with evidence show ?thesis by (auto simp: proof_of_success_def new_evidence_def end_attempt_def live_attempt_def)
    qed
  qed (use d' in simp_all)
qed

section \<open>Transactions\<close>

lemma write_rel:
  assumes "store_write s fn = (res, s')" and "\<And>r d'. fn (st_db s) = Inr (r, d') \<Longrightarrow> R (st_db s) d'"
    and "R (st_db s) (st_db s)"
  shows "R (st_db s) (st_db s')"
  using assms by (auto simp: store_write_def split: if_splits sum.splits)

lemma keep_step:
  assumes "provider_attempts d' = provider_attempts d" and "phase_runs d' = phase_runs d" and "tickets d' = tickets d"
    and "provider_attempt_results d' = provider_attempt_results d"
    and "provider_phase_attempt_entries d' = provider_phase_attempt_entries d"
  shows "ledger_step d d'"
  using assms by (intro ledger_step.outside) (auto simp: outside_step_def ticket_at_def)

section \<open>Finishing\<close>

lemma store_result_Inr:
  "store_result c result d = Inr d' \<Longrightarrow>
     d' = d\<lparr>provider_attempt_results := (case result of None \<Rightarrow> provider_attempt_results d
        | Some r \<Rightarrow> insert_row (result_row c r) (provider_attempt_results d))\<rparr> \<and>
     (case result of None \<Rightarrow> True | Some r \<Rightarrow> result_authentic c r)"
  by (auto simp: store_result_def split: option.splits)

lemma store_failure_Inr: "store_failure x d = Inr d' \<Longrightarrow> \<exists>t. d' = d\<lparr>provider_artifact_failures := t\<rparr>"
  by (cases x) (auto simp: store_failure_def intro: exI [of _ "provider_artifact_failures d"])

lemma diagnostic_event_Inr: "diagnostic_event c v x d = Inr d' \<Longrightarrow> \<exists>t. d' = d\<lparr>events := t\<rparr>"
  by (cases x) (auto simp: diagnostic_event_def insert_event_def Let_def intro: exI [of _ "events d"] split: option.splits if_splits)

lemma recorded_rejection_Inr: "recordServerRejectionFrom px c r at d = Inr d' \<Longrightarrow> \<exists>t. d' = d\<lparr>provider_server_rejections := t\<rparr>"
  by (auto simp: recordServerRejectionFrom_def Let_def split: sum.splits)

lemma finish_rows_Inr:
  assumes "finish_rows c expected f d = Inr d'"
  shows "\<exists>a \<in> set (provider_attempts d). names_attempt c a \<and> w_State a = ''active''"
    and "attempt_outcome_ok (fn_State f) (fn_Outcome f)"
    and "provider_attempts d' = update_where (\<lambda>a. names_attempt c a \<and> w_State a = ''active'')
      (end_attempt (fn_State f) (fn_Outcome f) (Some (fn_Usage f))) (provider_attempts d)"
    and "phase_runs d' = update_where (identified_run c) (end_run (fn_State f) (fn_Outcome f)) (phase_runs d)"
    and "tickets d' = tickets d" and "provider_phase_attempt_entries d' = provider_phase_attempt_entries d"
    and "provider_attempt_results d' = (case fn_Result f of None \<Rightarrow> provider_attempt_results d
        | Some r \<Rightarrow> insert_row (result_row c r) (provider_attempt_results d))"
    and "case fn_Result f of None \<Rightarrow> True | Some r \<Rightarrow> result_authentic c r"
    and "provider_attempt_inputs d' = provider_attempt_inputs d" and "provider_qualifications d' = provider_qualifications d"
    and "count_where (identified_run c) (phase_runs d) = 1"
proof -
  from assms obtain d1 d2 d3 d4 d5 where
    d1: "store_result c (fn_Result f) d = Inr d1" and
    d2: "change_attempt (\<lambda>a. names_attempt c a \<and> w_State a = ''active'')
      (end_attempt (fn_State f) (fn_Outcome f) (Some (fn_Usage f))) d1 = Inr d2" and
    d3: "change_run (identified_run c) (end_run (fn_State f) (fn_Outcome f)) d2 = Inr d3" and
    d4: "store_failure (fn_Failure f) d3 = Inr d4" and d5: "diagnostic_event c expected (fn_Reason f) d4 = Inr d5" and
    d6: "d' = release_claim_lease c d5"
    unfolding finish_rows_def and_then_Inr guarded_Inr by blast
  note tables = store_result_Inr [OF d1] d2 [unfolded change_attempt_Inr] d3 [unfolded change_run_Inr]
    store_failure_Inr [OF d4] diagnostic_event_Inr [OF d5] d6 [unfolded release_claim_lease_def]
  from tables have one: "count_where (\<lambda>a. names_attempt c a \<and> w_State a = ''active'') (provider_attempts d) = 1" by auto
  from count_one [OF this] show ex: "\<exists>a \<in> set (provider_attempts d). names_attempt c a \<and> w_State a = ''active''" .
  with tables show "attempt_outcome_ok (fn_State f) (fn_Outcome f)" by (auto simp: end_attempt_def)
  from tables show "provider_attempts d' = update_where (\<lambda>a. names_attempt c a \<and> w_State a = ''active'')
      (end_attempt (fn_State f) (fn_Outcome f) (Some (fn_Usage f))) (provider_attempts d)" by auto
  from tables show "phase_runs d' = update_where (identified_run c) (end_run (fn_State f) (fn_Outcome f)) (phase_runs d)" by auto
  from tables show "tickets d' = tickets d" "provider_phase_attempt_entries d' = provider_phase_attempt_entries d"
    "provider_attempt_inputs d' = provider_attempt_inputs d" "provider_qualifications d' = provider_qualifications d" by auto
  from tables show "provider_attempt_results d' = (case fn_Result f of None \<Rightarrow> provider_attempt_results d
        | Some r \<Rightarrow> insert_row (result_row c r) (provider_attempt_results d))" by auto
  from tables show "case fn_Result f of None \<Rightarrow> True | Some r \<Rightarrow> result_authentic c r" by blast
  from tables show "count_where (identified_run c) (phase_runs d) = 1" by auto
qed

lemma finish_authority_Inr:
  assumes "finish_authority d c expected fence = Inr (t, a)"
  shows "ticket_at d (cl_Ref c) = Some t" and "attempt_at d (cl_ID c) = Some a" and "claims_row c a"
    and "loadAuthenticatedProviderAttemptClaim d (cl_ID c) = Inr c"
    and "t_Version t = expected" and "leader_at d (Channel (cl_Ref c)) = Some (LeaderEpoch fence)"
proof -
  from assms obtain u where u: "ticket_at d (cl_Ref c) = Some u" unfolding finish_authority_def by (cases "ticket_at d (cl_Ref c)") auto
  with assms obtain persisted where p: "loadAuthenticatedProviderAttemptClaim d (cl_ID c) = Inr persisted"
    and v: "t_Version u = expected" and l: "currentFence d (Channel (cl_Ref c)) (t_Version u) (t_RunnerEpoch u) fence = None"
    and rest: "(case attempt_at d (cl_ID c) of
             None \<Rightarrow> Inl ErrNoRows
           | Some a \<Rightarrow>
             guarded (refuse (\<not> sameImmutableProviderAttemptClaim c persisted \<or>
                 in_RequestDigest (cl_Input c) \<noteq> in_RequestDigest (cl_Input persisted) \<or>
                 cl_BindingDigest persisted = '''' \<or> cl_BindingDigest persisted \<noteq> bindingDigest (cl_Binding persisted)) ErrStaleFence)
             (Inr (u, a))) = Inr (t, a)"
    by (auto simp: finish_authority_def)
  from rest have t: "u = t" and a: "attempt_at d (cl_ID c) = Some a" and same: "sameImmutableProviderAttemptClaim c persisted"
    by (cases "attempt_at d (cl_ID c)"; simp)+
  from same_claim [OF same] p show load: "loadAuthenticatedProviderAttemptClaim d (cl_ID c) = Inr c" by simp
  show "claims_row c a"
    by (rule authentic_claim [OF load]) (use a in simp)
  from t u a v show "ticket_at d (cl_Ref c) = Some t" "attempt_at d (cl_ID c) = Some a" "t_Version t = expected" by simp_all
  from l show "leader_at d (Channel (cl_Ref c)) = Some (LeaderEpoch fence)" by (auto simp: currentFence_def split: option.splits if_splits)
qed

text \<open>What a finishing transaction did: replay an earlier rejection, or end the claim's active attempt.\<close>

lemma finish_tx_cases:
  assumes "finish_tx px c expected fence f d = Inr (u, d')"
  obtains (replay) "d' = d" and "fn_Receipt f \<noteq> None"
  | (finished) t a x where "finish_authority d c expected fence = Inr (t, a)" and "w_State a = ''active''"
      and "finish_budget (d\<lparr>provider_server_rejections := x\<rparr>) c t (fn_Usage f) (fn_At f) = None"
      and "finish_rows c expected f (d\<lparr>provider_server_rejections := x\<rparr>) = Inr d'"
proof -
  from assms obtain t a where auth: "finish_authority d c expected fence = Inr (t, a)" and
    rest: "(if w_State a = ''failed'' \<and> fn_Receipt f \<noteq> None
         then guarded (replayed_rejection px d c (the (fn_Receipt f))) (Inr ((), d))
       else if w_State a \<noteq> ''active'' then Inl ErrStaleFence
       else
         and_then (case fn_Receipt f of None \<Rightarrow> Inr d
                   | Some receipt \<Rightarrow> recordServerRejectionFrom px c receipt (fn_At f) d) (\<lambda>d0.
         guarded (finish_budget d0 c t (fn_Usage f) (fn_At f))
         (and_then (finish_rows c expected f d0) (\<lambda>d1. Inr ((), d1))))) = Inr (u, d')"
    unfolding finish_tx_def by auto
  show ?thesis
  proof (cases "w_State a = ''failed'' \<and> fn_Receipt f \<noteq> None")
    case True
    with rest show ?thesis by (auto intro: replay)
  next
    case False
    with rest have active: "w_State a = ''active''" by (auto split: if_splits)
    with rest obtain d0 where d0: "(case fn_Receipt f of None \<Rightarrow> Inr d | Some receipt \<Rightarrow>
        recordServerRejectionFrom px c receipt (fn_At f) d) = Inr d0"
      and fin: "finish_budget d0 c t (fn_Usage f) (fn_At f) = None" "finish_rows c expected f d0 = Inr d'" by auto
    have "\<exists>x. d0 = d\<lparr>provider_server_rejections := x\<rparr>"
    proof (cases "fn_Receipt f")
      case None
      with d0 have "d0 = d\<lparr>provider_server_rejections := provider_server_rejections d\<rparr>" by simp
      then show ?thesis ..
    qed (use d0 recorded_rejection_Inr in auto)
    with fin auth active show ?thesis by (auto intro: finished)
  qed
qed

text \<open>Authenticity depends on the texts, the phase and the provider only.\<close>

lemma reparse_cong:
  assumes "cl_Phase c = cl_Phase c'" and "rb_Identity (cl_Binding c) = rb_Identity (cl_Binding c')"
    and "pt_TypedArtifact r = pt_TypedArtifact r'" and "pt_Validation r = pt_Validation r'" and "pt_RawArtifact r = pt_RawArtifact r'"
  shows "reparse c r = reparse c' r'"
  unfolding reparse_def assms ..

lemma result_authentic_row:
  "result_authentic (row_claim (result_row c r)) (row_result (result_row c r) x) = result_authentic c r"
proof -
  have "reparse (row_claim (result_row c r)) (row_result (result_row c r) x) = reparse c r"
    by (rule reparse_cong) (simp_all add: row_claim_def row_result_def result_row_def)
  moreover have "digests_match (row_result (result_row c r) x) = digests_match r"
    by (simp add: digests_match_def row_result_def result_row_def)
  ultimately show ?thesis by (simp add: result_authentic_def)
qed

lemma claims_evidence: "claims_row c a \<Longrightarrow> result_authentic c r \<Longrightarrow> evidence_of a (result_row c r)"
  by (simp add: evidence_of_def result_authentic_row)
    (simp add: result_row_def claims_row_def bound_row_def names_attempt_def)

lemma others_spent_row: "names_attempt c a \<Longrightarrow> others_spent d c = others_of (provider_attempts d) a"
  by (simp add: others_spent_def others_of_def names_attempt_def)

lemma finish_input_facts:
  assumes "finish_input px c prf fence f = None"
  shows "fn_State f \<in> {''completed'', ''failed'', ''cancelled''}" and "0 \<le> fn_Usage f"
    and "fn_Result f \<noteq> None \<Longrightarrow> fn_State f = ''completed''"
    and "VerifyDrainProof (px_verify px) (cl_SupervisorKey c) (drainRequestForClaim c) prf"
  using assms by (auto simp: finish_input_def validAttemptState_def split: if_splits)

lemma finish_step:
  assumes ok: "ledger_ok (st_db s)" and "finishProviderAttemptWithReceipt px s c prf expected fence f = (res, s')"
    and success: "fn_State f = ''completed'' \<Longrightarrow> fn_Result f \<noteq> None"
  shows "ledger_step (st_db s) (st_db s')"
proof (cases "finish_input px c prf fence f")
  case None
  note input = finish_input_facts [OF None]
  from assms(2) None have "store_write s (finish_tx px c expected fence f) = (res, s')"
    by (simp add: finishProviderAttemptWithReceipt_def)
  then show ?thesis
  proof (rule write_rel)
    fix u d' assume "finish_tx px c expected fence f (st_db s) = Inr (u, d')"
    then show "ledger_step (st_db s) d'"
    proof (cases rule: finish_tx_cases)
      case (finished t a x)
      let ?d0 = "(st_db s)\<lparr>provider_server_rejections := x\<rparr>" and ?p = "\<lambda>a. names_attempt c a \<and> w_State a = ''active''"
      note auth = finish_authority_Inr [OF finished(1)] and rows = finish_rows_Inr [OF finished(4)]
      have same: "b = a" if "b \<in> set (provider_attempts (st_db s))" "names_attempt c b" for b
        using attempt_at_unique [OF ok that(1)] that(2) auth(2) by (simp add: names_attempt_def)
      show ?thesis
      proof (rule end_claim_step [OF ok input(1), where p = ?p and q = "identified_run c" and c = c])
        show "charge_ok (st_db s) ?p (Some (fn_Usage f))"
          unfolding charge_ok_def
        proof (simp add: input(2), intro ballI allI impI)
          fix b u assume b: "b \<in> set (provider_attempts (st_db s))" "names_attempt c b \<and> w_State b = ''active''"
            and u: "ticket_at (st_db s) (w_Ref b) = Some u"
          then have "u = t" using auth(1) by (simp add: names_attempt_def)
          then show "others_of (provider_attempts (st_db s)) b + fn_Usage f \<le> max (spent_units (st_db s) (w_Ref b)) (t_MaxCostMicroUSD u)"
            using finished(3) others_spent_row [of c b ?d0] b by (auto simp: finish_budget_def split: if_splits)
        qed
        show "proof_of_success (st_db s) ?p (fn_State f) d'"
        proof (cases "fn_Result f")
          case None
          with success rows(7) show ?thesis by (auto simp: proof_of_success_def)
        next
          case (Some r)
          with input(3) rows(7,8) claims_evidence [OF auth(3)] same show ?thesis by (auto simp: proof_of_success_def)
        qed
        show "\<exists>b \<in> set (provider_attempts (st_db s)). names_attempt c b \<and> w_State b = ''active''" using rows(1) by simp
        show "provider_attempts d' = update_where ?p (end_attempt (fn_State f) (fn_Outcome f) (Some (fn_Usage f))) (provider_attempts (st_db s))"
          using rows(3) by simp
        show "phase_runs d' = update_where (identified_run c) (end_run (fn_State f) (fn_Outcome f)) (phase_runs (st_db s))"
          using rows(4) by simp
      qed (use rows(2,5,6) in \<open>auto simp: live_attempt_def identified_run_def\<close>)
    qed (simp add: keep_step)
  qed (simp add: keep_step)
qed (use assms(2) in \<open>simp add: finishProviderAttemptWithReceipt_def keep_step\<close>)

lemma end_plain_step:
  assumes ok: "ledger_ok d" and state: "state \<in> {''failed'', ''cancelled''}"
    and rows: "change_attempt p (end_attempt state outcome usage) d = Inr d1" "change_run q (end_run state outcome) d1 = Inr d2"
    and p: "\<And>a. p a \<Longrightarrow> bound_row c a \<and> w_State a = ''active''" and q: "\<And>r. q r \<Longrightarrow> names_run c r"
    and charge: "charge_ok d p usage"
  shows "ledger_step d (release_claim_lease c d2)"
proof (rule end_claim_step [OF ok, where p = p and q = q and c = c and state = state and outcome = outcome and usage = usage])
  note tables = rows(1) [unfolded change_attempt_Inr] rows(2) [unfolded change_run_Inr]
  from tables have "count_where p (provider_attempts d) = 1" by simp
  from count_one [OF this] show ex: "\<exists>a \<in> set (provider_attempts d). p a" .
  with tables show "attempt_outcome_ok state outcome" by (auto simp: end_attempt_def)
  from tables state show "proof_of_success d p state (release_claim_lease c d2)"
    by (auto simp: proof_of_success_def release_claim_lease_def)
  fix a assume "p a"
  with p show "names_attempt c a \<and> live_attempt a" by (simp add: bound_row_def live_attempt_def)
qed (use rows state q charge in \<open>auto simp: change_attempt_Inr change_run_Inr release_claim_lease_def\<close>)

section \<open>Admission\<close>

lemma next_attempt_id_above: "a \<in> set (provider_attempts d) \<Longrightarrow> pa_ID a < next_attempt_id d"
proof -
  have "a \<in> set t \<Longrightarrow> pa_ID a \<le> foldr max (map pa_ID t) 0" for t by (induction t) auto
  then show "a \<in> set (provider_attempts d) \<Longrightarrow> pa_ID a < next_attempt_id d" by (force simp: next_attempt_id_def)
qed

text \<open>What an admission has checked, as far as the ledger needs it.\<close>

lemma admitted_facts:
  assumes "admit_attempt px m r t d = Inr ad"
  shows "spent_units d (ra_Ref r) < t_MaxCostMicroUSD t" and "active_runs d (ra_Ref r) = 0"
    and "\<exists>limit. attempt_limit px d r (ad_Entry ad) = Inr limit \<and>
      length (entry_attempts d (ra_Ref r) (ra_Phase r) (pe_Version (ad_Entry ad))) < limit"
    and "independentProvider d (ra_Ref r) (ra_Role r) (pv_Family (rb_Identity (ra_Binding r))) = None"
    and "nothing_pending px m r d = None"
    and "admitProviderRequestLimit d r = None"
    and "writer_busy d (ra_Repository r) = False"
    and "px_currentEntry px d (ra_Ref r) (ra_Phase r) (t_Version t) (t_RunnerEpoch t) (LeaderEpoch (ra_Fence r)) = Inr (ad_Entry ad)"
proof -
  from assms obtain entry q limit repair i x y where
    facts: "px_currentEntry px d (ra_Ref r) (ra_Phase r) (t_Version t) (t_RunnerEpoch t) (LeaderEpoch (ra_Fence r)) = Inr entry"
      "nothing_pending px m r d = None" "\<not> writer_busy d (ra_Repository r)" "admitProviderRequestLimit d r = None"
      "\<not> t_MaxCostMicroUSD t \<le> spent_units d (ra_Ref r)" "\<not> active_runs d (ra_Ref r) \<noteq> 0"
      "attempt_limit px d r entry = Inr limit"
      "\<not> limit \<le> length (entry_attempts d (ra_Ref r) (ra_Phase r) (pe_Version entry))"
    and rest: "(case CanonicalPhaseInput i of
         None \<Rightarrow> Inl ErrProviderAttempt
       | Some (payload, digest) \<Rightarrow>
         guarded (refuse (payload = [] \<or> 2097152 < int (length payload)) ErrProviderAttempt)
        (guarded (independentProvider d (ra_Ref r) (ra_Role r) (pv_Family (rb_Identity (ra_Binding r))))
        (Inr \<lparr>ad_Entry = entry, ad_Qualification = q, ad_Attempt = max_attempt d (ra_Ref r) (ra_Phase r) + 1, ad_Input = i,
              ad_Payload = payload, ad_Digest = digest\<rparr>))) = Inr ad"
    unfolding admit_attempt_def Let_def guarded_Inr and_then_Inr refuse_None by blast
  from rest obtain payload digest where can: "CanonicalPhaseInput i = Some (payload, digest)" by (cases "CanonicalPhaseInput i") auto
  with rest have ad: "ad_Entry ad = entry"
    "independentProvider d (ra_Ref r) (ra_Role r) (pv_Family (rb_Identity (ra_Binding r))) = None" by auto
  from facts ad show "spent_units d (ra_Ref r) < t_MaxCostMicroUSD t" "active_runs d (ra_Ref r) = 0"
    "nothing_pending px m r d = None" "admitProviderRequestLimit d r = None" "writer_busy d (ra_Repository r) = False"
    "independentProvider d (ra_Ref r) (ra_Role r) (pv_Family (rb_Identity (ra_Binding r))) = None"
    "px_currentEntry px d (ra_Ref r) (ra_Phase r) (t_Version t) (t_RunnerEpoch t) (LeaderEpoch (ra_Fence r)) = Inr (ad_Entry ad)"
    by simp_all
  from facts ad show "\<exists>limit. attempt_limit px d r (ad_Entry ad) = Inr limit \<and>
      length (entry_attempts d (ra_Ref r) (ra_Phase r) (pe_Version (ad_Entry ad))) < limit" by (auto simp: not_le)
qed

lemma attempt_limit_le: "attempt_limit px d r e = Inr n \<Longrightarrow> n = 2 \<or> n = 4 \<and> px_retryEpoch px d (ra_Ref r) (ra_Phase r) = Inr (Some (pe_Version e))"
  by (auto simp: attempt_limit_def split: if_splits)

lemma begin_tx_cases:
  assumes "BeginProviderAttempt_tx px m r d = Inr (c, d')"
  obtains t ad lease ls where "ticket_at d (ra_Ref r) = Some t" and "admit_attempt px m r t d = Inr ad"
    and "attempt_insert_ok r ad d" and "c = new_claim (next_attempt_id d) r ad lease" and "d' = insert_attempt r ad lease ls d"
proof -
  from assms obtain t where t: "ticket_at d (ra_Ref r) = Some t"
    by (cases "ticket_at d (ra_Ref r)") (auto simp: BeginProviderAttempt_tx_def)
  with assms obtain ad where ad: "admit_attempt px m r t d = Inr ad" and rest:
    "(case acquireLease (ra_Ref r) (t_RunnerEpoch t)
                  \<lparr>lr_Scope = ''provider'',
                   lr_Resource = pv_Provider (rb_Identity (ra_Binding r)) @ '':'' @ rb_AuthDigest (ra_Binding r),
                   lr_Capacity = ra_Capacity r\<rparr> (ra_At r) (leases d) of
             (None, _) \<Rightarrow> Inl ErrProviderCapacity
           | (Some lease, ls) \<Rightarrow>
             guarded (refuse (\<not> attempt_insert_ok r ad d) (ErrConstraint ''provider_attempts''))
             (Inr (new_claim (next_attempt_id d) r ad (l_ScopeKey lease), insert_attempt r ad (l_ScopeKey lease) ls d))) = Inr (c, d')"
    by (auto simp: BeginProviderAttempt_tx_def)
  obtain lease ls where lease: "acquireLease (ra_Ref r) (t_RunnerEpoch t)
                  \<lparr>lr_Scope = ''provider'',
                   lr_Resource = pv_Provider (rb_Identity (ra_Binding r)) @ '':'' @ rb_AuthDigest (ra_Binding r),
                   lr_Capacity = ra_Capacity r\<rparr> (ra_At r) (leases d) = (lease, ls)" by (meson surj_pair)
  with rest obtain l where "lease = Some l" by (cases lease) auto
  with rest lease t ad show ?thesis by (auto intro: that)
qed

lemma begin_tx_step:
  assumes "ledger_ok d" and "BeginProviderAttempt_tx px m r d = Inr (c, d')"
  shows "ledger_step d d'"
  using assms(2)
proof (cases rule: begin_tx_cases)
  case (1 t ad lease ls)
  note facts = admitted_facts [OF 1(2)]
  let ?a = "new_attempt (next_attempt_id d) r ad lease"
  let ?e = "\<lparr>ae_AttemptID = next_attempt_id d, ae_Ref = ra_Ref r, ae_Phase = ra_Phase r, ae_Role = ra_Role r,
    ae_Attempt = ad_Attempt ad, ae_EntryVersion = pe_Version (ad_Entry ad)\<rparr>"
  have "admission_step d ?a (new_run r ad) ?e d'"
    unfolding admission_step_def
  proof (intro conjI ballI impI)
    fix b assume "b \<in> set (provider_attempts d)"
    then show "pa_ID b < pa_ID ?a" using next_attempt_id_above by (simp add: new_attempt_def)
  next
    from 1(3) show "row_at phase_run_pk (phase_runs d) (phase_run_pk (new_run r ad)) = None"
      by (auto simp: row_at_none attempt_insert_ok_def list_ex_iff phase_run_pk_def new_run_def)
    from facts(3) attempt_limit_le show "length (entry_attempts d (ae_Ref ?e) (ae_Phase ?e) (ae_EntryVersion ?e)) < 4" by fastforce
    from 1(1) facts(1) show "\<exists>t. ticket_at d (w_Ref ?a) = Some t \<and> spent_units d (w_Ref ?a) \<le> t_MaxCostMicroUSD t"
      by (auto simp: new_attempt_def)
  next
    fix b assume "b \<in> set (provider_attempts d)" "w_Ref b = w_Ref ?a"
      "pa_Role ?a = ''builder'' \<and> pa_Role b = ''reviewer'' \<or> pa_Role ?a = ''reviewer'' \<and> pa_Role b = ''builder''"
    with facts(4) show "pv_Family (pa_Identity b) \<noteq> pv_Family (pa_Identity ?a)"
      by (auto simp: independentProvider_def new_attempt_def list_ex_iff Let_def)
  qed (use 1(5) facts(2) in \<open>simp_all add: insert_attempt_def Let_def new_attempt_def new_run_def run_of_attempt_def\<close>)
  then show ?thesis by (rule ledger_step.admitted)
qed

section \<open>The other operations\<close>

lemma launch_step:
  assumes ok: "ledger_ok (st_db s)" and op: "RecordProviderLaunch s c launch = (res, s')"
  shows "ledger_step (st_db s) (st_db s')"
proof (cases "s' = s")
  case False
  let ?p = "\<lambda>d a. bound_row c a \<and> w_State a = ''active'' \<and> w_LaunchState a = ''launching'' \<and>
            pa_Worktree a = ln_Worktree launch \<and> has_request_digest d c"
  let ?f = "\<lambda>a :: attempt_row. a\<lparr>pa_PID := ln_PID launch, pa_PGID := ln_PGID launch, pa_BootIdentity := ln_BootIdentity launch,
             pa_StartIdentity := ln_ProcessStartIdentity launch, w_LaunchState := ''released''\<rparr>"
  from op False have checks: "0 < ln_PID launch" "ln_PGID launch = ln_PID launch" "ln_BootIdentity launch \<noteq> ''''"
    "ln_ProcessStartIdentity launch \<noteq> ''''"
    and w: "store_write s (\<lambda>d. and_then (change_attempt (?p d) ?f d) (\<lambda>d'. Inr ((), d'))) = (res, s')"
    by (auto simp: RecordProviderLaunch_def split: if_splits)
  from w show ?thesis
  proof (rule write_rel)
    fix u d' assume "and_then (change_attempt (?p (st_db s)) ?f (st_db s)) (\<lambda>d'. Inr ((), d')) = Inr (u, d')"
    then have d': "d' = (st_db s)\<lparr>provider_attempts := update_where (?p (st_db s)) ?f (provider_attempts (st_db s))\<rparr>"
      by (auto simp: change_attempt_Inr)
    show "ledger_step (st_db s) d'"
    proof (rule moving_rows [OF ok _ d'])
      fix a assume "?p (st_db s) a"
      with checks attempt_move.launched [of a "ln_PID launch" "ln_BootIdentity launch" "ln_ProcessStartIdentity launch"]
      show "attempt_move a (?f a) \<and> w_State (?f a) \<noteq> ''completed'' \<and> pa_UsageUnits (?f a) = pa_UsageUnits a" by simp
    qed
  qed (simp add: keep_step)
qed (simp add: keep_step)

lemma doubted_keep:
  assumes "live_attempt a" and "outcome \<in> {''undrained'', ''undrained_recovery''}"
  shows "attempt_move a (a\<lparr>w_State := ''quarantined'', pa_Outcome := outcome\<rparr>)"
proof -
  have "a\<lparr>w_State := ''quarantined'', pa_Outcome := outcome, w_LaunchState := w_LaunchState a\<rparr> =
      a\<lparr>w_State := ''quarantined'', pa_Outcome := outcome\<rparr>" by (rule attempt_row.equality) simp_all
  with attempt_move.doubted [OF assms, of "w_LaunchState a"] show ?thesis by simp
qed

lemma doubted_recovery: "live_attempt a \<Longrightarrow> attempt_move a (undrained_recovery a)"
  using attempt_move.doubted [of a "''undrained_recovery''" "''quarantined''"] by (simp add: undrained_recovery_def)

lemma over_unverified:
  assumes "live_attempt a" and "0 \<le> pa_UsageUnits a"
  shows "attempt_move a (never_verified a)"
proof -
  have "a\<lparr>w_State := ''failed'', pa_Outcome := ''legacy_unverifiable'', pa_UsageUnits := pa_UsageUnits a, pa_Finished := True,
      w_LaunchState := ''legacy_unverifiable''\<rparr> = never_verified a"
    by (rule attempt_row.equality) (simp_all add: never_verified_def)
  moreover have "attempt_outcome_ok ''failed'' ''legacy_unverifiable''" by (simp add: attempt_outcome_ok_def failed_outcomes_def)
  ultimately show ?thesis
    using attempt_move.over [OF assms(1), of "''failed''" "''legacy_unverifiable''" "pa_UsageUnits a" "''legacy_unverifiable''"]
      assms(2) by simp
qed

lemma quarantine_step:
  assumes ok: "ledger_ok (st_db s)" and op: "QuarantineProviderAttempt s c expected fence at = (res, s')"
  shows "ledger_step (st_db s) (st_db s')"
proof (cases "s' = s")
  case False
  with op have "store_write s (QuarantineProviderAttempt_tx c expected fence) = (res, s')"
    by (auto simp: QuarantineProviderAttempt_def split: if_splits)
  then show ?thesis
  proof (rule write_rel)
    fix u d' assume tx: "QuarantineProviderAttempt_tx c expected fence (st_db s) = Inr (u, d')"
    then have d': "d' = (st_db s)\<lparr>provider_attempts := update_where (\<lambda>a. names_attempt c a \<and> w_State a = ''active'')
            (\<lambda>a. a\<lparr>w_State := ''quarantined'', pa_Outcome := ''undrained''\<rparr>) (provider_attempts (st_db s))\<rparr>"
      by (cases "ticket_at (st_db s) (cl_Ref c)") (auto simp: QuarantineProviderAttempt_tx_def change_attempt_Inr)
    show "ledger_step (st_db s) d'"
      by (rule moving_rows [OF ok _ d']) (use doubted_keep in \<open>simp add: live_attempt_def\<close>)
  qed (simp add: keep_step)
qed (simp add: keep_step)

lemma quarantine_recovered_step:
  assumes ok: "ledger_ok (st_db s)" and op: "QuarantineRecoveredProviderAttemptClaim s c leader at = (res, s')"
  shows "ledger_step (st_db s) (st_db s')"
proof (cases "s' = s")
  case False
  with op have "store_write s (QuarantineRecovered_tx c leader) = (res, s')"
    by (auto simp: QuarantineRecoveredProviderAttemptClaim_def split: if_splits)
  then show ?thesis
  proof (rule write_rel)
    fix u d' assume tx: "QuarantineRecovered_tx c leader (st_db s) = Inr (u, d')"
    then have d': "d' = (st_db s)\<lparr>provider_attempts := update_where
        (\<lambda>a. bound_row c a \<and> (w_State a = ''active'' \<or> w_State a = ''quarantined'')) undrained_recovery (provider_attempts (st_db s))\<rparr>"
      by (cases "leader_at (st_db s) (Channel (cl_Ref c))") (auto simp: QuarantineRecovered_tx_def change_attempt_Inr)
    show "ledger_step (st_db s) d'"
      by (rule moving_rows [OF ok _ d']) (use doubted_recovery in \<open>simp add: live_attempt_def undrained_recovery_def\<close>)
  qed (simp add: keep_step)
qed (simp add: keep_step)

lemma recover_attempts_step:
  assumes ok: "ledger_ok (st_db s)" and op: "recoverProviderAttempts s ref stale leader at = (res, s')"
  shows "ledger_step (st_db s) (st_db s')"
proof (cases "s' = s")
  case False
  with op have "store_write s (quarantineProviderAttempts_tx ref stale leader) = (res, s')"
    by (auto simp: recoverProviderAttempts_def split: if_splits)
  then show ?thesis
  proof (rule write_rel)
    fix u d' assume "quarantineProviderAttempts_tx ref stale leader (st_db s) = Inr (u, d')"
    then have d': "d' = (st_db s)\<lparr>provider_attempts := update_where
              (\<lambda>a. w_Ref a = ref \<and> w_State a = ''active'' \<and> pa_LeaderEpoch a = leader \<and> pa_RunnerEpoch a = stale)
              (\<lambda>a. a\<lparr>w_State := ''quarantined'', pa_Outcome := ''undrained_recovery''\<rparr>) (provider_attempts (st_db s))\<rparr>"
      by (cases "leader_at (st_db s) (Channel ref)"; cases "ticket_at (st_db s) ref")
        (auto simp: quarantineProviderAttempts_tx_def)
    show "ledger_step (st_db s) d'"
      by (rule moving_rows [OF ok _ d']) (use doubted_keep in \<open>simp add: live_attempt_def\<close>)
  qed (simp add: keep_step)
qed (simp add: keep_step)

lemma charge_none [simp]: "charge_ok d p None"
  by (simp add: charge_ok_def)

lemma charge_zero:
  assumes "ledger_ok d"
  shows "charge_ok d p (Some 0)"
  unfolding charge_ok_def
proof (simp, intro ballI allI impI)
  fix a t assume a: "a \<in> set (provider_attempts d)"
  from assms a have "unique_key pa_ID (provider_attempts d)" "0 \<le> pa_UsageUnits a"
    by (auto simp: ledger_ok_def unique_names_def within_budget_def)
  with spent_now a show "others_of (provider_attempts d) a \<le> max (spent_units d (w_Ref a)) (t_MaxCostMicroUSD t)" by fastforce
qed

lemma retire_step:
  assumes ok: "ledger_ok (st_db s)" and op: "retireProviderAttemptAfterControlInvalidation s c b = (res, s')"
  shows "ledger_step (st_db s) (st_db s')"
proof (cases "s' = s")
  case False
  with op have "store_write s (retire_tx c b) = (res, s')"
    by (auto simp: retireProviderAttemptAfterControlInvalidation_def split: if_splits)
  then show ?thesis
  proof (rule write_rel)
    fix u d' assume tx: "retire_tx c b (st_db s) = Inr (u, d')"
    obtain p where "loadAuthenticatedProviderAttemptClaim (st_db s) (cl_ID c) = Inr p"
      using tx by (cases "loadAuthenticatedProviderAttemptClaim (st_db s) (cl_ID c)") (auto simp: retire_tx_def)
    moreover obtain a where "attempt_at (st_db s) (cl_ID c) = Some a"
      using tx calculation by (cases "attempt_at (st_db s) (cl_ID c)") (auto simp: retire_tx_def)
    ultimately obtain d1 d2 where rows:
      "change_attempt (\<lambda>a. bound_row c a \<and> w_State a = ''active'') (end_attempt ''cancelled'' ''cancelled'' (Some 0)) (st_db s) = Inr d1"
      "change_run (identified_run c) (end_run ''cancelled'' ''cancelled'') d1 = Inr d2" "d' = release_claim_lease c d2"
      using tx unfolding retire_tx_def by auto
    show "ledger_step (st_db s) d'"
      unfolding rows(3)
      by (rule end_plain_step [OF ok _ rows(1,2) _ _ charge_zero [OF ok]]) (simp_all add: identified_run_def)
  qed (simp add: keep_step)
qed (simp add: keep_step)

lemma before_launch_step:
  assumes ok: "ledger_ok (st_db s)" and op: "FailProviderAttemptBeforeLaunch s c expected fence at = (res, s')"
  shows "ledger_step (st_db s) (st_db s')"
proof (cases "s' = s")
  case False
  with op have "store_write s (FailProviderAttemptBeforeLaunch_tx c expected fence) = (res, s')"
    by (auto simp: FailProviderAttemptBeforeLaunch_def split: if_splits)
  then show ?thesis
  proof (rule write_rel)
    fix u d' assume "FailProviderAttemptBeforeLaunch_tx c expected fence (st_db s) = Inr (u, d')"
    then obtain d1 d2 where
      "change_attempt (\<lambda>a. bound_row c a \<and> w_State a = ''active'' \<and> unlaunched a \<and> has_request_digest (st_db s) c)
        (end_attempt ''failed'' ''invocation_failed'' None) (st_db s) = Inr d1"
      "change_run (identified_run c) (end_run ''failed'' ''invocation_failed'') d1 = Inr d2" "d' = release_claim_lease c d2"
      unfolding FailProviderAttemptBeforeLaunch_tx_def by auto
    then show "ledger_step (st_db s) d'"
      using end_plain_step [OF ok, of "''failed''" "\<lambda>a. bound_row c a \<and> w_State a = ''active'' \<and> unlaunched a \<and>
        has_request_digest (st_db s) c" "''invocation_failed''" None d1 "identified_run c" d2 c] by (simp add: identified_run_def)
  qed (simp add: keep_step)
qed (simp add: keep_step)

lemma budget_tx_facts:
  assumes "FailProviderAttemptBudget_tx c expected fence usage at d = Inr (u, d')"
  obtains t d1 d2 where "ticket_at d (cl_Ref c) = Some t" and "loadAuthenticatedProviderAttemptClaim d (cl_ID c) = Inr c"
    and "change_attempt (\<lambda>a. bound_row c a \<and> w_State a = ''active'')
      (end_attempt ''failed'' ''budget_exhausted'' (Some (charged (t_MaxCostMicroUSD t - others_spent d c) usage))) d = Inr d1"
    and "change_run (names_run c) (end_run ''failed'' ''budget_exhausted'') d1 = Inr d2" and "d' = release_claim_lease c d2"
proof -
  from assms obtain t where t: "fenced_ticket d (cl_Ref c) expected fence = Inr t"
    unfolding FailProviderAttemptBudget_tx_def by auto
  then have "ticket_at d (cl_Ref c) = Some t"
    by (cases "ticket_at d (cl_Ref c)") (auto simp: fenced_ticket_def)
  moreover obtain p where p: "loadAuthenticatedProviderAttemptClaim d (cl_ID c) = Inr p"
    using assms t by (cases "loadAuthenticatedProviderAttemptClaim d (cl_ID c)") (auto simp: FailProviderAttemptBudget_tx_def)
  moreover have "c = p" using assms t p same_claim by (auto simp: FailProviderAttemptBudget_tx_def Let_def)
  ultimately show ?thesis using assms t that by (auto simp: FailProviderAttemptBudget_tx_def Let_def)
qed

lemma charged_le: "0 \<le> usage \<Longrightarrow> 0 \<le> charged rest usage \<and> charged rest usage \<le> max rest 0"
  by (simp add: charged_def)

lemma budget_step:
  assumes ok: "ledger_ok (st_db s)" and op: "FailProviderAttemptBudget px s c prf expected fence usage at = (res, s')"
  shows "ledger_step (st_db s) (st_db s')"
proof (cases "s' = s")
  case False
  with op have w: "store_write s (FailProviderAttemptBudget_tx c expected fence usage at) = (res, s')" and usage: "0 \<le> usage"
    by (auto simp: FailProviderAttemptBudget_def split: if_splits)
  from w show ?thesis
  proof (rule write_rel)
    fix u d' assume "FailProviderAttemptBudget_tx c expected fence usage at (st_db s) = Inr (u, d')"
    then show "ledger_step (st_db s) d'"
    proof (cases rule: budget_tx_facts)
      case (1 t d1 d2)
      let ?rest = "t_MaxCostMicroUSD t - others_spent (st_db s) c"
      have "charge_ok (st_db s) (\<lambda>a. bound_row c a \<and> w_State a = ''active'') (Some (charged ?rest usage))"
        unfolding charge_ok_def
      proof (simp add: charged_le [OF usage], intro ballI allI impI)
        fix a v assume a: "a \<in> set (provider_attempts (st_db s))" "bound_row c a \<and> w_State a = ''active''"
          and v: "ticket_at (st_db s) (w_Ref a) = Some v"
        then have name: "names_attempt c a" by (simp add: bound_row_def)
        with v 1(1) have "v = t" by (simp add: names_attempt_def)
        moreover have "others_of (provider_attempts (st_db s)) a \<le> spent_units (st_db s) (w_Ref a)"
          using ok a(1) spent_now [of "st_db s" a] by (auto simp: ledger_ok_def unique_names_def within_budget_def)
        ultimately show "others_of (provider_attempts (st_db s)) a + charged ?rest usage \<le>
            max (spent_units (st_db s) (w_Ref a)) (t_MaxCostMicroUSD v)"
          using charged_le [OF usage, of ?rest] others_spent_row [OF name, of "st_db s"] by auto
      qed
      then show ?thesis using end_plain_step [OF ok _ 1(3,4)] 1(5) by simp
    qed
  qed (simp add: keep_step)
qed (simp add: keep_step)

lemma recover_tx_facts:
  assumes "recoverProviderAttemptClaim_tx c leader d = Inr (u, d')"
  obtains a d1 where "leader_at d (Channel (cl_Ref c)) = Some leader" and "a \<in> set (provider_attempts d)" and "bound_row c a"
    and "d1 = d\<lparr>provider_attempts := update_where (\<lambda>a. pa_ID a = cl_ID c \<and> (w_State a = ''active'' \<or> w_State a = ''quarantined''))
           (end_attempt ''cancelled'' ''drained_recovery'' None) (provider_attempts d)\<rparr>"
    and "d' = release_claim_lease c (d1\<lparr>phase_runs := update_where (identified_run c) (end_run ''cancelled'' ''drained_recovery'')
           (phase_runs d)\<rparr>)"
proof -
  from assms obtain l where l: "leader_at d (Channel (cl_Ref c)) = Some l"
    by (cases "leader_at d (Channel (cl_Ref c))") (auto simp: recoverProviderAttemptClaim_tx_def)
  moreover from assms l obtain t where t: "ticket_at d (cl_Ref c) = Some t"
    by (cases "ticket_at d (cl_Ref c)") (auto simp: recoverProviderAttemptClaim_tx_def)
  moreover from assms l t obtain a where a: "List.find (bound_row c) (provider_attempts d) = Some a"
    by (cases "List.find (bound_row c) (provider_attempts d)") (auto simp: recoverProviderAttemptClaim_tx_def)
  moreover from a have "a \<in> set (provider_attempts d)" "bound_row c a" by (auto simp: find_Some_iff)
  ultimately show ?thesis
    using assms that by (auto simp: recoverProviderAttemptClaim_tx_def Let_def change_run_Inr)
qed

lemma recover_step:
  assumes ok: "ledger_ok (st_db s)" and op: "RecoverProviderAttemptClaimWithProof px s c leader prf at = (res, s')"
  shows "ledger_step (st_db s) (st_db s')"
proof (cases "s' = s")
  case False
  with op have "store_write s (recoverProviderAttemptClaim_tx c leader) = (res, s')"
    by (auto simp: RecoverProviderAttemptClaimWithProof_def recoverProviderAttemptClaim_def split: if_splits option.splits)
  then show ?thesis
  proof (rule write_rel)
    fix u d' assume "recoverProviderAttemptClaim_tx c leader (st_db s) = Inr (u, d')"
    then show "ledger_step (st_db s) d'"
    proof (cases rule: recover_tx_facts)
      case (1 a d1)
      let ?p = "\<lambda>a :: attempt_row. pa_ID a = cl_ID c \<and> (w_State a = ''active'' \<or> w_State a = ''quarantined'')"
        and ?f = "end_attempt ''cancelled'' ''drained_recovery'' None"
      have tables: "provider_attempts d' = update_where ?p ?f (provider_attempts (st_db s))"
        "phase_runs d' = update_where (identified_run c) (end_run ''cancelled'' ''drained_recovery'') (phase_runs (st_db s))"
        "tickets d' = tickets (st_db s)" "provider_phase_attempt_entries d' = provider_phase_attempt_entries (st_db s)"
        "provider_attempt_results d' = provider_attempt_results (st_db s)"
        using 1(4,5) by (simp_all add: release_claim_lease_def)
      show ?thesis
      proof (rule moving_update [OF ok])
        fix b assume "b \<in> set (provider_attempts (st_db s))" "?p b"
        with ok show "attempt_move b (?f b)"
          by (intro end_moves) (auto simp: live_attempt_def attempt_outcome_ok_def ledger_ok_def within_budget_def)
      next
        fix r assume "identified_run c r"
        then show "pr_State r = ''active'' \<and> phase_run_pk r = (cl_Ref c, cl_Phase c, cl_Attempt c)"
          using named_run [of c r] by (simp add: identified_run_def)
      next
        show "\<exists>b \<in> set (provider_attempts (st_db s)). run_key b = (cl_Ref c, cl_Phase c, cl_Attempt c) \<and>
            \<not> live_attempt (if ?p b then ?f b else b)"
          using 1(2,3) named_key [of c a]
          by (intro bexI [of _ a]) (auto simp: bound_row_def names_attempt_def live_attempt_def end_attempt_def)
      next
        fix ref t
        have "spent_units d' ref = spent_units (st_db s) ref"
          by (rule spent_same [OF _ tables(1)]) (simp add: end_attempt_def)
        then show "spent_units d' ref \<le> max (spent_units (st_db s) ref) (t_MaxCostMicroUSD t)" by simp
      next
        show "new_evidence (st_db s) (\<lambda>a. if ?p a then ?f a else a) d'"
          using tables(5) by (auto simp: new_evidence_def end_attempt_def live_attempt_def)
      qed (use tables in simp_all)
    qed
  qed (simp add: keep_step)
qed (simp add: keep_step)

lemma estimate_step:
  assumes "RecordProviderCostEstimate px s c prf estimate = (res, s')"
  shows "ledger_step (st_db s) (st_db s')"
proof (cases "s' = s")
  case False
  with assms have "store_write s (RecordProviderCostEstimate_tx c estimate) = (res, s')"
    by (auto simp: RecordProviderCostEstimate_def split: if_splits option.splits)
  then show ?thesis
  proof (rule write_rel)
    fix u d' assume "RecordProviderCostEstimate_tx c estimate (st_db s) = Inr (u, d')"
    then have "\<exists>t. d' = (st_db s)\<lparr>provider_cost_estimates := t\<rparr> \<or> d' = st_db s"
      by (auto simp: RecordProviderCostEstimate_tx_def split: sum.splits option.splits if_splits)
    then show "ledger_step (st_db s) d'" by (auto simp: keep_step)
  qed (simp add: keep_step)
qed (simp add: keep_step)

lemma approve_step:
  assumes "ApproveProviderEstimatedAccounting s ref expected fence = (res, s')"
  shows "ledger_step (st_db s) (st_db s')"
proof -
  from assms have "store_write s (ApproveProviderEstimatedAccounting_tx ref expected fence) = (res, s')"
    by (simp add: ApproveProviderEstimatedAccounting_def)
  then show ?thesis
  proof (rule write_rel)
    fix u d' assume "ApproveProviderEstimatedAccounting_tx ref expected fence (st_db s) = Inr (u, d')"
    then have "\<exists>t. d' = (st_db s)\<lparr>provider_accounting_policies := t\<rparr> \<or> d' = st_db s"
      by (cases "loadProviderAccountingPolicy (st_db s) ref")
        (auto simp: ApproveProviderEstimatedAccounting_tx_def split: if_splits)
    then show "ledger_step (st_db s) d'" by (auto simp: keep_step)
  qed (simp add: keep_step)
qed

section \<open>Reconciliation\<close>

lemma reconcile_attempt_step:
  assumes ok: "ledger_ok d" and op: "reconcile_attempt a d = Inr d'"
    and row: "b \<in> set (provider_attempts d)" "same_identity a b"
  shows "ledger_step d d'"
proof (cases "unlaunched a")
  case True
  let ?p = "\<lambda>x. pa_ID x = pa_ID a \<and> live_attempt x \<and> unlaunched x"
    and ?q = "\<lambda>p :: phase_run_row. pr_Ref p = w_Ref a \<and> pr_Phase p = pa_Phase a \<and> pr_Attempt p = pa_Attempt a \<and> pr_State p = ''active''"
  from op True have one: "count_where ?p (provider_attempts d) = 1"
    and tables: "provider_attempts d' = update_where ?p never_verified (provider_attempts d)"
      "phase_runs d' = update_where ?q (end_run ''failed'' ''legacy_unverifiable'') (phase_runs d)" "tickets d' = tickets d"
      "provider_phase_attempt_entries d' = provider_phase_attempt_entries d" "provider_attempt_results d' = provider_attempt_results d"
    by (auto simp: reconcile_attempt_def split: if_splits)
  from count_one [OF one] obtain x where x: "x \<in> set (provider_attempts d)" "?p x" by blast
  have "x = b"
    using unique_key_eq [of pa_ID "provider_attempts d" x b] ok x row by (simp add: ledger_ok_def unique_names_def same_identity_def)
  show ?thesis
  proof (rule moving_update [OF ok])
    fix y assume "y \<in> set (provider_attempts d)" "?p y"
    with ok show "attempt_move y (never_verified y)"
      by (intro over_unverified) (auto simp: ledger_ok_def within_budget_def)
  next
    fix r assume "?q r"
    then show "pr_State r = ''active'' \<and> phase_run_pk r = run_key a" by (simp add: phase_run_pk_def run_key_def)
  next
    show "\<exists>y \<in> set (provider_attempts d). run_key y = run_key a \<and> \<not> live_attempt (if ?p y then never_verified y else y)"
      using x \<open>x = b\<close> identity_run_key [OF row(2)]
      by (intro bexI [of _ b]) (simp_all add: live_attempt_def never_verified_def)
  next
    fix ref t
    have "spent_units d' ref = spent_units d ref"
      by (rule spent_same [OF _ tables(1)]) (simp add: never_verified_def)
    then show "spent_units d' ref \<le> max (spent_units d ref) (t_MaxCostMicroUSD t)" by simp
  next
    show "new_evidence d (\<lambda>a. if ?p a then never_verified a else a) d'"
      using tables(5) by (auto simp: new_evidence_def never_verified_def live_attempt_def)
  qed (use tables in simp_all)
next
  case False
  with op have d': "d' = d\<lparr>provider_attempts := update_where (\<lambda>x. pa_ID x = pa_ID a \<and> live_attempt x) undrained_recovery
             (provider_attempts d)\<rparr>" by (simp add: reconcile_attempt_def)
  show ?thesis
    by (rule moving_rows [OF ok _ d']) (use doubted_recovery in \<open>simp add: undrained_recovery_def\<close>)
qed

text \<open>No step loses a row, or changes what identifies it.\<close>

lemma step_keeps_rows:
  assumes "ledger_step d d'" and a: "a \<in> set (provider_attempts d)"
  shows "\<exists>b \<in> set (provider_attempts d'). attempt_move a b"
  using assms(1)
proof cases
  case outside
  with a attempt_move.stay show ?thesis by (auto simp: outside_step_def)
next
  case (moving h g)
  with a show ?thesis by (auto simp: moving_step_def)
next
  case (admitted x p e)
  with a attempt_move.stay show ?thesis by (auto simp: admission_step_def insert_row_def)
qed

lemma same_identity_trans: "same_identity a b \<Longrightarrow> same_identity b c \<Longrightarrow> same_identity a c"
  by (simp add: same_identity_def)

lemma each_reconciled:
  assumes "each_row reconcile_attempt as d = Inr d'" and "ledger_ok d"
    and "\<forall>a \<in> set as. \<exists>b \<in> set (provider_attempts d). same_identity a b"
  shows "ledger_step^** d d'"
  using assms
proof (induction as arbitrary: d)
  case (Cons a as)
  then obtain d1 where d1: "reconcile_attempt a d = Inr d1" and rest: "each_row reconcile_attempt as d1 = Inr d'"
    by (auto split: sum.splits)
  from Cons.prems(3) obtain b where "b \<in> set (provider_attempts d)" "same_identity a b" by auto
  from reconcile_attempt_step [OF Cons.prems(2) d1 this] have step: "ledger_step d d1" .
  have "\<forall>x \<in> set as. \<exists>b \<in> set (provider_attempts d1). same_identity x b"
  proof
    fix x assume "x \<in> set as"
    with Cons.prems(3) obtain y where "y \<in> set (provider_attempts d)" "same_identity x y" by auto
    with step_keeps_rows [OF step] show "\<exists>b \<in> set (provider_attempts d1). same_identity x b"
      using move_identity same_identity_trans by blast
  qed
  with Cons.IH [OF rest ledger_step_ok [OF step Cons.prems(2)]] have "ledger_step^** d1 d'" .
  with step show ?case by (rule converse_rtranclp_into_rtranclp)
qed simp

lemma reconcile_steps:
  assumes ok: "ledger_ok (st_db s)" and op: "reconcileProviderAttemptInputs s = (res, s')"
  shows "ledger_step^** (st_db s) (st_db s')"
  using op unfolding reconcileProviderAttemptInputs_def
proof (rule write_rel)
  fix u d' assume "and_then (each_row reconcile_attempt (unverifiable_attempts (st_db s)) (st_db s)) (\<lambda>d'. Inr ((), d')) = Inr (u, d')"
  then have "each_row reconcile_attempt (unverifiable_attempts (st_db s)) (st_db s) = Inr d'" by simp
  moreover have "\<forall>a \<in> set (unverifiable_attempts (st_db s)). \<exists>b \<in> set (provider_attempts (st_db s)). same_identity a b"
    by (auto simp: unverifiable_attempts_def same_identity_def)
  ultimately show "ledger_step^** (st_db s) d'" using each_reconciled [OF _ ok] by blast
qed simp

end
