(* ===== verification/ProviderSafety.thy ===== *)
theory ProviderSafety
  imports ProviderSteps
begin

text \<open>
  What the ledger of provider attempts guarantees over every sequence of operations: a budget that is never exceeded,
  one live attempt per ticket, a bound on retries, independent builder and reviewer, final and complete evidence, and
  no process given up without a signed proof that it is gone.
\<close>

section \<open>Runs of the Store\<close>

text \<open>
  The public operations on attempts, in any order and with any arguments and outcomes. \<open>elsewhere\<close> is a step of the
  rest of the Store.
\<close>

inductive provider_step :: "provider_env \<Rightarrow> Store \<Rightarrow> Store \<Rightarrow> bool" for px :: provider_env where
  elsewhere: "outside_step (st_db s) (st_db s') \<Longrightarrow> provider_step px s s'"
| begin_attempt: "BeginProviderAttempt px s r = (x, s') \<Longrightarrow> provider_step px s s'"
| authority: "SetRecoveryAuthority s channel leader key = (y, s') \<Longrightarrow> provider_step px s s'"
| launch: "RecordProviderLaunch s c ln = (y, s') \<Longrightarrow> provider_step px s s'"
| finish: "FinishProviderAttempt px s c prf v fence state outcome usage at = (y, s') \<Longrightarrow> provider_step px s s'"
| indeterminate: "FinishProviderAttemptWithIndeterminateFailure px s c prf v fence reason usage at = (y, s') \<Longrightarrow> provider_step px s s'"
| bad_artifact: "FinishProviderAttemptWithArtifactFailure px s c prf v fence reason usage at = (y, s') \<Longrightarrow> provider_step px s s'"
| rejected: "FinishProviderAttemptWithServerRejection px s c prf receipt at = (y, s') \<Longrightarrow> provider_step px s s'"
| completed: "CompleteProviderAttemptSuccess px s c prf v fence raw va at = (z, s') \<Longrightarrow> provider_step px s s'"
| retired: "RetireProviderAttemptAfterControlInvalidation px s c prf at = (y, s') \<Longrightarrow> provider_step px s s'"
| retired_unlaunched: "RetireUnlaunchedProviderAttemptAfterControlInvalidation s c at = (y, s') \<Longrightarrow> provider_step px s s'"
| before_launch: "FailProviderAttemptBeforeLaunch s c v fence at = (y, s') \<Longrightarrow> provider_step px s s'"
| quarantined: "QuarantineProviderAttempt s c v fence at = (y, s') \<Longrightarrow> provider_step px s s'"
| exhausted: "FailProviderAttemptBudget px s c prf v fence usage at = (y, s') \<Longrightarrow> provider_step px s s'"
| recovered: "RecoverProviderAttemptClaimWithProof px s c leader prf at = (y, s') \<Longrightarrow> provider_step px s s'"
| quarantine_recovered: "QuarantineRecoveredProviderAttemptClaim s c leader at = (y, s') \<Longrightarrow> provider_step px s s'"
| recover_all: "recoverProviderAttempts s ref runner leader at = (y, s') \<Longrightarrow> provider_step px s s'"
| reconciled: "reconcileProviderAttemptInputs s = (y, s') \<Longrightarrow> provider_step px s s'"
| estimated: "RecordProviderCostEstimate px s c prf estimate = (y, s') \<Longrightarrow> provider_step px s s'"
| approved: "ApproveProviderEstimatedAccounting s ref v fence = (y, s') \<Longrightarrow> provider_step px s s'"

abbreviation provider_run :: "provider_env \<Rightarrow> Store \<Rightarrow> Store \<Rightarrow> bool" where
  "provider_run px \<equiv> (provider_step px)^**"

inductive_cases provider_stepE: "provider_step px s s'"

lemma plain_finish_state [simp]: "fn_State (plain_finish state outcome usage at) = state"
  by (simp add: plain_finish_def)

text \<open>Every operation but the admission either refuses without an effect or is one of the shared transactions.\<close>

definition finishes :: "provider_env \<Rightarrow> Store \<Rightarrow> ProviderAttemptClaim \<Rightarrow> DrainProof \<Rightarrow> Store \<Rightarrow> bool" where
  "finishes px s c prf s' \<longleftrightarrow> s' = s \<or>
     (\<exists>v fence f y. finishProviderAttemptWithReceipt px s c prf v fence f = (y, s') \<and>
        (fn_State f = ''completed'' \<longrightarrow> fn_Result f \<noteq> None))"

lemma finishing_as:
  "FinishProviderAttempt px s c prf v fence state outcome usage at = (y, s') \<Longrightarrow> finishes px s c prf s'"
  "FinishProviderAttemptWithIndeterminateFailure px s c prf v fence reason usage at = (y, s') \<Longrightarrow> finishes px s c prf s'"
  "FinishProviderAttemptWithArtifactFailure px s c prf v fence reason usage at = (y, s') \<Longrightarrow> finishes px s c prf s'"
  "FinishProviderAttemptWithServerRejection px s c prf receipt at = (y, s') \<Longrightarrow> finishes px s c prf s'"
proof goal_cases
  case 1
  then show ?case unfolding finishes_def FinishProviderAttempt_def by (metis plain_finish_state prod.inject)
next
  case 2
  have "fn_State ((plain_finish ''failed'' ''result_indeterminate'' usage at)\<lparr>fn_Reason := Some reason\<rparr>) \<noteq> ''completed''" by simp
  with 2 show ?case
    unfolding finishes_def FinishProviderAttemptWithIndeterminateFailure_def by (metis prod.inject)
next
  case 3
  show ?case
  proof (cases "s' = s")
    case False
    with 3 obtain x where x: "finishProviderAttemptWithReceipt px s c prf v fence
        ((plain_finish ''failed'' PhaseResultInvalidArtifact usage at)\<lparr>fn_Failure := Some x\<rparr>) = (y, s')"
      by (auto simp: FinishProviderAttemptWithArtifactFailure_def split: if_splits sum.splits)
    have "fn_State ((plain_finish ''failed'' PhaseResultInvalidArtifact usage at)\<lparr>fn_Failure := Some x\<rparr>) \<noteq> ''completed''" by simp
    with x show ?thesis unfolding finishes_def by metis
  qed (simp add: finishes_def)
next
  case 4
  have "fn_State ((plain_finish ''failed'' providerServerRejected 0 at)\<lparr>fn_Receipt := Some receipt\<rparr>) \<noteq> ''completed''" by simp
  with 4 show ?case unfolding finishes_def FinishProviderAttemptWithServerRejection_def by metis
qed

lemma completing_as:
  assumes "CompleteProviderAttemptSuccess px s c prf v fence raw va at = (z, s')"
  shows "finishes px s c prf s'"
proof (cases "s' = s")
  case False
  with assms obtain result where res: "success_result (st_db s) c raw va = Inr result"
    by (cases "success_result (st_db s) c raw va") (auto simp: CompleteProviderAttemptSuccess_def)
  with assms False obtain e where "LoadProviderAttemptResult px (st_db s) c v fence = Inl e"
    by (cases "LoadProviderAttemptResult px (st_db s) c v fence") (auto simp: CompleteProviderAttemptSuccess_def split: if_splits)
  moreover obtain x s1 where fin: "finishProviderAttemptWithReceipt px s c prf v fence
      ((plain_finish ''completed'' ''completed'' (rs_UsageUnits raw) at)\<lparr>fn_Result := Some result\<rparr>) = (x, s1)" by (meson surj_pair)
  ultimately have "s' = s1"
    using assms res by (cases x) (auto simp: CompleteProviderAttemptSuccess_def split: sum.splits)
  with fin show ?thesis unfolding finishes_def by fastforce
qed (simp add: finishes_def)

lemma finishing_step: "ledger_ok (st_db s) \<Longrightarrow> finishes px s c prf s' \<Longrightarrow> ledger_step (st_db s) (st_db s')"
  unfolding finishes_def using finish_step keep_step by blast

lemma authority_step: "SetRecoveryAuthority s channel leader key = (y, s') \<Longrightarrow> ledger_step (st_db s) (st_db s')"
proof (cases "s' = s")
  case False
  assume "SetRecoveryAuthority s channel leader key = (y, s')"
  with False show ?thesis
    by (auto simp: SetRecoveryAuthority_def Let_def store_write_def guarded_def keep_step split: if_splits option.splits)
qed (simp add: keep_step)

lemma begin_step:
  assumes ok: "ledger_ok (st_db s)" and op: "BeginProviderAttempt px s r = (x, s')"
  shows "ledger_step (st_db s) (st_db s')"
proof (cases "s' = s")
  case False
  let ?r = "r\<lparr>ra_Input := (ra_Input r)\<lparr>in_Repair := None\<rparr>\<rparr>"
  from op False have "store_write s (BeginProviderAttempt_tx px (st_mutations s) ?r) = (x, s')"
    by (auto simp: BeginProviderAttempt_def Let_def split: if_splits)
  then show ?thesis by (rule write_rel) (use begin_tx_step [OF ok] keep_step in auto)
qed (simp add: keep_step)

lemma retiring_step:
  assumes ok: "ledger_ok (st_db s)"
  shows "RetireProviderAttemptAfterControlInvalidation px s c prf at = (y, s') \<Longrightarrow> ledger_step (st_db s) (st_db s')"
    and "RetireUnlaunchedProviderAttemptAfterControlInvalidation s c at = (y, s') \<Longrightarrow> ledger_step (st_db s) (st_db s')"
  using retire_step [OF ok]
  by (auto simp: RetireProviderAttemptAfterControlInvalidation_def RetireUnlaunchedProviderAttemptAfterControlInvalidation_def
      keep_step split: if_splits)

lemma provider_step_refines:
  "provider_step px s s' \<Longrightarrow> ledger_ok (st_db s) \<Longrightarrow> ledger_step^** (st_db s) (st_db s')"
proof (induction rule: provider_step.induct)
  case (reconciled s y s')
  then show ?case by (intro reconcile_steps)
qed (auto intro!: r_into_rtranclp intro: ledger_step.outside begin_step authority_step launch_step finishing_step finishing_as completing_as retiring_step
    before_launch_step quarantine_step budget_step recover_step quarantine_recovered_step recover_attempts_step estimate_step
    approve_step)

lemma ledger_steps_ok: "ledger_step^** d d' \<Longrightarrow> ledger_ok d \<Longrightarrow> ledger_ok d'"
  by (induction rule: rtranclp_induct) (auto intro: ledger_step_ok)

lemma provider_run_ok: "provider_run px s s' \<Longrightarrow> ledger_ok (st_db s) \<Longrightarrow> ledger_ok (st_db s')"
proof (induction rule: rtranclp_induct)
  case (step t u)
  then show ?case using provider_step_refines ledger_steps_ok by blast
qed

lemma steps_keep_rows:
  assumes "ledger_step^** d d'" and "a \<in> set (provider_attempts d)"
  shows "\<exists>b \<in> set (provider_attempts d'). same_identity a b \<and> (\<not> live_attempt a \<longrightarrow> b = a)"
  using assms(1)
proof (induction rule: rtranclp_induct)
  case (step d1 d2)
  then obtain b where b: "b \<in> set (provider_attempts d1)" "same_identity a b" "\<not> live_attempt a \<longrightarrow> b = a" by blast
  from step_keeps_rows [OF step.hyps(2) b(1)] obtain x where "x \<in> set (provider_attempts d2)" "attempt_move b x" by blast
  with b show ?case using move_identity move_ended same_identity_trans by blast
qed (use assms(2) in \<open>auto simp: same_identity_def\<close>)

lemma run_keeps_rows:
  assumes "provider_run px s s'" and "ledger_ok (st_db s)" and "a \<in> set (provider_attempts (st_db s))"
  shows "\<exists>b \<in> set (provider_attempts (st_db s')). same_identity a b \<and> (\<not> live_attempt a \<longrightarrow> b = a)"
proof -
  from assms(1,2) have "ledger_step^** (st_db s) (st_db s')"
  proof (induction rule: rtranclp_induct)
    case (step t u)
    with provider_run_ok [OF step.hyps(1)] provider_step_refines [OF step.hyps(2)] show ?case by auto
  qed simp
  from steps_keep_rows [OF this assms(3)] show ?thesis .
qed

lemma fresh_ledger_ok:
  "provider_attempts d = [] \<Longrightarrow> provider_attempt_results d = [] \<Longrightarrow> provider_phase_attempt_entries d = [] \<Longrightarrow>
     unique_key phase_run_pk (phase_runs d) \<Longrightarrow> ledger_ok d"
  by (simp add: ledger_ok_def unique_names_def runs_exist_def one_live_def live_count_def within_budget_def attempts_of_def
      bounded_entries_def entry_attempts_def independent_families_def evidence_complete_def unique_key_def count_where_def)

section \<open>A sample ledger\<close>

text \<open>A ticket in building with one attempt that has not launched yet; the concrete instances below use it.\<close>

definition ledger_provider :: ProviderIdentity where
  "ledger_provider = \<lparr>pv_Provider = ''claude'', pv_Model = ''m'', pv_Family = ''f'', pv_Version = ''1''\<rparr>"

definition ledger_attempt :: attempt_row where
  "ledger_attempt = \<lparr>w_Ref = sample_ref, w_State = ''active'', w_LaunchState = ''launching'', w_Repository = ''/srv/sf'', pa_ID = 1,
     pa_Phase = PhaseBuild, pa_Attempt = 1, pa_Role = ''builder'', pa_Identity = ledger_provider, pa_Outcome = ''running'',
     pa_UsageUnits = 0, pa_Finished = False, pa_QualificationID = Some 1, pa_BindingDigest = ''b'', pa_LeaseKey = ''k'',
     pa_LeaderEpoch = 2, pa_RunnerEpoch = 3, pa_ExpectedVersion = 5, pa_Worktree = ''/w'', pa_WorktreeIdentity = ''wi'',
     pa_BaseSHA = ''sha'', pa_SupervisorKey = ''key'', pa_AuthDigest = '''', pa_AuthMode = '''', pa_PID = 0, pa_PGID = 0,
     pa_BootIdentity = '''', pa_StartIdentity = ''''\<rparr>"

definition ledger_run :: phase_run_row where
  "ledger_run = \<lparr>pr_Ref = sample_ref, pr_Phase = PhaseBuild, pr_Attempt = 1, pr_State = ''active'', pr_LeaderEpoch = 2,
     pr_RunnerEpoch = 3, pr_ExpectedTicketVersion = 5, pr_Outcome = ''running'', pr_Identity = ledger_provider,
     pr_WorktreeIdentity = ''wi'', pr_BaseSHA = ''sha'', pr_Completed = False\<rparr>"

definition ledger_claim :: ProviderAttemptClaim where
  "ledger_claim = \<lparr>cl_ID = 1, cl_Ref = sample_ref, cl_Phase = PhaseBuild, cl_Role = ''builder'', cl_Attempt = 1,
     cl_Binding = \<lparr>rb_Identity = ledger_provider, rb_BinaryDigest = '''', rb_PolicyDigest = '''', rb_FixtureDigest = '''',
       rb_AuthDigest = '''', rb_AuthMode = ''''\<rparr>, cl_QualificationID = 1, cl_LeaseKey = ''k'', cl_BindingDigest = ''b'',
     cl_LeaderEpoch = 2, cl_RunnerEpoch = 3, cl_ExpectedVersion = 5, cl_Repository = ''/srv/sf'', cl_Worktree = ''/w'',
     cl_WorktreeIdentity = ''wi'', cl_BaseSHA = ''sha'', cl_SupervisorKey = ''key'', cl_Input = zero_input,
     cl_RequestDigest = ''rq'', cl_RequestPayload = ''''\<rparr>"

definition ledger_db :: db where
  "ledger_db = sample_db\<lparr>provider_attempts := [ledger_attempt], phase_runs := [ledger_run],
     provider_attempt_inputs := [\<lparr>ai_AttemptID = 1, ai_RequestDigest = ''rq'', ai_CanonicalInput = ''''\<rparr>],
     leases := [\<lparr>l_Ref = sample_ref, l_Scope = ''provider'', l_ScopeKey = ''k'', l_RunnerEpoch = 3, l_AcquiredAt = 1\<rparr>],
     provider_phase_attempt_entries := [\<lparr>ae_AttemptID = 1, ae_Ref = sample_ref, ae_Phase = PhaseBuild, ae_Role = ''builder'',
       ae_Attempt = 1, ae_EntryVersion = 4\<rparr>]\<rparr>"

definition ledger_store :: Store where
  "ledger_store = sample_store\<lparr>st_db := ledger_db\<rparr>"

definition ledger_fence :: Fence where
  "ledger_fence = \<lparr>LeaderEpoch = 2, RunnerEpoch = 3, ClaimEpoch = 0\<rparr>"

text \<open>The attempt fails before its process starts.\<close>

definition failed_store :: Store where
  "failed_store = snd (FailProviderAttemptBeforeLaunch ledger_store ledger_claim 5 ledger_fence 7)"

definition open_env :: provider_env where
  "open_env = \<lparr>px_verify = (\<lambda>_ _ _. True), px_currentEntry = (\<lambda>_ _ _ _ _ _. Inl ErrNotFound), px_retryEpoch = (\<lambda>_ _ _. Inr None),
     px_review = (\<lambda>_ _ _ _. Inl ErrNotFound), px_checkpoint = (\<lambda>_ _. Inl ErrNotFound), px_advance = (\<lambda>_ _ _ _ _. None),
     px_candidateRepair = (\<lambda>_ _ _ _. Some ErrNotFound), px_runnerAuthority = (\<lambda>_ _ _ _. None),
     px_repairReaches = (\<lambda>_ _ _ _. None)\<rparr>"

lemmas ledger_defs = ledger_store_def ledger_db_def ledger_attempt_def ledger_run_def ledger_provider_def sample_store_def sample_db_def

lemma ledger_db_ok: "ledger_ok ledger_db"
  by (simp add: ledger_ok_def unique_names_def runs_exist_def one_live_def live_count_def within_budget_def attempts_of_def
      bounded_entries_def entry_attempts_def independent_families_def evidence_complete_def unique_key_def count_where_def
      ledger_defs run_of_attempt_def live_attempt_def spent_units_def results_of_def ticket_at_def row_at_def sample_ticket_def)

lemma ledger_store_ok: "ledger_ok (st_db ledger_store)"
  using ledger_db_ok by (simp add: ledger_store_def)

lemma failed_run: "provider_run px ledger_store failed_store"
  unfolding failed_store_def by (rule r_into_rtranclp, rule provider_step.before_launch, rule surjective_pairing)

lemma failed_rows:
  "map (\<lambda>a. (pa_ID a, w_State a, pa_Outcome a, w_LaunchState a)) (provider_attempts (st_db failed_store)) =
     [(1, ''failed'', ''invocation_failed'', ''drained'')] \<and> map pr_State (phase_runs (st_db failed_store)) = [''failed''] \<and>
   leases (st_db failed_store) = []"
  by code_simp

section \<open>The properties\<close>

text \<open>C4: The budget of a ticket is never exceeded. Over every sequence of operations on attempts, with the other
operations of the Store in between, the usage charged to the attempts of a ticket is never negative and never
sums to more than the ticket's maximum cost.\<close>

theorem budget_never_exceeded:
  assumes "provider_run px s s'" and "ledger_ok (st_db s)" and "ticket_at (st_db s') ref = Some t"
    and "attempts_of (st_db s') ref \<noteq> []"
  shows "0 \<le> spent_units (st_db s') ref \<and> spent_units (st_db s') ref \<le> t_MaxCostMicroUSD t"
proof -
  from provider_run_ok [OF assms(1,2)] have budget: "within_budget (st_db s')" by (simp add: ledger_ok_def)
  then have "0 \<le> spent_units (st_db s') ref"
    unfolding spent_units_def by (intro sum_list_nonneg) (auto simp: attempts_of_def within_budget_def)
  with budget assms(3,4) show ?thesis by (auto simp: within_budget_def)
qed

theorem budget_never_exceeded_witness:
  "0 \<le> spent_units (st_db failed_store) sample_ref \<and> spent_units (st_db failed_store) sample_ref \<le> 0"
proof -
  have "map t_MaxCostMicroUSD (tickets (st_db failed_store)) = [0] \<and> map t_Ref (tickets (st_db failed_store)) = [sample_ref] \<and>
      map w_Ref (provider_attempts (st_db failed_store)) = [sample_ref]" by code_simp
  then obtain t where "ticket_at (st_db failed_store) sample_ref = Some t" "t_MaxCostMicroUSD t = 0"
    "attempts_of (st_db failed_store) sample_ref \<noteq> []"
    by (auto simp: ticket_at_def row_at_def attempts_of_def)
  with budget_never_exceeded [OF failed_run ledger_store_ok, of sample_ref t] show ?thesis by simp
qed


text \<open>An attempt whose process may still run keeps its phase.\<close>

definition quarantined_store :: Store where
  "quarantined_store = snd (QuarantineProviderAttempt ledger_store ledger_claim 5 ledger_fence 7)"

definition quarantined_attempt :: attempt_row where
  "quarantined_attempt = ledger_attempt\<lparr>w_State := ''quarantined'', pa_Outcome := ''undrained''\<rparr>"

lemma quarantined_rows: "provider_attempts (st_db quarantined_store) = [quarantined_attempt]"
  by code_simp

lemma quarantined_run: "provider_run px ledger_store quarantined_store"
  unfolding quarantined_store_def by (rule r_into_rtranclp, rule provider_step.quarantined, rule surjective_pairing)


text \<open>C8: The attempts of a ticket's builder and reviewer never use models of one family, whatever operations are
performed and in whatever order they are admitted.\<close>

theorem builder_reviewer_independent:
  assumes "provider_run px s s'" and "ledger_ok (st_db s)" and "a \<in> set (provider_attempts (st_db s'))"
    and "b \<in> set (provider_attempts (st_db s'))" and "w_Ref a = w_Ref b" and "pa_Role a = ''builder''" and "pa_Role b = ''reviewer''"
  shows "pv_Family (pa_Identity a) \<noteq> pv_Family (pa_Identity b)"
  using provider_run_ok [OF assms(1,2)] assms(3-7) by (simp add: ledger_ok_def independent_families_def)

definition reviewer_attempt :: attempt_row where
  "reviewer_attempt = ledger_attempt\<lparr>pa_ID := 2, pa_Phase := PhaseVerification, pa_Role := ''reviewer'', w_State := ''failed'',
     pa_Outcome := ''failed'', pa_Identity := ledger_provider\<lparr>pv_Family := ''g''\<rparr>\<rparr>"

definition reviewed_db :: db where
  "reviewed_db = ledger_db\<lparr>provider_attempts := [ledger_attempt, reviewer_attempt],
     phase_runs := [ledger_run, ledger_run\<lparr>pr_Phase := PhaseVerification, pr_State := ''failed'', pr_Outcome := ''failed'',
       pr_Identity := ledger_provider\<lparr>pv_Family := ''g''\<rparr>\<rparr>]\<rparr>"

lemma reviewed_db_ok: "ledger_ok reviewed_db"
  by (simp add: ledger_ok_def unique_names_def runs_exist_def one_live_def live_count_def within_budget_def attempts_of_def
      bounded_entries_def entry_attempts_def independent_families_def evidence_complete_def unique_key_def count_where_def
      ledger_defs run_of_attempt_def live_attempt_def spent_units_def results_of_def ticket_at_def row_at_def sample_ticket_def
      reviewed_db_def reviewer_attempt_def run_key_def phase_run_pk_def PhaseBuild_def PhaseVerification_def)

theorem builder_reviewer_independent_witness: "''f'' \<noteq> pv_Family (pa_Identity reviewer_attempt)"
  using builder_reviewer_independent [OF rtranclp.rtrancl_refl, of "ledger_store\<lparr>st_db := reviewed_db\<rparr>" ledger_attempt reviewer_attempt]
    reviewed_db_ok
  by (simp add: reviewed_db_def) (simp add: ledger_defs reviewer_attempt_def)

text \<open>C9: What an attempt ended as is final. Once an attempt is completed, failed or cancelled, no operation on
attempts and no later admission changes any column of its row again.\<close>

theorem ended_attempts_are_final:
  assumes "provider_run px s s'" and "ledger_ok (st_db s)" and "attempt_at (st_db s) i = Some a" and "\<not> live_attempt a"
  shows "attempt_at (st_db s') i = Some a"
proof -
  from attempt_at_Some [OF assms(3)] have a: "pa_ID a = i" "a \<in> set (provider_attempts (st_db s))" by simp_all
  from run_keeps_rows [OF assms(1,2) a(2)] assms(4) have "a \<in> set (provider_attempts (st_db s'))" by auto
  from attempt_at_unique [OF provider_run_ok [OF assms(1,2)] this] a(1) show ?thesis by simp
qed

definition failed_attempt :: attempt_row where
  "failed_attempt = end_attempt ''failed'' ''invocation_failed'' None ledger_attempt"

lemma failed_store_row: "attempt_at (st_db failed_store) 1 = Some failed_attempt"
  by code_simp

lemma failed_store_ok: "ledger_ok (st_db failed_store)"
  by (rule provider_run_ok [OF failed_run [of open_env] ledger_store_ok])

theorem ended_attempts_are_final_witness:
  "attempt_at (st_db (snd (QuarantineRecoveredProviderAttemptClaim failed_store ledger_claim 2 9))) 1 = Some failed_attempt"
proof (rule ended_attempts_are_final [OF _ failed_store_ok failed_store_row])
  show "provider_run open_env failed_store (snd (QuarantineRecoveredProviderAttemptClaim failed_store ledger_claim 2 9))"
    by (rule r_into_rtranclp, rule provider_step.quarantine_recovered, rule surjective_pairing)
  show "\<not> live_attempt failed_attempt" by (simp add: failed_attempt_def end_attempt_def live_attempt_def)
qed

text \<open>C3: Evidence is complete and authentic. Over every sequence of operations an attempt is completed exactly when a
result is stored for it; the result is the only one, repeats the identity of the attempt, and authenticates: its
texts have the stored digests, and the provider's bytes parse again to the stored typed artifact.\<close>

theorem completed_means_evidence:
  assumes "provider_run px s s'" and "ledger_ok (st_db s)" and "a \<in> set (provider_attempts (st_db s'))"
  shows "if w_State a = ''completed'' then \<exists>r. results_of (st_db s') (pa_ID a) = [r] \<and> evidence_of a r
         else results_of (st_db s') (pa_ID a) = []"
  using provider_run_ok [OF assms(1,2)] assms(3) by (simp add: ledger_ok_def evidence_complete_def)

theorem completed_means_evidence_witness: "results_of (st_db failed_store) 1 = []"
  using completed_means_evidence [OF failed_run [of open_env] ledger_store_ok, of failed_attempt]
    attempt_at_Some [OF failed_store_row]
  by (simp add: failed_attempt_def end_attempt_def)

section \<open>Giving up a process\<close>

text \<open>
  A signed proof that the process of an attempt is gone: it names the attempt, and it verifies under the supervisor
  key of the attempt or under a recovery key of its channel.
\<close>

definition drain_proven :: "provider_env \<Rightarrow> db \<Rightarrow> attempt_row \<Rightarrow> bool" where
  "drain_proven px d a \<longleftrightarrow> (\<exists>c key prf. bound_row c a \<and> VerifyDrainProof (px_verify px) key (drainRequestForClaim c) prf \<and>
     (key = pa_SupervisorKey a \<or>
      (\<exists>r \<in> set (daemon_instances d). d_Channel r = Channel (w_Ref a) \<and> d_RecoveryKey r = key)))"

text \<open>An attempt that may have a process: live, and not certainly before its launch.\<close>

definition may_run :: "attempt_row \<Rightarrow> bool" where
  "may_run a \<longleftrightarrow> live_attempt a \<and> \<not> unlaunched a"

definition gives_up_safely :: "provider_env \<Rightarrow> db \<Rightarrow> db \<Rightarrow> bool" where
  "gives_up_safely px d d' \<longleftrightarrow> (\<forall>a \<in> set (provider_attempts d). \<forall>b \<in> set (provider_attempts d').
     pa_ID b = pa_ID a \<longrightarrow> may_run a \<longrightarrow> \<not> may_run b \<longrightarrow> drain_proven px d a)"

lemma safe_rows:
  assumes ok: "ledger_ok d" and d': "provider_attempts d' = update_where p f (provider_attempts d)"
    and f: "\<And>a. pa_ID (f a) = pa_ID a"
    and p: "\<And>a. a \<in> set (provider_attempts d) \<Longrightarrow> p a \<Longrightarrow> may_run a \<Longrightarrow> \<not> may_run (f a) \<Longrightarrow> drain_proven px d a"
  shows "gives_up_safely px d d'"
  unfolding gives_up_safely_def d' update_where_def
proof (intro ballI impI)
  fix a b assume a: "a \<in> set (provider_attempts d)" "may_run a"
    and b: "b \<in> set (map (\<lambda>r. if p r then f r else r) (provider_attempts d))" "pa_ID b = pa_ID a" "\<not> may_run b"
  from b(1) obtain x where x: "x \<in> set (provider_attempts d)" "b = (if p x then f x else x)" by auto
  have "x = a"
    using unique_key_eq [of pa_ID "provider_attempts d" x a] ok x a b(2) f by (auto simp: ledger_ok_def unique_names_def split: if_splits)
  with x a b(3) p show "drain_proven px d a" by (auto split: if_splits)
qed

lemma safe_same: "ledger_ok d \<Longrightarrow> provider_attempts d' = provider_attempts d \<Longrightarrow> gives_up_safely px d d'"
  by (rule safe_rows [where p = "\<lambda>_. False" and f = id]) (simp_all add: update_where_def)

lemma safe_refl: "ledger_ok d \<Longrightarrow> gives_up_safely px d d"
  by (rule safe_same) simp_all

lemma claims_drain:
  "claims_row c a \<Longrightarrow> VerifyDrainProof (px_verify px) (cl_SupervisorKey c) (drainRequestForClaim c) prf \<Longrightarrow> drain_proven px d a"
  unfolding drain_proven_def claims_row_def by blast

text \<open>The claim of a transaction names the row that it authenticated.\<close>

lemma claimed_row:
  assumes "ledger_ok d" and "loadAuthenticatedProviderAttemptClaim d (cl_ID c) = Inr c"
    and "b \<in> set (provider_attempts d)" and "pa_ID b = cl_ID c"
  shows "claims_row c b"
proof -
  obtain a where a: "attempt_at d (cl_ID c) = Some a" "claims_row c a" by (rule authentic_claim [OF assms(2)])
  with attempt_at_unique [OF assms(1,3)] assms(4) show ?thesis by simp
qed

lemma finish_safe:
  assumes ok: "ledger_ok (st_db s)" and "finishes px s c prf s'"
  shows "gives_up_safely px (st_db s) (st_db s')"
proof (cases "s' = s")
  case False
  with assms(2) obtain v fence f y where op: "finishProviderAttemptWithReceipt px s c prf v fence f = (y, s')"
    by (auto simp: finishes_def)
  show ?thesis
  proof (cases "finish_input px c prf fence f")
    case None
    with op have "store_write s (finish_tx px c v fence f) = (y, s')" by (simp add: finishProviderAttemptWithReceipt_def)
    then show ?thesis
    proof (rule write_rel)
      fix u d' assume "finish_tx px c v fence f (st_db s) = Inr (u, d')"
      then show "gives_up_safely px (st_db s) d'"
      proof (cases rule: finish_tx_cases)
        case (finished t a x)
        note rows = finish_rows_Inr(3) [OF finished(4)] and load = finish_authority_Inr(4) [OF finished(1)]
        show ?thesis
        proof (rule safe_rows [OF ok])
          show "provider_attempts d' = update_where (\<lambda>a. names_attempt c a \<and> w_State a = ''active'')
              (end_attempt (fn_State f) (fn_Outcome f) (Some (fn_Usage f))) (provider_attempts (st_db s))" using rows by simp
          fix b assume "b \<in> set (provider_attempts (st_db s))" "names_attempt c b \<and> w_State b = ''active''"
          then show "drain_proven px (st_db s) b"
            using claims_drain [OF claimed_row [OF ok load] finish_input_facts(4) [OF None]] by (simp add: names_attempt_def)
        qed (simp add: end_attempt_def)
      qed (simp add: safe_refl ok)
    qed (simp add: safe_refl ok)
  qed (use op safe_refl ok in \<open>simp add: finishProviderAttemptWithReceipt_def\<close>)
qed (simp add: safe_refl ok)

lemma end_rows:
  "change_attempt p (end_attempt state outcome usage) d = Inr d1 \<Longrightarrow> change_run q g d1 = Inr d2 \<Longrightarrow>
     provider_attempts (release_claim_lease c d2) = update_where p (end_attempt state outcome usage) (provider_attempts d)"
  by (auto simp: change_attempt_Inr change_run_Inr release_claim_lease_def)

lemma retire_tx_facts:
  assumes "retire_tx c b d = Inr (u, d')"
  obtains a d1 d2 where "loadAuthenticatedProviderAttemptClaim d (cl_ID c) = Inr c" and "attempt_at d (cl_ID c) = Some a"
    and "b \<Longrightarrow> unlaunched a" and "revoked_by_control d c = None"
    and "change_attempt (\<lambda>a. bound_row c a \<and> w_State a = ''active'') (end_attempt ''cancelled'' ''cancelled'' (Some 0)) d = Inr d1"
    and "change_run (identified_run c) (end_run ''cancelled'' ''cancelled'') d1 = Inr d2" and "d' = release_claim_lease c d2"
proof -
  obtain p where p: "loadAuthenticatedProviderAttemptClaim d (cl_ID c) = Inr p"
    using assms by (cases "loadAuthenticatedProviderAttemptClaim d (cl_ID c)") (auto simp: retire_tx_def)
  moreover obtain a where a: "attempt_at d (cl_ID c) = Some a"
    using assms p by (cases "attempt_at d (cl_ID c)") (auto simp: retire_tx_def)
  moreover have "c = p" using assms p same_claim by (auto simp: retire_tx_def)
  ultimately show ?thesis using assms that unfolding retire_tx_def by auto
qed

lemma retire_safe:
  assumes ok: "ledger_ok (st_db s)" and op: "retireProviderAttemptAfterControlInvalidation s c b = (y, s')"
    and proven: "b \<or> VerifyDrainProof (px_verify px) (cl_SupervisorKey c) (drainRequestForClaim c) prf"
  shows "gives_up_safely px (st_db s) (st_db s')"
proof (cases "s' = s")
  case False
  with op have "store_write s (retire_tx c b) = (y, s')"
    by (auto simp: retireProviderAttemptAfterControlInvalidation_def split: if_splits)
  then show ?thesis
  proof (rule write_rel)
    fix u d' assume "retire_tx c b (st_db s) = Inr (u, d')"
    then show "gives_up_safely px (st_db s) d'"
    proof (cases rule: retire_tx_facts)
      case (1 a d1 d2)
      show ?thesis
      proof (rule safe_rows [OF ok])
        show "provider_attempts d' = update_where (\<lambda>a. bound_row c a \<and> w_State a = ''active'')
            (end_attempt ''cancelled'' ''cancelled'' (Some 0)) (provider_attempts (st_db s))"
          unfolding 1(7) by (rule end_rows [OF 1(5,6)])
        fix x assume x: "x \<in> set (provider_attempts (st_db s))" "bound_row c x \<and> w_State x = ''active''" "may_run x"
        then have row: "claims_row c x" "x = a"
          using claimed_row [OF ok 1(1) x(1)] attempt_at_unique [OF ok x(1)] 1(2) by (simp_all add: bound_row_def names_attempt_def)
        with x(3) 1(3) proven show "drain_proven px (st_db s) x" by (auto simp: may_run_def intro: claims_drain)
      qed (simp add: end_attempt_def)
    qed
  qed (simp add: safe_refl ok)
qed (simp add: safe_refl ok)

lemma budget_safe:
  assumes ok: "ledger_ok (st_db s)" and op: "FailProviderAttemptBudget px s c prf v fence usage at = (y, s')"
  shows "gives_up_safely px (st_db s) (st_db s')"
proof (cases "s' = s")
  case False
  with op have w: "store_write s (FailProviderAttemptBudget_tx c v fence usage at) = (y, s')"
    and verified: "VerifyDrainProof (px_verify px) (cl_SupervisorKey c) (drainRequestForClaim c) prf"
    by (auto simp: FailProviderAttemptBudget_def split: if_splits)
  from w show ?thesis
  proof (rule write_rel)
    fix u d' assume "FailProviderAttemptBudget_tx c v fence usage at (st_db s) = Inr (u, d')"
    then show "gives_up_safely px (st_db s) d'"
    proof (cases rule: budget_tx_facts)
      case (1 t d1 d2)
      show ?thesis
      proof (rule safe_rows [OF ok])
        show "provider_attempts d' = update_where (\<lambda>a. bound_row c a \<and> w_State a = ''active'')
            (end_attempt ''failed'' ''budget_exhausted'' (Some (charged (t_MaxCostMicroUSD t - others_spent (st_db s) c) usage)))
            (provider_attempts (st_db s))"
          unfolding 1(5) by (rule end_rows [OF 1(3,4)])
        fix x assume x: "x \<in> set (provider_attempts (st_db s))" "bound_row c x \<and> w_State x = ''active''"
        then show "drain_proven px (st_db s) x"
          using claims_drain [OF claimed_row [OF ok 1(2) x(1)] verified] by (simp add: bound_row_def names_attempt_def)
      qed (simp add: end_attempt_def)
    qed
  qed (simp add: safe_refl ok)
qed (simp add: safe_refl ok)

lemma recover_safe:
  assumes ok: "ledger_ok (st_db s)" and op: "RecoverProviderAttemptClaimWithProof px s c leader prf at = (y, s')"
  shows "gives_up_safely px (st_db s) (st_db s')"
proof (cases "s' = s")
  case False
  with op obtain r where r: "List.find (\<lambda>r. d_Channel r = Channel (cl_Ref c) \<and> d_LeaderEpoch r = leader) (daemon_instances (st_db s)) = Some r"
    by (auto simp: RecoverProviderAttemptClaimWithProof_def split: option.splits)
  with op False have w: "store_write s (recoverProviderAttemptClaim_tx c leader) = (y, s')"
    and verified: "VerifyDrainProof (px_verify px) (d_RecoveryKey r) (drainRequestForClaim c) prf"
    by (auto simp: RecoverProviderAttemptClaimWithProof_def recoverProviderAttemptClaim_def split: if_splits)
  from r have key: "r \<in> set (daemon_instances (st_db s))" "d_Channel r = Channel (cl_Ref c)" by (auto simp: find_Some_iff)
  from w show ?thesis
  proof (rule write_rel)
    fix u d' assume "recoverProviderAttemptClaim_tx c leader (st_db s) = Inr (u, d')"
    then show "gives_up_safely px (st_db s) d'"
    proof (cases rule: recover_tx_facts)
      case (1 a d1)
      show ?thesis
      proof (rule safe_rows [OF ok])
        show "provider_attempts d' = update_where (\<lambda>a. pa_ID a = cl_ID c \<and> (w_State a = ''active'' \<or> w_State a = ''quarantined''))
            (end_attempt ''cancelled'' ''drained_recovery'' None) (provider_attempts (st_db s))"
          using 1(4,5) by (simp add: release_claim_lease_def)
        fix x assume x: "x \<in> set (provider_attempts (st_db s))"
          "pa_ID x = cl_ID c \<and> (w_State x = ''active'' \<or> w_State x = ''quarantined'')"
        have "x = a"
          using unique_key_eq [of pa_ID "provider_attempts (st_db s)" x a] ok x 1(2,3)
          by (simp add: ledger_ok_def unique_names_def bound_row_def names_attempt_def)
        moreover have "w_Ref a = cl_Ref c" using 1(3) by (simp add: bound_row_def names_attempt_def)
        ultimately show "drain_proven px (st_db s) x"
          using 1(3) verified key unfolding drain_proven_def by metis
      qed (simp add: end_attempt_def)
    qed
  qed (simp add: safe_refl ok)
qed (simp add: safe_refl ok)

text \<open>The other operations never end an attempt that may have a process.\<close>

lemma plain_rows_safe:
  assumes ok: "ledger_ok d" and d': "provider_attempts d' = update_where p f (provider_attempts d)"
    and f: "\<And>a. pa_ID (f a) = pa_ID a" "\<And>a. p a \<Longrightarrow> may_run a \<Longrightarrow> may_run (f a)"
  shows "gives_up_safely px d d'"
  using safe_rows [OF ok d' f(1)] f(2) by blast

lemma launch_safe:
  assumes ok: "ledger_ok (st_db s)" and op: "RecordProviderLaunch s c ln = (y, s')"
  shows "gives_up_safely px (st_db s) (st_db s')"
proof (cases "s' = s")
  case False
  with op have w: "store_write s (\<lambda>d. and_then (change_attempt (\<lambda>a. bound_row c a \<and> w_State a = ''active'' \<and>
          w_LaunchState a = ''launching'' \<and> pa_Worktree a = ln_Worktree ln \<and> has_request_digest d c)
        (\<lambda>a. a\<lparr>pa_PID := ln_PID ln, pa_PGID := ln_PGID ln, pa_BootIdentity := ln_BootIdentity ln,
             pa_StartIdentity := ln_ProcessStartIdentity ln, w_LaunchState := ''released''\<rparr>) d) (\<lambda>d'. Inr ((), d'))) = (y, s')"
    by (auto simp: RecordProviderLaunch_def split: if_splits)
  then show ?thesis
  proof (rule write_rel)
    fix u d' assume "and_then (change_attempt (\<lambda>a. bound_row c a \<and> w_State a = ''active'' \<and>
          w_LaunchState a = ''launching'' \<and> pa_Worktree a = ln_Worktree ln \<and> has_request_digest (st_db s) c)
        (\<lambda>a. a\<lparr>pa_PID := ln_PID ln, pa_PGID := ln_PGID ln, pa_BootIdentity := ln_BootIdentity ln,
             pa_StartIdentity := ln_ProcessStartIdentity ln, w_LaunchState := ''released''\<rparr>) (st_db s)) (\<lambda>d'. Inr ((), d')) = Inr (u, d')"
    then have rows: "provider_attempts d' = update_where (\<lambda>a. bound_row c a \<and> w_State a = ''active'' \<and>
          w_LaunchState a = ''launching'' \<and> pa_Worktree a = ln_Worktree ln \<and> has_request_digest (st_db s) c)
        (\<lambda>a. a\<lparr>pa_PID := ln_PID ln, pa_PGID := ln_PGID ln, pa_BootIdentity := ln_BootIdentity ln,
             pa_StartIdentity := ln_ProcessStartIdentity ln, w_LaunchState := ''released''\<rparr>) (provider_attempts (st_db s))"
      by (auto simp: change_attempt_Inr)
    show "gives_up_safely px (st_db s) d'"
      by (rule plain_rows_safe [OF ok rows]) (simp_all add: may_run_def live_attempt_def unlaunched_def)
  qed (simp add: safe_refl ok)
qed (simp add: safe_refl ok)

lemma before_launch_safe:
  assumes ok: "ledger_ok (st_db s)" and op: "FailProviderAttemptBeforeLaunch s c v fence at = (y, s')"
  shows "gives_up_safely px (st_db s) (st_db s')"
proof (cases "s' = s")
  case False
  with op have "store_write s (FailProviderAttemptBeforeLaunch_tx c v fence) = (y, s')"
    by (auto simp: FailProviderAttemptBeforeLaunch_def split: if_splits)
  then show ?thesis
  proof (rule write_rel)
    fix u d' assume "FailProviderAttemptBeforeLaunch_tx c v fence (st_db s) = Inr (u, d')"
    then have rows: "provider_attempts d' = update_where (\<lambda>a. bound_row c a \<and> w_State a = ''active'' \<and> unlaunched a \<and>
        has_request_digest (st_db s) c) (end_attempt ''failed'' ''invocation_failed'' None) (provider_attempts (st_db s))"
      unfolding FailProviderAttemptBeforeLaunch_tx_def by (auto dest: end_rows)
    show "gives_up_safely px (st_db s) d'"
      by (rule plain_rows_safe [OF ok rows]) (simp_all add: may_run_def end_attempt_def)
  qed (simp add: safe_refl ok)
qed (simp add: safe_refl ok)

text \<open>Quarantine only changes the state, the outcome and the launch state of a row, and never to a launch that is pending.\<close>

definition doubts :: "db \<Rightarrow> db \<Rightarrow> bool" where
  "doubts d d' \<longleftrightarrow> (\<exists>p f. provider_attempts d' = update_where p f (provider_attempts d) \<and> (\<forall>a. pa_ID (f a) = pa_ID a) \<and>
     (\<forall>a. p a \<longrightarrow> may_run a \<longrightarrow> may_run (f a)))"

lemma doubts_refl: "doubts d d"
  unfolding doubts_def by (intro exI [of _ "\<lambda>_. False"] exI [of _ id]) (simp add: update_where_def)

lemma doubts_intro:
  "provider_attempts d' = update_where p f (provider_attempts d) \<Longrightarrow> (\<And>a. pa_ID (f a) = pa_ID a) \<Longrightarrow>
     (\<And>a. p a \<Longrightarrow> may_run a \<Longrightarrow> may_run (f a)) \<Longrightarrow> doubts d d'"
  unfolding doubts_def by blast

lemma doubts_safe: "ledger_ok d \<Longrightarrow> doubts d d' \<Longrightarrow> gives_up_safely px d d'"
  unfolding doubts_def using plain_rows_safe by blast

lemma undrained_may_run: "may_run a \<Longrightarrow> may_run (undrained_recovery a)"
  by (simp add: may_run_def live_attempt_def unlaunched_def undrained_recovery_def)

lemma quarantine_doubts:
  assumes "QuarantineProviderAttempt s c v fence at = (y, s')"
  shows "doubts (st_db s) (st_db s')"
proof (cases "s' = s")
  case False
  with assms have "store_write s (QuarantineProviderAttempt_tx c v fence) = (y, s')"
    by (auto simp: QuarantineProviderAttempt_def split: if_splits)
  then show ?thesis
  proof (rule write_rel)
    fix u d' assume "QuarantineProviderAttempt_tx c v fence (st_db s) = Inr (u, d')"
    then have "provider_attempts d' = update_where (\<lambda>a. names_attempt c a \<and> w_State a = ''active'')
        (\<lambda>a. a\<lparr>w_State := ''quarantined'', pa_Outcome := ''undrained''\<rparr>) (provider_attempts (st_db s))"
      by (cases "ticket_at (st_db s) (cl_Ref c)") (auto simp: QuarantineProviderAttempt_tx_def change_attempt_Inr)
    then show "doubts (st_db s) d'" by (rule doubts_intro) (simp_all add: may_run_def live_attempt_def unlaunched_def)
  qed (rule doubts_refl)
qed (simp add: doubts_refl)

lemma quarantine_recovered_doubts:
  assumes "QuarantineRecoveredProviderAttemptClaim s c leader at = (y, s')"
  shows "doubts (st_db s) (st_db s')"
proof (cases "s' = s")
  case False
  with assms have "store_write s (QuarantineRecovered_tx c leader) = (y, s')"
    by (auto simp: QuarantineRecoveredProviderAttemptClaim_def split: if_splits)
  then show ?thesis
  proof (rule write_rel)
    fix u d' assume "QuarantineRecovered_tx c leader (st_db s) = Inr (u, d')"
    then have "provider_attempts d' = update_where
        (\<lambda>a. bound_row c a \<and> (w_State a = ''active'' \<or> w_State a = ''quarantined'')) undrained_recovery (provider_attempts (st_db s))"
      by (cases "leader_at (st_db s) (Channel (cl_Ref c))") (auto simp: QuarantineRecovered_tx_def change_attempt_Inr)
    then show "doubts (st_db s) d'" by (rule doubts_intro) (use undrained_may_run in \<open>simp_all add: undrained_recovery_def\<close>)
  qed (rule doubts_refl)
qed (simp add: doubts_refl)

lemma recover_attempts_doubts:
  assumes "recoverProviderAttempts s ref runner leader at = (y, s')"
  shows "doubts (st_db s) (st_db s')"
proof (cases "s' = s")
  case False
  with assms have "store_write s (quarantineProviderAttempts_tx ref runner leader) = (y, s')"
    by (auto simp: recoverProviderAttempts_def split: if_splits)
  then show ?thesis
  proof (rule write_rel)
    fix u d' assume "quarantineProviderAttempts_tx ref runner leader (st_db s) = Inr (u, d')"
    then have "provider_attempts d' = update_where
        (\<lambda>a. w_Ref a = ref \<and> w_State a = ''active'' \<and> pa_LeaderEpoch a = leader \<and> pa_RunnerEpoch a = runner)
        (\<lambda>a. a\<lparr>w_State := ''quarantined'', pa_Outcome := ''undrained_recovery''\<rparr>) (provider_attempts (st_db s))"
      by (cases "leader_at (st_db s) (Channel ref)"; cases "ticket_at (st_db s) ref") (auto simp: quarantineProviderAttempts_tx_def)
    then show "doubts (st_db s) d'" by (rule doubts_intro) (simp_all add: may_run_def live_attempt_def unlaunched_def)
  qed (rule doubts_refl)
qed (simp add: doubts_refl)

text \<open>Reconciliation fails only attempts that certainly never launched.\<close>

definition keeps_running :: "db \<Rightarrow> db \<Rightarrow> bool" where
  "keeps_running d d' \<longleftrightarrow> (\<forall>b \<in> set (provider_attempts d'). \<exists>a \<in> set (provider_attempts d). pa_ID a = pa_ID b \<and> (may_run a \<longrightarrow> may_run b))"

lemma keeps_update:
  assumes "provider_attempts d' = update_where p f (provider_attempts d)" and "\<And>a. pa_ID (f a) = pa_ID a"
    and "\<And>a. p a \<Longrightarrow> may_run a \<Longrightarrow> may_run (f a)"
  shows "keeps_running d d'"
  unfolding keeps_running_def
proof
  fix b assume "b \<in> set (provider_attempts d')"
  with assms(1) obtain a where "a \<in> set (provider_attempts d)" "b = (if p a then f a else a)" by (auto simp: update_where_def)
  with assms(2,3) show "\<exists>a \<in> set (provider_attempts d). pa_ID a = pa_ID b \<and> (may_run a \<longrightarrow> may_run b)" by (intro bexI [of _ a]) auto
qed

lemma reconcile_attempt_keeps:
  assumes "reconcile_attempt a d = Inr d'"
  shows "keeps_running d d'"
proof (cases "unlaunched a")
  case True
  with assms have "provider_attempts d' = update_where (\<lambda>x. pa_ID x = pa_ID a \<and> live_attempt x \<and> unlaunched x) never_verified
      (provider_attempts d)" by (auto simp: reconcile_attempt_def split: if_splits)
  then show ?thesis by (rule keeps_update) (simp_all add: never_verified_def may_run_def)
next
  case False
  with assms have "provider_attempts d' = update_where (\<lambda>x. pa_ID x = pa_ID a \<and> live_attempt x) undrained_recovery
      (provider_attempts d)" by (auto simp: reconcile_attempt_def)
  then show ?thesis by (rule keeps_update) (use undrained_may_run in \<open>simp_all add: undrained_recovery_def\<close>)
qed

lemma each_reconciled_keeps: "each_row reconcile_attempt as d = Inr d' \<Longrightarrow> keeps_running d d'"
proof (induction as arbitrary: d)
  case (Cons a as)
  then obtain d1 where "reconcile_attempt a d = Inr d1" and rest: "each_row reconcile_attempt as d1 = Inr d'"
    by (auto split: sum.splits)
  from reconcile_attempt_keeps [OF this(1)] Cons.IH [OF rest] show ?case unfolding keeps_running_def by metis
qed (auto simp: keeps_running_def)

lemma keeps_safe:
  assumes "ledger_ok d" and "keeps_running d d'"
  shows "gives_up_safely px d d'"
  unfolding gives_up_safely_def
proof (intro ballI impI)
  fix a b assume a: "a \<in> set (provider_attempts d)" "may_run a" and b: "b \<in> set (provider_attempts d')" "pa_ID b = pa_ID a" "\<not> may_run b"
  from assms(2) b(1) obtain x where x: "x \<in> set (provider_attempts d)" "pa_ID x = pa_ID b" "may_run x \<longrightarrow> may_run b"
    unfolding keeps_running_def by blast
  with unique_key_eq [of pa_ID "provider_attempts d" x a] assms(1) a b(2) have "x = a"
    by (simp add: ledger_ok_def unique_names_def)
  with x a b show "drain_proven px d a" by simp
qed

lemma reconcile_safe:
  assumes ok: "ledger_ok (st_db s)" and op: "reconcileProviderAttemptInputs s = (y, s')"
  shows "gives_up_safely px (st_db s) (st_db s')"
  using op unfolding reconcileProviderAttemptInputs_def
proof (rule write_rel)
  fix u d' assume "and_then (each_row reconcile_attempt (unverifiable_attempts (st_db s)) (st_db s)) (\<lambda>d'. Inr ((), d')) = Inr (u, d')"
  then have "each_row reconcile_attempt (unverifiable_attempts (st_db s)) (st_db s) = Inr d'" by simp
  from keeps_safe [OF ok each_reconciled_keeps [OF this]] show "gives_up_safely px (st_db s) d'" .
qed (simp add: safe_refl ok)

lemma begin_safe:
  assumes ok: "ledger_ok (st_db s)" and op: "BeginProviderAttempt px s r = (x, s')"
  shows "gives_up_safely px (st_db s) (st_db s')"
proof (cases "s' = s")
  case False
  let ?r = "r\<lparr>ra_Input := (ra_Input r)\<lparr>in_Repair := None\<rparr>\<rparr>"
  from op False have "store_write s (BeginProviderAttempt_tx px (st_mutations s) ?r) = (x, s')"
    by (auto simp: BeginProviderAttempt_def Let_def split: if_splits)
  then show ?thesis
  proof (rule write_rel)
    fix u d' assume "BeginProviderAttempt_tx px (st_mutations s) ?r (st_db s) = Inr (u, d')"
    then show "gives_up_safely px (st_db s) d'"
    proof (cases rule: begin_tx_cases)
      case (1 t ad lease ls)
      have rows: "provider_attempts d' = insert_row (new_attempt (next_attempt_id (st_db s)) ?r ad lease) (provider_attempts (st_db s))"
        using 1(5) by (simp add: insert_attempt_def Let_def)
      show ?thesis
        unfolding gives_up_safely_def
      proof (intro ballI impI)
        fix a b assume a: "a \<in> set (provider_attempts (st_db s))" "may_run a"
          and b: "b \<in> set (provider_attempts d')" "pa_ID b = pa_ID a" "\<not> may_run b"
        from next_attempt_id_above [OF a(1)] have "pa_ID a \<noteq> pa_ID (new_attempt (next_attempt_id (st_db s)) ?r ad lease)"
          by (simp add: new_attempt_def)
        with rows b have "b \<in> set (provider_attempts (st_db s))" by (auto simp: insert_row_def)
        with unique_key_eq [of pa_ID "provider_attempts (st_db s)" b a] ok a b(2) have "b = a"
          by (simp add: ledger_ok_def unique_names_def)
        with a b(3) show "drain_proven px (st_db s) a" by simp
      qed
    qed
  qed (simp add: safe_refl ok)
qed (simp add: safe_refl ok)

lemma bookkeeping_safe:
  assumes ok: "ledger_ok (st_db s)"
  shows "SetRecoveryAuthority s channel leader key = (y, s') \<Longrightarrow> gives_up_safely px (st_db s) (st_db s')"
    and "RecordProviderCostEstimate px s c w estimate = (y, s') \<Longrightarrow> gives_up_safely px (st_db s) (st_db s')"
    and "ApproveProviderEstimatedAccounting s ref v fence = (y, s') \<Longrightarrow> gives_up_safely px (st_db s) (st_db s')"
proof -
  have rows: "provider_attempts (st_db s') = provider_attempts (st_db s) \<Longrightarrow> gives_up_safely px (st_db s) (st_db s')"
    by (rule safe_same [OF ok])
  show "SetRecoveryAuthority s channel leader key = (y, s') \<Longrightarrow> gives_up_safely px (st_db s) (st_db s')"
    by (rule rows) (auto simp: SetRecoveryAuthority_def Let_def store_write_def guarded_def split: if_splits option.splits)
  show "RecordProviderCostEstimate px s c w estimate = (y, s') \<Longrightarrow> gives_up_safely px (st_db s) (st_db s')"
  proof (rule rows)
    assume op: "RecordProviderCostEstimate px s c w estimate = (y, s')"
    show "provider_attempts (st_db s') = provider_attempts (st_db s)"
    proof (cases "s' = s")
      case False
      with op have "store_write s (RecordProviderCostEstimate_tx c estimate) = (y, s')"
        by (auto simp: RecordProviderCostEstimate_def split: if_splits option.splits)
      then show ?thesis
        by (rule write_rel [where R = "\<lambda>d d'. provider_attempts d' = provider_attempts d"])
          (auto simp: RecordProviderCostEstimate_tx_def split: sum.splits option.splits if_splits)
    qed simp
  qed
  show "ApproveProviderEstimatedAccounting s ref v fence = (y, s') \<Longrightarrow> gives_up_safely px (st_db s) (st_db s')"
  proof (rule rows)
    assume "ApproveProviderEstimatedAccounting s ref v fence = (y, s')"
    then have "store_write s (ApproveProviderEstimatedAccounting_tx ref v fence) = (y, s')"
      by (simp add: ApproveProviderEstimatedAccounting_def)
    then show "provider_attempts (st_db s') = provider_attempts (st_db s)"
      by (rule write_rel [where R = "\<lambda>d d'. provider_attempts d' = provider_attempts d"])
        (cases "loadProviderAccountingPolicy (st_db s) ref",
          auto simp: ApproveProviderEstimatedAccounting_tx_def split: if_splits)
  qed
qed

lemma step_gives_up_safely: "provider_step px s s' \<Longrightarrow> ledger_ok (st_db s) \<Longrightarrow> gives_up_safely px (st_db s) (st_db s')"
proof (induction rule: provider_step.induct)
  case (elsewhere s s')
  then show ?case by (intro safe_same) (simp_all add: outside_step_def)
next
  case (retired s c p at y s')
  then show ?case
    using retire_safe [of s c False y s' px p] by (auto simp: RetireProviderAttemptAfterControlInvalidation_def safe_refl split: if_splits)
next
  case (retired_unlaunched s c at y s')
  then show ?case
    using retire_safe [of s c True y s' px] by (auto simp: RetireUnlaunchedProviderAttemptAfterControlInvalidation_def safe_refl split: if_splits)
qed (auto intro: begin_safe launch_safe finish_safe finishing_as completing_as before_launch_safe budget_safe recover_safe reconcile_safe
    bookkeeping_safe doubts_safe quarantine_doubts quarantine_recovered_doubts recover_attempts_doubts)

text \<open>C7: No process is given up without proof. When a step of the Store ends an attempt, or forgets that it may have
launched, while its process may be running, then a drain proof was presented that is signed, names exactly this attempt
and verifies under the supervisor key stored with the attempt or under the recovery key of the channel's leader.\<close>

theorem no_process_given_up:
  assumes "provider_run px s0 s" and "ledger_ok (st_db s0)" and "provider_step px s s'"
    and "a \<in> set (provider_attempts (st_db s))" and "b \<in> set (provider_attempts (st_db s'))" and "pa_ID b = pa_ID a"
    and "may_run a" and "\<not> may_run b"
  shows "drain_proven px (st_db s) a"
  using step_gives_up_safely [OF assms(3) provider_run_ok [OF assms(1,2)]] assms(4-8) by (auto simp: gives_up_safely_def)

text \<open>A ticket whose runner has changed, with an attempt of the old runner that was launched, and its recovery.\<close>

definition released_attempt :: attempt_row where
  "released_attempt = ledger_attempt\<lparr>w_LaunchState := ''released'', pa_PID := 9, pa_PGID := 9, pa_BootIdentity := ''boot'',
     pa_StartIdentity := ''start''\<rparr>"

definition recovery_key :: string where "recovery_key = replicate 32 CHR ''k''"

definition recovery_store :: Store where
  "recovery_store = ledger_store\<lparr>st_db := ledger_db\<lparr>provider_attempts := [released_attempt],
     tickets := [sample_ticket\<lparr>t_RunnerEpoch := 4\<rparr>],
     daemon_instances := [\<lparr>d_Channel = ''dev'', d_LeaderEpoch = 2, d_RecoveryKey = recovery_key\<rparr>]\<rparr>\<rparr>"

definition recovery_proof :: DrainProof where
  "recovery_proof = \<lparr>dp_publicKey = recovery_key, dp_signature = '''', dp_request = drainRequestForClaim ledger_claim\<rparr>"

definition recovered_store :: Store where
  "recovered_store = snd (RecoverProviderAttemptClaimWithProof open_env recovery_store ledger_claim 2 recovery_proof 9)"

lemma recovery_store_ok: "ledger_ok (st_db recovery_store)"
  by (simp add: ledger_ok_def unique_names_def runs_exist_def one_live_def live_count_def within_budget_def attempts_of_def
      bounded_entries_def entry_attempts_def independent_families_def evidence_complete_def unique_key_def count_where_def
      ledger_defs run_of_attempt_def live_attempt_def spent_units_def results_of_def ticket_at_def row_at_def sample_ticket_def
      recovery_store_def released_attempt_def)

lemma recovered_rows:
  "provider_attempts (st_db recovered_store) = [end_attempt ''cancelled'' ''drained_recovery'' None released_attempt]"
proof -
  have "VerifyDrainProof (px_verify open_env) recovery_key (drainRequestForClaim ledger_claim) recovery_proof"
    by (simp add: VerifyDrainProof_def open_env_def recovery_proof_def recovery_key_def)
  moreover have "provider_attempts (st_db (snd (recoverProviderAttemptClaim recovery_store ledger_claim 2 9))) =
      [end_attempt ''cancelled'' ''drained_recovery'' None released_attempt]" by code_simp
  moreover have "List.find (\<lambda>r. d_Channel r = Channel (cl_Ref ledger_claim) \<and> d_LeaderEpoch r = 2) (daemon_instances (st_db recovery_store)) =
      Some \<lparr>d_Channel = ''dev'', d_LeaderEpoch = 2, d_RecoveryKey = recovery_key\<rparr>"
    by (simp add: recovery_store_def ledger_claim_def sample_ref_def)
  ultimately show ?thesis by (simp add: recovered_store_def RecoverProviderAttemptClaimWithProof_def)
qed

theorem no_process_given_up_witness: "drain_proven open_env (st_db recovery_store) released_attempt"
proof (rule no_process_given_up [OF rtranclp.rtrancl_refl recovery_store_ok])
  show "provider_step open_env recovery_store recovered_store"
    unfolding recovered_store_def by (rule provider_step.recovered, rule surjective_pairing)
  show "end_attempt ''cancelled'' ''drained_recovery'' None released_attempt \<in> set (provider_attempts (st_db recovered_store))"
    by (simp add: recovered_rows)
qed (simp_all add: recovery_store_def ledger_store_def end_attempt_def may_run_def live_attempt_def unlaunched_def released_attempt_def
    ledger_attempt_def)

end
