(* ===== verification/ProviderRetries.thy ===== *)
theory ProviderRetries
  imports ProviderSafety
begin

text \<open>
  Retries of a phase: their number, what refuses another one, and the evidence of a success, which reads back as it
  was stored.
\<close>

section \<open>Retries come to an end\<close>

text \<open>How many attempts a phase entry may still get.\<close>

definition retries_left :: "db \<Rightarrow> TicketRef \<Rightarrow> string \<Rightarrow> u64 \<Rightarrow> nat" where
  "retries_left d ref phase version = 4 - length (entry_attempts d ref phase version)"

lemma step_entries: "ledger_step d d' \<Longrightarrow> length (entry_attempts d ref phase v) \<le> length (entry_attempts d' ref phase v)"
  by (erule ledger_stepE) (simp_all add: outside_step_def moving_step_def admission_step_def entry_attempts_def insert_row_def)

lemma run_entries:
  assumes "provider_run px s s'" and "ledger_ok (st_db s)"
  shows "length (entry_attempts (st_db s) ref phase v) \<le> length (entry_attempts (st_db s') ref phase v)"
  using assms(1)
proof (induction rule: rtranclp_induct)
  case (step t u)
  have "ledger_step^** d d' \<Longrightarrow> length (entry_attempts d ref phase v) \<le> length (entry_attempts d' ref phase v)" for d d'
    by (induction rule: rtranclp_induct) (auto dest: step_entries intro: le_trans)
  with provider_step_refines [OF step.hyps(2) provider_run_ok [OF step.hyps(1) assms(2)]] step.IH show ?case
    using le_trans by blast
qed simp

lemma begin_cases:
  assumes "BeginProviderAttempt px s r = (Inr c, s')"
  obtains rq t ad lease ls where "rq = r\<lparr>ra_Input := (ra_Input r)\<lparr>in_Repair := None\<rparr>\<rparr>"
    and "ticket_at (st_db s) (ra_Ref r) = Some t" and "admit_attempt px (st_mutations s) rq t (st_db s) = Inr ad"
    and "attempt_insert_ok rq ad (st_db s)" and "c = new_claim (next_attempt_id (st_db s)) rq ad lease"
    and "st_db s' = insert_attempt rq ad lease ls (st_db s)"
proof -
  define rq where "rq = r\<lparr>ra_Input := (ra_Input r)\<lparr>in_Repair := None\<rparr>\<rparr>"
  from assms have "store_write s (BeginProviderAttempt_tx px (st_mutations s) rq) = (Inr c, s')"
    by (auto simp: BeginProviderAttempt_def Let_def rq_def split: if_splits)
  then have "BeginProviderAttempt_tx px (st_mutations s) rq (st_db s) = Inr (c, st_db s')"
    by (auto simp: store_write_def split: if_splits sum.splits)
  then show ?thesis
  proof (cases rule: begin_tx_cases)
    case (1 t ad lease ls)
    then show ?thesis using that [of rq t ad lease ls] by (simp add: rq_def)
  qed
qed

text \<open>C10: Retries of a phase come to an end. Every admitted attempt uses up one of at most four attempts of its phase
entry, or of at most two when the entry has no authorised retry epoch, and no operation ever gives one back.\<close>

theorem retries_end:
  assumes "ledger_ok (st_db s)" and "BeginProviderAttempt px s r = (Inr c, s')"
  shows "\<exists>v. retries_left (st_db s') (ra_Ref r) (ra_Phase r) v < retries_left (st_db s) (ra_Ref r) (ra_Phase r) v \<and>
    (px_retryEpoch px (st_db s) (ra_Ref r) (ra_Phase r) \<noteq> Inr (Some v) \<longrightarrow> 2 \<le> retries_left (st_db s') (ra_Ref r) (ra_Phase r) v) \<and>
    (\<forall>t. provider_run px s' t \<longrightarrow> retries_left (st_db t) (ra_Ref r) (ra_Phase r) v \<le> retries_left (st_db s') (ra_Ref r) (ra_Phase r) v)"
  using assms(2)
proof (cases rule: begin_cases)
  case (1 rq t ad lease ls)
  let ?v = "pe_Version (ad_Entry ad)" and ?n = "\<lambda>d. length (entry_attempts d (ra_Ref r) (ra_Phase r) (pe_Version (ad_Entry ad)))"
  from 1(1) have rq: "ra_Ref rq = ra_Ref r" "ra_Phase rq = ra_Phase r" by simp_all
  from admitted_facts(3) [OF 1(3)] obtain limit where limit: "attempt_limit px (st_db s) rq (ad_Entry ad) = Inr limit" "?n (st_db s) < limit"
    by (auto simp: rq)
  have more: "?n (st_db s') = Suc (?n (st_db s))"
    by (simp add: 1(6) insert_attempt_def Let_def entry_attempts_def insert_row_def rq)
  have "ledger_ok (st_db s')"
    by (rule provider_run_ok [OF r_into_rtranclp assms(1)]) (rule provider_step.begin_attempt [OF assms(2)])
  then have "retries_left (st_db t) (ra_Ref r) (ra_Phase r) ?v \<le> retries_left (st_db s') (ra_Ref r) (ra_Phase r) ?v"
    if "provider_run px s' t" for t
    using run_entries [OF that, of "ra_Ref r" "ra_Phase r" ?v] by (auto simp: retries_left_def)
  moreover have "limit \<le> 4" using attempt_limit_le [OF limit(1)] by auto
  ultimately show ?thesis
    using limit attempt_limit_le [OF limit(1)] more by (intro exI [of _ ?v]) (auto simp: retries_left_def rq)
qed

section \<open>An active attempt is no evidence\<close>

text \<open>C24: While the newest attempt of a phase entry is a repair that still runs, the query for an unavailable
repair answers a conflict of evidence. Its phase run has no completion time, and the query reads
that column as text before it looks at the states, so its branch for an active repair is never reached.\<close>

theorem active_repair_is_conflict:
  assumes "terminal_fence admit m d ref expected fence = None"
    and "px_currentEntry px d ref phase expected (RunnerEpoch fence) (LeaderEpoch fence) = Inr entry"
    and "validateEntryBindings px d ref entry = None"
    and "length (entry_attempts d ref phase (pe_Version entry)) \<in> {2, 4}"
    and "attempt_at d (ae_AttemptID (latest_first (entry_attempts d ref phase (pe_Version entry)) ! 0)) = Some a"
    and "run_for d a = Some p" and "\<not> pr_Completed p"
  shows "pendingProviderRepairUnavailable px m d ref phase role expected fence admit = Inl ErrEvidenceConflict"
proof -
  let ?runs = "latest_first (entry_attempts d ref phase (pe_Version entry))"
  have pair: "repair_pair d latest prior = Inl ErrEvidenceConflict"
    if load: "loadAuthenticatedProviderAttemptClaim d (ae_AttemptID (?runs ! 0)) = Inr latest" for latest prior
  proof -
    obtain b where b: "attempt_at d (ae_AttemptID (?runs ! 0)) = Some b" "claims_row latest b" by (rule authentic_claim [OF load])
    with assms(5) have "cl_ID latest = ae_AttemptID (?runs ! 0)"
      by (auto simp: claims_row_def bound_row_def names_attempt_def dest: attempt_at_Some)
    with assms(5-7) have "terminal_columns d (cl_ID latest) = Inl ErrEvidenceConflict" by (simp add: terminal_columns_def)
    moreover have "terminal_columns d (cl_ID prior) = Inl ErrEvidenceConflict \<or> (\<exists>x. terminal_columns d (cl_ID prior) = Inr x)"
      by (auto simp: terminal_columns_def split: option.splits)
    ultimately show ?thesis by (auto simp: repair_pair_def and_then_def)
  qed
  show ?thesis
    unfolding pendingProviderRepairUnavailable_def using assms(1-4) pair
    by (auto simp: guarded_def and_then_def Let_def split: sum.splits)
qed

definition repair_entry :: phase_entry_row where
  "repair_entry = \<lparr>pe_Ref = sample_ref, pe_Phase = PhaseBuild, pe_Version = 4, pe_EventID = 1, pe_Leader = 2, pe_Runner = 3,
     pe_From = StateVerifying, pe_State = StateBuilding, pe_Trigger = ''t''\<rparr>"

definition repair_env :: provider_env where
  "repair_env = open_env\<lparr>px_currentEntry := (\<lambda>_ _ _ _ _ _. Inr repair_entry)\<rparr>"

definition repair_db :: db where
  "repair_db = ledger_db\<lparr>provider_attempts := [end_attempt ''failed'' ''invalid_artifact'' None ledger_attempt,
       ledger_attempt\<lparr>pa_ID := 2, pa_Attempt := 2\<rparr>],
     phase_runs := [end_run ''failed'' ''invalid_artifact'' ledger_run, ledger_run\<lparr>pr_Attempt := 2\<rparr>],
     provider_phase_attempt_entries := map (\<lambda>n. \<lparr>ae_AttemptID = n, ae_Ref = sample_ref, ae_Phase = PhaseBuild, ae_Role = ''builder'',
       ae_Attempt = n, ae_EntryVersion = 4\<rparr>) [1, 2]\<rparr>"

theorem active_repair_is_conflict_witness:
  "pendingProviderRepairUnavailable repair_env None repair_db sample_ref PhaseBuild ''builder'' 5 ledger_fence False =
     Inl ErrEvidenceConflict"
proof (rule active_repair_is_conflict [where entry = repair_entry and a = "ledger_attempt\<lparr>pa_ID := 2, pa_Attempt := 2\<rparr>"
      and p = "ledger_run\<lparr>pr_Attempt := 2\<rparr>"])
  show "terminal_fence False None repair_db sample_ref 5 ledger_fence = None" by code_simp
  show "px_currentEntry repair_env repair_db sample_ref PhaseBuild 5 (RunnerEpoch ledger_fence) (LeaderEpoch ledger_fence) = Inr repair_entry"
    by (simp add: repair_env_def)
  show "validateEntryBindings repair_env repair_db sample_ref repair_entry = None" by code_simp
  show "length (entry_attempts repair_db sample_ref PhaseBuild (pe_Version repair_entry)) \<in> {2, 4}" by code_simp
  show "attempt_at repair_db (ae_AttemptID (latest_first (entry_attempts repair_db sample_ref PhaseBuild (pe_Version repair_entry)) ! 0)) =
      Some (ledger_attempt\<lparr>pa_ID := 2, pa_Attempt := 2\<rparr>)" by code_simp
  show "run_for repair_db (ledger_attempt\<lparr>pa_ID := 2, pa_Attempt := 2\<rparr>) = Some (ledger_run\<lparr>pr_Attempt := 2\<rparr>)" by code_simp
  show "\<not> pr_Completed (ledger_run\<lparr>pr_Attempt := 2\<rparr>)" by code_simp
qed

text \<open>A first attempt, as the coordinator begins it.\<close>

definition begin_digest :: string where "begin_digest = replicate 64 (CHR ''a'')"

definition begin_provider :: ProviderIdentity where
  "begin_provider = ledger_provider\<lparr>pv_Provider := ''fake''\<rparr>"

definition begin_binding :: RuntimeBinding where
  "begin_binding = \<lparr>rb_Identity = begin_provider, rb_BinaryDigest = begin_digest, rb_PolicyDigest = begin_digest,
     rb_FixtureDigest = begin_digest, rb_AuthDigest = begin_digest, rb_AuthMode = ''''\<rparr>"

definition begin_input :: PhaseInput where
  "begin_input = zero_input\<lparr>in_Ticket := sample_ref, in_Phase := PhaseBuild, in_LeaderEpoch := 2, in_RunnerEpoch := 3,
     in_ExpectedVersion := 5, in_Prompt := ''build'', in_Repository := ''/srv/sf'', in_Worktree := ''/w'', in_WorktreeIdentity := ''wi'',
     in_BaseSHA := ''sha'', in_AllowedPaths := Some [''a''], in_Provider := begin_provider, in_Timeout := 1,
     in_Profile := contracts_ProfileGuarded, in_Schema := Some ''1''\<rparr>"

definition begin_request :: ProviderAttemptRequest where
  "begin_request = \<lparr>ra_Ref = sample_ref, ra_ExpectedVersion = 5, ra_Fence = ledger_fence, ra_Phase = PhaseBuild, ra_Role = ''builder'',
     ra_Binding = begin_binding, ra_ConfigDigest = ''cfg'', ra_Capacity = 1, ra_At = 7, ra_ExpectedHead = '''', ra_ExpectedProof = '''',
     ra_Repository = ''/srv/sf'', ra_Worktree = ''/w'', ra_WorktreeIdentity = ''wi'', ra_BaseSHA = ''sha'', ra_SupervisorKey = ''key'',
     ra_Input = begin_input\<rparr>"

definition begin_qualification :: qualification_row where
  "begin_qualification = \<lparr>q_ID = 1, q_Channel = ''dev'', q_RunID = ''r'', q_Identity = begin_provider, q_BinaryDigest = begin_digest,
     q_PolicyDigest = begin_digest, q_FixtureDigest = begin_digest, q_Profile = ''qualified_guarded'', q_AuthDigest = begin_digest,
     q_AuthMode = '''', q_ProbeDigest = '''', q_AttestedLeader = 0, q_Signature = '''', q_CreatedUnixNanos = 0\<rparr>"

definition begin_ticket :: ticket_row where
  "begin_ticket = sample_ticket\<lparr>t_MaxDuration := 100, t_MaxCostMicroUSD := 100, t_ConfigDigest := ''cfg''\<rparr>"

definition begin_db :: db where
  "begin_db = sample_db\<lparr>tickets := [begin_ticket], provider_phase_entries := [repair_entry],
     provider_qualifications := [begin_qualification],
     provider_pair_selections := [\<lparr>ps_Channel = ''dev'', ps_Planner = None, ps_Builder = 1, ps_Reviewer = 2\<rparr>],
     worktrees := [\<lparr>wt_Ref = sample_ref, wt_Path = ''/w'', wt_IdentityJSON = ''wi'', wt_BaseSHA = ''sha'', wt_BranchRef = ''b''\<rparr>]\<rparr>"

definition begin_store :: Store where
  "begin_store = sample_store\<lparr>st_db := begin_db\<rparr>"

lemma begin_store_ok: "ledger_ok (st_db begin_store)"
  by (simp add: ledger_ok_def unique_names_def runs_exist_def one_live_def live_count_def within_budget_def attempts_of_def
      bounded_entries_def entry_attempts_def independent_families_def evidence_complete_def unique_key_def count_where_def
      begin_store_def begin_db_def ledger_defs begin_ticket_def run_of_attempt_def live_attempt_def spent_units_def results_of_def
      ticket_at_def row_at_def sample_ticket_def)

definition begin_launch :: PhaseInput where
  "begin_launch = launch_input begin_request 1 None"

definition begin_admission :: admission where
  "begin_admission =
     (let payload = print_json (phase_input_json (begin_launch\<lparr>in_RequestDigest := ''''\<rparr>)) in
      \<lparr>ad_Entry = repair_entry, ad_Qualification = begin_qualification, ad_Attempt = 1, ad_Input = begin_launch,
       ad_Payload = payload, ad_Digest = sha256_hex payload\<rparr>)"

lemma guarded_None: "guarded None rest = rest"
  by (simp add: guarded_def)

lemma refuse_False: "refuse False e = None"
  by (simp add: refuse_def)

lemma and_then_Inr_pure: "and_then (Inr x) f = f x"
  by (simp add: and_then_def)

lemma begin_admits: "admit_attempt repair_env (Some sample_gate) begin_request begin_ticket begin_db = Inr begin_admission"
proof -
  let ?r = begin_request and ?d = begin_db and ?t = begin_ticket and ?px = repair_env
  have fence: "refuse (State_Terminal (t_State ?t) \<or> t_State ?t = StateBlocked \<or> t_Version ?t \<noteq> ra_ExpectedVersion ?r \<or>
      t_ConfigDigest ?t = '''' \<or> t_ConfigDigest ?t \<noteq> ra_ConfigDigest ?r \<or>
      \<not> providerAdmissionState (t_State ?t) (ra_Phase ?r) (ra_Role ?r)) ErrStaleFence = None" by code_simp
  have place: "registered_place ?d ?r = None" by code_simp
  have reuse: "reuseCurrentCompletedProviderAttempt ?d (ra_Ref ?r) (ra_Phase ?r) (ra_Role ?r) (ra_ExpectedVersion ?r) (ra_Fence ?r) = Inr None"
    by code_simp
  have entry: "px_currentEntry ?px ?d (ra_Ref ?r) (ra_Phase ?r) (t_Version ?t) (t_RunnerEpoch ?t) (LeaderEpoch (ra_Fence ?r)) = Inr repair_entry"
    by (simp add: repair_env_def)
  have bound: "validateEntryBindings ?px ?d (ra_Ref ?r) repair_entry = None" by code_simp
  have pending: "nothing_pending ?px (Some sample_gate) ?r ?d = None" by code_simp
  have runs: "entry_attempts ?d (ra_Ref ?r) (ra_Phase ?r) (pe_Version repair_entry) = []" by code_simp
  have "refuse (1 < budget_rejections ?d []) ErrEvidenceConflict = None" "refuse (budget_rejections ?d [] = 1) ErrBudgetExhausted = None"
    "refuse (writer_busy ?d (ra_Repository ?r)) ErrProviderAttempt = None" "review_evidence ?px ?d ?r = None"
    "refuse (t_MaxDuration ?t \<le> 0 \<or> t_MaxCostMicroUSD ?t \<le> 0 \<or> t_CreatedAt ?t + t_MaxDuration ?t \<le> ra_At ?r) ErrBudgetExhausted = None"
    by code_simp+
  note early = this
  have route: "currentRuntimeQualification ?px ?d (Channel (ra_Ref ?r)) (ra_Role ?r) (ra_Binding ?r) = Inr begin_qualification"
    by code_simp
  have "refuse (q_ID begin_qualification \<le> 0) ErrProviderPairRefused = None" "validateEstimatedProviderRoute ?d ?r = None"
    "estimate_limit ?d ?r (t_MaxCostMicroUSD ?t) = None" "admitProviderRequestLimit ?d ?r = None"
    "refuse (t_MaxCostMicroUSD ?t \<le> spent_units ?d (ra_Ref ?r)) ErrBudgetExhausted = None"
    "refuse (active_runs ?d (ra_Ref ?r) \<noteq> 0) ErrProviderAttempt = None" "attempt_limit ?px ?d ?r repair_entry = Inr 2"
    "refuse (2 \<le> length ([] :: attempt_entry_row list)) ErrProviderAttemptLimit = None"
    "providerRepairContextForRetry ?d ?r repair_entry (length ([] :: attempt_entry_row list)) = Inr None"
    "max_attempt ?d (ra_Ref ?r) (ra_Phase ?r) + 1 = 1"
    "serverRejectionAdmission ?px ?d ?r repair_entry begin_launch (length ([] :: attempt_entry_row list)) = None"
    by code_simp+
  note limits = this
  let ?payload = "print_json (phase_input_json (begin_launch\<lparr>in_RequestDigest := ''''\<rparr>))"
  have payload: "CanonicalPhaseInput begin_launch = Some (?payload, sha256_hex ?payload)"
  proof -
    have "in_legacy begin_launch = None"
      by (simp add: begin_launch_def launch_input_def begin_request_def begin_input_def zero_input_def)
    then show ?thesis by (simp add: CanonicalPhaseInput_def Let_def)
  qed
  have last: "refuse (?payload = [] \<or> 2097152 < int (length ?payload)) ErrProviderAttempt = None"
    "independentProvider ?d (ra_Ref ?r) (ra_Role ?r) (pv_Family (rb_Identity (ra_Binding ?r))) = None" by code_simp+
  show ?thesis
    unfolding admit_attempt_def Let_def
    by (simp only: fence place reuse entry bound pending runs early route limits begin_launch_def [symmetric] payload last
        guarded_None and_then_Inr_pure refuse_False option.case prod.case simp_thms begin_admission_def Let_def)
qed

lemma begin_returns:
  "\<exists>c s'. BeginProviderAttempt repair_env begin_store begin_request = (Inr c, s')"
proof -
  have valid: "TicketRef_Validate (ra_Ref begin_request) = None" "validProviderPhase (ra_Phase begin_request)" "validProviderRole (ra_Role begin_request)"
    "validRuntimeBinding (ra_Binding begin_request)" "validProviderAttemptInput begin_request" by code_simp+
  have same: "begin_request\<lparr>ra_Input := (ra_Input begin_request)\<lparr>in_Repair := None\<rparr>\<rparr> = begin_request"
    by (simp add: begin_request_def begin_input_def zero_input_def)
  have fence: "assertTicketFence (Some sample_gate) begin_db (ra_Ref begin_request) (ra_ExpectedVersion begin_request) (ra_Fence begin_request) = None"
    by code_simp
  have ticket: "ticket_at begin_db (ra_Ref begin_request) = Some begin_ticket"
    by (simp add: ticket_at_def row_at_def begin_db_def begin_ticket_def sample_ticket_def begin_request_def)
  have free: "leases begin_db = []" by (simp add: begin_db_def sample_db_def)
  have fits: "attempt_insert_ok begin_request begin_admission begin_db"
    by (simp add: attempt_insert_ok_def begin_admission_def Let_def begin_db_def sample_db_def begin_request_def repair_entry_def)
  have capacity: "ra_Capacity begin_request = 1" by (simp add: begin_request_def)
  obtain lease ls where lease: "acquireLease (ra_Ref begin_request) (t_RunnerEpoch begin_ticket)
      \<lparr>lr_Scope = ''provider'', lr_Resource = pv_Provider (rb_Identity (ra_Binding begin_request)) @ '':'' @ rb_AuthDigest (ra_Binding begin_request),
       lr_Capacity = ra_Capacity begin_request\<rparr> (ra_At begin_request) (leases begin_db) = (Some lease, ls)"
    by (simp add: free capacity acquireLease_def row_at_def Let_def)
  have tx: "BeginProviderAttempt_tx repair_env (Some sample_gate) begin_request begin_db =
      Inr (new_claim (next_attempt_id begin_db) begin_request begin_admission (l_ScopeKey lease),
        insert_attempt begin_request begin_admission (l_ScopeKey lease) ls begin_db)"
    by (simp only: BeginProviderAttempt_tx_def fence guarded_None ticket option.case begin_admits and_then_Inr_pure lease prod.case
        fits simp_thms refuse_False)
  have "\<not> (ra_ExpectedVersion begin_request = 0 \<or> LeaderEpoch (ra_Fence begin_request) = 0 \<or> RunnerEpoch (ra_Fence begin_request) = 0 \<or>
      ra_Capacity begin_request < 1 \<or> 16 < ra_Capacity begin_request \<or> ra_At begin_request = 0)" by code_simp
  with valid have begins: "BeginProviderAttempt repair_env s begin_request =
      store_write s (BeginProviderAttempt_tx repair_env (st_mutations s) begin_request)" for s
    by (simp add: BeginProviderAttempt_def same)
  show ?thesis by (simp add: begins store_write_def begin_store_def sample_store_def tx)
qed

theorem retries_end_witness:
  "\<exists>c s'. BeginProviderAttempt repair_env begin_store begin_request = (Inr c, s') \<and>
     (\<exists>v. retries_left (st_db s') sample_ref PhaseBuild v < retries_left (st_db begin_store) sample_ref PhaseBuild v)"
proof -
  obtain c s' where began: "BeginProviderAttempt repair_env begin_store begin_request = (Inr c, s')" using begin_returns by blast
  moreover have "ra_Ref begin_request = sample_ref" "ra_Phase begin_request = PhaseBuild" by (simp_all add: begin_request_def)
  ultimately show ?thesis using retries_end [OF begin_store_ok began] by auto
qed

section \<open>A success reads back\<close>

lemma find_append: "List.find P (xs @ ys) = (case List.find P xs of None \<Rightarrow> List.find P ys | Some x \<Rightarrow> Some x)"
  by (induction xs) simp_all

lemma hydrate_again: "hydrateProviderAttemptInput c0 = Inr c \<Longrightarrow> \<exists>c'. hydrateProviderAttemptInput c = Inr c'"
  by (auto simp: hydrateProviderAttemptInput_def split: if_splits option.splits)

lemma authentic_claim_hydrates:
  "loadAuthenticatedProviderAttemptClaim d i = Inr c \<Longrightarrow> \<exists>c'. hydrateProviderAttemptInput c = Inr c'"
  by (auto simp: loadAuthenticatedProviderAttemptClaim_def split: option.splits if_splits sum.splits intro: hydrate_again)

text \<open>Ending an attempt does not change its claim.\<close>

lemma ended_claim:
  assumes "loadAuthenticatedProviderAttemptClaim d i = Inr c" and a: "attempt_at d i = Some a"
    and d': "attempt_at d' i = Some (end_attempt state outcome usage a)" "provider_attempt_inputs d' = provider_attempt_inputs d"
      "provider_qualifications d' = provider_qualifications d"
  shows "loadAuthenticatedProviderAttemptClaim d' i = Inr c"
proof -
  let ?a = "end_attempt state outcome usage a"
  have same: "qualifies ?a = qualifies a" "attempt_claim ?a = attempt_claim a" "pa_QualificationID ?a = pa_QualificationID a"
    by (simp_all add: fun_eq_iff qualifies_def attempt_claim_def end_attempt_def)
  have "qualification_at d' x = qualification_at d x" "input_at d' i = input_at d i" for x
    using d'(2,3) by (cases x; simp add: qualification_at_def input_at_def)+
  then have "loadAuthenticatedProviderAttemptClaim d' i = loadAuthenticatedProviderAttemptClaim d i"
    unfolding loadAuthenticatedProviderAttemptClaim_def a d'(1) option.case same by presburger
  with assms(1) show ?thesis by simp
qed

lemma claim_valid:
  "loadAuthenticatedProviderAttemptClaim d i = Inr c \<Longrightarrow> validPersistedProviderAttemptClaim c"
  by (auto simp: loadAuthenticatedProviderAttemptClaim_def split: option.splits if_splits sum.splits)

lemma row_result_id: "pt_AttemptID r = cl_ID c \<Longrightarrow> pt_Claim r = c \<Longrightarrow> row_result (result_row c r) c = r"
  by (simp add: row_result_def result_row_def)

text \<open>The result that a success makes belongs to the claim.\<close>

lemma success_result_claim: "success_result d c raw va = Inr r \<Longrightarrow> pt_AttemptID r = cl_ID c \<and> pt_Claim r = c"
  by (auto simp: success_result_def makeProviderAttemptResult_def split: if_splits sum.splits)

lemma completes_as:
  assumes "CompleteProviderAttemptSuccess px s c prf v fence raw va at = (Inr r, s')" and "results_of (st_db s) (cl_ID c) = []"
  obtains u where "success_result (st_db s) c raw va = Inr r" and "st_readOnly s' = st_readOnly s"
    and "finish_tx px c v fence ((plain_finish ''completed'' ''completed'' (rs_UsageUnits raw) at)\<lparr>fn_Result := Some r\<rparr>) (st_db s) =
      Inr (u, st_db s')"
proof -
  have none: "loadProviderAttemptResultRow (st_db s) (cl_ID c) = None"
    using assms(2) by (auto simp: loadProviderAttemptResultRow_def row_at_def find_None_iff results_of_def filter_empty_conv)
  have load: "LoadProviderAttemptResult px (st_db s) c v fence \<noteq> Inr x" for x
    by (auto simp: LoadProviderAttemptResult_def none Let_def)
  from assms(1) obtain result where res: "success_result (st_db s) c raw va = Inr result"
    by (cases "success_result (st_db s) c raw va") (auto simp: CompleteProviderAttemptSuccess_def)
  let ?f = "(plain_finish ''completed'' ''completed'' (rs_UsageUnits raw) at)\<lparr>fn_Result := Some result\<rparr>"
  obtain e where "LoadProviderAttemptResult px (st_db s) c v fence = Inl e"
    using load by (cases "LoadProviderAttemptResult px (st_db s) c v fence") auto
  moreover obtain x s1 where fin: "finishProviderAttemptWithReceipt px s c prf v fence ?f = (x, s1)" by (meson surj_pair)
  moreover have "s1 = s" if "x = Inl e'" for e'
    using fin that by (auto simp: finishProviderAttemptWithReceipt_def store_write_def split: option.splits if_splits sum.splits)
  ultimately have "x = Inr ()" "s' = s1" "result = r"
    using assms(1) res load by (cases x; auto simp: CompleteProviderAttemptSuccess_def split: sum.splits)+
  with fin have "store_write s (finish_tx px c v fence ?f) = (Inr (), s')"
    by (auto simp: finishProviderAttemptWithReceipt_def split: option.splits)
  then have "finish_tx px c v fence ?f (st_db s) = Inr ((), st_db s')" "st_readOnly s' = st_readOnly s"
    by (auto simp: store_write_def split: if_splits sum.splits)
  with res \<open>result = r\<close> show ?thesis by (auto intro: that)
qed

text \<open>A success reads back. The result with which \<open>CompleteProviderAttemptSuccess\<close> first completes an attempt is what
\<open>LoadHistoricalProviderAttemptResult\<close> finds under its key afterwards: the same bytes and digests, the same claim, and the
artifact that the bytes parse to under the stored validation.\<close>

theorem success_reads_back:
  assumes "ledger_ok (st_db s)" and "CompleteProviderAttemptSuccess px s c prf v fence raw va at = (Inr r, s')"
    and "results_of (st_db s) (cl_ID c) = []"
  shows "\<exists>va' parsed. LoadHistoricalProviderAttemptResult (st_db s')
      \<lparr>rk_AttemptID = cl_ID c, rk_Ref = cl_Ref c, rk_Phase = cl_Phase c, rk_Attempt = cl_Attempt c\<rparr> = Inr (r, va', parsed) \<and>
    reparse c r = Some (va', parsed) \<and> pt_RawArtifact r = rs_Artifact raw"
  using assms(2,3)
proof (cases rule: completes_as)
  case (1 u)
  let ?d = "st_db s" and ?d' = "st_db s'"
    and ?f = "(plain_finish ''completed'' ''completed'' (rs_UsageUnits raw) at)\<lparr>fn_Result := Some r\<rparr>"
  note owner = success_result_claim [OF 1(1)]
  from 1(3) show ?thesis
  proof (cases rule: finish_tx_cases)
    case replay
    then show ?thesis by (simp add: plain_finish_def)
  next
    case (finished t a x)
    note auth = finish_authority_Inr [OF finished(1)] and rows = finish_rows_Inr [OF finished(4)]
    have state: "fn_State ?f = ''completed''" "fn_Outcome ?f = ''completed''" "fn_Result ?f = Some r" by (simp_all add: plain_finish_def)
    have a: "a \<in> set (provider_attempts ?d)" "pa_ID a = cl_ID c" using attempt_at_Some [OF auth(2)] by simp_all
    have named: "names_attempt c a" using auth(3) by (simp add: claims_row_def bound_row_def)
    let ?h = "\<lambda>b. if names_attempt c b \<and> w_State b = ''active'' then end_attempt ''completed'' ''completed'' (Some (fn_Usage ?f)) b else b"
    have attempts: "provider_attempts ?d' = map ?h (provider_attempts ?d)" using rows(3) state by (simp add: update_where_def)
    have "ledger_ok ?d'"
      using finishing_step [OF assms(1) completing_as [OF assms(2)]] ledger_step_ok assms(1) by blast
    then have unique: "unique_key phase_run_pk (phase_runs ?d')" "unique_key pa_ID (provider_attempts ?d')"
      by (simp_all add: ledger_ok_def unique_names_def)
    have ended: "attempt_at ?d' (cl_ID c) = Some (end_attempt ''completed'' ''completed'' (Some (fn_Usage ?f)) a)" (is "_ = Some ?a'")
    proof -
      have "?a' \<in> set (provider_attempts ?d')" using a(1) named finished(2) by (auto simp: attempts)
      from attempt_at_unique [OF \<open>ledger_ok ?d'\<close> this] a(2) show ?thesis by (simp add: end_attempt_def)
    qed
    have claim: "loadAuthenticatedProviderAttemptClaim ?d' (cl_ID c) = Inr c"
      using ended_claim [OF auth(4,2) ended] rows(9,10) by simp
    note valid = claim_valid [OF claim]
    have stored: "loadProviderAttemptResultRow ?d' (cl_ID c) = Some (result_row c r)"
    proof -
      have "row_at ar_AttemptID (provider_attempt_results ?d) (cl_ID c) = None"
        using assms(3) by (auto simp: row_at_def find_None_iff results_of_def filter_empty_conv)
      moreover have "provider_attempt_results ?d' = insert_row (result_row c r) (provider_attempt_results ?d)"
        using rows(7) state(3) by simp
      ultimately show ?thesis
        by (simp add: loadProviderAttemptResultRow_def row_at_def insert_row_def find_append result_row_def split: option.splits)
    qed
    obtain p where p: "p \<in> set (phase_runs ?d)" "run_of_attempt a p" "pr_State p = ''active''"
      using assms(1) a(1) finished(2) by (auto simp: ledger_ok_def runs_exist_def live_attempt_def)
    have "identified_run c p" "run_of_claim c p"
      using p(2,3) auth(3) by (simp_all add: run_of_attempt_def identified_run_def names_run_def run_of_claim_def claims_row_def
          bound_row_def names_attempt_def)
    then have p': "end_run ''completed'' ''completed'' p \<in> set (phase_runs ?d')"
      "run_of_claim c (end_run ''completed'' ''completed'' p)"
      using p(1) rows(4) state by (force simp: update_where_def, simp add: run_of_claim_def end_run_def)
    have run: "List.find (run_of_claim c) (phase_runs ?d') = Some (end_run ''completed'' ''completed'' p)"
    proof -
      obtain q where q: "List.find (run_of_claim c) (phase_runs ?d') = Some q"
        using p' by (metis find_None_iff not_None_eq)
      then have "q \<in> set (phase_runs ?d')" "run_of_claim c q" by (auto simp: find_Some_iff)
      with unique_key_eq [OF unique(1)] p' have "q = end_run ''completed'' ''completed'' p"
        by (simp add: run_of_claim_def phase_run_pk_def)
      with q show ?thesis by simp
    qed
    from rows(8) state(3) have authentic: "result_authentic c r" by simp
    then obtain va' parsed where parsed: "reparse c r = Some (va', parsed)" by (auto simp: result_authentic_def)
    have "resultClaimMatchesSource (row_claim (result_row c r)) c"
      by (simp add: resultClaimMatchesSource_def row_claim_def result_row_def)
    moreover have "loadProviderAttemptResultLifecycle ?d' c = Some (''completed'', ''completed'', ''completed'', ''completed'')"
      by (simp add: loadProviderAttemptResultLifecycle_def ended run) (simp add: end_attempt_def end_run_def)
    moreover have "row_result (result_row c r) c = r" by (rule row_result_id) (use owner in simp_all)
    ultimately have "authenticated_result ?d' c (result_row c r) = Inr (r, va', parsed)"
      using authentic_claim_hydrates [OF claim] authentic parsed by (auto simp: authenticated_result_def Let_def result_authentic_def)
    with claim stored valid parsed have "LoadHistoricalProviderAttemptResult ?d'
      \<lparr>rk_AttemptID = cl_ID c, rk_Ref = cl_Ref c, rk_Phase = cl_Phase c, rk_Attempt = cl_Attempt c\<rparr> = Inr (r, va', parsed)"
      by (auto simp: LoadHistoricalProviderAttemptResult_def validPersistedProviderAttemptClaim_def result_row_def
          validProviderPhase_def PhasePlanning_def PhaseVerification_def PhaseBuild_def PhaseReview_def)
    moreover have "pt_RawArtifact r = rs_Artifact raw"
      using 1(1) by (auto simp: success_result_def makeProviderAttemptResult_def split: if_splits sum.splits)
    ultimately show ?thesis using parsed by blast
  qed
qed

end
