(* ===== verification/Writers.thy ===== *)
theory Writers
  imports Effects Projects ProviderContract ExecutionPolicy
begin

text \<open>
  What the three kinds of repository writers share (\<^verbatim>\<open>internal/store/git_mutation.go\<close>, \<^verbatim>\<open>repository_command.go\<close>):
  the shape of paths, objects and digests, the process behind a lease, the claim of an effect that a
  writer is issued for, and the tests that keep the writers of a repository apart.
\<close>

section \<open>Errors\<close>

text \<open>\<open>errors.Is\<close> on a sentinel.\<close>

fun error_is :: "store_error \<Rightarrow> store_error \<Rightarrow> bool" where
  "error_is (ErrJoined a b) target \<longleftrightarrow> error_is a target \<or> error_is b target"
| "error_is e target \<longleftrightarrow> e = target"

section \<open>Shapes\<close>

definition validStorePath :: "string \<Rightarrow> bool" where
  "validStorePath v \<longleftrightarrow> IsAbs v \<and> Clean v = v \<and> v \<noteq> ''/''"

definition validStoreOID :: "string \<Rightarrow> bool" where
  "validStoreOID v \<longleftrightarrow> (length v = 40 \<or> length v = 64) \<and> list_all lower_hex v"

definition validGitOIDWidth :: "string \<Rightarrow> string list \<Rightarrow> bool" where
  "validGitOIDWidth base oids \<longleftrightarrow>
     validStoreOID base \<and> list_all (\<lambda>oid. oid = '''' \<or> validStoreOID oid \<and> length oid = length base) oids"

definition validClaimDigest :: "string \<Rightarrow> bool" where
  "validClaimDigest v \<longleftrightarrow> has_prefix ''sha256:'' v \<and> length v = 7 + 64 \<and> list_all lower_hex (drop 7 v)"

section \<open>Processes\<close>

text \<open>The recorded identity of a child: \<open>GitMutationLaunch\<close> and \<open>RepositoryCommandLaunch\<close> have the same fields.\<close>

record ProcessLaunch =
  pl_PID :: int
  pl_PGID :: int
  pl_BootIdentity :: string
  pl_StartIdentity :: string

definition valid_launch :: "ProcessLaunch \<Rightarrow> bool" where
  "valid_launch v \<longleftrightarrow>
     0 < pl_PID v \<and> 0 < pl_PGID v \<and> pl_PID v = pl_PGID v \<and> pl_BootIdentity v \<noteq> '''' \<and> pl_StartIdentity v \<noteq> ''''"

section \<open>Issuing the effect of a writer\<close>

text \<open>
  A writer is issued from a planned or failed effect of exactly the caller's fence, which the same statement moves to
  executing under the next claim epoch. The partial unique index on executing effects can refuse it.
\<close>

definition issue_row :: "Effect \<Rightarrow> Effect" where
  "issue_row r = r\<lparr>e_State := EffectExecuting, e_ClaimEpoch := e_ClaimEpoch r + 1\<rparr>"

definition issuable :: "EffectFence \<Rightarrow> string \<Rightarrow> Effect \<Rightarrow> bool" where
  "issuable f digest r \<longleftrightarrow>
     e_SemanticKey r = ef_SemanticKey f \<and> (e_State r = EffectPlanned \<or> e_State r = EffectFailed) \<and>
     e_TicketVersion r = ef_TicketVersion f \<and> e_LeaderEpoch r = LeaderEpoch (ef_Fence f) \<and>
     e_RunnerEpoch r = RunnerEpoch (ef_Fence f) \<and> e_RequestDigest r = digest"

definition issue_effect :: "EffectFence \<Rightarrow> string \<Rightarrow> store_error \<Rightarrow> db \<Rightarrow> store_error + (Effect \<times> db)" where
  "issue_effect f digest refusal d =
     (if count_where (issuable f digest) (effects d) = 1 \<and>
         list_ex (\<lambda>e. issuable f digest e \<and> active_claim_conflict d e) (effects d)
        then Inl (ErrConstraint ''active_effect_claim'')
      else if count_where (issuable f digest) (effects d) \<noteq> 1 then Inl refusal
      else let d' = d\<lparr>effects := update_where (issuable f digest) issue_row (effects d)\<rparr> in
        and_then (effectFrom d' (ef_SemanticKey f)) (\<lambda>e. Inr (e, d')))"

text \<open>The effect that a writer runs for: of this ticket, kind and request, planned under the caller's fence.\<close>

definition effect_for :: "Effect \<Rightarrow> EffectFence \<Rightarrow> string \<Rightarrow> string \<Rightarrow> bool" where
  "effect_for e f kind digest \<longleftrightarrow>
     e_Ref e = ef_Ref f \<and> e_Kind e = kind \<and> e_RequestDigest e = digest \<and> e_TicketVersion e = ef_TicketVersion f \<and>
     e_LeaderEpoch e = LeaderEpoch (ef_Fence f) \<and> e_RunnerEpoch e = RunnerEpoch (ef_Fence f)"

definition effect_taken :: "Effect \<Rightarrow> bool" where
  "effect_taken e \<longleftrightarrow> e_State e = EffectConfirmed \<or> e_State e = EffectUncertain \<or> e_State e = EffectExecuting"

text \<open>An \<open>UPDATE\<close> of effects that has to change exactly one row.\<close>

definition change_effect :: "(Effect \<Rightarrow> bool) \<Rightarrow> (Effect \<Rightarrow> Effect) \<Rightarrow> store_error \<Rightarrow> db \<Rightarrow> store_error + db" where
  "change_effect p f refusal d =
     (if count_where p (effects d) \<noteq> 1 then Inl refusal else Inr (d\<lparr>effects := update_where p f (effects d)\<rparr>))"

section \<open>Writers of a repository\<close>

text \<open>
  A quarantined writer is ambiguous and refuses everybody; an active one is contention, which the caller may wait out.
\<close>

definition held_writer :: "store_error \<Rightarrow> store_error \<Rightarrow> string \<Rightarrow> ('a writer_row_scheme) list \<Rightarrow> store_error option" where
  "held_writer contended refusal repository ws =
     (if list_ex (\<lambda>w. w_Repository w = repository \<and> w_State w = ''quarantined'') ws then Some refusal
      else if list_ex (\<lambda>w. w_Repository w = repository \<and> w_State w = ''active'') ws then Some (ErrJoined contended refusal)
      else None)"

text \<open>The plain test of the other paths counts both.\<close>

definition live_writer_at :: "string \<Rightarrow> ('a writer_row_scheme) \<Rightarrow> bool" where
  "live_writer_at repository w \<longleftrightarrow> w_Repository w = repository \<and> (w_State w = ''active'' \<or> w_State w = ''quarantined'')"

definition repositoryHasProviderWriter :: "db \<Rightarrow> string \<Rightarrow> store_error option" where
  "repositoryHasProviderWriter d repository =
     refuse (list_ex (live_writer_at repository) (provider_attempts d)) ErrProviderAttempt"

definition repositoryHasCommandWriter :: "db \<Rightarrow> string \<Rightarrow> store_error option" where
  "repositoryHasCommandWriter d repository =
     refuse (list_ex (live_writer_at repository) (repository_command_leases d)) ErrRepositoryCommandLease"

definition repositoryHasGitWriter :: "db \<Rightarrow> string \<Rightarrow> store_error option" where
  "repositoryHasGitWriter d repository =
     refuse (list_ex (live_writer_at repository) (git_mutation_leases d)) ErrGitMutationLease"

definition repositoryHasProviderWriterForGitClaim :: "db \<Rightarrow> string \<Rightarrow> store_error option" where
  "repositoryHasProviderWriterForGitClaim d repository =
     held_writer ErrGitMutationContended ErrProviderAttempt repository (provider_attempts d)"

definition repositoryHasCommandWriterForGitClaim :: "db \<Rightarrow> string \<Rightarrow> store_error option" where
  "repositoryHasCommandWriterForGitClaim d repository =
     held_writer ErrGitMutationContended ErrRepositoryCommandLease repository (repository_command_leases d)"

definition repositoryCommandAcquireProviderConflict :: "db \<Rightarrow> string \<Rightarrow> store_error option" where
  "repositoryCommandAcquireProviderConflict d repository =
     held_writer ErrRepositoryCommandContended ErrProviderAttempt repository (provider_attempts d)"

definition repositoryCommandAcquireGitConflict :: "db \<Rightarrow> string \<Rightarrow> store_error option" where
  "repositoryCommandAcquireGitConflict d repository =
     held_writer ErrRepositoryCommandContended ErrGitMutationLease repository (git_mutation_leases d)"

text \<open>Recovery acts for the current leader of the channel only.\<close>

definition assertRepositoryRecoveryLeader :: "db \<Rightarrow> string \<Rightarrow> u64 \<Rightarrow> store_error option" where
  "assertRepositoryRecoveryLeader d channel leader =
     (case leader_at d channel of None \<Rightarrow> Some ErrNoRows | Some current \<Rightarrow> refuse (current \<noteq> leader) ErrStaleFence)"

end
