(* ===== verification/GitMutations.thy ===== *)
theory GitMutations
  imports Writers
begin

text \<open>
  Git mutations (\<^verbatim>\<open>internal/store/git_mutation.go\<close>, \<^verbatim>\<open>worktree_creation_absence.go\<close>): the durable intent of one Git
  effect, the exclusive lease of its repository, the facts recorded before an irreversible step, the
  process behind the lease, and the recovery that releases a lease only after a drain.
\<close>

section \<open>Intents and claims\<close>

record GitMutationIntent = EffectFence +
  gn_RequestDigest :: string
  gn_Repository :: string
  gn_Worktree :: string
  gn_Branch :: string
  gn_Operation :: string
  gn_BaseRef :: string
  gn_ExpectedBaseOID :: string
  gn_ExpectedHeadOID :: string

section \<open>What the model takes from elsewhere\<close>

text \<open>
  \<open>gx_worktreeRoot\<close> is the root of the channel's worktrees. The other fields are checks over evidence that is not modelled:
  \<open>gx_refreshMutation\<close> is \<open>authenticateProtectedBaseRefreshMutationAt\<close>; \<open>gx_refreshPrepared\<close> says that the reservation of a
  base refresh exists, binds the claim and agrees with the prepared objects (\<open>loadProtectedBaseRefreshReservationAt\<close> and
  \<open>validateProtectedBaseRefreshPreparationAt\<close>); \<open>gx_bridge\<close> is \<open>authenticateCurrentPostPublicationEndpointBridge\<close> in state
  merging, \<open>gx_ledger\<close> and \<open>gx_ledgerPrefix\<close> are \<open>validateRunnerRecoveryLedger\<close> and \<open>validateRunnerRecoveryLedgerPrefix\<close>.
\<close>

record git_env =
  gx_worktreeRoot :: string
  gx_refreshMutation :: "db \<Rightarrow> GitMutationIntent \<Rightarrow> store_error option"
  gx_refreshPrepared :: "db \<Rightarrow> GitMutationClaim \<Rightarrow> string \<Rightarrow> string \<Rightarrow> bool"
  gx_bridge :: "db \<Rightarrow> TicketRef \<Rightarrow> mutationRevocation \<Rightarrow> mutationRevocation \<Rightarrow> bool"
  gx_ledger :: "db \<Rightarrow> TicketRef \<Rightarrow> mutationRevocation \<Rightarrow> mutationRevocation \<Rightarrow> bool"
  gx_ledgerPrefix :: "db \<Rightarrow> TicketRef \<Rightarrow> mutationRevocation \<Rightarrow> mutationRevocation \<Rightarrow> bool"

section \<open>The shape of intents\<close>

text \<open>The preimage of the semantic key: every value behind its length in eight bytes.\<close>

definition length_bytes :: "nat \<Rightarrow> string" where
  "length_bytes n = map (\<lambda>i. char_of (n div 256 ^ i mod 256)) [7, 6, 5, 4, 3, 2, 1, 0]"

definition framed :: "string \<Rightarrow> string" where
  "framed v = length_bytes (length v) @ v"

definition key_values :: "GitMutationIntent \<Rightarrow> string list" where
  "key_values i = [''sf.git-mutation.semantic-key.v1'', Channel (ef_Ref i), Project (ef_Ref i), Ticket (ef_Ref i),
     gn_RequestDigest i, gn_Repository i, gn_Worktree i, gn_Branch i, gn_Operation i, gn_BaseRef i,
     gn_ExpectedBaseOID i, gn_ExpectedHeadOID i]"

definition key_preimage :: "GitMutationIntent \<Rightarrow> string" where
  "key_preimage i = concat (map framed (key_values i))"

definition CanonicalGitMutationSemanticKey :: "GitMutationIntent \<Rightarrow> string" where
  "CanonicalGitMutationSemanticKey i = ''git/v1/'' @ sha256_hex (key_preimage i)"

definition validGitOperation :: "string \<Rightarrow> bool" where
  "validGitOperation operation \<longleftrightarrow>
     operation \<in> set [''create-worktree'', ''remove-worktree'', ''commit'', ''push'', ''protected-ref-fetch'', ''refresh-base'']"

definition validGitIntent :: "GitMutationIntent \<Rightarrow> bool" where
  "validGitIntent i \<longleftrightarrow>
     TicketRef_Validate (ef_Ref i) = None \<and> ef_SemanticKey i = CanonicalGitMutationSemanticKey i \<and>
     validClaimDigest (gn_RequestDigest i) \<and> ef_TicketVersion i \<noteq> 0 \<and> LeaderEpoch (ef_Fence i) \<noteq> 0 \<and>
     RunnerEpoch (ef_Fence i) \<noteq> 0 \<and> validStorePath (gn_Repository i) \<and> validStorePath (gn_Worktree i) \<and>
     gn_Branch i \<noteq> '''' \<and> validGitOperation (gn_Operation i) \<and> gn_BaseRef i \<noteq> '''' \<and>
     validStoreOID (gn_ExpectedBaseOID i) \<and> validGitOIDWidth (gn_ExpectedBaseOID i) [gn_ExpectedHeadOID i]"

definition claim_fence :: "GitMutationClaim \<Rightarrow> Fence" where
  "claim_fence c = \<lparr>LeaderEpoch = gm_LeaderEpoch c, RunnerEpoch = gm_RunnerEpoch c, ClaimEpoch = 0\<rparr>"

definition intent_of_claim :: "GitMutationClaim \<Rightarrow> GitMutationIntent" where
  "intent_of_claim c = \<lparr>ef_SemanticKey = gm_SemanticKey c, ef_Ref = gm_Ref c, ef_TicketVersion = gm_TicketVersion c,
     ef_Fence = claim_fence c, gn_RequestDigest = gm_RequestDigest c, gn_Repository = gm_Repository c,
     gn_Worktree = gm_Worktree c, gn_Branch = gm_Branch c, gn_Operation = gm_Operation c, gn_BaseRef = gm_BaseRef c,
     gn_ExpectedBaseOID = gm_ExpectedBaseOID c, gn_ExpectedHeadOID = gm_ExpectedHeadOID c\<rparr>"

definition validContractClaim :: "GitMutationClaim \<Rightarrow> bool" where
  "validContractClaim c \<longleftrightarrow> gm_ClaimEpoch c \<noteq> 0 \<and> validGitIntent (intent_of_claim c)"

definition sameGitMutationBinding :: "GitMutationIntent \<Rightarrow> GitMutationClaim \<Rightarrow> bool" where
  "sameGitMutationBinding i c \<longleftrightarrow>
     gm_Ref c = ef_Ref i \<and> gm_SemanticKey c = ef_SemanticKey i \<and> gm_RequestDigest c = gn_RequestDigest i \<and>
     gm_Repository c = gn_Repository i \<and> gm_Worktree c = gn_Worktree i \<and> gm_Branch c = gn_Branch i \<and>
     gm_Operation c = gn_Operation i \<and> gm_BaseRef c = gn_BaseRef i \<and> gm_ExpectedBaseOID c = gn_ExpectedBaseOID i \<and>
     gm_ExpectedHeadOID c = gn_ExpectedHeadOID i"

definition claim_of_intent :: "GitMutationIntent \<Rightarrow> u64 \<Rightarrow> GitMutationClaim" where
  "claim_of_intent i epoch = \<lparr>gm_Ref = ef_Ref i, gm_SemanticKey = ef_SemanticKey i, gm_RequestDigest = gn_RequestDigest i,
     gm_TicketVersion = ef_TicketVersion i, gm_LeaderEpoch = LeaderEpoch (ef_Fence i),
     gm_RunnerEpoch = RunnerEpoch (ef_Fence i), gm_ClaimEpoch = epoch, gm_Repository = gn_Repository i,
     gm_Worktree = gn_Worktree i, gm_Branch = gn_Branch i, gm_Operation = gn_Operation i, gm_BaseRef = gn_BaseRef i,
     gm_ExpectedBaseOID = gn_ExpectedBaseOID i, gm_ExpectedHeadOID = gn_ExpectedHeadOID i\<rparr>"

text \<open>
  Of \<open>filepath.Rel\<close> and \<open>filepath.IsLocal\<close> only this remains: both paths are clean and absolute, so the relative path is local and not the dot
  exactly when the path lies below the root.
\<close>

definition TicketWorktreePath :: "git_env \<Rightarrow> TicketRef \<Rightarrow> string option" where
  "TicketWorktreePath gx ref =
     (let root = gx_worktreeRoot gx; path = Clean (root @ ''/'' @ Project ref @ ''/'' @ Ticket ref) in
      if TicketRef_Validate ref \<noteq> None \<or> \<not> validStorePath root \<or> CHR ''/'' \<notin> set (tl root) then None
      else if \<not> has_prefix (root @ ''/'') path \<or> \<not> validStorePath path then None
      else Some path)"

section \<open>Facts of an intent\<close>

record GitMutationIntentFacts =
  gf_Claim :: GitMutationClaim
  gf_Effect :: Effect
  gf_PreparedCommit :: string
  gf_PreparedTree :: string
  gf_PriorObserved :: bool
  gf_PriorOID :: string

definition validGitMutationFacts :: "string \<Rightarrow> string \<Rightarrow> string \<Rightarrow> string \<Rightarrow> string \<Rightarrow> int \<Rightarrow> string \<Rightarrow> bool" where
  "validGitMutationFacts operation base head commit tree observed oid \<longleftrightarrow>
     validGitOIDWidth base [head] \<and>
     (if operation = ''commit'' \<or> operation = ''refresh-base'' then
        observed = 0 \<and> oid = '''' \<and> (commit = '''' \<and> tree = '''' \<or> commit \<noteq> '''' \<and> tree \<noteq> '''' \<and> validGitOIDWidth base [commit, tree])
      else if operation = ''push'' then
        commit = '''' \<and> tree = '''' \<and> (observed = 0 \<and> oid = '''' \<or> observed = 1 \<and> validGitOIDWidth base [oid])
      else commit = '''' \<and> tree = '''' \<and> observed = 0 \<and> oid = '''')"

definition equalRecoveryAdvance :: "u64 \<Rightarrow> u64 \<Rightarrow> u64 \<Rightarrow> u64 \<Rightarrow> bool" where
  "equalRecoveryAdvance fromVersion fromRunner toVersion toRunner \<longleftrightarrow>
     fromVersion < toVersion \<and> fromRunner < toRunner \<and> toVersion - fromVersion = toRunner - fromRunner"

definition linkedGitRecoveryEffect :: "GitMutationClaim \<Rightarrow> Effect \<Rightarrow> bool" where
  "linkedGitRecoveryEffect c e =
     (if e_State e = EffectExecuting then
        e_TicketVersion e = gm_TicketVersion c \<and> e_LeaderEpoch e = gm_LeaderEpoch c \<and> e_RunnerEpoch e = gm_RunnerEpoch c \<and>
        e_ClaimEpoch e = gm_ClaimEpoch c
      else if e_LeaderEpoch e < gm_LeaderEpoch c \<or> e_ClaimEpoch e < gm_ClaimEpoch c then False
      else if e_TicketVersion e = gm_TicketVersion c \<and> e_RunnerEpoch e = gm_RunnerEpoch c then
        gm_LeaderEpoch c \<le> e_LeaderEpoch e \<and> gm_ClaimEpoch c \<le> e_ClaimEpoch e
      else gm_LeaderEpoch c < e_LeaderEpoch e \<and> gm_ClaimEpoch c < e_ClaimEpoch e \<and>
        equalRecoveryAdvance (gm_TicketVersion c) (gm_RunnerEpoch c) (e_TicketVersion e) (e_RunnerEpoch e))"

definition git_intent_at :: "db \<Rightarrow> string \<Rightarrow> git_intent_row option" where
  "git_intent_at d key = row_at gm_SemanticKey (git_mutation_intents d) key"

definition gitMutationIntentFactsFrom :: "git_env \<Rightarrow> db \<Rightarrow> string \<Rightarrow> store_error + GitMutationIntentFacts" where
  "gitMutationIntentFactsFrom gx d key =
     (if key = '''' then Inl ErrGitMutationIntent
      else case (git_intent_at d key, effect_at d key) of
        (Some i, Some e) \<Rightarrow>
          (let c = GitMutationClaim.truncate i in
           if \<not> validContractClaim c \<or> e_Ref e \<noteq> gm_Ref c \<or> e_Kind e \<noteq> ''git/'' @ gm_Operation c \<or>
              e_RequestDigest e \<noteq> gm_RequestDigest c \<or> \<not> effect_taken e \<or> \<not> linkedGitRecoveryEffect c e
             then Inl ErrGitMutationIntent
           else if \<not> validGitMutationFacts (gm_Operation c) (gm_ExpectedBaseOID c) (gm_ExpectedHeadOID c)
                  (gi_PreparedCommit i) (gi_PreparedTree i) (gi_PriorObserved i) (gi_PriorOID i)
             then Inl ErrGitMutationIntent
           else if gm_Operation c = ''refresh-base'' \<and>
                (\<not> gx_refreshPrepared gx d c (gi_PreparedCommit i) (gi_PreparedTree i) \<or>
                 e_State e = EffectConfirmed \<and>
                   (gi_PreparedCommit i = '''' \<or> e_ObservedIdentity e \<noteq> gi_PreparedCommit i))
             then Inl ErrGitMutationIntent
           else if gm_Operation c = ''commit'' \<and> e_State e = EffectConfirmed \<and> e_ObservedIdentity e \<noteq> gi_PreparedCommit i
             then Inl ErrGitMutationIntent
           else Inr \<lparr>gf_Claim = c, gf_Effect = e, gf_PreparedCommit = gi_PreparedCommit i,
             gf_PreparedTree = gi_PreparedTree i, gf_PriorObserved = (gi_PriorObserved i = 1), gf_PriorOID = gi_PriorOID i\<rparr>)
      | _ \<Rightarrow> Inl ErrGitMutationIntent)"

definition GitMutationIntentFacts_read :: "git_env \<Rightarrow> Store \<Rightarrow> string \<Rightarrow> store_error + GitMutationIntentFacts" where
  "GitMutationIntentFacts_read gx s key = gitMutationIntentFactsFrom gx (st_db s) key"

text \<open>The claim is current: the ticket fence holds, and its exact intent is executing under its epoch.\<close>

definition assertGitIntentCurrent :: "git_env \<Rightarrow> Gate option \<Rightarrow> db \<Rightarrow> GitMutationClaim \<Rightarrow> store_error option" where
  "assertGitIntentCurrent gx m d c =
     (if \<not> validContractClaim c then Some ErrGitMutationIntent
      else case assertTicketFence m d (gm_Ref c) (gm_TicketVersion c) (claim_fence c) of
        Some e \<Rightarrow> Some e
      | None \<Rightarrow>
        if count_where (\<lambda>i. GitMutationClaim.truncate i = c \<and>
             (case effect_at d (gm_SemanticKey c) of None \<Rightarrow> False
              | Some e \<Rightarrow> e_State e = EffectExecuting \<and> e_ClaimEpoch e = gm_ClaimEpoch c)) (git_mutation_intents d) \<noteq> 1
          then Some ErrGitMutationIntent
        else if gm_Operation c = ''refresh-base'' then gx_refreshMutation gx d (intent_of_claim c) else None)"

section \<open>Issuing a claim\<close>

text \<open>
  The repository, worktree, branch and protected base of a ticket as the Store has them. A worktree that is still to
  be created is bound through the branch allocation of the ticket.
\<close>

definition durable_binding :: "git_env \<Rightarrow> db \<Rightarrow> GitMutationIntent \<Rightarrow> (string \<times> string \<times> string \<times> string) option" where
  "durable_binding gx d i =
     (let ref = ef_Ref i in
      case project_at d (Channel ref) (Project ref) of None \<Rightarrow> None | Some p \<Rightarrow>
        if gn_Operation i = ''create-worktree'' then
          (case (TicketWorktreePath gx ref, row_at ba_Ref (branch_allocations d) ref) of
             (Some path, Some b) \<Rightarrow> Some (p_Path p, path, ba_Branch b, p_BaseRef p)
           | _ \<Rightarrow> None)
        else
          (case row_at wt_Ref (worktrees d) ref of None \<Rightarrow> None
           | Some w \<Rightarrow> Some (p_Path p, wt_Path w, wt_BranchRef w, p_BaseRef p)))"

definition refresh_authority :: "git_env \<Rightarrow> db \<Rightarrow> GitMutationIntent \<Rightarrow> store_error option" where
  "refresh_authority gx d i = (if gn_Operation i = ''refresh-base'' then gx_refreshMutation gx d i else None)"

definition git_effect :: "db \<Rightarrow> string \<Rightarrow> store_error + Effect" where
  "git_effect d key =
     (case effectFrom d key of Inl e \<Rightarrow> Inl (if e = ErrNotFound \<or> e = ErrNoRows then ErrGitMutationIntent else e) | Inr e \<Rightarrow> Inr e)"

definition minted_claim :: "GitMutationIntent \<Rightarrow> Effect \<Rightarrow> GitMutationClaim" where
  "minted_claim i e = (claim_of_intent i (e_ClaimEpoch e))
     \<lparr>gm_TicketVersion := e_TicketVersion e, gm_LeaderEpoch := e_LeaderEpoch e, gm_RunnerEpoch := e_RunnerEpoch e\<rparr>"

text \<open>The fenced identity of an intent follows the effect, its target and its recorded facts stay.\<close>

definition rebind_intent :: "GitMutationClaim \<Rightarrow> git_intent_row \<Rightarrow> git_intent_row" where
  "rebind_intent c r = r\<lparr>gm_TicketVersion := gm_TicketVersion c, gm_LeaderEpoch := gm_LeaderEpoch c,
     gm_RunnerEpoch := gm_RunnerEpoch c, gm_ClaimEpoch := gm_ClaimEpoch c\<rparr>"

definition new_git_intent :: "GitMutationClaim \<Rightarrow> git_intent_row" where
  "new_git_intent c = GitMutationClaim.extend c
     \<lparr>gi_PreparedCommit = '''', gi_PreparedTree = '''', gi_PriorObserved = 0, gi_PriorOID = ''''\<rparr>"

definition upsert_git_intent :: "GitMutationIntent \<Rightarrow> GitMutationClaim \<Rightarrow> db \<Rightarrow> store_error + db" where
  "upsert_git_intent i c d =
     (case git_intent_at d (ef_SemanticKey i) of
        None \<Rightarrow> Inr (d\<lparr>git_mutation_intents := insert_row (new_git_intent c) (git_mutation_intents d)\<rparr>)
      | Some r \<Rightarrow>
          if \<not> sameGitMutationBinding i (GitMutationClaim.truncate r) then Inl ErrGitMutationIntent
          else Inr (d\<lparr>git_mutation_intents :=
            update_where (\<lambda>r. gm_SemanticKey r = ef_SemanticKey i) (rebind_intent c) (git_mutation_intents d)\<rparr>))"

definition issue_git :: "git_env \<Rightarrow> Gate option \<Rightarrow> GitMutationIntent \<Rightarrow> db \<Rightarrow> store_error + (GitMutationClaim \<times> db)" where
  "issue_git gx m i d =
     guarded (assertTicketFence m d (ef_Ref i) (ef_TicketVersion i) (ef_Fence i))
     (guarded (refuse (durable_binding gx d i \<noteq> Some (gn_Repository i, gn_Worktree i, gn_Branch i, gn_BaseRef i)) ErrGitMutationIntent)
     (guarded (refresh_authority gx d i)
     (and_then (git_effect d (ef_SemanticKey i)) (\<lambda>e.
      guarded (refuse (\<not> effect_for e (EffectFence.truncate i) (''git/'' @ gn_Operation i) (gn_RequestDigest i) \<or> effect_taken e)
        ErrGitMutationIntent)
     (and_then (issue_effect (EffectFence.truncate i) (gn_RequestDigest i) ErrGitMutationIntent d) (\<lambda>(e', d').
      and_then (upsert_git_intent i (minted_claim i e') d') (\<lambda>d''. Inr (minted_claim i e', d''))))))))"

definition IssueGitMutationClaim :: "git_env \<Rightarrow> Store \<Rightarrow> GitMutationIntent \<Rightarrow> (store_error + GitMutationClaim) \<times> Store" where
  "IssueGitMutationClaim gx s i =
     (if \<not> validGitIntent i then (Inl ErrGitMutationIntent, s) else store_write s (issue_git gx (st_mutations s) i))"

section \<open>Reissuing an uncertain fetch\<close>

text \<open>The ticket's state and the three epochs of its fence, as the recovery paths read them in one join.\<close>

definition ticket_endpoint :: "db \<Rightarrow> TicketRef \<Rightarrow> (string \<times> mutationRevocation) option" where
  "ticket_endpoint d ref =
     (case (ticket_at d ref, leader_at d (Channel ref)) of
        (Some t, Some leader) \<Rightarrow> Some (t_State t, \<lparr>mr_version = t_Version t, mr_leader = leader, mr_runner = t_RunnerEpoch t\<rparr>)
      | _ \<Rightarrow> None)"

definition fence_endpoint :: "u64 \<Rightarrow> Fence \<Rightarrow> mutationRevocation" where
  "fence_endpoint v f = \<lparr>mr_version = v, mr_leader = LeaderEpoch f, mr_runner = RunnerEpoch f\<rparr>"

definition claim_endpoint :: "GitMutationClaim \<Rightarrow> mutationRevocation" where
  "claim_endpoint c = \<lparr>mr_version = gm_TicketVersion c, mr_leader = gm_LeaderEpoch c, mr_runner = gm_RunnerEpoch c\<rparr>"

definition at_endpoint :: "db \<Rightarrow> TicketRef \<Rightarrow> string \<Rightarrow> mutationRevocation \<Rightarrow> store_error option" where
  "at_endpoint d ref state v =
     (case ticket_endpoint d ref of None \<Rightarrow> Some ErrNoRows | Some found \<Rightarrow> refuse (found \<noteq> (state, v)) ErrStaleFence)"

definition fetch_row :: "GitMutationIntent \<Rightarrow> u64 \<Rightarrow> Effect \<Rightarrow> Effect" where
  "fetch_row i epoch r = r\<lparr>e_State := EffectExecuting, e_TicketVersion := ef_TicketVersion i,
     e_LeaderEpoch := LeaderEpoch (ef_Fence i), e_RunnerEpoch := RunnerEpoch (ef_Fence i), e_ClaimEpoch := epoch,
     e_ObservedIdentity := ''''\<rparr>"

text \<open>The partial unique index on executing effects applies to this update as to any other that sets the state.\<close>

definition reclaim_fetch :: "GitMutationIntent \<Rightarrow> GitMutationIntentFacts \<Rightarrow> db \<Rightarrow> store_error + (GitMutationClaim \<times> db)" where
  "reclaim_fetch i f d =
     (let e = gf_Effect f; epoch = e_ClaimEpoch e + 1; c = claim_of_intent i epoch;
          p = (\<lambda>r. r = e\<lparr>e_State := EffectUncertain, e_ObservedIdentity := ''''\<rparr>) in
      if count_where p (effects d) = 1 \<and> active_claim_conflict d e then Inl (ErrConstraint ''active_effect_claim'')
      else and_then (change_effect p (fetch_row i epoch) ErrStaleFence d) (\<lambda>d'.
        let q = (\<lambda>r. GitMutationClaim.truncate r = gf_Claim f) in
        if count_where q (git_mutation_intents d') \<noteq> 1 then Inl ErrGitMutationIntent
        else Inr (c, d'\<lparr>git_mutation_intents := update_where q (rebind_intent c) (git_mutation_intents d')\<rparr>)))"

definition reclaim_protected :: "git_env \<Rightarrow> Gate option \<Rightarrow> GitMutationIntent \<Rightarrow> db \<Rightarrow> store_error + (GitMutationClaim \<times> db)" where
  "reclaim_protected gx m i d =
     guarded (at_endpoint d (ef_Ref i) ''merging'' (fence_endpoint (ef_TicketVersion i) (ef_Fence i)))
     (guarded (assertTicketFence m d (ef_Ref i) (ef_TicketVersion i) (ef_Fence i))
     (case gitMutationIntentFactsFrom gx d (ef_SemanticKey i) of Inl _ \<Rightarrow> Inl ErrGitMutationIntent | Inr f \<Rightarrow>
      let e = gf_Effect f; c = gf_Claim f in
      guarded (refuse (\<not> sameGitMutationBinding i c \<or> e_Ref e \<noteq> ef_Ref i \<or> e_Kind e \<noteq> ''git/protected-ref-fetch'' \<or>
        e_RequestDigest e \<noteq> gn_RequestDigest i) ErrGitMutationIntent)
     (guarded (refuse (e_State e \<noteq> EffectUncertain \<or> e_ObservedIdentity e \<noteq> '''' \<or> e_TicketVersion e \<noteq> gm_TicketVersion c \<or>
        e_RunnerEpoch e \<noteq> gm_RunnerEpoch c \<or> e_LeaderEpoch e \<noteq> LeaderEpoch (ef_Fence i) \<or> e_ClaimEpoch e < gm_ClaimEpoch c) ErrStaleFence)
     (guarded (refuse (\<not> gx_bridge gx d (ef_Ref i) (claim_endpoint c) (fence_endpoint (ef_TicketVersion i) (ef_Fence i))) ErrStaleFence)
     (guarded (repositoryHasGitWriter d (gn_Repository i))
     (guarded (refuse (e_ClaimEpoch e = - 1) ErrStaleFence) (reclaim_fetch i f d)))))))"

definition ReclaimProtectedRefFetch :: "git_env \<Rightarrow> Store \<Rightarrow> GitMutationIntent \<Rightarrow> (store_error + GitMutationClaim) \<times> Store" where
  "ReclaimProtectedRefFetch gx s i =
     (if \<not> validGitIntent i \<or> gn_Operation i \<noteq> ''protected-ref-fetch'' then (Inl ErrGitMutationIntent, s)
      else store_write s (reclaim_protected gx (st_mutations s) i))"

section \<open>The lease of a repository\<close>

text \<open>
  A handle is a lease that was handed out: its claim and its nonce, the 32 fresh random bytes of the acquisition. The
  table allows one lease per repository, per semantic key and per nonce. When more than one of these is violated, the error
  depends on the order in which the database looks; both refuse.
\<close>

record git_handle =
  gh_Claim :: GitMutationClaim
  gh_Nonce :: string

definition new_git_lease :: "GitMutationClaim \<Rightarrow> string \<Rightarrow> bool \<Rightarrow> git_lease_row" where
  "new_git_lease c nonce observation = \<lparr>w_Ref = gm_Ref c, w_State = ''active'', w_LaunchState = ''unrecorded'',
     w_Repository = gm_Repository c, gl_Nonce = nonce, gl_Claim = c, gl_PID = 0, gl_PGID = 0, gl_BootIdentity = '''',
     gl_StartIdentity = '''', gl_PreparedCommit = '''', gl_PreparedTree = '''', gl_PriorObserved = 0, gl_PriorOID = '''',
     gl_ObservationOnly = observation\<rparr>"

definition git_lease_clash :: "GitMutationClaim \<Rightarrow> string \<Rightarrow> git_lease_row \<Rightarrow> bool" where
  "git_lease_clash c nonce l \<longleftrightarrow> gm_SemanticKey (gl_Claim l) = gm_SemanticKey c \<or> gl_Nonce l = nonce"

text \<open>The row that a handle names.\<close>

definition handle_row :: "git_handle \<Rightarrow> git_lease_row \<Rightarrow> bool" where
  "handle_row h l \<longleftrightarrow> w_Repository l = gm_Repository (gh_Claim h) \<and>
     gm_SemanticKey (gl_Claim l) = gm_SemanticKey (gh_Claim h) \<and> gl_Nonce l = gh_Nonce h"

definition active_handle :: "git_handle \<Rightarrow> git_lease_row \<Rightarrow> bool" where
  "active_handle h l \<longleftrightarrow> handle_row h l \<and> w_State l = ''active''"

definition change_git_lease :: "(git_lease_row \<Rightarrow> bool) \<Rightarrow> (git_lease_row \<Rightarrow> git_lease_row) \<Rightarrow> db \<Rightarrow> store_error + db" where
  "change_git_lease p f d =
     (if count_where p (git_mutation_leases d) \<noteq> 1 then Inl ErrGitMutationLease
      else Inr (d\<lparr>git_mutation_leases := update_where p f (git_mutation_leases d)\<rparr>))"

definition drop_git_lease :: "(git_lease_row \<Rightarrow> bool) \<Rightarrow> db \<Rightarrow> store_error + db" where
  "drop_git_lease p d =
     (if count_where p (git_mutation_leases d) \<noteq> 1 then Inl ErrGitMutationLease
      else Inr (d\<lparr>git_mutation_leases := delete_where p (git_mutation_leases d)\<rparr>))"

definition other_git_writer :: "GitMutationClaim \<Rightarrow> git_lease_row list \<Rightarrow> store_error option" where
  "other_git_writer c ls =
     (if list_ex (\<lambda>l. w_Repository l = gm_Repository c \<and> w_State l = ''quarantined'') ls then Some ErrGitMutationLease
      else if list_ex (\<lambda>l. w_Repository l = gm_Repository c \<and> w_State l = ''active'' \<and> \<not> gl_ObservationOnly l \<and>
        gm_SemanticKey (gl_Claim l) \<noteq> gm_SemanticKey c) ls
        then Some (ErrJoined ErrGitMutationContended ErrGitMutationLease)
      else None)"

definition insert_git_lease :: "GitMutationClaim \<Rightarrow> string \<Rightarrow> db \<Rightarrow> store_error + db" where
  "insert_git_lease c nonce d =
     (if list_ex (\<lambda>l. w_Repository l = gm_Repository c) (git_mutation_leases d) then Inl ErrGitMutationLease
      else if list_ex (git_lease_clash c nonce) (git_mutation_leases d) then Inl (ErrConstraint ''git_mutation_leases'')
      else Inr (d\<lparr>git_mutation_leases := insert_row (new_git_lease c nonce False) (git_mutation_leases d)\<rparr>))"

definition copy_prepared :: "git_env \<Rightarrow> git_handle \<Rightarrow> db \<Rightarrow> store_error + db" where
  "copy_prepared gx h d =
     (if gm_Operation (gh_Claim h) \<noteq> ''refresh-base'' then Inr d
      else case gitMutationIntentFactsFrom gx d (gm_SemanticKey (gh_Claim h)) of
        Inl _ \<Rightarrow> Inl ErrGitMutationLease
      | Inr f \<Rightarrow> Inr (d\<lparr>git_mutation_leases := update_where (handle_row h)
          (\<lambda>l. l\<lparr>gl_PreparedCommit := gf_PreparedCommit f, gl_PreparedTree := gf_PreparedTree f\<rparr>) (git_mutation_leases d)\<rparr>))"

definition acquire_git :: "git_env \<Rightarrow> Gate option \<Rightarrow> git_handle \<Rightarrow> db \<Rightarrow> store_error + (git_handle \<times> db)" where
  "acquire_git gx m h d =
     (let c = gh_Claim h in
      guarded (assertGitIntentCurrent gx m d c)
     (guarded (repositoryHasProviderWriterForGitClaim d (gm_Repository c))
     (guarded (repositoryHasCommandWriterForGitClaim d (gm_Repository c))
     (guarded (other_git_writer c (git_mutation_leases d))
     (and_then (insert_git_lease c (gh_Nonce h) d) (\<lambda>d'.
      and_then (copy_prepared gx h d') (\<lambda>d''. Inr (h, d''))))))))"

definition AcquireGitMutation :: "git_env \<Rightarrow> Store \<Rightarrow> string \<Rightarrow> GitMutationClaim \<Rightarrow> (store_error + git_handle) \<times> Store" where
  "AcquireGitMutation gx s nonce c =
     (if \<not> validContractClaim c then (Inl ErrGitMutationIntent, s)
      else store_write s (acquire_git gx (st_mutations s) \<lparr>gh_Claim = c, gh_Nonce = nonce\<rparr>))"

text \<open>\<open>Check\<close> reads the lease and then asserts the intent in a transaction of its own.\<close>

definition writing_handle :: "git_handle \<Rightarrow> git_lease_row \<Rightarrow> bool" where
  "writing_handle h l \<longleftrightarrow> active_handle h l \<and> \<not> gl_ObservationOnly l"

definition git_lease_Check :: "git_env \<Rightarrow> Store \<Rightarrow> git_handle \<Rightarrow> (store_error + unit) \<times> Store" where
  "git_lease_Check gx s h =
     (if count_where (writing_handle h) (git_mutation_leases (st_db s)) \<noteq> 1 then (Inl ErrGitMutationLease, s)
      else store_write s (\<lambda>d. guarded (assertGitIntentCurrent gx (st_mutations s) d (gh_Claim h)) (Inr ((), d))))"

text \<open>Every other operation of a handle answers the lease error when its intent is no longer current.\<close>

definition under_intent :: "git_env \<Rightarrow> Store \<Rightarrow> git_handle \<Rightarrow> (db \<Rightarrow> store_error + db) \<Rightarrow> (store_error + unit) \<times> Store" where
  "under_intent gx s h fn = store_write s (\<lambda>d.
     if assertGitIntentCurrent gx (st_mutations s) d (gh_Claim h) \<noteq> None then Inl ErrGitMutationLease
     else and_then (fn d) (\<lambda>d'. Inr ((), d')))"

section \<open>Facts recorded before an irreversible step\<close>

text \<open>
  A fact is written once, to the intent and to the lease. The intent keeps it when the lease is gone: a later
  lease takes an equal fact over, and any other fact is refused.
\<close>

definition record_git_fact :: "string \<Rightarrow> (git_intent_row \<Rightarrow> 'f) \<Rightarrow> ('f \<Rightarrow> git_intent_row \<Rightarrow> git_intent_row) \<Rightarrow>
    (git_lease_row \<Rightarrow> 'f) \<Rightarrow> ('f \<Rightarrow> git_lease_row \<Rightarrow> git_lease_row) \<Rightarrow> 'f \<Rightarrow> 'f \<Rightarrow> git_handle \<Rightarrow> db \<Rightarrow> store_error + db" where
  "record_git_fact operation of_intent set_intent of_lease set_lease none given h d =
     (let key = gm_SemanticKey (gh_Claim h);
          mine = (\<lambda>i. gm_SemanticKey i = key \<and> gm_Operation i = operation);
          held = (\<lambda>l. active_handle h l \<and> gm_Operation (gl_Claim l) = operation);
          empty_lease = change_git_lease (\<lambda>l. held l \<and> of_lease l = none) (set_lease given) in
      case (find mine (git_mutation_intents d), find (\<lambda>l. held l \<and> \<not> gl_ObservationOnly l) (git_mutation_leases d)) of
        (Some i, Some l) \<Rightarrow>
          if of_intent i = given \<and> of_lease l = given then Inr d
          else if of_intent i = given \<and> of_lease l = none then empty_lease d
          else if of_intent i \<noteq> none \<or> of_lease l \<noteq> none then Inl ErrGitMutationLease
          else (let empty = (\<lambda>i. mine i \<and> of_intent i = none) in
            if count_where empty (git_mutation_intents d) \<noteq> 1 then Inl ErrGitMutationLease
            else empty_lease (d\<lparr>git_mutation_intents := update_where empty (set_intent given) (git_mutation_intents d)\<rparr>))
      | _ \<Rightarrow> Inl ErrGitMutationLease)"

definition record_prepared :: "string \<times> string \<Rightarrow> git_handle \<Rightarrow> db \<Rightarrow> store_error + db" where
  "record_prepared = record_git_fact ''commit''
     (\<lambda>i. (gi_PreparedCommit i, gi_PreparedTree i)) (\<lambda>(commit, tree) i. i\<lparr>gi_PreparedCommit := commit, gi_PreparedTree := tree\<rparr>)
     (\<lambda>l. (gl_PreparedCommit l, gl_PreparedTree l)) (\<lambda>(commit, tree) l. l\<lparr>gl_PreparedCommit := commit, gl_PreparedTree := tree\<rparr>)
     ('''', '''')"

definition RecordPreparedCommit :: "git_env \<Rightarrow> Store \<Rightarrow> git_handle \<Rightarrow> string \<Rightarrow> string \<Rightarrow> (store_error + unit) \<times> Store" where
  "RecordPreparedCommit gx s h commit tree =
     (let c = gh_Claim h in
      if gm_Operation c \<noteq> ''commit'' \<or> \<not> validGitOIDWidth (gm_ExpectedBaseOID c) [gm_ExpectedHeadOID c, commit, tree]
        then (Inl ErrGitMutationLease, s)
      else under_intent gx s h (record_prepared (commit, tree) h))"

definition record_prior :: "int \<times> string \<Rightarrow> git_handle \<Rightarrow> db \<Rightarrow> store_error + db" where
  "record_prior = record_git_fact ''push''
     (\<lambda>i. (gi_PriorObserved i, gi_PriorOID i)) (\<lambda>(observed, oid) i. i\<lparr>gi_PriorObserved := observed, gi_PriorOID := oid\<rparr>)
     (\<lambda>l. (gl_PriorObserved l, gl_PriorOID l)) (\<lambda>(observed, oid) l. l\<lparr>gl_PriorObserved := observed, gl_PriorOID := oid\<rparr>)
     (0, '''')"

definition RecordPushPriorRemote :: "git_env \<Rightarrow> Store \<Rightarrow> git_handle \<Rightarrow> string \<Rightarrow> (store_error + unit) \<times> Store" where
  "RecordPushPriorRemote gx s h oid =
     (let c = gh_Claim h in
      if gm_Operation c \<noteq> ''push'' \<or> \<not> validGitOIDWidth (gm_ExpectedBaseOID c) [gm_ExpectedHeadOID c, oid]
        then (Inl ErrGitMutationLease, s)
      else under_intent gx s h (record_prior (1, oid) h))"

section \<open>The process behind a lease\<close>

text \<open>
  A launch is recorded while the child still waits behind its gate, and finished when the child is gone. In between the
  lease cannot be released.
\<close>

definition idle_lease :: "git_lease_row \<Rightarrow> bool" where
  "idle_lease l \<longleftrightarrow> w_LaunchState l = ''unrecorded'' \<or> w_LaunchState l = ''drained''"

definition git_lease_Release :: "git_env \<Rightarrow> Store \<Rightarrow> git_handle \<Rightarrow> (store_error + unit) \<times> Store" where
  "git_lease_Release gx s h = under_intent gx s h (drop_git_lease (\<lambda>l. active_handle h l \<and> idle_lease l))"

definition lease_launch :: "git_lease_row \<Rightarrow> ProcessLaunch" where
  "lease_launch l = \<lparr>pl_PID = gl_PID l, pl_PGID = gl_PGID l, pl_BootIdentity = gl_BootIdentity l, pl_StartIdentity = gl_StartIdentity l\<rparr>"

definition launch_lease :: "ProcessLaunch \<Rightarrow> git_lease_row \<Rightarrow> git_lease_row" where
  "launch_lease v l = l\<lparr>w_LaunchState := ''released'', gl_PID := pl_PID v, gl_PGID := pl_PGID v,
     gl_BootIdentity := pl_BootIdentity v, gl_StartIdentity := pl_StartIdentity v\<rparr>"

definition RecordGitMutationLaunch :: "git_env \<Rightarrow> Store \<Rightarrow> git_handle \<Rightarrow> ProcessLaunch \<Rightarrow> (store_error + unit) \<times> Store" where
  "RecordGitMutationLaunch gx s h v =
     (if \<not> valid_launch v then (Inl ErrGitMutationLease, s)
      else under_intent gx s h (change_git_lease (\<lambda>l. writing_handle h l \<and> idle_lease l) (launch_lease v)))"

definition FinishGitMutationLaunch :: "Store \<Rightarrow> git_handle \<Rightarrow> ProcessLaunch \<Rightarrow> (store_error + unit) \<times> Store" where
  "FinishGitMutationLaunch s h v =
     (if \<not> valid_launch v then (Inl ErrGitMutationLease, s)
      else store_write s (\<lambda>d. and_then (change_git_lease
        (\<lambda>l. writing_handle h l \<and> w_LaunchState l = ''released'' \<and> lease_launch l = v)
        (\<lambda>l. l\<lparr>w_LaunchState := ''drained''\<rparr>) d) (\<lambda>d'. Inr ((), d'))))"

section \<open>An absence proof\<close>

text \<open>
  The lease under which a caller proves that an uncertain worktree creation left nothing behind. No process can be
  launched through it: every launch asks for a lease that is not for observation.
\<close>

record absence_handle = git_handle +
  ah_Closed :: bool

definition absence_effect :: "mutationRevocation \<Rightarrow> u64 \<Rightarrow> Effect \<Rightarrow> Effect" where
  "absence_effect v epoch r = r\<lparr>e_TicketVersion := mr_version v, e_LeaderEpoch := mr_leader v, e_RunnerEpoch := mr_runner v,
     e_ClaimEpoch := epoch\<rparr>"

definition advance_claim :: "mutationRevocation \<Rightarrow> u64 \<Rightarrow> GitMutationClaim \<Rightarrow> GitMutationClaim" where
  "advance_claim v epoch c = c\<lparr>gm_TicketVersion := mr_version v, gm_LeaderEpoch := mr_leader v, gm_RunnerEpoch := mr_runner v,
     gm_ClaimEpoch := epoch\<rparr>"

definition insert_observation :: "GitMutationClaim \<Rightarrow> string \<Rightarrow> db \<Rightarrow> store_error + db" where
  "insert_observation c nonce d =
     (if list_ex (\<lambda>l. w_Repository l = gm_Repository c \<or> git_lease_clash c nonce l) (git_mutation_leases d)
        then Inl (ErrConstraint ''git_mutation_leases'')
      else Inr (d\<lparr>git_mutation_leases := insert_row (new_git_lease c nonce True) (git_mutation_leases d)\<rparr>))"

definition begin_absence :: "git_env \<Rightarrow> string \<Rightarrow> GitMutationClaim \<Rightarrow> EffectFence \<Rightarrow> db \<Rightarrow> store_error + (absence_handle \<times> db)" where
  "begin_absence gx nonce original current d =
     (let v = fence_endpoint (ef_TicketVersion current) (ef_Fence current); ref = gm_Ref original in
      case gitMutationIntentFactsFrom gx d (gm_SemanticKey original) of Inl _ \<Rightarrow> Inl ErrGitMutationIntent | Inr f \<Rightarrow>
      guarded (refuse (gf_Claim f \<noteq> original) ErrGitMutationIntent)
     (case effectFrom d (gm_SemanticKey original) of Inl _ \<Rightarrow> Inl ErrGitMutationIntent | Inr e \<Rightarrow>
      guarded (refuse (e_Kind e \<noteq> ''git/create-worktree'' \<or> e_State e \<noteq> EffectUncertain \<or> e_ObservedIdentity e \<noteq> '''' \<or>
        e_Ref e \<noteq> ref \<or> e_RequestDigest e \<noteq> gm_RequestDigest original) ErrGitMutationIntent)
     (guarded (refuse (e_ClaimEpoch e < gm_ClaimEpoch original \<or> mr_version v = 0 \<or> mr_leader v = 0 \<or> mr_runner v = 0 \<or>
        mr_version v < e_TicketVersion e \<or> mr_runner v < e_RunnerEpoch e \<or> e_LeaderEpoch e \<noteq> mr_leader v \<or>
        e_ClaimEpoch e \<noteq> ClaimEpoch (ef_Fence current) \<or> \<not> linkedGitRecoveryEffect original e) ErrStaleFence)
     (guarded (refuse (\<not> gx_ledger gx d ref (claim_endpoint original) v) ErrStaleFence)
     (guarded (at_endpoint d ref ''planning'' v)
     (guarded (refuse (list_ex (\<lambda>w. wt_Ref w = ref) (worktrees d)) ErrGitMutationIntent)
     (guarded (repositoryHasProviderWriter d (gm_Repository original))
     (guarded (repositoryHasCommandWriter d (gm_Repository original))
     (guarded (refuse (e_ClaimEpoch e = - 1) ErrStaleFence)
     (let epoch = e_ClaimEpoch e + 1; c = advance_claim v epoch (gf_Claim f) in
      and_then (change_effect (\<lambda>r. e_SemanticKey r = gm_SemanticKey original \<and> e_State r = EffectUncertain \<and>
          e_TicketVersion r = e_TicketVersion e \<and> e_LeaderEpoch r = e_LeaderEpoch e \<and> e_RunnerEpoch r = e_RunnerEpoch e \<and>
          e_ClaimEpoch r = e_ClaimEpoch e \<and> e_ObservedIdentity r = '''')
        (absence_effect v epoch) ErrStaleFence d) (\<lambda>d'.
      and_then (insert_observation c nonce d') (\<lambda>d''.
      Inr (\<lparr>gh_Claim = c, gh_Nonce = nonce, ah_Closed = False\<rparr>, d'')))))))))))))"

definition BeginWorktreeCreationAbsence ::
  "git_env \<Rightarrow> Store \<Rightarrow> string \<Rightarrow> GitMutationClaim \<Rightarrow> EffectFence \<Rightarrow> (store_error + absence_handle) \<times> Store" where
  "BeginWorktreeCreationAbsence gx s nonce original current =
     (if \<not> validContractClaim original \<or> gm_Operation original \<noteq> ''create-worktree'' \<or>
         ef_SemanticKey current \<noteq> gm_SemanticKey original \<or> ef_Ref current \<noteq> gm_Ref original \<or> ClaimEpoch (ef_Fence current) = 0
        then (Inl ErrGitMutationIntent, s)
      else store_write s (begin_absence gx nonce original current))"

text \<open>The lease of the proof is exactly as it was inserted, and its claim is the current endpoint of the effect.\<close>

definition checkFrom :: "git_env \<Rightarrow> Gate option \<Rightarrow> git_handle \<Rightarrow> bool \<Rightarrow> db \<Rightarrow> store_error option" where
  "checkFrom gx m h current d =
     (let c = gh_Claim h in
      case gitMutationIntentFactsFrom gx d (gm_SemanticKey c) of Inl _ \<Rightarrow> Some ErrGitMutationLease | Inr f \<Rightarrow>
      let e = gf_Effect f; o0 = gf_Claim f in
      if e_State e \<noteq> EffectUncertain \<or> e_ObservedIdentity e \<noteq> '''' then Some ErrGitMutationLease
      else if o0\<lparr>gm_TicketVersion := e_TicketVersion e, gm_LeaderEpoch := e_LeaderEpoch e, gm_RunnerEpoch := e_RunnerEpoch e,
               gm_ClaimEpoch := e_ClaimEpoch e\<rparr> \<noteq> c \<or> gm_Operation c \<noteq> ''create-worktree'' \<or> gm_ClaimEpoch c \<le> gm_ClaimEpoch o0
        then Some ErrGitMutationLease
      else if \<not> gx_ledgerPrefix gx d (gm_Ref c) (claim_endpoint o0) (claim_endpoint c) then Some ErrGitMutationLease
      else if count_where (\<lambda>l. l = new_git_lease c (gh_Nonce h) True) (git_mutation_leases d) \<noteq> 1 then Some ErrGitMutationLease
      else if current then assertTicketFence m d (gm_Ref c) (gm_TicketVersion c) (claim_fence c) else None)"

definition observed_row :: "git_handle \<Rightarrow> git_lease_row \<Rightarrow> bool" where
  "observed_row h l \<longleftrightarrow> active_handle h l \<and> w_LaunchState l = ''unrecorded'' \<and> gl_ObservationOnly l"

definition absence_Check :: "git_env \<Rightarrow> Store \<Rightarrow> absence_handle \<Rightarrow> (store_error + unit) \<times> Store" where
  "absence_Check gx s h =
     (if ah_Closed h then (Inl ErrGitMutationLease, s)
      else store_write s (\<lambda>d. guarded (checkFrom gx (st_mutations s) (git_handle.truncate h) True d) (Inr ((), d))))"

definition complete_absent :: "git_env \<Rightarrow> Gate option \<Rightarrow> git_handle \<Rightarrow> db \<Rightarrow> store_error + (unit \<times> db)" where
  "complete_absent gx m h d =
     (let c = gh_Claim h in
      guarded (checkFrom gx m h True d)
     (and_then (change_effect (\<lambda>r. e_SemanticKey r = gm_SemanticKey c \<and> e_State r = EffectUncertain \<and>
          e_TicketVersion r = gm_TicketVersion c \<and> e_LeaderEpoch r = gm_LeaderEpoch c \<and> e_RunnerEpoch r = gm_RunnerEpoch c \<and>
          e_ClaimEpoch r = gm_ClaimEpoch c \<and> e_ObservedIdentity r = '''')
        (\<lambda>r. r\<lparr>e_State := EffectFailed\<rparr>) ErrStaleFence d) (\<lambda>d'.
      and_then (drop_git_lease (observed_row h) d') (\<lambda>d''. Inr ((), d'')))))"

text \<open>Success closes the handle.\<close>

definition closing :: "absence_handle \<Rightarrow> (store_error + unit) \<times> Store \<Rightarrow> (store_error + unit) \<times> absence_handle \<times> Store" where
  "closing h r = (case fst r of Inl e \<Rightarrow> (Inl e, h, snd r) | Inr _ \<Rightarrow> (Inr (), h\<lparr>ah_Closed := True\<rparr>, snd r))"

definition CompleteAbsent :: "git_env \<Rightarrow> Store \<Rightarrow> absence_handle \<Rightarrow> (store_error + unit) \<times> absence_handle \<times> Store" where
  "CompleteAbsent gx s h =
     (if ah_Closed h then (Inl ErrGitMutationLease, h, s)
      else closing h (store_write s (complete_absent gx (st_mutations s) (git_handle.truncate h))))"

definition absence_Release :: "git_env \<Rightarrow> Store \<Rightarrow> absence_handle \<Rightarrow> (store_error + unit) \<times> absence_handle \<times> Store" where
  "absence_Release gx s h =
     (if ah_Closed h then (Inl ErrGitMutationLease, h, s)
      else closing h (store_write s (\<lambda>d. guarded (checkFrom gx (st_mutations s) (git_handle.truncate h) False d)
        (and_then (drop_git_lease (observed_row (git_handle.truncate h)) d) (\<lambda>d'. Inr ((), d'))))))"

section \<open>Recovery\<close>

text \<open>
  The leases of a channel as startup reads them: an inconsistent one is quarantined and refuses the whole listing.
\<close>

definition quarantineGitMutationLease :: "Store \<Rightarrow> git_handle \<Rightarrow> (store_error + unit) \<times> Store" where
  "quarantineGitMutationLease s h = store_write s (\<lambda>d. Inr ((), d\<lparr>git_mutation_leases := update_where (active_handle h)
     (\<lambda>l. l\<lparr>w_State := ''quarantined'', w_LaunchState := ''quarantined''\<rparr>) (git_mutation_leases d)\<rparr>))"

definition handle_of :: "git_lease_row \<Rightarrow> git_handle" where
  "handle_of l = \<lparr>gh_Claim = gl_Claim l, gh_Nonce = gl_Nonce l\<rparr>"

definition lease_consistent :: "git_env \<Rightarrow> db \<Rightarrow> git_lease_row \<Rightarrow> bool" where
  "lease_consistent gx d l \<longleftrightarrow>
     (let c = gl_Claim l in
      case gitMutationIntentFactsFrom gx d (gm_SemanticKey c) of Inl _ \<Rightarrow> False | Inr f \<Rightarrow>
      gf_Claim f = c \<and> validContractClaim c \<and>
      validGitMutationFacts (gm_Operation c) (gm_ExpectedBaseOID c) (gm_ExpectedHeadOID c)
        (gl_PreparedCommit l) (gl_PreparedTree l) (gl_PriorObserved l) (gl_PriorOID l) \<and>
      gf_PreparedCommit f = gl_PreparedCommit l \<and> gf_PreparedTree f = gl_PreparedTree l \<and>
      (if gf_PriorObserved f then 1 else 0) = gl_PriorObserved l \<and> gf_PriorOID f = gl_PriorOID l)"

fun audit_leases :: "git_env \<Rightarrow> git_lease_row list \<Rightarrow> Store \<Rightarrow> store_error option \<times> Store" where
  "audit_leases gx [] s = (None, s)"
| "audit_leases gx (l # ls) s =
     (if gl_ObservationOnly l then
        (case store_write s (\<lambda>d. guarded (checkFrom gx (st_mutations s) (handle_of l) False d) (Inr ((), d))) of
           (Inl _, s') \<Rightarrow> (Some ErrGitMutationLease, s')
         | (Inr _, s') \<Rightarrow> audit_leases gx ls s')
      else if lease_consistent gx (st_db s) l then audit_leases gx ls s
      else (Some ErrGitMutationLease, snd (quarantineGitMutationLease s (handle_of l))))"

definition channel_leases :: "db \<Rightarrow> string \<Rightarrow> git_lease_row list" where
  "channel_leases d channel = sort_key w_Repository (filter (\<lambda>l. Channel (w_Ref l) = channel) (git_mutation_leases d))"

definition ActiveGitMutationLeases :: "git_env \<Rightarrow> Store \<Rightarrow> string \<Rightarrow> (store_error + git_lease_row list) \<times> Store" where
  "ActiveGitMutationLeases gx s channel =
     (if \<not> Channel_Valid channel then (Inl ErrGitMutationLease, s)
      else let ls = channel_leases (st_db s) channel in
        case audit_leases gx ls s of (Some e, s') \<Rightarrow> (Inl e, s') | (None, s') \<Rightarrow> (Inr ls, s'))"

text \<open>An observation is abandoned by a later leader; it never had a process.\<close>

definition abandon_observation :: "git_env \<Rightarrow> Gate option \<Rightarrow> string \<Rightarrow> u64 \<Rightarrow> git_lease_row \<Rightarrow> db \<Rightarrow> store_error + (unit \<times> db)" where
  "abandon_observation gx m channel leader l d =
     (case leader_at d channel of None \<Rightarrow> Inl ErrNoRows | Some current \<Rightarrow>
      guarded (refuse (current \<noteq> leader \<or> leader \<le> gm_LeaderEpoch (gl_Claim l)) ErrStaleFence)
     (guarded (checkFrom gx m (handle_of l) False d)
     (and_then (drop_git_lease (observed_row (handle_of l)) d) (\<lambda>d'. Inr ((), d')))))"

text \<open>
  After the drain everything that was read is compared again in the transaction that removes the lease. What no longer
  agrees is kept, quarantined, and the transaction commits.
\<close>

definition bound_intent :: "db \<Rightarrow> git_lease_row \<Rightarrow> bool" where
  "bound_intent d l =
     (let c = gl_Claim l in
      list_ex (\<lambda>i. GitMutationClaim.truncate i = c \<and> gi_PreparedCommit i = gl_PreparedCommit l \<and>
          gi_PreparedTree i = gl_PreparedTree l \<and> gi_PriorObserved i = gl_PriorObserved l \<and> gi_PriorOID i = gl_PriorOID l)
        (git_mutation_intents d) \<and>
      list_ex (\<lambda>e. e_SemanticKey e = gm_SemanticKey c \<and> e_Ref e = gm_Ref c \<and> e_Kind e = ''git/'' @ gm_Operation c \<and>
          (e_State e = EffectExecuting \<or> e_State e = EffectUncertain) \<and> e_RequestDigest e = gm_RequestDigest c \<and>
          e_TicketVersion e = gm_TicketVersion c \<and> e_LeaderEpoch e = gm_LeaderEpoch c \<and>
          e_RunnerEpoch e = gm_RunnerEpoch c \<and> e_ClaimEpoch e = gm_ClaimEpoch c) (effects d))"

definition retire_drained :: "string \<Rightarrow> u64 \<Rightarrow> git_lease_row \<Rightarrow> db \<Rightarrow> store_error + (bool \<times> db)" where
  "retire_drained channel leader l d =
     (case leader_at d channel of None \<Rightarrow> Inl ErrNoRows | Some current \<Rightarrow>
      guarded (refuse (current \<noteq> leader) ErrStaleFence)
     (let same = (\<lambda>r. r\<lparr>gl_ObservationOnly := gl_ObservationOnly l\<rparr> = l\<lparr>w_State := ''active''\<rparr> \<and> bound_intent d l) in
      if count_where same (git_mutation_leases d) = 1
        then Inr (False, d\<lparr>git_mutation_leases := delete_where same (git_mutation_leases d)\<rparr>)
      else Inr (True, d\<lparr>git_mutation_leases := update_where (handle_row (handle_of l))
        (\<lambda>r. r\<lparr>w_State := ''quarantined'', w_LaunchState := ''quarantined''\<rparr>) (git_mutation_leases d)\<rparr>)))"

text \<open>\<open>drainer\<close> is the native drainer, or none: it says whether the process group of a launch is proven gone.\<close>

definition drained_by :: "(ProcessLaunch \<Rightarrow> bool) option \<Rightarrow> ProcessLaunch \<Rightarrow> bool" where
  "drained_by drainer v \<longleftrightarrow> valid_launch v \<and> (case drainer of None \<Rightarrow> False | Some drain \<Rightarrow> drain v)"

fun recover_leases :: "git_env \<Rightarrow> string \<Rightarrow> u64 \<Rightarrow> (ProcessLaunch \<Rightarrow> bool) option \<Rightarrow> git_lease_row list \<Rightarrow> Store \<Rightarrow>
    (store_error + unit) \<times> Store" where
  "recover_leases gx channel leader drainer [] s = (Inr (), s)"
| "recover_leases gx channel leader drainer (l # ls) s =
     (if gl_ObservationOnly l then
        (case store_write s (abandon_observation gx (st_mutations s) channel leader l) of
           (Inl e, s') \<Rightarrow> (Inl e, s')
         | (Inr _, s') \<Rightarrow> recover_leases gx channel leader drainer ls s')
      else if \<not> drained_by drainer (lease_launch l)
        then (Inl ErrGitMutationLease, snd (quarantineGitMutationLease s (handle_of l)))
      else case store_write s (retire_drained channel leader l) of
        (Inl e, s') \<Rightarrow> (Inl e, s')
      | (Inr quarantined, s') \<Rightarrow>
          if quarantined then (Inl ErrGitMutationLease, s') else recover_leases gx channel leader drainer ls s')"

definition RecoverGitMutationLeases ::
  "git_env \<Rightarrow> Store \<Rightarrow> string \<Rightarrow> u64 \<Rightarrow> (ProcessLaunch \<Rightarrow> bool) option \<Rightarrow> (store_error + unit) \<times> Store" where
  "RecoverGitMutationLeases gx s channel leader drainer =
     (if \<not> Channel_Valid channel \<or> leader = 0 then (Inl ErrGitMutationLease, s)
      else case ActiveGitMutationLeases gx s channel of
        (Inl e, s') \<Rightarrow> (Inl e, s')
      | (Inr ls, s') \<Rightarrow> recover_leases gx channel leader drainer ls s')"

section \<open>Settling and reading intents\<close>

definition confirm_creation :: "GitMutationClaim \<Rightarrow> string \<Rightarrow> db \<Rightarrow> store_error + (Effect \<times> db)" where
  "confirm_creation c observed d =
     and_then (effectFrom d (gm_SemanticKey c)) (\<lambda>e.
     guarded (refuse (e_Ref e \<noteq> gm_Ref c \<or> e_Kind e \<noteq> ''git/create-worktree'' \<or> e_RequestDigest e \<noteq> gm_RequestDigest c \<or>
       \<not> linkedGitRecoveryEffect c e) ErrStaleFence)
    (if e_State e = EffectConfirmed \<and> e_ObservedIdentity e = observed then Inr (e, d)
     else guarded (refuse (e_State e \<noteq> EffectUncertain) ErrStaleFence)
    (case ticket_endpoint d (gm_Ref c) of None \<Rightarrow> Inl ErrNoRows | Some (state, v) \<Rightarrow>
     guarded (refuse (state \<noteq> ''planning'' \<or> mr_leader v \<noteq> e_LeaderEpoch e \<or>
       \<not> equalRecoveryAdvance (e_TicketVersion e) (e_RunnerEpoch e) (mr_version v) (mr_runner v)) ErrStaleFence)
    (guarded (currentFence d (Channel (gm_Ref c)) (mr_version v) (mr_runner v)
       \<lparr>LeaderEpoch = mr_leader v, RunnerEpoch = mr_runner v, ClaimEpoch = e_ClaimEpoch e\<rparr>)
    (and_then (change_effect (\<lambda>r. e_SemanticKey r = e_SemanticKey e \<and> e_State r = EffectUncertain \<and>
         e_TicketVersion r = e_TicketVersion e \<and> e_LeaderEpoch r = e_LeaderEpoch e \<and> e_RunnerEpoch r = e_RunnerEpoch e \<and>
         e_ClaimEpoch r = e_ClaimEpoch e \<and> e_RequestDigest r = e_RequestDigest e)
       (\<lambda>r. r\<lparr>e_State := EffectConfirmed, e_ObservedIdentity := observed, e_TicketVersion := mr_version v,
          e_RunnerEpoch := mr_runner v\<rparr>) ErrStaleFence d) (\<lambda>d'.
     and_then (effectFrom d' (gm_SemanticKey c)) (\<lambda>e'. Inr (e', d'))))))))"

definition ConfirmRecoveredWorktreeCreation :: "git_env \<Rightarrow> Store \<Rightarrow> GitMutationClaim \<Rightarrow> string \<Rightarrow> (store_error + Effect) \<times> Store" where
  "ConfirmRecoveredWorktreeCreation gx s c observed =
     (if \<not> validContractClaim c \<or> gm_Operation c \<noteq> ''create-worktree'' \<or> observed = '''' then (Inl ErrGitMutationIntent, s)
      else if (case GitMutationIntentFacts_read gx s (gm_SemanticKey c) of Inl _ \<Rightarrow> True | Inr f \<Rightarrow> gf_Claim f \<noteq> c)
        then (Inl ErrGitMutationIntent, s)
      else store_write s (confirm_creation c observed))"

text \<open>The intents of a ticket for one operation whose effects are in one of the given states.\<close>

definition intent_keys :: "db \<Rightarrow> TicketRef \<Rightarrow> string \<Rightarrow> string list \<Rightarrow> string list" where
  "intent_keys d ref operation states =
     sort (map gm_SemanticKey (filter (\<lambda>i. gm_Ref i = ref \<and> gm_Operation i = operation \<and>
       (case effect_at d (gm_SemanticKey i) of None \<Rightarrow> False | Some e \<Rightarrow> e_State e \<in> set states)) (git_mutation_intents d)))"

definition facts_for :: "git_env \<Rightarrow> Store \<Rightarrow> TicketRef \<Rightarrow> string \<Rightarrow> string \<Rightarrow> store_error + GitMutationIntentFacts" where
  "facts_for gx s ref operation key =
     and_then (GitMutationIntentFacts_read gx s key) (\<lambda>f.
       guarded (refuse (gm_Ref (gf_Claim f) \<noteq> ref \<or> gm_Operation (gf_Claim f) \<noteq> operation) ErrGitMutationIntent) (Inr f))"

definition WorktreeCreationIntent :: "git_env \<Rightarrow> Store \<Rightarrow> TicketRef \<Rightarrow> store_error + GitMutationIntentFacts" where
  "WorktreeCreationIntent gx s ref =
     (case TicketRef_Validate ref of Some e \<Rightarrow> Inl (ErrRef e) | None \<Rightarrow>
      (case intent_keys (st_db s) ref ''create-worktree'' [EffectExecuting, EffectUncertain, EffectConfirmed] of
         [] \<Rightarrow> Inl ErrNotFound
       | [key] \<Rightarrow> facts_for gx s ref ''create-worktree'' key
       | _ \<Rightarrow> Inl ErrGitMutationIntent))"

text \<open>
  The argument is the variadic list of keys. With a key, confirmed pushes of earlier candidates do not count.
\<close>

definition PublicationPushIntent :: "git_env \<Rightarrow> Store \<Rightarrow> TicketRef \<Rightarrow> string list \<Rightarrow> store_error + GitMutationIntentFacts" where
  "PublicationPushIntent gx s ref semanticKeys =
     (case TicketRef_Validate ref of Some e \<Rightarrow> Inl (ErrRef e) | None \<Rightarrow>
      if 1 < length semanticKeys \<or> semanticKeys = [''''] then Inl ErrGitMutationIntent
      else let current = (if semanticKeys = [] then '''' else hd semanticKeys);
               states = EffectExecuting # EffectUncertain # (if current = '''' then [EffectConfirmed] else []);
               keys = intent_keys (st_db s) ref ''push'' states in
        if 1 < length keys \<or> length keys = 1 \<and> current \<noteq> '''' \<and> hd keys \<noteq> current then Inl ErrGitMutationIntent
        else if current = '''' \<and> keys = [] then Inl ErrNotFound
        else let key = (if current = '''' then hd keys else current) in
          (case find (\<lambda>e. e_SemanticKey e = key \<and> e_Ref e = ref \<and> e_Kind e = ''git/push'') (effects (st_db s)) of
             None \<Rightarrow> Inl ErrNotFound
           | Some e \<Rightarrow>
               if \<not> effect_taken e then Inl ErrNotFound
               else and_then (facts_for gx s ref ''push'' key) (\<lambda>f.
                 guarded (refuse (e_Kind (gf_Effect f) \<noteq> ''git/push'' \<or> \<not> effect_taken (gf_Effect f)) ErrGitMutationIntent) (Inr f))))"

end
