(* ===== verification/RepositoryCommands.thy ===== *)
theory RepositoryCommands
  imports Writers
begin

text \<open>
  Repository commands (\<^verbatim>\<open>internal/store/repository_command.go\<close>): the intent of one command in a worktree, the exclusive
  lease of its repository, the process and the process groups behind the lease, and the recovery that retires a command
  only when its gate never opened or its whole process tree is gone.
\<close>

declare rune_len.simps(2) [simp del]

section \<open>Intents\<close>

record RepositoryCommandIntent = EffectFence +
  kn_RequestDigest :: string
  kn_Repository :: string
  kn_Worktree :: string
  kn_WorktreeIdentity :: string
  kn_Branch :: string
  kn_BaseRef :: string
  kn_BaseSHA :: string
  kn_CommandDigest :: string
  kn_SpecDigest :: string
  kn_PolicyDigest :: string
  kn_ExecutablePath :: string
  kn_ExecutableDigest :: string

text \<open>The Git snapshot of a worktree, as \<open>git.Identity\<close> is decoded from the stored text.\<close>

record GitIdentity =
  gy_Repository :: string
  gy_RepositoryDev :: u64
  gy_RepositoryIno :: u64
  gy_Worktree :: string
  gy_WorktreeDev :: u64
  gy_WorktreeIno :: u64
  gy_GitFile :: string
  gy_GitFileDev :: u64
  gy_GitFileIno :: u64
  gy_CommonDir :: string
  gy_CommonDirDev :: u64
  gy_CommonDirIno :: u64
  gy_Origin :: string
  gy_PushOrigin :: string
  gy_PushOriginDev :: u64
  gy_PushOriginIno :: u64
  gy_BaseRef :: string
  gy_BaseHead :: string
  gy_HeadRef :: string
  gy_ConfigHash :: string
  gy_HooksHash :: string

definition zero_git_identity :: GitIdentity where
  "zero_git_identity = \<lparr>gy_Repository = '''', gy_RepositoryDev = 0, gy_RepositoryIno = 0, gy_Worktree = '''', gy_WorktreeDev = 0,
     gy_WorktreeIno = 0, gy_GitFile = '''', gy_GitFileDev = 0, gy_GitFileIno = 0, gy_CommonDir = '''', gy_CommonDirDev = 0,
     gy_CommonDirIno = 0, gy_Origin = '''', gy_PushOrigin = '''', gy_PushOriginDev = 0, gy_PushOriginIno = 0, gy_BaseRef = '''',
     gy_BaseHead = '''', gy_HeadRef = '''', gy_ConfigHash = '''', gy_HooksHash = ''''\<rparr>"

definition decode_git_identity :: "json \<Rightarrow> GitIdentity \<Rightarrow> GitIdentity option" where
  "decode_git_identity = decode_struct True
     [(''Repository'', at_field gy_Repository (\<lambda>v. gy_Repository_update (\<lambda>_. v)) decode_string),
      (''RepositoryDev'', at_field gy_RepositoryDev (\<lambda>v. gy_RepositoryDev_update (\<lambda>_. v)) decode_uint),
      (''RepositoryIno'', at_field gy_RepositoryIno (\<lambda>v. gy_RepositoryIno_update (\<lambda>_. v)) decode_uint),
      (''Worktree'', at_field gy_Worktree (\<lambda>v. gy_Worktree_update (\<lambda>_. v)) decode_string),
      (''WorktreeDev'', at_field gy_WorktreeDev (\<lambda>v. gy_WorktreeDev_update (\<lambda>_. v)) decode_uint),
      (''WorktreeIno'', at_field gy_WorktreeIno (\<lambda>v. gy_WorktreeIno_update (\<lambda>_. v)) decode_uint),
      (''GitFile'', at_field gy_GitFile (\<lambda>v. gy_GitFile_update (\<lambda>_. v)) decode_string),
      (''GitFileDev'', at_field gy_GitFileDev (\<lambda>v. gy_GitFileDev_update (\<lambda>_. v)) decode_uint),
      (''GitFileIno'', at_field gy_GitFileIno (\<lambda>v. gy_GitFileIno_update (\<lambda>_. v)) decode_uint),
      (''CommonDir'', at_field gy_CommonDir (\<lambda>v. gy_CommonDir_update (\<lambda>_. v)) decode_string),
      (''CommonDirDev'', at_field gy_CommonDirDev (\<lambda>v. gy_CommonDirDev_update (\<lambda>_. v)) decode_uint),
      (''CommonDirIno'', at_field gy_CommonDirIno (\<lambda>v. gy_CommonDirIno_update (\<lambda>_. v)) decode_uint),
      (''Origin'', at_field gy_Origin (\<lambda>v. gy_Origin_update (\<lambda>_. v)) decode_string),
      (''PushOrigin'', at_field gy_PushOrigin (\<lambda>v. gy_PushOrigin_update (\<lambda>_. v)) decode_string),
      (''PushOriginDev'', at_field gy_PushOriginDev (\<lambda>v. gy_PushOriginDev_update (\<lambda>_. v)) decode_uint),
      (''PushOriginIno'', at_field gy_PushOriginIno (\<lambda>v. gy_PushOriginIno_update (\<lambda>_. v)) decode_uint),
      (''BaseRef'', at_field gy_BaseRef (\<lambda>v. gy_BaseRef_update (\<lambda>_. v)) decode_string),
      (''BaseHead'', at_field gy_BaseHead (\<lambda>v. gy_BaseHead_update (\<lambda>_. v)) decode_string),
      (''HeadRef'', at_field gy_HeadRef (\<lambda>v. gy_HeadRef_update (\<lambda>_. v)) decode_string),
      (''ConfigHash'', at_field gy_ConfigHash (\<lambda>v. gy_ConfigHash_update (\<lambda>_. v)) decode_string),
      (''HooksHash'', at_field gy_HooksHash (\<lambda>v. gy_HooksHash_update (\<lambda>_. v)) decode_string)]"

text \<open>
  A \<open>json.Decoder\<close> reads the first value of its input and leaves the rest alone. The first value of a text is its shortest
  prefix that is a valid text; for a number this can be too short, and neither decodes into a struct.
\<close>

definition first_json :: "string \<Rightarrow> json option" where
  "first_json raw =
     (case List.find json_valid (map (\<lambda>n. take n raw) [0..<length raw + 1]) of None \<Rightarrow> None | Some p \<Rightarrow> json_parse p)"

definition identity_names :: "GitIdentity \<Rightarrow> string list" where
  "identity_names i = [gy_Repository i, gy_Worktree i, gy_GitFile i, gy_CommonDir i, gy_Origin i, gy_PushOrigin i,
     gy_ConfigHash i, gy_HooksHash i]"

definition identity_nodes :: "GitIdentity \<Rightarrow> u64 list" where
  "identity_nodes i = [gy_RepositoryDev i, gy_RepositoryIno i, gy_WorktreeDev i, gy_WorktreeIno i, gy_GitFileDev i, gy_GitFileIno i,
     gy_CommonDirDev i, gy_CommonDirIno i]"

definition validRepositoryWorktreeIdentity :: "string \<Rightarrow> string \<Rightarrow> string \<Rightarrow> string \<Rightarrow> string \<Rightarrow> string \<Rightarrow> bool" where
  "validRepositoryWorktreeIdentity raw repository worktree branch baseRef baseSHA \<longleftrightarrow>
     (case first_json raw of None \<Rightarrow> False | Some j \<Rightarrow>
      case decode_git_identity j zero_git_identity of None \<Rightarrow> False | Some i \<Rightarrow>
        gy_Repository i = repository \<and> gy_Worktree i = worktree \<and> gy_HeadRef i = branch \<and> gy_BaseRef i = baseRef \<and>
        gy_BaseHead i = baseSHA \<and> list_all (\<lambda>v. TrimSpace v \<noteq> '''') (identity_names i) \<and>
        has_prefix ''gitdir: '' (gy_GitFile i) \<and>
        (let target = TrimSpace (drop 8 (gy_GitFile i)) in IsAbs target \<and> Clean target = target) \<and>
        list_all (\<lambda>n. n \<noteq> 0) (identity_nodes i) \<and>
        (IsAbs (gy_PushOrigin i) \<longrightarrow> gy_PushOriginDev i \<noteq> 0 \<and> gy_PushOriginIno i \<noteq> 0))"

text \<open>\<open>filepath.Base\<close> of a valid path is its last element.\<close>

definition tagged_digest :: "string \<Rightarrow> string \<Rightarrow> bool" where
  "tagged_digest tag digest \<longleftrightarrow> has_prefix tag digest \<and>
     (let v = drop (length tag) digest in length v = 64 \<and> validClaimDigest (''sha256:'' @ v))"

definition validRepositoryExecutableDigest :: "string \<Rightarrow> string \<Rightarrow> bool" where
  "validRepositoryExecutableDigest path digest \<longleftrightarrow>
     (if last (split_at (CHR ''/'') path) \<noteq> ''node'' then validClaimDigest digest
      else if has_prefix ''nysa-api-pure-v1:sha256:'' digest then tagged_digest ''nysa-api-pure-v1:sha256:'' digest
      else tagged_digest ''node22-closure-v1:sha256:'' digest)"

definition command_intent_of :: "RepositoryCommandClaim \<Rightarrow> RepositoryCommandIntent" where
  "command_intent_of c = \<lparr>ef_SemanticKey = kc_SemanticKey c, ef_Ref = kc_Ref c, ef_TicketVersion = kc_TicketVersion c,
     ef_Fence = \<lparr>LeaderEpoch = kc_LeaderEpoch c, RunnerEpoch = kc_RunnerEpoch c, ClaimEpoch = 0\<rparr>,
     kn_RequestDigest = kc_RequestDigest c, kn_Repository = kc_Repository c, kn_Worktree = kc_Worktree c,
     kn_WorktreeIdentity = kc_WorktreeIdentity c, kn_Branch = kc_Branch c, kn_BaseRef = kc_BaseRef c, kn_BaseSHA = kc_BaseSHA c,
     kn_CommandDigest = kc_CommandDigest c, kn_SpecDigest = kc_SpecDigest c, kn_PolicyDigest = kc_PolicyDigest c,
     kn_ExecutablePath = kc_ExecutablePath c, kn_ExecutableDigest = kc_ExecutableDigest c\<rparr>"

definition validRepositoryCommandIntent :: "RepositoryCommandIntent \<Rightarrow> bool" where
  "validRepositoryCommandIntent i \<longleftrightarrow>
     TicketRef_Validate (ef_Ref i) = None \<and> ef_SemanticKey i \<noteq> '''' \<and> validClaimDigest (kn_RequestDigest i) \<and>
     0 < ef_TicketVersion i \<and> 0 < LeaderEpoch (ef_Fence i) \<and> 0 < RunnerEpoch (ef_Fence i) \<and>
     validStorePath (kn_Repository i) \<and> validStorePath (kn_Worktree i) \<and>
     validRepositoryWorktreeIdentity (kn_WorktreeIdentity i) (kn_Repository i) (kn_Worktree i) (kn_Branch i) (kn_BaseRef i) (kn_BaseSHA i) \<and>
     validClaimDigest (kn_CommandDigest i) \<and> validClaimDigest (kn_SpecDigest i) \<and> validClaimDigest (kn_PolicyDigest i) \<and>
     validStorePath (kn_ExecutablePath i) \<and> validRepositoryExecutableDigest (kn_ExecutablePath i) (kn_ExecutableDigest i)"

definition validRepositoryCommandClaim :: "RepositoryCommandClaim \<Rightarrow> bool" where
  "validRepositoryCommandClaim c \<longleftrightarrow> 0 < kc_ClaimEpoch c \<and> validRepositoryCommandIntent (command_intent_of c)"

definition command_claim :: "RepositoryCommandIntent \<Rightarrow> u64 \<Rightarrow> RepositoryCommandClaim" where
  "command_claim i epoch = \<lparr>kc_Ref = ef_Ref i, kc_SemanticKey = ef_SemanticKey i, kc_RequestDigest = kn_RequestDigest i,
     kc_TicketVersion = ef_TicketVersion i, kc_LeaderEpoch = LeaderEpoch (ef_Fence i), kc_RunnerEpoch = RunnerEpoch (ef_Fence i),
     kc_ClaimEpoch = epoch, kc_Repository = kn_Repository i, kc_Worktree = kn_Worktree i, kc_WorktreeIdentity = kn_WorktreeIdentity i,
     kc_Branch = kn_Branch i, kc_BaseRef = kn_BaseRef i, kc_BaseSHA = kn_BaseSHA i, kc_CommandDigest = kn_CommandDigest i,
     kc_SpecDigest = kn_SpecDigest i, kc_PolicyDigest = kn_PolicyDigest i, kc_ExecutablePath = kn_ExecutablePath i,
     kc_ExecutableDigest = kn_ExecutableDigest i\<rparr>"

section \<open>Issuing a claim\<close>

definition executing_at :: "db \<Rightarrow> string \<Rightarrow> u64 \<Rightarrow> bool" where
  "executing_at d key epoch \<longleftrightarrow>
     (case effect_at d key of None \<Rightarrow> False | Some e \<Rightarrow> e_State e = EffectExecuting \<and> e_ClaimEpoch e = epoch)"

text \<open>A claim that was issued before for exactly this request is returned again: its response may have been lost.\<close>

definition repositoryCommandClaimForIntent :: "db \<Rightarrow> RepositoryCommandIntent \<Rightarrow> store_error + RepositoryCommandClaim option" where
  "repositoryCommandClaimForIntent d i =
     (case List.find (\<lambda>r. r = command_claim i (kc_ClaimEpoch r) \<and> executing_at d (ef_SemanticKey i) (kc_ClaimEpoch r))
        (repository_command_intents d) of
        None \<Rightarrow> Inr None
      | Some c \<Rightarrow> if \<not> validRepositoryCommandClaim c then Inl ErrRepositoryCommandIntent else Inr (Some c))"

definition command_binding :: "db \<Rightarrow> TicketRef \<Rightarrow> (string \<times> string \<times> string \<times> string \<times> string \<times> string) option" where
  "command_binding d ref =
     (case (project_at d (Channel ref) (Project ref), row_at wt_Ref (worktrees d) ref) of
        (Some p, Some w) \<Rightarrow> Some (p_Path p, wt_Path w, wt_IdentityJSON w, wt_BranchRef w, p_BaseRef p, wt_BaseSHA w)
      | _ \<Rightarrow> None)"

definition mint_command :: "RepositoryCommandIntent \<Rightarrow> db \<Rightarrow> store_error + (RepositoryCommandClaim \<times> db)" where
  "mint_command i d =
     (case effectFrom d (ef_SemanticKey i) of Inl _ \<Rightarrow> Inl ErrRepositoryCommandIntent | Inr e \<Rightarrow>
      guarded (refuse (\<not> effect_for e (EffectFence.truncate i) ''repository_command'' (kn_RequestDigest i) \<or> effect_taken e)
        ErrRepositoryCommandIntent)
     (and_then (issue_effect (EffectFence.truncate i) (kn_RequestDigest i) ErrRepositoryCommandIntent d) (\<lambda>(e', d').
      let c = (command_claim i (e_ClaimEpoch e'))\<lparr>kc_TicketVersion := e_TicketVersion e', kc_LeaderEpoch := e_LeaderEpoch e',
            kc_RunnerEpoch := e_RunnerEpoch e'\<rparr> in
      if list_ex (\<lambda>r. kc_SemanticKey r = ef_SemanticKey i) (repository_command_intents d')
        then Inl (ErrConstraint ''repository_command_intents'')
      else Inr (c, d'\<lparr>repository_command_intents := insert_row c (repository_command_intents d')\<rparr>))))"

definition issue_command :: "Gate option \<Rightarrow> RepositoryCommandIntent \<Rightarrow> db \<Rightarrow> store_error + (RepositoryCommandClaim \<times> db)" where
  "issue_command m i d =
     guarded (assertTicketFence m d (ef_Ref i) (ef_TicketVersion i) (ef_Fence i))
     (guarded (refuse (list_ex (\<lambda>r. kc_SemanticKey r = ef_SemanticKey i) (repository_command_results d)) ErrRepositoryCommandIntent)
     (and_then (repositoryCommandClaimForIntent d i) (\<lambda>found. case found of
        Some c \<Rightarrow> Inr (c, d)
      | None \<Rightarrow>
          guarded (refuse (command_binding d (ef_Ref i) \<noteq> Some (kn_Repository i, kn_Worktree i, kn_WorktreeIdentity i, kn_Branch i,
            kn_BaseRef i, kn_BaseSHA i)) ErrRepositoryCommandIntent) (mint_command i d))))"

definition IssueRepositoryCommandClaim :: "Store \<Rightarrow> RepositoryCommandIntent \<Rightarrow> (store_error + RepositoryCommandClaim) \<times> Store" where
  "IssueRepositoryCommandClaim s i =
     (if \<not> validRepositoryCommandIntent i then (Inl ErrRepositoryCommandIntent, s)
      else store_write s (issue_command (st_mutations s) i))"

definition repositoryCommandIntentMatches :: "db \<Rightarrow> RepositoryCommandClaim \<Rightarrow> store_error option" where
  "repositoryCommandIntentMatches d c = refuse (count_where (\<lambda>r. r = c) (repository_command_intents d) \<noteq> 1) ErrRepositoryCommandIntent"

definition assertRepositoryCommandCurrent :: "Gate option \<Rightarrow> db \<Rightarrow> RepositoryCommandClaim \<Rightarrow> store_error option" where
  "assertRepositoryCommandCurrent m d c =
     (case assertTicketFence m d (kc_Ref c) (kc_TicketVersion c)
         \<lparr>LeaderEpoch = kc_LeaderEpoch c, RunnerEpoch = kc_RunnerEpoch c, ClaimEpoch = 0\<rparr> of
        Some e \<Rightarrow> Some e
      | None \<Rightarrow> refuse (count_where (\<lambda>r. r = c \<and> executing_at d (kc_SemanticKey c) (kc_ClaimEpoch r)) (repository_command_intents d) \<noteq> 1)
          ErrRepositoryCommandIntent)"

section \<open>The lease of a repository\<close>

record command_handle =
  kh_Claim :: RepositoryCommandClaim
  kh_Nonce :: string

definition new_command_lease :: "RepositoryCommandClaim \<Rightarrow> string \<Rightarrow> command_lease_row" where
  "new_command_lease c nonce = \<lparr>w_Ref = kc_Ref c, w_State = ''active'', w_LaunchState = ''unrecorded'', w_Repository = kc_Repository c,
     kl_Nonce = nonce, kl_Claim = c, kl_PID = 0, kl_PGID = 0, kl_BootIdentity = '''', kl_StartIdentity = ''''\<rparr>"

definition command_row :: "command_handle \<Rightarrow> command_lease_row \<Rightarrow> bool" where
  "command_row h l \<longleftrightarrow> w_Repository l = kc_Repository (kh_Claim h) \<and>
     kc_SemanticKey (kl_Claim l) = kc_SemanticKey (kh_Claim h) \<and> kl_Nonce l = kh_Nonce h"

definition active_command :: "command_handle \<Rightarrow> command_lease_row \<Rightarrow> bool" where
  "active_command h l \<longleftrightarrow> command_row h l \<and> w_State l = ''active''"

definition idle_command :: "command_lease_row \<Rightarrow> bool" where
  "idle_command l \<longleftrightarrow> w_LaunchState l = ''unrecorded'' \<or> w_LaunchState l = ''drained''"

definition change_command_lease :: "(command_lease_row \<Rightarrow> bool) \<Rightarrow> (command_lease_row \<Rightarrow> command_lease_row) \<Rightarrow> db \<Rightarrow> store_error + db" where
  "change_command_lease p f d =
     (if count_where p (repository_command_leases d) \<noteq> 1 then Inl ErrRepositoryCommandLease
      else Inr (d\<lparr>repository_command_leases := update_where p f (repository_command_leases d)\<rparr>))"

text \<open>Removing a lease removes the process groups of its repository with it.\<close>

definition drop_command_lease :: "(command_lease_row \<Rightarrow> bool) \<Rightarrow> db \<Rightarrow> store_error + db" where
  "drop_command_lease p d =
     (if count_where p (repository_command_leases d) \<noteq> 1 then Inl ErrRepositoryCommandLease
      else Inr (d\<lparr>repository_command_leases := delete_where p (repository_command_leases d),
        repository_command_process_groups := delete_where
          (\<lambda>g. list_ex (\<lambda>l. p l \<and> w_Repository l = pg_Repository g) (repository_command_leases d))
          (repository_command_process_groups d)\<rparr>))"

definition repositoryCommandAcquireLeaseConflict :: "db \<Rightarrow> string \<Rightarrow> string \<Rightarrow> store_error option" where
  "repositoryCommandAcquireLeaseConflict d repository key =
     (case row_at w_Repository (repository_command_leases d) repository of
        None \<Rightarrow> None
      | Some l \<Rightarrow> Some (if w_State l \<noteq> ''active'' \<or> kc_SemanticKey (kl_Claim l) = key then ErrRepositoryCommandLease
          else ErrJoined ErrRepositoryCommandContended ErrRepositoryCommandLease))"

definition insert_command_lease :: "RepositoryCommandClaim \<Rightarrow> string \<Rightarrow> db \<Rightarrow> store_error + db" where
  "insert_command_lease c nonce d =
     (if list_ex (\<lambda>l. w_Repository l = kc_Repository c) (repository_command_leases d) then Inl ErrRepositoryCommandLease
      else if list_ex (\<lambda>l. kc_SemanticKey (kl_Claim l) = kc_SemanticKey c \<or> kl_Nonce l = nonce) (repository_command_leases d)
        then Inl (ErrConstraint ''repository_command_leases'')
      else Inr (d\<lparr>repository_command_leases := insert_row (new_command_lease c nonce) (repository_command_leases d)\<rparr>))"

definition acquire_command :: "Gate option \<Rightarrow> command_handle \<Rightarrow> db \<Rightarrow> store_error + (command_handle \<times> db)" where
  "acquire_command m h d =
     (let c = kh_Claim h in
      guarded (assertRepositoryCommandCurrent m d c)
     (guarded (repositoryCommandAcquireProviderConflict d (kc_Repository c))
     (guarded (repositoryCommandAcquireGitConflict d (kc_Repository c))
     (guarded (repositoryCommandAcquireLeaseConflict d (kc_Repository c) (kc_SemanticKey c))
     (and_then (insert_command_lease c (kh_Nonce h) d) (\<lambda>d'. Inr (h, d')))))))"

text \<open>A contention that was found before the insertion is reported beside the error of the transaction.\<close>

definition AcquireRepositoryCommand :: "Store \<Rightarrow> string \<Rightarrow> RepositoryCommandClaim \<Rightarrow> (store_error + command_handle) \<times> Store" where
  "AcquireRepositoryCommand s nonce c =
     (if \<not> validRepositoryCommandClaim c then (Inl ErrRepositoryCommandIntent, s)
      else case store_write s (acquire_command (st_mutations s) \<lparr>kh_Claim = c, kh_Nonce = nonce\<rparr>) of
        (Inl e, s') \<Rightarrow> (Inl (if error_is e ErrRepositoryCommandContended then ErrJoined e e else e), s')
      | (Inr h, s') \<Rightarrow> (Inr h, s'))"

definition command_lease_Check :: "Store \<Rightarrow> command_handle \<Rightarrow> (store_error + unit) \<times> Store" where
  "command_lease_Check s h =
     (if count_where (active_command h) (repository_command_leases (st_db s)) \<noteq> 1 then (Inl ErrRepositoryCommandLease, s)
      else store_write s (\<lambda>d. guarded (assertRepositoryCommandCurrent (st_mutations s) d (kh_Claim h)) (Inr ((), d))))"

text \<open>A transaction that answers nothing.\<close>

definition plain_write :: "Store \<Rightarrow> (db \<Rightarrow> store_error + db) \<Rightarrow> (store_error + unit) \<times> Store" where
  "plain_write s fn = store_write s (\<lambda>d. and_then (fn d) (\<lambda>d'. Inr ((), d')))"

definition command_lease_Release :: "Store \<Rightarrow> command_handle \<Rightarrow> (store_error + unit) \<times> Store" where
  "command_lease_Release s h = plain_write s (drop_command_lease (\<lambda>l. active_command h l \<and> idle_command l))"

definition quarantine_command :: "command_lease_row \<Rightarrow> command_lease_row" where
  "quarantine_command l = l\<lparr>w_State := ''quarantined'', w_LaunchState := (if idle_command l then w_LaunchState l else ''quarantined'')\<rparr>"

definition command_lease_Quarantine :: "Store \<Rightarrow> command_handle \<Rightarrow> (store_error + unit) \<times> Store" where
  "command_lease_Quarantine s h = plain_write s (change_command_lease (active_command h) quarantine_command)"

section \<open>The process and its groups\<close>

definition repositoryCommandProcessGroupLimit :: nat where "repositoryCommandProcessGroupLimit = 64"
definition repositoryCommandProcessGroupByteLimit :: nat where "repositoryCommandProcessGroupByteLimit = 65536"

definition repositoryCommandLaunchBytes :: "ProcessLaunch \<Rightarrow> nat" where
  "repositoryCommandLaunchBytes v = length (print_json (JObj [(''PID'', JNum (print_int (pl_PID v))), (''PGID'', JNum (print_int (pl_PGID v))),
     (''BootIdentity'', JStr (pl_BootIdentity v)), (''ProcessStartIdentity'', JStr (pl_StartIdentity v))]))"

text \<open>The sum of the sizes is compared the way the code does it, so that it cannot exceed the limit on the way.\<close>

fun bounded_groups :: "nat \<Rightarrow> ProcessLaunch list \<Rightarrow> bool" where
  "bounded_groups used [] = True"
| "bounded_groups used (g # gs) \<longleftrightarrow>
     valid_launch g \<and> repositoryCommandLaunchBytes g \<le> repositoryCommandProcessGroupByteLimit \<and>
     used \<le> repositoryCommandProcessGroupByteLimit - repositoryCommandLaunchBytes g \<and>
     bounded_groups (used + repositoryCommandLaunchBytes g) gs"

definition boundedRepositoryCommandGroups :: "ProcessLaunch list \<Rightarrow> bool" where
  "boundedRepositoryCommandGroups gs \<longleftrightarrow> length gs \<le> repositoryCommandProcessGroupLimit \<and> bounded_groups 0 gs"

definition command_launch :: "command_lease_row \<Rightarrow> ProcessLaunch" where
  "command_launch l = \<lparr>pl_PID = kl_PID l, pl_PGID = kl_PGID l, pl_BootIdentity = kl_BootIdentity l, pl_StartIdentity = kl_StartIdentity l\<rparr>"

definition launch_command :: "ProcessLaunch \<Rightarrow> command_lease_row \<Rightarrow> command_lease_row" where
  "launch_command v l = l\<lparr>w_LaunchState := ''released'', kl_PID := pl_PID v, kl_PGID := pl_PGID v,
     kl_BootIdentity := pl_BootIdentity v, kl_StartIdentity := pl_StartIdentity v\<rparr>"

definition under_command :: "Store \<Rightarrow> command_handle \<Rightarrow> (db \<Rightarrow> store_error + db) \<Rightarrow> (store_error + unit) \<times> Store" where
  "under_command s h fn = plain_write s (\<lambda>d.
     if assertRepositoryCommandCurrent (st_mutations s) d (kh_Claim h) \<noteq> None then Inl ErrRepositoryCommandLease else fn d)"

definition RecordRepositoryCommandLaunch :: "Store \<Rightarrow> command_handle \<Rightarrow> ProcessLaunch \<Rightarrow> (store_error + unit) \<times> Store" where
  "RecordRepositoryCommandLaunch s h v =
     (if \<not> valid_launch v \<or> \<not> boundedRepositoryCommandGroups [v] then (Inl ErrRepositoryCommandLease, s)
      else under_command s h (change_command_lease (\<lambda>l. active_command h l \<and> w_LaunchState l = ''unrecorded'') (launch_command v)))"

definition FinishRepositoryCommandLaunch :: "Store \<Rightarrow> command_handle \<Rightarrow> ProcessLaunch \<Rightarrow> (store_error + unit) \<times> Store" where
  "FinishRepositoryCommandLaunch s h v =
     (if \<not> valid_launch v then (Inl ErrRepositoryCommandLease, s)
      else plain_write s (change_command_lease
        (\<lambda>l. active_command h l \<and> w_LaunchState l = ''released'' \<and> command_launch l = v) (\<lambda>l. l\<lparr>w_LaunchState := ''drained''\<rparr>)))"

definition group_launch :: "process_group_row \<Rightarrow> ProcessLaunch" where
  "group_launch g = \<lparr>pl_PID = pg_PID g, pl_PGID = pg_PGID g, pl_BootIdentity = pg_BootIdentity g, pl_StartIdentity = pg_StartIdentity g\<rparr>"

definition repositoryCommandGroupsFrom :: "db \<Rightarrow> command_handle \<Rightarrow> store_error + ProcessLaunch list" where
  "repositoryCommandGroupsFrom d h =
     (let c = kh_Claim h;
          rows = filter (\<lambda>g. pg_Repository g = kc_Repository c \<and> pg_SemanticKey g = kc_SemanticKey c \<and> pg_Nonce g = kh_Nonce h)
            (repository_command_process_groups d);
          raw = sum_list (map (\<lambda>g. length (pg_BootIdentity g) + length (pg_StartIdentity g)) rows);
          groups = map group_launch (sort_key pg_PID rows) in
      if repositoryCommandProcessGroupLimit < length rows \<or> repositoryCommandProcessGroupByteLimit < raw then Inl ErrRepositoryCommandLease
      else if \<not> list_all valid_launch groups \<or> \<not> boundedRepositoryCommandGroups groups then Inl ErrRepositoryCommandLease
      else Inr groups)"

definition record_group :: "command_handle \<Rightarrow> ProcessLaunch \<Rightarrow> db \<Rightarrow> store_error + db" where
  "record_group h v d =
     (let c = kh_Claim h in
      if count_where (\<lambda>l. active_command h l \<and> w_LaunchState l = ''released'') (repository_command_leases d) \<noteq> 1
        then Inl ErrRepositoryCommandLease
      else if list_ex (\<lambda>g. pg_Repository g = kc_Repository c \<and> pg_PID g = pl_PID v \<and> pg_StartIdentity g = pl_StartIdentity v)
          (repository_command_process_groups d) then Inr d
      else case repositoryCommandGroupsFrom d h of Inl _ \<Rightarrow> Inl ErrRepositoryCommandLease | Inr groups \<Rightarrow>
        if \<not> boundedRepositoryCommandGroups (groups @ [v]) then Inl ErrRepositoryCommandLease
        else Inr (d\<lparr>repository_command_process_groups := insert_row \<lparr>pg_Repository = kc_Repository c, pg_SemanticKey = kc_SemanticKey c,
          pg_Nonce = kh_Nonce h, pg_PID = pl_PID v, pg_PGID = pl_PGID v, pg_BootIdentity = pl_BootIdentity v,
          pg_StartIdentity = pl_StartIdentity v\<rparr> (repository_command_process_groups d)\<rparr>))"

definition RecordRepositoryCommandProcessGroup :: "Store \<Rightarrow> command_handle \<Rightarrow> ProcessLaunch \<Rightarrow> (store_error + unit) \<times> Store" where
  "RecordRepositoryCommandProcessGroup s h v =
     (if \<not> valid_launch v \<or> \<not> boundedRepositoryCommandGroups [v] then (Inl ErrRepositoryCommandLease, s)
      else under_command s h (record_group h v))"

section \<open>The leases of a channel\<close>

record RepositoryCommandRecovery =
  rr_Handle :: command_handle
  rr_LaunchState :: string
  rr_Launch :: ProcessLaunch
  rr_Groups :: "ProcessLaunch list"
  rr_groupOverflow :: bool
  rr_primaryOverflow :: bool

text \<open>Identities beyond the limit are not read.\<close>

definition oversized :: "command_lease_row \<Rightarrow> bool" where
  "oversized l \<longleftrightarrow> repositoryCommandProcessGroupByteLimit < length (kl_BootIdentity l) + length (kl_StartIdentity l)"

definition recovered_launch :: "command_lease_row \<Rightarrow> ProcessLaunch" where
  "recovered_launch l = (if oversized l then (command_launch l)\<lparr>pl_BootIdentity := '''', pl_StartIdentity := ''''\<rparr> else command_launch l)"

definition command_handle_of :: "command_lease_row \<Rightarrow> command_handle" where
  "command_handle_of l = \<lparr>kh_Claim = kl_Claim l, kh_Nonce = kl_Nonce l\<rparr>"

definition recovery_of :: "db \<Rightarrow> command_lease_row \<Rightarrow> RepositoryCommandRecovery" where
  "recovery_of d l =
     (let primary = oversized l \<or> w_LaunchState l \<noteq> ''unrecorded'' \<and> \<not> boundedRepositoryCommandGroups [recovered_launch l];
          groups = (if primary then Inr [] else repositoryCommandGroupsFrom d (command_handle_of l)) in
      \<lparr>rr_Handle = command_handle_of l, rr_LaunchState = w_LaunchState l, rr_Launch = recovered_launch l,
       rr_Groups = (case groups of Inl _ \<Rightarrow> [] | Inr gs \<Rightarrow> gs),
       rr_groupOverflow = (case groups of Inl _ \<Rightarrow> True | Inr _ \<Rightarrow> False), rr_primaryOverflow = primary\<rparr>)"

definition activeRepositoryCommandLeases :: "Store \<Rightarrow> string \<Rightarrow> bool \<Rightarrow> store_error + RepositoryCommandRecovery list" where
  "activeRepositoryCommandLeases s channel recoverOverflow =
     (if \<not> Channel_Valid channel then Inl ErrRepositoryCommandLease
      else let d = st_db s;
               out = map (recovery_of d) (sort_key w_Repository (filter (\<lambda>l. Channel (w_Ref l) = channel) (repository_command_leases d))) in
        if \<not> recoverOverflow \<and> list_ex (\<lambda>r. rr_primaryOverflow r \<or> rr_groupOverflow r) out then Inl ErrRepositoryCommandLease
        else Inr out)"

definition ActiveRepositoryCommandLeases :: "Store \<Rightarrow> string \<Rightarrow> store_error + RepositoryCommandRecovery list" where
  "ActiveRepositoryCommandLeases s channel = activeRepositoryCommandLeases s channel False"

section \<open>Recovery\<close>

text \<open>
  The outcome of a recovered command. A terminal outcome is kept; an uncertain one may carry later epochs than the claim.
\<close>

definition setRecoveredRepositoryCommandEffect :: "RepositoryCommandClaim \<Rightarrow> string \<Rightarrow> string \<Rightarrow> db \<Rightarrow> store_error + db" where
  "setRecoveredRepositoryCommandEffect c state observed d =
     (if state \<noteq> EffectFailed \<and> state \<noteq> EffectUncertain then Inl ErrRepositoryCommandIntent
      else guarded (repositoryCommandIntentMatches d c)
       (case effectFrom d (kc_SemanticKey c) of Inl _ \<Rightarrow> Inl ErrRepositoryCommandIntent | Inr e \<Rightarrow>
        if e_Ref e \<noteq> kc_Ref c \<or> e_Kind e \<noteq> ''repository_command'' \<or> e_RequestDigest e \<noteq> kc_RequestDigest c \<or>
           e_TicketVersion e \<noteq> kc_TicketVersion c \<or> e_RunnerEpoch e \<noteq> kc_RunnerEpoch c then Inl ErrRepositoryCommandIntent
        else if e_State e = EffectConfirmed \<or> e_State e = EffectFailed then Inr d
        else if e_State e = EffectExecuting \<and> (e_LeaderEpoch e \<noteq> kc_LeaderEpoch c \<or> e_ClaimEpoch e \<noteq> kc_ClaimEpoch c)
          then Inl ErrRepositoryCommandIntent
        else if e_State e = EffectUncertain \<and> (e_LeaderEpoch e < kc_LeaderEpoch c \<or> e_ClaimEpoch e < kc_ClaimEpoch c)
          then Inl ErrRepositoryCommandIntent
        else if e_State e \<noteq> EffectExecuting \<and> e_State e \<noteq> EffectUncertain then Inl ErrRepositoryCommandIntent
        else if e_State e = state then Inr d
        else change_effect (\<lambda>r. e_SemanticKey r = e_SemanticKey e \<and> e_State r = e_State e \<and> e_TicketVersion r = e_TicketVersion e \<and>
            e_LeaderEpoch r = e_LeaderEpoch e \<and> e_RunnerEpoch r = e_RunnerEpoch e \<and> e_ClaimEpoch r = e_ClaimEpoch e)
          (\<lambda>r. r\<lparr>e_State := state, e_ObservedIdentity := observed\<rparr>) ErrRepositoryCommandIntent d))"

definition drop_command_intent :: "(RepositoryCommandClaim \<Rightarrow> bool) \<Rightarrow> db \<Rightarrow> store_error + db" where
  "drop_command_intent p d =
     (if count_where p (repository_command_intents d) \<noteq> 1 then Inl ErrRepositoryCommandIntent
      else Inr (d\<lparr>repository_command_intents := delete_where p (repository_command_intents d)\<rparr>))"

text \<open>The lease that a recovery may remove: its gate never opened, or the very process it names was drained.\<close>

definition retirable :: "RepositoryCommandRecovery \<Rightarrow> string \<Rightarrow> command_lease_row \<Rightarrow> bool" where
  "retirable r launchState l \<longleftrightarrow>
     command_row (rr_Handle r) l \<and> (w_State l = ''active'' \<or> w_State l = ''quarantined'') \<and>
     (if launchState = ''unrecorded'' then w_LaunchState l = ''unrecorded''
      else if launchState = ''launched'' then
        (w_LaunchState l = ''released'' \<or> w_LaunchState l = ''quarantined'') \<and> command_launch l = rr_Launch r
      else launchState = ''drained'' \<and> w_LaunchState l = ''drained'' \<and> command_launch l = rr_Launch r)"

definition retire_recovered :: "string \<Rightarrow> u64 \<Rightarrow> RepositoryCommandRecovery \<Rightarrow> string \<Rightarrow> string \<Rightarrow> db \<Rightarrow> store_error + db" where
  "retire_recovered channel leader r observed launchState d =
     (let c = kh_Claim (rr_Handle r) in
      guarded (assertRepositoryRecoveryLeader d channel leader)
     (and_then (setRecoveredRepositoryCommandEffect c EffectFailed observed d) (\<lambda>d1.
      and_then (drop_command_lease (retirable r launchState) d1) (\<lambda>d2.
      case effect_at d2 (kc_SemanticKey c) of None \<Rightarrow> Inl ErrNoRows | Some e \<Rightarrow>
        if e_ObservedIdentity e = observed then drop_command_intent (\<lambda>i. kc_SemanticKey i = kc_SemanticKey c) d2 else Inr d2))))"

definition retireRecoveredRepositoryCommand ::
  "Store \<Rightarrow> string \<Rightarrow> u64 \<Rightarrow> RepositoryCommandRecovery \<Rightarrow> string \<Rightarrow> string \<Rightarrow> (store_error + unit) \<times> Store" where
  "retireRecoveredRepositoryCommand s channel leader r observed launchState =
     plain_write s (retire_recovered channel leader r observed launchState)"

definition quarantineRecoveredRepositoryCommand ::
  "Store \<Rightarrow> string \<Rightarrow> u64 \<Rightarrow> RepositoryCommandRecovery \<Rightarrow> (store_error + unit) \<times> Store" where
  "quarantineRecoveredRepositoryCommand s channel leader r = plain_write s (\<lambda>d.
     guarded (assertRepositoryRecoveryLeader d channel leader)
     (and_then (setRecoveredRepositoryCommandEffect (kh_Claim (rr_Handle r)) EffectUncertain ''uncertain:repository_command_recovery'' d)
       (change_command_lease (\<lambda>l. command_row (rr_Handle r) l \<and> (w_State l = ''active'' \<or> w_State l = ''quarantined'')) quarantine_command)))"

text \<open>The native drainer: none, one for a single process, or one for a process with its groups.\<close>

datatype command_drainer =
    NoDrainer
  | Drainer "ProcessLaunch \<Rightarrow> bool"
  | TreeDrainer "ProcessLaunch \<Rightarrow> ProcessLaunch list \<Rightarrow> bool"

definition tree_gone :: "command_drainer \<Rightarrow> RepositoryCommandRecovery \<Rightarrow> bool" where
  "tree_gone drainer r \<longleftrightarrow> valid_launch (rr_Launch r) \<and>
     (case drainer of
        TreeDrainer drain \<Rightarrow> drain (rr_Launch r) (rr_Groups r)
      | Drainer drain \<Rightarrow> rr_Groups r = [] \<and> drain (rr_Launch r)
      | NoDrainer \<Rightarrow> False)"

definition recover_command :: "string \<Rightarrow> u64 \<Rightarrow> command_drainer \<Rightarrow> RepositoryCommandRecovery \<Rightarrow> Store \<Rightarrow> (store_error + unit) \<times> Store" where
  "recover_command channel leader drainer r s =
     (if rr_groupOverflow r \<or> rr_primaryOverflow r then quarantineRecoveredRepositoryCommand s channel leader r
      else if rr_LaunchState r = ''unrecorded'' then
        retireRecoveredRepositoryCommand s channel leader r ''recovered:repository_command_unrecorded'' ''unrecorded''
      else if rr_LaunchState r = ''drained'' then
        retireRecoveredRepositoryCommand s channel leader r ''recovered:repository_command_drained'' ''drained''
      else if tree_gone drainer r then
        retireRecoveredRepositoryCommand s channel leader r ''recovered:repository_command_tree_gone'' ''launched''
      else quarantineRecoveredRepositoryCommand s channel leader r)"

text \<open>A loop that stops at the first error.\<close>

fun each_until_error :: "('x \<Rightarrow> Store \<Rightarrow> (store_error + unit) \<times> Store) \<Rightarrow> 'x list \<Rightarrow> Store \<Rightarrow> (store_error + unit) \<times> Store" where
  "each_until_error op [] s = (Inr (), s)"
| "each_until_error op (x # xs) s =
     (case op x s of (Inl e, s') \<Rightarrow> (Inl e, s') | (Inr _, s') \<Rightarrow> each_until_error op xs s')"

definition RecoverRepositoryCommandLeases :: "Store \<Rightarrow> string \<Rightarrow> u64 \<Rightarrow> command_drainer \<Rightarrow> (store_error + unit) \<times> Store" where
  "RecoverRepositoryCommandLeases s channel leader drainer =
     (case activeRepositoryCommandLeases s channel True of
        Inl e \<Rightarrow> (Inl e, s)
      | Inr rs \<Rightarrow> each_until_error (recover_command channel leader drainer) rs s)"

definition unleased :: "db \<Rightarrow> RepositoryCommandClaim \<Rightarrow> bool" where
  "unleased d c \<longleftrightarrow> \<not> list_ex (\<lambda>l. kc_SemanticKey (kl_Claim l) = kc_SemanticKey c) (repository_command_leases d)"

definition retire_stranded :: "string \<Rightarrow> u64 \<Rightarrow> RepositoryCommandClaim \<Rightarrow> db \<Rightarrow> store_error + db" where
  "retire_stranded channel leader c d =
     guarded (assertRepositoryRecoveryLeader d channel leader)
     (and_then (setRecoveredRepositoryCommandEffect c EffectFailed ''recovered:repository_command_unleased'' d) (\<lambda>d1.
      drop_command_intent (\<lambda>i. kc_SemanticKey i = kc_SemanticKey c \<and> unleased d1 i) d1))"

definition RecoverUnleasedRepositoryCommands :: "Store \<Rightarrow> string \<Rightarrow> u64 \<Rightarrow> (store_error + unit) \<times> Store" where
  "RecoverUnleasedRepositoryCommands s channel leader =
     (let d = st_db s;
          stranded = sort_key kc_SemanticKey (filter (\<lambda>c. Channel (kc_Ref c) = channel \<and> unleased d c \<and>
            executing_at d (kc_SemanticKey c) (kc_ClaimEpoch c)) (repository_command_intents d)) in
      if \<not> list_all validRepositoryCommandClaim stranded then (Inl ErrRepositoryCommandIntent, s)
      else each_until_error (\<lambda>c s. plain_write s (retire_stranded channel leader c)) stranded s)"

end
