(* ===== verification/CommandResults.thy ===== *)
theory CommandResults
  imports RepositoryCommands Go_Time
begin

text \<open>
  Results of repository commands (\<^verbatim>\<open>internal/store/repository_command_result.go\<close>): the immutable evidence of one claim, its
  digests, the transaction that records it with the outcome of the effect, its authenticated reading, and the paths
  that end a command without evidence.
\<close>

declare rune_len.simps(2) [simp del]

section \<open>Results\<close>

text \<open>
  A time is the number of nanoseconds since year 1, the zero time is 0; \<open>cr_UTC\<close> says whether the location of the
  observation time is UTC. Output that is nil is normalised to no output before it is read, so outputs are texts.
\<close>

record CommandResult =
  cr_ExitCode :: int
  cr_Stdout :: string
  cr_Stderr :: string
  cr_LastMessage :: string
  cr_StdoutTruncated :: bool
  cr_StderrTruncated :: bool
  cr_LastMessageTruncated :: bool
  cr_Duration :: int
  cr_ObservedAt :: int
  cr_UTC :: bool
  cr_Observed :: bool

record RepositoryCommandResult =
  kq_Claim :: RepositoryCommandClaim
  kq_Result :: CommandResult
  kq_StdoutDigest :: string
  kq_StderrDigest :: string
  kq_LastMessageDigest :: string
  kq_ResultDigest :: string
  kq_CreatedAt :: int

definition repositoryCommandOutputLimit :: nat where "repositoryCommandOutputLimit = 65536"
definition repositoryCommandLastMessageLimit :: nat where "repositoryCommandLastMessageLimit = 1048576"
definition repositoryCommandResultMaxAge :: int where "repositoryCommandResultMaxAge = 48 * 3600 * 1000000000"

definition five_minutes :: int where "five_minutes = 5 * 60 * 1000000000"

definition repositoryResultDigest :: "string \<Rightarrow> string" where
  "repositoryResultDigest data = ''sha256:'' @ sha256_hex data"

definition command_claim_members :: "RepositoryCommandClaim \<Rightarrow> (string \<times> json) list" where
  "command_claim_members c =
     [(''TicketRef'', ref_json (kc_Ref c)), (''SemanticKey'', JStr (kc_SemanticKey c)), (''RequestDigest'', JStr (kc_RequestDigest c)),
      (''TicketVersion'', uint_json (kc_TicketVersion c)), (''LeaderEpoch'', uint_json (kc_LeaderEpoch c)),
      (''RunnerEpoch'', uint_json (kc_RunnerEpoch c)), (''ClaimEpoch'', uint_json (kc_ClaimEpoch c)),
      (''Repository'', JStr (kc_Repository c)), (''Worktree'', JStr (kc_Worktree c)), (''WorktreeIdentity'', JStr (kc_WorktreeIdentity c)),
      (''Branch'', JStr (kc_Branch c)), (''BaseRef'', JStr (kc_BaseRef c)), (''BaseSHA'', JStr (kc_BaseSHA c)),
      (''CommandDigest'', JStr (kc_CommandDigest c)), (''SpecDigest'', JStr (kc_SpecDigest c)), (''PolicyDigest'', JStr (kc_PolicyDigest c)),
      (''ExecutablePath'', JStr (kc_ExecutablePath c)), (''ExecutableDigest'', JStr (kc_ExecutableDigest c))]"

definition repositoryCommandResultEnvelope :: "RepositoryCommandClaim \<Rightarrow> CommandResult \<Rightarrow> int \<Rightarrow> string" where
  "repositoryCommandResultEnvelope c r createdAt = print_json (JObj (command_claim_members c @
     [(''ExitCode'', JNum (print_int (cr_ExitCode r))), (''Stdout'', bytes_json (Some (cr_Stdout r))),
      (''Stderr'', bytes_json (Some (cr_Stderr r))), (''OutputLastMessage'', bytes_json (Some (cr_LastMessage r))),
      (''StdoutTruncated'', JBool (cr_StdoutTruncated r)), (''StderrTruncated'', JBool (cr_StderrTruncated r)),
      (''OutputLastMessageTruncated'', JBool (cr_LastMessageTruncated r)), (''DurationNS'', JNum (print_int (cr_Duration r))),
      (''Observed'', JBool (cr_Observed r)), (''ObservedAt'', JStr (RFC3339Nano (cr_ObservedAt r))),
      (''CreatedAt'', JStr (RFC3339Nano createdAt))]))"

definition validRepositoryCommandResult :: "RepositoryCommandClaim \<Rightarrow> CommandResult \<Rightarrow> store_error option" where
  "validRepositoryCommandResult c r =
     refuse (\<not> validRepositoryCommandClaim c \<or> \<not> cr_Observed r \<or> cr_ExitCode r < - 1 \<or> 255 < cr_ExitCode r \<or> cr_Duration r < 0 \<or>
       repositoryCommandResultMaxAge < cr_Duration r \<or> repositoryCommandOutputLimit < length (cr_Stdout r) \<or>
       repositoryCommandOutputLimit < length (cr_Stderr r) \<or> repositoryCommandLastMessageLimit < length (cr_LastMessage r) \<or>
       cr_ObservedAt r = 0 \<or> \<not> cr_UTC r) ErrRepositoryCommandResult"

definition validRepositoryCommandResultAdmission :: "RepositoryCommandClaim \<Rightarrow> CommandResult \<Rightarrow> int \<Rightarrow> store_error option" where
  "validRepositoryCommandResultAdmission c r now =
     (case validRepositoryCommandResult c r of Some e \<Rightarrow> Some e
      | None \<Rightarrow> refuse (now + five_minutes < cr_ObservedAt r \<or> cr_ObservedAt r < now - repositoryCommandResultMaxAge) ErrRepositoryCommandResult)"

text \<open>The four digests of a result: of its three outputs, and of the envelope that covers everything.\<close>

definition resultDigests :: "RepositoryCommandClaim \<Rightarrow> CommandResult \<Rightarrow> int \<Rightarrow> store_error + (string \<times> string \<times> string \<times> string)" where
  "resultDigests c r createdAt =
     guarded (validRepositoryCommandResult c r)
     (if createdAt = 0 then Inl ErrRepositoryCommandResult
      else Inr (repositoryResultDigest (cr_Stdout r), repositoryResultDigest (cr_Stderr r), repositoryResultDigest (cr_LastMessage r),
        repositoryResultDigest (repositoryCommandResultEnvelope c r createdAt)))"

section \<open>The stored result\<close>

text \<open>
  A stored time is its text; the text of a UTC time with a four-digit year is read back as that time, so the row keeps the number.
\<close>

definition result_of_row :: "command_result_row \<Rightarrow> RepositoryCommandResult" where
  "result_of_row r = \<lparr>kq_Claim = RepositoryCommandClaim.truncate r,
     kq_Result = \<lparr>cr_ExitCode = kr_ExitCode r, cr_Stdout = kr_Stdout r, cr_Stderr = kr_Stderr r, cr_LastMessage = kr_LastMessage r,
       cr_StdoutTruncated = kr_StdoutTruncated r, cr_StderrTruncated = kr_StderrTruncated r,
       cr_LastMessageTruncated = kr_LastMessageTruncated r, cr_Duration = kr_Duration r, cr_ObservedAt = kr_ObservedAt r,
       cr_UTC = True, cr_Observed = True\<rparr>,
     kq_StdoutDigest = kr_StdoutDigest r, kq_StderrDigest = kr_StderrDigest r, kq_LastMessageDigest = kr_LastMessageDigest r,
     kq_ResultDigest = kr_ResultDigest r, kq_CreatedAt = kr_CreatedAt r\<rparr>"

definition stored_result :: "RepositoryCommandClaim \<Rightarrow> CommandResult \<Rightarrow> string \<times> string \<times> string \<times> string \<Rightarrow> int \<Rightarrow> command_result_row" where
  "stored_result c r digests createdAt = (case digests of (out, err, msg, full) \<Rightarrow> RepositoryCommandClaim.extend c
     \<lparr>kr_ExitCode = cr_ExitCode r, kr_Stdout = cr_Stdout r, kr_Stderr = cr_Stderr r, kr_LastMessage = cr_LastMessage r,
      kr_StdoutTruncated = cr_StdoutTruncated r, kr_StderrTruncated = cr_StderrTruncated r,
      kr_LastMessageTruncated = cr_LastMessageTruncated r, kr_Duration = cr_Duration r, kr_ObservedAt = cr_ObservedAt r,
      kr_StdoutDigest = out, kr_StderrDigest = err, kr_LastMessageDigest = msg, kr_ResultDigest = full, kr_CreatedAt = createdAt\<rparr>)"

text \<open>The relations of a result: the effect ended with exactly this result, and a retained intent of its epoch agrees.\<close>

definition result_effect_ok :: "db \<Rightarrow> RepositoryCommandResult \<Rightarrow> bool" where
  "result_effect_ok d q =
     (let c = kq_Claim q in
      case effect_at d (kc_SemanticKey c) of None \<Rightarrow> False | Some e \<Rightarrow>
        e_Ref e = kc_Ref c \<and> e_Kind e = ''repository_command'' \<and> e_ClaimEpoch e = kc_ClaimEpoch c \<and>
        e_RequestDigest e = kc_RequestDigest c \<and> e_TicketVersion e = kc_TicketVersion c \<and> e_LeaderEpoch e = kc_LeaderEpoch c \<and>
        e_RunnerEpoch e = kc_RunnerEpoch c \<and> e_ObservedIdentity e = ''repository-command-result:'' @ kq_ResultDigest q \<and>
        e_State e = (if cr_ExitCode (kq_Result q) = 0 then EffectConfirmed else EffectFailed))"

definition retained_intent_ok :: "db \<Rightarrow> RepositoryCommandClaim \<Rightarrow> bool" where
  "retained_intent_ok d c =
     (let rows = filter (\<lambda>i. kc_SemanticKey i = kc_SemanticKey c) (repository_command_intents d) in
      length rows \<le> 1 \<and> (length rows = 1 \<and> kc_ClaimEpoch (hd rows) = kc_ClaimEpoch c \<longrightarrow> hd rows = c))"

definition loadRepositoryCommandResult :: "db \<Rightarrow> string \<Rightarrow> u64 \<Rightarrow> bool \<Rightarrow> store_error + RepositoryCommandResult option" where
  "loadRepositoryCommandResult d key epoch authenticateRelationship =
     (case List.find (\<lambda>r. kc_SemanticKey r = key \<and> kc_ClaimEpoch r = epoch) (repository_command_results d) of
        None \<Rightarrow> Inr None
      | Some r \<Rightarrow>
          let q = result_of_row r in
          guarded (refuse (kq_CreatedAt q + five_minutes < cr_ObservedAt (kq_Result q)) ErrRepositoryCommandResult)
         (case resultDigests (kq_Claim q) (kq_Result q) (kq_CreatedAt q) of
            Inl _ \<Rightarrow> Inl ErrRepositoryCommandResult
          | Inr digests \<Rightarrow>
              guarded (refuse (digests \<noteq> (kq_StdoutDigest q, kq_StderrDigest q, kq_LastMessageDigest q, kq_ResultDigest q))
                ErrRepositoryCommandResult)
             (if \<not> authenticateRelationship then Inr (Some q)
              else guarded (refuse (\<not> result_effect_ok d q \<or> \<not> retained_intent_ok d (kq_Claim q)) ErrRepositoryCommandResult)
                (Inr (Some q)))))"

definition LoadRepositoryCommandResult :: "Store \<Rightarrow> string \<Rightarrow> u64 \<Rightarrow> store_error + RepositoryCommandResult" where
  "LoadRepositoryCommandResult s key epoch =
     (if key = '''' \<or> epoch = 0 then Inl ErrRepositoryCommandResult
      else and_then (loadRepositoryCommandResult (st_db s) key epoch True) (\<lambda>found.
        case found of None \<Rightarrow> Inl ErrNotFound | Some q \<Rightarrow> Inr q))"

section \<open>Completion\<close>

text \<open>
  A replay is accepted when the stored result is the same in every field. \<open>now\<close> is the time of the admission and
  \<open>createdAt\<close> the time of the record.
\<close>

definition same_result :: "RepositoryCommandResult \<Rightarrow> RepositoryCommandClaim \<Rightarrow> CommandResult \<Rightarrow> bool" where
  "same_result q c r \<longleftrightarrow>
     resultDigests c r (kq_CreatedAt q) = Inr (kq_StdoutDigest q, kq_StderrDigest q, kq_LastMessageDigest q, kq_ResultDigest q) \<and>
     kq_Claim q = c \<and> (kq_Result q)\<lparr>cr_UTC := cr_UTC r, cr_Observed := cr_Observed r\<rparr> = r"

definition drained_lease :: "RepositoryCommandClaim \<Rightarrow> command_lease_row \<Rightarrow> bool" where
  "drained_lease c l \<longleftrightarrow> w_Repository l = kc_Repository c \<and> kl_Claim l = c \<and> w_State l = ''active'' \<and> w_LaunchState l = ''drained''"

definition settle_command :: "RepositoryCommandClaim \<Rightarrow> string \<Rightarrow> string \<Rightarrow> db \<Rightarrow> store_error + db" where
  "settle_command c state observed d = change_effect
     (\<lambda>r. e_SemanticKey r = kc_SemanticKey c \<and> e_State r = EffectExecuting \<and> e_ClaimEpoch r = kc_ClaimEpoch c)
     (\<lambda>r. r\<lparr>e_State := state, e_ObservedIdentity := observed\<rparr>) ErrRepositoryCommandIntent d"

definition complete_command :: "Gate option \<Rightarrow> RepositoryCommandClaim \<Rightarrow> CommandResult \<Rightarrow> int \<Rightarrow> db \<Rightarrow> store_error + db" where
  "complete_command m c r createdAt d =
     and_then (loadRepositoryCommandResult d (kc_SemanticKey c) (kc_ClaimEpoch c) True) (\<lambda>found. case found of
       Some q \<Rightarrow> if same_result q c r then Inr d else Inl ErrRepositoryCommandResult
     | None \<Rightarrow>
        (case resultDigests c r createdAt of Inl _ \<Rightarrow> Inl ErrRepositoryCommandResult | Inr digests \<Rightarrow>
         guarded (assertRepositoryCommandCurrent m d c)
        (guarded (refuse (count_where (drained_lease c) (repository_command_leases d) \<noteq> 1) ErrRepositoryCommandLease)
        (settle_command c (if cr_ExitCode r = 0 then EffectConfirmed else EffectFailed)
          (''repository-command-result:'' @ snd (snd (snd digests)))
          (d\<lparr>repository_command_results := insert_row (stored_result c r digests createdAt) (repository_command_results d)\<rparr>)))))"

definition CompleteRepositoryCommand ::
  "Store \<Rightarrow> RepositoryCommandClaim \<Rightarrow> CommandResult \<Rightarrow> int \<Rightarrow> int \<Rightarrow> (store_error + unit) \<times> Store" where
  "CompleteRepositoryCommand s c r now createdAt =
     (if validRepositoryCommandResultAdmission c r now \<noteq> None then (Inl ErrRepositoryCommandResult, s)
      else plain_write s (complete_command (st_mutations s) c r createdAt))"

section \<open>Ends without evidence\<close>

definition retire_unleased :: "RepositoryCommandClaim \<Rightarrow> db \<Rightarrow> store_error + db" where
  "retire_unleased c d =
     (if \<not> unleased d c then Inl ErrRepositoryCommandLease
      else case repositoryCommandIntentMatches d c of
        Some e \<Rightarrow>
          (case effect_at d (kc_SemanticKey c) of
             Some x \<Rightarrow> if e_State x = EffectFailed \<and> e_ClaimEpoch x = kc_ClaimEpoch c then Inr d else Inl e
           | None \<Rightarrow> Inl e)
      | None \<Rightarrow>
          (case effect_at d (kc_SemanticKey c) of
             None \<Rightarrow> Inl ErrRepositoryCommandIntent
           | Some e \<Rightarrow>
               guarded (refuse (e_Ref e \<noteq> kc_Ref c \<or> e_Kind e \<noteq> ''repository_command'' \<or> e_RequestDigest e \<noteq> kc_RequestDigest c \<or>
                 e_State e \<noteq> EffectExecuting \<or> e_TicketVersion e \<noteq> kc_TicketVersion c \<or> e_LeaderEpoch e \<noteq> kc_LeaderEpoch c \<or>
                 e_RunnerEpoch e \<noteq> kc_RunnerEpoch c \<or> e_ClaimEpoch e \<noteq> kc_ClaimEpoch c) ErrRepositoryCommandIntent)
              (and_then (settle_command c EffectFailed ''failed:repository-command-unleased'' d)
                (drop_command_intent (\<lambda>i. i = c)))))"

definition RetireUnleasedRepositoryCommand :: "Store \<Rightarrow> RepositoryCommandClaim \<Rightarrow> (store_error + unit) \<times> Store" where
  "RetireUnleasedRepositoryCommand s c =
     (if \<not> validRepositoryCommandClaim c then (Inl ErrRepositoryCommandIntent, s) else plain_write s (retire_unleased c))"

text \<open>A command whose drained child ended without a reusable result: effect, lease and intent end in one transaction.\<close>

definition retire_observed :: "Gate option \<Rightarrow> RepositoryCommandClaim \<Rightarrow> string \<Rightarrow> db \<Rightarrow> store_error + db" where
  "retire_observed m c observed d =
     guarded (assertRepositoryCommandCurrent m d c)
    (guarded (refuse (count_where (drained_lease c) (repository_command_leases d) \<noteq> 1) ErrRepositoryCommandLease)
    (and_then (settle_command c EffectFailed observed d) (\<lambda>d1.
     and_then (drop_command_lease (\<lambda>l. w_Repository l = kc_Repository c \<and> kc_SemanticKey (kl_Claim l) = kc_SemanticKey c \<and>
       w_State l = ''active'' \<and> w_LaunchState l = ''drained'') d1) (drop_command_intent (\<lambda>i. i = c)))))"

definition retireObservedRepositoryCommand :: "Store \<Rightarrow> RepositoryCommandClaim \<Rightarrow> string \<Rightarrow> (store_error + unit) \<times> Store" where
  "retireObservedRepositoryCommand s c observed =
     (if \<not> validRepositoryCommandClaim c then (Inl ErrRepositoryCommandIntent, s)
      else plain_write s (retire_observed (st_mutations s) c observed))"

definition RetireObservedCanceledRepositoryCommand :: "Store \<Rightarrow> RepositoryCommandClaim \<Rightarrow> (store_error + unit) \<times> Store" where
  "RetireObservedCanceledRepositoryCommand s c = retireObservedRepositoryCommand s c ''canceled:repository-command-observed''"

definition RetireObservedResourceLimitedRepositoryCommand :: "Store \<Rightarrow> RepositoryCommandClaim \<Rightarrow> (store_error + unit) \<times> Store" where
  "RetireObservedResourceLimitedRepositoryCommand s c = retireObservedRepositoryCommand s c ''resource-limit:repository-command-observed''"

definition MarkRepositoryCommandUncertain :: "Store \<Rightarrow> RepositoryCommandClaim \<Rightarrow> string \<Rightarrow> (store_error + unit) \<times> Store" where
  "MarkRepositoryCommandUncertain s c reason =
     (if \<not> validRepositoryCommandClaim c \<or> reason = '''' then (Inl ErrRepositoryCommandIntent, s)
      else plain_write s (\<lambda>d. guarded (assertRepositoryCommandCurrent (st_mutations s) d c)
        (settle_command c EffectUncertain (''uncertain:'' @ reason) d)))"

definition ReconcileStaleRepositoryCommandObservation ::
  "Store \<Rightarrow> RepositoryCommandClaim \<Rightarrow> CommandResult \<Rightarrow> (store_error + unit) \<times> Store" where
  "ReconcileStaleRepositoryCommandObservation s c r =
     (if \<not> validRepositoryCommandClaim c \<or> \<not> cr_Observed r then (Inl ErrRepositoryCommandIntent, s)
      else plain_write s (\<lambda>d.
        if \<not> list_ex (\<lambda>i. i = c) (repository_command_intents d) then Inl ErrRepositoryCommandIntent
        else settle_command c EffectFailed ''stale:repository-command-observation'' d))"

end
