(* ===== verification/WriterSteps.thy ===== *)
theory WriterSteps
  imports GitMutations CommandResults ProviderSteps
begin

text \<open>
  The operations on the writers of a repository as steps. A step keeps the writers apart, keeps every lease whose
  process may be alive, and keeps what was recorded; the three relations compose, so that each operation is the
  composition of a few changes of a table.
\<close>

declare rune_len.simps(2) [simp del]

section \<open>Writers apart\<close>

text \<open>
  A repository has at most one Git lease and one command lease. While it has one of them, it has none of the other kind and no live
  provider attempt.
\<close>

definition has_provider :: "db \<Rightarrow> string \<Rightarrow> bool" where
  "has_provider d repository \<longleftrightarrow> (\<exists>a \<in> set (provider_attempts d). live_writer_at repository a)"

definition git_at :: "db \<Rightarrow> string \<Rightarrow> bool" where
  "git_at d repository \<longleftrightarrow> repository \<in> w_Repository ` set (git_mutation_leases d)"

definition command_at :: "db \<Rightarrow> string \<Rightarrow> bool" where
  "command_at d repository \<longleftrightarrow> repository \<in> w_Repository ` set (repository_command_leases d)"

definition lease_states :: "db \<Rightarrow> bool" where
  "lease_states d \<longleftrightarrow>
     (\<forall>l \<in> set (git_mutation_leases d). w_State l = ''active'' \<or> w_State l = ''quarantined'') \<and>
     (\<forall>l \<in> set (repository_command_leases d). w_State l = ''active'' \<or> w_State l = ''quarantined'')"

definition writers_apart :: "db \<Rightarrow> bool" where
  "writers_apart d \<longleftrightarrow> lease_states d \<and>
     unique_key w_Repository (git_mutation_leases d) \<and> unique_key w_Repository (repository_command_leases d) \<and>
     (\<forall>repository. \<not> (git_at d repository \<and> command_at d repository) \<and> \<not> (git_at d repository \<and> has_provider d repository) \<and>
        \<not> (command_at d repository \<and> has_provider d repository))"

section \<open>Processes kept\<close>

text \<open>
  \<open>gone\<close> is what the supervisor and the drainer attest about processes. A lease of a process that is not gone stays, for that
  process.
\<close>

definition running_lease :: "('a writer_row_scheme) \<Rightarrow> bool" where
  "running_lease l \<longleftrightarrow> w_LaunchState l = ''released'' \<or> w_LaunchState l = ''quarantined''"

definition git_kept :: "(ProcessLaunch \<Rightarrow> bool) \<Rightarrow> db \<Rightarrow> db \<Rightarrow> bool" where
  "git_kept gone d d' \<longleftrightarrow> (\<forall>l \<in> set (git_mutation_leases d). running_lease l \<longrightarrow> \<not> gone (lease_launch l) \<longrightarrow>
     (\<exists>k \<in> set (git_mutation_leases d'). w_Repository k = w_Repository l \<and> lease_launch k = lease_launch l \<and> running_lease k))"

definition command_kept :: "(ProcessLaunch \<Rightarrow> bool) \<Rightarrow> db \<Rightarrow> db \<Rightarrow> bool" where
  "command_kept gone d d' \<longleftrightarrow> (\<forall>l \<in> set (repository_command_leases d). running_lease l \<longrightarrow> \<not> gone (command_launch l) \<longrightarrow>
     (\<exists>k \<in> set (repository_command_leases d'). w_Repository k = w_Repository l \<and> command_launch k = command_launch l \<and> running_lease k))"

section \<open>Records kept\<close>

text \<open>The facts of a Git intent are final once they are recorded, and so is the result of a command.\<close>

definition intent_target :: "git_intent_row \<Rightarrow> TicketRef \<times> string \<times> string \<times> string" where
  "intent_target i = (gm_Ref i, gm_SemanticKey i, gm_Operation i, gm_Repository i)"

definition fact_kept :: "git_intent_row \<Rightarrow> git_intent_row \<Rightarrow> bool" where
  "fact_kept i j \<longleftrightarrow> intent_target j = intent_target i \<and>
     ((gi_PreparedCommit i, gi_PreparedTree i) \<noteq> ('''', '''') \<longrightarrow>
        (gi_PreparedCommit j, gi_PreparedTree j) = (gi_PreparedCommit i, gi_PreparedTree i)) \<and>
     ((gi_PriorObserved i, gi_PriorOID i) \<noteq> (0, '''') \<longrightarrow> (gi_PriorObserved j, gi_PriorOID j) = (gi_PriorObserved i, gi_PriorOID i))"

definition records_kept :: "db \<Rightarrow> db \<Rightarrow> bool" where
  "records_kept d d' \<longleftrightarrow> set (repository_command_results d) \<subseteq> set (repository_command_results d') \<and>
     (\<forall>i \<in> set (git_mutation_intents d). \<exists>j \<in> set (git_mutation_intents d'). fact_kept i j)"

definition writer_rel :: "(ProcessLaunch \<Rightarrow> bool) \<Rightarrow> db \<Rightarrow> db \<Rightarrow> bool" where
  "writer_rel gone d d' \<longleftrightarrow> (writers_apart d \<longrightarrow> writers_apart d') \<and> git_kept gone d d' \<and> command_kept gone d d' \<and> records_kept d d'"

lemma fact_kept_refl: "fact_kept i i"
  by (simp add: fact_kept_def)

lemma fact_kept_trans: "fact_kept i j \<Longrightarrow> fact_kept j k \<Longrightarrow> fact_kept i k"
  unfolding fact_kept_def by metis

lemma records_refl: "records_kept d d"
  using fact_kept_refl by (auto simp: records_kept_def)

lemma records_trans: "records_kept d e \<Longrightarrow> records_kept e f \<Longrightarrow> records_kept d f"
  unfolding records_kept_def by (meson fact_kept_trans subset_trans)

lemma git_kept_trans: "git_kept gone d e \<Longrightarrow> git_kept gone e f \<Longrightarrow> git_kept gone d f"
  unfolding git_kept_def by metis

lemma command_kept_trans: "command_kept gone d e \<Longrightarrow> command_kept gone e f \<Longrightarrow> command_kept gone d f"
  unfolding command_kept_def by metis

lemma writer_rel_refl: "writer_rel gone d d"
  by (auto simp: writer_rel_def git_kept_def command_kept_def records_refl)

lemma writer_rel_trans: "writer_rel gone d e \<Longrightarrow> writer_rel gone e f \<Longrightarrow> writer_rel gone d f"
  unfolding writer_rel_def using git_kept_trans command_kept_trans records_trans by blast

section \<open>Changes of a table\<close>

text \<open>The tables that the relations read.\<close>

definition same_writers :: "db \<Rightarrow> db \<Rightarrow> bool" where
  "same_writers d d' \<longleftrightarrow> provider_attempts d' = provider_attempts d \<and> git_mutation_leases d' = git_mutation_leases d \<and>
     repository_command_leases d' = repository_command_leases d"

definition same_records :: "db \<Rightarrow> db \<Rightarrow> bool" where
  "same_records d d' \<longleftrightarrow> git_mutation_intents d' = git_mutation_intents d \<and> repository_command_results d' = repository_command_results d"

lemma same_apart: "same_writers d d' \<Longrightarrow> writers_apart d' = writers_apart d"
  by (simp add: same_writers_def writers_apart_def lease_states_def has_provider_def git_at_def command_at_def)

lemma same_kept: "same_writers d d' \<Longrightarrow> git_kept gone d d' \<and> command_kept gone d d'"
  by (auto simp: same_writers_def git_kept_def command_kept_def)

lemma same_records_kept: "same_records d d' \<Longrightarrow> records_kept d d'"
  using fact_kept_refl by (auto simp: same_records_def records_kept_def)

lemma keep_rel: "same_writers d d' \<Longrightarrow> same_records d d' \<Longrightarrow> writer_rel gone d d'"
  by (simp add: writer_rel_def same_apart same_kept same_records_kept)

lemma change_effect_rel: "change_effect p f e d = Inr d' \<Longrightarrow> writer_rel gone d d'"
  by (auto simp: change_effect_def same_writers_def same_records_def split: if_splits intro!: keep_rel)

text \<open>Changes of a lease table that keep the repository of each lease and a valid state.\<close>

lemma in_update: "x \<in> set (update_where p f t) \<longleftrightarrow> (\<exists>r \<in> set t. x = (if p r then f r else r))"
  by (auto simp: update_where_def)

lemma update_image: "(\<And>r. p r \<Longrightarrow> key (f r) = key r) \<Longrightarrow> key ` set (update_where p f t) = key ` set t"
  by (induction t) (auto simp: update_where_def)

lemma update_all: "\<forall>r \<in> set t. P r \<Longrightarrow> (\<And>r. p r \<Longrightarrow> P r \<Longrightarrow> P (f r)) \<Longrightarrow> \<forall>r \<in> set (update_where p f t). P r"
  by (auto simp: update_where_def)

lemma unique_update: "(\<And>r. p r \<Longrightarrow> key (f r) = key r) \<Longrightarrow> unique_key key (update_where p f t) = unique_key key t"
  by (simp add: update_where_def unique_key_map)

lemma unique_delete: "unique_key key t \<Longrightarrow> unique_key key (delete_where p t)"
  by (auto simp: unique_key_def delete_where_def intro: distinct_map_filter)

lemma update_git_rel:
  assumes d': "d' = d\<lparr>git_mutation_leases := update_where p f (git_mutation_leases d)\<rparr>"
    and repo: "\<And>l. p l \<Longrightarrow> w_Repository (f l) = w_Repository l"
    and state: "\<And>l. p l \<Longrightarrow> w_State (f l) = w_State l \<or> w_State (f l) = ''quarantined''"
    and process: "\<And>l. p l \<Longrightarrow> running_lease l \<Longrightarrow> \<not> gone (lease_launch l) \<Longrightarrow> lease_launch (f l) = lease_launch l \<and> running_lease (f l)"
  shows "writer_rel gone d d'"
proof -
  have at: "git_at d' r = git_at d r" "command_at d' r = command_at d r" "has_provider d' r = has_provider d r" for r
    by (simp_all add: d' git_at_def command_at_def has_provider_def update_image repo)
  have "lease_states d \<Longrightarrow> lease_states d'"
    unfolding lease_states_def
    by (intro conjI) (simp add: d', rule update_all, blast, metis state, simp add: d')
  with at repo have "writers_apart d \<longrightarrow> writers_apart d'" by (simp add: writers_apart_def d' unique_update)
  moreover have "git_kept gone d d'"
    unfolding git_kept_def
  proof (intro ballI impI)
    fix l assume "l \<in> set (git_mutation_leases d)" "running_lease l" "\<not> gone (lease_launch l)"
    then show "\<exists>k \<in> set (git_mutation_leases d'). w_Repository k = w_Repository l \<and> lease_launch k = lease_launch l \<and> running_lease k"
      using process [of l] repo [of l] by (intro bexI [of _ "if p l then f l else l"]) (auto simp: d' in_update)
  qed
  moreover have "command_kept gone d d'" by (auto simp: d' command_kept_def)
  moreover have "records_kept d d'" by (rule same_records_kept) (simp add: d' same_records_def)
  ultimately show ?thesis by (simp add: writer_rel_def)
qed

lemma delete_git_rel:
  assumes d': "d' = d\<lparr>git_mutation_leases := delete_where p (git_mutation_leases d)\<rparr>"
    and process: "\<And>l. p l \<Longrightarrow> running_lease l \<Longrightarrow> gone (lease_launch l)"
  shows "writer_rel gone d d'"
proof -
  have at: "git_at d' r \<Longrightarrow> git_at d r" "command_at d' r = command_at d r" "has_provider d' r = has_provider d r" for r
    by (auto simp: d' git_at_def command_at_def has_provider_def delete_where_def)
  have "lease_states d \<Longrightarrow> lease_states d'" by (auto simp: d' lease_states_def delete_where_def)
  with at have "writers_apart d \<longrightarrow> writers_apart d'" by (auto simp: writers_apart_def d' unique_delete)
  moreover have "git_kept gone d d'" using process by (fastforce simp: d' git_kept_def delete_where_def)
  moreover have "command_kept gone d d'" by (auto simp: d' command_kept_def)
  moreover have "records_kept d d'" by (rule same_records_kept) (simp add: d' same_records_def)
  ultimately show ?thesis by (simp add: writer_rel_def)
qed

lemma insert_git_rel:
  assumes d': "d' = d\<lparr>git_mutation_leases := insert_row (new_git_lease c nonce observation) (git_mutation_leases d)\<rparr>"
    and free: "\<not> git_at d (gm_Repository c)" "\<not> has_provider d (gm_Repository c)" "lease_states d \<Longrightarrow> \<not> command_at d (gm_Repository c)"
  shows "writer_rel gone d d'"
proof -
  have at: "git_at d' r \<longleftrightarrow> git_at d r \<or> r = gm_Repository c" "command_at d' r = command_at d r" "has_provider d' r = has_provider d r" for r
    by (auto simp: d' git_at_def command_at_def has_provider_def insert_row_def new_git_lease_def)
  have "lease_states d \<Longrightarrow> lease_states d'" by (auto simp: d' lease_states_def insert_row_def new_git_lease_def)
  moreover have "unique_key w_Repository (git_mutation_leases d) \<Longrightarrow> unique_key w_Repository (git_mutation_leases d')"
    using free(1) by (auto simp: d' unique_key_insert git_at_def new_git_lease_def)
  ultimately have "writers_apart d \<longrightarrow> writers_apart d'" using at free by (auto simp: writers_apart_def d')
  moreover have "git_kept gone d d'" "command_kept gone d d'" by (auto simp: d' git_kept_def command_kept_def insert_row_def)
  moreover have "records_kept d d'" by (rule same_records_kept) (simp add: d' same_records_def)
  ultimately show ?thesis by (simp add: writer_rel_def)
qed

lemma intents_rel:
  assumes "d' = d\<lparr>git_mutation_intents := t\<rparr>" and "\<forall>i \<in> set (git_mutation_intents d). \<exists>j \<in> set t. fact_kept i j"
  shows "writer_rel gone d d'"
proof -
  have "same_writers d d'" by (simp add: assms(1) same_writers_def)
  moreover have "records_kept d d'" using assms by (simp add: records_kept_def)
  ultimately show ?thesis by (simp add: writer_rel_def same_apart same_kept)
qed

lemma update_intents_rel:
  assumes "d' = d\<lparr>git_mutation_intents := update_where p f (git_mutation_intents d)\<rparr>" and "\<And>i. p i \<Longrightarrow> fact_kept i (f i)"
  shows "writer_rel gone d d'"
  using assms(1)
proof (rule intents_rel)
  show "\<forall>i \<in> set (git_mutation_intents d). \<exists>j \<in> set (update_where p f (git_mutation_intents d)). fact_kept i j"
  proof
    fix i assume "i \<in> set (git_mutation_intents d)"
    then show "\<exists>j \<in> set (update_where p f (git_mutation_intents d)). fact_kept i j"
      using assms(2) fact_kept_refl by (intro bexI [of _ "if p i then f i else i"]) (auto simp: in_update)
  qed
qed

text \<open>The same for the leases of commands; removing one takes its process groups with it.\<close>

lemma update_command_rel:
  assumes d': "d' = d\<lparr>repository_command_leases := update_where p f (repository_command_leases d)\<rparr>"
    and repo: "\<And>l. p l \<Longrightarrow> w_Repository (f l) = w_Repository l"
    and state: "\<And>l. p l \<Longrightarrow> w_State (f l) = w_State l \<or> w_State (f l) = ''quarantined''"
    and process: "\<And>l. p l \<Longrightarrow> running_lease l \<Longrightarrow> \<not> gone (command_launch l) \<Longrightarrow> command_launch (f l) = command_launch l \<and> running_lease (f l)"
  shows "writer_rel gone d d'"
proof -
  have at: "command_at d' r = command_at d r" "git_at d' r = git_at d r" "has_provider d' r = has_provider d r" for r
    by (simp_all add: d' command_at_def git_at_def has_provider_def update_image repo)
  have "lease_states d \<Longrightarrow> lease_states d'"
    unfolding lease_states_def
    by (intro conjI, simp add: d') (simp add: d', rule update_all, blast, metis state)
  with at repo have "writers_apart d \<longrightarrow> writers_apart d'" by (simp add: writers_apart_def d' unique_update)
  moreover have "command_kept gone d d'"
    unfolding command_kept_def
  proof (intro ballI impI)
    fix l assume "l \<in> set (repository_command_leases d)" "running_lease l" "\<not> gone (command_launch l)"
    then show "\<exists>k \<in> set (repository_command_leases d'). w_Repository k = w_Repository l \<and> command_launch k = command_launch l \<and> running_lease k"
      using process [of l] repo [of l] by (intro bexI [of _ "if p l then f l else l"]) (auto simp: d' in_update)
  qed
  moreover have "git_kept gone d d'" by (auto simp: d' git_kept_def)
  moreover have "records_kept d d'" by (rule same_records_kept) (simp add: d' same_records_def)
  ultimately show ?thesis by (simp add: writer_rel_def)
qed

lemma delete_command_rel:
  assumes d': "d' = d\<lparr>repository_command_leases := delete_where p (repository_command_leases d),
      repository_command_process_groups := gs\<rparr>"
    and process: "\<And>l. p l \<Longrightarrow> running_lease l \<Longrightarrow> gone (command_launch l)"
  shows "writer_rel gone d d'"
proof -
  have at: "command_at d' r \<Longrightarrow> command_at d r" "git_at d' r = git_at d r" "has_provider d' r = has_provider d r" for r
    by (auto simp: d' command_at_def git_at_def has_provider_def delete_where_def)
  have "lease_states d \<Longrightarrow> lease_states d'" by (auto simp: d' lease_states_def delete_where_def)
  with at have "writers_apart d \<longrightarrow> writers_apart d'" by (auto simp: writers_apart_def d' unique_delete)
  moreover have "command_kept gone d d'" using process by (fastforce simp: d' command_kept_def delete_where_def)
  moreover have "git_kept gone d d'" by (auto simp: d' git_kept_def)
  moreover have "records_kept d d'" by (rule same_records_kept) (simp add: d' same_records_def)
  ultimately show ?thesis by (simp add: writer_rel_def)
qed

lemma insert_command_rel:
  assumes d': "d' = d\<lparr>repository_command_leases := insert_row (new_command_lease c nonce) (repository_command_leases d)\<rparr>"
    and free: "\<not> command_at d (kc_Repository c)" "\<not> has_provider d (kc_Repository c)" "lease_states d \<Longrightarrow> \<not> git_at d (kc_Repository c)"
  shows "writer_rel gone d d'"
proof -
  have at: "command_at d' r \<longleftrightarrow> command_at d r \<or> r = kc_Repository c" "git_at d' r = git_at d r" "has_provider d' r = has_provider d r" for r
    by (auto simp: d' command_at_def git_at_def has_provider_def insert_row_def new_command_lease_def)
  have "lease_states d \<Longrightarrow> lease_states d'" by (auto simp: d' lease_states_def insert_row_def new_command_lease_def)
  moreover have "unique_key w_Repository (repository_command_leases d) \<Longrightarrow> unique_key w_Repository (repository_command_leases d')"
    using free(1) by (auto simp: d' unique_key_insert command_at_def new_command_lease_def)
  ultimately have "writers_apart d \<longrightarrow> writers_apart d'" using at free by (auto simp: writers_apart_def d')
  moreover have "command_kept gone d d'" "git_kept gone d d'" by (auto simp: d' command_kept_def git_kept_def insert_row_def)
  moreover have "records_kept d d'" by (rule same_records_kept) (simp add: d' same_records_def)
  ultimately show ?thesis by (simp add: writer_rel_def)
qed

section \<open>Operations on Git mutations\<close>

lemma issue_effect_rel: "issue_effect f digest e d = Inr (x, d') \<Longrightarrow> writer_rel gone d d'"
proof -
  assume "issue_effect f digest e d = Inr (x, d')"
  then have "d' = d\<lparr>effects := update_where (issuable f digest) issue_row (effects d)\<rparr>"
    by (auto simp: issue_effect_def Let_def split: if_splits)
  then show ?thesis by (intro keep_rel) (simp_all add: same_writers_def same_records_def)
qed

lemma rebind_keeps: "fact_kept i (rebind_intent c i)"
  by (simp add: fact_kept_def intent_target_def rebind_intent_def)

lemma upsert_rel: "upsert_git_intent i c d = Inr d' \<Longrightarrow> writer_rel gone d d'"
proof (cases "git_intent_at d (ef_SemanticKey i)")
  case None
  moreover assume "upsert_git_intent i c d = Inr d'"
  ultimately have "d' = d\<lparr>git_mutation_intents := insert_row (new_git_intent c) (git_mutation_intents d)\<rparr>"
    by (simp add: upsert_git_intent_def)
  then show ?thesis by (rule intents_rel) (auto simp: insert_row_def intro: fact_kept_refl)
next
  case (Some r)
  moreover assume "upsert_git_intent i c d = Inr d'"
  ultimately have "d' = d\<lparr>git_mutation_intents :=
      update_where (\<lambda>r. gm_SemanticKey r = ef_SemanticKey i) (rebind_intent c) (git_mutation_intents d)\<rparr>"
    by (auto simp: upsert_git_intent_def split: if_splits)
  then show ?thesis by (rule update_intents_rel) (rule rebind_keeps)
qed

lemma issue_git_rel: "IssueGitMutationClaim gx s i = (y, s') \<Longrightarrow> writer_rel gone (st_db s) (st_db s')"
proof (cases "validGitIntent i")
  case True
  assume "IssueGitMutationClaim gx s i = (y, s')"
  with True have "store_write s (issue_git gx (st_mutations s) i) = (y, s')" by (simp add: IssueGitMutationClaim_def)
  then show ?thesis
  proof (rule write_rel)
    fix c d' assume "issue_git gx (st_mutations s) i (st_db s) = Inr (c, d')"
    then obtain e d1 where "issue_effect (EffectFence.truncate i) (gn_RequestDigest i) ErrGitMutationIntent (st_db s) = Inr (e, d1)"
      and "upsert_git_intent i (minted_claim i e) d1 = Inr d'"
      unfolding issue_git_def guarded_Inr and_then_Inr by auto
    then show "writer_rel gone (st_db s) d'" using issue_effect_rel upsert_rel writer_rel_trans by blast
  qed (rule writer_rel_refl)
qed (simp add: IssueGitMutationClaim_def writer_rel_refl)

lemma reclaim_fetch_rel: "reclaim_fetch i f d = Inr (c, d') \<Longrightarrow> writer_rel gone d d'"
proof -
  assume "reclaim_fetch i f d = Inr (c, d')"
  then obtain p g e d1 q where "change_effect p g e d = Inr d1"
    and d': "d' = d1\<lparr>git_mutation_intents := update_where q (rebind_intent c) (git_mutation_intents d1)\<rparr>"
    by (auto simp: reclaim_fetch_def Let_def split: if_splits)
  from this(1) have "writer_rel gone d d1" by (rule change_effect_rel)
  moreover from d' have "writer_rel gone d1 d'" by (rule update_intents_rel) (rule rebind_keeps)
  ultimately show ?thesis by (rule writer_rel_trans)
qed

lemma reclaim_rel: "ReclaimProtectedRefFetch gx s i = (y, s') \<Longrightarrow> writer_rel gone (st_db s) (st_db s')"
proof (cases "s' = s")
  case False
  assume "ReclaimProtectedRefFetch gx s i = (y, s')"
  with False have "store_write s (reclaim_protected gx (st_mutations s) i) = (y, s')"
    by (auto simp: ReclaimProtectedRefFetch_def split: if_splits)
  then show ?thesis
  proof (rule write_rel)
    fix c d' assume "reclaim_protected gx (st_mutations s) i (st_db s) = Inr (c, d')"
    then obtain f where "reclaim_fetch i f (st_db s) = Inr (c, d')"
      by (auto simp: reclaim_protected_def Let_def split: sum.splits)
    then show "writer_rel gone (st_db s) d'" by (rule reclaim_fetch_rel)
  qed (rule writer_rel_refl)
qed (simp add: writer_rel_refl)

text \<open>A free repository, seen through the tests of the acquisitions.\<close>

lemma held_writer_none:
  "held_writer e1 e2 repository ws = None \<Longrightarrow> \<not> list_ex (live_writer_at repository) ws"
  by (auto simp: held_writer_def live_writer_at_def list_ex_iff split: if_splits)

lemma no_provider: "\<not> list_ex (live_writer_at repository) (provider_attempts d) \<Longrightarrow> \<not> has_provider d repository"
  by (auto simp: has_provider_def list_ex_iff)

lemma no_command: "\<not> list_ex (live_writer_at repository) (repository_command_leases d) \<Longrightarrow> lease_states d \<Longrightarrow> \<not> command_at d repository"
  by (auto simp: command_at_def lease_states_def live_writer_at_def list_ex_iff)

lemma no_git: "\<not> list_ex (live_writer_at repository) (git_mutation_leases d) \<Longrightarrow> lease_states d \<Longrightarrow> \<not> git_at d repository"
  by (auto simp: git_at_def lease_states_def live_writer_at_def list_ex_iff)

lemma acquire_git_cases:
  assumes "acquire_git gx m h d = Inr (h', d')"
  obtains d1 where "h' = h" and "assertGitIntentCurrent gx m d (gh_Claim h) = None"
    and "repositoryHasProviderWriterForGitClaim d (gm_Repository (gh_Claim h)) = None"
    and "repositoryHasCommandWriterForGitClaim d (gm_Repository (gh_Claim h)) = None"
    and "\<not> git_at d (gm_Repository (gh_Claim h))"
    and "d1 = d\<lparr>git_mutation_leases := insert_row (new_git_lease (gh_Claim h) (gh_Nonce h) False) (git_mutation_leases d)\<rparr>"
    and "copy_prepared gx h d1 = Inr d'"
proof -
  from assms obtain d1 where facts: "h' = h" "assertGitIntentCurrent gx m d (gh_Claim h) = None"
    "repositoryHasProviderWriterForGitClaim d (gm_Repository (gh_Claim h)) = None"
    "repositoryHasCommandWriterForGitClaim d (gm_Repository (gh_Claim h)) = None"
    "insert_git_lease (gh_Claim h) (gh_Nonce h) d = Inr d1" "copy_prepared gx h d1 = Inr d'"
    unfolding acquire_git_def Let_def guarded_Inr and_then_Inr by auto
  from facts(5) have "\<not> git_at d (gm_Repository (gh_Claim h))"
    "d1 = d\<lparr>git_mutation_leases := insert_row (new_git_lease (gh_Claim h) (gh_Nonce h) False) (git_mutation_leases d)\<rparr>"
    by (auto simp: insert_git_lease_def git_at_def list_ex_iff split: if_splits)
  with facts that show ?thesis by blast
qed

lemma copy_prepared_rel: "copy_prepared gx h d = Inr d' \<Longrightarrow> writer_rel gone d d'"
proof (cases "d' = d")
  case False
  assume "copy_prepared gx h d = Inr d'"
  with False obtain f where "gitMutationIntentFactsFrom gx d (gm_SemanticKey (gh_Claim h)) = Inr f"
    by (cases "gitMutationIntentFactsFrom gx d (gm_SemanticKey (gh_Claim h))") (auto simp: copy_prepared_def split: if_splits)
  with \<open>copy_prepared gx h d = Inr d'\<close> False have "d' = d\<lparr>git_mutation_leases := update_where (handle_row h)
          (\<lambda>l. l\<lparr>gl_PreparedCommit := gf_PreparedCommit f, gl_PreparedTree := gf_PreparedTree f\<rparr>) (git_mutation_leases d)\<rparr>"
    by (simp add: copy_prepared_def split: if_splits)
  then show ?thesis by (rule update_git_rel) (simp_all add: lease_launch_def running_lease_def)
qed (simp add: writer_rel_refl)

lemma acquire_git_rel: "AcquireGitMutation gx s nonce c = (y, s') \<Longrightarrow> writer_rel gone (st_db s) (st_db s')"
proof (cases "validContractClaim c")
  case True
  let ?h = "\<lparr>gh_Claim = c, gh_Nonce = nonce\<rparr>"
  assume "AcquireGitMutation gx s nonce c = (y, s')"
  with True have "store_write s (acquire_git gx (st_mutations s) ?h) = (y, s')" by (simp add: AcquireGitMutation_def)
  then show ?thesis
  proof (rule write_rel)
    fix h d' assume "acquire_git gx (st_mutations s) ?h (st_db s) = Inr (h, d')"
    then show "writer_rel gone (st_db s) d'"
    proof (cases rule: acquire_git_cases)
      case (1 d1)
      from 1(3) have "\<not> has_provider (st_db s) (gm_Repository (gh_Claim ?h))"
        unfolding repositoryHasProviderWriterForGitClaim_def by (intro no_provider held_writer_none)
      moreover from 1(4) have "lease_states (st_db s) \<Longrightarrow> \<not> command_at (st_db s) (gm_Repository (gh_Claim ?h))"
        unfolding repositoryHasCommandWriterForGitClaim_def by (intro no_command held_writer_none)
      ultimately have "writer_rel gone (st_db s) d1" using 1(5) by (intro insert_git_rel [OF 1(6)])
      then show ?thesis using copy_prepared_rel [OF 1(7)] by (rule writer_rel_trans)
    qed
  qed (rule writer_rel_refl)
qed (simp add: AcquireGitMutation_def writer_rel_refl)

text \<open>The operations of a handle.\<close>

lemma change_lease_rel:
  assumes "change_git_lease p f d = Inr d'" and "\<And>l. p l \<Longrightarrow> w_Repository (f l) = w_Repository l \<and> w_State (f l) = w_State l"
    and "\<And>l. p l \<Longrightarrow> running_lease l \<Longrightarrow> \<not> gone (lease_launch l) \<Longrightarrow> lease_launch (f l) = lease_launch l \<and> running_lease (f l)"
  shows "writer_rel gone d d'"
proof -
  from assms(1) have "d' = d\<lparr>git_mutation_leases := update_where p f (git_mutation_leases d)\<rparr>"
    by (simp add: change_git_lease_def split: if_splits)
  then show ?thesis by (rule update_git_rel) (use assms in auto)
qed

lemma drop_lease_rel:
  assumes "drop_git_lease p d = Inr d'" and "\<And>l. p l \<Longrightarrow> \<not> running_lease l \<or> gone (lease_launch l)"
  shows "writer_rel gone d d'"
proof -
  from assms(1) have "d' = d\<lparr>git_mutation_leases := delete_where p (git_mutation_leases d)\<rparr>"
    by (simp add: drop_git_lease_def split: if_splits)
  then show ?thesis by (rule delete_git_rel) (use assms(2) in auto)
qed

lemma idle_not_running: "idle_lease l \<Longrightarrow> \<not> running_lease l" "idle_command k \<Longrightarrow> \<not> running_lease k"
  by (auto simp: idle_lease_def idle_command_def running_lease_def)

lemma under_intent_rel:
  assumes "under_intent gx s h fn = (y, s')" and "\<And>d d'. fn d = Inr d' \<Longrightarrow> writer_rel gone d d'"
  shows "writer_rel gone (st_db s) (st_db s')"
  using assms(1) unfolding under_intent_def
  by (rule write_rel) (auto intro: assms(2) writer_rel_refl split: if_splits)

lemma git_check_same: "git_lease_Check gx s h = (y, s') \<Longrightarrow> s' = s"
  by (auto simp: git_lease_Check_def store_write_def guarded_def split: if_splits option.splits)

lemma git_release_rel: "git_lease_Release gx s h = (y, s') \<Longrightarrow> writer_rel gone (st_db s) (st_db s')"
  unfolding git_lease_Release_def by (erule under_intent_rel) (erule drop_lease_rel, use idle_not_running in auto)

lemma git_launch_rel: "RecordGitMutationLaunch gx s h v = (y, s') \<Longrightarrow> writer_rel gone (st_db s) (st_db s')"
proof (cases "valid_launch v")
  case True
  assume "RecordGitMutationLaunch gx s h v = (y, s')"
  with True have "under_intent gx s h (change_git_lease (\<lambda>l. writing_handle h l \<and> idle_lease l) (launch_lease v)) = (y, s')"
    by (simp add: RecordGitMutationLaunch_def)
  then show ?thesis
    by (rule under_intent_rel) (erule change_lease_rel, use idle_not_running in \<open>auto simp: launch_lease_def\<close>)
qed (simp add: RecordGitMutationLaunch_def writer_rel_refl)

lemma git_finish_rel: "FinishGitMutationLaunch s h v = (y, s') \<Longrightarrow> gone v \<Longrightarrow> writer_rel gone (st_db s) (st_db s')"
proof (cases "valid_launch v")
  case True
  assume "FinishGitMutationLaunch s h v = (y, s')" and gone: "gone v"
  with True have "store_write s (\<lambda>d. and_then (change_git_lease
        (\<lambda>l. writing_handle h l \<and> w_LaunchState l = ''released'' \<and> lease_launch l = v)
        (\<lambda>l. l\<lparr>w_LaunchState := ''drained''\<rparr>) d) (\<lambda>d'. Inr ((), d'))) = (y, s')"
    by (simp add: FinishGitMutationLaunch_def)
  then show ?thesis
  proof (rule write_rel)
    fix u d' assume "and_then (change_git_lease
        (\<lambda>l. writing_handle h l \<and> w_LaunchState l = ''released'' \<and> lease_launch l = v)
        (\<lambda>l. l\<lparr>w_LaunchState := ''drained''\<rparr>) (st_db s)) (\<lambda>d'. Inr ((), d')) = Inr (u, d')"
    then have "change_git_lease (\<lambda>l. writing_handle h l \<and> w_LaunchState l = ''released'' \<and> lease_launch l = v)
        (\<lambda>l. l\<lparr>w_LaunchState := ''drained''\<rparr>) (st_db s) = Inr d'" by simp
    then show "writer_rel gone (st_db s) d'" by (rule change_lease_rel) (use gone in auto)
  qed (rule writer_rel_refl)
qed (simp add: FinishGitMutationLaunch_def writer_rel_refl)

text \<open>A fact that is recorded was not recorded before.\<close>

lemma record_fact_rel:
  assumes "record_git_fact operation of_intent set_intent of_lease set_lease none given h d = Inr d'"
    and lease: "\<And>l. w_Repository (set_lease given l) = w_Repository l \<and> w_State (set_lease given l) = w_State l \<and>
      lease_launch (set_lease given l) = lease_launch l \<and> w_LaunchState (set_lease given l) = w_LaunchState l"
    and intent: "\<And>i. gm_Operation i = operation \<Longrightarrow> of_intent i = none \<Longrightarrow> fact_kept i (set_intent given i)"
  shows "writer_rel gone d d'"
proof -
  have run: "running_lease (set_lease given l) = running_lease l" for l using lease [of l] by (simp add: running_lease_def)
  have change: "change_git_lease p (set_lease given) e = Inr e' \<Longrightarrow> writer_rel gone e e'" for p e e'
    by (erule change_lease_rel) (use lease run in auto)
  let ?mine = "\<lambda>i. gm_SemanticKey i = gm_SemanticKey (gh_Claim h) \<and> gm_Operation i = operation"
  let ?held = "\<lambda>l. active_handle h l \<and> gm_Operation (gl_Claim l) = operation"
  let ?d = "d\<lparr>git_mutation_intents := update_where (\<lambda>i. ?mine i \<and> of_intent i = none) (set_intent given) (git_mutation_intents d)\<rparr>"
  obtain i l where i: "List.find ?mine (git_mutation_intents d) = Some i"
    and l: "List.find (\<lambda>l. ?held l \<and> \<not> gl_ObservationOnly l) (git_mutation_leases d) = Some l"
    using assms(1) by (auto simp: record_git_fact_def Let_def split: option.splits)
  let ?set = "change_git_lease (\<lambda>l. ?held l \<and> of_lease l = none) (set_lease given)"
  have branch: "(if A then Inr d else if B then x else if C then Inl e else if N then Inl e else z) = Inr d' \<Longrightarrow>
      d' = d \<or> x = Inr d' \<or> z = Inr d'" for A B C N e and x z :: "store_error + db"
    by (simp split: if_splits)
  have "d' = d \<or> ?set d = Inr d' \<or> ?set ?d = Inr d'"
    using assms(1) unfolding record_git_fact_def Let_def i l prod.case option.case by (rule branch)
  then consider "d' = d" | "?set d = Inr d'" | "?set ?d = Inr d'" by blast
  then show ?thesis
  proof cases
    case 3
    have "writer_rel gone d ?d" by (rule update_intents_rel [OF refl]) (use intent in auto)
    then show ?thesis using change [OF 3] by (rule writer_rel_trans)
  qed (use change writer_rel_refl in auto)
qed

lemma prepared_rel: "RecordPreparedCommit gx s h commit tree = (y, s') \<Longrightarrow> writer_rel gone (st_db s) (st_db s')"
proof (cases "s' = s")
  case False
  assume "RecordPreparedCommit gx s h commit tree = (y, s')"
  with False have "under_intent gx s h (record_prepared (commit, tree) h) = (y, s')"
    by (auto simp: RecordPreparedCommit_def Let_def split: if_splits)
  then show ?thesis
    by (rule under_intent_rel) (unfold record_prepared_def, erule record_fact_rel,
      simp_all add: lease_launch_def fact_kept_def intent_target_def)
qed (simp add: writer_rel_refl)

lemma prior_rel: "RecordPushPriorRemote gx s h oid = (y, s') \<Longrightarrow> writer_rel gone (st_db s) (st_db s')"
proof (cases "s' = s")
  case False
  assume "RecordPushPriorRemote gx s h oid = (y, s')"
  with False have "under_intent gx s h (record_prior (1, oid) h) = (y, s')"
    by (auto simp: RecordPushPriorRemote_def Let_def split: if_splits)
  then show ?thesis
    by (rule under_intent_rel) (unfold record_prior_def, erule record_fact_rel,
      simp_all add: lease_launch_def fact_kept_def intent_target_def)
qed (simp add: writer_rel_refl)

section \<open>Absence proofs and recovery of Git leases\<close>

lemma begin_absence_rel: "BeginWorktreeCreationAbsence gx s nonce original current = (y, s') \<Longrightarrow> writer_rel gone (st_db s) (st_db s')"
proof (cases "s' = s")
  case False
  assume "BeginWorktreeCreationAbsence gx s nonce original current = (y, s')"
  with False have "store_write s (begin_absence gx nonce original current) = (y, s')"
    by (auto simp: BeginWorktreeCreationAbsence_def split: if_splits)
  then show ?thesis
  proof (rule write_rel)
    fix h d' assume op: "begin_absence gx nonce original current (st_db s) = Inr (h, d')"
    then obtain f where f: "gitMutationIntentFactsFrom gx (st_db s) (gm_SemanticKey original) = Inr f"
      by (auto simp: begin_absence_def Let_def split: sum.splits)
    with op obtain e where e: "effectFrom (st_db s) (gm_SemanticKey original) = Inr e"
      by (auto simp: begin_absence_def Let_def split: sum.splits)
    let ?v = "fence_endpoint (ef_TicketVersion current) (ef_Fence current)"
    from op [unfolded begin_absence_def Let_def f e sum.case guarded_Inr and_then_Inr refuse_None not_not]
    obtain p g x d1 where claim: "gf_Claim f = original" and change: "change_effect p g x (st_db s) = Inr d1"
      and ins: "insert_observation (advance_claim ?v (e_ClaimEpoch e + 1) (gf_Claim f)) nonce d1 = Inr d'"
      and free: "repositoryHasProviderWriter (st_db s) (gm_Repository original) = None"
        "repositoryHasCommandWriter (st_db s) (gm_Repository original) = None" by blast
    define c where "c = advance_claim ?v (e_ClaimEpoch e + 1) (gf_Claim f)"
    note ins = ins [folded c_def]
    have c: "gm_Repository c = gm_Repository (gf_Claim f)" by (simp add: c_def advance_claim_def)
    from change have same: "provider_attempts d1 = provider_attempts (st_db s)"
      "repository_command_leases d1 = repository_command_leases (st_db s)"
      by (auto simp: change_effect_def split: if_splits)
    from ins have d': "d' = d1\<lparr>git_mutation_leases := insert_row (new_git_lease c nonce True) (git_mutation_leases d1)\<rparr>"
      and new: "\<not> git_at d1 (gm_Repository c)"
      by (auto simp: insert_observation_def git_at_def list_ex_iff split: if_splits)
    have "\<not> has_provider d1 (gm_Repository c)" "lease_states d1 \<Longrightarrow> \<not> command_at d1 (gm_Repository c)"
      using free same c claim no_provider [of "gm_Repository c" d1] no_command [of "gm_Repository c" d1]
      by (simp_all add: repositoryHasProviderWriter_def repositoryHasCommandWriter_def)
    with new have "writer_rel gone d1 d'" by (intro insert_git_rel [OF d'])
    with change_effect_rel [OF change] show "writer_rel gone (st_db s) d'" by (rule writer_rel_trans)
  qed (rule writer_rel_refl)
qed (simp add: writer_rel_refl)

lemma observed_not_running: "observed_row h l \<Longrightarrow> \<not> running_lease l"
  by (simp add: observed_row_def running_lease_def)

lemma drop_observed_rel: "drop_git_lease (observed_row h) d = Inr d' \<Longrightarrow> writer_rel gone d d'"
  by (erule drop_lease_rel) (use observed_not_running in auto)

lemma absence_check_same: "absence_Check gx s h = (y, s') \<Longrightarrow> s' = s"
  by (auto simp: absence_Check_def store_write_def guarded_def split: if_splits option.splits)

lemma closing_store: "closing h r = (y, h', s') \<Longrightarrow> s' = snd r"
  by (auto simp: closing_def split: sum.splits)

lemma complete_absent_rel: "CompleteAbsent gx s h = (y, h', s') \<Longrightarrow> writer_rel gone (st_db s) (st_db s')"
proof (cases "ah_Closed h")
  case False
  assume op: "CompleteAbsent gx s h = (y, h', s')"
  obtain x s1 where w: "store_write s (complete_absent gx (st_mutations s) (git_handle.truncate h)) = (x, s1)" by (meson surj_pair)
  with op False closing_store [of h "(x, s1)" y h' s'] have "s' = s1" by (simp add: CompleteAbsent_def)
  moreover from w have "writer_rel gone (st_db s) (st_db s1)"
  proof (rule write_rel)
    fix u d' assume "complete_absent gx (st_mutations s) (git_handle.truncate h) (st_db s) = Inr (u, d')"
    then obtain p g e d1 k where "change_effect p g e (st_db s) = Inr d1" "drop_git_lease (observed_row k) d1 = Inr d'"
      unfolding complete_absent_def Let_def by auto
    then show "writer_rel gone (st_db s) d'" using change_effect_rel drop_observed_rel writer_rel_trans by blast
  qed (rule writer_rel_refl)
  ultimately show ?thesis by simp
qed (simp add: CompleteAbsent_def writer_rel_refl)

lemma absence_release_rel: "absence_Release gx s h = (y, h', s') \<Longrightarrow> writer_rel gone (st_db s) (st_db s')"
proof (cases "ah_Closed h")
  case False
  assume op: "absence_Release gx s h = (y, h', s')"
  obtain x s1 where w: "store_write s (\<lambda>d. guarded (checkFrom gx (st_mutations s) (git_handle.truncate h) False d)
        (and_then (drop_git_lease (observed_row (git_handle.truncate h)) d) (\<lambda>d'. Inr ((), d')))) = (x, s1)" by (meson surj_pair)
  with op False closing_store [of h "(x, s1)" y h' s'] have "s' = s1" by (simp add: absence_Release_def)
  moreover from w have "writer_rel gone (st_db s) (st_db s1)"
    by (rule write_rel) (auto intro: drop_observed_rel writer_rel_refl)
  ultimately show ?thesis by simp
qed (simp add: absence_Release_def writer_rel_refl)

lemma quarantine_git_rel: "writer_rel gone (st_db s) (st_db (snd (quarantineGitMutationLease s h)))"
proof -
  obtain y s' where w: "quarantineGitMutationLease s h = (y, s')" by (meson surj_pair)
  from w have "writer_rel gone (st_db s) (st_db s')" unfolding quarantineGitMutationLease_def
  proof (rule write_rel)
    fix u d' assume "Inr ((), (st_db s)\<lparr>git_mutation_leases := update_where (active_handle h)
      (\<lambda>l. l\<lparr>w_State := ''quarantined'', w_LaunchState := ''quarantined''\<rparr>) (git_mutation_leases (st_db s))\<rparr>) = (Inr (u, d') :: store_error + unit \<times> db)"
    then have "d' = (st_db s)\<lparr>git_mutation_leases := update_where (active_handle h)
      (\<lambda>l. l\<lparr>w_State := ''quarantined'', w_LaunchState := ''quarantined''\<rparr>) (git_mutation_leases (st_db s))\<rparr>" by simp
    then show "writer_rel gone (st_db s) d'" by (rule update_git_rel) (simp_all add: running_lease_def lease_launch_def)
  qed (rule writer_rel_refl)
  with w show ?thesis by simp
qed

lemma audit_rel: "audit_leases gx ls s = (y, s') \<Longrightarrow> writer_rel gone (st_db s) (st_db s')"
proof (induction gx ls s rule: audit_leases.induct)
  case (2 gx l ls s)
  show ?case
  proof (cases "gl_ObservationOnly l")
    case True
    obtain x s1 where w: "store_write s (\<lambda>d. guarded (checkFrom gx (st_mutations s) (handle_of l) False d) (Inr ((), d))) = (x, s1)"
      by (meson surj_pair)
    then have "s1 = s" by (auto simp: store_write_def guarded_def split: if_splits option.splits)
    with "2.prems" True w show ?thesis using "2.IH"(1) [OF True] by (cases x) (auto simp: writer_rel_refl)
  next
    case False
    with "2.prems" show ?thesis
      using "2.IH"(2) [OF False] quarantine_git_rel [of gone s "handle_of l"] by (auto split: if_splits)
  qed
qed (simp add: writer_rel_refl)

lemma active_git_rel: "ActiveGitMutationLeases gx s channel = (y, s') \<Longrightarrow> writer_rel gone (st_db s) (st_db s')"
  using audit_rel [of gx "channel_leases (st_db s) channel" s]
  by (auto simp: ActiveGitMutationLeases_def Let_def writer_rel_refl split: if_splits prod.splits option.splits)

text \<open>A drained lease is removed only for the very process that the drainer was asked about.\<close>

lemma retire_drained_rel: "retire_drained channel leader l d = Inr (q, d') \<Longrightarrow> gone (lease_launch l) \<Longrightarrow> writer_rel gone d d'"
proof -
  assume op: "retire_drained channel leader l d = Inr (q, d')" and gone: "gone (lease_launch l)"
  let ?same = "\<lambda>r. r\<lparr>gl_ObservationOnly := gl_ObservationOnly l\<rparr> = l\<lparr>w_State := ''active''\<rparr> \<and> bound_intent d l"
  from op consider "d' = d\<lparr>git_mutation_leases := delete_where ?same (git_mutation_leases d)\<rparr>"
    | "d' = d\<lparr>git_mutation_leases := update_where (handle_row (handle_of l))
        (\<lambda>r. r\<lparr>w_State := ''quarantined'', w_LaunchState := ''quarantined''\<rparr>) (git_mutation_leases d)\<rparr>"
    by (auto simp: retire_drained_def Let_def split: option.splits if_splits)
  then show ?thesis
  proof cases
    case 1
    have "lease_launch r = lease_launch l" if "?same r" for r
    proof -
      from that have "lease_launch (r\<lparr>gl_ObservationOnly := gl_ObservationOnly l\<rparr>) = lease_launch (l\<lparr>w_State := ''active''\<rparr>)" by simp
      then show ?thesis by (simp add: lease_launch_def)
    qed
    with gone show ?thesis by (intro delete_git_rel [OF 1]) metis
  next
    case 2
    then show ?thesis by (rule update_git_rel) (simp_all add: running_lease_def lease_launch_def)
  qed
qed

lemma recover_leases_rel:
  "recover_leases gx channel leader drainer ls s = (y, s') \<Longrightarrow> (\<And>v. drained_by drainer v \<Longrightarrow> gone v) \<Longrightarrow>
     writer_rel gone (st_db s) (st_db s')"
proof (induction gx channel leader drainer ls s rule: recover_leases.induct)
  case (2 gx channel leader drainer l ls s)
  show ?case
  proof (cases "gl_ObservationOnly l")
    case True
    obtain x s1 where w: "store_write s (abandon_observation gx (st_mutations s) channel leader l) = (x, s1)" by (meson surj_pair)
    then have step: "writer_rel gone (st_db s) (st_db s1)"
      by (rule write_rel) (auto simp: abandon_observation_def intro: drop_observed_rel writer_rel_refl split: option.splits)
    with "2.prems" True w show ?thesis
      using "2.IH"(1) [OF True w [symmetric]] writer_rel_trans by (cases x) auto
  next
    case False
    show ?thesis
    proof (cases "drained_by drainer (lease_launch l)")
      case True
      then have gone: "gone (lease_launch l)" by (rule "2.prems"(2))
      obtain x s1 where w: "store_write s (retire_drained channel leader l) = (x, s1)" by (meson surj_pair)
      then have step: "writer_rel gone (st_db s) (st_db s1)"
        by (rule write_rel) (use gone retire_drained_rel writer_rel_refl in auto)
      with "2.prems" False True w show ?thesis
        using "2.IH"(2) [OF False _ w [symmetric]] writer_rel_trans by (cases x) (auto split: if_splits)
    next
      case undrained: False
      with "2.prems" False show ?thesis using quarantine_git_rel [of gone s "handle_of l"] by auto
    qed
  qed
qed (simp add: writer_rel_refl)

lemma recover_git_rel:
  assumes "RecoverGitMutationLeases gx s channel leader drainer = (y, s')" and "\<And>v. drained_by drainer v \<Longrightarrow> gone v"
  shows "writer_rel gone (st_db s) (st_db s')"
proof (cases "\<not> Channel_Valid channel \<or> leader = 0")
  case True
  with assms(1) show ?thesis by (simp add: RecoverGitMutationLeases_def writer_rel_refl)
next
  case False
  obtain x s1 where a: "ActiveGitMutationLeases gx s channel = (x, s1)" by (meson surj_pair)
  have step: "writer_rel gone (st_db s) (st_db s1)" by (rule active_git_rel [OF a])
  show ?thesis
  proof (cases x)
    case (Inl e)
    with assms(1) a False have "s' = s1" by (simp add: RecoverGitMutationLeases_def)
    with step show ?thesis by simp
  next
    case (Inr ls)
    with assms(1) a False have "recover_leases gx channel leader drainer ls s1 = (y, s')"
      by (simp add: RecoverGitMutationLeases_def)
    note rest = recover_leases_rel [OF this assms(2)]
    show ?thesis by (rule writer_rel_trans [OF step rest])
  qed
qed

lemma confirm_creation_rel: "ConfirmRecoveredWorktreeCreation gx s c observed = (y, s') \<Longrightarrow> writer_rel gone (st_db s) (st_db s')"
proof (cases "s' = s")
  case False
  assume "ConfirmRecoveredWorktreeCreation gx s c observed = (y, s')"
  with False have "store_write s (confirm_creation c observed) = (y, s')"
    by (auto simp: ConfirmRecoveredWorktreeCreation_def split: if_splits)
  then show ?thesis
  proof (rule write_rel)
    fix r d' assume op: "confirm_creation c observed (st_db s) = Inr (r, d')"
    then obtain e where e: "effectFrom (st_db s) (gm_SemanticKey c) = Inr e" unfolding confirm_creation_def and_then_Inr by blast
    have "\<exists>p g x. change_effect p g x (st_db s) = Inr d'" if new: "\<not> (e_State e = EffectConfirmed \<and> e_ObservedIdentity e = observed)"
    proof -
      note op' = op [unfolded confirm_creation_def e and_then_def [of "Inr e"] sum.case guarded_Inr if_not_P [OF new]]
      obtain state v where "ticket_endpoint (st_db s) (gm_Ref c) = Some (state, v)"
        using op' by (cases "ticket_endpoint (st_db s) (gm_Ref c)") auto
      from op' [unfolded this option.case prod.case guarded_Inr and_then_Inr] show ?thesis by blast
    qed
    moreover have "d' = st_db s" if "e_State e = EffectConfirmed \<and> e_ObservedIdentity e = observed"
      using op that by (simp add: confirm_creation_def e)
    ultimately have "d' = st_db s \<or> (\<exists>p g x. change_effect p g x (st_db s) = Inr d')" by blast
    then show "writer_rel gone (st_db s) d'" using change_effect_rel writer_rel_refl by blast
  qed (rule writer_rel_refl)
qed (simp add: writer_rel_refl)

end
