(* ===== verification/WriterSafety.thy ===== *)
theory WriterSafety
  imports WriterSteps ProviderRetries
begin

text \<open>
  What the three kinds of writers guarantee over every sequence of operations: they never share a repository, no lease of a
  process that may be alive is lost, and what was recorded of a Git mutation or a command is final.
\<close>

declare rune_len.simps(2) [simp del]

section \<open>Operations on commands\<close>

lemma plain_rel:
  assumes "plain_write s fn = (y, s')" and "\<And>d'. fn (st_db s) = Inr d' \<Longrightarrow> writer_rel gone (st_db s) d'"
  shows "writer_rel gone (st_db s) (st_db s')"
  using assms(1) unfolding plain_write_def by (rule write_rel) (auto intro: assms(2) writer_rel_refl)

lemma change_command_rel:
  assumes "change_command_lease p f d = Inr d'" and "\<And>l. p l \<Longrightarrow> w_Repository (f l) = w_Repository l"
    and "\<And>l. p l \<Longrightarrow> w_State (f l) = w_State l \<or> w_State (f l) = ''quarantined''"
    and "\<And>l. p l \<Longrightarrow> running_lease l \<Longrightarrow> \<not> gone (command_launch l) \<Longrightarrow> command_launch (f l) = command_launch l \<and> running_lease (f l)"
  shows "writer_rel gone d d'"
proof -
  from assms(1) have "d' = d\<lparr>repository_command_leases := update_where p f (repository_command_leases d)\<rparr>"
    by (simp add: change_command_lease_def split: if_splits)
  then show ?thesis by (rule update_command_rel) (use assms in auto)
qed

lemma drop_command_rel:
  assumes "drop_command_lease p d = Inr d'" and "\<And>l. p l \<Longrightarrow> \<not> running_lease l \<or> gone (command_launch l)"
  shows "writer_rel gone d d'"
proof -
  from assms(1) obtain gs where "d' = d\<lparr>repository_command_leases := delete_where p (repository_command_leases d),
      repository_command_process_groups := gs\<rparr>"
    by (auto simp: drop_command_lease_def split: if_splits)
  then show ?thesis by (rule delete_command_rel) (use assms(2) in auto)
qed

lemma drop_command_intent_rel: "drop_command_intent p d = Inr d' \<Longrightarrow> writer_rel gone d d'"
  by (auto simp: drop_command_intent_def same_writers_def same_records_def split: if_splits intro!: keep_rel)

lemma quarantined_command:
  "w_Repository (quarantine_command l) = w_Repository l" "w_State (quarantine_command l) = ''quarantined''"
  "command_launch (quarantine_command l) = command_launch l" "running_lease l \<Longrightarrow> running_lease (quarantine_command l)"
  by (auto simp: quarantine_command_def command_launch_def running_lease_def)

lemma mint_command_rel: "mint_command i d = Inr (c, d') \<Longrightarrow> writer_rel gone d d'"
proof -
  assume op: "mint_command i d = Inr (c, d')"
  then obtain e where e: "effectFrom d (ef_SemanticKey i) = Inr e"
    by (cases "effectFrom d (ef_SemanticKey i)") (auto simp: mint_command_def)
  from op obtain x d1 where d1: "issue_effect (EffectFence.truncate i) (kn_RequestDigest i) ErrRepositoryCommandIntent d = Inr (x, d1)"
    and d': "d' = d1\<lparr>repository_command_intents := insert_row c (repository_command_intents d1)\<rparr>"
    by (auto simp: mint_command_def e Let_def split: if_splits)
  have "writer_rel gone d1 d'" by (rule keep_rel) (simp_all add: d' same_writers_def same_records_def)
  with issue_effect_rel [OF d1] show ?thesis by (rule writer_rel_trans)
qed

lemma issue_command_rel: "IssueRepositoryCommandClaim s i = (y, s') \<Longrightarrow> writer_rel gone (st_db s) (st_db s')"
proof (cases "validRepositoryCommandIntent i")
  case True
  assume "IssueRepositoryCommandClaim s i = (y, s')"
  with True have "store_write s (issue_command (st_mutations s) i) = (y, s')" by (simp add: IssueRepositoryCommandClaim_def)
  then show ?thesis
    by (rule write_rel) (auto simp: issue_command_def intro: mint_command_rel writer_rel_refl split: option.splits)
qed (simp add: IssueRepositoryCommandClaim_def writer_rel_refl)

text \<open>The tests of an acquisition, and the lease it inserts.\<close>

lemma acquire_command_facts:
  assumes "acquire_command m h d = Inr (h', d')"
  shows "h' = h" and "assertRepositoryCommandCurrent m d (kh_Claim h) = None"
    and "repositoryCommandAcquireProviderConflict d (kc_Repository (kh_Claim h)) = None"
    and "repositoryCommandAcquireGitConflict d (kc_Repository (kh_Claim h)) = None"
    and "\<not> command_at d (kc_Repository (kh_Claim h))"
    and "d' = d\<lparr>repository_command_leases := insert_row (new_command_lease (kh_Claim h) (kh_Nonce h)) (repository_command_leases d)\<rparr>"
  using assms
  by (auto simp: acquire_command_def Let_def insert_command_lease_def command_at_def list_ex_iff split: if_splits)

lemma acquire_command_rel: "AcquireRepositoryCommand s nonce c = (y, s') \<Longrightarrow> writer_rel gone (st_db s) (st_db s')"
proof (cases "validRepositoryCommandClaim c")
  case True
  let ?h = "\<lparr>kh_Claim = c, kh_Nonce = nonce\<rparr>"
  assume op: "AcquireRepositoryCommand s nonce c = (y, s')"
  obtain x s1 where w: "store_write s (acquire_command (st_mutations s) ?h) = (x, s1)" by (meson surj_pair)
  with op True have "s' = s1" by (cases x) (auto simp: AcquireRepositoryCommand_def)
  moreover from w have "writer_rel gone (st_db s) (st_db s1)"
  proof (rule write_rel)
    fix h d' assume "acquire_command (st_mutations s) ?h (st_db s) = Inr (h, d')"
    note facts = acquire_command_facts [OF this]
    from facts(3) have "\<not> has_provider (st_db s) (kc_Repository (kh_Claim ?h))"
      unfolding repositoryCommandAcquireProviderConflict_def by (intro no_provider held_writer_none)
    moreover from facts(4) have "lease_states (st_db s) \<Longrightarrow> \<not> git_at (st_db s) (kc_Repository (kh_Claim ?h))"
      unfolding repositoryCommandAcquireGitConflict_def by (intro no_git held_writer_none)
    ultimately show "writer_rel gone (st_db s) d'" using facts(5) by (intro insert_command_rel [OF facts(6)])
  qed (rule writer_rel_refl)
  ultimately show ?thesis by simp
qed (simp add: AcquireRepositoryCommand_def writer_rel_refl)

lemma command_check_same: "command_lease_Check s h = (y, s') \<Longrightarrow> s' = s"
  by (auto simp: command_lease_Check_def store_write_def guarded_def split: if_splits option.splits)

lemma command_release_rel: "command_lease_Release s h = (y, s') \<Longrightarrow> writer_rel gone (st_db s) (st_db s')"
  unfolding command_lease_Release_def by (erule plain_rel, erule drop_command_rel) (use idle_not_running in auto)

lemma command_quarantine_rel: "command_lease_Quarantine s h = (y, s') \<Longrightarrow> writer_rel gone (st_db s) (st_db s')"
  unfolding command_lease_Quarantine_def
  by (erule plain_rel, erule change_command_rel) (simp_all add: quarantined_command)

lemma under_command_rel:
  assumes "under_command s h fn = (y, s')" and "\<And>d d'. fn d = Inr d' \<Longrightarrow> writer_rel gone d d'"
  shows "writer_rel gone (st_db s) (st_db s')"
  using assms(1) unfolding under_command_def by (rule plain_rel) (auto intro: assms(2) split: if_splits)

lemma command_launch_rel: "RecordRepositoryCommandLaunch s h v = (y, s') \<Longrightarrow> writer_rel gone (st_db s) (st_db s')"
proof (cases "s' = s")
  case False
  assume "RecordRepositoryCommandLaunch s h v = (y, s')"
  with False have "under_command s h (change_command_lease (\<lambda>l. active_command h l \<and> w_LaunchState l = ''unrecorded'') (launch_command v)) = (y, s')"
    by (auto simp: RecordRepositoryCommandLaunch_def split: if_splits)
  then show ?thesis
    by (rule under_command_rel) (erule change_command_rel, simp_all add: launch_command_def running_lease_def)
qed (simp add: writer_rel_refl)

lemma command_finish_rel: "FinishRepositoryCommandLaunch s h v = (y, s') \<Longrightarrow> gone v \<Longrightarrow> writer_rel gone (st_db s) (st_db s')"
proof (cases "s' = s")
  case False
  assume op: "FinishRepositoryCommandLaunch s h v = (y, s')" and gone: "gone v"
  with False have "plain_write s (change_command_lease
        (\<lambda>l. active_command h l \<and> w_LaunchState l = ''released'' \<and> command_launch l = v) (\<lambda>l. l\<lparr>w_LaunchState := ''drained''\<rparr>)) = (y, s')"
    by (auto simp: FinishRepositoryCommandLaunch_def split: if_splits)
  then show ?thesis by (rule plain_rel, elim change_command_rel) (use gone in auto)
qed (simp add: writer_rel_refl)

lemma record_group_rel: "record_group h v d = Inr d' \<Longrightarrow> writer_rel gone d d'"
proof (cases "d' = d")
  case False
  assume "record_group h v d = Inr d'"
  with False have "\<exists>gs. d' = d\<lparr>repository_command_process_groups := gs\<rparr>"
    by (auto simp: record_group_def Let_def split: if_splits sum.splits)
  then show ?thesis by (auto simp: same_writers_def same_records_def intro!: keep_rel)
qed (simp add: writer_rel_refl)

lemma command_group_rel: "RecordRepositoryCommandProcessGroup s h v = (y, s') \<Longrightarrow> writer_rel gone (st_db s) (st_db s')"
proof (cases "s' = s")
  case False
  assume "RecordRepositoryCommandProcessGroup s h v = (y, s')"
  with False have "under_command s h (record_group h v) = (y, s')"
    by (auto simp: RecordRepositoryCommandProcessGroup_def split: if_splits)
  then show ?thesis by (rule under_command_rel) (rule record_group_rel)
qed (simp add: writer_rel_refl)

section \<open>Recovery of commands\<close>

lemma recovered_effect_rel: "setRecoveredRepositoryCommandEffect c state observed d = Inr d' \<Longrightarrow> writer_rel gone d d'"
proof (cases "d' = d")
  case False
  assume op: "setRecoveredRepositoryCommandEffect c state observed d = Inr d'"
  then obtain e where e: "effectFrom d (kc_SemanticKey c) = Inr e"
    by (cases "effectFrom d (kc_SemanticKey c)") (auto simp: setRecoveredRepositoryCommandEffect_def split: if_splits)
  from op False obtain p f x where "change_effect p f x d = Inr d'"
    by (auto simp: setRecoveredRepositoryCommandEffect_def e split: if_splits)
  then show ?thesis by (rule change_effect_rel)
qed (simp add: writer_rel_refl)

text \<open>A lease with a launched process is removed for that process only; the other two states have no running process.\<close>

lemma retire_recovered_rel:
  assumes op: "retire_recovered channel leader r observed launchState d = Inr d'"
    and gone: "launchState = ''launched'' \<Longrightarrow> gone (rr_Launch r)"
  shows "writer_rel gone d d'"
proof -
  from op obtain d1 d2 where d1: "setRecoveredRepositoryCommandEffect (kh_Claim (rr_Handle r)) EffectFailed observed d = Inr d1"
    and d2: "drop_command_lease (retirable r launchState) d1 = Inr d2"
    and d': "d' = d2 \<or> (\<exists>p. drop_command_intent p d2 = Inr d')"
    by (auto simp: retire_recovered_def Let_def split: option.splits if_splits)
  have "\<not> running_lease l \<or> gone (command_launch l)" if "retirable r launchState l" for l
    using that gone by (auto simp: retirable_def running_lease_def split: if_splits)
  from drop_command_rel [OF d2 this] have "writer_rel gone d1 d2" .
  with recovered_effect_rel [OF d1] have "writer_rel gone d d2" by (rule writer_rel_trans)
  moreover from d' have "writer_rel gone d2 d'" using drop_command_intent_rel writer_rel_refl by blast
  ultimately show ?thesis by (rule writer_rel_trans)
qed

lemma quarantine_recovered_rel:
  "quarantineRecoveredRepositoryCommand s channel leader r = (y, s') \<Longrightarrow> writer_rel gone (st_db s) (st_db s')"
  unfolding quarantineRecoveredRepositoryCommand_def
proof (erule plain_rel)
  fix d' assume "guarded (assertRepositoryRecoveryLeader (st_db s) channel leader)
     (and_then (setRecoveredRepositoryCommandEffect (kh_Claim (rr_Handle r)) EffectUncertain ''uncertain:repository_command_recovery'' (st_db s))
       (change_command_lease (\<lambda>l. command_row (rr_Handle r) l \<and> (w_State l = ''active'' \<or> w_State l = ''quarantined'')) quarantine_command)) = Inr d'"
  then obtain d1 where d1: "setRecoveredRepositoryCommandEffect (kh_Claim (rr_Handle r)) EffectUncertain ''uncertain:repository_command_recovery'' (st_db s) = Inr d1"
    and d': "change_command_lease (\<lambda>l. command_row (rr_Handle r) l \<and> (w_State l = ''active'' \<or> w_State l = ''quarantined'')) quarantine_command d1 = Inr d'"
    by auto
  from d' have "writer_rel gone d1 d'" by (rule change_command_rel) (simp_all add: quarantined_command)
  with recovered_effect_rel [OF d1] show "writer_rel gone (st_db s) d'" by (rule writer_rel_trans)
qed

lemma recover_command_rel:
  assumes "recover_command channel leader drainer r s = (y, s')" and "tree_gone drainer r \<Longrightarrow> gone (rr_Launch r)"
  shows "writer_rel gone (st_db s) (st_db s')"
proof -
  have retire: "retireRecoveredRepositoryCommand s channel leader r observed launchState = (y, s') \<Longrightarrow>
      (launchState = ''launched'' \<Longrightarrow> gone (rr_Launch r)) \<Longrightarrow> ?thesis" for observed launchState
    unfolding retireRecoveredRepositoryCommand_def by (erule plain_rel) (rule retire_recovered_rel)
  show ?thesis
    using assms(1) unfolding recover_command_def
    by (simp only: split: if_splits) (erule retire quarantine_recovered_rel; use assms(2) in simp)+
qed

lemma each_rel:
  assumes "each_until_error op xs s = (y, s')"
    and "\<And>x s y s'. x \<in> set xs \<Longrightarrow> op x s = (y, s') \<Longrightarrow> writer_rel gone (st_db s) (st_db s')"
  shows "writer_rel gone (st_db s) (st_db s')"
  using assms
proof (induction xs arbitrary: s)
  case (Cons x xs)
  obtain z s1 where z: "op x s = (z, s1)" by (meson surj_pair)
  have step: "writer_rel gone (st_db s) (st_db s1)" by (rule Cons.prems(2) [OF _ z]) simp
  show ?case
  proof (cases z)
    case (Inl e)
    with Cons.prems(1) z step show ?thesis by simp
  next
    case (Inr u)
    with Cons.prems(1) z have "each_until_error op xs s1 = (y, s')" by simp
    then have "writer_rel gone (st_db s1) (st_db s')" by (rule Cons.IH) (erule Cons.prems(2) [rotated], simp)
    with step show ?thesis by (rule writer_rel_trans)
  qed
qed (simp add: writer_rel_refl)

text \<open>What a drainer of commands attests: the process it was asked about, with all its groups, is gone.\<close>

definition attests :: "command_drainer \<Rightarrow> (ProcessLaunch \<Rightarrow> bool) \<Rightarrow> bool" where
  "attests drainer gone \<longleftrightarrow>
     (case drainer of NoDrainer \<Rightarrow> True | Drainer drain \<Rightarrow> (\<forall>v. drain v \<longrightarrow> gone v) | TreeDrainer drain \<Rightarrow> (\<forall>v gs. drain v gs \<longrightarrow> gone v))"

lemma attested_tree: "attests drainer gone \<Longrightarrow> tree_gone drainer r \<Longrightarrow> gone (rr_Launch r)"
  by (cases drainer) (auto simp: attests_def tree_gone_def)

lemma recover_commands_rel:
  assumes "RecoverRepositoryCommandLeases s channel leader drainer = (y, s')" and "attests drainer gone"
  shows "writer_rel gone (st_db s) (st_db s')"
proof (cases "activeRepositoryCommandLeases s channel True")
  case (Inr rs)
  with assms(1) have "each_until_error (recover_command channel leader drainer) rs s = (y, s')"
    by (simp add: RecoverRepositoryCommandLeases_def)
  then show ?thesis by (rule each_rel) (rule recover_command_rel, use attested_tree [OF assms(2)] in auto)
qed (use assms(1) in \<open>simp add: RecoverRepositoryCommandLeases_def writer_rel_refl\<close>)

lemma stranded_rel: "retire_stranded channel leader c d = Inr d' \<Longrightarrow> writer_rel gone d d'"
proof -
  assume "retire_stranded channel leader c d = Inr d'"
  then obtain d1 p where "setRecoveredRepositoryCommandEffect c EffectFailed ''recovered:repository_command_unleased'' d = Inr d1"
    and "drop_command_intent p d1 = Inr d'" unfolding retire_stranded_def by auto
  then show ?thesis using recovered_effect_rel drop_command_intent_rel writer_rel_trans by blast
qed

lemma recover_unleased_rel:
  "RecoverUnleasedRepositoryCommands s channel leader = (y, s') \<Longrightarrow> writer_rel gone (st_db s) (st_db s')"
proof (cases "s' = s")
  case False
  assume "RecoverUnleasedRepositoryCommands s channel leader = (y, s')"
  with False obtain cs where "each_until_error (\<lambda>c s. plain_write s (retire_stranded channel leader c)) cs s = (y, s')"
    by (auto simp: RecoverUnleasedRepositoryCommands_def Let_def split: if_splits)
  then show ?thesis by (rule each_rel) (erule plain_rel, rule stranded_rel)
qed (simp add: writer_rel_refl)

section \<open>Results of commands\<close>

lemma settle_rel: "settle_command c state observed d = Inr d' \<Longrightarrow> writer_rel gone d d'"
  unfolding settle_command_def by (rule change_effect_rel)

lemma insert_result_rel: "writer_rel gone d (d\<lparr>repository_command_results := insert_row x (repository_command_results d)\<rparr>)"
proof -
  let ?d = "d\<lparr>repository_command_results := insert_row x (repository_command_results d)\<rparr>"
  have "same_writers d ?d" by (simp add: same_writers_def)
  moreover have "records_kept d ?d" using fact_kept_refl by (auto simp: records_kept_def insert_row_def)
  ultimately show ?thesis by (simp add: writer_rel_def same_apart same_kept)
qed

lemma complete_cases:
  assumes "complete_command m c r createdAt d = Inr d'"
  obtains (replay) q where "d' = d" and "loadRepositoryCommandResult d (kc_SemanticKey c) (kc_ClaimEpoch c) True = Inr (Some q)"
      and "same_result q c r"
  | (recorded) digests where "loadRepositoryCommandResult d (kc_SemanticKey c) (kc_ClaimEpoch c) True = Inr None"
      and "resultDigests c r createdAt = Inr digests" and "assertRepositoryCommandCurrent m d c = None"
      and "count_where (drained_lease c) (repository_command_leases d) = 1"
      and "settle_command c (if cr_ExitCode r = 0 then EffectConfirmed else EffectFailed)
          (''repository-command-result:'' @ snd (snd (snd digests)))
          (d\<lparr>repository_command_results := insert_row (stored_result c r digests createdAt) (repository_command_results d)\<rparr>) = Inr d'"
proof -
  from assms obtain found where load: "loadRepositoryCommandResult d (kc_SemanticKey c) (kc_ClaimEpoch c) True = Inr found"
    unfolding complete_command_def by auto
  note op = assms [unfolded complete_command_def load and_then_def [of "Inr found"] sum.case]
  show ?thesis
  proof (cases found)
    case (Some q)
    with op load show ?thesis by (auto intro: replay split: if_splits)
  next
    case None
    with op obtain digests where digests: "resultDigests c r createdAt = Inr digests"
      by (cases "resultDigests c r createdAt") auto
    from op None digests load show ?thesis by (intro recorded [OF _ digests]) auto
  qed
qed

lemma complete_command_rel: "CompleteRepositoryCommand s c r now createdAt = (y, s') \<Longrightarrow> writer_rel gone (st_db s) (st_db s')"
proof (cases "s' = s")
  case False
  assume "CompleteRepositoryCommand s c r now createdAt = (y, s')"
  with False have "plain_write s (complete_command (st_mutations s) c r createdAt) = (y, s')"
    by (auto simp: CompleteRepositoryCommand_def split: if_splits)
  then show ?thesis
  proof (rule plain_rel)
    fix d' assume "complete_command (st_mutations s) c r createdAt (st_db s) = Inr d'"
    then show "writer_rel gone (st_db s) d'"
    proof (cases rule: complete_cases)
      case (recorded digests)
      show ?thesis by (rule writer_rel_trans [OF insert_result_rel settle_rel [OF recorded(5)]])
    qed (simp add: writer_rel_refl)
  qed
qed (simp add: writer_rel_refl)

lemma retire_unleased_rel: "RetireUnleasedRepositoryCommand s c = (y, s') \<Longrightarrow> writer_rel gone (st_db s) (st_db s')"
proof (cases "s' = s")
  case False
  assume "RetireUnleasedRepositoryCommand s c = (y, s')"
  with False have "plain_write s (retire_unleased c) = (y, s')" by (auto simp: RetireUnleasedRepositoryCommand_def split: if_splits)
  then show ?thesis
  proof (rule plain_rel)
    fix d' assume "retire_unleased c (st_db s) = Inr d'"
    then have "d' = st_db s \<or> (\<exists>d1 p. settle_command c EffectFailed ''failed:repository-command-unleased'' (st_db s) = Inr d1 \<and>
        drop_command_intent p d1 = Inr d')"
      by (auto simp: retire_unleased_def split: if_splits option.splits)
    then show "writer_rel gone (st_db s) d'"
      using settle_rel drop_command_intent_rel writer_rel_refl writer_rel_trans by blast
  qed
qed (simp add: writer_rel_refl)

lemma retire_observed_rel: "retireObservedRepositoryCommand s c observed = (y, s') \<Longrightarrow> writer_rel gone (st_db s) (st_db s')"
proof (cases "s' = s")
  case False
  assume "retireObservedRepositoryCommand s c observed = (y, s')"
  with False have "plain_write s (retire_observed (st_mutations s) c observed) = (y, s')"
    by (auto simp: retireObservedRepositoryCommand_def split: if_splits)
  then show ?thesis
  proof (rule plain_rel)
    fix d' assume "retire_observed (st_mutations s) c observed (st_db s) = Inr d'"
    then obtain d1 d2 p where d1: "settle_command c EffectFailed observed (st_db s) = Inr d1"
      and d2: "drop_command_lease (\<lambda>l. w_Repository l = kc_Repository c \<and> kc_SemanticKey (kl_Claim l) = kc_SemanticKey c \<and>
        w_State l = ''active'' \<and> w_LaunchState l = ''drained'') d1 = Inr d2"
      and d': "drop_command_intent p d2 = Inr d'"
      unfolding retire_observed_def by auto
    from d2 have "writer_rel gone d1 d2" by (rule drop_command_rel) (simp add: running_lease_def)
    with settle_rel [OF d1] have "writer_rel gone (st_db s) d2" by (rule writer_rel_trans)
    then show "writer_rel gone (st_db s) d'" using drop_command_intent_rel [OF d'] by (rule writer_rel_trans)
  qed
qed (simp add: writer_rel_refl)

lemma mark_uncertain_rel: "MarkRepositoryCommandUncertain s c reason = (y, s') \<Longrightarrow> writer_rel gone (st_db s) (st_db s')"
proof (cases "s' = s")
  case False
  assume "MarkRepositoryCommandUncertain s c reason = (y, s')"
  with False have "plain_write s (\<lambda>d. guarded (assertRepositoryCommandCurrent (st_mutations s) d c)
        (settle_command c EffectUncertain (''uncertain:'' @ reason) d)) = (y, s')"
    by (auto simp: MarkRepositoryCommandUncertain_def split: if_splits)
  then show ?thesis by (rule plain_rel) (auto intro: settle_rel)
qed (simp add: writer_rel_refl)

lemma stale_observation_rel: "ReconcileStaleRepositoryCommandObservation s c r = (y, s') \<Longrightarrow> writer_rel gone (st_db s) (st_db s')"
proof (cases "s' = s")
  case False
  assume "ReconcileStaleRepositoryCommandObservation s c r = (y, s')"
  with False have "plain_write s (\<lambda>d. if \<not> list_ex (\<lambda>i. i = c) (repository_command_intents d) then Inl ErrRepositoryCommandIntent
        else settle_command c EffectFailed ''stale:repository-command-observation'' d) = (y, s')"
    by (auto simp: ReconcileStaleRepositoryCommandObservation_def split: if_splits)
  then show ?thesis by (rule plain_rel) (auto intro: settle_rel split: if_splits)
qed (simp add: writer_rel_refl)

section \<open>Provider attempts\<close>

text \<open>
  An admission finds the repository free. Every other operation on attempts leaves the leases and records of the other writers alone
  and takes no repository that a live attempt did not hold before.
\<close>

definition elsewhere :: "db \<Rightarrow> db \<Rightarrow> bool" where
  "elsewhere d d' \<longleftrightarrow> git_mutation_leases d' = git_mutation_leases d \<and> repository_command_leases d' = repository_command_leases d \<and>
     same_records d d' \<and> (\<forall>repository. has_provider d' repository \<longrightarrow> has_provider d repository)"

lemma elsewhere_rel: "elsewhere d d' \<Longrightarrow> writer_rel gone d d'"
proof -
  assume e: "elsewhere d d'"
  then have at: "git_at d' r = git_at d r" "command_at d' r = command_at d r" "has_provider d' r \<Longrightarrow> has_provider d r" for r
    by (auto simp: elsewhere_def git_at_def command_at_def)
  from e have "lease_states d' = lease_states d" by (simp add: elsewhere_def lease_states_def)
  with e at have "writers_apart d \<longrightarrow> writers_apart d'" by (auto simp: writers_apart_def elsewhere_def)
  moreover from e have "git_kept gone d d'" "command_kept gone d d'" by (auto simp: elsewhere_def git_kept_def command_kept_def)
  moreover from e have "records_kept d d'" by (intro same_records_kept) (simp add: elsewhere_def)
  ultimately show ?thesis by (simp add: writer_rel_def)
qed

lemma elsewhere_refl: "elsewhere d d"
  by (simp add: elsewhere_def same_records_def)

lemma elsewhere_trans: "elsewhere d e \<Longrightarrow> elsewhere e f \<Longrightarrow> elsewhere d f"
  by (simp add: elsewhere_def same_records_def)

lemma changed_attempts:
  assumes "provider_attempts d' = update_where p f (provider_attempts d)"
    and "git_mutation_leases d' = git_mutation_leases d" and "repository_command_leases d' = repository_command_leases d"
    and "same_records d d'" and "\<And>a. p a \<Longrightarrow> w_Repository (f a) = w_Repository a"
    and "\<And>a. p a \<Longrightarrow> \<not> live_attempt a \<Longrightarrow> \<not> live_attempt (f a)"
  shows "elsewhere d d'"
proof -
  have "has_provider d repository" if "has_provider d' repository" for repository
  proof -
    from that obtain a where a: "a \<in> set (provider_attempts d)" "live_writer_at repository (if p a then f a else a)"
      by (auto simp: has_provider_def assms(1) in_update)
    with assms(5,6) [of a] have "live_writer_at repository a" by (auto simp: live_writer_at_def live_attempt_def split: if_splits)
    with a(1) show ?thesis by (auto simp: has_provider_def)
  qed
  with assms(2-4) show ?thesis by (simp add: elsewhere_def)
qed

lemma same_attempts:
  assumes "provider_attempts d' = provider_attempts d" and "git_mutation_leases d' = git_mutation_leases d"
    and "repository_command_leases d' = repository_command_leases d" and "same_records d d'"
  shows "elsewhere d d'"
  using assms by (simp add: elsewhere_def has_provider_def)

lemma ended_attempts:
  assumes "change_attempt p (end_attempt state outcome usage) d = Inr d1" and "change_run q g d1 = Inr d2" and "d' = release_claim_lease c d2"
    and "state \<in> {''completed'', ''failed'', ''cancelled''}"
  shows "elsewhere d d'"
  by (rule changed_attempts [of _ p "end_attempt state outcome usage"])
    (use assms ended_not_live [OF assms(4)] in \<open>auto simp: change_attempt_Inr change_run_Inr release_claim_lease_def same_records_def end_attempt_def\<close>)

lemma finish_rows_elsewhere:
  assumes "finish_rows c expected f d = Inr d'" and "fn_State f \<in> {''completed'', ''failed'', ''cancelled''}"
  shows "elsewhere d d'"
proof -
  from assms obtain d1 d2 d3 d4 d5 where
    d1: "store_result c (fn_Result f) d = Inr d1" and
    d2: "change_attempt (\<lambda>a. names_attempt c a \<and> w_State a = ''active'')
      (end_attempt (fn_State f) (fn_Outcome f) (Some (fn_Usage f))) d1 = Inr d2" and
    d3: "change_run (identified_run c) (end_run (fn_State f) (fn_Outcome f)) d2 = Inr d3" and
    d4: "store_failure (fn_Failure f) d3 = Inr d4" and d5: "diagnostic_event c expected (fn_Reason f) d4 = Inr d5" and
    d6: "d' = release_claim_lease c d5"
    unfolding finish_rows_def and_then_Inr guarded_Inr by blast
  from store_result_Inr [OF d1] have "elsewhere d d1" by (intro same_attempts) (simp_all add: same_records_def)
  moreover have "elsewhere d1 (release_claim_lease c d3)" by (rule ended_attempts [OF d2 d3 refl assms(2)])
  moreover from store_failure_Inr [OF d4] diagnostic_event_Inr [OF d5] d6 have "elsewhere (release_claim_lease c d3) d'"
    by (intro same_attempts) (auto simp: same_records_def release_claim_lease_def)
  ultimately show ?thesis by (meson elsewhere_trans)
qed

lemma finish_elsewhere:
  "finishProviderAttemptWithReceipt px s c prf expected fence f = (y, s') \<Longrightarrow> elsewhere (st_db s) (st_db s')"
proof (cases "s' = s")
  case False
  assume "finishProviderAttemptWithReceipt px s c prf expected fence f = (y, s')"
  with False have input: "finish_input px c prf fence f = None" and w: "store_write s (finish_tx px c expected fence f) = (y, s')"
    by (auto simp: finishProviderAttemptWithReceipt_def split: option.splits)
  from w show ?thesis
  proof (rule write_rel)
    fix u d' assume "finish_tx px c expected fence f (st_db s) = Inr (u, d')"
    then show "elsewhere (st_db s) d'"
    proof (cases rule: finish_tx_cases)
      case (finished t a x)
      have "elsewhere (st_db s) ((st_db s)\<lparr>provider_server_rejections := x\<rparr>)" by (rule same_attempts) (simp_all add: same_records_def)
      then show ?thesis using finish_rows_elsewhere [OF finished(4) finish_input_facts(1) [OF input]] by (rule elsewhere_trans)
    qed (simp add: elsewhere_refl)
  qed (rule elsewhere_refl)
qed (simp add: elsewhere_refl)

lemma finishes_elsewhere: "finishes px s c prf s' \<Longrightarrow> elsewhere (st_db s) (st_db s')"
  unfolding finishes_def using finish_elsewhere elsewhere_refl by metis

lemma begin_attempt_rel: "BeginProviderAttempt px s r = (x, s') \<Longrightarrow> writer_rel gone (st_db s) (st_db s')"
proof (cases "s' = s")
  case False
  let ?r = "r\<lparr>ra_Input := (ra_Input r)\<lparr>in_Repair := None\<rparr>\<rparr>"
  assume "BeginProviderAttempt px s r = (x, s')"
  with False have "store_write s (BeginProviderAttempt_tx px (st_mutations s) ?r) = (x, s')"
    by (auto simp: BeginProviderAttempt_def Let_def split: if_splits)
  then show ?thesis
  proof (rule write_rel)
    fix c d' assume "BeginProviderAttempt_tx px (st_mutations s) ?r (st_db s) = Inr (c, d')"
    then show "writer_rel gone (st_db s) d'"
    proof (cases rule: begin_tx_cases)
      case (1 t ad lease ls)
      let ?a = "new_attempt (next_attempt_id (st_db s)) ?r ad lease" and ?d = "st_db s"
      have free: "\<not> git_at ?d (ra_Repository r)" "lease_states ?d \<Longrightarrow> \<not> command_at ?d (ra_Repository r)"
        using admitted_facts(7) [OF 1(2)]
        by (auto simp: writer_busy_def git_at_def command_at_def lease_states_def list_ex_iff)
      have tables: "provider_attempts d' = insert_row ?a (provider_attempts ?d)" "git_mutation_leases d' = git_mutation_leases ?d"
        "repository_command_leases d' = repository_command_leases ?d" "same_records ?d d'"
        using 1(5) by (simp_all add: insert_attempt_def Let_def same_records_def)
      then have at: "git_at d' q = git_at ?d q" "command_at d' q = command_at ?d q"
        "has_provider d' q \<Longrightarrow> has_provider ?d q \<or> q = ra_Repository r" for q
        by (auto simp: git_at_def command_at_def has_provider_def insert_row_def live_writer_at_def new_attempt_def)
      have "lease_states d' = lease_states ?d" using tables by (simp add: lease_states_def)
      with free tables at have "writers_apart ?d \<longrightarrow> writers_apart d'" unfolding writers_apart_def by metis
      moreover have "git_kept gone ?d d'" "command_kept gone ?d d'" using tables by (auto simp: git_kept_def command_kept_def)
      moreover have "records_kept ?d d'" by (rule same_records_kept) (rule tables(4))
      ultimately show ?thesis by (simp add: writer_rel_def)
    qed
  qed (rule writer_rel_refl)
qed (simp add: writer_rel_refl)

lemma authority_elsewhere: "SetRecoveryAuthority s channel leader key = (y, s') \<Longrightarrow> elsewhere (st_db s) (st_db s')"
proof (cases "s' = s")
  case False
  assume "SetRecoveryAuthority s channel leader key = (y, s')"
  with False show ?thesis
    by (auto simp: SetRecoveryAuthority_def Let_def store_write_def guarded_def same_records_def
        intro!: same_attempts split: if_splits option.splits)
qed (simp add: elsewhere_refl)

lemma launch_elsewhere: "RecordProviderLaunch s c launch = (res, s') \<Longrightarrow> elsewhere (st_db s) (st_db s')"
proof (cases "s' = s")
  case False
  let ?p = "\<lambda>d a. bound_row c a \<and> w_State a = ''active'' \<and> w_LaunchState a = ''launching'' \<and>
            pa_Worktree a = ln_Worktree launch \<and> has_request_digest d c"
  let ?f = "\<lambda>a :: attempt_row. a\<lparr>pa_PID := ln_PID launch, pa_PGID := ln_PGID launch, pa_BootIdentity := ln_BootIdentity launch,
             pa_StartIdentity := ln_ProcessStartIdentity launch, w_LaunchState := ''released''\<rparr>"
  assume "RecordProviderLaunch s c launch = (res, s')"
  with False have "store_write s (\<lambda>d. and_then (change_attempt (?p d) ?f d) (\<lambda>d'. Inr ((), d'))) = (res, s')"
    by (auto simp: RecordProviderLaunch_def split: if_splits)
  then show ?thesis
    by (rule write_rel)
      (auto simp: change_attempt_Inr same_records_def live_attempt_def intro: changed_attempts [of _ "?p (st_db s)" ?f] elsewhere_refl)
qed (simp add: elsewhere_refl)

lemma retire_elsewhere: "retireProviderAttemptAfterControlInvalidation s c b = (res, s') \<Longrightarrow> elsewhere (st_db s) (st_db s')"
proof (cases "s' = s")
  case False
  assume "retireProviderAttemptAfterControlInvalidation s c b = (res, s')"
  with False have "store_write s (retire_tx c b) = (res, s')"
    by (auto simp: retireProviderAttemptAfterControlInvalidation_def split: if_splits)
  then show ?thesis
  proof (rule write_rel)
    fix u d' assume tx: "retire_tx c b (st_db s) = Inr (u, d')"
    obtain p where "loadAuthenticatedProviderAttemptClaim (st_db s) (cl_ID c) = Inr p"
      using tx by (cases "loadAuthenticatedProviderAttemptClaim (st_db s) (cl_ID c)") (auto simp: retire_tx_def)
    moreover obtain a where "attempt_at (st_db s) (cl_ID c) = Some a"
      using tx calculation by (cases "attempt_at (st_db s) (cl_ID c)") (auto simp: retire_tx_def)
    ultimately obtain d1 d2 where rows:
      "change_attempt (\<lambda>a. bound_row c a \<and> w_State a = ''active'') (end_attempt ''cancelled'' ''cancelled'' (Some 0)) (st_db s) = Inr d1"
      "change_run (identified_run c) (end_run ''cancelled'' ''cancelled'') d1 = Inr d2" "d' = release_claim_lease c d2"
      using tx unfolding retire_tx_def by auto
    then show "elsewhere (st_db s) d'" by (rule ended_attempts) simp
  qed (rule elsewhere_refl)
qed (simp add: elsewhere_refl)

lemma retiring_elsewhere:
  "RetireProviderAttemptAfterControlInvalidation px s c prf at = (y, s') \<Longrightarrow> elsewhere (st_db s) (st_db s')"
  "RetireUnlaunchedProviderAttemptAfterControlInvalidation s c at = (y, s') \<Longrightarrow> elsewhere (st_db s) (st_db s')"
  using retire_elsewhere
  by (auto simp: RetireProviderAttemptAfterControlInvalidation_def RetireUnlaunchedProviderAttemptAfterControlInvalidation_def
      elsewhere_refl split: if_splits)

lemma before_launch_elsewhere: "FailProviderAttemptBeforeLaunch s c expected fence at = (res, s') \<Longrightarrow> elsewhere (st_db s) (st_db s')"
proof (cases "s' = s")
  case False
  assume "FailProviderAttemptBeforeLaunch s c expected fence at = (res, s')"
  with False have "store_write s (FailProviderAttemptBeforeLaunch_tx c expected fence) = (res, s')"
    by (auto simp: FailProviderAttemptBeforeLaunch_def split: if_splits)
  then show ?thesis
  proof (rule write_rel)
    fix u d' assume "FailProviderAttemptBeforeLaunch_tx c expected fence (st_db s) = Inr (u, d')"
    then obtain p d1 d2 where "change_attempt p (end_attempt ''failed'' ''invocation_failed'' None) (st_db s) = Inr d1"
      "change_run (identified_run c) (end_run ''failed'' ''invocation_failed'') d1 = Inr d2" "d' = release_claim_lease c d2"
      unfolding FailProviderAttemptBeforeLaunch_tx_def by auto
    then show "elsewhere (st_db s) d'" by (rule ended_attempts) simp
  qed (rule elsewhere_refl)
qed (simp add: elsewhere_refl)

lemma quarantine_elsewhere: "QuarantineProviderAttempt s c expected fence at = (res, s') \<Longrightarrow> elsewhere (st_db s) (st_db s')"
proof (cases "s' = s")
  case False
  assume "QuarantineProviderAttempt s c expected fence at = (res, s')"
  with False have "store_write s (QuarantineProviderAttempt_tx c expected fence) = (res, s')"
    by (auto simp: QuarantineProviderAttempt_def split: if_splits)
  then show ?thesis
  proof (rule write_rel)
    fix u d' assume "QuarantineProviderAttempt_tx c expected fence (st_db s) = Inr (u, d')"
    then have d': "d' = (st_db s)\<lparr>provider_attempts := update_where (\<lambda>a. names_attempt c a \<and> w_State a = ''active'')
            (\<lambda>a. a\<lparr>w_State := ''quarantined'', pa_Outcome := ''undrained''\<rparr>) (provider_attempts (st_db s))\<rparr>"
      by (cases "ticket_at (st_db s) (cl_Ref c)") (auto simp: QuarantineProviderAttempt_tx_def change_attempt_Inr)
    show "elsewhere (st_db s) d'"
      by (rule changed_attempts [OF d' [THEN arg_cong, of provider_attempts, simplified]])
        (simp_all add: d' same_records_def live_attempt_def)
  qed (rule elsewhere_refl)
qed (simp add: elsewhere_refl)

lemma quarantine_recovered_elsewhere:
  "QuarantineRecoveredProviderAttemptClaim s c leader at = (res, s') \<Longrightarrow> elsewhere (st_db s) (st_db s')"
proof (cases "s' = s")
  case False
  assume "QuarantineRecoveredProviderAttemptClaim s c leader at = (res, s')"
  with False have "store_write s (QuarantineRecovered_tx c leader) = (res, s')"
    by (auto simp: QuarantineRecoveredProviderAttemptClaim_def split: if_splits)
  then show ?thesis
  proof (rule write_rel)
    fix u d' assume "QuarantineRecovered_tx c leader (st_db s) = Inr (u, d')"
    then have d': "d' = (st_db s)\<lparr>provider_attempts := update_where
        (\<lambda>a. bound_row c a \<and> (w_State a = ''active'' \<or> w_State a = ''quarantined'')) undrained_recovery (provider_attempts (st_db s))\<rparr>"
      by (cases "leader_at (st_db s) (Channel (cl_Ref c))") (auto simp: QuarantineRecovered_tx_def change_attempt_Inr)
    show "elsewhere (st_db s) d'"
      by (rule changed_attempts [OF d' [THEN arg_cong, of provider_attempts, simplified]])
        (simp_all add: d' same_records_def live_attempt_def undrained_recovery_def)
  qed (rule elsewhere_refl)
qed (simp add: elsewhere_refl)

lemma recover_attempts_elsewhere: "recoverProviderAttempts s ref stale leader at = (res, s') \<Longrightarrow> elsewhere (st_db s) (st_db s')"
proof (cases "s' = s")
  case False
  assume "recoverProviderAttempts s ref stale leader at = (res, s')"
  with False have "store_write s (quarantineProviderAttempts_tx ref stale leader) = (res, s')"
    by (auto simp: recoverProviderAttempts_def split: if_splits)
  then show ?thesis
  proof (rule write_rel)
    fix u d' assume "quarantineProviderAttempts_tx ref stale leader (st_db s) = Inr (u, d')"
    then have d': "d' = (st_db s)\<lparr>provider_attempts := update_where
              (\<lambda>a. w_Ref a = ref \<and> w_State a = ''active'' \<and> pa_LeaderEpoch a = leader \<and> pa_RunnerEpoch a = stale)
              (\<lambda>a. a\<lparr>w_State := ''quarantined'', pa_Outcome := ''undrained_recovery''\<rparr>) (provider_attempts (st_db s))\<rparr>"
      by (cases "leader_at (st_db s) (Channel ref)"; cases "ticket_at (st_db s) ref")
        (auto simp: quarantineProviderAttempts_tx_def)
    show "elsewhere (st_db s) d'"
      by (rule changed_attempts [OF d' [THEN arg_cong, of provider_attempts, simplified]])
        (simp_all add: d' same_records_def live_attempt_def)
  qed (rule elsewhere_refl)
qed (simp add: elsewhere_refl)

lemma budget_elsewhere: "FailProviderAttemptBudget px s c prf expected fence usage at = (res, s') \<Longrightarrow> elsewhere (st_db s) (st_db s')"
proof (cases "s' = s")
  case False
  assume "FailProviderAttemptBudget px s c prf expected fence usage at = (res, s')"
  with False have "store_write s (FailProviderAttemptBudget_tx c expected fence usage at) = (res, s')"
    by (auto simp: FailProviderAttemptBudget_def split: if_splits)
  then show ?thesis
  proof (rule write_rel)
    fix u d' assume "FailProviderAttemptBudget_tx c expected fence usage at (st_db s) = Inr (u, d')"
    then show "elsewhere (st_db s) d'"
    proof (cases rule: budget_tx_facts)
      case (1 t d1 d2)
      then show ?thesis by (intro ended_attempts [OF 1(3-5)]) simp
    qed
  qed (rule elsewhere_refl)
qed (simp add: elsewhere_refl)

lemma recover_elsewhere: "RecoverProviderAttemptClaimWithProof px s c leader prf at = (res, s') \<Longrightarrow> elsewhere (st_db s) (st_db s')"
proof (cases "s' = s")
  case False
  assume "RecoverProviderAttemptClaimWithProof px s c leader prf at = (res, s')"
  with False have "store_write s (recoverProviderAttemptClaim_tx c leader) = (res, s')"
    by (auto simp: RecoverProviderAttemptClaimWithProof_def recoverProviderAttemptClaim_def split: if_splits option.splits)
  then show ?thesis
  proof (rule write_rel)
    fix u d' assume "recoverProviderAttemptClaim_tx c leader (st_db s) = Inr (u, d')"
    then show "elsewhere (st_db s) d'"
    proof (cases rule: recover_tx_facts)
      case (1 a d1)
      let ?p = "\<lambda>a :: attempt_row. pa_ID a = cl_ID c \<and> (w_State a = ''active'' \<or> w_State a = ''quarantined'')"
        and ?f = "end_attempt ''cancelled'' ''drained_recovery'' None"
      show ?thesis
        by (rule changed_attempts [of _ ?p ?f])
          (simp_all add: 1(4,5) release_claim_lease_def same_records_def ended_not_live end_attempt_def live_attempt_def)
    qed
  qed (rule elsewhere_refl)
qed (simp add: elsewhere_refl)

lemma estimate_elsewhere: "RecordProviderCostEstimate px s c prf estimate = (res, s') \<Longrightarrow> elsewhere (st_db s) (st_db s')"
proof (cases "s' = s")
  case False
  assume "RecordProviderCostEstimate px s c prf estimate = (res, s')"
  with False have "store_write s (RecordProviderCostEstimate_tx c estimate) = (res, s')"
    by (auto simp: RecordProviderCostEstimate_def split: if_splits option.splits)
  then show ?thesis
  proof (rule write_rel)
    fix u d' assume "RecordProviderCostEstimate_tx c estimate (st_db s) = Inr (u, d')"
    then have "\<exists>t. d' = (st_db s)\<lparr>provider_cost_estimates := t\<rparr> \<or> d' = st_db s"
      by (auto simp: RecordProviderCostEstimate_tx_def split: sum.splits option.splits if_splits)
    then show "elsewhere (st_db s) d'" by (auto simp: same_records_def intro: same_attempts)
  qed (rule elsewhere_refl)
qed (simp add: elsewhere_refl)

lemma approve_elsewhere: "ApproveProviderEstimatedAccounting s ref expected fence = (res, s') \<Longrightarrow> elsewhere (st_db s) (st_db s')"
proof -
  assume "ApproveProviderEstimatedAccounting s ref expected fence = (res, s')"
  then have "store_write s (ApproveProviderEstimatedAccounting_tx ref expected fence) = (res, s')"
    by (simp add: ApproveProviderEstimatedAccounting_def)
  then show ?thesis
  proof (rule write_rel)
    fix u d' assume "ApproveProviderEstimatedAccounting_tx ref expected fence (st_db s) = Inr (u, d')"
    then have "\<exists>t. d' = (st_db s)\<lparr>provider_accounting_policies := t\<rparr> \<or> d' = st_db s"
      by (cases "loadProviderAccountingPolicy (st_db s) ref")
        (auto simp: ApproveProviderEstimatedAccounting_tx_def split: if_splits)
    then show "elsewhere (st_db s) d'" by (auto simp: same_records_def intro: same_attempts)
  qed (rule elsewhere_refl)
qed

lemma reconcile_attempt_elsewhere: "reconcile_attempt a d = Inr d' \<Longrightarrow> elsewhere d d'"
proof (cases "unlaunched a")
  case True
  assume "reconcile_attempt a d = Inr d'"
  with True have "provider_attempts d' = update_where (\<lambda>x. pa_ID x = pa_ID a \<and> live_attempt x \<and> unlaunched x) never_verified (provider_attempts d)"
    and "git_mutation_leases d' = git_mutation_leases d" and "repository_command_leases d' = repository_command_leases d"
    and "same_records d d'"
    by (auto simp: reconcile_attempt_def same_records_def split: if_splits)
  then show ?thesis by (rule changed_attempts) (simp_all add: never_verified_def live_attempt_def)
next
  case False
  assume "reconcile_attempt a d = Inr d'"
  with False have "d' = d\<lparr>provider_attempts := update_where (\<lambda>x. pa_ID x = pa_ID a \<and> live_attempt x) undrained_recovery
             (provider_attempts d)\<rparr>" by (simp add: reconcile_attempt_def)
  then show ?thesis
    by (intro changed_attempts [of _ "\<lambda>x. pa_ID x = pa_ID a \<and> live_attempt x" undrained_recovery])
      (simp_all add: same_records_def undrained_recovery_def)
qed

lemma reconcile_elsewhere: "reconcileProviderAttemptInputs s = (res, s') \<Longrightarrow> elsewhere (st_db s) (st_db s')"
  unfolding reconcileProviderAttemptInputs_def
proof (erule write_rel)
  fix u d' assume "and_then (each_row reconcile_attempt (unverifiable_attempts (st_db s)) (st_db s)) (\<lambda>d'. Inr ((), d')) = Inr (u, d')"
  then have "each_row reconcile_attempt (unverifiable_attempts (st_db s)) (st_db s) = Inr d'" by simp
  moreover have "each_row reconcile_attempt as d = Inr d' \<Longrightarrow> elsewhere d d'" for as d
  proof (induction as arbitrary: d)
    case (Cons a as)
    then obtain d1 where d1: "reconcile_attempt a d = Inr d1" "each_row reconcile_attempt as d1 = Inr d'"
      by (auto split: sum.splits)
    show ?case by (rule elsewhere_trans [OF reconcile_attempt_elsewhere [OF d1(1)] Cons.IH [OF d1(2)]])
  qed (simp add: elsewhere_refl)
  ultimately show "elsewhere (st_db s) d'" by blast
qed (rule elsewhere_refl)

section \<open>Runs of the Store\<close>

text \<open>
  The public operations on the three kinds of writers, in any order and with any arguments and outcomes; \<open>untouched\<close> is a step of the rest
  of the Store. A launch is finished only when its process is gone, and the two drainers attest the processes they were asked about.
\<close>

inductive writer_step :: "git_env \<Rightarrow> provider_env \<Rightarrow> (ProcessLaunch \<Rightarrow> bool) \<Rightarrow> Store \<Rightarrow> Store \<Rightarrow> bool"
  for gx :: git_env and px :: provider_env and gone :: "ProcessLaunch \<Rightarrow> bool" where
  untouched: "elsewhere (st_db s) (st_db s') \<Longrightarrow> writer_step gx px gone s s'"
| issue_git: "IssueGitMutationClaim gx s i = (x1, s') \<Longrightarrow> writer_step gx px gone s s'"
| reclaim_git: "ReclaimProtectedRefFetch gx s i = (x1, s') \<Longrightarrow> writer_step gx px gone s s'"
| acquire_git: "AcquireGitMutation gx s nonce c = (x2, s') \<Longrightarrow> writer_step gx px gone s s'"
| check_git: "git_lease_Check gx s h = (y, s') \<Longrightarrow> writer_step gx px gone s s'"
| prepared_git: "RecordPreparedCommit gx s h commit tree = (y, s') \<Longrightarrow> writer_step gx px gone s s'"
| prior_git: "RecordPushPriorRemote gx s h oid = (y, s') \<Longrightarrow> writer_step gx px gone s s'"
| launch_git: "RecordGitMutationLaunch gx s h v = (y, s') \<Longrightarrow> writer_step gx px gone s s'"
| finish_git: "FinishGitMutationLaunch s h v = (y, s') \<Longrightarrow> gone v \<Longrightarrow> writer_step gx px gone s s'"
| release_git: "git_lease_Release gx s h = (y, s') \<Longrightarrow> writer_step gx px gone s s'"
| list_git: "ActiveGitMutationLeases gx s channel = (x3, s') \<Longrightarrow> writer_step gx px gone s s'"
| recover_git: "RecoverGitMutationLeases gx s channel leader drainer = (y, s') \<Longrightarrow> (\<And>v. drained_by drainer v \<Longrightarrow> gone v) \<Longrightarrow>
    writer_step gx px gone s s'"
| confirm_git: "ConfirmRecoveredWorktreeCreation gx s c observed = (x4, s') \<Longrightarrow> writer_step gx px gone s s'"
| begin_absence: "BeginWorktreeCreationAbsence gx s nonce original current = (x5, s') \<Longrightarrow> writer_step gx px gone s s'"
| check_absence: "absence_Check gx s ah = (y, s') \<Longrightarrow> writer_step gx px gone s s'"
| complete_absence: "CompleteAbsent gx s ah = (y, ah', s') \<Longrightarrow> writer_step gx px gone s s'"
| release_absence: "absence_Release gx s ah = (y, ah', s') \<Longrightarrow> writer_step gx px gone s s'"
| issue_command: "IssueRepositoryCommandClaim s ki = (x6, s') \<Longrightarrow> writer_step gx px gone s s'"
| acquire_command: "AcquireRepositoryCommand s nonce k = (x7, s') \<Longrightarrow> writer_step gx px gone s s'"
| check_command: "command_lease_Check s kh = (y, s') \<Longrightarrow> writer_step gx px gone s s'"
| release_command: "command_lease_Release s kh = (y, s') \<Longrightarrow> writer_step gx px gone s s'"
| quarantine_command: "command_lease_Quarantine s kh = (y, s') \<Longrightarrow> writer_step gx px gone s s'"
| launch_command: "RecordRepositoryCommandLaunch s kh v = (y, s') \<Longrightarrow> writer_step gx px gone s s'"
| finish_command: "FinishRepositoryCommandLaunch s kh v = (y, s') \<Longrightarrow> gone v \<Longrightarrow> writer_step gx px gone s s'"
| group_command: "RecordRepositoryCommandProcessGroup s kh v = (y, s') \<Longrightarrow> writer_step gx px gone s s'"
| recover_commands: "RecoverRepositoryCommandLeases s channel leader kd = (y, s') \<Longrightarrow> attests kd gone \<Longrightarrow> writer_step gx px gone s s'"
| recover_unleased: "RecoverUnleasedRepositoryCommands s channel leader = (y, s') \<Longrightarrow> writer_step gx px gone s s'"
| complete_command: "CompleteRepositoryCommand s k r now createdAt = (y, s') \<Longrightarrow> writer_step gx px gone s s'"
| retire_unleased: "RetireUnleasedRepositoryCommand s k = (y, s') \<Longrightarrow> writer_step gx px gone s s'"
| retire_cancelled: "RetireObservedCanceledRepositoryCommand s k = (y, s') \<Longrightarrow> writer_step gx px gone s s'"
| retire_limited: "RetireObservedResourceLimitedRepositoryCommand s k = (y, s') \<Longrightarrow> writer_step gx px gone s s'"
| uncertain_command: "MarkRepositoryCommandUncertain s k reason = (y, s') \<Longrightarrow> writer_step gx px gone s s'"
| stale_command: "ReconcileStaleRepositoryCommandObservation s k r = (y, s') \<Longrightarrow> writer_step gx px gone s s'"
| begin_provider: "BeginProviderAttempt px s pr = (x8, s') \<Longrightarrow> writer_step gx px gone s s'"
| authority: "SetRecoveryAuthority s channel leader key = (y, s') \<Longrightarrow> writer_step gx px gone s s'"
| launch_provider: "RecordProviderLaunch s p ln = (y, s') \<Longrightarrow> writer_step gx px gone s s'"
| finish_provider: "FinishProviderAttempt px s p prf version fence state outcome usage at = (y, s') \<Longrightarrow> writer_step gx px gone s s'"
| indeterminate: "FinishProviderAttemptWithIndeterminateFailure px s p prf version fence why usage at = (y, s') \<Longrightarrow> writer_step gx px gone s s'"
| bad_artifact: "FinishProviderAttemptWithArtifactFailure px s p prf version fence why usage at = (y, s') \<Longrightarrow> writer_step gx px gone s s'"
| rejected: "FinishProviderAttemptWithServerRejection px s p prf receipt at = (y, s') \<Longrightarrow> writer_step gx px gone s s'"
| completed: "CompleteProviderAttemptSuccess px s p prf version fence raw va at = (x9, s') \<Longrightarrow> writer_step gx px gone s s'"
| retired: "RetireProviderAttemptAfterControlInvalidation px s p prf at = (y, s') \<Longrightarrow> writer_step gx px gone s s'"
| retired_unlaunched: "RetireUnlaunchedProviderAttemptAfterControlInvalidation s p at = (y, s') \<Longrightarrow> writer_step gx px gone s s'"
| before_launch: "FailProviderAttemptBeforeLaunch s p version fence at = (y, s') \<Longrightarrow> writer_step gx px gone s s'"
| quarantine_provider: "QuarantineProviderAttempt s p version fence at = (y, s') \<Longrightarrow> writer_step gx px gone s s'"
| exhausted: "FailProviderAttemptBudget px s p prf version fence usage at = (y, s') \<Longrightarrow> writer_step gx px gone s s'"
| recovered: "RecoverProviderAttemptClaimWithProof px s p leader prf at = (y, s') \<Longrightarrow> writer_step gx px gone s s'"
| quarantine_recovered: "QuarantineRecoveredProviderAttemptClaim s p leader at = (y, s') \<Longrightarrow> writer_step gx px gone s s'"
| recover_all: "recoverProviderAttempts s ref runner leader at = (y, s') \<Longrightarrow> writer_step gx px gone s s'"
| reconciled: "reconcileProviderAttemptInputs s = (y, s') \<Longrightarrow> writer_step gx px gone s s'"
| estimated: "RecordProviderCostEstimate px s p prf estimate = (y, s') \<Longrightarrow> writer_step gx px gone s s'"
| approved: "ApproveProviderEstimatedAccounting s ref version fence = (y, s') \<Longrightarrow> writer_step gx px gone s s'"

abbreviation writer_run :: "git_env \<Rightarrow> provider_env \<Rightarrow> (ProcessLaunch \<Rightarrow> bool) \<Rightarrow> Store \<Rightarrow> Store \<Rightarrow> bool" where
  "writer_run gx px gone \<equiv> (writer_step gx px gone)^**"

inductive_cases writer_stepE: "writer_step gx px gone s s'"

lemmas git_rels = issue_git_rel reclaim_rel acquire_git_rel prepared_rel prior_rel git_launch_rel git_finish_rel git_release_rel
  active_git_rel recover_git_rel confirm_creation_rel begin_absence_rel complete_absent_rel absence_release_rel

lemmas command_rels = issue_command_rel acquire_command_rel command_release_rel command_quarantine_rel command_launch_rel command_finish_rel
  command_group_rel recover_commands_rel recover_unleased_rel complete_command_rel retire_unleased_rel retire_observed_rel
  mark_uncertain_rel stale_observation_rel

lemmas unchanged = git_check_same absence_check_same command_check_same

lemmas provider_elsewhere = authority_elsewhere launch_elsewhere finishing_as [THEN finishes_elsewhere] completing_as [THEN finishes_elsewhere]
  retiring_elsewhere before_launch_elsewhere quarantine_elsewhere budget_elsewhere recover_elsewhere quarantine_recovered_elsewhere
  recover_attempts_elsewhere reconcile_elsewhere estimate_elsewhere approve_elsewhere

lemma writer_step_rel: "writer_step gx px gone s s' \<Longrightarrow> writer_rel gone (st_db s) (st_db s')"
proof (induction rule: writer_step.induct)
  case (untouched s s')
  then show ?case by (rule elsewhere_rel)
next
  case (recover_git s channel leader drainer y s')
  show ?case by (rule recover_git_rel [OF recover_git])
next
  case (check_git s h y s')
  then show ?case using unchanged writer_rel_refl by metis
next
  case (check_absence s ah y s')
  then show ?case using unchanged writer_rel_refl by metis
next
  case (check_command s kh y s')
  then show ?case using unchanged writer_rel_refl by metis
next
  case (retire_cancelled s k y s')
  then show ?case unfolding RetireObservedCanceledRepositoryCommand_def by (rule retire_observed_rel)
next
  case (retire_limited s k y s')
  then show ?case unfolding RetireObservedResourceLimitedRepositoryCommand_def by (rule retire_observed_rel)
qed (erule git_rels command_rels begin_attempt_rel; assumption | rule elsewhere_rel, erule provider_elsewhere)+

lemma writer_run_rel: "writer_run gx px gone s s' \<Longrightarrow> writer_rel gone (st_db s) (st_db s')"
proof (induction rule: rtranclp_induct)
  case (step s' s'')
  show ?case by (rule writer_rel_trans [OF step.IH writer_step_rel [OF step.hyps(2)]])
qed (rule writer_rel_refl)

section \<open>Properties\<close>

text \<open>The store of the witnesses: a released command and a prepared Git mutation.\<close>

definition no_git_env :: git_env where
  "no_git_env = \<lparr>gx_worktreeRoot = '''', gx_refreshMutation = (\<lambda>_ _. Some ErrEvidenceConflict), gx_refreshPrepared = (\<lambda>_ _ _ _. False),
     gx_bridge = (\<lambda>_ _ _ _. False), gx_ledger = (\<lambda>_ _ _ _. False), gx_ledgerPrefix = (\<lambda>_ _ _ _. False)\<rparr>"

definition held_claim :: RepositoryCommandClaim where
  "held_claim = \<lparr>kc_Ref = sample_ref, kc_SemanticKey = ''command'', kc_RequestDigest = '''', kc_TicketVersion = 1, kc_LeaderEpoch = 1,
     kc_RunnerEpoch = 1, kc_ClaimEpoch = 1, kc_Repository = ''/repo'', kc_Worktree = ''/tree'', kc_WorktreeIdentity = '''',
     kc_Branch = '''', kc_BaseRef = '''', kc_BaseSHA = '''', kc_CommandDigest = '''', kc_SpecDigest = '''', kc_PolicyDigest = '''',
     kc_ExecutablePath = '''', kc_ExecutableDigest = ''''\<rparr>"

definition child :: ProcessLaunch where
  "child = \<lparr>pl_PID = 7, pl_PGID = 7, pl_BootIdentity = ''boot'', pl_StartIdentity = ''start''\<rparr>"

definition held_lease :: command_lease_row where
  "held_lease = launch_command child (new_command_lease held_claim ''nonce'')"

definition held_intent :: git_intent_row where
  "held_intent = (new_git_intent \<lparr>gm_Ref = sample_ref, gm_SemanticKey = ''git'', gm_RequestDigest = '''', gm_TicketVersion = 1,
     gm_LeaderEpoch = 1, gm_RunnerEpoch = 1, gm_ClaimEpoch = 1, gm_Repository = ''/repo'', gm_Worktree = ''/tree'', gm_Branch = '''',
     gm_Operation = ''commit'', gm_BaseRef = '''', gm_ExpectedBaseOID = '''', gm_ExpectedHeadOID = ''''\<rparr>)
     \<lparr>gi_PreparedCommit := ''c'', gi_PreparedTree := ''t''\<rparr>"

definition held_store :: Store where
  "held_store = sample_store\<lparr>st_db := sample_db\<lparr>repository_command_leases := [held_lease], git_mutation_intents := [held_intent]\<rparr>\<rparr>"

definition doubted_store :: Store where
  "doubted_store = snd (command_lease_Quarantine held_store \<lparr>kh_Claim = held_claim, kh_Nonce = ''nonce''\<rparr>)"

lemma doubted_run: "writer_run no_git_env open_env (\<lambda>_. False) held_store doubted_store"
proof -
  obtain y s' where q: "command_lease_Quarantine held_store \<lparr>kh_Claim = held_claim, kh_Nonce = ''nonce''\<rparr> = (y, s')" by (meson surj_pair)
  then have "writer_step no_git_env open_env (\<lambda>_. False) held_store s'" by (rule writer_step.quarantine_command)
  moreover from q have "doubted_store = s'" by (simp add: doubted_store_def)
  ultimately show ?thesis by blast
qed

lemma held_tables:
  "repository_command_leases (st_db held_store) = [held_lease]" "git_mutation_leases (st_db held_store) = []"
  "git_mutation_intents (st_db held_store) = [held_intent]"
  by (simp_all add: held_store_def sample_db_def)

lemma held_facts: "running_lease held_lease" "command_launch held_lease = child" "gi_PreparedCommit held_intent = ''c''" "gi_PreparedTree held_intent = ''t''"
  by (simp_all add: held_lease_def launch_command_def new_command_lease_def running_lease_def command_launch_def child_def held_intent_def)

text \<open>The number of leases and live attempts that hold a repository.\<close>

definition held_leases :: "db \<Rightarrow> string \<Rightarrow> nat" where
  "held_leases d repository =
     count_where (\<lambda>l. w_Repository l = repository) (git_mutation_leases d) +
     count_where (\<lambda>l. w_Repository l = repository) (repository_command_leases d)"

lemma count_at: "unique_key w_Repository t \<Longrightarrow> count_where (\<lambda>l. w_Repository l = r) t = (if r \<in> w_Repository ` set t then 1 else 0)"
  by (induction t) (auto simp: count_where_def unique_key_def)

lemma apart_held: "writers_apart d \<Longrightarrow> held_leases d r \<le> 1 \<and> (has_provider d r \<longrightarrow> held_leases d r = 0)"
  by (auto simp: held_leases_def writers_apart_def count_at git_at_def command_at_def)

text \<open>C11: From a database without writers, after any sequence of operations on Git mutations, repository commands and
  provider attempts, a repository has at most one lease, whether for a Git mutation or for a command, and while it has one, no provider
  attempt is active or quarantined on it.\<close>

theorem writers_never_share:
  assumes "git_mutation_leases (st_db s) = []" and "repository_command_leases (st_db s) = []" and "writer_run gx px gone s s'"
  shows "held_leases (st_db s') repository \<le> 1 \<and>
    (held_leases (st_db s') repository = 1 \<longrightarrow> \<not> (\<exists>a \<in> set (provider_attempts (st_db s')). live_writer_at repository a))"
proof -
  have "writers_apart (st_db s)"
    using assms(1,2) by (simp add: writers_apart_def lease_states_def unique_key_def git_at_def command_at_def)
  with writer_run_rel [OF assms(3)] have "writers_apart (st_db s')" by (simp add: writer_rel_def)
  from apart_held [OF this, of repository] show ?thesis by (auto simp: has_provider_def)
qed

theorem writers_never_share_witness:
  "\<exists>c s'. BeginProviderAttempt repair_env begin_store begin_request = (Inr c, s') \<and> held_leases (st_db s') ''/srv/sf'' \<le> 1 \<and>
    (held_leases (st_db s') ''/srv/sf'' = 1 \<longrightarrow> \<not> (\<exists>a \<in> set (provider_attempts (st_db s')). live_writer_at ''/srv/sf'' a))"
proof -
  obtain c s' where began: "BeginProviderAttempt repair_env begin_store begin_request = (Inr c, s')" using begin_returns by blast
  then have "writer_run no_git_env repair_env (\<lambda>_. False) begin_store s'" by (intro r_into_rtranclp writer_step.begin_provider)
  moreover have "git_mutation_leases (st_db begin_store) = []" "repository_command_leases (st_db begin_store) = []"
    by (simp_all add: begin_store_def begin_db_def ledger_db_def sample_db_def)
  ultimately show ?thesis using writers_never_share [of begin_store no_git_env repair_env "\<lambda>_. False" s' "''/srv/sf''"] began by blast
qed

text \<open>C12: A lease whose process was released to run and is not known to be gone is never lost: after any sequence of operations,
  recoveries by other leaders included, its repository is still held for exactly that process.\<close>

theorem running_writers_keep_their_lease:
  assumes "writer_run gx px gone s s'"
  shows "(\<forall>l \<in> set (git_mutation_leases (st_db s)). running_lease l \<and> \<not> gone (lease_launch l) \<longrightarrow>
      (\<exists>k \<in> set (git_mutation_leases (st_db s')). w_Repository k = w_Repository l \<and> lease_launch k = lease_launch l \<and> running_lease k)) \<and>
    (\<forall>l \<in> set (repository_command_leases (st_db s)). running_lease l \<and> \<not> gone (command_launch l) \<longrightarrow>
      (\<exists>k \<in> set (repository_command_leases (st_db s')). w_Repository k = w_Repository l \<and> command_launch k = command_launch l \<and> running_lease k))"
  using writer_run_rel [OF assms] by (simp add: writer_rel_def git_kept_def command_kept_def)

theorem running_writers_keep_their_lease_witness:
  "\<exists>k \<in> set (repository_command_leases (st_db doubted_store)). w_Repository k = ''/repo'' \<and> command_launch k = child \<and> running_lease k"
proof -
  have "held_lease \<in> set (repository_command_leases (st_db held_store))" by (simp add: held_tables)
  moreover have "w_Repository held_lease = ''/repo''" by (simp add: held_lease_def launch_command_def new_command_lease_def held_claim_def)
  ultimately show ?thesis using running_writers_keep_their_lease [OF doubted_run] held_facts(1,2) by force
qed



end
