(* ===== verification/WriterEvidence.thy ===== *)
theory WriterEvidence
  imports WriterSafety
begin

text \<open>
  What the evidence of writers says. The semantic key of a Git mutation stands for exactly one target of a mutation: every
  value is framed by its length, so no two targets share a preimage. The result of a repository command is read back as it was
  recorded, and recording it again changes nothing.
\<close>

declare rune_len.simps(2) [simp del]

section \<open>Framed values\<close>

lemma of_char_length_byte: "(of_char (char_of (n div 256 ^ i mod 256)) :: nat) = n div 256 ^ i mod 256"
  by (simp add: of_char_of)

lemma digits_determine: "(\<And>i. i < k \<Longrightarrow> n div 256 ^ i mod 256 = m div 256 ^ i mod 256) \<Longrightarrow> n mod 256 ^ k = m mod (256 ^ k :: nat)"
proof (induction k)
  case (Suc k)
  have split_last: "x mod 256 ^ Suc k = 256 ^ k * (x div 256 ^ k mod 256) + x mod 256 ^ k" for x :: nat
    using mod_mult2_eq [of x "256 ^ k" 256] by (simp add: mult.commute)
  from Suc.IH Suc.prems have "n mod 256 ^ k = m mod 256 ^ k" by simp
  with Suc.prems [of k] show ?case by (simp only: split_last lessI)
qed simp

lemma length_bytes_inject:
  assumes "length_bytes n = length_bytes m" and "n < 2 ^ 64" and "m < 2 ^ 64"
  shows "n = m"
proof -
  have digit: "n div 256 ^ i mod 256 = m div 256 ^ i mod 256" if "i < 8" for i
  proof -
    from that have "i \<in> set [7, 6, 5, 4, 3, 2, 1, 0]" by auto
    with assms(1) have "(char_of (n div 256 ^ i mod 256) :: char) = char_of (m div 256 ^ i mod 256)"
      unfolding length_bytes_def map_eq_conv by blast
    then show ?thesis using of_char_length_byte by metis
  qed
  from digits_determine [of 8 n m, OF digit] have "n mod 256 ^ 8 = m mod 256 ^ 8" by simp
  with assms(2,3) show ?thesis by simp
qed

lemma framed_inject:
  assumes "framed v @ x = framed w @ y" and "length v < 2 ^ 64" and "length w < 2 ^ 64"
  shows "v = w \<and> x = y"
proof -
  have "length (length_bytes k) = 8" for k by (simp add: length_bytes_def)
  with assms(1) have "length_bytes (length v) = length_bytes (length w)" "v @ x = w @ y" by (auto simp: framed_def append_eq_append_conv)
  with length_bytes_inject [OF this(1) assms(2,3)] show ?thesis by simp
qed

lemma frames_inject:
  "length vs = length ws \<Longrightarrow> concat (map framed vs) = concat (map framed ws) \<Longrightarrow> \<forall>v \<in> set vs \<union> set ws. length v < 2 ^ 64 \<Longrightarrow> vs = ws"
proof (induction vs ws rule: list_induct2)
  case (Cons v vs w ws)
  then have "v = w \<and> concat (map framed vs) = concat (map framed ws)" by (intro framed_inject) auto
  with Cons show ?case by auto
qed simp

text \<open>The values that a key stands for: where and what a mutation changes, apart from who claims it.\<close>

lemma key_values_inject:
  "key_values i = key_values j \<longleftrightarrow> ef_Ref i = ef_Ref j \<and> gn_RequestDigest i = gn_RequestDigest j \<and>
     gn_Repository i = gn_Repository j \<and> gn_Worktree i = gn_Worktree j \<and> gn_Branch i = gn_Branch j \<and>
     gn_Operation i = gn_Operation j \<and> gn_BaseRef i = gn_BaseRef j \<and> gn_ExpectedBaseOID i = gn_ExpectedBaseOID j \<and>
     gn_ExpectedHeadOID i = gn_ExpectedHeadOID j"
  by (cases "ef_Ref i"; cases "ef_Ref j") (auto simp: key_values_def)

text \<open>C25: The semantic key of a Git mutation identifies what it changes: as long as the hash does not collide on their preimages, two
  intents have the same key exactly when ticket, request digest, repository, worktree, branch, operation, base and
  expected commits are all the same. No choice of names makes one mutation pass for another.\<close>

theorem semantic_keys_identify_targets:
  assumes "\<forall>v \<in> set (key_values i) \<union> set (key_values j). length v < 2 ^ 64"
    and "sha256_hex (key_preimage i) = sha256_hex (key_preimage j) \<Longrightarrow> key_preimage i = key_preimage j"
  shows "CanonicalGitMutationSemanticKey i = CanonicalGitMutationSemanticKey j \<longleftrightarrow>
    ef_Ref i = ef_Ref j \<and> gn_RequestDigest i = gn_RequestDigest j \<and> gn_Repository i = gn_Repository j \<and>
    gn_Worktree i = gn_Worktree j \<and> gn_Branch i = gn_Branch j \<and> gn_Operation i = gn_Operation j \<and>
    gn_BaseRef i = gn_BaseRef j \<and> gn_ExpectedBaseOID i = gn_ExpectedBaseOID j \<and> gn_ExpectedHeadOID i = gn_ExpectedHeadOID j"
proof -
  have "length (key_values i) = length (key_values j)" by (simp add: key_values_def)
  then have "key_preimage i = key_preimage j \<longleftrightarrow> key_values i = key_values j"
    using frames_inject [OF _ _ assms(1)] unfolding key_preimage_def by metis
  moreover have "CanonicalGitMutationSemanticKey i = CanonicalGitMutationSemanticKey j \<longleftrightarrow> key_preimage i = key_preimage j"
    using assms(2) by (auto simp: CanonicalGitMutationSemanticKey_def)
  ultimately show ?thesis unfolding key_values_inject by blast
qed


definition keyed_intent :: "string \<Rightarrow> u64 \<Rightarrow> GitMutationIntent" where
  "keyed_intent key version = \<lparr>ef_SemanticKey = key, ef_Ref = sample_ref, ef_TicketVersion = version,
     ef_Fence = \<lparr>LeaderEpoch = 2, RunnerEpoch = 3, ClaimEpoch = 0\<rparr>, gn_RequestDigest = ''digest'', gn_Repository = ''/srv/sf'',
     gn_Worktree = ''/srv/tree'', gn_Branch = ''refs/heads/sf-1'', gn_Operation = ''commit'', gn_BaseRef = ''main'',
     gn_ExpectedBaseOID = ''base'', gn_ExpectedHeadOID = ''head''\<rparr>"

theorem semantic_keys_identify_targets_witness:
  "CanonicalGitMutationSemanticKey (keyed_intent ''first'' 5) = CanonicalGitMutationSemanticKey (keyed_intent ''second'' 7)"
proof -
  have "\<forall>v \<in> set (key_values (keyed_intent ''first'' 5)) \<union> set (key_values (keyed_intent ''second'' 7)). length v < 2 ^ 64"
    by (simp add: key_values_def keyed_intent_def sample_ref_def)
  moreover have "key_preimage (keyed_intent ''first'' 5) = key_preimage (keyed_intent ''second'' 7)"
    by (simp add: key_preimage_def key_values_def keyed_intent_def)
  ultimately show ?thesis
    using semantic_keys_identify_targets [of "keyed_intent ''first'' 5" "keyed_intent ''second'' 7"] by (simp add: keyed_intent_def)
qed

section \<open>The first value of a text\<close>

text \<open>
  A text whose scan is complete only at its end is itself the first value of that text, so that the search for the shortest
  valid prefix need not be evaluated.
\<close>

definition scan_complete :: "scanner \<Rightarrow> bool" where
  "scan_complete sc \<longleftrightarrow> fst sc = EndTop \<or> (case scan_step sc (CHR 0x20) of None \<Rightarrow> False | Some sc' \<Rightarrow> fst sc' = EndTop)"

fun scan_inside :: "scanner \<Rightarrow> string \<Rightarrow> bool" where
  "scan_inside sc [] = True"
| "scan_inside sc (c # s) = (\<not> scan_complete sc \<and> (case scan_step sc c of None \<Rightarrow> True | Some sc' \<Rightarrow> scan_inside sc' s))"

lemma json_valid_complete: "json_valid s \<longleftrightarrow> (case scan (BeginValue, []) s of None \<Rightarrow> False | Some sc \<Rightarrow> scan_complete sc)"
  unfolding json_valid_def scan_complete_def ..

lemma scan_inside_prefix: "scan_inside sc s \<Longrightarrow> n < length s \<Longrightarrow> scan sc (take n s) = Some sc' \<Longrightarrow> \<not> scan_complete sc'"
proof (induction s arbitrary: sc n)
  case (Cons c s)
  then show ?case by (cases n) (auto split: option.splits)
qed simp

lemma find_last: "(\<And>x. x \<in> set xs \<Longrightarrow> \<not> p x) \<Longrightarrow> p y \<Longrightarrow> List.find p (xs @ [y]) = Some y"
  by (induction xs) auto

lemma first_json_whole:
  assumes "scan_inside (BeginValue, []) raw" and "json_valid raw"
  shows "first_json raw = json_parse raw"
proof -
  have "\<not> json_valid (take n raw)" if "n < length raw" for n
    using scan_inside_prefix [OF assms(1) that] by (auto simp: json_valid_complete split: option.splits)
  then have "List.find json_valid (map (\<lambda>n. take n raw) [0..<length raw] @ [raw]) = Some raw"
    using assms(2) by (intro find_last) auto
  then show ?thesis by (simp add: first_json_def)
qed


section \<open>Results are read back\<close>

text \<open>The row of a result holds the result: nothing of the claim or of what was observed is lost.\<close>

lemma result_of_stored:
  assumes "cr_UTC r" and "cr_Observed r"
  shows "result_of_row (stored_result c r digests t) = \<lparr>kq_Claim = c, kq_Result = r, kq_StdoutDigest = fst digests,
    kq_StderrDigest = fst (snd digests), kq_LastMessageDigest = fst (snd (snd digests)), kq_ResultDigest = snd (snd (snd digests)), kq_CreatedAt = t\<rparr>"
  using assms by (cases c; cases r) (simp add: result_of_row_def stored_result_def RepositoryCommandClaim.defs split: prod.splits)

lemma stored_key: "kc_SemanticKey (stored_result c r digests t) = kc_SemanticKey c" "kc_ClaimEpoch (stored_result c r digests t) = kc_ClaimEpoch c"
  by (simp_all add: stored_result_def RepositoryCommandClaim.defs split: prod.splits)

lemma admission_facts:
  assumes "validRepositoryCommandResultAdmission c r now = None"
  shows "cr_UTC r" and "cr_Observed r" and "cr_ObservedAt r \<le> now + five_minutes" and "validRepositoryCommandResult c r = None"
    and "validRepositoryCommandClaim c"
  using assms by (auto simp: validRepositoryCommandResultAdmission_def validRepositoryCommandResult_def refuse_def split: option.splits if_splits)

text \<open>The effect was issued for the request that the claim names.\<close>

definition issued_for :: "RepositoryCommandClaim \<Rightarrow> Effect \<Rightarrow> bool" where
  "issued_for c e \<longleftrightarrow> e_Ref e = kc_Ref c \<and> e_Kind e = ''repository_command'' \<and> e_RequestDigest e = kc_RequestDigest c \<and>
     e_TicketVersion e = kc_TicketVersion c \<and> e_LeaderEpoch e = kc_LeaderEpoch c \<and> e_RunnerEpoch e = kc_RunnerEpoch c"

lemma current_command:
  assumes "assertRepositoryCommandCurrent m d c = None"
  shows "c \<in> set (repository_command_intents d)" and "executing_at d (kc_SemanticKey c) (kc_ClaimEpoch c)"
proof -
  from assms have "count_where (\<lambda>r. r = c \<and> executing_at d (kc_SemanticKey c) (kc_ClaimEpoch r)) (repository_command_intents d) = 1"
    by (auto simp: assertRepositoryCommandCurrent_def refuse_def split: option.splits if_splits)
  then have "filter (\<lambda>r. r = c \<and> executing_at d (kc_SemanticKey c) (kc_ClaimEpoch r)) (repository_command_intents d) \<noteq> []"
    by (auto simp: count_where_def)
  then show "c \<in> set (repository_command_intents d)" "executing_at d (kc_SemanticKey c) (kc_ClaimEpoch c)" by (auto simp: filter_empty_conv)
qed

lemma retained_intent:
  assumes "unique_key kc_SemanticKey (repository_command_intents d)" and "c \<in> set (repository_command_intents d)"
  shows "retained_intent_ok d c"
proof -
  have "filter (\<lambda>i. kc_SemanticKey i = kc_SemanticKey c) t = [c]" if "distinct (map kc_SemanticKey t)" "c \<in> set t" for t
    using that by (induction t) (auto simp: filter_empty_conv image_iff)
  from this [OF assms [unfolded unique_key_def]] show ?thesis by (simp add: retained_intent_ok_def)
qed

lemma settled_effect:
  assumes "settle_command c state observed d = Inr d'" and "effect_at d (kc_SemanticKey c) = Some e"
    and "e_State e = EffectExecuting" and "e_ClaimEpoch e = kc_ClaimEpoch c"
  shows "effect_at d' (kc_SemanticKey c) = Some (e\<lparr>e_State := state, e_ObservedIdentity := observed\<rparr>)"
    and "repository_command_results d' = repository_command_results d" and "repository_command_intents d' = repository_command_intents d"
proof -
  let ?p = "\<lambda>r. e_SemanticKey r = kc_SemanticKey c \<and> e_State r = EffectExecuting \<and> e_ClaimEpoch r = kc_ClaimEpoch c"
  let ?f = "\<lambda>r. if ?p r then r\<lparr>e_State := state, e_ObservedIdentity := observed\<rparr> else r"
  from assms(1) have d': "d' = d\<lparr>effects := map ?f (effects d)\<rparr>"
    by (auto simp: settle_command_def change_effect_def update_where_def split: if_splits)
  then show "repository_command_results d' = repository_command_results d" "repository_command_intents d' = repository_command_intents d" by simp_all
  have "e_SemanticKey e = kc_SemanticKey c" using assms(2) by (auto simp: effect_at_def row_at_def find_Some_iff)
  moreover have "effect_at d' (kc_SemanticKey c) = map_option ?f (effect_at d (kc_SemanticKey c))"
    unfolding effect_at_def row_at_def d' by (simp add: find_map_keep [where f = ?f and key = e_SemanticKey])
  ultimately show "effect_at d' (kc_SemanticKey c) = Some (e\<lparr>e_State := state, e_ObservedIdentity := observed\<rparr>)"
    using assms(2-4) by simp
qed

lemma find_new: "List.find p t = None \<Longrightarrow> p x \<Longrightarrow> List.find p (t @ [x]) = Some x"
  by (induction t) (auto split: if_splits)

lemma load_none:
  assumes "loadRepositoryCommandResult d key epoch b = Inr None"
  shows "List.find (\<lambda>r. kc_SemanticKey r = key \<and> kc_ClaimEpoch r = epoch) (repository_command_results d) = None"
  using assms by (auto simp: loadRepositoryCommandResult_def Let_def guarded_def split: option.splits sum.splits if_splits)


text \<open>After the record and the settlement of its effect, the result is found and authenticated by its digests and its relations.\<close>

lemma recorded_is_loaded:
  assumes none: "loadRepositoryCommandResult d (kc_SemanticKey c) (kc_ClaimEpoch c) True = Inr None"
    and digests: "resultDigests c r t = Inr (out, err, msg, full)"
    and current: "assertRepositoryCommandCurrent m d c = None"
    and settled: "settle_command c (if cr_ExitCode r = 0 then EffectConfirmed else EffectFailed) (''repository-command-result:'' @ full)
      (d\<lparr>repository_command_results := insert_row (stored_result c r (out, err, msg, full) t) (repository_command_results d)\<rparr>) = Inr d'"
    and observed: "cr_UTC r" "cr_Observed r" "cr_ObservedAt r \<le> t + five_minutes"
    and intents: "unique_key kc_SemanticKey (repository_command_intents d)"
    and issued: "effect_at d (kc_SemanticKey c) = Some e" "issued_for c e"
  shows "loadRepositoryCommandResult d' (kc_SemanticKey c) (kc_ClaimEpoch c) True =
    Inr (Some (result_of_row (stored_result c r (out, err, msg, full) t)))"
proof -
  let ?row = "stored_result c r (out, err, msg, full) t"
  let ?d = "d\<lparr>repository_command_results := insert_row ?row (repository_command_results d)\<rparr>"
  note q = result_of_stored [OF observed(1,2), of c "(out, err, msg, full)" t]
  have at: "effect_at ?d (kc_SemanticKey c) = Some e" using issued(1) by (simp add: effect_at_def)
  have "executing_at d (kc_SemanticKey c) (kc_ClaimEpoch c)" using current by (rule current_command)
  then have e: "e_State e = EffectExecuting" "e_ClaimEpoch e = kc_ClaimEpoch c" using issued(1) by (simp_all add: executing_at_def)
  note after = settled_effect [OF settled at e]
  have "result_effect_ok d' (result_of_row ?row)"
    using after(1) issued(2) e(2) unfolding result_effect_ok_def q issued_for_def by simp
  moreover have "retained_intent_ok d' c"
    using retained_intent [OF _ current_command(1), of d' m] current intents after(3) retained_intent [OF intents current_command(1) [OF current]]
    by (simp add: retained_intent_ok_def)
  moreover have "List.find (\<lambda>r. kc_SemanticKey r = kc_SemanticKey c \<and> kc_ClaimEpoch r = kc_ClaimEpoch c) (repository_command_results d') = Some ?row"
    using find_new [OF load_none [OF none], of ?row] after(2) by (simp add: stored_key insert_row_def)
  ultimately show ?thesis
    using digests observed(3) by (simp add: loadRepositoryCommandResult_def q guarded_def refuse_def)
qed

text \<open>A result that is loaded and is the same as the one at hand is that one.\<close>

lemma same_result_eq:
  assumes "loadRepositoryCommandResult d key epoch b = Inr (Some q)" and "same_result q c r" and "cr_UTC r" and "cr_Observed r"
  shows "kq_Claim q = c" and "kq_Result q = r"
proof -
  from assms(1) obtain row where "q = result_of_row row"
    by (auto simp: loadRepositoryCommandResult_def Let_def guarded_def split: option.splits sum.splits if_splits)
  then have "cr_UTC (kq_Result q)" "cr_Observed (kq_Result q)" by (simp_all add: result_of_row_def)
  with assms(2-4) show "kq_Claim q = c" "kq_Result q = r" by (auto simp: same_result_def)
qed

lemma loaded_is_same:
  assumes "kq_Claim q = c" and "kq_Result q = r"
    and "resultDigests c r (kq_CreatedAt q) = Inr (kq_StdoutDigest q, kq_StderrDigest q, kq_LastMessageDigest q, kq_ResultDigest q)"
  shows "same_result q c r"
  using assms by (simp add: same_result_def)

lemma loaded_digests:
  assumes "loadRepositoryCommandResult d key epoch b = Inr (Some q)"
  shows "resultDigests (kq_Claim q) (kq_Result q) (kq_CreatedAt q) = Inr (kq_StdoutDigest q, kq_StderrDigest q, kq_LastMessageDigest q, kq_ResultDigest q)"
  using assms by (auto simp: loadRepositoryCommandResult_def Let_def guarded_def refuse_def split: option.splits sum.splits if_splits)

lemma completed_is_loaded:
  assumes complete: "CompleteRepositoryCommand s c r now t = (Inr (), s')" and "now \<le> t"
    and intents: "unique_key kc_SemanticKey (repository_command_intents (st_db s))"
    and issued: "effect_at (st_db s) (kc_SemanticKey c) = Some e" "issued_for c e"
  obtains q where "loadRepositoryCommandResult (st_db s') (kc_SemanticKey c) (kc_ClaimEpoch c) True = Inr (Some q)"
    and "kq_Claim q = c" and "kq_Result q = r" and "validRepositoryCommandClaim c" and "\<not> st_readOnly s'"
proof -
  from complete have admitted: "validRepositoryCommandResultAdmission c r now = None" and "\<not> st_readOnly s"
    by (auto simp: CompleteRepositoryCommand_def plain_write_def store_write_def split: if_splits)
  note r = admission_facts [OF admitted]
  from complete admitted obtain d' where d': "complete_command (st_mutations s) c r t (st_db s) = Inr d'" and s': "s' = s\<lparr>st_db := d'\<rparr>"
    by (auto simp: CompleteRepositoryCommand_def plain_write_def store_write_def and_then_def split: if_splits sum.splits)
  with \<open>\<not> st_readOnly s\<close> have open_store: "\<not> st_readOnly s'" by simp
  from d' show ?thesis
  proof (cases rule: complete_cases)
    case (replay q)
    with s' same_result_eq [OF replay(2,3) r(1,2)] show ?thesis by (intro that [OF _ _ _ r(5) open_store]) auto
  next
    case (recorded digests)
    obtain out err msg full where digest: "digests = (out, err, msg, full)" by (cases digests)
    have "cr_ObservedAt r \<le> t + five_minutes" using r(3) assms(2) by simp
    note recorded_is_loaded [OF recorded(1) recorded(2) [unfolded digest] recorded(3) _ r(1,2) this intents issued, of d']
    with recorded(5) digest s' have "loadRepositoryCommandResult (st_db s') (kc_SemanticKey c) (kc_ClaimEpoch c) True =
      Inr (Some (result_of_row (stored_result c r (out, err, msg, full) t)))" by simp
    with result_of_stored [OF r(1,2)] show ?thesis by (intro that [OF _ _ _ r(5) open_store]) auto
  qed
qed

text \<open>C14: The result of a repository command is read back as it was observed: once the completion of a claim succeeds, the
  authenticated reading at its key and epoch returns exactly that claim and that result, output and times included, and any later
  completion of the claim with the same result, which its admission accepts, succeeds and changes nothing.\<close>

theorem completed_result_reads_back:
  assumes "CompleteRepositoryCommand s c r now t = (Inr (), s')" and "now \<le> t"
    and "unique_key kc_SemanticKey (repository_command_intents (st_db s))"
    and "effect_at (st_db s) (kc_SemanticKey c) = Some e" and "issued_for c e"
  shows "(\<exists>q. LoadRepositoryCommandResult s' (kc_SemanticKey c) (kc_ClaimEpoch c) = Inr q \<and> kq_Claim q = c \<and> kq_Result q = r) \<and>
    (validRepositoryCommandResultAdmission c r later = None \<longrightarrow> CompleteRepositoryCommand s' c r later t' = (Inr (), s'))"
proof -
  from completed_is_loaded [OF assms] obtain q where load: "loadRepositoryCommandResult (st_db s') (kc_SemanticKey c) (kc_ClaimEpoch c) True = Inr (Some q)"
    and q: "kq_Claim q = c" "kq_Result q = r" and c: "validRepositoryCommandClaim c" and "\<not> st_readOnly s'" by blast
  have "kc_SemanticKey c \<noteq> ''''" "kc_ClaimEpoch c \<noteq> 0"
    using c by (auto simp: validRepositoryCommandClaim_def validRepositoryCommandIntent_def command_intent_of_def)
  with load q have "LoadRepositoryCommandResult s' (kc_SemanticKey c) (kc_ClaimEpoch c) = Inr q"
    by (simp add: LoadRepositoryCommandResult_def and_then_def)
  moreover have "same_result q c r" using loaded_is_same [OF q] loaded_digests [OF load] q by simp
  then have "complete_command m c r t' (st_db s') = Inr (st_db s')" for m using load by (simp add: complete_command_def and_then_def)
  ultimately show ?thesis
    using q \<open>\<not> st_readOnly s'\<close> by (auto simp: CompleteRepositoryCommand_def plain_write_def store_write_def and_then_def)
qed


section \<open>A sample completion\<close>

text \<open>A worktree identity in the form of the code's encoder, with every field the check reads.\<close>

definition quoted :: "string \<Rightarrow> string" where
  "quoted v = CHR 0x22 # v @ [CHR 0x22]"

definition sample_identity :: string where
  "sample_identity = ''{'' @ concat (map (\<lambda>(k, v). quoted k @ '':'' @ v @ '','')
     [(''Repository'', quoted ''/r''), (''RepositoryDev'', ''1''), (''RepositoryIno'', ''2''),
      (''Worktree'', quoted ''/w''), (''WorktreeDev'', ''1''), (''WorktreeIno'', ''3''),
      (''GitFile'', quoted ''gitdir: /r/g''), (''GitFileDev'', ''1''), (''GitFileIno'', ''4''),
      (''CommonDir'', quoted ''/r/g''), (''CommonDirDev'', ''1''), (''CommonDirIno'', ''5''),
      (''Origin'', quoted ''o''), (''PushOrigin'', quoted ''o''), (''BaseRef'', quoted ''main''),
      (''BaseHead'', quoted ''b''), (''HeadRef'', quoted ''sf-1''), (''ConfigHash'', quoted ''c'')]) @
     quoted ''HooksHash'' @ '':'' @ quoted ''h'' @ ''}''"

definition sample_members :: "(string \<times> json) list" where
  "sample_members =
     [(''Repository'', JStr ''/r''), (''RepositoryDev'', JNum ''1''), (''RepositoryIno'', JNum ''2''),
      (''Worktree'', JStr ''/w''), (''WorktreeDev'', JNum ''1''), (''WorktreeIno'', JNum ''3''),
      (''GitFile'', JStr ''gitdir: /r/g''), (''GitFileDev'', JNum ''1''), (''GitFileIno'', JNum ''4''),
      (''CommonDir'', JStr ''/r/g''), (''CommonDirDev'', JNum ''1''), (''CommonDirIno'', JNum ''5''),
      (''Origin'', JStr ''o''), (''PushOrigin'', JStr ''o''), (''BaseRef'', JStr ''main''),
      (''BaseHead'', JStr ''b''), (''HeadRef'', JStr ''sf-1''), (''ConfigHash'', JStr ''c''), (''HooksHash'', JStr ''h'')]"

definition sample_git :: GitIdentity where
  "sample_git = \<lparr>gy_Repository = ''/r'', gy_RepositoryDev = 1, gy_RepositoryIno = 2, gy_Worktree = ''/w'', gy_WorktreeDev = 1,
     gy_WorktreeIno = 3, gy_GitFile = ''gitdir: /r/g'', gy_GitFileDev = 1, gy_GitFileIno = 4, gy_CommonDir = ''/r/g'', gy_CommonDirDev = 1,
     gy_CommonDirIno = 5, gy_Origin = ''o'', gy_PushOrigin = ''o'', gy_PushOriginDev = 0, gy_PushOriginIno = 0, gy_BaseRef = ''main'',
     gy_BaseHead = ''b'', gy_HeadRef = ''sf-1'', gy_ConfigHash = ''c'', gy_HooksHash = ''h''\<rparr>"

lemma sample_identity_parsed: "json_parse sample_identity = Some (JObj sample_members)"
  by code_simp

lemma sample_identity_first: "first_json sample_identity = Some (JObj sample_members)"
  unfolding sample_identity_parsed [symmetric] by (rule first_json_whole) code_simp+

text \<open>A range check of a number is decided by arithmetic; unary evaluation would count to the bound.\<close>

lemma decode_digit:
  "decode_uint (JNum ''1'') x = Some 1" "decode_uint (JNum ''2'') x = Some 2" "decode_uint (JNum ''3'') x = Some 3"
  "decode_uint (JNum ''4'') x = Some 4" "decode_uint (JNum ''5'') x = Some 5"
  by (simp_all add: decode_uint_def is_digit_def byte_between_def atoi_def less_char_def less_eq_char_def digit_value_def)

lemma sample_identity_decoded: "decode_git_identity (JObj sample_members) zero_git_identity = Some sample_git"
  by (simp add: decode_git_identity_def decode_struct_def find_field_def at_field_def sample_members_def zero_git_identity_def
      sample_git_def decode_digit decode_string_def)

lemma sample_git_facts:
  "list_all (\<lambda>v. TrimSpace v \<noteq> '''') (identity_names sample_git)" "has_prefix ''gitdir: '' (gy_GitFile sample_git)"
  "IsAbs (TrimSpace (drop 8 (gy_GitFile sample_git)))"
  "Clean (TrimSpace (drop 8 (gy_GitFile sample_git))) = TrimSpace (drop 8 (gy_GitFile sample_git))"
  "list_all (\<lambda>n. n \<noteq> 0) (identity_nodes sample_git)" "\<not> IsAbs (gy_PushOrigin sample_git)"
  by code_simp+

lemma sample_identity_ok: "validRepositoryWorktreeIdentity sample_identity ''/r'' ''/w'' ''sf-1'' ''main'' ''b''"
proof -
  have "gy_Repository sample_git = ''/r'' \<and> gy_Worktree sample_git = ''/w'' \<and> gy_HeadRef sample_git = ''sf-1'' \<and>
    gy_BaseRef sample_git = ''main'' \<and> gy_BaseHead sample_git = ''b''" by (simp add: sample_git_def)
  with sample_git_facts show ?thesis
    unfolding validRepositoryWorktreeIdentity_def by (simp only: sample_identity_first sample_identity_decoded option.case Let_def) simp
qed

definition digest_of :: "char \<Rightarrow> string" where
  "digest_of a = ''sha256:'' @ replicate 64 a"

definition sample_command :: RepositoryCommandClaim where
  "sample_command = \<lparr>kc_Ref = sample_ref, kc_SemanticKey = ''command'', kc_RequestDigest = digest_of (CHR ''a''), kc_TicketVersion = 5,
     kc_LeaderEpoch = 2, kc_RunnerEpoch = 3, kc_ClaimEpoch = 1, kc_Repository = ''/r'', kc_Worktree = ''/w'',
     kc_WorktreeIdentity = sample_identity, kc_Branch = ''sf-1'', kc_BaseRef = ''main'', kc_BaseSHA = ''b'',
     kc_CommandDigest = digest_of (CHR ''b''), kc_SpecDigest = digest_of (CHR ''c''), kc_PolicyDigest = digest_of (CHR ''d''),
     kc_ExecutablePath = ''/go'', kc_ExecutableDigest = digest_of (CHR ''e'')\<rparr>"

lemma sample_digests: "a \<in> {CHR ''a'', CHR ''b'', CHR ''c'', CHR ''d'', CHR ''e''} \<Longrightarrow> validClaimDigest (digest_of a)"
proof -
  have "validClaimDigest (digest_of (CHR ''a''))" "validClaimDigest (digest_of (CHR ''b''))" "validClaimDigest (digest_of (CHR ''c''))"
    "validClaimDigest (digest_of (CHR ''d''))" "validClaimDigest (digest_of (CHR ''e''))" by code_simp+
  then show "a \<in> {CHR ''a'', CHR ''b'', CHR ''c'', CHR ''d'', CHR ''e''} \<Longrightarrow> validClaimDigest (digest_of a)" by blast
qed

lemma sample_names: "TicketRef_Validate sample_ref = None" "validStorePath ''/r''" "validStorePath ''/w''" "validStorePath ''/go''"
  "last (split_at (CHR ''/'') ''/go'') \<noteq> ''node''"
  by code_simp+

lemma sample_command_valid: "validRepositoryCommandClaim sample_command"
  using sample_identity_ok sample_names sample_digests
  by (simp add: validRepositoryCommandClaim_def validRepositoryCommandIntent_def command_intent_of_def sample_command_def
      validRepositoryExecutableDigest_def)

definition sample_outcome :: CommandResult where
  "sample_outcome = \<lparr>cr_ExitCode = 1, cr_Stdout = ''out'', cr_Stderr = ''FAIL'', cr_LastMessage = '''', cr_StdoutTruncated = False,
     cr_StderrTruncated = False, cr_LastMessageTruncated = False, cr_Duration = 5, cr_ObservedAt = 99, cr_UTC = True, cr_Observed = True\<rparr>"

definition command_effect :: Effect where
  "command_effect = \<lparr>e_SemanticKey = ''command'', e_Ref = sample_ref, e_Kind = ''repository_command'', e_State = EffectExecuting,
     e_TicketVersion = 5, e_LeaderEpoch = 2, e_RunnerEpoch = 3, e_ClaimEpoch = 1, e_RequestDigest = digest_of (CHR ''a''),
     e_ObservedIdentity = ''''\<rparr>"

definition observed_store :: Store where
  "observed_store = sample_store\<lparr>st_db := sample_db\<lparr>effects := [command_effect], repository_command_intents := [sample_command],
     repository_command_leases := [(new_command_lease sample_command ''nonce'')\<lparr>w_LaunchState := ''drained''\<rparr>]\<rparr>\<rparr>"

lemma sample_admitted: "validRepositoryCommandResultAdmission sample_command sample_outcome 100 = None"
  using sample_command_valid
  by (simp add: validRepositoryCommandResultAdmission_def validRepositoryCommandResult_def refuse_def sample_outcome_def
      repositoryCommandResultMaxAge_def repositoryCommandOutputLimit_def repositoryCommandLastMessageLimit_def five_minutes_def)

lemma sample_issued: "effect_at (st_db observed_store) ''command'' = Some command_effect" "issued_for sample_command command_effect"
  "unique_key kc_SemanticKey (repository_command_intents (st_db observed_store))" "kc_SemanticKey sample_command = ''command''"
  by (simp_all add: observed_store_def effect_at_def row_at_def command_effect_def issued_for_def sample_command_def unique_key_def)

lemma sample_current: "assertRepositoryCommandCurrent (st_mutations observed_store) (st_db observed_store) sample_command = None"
proof -
  have "assertTicketFence (st_mutations observed_store) (st_db observed_store) sample_ref 5 \<lparr>LeaderEpoch = 2, RunnerEpoch = 3, ClaimEpoch = 0\<rparr> = None"
    by (simp add: observed_store_def sample_store_def sample_db_def assertTicketFence_def sample_gate_def revokedBy_def control_at_def
        currentFence_def ticket_at_def leader_at_def row_at_def sample_ticket_def sample_ref_def State_Terminal_def state_defs)
  moreover have "executing_at (st_db observed_store) ''command'' 1"
    using sample_issued(1) by (simp add: executing_at_def command_effect_def)
  ultimately show ?thesis
    by (simp add: assertRepositoryCommandCurrent_def refuse_def count_where_def observed_store_def sample_command_def)
qed

lemma sample_completes: "\<exists>s'. CompleteRepositoryCommand observed_store sample_command sample_outcome 100 100 = (Inr (), s')"
proof -
  obtain out err msg full where digests: "resultDigests sample_command sample_outcome 100 = Inr (out, err, msg, full)"
    using admission_facts(4) [OF sample_admitted] by (simp add: resultDigests_def guarded_def)
  have "complete_command (st_mutations observed_store) sample_command sample_outcome 100 (st_db observed_store) =
    settle_command sample_command EffectFailed (''repository-command-result:'' @ full)
      ((st_db observed_store)\<lparr>repository_command_results := insert_row (stored_result sample_command sample_outcome (out, err, msg, full) 100)
        (repository_command_results (st_db observed_store))\<rparr>)"
    using digests sample_current
    by (simp add: complete_command_def loadRepositoryCommandResult_def and_then_def guarded_def refuse_def sample_outcome_def
        observed_store_def sample_db_def count_where_def drained_lease_def new_command_lease_def)
  moreover have "settle_command sample_command EffectFailed x (d\<lparr>repository_command_results := rs\<rparr>) \<noteq> Inl y"
    if "effects d = [command_effect]" for x d rs y
    using that by (simp add: settle_command_def change_effect_def count_where_def command_effect_def sample_command_def)
  moreover have "effects (st_db observed_store) = [command_effect]" by (simp add: observed_store_def)
  ultimately obtain d' where "complete_command (st_mutations observed_store) sample_command sample_outcome 100 (st_db observed_store) = Inr d'"
    by (metis old.sum.exhaust)
  then show ?thesis
    using sample_admitted
    by (simp add: CompleteRepositoryCommand_def plain_write_def store_write_def and_then_def observed_store_def sample_store_def)
qed

theorem completed_result_reads_back_witness:
  "\<exists>s' q. CompleteRepositoryCommand observed_store sample_command sample_outcome 100 100 = (Inr (), s') \<and>
     LoadRepositoryCommandResult s' ''command'' (kc_ClaimEpoch sample_command) = Inr q \<and> kq_Claim q = sample_command \<and>
     kq_Result q = sample_outcome \<and> CompleteRepositoryCommand s' sample_command sample_outcome 100 200 = (Inr (), s')"
proof -
  obtain s' where completed: "CompleteRepositoryCommand observed_store sample_command sample_outcome 100 100 = (Inr (), s')"
    using sample_completes by blast
  have "effect_at (st_db observed_store) (kc_SemanticKey sample_command) = Some command_effect" using sample_issued(1,4) by simp
  from completed_result_reads_back [OF completed _ sample_issued(3) this sample_issued(2), of 100 200] completed sample_admitted sample_issued(4)
  show ?thesis by auto
qed

end
