(* ===== verification/Branches.thy ===== *)
theory Branches
  imports Writers
begin

text \<open>
  The branch of a ticket (\<^verbatim>\<open>internal/store/branch.go\<close>): the opaque key of an allocation, the grammar of an allocated branch, and the
  allocation itself, which a ticket gets once.
\<close>

text \<open>The key is the channel, the project and the ticket, separated by a zero byte.\<close>

definition branch_key :: "TicketRef \<Rightarrow> string" where
  "branch_key ref = Channel ref @ [CHR 0x00] @ Project ref @ [CHR 0x00] @ Ticket ref"

definition branchKey :: "string \<Rightarrow> store_error + TicketRef" where
  "branchKey key =
     (case split_at (CHR 0x00) key of
        [channel, project, ticket] \<Rightarrow>
          (let ref = \<lparr>Channel = channel, Project = project, Ticket = ticket\<rparr> in
           case TicketRef_Validate ref of Some e \<Rightarrow> Inl (ErrRef e) | None \<Rightarrow> Inr ref)
      | _ \<Rightarrow> Inl (ErrMessage ''invalid branch authority key''))"

definition branchDigestPart :: "string \<Rightarrow> string" where
  "branchDigestPart v = take 16 (sha256_hex v)"

definition lowerHexBytes :: "string \<Rightarrow> nat \<Rightarrow> bool" where
  "lowerHexBytes v n \<longleftrightarrow> length v = n * 2 \<and> list_all lower_hex v"

definition validAllocatedBranch :: "TicketRef \<Rightarrow> string \<Rightarrow> bool" where
  "validAllocatedBranch ref branch \<longleftrightarrow>
     TicketRef_Validate ref = None \<and>
     (case split_at (CHR ''/'') branch of
        [sf, channel, project, ticket] \<Rightarrow>
          sf = ''sf'' \<and> channel = Channel ref \<and> project = branchDigestPart (Project ref) \<and>
          (case split_at (CHR ''-'') ticket of
             [part, suffix] \<Rightarrow> part = branchDigestPart (Ticket ref) \<and> lowerHexBytes suffix 16
           | _ \<Rightarrow> False)
      | _ \<Rightarrow> False)"

text \<open>
  Reading consumes no randomness. The row found by key or by ticket has to agree in everything; the query takes one row
  of those that match, the model the first.
\<close>

definition LoadBranch :: "Store \<Rightarrow> string \<Rightarrow> store_error + string" where
  "LoadBranch s key =
     (case branchKey key of Inl e \<Rightarrow> Inl e | Inr ref \<Rightarrow>
      case List.find (\<lambda>b. ba_Key b = key \<or> ba_Ref b = ref) (branch_allocations (st_db s)) of
        None \<Rightarrow> Inr ''''
      | Some b \<Rightarrow>
          if ba_Key b \<noteq> key \<or> ba_Ref b \<noteq> ref \<or> \<not> validAllocatedBranch ref (ba_Branch b) then Inl ErrBranchConflict
          else Inr (ba_Branch b))"

text \<open>
  The insertion yields to a row of the same key. A row of the same ticket under another key, and a row of the same channel
  with the same branch, violate a constraint, as does a ticket that does not exist.
\<close>

definition insert_branch :: "string \<Rightarrow> TicketRef \<Rightarrow> string \<Rightarrow> db \<Rightarrow> store_error + db" where
  "insert_branch key ref proposed d =
     (if list_ex (\<lambda>b. ba_Key b = key) (branch_allocations d) then Inr d
      else if ticket_at d ref = None \<or> list_ex (\<lambda>b. ba_Ref b = ref \<or> Channel (ba_Ref b) = Channel ref \<and> ba_Branch b = proposed) (branch_allocations d)
        then Inl (ErrConstraint ''branch_allocations'')
      else Inr (d\<lparr>branch_allocations := insert_row \<lparr>ba_Key = key, ba_Ref = ref, ba_Branch = proposed\<rparr> (branch_allocations d)\<rparr>))"

definition store_branch :: "Gate option \<Rightarrow> string \<Rightarrow> TicketRef \<Rightarrow> string \<Rightarrow> u64 \<Rightarrow> Fence \<Rightarrow> db \<Rightarrow> store_error + (string \<times> db)" where
  "store_branch m key ref proposed version fence d =
     guarded (if version \<noteq> 0 then assertTicketFence m d ref version fence else None)
    (and_then (insert_branch key ref proposed d) (\<lambda>d'.
     case row_at ba_Key (branch_allocations d') key of None \<Rightarrow> Inl ErrNoRows | Some b \<Rightarrow>
       guarded (refuse (ba_Ref b \<noteq> ref \<or> \<not> validAllocatedBranch ref (ba_Branch b)) ErrBranchConflict) (Inr (ba_Branch b, d'))))"

definition loadOrStoreBranch :: "Store \<Rightarrow> string \<Rightarrow> string \<Rightarrow> u64 \<Rightarrow> Fence \<Rightarrow> (store_error + string) \<times> Store" where
  "loadOrStoreBranch s key proposed version fence =
     (case branchKey key of Inl e \<Rightarrow> (Inl e, s) | Inr ref \<Rightarrow>
      if \<not> validAllocatedBranch ref proposed then (Inl (ErrMessage ''invalid proposed sf branch''), s)
      else store_write s (store_branch (st_mutations s) key ref proposed version fence))"

definition LoadOrStoreBranch :: "Store \<Rightarrow> string \<Rightarrow> string \<Rightarrow> (store_error + string) \<times> Store" where
  "LoadOrStoreBranch s key proposed = loadOrStoreBranch s key proposed 0 \<lparr>LeaderEpoch = 0, RunnerEpoch = 0, ClaimEpoch = 0\<rparr>"

definition LoadOrStoreBranchUnderFence :: "Store \<Rightarrow> string \<Rightarrow> string \<Rightarrow> u64 \<Rightarrow> Fence \<Rightarrow> (store_error + string) \<times> Store" where
  "LoadOrStoreBranchUnderFence s key proposed version fence =
     (if version = 0 \<or> LeaderEpoch fence = 0 \<or> RunnerEpoch fence = 0 then (Inl ErrStaleFence, s)
      else loadOrStoreBranch s key proposed version fence)"

end
