(* ===== verification/Spec2Isabelle.thy ===== *)
theory Spec2Isabelle
  imports EngineSafety OrphanSafety ArtifactSafety Candidate ExecutionSafety Authoring Submission
    ProviderRetries WriterEvidence Branches
begin

text \<open>
  A verification library for the durable core of \<^verbatim>\<open>sf\<close>, a software factory that takes tickets
  through planning, verification, building, review and merging by running model providers and Git commands.
  A daemon keeps everything it decides in one SQLite database (\<^verbatim>\<open>internal/store\<close>); an engine
  (\<^verbatim>\<open>internal/engine\<close>) moves tickets along a normative table of transitions
  (\<^verbatim>\<open>internal/statemachine\<close>, \<^verbatim>\<open>docs/plans\<close>); external processes are started under fences, leases and
  an in-memory gate; what providers answer is parsed and stored as canonical evidence
  (\<^verbatim>\<open>internal/phaseartifact\<close>, \<^verbatim>\<open>internal/contracts\<close>). The development models these parts as functions on an
  explicit database and proves what they promise.

  \<^bold>\<open>The model.\<close> The database is the record \<open>db\<close> of StoreCore: one list of rows per table, with the columns that a
  modelled condition reads. \<open>Store\<close> adds the in-memory gate. A transaction is a function
  \<open>db \<Rightarrow> store_error + db\<close> (or with a result beside the database), run by \<open>store_write\<close>, which keeps the old database
  when the transaction fails and refuses while the database may not be written; a read is a function of \<open>db\<close>. A
  statement that updates or deletes is \<open>update_where\<close> or \<open>delete_where\<close>, the count of affected rows is \<open>count_where\<close>,
  and a uniqueness constraint is a test before the insertion. Strings are byte strings, as in Go; \<open>uint64\<close> is
  \<open>64 word\<close>, so an increment at the largest epoch wraps as it does in Go; \<open>int64\<close> and \<open>int\<close> are integers, with
  the wrap-around written out where the code depends on it. Each definition keeps the name of its Go function where the
  name is free; a suffix \<open>_tx\<close> marks the body of its transaction.

  \<^bold>\<open>Language and library.\<close> SF_Prelude holds strings, results, tables and the locale \<open>keyed_table\<close> of tables with a key
  (interpreted by every table that has one). Go_JSON, Go_Unmarshal and JSON_RoundTrip model the printing and
  reading of \<open>encoding/json\<close>; Go_Sha256 the hash; Go_Path, Go_Duration and Go_Time the path, duration and
  time functions used. The parser of JSON takes the length of the text as its fuel and the development proves that this is enough
  for every text that is printed; all other recursions are structural or have a measure.

  \<^bold>\<open>Transitions.\<close> Domain (\<^verbatim>\<open>internal/domain/types.go\<close>), StateMachine (\<^verbatim>\<open>internal/statemachine/spec.go\<close>) and ApprovedPlan,
  which holds the embedded normative table as a constant and what follows from it. GenericTransition and
  ControlTransitions are the two ways the Store moves a ticket, Engine the entry points above them
  (\<^verbatim>\<open>internal/engine/engine.go\<close>, \<^verbatim>\<open>postbuild_repair.go\<close>). EngineSafety proves that every successful move of the
  engine is a row of the normative table performed by the Store, through the locale \<open>ticket_move\<close>, which states what the
  three moving operations of the Store have in common.

  \<^bold>\<open>Fences, effects, gates and control.\<close> StoreCore has the fences (\<open>currentFence\<close>, \<open>assertTicketFence\<close>): an operation names the
  ticket version, the leader epoch and the runner epoch it was authorised by. Effects (\<^verbatim>\<open>internal/store/effects.go\<close>)
  plans, claims, observes and recovers external effects; EffectSafety proves the claim protocol over the locale
  \<open>effect_protocol\<close>. MutationGate (\<^verbatim>\<open>mutation_guard.go\<close>) starts external commands; Leases and LeaseSafety
  (\<^verbatim>\<open>lease.go\<close>) count capacity; RuntimeControl, ControlTransitions and ControlSafety
  (\<^verbatim>\<open>runtime_control.go\<close>, \<^verbatim>\<open>control.go\<close>) stop, seal and rearm a ticket, over the locale \<open>control_protocol\<close>.
  Lifecycle, LifecycleSafety and OrphanSafety have leadership, start and recovery of ownership, with the locales
  \<open>leader_fenced\<close> (interpreted by six operations) and \<open>orphan_settler\<close>; StartAdmission and AdmissionSafety the production start.

  \<^bold>\<open>Configuration, projects and tickets.\<close> Config and ConfigSafety resolve and freeze policies
  (\<^verbatim>\<open>internal/config\<close>); Projects and ProjectSafety keep registrations; TicketSource, Tickets, Authoring and Submission go
  from a ticket's text to its row (\<^verbatim>\<open>internal/ticket\<close>, \<^verbatim>\<open>internal/authoring\<close>, \<^verbatim>\<open>internal/daemon\<close>), with
  their properties in TicketSourceSafety and TicketSafety.

  \<^bold>\<open>Evidence.\<close> PhaseArtifact and ArtifactSafety parse, validate and canonicalise what a provider answers; Candidate binds gate
  evidence to a candidate; ExecutionPolicy and ExecutionSafety decide which commands a repository may run.

  \<^bold>\<open>Provider attempts.\<close> ProviderContract (\<^verbatim>\<open>internal/contracts/provider*.go\<close>) has the canonical input of a run, its digest and
  the signed proofs; ProviderAttempts, ProviderAdmission, ProviderCompletion, ProviderEvidence and ProviderRecovery
  (\<^verbatim>\<open>internal/store/provider*.go\<close>) admit an attempt, record its launch, end it in every way the code has, read its
  evidence back and recover it after a crash. ProviderLifecycle is the abstract specification: the ledger of attempts, phase runs and
  results, the moves an attempt may make, and the invariant \<open>ledger_ok\<close>, proved once over the abstract step. ProviderSteps
  proves that each operation is such a step (a simulation), and ProviderSafety and ProviderRetries state the properties over every sequence
  of operations: the budget, one live attempt, independence of builder and reviewer, finality, complete evidence, no process
  given up without proof, and the end of retries.

  \<^bold>\<open>Writers of a repository.\<close> A provider, a Git mutation and a repository command each hold a repository exclusively. Writers
  has what they share, GitMutations (\<^verbatim>\<open>git_mutation.go\<close>, \<^verbatim>\<open>worktree_creation_absence.go\<close>), RepositoryCommands
  and CommandResults (\<^verbatim>\<open>repository_command.go\<close>, \<^verbatim>\<open>repository_command_result.go\<close>) the operations, Branches
  (\<^verbatim>\<open>branch.go\<close>) the branch a ticket is given. WriterSteps and WriterSafety show for every operation on
  Git leases, commands and provider attempts that it keeps the writers apart, keeps every lease whose process may be alive, and keeps what was
  recorded; each operation is the composition of a few changes of a table. The step relation \<open>writer_step\<close> has one rule per operation,
  with any arguments,
  and the properties hold for every sequence of steps and every value of the parameters. In it \<open>gone\<close> says which processes have ended:
  a step that ends a launch, or that removes its lease on the word of a drainer or an operator, requires that its process has ended.
  WriterEvidence states what the records say: a semantic key stands for one target, and a completed result is read back whole.

  \<^bold>\<open>Assumptions and bounds.\<close> A context is alive: a call cancelled between two statements is a call that was not made, and a lock that is
  cancelled is the error \<open>ErrContextDone\<close>. SQLite returns no I/O error and no \<open>SQLITE_BUSY\<close> beyond what the modelled code
  produces itself. SQLite's integers are signed: the words of the model agree with them below \<open>2 ^ 63\<close>. A stored time is
  kept as a number, and most timestamps, which no modelled condition reads, are left out. When an insertion violates
  several constraints at once the model names one of them.

  \<^bold>\<open>Parameters.\<close> What is outside the modelled files enters as an argument: the clock, random nonces, the verification of
  signatures (\<open>px_verify\<close>), the file system, the drainers of processes, and the evidence boundaries that
  authenticate publication, checks, merges, base refreshes and phase entries (the records \<open>boundaries\<close>, \<open>provider_env\<close>,
  \<open>git_env\<close>). A theorem that needs one of them to behave says so in a hypothesis, and its witness
  instantiates it.

  \<^bold>\<open>Not modelled.\<close> The adapters around command-line tools, sandboxes, sockets, the command line and the Git
  binary are I/O. The evidence chains of publication, merging, amendments and base refreshes
  (\<^verbatim>\<open>publication_evidence.go\<close>, \<^verbatim>\<open>evidence.go\<close>, \<^verbatim>\<open>verification_amendment.go\<close>, \<^verbatim>\<open>protected_base_refresh_*.go\<close>)
  are readers above the modelled operations and stay parameters, as does the search for a reusable provider attempt across
  repaired phase entries; listings that only print rows are left out. The goroutines of the runtime call the modelled operations one
  transaction at a time, which is the order SQLite gives them.
\<close>

end
